(* ===== verification/Prelude.thy ===== *)
theory Prelude
  imports Complex_Main "HOL-Library.AList" "HOL-Library.Multiset"
begin

text \<open>
  Shared vocabulary of the development: the parts of the JavaScript standard library the
  modelled TypeScript uses (strings, arrays, plain objects, sorting), the type of fallible
  stateful operations, and the generic lemmas the component theories rest on.

  Strings are lists of UTF-16 code units below 256 (Latin-1); every literal, address,
  transaction id and key of the program lies in that range.
\<close>

named_theorems js_defs \<open>definitions of the JavaScript library operations\<close>
named_theorems op_simps \<open>equations of the operation combinators\<close>

section \<open>Strings\<close>

text \<open>White space as \<open>String.prototype.trim\<close> strips it, below code unit 256.\<close>

definition js_ws :: "char \<Rightarrow> bool" where
  "js_ws c \<longleftrightarrow> (let n = (of_char c :: nat) in (9 \<le> n \<and> n \<le> 13) \<or> n = 32 \<or> n = 160)"

definition js_trim :: "string \<Rightarrow> string" where
  "js_trim s = rev (dropWhile js_ws (rev (dropWhile js_ws s)))"

definition js_lower_char :: "char \<Rightarrow> char" where
  "js_lower_char c =
     (let n = (of_char c :: nat)
      in if (65 \<le> n \<and> n \<le> 90) \<or> (192 \<le> n \<and> n \<le> 222 \<and> n \<noteq> 215) then char_of (n + 32) else c)"

definition js_lower :: "string \<Rightarrow> string" where
  "js_lower s = map js_lower_char s"

definition starts_with :: "string \<Rightarrow> string \<Rightarrow> bool" where
  "starts_with p s \<longleftrightarrow> take (length p) s = p"

definition is_digit :: "char \<Rightarrow> bool" where
  "is_digit c \<longleftrightarrow> (let n = (of_char c :: nat) in 48 \<le> n \<and> n \<le> 57)"

lemma length_js_lower [simp]: "length (js_lower s) = length s"
  by (simp add: js_lower_def)

lemma js_lower_char_idem [simp]: "js_lower_char (js_lower_char c) = js_lower_char c"
proof -
  let ?n = "of_char c :: nat"
  show ?thesis
  proof (cases "(65 \<le> ?n \<and> ?n \<le> 90) \<or> (192 \<le> ?n \<and> ?n \<le> 222 \<and> ?n \<noteq> 215)")
    case True
    then have "?n + 32 < 256" by auto
    then have "(of_char (char_of (?n + 32) :: char) :: nat) = ?n + 32" by simp
    with True show ?thesis by (auto simp: js_lower_char_def Let_def)
  next
    case False
    then have "js_lower_char c = c" unfolding js_lower_char_def Let_def by (simp only: if_False)
    then show ?thesis by simp
  qed
qed

lemma js_lower_idem [simp]: "js_lower (js_lower s) = js_lower s"
  by (simp add: js_lower_def)

lemma dropWhile_idem: "dropWhile P (dropWhile P xs) = dropWhile P xs"
  by (induction xs) auto

lemma dropWhile_rev_dropWhile:
  "dropWhile P (rev (dropWhile P (rev xs))) = rev (dropWhile P (rev (dropWhile P xs)))"
proof (induction xs)
  case (Cons x xs)
  show ?case
  proof (cases "P x")
    case True
    then show ?thesis
      using Cons.IH by (auto simp: dropWhile_append dest: set_dropWhileD)
  next
    case False
    then show ?thesis by (simp add: dropWhile_append)
  qed
qed simp

lemma js_trim_idem [simp]: "js_trim (js_trim s) = js_trim s"
proof -
  have "dropWhile js_ws (js_trim s) = js_trim s"
    unfolding js_trim_def
    by (metis dropWhile_idem dropWhile_rev_dropWhile)
  then show ?thesis by (simp add: js_trim_def dropWhile_idem)
qed

subsection \<open>Decimal numerals\<close>

definition digit_char :: "nat \<Rightarrow> char" where
  "digit_char d = char_of (48 + d)"

definition digit_val :: "char \<Rightarrow> nat" where
  "digit_val c = of_char c - 48"

fun nat_str :: "nat \<Rightarrow> string" where
  "nat_str n = (if n < 10 then [digit_char n] else nat_str (n div 10) @ [digit_char (n mod 10)])"

declare nat_str.simps [simp del]

text \<open>The template literal of an integral number.\<close>

definition int_str :: "int \<Rightarrow> string" where
  "int_str i = (if i < 0 then CHR ''-'' # nat_str (nat (- i)) else nat_str (nat i))"

text \<open>The integer a run of digits denotes.\<close>

definition digits_value :: "string \<Rightarrow> nat" where
  "digits_value s = foldl (\<lambda>a c. 10 * a + digit_val c) 0 s"

lemma of_char_digit_char: "d < 10 \<Longrightarrow> (of_char (digit_char d) :: nat) = 48 + d"
  by (simp add: digit_char_def)

lemma digit_val_digit_char [simp]: "d < 10 \<Longrightarrow> digit_val (digit_char d) = d"
  by (simp add: digit_val_def of_char_digit_char)

lemma is_digit_digit_char [simp]: "d < 10 \<Longrightarrow> is_digit (digit_char d)"
  by (simp add: is_digit_def of_char_digit_char Let_def)

lemma nat_str_digits: "\<forall>c \<in> set (nat_str n). is_digit c"
proof (induction n rule: nat_str.induct)
  case (1 n)
  then show ?case by (subst nat_str.simps) auto
qed

lemma nat_str_not_Nil [simp]: "nat_str n \<noteq> []"
  by (subst nat_str.simps) simp

lemma digits_value_snoc: "digits_value (s @ [c]) = 10 * digits_value s + digit_val c"
  by (simp add: digits_value_def)

lemma digits_value_nat_str [simp]: "digits_value (nat_str n) = n"
proof (induction n rule: nat_str.induct)
  case (1 n)
  show ?case
  proof (cases "n < 10")
    case True
    then show ?thesis by (subst nat_str.simps) (simp add: digits_value_def)
  next
    case False
    with 1 show ?thesis by (subst nat_str.simps) (simp add: digits_value_snoc)
  qed
qed

lemma nat_str_inject [simp]: "nat_str m = nat_str n \<longleftrightarrow> m = n"
  by (metis digits_value_nat_str)

lemma int_str_digits: "0 \<le> i \<Longrightarrow> list_all is_digit (int_str i)"
  by (auto simp: int_str_def list_all_iff nat_str_digits[rule_format])

lemma int_str_not_Nil [simp]: "int_str i \<noteq> []"
  by (simp add: int_str_def)

lemma digits_value_int_str [simp]: "0 \<le> i \<Longrightarrow> int (digits_value (int_str i)) = i"
  by (simp add: int_str_def)

lemma minus_not_digit: "\<not> is_digit (CHR ''-'')"
  by (simp add: is_digit_def)

lemma int_str_inject [simp]: "int_str i = int_str j \<longleftrightarrow> i = j"
proof -
  have ne: "nat_str m \<noteq> CHR ''-'' # s" for m s
    using nat_str_digits[of m] minus_not_digit by auto
  show ?thesis using ne ne[symmetric] by (auto simp: int_str_def)
qed

lemma colon_notin_int_str: "CHR '':'' \<notin> set (int_str i)"
proof -
  have "\<not> is_digit (CHR '':'')" by (simp add: is_digit_def)
  then show ?thesis using nat_str_digits by (auto simp: int_str_def)
qed

text \<open>
  A key made of a free-form part, a colon and a number determines both parts: the number
  holds no colon, so the last colon is the separator.
\<close>

lemma append_colon_inject:
  assumes "a @ CHR '':'' # xs = b @ CHR '':'' # ys"
    and "CHR '':'' \<notin> set xs" and "CHR '':'' \<notin> set ys"
  shows "a = b \<and> xs = ys"
proof -
  have split: "takeWhile (\<lambda>c. c \<noteq> CHR '':'') (rev (s @ CHR '':'' # zs)) = rev zs"
    if "CHR '':'' \<notin> set zs" for s zs
    using that by (simp add: takeWhile_append)
  have "rev xs = rev ys"
    using split[OF assms(2), of a] split[OF assms(3), of b] assms(1) by simp
  with assms(1) show ?thesis by simp
qed

section \<open>Arrays\<close>

text \<open>\<open>Array.prototype.findIndex\<close>, with \<open>None\<close> for the result -1.\<close>

fun find_index :: "('a \<Rightarrow> bool) \<Rightarrow> 'a list \<Rightarrow> nat option" where
  "find_index P [] = None"
| "find_index P (x # xs) = (if P x then Some 0 else map_option Suc (find_index P xs))"

text \<open>Mutating, through its reference, the first element that satisfies a predicate.\<close>

fun update_first :: "('a \<Rightarrow> bool) \<Rightarrow> ('a \<Rightarrow> 'a) \<Rightarrow> 'a list \<Rightarrow> 'a list" where
  "update_first P f [] = []"
| "update_first P f (x # xs) = (if P x then f x # xs else x # update_first P f xs)"

text \<open>
  \<open>Array.prototype.sort\<close> with a comparator: stable. The model is insertion sort, which
  for a consistent comparator yields the one stable sorted permutation.
\<close>

fun js_insert :: "('a \<Rightarrow> 'a \<Rightarrow> rat) \<Rightarrow> 'a \<Rightarrow> 'a list \<Rightarrow> 'a list" where
  "js_insert cmp x [] = [x]"
| "js_insert cmp x (y # ys) = (if cmp x y \<le> 0 then x # y # ys else y # js_insert cmp x ys)"

fun js_sort :: "('a \<Rightarrow> 'a \<Rightarrow> rat) \<Rightarrow> 'a list \<Rightarrow> 'a list" where
  "js_sort cmp [] = []"
| "js_sort cmp (x # xs) = js_insert cmp x (js_sort cmp xs)"

definition consistent_cmp :: "('a \<Rightarrow> 'a \<Rightarrow> rat) \<Rightarrow> bool" where
  "consistent_cmp cmp \<longleftrightarrow>
     (\<forall>a b. cmp a b \<le> 0 \<or> cmp b a \<le> 0) \<and>
     (\<forall>a b c. cmp a b \<le> 0 \<longrightarrow> cmp b c \<le> 0 \<longrightarrow> cmp a c \<le> 0)"

lemma mset_js_insert [simp]: "mset (js_insert cmp x xs) = add_mset x (mset xs)"
  by (induction xs) auto

lemma mset_js_sort [simp]: "mset (js_sort cmp xs) = mset xs"
  by (induction xs) auto

lemma set_js_sort [simp]: "set (js_sort cmp xs) = set xs"
  by (metis mset_js_sort set_mset_mset)

lemma length_js_sort [simp]: "length (js_sort cmp xs) = length xs"
  by (metis mset_js_sort size_mset)

lemma distinct_map_js_sort [simp]: "distinct (map f (js_sort cmp xs)) = distinct (map f xs)"
  by (metis mset_eq_imp_distinct_iff mset_js_sort mset_map)

lemma sorted_js_insert:
  assumes "consistent_cmp cmp" and "sorted_wrt (\<lambda>a b. cmp a b \<le> 0) xs"
  shows "sorted_wrt (\<lambda>a b. cmp a b \<le> 0) (js_insert cmp x xs)"
  using assms(2)
proof (induction xs)
  case (Cons y ys)
  have mem: "set (js_insert cmp x ys) = insert x (set ys)"
    by (metis mset_js_insert set_mset_add_mset_insert set_mset_mset)
  from Cons show ?case
    using assms(1) unfolding consistent_cmp_def by (auto simp: mem)
qed simp

lemma sorted_js_sort:
  "consistent_cmp cmp \<Longrightarrow> sorted_wrt (\<lambda>a b. cmp a b \<le> 0) (js_sort cmp xs)"
  by (induction xs) (auto intro: sorted_js_insert)

lemma find_Some_iff_mem: "List.find P xs = Some x \<Longrightarrow> x \<in> set xs \<and> P x"
  by (auto simp: find_Some_iff)

lemma find_None_all: "List.find P xs = None \<longleftrightarrow> (\<forall>x \<in> set xs. \<not> P x)"
  by (auto simp: find_None_iff)

lemma map_update_first:
  assumes "\<And>x. g (f x) = g x"
  shows "map g (update_first P f xs) = map g xs"
  by (induction xs) (auto simp: assms)

lemma update_first_notin: "\<forall>x \<in> set xs. \<not> P x \<Longrightarrow> update_first P f xs = xs"
  by (induction xs) auto

lemma set_update_first_subset: "set (update_first P f xs) \<subseteq> set xs \<union> f ` {x \<in> set xs. P x}"
  by (induction xs) auto

lemma mem_map_filter: "y \<in> set (List.map_filter f xs) \<longleftrightarrow> (\<exists>x \<in> set xs. f x = Some y)"
  by (force simp: map_filter_def)

lemma sum_list_filter_split:
  "sum_list (map f xs) =
     sum_list (map f (filter P xs)) + (sum_list (map f (filter (\<lambda>x. \<not> P x) xs)) :: int)"
  by (induction xs) auto

text \<open>
  \<open>localeCompare\<close> depends on the locale of the host and is a parameter of the functions
  that sort by it. On the lowercase hexadecimal transaction ids of the program every locale
  agrees with the order of code units, which is the instance used in examples.
\<close>

fun lex_le :: "nat list \<Rightarrow> nat list \<Rightarrow> bool" where
  "lex_le [] ys = True"
| "lex_le (x # xs) [] = False"
| "lex_le (x # xs) (y # ys) = (x < y \<or> (x = y \<and> lex_le xs ys))"

definition code_unit_compare :: "string \<Rightarrow> string \<Rightarrow> rat" where
  "code_unit_compare a b =
     (if a = b then 0 else if lex_le (map of_char a) (map of_char b) then - 1 else 1)"

lemma lex_le_total: "lex_le xs ys \<or> lex_le ys xs"
  by (induction xs ys rule: lex_le.induct) auto

lemma lex_le_refl: "lex_le xs xs"
  by (induction xs) auto

lemma lex_le_trans: "lex_le xs ys \<Longrightarrow> lex_le ys zs \<Longrightarrow> lex_le xs zs"
proof (induction xs ys arbitrary: zs rule: lex_le.induct)
  case (3 x xs y ys)
  then show ?case by (cases zs) auto
qed auto

lemma code_unit_compare_le: "code_unit_compare a b \<le> 0 \<longleftrightarrow> lex_le (map of_char a) (map of_char b)"
  by (auto simp: code_unit_compare_def lex_le_refl)

lemma code_unit_compare_consistent: "consistent_cmp code_unit_compare"
  unfolding consistent_cmp_def code_unit_compare_le by (meson lex_le_total lex_le_trans)

section \<open>Plain objects used as dictionaries\<close>

text \<open>
  A \<open>Record<string, V>\<close> is an association list in insertion order: assigning an existing
  key keeps its place, a new key goes to the end (\<open>AList.update\<close>), \<open>Object.entries\<close> is
  the list itself.
\<close>

type_synonym 'v js_record = "(string \<times> 'v) list"

definition rec_get :: "'v js_record \<Rightarrow> string \<Rightarrow> 'v option" where
  "rec_get r k = map_of r k"

definition rec_set :: "string \<Rightarrow> 'v \<Rightarrow> 'v js_record \<Rightarrow> 'v js_record" where
  "rec_set k v r = AList.update k v r"

definition rec_delete :: "string \<Rightarrow> 'v js_record \<Rightarrow> 'v js_record" where
  "rec_delete k r = AList.delete k r"

text \<open>The interface of a dictionary and what a client may rely on.\<close>

locale dictionary =
  fixes get :: "'m \<Rightarrow> 'k \<Rightarrow> 'v option"
    and set_at :: "'k \<Rightarrow> 'v \<Rightarrow> 'm \<Rightarrow> 'm"
    and delete_at :: "'k \<Rightarrow> 'm \<Rightarrow> 'm"
  assumes get_set: "get (set_at k v m) j = (if j = k then Some v else get m j)"
    and get_delete: "get (delete_at k m) j = (if j = k then None else get m j)"
begin

lemma get_set_same [simp]: "get (set_at k v m) k = Some v"
  by (simp add: get_set)

lemma get_fold_set_keeps:
  assumes "get m j = Some v" and "\<forall>(k, w) \<in> set kvs. k \<noteq> j \<or> w = v"
  shows "get (fold (\<lambda>(k, w). set_at k w) kvs m) j = Some v"
  using assms
proof (induction kvs arbitrary: m)
  case (Cons kv kvs)
  obtain k w where kv: "kv = (k, w)" by (cases kv)
  with Cons.prems have "get (set_at k w m) j = Some v" by (auto simp: get_set)
  with Cons kv show ?case by auto
qed simp

lemma get_fold_delete:
  "get (fold delete_at ks m) j = (if j \<in> set ks then None else get m j)"
  by (induction ks arbitrary: m) (auto simp: get_delete)

end

interpretation js_rec: dictionary rec_get rec_set rec_delete
  by unfold_locales
    (simp_all add: rec_get_def rec_set_def rec_delete_def update_conv' delete_conv' map_of_eq_None_iff)

section \<open>Errors as values\<close>

definition sum_bind :: "'e + 'a \<Rightarrow> ('a \<Rightarrow> 'e + 'b) \<Rightarrow> 'e + 'b" where
  "sum_bind r f = (case r of Inl e \<Rightarrow> Inl e | Inr x \<Rightarrow> f x)"

lemma sum_bind_simps [simp]: "sum_bind (Inl e) f = Inl e" "sum_bind (Inr x) f = f x"
  by (simp_all add: sum_bind_def)

lemma sum_bind_Inr: "sum_bind r f = Inr y \<longleftrightarrow> (\<exists>x. r = Inr x \<and> f x = Inr y)"
  by (cases r) auto

fun sum_map :: "('a \<Rightarrow> 'e + 'b) \<Rightarrow> 'a list \<Rightarrow> 'e + 'b list" where
  "sum_map f [] = Inr []"
| "sum_map f (x # xs) = sum_bind (f x) (\<lambda>y. sum_bind (sum_map f xs) (\<lambda>ys. Inr (y # ys)))"

lemma sum_map_Inr: "sum_map f xs = Inr ys \<Longrightarrow> y \<in> set ys \<Longrightarrow> \<exists>x \<in> set xs. f x = Inr y"
  by (induction xs arbitrary: ys) (auto simp: sum_bind_Inr)

lemma sum_map_all:
  assumes "\<forall>x \<in> set xs. f x = Inr (g x)"
  shows "sum_map f xs = Inr (map g xs)"
  using assms by (induction xs) auto

section \<open>Operations that may throw\<close>

text \<open>
  An exception leaves the mutations made before it in place, so an operation over a state
  returns the state on both outcomes.
\<close>

type_synonym ('s, 'e, 'a) fallible = "'s \<Rightarrow> ('e + 'a) \<times> 's"

type_synonym ('s, 'a) op = "('s, string, 'a) fallible"

definition op_return :: "'a \<Rightarrow> ('s, 'e, 'a) fallible" where
  "op_return x = (\<lambda>s. (Inr x, s))"

definition op_throw :: "'e \<Rightarrow> ('s, 'e, 'a) fallible" where
  "op_throw e = (\<lambda>s. (Inl e, s))"

definition op_bind :: "('s, 'e, 'a) fallible \<Rightarrow> ('a \<Rightarrow> ('s, 'e, 'b) fallible) \<Rightarrow> ('s, 'e, 'b) fallible" where
  "op_bind m f = (\<lambda>s. case m s of (Inl e, t) \<Rightarrow> (Inl e, t) | (Inr x, t) \<Rightarrow> f x t)"

definition op_modify :: "('s \<Rightarrow> 's) \<Rightarrow> ('s, 'e, unit) fallible" where
  "op_modify f = (\<lambda>s. (Inr (), f s))"

definition op_lift :: "('e + 'a) \<Rightarrow> ('s, 'e, 'a) fallible" where
  "op_lift r = (\<lambda>s. (r, s))"

definition op_assert :: "bool \<Rightarrow> 'e \<Rightarrow> ('s, 'e, unit) fallible" where
  "op_assert b e = (if b then op_return () else op_throw e)"

lemma op_return_apply [op_simps, simp]: "op_return x s = (Inr x, s)"
  by (simp add: op_return_def)

lemma op_throw_apply [op_simps, simp]: "op_throw e s = (Inl e, s)"
  by (simp add: op_throw_def)

lemma op_modify_apply [op_simps, simp]: "op_modify f s = (Inr (), f s)"
  by (simp add: op_modify_def)

lemma op_lift_apply [op_simps, simp]: "op_lift r s = (r, s)"
  by (simp add: op_lift_def)

lemma op_bind_apply [op_simps]:
  "op_bind m f s = (case m s of (Inl e, t) \<Rightarrow> (Inl e, t) | (Inr x, t) \<Rightarrow> f x t)"
  by (simp add: op_bind_def)

lemma op_assert_apply [op_simps, simp]:
  "op_assert b e s = (if b then (Inr (), s) else (Inl e, s))"
  by (simp add: op_assert_def)

text \<open>An invariant of the state that an operation keeps, also when it throws.\<close>

definition op_keeps :: "('s \<Rightarrow> bool) \<Rightarrow> ('s, 'e, 'a) fallible \<Rightarrow> bool" where
  "op_keeps I m \<longleftrightarrow> (\<forall>s. I s \<longrightarrow> I (snd (m s)))"

lemma op_keeps_return [intro]: "op_keeps I (op_return x)"
  by (simp add: op_keeps_def)

lemma op_keeps_throw [intro]: "op_keeps I (op_throw e)"
  by (simp add: op_keeps_def)

lemma op_keeps_lift [intro]: "op_keeps I (op_lift r)"
  by (simp add: op_keeps_def)

lemma op_keeps_assert [intro]: "op_keeps I (op_assert b e)"
  by (simp add: op_keeps_def)

lemma op_keeps_modify: "(\<And>s. I s \<Longrightarrow> I (f s)) \<Longrightarrow> op_keeps I (op_modify f)"
  by (simp add: op_keeps_def)

lemma op_keeps_bind:
  assumes "op_keeps I m" and "\<And>x. op_keeps I (f x)"
  shows "op_keeps I (op_bind m f)"
  using assms unfolding op_keeps_def
  by (fastforce simp: op_bind_apply split: prod.splits sum.splits)

end
