(* ===== verification/Js_Number.thy ===== *)
theory Js_Number
  imports Prelude
begin

text \<open>
  JavaScript numbers. A finite number is a rational; \<open>dbl\<close> rounds a rational to the
  nearest IEEE-754 binary64 value (ties to even) within the normal exponent range, which
  is where every amount, fee rate and identifier of the program lies. The library
  functions \<open>Number.isFinite\<close>, \<open>Math.floor\<close>, \<open>Math.max\<close> and \<open>parseInt\<close>
  are modelled on top of it.
\<close>

section \<open>Rounding to binary64\<close>

definition round_half_even :: "rat \<Rightarrow> int" where
  "round_half_even x =
     (let f = \<lfloor>x\<rfloor>; d = x - of_int f
      in if d < 1 / 2 then f else if 1 / 2 < d then f + 1 else if even f then f else f + 1)"

text \<open>The number of binary digits of a positive integer.\<close>

function bit_len :: "int \<Rightarrow> int" where
  "bit_len n = (if n \<le> 0 then 0 else 1 + bit_len (n div 2))"
  by pat_completeness auto
termination
  by (relation "measure nat") auto

declare bit_len.simps [simp del]

text \<open>The exponent \<open>e\<close> with \<open>2 ^ e \<le> x < 2 ^ (e + 1)\<close>, for positive \<open>x\<close>.\<close>

definition bin_exp :: "rat \<Rightarrow> int" where
  "bin_exp x =
     (let (n, d) = quotient_of x; e = bit_len n - bit_len d
      in if 2 powi e \<le> x then e else e - 1)"

definition dbl :: "rat \<Rightarrow> rat" where
  "dbl x =
     (if x = 0 then 0
      else let u = 2 powi (bin_exp \<bar>x\<bar> - 52) in of_int (round_half_even (x / u)) * u)"

lemma round_half_even_of_int [simp]: "round_half_even (of_int n) = n"
  by (simp add: round_half_even_def)

lemma round_half_even_near: "\<bar>of_int (round_half_even x) - x\<bar> \<le> 1 / 2"
  unfolding round_half_even_def Let_def
  using of_int_floor_le[of x] floor_correct[of x] by (auto simp: abs_le_iff)

lemma bit_len_nonneg: "0 \<le> bit_len n"
proof (induction n rule: bit_len.induct)
  case (1 n)
  then show ?case by (subst bit_len.simps) auto
qed

lemma bit_len_bounds:
  assumes "0 < (n :: int)"
  shows "(2 :: rat) powi (bit_len n - 1) \<le> of_int n \<and> of_int n < (2 :: rat) powi bit_len n"
  using assms
proof (induction n rule: bit_len.induct)
  case (1 n)
  show ?case
  proof (cases "n = 1")
    case True
    then show ?thesis by (simp add: bit_len.simps)
  next
    case False
    let ?h = "n div 2"
    have h: "0 < ?h" using 1(2) False by auto
    have n: "2 * ?h \<le> n" "n + 1 \<le> 2 * (?h + 1)" by auto
    have IH: "(2 :: rat) powi (bit_len ?h - 1) \<le> of_int ?h" "of_int ?h < (2 :: rat) powi bit_len ?h"
      using 1(1) 1(2) h by auto
    have step: "bit_len n = bit_len ?h + 1" using 1(2) by (simp add: bit_len.simps[of n])
    have nonneg: "0 \<le> bit_len ?h" by (rule bit_len_nonneg)
    have "?h + 1 \<le> 2 ^ nat (bit_len ?h)"
    proof -
      have "of_int ?h < (2 :: rat) ^ nat (bit_len ?h)" using IH(2) nonneg by (simp add: power_int_def)
      then have "?h < 2 ^ nat (bit_len ?h)"
        by (metis of_int_less_iff of_int_numeral of_int_power)
      then show ?thesis by simp
    qed
    then have "n < 2 * 2 ^ nat (bit_len ?h)" using n(2) by linarith
    then have "of_int n < (2 :: rat) * 2 ^ nat (bit_len ?h)"
      by (metis of_int_less_iff of_int_mult of_int_numeral of_int_power)
    then have up: "of_int n < (2 :: rat) powi bit_len n"
      using nonneg by (simp add: step power_int_def nat_add_distrib)
    have "(2 :: rat) powi (bit_len n - 1) = 2 * 2 powi (bit_len ?h - 1)"
      using power_int_add_1[of "2 :: rat" "bit_len ?h - 1"] by (simp add: step)
    also have "\<dots> \<le> 2 * of_int ?h" using IH(1) by simp
    also have "\<dots> \<le> of_int n" using n(1) by (metis of_int_le_iff of_int_mult of_int_numeral)
    finally show ?thesis using up by simp
  qed
qed

lemma bin_exp_bounds:
  assumes "0 < x"
  shows "2 powi (bin_exp x) \<le> x" and "x < 2 powi (bin_exp x + 1)"
proof -
  obtain n d where nd: "quotient_of x = (n, d)" by (cases "quotient_of x")
  have d: "0 < d" using quotient_of_denom_pos[OF nd] .
  have x: "x = of_int n / of_int d" using quotient_of_div[OF nd] .
  have n: "0 < n" using assms d x by (simp add: zero_less_divide_iff)
  define a b where "a = bit_len n" and "b = bit_len d"
  have n1: "2 powi (a - 1) \<le> (of_int n :: rat)" and n2: "of_int n < (2 :: rat) powi a"
    using bit_len_bounds[OF n] by (auto simp: a_def)
  have d1: "2 powi (b - 1) \<le> (of_int d :: rat)" and d2: "of_int d < (2 :: rat) powi b"
    using bit_len_bounds[OF d] by (auto simp: b_def)
  let ?e = "a - b"
  have low: "2 powi (?e - 1) \<le> x"
  proof -
    have "(2 :: rat) powi (?e - 1) = 2 powi (a - 1) / 2 powi (b)"
      using power_int_diff[of "2 :: rat" "a - 1" "b"] by (simp add: algebra_simps)
    also have "\<dots> \<le> of_int n / of_int d"
      using n1 d2 d n by (intro frac_le) auto
    finally show ?thesis using x by simp
  qed
  have high: "x < 2 powi (?e + 1)"
  proof -
    have "of_int n / of_int d < (2 :: rat) powi (a) / 2 powi (b - 1)"
      using n2 d1 d n by (intro frac_less) auto
    also have "\<dots> = 2 powi (?e + 1)"
      using power_int_diff[of "2 :: rat" "a" "b - 1"] by (simp add: algebra_simps)
    finally show ?thesis using x by simp
  qed
  have be: "bin_exp x = (if 2 powi ?e \<le> x then ?e else ?e - 1)"
    by (simp add: bin_exp_def nd a_def b_def Let_def)
  show "2 powi (bin_exp x) \<le> x" using low be by auto
  show "x < 2 powi (bin_exp x + 1)" using high be by (auto simp: not_le)
qed

lemma powi_nonpos: "m \<le> 0 \<Longrightarrow> (2 :: rat) powi m = 1 / 2 ^ nat (- m)"
  by (metis minus_minus neg_0_le_iff_le nat_0_le power_int_minus_divide power_int_of_nat)

text \<open>Safe integers are representable.\<close>

lemma dbl_of_int:
  assumes "\<bar>n\<bar> < 2 ^ 53"
  shows "dbl (of_int n) = of_int n"
proof (cases "n = 0")
  case False
  let ?x = "\<bar>of_int n :: rat\<bar>"
  let ?e = "bin_exp ?x"
  have x: "0 < ?x" using False by simp
  have lt: "?x < 2 ^ 53"
    using assms by (metis of_int_abs of_int_less_iff of_int_numeral of_int_power)
  have "(2 :: rat) powi 53 = 2 ^ 53" by (simp only: power_int_numeral)
  then have "(2 :: rat) powi ?e < 2 powi 53"
    using bin_exp_bounds(1)[OF x] lt by (simp only: order_le_less_trans)
  then have "?e < 53" by (meson not_le one_le_numeral power_int_increasing)
  then have u: "(2 :: rat) powi (?e - 52) = 1 / 2 ^ nat (52 - ?e)"
    using powi_nonpos[of "?e - 52"] by (simp only: minus_diff_eq)
  have "(of_int n :: rat) / 2 powi (?e - 52) = of_int (n * 2 ^ nat (52 - ?e))"
    by (simp add: u)
  then have "round_half_even (of_int n / 2 powi (?e - 52)) = n * 2 ^ nat (52 - ?e)"
    by (metis round_half_even_of_int)
  then show ?thesis using False by (simp add: dbl_def Let_def u)
qed (simp add: dbl_def)

section \<open>Numbers\<close>

datatype js_number = Fin rat | PosInf | NegInf | NaN

definition js_is_finite :: "js_number \<Rightarrow> bool" where
  "js_is_finite v = (case v of Fin _ \<Rightarrow> True | _ \<Rightarrow> False)"

text \<open>\<open>Number.MAX_SAFE_INTEGER\<close>.\<close>

definition MAX_SAFE_INTEGER :: int where
  "MAX_SAFE_INTEGER = 2 ^ 53 - 1"

text \<open>
  \<open>parseInt(digits, 10)\<close> of a non-empty run of decimal digits: the double nearest to
  the denoted integer, which is an integer again.
\<close>

definition parse_int_digits :: "string \<Rightarrow> int" where
  "parse_int_digits ds = \<lfloor>dbl (of_nat (digits_value ds))\<rfloor>"

text \<open>
  \<open>parseInt(s, 10)\<close>: leading white space and an optional sign, then the longest run of
  digits; \<open>None\<close> is NaN.
\<close>

definition js_parse_int :: "string \<Rightarrow> int option" where
  "js_parse_int s =
     (let t = dropWhile js_ws s;
          neg = (take 1 t = ''-'');
          body = (if take 1 t = ''-'' \<or> take 1 t = ''+'' then drop 1 t else t);
          ds = takeWhile is_digit body
      in if ds = [] then None
         else Some (if neg then - parse_int_digits ds else parse_int_digits ds))"

lemma parse_int_digits_int_str:
  assumes "0 \<le> i" and "i < 2 ^ 53"
  shows "parse_int_digits (int_str i) = i"
proof -
  have "dbl (of_int i) = of_int i" using assms by (intro dbl_of_int) simp
  moreover have "of_nat (digits_value (int_str i)) = (of_int i :: rat)"
    using digits_value_int_str[OF assms(1)] by (metis of_int_of_nat_eq)
  ultimately show ?thesis by (simp add: parse_int_digits_def)
qed

text \<open>\<open>Number.isInteger\<close>, with the integer.\<close>

definition js_integer :: "js_number \<Rightarrow> int option" where
  "js_integer v = (case v of Fin x \<Rightarrow> if of_int \<lfloor>x\<rfloor> = x then Some \<lfloor>x\<rfloor> else None | _ \<Rightarrow> None)"

lemma js_integer_of_int [simp]: "js_integer (Fin (of_int n)) = Some n"
  by (simp add: js_integer_def)

end
