(* ===== verification/Lab_Api.thy ===== *)
theory Lab_Api
  imports Js_Number
begin

text \<open>
  The data model of the lab (the in-app Bitcoin chain simulator): the interfaces of
  \<open>workers/lab-api.ts\<close>, \<open>workers/lab-block-effects-types.ts\<close> and
  \<open>lib/lab/lab-owner.ts\<close> as records and datatypes, the constants, and the two
  normalisers of the simulation parameters.

  Amounts, weights, heights and identifiers are integers: the worker only adds and
  compares them, which JavaScript does exactly below \<open>2 ^ 53\<close>. An optional or nullable
  field that the code never tells apart from its default (\<open>isChange\<close> absent or false,
  \<open>owner\<close> null or absent) has one representation. The text of a JSON document is
  represented by what \<open>JSON.parse\<close> makes of it.
\<close>

section \<open>Owners and JSON\<close>

datatype labOwner = Wallet (walletIdOf: int) | LabEntity (labEntityIdOf: int)

datatype addressType = SegWit | Taproot

datatype json =
  JNull | JBool bool | JNum int | JStr string | JArr "json list" | JObj "(string \<times> json) list"

text \<open>A stored JSON text: empty, not parseable, or the text of a value.\<close>

datatype json_text = JEmpty | JInvalid | JText json

definition json_field :: "(string \<times> json) list \<Rightarrow> string \<Rightarrow> json option" where
  "json_field fs k = map_of fs k"

section \<open>Chain state\<close>

record labBlock =
  blockHash :: string
  blk_height :: int
  blockData :: string

record labUtxo =
  u_txid :: string
  u_vout :: int
  u_address :: string
  u_amountSats :: int
  u_scriptPubkeyHex :: string

record labAddress =
  la_address :: string
  wif :: string

record labTxInputDetail =
  in_address :: string
  in_amountSats :: int
  in_owner :: "labOwner option"
  in_prevTxid :: "string option"
  in_prevVout :: "int option"
  in_sequence :: "int option"

record labTxOutputDetail =
  out_address :: string
  out_amountSats :: int
  out_isChange :: bool
  out_owner :: "labOwner option"

record outpoint =
  op_txid :: string
  op_vout :: int

record labTxRecord =
  tr_txid :: string
  tr_sender :: "labOwner option"
  tr_receiver :: "labOwner option"

record mempoolEntry =
  signedTxHex :: string
  me_txid :: string
  me_sender :: "labOwner option"
  me_receiver :: "labOwner option"
  me_feeSats :: int
  me_weight :: int
  me_vsize :: int
  me_inputs :: "outpoint list"
  me_inputsDetail :: "labTxInputDetail list"
  me_outputsDetail :: "labTxOutputDetail list"

record labTxDetails =
  td_txid :: string
  td_blockHeight :: int
  td_blockTime :: int
  td_confirmations :: int
  td_inputs :: "labTxInputDetail list"
  td_outputs :: "labTxOutputDetail list"

record labEntityRecord =
  labEntityId :: int
  entityName :: "string option"
  mnemonic :: string
  changesetJson :: string
  externalDescriptor :: string
  internalDescriptor :: string
  ent_network :: string
  ent_addressType :: addressType
  accountId :: int
  createdAt :: string
  updatedAt :: string
  isDead :: bool

record labMineOperationRecord =
  mo_height :: int
  mo_blockHash :: string
  mo_minedBy :: "labOwner option"
  mo_coinbaseTxid :: "string option"
  mo_createdAt :: string
  mo_blockWeightLimitWu :: "int option"
  mo_nonCoinbaseWeightUsedWu :: "int option"

record labTxOperationRecord =
  to_txid :: string
  to_sender :: labOwner
  to_changeAddress :: "string option"
  to_changeVout :: "int option"
  to_payloadJson :: json_text

record labState =
  blocks :: "labBlock list"
  utxos :: "labUtxo list"
  addresses :: "labAddress list"
  entities :: "labEntityRecord list"
  addressToOwner :: "labOwner js_record option"
  mempool :: "mempoolEntry list"
  transactions :: "labTxRecord list"
  txDetails :: "labTxDetails list"
  mineOperations :: "labMineOperationRecord list"
  txOperations :: "labTxOperationRecord list"
  blockWeightLimit :: int
  minerSubsidySats :: int

record labMempoolMetadata =
  mm_sender :: "labOwner option"
  mm_receiver :: "labOwner option"
  mm_feeSats :: int
  mm_inputs :: "outpoint list"
  mm_inputsDetail :: "labTxInputDetail list"
  mm_outputsDetail :: "labTxOutputDetail list"
  mm_hasChange :: bool
  mm_walletChangeAddress :: string

section \<open>Constants\<close>

definition LAB_MIN_BLOCKS_PER_MINE :: int where "LAB_MIN_BLOCKS_PER_MINE = 1"

definition LAB_MAX_BLOCKS_PER_MINE :: int where "LAB_MAX_BLOCKS_PER_MINE = 100"

definition LAB_DEFAULT_BLOCK_WEIGHT_UNITS :: int where "LAB_DEFAULT_BLOCK_WEIGHT_UNITS = 4000"

definition LAB_MIN_BLOCK_WEIGHT_UNITS :: int where "LAB_MIN_BLOCK_WEIGHT_UNITS = 1000"

definition LAB_DEFAULT_MINER_SUBSIDY_SATS :: int where
  "LAB_DEFAULT_MINER_SUBSIDY_SATS = 312500000"

definition LAB_MAX_MINER_SUBSIDY_SATS :: int where
  "LAB_MAX_MINER_SUBSIDY_SATS = MAX_SAFE_INTEGER"

definition EMPTY_LAB_STATE :: labState where
  "EMPTY_LAB_STATE = \<lparr>blocks = [], utxos = [], addresses = [], entities = [],
     addressToOwner = Some [], mempool = [], transactions = [], txDetails = [],
     mineOperations = [], txOperations = [],
     blockWeightLimit = LAB_DEFAULT_BLOCK_WEIGHT_UNITS,
     minerSubsidySats = LAB_DEFAULT_MINER_SUBSIDY_SATS\<rparr>"

section \<open>Normalisers\<close>

fun normalizeBlockWeightLimit :: "js_number \<Rightarrow> int" where
  "normalizeBlockWeightLimit (Fin v) = max LAB_MIN_BLOCK_WEIGHT_UNITS \<lfloor>v\<rfloor>"
| "normalizeBlockWeightLimit _ = LAB_DEFAULT_BLOCK_WEIGHT_UNITS"

fun normalizeMinerSubsidySats :: "js_number \<Rightarrow> int" where
  "normalizeMinerSubsidySats (Fin v) =
     (let floored = \<lfloor>v\<rfloor>
      in if floored < 0 then 0
         else if LAB_MAX_MINER_SUBSIDY_SATS < floored then LAB_MAX_MINER_SUBSIDY_SATS
         else floored)"
| "normalizeMinerSubsidySats _ = LAB_DEFAULT_MINER_SUBSIDY_SATS"

text \<open>Legacy mempool snapshots may omit the previous outpoint of an input detail.\<close>

fun mergeMempoolInputsDetailWithOutpoints ::
  "outpoint list \<Rightarrow> labTxInputDetail list \<Rightarrow> labTxInputDetail list" where
  "mergeMempoolInputsDetailWithOutpoints inputs [] = []"
| "mergeMempoolInputsDetailWithOutpoints [] (d # ds) =
     d # mergeMempoolInputsDetailWithOutpoints [] ds"
| "mergeMempoolInputsDetailWithOutpoints (p # ps) (d # ds) =
     (if in_prevTxid d = None \<or> in_prevVout d = None
      then d\<lparr>in_prevTxid := Some (op_txid p), in_prevVout := Some (op_vout p)\<rparr>
      else d) # mergeMempoolInputsDetailWithOutpoints ps ds"

lemma normalizeBlockWeightLimit_min:
  "LAB_MIN_BLOCK_WEIGHT_UNITS \<le> normalizeBlockWeightLimit v"
  by (cases v) (auto simp: LAB_DEFAULT_BLOCK_WEIGHT_UNITS_def LAB_MIN_BLOCK_WEIGHT_UNITS_def)

lemma normalizeMinerSubsidySats_range:
  "0 \<le> normalizeMinerSubsidySats v \<and> normalizeMinerSubsidySats v \<le> LAB_MAX_MINER_SUBSIDY_SATS"
  by (cases v) (auto simp: Let_def LAB_MAX_MINER_SUBSIDY_SATS_def MAX_SAFE_INTEGER_def
      LAB_DEFAULT_MINER_SUBSIDY_SATS_def)

lemma normalizeBlockWeightLimit_id:
  "LAB_MIN_BLOCK_WEIGHT_UNITS \<le> n \<Longrightarrow> normalizeBlockWeightLimit (Fin (of_int n)) = n"
  by simp

lemma normalizeMinerSubsidySats_id:
  "0 \<le> n \<Longrightarrow> n \<le> LAB_MAX_MINER_SUBSIDY_SATS \<Longrightarrow>
     normalizeMinerSubsidySats (Fin (of_int n)) = n"
  by simp

lemma merge_outpoints_present:
  assumes "\<forall>d \<in> set ds. in_prevTxid d \<noteq> None \<and> in_prevVout d \<noteq> None"
  shows "mergeMempoolInputsDetailWithOutpoints ps ds = ds"
  using assms by (induction ps ds rule: mergeMempoolInputsDetailWithOutpoints.induct) auto

end
