(* ===== verification/Lab_Owner.thy ===== *)
theory Lab_Owner
  imports Lab_Api
begin

text \<open>
  Ownership in the lab: \<open>lib/lab/lab-owner.ts\<close>, \<open>lib/lab/lab-entity-keys.ts\<close> and
  \<open>lib/lab/lab-db-owner.ts\<close>. An owner has three external forms: a sort key (grouping and
  query keys), a pair of database columns and a JSON object. The locale \<open>codec\<close> states
  what an external form has to promise, and each form is an interpretation of it.
\<close>

section \<open>Entity keys\<close>

definition labEntityOwnerKey :: "labEntityRecord \<Rightarrow> string" where
  "labEntityOwnerKey e =
     (case entityName e of Some n \<Rightarrow> n | None \<Rightarrow> ''Anonymous-'' @ int_str (labEntityId e))"

text \<open>Loop of \<open>nextLabEntityId\<close>, with the running maximum as its state.\<close>

fun nextLabEntityId_loop :: "int \<Rightarrow> labEntityRecord list \<Rightarrow> int" where
  "nextLabEntityId_loop m [] = m"
| "nextLabEntityId_loop m (e # es) =
     nextLabEntityId_loop (if labEntityId e > m then labEntityId e else m) es"

definition nextLabEntityId :: "labEntityRecord list \<Rightarrow> int" where
  "nextLabEntityId es = nextLabEntityId_loop 0 es + 1"

definition findLabEntityById :: "labEntityRecord list \<Rightarrow> int \<Rightarrow> labEntityRecord option" where
  "findLabEntityById es i = List.find (\<lambda>e. labEntityId e = i) es"

definition findLabEntityByOwnerKey :: "labEntityRecord list \<Rightarrow> string \<Rightarrow> labEntityRecord option" where
  "findLabEntityByOwnerKey es k = List.find (\<lambda>e. labEntityOwnerKey e = k) es"

definition formatLabEntityMineOptionLabel :: "labEntityRecord \<Rightarrow> bool \<Rightarrow> string" where
  "formatLabEntityMineOptionLabel e showAddressTypeSuffix =
     (if \<not> showAddressTypeSuffix then labEntityOwnerKey e
      else labEntityOwnerKey e @ '' '' @ [CHR 0xB7] @ '' '' @
        (if ent_addressType e = Taproot then ''Taproot'' else ''SegWit''))"

section \<open>Owners\<close>

definition walletLabOwner :: "int \<Rightarrow> labOwner" where
  "walletLabOwner i = Wallet i"

definition labEntityLabOwner :: "int \<Rightarrow> labOwner" where
  "labEntityLabOwner i = LabEntity i"

fun labOwnersEqual :: "labOwner option \<Rightarrow> labOwner option \<Rightarrow> bool" where
  "labOwnersEqual None None = True"
| "labOwnersEqual None (Some b) = False"
| "labOwnersEqual (Some a) None = False"
| "labOwnersEqual (Some (Wallet i)) (Some (Wallet j)) = (i = j)"
| "labOwnersEqual (Some (LabEntity i)) (Some (LabEntity j)) = (i = j)"
| "labOwnersEqual (Some (Wallet i)) (Some (LabEntity j)) = False"
| "labOwnersEqual (Some (LabEntity i)) (Some (Wallet j)) = False"

fun labOwnerSortKey :: "labOwner \<Rightarrow> string" where
  "labOwnerSortKey (Wallet i) = ''wallet:'' @ int_str i"
| "labOwnerSortKey (LabEntity i) = ''lab-entity:'' @ int_str i"

text \<open>The capture group of \<open>/^<prefix>(\d+)$/\<close>.\<close>

definition match_prefix_digits :: "string \<Rightarrow> string \<Rightarrow> string option" where
  "match_prefix_digits p key =
     (let ds = drop (length p) key
      in if starts_with p key \<and> ds \<noteq> [] \<and> list_all is_digit ds then Some ds else None)"

definition labOwnerFromSortKey :: "string \<Rightarrow> labOwner option" where
  "labOwnerFromSortKey key =
     (case match_prefix_digits ''wallet:'' key of
        Some ds \<Rightarrow> Some (Wallet (parse_int_digits ds))
      | None \<Rightarrow>
          (case match_prefix_digits ''lab-entity:'' key of
             Some ds \<Rightarrow> Some (LabEntity (parse_int_digits ds))
           | None \<Rightarrow> None))"

definition labOwnerFromWalletOwnerKey :: "string \<Rightarrow> labOwner option" where
  "labOwnerFromWalletOwnerKey key =
     (if \<not> starts_with ''wallet:'' key then None
      else map_option Wallet (js_parse_int (drop (length ''wallet:'') key)))"

definition or_else :: "'a option \<Rightarrow> 'a option \<Rightarrow> 'a option" where
  "or_else a b = (case a of None \<Rightarrow> b | Some _ \<Rightarrow> a)"

fun normalizeJsonOwnerToLabOwner :: "json option \<Rightarrow> labOwner option" where
  "normalizeJsonOwnerToLabOwner (Some (JObj fs)) =
     (case (json_field fs ''kind'', json_field fs ''walletId'', json_field fs ''labEntityId'') of
        (Some (JStr k), w, e) \<Rightarrow>
          (case (k = ''wallet'', w) of
             (True, Some (JNum i)) \<Rightarrow> Some (Wallet i)
           | _ \<Rightarrow> (case (k = ''lab_entity'', e) of
                     (True, Some (JNum i)) \<Rightarrow> Some (LabEntity i)
                   | _ \<Rightarrow> None))
      | _ \<Rightarrow> None)"
| "normalizeJsonOwnerToLabOwner (Some (JStr s)) =
     (if s = '''' then None else or_else (labOwnerFromSortKey s) (labOwnerFromWalletOwnerKey s))"
| "normalizeJsonOwnerToLabOwner _ = None"

text \<open>What \<open>JSON.stringify\<close> writes for an owner value.\<close>

fun owner_json :: "labOwner \<Rightarrow> json" where
  "owner_json (Wallet i) = JObj [(''kind'', JStr ''wallet''), (''walletId'', JNum i)]"
| "owner_json (LabEntity i) = JObj [(''kind'', JStr ''lab_entity''), (''labEntityId'', JNum i)]"

definition owner_option_json :: "labOwner option \<Rightarrow> json" where
  "owner_option_json o' = (case o' of None \<Rightarrow> JNull | Some x \<Rightarrow> owner_json x)"

fun labOwnerDisplayKey :: "labOwner \<Rightarrow> labEntityRecord list \<Rightarrow> string" where
  "labOwnerDisplayKey (Wallet i) es = ''wallet:'' @ int_str i"
| "labOwnerDisplayKey (LabEntity i) es =
     (case findLabEntityById es i of
        Some e \<Rightarrow> labEntityOwnerKey e
      | None \<Rightarrow> ''Anonymous-'' @ int_str i)"

text \<open>The wallet list is the pairs of wallet id and name the UI passes in.\<close>

fun labOwnerDisplayName :: "labOwner \<Rightarrow> (int \<times> string) list \<Rightarrow> labEntityRecord list \<Rightarrow> string" where
  "labOwnerDisplayName (Wallet i) wallets es =
     (case List.find (\<lambda>w. fst w = i) wallets of
        Some w \<Rightarrow> snd w
      | None \<Rightarrow> ''Wallet #'' @ int_str i)"
| "labOwnerDisplayName (LabEntity i) wallets es =
     (case findLabEntityById es i of
        Some e \<Rightarrow> labEntityOwnerKey e
      | None \<Rightarrow> ''Anonymous-'' @ int_str i)"

fun labEntityRecordForLabOwner :: "labOwner \<Rightarrow> labEntityRecord list \<Rightarrow> labEntityRecord option" where
  "labEntityRecordForLabOwner (Wallet i) es = None"
| "labEntityRecordForLabOwner (LabEntity i) es = findLabEntityById es i"

definition LAB_ENTITY_NAME_MAX_LENGTH :: nat where
  "LAB_ENTITY_NAME_MAX_LENGTH = 128"

definition labEntityMustBeAliveToSend :: "labEntityRecord \<Rightarrow> string + unit" where
  "labEntityMustBeAliveToSend e =
     (if isDead e then Inl ''Dead lab entities cannot send transactions.'' else Inr ())"

definition validateLabEntityRenameName ::
  "string \<Rightarrow> labEntityRecord list \<Rightarrow> int \<Rightarrow> string + unit" where
  "validateLabEntityRenameName trimmed es excludeLabEntityId =
     (if length trimmed = 0 then Inl ''Name must not be empty''
      else if LAB_ENTITY_NAME_MAX_LENGTH < length trimmed
        then Inl (''Name must be at most '' @ nat_str LAB_ENTITY_NAME_MAX_LENGTH @ '' characters'')
      else if starts_with ''Anonymous-'' trimmed
        then Inl ''Name must not start with \"Anonymous-\"''
      else if \<exists>e \<in> set es. labEntityId e \<noteq> excludeLabEntityId \<and> entityName e = Some trimmed
        then Inl ''That name is already taken''
      else Inr ())"

definition isLabEntityOwnerGroupDead :: "string \<Rightarrow> labEntityRecord list \<Rightarrow> bool" where
  "isLabEntityOwnerGroupDead ownerKey es =
     (case labOwnerFromSortKey ownerKey of
        Some (LabEntity i) \<Rightarrow>
          (case findLabEntityById es i of Some e \<Rightarrow> isDead e | None \<Rightarrow> False)
      | _ \<Rightarrow> False)"

section \<open>Database columns\<close>

definition labOwnerFromDbPair :: "int option \<Rightarrow> int option \<Rightarrow> labOwner option" where
  "labOwnerFromDbPair labEntityId' walletId' =
     (case labEntityId' of
        Some i \<Rightarrow> if i > 0 then Some (LabEntity i)
                  else (case walletId' of Some w \<Rightarrow> if w > 0 then Some (Wallet w) else None | None \<Rightarrow> None)
      | None \<Rightarrow> (case walletId' of Some w \<Rightarrow> if w > 0 then Some (Wallet w) else None | None \<Rightarrow> None))"

fun labOwnerToDbPair :: "labOwner option \<Rightarrow> int option \<times> int option" where
  "labOwnerToDbPair None = (None, None)"
| "labOwnerToDbPair (Some (LabEntity i)) = (Some i, None)"
| "labOwnerToDbPair (Some (Wallet w)) = (None, Some w)"

definition labOwnerFromTxRow :: "int option \<Rightarrow> int option \<Rightarrow> string option \<Rightarrow> labOwner option" where
  "labOwnerFromTxRow labEntityId' walletId' legacy =
     (case labOwnerFromDbPair labEntityId' walletId' of
        Some x \<Rightarrow> Some x
      | None \<Rightarrow>
          (case legacy of
             None \<Rightarrow> None
           | Some l \<Rightarrow>
               if l = '''' then None
               else or_else (labOwnerFromSortKey l) (labOwnerFromWalletOwnerKey l)))"

section \<open>External forms of an owner\<close>

locale codec =
  fixes enc :: "'a \<Rightarrow> 'b" and dec :: "'b \<Rightarrow> 'a option" and ok :: "'a \<Rightarrow> bool"
  assumes dec_enc: "ok x \<Longrightarrow> dec (enc x) = Some x"
begin

lemma enc_inject:
  assumes "ok x" and "ok y"
  shows "enc x = enc y \<longleftrightarrow> x = y"
  using dec_enc[OF assms(1)] dec_enc[OF assms(2)] by (metis option.inject)

lemma map_dec_enc: "\<forall>x \<in> set xs. ok x \<Longrightarrow> map dec (map enc xs) = map Some xs"
  by (simp add: dec_enc)

lemma dec_enc_option:
  "(\<forall>x. v = Some x \<longrightarrow> ok x) \<Longrightarrow> Option.bind (map_option enc v) dec = v"
  by (cases v) (simp_all add: dec_enc)

end

fun owner_id :: "labOwner \<Rightarrow> int" where
  "owner_id (Wallet i) = i"
| "owner_id (LabEntity i) = i"

text \<open>Identifiers are non-negative safe integers; database identifiers are positive.\<close>

definition safe_owner :: "labOwner \<Rightarrow> bool" where
  "safe_owner x \<longleftrightarrow> 0 \<le> owner_id x \<and> owner_id x < 2 ^ 53"

definition db_owner :: "labOwner \<Rightarrow> bool" where
  "db_owner x \<longleftrightarrow> 0 < owner_id x"

lemma match_prefix_digits_self:
  "0 \<le> i \<Longrightarrow> match_prefix_digits p (p @ int_str i) = Some (int_str i)"
  by (simp add: match_prefix_digits_def starts_with_def int_str_digits)

lemma sort_key_prefixes_differ: "match_prefix_digits ''wallet:'' (''lab-entity:'' @ s) = None"
  by (simp add: match_prefix_digits_def starts_with_def)

interpretation sort_key: codec labOwnerSortKey labOwnerFromSortKey safe_owner
proof
  fix x
  assume "safe_owner x"
  then show "labOwnerFromSortKey (labOwnerSortKey x) = Some x"
    by (cases x) (simp_all add: safe_owner_def labOwnerFromSortKey_def sort_key_prefixes_differ
        match_prefix_digits_self parse_int_digits_int_str del: append.simps)
qed

interpretation db_pair: codec "\<lambda>x. labOwnerToDbPair (Some x)"
  "\<lambda>p. labOwnerFromDbPair (fst p) (snd p)" db_owner
proof
  fix x
  assume "db_owner x"
  then show "labOwnerFromDbPair (fst (labOwnerToDbPair (Some x))) (snd (labOwnerToDbPair (Some x))) = Some x"
    by (cases x) (simp_all add: db_owner_def labOwnerFromDbPair_def)
qed

interpretation owner_doc: codec owner_json "\<lambda>j. normalizeJsonOwnerToLabOwner (Some j)" "\<lambda>_. True"
proof
  fix x :: labOwner
  show "normalizeJsonOwnerToLabOwner (Some (owner_json x)) = Some x"
    by (cases x) (simp_all add: json_field_def)
qed

section \<open>Lemmas\<close>

lemma labOwnersEqual_iff [simp]: "labOwnersEqual a b \<longleftrightarrow> a = b"
  by (cases "(a, b)" rule: labOwnersEqual.cases) auto

lemma nextLabEntityId_loop_ge:
  "m \<le> nextLabEntityId_loop m es \<and> (\<forall>e \<in> set es. labEntityId e \<le> nextLabEntityId_loop m es)"
proof (induction es arbitrary: m)
  case (Cons e es)
  then show ?case
    using Cons[of "labEntityId e"] Cons[of m] by fastforce
qed simp

lemma nextLabEntityId_gt: "e \<in> set es \<Longrightarrow> labEntityId e < nextLabEntityId es"
  using nextLabEntityId_loop_ge[of 0 es] by (force simp: nextLabEntityId_def)

lemma nextLabEntityId_pos: "0 < nextLabEntityId es"
  using nextLabEntityId_loop_ge[of 0 es] by (simp add: nextLabEntityId_def)

lemma nextLabEntityId_fresh: "nextLabEntityId es \<notin> labEntityId ` set es"
  using nextLabEntityId_gt by fastforce

lemma findLabEntityById_Some:
  "findLabEntityById es i = Some e \<Longrightarrow> e \<in> set es \<and> labEntityId e = i"
  by (auto simp: findLabEntityById_def find_Some_iff)

lemma findLabEntityById_None:
  "findLabEntityById es i = None \<longleftrightarrow> i \<notin> labEntityId ` set es"
  by (auto simp: findLabEntityById_def find_None_iff)

lemma db_pair_option:
  assumes "\<forall>x. v = Some x \<longrightarrow> db_owner x"
  shows "labOwnerFromDbPair (fst (labOwnerToDbPair v)) (snd (labOwnerToDbPair v)) = v"
  using assms db_pair.dec_enc by (cases v) (auto simp: labOwnerFromDbPair_def)

lemma owner_option_json_roundtrip [simp]:
  "normalizeJsonOwnerToLabOwner (Some (owner_option_json v)) = v"
  by (cases v) (simp_all add: owner_option_json_def owner_doc.dec_enc)

lemma validateLabEntityRenameName_ok:
  "validateLabEntityRenameName n es x = Inr () \<longleftrightarrow>
     n \<noteq> [] \<and> length n \<le> 128 \<and> \<not> starts_with ''Anonymous-'' n \<and>
     (\<forall>e \<in> set es. labEntityId e \<noteq> x \<longrightarrow> entityName e \<noteq> Some n)"
  by (auto simp: validateLabEntityRenameName_def LAB_ENTITY_NAME_MAX_LENGTH_def)

end
