(* ===== verification/Lab_Address.thy ===== *)
theory Lab_Address
  imports Lab_Owner
begin

text \<open>
  Addresses and their owners: the address part of \<open>lib/lab/lab-utils.ts\<close> and the lookups
  of \<open>workers/lab-worker-state.ts\<close>. Bech32 addresses compare case-insensitively, so the
  owner map, which is keyed by the text of an address, is searched up to that equivalence.
  The locale \<open>keyed_equiv\<close> states the contract between the equivalence and the canonical
  key used to merge address lists.
\<close>

section \<open>Address equality\<close>

text \<open>\<open>/^(bc|tb|bcrt)1/i\<close>\<close>

definition bech32_like :: "string \<Rightarrow> bool" where
  "bech32_like s \<longleftrightarrow>
     (let l = js_lower s
      in starts_with ''bc1'' l \<or> starts_with ''tb1'' l \<or> starts_with ''bcrt1'' l)"

definition labBitcoinAddressesEqual :: "string \<Rightarrow> string \<Rightarrow> bool" where
  "labBitcoinAddressesEqual firstAddress secondAddress =
     (let trimmedFirst = js_trim firstAddress; trimmedSecond = js_trim secondAddress
      in if trimmedFirst = trimmedSecond then True
         else if bech32_like trimmedFirst \<and> bech32_like trimmedSecond
           then js_lower trimmedFirst = js_lower trimmedSecond
         else False)"

definition canonicalLabAddressKey :: "string \<Rightarrow> string" where
  "canonicalLabAddressKey address =
     (let trimmedAddress = js_trim address
      in if bech32_like trimmedAddress then js_lower trimmedAddress else trimmedAddress)"

locale keyed_equiv =
  fixes eqv :: "'a \<Rightarrow> 'a \<Rightarrow> bool" and key :: "'a \<Rightarrow> 'k"
  assumes eqv_iff_key: "eqv a b \<longleftrightarrow> key a = key b"
begin

lemma eqv_refl [simp]: "eqv a a"
  by (simp add: eqv_iff_key)

lemma eqv_sym: "eqv a b \<Longrightarrow> eqv b a"
  by (simp add: eqv_iff_key)

lemma eqv_trans: "eqv a b \<Longrightarrow> eqv b c \<Longrightarrow> eqv a c"
  by (simp add: eqv_iff_key)

lemma equivp_eqv: "equivp eqv"
  by (rule equivpI) (auto simp: reflp_def symp_def transp_def eqv_iff_key)

text \<open>With one entry per class, the first equivalent entry is the only one.\<close>

lemma find_eqv_unique:
  assumes "distinct (map (key \<circ> fst) kvs)" and "(k, v) \<in> set kvs" and "eqv k a"
  shows "List.find (\<lambda>kv. eqv (fst kv) a) kvs = Some (k, v)"
  using assms
proof (induction kvs)
  case (Cons kv kvs)
  then show ?case by (force simp: eqv_iff_key)
qed simp

end

lemma bech32_like_lower [simp]: "bech32_like (js_lower s) = bech32_like s"
  by (simp add: bech32_like_def)

interpretation addr: keyed_equiv labBitcoinAddressesEqual canonicalLabAddressKey
proof
  fix a b
  let ?a = "js_trim a" and ?b = "js_trim b"
  consider "?a = ?b" | "?a \<noteq> ?b" "bech32_like ?a" "bech32_like ?b" | "?a \<noteq> ?b" "bech32_like ?a \<noteq> bech32_like ?b"
    | "?a \<noteq> ?b" "\<not> bech32_like ?a" "\<not> bech32_like ?b" by blast
  then show "labBitcoinAddressesEqual a b \<longleftrightarrow> canonicalLabAddressKey a = canonicalLabAddressKey b"
  proof cases
    case 3
    then have "canonicalLabAddressKey a \<noteq> canonicalLabAddressKey b"
      unfolding canonicalLabAddressKey_def Let_def by (metis bech32_like_lower)
    with 3 show ?thesis by (auto simp: labBitcoinAddressesEqual_def Let_def)
  qed (auto simp: labBitcoinAddressesEqual_def canonicalLabAddressKey_def Let_def)
qed

section \<open>Owner lookup\<close>

text \<open>
  \<open>lookupLabAddressOwner\<close> and its twin \<open>lookupOwnerForLabAddress\<close> of the worker: the
  exact key first, then the first equal key in insertion order.
\<close>

definition lookupLabAddressOwner :: "string \<Rightarrow> labOwner js_record \<Rightarrow> labOwner option" where
  "lookupLabAddressOwner address addressToOwner' =
     (case rec_get addressToOwner' address of
        Some owner \<Rightarrow> Some owner
      | None \<Rightarrow>
          map_option snd (List.find (\<lambda>entry. labBitcoinAddressesEqual (fst entry) address) addressToOwner'))"

definition lookupOwnerForLabAddress :: "string \<Rightarrow> labOwner js_record \<Rightarrow> labOwner option" where
  "lookupOwnerForLabAddress address addressToOwner' =
     (case rec_get addressToOwner' address of
        Some owner \<Rightarrow> Some owner
      | None \<Rightarrow>
          map_option snd (List.find (\<lambda>entry. labBitcoinAddressesEqual (fst entry) address) addressToOwner'))"

lemma lookupOwner_eq: "lookupOwnerForLabAddress = lookupLabAddressOwner"
  by (intro ext) (simp add: lookupOwnerForLabAddress_def lookupLabAddressOwner_def)

lemma lookup_exact: "rec_get m a = Some w \<Longrightarrow> lookupLabAddressOwner a m = Some w"
  by (simp add: lookupLabAddressOwner_def)

lemma lookup_None_iff:
  "lookupLabAddressOwner a m = None \<longleftrightarrow> (\<forall>k \<in> fst ` set m. \<not> labBitcoinAddressesEqual k a)"
proof (cases "rec_get m a")
  case None
  then show ?thesis by (auto simp: lookupLabAddressOwner_def find_None_iff)
next
  case (Some w)
  then have "a \<in> fst ` set m" by (force simp: rec_get_def dest: map_of_SomeD)
  then have "\<exists>k \<in> fst ` set m. labBitcoinAddressesEqual k a" using addr.eqv_refl by blast
  with Some show ?thesis by (auto simp: lookupLabAddressOwner_def)
qed

lemma lookup_set_same [simp]: "lookupLabAddressOwner a (rec_set a w m) = Some w"
  by (simp add: lookup_exact)

lemma lookup_in_values: "lookupLabAddressOwner a m = Some w \<Longrightarrow> w \<in> snd ` set m"
  by (auto simp: lookupLabAddressOwner_def rec_get_def find_Some_iff split: option.splits
      dest!: map_of_SomeD) (metis image_eqI nth_mem snd_conv)+

lemma lookup_class_unique:
  assumes "distinct (map (canonicalLabAddressKey \<circ> fst) m)" and "(k, w) \<in> set m"
    and "labBitcoinAddressesEqual k a"
  shows "lookupLabAddressOwner a m = Some w"
proof (cases "rec_get m a")
  case None
  then show ?thesis
    using addr.find_eqv_unique[OF assms] by (simp add: lookupLabAddressOwner_def)
next
  case (Some w')
  then have "(a, w') \<in> set m" by (auto simp: rec_get_def dest: map_of_SomeD)
  then have "List.find (\<lambda>e. labBitcoinAddressesEqual (fst e) a) m = Some (a, w')"
    using addr.find_eqv_unique[OF assms(1)] addr.eqv_refl by blast
  with addr.find_eqv_unique[OF assms] Some show ?thesis by (simp add: lookup_exact)
qed

definition sumLabWalletUtxoSats :: "labUtxo list \<Rightarrow> labOwner js_record \<Rightarrow> int \<Rightarrow> int" where
  "sumLabWalletUtxoSats utxos' addressToOwner' activeWalletId =
     (let walletOwner = walletLabOwner activeWalletId
      in sum_list (map u_amountSats
           (filter (\<lambda>utxo. let owner = lookupLabAddressOwner (u_address utxo) addressToOwner'
                           in owner \<noteq> None \<and> labOwnersEqual owner (Some walletOwner)) utxos')))"

definition resolveDeadLabEntityRecipient ::
  "string \<Rightarrow> labOwner js_record \<Rightarrow> labEntityRecord list \<Rightarrow> (string \<times> addressType) option" where
  "resolveDeadLabEntityRecipient recipientAddress addressToOwner' es =
     (case lookupLabAddressOwner recipientAddress addressToOwner' of
        Some (LabEntity i) \<Rightarrow>
          (case findLabEntityById es i of
             None \<Rightarrow> None
           | Some e \<Rightarrow> if \<not> isDead e then None else Some (labEntityOwnerKey e, ent_addressType e))
      | _ \<Rightarrow> None)"

text \<open>
  Owner for the UI: the map first, then the first confirmed output paid to the address
  that carries an owner.
\<close>

definition resolveLabAddressOwnerDisplay ::
  "string \<Rightarrow> labOwner js_record \<Rightarrow> labTxDetails list \<Rightarrow> labEntityRecord list \<Rightarrow> (int \<times> string) list
     \<Rightarrow> string option" where
  "resolveLabAddressOwnerDisplay address addressToOwner' details es wallets =
     (case lookupLabAddressOwner address addressToOwner' of
        Some owner \<Rightarrow> Some (labOwnerDisplayName owner wallets es)
      | None \<Rightarrow>
          (case List.find (\<lambda>out. labBitcoinAddressesEqual (out_address out) address \<and> out_owner out \<noteq> None)
                  (concat (map td_outputs details)) of
             None \<Rightarrow> None
           | Some out \<Rightarrow> map_option (\<lambda>w. labOwnerDisplayName w wallets es) (out_owner out)))"

section \<open>Merging and grouping\<close>

fun merge_addresses_loop :: "labAddress js_record \<Rightarrow> labAddress list \<Rightarrow> labAddress js_record" where
  "merge_addresses_loop byKey [] = byKey"
| "merge_addresses_loop byKey (a # as) =
     (let k = canonicalLabAddressKey (la_address a)
      in merge_addresses_loop (if rec_get byKey k = None then rec_set k a byKey else byKey) as)"

definition utxo_lab_address :: "labUtxo \<Rightarrow> labAddress" where
  "utxo_lab_address u = \<lparr>la_address = u_address u, wif = ''''\<rparr>"

definition mergeAddressesWithUtxos :: "labAddress list \<Rightarrow> labUtxo list \<Rightarrow> labAddress list" where
  "mergeAddressesWithUtxos addresses' utxos' =
     map snd (merge_addresses_loop (merge_addresses_loop [] addresses') (map utxo_lab_address utxos'))"

definition sortLabOwnerKeys :: "(string \<Rightarrow> string \<Rightarrow> rat) \<Rightarrow> string list \<Rightarrow> string list" where
  "sortLabOwnerKeys localeCompare ownerKeys = js_sort localeCompare ownerKeys"

definition assertLabAddressOwnerResolved :: "string \<Rightarrow> labOwner option \<Rightarrow> string \<Rightarrow> string + labOwner" where
  "assertLabAddressOwnerResolved address ownerKey context' =
     (case ownerKey of
        None \<Rightarrow> Inl (''Lab address has no resolved owner'' @
                  (if context' = '''' then '''' else '' ('' @ context' @ '')'') @ '': '' @ address)
      | Some owner \<Rightarrow> Inr owner)"

fun group_rows_loop ::
  "('t \<Rightarrow> string) \<Rightarrow> (string \<Rightarrow> labOwner option) \<Rightarrow> string \<Rightarrow> 't list js_record \<Rightarrow> 't list
     \<Rightarrow> string + 't list js_record" where
  "group_rows_loop getAddress resolveOwner ctx byOwner [] = Inr byOwner"
| "group_rows_loop getAddress resolveOwner ctx byOwner (row # rows) =
     (case assertLabAddressOwnerResolved (getAddress row) (resolveOwner (getAddress row)) ctx of
        Inl e \<Rightarrow> Inl e
      | Inr owner \<Rightarrow>
          (let k = labOwnerSortKey owner;
               rowsForOwner = (case rec_get byOwner k of None \<Rightarrow> [] | Some rs \<Rightarrow> rs)
           in group_rows_loop getAddress resolveOwner ctx (rec_set k (rowsForOwner @ [row]) byOwner) rows))"

definition groupLabRowsByResolvedOwner ::
  "(string \<Rightarrow> string \<Rightarrow> rat) \<Rightarrow> 't list \<Rightarrow> ('t \<Rightarrow> string) \<Rightarrow> (string \<Rightarrow> labOwner option) \<Rightarrow> string
     \<Rightarrow> string + ('t list js_record \<times> string list)" where
  "groupLabRowsByResolvedOwner localeCompare items getAddress resolveOwner assertContext =
     (case group_rows_loop getAddress resolveOwner assertContext [] items of
        Inl e \<Rightarrow> Inl e
      | Inr byOwner \<Rightarrow> Inr (byOwner, sortLabOwnerKeys localeCompare (map fst byOwner)))"

section \<open>Display of owner references\<close>

text \<open>The UI passes an owner or its sort key.\<close>

datatype ownerRef = OwnerRef labOwner | KeyRef string

fun resolveLabOwnerForDisplay :: "ownerRef \<Rightarrow> labOwner option" where
  "resolveLabOwnerForDisplay (OwnerRef x) = Some x"
| "resolveLabOwnerForDisplay (KeyRef k) = labOwnerFromSortKey k"

definition labEntityAddressTypeForOwner :: "ownerRef \<Rightarrow> labEntityRecord list \<Rightarrow> addressType option" where
  "labEntityAddressTypeForOwner owner es =
     (case resolveLabOwnerForDisplay owner of
        Some (LabEntity i) \<Rightarrow> map_option ent_addressType (findLabEntityById es i)
      | _ \<Rightarrow> None)"

fun getOwnerDisplayName :: "ownerRef \<Rightarrow> (int \<times> string) list \<Rightarrow> labEntityRecord list \<Rightarrow> string" where
  "getOwnerDisplayName (OwnerRef x) wallets es = labOwnerDisplayName x wallets es"
| "getOwnerDisplayName (KeyRef k) wallets es =
     (case labOwnerFromSortKey k of Some x \<Rightarrow> labOwnerDisplayName x wallets es | None \<Rightarrow> k)"

definition getOwnerDisplayNameWithAddressTypeAria ::
  "ownerRef \<Rightarrow> (int \<times> string) list \<Rightarrow> labEntityRecord list \<Rightarrow> string" where
  "getOwnerDisplayNameWithAddressTypeAria owner wallets es =
     (let base = getOwnerDisplayName owner wallets es
      in case labEntityAddressTypeForOwner owner es of
           None \<Rightarrow> base
         | Some Taproot \<Rightarrow> base @ '', Taproot''
         | Some SegWit \<Rightarrow> base @ '', SegWit'')"

datatype ownerIcon = WalletIcon | FlaskIcon

fun getLabOwnerIcon :: "labOwner \<Rightarrow> ownerIcon" where
  "getLabOwnerIcon (Wallet _) = WalletIcon"
| "getLabOwnerIcon (LabEntity _) = FlaskIcon"

fun getOwnerIcon :: "ownerRef \<Rightarrow> ownerIcon" where
  "getOwnerIcon (OwnerRef x) = getLabOwnerIcon x"
| "getOwnerIcon (KeyRef k) =
     (case labOwnerFromSortKey k of
        Some x \<Rightarrow> getLabOwnerIcon x
      | None \<Rightarrow> if starts_with ''wallet:'' k then WalletIcon else FlaskIcon)"

section \<open>Lemmas on merging and grouping\<close>

text \<open>Every entry of the merge map is stored under the canonical key of its address.\<close>

definition keyed_by_canonical :: "labAddress js_record \<Rightarrow> bool" where
  "keyed_by_canonical m \<longleftrightarrow>
     distinct (map fst m) \<and> (\<forall>(k, a) \<in> set m. k = canonicalLabAddressKey (la_address a))"

lemma rec_set_fresh: "rec_get m k = None \<Longrightarrow> rec_set k v m = m @ [(k, v)]"
  by (induction m) (auto simp: rec_set_def rec_get_def split: if_splits)

lemma merge_addresses_loop_inv:
  assumes "keyed_by_canonical m"
  shows "keyed_by_canonical (merge_addresses_loop m as)"
  using assms
proof (induction as arbitrary: m)
  case (Cons a as)
  let ?k = "canonicalLabAddressKey (la_address a)"
  show ?case
  proof (cases "rec_get m ?k")
    case None
    then have "keyed_by_canonical (m @ [(?k, a)])"
      using Cons.prems by (auto simp: keyed_by_canonical_def rec_get_def map_of_eq_None_iff)
    with Cons.IH None show ?thesis by (simp add: Let_def rec_set_fresh)
  next
    case (Some b)
    with Cons show ?thesis by (simp add: Let_def)
  qed
qed simp

lemma merge_addresses_loop_extends: "\<exists>new. merge_addresses_loop m as = m @ new \<and> set (map snd new) \<subseteq> set as"
proof (induction as arbitrary: m)
  case (Cons a as)
  let ?k = "canonicalLabAddressKey (la_address a)"
  show ?case
  proof (cases "rec_get m ?k")
    case None
    then show ?thesis using Cons.IH[of "m @ [(?k, a)]"] by (force simp: Let_def rec_set_fresh)
  next
    case (Some b)
    then show ?thesis using Cons.IH[of m] by (force simp: Let_def)
  qed
qed simp

lemma merge_addresses_loop_covers:
  "a \<in> set as \<Longrightarrow> canonicalLabAddressKey (la_address a) \<in> fst ` set (merge_addresses_loop m as)"
proof (induction as arbitrary: m)
  case (Cons b as)
  have mono: "fst ` set m' \<subseteq> fst ` set (merge_addresses_loop m' as)" for m'
    using merge_addresses_loop_extends[of m' as] by auto
  let ?k = "canonicalLabAddressKey (la_address b)"
  let ?m = "if rec_get m ?k = None then rec_set ?k b m else m"
  have "?k \<in> fst ` set ?m"
    by (auto simp: rec_get_def rec_set_fresh map_of_eq_None_iff)
  then have "?k \<in> fst ` set (merge_addresses_loop m (b # as))"
    using mono[of ?m] unfolding merge_addresses_loop.simps Let_def by blast
  moreover have "a \<in> set as \<Longrightarrow> ?case"
    using Cons.IH[of ?m] unfolding merge_addresses_loop.simps Let_def .
  ultimately show ?case using Cons.prems by auto
qed simp

lemma distinct_keys_rec_set: "distinct (map fst m) \<Longrightarrow> distinct (map fst (rec_set k v m))"
  by (simp add: rec_set_def distinct_update)

lemma concat_values_rec_set:
  assumes "distinct (map fst m)"
  shows "mset (concat (map snd (rec_set k ((case rec_get m k of None \<Rightarrow> [] | Some rs \<Rightarrow> rs) @ [x]) m))) =
    add_mset x (mset (concat (map snd m)))"
  using assms
proof (induction m)
  case (Cons kv m)
  then show ?case
    by (cases kv) (auto simp: rec_set_def rec_get_def map_of_eq_None_iff image_iff split: option.splits)
qed (simp add: rec_set_def rec_get_def)

lemma group_rows_loop_mset:
  assumes "group_rows_loop f g ctx m items = Inr m'" and "distinct (map fst m)"
  shows "mset (concat (map snd m')) = mset (concat (map snd m)) + mset items \<and> distinct (map fst m')"
  using assms
proof (induction items arbitrary: m)
  case (Cons x xs)
  then show ?case
    by (auto simp: Let_def concat_values_rec_set distinct_keys_rec_set split: sum.splits)
qed simp

end
