(* ===== verification/Lab_Chain.thy ===== *)
theory Lab_Chain
  imports Lab_Address
begin

text \<open>
  Transactions of the lab chain as the UI and the worker read them: the coinbase test of
  \<open>lib/lab/lab-operations.ts\<close>, fees, net movement and sizes (\<open>lab-tx-fee.ts\<close>,
  \<open>lab-tx-net-moved.ts\<close>, \<open>lab-tx-weight.ts\<close>, \<open>lab-mempool-mine-stats.ts\<close>), the
  wallet history of \<open>lib/lab/lab-utils.ts\<close> and the outpoint keys and coin-control
  selections of \<open>lib/wallet/manual-utxo-selection.ts\<close>.
\<close>

section \<open>Coinbase\<close>

definition LAB_COINBASE_PREV_TXID_HEX :: string where
  "LAB_COINBASE_PREV_TXID_HEX = replicate 64 (CHR ''0'')"

definition LAB_COINBASE_PREV_VOUT :: int where
  "LAB_COINBASE_PREV_VOUT = 4294967295"

definition LAB_COINBASE_SEQUENCE :: int where
  "LAB_COINBASE_SEQUENCE = 4294967295"

definition isLabCoinbasePrevout :: "string \<Rightarrow> int \<Rightarrow> bool" where
  "isLabCoinbasePrevout prevTxid prevVout =
     (let lowered = js_lower prevTxid;
          normalized = (if starts_with ''0x'' lowered then drop 2 lowered else lowered);
          zero = (normalized = LAB_COINBASE_PREV_TXID_HEX \<or> normalized = '''' \<or>
                  (normalized \<noteq> [] \<and> list_all (\<lambda>c. c = CHR ''0'') normalized))
      in zero \<and> prevVout = LAB_COINBASE_PREV_VOUT)"

text \<open>The previous outpoints of a transaction, as \<open>resolvePrevout\<close> reads them.\<close>

fun isCoinbase :: "(string option \<times> int option) list \<Rightarrow> bool" where
  "isCoinbase [(Some txid, Some vout)] = isLabCoinbasePrevout txid vout"
| "isCoinbase _ = False"

definition details_prevouts :: "labTxDetails \<Rightarrow> (string option \<times> int option) list" where
  "details_prevouts d = map (\<lambda>i. (in_prevTxid i, in_prevVout i)) (td_inputs d)"

section \<open>Fees, amounts and sizes\<close>

definition sum_inputs :: "labTxInputDetail list \<Rightarrow> int" where
  "sum_inputs is = sum_list (map in_amountSats is)"

definition sum_outputs :: "labTxOutputDetail list \<Rightarrow> int" where
  "sum_outputs os = sum_list (map out_amountSats os)"

definition feeSatsFromTxDetails :: "labTxDetails \<Rightarrow> int" where
  "feeSatsFromTxDetails tx =
     (if isCoinbase (details_prevouts tx) then 0
      else max (sum_inputs (td_inputs tx) - sum_outputs (td_outputs tx)) 0)"

definition netMovedSatsForLabTx :: "labTxDetails \<Rightarrow> int" where
  "netMovedSatsForLabTx tx =
     (if isCoinbase (details_prevouts tx) then sum_outputs (td_outputs tx)
      else sum_outputs (filter (\<lambda>out. \<not> out_isChange out) (td_outputs tx)))"

definition netMovedSatsFromMempoolEntry :: "mempoolEntry \<Rightarrow> int" where
  "netMovedSatsFromMempoolEntry entry =
     sum_outputs (filter (\<lambda>out. \<not> out_isChange out) (me_outputsDetail entry))"

definition netMovedSatsForBlock :: "labTxDetails list \<Rightarrow> int \<Rightarrow> int" where
  "netMovedSatsForBlock details blockHeight =
     sum_list (map netMovedSatsForLabTx
       (filter (\<lambda>tx. \<not> isCoinbase (details_prevouts tx))
         (filter (\<lambda>tx. td_blockHeight tx = blockHeight) details)))"

definition labVsizeFromWeight :: "int \<Rightarrow> int" where
  "labVsizeFromWeight weightWu = (if weightWu \<le> 0 then 0 else \<lceil>of_int weightWu / (4 :: rat)\<rceil>)"

definition discardedMempoolConflictTxCount :: "int \<Rightarrow> int \<Rightarrow> int \<Rightarrow> int" where
  "discardedMempoolConflictTxCount mempoolSizeBefore mempoolSizeAfterFirstBlock includedMempoolTxCount =
     max 0 (mempoolSizeBefore - mempoolSizeAfterFirstBlock - includedMempoolTxCount)"

lemma labVsizeFromWeight_bounds:
  "0 < w \<Longrightarrow> w \<le> 4 * labVsizeFromWeight w \<and> 4 * labVsizeFromWeight w < w + 4"
  unfolding labVsizeFromWeight_def by (simp add: ceiling_divide_eq_div) linarith

lemma sum_outputs_change_split:
  "sum_outputs os = sum_outputs (filter (\<lambda>out. \<not> out_isChange out) os) + sum_outputs (filter out_isChange os)"
  unfolding sum_outputs_def by (induction os) auto

section \<open>Outpoint keys and coin control\<close>

text \<open>\<open>utxoOutpointKey\<close>, and the same template literal in the worker.\<close>

definition utxoOutpointKey :: "string \<Rightarrow> int \<Rightarrow> string" where
  "utxoOutpointKey txid vout = txid @ '':'' @ int_str vout"

lemma utxoOutpointKey_inject [simp]:
  "utxoOutpointKey t v = utxoOutpointKey t' v' \<longleftrightarrow> t = t' \<and> v = v'"
  using append_colon_inject[of t "int_str v" t' "int_str v'"] colon_notin_int_str
  by (auto simp: utxoOutpointKey_def)

text \<open>
  The selection helpers are generic in the row type; \<open>pt\<close> reads the transaction id and
  the output index of a row.
\<close>

definition row_key :: "('u \<Rightarrow> string \<times> int) \<Rightarrow> 'u \<Rightarrow> string" where
  "row_key pt u = utxoOutpointKey (fst (pt u)) (snd (pt u))"

definition isManualUtxoSelectionSufficient :: "int \<Rightarrow> int \<Rightarrow> int option \<Rightarrow> bool" where
  "isManualUtxoSelectionSufficient selectedSumSats amountSats feeSats =
     (case feeSats of None \<Rightarrow> False | Some fee \<Rightarrow> amountSats + fee \<le> selectedSumSats)"

definition filterUtxosBySelectedOutpoints ::
  "('u \<Rightarrow> string \<times> int) \<Rightarrow> 'u list \<Rightarrow> outpoint list option \<Rightarrow> 'u list" where
  "filterUtxosBySelectedOutpoints pt us selectedOutpoints =
     (case selectedOutpoints of
        None \<Rightarrow> us
      | Some ops \<Rightarrow>
          (let selectedKeys = map (\<lambda>p. utxoOutpointKey (op_txid p) (op_vout p)) ops
           in filter (\<lambda>u. row_key pt u \<in> set selectedKeys) us))"

definition splitUtxosBySelection ::
  "('u \<Rightarrow> string \<times> int) \<Rightarrow> 'u list \<Rightarrow> 'u list \<Rightarrow> 'u list \<times> 'u list" where
  "splitUtxosBySelection pt allUtxos selectedUtxos =
     (let selectedKeys = map (row_key pt) selectedUtxos
      in (selectedUtxos, filter (\<lambda>u. row_key pt u \<notin> set selectedKeys) allUtxos))"

definition moveUtxoToSelected ::
  "('u \<Rightarrow> string \<times> int) \<Rightarrow> 'u list \<Rightarrow> 'u list \<Rightarrow> 'u \<Rightarrow> 'u list \<times> 'u list" where
  "moveUtxoToSelected pt selectedUtxos availableUtxos utxo =
     (selectedUtxos @ [utxo], filter (\<lambda>c. row_key pt c \<noteq> row_key pt utxo) availableUtxos)"

definition moveUtxoToAvailable ::
  "('u \<Rightarrow> string \<times> int) \<Rightarrow> 'u list \<Rightarrow> 'u list \<Rightarrow> 'u \<Rightarrow> 'u list \<times> 'u list" where
  "moveUtxoToAvailable pt selectedUtxos availableUtxos utxo =
     (filter (\<lambda>c. row_key pt c \<noteq> row_key pt utxo) selectedUtxos, availableUtxos @ [utxo])"

lemma row_key_inject [simp]: "row_key pt a = row_key pt b \<longleftrightarrow> pt a = pt b"
  by (simp add: row_key_def prod_eq_iff)

text \<open>Removing the one row with a given key.\<close>

lemma filter_key_mset:
  assumes "distinct (map pt us)" and "u \<in> set us"
  shows "mset us = add_mset u (mset (filter (\<lambda>c. row_key pt c \<noteq> row_key pt u) us))"
  using assms
proof (induction us)
  case (Cons x xs)
  show ?case
  proof (cases "x = u")
    case True
    then have "filter (\<lambda>c. row_key pt c \<noteq> row_key pt u) xs = xs"
      using Cons.prems by (intro filter_True) (auto simp: image_iff)
    with True show ?thesis by simp
  next
    case False
    with Cons.prems have "pt x \<noteq> pt u" by (auto simp: image_iff)
    with Cons False show ?thesis by simp
  qed
qed simp

section \<open>Wallet history\<close>

record transactionDetails =
  tx_txid :: string
  sentSats :: int
  receivedSats :: int
  tx_feeSats :: "int option"
  confirmationBlockHeight :: "int option"
  confirmationTime :: "int option"
  isConfirmed :: bool
  isLabTx :: bool
  isCpfpFeeBump :: "bool option"

definition non_change_sum :: "labTxOutputDetail list \<Rightarrow> int" where
  "non_change_sum os = sum_outputs (filter (\<lambda>out. \<not> out_isChange out) os)"

definition owned_sum :: "labOwner \<Rightarrow> labTxOutputDetail list \<Rightarrow> int" where
  "owned_sum w os = sum_outputs (filter (\<lambda>out. labOwnersEqual (out_owner out) (Some w)) os)"

text \<open>The two loops of \<open>labTransactionsForWallet\<close>: one row per mempool entry and one per
  confirmed transaction that involves the wallet.\<close>

definition mempool_history_row :: "labOwner \<Rightarrow> mempoolEntry \<Rightarrow> transactionDetails option" where
  "mempool_history_row walletOwner entry =
     (let isSender = labOwnersEqual (me_sender entry) (Some walletOwner);
          isReceiver = labOwnersEqual (me_receiver entry) (Some walletOwner)
      in if \<not> isSender \<and> \<not> isReceiver then None
         else Some \<lparr>tx_txid = me_txid entry,
           sentSats = (if isSender then non_change_sum (me_outputsDetail entry) else 0),
           receivedSats = (if isReceiver then owned_sum walletOwner (me_outputsDetail entry) else 0),
           tx_feeSats = Some (me_feeSats entry),
           confirmationBlockHeight = None, confirmationTime = None,
           isConfirmed = False, isLabTx = True, isCpfpFeeBump = None\<rparr>)"

definition confirmed_history_row ::
  "labOwner \<Rightarrow> (string \<rightharpoonup> labTxDetails) \<Rightarrow> labTxRecord \<Rightarrow> transactionDetails option" where
  "confirmed_history_row walletOwner detailsByTxid summary =
     (let isSender = labOwnersEqual (tr_sender summary) (Some walletOwner);
          isReceiver = labOwnersEqual (tr_receiver summary) (Some walletOwner)
      in if \<not> isSender \<and> \<not> isReceiver then None
         else case detailsByTxid (tr_txid summary) of
           None \<Rightarrow> None
         | Some details \<Rightarrow>
             if isCoinbase (details_prevouts details)
             then Some \<lparr>tx_txid = tr_txid summary, sentSats = 0,
               receivedSats = owned_sum walletOwner (td_outputs details), tx_feeSats = Some 0,
               confirmationBlockHeight = Some (td_blockHeight details),
               confirmationTime = Some (td_blockTime details),
               isConfirmed = True, isLabTx = True, isCpfpFeeBump = None\<rparr>
             else Some \<lparr>tx_txid = tr_txid summary,
               sentSats = (if isSender then non_change_sum (td_outputs details) else 0),
               receivedSats = (if isReceiver then owned_sum walletOwner (td_outputs details) else 0),
               tx_feeSats = Some (sum_inputs (td_inputs details) - sum_outputs (td_outputs details)),
               confirmationBlockHeight = Some (td_blockHeight details),
               confirmationTime = Some (td_blockTime details),
               isConfirmed = True, isLabTx = True, isCpfpFeeBump = None\<rparr>)"

definition history_cmp ::
  "(string \<Rightarrow> string \<Rightarrow> rat) \<Rightarrow> transactionDetails \<Rightarrow> transactionDetails \<Rightarrow> rat" where
  "history_cmp localeCompare txA txB =
     (if \<not> isConfirmed txA \<and> isConfirmed txB then - 1
      else if isConfirmed txA \<and> \<not> isConfirmed txB then 1
      else if isConfirmed txA \<and> isConfirmed txB then
        (let timeA = case_option 0 id (confirmationTime txA);
             timeB = case_option 0 id (confirmationTime txB)
         in if timeB \<noteq> timeA then of_int (timeB - timeA)
            else localeCompare (tx_txid txB) (tx_txid txA))
      else localeCompare (tx_txid txA) (tx_txid txB))"

text \<open>\<open>new Map(pairs)\<close>: a later pair with the same key wins.\<close>

definition details_by_txid :: "labTxDetails list \<Rightarrow> (string \<rightharpoonup> labTxDetails)" where
  "details_by_txid ds = map_of (rev (map (\<lambda>d. (td_txid d, d)) ds))"

definition labTransactionsForWallet ::
  "(string \<Rightarrow> string \<Rightarrow> rat) \<Rightarrow> labState \<Rightarrow> int \<Rightarrow> transactionDetails list" where
  "labTransactionsForWallet localeCompare s activeWalletId =
     (let walletOwner = walletLabOwner activeWalletId
      in js_sort (history_cmp localeCompare)
           (List.map_filter (mempool_history_row walletOwner) (mempool s) @
            List.map_filter (confirmed_history_row walletOwner (details_by_txid (txDetails s)))
              (transactions s)))"

lemma history_cmp_consistent:
  assumes "consistent_cmp lc"
  shows "consistent_cmp (history_cmp lc)"
proof -
  have tot: "lc a b \<le> 0 \<or> lc b a \<le> 0" for a b
    using assms by (auto simp: consistent_cmp_def)
  have tr: "lc a b \<le> 0 \<Longrightarrow> lc b c \<le> 0 \<Longrightarrow> lc a c \<le> 0" for a b c
    using assms by (auto simp: consistent_cmp_def)
  show ?thesis
    unfolding consistent_cmp_def
  proof (intro conjI allI impI)
    fix a b
    show "history_cmp lc a b \<le> 0 \<or> history_cmp lc b a \<le> 0"
      using tot by (auto simp: history_cmp_def Let_def)
  next
    fix a b c
    assume "history_cmp lc a b \<le> 0" and "history_cmp lc b c \<le> 0"
    then show "history_cmp lc a c \<le> 0"
      by (auto simp: history_cmp_def Let_def split: if_splits intro: tr)
  qed
qed

lemma mempool_history_row_None:
  "mempool_history_row w e = None \<longleftrightarrow> me_sender e \<noteq> Some w \<and> me_receiver e \<noteq> Some w"
  by (auto simp: mempool_history_row_def Let_def)

lemma confirmed_history_row_None:
  "confirmed_history_row w m r = None \<longleftrightarrow>
     (tr_sender r \<noteq> Some w \<and> tr_receiver r \<noteq> Some w) \<or> m (tr_txid r) = None"
  by (auto simp: confirmed_history_row_def Let_def split: option.splits)

lemma history_row_txid:
  "mempool_history_row w e = Some t \<Longrightarrow> tx_txid t = me_txid e \<and> \<not> isConfirmed t"
  "confirmed_history_row w m r = Some t' \<Longrightarrow> tx_txid t' = tr_txid r \<and> isConfirmed t'"
  by (auto simp: mempool_history_row_def confirmed_history_row_def Let_def split: if_splits option.splits)

lemma set_map_filter: "set (List.map_filter f xs) = {y. \<exists>x \<in> set xs. f x = Some y}"
  by (induction xs) (auto simp: List.map_filter_simps split: option.splits)

end
