(* ===== verification/Lab_Selection.thy ===== *)
theory Lab_Selection
  imports Lab_Chain "HOL-Library.Sublist"
begin

text \<open>
  The block template's transaction selection, \<open>selectMempoolTxsForBlock\<close> of
  \<open>workers/lab-mining-template.ts\<close>: a loop that restarts its scan of the fee-sorted
  mempool after every addition. The reference definition \<open>one_pass\<close> scans once; the two
  agree because an entry that was rejected stays rejected while weight is only consumed.
\<close>

section \<open>The selection loop\<close>

definition feeSatPerVbyte :: "mempoolEntry \<Rightarrow> rat" where
  "feeSatPerVbyte entry =
     (if me_vsize entry \<le> 0 then 0 else dbl (of_int (me_feeSats entry) / of_int (me_vsize entry)))"

definition fee_rate_cmp ::
  "(string \<Rightarrow> string \<Rightarrow> rat) \<Rightarrow> mempoolEntry \<Rightarrow> mempoolEntry \<Rightarrow> rat" where
  "fee_rate_cmp localeCompare a b =
     (let feeRateA = feeSatPerVbyte a; feeRateB = feeSatPerVbyte b
      in if feeRateB \<noteq> feeRateA then feeRateB - feeRateA
         else localeCompare (me_txid a) (me_txid b))"

definition input_keys :: "mempoolEntry \<Rightarrow> string list" where
  "input_keys entry = map (\<lambda>i. utxoOutpointKey (op_txid i) (op_vout i)) (me_inputs entry)"

record selection =
  selectedEntries :: "mempoolEntry list"
  spentBySelected :: "string list"
  remainingWeight :: rat

text \<open>The three \<open>continue\<close> conditions of the scan, negated.\<close>

definition takeable :: "selection \<Rightarrow> mempoolEntry \<Rightarrow> bool" where
  "takeable st entry \<longleftrightarrow>
     \<not> (\<exists>s \<in> set (selectedEntries st). me_txid s = me_txid entry) \<and>
     \<not> of_int (me_weight entry) > remainingWeight st \<and>
     \<not> (\<exists>k \<in> set (input_keys entry). k \<in> set (spentBySelected st))"

definition take_entry :: "selection \<Rightarrow> mempoolEntry \<Rightarrow> selection" where
  "take_entry st entry =
     \<lparr>selectedEntries = selectedEntries st @ [entry],
      spentBySelected = spentBySelected st @ input_keys entry,
      remainingWeight = remainingWeight st - of_int (me_weight entry)\<rparr>"

definition untaken :: "mempoolEntry list \<Rightarrow> selection \<Rightarrow> mempoolEntry list" where
  "untaken es st = filter (\<lambda>e. me_txid e \<notin> me_txid ` set (selectedEntries st)) es"

lemma untaken_take_entry:
  assumes "e \<in> set es" and "takeable st e"
  shows "length (untaken es (take_entry st e)) < length (untaken es st)"
proof -
  have e: "me_txid e \<notin> me_txid ` set (selectedEntries st)"
    using assms(2) by (force simp: takeable_def)
  have "untaken es (take_entry st e) = filter (\<lambda>x. me_txid x \<noteq> me_txid e) (untaken es st)"
    by (auto simp: untaken_def take_entry_def intro: filter_cong)
  moreover have "e \<in> set (untaken es st)" using assms(1) e by (simp add: untaken_def)
  ultimately show ?thesis by (metis (mono_tags, lifting) length_filter_less)
qed

function select_loop :: "mempoolEntry list \<Rightarrow> selection \<Rightarrow> selection" where
  "select_loop sortedEntries st =
     (case List.find (takeable st) sortedEntries of
        None \<Rightarrow> st
      | Some entry \<Rightarrow> select_loop sortedEntries (take_entry st entry))"
  by pat_completeness auto
termination
proof (relation "measure (\<lambda>(es, st). length (untaken es st))")
  fix es st e
  assume "List.find (takeable st) es = Some e"
  then have "e \<in> set es" "takeable st e" by (auto dest: find_Some_iff_mem)
  then show "((es, take_entry st e), es, st) \<in> measure (\<lambda>(es, st). length (untaken es st))"
    using untaken_take_entry by simp
qed simp

declare select_loop.simps [simp del]

definition selection_start :: "js_number \<Rightarrow> selection" where
  "selection_start limit' =
     \<lparr>selectedEntries = [], spentBySelected = [],
      remainingWeight = max 0 (case limit' of Fin v \<Rightarrow> v | _ \<Rightarrow> of_int LAB_DEFAULT_BLOCK_WEIGHT_UNITS)\<rparr>"

definition selectMempoolTxsForBlock ::
  "(string \<Rightarrow> string \<Rightarrow> rat) \<Rightarrow> mempoolEntry list \<Rightarrow> js_number \<Rightarrow> mempoolEntry list" where
  "selectMempoolTxsForBlock localeCompare mempool' blockWeightLimit' =
     selectedEntries
       (select_loop (js_sort (fee_rate_cmp localeCompare) mempool') (selection_start blockWeightLimit'))"

section \<open>Invariant of the loop\<close>

definition sum_weights :: "mempoolEntry list \<Rightarrow> int" where
  "sum_weights es = sum_list (map me_weight es)"

text \<open>
  The spent keys are those of the selected entries, the entries are pairwise free of
  conflicts, and weight taken plus weight left is the limit.
\<close>

definition conflict :: "mempoolEntry \<Rightarrow> mempoolEntry \<Rightarrow> bool" where
  "conflict a b \<longleftrightarrow> set (input_keys a) \<inter> set (input_keys b) \<noteq> {}"

definition selection_inv :: "rat \<Rightarrow> mempoolEntry list \<Rightarrow> selection \<Rightarrow> bool" where
  "selection_inv limit' pool st \<longleftrightarrow>
     set (selectedEntries st) \<subseteq> set pool \<and>
     set (spentBySelected st) = (\<Union>e \<in> set (selectedEntries st). set (input_keys e)) \<and>
     distinct (map me_txid (selectedEntries st)) \<and>
     sorted_wrt (\<lambda>a b. \<not> conflict a b) (selectedEntries st) \<and>
     0 \<le> remainingWeight st \<and>
     of_int (sum_weights (selectedEntries st)) + remainingWeight st = limit'"

lemma selection_inv_take:
  assumes "selection_inv L pool st" and "takeable st e" and "e \<in> set pool"
  shows "selection_inv L pool (take_entry st e)"
  using assms
  by (auto simp: selection_inv_def takeable_def take_entry_def sum_weights_def conflict_def
      sorted_wrt_append not_less)

lemma select_loop_inv:
  assumes "selection_inv L pool st" and "set es \<subseteq> set pool"
  shows "selection_inv L pool (select_loop es st)"
  using assms
proof (induction es st rule: select_loop.induct)
  case (1 es st)
  show ?case
  proof (cases "List.find (takeable st) es")
    case None
    then show ?thesis using "1.prems" by (simp add: select_loop.simps[of es st])
  next
    case (Some e)
    then have "e \<in> set es" "takeable st e" by (auto dest: find_Some_iff_mem)
    then have "selection_inv L pool (take_entry st e)"
      using "1.prems" selection_inv_take by blast
    then show ?thesis using "1.IH"[OF Some] "1.prems"(2) Some by (simp add: select_loop.simps[of es st])
  qed
qed

lemma select_loop_stuck: "e \<in> set es \<Longrightarrow> \<not> takeable (select_loop es st) e"
proof (induction es st rule: select_loop.induct)
  case (1 es st)
  show ?case
  proof (cases "List.find (takeable st) es")
    case None
    then have "select_loop es st = st" by (simp add: select_loop.simps[of es st])
    then show ?thesis using None "1.prems" by (simp add: find_None_iff)
  next
    case (Some x)
    then show ?thesis using "1.IH"[OF Some] "1.prems" by (simp add: select_loop.simps[of es st])
  qed
qed

lemma selection_start_inv:
  "selection_inv (remainingWeight (selection_start l)) pool (selection_start l)"
  by (simp add: selection_inv_def selection_start_def sum_weights_def)

section \<open>One scan is enough\<close>

fun one_pass :: "mempoolEntry list \<Rightarrow> selection \<Rightarrow> selection" where
  "one_pass [] st = st"
| "one_pass (e # es) st = one_pass es (if takeable st e then take_entry st e else st)"

lemma not_takeable_mono:
  "\<not> takeable st e \<Longrightarrow> 0 \<le> me_weight x \<Longrightarrow> \<not> takeable (take_entry st x) e"
  by (auto simp: takeable_def take_entry_def)

lemma taken_not_takeable: "\<not> takeable (take_entry st e) e"
  by (simp add: takeable_def take_entry_def)

lemma select_loop_one_pass:
  assumes "\<forall>e \<in> set (pre @ es). 0 \<le> me_weight e" and "\<forall>e \<in> set pre. \<not> takeable st e"
  shows "select_loop (pre @ es) st = one_pass es st"
  using assms
proof (induction es arbitrary: pre st)
  case Nil
  then have "List.find (takeable st) pre = None" by (simp add: find_None_iff)
  then show ?case by (simp add: select_loop.simps)
next
  case (Cons e es)
  show ?case
  proof (cases "takeable st e")
    case True
    have "List.find (takeable st) (pre @ e # es) = Some e"
      using Cons.prems(2) True by (induction pre) auto
    then have "select_loop (pre @ e # es) st = select_loop ((pre @ [e]) @ es) (take_entry st e)"
      by (simp add: select_loop.simps[of _ st])
    also have "\<dots> = one_pass es (take_entry st e)"
      using Cons.prems by (intro Cons.IH) (auto simp: not_takeable_mono taken_not_takeable)
    finally show ?thesis using True by simp
  next
    case False
    then have "select_loop ((pre @ [e]) @ es) st = one_pass es st"
      using Cons.prems by (intro Cons.IH) auto
    with False show ?thesis by simp
  qed
qed

lemma one_pass_extends:
  "\<exists>new. selectedEntries (one_pass es st) = selectedEntries st @ new \<and> subseq new es"
proof (induction es arbitrary: st)
  case (Cons e es)
  show ?case
  proof (cases "takeable st e")
    case True
    then show ?thesis using Cons.IH[of "take_entry st e"] by (force simp: take_entry_def)
  next
    case False
    then show ?thesis using Cons.IH[of st] by force
  qed
qed simp

lemma one_pass_remaining:
  assumes "\<forall>e \<in> set es. 0 \<le> me_weight e"
  shows "remainingWeight (one_pass es st) \<le> remainingWeight st"
  using assms
proof (induction es arbitrary: st)
  case (Cons e es)
  then show ?case using Cons.IH[of "take_entry st e"] by (force simp: take_entry_def)
qed simp

text \<open>
  An entry that still fits at the end but was not taken lost to an entry scanned before it.
\<close>

lemma one_pass_loser:
  assumes "\<forall>e \<in> set es. 0 \<le> me_weight e" and "selection_inv L pool st" and "set es \<subseteq> set pool"
    and "e \<in> set es" and "e \<notin> set (selectedEntries (one_pass es st))"
    and "of_int (me_weight e) \<le> remainingWeight (one_pass es st)"
  shows "\<exists>f \<in> set (selectedEntries (one_pass es st)).
    (conflict f e \<or> me_txid f = me_txid e) \<and>
    (f \<in> set (selectedEntries st) \<or> (\<exists>as bs cs. es = as @ f # bs @ e # cs))"
  using assms
proof (induction es arbitrary: st)
  case (Cons x es)
  let ?st = "if takeable st x then take_entry st x else st"
  have keep: "set (selectedEntries ?st) \<subseteq> set (selectedEntries (one_pass es ?st))"
    using one_pass_extends[of es ?st] by auto
  have inv: "selection_inv L pool ?st"
    using Cons.prems(2,3) selection_inv_take by simp
  have rem: "remainingWeight (one_pass es ?st) \<le> remainingWeight ?st"
    using Cons.prems(1) by (intro one_pass_remaining) auto
  show ?case
  proof (cases "x = e \<and> \<not> takeable st x")
    case True
    then have "\<exists>f \<in> set (selectedEntries st). conflict f e \<or> me_txid f = me_txid e"
      using Cons.prems(2,6) rem by (auto simp: takeable_def selection_inv_def conflict_def)
    then obtain f where "f \<in> set (selectedEntries st)" "conflict f e \<or> me_txid f = me_txid e"
      by blast
    moreover from this have "f \<in> set (selectedEntries (one_pass (x # es) st))"
      using keep True by auto
    ultimately show ?thesis by blast
  next
    case False
    have "x \<noteq> e"
    proof
      assume "x = e"
      with False have "e \<in> set (selectedEntries ?st)" by (simp add: take_entry_def)
      with keep have "e \<in> set (selectedEntries (one_pass (x # es) st))" by auto
      with Cons.prems(5) show False by blast
    qed
    with Cons.prems have e: "e \<in> set es" by auto
    have "\<exists>f \<in> set (selectedEntries (one_pass es ?st)). (conflict f e \<or> me_txid f = me_txid e) \<and>
        (f \<in> set (selectedEntries ?st) \<or> (\<exists>as bs cs. es = as @ f # bs @ e # cs))"
      using Cons.prems inv e by (intro Cons.IH) auto
    then obtain f where f: "f \<in> set (selectedEntries (one_pass (x # es) st))"
        "conflict f e \<or> me_txid f = me_txid e"
        "f \<in> set (selectedEntries ?st) \<or> (\<exists>as bs cs. es = as @ f # bs @ e # cs)" by auto
    have "f \<in> set (selectedEntries st) \<or> (\<exists>as bs cs. x # es = as @ f # bs @ e # cs)"
    proof -
      consider "f \<in> set (selectedEntries st)" | "f = x" | "\<exists>as bs cs. es = as @ f # bs @ e # cs"
        using f(3) by (auto simp: take_entry_def split: if_splits)
      then show ?thesis
      proof cases
        case 2
        obtain bs cs where "es = bs @ e # cs" using e by (meson split_list)
        with 2 show ?thesis by (metis append_Nil)
      next
        case 3
        then show ?thesis by (metis append_Cons)
      qed simp
    qed
    with f show ?thesis by blast
  qed
qed simp

lemma fee_rate_cmp_consistent:
  assumes "consistent_cmp lc"
  shows "consistent_cmp (fee_rate_cmp lc)"
proof -
  have tot: "lc a b \<le> 0 \<or> lc b a \<le> 0" for a b
    using assms by (auto simp: consistent_cmp_def)
  have tr: "lc a b \<le> 0 \<Longrightarrow> lc b c \<le> 0 \<Longrightarrow> lc a c \<le> 0" for a b c
    using assms by (auto simp: consistent_cmp_def)
  show ?thesis
    unfolding consistent_cmp_def
  proof (intro conjI allI impI)
    fix a b
    show "fee_rate_cmp lc a b \<le> 0 \<or> fee_rate_cmp lc b a \<le> 0"
      using tot by (auto simp: fee_rate_cmp_def Let_def)
  next
    fix a b c
    assume "fee_rate_cmp lc a b \<le> 0" and "fee_rate_cmp lc b c \<le> 0"
    then show "fee_rate_cmp lc a c \<le> 0"
      by (auto simp: fee_rate_cmp_def Let_def split: if_splits intro: tr)
  qed
qed

lemma fee_rate_cmp_le: "fee_rate_cmp lc a b \<le> 0 \<Longrightarrow> feeSatPerVbyte b \<le> feeSatPerVbyte a"
  by (auto simp: fee_rate_cmp_def Let_def split: if_splits)

lemma conflict_iff: "conflict a b \<longleftrightarrow> set (me_inputs a) \<inter> set (me_inputs b) \<noteq> {}"
proof -
  have key: "utxoOutpointKey (op_txid p) (op_vout p) = utxoOutpointKey (op_txid q) (op_vout q) \<longleftrightarrow> p = q"
    for p q :: outpoint by auto
  show ?thesis unfolding conflict_def input_keys_def using key by (auto simp: image_iff)
qed

lemma select_inv:
  "selection_inv (max 0 l) pool
     (select_loop (js_sort (fee_rate_cmp lc) pool) (selection_start (Fin l)))"
  using select_loop_inv[OF selection_start_inv[of "Fin l"], of "js_sort (fee_rate_cmp lc) pool" pool]
  by (simp add: selection_start_def)

lemma select_eq_one_pass:
  assumes "\<forall>e \<in> set pool. 0 \<le> me_weight e"
  shows "select_loop (js_sort (fee_rate_cmp lc) pool) st = one_pass (js_sort (fee_rate_cmp lc) pool) st"
  using select_loop_one_pass[of "[]"] assms by simp

lemma sorted_wrt_split: "sorted_wrt R (as @ f # bs @ e # cs) \<Longrightarrow> R f e"
  by (simp add: sorted_wrt_append)

lemma sorted_wrt_subseq: "subseq xs ys \<Longrightarrow> sorted_wrt R ys \<Longrightarrow> sorted_wrt R xs"
  by (induction rule: list_emb.induct) (auto dest: list_emb_set)

section \<open>Properties of the selection\<close>

lemma selectMempoolTxsForBlock_valid:
  "of_int (sum_weights (selectMempoolTxsForBlock lc pool (Fin l))) \<le> max 0 l \<and>
   set (selectMempoolTxsForBlock lc pool (Fin l)) \<subseteq> set pool \<and>
   distinct (map me_txid (selectMempoolTxsForBlock lc pool (Fin l))) \<and>
   sorted_wrt (\<lambda>a b. \<not> conflict a b) (selectMempoolTxsForBlock lc pool (Fin l))"
  using select_inv[of l pool lc]
  unfolding selectMempoolTxsForBlock_def selection_inv_def by simp

text \<open>C18: a block template never exceeds the weight limit, holds every transaction at most
  once, takes only mempool entries and never spends an outpoint twice.\<close>

theorem select_block_valid:
  fixes l :: rat and pool :: "mempoolEntry list" and lc :: "string \<Rightarrow> string \<Rightarrow> rat"
  defines "sel \<equiv> selectMempoolTxsForBlock lc pool (Fin l)"
  shows "of_int (sum_weights sel) \<le> max 0 l \<and> set sel \<subseteq> set pool \<and> distinct (map me_txid sel) \<and>
    sorted_wrt (\<lambda>a b. set (me_inputs a) \<inter> set (me_inputs b) = {}) sel"
  using selectMempoolTxsForBlock_valid[of lc pool l] unfolding sel_def conflict_iff by simp

text \<open>C30: the scan that restarts after every addition computes the same template as one pass
  over the fee-sorted mempool.\<close>

theorem select_matches_one_pass:
  assumes "\<forall>e \<in> set pool. 0 \<le> me_weight e"
  shows "selectMempoolTxsForBlock lc pool l =
    selectedEntries (one_pass (js_sort (fee_rate_cmp lc) pool) (selection_start l))"
  unfolding selectMempoolTxsForBlock_def using select_eq_one_pass[OF assms] by simp

text \<open>the template is fair. Entries are taken in order of decreasing fee rate, and an
  entry that still fits the remaining weight is left out only because a selected entry with
  at least its fee rate spends one of its inputs (or is the same transaction).\<close>

theorem select_fair:
  fixes l :: rat and pool :: "mempoolEntry list" and lc :: "string \<Rightarrow> string \<Rightarrow> rat"
  assumes "consistent_cmp lc" and "\<forall>e \<in> set pool. 0 \<le> me_weight e"
  defines "sel \<equiv> selectMempoolTxsForBlock lc pool (Fin l)"
  shows "sorted_wrt (\<lambda>a b. feeSatPerVbyte b \<le> feeSatPerVbyte a) sel \<and>
    (\<forall>e \<in> set pool. e \<notin> set sel \<longrightarrow> of_int (sum_weights sel + me_weight e) \<le> max 0 l \<longrightarrow>
      (\<exists>f \<in> set sel. (set (me_inputs f) \<inter> set (me_inputs e) \<noteq> {} \<or> me_txid f = me_txid e) \<and>
        feeSatPerVbyte e \<le> feeSatPerVbyte f))"
proof -
  let ?sorted = "js_sort (fee_rate_cmp lc) pool" and ?st = "selection_start (Fin l)"
  let ?final = "one_pass ?sorted ?st"
  have sel: "sel = selectedEntries ?final"
    unfolding sel_def selectMempoolTxsForBlock_def using select_eq_one_pass[OF assms(2)] by simp
  have ord: "sorted_wrt (\<lambda>a b. fee_rate_cmp lc a b \<le> 0) ?sorted"
    by (rule sorted_js_sort[OF fee_rate_cmp_consistent[OF assms(1)]])
  obtain new where "selectedEntries ?final = selectedEntries ?st @ new" "subseq new ?sorted"
    using one_pass_extends by blast
  then have "subseq sel ?sorted" by (simp add: sel selection_start_def)
  then have rates: "sorted_wrt (\<lambda>a b. feeSatPerVbyte b \<le> feeSatPerVbyte a) sel"
    using sorted_wrt_subseq[OF _ ord] sorted_wrt_mono_rel fee_rate_cmp_le by (metis (no_types, lifting))
  have inv: "selection_inv (max 0 l) pool ?final"
    using select_inv[of l pool lc] select_eq_one_pass[OF assms(2)] by simp
  have "\<exists>f \<in> set sel. (conflict f e \<or> me_txid f = me_txid e) \<and> feeSatPerVbyte e \<le> feeSatPerVbyte f"
    if e: "e \<in> set pool" "e \<notin> set sel" "of_int (sum_weights sel + me_weight e) \<le> max 0 l" for e
  proof -
    have "of_int (me_weight e) \<le> remainingWeight ?final"
      using inv e(3) by (simp add: selection_inv_def sel)
    then obtain f where "f \<in> set sel" "conflict f e \<or> me_txid f = me_txid e"
        "f \<in> set (selectedEntries ?st) \<or> (\<exists>as bs cs. ?sorted = as @ f # bs @ e # cs)"
      using one_pass_loser[of ?sorted "remainingWeight ?st" pool ?st e] assms(2) e(1,2)
        selection_start_inv by (auto simp: sel)
    then show ?thesis
      using ord sorted_wrt_split fee_rate_cmp_le by (fastforce simp: selection_start_def)
  qed
  with rates show ?thesis by (simp add: conflict_iff)
qed

text \<open>Examples: three entries, two of which spend the same output.\<close>

definition sample_entry :: "string \<Rightarrow> int \<Rightarrow> int \<Rightarrow> outpoint list \<Rightarrow> mempoolEntry" where
  "sample_entry txid fee weight ins =
     \<lparr>signedTxHex = txid, me_txid = txid, me_sender = Some (Wallet 1), me_receiver = Some (LabEntity 1),
      me_feeSats = fee, me_weight = weight, me_vsize = labVsizeFromWeight weight, me_inputs = ins,
      me_inputsDetail = [], me_outputsDetail = []\<rparr>"

definition sample_pool :: "mempoolEntry list" where
  "sample_pool =
     [sample_entry ''aa'' 100 400 [\<lparr>op_txid = ''00'', op_vout = 0\<rparr>],
      sample_entry ''bb'' 300 400 [\<lparr>op_txid = ''00'', op_vout = 0\<rparr>],
      sample_entry ''cc'' 200 400 [\<lparr>op_txid = ''01'', op_vout = 1\<rparr>]]"

lemma sample_pool_weights: "\<forall>e \<in> set sample_pool. 0 \<le> me_weight e"
  by (simp add: sample_pool_def sample_entry_def)

lemma sample_selection:
  "selectMempoolTxsForBlock code_unit_compare sample_pool (Fin 1000) = [sample_pool ! 1, sample_pool ! 2]"
  by code_simp

theorem select_matches_one_pass_witness:
  "map me_txid (selectedEntries (one_pass (js_sort (fee_rate_cmp code_unit_compare) sample_pool)
     (selection_start (Fin 1000)))) = [''bb'', ''cc'']"
  using select_matches_one_pass[OF sample_pool_weights, of code_unit_compare "Fin 1000"]
    sample_selection by (simp add: sample_pool_def sample_entry_def)

theorem select_fair_witness:
  "\<exists>f \<in> set [sample_pool ! 1, sample_pool ! 2]. me_txid f = ''bb'' \<and>
     feeSatPerVbyte (sample_pool ! 0) \<le> feeSatPerVbyte f"
proof -
  let ?e = "sample_pool ! 0"
  have e: "?e \<in> set sample_pool" "?e \<notin> set [sample_pool ! 1, sample_pool ! 2]"
    by (simp_all add: sample_pool_def sample_entry_def)
  have "of_int (sum_weights [sample_pool ! 1, sample_pool ! 2] + me_weight ?e) \<le> max 0 (2000 :: rat)"
    by (simp add: sum_weights_def sample_pool_def sample_entry_def)
  moreover have "selectMempoolTxsForBlock code_unit_compare sample_pool (Fin 2000) =
      [sample_pool ! 1, sample_pool ! 2]" by code_simp
  ultimately have "\<exists>f \<in> set [sample_pool ! 1, sample_pool ! 2].
      (set (me_inputs f) \<inter> set (me_inputs ?e) \<noteq> {} \<or> me_txid f = me_txid ?e) \<and>
      feeSatPerVbyte ?e \<le> feeSatPerVbyte f"
    using select_fair[OF code_unit_compare_consistent sample_pool_weights, of 2000] e by simp
  then show ?thesis by (auto simp: sample_pool_def sample_entry_def)
qed

end
