(* ===== verification/Lab_Header.thy ===== *)
theory Lab_Header
  imports Prelude "HOL-Library.Word"
begin

text \<open>
  The block header parser of \<open>workers/lab-block-header.ts\<close>. A \<open>Uint8Array\<close> is a list
  of 8-bit words; the little-endian read works on 32-bit words, as JavaScript's bitwise
  operators do. \<open>crypto.subtle.digest('SHA-256', ...)\<close> is a parameter.
\<close>

unbundle bit_operations_syntax

section \<open>Hexadecimal text\<close>

definition hex_digit :: "nat \<Rightarrow> char" where
  "hex_digit d = (if d < 10 then char_of (48 + d) else char_of (87 + d))"

definition hex_val :: "char \<Rightarrow> nat option" where
  "hex_val c =
     (let n = (of_char c :: nat)
      in if 48 \<le> n \<and> n \<le> 57 then Some (n - 48)
         else if 97 \<le> n \<and> n \<le> 102 then Some (n - 87)
         else if 65 \<le> n \<and> n \<le> 70 then Some (n - 55)
         else None)"

definition hex_value :: "string \<Rightarrow> nat" where
  "hex_value s = foldl (\<lambda>a c. 16 * a + the (hex_val c)) 0 s"

text \<open>\<open>parseInt(s, 16)\<close>: white space, a sign, an optional \<open>0x\<close>, then the longest run of
  hexadecimal digits; \<open>None\<close> is NaN.\<close>

definition parse_int_16 :: "string \<Rightarrow> int option" where
  "parse_int_16 s =
     (let s1 = dropWhile js_ws s;
          neg = starts_with ''-'' s1;
          s2 = (if neg \<or> starts_with ''+'' s1 then tl s1 else s1);
          s3 = (if starts_with ''0x'' s2 \<or> starts_with ''0X'' s2 then drop 2 s2 else s2);
          ds = takeWhile (\<lambda>c. hex_val c \<noteq> None) s3
      in if ds = [] then None
         else Some ((if neg then - 1 else 1) * int (hex_value ds)))"

text \<open>Storing a number into a \<open>Uint8Array\<close>: NaN is 0, otherwise modulo 256.\<close>

definition to_uint8 :: "int option \<Rightarrow> 8 word" where
  "to_uint8 v = (case v of None \<Rightarrow> 0 | Some i \<Rightarrow> word_of_int i)"

fun hex_pairs :: "string \<Rightarrow> 8 word list" where
  "hex_pairs (a # b # s) = to_uint8 (parse_int_16 [a, b]) # hex_pairs s"
| "hex_pairs _ = []"

definition hexToBytes :: "string \<Rightarrow> 8 word list" where
  "hexToBytes hex =
     (let normalizedHex = (if even (length hex) then hex else CHR ''0'' # hex)
      in hex_pairs normalizedHex)"

fun hex_str :: "nat \<Rightarrow> string" where
  "hex_str n = (if n < 16 then [hex_digit n] else hex_str (n div 16) @ [hex_digit (n mod 16)])"

declare hex_str.simps [simp del]

definition pad_start :: "nat \<Rightarrow> string \<Rightarrow> string" where
  "pad_start n s = replicate (n - length s) (CHR ''0'') @ s"

definition bytesToHex :: "8 word list \<Rightarrow> string" where
  "bytesToHex bytes = concat (map (\<lambda>b. pad_start 2 (hex_str (unat b))) bytes)"

definition reverseHexByteOrder :: "string \<Rightarrow> string" where
  "reverseHexByteOrder hex = bytesToHex (rev (hexToBytes hex))"

section \<open>Header fields\<close>

text \<open>Reading past the end gives \<open>undefined\<close>, which the bitwise operators take as 0.\<close>

definition byte_at :: "8 word list \<Rightarrow> nat \<Rightarrow> 32 word" where
  "byte_at bytes i = (if i < length bytes then ucast (bytes ! i) else 0)"

definition readUint32Le :: "8 word list \<Rightarrow> nat \<Rightarrow> 32 word" where
  "readUint32Le bytes offset =
     byte_at bytes offset OR
     push_bit 8 (byte_at bytes (offset + 1)) OR
     push_bit 16 (byte_at bytes (offset + 2)) OR
     push_bit 24 (byte_at bytes (offset + 3))"

definition doubleSha256 :: "(8 word list \<Rightarrow> 8 word list) \<Rightarrow> 8 word list \<Rightarrow> 8 word list" where
  "doubleSha256 sha256 bytes = sha256 (sha256 bytes)"

definition target_value :: "32 word \<Rightarrow> nat" where
  "target_value nBits =
     (let exponent = int (unat (drop_bit 24 nBits));
          mantissa = unat (nBits AND 0x007fffff);
          shiftBytes = exponent - 3
      in if 0 \<le> shiftBytes then mantissa * 2 ^ nat (8 * shiftBytes)
         else mantissa div 2 ^ nat (8 * - shiftBytes))"

definition expandTargetFromBits :: "32 word \<Rightarrow> string" where
  "expandTargetFromBits nBits =
     (if nBits AND 0x007fffff = 0 then replicate 64 (CHR ''0'')
      else pad_start 64 (hex_str (target_value nBits)))"

record labBlockHeaderDetails =
  hd_version :: nat
  hd_previousBlockHash :: string
  hd_merkleRoot :: string
  hd_timestamp :: nat
  hd_targetBits :: string
  hd_targetExpanded :: string
  hd_nonce :: nat
  hd_blockHeaderHash :: string

definition BLOCK_HEADER_BYTE_LENGTH :: nat where "BLOCK_HEADER_BYTE_LENGTH = 80"

definition js_slice :: "nat \<Rightarrow> nat \<Rightarrow> 'a list \<Rightarrow> 'a list" where
  "js_slice i j xs = take (j - i) (drop i xs)"

definition parseBlockHeader ::
  "(8 word list \<Rightarrow> 8 word list) \<Rightarrow> string \<Rightarrow> string + labBlockHeaderDetails" where
  "parseBlockHeader sha256 blockHex =
     (let headerHex = take (BLOCK_HEADER_BYTE_LENGTH * 2) blockHex;
          headerBytes = hexToBytes headerHex;
          nBits = readUint32Le headerBytes 72
      in if length headerBytes < BLOCK_HEADER_BYTE_LENGTH
         then Inl (''Block header must be '' @ nat_str BLOCK_HEADER_BYTE_LENGTH @ '' bytes'')
         else Inr \<lparr>hd_version = unat (readUint32Le headerBytes 0),
                   hd_previousBlockHash = reverseHexByteOrder (js_slice 8 72 headerHex),
                   hd_merkleRoot = reverseHexByteOrder (js_slice 72 136 headerHex),
                   hd_timestamp = unat (readUint32Le headerBytes 68),
                   hd_targetBits = pad_start 8 (hex_str (unat nBits)),
                   hd_targetExpanded = expandTargetFromBits nBits,
                   hd_nonce = unat (readUint32Le headerBytes 76),
                   hd_blockHeaderHash = bytesToHex (rev (doubleSha256 sha256 headerBytes))\<rparr>)"

section \<open>Hexadecimal round trips\<close>

lemma hex_val_digit [simp]: "d < 16 \<Longrightarrow> hex_val (hex_digit d) = Some d"
  by (auto simp: hex_val_def hex_digit_def Let_def)

lemma hex_digit_not_special:
  assumes "d < 16"
  shows "\<not> js_ws (hex_digit d)" "hex_digit d \<noteq> CHR ''-''" "hex_digit d \<noteq> CHR ''+''"
    "hex_digit d \<noteq> CHR ''x''" "hex_digit d \<noteq> CHR ''X''"
proof -
  have "hex_val (hex_digit d) = Some d" using assms by simp
  then show "hex_digit d \<noteq> CHR ''-''" "hex_digit d \<noteq> CHR ''+''"
      "hex_digit d \<noteq> CHR ''x''" "hex_digit d \<noteq> CHR ''X''"
    by (auto simp: hex_val_def)
  show "\<not> js_ws (hex_digit d)" using assms by (auto simp: js_ws_def hex_digit_def Let_def)
qed

lemma hex_digit_0: "hex_digit 0 = CHR ''0''"
  by code_simp

lemma hex_digit_table:
  "hex_digit (Suc 0) = CHR ''1''" "hex_digit 2 = CHR ''2''" "hex_digit 3 = CHR ''3''"
  "hex_digit 4 = CHR ''4''" "hex_digit 5 = CHR ''5''" "hex_digit 6 = CHR ''6''"
  "hex_digit 7 = CHR ''7''" "hex_digit 8 = CHR ''8''" "hex_digit 9 = CHR ''9''"
  "hex_digit 10 = CHR ''a''" "hex_digit 11 = CHR ''b''" "hex_digit 12 = CHR ''c''"
  "hex_digit 13 = CHR ''d''" "hex_digit 14 = CHR ''e''" "hex_digit 15 = CHR ''f''"
  by code_simp+

lemmas hex_text = hex_str.simps hex_digit_0 hex_digit_table pad_start_def

lemma unat_byte_less: "unat (b :: 8 word) < 256"
proof -
  have "unat b < 2 ^ LENGTH(8)" by (rule unsigned_less)
  then show ?thesis by simp
qed

lemma hex_byte_text:
  assumes "n < 256"
  shows "pad_start 2 (hex_str n) = [hex_digit (n div 16), hex_digit (n mod 16)]"
  using assms
  by (subst hex_str.simps, subst hex_str.simps) (auto simp: pad_start_def hex_digit_0)

lemma parse_int_16_byte:
  assumes "a < 16" and "b < 16"
  shows "parse_int_16 [hex_digit a, hex_digit b] = Some (int (16 * a + b))"
  using assms hex_digit_not_special[of a] hex_digit_not_special[of b]
  by (simp add: parse_int_16_def starts_with_def hex_value_def)

lemma hex_pairs_bytesToHex [simp]: "hex_pairs (bytesToHex bs) = bs"
proof (induction bs)
  case (Cons b bs)
  have b: "unat b < 256" by (rule unat_byte_less)
  have "16 * (unat b div 16) + unat b mod 16 = unat b" by simp
  then have "to_uint8 (parse_int_16 [hex_digit (unat b div 16), hex_digit (unat b mod 16)]) = b"
    using b parse_int_16_byte[of "unat b div 16" "unat b mod 16"] by (simp add: to_uint8_def)
  with Cons show ?case using b by (simp add: bytesToHex_def hex_byte_text)
qed (simp add: bytesToHex_def)

lemma length_bytesToHex [simp]: "length (bytesToHex bs) = 2 * length bs"
proof (induction bs)
  case (Cons b bs)
  moreover have "unat b < 256" by (rule unat_byte_less)
  ultimately show ?case by (simp add: bytesToHex_def hex_byte_text)
qed (simp add: bytesToHex_def)

lemma hexToBytes_bytesToHex [simp]: "hexToBytes (bytesToHex bs) = bs"
  by (simp add: hexToBytes_def)

lemma bytesToHex_append [simp]: "bytesToHex (as @ bs) = bytesToHex as @ bytesToHex bs"
  by (simp add: bytesToHex_def)

lemma length_hex_pairs: "length (hex_pairs s) = length s div 2"
  by (induction s rule: hex_pairs.induct) auto

lemma hex_value_snoc: "hex_value (s @ [c]) = 16 * hex_value s + the (hex_val c)"
  by (simp add: hex_value_def)

lemma hex_value_hex_str [simp]: "hex_value (hex_str n) = n"
proof (induction n rule: hex_str.induct)
  case (1 n)
  show ?case
  proof (cases "n < 16")
    case True
    then show ?thesis by (subst hex_str.simps) (simp add: hex_value_def)
  next
    case False
    with 1 show ?thesis by (subst hex_str.simps) (simp add: hex_value_snoc)
  qed
qed

lemma hex_value_pad [simp]: "hex_value (pad_start n s) = hex_value s"
proof -
  have "foldl (\<lambda>a c. 16 * a + the (hex_val c)) 0 (replicate k (CHR ''0'')) = (0 :: nat)" for k
    by (induction k) (simp_all add: hex_val_def)
  then show ?thesis by (simp add: hex_value_def pad_start_def)
qed

lemma length_pad_start: "length (pad_start n s) = max n (length s)"
  by (simp add: pad_start_def)

lemma length_hex_str: "n < 16 ^ k \<Longrightarrow> 0 < k \<Longrightarrow> length (hex_str n) \<le> k"
proof (induction n arbitrary: k rule: hex_str.induct)
  case (1 n)
  show ?case
  proof (cases "n < 16")
    case True
    with 1 show ?thesis by (subst hex_str.simps) simp
  next
    case False
    obtain j where k: "k = Suc j" using 1 by (cases k) auto
    have "0 < j" using 1(2) False k by (cases j) auto
    note k = k this
    with 1 False have "n div 16 < 16 ^ j" by (simp add: less_mult_imp_div_less mult.commute)
    with 1 False k show ?thesis by (subst hex_str.simps) simp
  qed
qed

section \<open>Little-endian words\<close>

text \<open>The four bytes of a 32-bit number, least significant first.\<close>

definition le_bytes :: "32 word \<Rightarrow> 8 word list" where
  "le_bytes w = [ucast w, ucast (drop_bit 8 w), ucast (drop_bit 16 w), ucast (drop_bit 24 w)]"

lemma length_le_bytes [simp]: "length (le_bytes w) = 4"
  by (simp add: le_bytes_def)

lemma readUint32Le_le_bytes:
  "readUint32Le (pre @ le_bytes w @ post) (length pre) = w"
proof (rule bit_word_eqI)
  fix n
  assume "n < LENGTH(32)"
  then consider "n < 8" | k where "n = 8 + k" "k < 8" | k where "n = 16 + k" "k < 8"
    | k where "n = 24 + k" "k < 8"
    using le_Suc_ex[of 8 n] le_Suc_ex[of 16 n] le_Suc_ex[of 24 n] by fastforce
  then show "bit (readUint32Le (pre @ le_bytes w @ post) (length pre)) n = bit w n"
    by cases (auto simp: readUint32Le_def byte_at_def le_bytes_def nth_append bit_simps nth_Cons')
qed

lemma readUint32Le_at:
  assumes "bs = pre @ le_bytes w @ post" and "i = length pre"
  shows "readUint32Le bs i = w"
  using readUint32Le_le_bytes assms by simp

lemma mantissa_less: "unat (nBits AND (0x007fffff :: 32 word)) < 2 ^ 23"
proof -
  have "nBits AND (0x007fffff :: 32 word) \<le> 0x007fffff" by (rule word_and_le1)
  then have "unat (nBits AND (0x007fffff :: 32 word)) \<le> unat (0x007fffff :: 32 word)"
    by (simp add: word_le_nat_alt)
  then show ?thesis by simp
qed

lemma target_value_bound:
  assumes "unat (drop_bit 24 nBits) \<le> 32"
  shows "target_value nBits < 16 ^ 64"
proof (cases "3 \<le> unat (drop_bit 24 nBits)")
  case True
  let ?m = "unat (nBits AND 0x007fffff)" and ?k = "nat (8 * (int (unat (drop_bit 24 nBits)) - 3))"
  have "nat (8 * (int e - 3)) \<le> 232" if "e \<le> 32" for e :: nat using that by simp
  then have "?k \<le> 232" using assms by blast
  then have "(2 :: nat) ^ ?k \<le> 2 ^ 232" by (rule power_increasing) simp
  then have "?m * 2 ^ ?k < 2 ^ 23 * 2 ^ 232"
    using mantissa_less[of nBits] by (intro mult_less_le_imp_less) auto
  also have "\<dots> \<le> (16 :: nat) ^ 64" by simp
  finally have "?m * 2 ^ ?k < 16 ^ 64" .
  moreover have "0 \<le> int (unat (drop_bit 24 nBits)) - 3" using True by linarith
  ultimately show ?thesis unfolding target_value_def Let_def by (simp only: if_True)
next
  case False
  then have "\<not> 0 \<le> int (unat (drop_bit 24 nBits)) - 3" by linarith
  then have "target_value nBits \<le> unat (nBits AND 0x007fffff)"
    unfolding target_value_def Let_def by (simp only: if_False div_le_dividend)
  also have "\<dots> < 2 ^ 23" by (rule mantissa_less)
  finally show ?thesis by simp
qed

section \<open>Properties\<close>

text \<open>The 80 bytes of a header, with the two hashes in display (big-endian) order.\<close>

definition header_bytes ::
  "32 word \<Rightarrow> 8 word list \<Rightarrow> 8 word list \<Rightarrow> 32 word \<Rightarrow> 32 word \<Rightarrow> 32 word \<Rightarrow> 8 word list" where
  "header_bytes version prev merkle time nBits nonce =
     le_bytes version @ rev prev @ rev merkle @ le_bytes time @ le_bytes nBits @ le_bytes nonce"

text \<open>parsing the serialisation of a header, followed by any block body, gives back
  every field, and the hash is the reversed double SHA-256 of exactly the 80 header bytes.\<close>

theorem parseBlockHeader_roundtrip:
  assumes "length prev = 32" and "length merkle = 32"
  shows "parseBlockHeader sha256 (bytesToHex (header_bytes version prev merkle time nBits nonce) @ body) =
    Inr \<lparr>hd_version = unat version, hd_previousBlockHash = bytesToHex prev,
         hd_merkleRoot = bytesToHex merkle, hd_timestamp = unat time,
         hd_targetBits = pad_start 8 (hex_str (unat nBits)),
         hd_targetExpanded = expandTargetFromBits nBits, hd_nonce = unat nonce,
         hd_blockHeaderHash =
           bytesToHex (rev (sha256 (sha256 (header_bytes version prev merkle time nBits nonce))))\<rparr>"
proof -
  let ?h = "header_bytes version prev merkle time nBits nonce"
  have len: "length ?h = 80" using assms by (simp add: header_bytes_def)
  have reads: "readUint32Le ?h 0 = version" "readUint32Le ?h 68 = time"
      "readUint32Le ?h 72 = nBits" "readUint32Le ?h 76 = nonce"
    unfolding header_bytes_def
    by (rule readUint32Le_at[where pre = "[]"], simp, simp)
      (rule readUint32Le_at[where pre = "le_bytes version @ rev prev @ rev merkle"], simp, simp add: assms,
       rule readUint32Le_at[where pre = "le_bytes version @ rev prev @ rev merkle @ le_bytes time"], simp, simp add: assms,
       rule readUint32Le_at[where pre = "le_bytes version @ rev prev @ rev merkle @ le_bytes time @ le_bytes nBits"
           and post = "[]"], simp, simp add: assms)
  have hex: "take (BLOCK_HEADER_BYTE_LENGTH * 2) (bytesToHex ?h @ body) = bytesToHex ?h"
    using len by (simp add: BLOCK_HEADER_BYTE_LENGTH_def)
  have slices: "js_slice 8 72 (bytesToHex ?h) = bytesToHex (rev prev)"
      "js_slice 72 136 (bytesToHex ?h) = bytesToHex (rev merkle)"
    using assms by (simp_all add: header_bytes_def js_slice_def)
  show ?thesis
    unfolding parseBlockHeader_def hex Let_def hexToBytes_bytesToHex reads slices
    by (simp add: len BLOCK_HEADER_BYTE_LENGTH_def reverseHexByteOrder_def doubleSha256_def)
qed

theorem parseBlockHeader_roundtrip_witness:
  "parseBlockHeader id (bytesToHex (header_bytes 2 (replicate 32 7) (replicate 32 9) 1700000000 0x207fffff 5) @ ''00'') =
    Inr \<lparr>hd_version = 2, hd_previousBlockHash = bytesToHex (replicate 32 7),
         hd_merkleRoot = bytesToHex (replicate 32 9), hd_timestamp = 1700000000,
         hd_targetBits = ''207fffff'',
         hd_targetExpanded = expandTargetFromBits 0x207fffff, hd_nonce = 5,
         hd_blockHeaderHash =
           bytesToHex (rev (header_bytes 2 (replicate 32 7) (replicate 32 9) 1700000000 0x207fffff 5))\<rparr>"
proof -
  have "pad_start 8 (hex_str (unat (0x207fffff :: 32 word))) = ''207fffff''"
    by (simp add: hex_text)
  then show ?thesis
    using parseBlockHeader_roundtrip[of "replicate 32 7" "replicate 32 9" id 2 1700000000 "0x207fffff" 5 "''00''"]
    by simp
qed

text \<open>header parsing fails exactly on a block whose text is shorter than the 159
  digits that decode to 80 bytes (an odd-length text is read with a leading zero).\<close>

theorem parseBlockHeader_error_iff:
  "parseBlockHeader sha256 blockHex = Inl ''Block header must be 80 bytes'' \<longleftrightarrow> length blockHex < 159"
proof -
  have msg: "nat_str 80 = ''80''" by code_simp
  have "length (hexToBytes (take 160 blockHex)) = (min 160 (length blockHex) + 1) div 2"
    by (auto simp: hexToBytes_def length_hex_pairs min.commute)
  then show ?thesis by (simp add: parseBlockHeader_def Let_def BLOCK_HEADER_BYTE_LENGTH_def msg) linarith
qed

text \<open>the expanded proof-of-work target denotes mantissa times \<open>256 ^ (exponent - 3)\<close>,
  and has 64 digits whenever the exponent is at most 32.\<close>

theorem expandTargetFromBits_value:
  "hex_value (expandTargetFromBits nBits) = target_value nBits \<and>
   (unat (drop_bit 24 nBits) \<le> 32 \<longrightarrow> length (expandTargetFromBits nBits) = 64)"
proof (cases "nBits AND 0x007fffff = 0")
  case True
  then have "target_value nBits = 0" by (simp add: target_value_def Let_def)
  moreover have "hex_value (replicate 64 (CHR ''0'')) = 0" by code_simp
  ultimately show ?thesis using True by (simp add: expandTargetFromBits_def)
next
  case False
  then show ?thesis
    using length_hex_str[OF target_value_bound[of nBits]]
    by (auto simp: expandTargetFromBits_def length_pad_start)
qed

theorem expandTargetFromBits_value_witness:
  "hex_value (expandTargetFromBits 0x207fffff) = 0x7fffff * 256 ^ 29 \<and>
   length (expandTargetFromBits 0x207fffff) = 64"
proof -
  have "target_value 0x207fffff = 0x7fffff * 256 ^ 29" "unat (drop_bit 24 (0x207fffff :: 32 word)) \<le> 32"
    by (simp_all add: target_value_def)
  then show ?thesis using expandTargetFromBits_value[of "0x207fffff"] by simp
qed

end
