(* ===== verification/Lab_Effects.thy ===== *)
theory Lab_Effects
  imports Lab_Chain
begin

text \<open>
  The worker's state and the application of a mined block to it:
  \<open>workers/lab-worker-state.ts\<close>, \<open>lab-block-effects-types.ts\<close>,
  \<open>lab-block-effects-mappers.ts\<close>, \<open>lab-block-effects.ts\<close> and
  \<open>lab-apply-block-transactions.ts\<close>.

  The module variables \<open>labWorkerState\<close> and \<open>txidToChangeOutput\<close> are one record. The
  functions of the WASM module are the fields of the record \<open>labWasm\<close>, a parameter of every
  operation that calls them; \<open>Inl\<close> is a thrown error. A function of the code that reads
  the owner map through a local variable taken at its start sees later writes exactly when
  the map existed then (the flag \<open>aliased\<close>), because \<open>?? {}\<close> otherwise made a fresh object.
\<close>

section \<open>Block effects as WASM reports them\<close>

record wireBlockEffectsTxInput =
  prev_txid :: string
  prev_vout :: int

record wireBlockEffectsTxOutput =
  wo_address :: string
  amount_sats :: int

record wireBlockEffectsTx =
  wt_txid :: string
  wt_inputs :: "wireBlockEffectsTxInput list option"
  wt_outputs :: "wireBlockEffectsTxOutput list option"

record wireBlockEffectsNewUtxo =
  wn_txid :: string
  wn_vout :: int
  wn_address :: string
  wn_amount_sats :: int
  script_pubkey_hex :: string

record wireBlockEffectsParsed =
  w_spent :: "outpoint list option"
  new_utxos :: "wireBlockEffectsNewUtxo list option"
  w_transactions :: "wireBlockEffectsTx list option"
  block_time :: "int option"

text \<open>The raw value: a text (\<open>None\<close> when it does not parse), an object, or anything else.\<close>

datatype wireRaw =
  RawText "wireBlockEffectsParsed option" | RawObject wireBlockEffectsParsed | RawOther

record blockEffectsTxInput =
  prevTxid :: string
  prevVout :: int

record blockEffectsTxOutput =
  bo_address :: string
  bo_amountSats :: int

record blockEffectsTx =
  bt_txid :: string
  bt_inputs :: "blockEffectsTxInput list"
  bt_outputs :: "blockEffectsTxOutput list option"

record blockEffectsNewUtxo =
  nu_txid :: string
  nu_vout :: int
  nu_address :: string
  nu_amountSats :: int
  nu_scriptPubkeyHex :: string

record blockEffectsParsed =
  be_spent :: "outpoint list"
  newUtxos :: "blockEffectsNewUtxo list"
  be_transactions :: "blockEffectsTx list"
  be_blockTime :: int

definition mapWireBlockEffectsTxInputToDomain :: "wireBlockEffectsTxInput \<Rightarrow> blockEffectsTxInput" where
  "mapWireBlockEffectsTxInputToDomain wire = \<lparr>prevTxid = prev_txid wire, prevVout = prev_vout wire\<rparr>"

definition mapWireBlockEffectsTxOutputToDomain :: "wireBlockEffectsTxOutput \<Rightarrow> blockEffectsTxOutput" where
  "mapWireBlockEffectsTxOutputToDomain wire =
     \<lparr>bo_address = wo_address wire, bo_amountSats = amount_sats wire\<rparr>"

definition or_empty :: "'a list option \<Rightarrow> 'a list" where
  "or_empty xs = (case xs of None \<Rightarrow> [] | Some ys \<Rightarrow> ys)"

definition mapWireBlockEffectsTxToDomain :: "wireBlockEffectsTx \<Rightarrow> blockEffectsTx" where
  "mapWireBlockEffectsTxToDomain wire =
     \<lparr>bt_txid = wt_txid wire,
      bt_inputs = map mapWireBlockEffectsTxInputToDomain (or_empty (wt_inputs wire)),
      bt_outputs = map_option (map mapWireBlockEffectsTxOutputToDomain) (wt_outputs wire)\<rparr>"

definition mapWireBlockEffectsNewUtxoToDomain :: "wireBlockEffectsNewUtxo \<Rightarrow> blockEffectsNewUtxo" where
  "mapWireBlockEffectsNewUtxoToDomain wire =
     \<lparr>nu_txid = wn_txid wire, nu_vout = wn_vout wire, nu_address = wn_address wire,
      nu_amountSats = wn_amount_sats wire, nu_scriptPubkeyHex = script_pubkey_hex wire\<rparr>"

definition mapBlockEffectsWireToDomain :: "wireBlockEffectsParsed \<Rightarrow> blockEffectsParsed" where
  "mapBlockEffectsWireToDomain wire =
     \<lparr>be_spent = or_empty (w_spent wire),
      newUtxos = map mapWireBlockEffectsNewUtxoToDomain (or_empty (new_utxos wire)),
      be_transactions = map mapWireBlockEffectsTxToDomain (or_empty (w_transactions wire)),
      be_blockTime = (case block_time wire of None \<Rightarrow> 0 | Some t \<Rightarrow> t)\<rparr>"

definition emptyBlockEffectsParsed :: blockEffectsParsed where
  "emptyBlockEffectsParsed = \<lparr>be_spent = [], newUtxos = [], be_transactions = [], be_blockTime = 0\<rparr>"

fun parseBlockEffects :: "wireRaw \<Rightarrow> blockEffectsParsed" where
  "parseBlockEffects (RawText (Some wire)) = mapBlockEffectsWireToDomain wire"
| "parseBlockEffects (RawText None) = emptyBlockEffectsParsed"
| "parseBlockEffects (RawObject wire) = mapBlockEffectsWireToDomain wire"
| "parseBlockEffects RawOther = emptyBlockEffectsParsed"

section \<open>Worker state\<close>

record changeOutput =
  co_address :: string
  co_vout :: "int option"

record labWorker =
  lwState :: labState
  txidToChangeOutput :: "changeOutput js_record"

record createWalletResult =
  cw_externalDescriptor :: string
  cw_internalDescriptor :: string
  cw_firstAddress :: string
  cw_changesetJson :: string

record revealResult =
  rv_address :: "string option"
  rv_changesetJson :: "string option"

record labWasm =
  lab_block_effects :: "string \<Rightarrow> string + wireRaw"
  lab_block_hash :: "string \<Rightarrow> string + string"
  lab_mine_block :: "string \<Rightarrow> int \<Rightarrow> string \<Rightarrow> string list \<Rightarrow> int \<Rightarrow> int \<Rightarrow> string + string"
  lab_address_to_script_pubkey_hex :: "string \<Rightarrow> string + string"
  lab_entity_get_current_external_address ::
    "string \<Rightarrow> string \<Rightarrow> string \<Rightarrow> addressType \<Rightarrow> int \<Rightarrow> string + string"
  lab_entity_reveal_next_external_address ::
    "string \<Rightarrow> string \<Rightarrow> string \<Rightarrow> addressType \<Rightarrow> int \<Rightarrow> string + revealResult"
  generate_mnemonic :: "nat \<Rightarrow> string + string"
  create_lab_entity_wallet :: "string \<Rightarrow> string \<Rightarrow> addressType \<Rightarrow> int \<Rightarrow> string + createWalletResult"
  lab_txid :: "string \<Rightarrow> string + string"
  lab_tx_weight :: "string \<Rightarrow> string + js_number"

definition replaceLabWorkerState :: "labState \<Rightarrow> labWorker \<Rightarrow> labWorker" where
  "replaceLabWorkerState newState w = w\<lparr>lwState := newState\<rparr>"

definition INITIAL_LAB_WORKER :: labWorker where
  "INITIAL_LAB_WORKER = \<lparr>lwState = EMPTY_LAB_STATE, txidToChangeOutput = []\<rparr>"

definition owner_map :: "labWorker \<Rightarrow> labOwner js_record" where
  "owner_map w = or_empty (addressToOwner (lwState w))"

definition owner_view :: "bool \<Rightarrow> labWorker \<Rightarrow> labOwner js_record" where
  "owner_view aliased w = (if aliased then owner_map w else [])"

text \<open>\<open>labWorkerState.addressToOwner = labWorkerState.addressToOwner ?? {}\<close> and the assignment
  of one address.\<close>

definition set_owner :: "string \<Rightarrow> labOwner \<Rightarrow> labWorker \<Rightarrow> labWorker" where
  "set_owner address owner w =
     w\<lparr>lwState := (lwState w)\<lparr>addressToOwner := Some (rec_set address owner (owner_map w))\<rparr>\<rparr>"

definition assertLabReceiverNonNull :: "labOwner option \<Rightarrow> string \<Rightarrow> string + labOwner" where
  "assertLabReceiverNonNull receiver context' =
     (case receiver of None \<Rightarrow> Inl (context' @ '': receiver must not be null'') | Some r \<Rightarrow> Inr r)"

definition remember_change :: "mempoolEntry \<Rightarrow> changeOutput js_record \<Rightarrow> changeOutput js_record" where
  "remember_change entry m =
     (case find_index out_isChange (me_outputsDetail entry) of
        None \<Rightarrow> m
      | Some changeVout \<Rightarrow>
          rec_set (me_txid entry)
            \<lparr>co_address = out_address (me_outputsDetail entry ! changeVout), co_vout = Some (int changeVout)\<rparr> m)"

definition rebuildTxidToChangeAddressFromMempool :: "mempoolEntry list \<Rightarrow> labWorker \<Rightarrow> labWorker" where
  "rebuildTxidToChangeAddressFromMempool mempool' w =
     w\<lparr>txidToChangeOutput := fold remember_change mempool' (txidToChangeOutput w)\<rparr>"

text \<open>A string is truthy when it is not empty.\<close>

definition truthy :: "string option \<Rightarrow> string option" where
  "truthy s = (if s = Some '''' then None else s)"

definition remember_operation :: "labTxOperationRecord \<Rightarrow> changeOutput js_record \<Rightarrow> changeOutput js_record" where
  "remember_operation op m =
     (case truthy (to_changeAddress op) of
        None \<Rightarrow> m
      | Some a \<Rightarrow> rec_set (to_txid op) \<lparr>co_address = a, co_vout = to_changeVout op\<rparr> m)"

definition rebuildTxidToChangeAddressFromState :: "labWorker \<Rightarrow> labWorker" where
  "rebuildTxidToChangeAddressFromState w =
     rebuildTxidToChangeAddressFromMempool (mempool (lwState w))
       (w\<lparr>txidToChangeOutput := fold remember_operation (txOperations (lwState w)) []\<rparr>)"

record txOperationPayload =
  pl_receiver :: "labOwner option"
  pl_primaryToAddress :: "string option"

fun json_object_field :: "json \<Rightarrow> string \<Rightarrow> json option" where
  "json_object_field (JObj fs) k = json_field fs k"
| "json_object_field _ k = None"

text \<open>An empty or unparseable payload gives \<open>{}\<close>; so does \<open>null\<close>, on which the field access
  throws inside the \<open>try\<close>.\<close>

fun parseTxOperationPayload :: "json_text \<Rightarrow> txOperationPayload" where
  "parseTxOperationPayload (JText parsed) =
     \<lparr>pl_receiver = (case json_object_field parsed ''receiver'' of
          None \<Rightarrow> None | Some JNull \<Rightarrow> None | Some raw \<Rightarrow> normalizeJsonOwnerToLabOwner (Some raw)),
      pl_primaryToAddress = (case json_object_field parsed ''primaryToAddress'' of
          Some (JStr s) \<Rightarrow> Some s | _ \<Rightarrow> None)\<rparr>"
| "parseTxOperationPayload _ = \<lparr>pl_receiver = None, pl_primaryToAddress = None\<rparr>"

section \<open>Applying the transactions of a block\<close>

text \<open>The working map from outpoints to outputs, unspent before the block or made in it.\<close>

definition registerBlockTxOutputsInWorkingUtxoMap ::
  "labUtxo js_record \<Rightarrow> string \<Rightarrow> labTxOutputDetail list \<Rightarrow> labUtxo js_record" where
  "registerBlockTxOutputsInWorkingUtxoMap utxoMap txid outputs =
     fold (\<lambda>(vout, output). rec_set (utxoOutpointKey txid vout)
             \<lparr>u_txid = txid, u_vout = vout, u_address = out_address output,
              u_amountSats = out_amountSats output, u_scriptPubkeyHex = ''''\<rparr>)
       (zip (map int [0..<length outputs]) outputs) utxoMap"

definition resolveChangeMetadataForBlockTx ::
  "labWorker \<Rightarrow> blockEffectsTx \<Rightarrow> labTxOperationRecord option \<times> txOperationPayload \<times> changeOutput option" where
  "resolveChangeMetadataForBlockTx w tx =
     (let changeFromOp = List.find (\<lambda>op. to_txid op = bt_txid tx) (txOperations (lwState w));
          payload = parseTxOperationPayload (case changeFromOp of None \<Rightarrow> JEmpty | Some op \<Rightarrow> to_payloadJson op);
          fromOp = (case changeFromOp of
                      None \<Rightarrow> None
                    | Some op \<Rightarrow> map_option (\<lambda>a. \<lparr>co_address = a, co_vout = to_changeVout op\<rparr>)
                                  (truthy (to_changeAddress op)))
      in (changeFromOp, payload, or_else (rec_get (txidToChangeOutput w) (bt_txid tx)) fromOp))"

definition coinbase_input_detail :: labTxInputDetail where
  "coinbase_input_detail =
     \<lparr>in_address = '''', in_amountSats = 0, in_owner = None,
      in_prevTxid = Some LAB_COINBASE_PREV_TXID_HEX, in_prevVout = Some LAB_COINBASE_PREV_VOUT,
      in_sequence = Some LAB_COINBASE_SEQUENCE\<rparr>"

definition input_detail ::
  "labUtxo js_record \<Rightarrow> labOwner js_record \<Rightarrow> blockEffectsTxInput \<Rightarrow> labTxInputDetail option" where
  "input_detail utxoMap owners input =
     map_option (\<lambda>utxo.
         \<lparr>in_address = u_address utxo, in_amountSats = u_amountSats utxo,
          in_owner = lookupOwnerForLabAddress (u_address utxo) owners,
          in_prevTxid = Some (prevTxid input), in_prevVout = Some (prevVout input),
          in_sequence = None\<rparr>)
       (rec_get utxoMap (utxoOutpointKey (prevTxid input) (prevVout input)))"

definition buildInputsForBlockEffectTx ::
  "blockEffectsTx \<Rightarrow> bool \<Rightarrow> labUtxo js_record \<Rightarrow> labOwner js_record \<Rightarrow> labTxInputDetail list \<times> string option" where
  "buildInputsForBlockEffectTx tx isCoinbaseTx utxoMap owners =
     (if isCoinbaseTx then ([coinbase_input_detail], None)
      else let inputs = List.map_filter (input_detail utxoMap owners) (bt_inputs tx)
           in (inputs, (case inputs of [] \<Rightarrow> None | i # _ \<Rightarrow> Some (in_address i))))"

text \<open>The \<open>reduce\<close> that finds the last output paid to the change address.\<close>

fun last_match_index :: "string \<Rightarrow> int \<Rightarrow> int \<Rightarrow> blockEffectsTxOutput list \<Rightarrow> int" where
  "last_match_index changeAddress lastMatchIndex index [] = lastMatchIndex"
| "last_match_index changeAddress lastMatchIndex index (o' # os) =
     last_match_index changeAddress
       (if labBitcoinAddressesEqual (bo_address o') changeAddress then index else lastMatchIndex)
       (index + 1) os"

definition output_is_change :: "string option \<Rightarrow> int option \<Rightarrow> int \<Rightarrow> int \<Rightarrow> blockEffectsTxOutput \<Rightarrow> bool" where
  "output_is_change changeAddress changeVout lastChangeAddressMatchIndex outputIndex output =
     (let isAddressMatch = (case changeAddress of None \<Rightarrow> False
                            | Some a \<Rightarrow> labBitcoinAddressesEqual (bo_address output) a)
      in if changeAddress \<noteq> None then isAddressMatch
         else if changeVout \<noteq> None then changeVout = Some outputIndex
         else isAddressMatch \<and> outputIndex = lastChangeAddressMatchIndex)"

fun build_outputs_loop ::
  "bool \<Rightarrow> string option \<Rightarrow> int option \<Rightarrow> int \<Rightarrow> labOwner option \<Rightarrow> int \<Rightarrow> blockEffectsTxOutput list
     \<Rightarrow> labWorker \<Rightarrow> labTxOutputDetail list \<times> labWorker" where
  "build_outputs_loop aliased changeAddress changeVout lastIndex sender i [] w = ([], w)"
| "build_outputs_loop aliased changeAddress changeVout lastIndex sender i (output # outputs) w =
     (let isChange = output_is_change changeAddress changeVout lastIndex i output;
          owner = (if isChange \<and> sender \<noteq> None then sender
                   else lookupOwnerForLabAddress (bo_address output) (owner_view aliased w));
          w1 = (case sender of
                  Some s \<Rightarrow> if isChange then set_owner (bo_address output) s w else w
                | None \<Rightarrow> w);
          (rest, w2) = build_outputs_loop aliased changeAddress changeVout lastIndex sender (i + 1) outputs w1
      in (\<lparr>out_address = bo_address output, out_amountSats = bo_amountSats output,
           out_isChange = isChange, out_owner = owner\<rparr> # rest, w2))"

definition buildOutputsForBlockEffectTx ::
  "bool \<Rightarrow> blockEffectsTx \<Rightarrow> string option \<Rightarrow> int option \<Rightarrow> labOwner option \<Rightarrow> labWorker
     \<Rightarrow> labTxOutputDetail list \<times> labWorker" where
  "buildOutputsForBlockEffectTx aliased tx changeAddress changeVout sender w =
     (let lastChangeAddressMatchIndex = (case changeAddress of None \<Rightarrow> - 1
            | Some a \<Rightarrow> last_match_index a (- 1) 0 (or_empty (bt_outputs tx)))
      in build_outputs_loop aliased changeAddress changeVout lastChangeAddressMatchIndex sender 0
           (or_empty (bt_outputs tx)) w)"

text \<open>The steps of \<open>resolveReceiverForBlockEffectTx\<close>, in order: the payee recorded by the
  operation that made the transaction, a payment to the sender's own change address, the
  late owner lookup, and the registration of every owned output address.\<close>

definition receiver_from_operation ::
  "blockEffectsTx \<Rightarrow> labTxOutputDetail list \<Rightarrow> txOperationPayload \<Rightarrow> labTxOperationRecord option
     \<Rightarrow> labOwner option \<times> labWorker \<Rightarrow> labOwner option \<times> labWorker" where
  "receiver_from_operation tx outputs payload changeFromOp rw =
     (let (receiver, w) = rw;
          nonChangeOutputs = filter (\<lambda>o'. \<not> out_isChange o') outputs;
          primaryFromOp = (case pl_primaryToAddress payload of None \<Rightarrow> '''' | Some a \<Rightarrow> js_trim a)
      in case (receiver, pl_receiver payload, changeFromOp) of
           (None, Some payee, Some op) \<Rightarrow>
             if to_txid op \<noteq> bt_txid tx then rw
             else (let byAddress = (if primaryFromOp = '''' then None
                        else List.find (\<lambda>o'. labBitcoinAddressesEqual (out_address o') primaryFromOp) outputs);
                       payOutput = (case byAddress of
                            Some o' \<Rightarrow> Some o'
                          | None \<Rightarrow> if length nonChangeOutputs = 1 then Some (nonChangeOutputs ! 0) else None)
                   in case payOutput of
                        None \<Rightarrow> rw
                      | Some o' \<Rightarrow> (Some payee, set_owner (out_address o') payee w))
         | _ \<Rightarrow> rw)"

definition receiver_from_own_change ::
  "labTxOutputDetail list \<Rightarrow> labOwner option \<Rightarrow> labOwner option \<times> labWorker \<Rightarrow> labOwner option \<times> labWorker" where
  "receiver_from_own_change outputs sender rw =
     (let (receiver, w) = rw
      in case (filter (\<lambda>o'. \<not> out_isChange o') outputs, receiver, sender) of
           (first # _, None, Some s) \<Rightarrow>
             if \<exists>o' \<in> set outputs. out_isChange o' \<and> labBitcoinAddressesEqual (out_address o') (out_address first)
             then (Some s, set_owner (out_address first) s w) else rw
         | _ \<Rightarrow> rw)"

definition fill_output_owner :: "labOwner js_record \<Rightarrow> labTxOutputDetail \<Rightarrow> labTxOutputDetail" where
  "fill_output_owner owners output =
     (if \<not> out_isChange output \<and> out_owner output = None
      then output\<lparr>out_owner := lookupOwnerForLabAddress (out_address output) owners\<rparr>
      else output)"

definition register_output_owner :: "labTxOutputDetail \<Rightarrow> labWorker \<Rightarrow> labWorker" where
  "register_output_owner output w =
     (case out_owner output of None \<Rightarrow> w | Some owner \<Rightarrow> set_owner (out_address output) owner w)"

definition resolveReceiverForBlockEffectTx ::
  "bool \<Rightarrow> blockEffectsTx \<Rightarrow> labTxOutputDetail list \<Rightarrow> txOperationPayload \<Rightarrow> labTxOperationRecord option
     \<Rightarrow> labOwner option \<Rightarrow> labWorker \<Rightarrow> labOwner option \<times> labTxOutputDetail list \<times> labWorker" where
  "resolveReceiverForBlockEffectTx aliased tx outputs payload changeFromOp sender w =
     (let receiver0 = (case filter (\<lambda>o'. \<not> out_isChange o') outputs of
              [] \<Rightarrow> None
            | first # _ \<Rightarrow> lookupOwnerForLabAddress (out_address first) (owner_view aliased w));
          (receiver, w1) = receiver_from_own_change outputs sender
              (receiver_from_operation tx outputs payload changeFromOp (receiver0, w));
          outputs1 = map (fill_output_owner (owner_map w1)) outputs
      in (receiver, outputs1, fold register_output_owner outputs1 w1))"

definition tx_prevouts :: "blockEffectsTx \<Rightarrow> (string option \<times> int option) list" where
  "tx_prevouts tx = map (\<lambda>i. (Some (prevTxid i), Some (prevVout i))) (bt_inputs tx)"

definition receiver_context :: "bool \<Rightarrow> string \<Rightarrow> int \<Rightarrow> string" where
  "receiver_context isCoinbaseTx txid height =
     (if isCoinbaseTx then ''applyTransactionsFromBlock coinbase txid='' else ''applyTransactionsFromBlock txid='')
       @ txid @ '' height='' @ int_str height"

definition push_transaction ::
  "int \<Rightarrow> int \<Rightarrow> string \<Rightarrow> labOwner option \<Rightarrow> labOwner \<Rightarrow> labTxInputDetail list \<Rightarrow> labTxOutputDetail list
     \<Rightarrow> labState \<Rightarrow> labState" where
  "push_transaction height blockTime txid sender receiver inputs outputs s =
     s\<lparr>transactions := transactions s @ [\<lparr>tr_txid = txid, tr_sender = sender, tr_receiver = Some receiver\<rparr>],
       txDetails := (if 0 < length inputs \<or> 0 < length outputs
         then txDetails s @ [\<lparr>td_txid = txid, td_blockHeight = height, td_blockTime = blockTime,
                td_confirmations = 0, td_inputs = inputs, td_outputs = outputs\<rparr>]
         else txDetails s)\<rparr>"

text \<open>One round of the loop: the new working map, or the error, and the state.\<close>

definition apply_block_tx ::
  "bool \<Rightarrow> int \<Rightarrow> int \<Rightarrow> blockEffectsTx \<Rightarrow> labUtxo js_record \<Rightarrow> (labWorker, labUtxo js_record) op" where
  "apply_block_tx aliased height blockTime tx utxoMap w =
     (let isCoinbaseTx = isCoinbase (tx_prevouts tx);
          (changeFromOp, payload, changeOutputForTx) = resolveChangeMetadataForBlockTx w tx;
          (inputs, firstInputAddress) =
            buildInputsForBlockEffectTx tx isCoinbaseTx utxoMap (owner_view aliased w);
          sender = (if isCoinbaseTx then None
                    else case truthy firstInputAddress of
                           None \<Rightarrow> None
                         | Some a \<Rightarrow> lookupOwnerForLabAddress a (owner_view aliased w));
          changeAddress = map_option co_address changeOutputForTx;
          changeVout = (case changeOutputForTx of None \<Rightarrow> None | Some c \<Rightarrow> co_vout c);
          (outputs0, w1) = buildOutputsForBlockEffectTx aliased tx changeAddress changeVout sender w;
          (receiver, outputs, w2) =
            resolveReceiverForBlockEffectTx aliased tx outputs0 payload changeFromOp sender w1
      in case assertLabReceiverNonNull receiver (receiver_context isCoinbaseTx (bt_txid tx) height) of
           Inl e \<Rightarrow> (Inl e, w2)
         | Inr r \<Rightarrow>
             (Inr (registerBlockTxOutputsInWorkingUtxoMap utxoMap (bt_txid tx) outputs),
              w2\<lparr>lwState := push_transaction height blockTime (bt_txid tx) sender r inputs outputs (lwState w2),
                 txidToChangeOutput := rec_delete (bt_txid tx) (txidToChangeOutput w2)\<rparr>))"

fun apply_block_txs ::
  "bool \<Rightarrow> int \<Rightarrow> int \<Rightarrow> blockEffectsTx list \<Rightarrow> labUtxo js_record \<Rightarrow> (labWorker, unit) op" where
  "apply_block_txs aliased height blockTime [] utxoMap = op_return ()"
| "apply_block_txs aliased height blockTime (tx # txs) utxoMap =
     op_bind (apply_block_tx aliased height blockTime tx utxoMap)
       (\<lambda>utxoMap'. apply_block_txs aliased height blockTime txs utxoMap')"

definition utxo_working_map :: "labUtxo list \<Rightarrow> labUtxo js_record" where
  "utxo_working_map us = fold (\<lambda>u. rec_set (utxoOutpointKey (u_txid u) (u_vout u)) u) us []"

definition applyTransactionsAndDetailsFromBlock ::
  "blockEffectsTx list \<Rightarrow> int \<Rightarrow> int \<Rightarrow> (labWorker, unit) op" where
  "applyTransactionsAndDetailsFromBlock txs height blockTime w =
     apply_block_txs (addressToOwner (lwState w) \<noteq> None) height blockTime txs
       (utxo_working_map (utxos (lwState w))) w"

section \<open>Applying a block\<close>

definition removeSpentUtxos :: "outpoint list \<Rightarrow> labUtxo list \<Rightarrow> labUtxo list" where
  "removeSpentUtxos spent us =
     fold (\<lambda>p us. filter (\<lambda>u. \<not> (u_txid u = op_txid p \<and> u_vout u = op_vout p)) us) spent us"

definition new_lab_utxo :: "blockEffectsNewUtxo \<Rightarrow> labUtxo" where
  "new_lab_utxo n =
     \<lparr>u_txid = nu_txid n, u_vout = nu_vout n, u_address = nu_address n,
      u_amountSats = nu_amountSats n, u_scriptPubkeyHex = nu_scriptPubkeyHex n\<rparr>"

definition addNewUtxos :: "blockEffectsNewUtxo list \<Rightarrow> labUtxo list \<Rightarrow> labUtxo list" where
  "addNewUtxos ns us = us @ map new_lab_utxo ns"

definition synthesizeCoinbaseTxFromNewUtxos :: "blockEffectsNewUtxo list \<Rightarrow> blockEffectsTx list" where
  "synthesizeCoinbaseTxFromNewUtxos ns =
     (case ns of
        [] \<Rightarrow> []
      | first # _ \<Rightarrow>
          [\<lparr>bt_txid = nu_txid first,
            bt_inputs = [\<lparr>prevTxid = LAB_COINBASE_PREV_TXID_HEX, prevVout = LAB_COINBASE_PREV_VOUT\<rparr>],
            bt_outputs = Some (map (\<lambda>n. \<lparr>bo_address = nu_address n, bo_amountSats = nu_amountSats n\<rparr>)
              (filter (\<lambda>n. nu_txid n = nu_txid first) ns))\<rparr>])"

definition block_transactions :: "blockEffectsParsed \<Rightarrow> blockEffectsTx list" where
  "block_transactions effects =
     (if length (be_transactions effects) = 0 \<and> 0 < length (newUtxos effects)
      then synthesizeCoinbaseTxFromNewUtxos (newUtxos effects) else be_transactions effects)"

definition update_state :: "(labState \<Rightarrow> labState) \<Rightarrow> (labWorker, unit) op" where
  "update_state f = op_modify (\<lambda>w. w\<lparr>lwState := f (lwState w)\<rparr>)"

definition applyBlockEffects ::
  "labWasm \<Rightarrow> string \<Rightarrow> int \<Rightarrow> labAddress option \<Rightarrow> (labWorker, unit) op" where
  "applyBlockEffects W blockHex height newAddress =
     op_bind (op_lift (lab_block_effects W blockHex)) (\<lambda>rawEffects.
       let effects = parseBlockEffects rawEffects
       in op_bind (applyTransactionsAndDetailsFromBlock (block_transactions effects) height (be_blockTime effects)) (\<lambda>_.
          op_bind (update_state (\<lambda>s. s\<lparr>utxos := addNewUtxos (newUtxos effects)
                    (removeSpentUtxos (be_spent effects) (utxos s))\<rparr>)) (\<lambda>_.
          op_bind (update_state (\<lambda>s. s\<lparr>addresses := addresses s @
                    (case newAddress of None \<Rightarrow> [] | Some a \<Rightarrow> [a])\<rparr>)) (\<lambda>_.
          op_bind (op_lift (lab_block_hash W blockHex)) (\<lambda>hash.
          update_state (\<lambda>s. s\<lparr>blocks := blocks s @
            [\<lparr>blockHash = hash, blk_height = height, blockData = blockHex\<rparr>]\<rparr>))))))"

section \<open>Frames\<close>

text \<open>What the owner bookkeeping leaves alone: everything but the owner map.\<close>

definition owner_frame :: "labWorker \<Rightarrow> labWorker" where
  "owner_frame w = w\<lparr>lwState := (lwState w)\<lparr>addressToOwner := None\<rparr>\<rparr>"

text \<open>What applying transactions leaves alone.\<close>

definition tx_frame :: "labState \<Rightarrow> labState" where
  "tx_frame s = s\<lparr>addressToOwner := None, transactions := [], txDetails := []\<rparr>"

definition registered :: "labWorker \<Rightarrow> string set" where
  "registered w = dom (rec_get (owner_map w))"

lemma owner_map_set_owner [simp]: "owner_map (set_owner a x w) = rec_set a x (owner_map w)"
  by (simp add: owner_map_def set_owner_def or_empty_def)

lemma owner_frame_set_owner [simp]: "owner_frame (set_owner a x w) = owner_frame w"
  by (simp add: owner_frame_def set_owner_def)

lemma registered_set_owner [simp]: "registered (set_owner a x w) = insert a (registered w)"
  by (auto simp: registered_def js_rec.get_set dom_def)

lemma addressToOwner_set_owner [simp]: "addressToOwner (lwState (set_owner a x w)) \<noteq> None"
  by (simp add: set_owner_def)

lemma owner_frame_eq_tx_frame:
  assumes "owner_frame w = owner_frame w'"
  shows "tx_frame (lwState w) = tx_frame (lwState w')"
    "transactions (lwState w) = transactions (lwState w')" "txDetails (lwState w) = txDetails (lwState w')"
    "txidToChangeOutput w = txidToChangeOutput w'"
proof -
  have "tx_frame (lwState (owner_frame v)) = tx_frame (lwState v)"
    "transactions (lwState (owner_frame v)) = transactions (lwState v)"
    "txDetails (lwState (owner_frame v)) = txDetails (lwState v)"
    "txidToChangeOutput (owner_frame v) = txidToChangeOutput v" for v
    by (simp_all add: owner_frame_def tx_frame_def)
  with assms show "tx_frame (lwState w) = tx_frame (lwState w')"
      "transactions (lwState w) = transactions (lwState w')" "txDetails (lwState w) = txDetails (lwState w')"
      "txidToChangeOutput w = txidToChangeOutput w'"
    by metis+
qed

section \<open>Outputs and receivers\<close>

lemma build_outputs_loop_spec:
  assumes "build_outputs_loop al ca cv li sender i outs w = (res, w')"
  shows "owner_frame w' = owner_frame w \<and> registered w \<subseteq> registered w' \<and>
    map out_address res = map bo_address outs \<and> map out_amountSats res = map bo_amountSats outs \<and>
    (\<forall>o' \<in> set res. out_isChange o' \<and> sender \<noteq> None \<longrightarrow> out_owner o' = sender)"
  using assms
proof (induction outs arbitrary: i w res)
  case (Cons x xs)
  let ?c = "output_is_change ca cv li i x"
  let ?w1 = "case sender of Some s \<Rightarrow> if ?c then set_owner (bo_address x) s w else w | None \<Rightarrow> w"
  obtain rest where rest: "build_outputs_loop al ca cv li sender (i + 1) xs ?w1 = (rest, w')"
      "res = \<lparr>out_address = bo_address x, out_amountSats = bo_amountSats x, out_isChange = ?c,
         out_owner = (if ?c \<and> sender \<noteq> None then sender
           else lookupOwnerForLabAddress (bo_address x) (owner_view al w))\<rparr> # rest"
    using Cons.prems by (auto simp: Let_def split: prod.splits)
  have "owner_frame ?w1 = owner_frame w" "registered w \<subseteq> registered ?w1"
    by (auto split: option.splits)
  with Cons.IH[OF rest(1)] rest(2) show ?case by auto
qed simp

lemma receiver_steps_frame:
  assumes "receiver_from_operation tx outs pl op (r, w) = (r', w')"
  shows "owner_frame w' = owner_frame w \<and> registered w \<subseteq> registered w'"
  using assms by (auto simp: receiver_from_operation_def Let_def split: option.splits if_splits)

lemma receiver_from_own_change_frame:
  assumes "receiver_from_own_change outs sender (r, w) = (r', w')"
  shows "owner_frame w' = owner_frame w \<and> registered w \<subseteq> registered w'"
  using assms by (auto simp: receiver_from_own_change_def Let_def split: option.splits list.splits if_splits)

lemma register_output_owner_fold:
  "owner_frame (fold register_output_owner outs w) = owner_frame w \<and>
   registered (fold register_output_owner outs w) =
     registered w \<union> out_address ` {o' \<in> set outs. out_owner o' \<noteq> None}"
  by (induction outs arbitrary: w) (auto simp: register_output_owner_def split: option.splits)

lemma fill_output_owner_simps [simp]:
  "out_address (fill_output_owner m o') = out_address o'"
  "out_amountSats (fill_output_owner m o') = out_amountSats o'"
  "out_isChange (fill_output_owner m o') = out_isChange o'"
  "out_isChange o' \<Longrightarrow> out_owner (fill_output_owner m o') = out_owner o'"
  by (auto simp: fill_output_owner_def)

lemma resolveReceiver_spec:
  assumes "resolveReceiverForBlockEffectTx al tx outs pl op sender w = (r, res, w')"
  shows "owner_frame w' = owner_frame w \<and> registered w \<subseteq> registered w' \<and>
    (\<forall>o' \<in> set res. out_owner o' \<noteq> None \<longrightarrow> out_address o' \<in> registered w') \<and>
    (\<exists>m. res = map (fill_output_owner m) outs)"
proof -
  define r0 where "r0 = (case filter (\<lambda>o'. \<not> out_isChange o') outs of [] \<Rightarrow> None
    | first # _ \<Rightarrow> lookupOwnerForLabAddress (out_address first) (owner_view al w))"
  obtain r1 w0 where s1: "receiver_from_operation tx outs pl op (r0, w) = (r1, w0)" by fastforce
  obtain r2 w1 where s2: "receiver_from_own_change outs sender (r1, w0) = (r2, w1)" by fastforce
  note steps = s1 s2
  have "res = map (fill_output_owner (owner_map w1)) outs" "w' = fold register_output_owner res w1"
    using assms s1 s2 unfolding resolveReceiverForBlockEffectTx_def r0_def[symmetric] by (auto simp: Let_def)
  then show ?thesis
    using receiver_steps_frame[OF steps(1)] receiver_from_own_change_frame[OF steps(2)]
      register_output_owner_fold[of res w1] by auto
qed

section \<open>The working map\<close>

lemma register_outputs_snoc:
  "registerBlockTxOutputsInWorkingUtxoMap um txid (xs @ [x]) =
     rec_set (utxoOutpointKey txid (int (length xs)))
       \<lparr>u_txid = txid, u_vout = int (length xs), u_address = out_address x,
        u_amountSats = out_amountSats x, u_scriptPubkeyHex = ''''\<rparr>
       (registerBlockTxOutputsInWorkingUtxoMap um txid xs)"
  by (simp add: registerBlockTxOutputsInWorkingUtxoMap_def)

text \<open>A later transaction of the same block finds the outputs of an earlier one.\<close>

lemma register_outputs_own:
  assumes "i < length outs"
  shows "rec_get (registerBlockTxOutputsInWorkingUtxoMap um txid outs) (utxoOutpointKey txid (int i)) =
    Some \<lparr>u_txid = txid, u_vout = int i, u_address = out_address (outs ! i),
      u_amountSats = out_amountSats (outs ! i), u_scriptPubkeyHex = ''''\<rparr>"
  using assms
proof (induction outs rule: rev_induct)
  case (snoc x xs)
  then show ?case by (cases "i = length xs") (simp_all add: register_outputs_snoc js_rec.get_set nth_append)
qed simp

lemma register_outputs_other:
  assumes "t \<noteq> txid"
  shows "rec_get (registerBlockTxOutputsInWorkingUtxoMap um txid outs) (utxoOutpointKey t v) =
    rec_get um (utxoOutpointKey t v)"
proof (induction outs rule: rev_induct)
  case Nil
  show ?case by (simp add: registerBlockTxOutputsInWorkingUtxoMap_def)
next
  case (snoc x xs)
  then show ?case using assms by (simp add: register_outputs_snoc js_rec.get_set)
qed

lemma utxo_working_map_get:
  assumes "distinct (map (\<lambda>u. (u_txid u, u_vout u)) us)" and "u \<in> set us"
  shows "rec_get (utxo_working_map us) (utxoOutpointKey (u_txid u) (u_vout u)) = Some u"
  using assms
proof (induction us rule: rev_induct)
  case (snoc x xs)
  have "utxo_working_map (xs @ [x]) = rec_set (utxoOutpointKey (u_txid x) (u_vout x)) x (utxo_working_map xs)"
    by (simp add: utxo_working_map_def)
  with snoc show ?case by (cases "u = x") (auto simp: js_rec.get_set image_iff)
qed simp

section \<open>One transaction\<close>

lemma push_transaction_frame [simp]: "tx_frame (push_transaction h t txid s r is os st) = tx_frame st"
  by (simp add: push_transaction_def tx_frame_def)

lemma txidToChange_update_owner_map [simp]:
  "owner_map (w\<lparr>lwState := push_transaction h t txid s r is os (lwState w), txidToChangeOutput := m\<rparr>) = owner_map w"
  by (simp add: owner_map_def push_transaction_def)

text \<open>What one round does: without a receiver it throws; with one it appends a row and the
  details built from the transaction. The change outputs belong to the sender, every owned
  address is registered, and the working map gains the outputs.\<close>

lemma apply_block_tx_elim:
  obtains sender rcv inputs outputs w2 msg where
    "apply_block_tx al h t tx um w =
       (case rcv of
          None \<Rightarrow> (Inl msg, w2)
        | Some r \<Rightarrow> (Inr (registerBlockTxOutputsInWorkingUtxoMap um (bt_txid tx) outputs),
            w2\<lparr>lwState := push_transaction h t (bt_txid tx) sender r inputs outputs (lwState w2),
               txidToChangeOutput := rec_delete (bt_txid tx) (txidToChangeOutput w2)\<rparr>))"
    "owner_frame w2 = owner_frame w" "registered w \<subseteq> registered w2"
    "inputs = fst (buildInputsForBlockEffectTx tx (isCoinbase (tx_prevouts tx)) um (owner_view al w))"
    "map out_address outputs = map bo_address (or_empty (bt_outputs tx))"
    "map out_amountSats outputs = map bo_amountSats (or_empty (bt_outputs tx))"
    "\<forall>o' \<in> set outputs. out_isChange o' \<and> sender \<noteq> None \<longrightarrow> out_owner o' = sender"
    "\<forall>o' \<in> set outputs. out_owner o' \<noteq> None \<longrightarrow> out_address o' \<in> registered w2"
proof -
  obtain cf pl co where md: "resolveChangeMetadataForBlockTx w tx = (cf, pl, co)"
    by (cases "resolveChangeMetadataForBlockTx w tx") auto
  obtain inputs fa where ins: "buildInputsForBlockEffectTx tx (isCoinbase (tx_prevouts tx)) um (owner_view al w) =
      (inputs, fa)" by fastforce
  define sender where "sender = (if isCoinbase (tx_prevouts tx) then None
    else case truthy fa of None \<Rightarrow> None | Some a \<Rightarrow> lookupOwnerForLabAddress a (owner_view al w))"
  obtain outs0 w1 where outs0: "buildOutputsForBlockEffectTx al tx (map_option co_address co)
      (case co of None \<Rightarrow> None | Some c \<Rightarrow> co_vout c) sender w = (outs0, w1)" by fastforce
  obtain rcv outs w2 where rs: "resolveReceiverForBlockEffectTx al tx outs0 pl cf sender w1 = (rcv, outs, w2)"
    by (cases "resolveReceiverForBlockEffectTx al tx outs0 pl cf sender w1") auto
  let ?ctx = "receiver_context (isCoinbase (tx_prevouts tx)) (bt_txid tx) h"
  have eq: "apply_block_tx al h t tx um w =
       (case rcv of
          None \<Rightarrow> (Inl (?ctx @ '': receiver must not be null''), w2)
        | Some r \<Rightarrow> (Inr (registerBlockTxOutputsInWorkingUtxoMap um (bt_txid tx) outs),
            w2\<lparr>lwState := push_transaction h t (bt_txid tx) sender r inputs outs (lwState w2),
               txidToChangeOutput := rec_delete (bt_txid tx) (txidToChangeOutput w2)\<rparr>))"
    unfolding apply_block_tx_def md ins Let_def prod.case sender_def[symmetric] outs0 rs
    by (simp add: assertLabReceiverNonNull_def split: option.splits)
  have o1: "owner_frame w1 = owner_frame w \<and> registered w \<subseteq> registered w1 \<and>
      map out_address outs0 = map bo_address (or_empty (bt_outputs tx)) \<and>
      map out_amountSats outs0 = map bo_amountSats (or_empty (bt_outputs tx)) \<and>
      (\<forall>o' \<in> set outs0. out_isChange o' \<and> sender \<noteq> None \<longrightarrow> out_owner o' = sender)"
    by (rule build_outputs_loop_spec[OF outs0[unfolded buildOutputsForBlockEffectTx_def Let_def]])
  obtain m where o2: "owner_frame w2 = owner_frame w1" "registered w1 \<subseteq> registered w2"
      "\<forall>o' \<in> set outs. out_owner o' \<noteq> None \<longrightarrow> out_address o' \<in> registered w2"
      "outs = map (fill_output_owner m) outs0"
    using resolveReceiver_spec[OF rs] by blast
  show ?thesis
  proof (rule that[OF eq])
    show "\<forall>o' \<in> set outs. out_isChange o' \<and> sender \<noteq> None \<longrightarrow> out_owner o' = sender"
      using o1 unfolding o2(4) by auto
  qed (use o1 o2 ins in \<open>auto simp: comp_def\<close>)
qed

section \<open>Invariants of the chain rows\<close>

definition receivers_known :: "labState \<Rightarrow> bool" where
  "receivers_known s \<longleftrightarrow> (\<forall>r \<in> set (transactions s). tr_receiver r \<noteq> None)"

definition outputs_registered :: "labWorker \<Rightarrow> bool" where
  "outputs_registered w \<longleftrightarrow>
     (\<forall>d \<in> set (txDetails (lwState w)). \<forall>o' \<in> set (td_outputs d).
        out_owner o' \<noteq> None \<longrightarrow> out_address o' \<in> registered w)"

definition rows_ok :: "labWorker \<Rightarrow> bool" where
  "rows_ok w \<longleftrightarrow> receivers_known (lwState w) \<and> outputs_registered w"

lemma apply_block_tx_keeps:
  "op_keeps rows_ok (apply_block_tx al h t tx um)"
  unfolding op_keeps_def
proof (intro allI impI)
  fix w
  assume ok: "rows_ok w"
  obtain sender rcv inputs outputs w2 msg where r:
    "apply_block_tx al h t tx um w =
       (case rcv of
          None \<Rightarrow> (Inl msg, w2)
        | Some r \<Rightarrow> (Inr (registerBlockTxOutputsInWorkingUtxoMap um (bt_txid tx) outputs),
            w2\<lparr>lwState := push_transaction h t (bt_txid tx) sender r inputs outputs (lwState w2),
               txidToChangeOutput := rec_delete (bt_txid tx) (txidToChangeOutput w2)\<rparr>))"
    "owner_frame w2 = owner_frame w" "registered w \<subseteq> registered w2"
    "\<forall>o' \<in> set outputs. out_owner o' \<noteq> None \<longrightarrow> out_address o' \<in> registered w2"
    by (rule apply_block_tx_elim) blast
  note fr = owner_frame_eq_tx_frame[OF r(2)]
  have "rows_ok w2"
    using ok r(3) by (auto simp: rows_ok_def receivers_known_def outputs_registered_def fr)
  then show "rows_ok (snd (apply_block_tx al h t tx um w))"
    using r(4) unfolding r(1)
    by (cases rcv) (auto simp: rows_ok_def receivers_known_def outputs_registered_def registered_def
        push_transaction_def owner_map_def)
qed

lemma apply_block_tx_receivers:
  "op_keeps (\<lambda>w. receivers_known (lwState w)) (apply_block_tx al h t tx um)"
  unfolding op_keeps_def
proof (intro allI impI)
  fix w :: labWorker
  assume ok: "receivers_known (lwState w)"
  obtain sender rcv inputs outputs w2 msg where r:
    "apply_block_tx al h t tx um w =
       (case rcv of
          None \<Rightarrow> (Inl msg, w2)
        | Some r \<Rightarrow> (Inr (registerBlockTxOutputsInWorkingUtxoMap um (bt_txid tx) outputs),
            w2\<lparr>lwState := push_transaction h t (bt_txid tx) sender r inputs outputs (lwState w2),
               txidToChangeOutput := rec_delete (bt_txid tx) (txidToChangeOutput w2)\<rparr>))"
    "owner_frame w2 = owner_frame w"
    by (rule apply_block_tx_elim) blast
  show "receivers_known (lwState (snd (apply_block_tx al h t tx um w)))"
    using ok owner_frame_eq_tx_frame(2)[OF r(2)] unfolding r(1)
    by (cases rcv) (auto simp: receivers_known_def push_transaction_def)
qed

lemma apply_block_tx_frame:
  "tx_frame (lwState (snd (apply_block_tx al h t tx um w))) = tx_frame (lwState w)"
proof -
  obtain sender rcv inputs outputs w2 msg where r:
    "apply_block_tx al h t tx um w =
       (case rcv of
          None \<Rightarrow> (Inl msg, w2)
        | Some r \<Rightarrow> (Inr (registerBlockTxOutputsInWorkingUtxoMap um (bt_txid tx) outputs),
            w2\<lparr>lwState := push_transaction h t (bt_txid tx) sender r inputs outputs (lwState w2),
               txidToChangeOutput := rec_delete (bt_txid tx) (txidToChangeOutput w2)\<rparr>))"
    "owner_frame w2 = owner_frame w"
    by (rule apply_block_tx_elim) blast
  then show ?thesis using owner_frame_eq_tx_frame[OF r(2)] by (cases rcv) simp_all
qed

lemma apply_block_txs_frame:
  "tx_frame (lwState (snd (apply_block_txs al h t txs um w))) = tx_frame (lwState w)"
proof (induction txs arbitrary: um w)
  case (Cons tx txs)
  then show ?case
    using apply_block_tx_frame[of al h t tx um w]
    by (auto simp: op_bind_apply split: prod.splits sum.splits)
qed simp

section \<open>The ledger after a block\<close>

lemma tx_frame_fields:
  assumes "tx_frame s = tx_frame s'"
  shows "blocks s = blocks s'" "utxos s = utxos s'" "addresses s = addresses s'"
    "entities s = entities s'" "mempool s = mempool s'" "mineOperations s = mineOperations s'"
    "txOperations s = txOperations s'" "blockWeightLimit s = blockWeightLimit s'"
    "minerSubsidySats s = minerSubsidySats s'"
proof -
  have "blocks (tx_frame v) = blocks v" "utxos (tx_frame v) = utxos v" "addresses (tx_frame v) = addresses v"
    "entities (tx_frame v) = entities v" "mempool (tx_frame v) = mempool v"
    "mineOperations (tx_frame v) = mineOperations v" "txOperations (tx_frame v) = txOperations v"
    "blockWeightLimit (tx_frame v) = blockWeightLimit v" "minerSubsidySats (tx_frame v) = minerSubsidySats v" for v
    by (simp_all add: tx_frame_def)
  with assms show "blocks s = blocks s'" "utxos s = utxos s'" "addresses s = addresses s'"
    "entities s = entities s'" "mempool s = mempool s'" "mineOperations s = mineOperations s'"
    "txOperations s = txOperations s'" "blockWeightLimit s = blockWeightLimit s'"
    "minerSubsidySats s = minerSubsidySats s'"
    by metis+
qed

definition utxo_point :: "labUtxo \<Rightarrow> outpoint" where
  "utxo_point u = \<lparr>op_txid = u_txid u, op_vout = u_vout u\<rparr>"

lemma removeSpentUtxos_filter: "removeSpentUtxos spent us = filter (\<lambda>u. utxo_point u \<notin> set spent) us"
proof (induction spent arbitrary: us)
  case (Cons p spent)
  have "(\<lambda>u. \<not> (u_txid u = op_txid p \<and> u_vout u = op_vout p)) = (\<lambda>u. utxo_point u \<noteq> p)"
    by (cases p) (auto simp: utxo_point_def)
  then have "removeSpentUtxos (p # spent) us = removeSpentUtxos spent (filter (\<lambda>u. utxo_point u \<noteq> p) us)"
    by (simp only: removeSpentUtxos_def fold_Cons comp_apply)
  with Cons show ?case by (auto intro: filter_cong)
qed (simp add: removeSpentUtxos_def)

lemma applyTransactions_frame:
  "tx_frame (lwState (snd (applyTransactionsAndDetailsFromBlock txs h t w))) = tx_frame (lwState w)"
  by (simp add: applyTransactionsAndDetailsFromBlock_def apply_block_txs_frame)

lemma update_state_apply [simp]: "update_state f w = (Inr (), w\<lparr>lwState := f (lwState w)\<rparr>)"
  by (simp add: update_state_def)

text \<open>The state after a successful application, over the state \<open>w1\<close> the transactions left.\<close>

lemma applyBlockEffects_success:
  assumes "applyBlockEffects W hex h na w = (Inr (), w')"
  obtains raw hash w1 where "lab_block_effects W hex = Inr raw" "lab_block_hash W hex = Inr hash"
    "applyTransactionsAndDetailsFromBlock (block_transactions (parseBlockEffects raw)) h
       (be_blockTime (parseBlockEffects raw)) w = (Inr (), w1)"
    "w' = w1\<lparr>lwState := (lwState w1)
       \<lparr>utxos := addNewUtxos (newUtxos (parseBlockEffects raw))
          (removeSpentUtxos (be_spent (parseBlockEffects raw)) (utxos (lwState w1))),
        addresses := addresses (lwState w1) @ (case na of None \<Rightarrow> [] | Some a \<Rightarrow> [a]),
        blocks := blocks (lwState w1) @ [\<lparr>blockHash = hash, blk_height = h, blockData = hex\<rparr>]\<rparr>\<rparr>"
  using assms unfolding applyBlockEffects_def
  by (auto simp: op_bind_apply Let_def split: prod.splits sum.splits)

section \<open>Invariants over the chain rows, once and for all\<close>

text \<open>A predicate that one transaction of a block preserves, that reads nothing but the rows
  and the owner map, and that survives new owners, is preserved by whole blocks and runs.\<close>

locale row_invariant =
  fixes I :: "labWorker \<Rightarrow> bool"
  assumes tx_keeps: "op_keeps I (apply_block_tx al h t tx um)"
    and row_cong: "transactions (lwState w) = transactions (lwState w') \<Longrightarrow>
      txDetails (lwState w) = txDetails (lwState w') \<Longrightarrow>
      addressToOwner (lwState w) = addressToOwner (lwState w') \<Longrightarrow> I w = I w'"
    and owner_keeps: "I w \<Longrightarrow> I (set_owner a x w)"
begin

lemma block_txs_keep: "op_keeps I (apply_block_txs al h t txs um)"
  by (induction txs arbitrary: um) (auto intro: op_keeps_bind tx_keeps)

lemma transactions_keep: "op_keeps I (applyTransactionsAndDetailsFromBlock txs h t)"
  using block_txs_keep by (auto simp: op_keeps_def applyTransactionsAndDetailsFromBlock_def)

lemma update_keeps:
  assumes "\<And>s. transactions (f s) = transactions s \<and> txDetails (f s) = txDetails s \<and>
    addressToOwner (f s) = addressToOwner s"
  shows "op_keeps I (update_state f)"
  unfolding update_state_def
proof (rule op_keeps_modify)
  fix w
  assume "I w"
  then show "I (w\<lparr>lwState := f (lwState w)\<rparr>)"
    using row_cong[of "w\<lparr>lwState := f (lwState w)\<rparr>" w] assms by simp
qed

lemma block_keeps: "op_keeps I (applyBlockEffects W hex h na)"
  unfolding applyBlockEffects_def Let_def
  by (intro op_keeps_bind op_keeps_lift transactions_keep update_keeps) simp_all

end

lemma rows_ok_cong:
  assumes "transactions (lwState w) = transactions (lwState w')" "txDetails (lwState w) = txDetails (lwState w')"
    "addressToOwner (lwState w) = addressToOwner (lwState w')"
  shows "rows_ok w = rows_ok w'"
  using assms by (simp add: rows_ok_def receivers_known_def outputs_registered_def registered_def owner_map_def)

lemma rows_ok_set_owner: "rows_ok w \<Longrightarrow> rows_ok (set_owner a x w)"
  using owner_frame_eq_tx_frame(2,3)[OF owner_frame_set_owner[of a x w]]
  by (auto simp: rows_ok_def receivers_known_def outputs_registered_def)

interpretation rows: row_invariant rows_ok
  by unfold_locales (rule apply_block_tx_keeps, erule (2) rows_ok_cong, erule rows_ok_set_owner)

interpretation receivers: row_invariant "\<lambda>w. receivers_known (lwState w)"
proof
  fix al h t tx um
  show "op_keeps (\<lambda>w. receivers_known (lwState w)) (apply_block_tx al h t tx um)"
    by (rule apply_block_tx_receivers)
qed (auto simp: receivers_known_def set_owner_def)

section \<open>Spending inside the block\<close>

lemma apply_block_txs_details_mono:
  "set (txDetails (lwState w)) \<subseteq> set (txDetails (lwState (snd (apply_block_txs al h t txs um w))))"
proof (induction txs arbitrary: um w)
  case (Cons tx txs)
  obtain sender rcv inputs outputs w2 msg where r:
    "apply_block_tx al h t tx um w =
       (case rcv of
          None \<Rightarrow> (Inl msg, w2)
        | Some r \<Rightarrow> (Inr (registerBlockTxOutputsInWorkingUtxoMap um (bt_txid tx) outputs),
            w2\<lparr>lwState := push_transaction h t (bt_txid tx) sender r inputs outputs (lwState w2),
               txidToChangeOutput := rec_delete (bt_txid tx) (txidToChangeOutput w2)\<rparr>))"
    "owner_frame w2 = owner_frame w"
    by (rule apply_block_tx_elim) blast
  then have "set (txDetails (lwState w)) \<subseteq> set (txDetails (lwState (snd (apply_block_tx al h t tx um w))))"
    using owner_frame_eq_tx_frame(3)[OF r(2)] by (cases rcv) (auto simp: push_transaction_def)
  with Cons show ?case by (fastforce simp: op_bind_apply split: prod.splits sum.splits)
qed simp

text \<open>An output the working map knows resolves the input that spends it, unless a
  transaction in between reuses its id.\<close>

lemma apply_block_txs_input:
  assumes "fst (apply_block_txs al h t (mid @ b # post) um w) = Inr ()"
    and "rec_get um (utxoOutpointKey txid v) = Some u"
    and "txid \<notin> bt_txid ` set mid"
    and "\<lparr>prevTxid = txid, prevVout = v\<rparr> \<in> set (bt_inputs b)"
    and "\<not> isCoinbase (tx_prevouts b)"
  shows "\<exists>d \<in> set (txDetails (lwState (snd (apply_block_txs al h t (mid @ b # post) um w)))).
    td_txid d = bt_txid b \<and> (\<exists>i \<in> set (td_inputs d). in_prevTxid i = Some txid \<and>
      in_prevVout i = Some v \<and> in_amountSats i = u_amountSats u \<and> in_address i = u_address u)"
  using assms(1,2,3)
proof (induction mid arbitrary: um w)
  case Nil
  obtain sender rcv inputs outputs w2 msg where r:
    "apply_block_tx al h t b um w =
       (case rcv of
          None \<Rightarrow> (Inl msg, w2)
        | Some r \<Rightarrow> (Inr (registerBlockTxOutputsInWorkingUtxoMap um (bt_txid b) outputs),
            w2\<lparr>lwState := push_transaction h t (bt_txid b) sender r inputs outputs (lwState w2),
               txidToChangeOutput := rec_delete (bt_txid b) (txidToChangeOutput w2)\<rparr>))"
    "inputs = fst (buildInputsForBlockEffectTx b (isCoinbase (tx_prevouts b)) um (owner_view al w))"
    by (rule apply_block_tx_elim) blast
  then obtain rr where rcv: "rcv = Some rr" using Nil(1) by (cases rcv) (auto simp: op_bind_apply)
  let ?i = "\<lparr>in_address = u_address u, in_amountSats = u_amountSats u,
     in_owner = lookupOwnerForLabAddress (u_address u) (owner_view al w),
     in_prevTxid = Some txid, in_prevVout = Some v, in_sequence = None\<rparr>"
  have i: "?i \<in> set inputs"
    using assms(4,5) Nil(2) r(2)
    by (auto simp: buildInputsForBlockEffectTx_def Let_def set_map_filter input_detail_def intro!: bexI)
  let ?d = "\<lparr>td_txid = bt_txid b, td_blockHeight = h, td_blockTime = t, td_confirmations = 0,
     td_inputs = inputs, td_outputs = outputs\<rparr>"
  have "?d \<in> set (txDetails (lwState (snd (apply_block_tx al h t b um w))))"
    using r(1) rcv i by (auto simp: push_transaction_def length_pos_if_in_set)
  then have "?d \<in> set (txDetails (lwState (snd (apply_block_txs al h t ([] @ b # post) um w))))"
    using apply_block_txs_details_mono r(1) rcv by (fastforce simp: op_bind_apply)
  with i show ?case by (intro bexI[of _ ?d]) (auto intro!: bexI[of _ ?i])
next
  case (Cons m mid)
  obtain sender rcv inputs outputs w2 msg where r:
    "apply_block_tx al h t m um w =
       (case rcv of
          None \<Rightarrow> (Inl msg, w2)
        | Some r \<Rightarrow> (Inr (registerBlockTxOutputsInWorkingUtxoMap um (bt_txid m) outputs),
            w2\<lparr>lwState := push_transaction h t (bt_txid m) sender r inputs outputs (lwState w2),
               txidToChangeOutput := rec_delete (bt_txid m) (txidToChangeOutput w2)\<rparr>))"
    by (rule apply_block_tx_elim) blast
  then obtain rr where rcv: "rcv = Some rr" using Cons.prems(1) by (cases rcv) (auto simp: op_bind_apply)
  show ?case
    using Cons.IH Cons.prems r rcv by (auto simp: op_bind_apply register_outputs_other)
qed

lemma apply_block_txs_chain:
  assumes "fst (apply_block_txs al h t (pre @ a # mid @ b # post) um w) = Inr ()"
    and "i < length (or_empty (bt_outputs a))"
    and "bt_txid a \<notin> bt_txid ` set mid"
    and "\<lparr>prevTxid = bt_txid a, prevVout = int i\<rparr> \<in> set (bt_inputs b)"
    and "\<not> isCoinbase (tx_prevouts b)"
  shows "\<exists>d \<in> set (txDetails (lwState (snd (apply_block_txs al h t (pre @ a # mid @ b # post) um w)))).
    td_txid d = bt_txid b \<and> (\<exists>inp \<in> set (td_inputs d). in_prevTxid inp = Some (bt_txid a) \<and>
      in_prevVout inp = Some (int i) \<and> in_amountSats inp = bo_amountSats (or_empty (bt_outputs a) ! i) \<and>
      in_address inp = bo_address (or_empty (bt_outputs a) ! i))"
  using assms(1)
proof (induction pre arbitrary: um w)
  case (Cons m pre)
  then show ?case by (auto simp: op_bind_apply split: prod.splits sum.splits)
next
  case Nil
  obtain sender rcv inputs outputs w2 msg where r:
    "apply_block_tx al h t a um w =
       (case rcv of
          None \<Rightarrow> (Inl msg, w2)
        | Some r \<Rightarrow> (Inr (registerBlockTxOutputsInWorkingUtxoMap um (bt_txid a) outputs),
            w2\<lparr>lwState := push_transaction h t (bt_txid a) sender r inputs outputs (lwState w2),
               txidToChangeOutput := rec_delete (bt_txid a) (txidToChangeOutput w2)\<rparr>))"
    "map out_address outputs = map bo_address (or_empty (bt_outputs a))"
    "map out_amountSats outputs = map bo_amountSats (or_empty (bt_outputs a))"
    by (rule apply_block_tx_elim) blast
  then obtain rr where rcv: "rcv = Some rr" using Nil by (cases rcv) (auto simp: op_bind_apply)
  have len: "i < length outputs" using r(2) assms(2) by (metis length_map)
  have out: "out_address (outputs ! i) = bo_address (or_empty (bt_outputs a) ! i)"
      "out_amountSats (outputs ! i) = bo_amountSats (or_empty (bt_outputs a) ! i)"
    using r(2,3) len assms(2) by (metis nth_map)+
  show ?case
    using apply_block_txs_input[OF _ register_outputs_own[OF len] assms(3,4,5)] Nil r(1) rcv
    by (auto simp: op_bind_apply out)
qed

lemma applyBlockEffects_fields:
  assumes "applyBlockEffects W hex h na w = (Inr (), w')"
  shows "\<exists>raw hash. lab_block_effects W hex = Inr raw \<and> lab_block_hash W hex = Inr hash \<and>
    utxos (lwState w') = filter (\<lambda>u. utxo_point u \<notin> set (be_spent (parseBlockEffects raw))) (utxos (lwState w)) @
      map new_lab_utxo (newUtxos (parseBlockEffects raw)) \<and>
    blocks (lwState w') = blocks (lwState w) @ [\<lparr>blockHash = hash, blk_height = h, blockData = hex\<rparr>] \<and>
    entities (lwState w') = entities (lwState w) \<and> mempool (lwState w') = mempool (lwState w) \<and>
    mineOperations (lwState w') = mineOperations (lwState w) \<and>
    txOperations (lwState w') = txOperations (lwState w) \<and>
    blockWeightLimit (lwState w') = blockWeightLimit (lwState w) \<and>
    minerSubsidySats (lwState w') = minerSubsidySats (lwState w)"
  using assms
proof (rule applyBlockEffects_success)
  fix raw hash w1
  let ?e = "parseBlockEffects raw"
  assume "lab_block_effects W hex = Inr raw" "lab_block_hash W hex = Inr hash"
    and app: "applyTransactionsAndDetailsFromBlock (block_transactions ?e) h (be_blockTime ?e) w = (Inr (), w1)"
    and "w' = w1\<lparr>lwState := (lwState w1)
       \<lparr>utxos := addNewUtxos (newUtxos ?e) (removeSpentUtxos (be_spent ?e) (utxos (lwState w1))),
        addresses := addresses (lwState w1) @ (case na of None \<Rightarrow> [] | Some a \<Rightarrow> [a]),
        blocks := blocks (lwState w1) @ [\<lparr>blockHash = hash, blk_height = h, blockData = hex\<rparr>]\<rparr>\<rparr>"
  moreover have "tx_frame (lwState w1) = tx_frame (lwState w)"
    using applyTransactions_frame[of "block_transactions ?e" h "be_blockTime ?e" w] app by simp
  ultimately show ?thesis
    using tx_frame_fields[of "lwState w1" "lwState w"]
    by (simp add: removeSpentUtxos_filter addNewUtxos_def)
qed

text \<open>A failed application leaves the blocks, the mempool and the logs as they were.\<close>

lemma applyBlockEffects_error_fields:
  assumes "applyBlockEffects W hex h na w = (Inl e, w')"
  shows "blocks (lwState w') = blocks (lwState w)" "entities (lwState w') = entities (lwState w)"
    "mempool (lwState w') = mempool (lwState w)" "mineOperations (lwState w') = mineOperations (lwState w)"
    "txOperations (lwState w') = txOperations (lwState w)"
proof -
  have fr: "blocks (lwState w1) = blocks (lwState w) \<and> entities (lwState w1) = entities (lwState w) \<and>
      mempool (lwState w1) = mempool (lwState w) \<and> mineOperations (lwState w1) = mineOperations (lwState w) \<and>
      txOperations (lwState w1) = txOperations (lwState w)"
    if "applyTransactionsAndDetailsFromBlock txs h t w = (r, w1)" for txs t r w1
    using tx_frame_fields[of "lwState w1" "lwState w"] applyTransactions_frame[of txs h t w] that by simp
  show "blocks (lwState w') = blocks (lwState w)" "entities (lwState w') = entities (lwState w)"
    "mempool (lwState w') = mempool (lwState w)" "mineOperations (lwState w') = mineOperations (lwState w)"
    "txOperations (lwState w') = txOperations (lwState w)"
    using assms unfolding applyBlockEffects_def
    by (auto simp: op_bind_apply Let_def dest!: fr split: prod.splits sum.splits)
qed

section \<open>Properties\<close>

text \<open>C17: applying a block to the ledger. When it succeeds, the unspent outputs are the old
  ones the block does not spend followed by the ones it creates, the block is the new tip,
  and entities, mempool and operation logs are untouched.\<close>

theorem applyBlockEffects_ledger:
  assumes "applyBlockEffects W hex h na w = (Inr (), w')"
  shows "\<exists>raw hash. lab_block_effects W hex = Inr raw \<and> lab_block_hash W hex = Inr hash \<and>
    utxos (lwState w') = filter (\<lambda>u. utxo_point u \<notin> set (be_spent (parseBlockEffects raw))) (utxos (lwState w)) @
      map new_lab_utxo (newUtxos (parseBlockEffects raw)) \<and>
    blocks (lwState w') = blocks (lwState w) @ [\<lparr>blockHash = hash, blk_height = h, blockData = hex\<rparr>] \<and>
    entities (lwState w') = entities (lwState w) \<and> mempool (lwState w') = mempool (lwState w) \<and>
    mineOperations (lwState w') = mineOperations (lwState w) \<and>
    txOperations (lwState w') = txOperations (lwState w) \<and>
    blockWeightLimit (lwState w') = blockWeightLimit (lwState w) \<and>
    minerSubsidySats (lwState w') = minerSubsidySats (lwState w)"
  by (rule applyBlockEffects_fields[OF assms])

text \<open>whatever block is applied, and even when the application throws half-way, no
  transaction row ever lacks a receiver and every output address with a known owner stays
  registered in the owner map.\<close>

theorem applyBlockEffects_rows_ok:
  "op_keeps rows_ok (applyBlockEffects W hex h na)"
  by (rule rows.block_keeps)

text \<open>a transaction may spend an output created earlier in the same block: its recorded
  input carries the amount and address of that output.\<close>

theorem in_block_spend_resolved:
  assumes "fst (applyTransactionsAndDetailsFromBlock (pre @ a # mid @ b # post) h t w) = Inr ()"
    and "i < length (or_empty (bt_outputs a))"
    and "bt_txid a \<notin> bt_txid ` set mid"
    and "\<lparr>prevTxid = bt_txid a, prevVout = int i\<rparr> \<in> set (bt_inputs b)"
    and "\<not> isCoinbase (tx_prevouts b)"
  shows "\<exists>d \<in> set (txDetails (lwState (snd (applyTransactionsAndDetailsFromBlock (pre @ a # mid @ b # post) h t w)))).
    td_txid d = bt_txid b \<and> (\<exists>inp \<in> set (td_inputs d). in_prevTxid inp = Some (bt_txid a) \<and>
      in_prevVout inp = Some (int i) \<and> in_amountSats inp = bo_amountSats (or_empty (bt_outputs a) ! i) \<and>
      in_address inp = bo_address (or_empty (bt_outputs a) ! i))"
  using apply_block_txs_chain[OF assms(1)[unfolded applyTransactionsAndDetailsFromBlock_def] assms(2-5)]
  unfolding applyTransactionsAndDetailsFromBlock_def .

subsection \<open>A concrete block\<close>

text \<open>A stand-in for the WASM module: the text of a block is its height, its only
  transaction is a coinbase of 50 sats to the target script, which is the address itself.\<close>

definition sample_coinbase :: "string \<Rightarrow> wireBlockEffectsTx" where
  "sample_coinbase hex =
     \<lparr>wt_txid = ''cb'' @ hex,
      wt_inputs = Some [\<lparr>prev_txid = LAB_COINBASE_PREV_TXID_HEX, prev_vout = LAB_COINBASE_PREV_VOUT\<rparr>],
      wt_outputs = Some [\<lparr>wo_address = ''bcrt1qa'', amount_sats = 50\<rparr>]\<rparr>"

definition sample_effects :: "string \<Rightarrow> wireBlockEffectsParsed" where
  "sample_effects hex =
     \<lparr>w_spent = Some [],
      new_utxos = Some [\<lparr>wn_txid = ''cb'' @ hex, wn_vout = 0, wn_address = ''bcrt1qa'',
        wn_amount_sats = 50, script_pubkey_hex = ''0014''\<rparr>],
      w_transactions = Some [sample_coinbase hex], block_time = Some 7\<rparr>"

definition sample_wasm :: labWasm where
  "sample_wasm =
     \<lparr>lab_block_effects = (\<lambda>hex. Inr (RawObject (sample_effects hex))),
      lab_block_hash = (\<lambda>hex. Inr (''h'' @ hex)),
      lab_mine_block = (\<lambda>prev height script txs subsidy fees. Inr (int_str height)),
      lab_address_to_script_pubkey_hex = (\<lambda>a. Inr ''0014''),
      lab_entity_get_current_external_address = (\<lambda>m c n t a. Inr ''bcrt1qa''),
      lab_entity_reveal_next_external_address =
        (\<lambda>m c n t a. Inr \<lparr>rv_address = Some ''bcrt1qb'', rv_changesetJson = Some ''cs2''\<rparr>),
      generate_mnemonic = (\<lambda>n. Inr ''abandon''),
      create_lab_entity_wallet = (\<lambda>m n t a. Inr \<lparr>cw_externalDescriptor = ''ext'',
        cw_internalDescriptor = ''int'', cw_firstAddress = ''bcrt1qa'', cw_changesetJson = ''cs''\<rparr>),
      lab_txid = (\<lambda>hex. Inr (''t'' @ hex)),
      lab_tx_weight = (\<lambda>hex. Inr (Fin 561))\<rparr>"

definition sample_worker :: labWorker where
  "sample_worker = set_owner ''bcrt1qb'' (LabEntity 1) (set_owner ''bcrt1qa'' (Wallet 1) INITIAL_LAB_WORKER)"

definition sample_spend :: blockEffectsTx where
  "sample_spend = \<lparr>bt_txid = ''sp'', bt_inputs = [\<lparr>prevTxid = ''cb0'', prevVout = 0\<rparr>],
     bt_outputs = Some [\<lparr>bo_address = ''bcrt1qb'', bo_amountSats = 45\<rparr>]\<rparr>"

theorem applyBlockEffects_ledger_witness:
  "utxos (lwState (snd (applyBlockEffects sample_wasm ''0'' 0 None sample_worker))) =
    [\<lparr>u_txid = ''cb0'', u_vout = 0, u_address = ''bcrt1qa'', u_amountSats = 50, u_scriptPubkeyHex = ''0014''\<rparr>]"
proof -
  let ?r = "applyBlockEffects sample_wasm ''0'' 0 None sample_worker"
  have "fst ?r = Inr ()" by code_simp
  then have "?r = (Inr (), snd ?r)" by (metis prod.collapse)
  from applyBlockEffects_ledger[OF this]
  have "utxos (lwState (snd ?r)) =
      filter (\<lambda>u. utxo_point u \<notin> set (be_spent (parseBlockEffects (RawObject (sample_effects ''0'')))))
        (utxos (lwState sample_worker)) @
      map new_lab_utxo (newUtxos (parseBlockEffects (RawObject (sample_effects ''0''))))"
    by (auto simp: sample_wasm_def)
  also have "\<dots> = [\<lparr>u_txid = ''cb0'', u_vout = 0, u_address = ''bcrt1qa'', u_amountSats = 50,
      u_scriptPubkeyHex = ''0014''\<rparr>]" by code_simp
  finally show ?thesis .
qed

theorem in_block_spend_resolved_witness:
  "\<exists>d \<in> set (txDetails (lwState (snd (applyTransactionsAndDetailsFromBlock
      [mapWireBlockEffectsTxToDomain (sample_coinbase ''0''), sample_spend] 0 7 sample_worker)))).
    td_txid d = ''sp'' \<and> (\<exists>inp \<in> set (td_inputs d). in_amountSats inp = 50 \<and> in_address inp = ''bcrt1qa'')"
proof -
  let ?a = "mapWireBlockEffectsTxToDomain (sample_coinbase ''0'')"
  have "fst (applyTransactionsAndDetailsFromBlock ([] @ ?a # [] @ sample_spend # []) 0 7 sample_worker) = Inr ()"
      "\<not> isCoinbase (tx_prevouts sample_spend)"
    by code_simp+
  moreover have "bt_txid ?a = ''cb0''" "bt_outputs ?a = Some [\<lparr>bo_address = ''bcrt1qa'', bo_amountSats = 50\<rparr>]"
    by (simp_all add: mapWireBlockEffectsTxToDomain_def sample_coinbase_def mapWireBlockEffectsTxOutputToDomain_def)
  ultimately show ?thesis
    using in_block_spend_resolved[of "[]" ?a "[]" sample_spend "[]" 0 7 sample_worker 0]
    by (fastforce simp: or_empty_def sample_spend_def)
qed

end
