(* ===== verification/Lab_Template.thy ===== *)
theory Lab_Template
  imports Lab_Selection Lab_Header Lab_Effects
begin

text \<open>
  The rest of \<open>workers/lab-mining-template.ts\<close>: the tip, the owner of a mined block, the
  transaction rows of a block, the coinbase target and the preview of the next block. The
  functions read the worker's state and change nothing.
\<close>

section \<open>Mined blocks\<close>

definition getTip :: "labState \<Rightarrow> labBlock option" where
  "getTip s = (if length (blocks s) = 0 then None else Some (last (blocks s)))"

definition minedByFromBlockTxs :: "labTxDetails list \<Rightarrow> labOwner js_record \<Rightarrow> labOwner option" where
  "minedByFromBlockTxs blockTxs owners =
     (case List.find (\<lambda>tx. isCoinbase (details_prevouts tx)) blockTxs of
        None \<Rightarrow> None
      | Some coinbase \<Rightarrow>
          (case td_outputs coinbase of
             [] \<Rightarrow> None
           | payout # _ \<Rightarrow>
               (case out_owner payout of
                  Some owner \<Rightarrow> Some owner
                | None \<Rightarrow> lookupOwnerForLabAddress (out_address payout) owners)))"

definition minedByForBlockHeight :: "labState \<Rightarrow> int \<Rightarrow> labOwner option" where
  "minedByForBlockHeight s height =
     (case List.find (\<lambda>r. mo_height r = height) (mineOperations s) of
        Some op \<Rightarrow>
          (case mo_minedBy op of
             Some owner \<Rightarrow> Some owner
           | None \<Rightarrow> minedByFromBlockTxs (filter (\<lambda>tx. td_blockHeight tx = height) (txDetails s))
                       (or_empty (addressToOwner s)))
      | None \<Rightarrow> minedByFromBlockTxs (filter (\<lambda>tx. td_blockHeight tx = height) (txDetails s))
                  (or_empty (addressToOwner s)))"

record labBlockTransactionSummary =
  bs_txid :: string
  bs_sender :: "labOwner option"
  bs_receiver :: "labOwner option"
  bs_amountSats :: int
  bs_feeSats :: int
  bs_inputs :: "labTxInputDetail list"

definition tx_record_by_txid :: "labTxRecord list \<Rightarrow> (string \<rightharpoonup> labTxRecord)" where
  "tx_record_by_txid rs = map_of (rev (map (\<lambda>r. (tr_txid r, r)) rs))"

definition blockTransactionsForHeight :: "labState \<Rightarrow> int \<Rightarrow> labBlockTransactionSummary list" where
  "blockTransactionsForHeight s height =
     map (\<lambda>tx. let txRecord = tx_record_by_txid (transactions s) (td_txid tx)
               in \<lparr>bs_txid = td_txid tx,
                   bs_sender = Option.bind txRecord tr_sender,
                   bs_receiver = Option.bind txRecord tr_receiver,
                   bs_amountSats = netMovedSatsForLabTx tx,
                   bs_feeSats = feeSatsFromTxDetails tx,
                   bs_inputs = td_inputs tx\<rparr>)
       (filter (\<lambda>tx. td_blockHeight tx = height) (txDetails s))"

record labBlockMetadataDetails =
  md_height :: int
  md_minedOn :: int
  md_minedBy :: "labOwner option"
  md_numberOfTransactions :: int
  md_totalFeesSats :: int

record labBlockDetails =
  isTemplate :: bool
  bd_header :: labBlockHeaderDetails
  bd_metadata :: labBlockMetadataDetails
  bd_transactions :: "labBlockTransactionSummary list"

definition buildMinedBlockDetails ::
  "(8 word list \<Rightarrow> 8 word list) \<Rightarrow> labState \<Rightarrow> labBlock \<Rightarrow> string + labBlockDetails" where
  "buildMinedBlockDetails sha256 s block =
     (case parseBlockHeader sha256 (blockData block) of
        Inl e \<Rightarrow> Inl e
      | Inr header \<Rightarrow>
          (let blockTxDetails = filter (\<lambda>tx. td_blockHeight tx = blk_height block) (txDetails s);
               txs = blockTransactionsForHeight s (blk_height block)
           in Inr \<lparr>isTemplate = False, bd_header = header,
                bd_metadata = \<lparr>md_height = blk_height block,
                  md_minedOn = (case blockTxDetails of [] \<Rightarrow> int (hd_timestamp header) | d # _ \<Rightarrow> td_blockTime d),
                  md_minedBy = minedByForBlockHeight s (blk_height block),
                  md_numberOfTransactions = int (length txs),
                  md_totalFeesSats = sum_list (map bs_feeSats txs)\<rparr>,
                bd_transactions = txs\<rparr>))"

section \<open>The coinbase target\<close>

datatype labOwnerType = WalletOwner | LabEntityOwner

record labCurrentBlockTemplateParams =
  tp_ownerType :: labOwnerType
  tp_targetAddress :: string
  tp_ownerName :: "string option"
  tp_ownerLabEntityId :: "js_number option"
  tp_ownerWalletId :: "int option"
  tp_walletCurrentAddress :: "string option"
  tp_labAddressType :: "addressType option"
  tp_labNetwork :: "string option"

definition entity_address :: "labWasm \<Rightarrow> labEntityRecord \<Rightarrow> string + string" where
  "entity_address W e =
     lab_entity_get_current_external_address W (mnemonic e) (changesetJson e) (ent_network e)
       (ent_addressType e) (accountId e)"

definition firstAddressFromNewEntityWallet :: "labWasm \<Rightarrow> string \<Rightarrow> addressType \<Rightarrow> string + string" where
  "firstAddressFromNewEntityWallet W labNetwork labAddressType =
     sum_bind (generate_mnemonic W 12) (\<lambda>mn.
     sum_bind (create_lab_entity_wallet W mn labNetwork labAddressType 0) (\<lambda>created.
       if cw_firstAddress created = '''' then Inl ''Lab entity wallet creation failed (no first address)''
       else Inr (cw_firstAddress created)))"

definition default_network :: "string option \<Rightarrow> string" where
  "default_network n = (case n of None \<Rightarrow> ''regtest'' | Some v \<Rightarrow> v)"

definition default_address_type :: "addressType option \<Rightarrow> addressType" where
  "default_address_type t = (case t of None \<Rightarrow> SegWit | Some v \<Rightarrow> v)"

definition trim_or_empty :: "string option \<Rightarrow> string" where
  "trim_or_empty s = (case s of None \<Rightarrow> '''' | Some v \<Rightarrow> js_trim v)"

definition unknown_entity :: "int \<Rightarrow> string" where
  "unknown_entity i = ''Unknown lab entity id '' @ int_str i"

definition resolveTemplateCoinbase ::
  "labCurrentBlockTemplateParams \<Rightarrow> labWasm \<Rightarrow> labState \<Rightarrow> string + (string \<times> labOwner option)" where
  "resolveTemplateCoinbase params W s =
     (let labNetwork = default_network (tp_labNetwork params);
          labAddressType = default_address_type (tp_labAddressType params);
          targetArg = (if tp_ownerType params = WalletOwner then trim_or_empty (tp_walletCurrentAddress params)
                       else js_trim (tp_targetAddress params));
          entityNameOpt = (if tp_ownerType params = LabEntityOwner then trim_or_empty (tp_ownerName params) else '''');
          newEntity = sum_bind (firstAddressFromNewEntityWallet W labNetwork labAddressType)
                        (\<lambda>a. Inr (a, Some (labEntityLabOwner (nextLabEntityId (entities s)))))
      in case (tp_ownerType params, Option.bind (tp_ownerLabEntityId params) js_integer) of
           (LabEntityOwner, Some i) \<Rightarrow>
             (case List.find (\<lambda>e. labEntityId e = i) (entities s) of
                None \<Rightarrow> Inl (unknown_entity i)
              | Some entity \<Rightarrow>
                  if isDead entity then Inl ''Cannot mine to a dead lab entity''
                  else sum_bind (entity_address W entity)
                         (\<lambda>a. Inr (a, Some (labEntityLabOwner (labEntityId entity)))))
         | _ \<Rightarrow>
             if entityNameOpt \<noteq> '''' then
               (case List.find (\<lambda>e. entityName e = Some entityNameOpt) (entities s) of
                  Some entity \<Rightarrow> sum_bind (entity_address W entity)
                      (\<lambda>a. Inr (a, Some (labEntityLabOwner (labEntityId entity))))
                | None \<Rightarrow> newEntity)
             else if targetArg \<noteq> '''' then
               Inr (targetArg, (if tp_ownerType params = WalletOwner
                                then map_option walletLabOwner (tp_ownerWalletId params) else None))
             else newEntity)"

section \<open>The preview\<close>

definition next_height :: "labState \<Rightarrow> int" where
  "next_height s = (case getTip s of None \<Rightarrow> 0 | Some tip \<Rightarrow> blk_height tip + 1)"

definition tip_hash :: "labState \<Rightarrow> string" where
  "tip_hash s = (case getTip s of None \<Rightarrow> '''' | Some tip \<Rightarrow> blockHash tip)"

definition preview_summary ::
  "int \<Rightarrow> int \<Rightarrow> (string \<rightharpoonup> mempoolEntry) \<Rightarrow> labOwner option \<Rightarrow> blockEffectsTx \<Rightarrow> labBlockTransactionSummary" where
  "preview_summary previewHeight previewBlockTime entryByTxid minedBy tx =
     (let matchedEntry = entryByTxid (bt_txid tx);
          isCoinbaseTx = isCoinbase (tx_prevouts tx);
          inputs = map (\<lambda>i. \<lparr>in_address = '''', in_amountSats = 0, in_owner = None,
                      in_prevTxid = Some (prevTxid i), in_prevVout = Some (prevVout i), in_sequence = None\<rparr>)
                    (bt_inputs tx);
          outputs = map (\<lambda>o'. \<lparr>out_address = bo_address o', out_amountSats = bo_amountSats o',
                      out_isChange = False, out_owner = None\<rparr>) (or_empty (bt_outputs tx));
          details = \<lparr>td_txid = bt_txid tx, td_blockHeight = previewHeight, td_blockTime = previewBlockTime,
                      td_confirmations = 0, td_inputs = inputs, td_outputs = outputs\<rparr>
      in \<lparr>bs_txid = bt_txid tx,
          bs_sender = Option.bind matchedEntry me_sender,
          bs_receiver = (if isCoinbaseTx then minedBy else Option.bind matchedEntry me_receiver),
          bs_amountSats = (case matchedEntry of
              Some e \<Rightarrow> if \<not> isCoinbaseTx \<and> length outputs = 0 then netMovedSatsFromMempoolEntry e
                        else netMovedSatsForLabTx details
            | None \<Rightarrow> netMovedSatsForLabTx details),
          bs_feeSats = (case matchedEntry of Some e \<Rightarrow> me_feeSats e | None \<Rightarrow> 0),
          bs_inputs = inputs\<rparr>)"

definition buildCurrentBlockTemplate ::
  "(string \<Rightarrow> string \<Rightarrow> rat) \<Rightarrow> (8 word list \<Rightarrow> 8 word list) \<Rightarrow> labWasm \<Rightarrow> labCurrentBlockTemplateParams
     \<Rightarrow> labState \<Rightarrow> string + labBlockDetails" where
  "buildCurrentBlockTemplate localeCompare sha256 W params s =
     (let previewHeight = next_height s;
          previousHash = tip_hash s;
          selected = selectMempoolTxsForBlock localeCompare (mempool s) (Fin (of_int (blockWeightLimit s)));
          totalFeesSats = sum_list (map me_feeSats selected)
      in sum_bind (resolveTemplateCoinbase params W s) (\<lambda>(targetAddress, minedBy).
         sum_bind (lab_address_to_script_pubkey_hex W targetAddress) (\<lambda>script.
         sum_bind (lab_mine_block W previousHash previewHeight script (map signedTxHex selected)
                     (minerSubsidySats s) totalFeesSats) (\<lambda>blockHex.
         sum_bind (parseBlockHeader sha256 blockHex) (\<lambda>header.
         sum_bind (lab_block_effects W blockHex) (\<lambda>rawEffects.
           let effects = parseBlockEffects rawEffects;
               entryByTxid = map_of (rev (map (\<lambda>e. (me_txid e, e)) selected));
               txs = map (preview_summary previewHeight (be_blockTime effects) entryByTxid minedBy)
                       (be_transactions effects)
           in Inr \<lparr>isTemplate = True, bd_header = header,
                bd_metadata = \<lparr>md_height = previewHeight, md_minedOn = int (hd_timestamp header),
                  md_minedBy = minedBy, md_numberOfTransactions = int (length txs),
                  md_totalFeesSats = totalFeesSats\<rparr>,
                bd_transactions = txs\<rparr>))))))"

end
