(* ===== verification/Lab_Mining.thy ===== *)
theory Lab_Mining
  imports Lab_Template
begin

text \<open>
  Mining: \<open>workers/lab-mine-blocks.ts\<close> and \<open>workers/lab-entity-creation.ts\<close>. A run chooses
  the coinbase target, selects mempool transactions for its first block, then mines the
  requested number of blocks, each applied to the ledger before the next is built. Every
  WASM call may throw; what the run had changed before stays.
\<close>

section \<open>Creating entities\<close>

definition createAndRegisterLabEntityFromWasm ::
  "labWasm \<Rightarrow> int \<Rightarrow> string option \<Rightarrow> string \<Rightarrow> addressType \<Rightarrow> string \<Rightarrow> string \<Rightarrow> (labWorker, string) op" where
  "createAndRegisterLabEntityFromWasm W entityId name labNetwork labAddressType nowIso noAddressErrorMessage =
     op_bind (op_lift (generate_mnemonic W 12)) (\<lambda>mn.
     op_bind (op_lift (create_lab_entity_wallet W mn labNetwork labAddressType 0)) (\<lambda>created.
     op_bind (update_state (\<lambda>s. s\<lparr>entities := entities s @
        [\<lparr>labEntityId = entityId, entityName = name, mnemonic = mn,
          changesetJson = cw_changesetJson created, externalDescriptor = cw_externalDescriptor created,
          internalDescriptor = cw_internalDescriptor created, ent_network = labNetwork,
          ent_addressType = labAddressType, accountId = 0, createdAt = nowIso, updatedAt = nowIso,
          isDead = False\<rparr>]\<rparr>)) (\<lambda>_.
     if cw_firstAddress created = '''' then op_throw noAddressErrorMessage
     else op_return (cw_firstAddress created))))"

section \<open>The coinbase target\<close>

record mineOptions =
  mi_ownerName :: "string option"
  mi_ownerLabEntityId :: "js_number option"
  mi_ownerWalletId :: "int option"
  mi_labAddressType :: "addressType option"
  mi_labNetwork :: "string option"

record coinbaseTarget =
  coinbaseAddress :: string
  coinbaseScriptPubkeyHex :: string
  ownerForCoinbase :: "labOwner option"

definition op_state :: "(labState \<Rightarrow> 'a) \<Rightarrow> (labWorker, 'a) op" where
  "op_state f w = (Inr (f (lwState w)), w)"

definition with_script :: "labWasm \<Rightarrow> string \<Rightarrow> labOwner option \<Rightarrow> (labWorker, coinbaseTarget) op" where
  "with_script W address owner =
     op_bind (op_lift (lab_address_to_script_pubkey_hex W address)) (\<lambda>script.
     op_return \<lparr>coinbaseAddress = address, coinbaseScriptPubkeyHex = script, ownerForCoinbase = owner\<rparr>)"

definition mine_to_entity_id :: "labWasm \<Rightarrow> int \<Rightarrow> (labWorker, coinbaseTarget) op" where
  "mine_to_entity_id W i =
     op_bind (op_state (\<lambda>s. List.find (\<lambda>e. labEntityId e = i) (entities s))) (\<lambda>found.
       case found of
         None \<Rightarrow> op_throw (unknown_entity i)
       | Some entity \<Rightarrow>
           if isDead entity then op_throw ''Cannot mine to a dead lab entity''
           else op_bind (op_lift (entity_address W entity)) (\<lambda>address.
                with_script W address (Some (labEntityLabOwner (labEntityId entity)))))"

definition mine_to_entity_name ::
  "labWasm \<Rightarrow> string \<Rightarrow> string \<Rightarrow> addressType \<Rightarrow> string \<Rightarrow> (labWorker, coinbaseTarget) op" where
  "mine_to_entity_name W name labNetwork labAddressType now =
     op_bind (op_state (\<lambda>s. List.find (\<lambda>e. entityName e = Some name) (entities s))) (\<lambda>found.
       case found of
         None \<Rightarrow>
           op_bind (op_state (\<lambda>s. nextLabEntityId (entities s))) (\<lambda>newId.
           op_bind (createAndRegisterLabEntityFromWasm W newId (Some name) labNetwork labAddressType now
                      ''Lab entity wallet creation failed (no first address)'') (\<lambda>address.
           op_bind (op_state (\<lambda>s. List.find (\<lambda>e. entityName e = Some name) (entities s))) (\<lambda>again.
             case again of
               None \<Rightarrow> op_throw ''Lab entity registration failed after wallet creation''
             | Some entity \<Rightarrow> with_script W address (Some (labEntityLabOwner (labEntityId entity))))))
       | Some entity \<Rightarrow>
           op_bind (op_lift (entity_address W entity)) (\<lambda>address.
           with_script W address (Some (labEntityLabOwner (labEntityId entity)))))"

definition mine_to_new_entity ::
  "labWasm \<Rightarrow> string \<Rightarrow> addressType \<Rightarrow> string \<Rightarrow> (labWorker, coinbaseTarget) op" where
  "mine_to_new_entity W labNetwork labAddressType now =
     op_bind (op_state (\<lambda>s. nextLabEntityId (entities s))) (\<lambda>newId.
     op_bind (createAndRegisterLabEntityFromWasm W newId None labNetwork labAddressType now
                ''Anonymous lab entity wallet creation failed (no first address)'') (\<lambda>address.
     with_script W address (Some (labEntityLabOwner newId))))"

text \<open>The four branches of \<open>executeMineBlocks\<close>, in order.\<close>

definition resolve_mine_target ::
  "labWasm \<Rightarrow> string \<Rightarrow> string \<Rightarrow> mineOptions \<Rightarrow> (labWorker, coinbaseTarget) op" where
  "resolve_mine_target W now targetAddress options =
     (let labNetwork = default_network (mi_labNetwork options);
          labAddressType = default_address_type (mi_labAddressType options);
          name = trim_or_empty (mi_ownerName options)
      in case (Option.bind (mi_ownerLabEntityId options) js_integer, mi_ownerWalletId options) of
           (Some i, None) \<Rightarrow> mine_to_entity_id W i
         | (_, walletId) \<Rightarrow>
             if name \<noteq> '''' \<and> walletId = None then mine_to_entity_name W name labNetwork labAddressType now
             else if js_trim targetAddress \<noteq> '''' then with_script W (js_trim targetAddress) None
             else mine_to_new_entity W labNetwork labAddressType now)"

definition mine_owner :: "mineOptions \<Rightarrow> coinbaseTarget \<Rightarrow> labOwner option" where
  "mine_owner options target =
     (case mi_ownerWalletId options of
        Some walletId \<Rightarrow> Some (walletLabOwner walletId)
      | None \<Rightarrow> ownerForCoinbase target)"

definition register_coinbase_owner :: "mineOptions \<Rightarrow> coinbaseTarget \<Rightarrow> labWorker \<Rightarrow> labWorker" where
  "register_coinbase_owner options target w =
     (case mine_owner options target of
        None \<Rightarrow> w
      | Some owner \<Rightarrow> set_owner (coinbaseAddress target) owner w)"

section \<open>The mining loop\<close>

record mineRun =
  run_script :: string
  run_minedBy :: "labOwner option"
  run_selected :: "mempoolEntry list"
  run_blockLimit :: int
  run_subsidy :: int

definition spent_keys :: "mempoolEntry list \<Rightarrow> string set" where
  "spent_keys selected = (\<Union>e \<in> set selected. set (input_keys e))"

definition drop_included :: "mempoolEntry list \<Rightarrow> mempoolEntry list \<Rightarrow> mempoolEntry list" where
  "drop_included selected pool =
     filter (\<lambda>entry. \<not> (\<exists>s \<in> set selected. me_txid s = me_txid entry) \<and>
                     \<not> (\<exists>k \<in> set (input_keys entry). k \<in> spent_keys selected)) pool"

definition mine_operation ::
  "mineRun \<Rightarrow> nat \<Rightarrow> int \<Rightarrow> string \<Rightarrow> string \<Rightarrow> labState \<Rightarrow> labMineOperationRecord" where
  "mine_operation run i minedAtHeight now tipHash s =
     \<lparr>mo_height = minedAtHeight, mo_blockHash = tipHash, mo_minedBy = run_minedBy run,
      mo_coinbaseTxid = map_option td_txid (List.find (\<lambda>d. td_blockHeight d = minedAtHeight \<and>
        isCoinbase (details_prevouts d)) (txDetails s)),
      mo_createdAt = now, mo_blockWeightLimitWu = Some (run_blockLimit run),
      mo_nonCoinbaseWeightUsedWu = Some (if i = 0 then sum_weights (run_selected run) else 0)\<rparr>"

text \<open>The bookkeeping after a block was applied; the tip is read back from the state.\<close>

definition after_block :: "mineRun \<Rightarrow> nat \<Rightarrow> int \<Rightarrow> string \<Rightarrow> (labWorker, string \<times> int) op" where
  "after_block run i height now w =
     (case getTip (lwState w) of
        None \<Rightarrow> (Inl ''Cannot read properties of null (reading 'blockHash')'', w)
      | Some tip \<Rightarrow>
          (Inr (blockHash tip, blk_height tip + 1),
           w\<lparr>lwState := (lwState w)
               \<lparr>mineOperations := mineOperations (lwState w) @
                   [mine_operation run i height now (blockHash tip) (lwState w)],
                mempool := (if i = 0 then drop_included (run_selected run) (mempool (lwState w))
                            else mempool (lwState w))\<rparr>\<rparr>))"

definition mine_one ::
  "labWasm \<Rightarrow> mineRun \<Rightarrow> nat \<Rightarrow> string \<Rightarrow> int \<Rightarrow> string \<Rightarrow> (labWorker, string \<times> int) op" where
  "mine_one W run i prevHash height now =
     op_bind (op_lift (lab_mine_block W prevHash height (run_script run)
        (if i = 0 then map signedTxHex (run_selected run) else []) (run_subsidy run)
        (if i = 0 then sum_list (map me_feeSats (run_selected run)) else 0))) (\<lambda>blockHex.
     op_bind (applyBlockEffects W blockHex height None) (\<lambda>_.
     after_block run i height now))"

fun mine_loop ::
  "labWasm \<Rightarrow> mineRun \<Rightarrow> (nat \<Rightarrow> string) \<Rightarrow> nat \<Rightarrow> nat \<Rightarrow> string \<Rightarrow> int \<Rightarrow> (labWorker, unit) op" where
  "mine_loop W run clock i 0 prevHash height = op_return ()"
| "mine_loop W run clock i (Suc k) prevHash height =
     op_bind (mine_one W run i prevHash height (clock i)) (\<lambda>(prevHash', height').
       mine_loop W run clock (Suc i) k prevHash' height')"

record labMineBlocksResult =
  mr_state :: labState
  includedMempoolTxCount :: int
  discardedConflictTxCount :: int

definition block_count_error :: string where
  "block_count_error = ''Block count must be an integer from '' @ int_str LAB_MIN_BLOCKS_PER_MINE @
     '' to '' @ int_str LAB_MAX_BLOCKS_PER_MINE @ '' (inclusive)''"

definition valid_block_count :: "js_number \<Rightarrow> int option" where
  "valid_block_count n =
     (case js_integer n of
        None \<Rightarrow> None
      | Some k \<Rightarrow> if k < LAB_MIN_BLOCKS_PER_MINE \<or> k > LAB_MAX_BLOCKS_PER_MINE then None else Some k)"

definition make_run ::
  "(string \<Rightarrow> string \<Rightarrow> rat) \<Rightarrow> mineOptions \<Rightarrow> coinbaseTarget \<Rightarrow> labState \<Rightarrow> mineRun" where
  "make_run localeCompare options target s =
     \<lparr>run_script = coinbaseScriptPubkeyHex target, run_minedBy = mine_owner options target,
      run_selected = selectMempoolTxsForBlock localeCompare (mempool s) (Fin (of_int (blockWeightLimit s))),
      run_blockLimit = blockWeightLimit s, run_subsidy = minerSubsidySats s\<rparr>"

definition executeMineBlocks ::
  "(string \<Rightarrow> string \<Rightarrow> rat) \<Rightarrow> labWasm \<Rightarrow> string \<Rightarrow> (nat \<Rightarrow> string) \<Rightarrow> js_number \<Rightarrow> string \<Rightarrow> mineOptions
     \<Rightarrow> (labWorker, labMineBlocksResult) op" where
  "executeMineBlocks localeCompare W now clock blockCountToMine targetAddress options =
     (case valid_block_count blockCountToMine of
        None \<Rightarrow> op_throw block_count_error
      | Some blockCount \<Rightarrow>
          op_bind (op_state (\<lambda>s. (tip_hash s, next_height s))) (\<lambda>(prevHash, height).
          op_bind (resolve_mine_target W now targetAddress options) (\<lambda>target.
          op_bind (op_modify (register_coinbase_owner options target)) (\<lambda>_.
          op_bind (op_state (\<lambda>s. (make_run localeCompare options target s, length (mempool s)))) (\<lambda>(run, sizeBefore).
          op_bind (mine_loop W run clock 0 (nat blockCount) prevHash height) (\<lambda>_.
          op_state (\<lambda>s. \<lparr>mr_state = s, includedMempoolTxCount = int (length (run_selected run)),
            discardedConflictTxCount = discardedMempoolConflictTxCount (int sizeBefore)
              (int (length (mempool s))) (int (length (run_selected run)))\<rparr>)))))))"

section \<open>Runs that succeed\<close>

lemma op_bind_Inr:
  "op_bind m f w = (Inr y, w') \<longleftrightarrow> (\<exists>x w1. m w = (Inr x, w1) \<and> f x w1 = (Inr y, w'))"
  by (auto simp: op_bind_apply split: prod.splits sum.splits)

lemma op_state_apply [simp]: "op_state f w = (Inr (f (lwState w)), w)"
  by (simp add: op_state_def)

text \<open>What one round adds to the chain and to the log.\<close>

lemma mine_one_success:
  assumes "mine_one W run i prev h now w = (Inr (prev', h'), w')"
  obtains hex hash where
    "lab_mine_block W prev h (run_script run) (if i = 0 then map signedTxHex (run_selected run) else [])
       (run_subsidy run) (if i = 0 then sum_list (map me_feeSats (run_selected run)) else 0) = Inr hex"
    "prev' = hash" "h' = h + 1"
    "blocks (lwState w') = blocks (lwState w) @ [\<lparr>blockHash = hash, blk_height = h, blockData = hex\<rparr>]"
    "\<exists>cb. mineOperations (lwState w') = mineOperations (lwState w) @
       [\<lparr>mo_height = h, mo_blockHash = hash, mo_minedBy = run_minedBy run, mo_coinbaseTxid = cb,
         mo_createdAt = now, mo_blockWeightLimitWu = Some (run_blockLimit run),
         mo_nonCoinbaseWeightUsedWu = Some (if i = 0 then sum_weights (run_selected run) else 0)\<rparr>]"
    "mempool (lwState w') = (if i = 0 then drop_included (run_selected run) (mempool (lwState w))
       else mempool (lwState w))"
    "entities (lwState w') = entities (lwState w)"
proof -
  obtain hex w1 where hex: "lab_mine_block W prev h (run_script run)
        (if i = 0 then map signedTxHex (run_selected run) else []) (run_subsidy run)
        (if i = 0 then sum_list (map me_feeSats (run_selected run)) else 0) = Inr hex"
      and app: "applyBlockEffects W hex h None w = (Inr (), w1)"
      and after: "after_block run i h now w1 = (Inr (prev', h'), w')"
    using assms unfolding mine_one_def op_bind_Inr by auto
  obtain hash where fields: "blocks (lwState w1) = blocks (lwState w) @ [\<lparr>blockHash = hash, blk_height = h, blockData = hex\<rparr>]"
      "entities (lwState w1) = entities (lwState w)" "mempool (lwState w1) = mempool (lwState w)"
      "mineOperations (lwState w1) = mineOperations (lwState w)"
    using applyBlockEffects_fields[OF app] by blast
  show ?thesis
    by (rule that[OF hex, of hash])
      (use after fields in \<open>auto simp: after_block_def getTip_def mine_operation_def\<close>)
qed

definition consecutive_from :: "int \<Rightarrow> int list \<Rightarrow> bool" where
  "consecutive_from h hs \<longleftrightarrow> hs = map (\<lambda>j. h + int j) [0..<length hs]"

lemma consecutive_from_Cons: "consecutive_from h (x # xs) \<longleftrightarrow> x = h \<and> consecutive_from (h + 1) xs"
proof -
  have "map (\<lambda>j. h + int j) [0..<length (x # xs)] = h # map (\<lambda>j. (h + 1) + int j) [0..<length xs]"
    by (simp add: upt_conv_Cons map_Suc_upt[symmetric] del: upt_Suc)
  then show ?thesis by (auto simp: consecutive_from_def)
qed

lemma mine_loop_success:
  assumes "mine_loop W run clock i k prev h w = (Inr (), w')"
  shows "\<exists>new ops. blocks (lwState w') = blocks (lwState w) @ new \<and>
    mineOperations (lwState w') = mineOperations (lwState w) @ ops \<and>
    length new = k \<and> consecutive_from h (map blk_height new) \<and>
    map (\<lambda>o'. (mo_height o', mo_blockHash o')) ops = map (\<lambda>b. (blk_height b, blockHash b)) new \<and>
    (\<forall>o' \<in> set ops. mo_minedBy o' = run_minedBy run) \<and>
    map mo_nonCoinbaseWeightUsedWu ops =
      map (\<lambda>j. Some (if j = 0 then sum_weights (run_selected run) else 0)) [i..<i + k] \<and>
    mempool (lwState w') = (if i = 0 \<and> 0 < k then drop_included (run_selected run) (mempool (lwState w))
      else mempool (lwState w)) \<and>
    entities (lwState w') = entities (lwState w)"
  using assms
proof (induction k arbitrary: i prev h w)
  case (Suc k)
  then obtain prev' h' w1 where one: "mine_one W run i prev h (clock i) w = (Inr (prev', h'), w1)"
      and rest: "mine_loop W run clock (Suc i) k prev' h' w1 = (Inr (), w')"
    by (auto simp: op_bind_Inr)
  obtain hex hash cb where o: "h' = h + 1"
    "blocks (lwState w1) = blocks (lwState w) @ [\<lparr>blockHash = hash, blk_height = h, blockData = hex\<rparr>]"
    "mineOperations (lwState w1) = mineOperations (lwState w) @
       [\<lparr>mo_height = h, mo_blockHash = hash, mo_minedBy = run_minedBy run, mo_coinbaseTxid = cb,
         mo_createdAt = clock i, mo_blockWeightLimitWu = Some (run_blockLimit run),
         mo_nonCoinbaseWeightUsedWu = Some (if i = 0 then sum_weights (run_selected run) else 0)\<rparr>]"
    "mempool (lwState w1) = (if i = 0 then drop_included (run_selected run) (mempool (lwState w))
       else mempool (lwState w))"
    "entities (lwState w1) = entities (lwState w)"
    by (rule mine_one_success[OF one]) blast
  obtain new ops where ih: "blocks (lwState w') = blocks (lwState w1) @ new"
    "mineOperations (lwState w') = mineOperations (lwState w1) @ ops" "length new = k"
    "consecutive_from h' (map blk_height new)"
    "map (\<lambda>o'. (mo_height o', mo_blockHash o')) ops = map (\<lambda>b. (blk_height b, blockHash b)) new"
    "\<forall>o' \<in> set ops. mo_minedBy o' = run_minedBy run"
    "map mo_nonCoinbaseWeightUsedWu ops =
      map (\<lambda>j. Some (if j = 0 then sum_weights (run_selected run) else 0)) [Suc i..<Suc i + k]"
    "mempool (lwState w') = mempool (lwState w1)" "entities (lwState w') = entities (lwState w1)"
    using Suc.IH[OF rest] by auto
  let ?b = "\<lparr>blockHash = hash, blk_height = h, blockData = hex\<rparr>"
  let ?o = "\<lparr>mo_height = h, mo_blockHash = hash, mo_minedBy = run_minedBy run, mo_coinbaseTxid = cb,
         mo_createdAt = clock i, mo_blockWeightLimitWu = Some (run_blockLimit run),
         mo_nonCoinbaseWeightUsedWu = Some (if i = 0 then sum_weights (run_selected run) else 0)\<rparr>"
  have upt: "[i..<Suc (i + k)] = i # [Suc i..<Suc (i + k)]" by (simp add: upt_conv_Cons del: upt_Suc)
  show ?case
    by (rule exI[of _ "?b # new"], rule exI[of _ "?o # ops"])
      (use o ih in \<open>simp add: consecutive_from_Cons upt del: upt_Suc\<close>)
qed (simp add: consecutive_from_def)

section \<open>Choosing the target\<close>

text \<open>Creating an entity only appends one live entity under the given id.\<close>

lemma create_entity_frame:
  assumes "createAndRegisterLabEntityFromWasm W i name net ty now err w = (r, w')"
  shows "w' = w \<or>
    (\<exists>e. w' = w\<lparr>lwState := (lwState w)\<lparr>entities := entities (lwState w) @ [e]\<rparr>\<rparr> \<and>
       labEntityId e = i \<and> entityName e = name \<and> \<not> isDead e)"
  using assms unfolding createAndRegisterLabEntityFromWasm_def
  by (auto simp: op_bind_apply split: sum.splits if_splits)

definition entity_added :: "labWorker \<Rightarrow> labWorker \<Rightarrow> bool" where
  "entity_added w w' \<longleftrightarrow>
     (\<exists>e. w' = w\<lparr>lwState := (lwState w)\<lparr>entities := entities (lwState w) @ [e]\<rparr>\<rparr> \<and>
        labEntityId e = nextLabEntityId (entities (lwState w)) \<and> \<not> isDead e \<and>
        (\<forall>x \<in> set (entities (lwState w)). entityName e \<noteq> None \<longrightarrow> entityName x \<noteq> entityName e))"

lemma with_script_state [simp]: "snd (with_script W a x w) = w"
  by (simp add: with_script_def op_bind_apply split: sum.splits)

lemma mine_to_entity_id_state [simp]: "snd (mine_to_entity_id W i w) = w"
  by (simp add: mine_to_entity_id_def op_bind_apply split: sum.splits option.splits prod.splits)

lemma mine_to_new_entity_state:
  "snd (mine_to_new_entity W net ty now w) = w \<or> entity_added w (snd (mine_to_new_entity W net ty now w))"
proof -
  obtain r w1 where c: "createAndRegisterLabEntityFromWasm W (nextLabEntityId (entities (lwState w))) None net ty now
      ''Anonymous lab entity wallet creation failed (no first address)'' w = (r, w1)" by fastforce
  then have "snd (mine_to_new_entity W net ty now w) = w1"
    by (cases r) (simp_all add: mine_to_new_entity_def op_bind_apply)
  with create_entity_frame[OF c] show ?thesis by (auto simp: entity_added_def)
qed

lemma mine_to_entity_name_state:
  "snd (mine_to_entity_name W n net ty now w) = w \<or> entity_added w (snd (mine_to_entity_name W n net ty now w))"
proof (cases "List.find (\<lambda>e. entityName e = Some n) (entities (lwState w))")
  case None
  obtain r w1 where c: "createAndRegisterLabEntityFromWasm W (nextLabEntityId (entities (lwState w))) (Some n) net ty now
      ''Lab entity wallet creation failed (no first address)'' w = (r, w1)" by fastforce
  then have "snd (mine_to_entity_name W n net ty now w) = w1"
    using None by (cases r) (simp_all add: mine_to_entity_name_def op_bind_apply split: option.splits)
  with create_entity_frame[OF c] None show ?thesis by (fastforce simp: entity_added_def find_None_all)
next
  case (Some e)
  then have "snd (mine_to_entity_name W n net ty now w) = w"
    by (cases "entity_address W e") (simp_all add: mine_to_entity_name_def op_bind_apply)
  then show ?thesis by simp
qed

lemma resolve_mine_target_state:
  "snd (resolve_mine_target W now ta opts w) = w \<or> entity_added w (snd (resolve_mine_target W now ta opts w))"
  unfolding resolve_mine_target_def Let_def
  using mine_to_entity_name_state mine_to_new_entity_state
  by (auto split: option.splits)

lemma entity_added_fields:
  assumes "entity_added w w'"
  shows "blocks (lwState w') = blocks (lwState w)" "mempool (lwState w') = mempool (lwState w)"
    "mineOperations (lwState w') = mineOperations (lwState w)" "transactions (lwState w') = transactions (lwState w)"
    "txDetails (lwState w') = txDetails (lwState w)" "addressToOwner (lwState w') = addressToOwner (lwState w)"
    "blockWeightLimit (lwState w') = blockWeightLimit (lwState w)" "txOperations (lwState w') = txOperations (lwState w)"
  using assms by (auto simp: entity_added_def)

lemma register_coinbase_owner_frame:
  "owner_frame (register_coinbase_owner opts target w) = owner_frame w"
  by (simp add: register_coinbase_owner_def split: option.splits)

lemma owner_frame_fields:
  assumes "owner_frame w = owner_frame w'"
  shows "blocks (lwState w) = blocks (lwState w')" "mempool (lwState w) = mempool (lwState w')"
    "mineOperations (lwState w) = mineOperations (lwState w')" "entities (lwState w) = entities (lwState w')"
    "blockWeightLimit (lwState w) = blockWeightLimit (lwState w')"
    "txOperations (lwState w) = txOperations (lwState w')"
  using tx_frame_fields[OF owner_frame_eq_tx_frame(1)[OF assms]] by simp_all

lemmas register_coinbase_fields = owner_frame_fields[OF register_coinbase_owner_frame]

text \<open>The stages of a run that succeeds.\<close>

lemma executeMineBlocks_success:
  assumes "executeMineBlocks lc W now clock n ta opts w = (Inr res, w')"
  obtains k target w1 run where "valid_block_count n = Some k"
    "resolve_mine_target W now ta opts w = (Inr target, w1)"
    "run = make_run lc opts target (lwState (register_coinbase_owner opts target w1))"
    "mine_loop W run clock 0 (nat k) (tip_hash (lwState w)) (next_height (lwState w))
       (register_coinbase_owner opts target w1) = (Inr (), w')"
    "res = \<lparr>mr_state = lwState w', includedMempoolTxCount = int (length (run_selected run)),
       discardedConflictTxCount = discardedMempoolConflictTxCount (int (length (mempool (lwState w1))))
         (int (length (mempool (lwState w')))) (int (length (run_selected run)))\<rparr>"
    "blocks (lwState w1) = blocks (lwState w)" "mempool (lwState w1) = mempool (lwState w)"
    "mineOperations (lwState w1) = mineOperations (lwState w)"
    "blockWeightLimit (lwState w1) = blockWeightLimit (lwState w)"
proof -
  obtain k target w1 where k: "valid_block_count n = Some k"
    and t: "resolve_mine_target W now ta opts w = (Inr target, w1)"
    and l: "mine_loop W (make_run lc opts target (lwState (register_coinbase_owner opts target w1))) clock 0 (nat k)
       (tip_hash (lwState w)) (next_height (lwState w)) (register_coinbase_owner opts target w1) = (Inr (), w')"
    and r: "res = \<lparr>mr_state = lwState w',
        includedMempoolTxCount = int (length (run_selected (make_run lc opts target (lwState (register_coinbase_owner opts target w1))))),
        discardedConflictTxCount = discardedMempoolConflictTxCount
          (int (length (mempool (lwState (register_coinbase_owner opts target w1)))))
          (int (length (mempool (lwState w'))))
          (int (length (run_selected (make_run lc opts target (lwState (register_coinbase_owner opts target w1))))))\<rparr>"
    using assms unfolding executeMineBlocks_def
    by (auto simp: op_bind_Inr split: option.splits)
  have "w1 = w \<or> entity_added w w1" using resolve_mine_target_state[of W now ta opts w] t by simp
  then show ?thesis
    using that[OF k t refl l] r register_coinbase_fields by (auto simp: entity_added_fields)
qed

section \<open>The mempool after a run\<close>

lemma drop_included_length:
  assumes "set sel \<subseteq> set pool" and "distinct (map me_txid sel)"
  shows "length (drop_included sel pool) + length sel \<le> length pool"
proof -
  let ?keep = "\<lambda>e. \<not> (\<exists>s \<in> set sel. me_txid s = me_txid e) \<and>
    \<not> (\<exists>k \<in> set (input_keys e). k \<in> spent_keys sel)"
  have "length sel = card (me_txid ` set sel)"
    using distinct_card[OF assms(2)] by simp
  also have "\<dots> \<le> card (me_txid ` set (filter (\<lambda>e. \<not> ?keep e) pool))"
    using assms(1) by (intro card_mono image_mono) auto
  also have "\<dots> \<le> length (filter (\<lambda>e. \<not> ?keep e) pool)"
    by (meson List.finite_set card_image_le card_length le_trans)
  finally show ?thesis
    using sum_length_filter_compl[of ?keep pool] by (simp add: drop_included_def)
qed

lemma drop_included_no_conflict:
  "e \<in> set (drop_included sel pool) \<Longrightarrow> s \<in> set sel \<Longrightarrow> me_txid s \<noteq> me_txid e \<and> \<not> conflict s e"
  by (fastforce simp: drop_included_def spent_keys_def conflict_def)

section \<open>The chain invariant\<close>

text \<open>Block heights count from 0 without gaps, and the mining log has one row per block,
  with its height and hash.\<close>

definition chain_ok :: "labState \<Rightarrow> bool" where
  "chain_ok s \<longleftrightarrow> consecutive_from 0 (map blk_height (blocks s)) \<and>
     map (\<lambda>o'. (mo_height o', mo_blockHash o')) (mineOperations s) =
     map (\<lambda>b. (blk_height b, blockHash b)) (blocks s)"

lemma consecutive_from_snoc:
  "consecutive_from h (xs @ [x]) \<longleftrightarrow> consecutive_from h xs \<and> x = h + int (length xs)"
  by (auto simp: consecutive_from_def)

lemma next_height_chain_ok: "chain_ok s \<Longrightarrow> next_height s = int (length (blocks s))"
proof (cases "blocks s" rule: rev_cases)
  case (snoc bs b)
  assume "chain_ok s"
  with snoc show ?thesis
    by (simp add: chain_ok_def consecutive_from_snoc next_height_def getTip_def)
qed (simp add: next_height_def getTip_def)

lemma chain_ok_cong:
  "blocks s = blocks s' \<Longrightarrow> mineOperations s = mineOperations s' \<Longrightarrow> chain_ok s = chain_ok s'"
  by (simp add: chain_ok_def)

lemma mine_one_error_fields:
  assumes "mine_one W run i prev h now w = (Inl e, w')"
  shows "blocks (lwState w') = blocks (lwState w) \<and> mineOperations (lwState w') = mineOperations (lwState w)"
proof -
  let ?m = "lab_mine_block W prev h (run_script run) (if i = 0 then map signedTxHex (run_selected run) else [])
    (run_subsidy run) (if i = 0 then sum_list (map me_feeSats (run_selected run)) else 0)"
  show ?thesis
  proof (cases ?m)
    case (Inl x)
    with assms show ?thesis by (simp add: mine_one_def op_bind_apply)
  next
    case (Inr hex)
    obtain r w1 where app: "applyBlockEffects W hex h None w = (r, w1)" by fastforce
    show ?thesis
    proof (cases r)
      case (Inl x)
      then have "w' = w1" using assms Inr app by (simp add: mine_one_def op_bind_apply)
      with applyBlockEffects_error_fields(1,4)[OF app[unfolded Inl]] show ?thesis by simp
    next
      case unit: (Inr u)
      then have "getTip (lwState w1) \<noteq> None"
        using applyBlockEffects_fields[of W hex h None w w1] app by (auto simp: getTip_def)
      then have "\<exists>y. fst (after_block run i h now w1) = Inr y" by (auto simp: after_block_def)
      moreover have "mine_one W run i prev h now w = after_block run i h now w1"
        unfolding mine_one_def op_bind_apply op_lift_apply Inr by (simp add: app unit op_bind_apply)
      ultimately show ?thesis using assms by (metis Inl_Inr_False fst_conv)
    qed
  qed
qed

lemma mine_loop_chain_ok:
  assumes "chain_ok (lwState w)" and "h = next_height (lwState w)"
  shows "chain_ok (lwState (snd (mine_loop W run clock i k prev h w)))"
  using assms
proof (induction k arbitrary: i prev h w)
  case (Suc k)
  obtain r w1 where one: "mine_one W run i prev h (clock i) w = (r, w1)" by fastforce
  show ?case
  proof (cases r)
    case (Inl e)
    have "chain_ok (lwState w1)"
      using mine_one_error_fields[OF one[unfolded Inl]] Suc.prems(1) by (simp add: chain_ok_def)
    with one Inl show ?thesis by (simp add: op_bind_apply)
  next
    case (Inr ph)
    obtain prev' h' where ph: "ph = (prev', h')" by fastforce
    obtain hex hash cb where o: "h' = h + 1"
      "blocks (lwState w1) = blocks (lwState w) @ [\<lparr>blockHash = hash, blk_height = h, blockData = hex\<rparr>]"
      "mineOperations (lwState w1) = mineOperations (lwState w) @
         [\<lparr>mo_height = h, mo_blockHash = hash, mo_minedBy = run_minedBy run, mo_coinbaseTxid = cb,
           mo_createdAt = clock i, mo_blockWeightLimitWu = Some (run_blockLimit run),
           mo_nonCoinbaseWeightUsedWu = Some (if i = 0 then sum_weights (run_selected run) else 0)\<rparr>]"
      by (rule mine_one_success[OF one[unfolded Inr ph]]) blast
    have "chain_ok (lwState w1)"
      using Suc.prems next_height_chain_ok[OF Suc.prems(1)] o(2,3)
      by (simp add: chain_ok_def consecutive_from_snoc)
    moreover have "h' = next_height (lwState w1)"
      using o(1,2) by (simp add: next_height_def getTip_def)
    ultimately show ?thesis
      using Suc.IH[of w1 h' "Suc i" prev'] one Inr ph by (simp add: op_bind_apply)
  qed
qed simp

lemma executeMineBlocks_state:
  "snd (executeMineBlocks lc W now clock n ta opts w) = w \<or>
   snd (executeMineBlocks lc W now clock n ta opts w) = snd (resolve_mine_target W now ta opts w) \<or>
   (\<exists>run k target. snd (executeMineBlocks lc W now clock n ta opts w) =
      snd (mine_loop W run clock 0 k (tip_hash (lwState w)) (next_height (lwState w))
        (register_coinbase_owner opts target (snd (resolve_mine_target W now ta opts w)))))"
proof (cases "valid_block_count n")
  case (Some k)
  obtain r w1 where t: "resolve_mine_target W now ta opts w = (r, w1)" by fastforce
  show ?thesis
  proof (cases r)
    case (Inr target)
    let ?w2 = "register_coinbase_owner opts target w1"
    let ?run = "make_run lc opts target (lwState ?w2)"
    have "snd (executeMineBlocks lc W now clock n ta opts w) =
        snd (mine_loop W ?run clock 0 (nat k) (tip_hash (lwState w)) (next_height (lwState w)) ?w2)"
      using Some t Inr by (simp add: executeMineBlocks_def op_bind_apply split: prod.splits sum.splits)
    then show ?thesis using t by (metis snd_conv)
  qed (use Some t in \<open>simp add: executeMineBlocks_def op_bind_apply\<close>)
qed (simp add: executeMineBlocks_def)

lemma executeMineBlocks_chain_ok:
  "op_keeps (\<lambda>w. chain_ok (lwState w)) (executeMineBlocks lc W now clock n ta opts)"
  unfolding op_keeps_def
proof (intro allI impI)
  fix w :: labWorker
  assume ok: "chain_ok (lwState w)"
  let ?t = "snd (resolve_mine_target W now ta opts w)"
  have t: "blocks (lwState ?t) = blocks (lwState w)" "mineOperations (lwState ?t) = mineOperations (lwState w)"
    using resolve_mine_target_state[of W now ta opts w] entity_added_fields(1,3)[of w ?t] by auto
  then have "chain_ok (lwState ?t)" using ok chain_ok_cong by blast
  moreover have "chain_ok (lwState (snd (mine_loop W run clock 0 k (tip_hash (lwState w)) (next_height (lwState w))
      (register_coinbase_owner opts target ?t))))" for run k target
  proof (rule mine_loop_chain_ok)
    note fields = register_coinbase_fields(1,3)[of opts target ?t]
    show "chain_ok (lwState (register_coinbase_owner opts target ?t))"
      using ok t fields chain_ok_cong[of "lwState (register_coinbase_owner opts target ?t)" "lwState w"] by simp
    show "next_height (lwState w) = next_height (lwState (register_coinbase_owner opts target ?t))"
      using t fields by (simp add: next_height_def getTip_def)
  qed
  ultimately show "chain_ok (lwState (snd (executeMineBlocks lc W now clock n ta opts w)))"
    using executeMineBlocks_state[of lc W now clock n ta opts w] ok by metis
qed

section \<open>Rows stay well formed\<close>

context row_invariant
begin

lemma after_block_keeps: "op_keeps I (after_block run i h now)"
  unfolding op_keeps_def
proof (intro allI impI)
  fix w
  assume "I w"
  then show "I (snd (after_block run i h now w))"
    using row_cong[of "snd (after_block run i h now w)" w]
    by (auto simp: after_block_def split: option.splits)
qed

lemma mine_one_keeps: "op_keeps I (mine_one W run i prev h now)"
  unfolding mine_one_def
  by (intro op_keeps_bind op_keeps_lift block_keeps after_block_keeps)

lemma mine_loop_keeps: "op_keeps I (mine_loop W run clock i k prev h)"
proof (induction k arbitrary: i prev h)
  case 0
  show ?case by (auto simp: op_keeps_def)
next
  case (Suc k)
  then show ?case by (auto intro!: op_keeps_bind mine_one_keeps)
qed

lemma run_keeps: "op_keeps I (executeMineBlocks lc W now clock n ta opts)"
  unfolding op_keeps_def
proof (intro allI impI)
  fix w :: labWorker
  assume ok: "I w"
  let ?t = "snd (resolve_mine_target W now ta opts w)"
  have t: "I ?t"
    using resolve_mine_target_state[of W now ta opts w] ok row_cong[of ?t w]
      entity_added_fields(4,5,6)[of w ?t] by auto
  then have "I (register_coinbase_owner opts target ?t)" for target
    by (simp add: register_coinbase_owner_def owner_keeps split: option.splits)
  then have "I (snd (mine_loop W run clock 0 k p h (register_coinbase_owner opts target ?t)))" for run k p h target
    using mine_loop_keeps unfolding op_keeps_def by blast
  then show "I (snd (executeMineBlocks lc W now clock n ta opts w))"
    using executeMineBlocks_state[of lc W now clock n ta opts w] ok t by metis
qed

end

section \<open>Properties\<close>

text \<open>C16: a mining run that succeeds extends the chain by exactly the requested number of
  blocks, between 1 and 100, with consecutive heights on top of the old tip, and logs one
  mining operation per block, with its height and hash and the same miner throughout.\<close>

theorem executeMineBlocks_extends_chain:
  assumes "executeMineBlocks lc W now clock n ta opts w = (Inr res, w')"
  shows "\<exists>k new ops minedBy. js_integer n = Some k \<and> 1 \<le> k \<and> k \<le> 100 \<and> int (length new) = k \<and>
    blocks (lwState w') = blocks (lwState w) @ new \<and>
    consecutive_from (next_height (lwState w)) (map blk_height new) \<and>
    mineOperations (lwState w') = mineOperations (lwState w) @ ops \<and>
    map (\<lambda>o'. (mo_height o', mo_blockHash o')) ops = map (\<lambda>b. (blk_height b, blockHash b)) new \<and>
    (\<forall>o' \<in> set ops. mo_minedBy o' = minedBy)"
  using assms
proof (rule executeMineBlocks_success)
  fix k target w1 run
  assume k: "valid_block_count n = Some k"
    and l: "mine_loop W run clock 0 (nat k) (tip_hash (lwState w)) (next_height (lwState w))
       (register_coinbase_owner opts target w1) = (Inr (), w')"
    and fields: "blocks (lwState w1) = blocks (lwState w)" "mineOperations (lwState w1) = mineOperations (lwState w)"
  have "js_integer n = Some k \<and> 1 \<le> k \<and> k \<le> 100"
    using k by (auto simp: valid_block_count_def LAB_MIN_BLOCKS_PER_MINE_def LAB_MAX_BLOCKS_PER_MINE_def
        split: option.splits if_splits)
  with mine_loop_success[OF l] fields register_coinbase_fields(1,3)[of opts target w1]
  show ?thesis by (fastforce intro: exI[of _ "run_minedBy run"])
qed


text \<open>an invalid block count (not an integer, below 1 or above 100) is rejected before
  anything is read or changed.\<close>

theorem executeMineBlocks_count_error:
  assumes "case js_integer n of None \<Rightarrow> True | Some k \<Rightarrow> k < 1 \<or> 100 < k"
  shows "executeMineBlocks lc W now clock n ta opts w =
    (Inl ''Block count must be an integer from 1 to 100 (inclusive)'', w)"
proof -
  have "block_count_error = ''Block count must be an integer from 1 to 100 (inclusive)''" by code_simp
  moreover have "valid_block_count n = None"
    using assms by (auto simp: valid_block_count_def LAB_MIN_BLOCKS_PER_MINE_def LAB_MAX_BLOCKS_PER_MINE_def
        split: option.splits)
  ultimately show ?thesis by (simp add: executeMineBlocks_def)
qed

theorem executeMineBlocks_count_error_witness:
  "executeMineBlocks code_unit_compare sample_wasm ''now'' (\<lambda>_. ''now'') (Fin 101) '''' \<lparr>mi_ownerName = None,
     mi_ownerLabEntityId = None, mi_ownerWalletId = None, mi_labAddressType = None, mi_labNetwork = None\<rparr>
     INITIAL_LAB_WORKER = (Inl ''Block count must be an integer from 1 to 100 (inclusive)'', INITIAL_LAB_WORKER)"
  by (rule executeMineBlocks_count_error) (simp add: js_integer_def)

text \<open>mining keeps the chain in order, also when it throws half-way: heights count
  from 0 without gaps and the mining log has exactly one row per block.\<close>

theorem mining_keeps_chain_ok:
  "op_keeps (\<lambda>w. chain_ok (lwState w)) (executeMineBlocks lc W now clock n ta opts)"
  by (rule executeMineBlocks_chain_ok)

subsection \<open>The preview agrees with the run\<close>

text \<open>The options and the target with which the UI mines for the controls \<open>p\<close> it also
  passes to the preview.\<close>

definition mine_options_of :: "labCurrentBlockTemplateParams \<Rightarrow> mineOptions" where
  "mine_options_of p =
     \<lparr>mi_ownerName = (if tp_ownerType p = LabEntityOwner then tp_ownerName p else None),
      mi_ownerLabEntityId = (if tp_ownerType p = LabEntityOwner then tp_ownerLabEntityId p else None),
      mi_ownerWalletId = (if tp_ownerType p = WalletOwner then tp_ownerWalletId p else None),
      mi_labAddressType = tp_labAddressType p, mi_labNetwork = tp_labNetwork p\<rparr>"

definition mine_target_of :: "labCurrentBlockTemplateParams \<Rightarrow> string" where
  "mine_target_of p =
     (if tp_ownerType p = WalletOwner then trim_or_empty (tp_walletCurrentAddress p) else tp_targetAddress p)"

lemma js_trim_empty: "js_trim '''' = ''''"
  by (simp add: js_trim_def)

lemma find_append: "List.find P (xs @ ys) = (case List.find P xs of None \<Rightarrow> List.find P ys | Some x \<Rightarrow> Some x)"
  by (induction xs) auto

lemma with_script_Inr: "with_script W a x w = (Inr t, w') \<Longrightarrow> coinbaseAddress t = a \<and> ownerForCoinbase t = x"
  by (auto simp: with_script_def op_bind_Inr)

lemma create_entity_Inr:
  assumes "createAndRegisterLabEntityFromWasm W i name net ty now err w = (Inr a, w')"
  shows "firstAddressFromNewEntityWallet W net ty = Inr a \<and>
    (\<exists>e. entities (lwState w') = entities (lwState w) @ [e] \<and> labEntityId e = i \<and> entityName e = name)"
  using assms unfolding createAndRegisterLabEntityFromWasm_def firstAddressFromNewEntityWallet_def
  by (auto simp: op_bind_Inr split: if_splits)

lemma mine_to_entity_name_Inr:
  assumes "mine_to_entity_name W n net ty now w = (Inr t, w')"
  shows "(case List.find (\<lambda>e. entityName e = Some n) (entities (lwState w)) of
       Some e \<Rightarrow> sum_bind (entity_address W e) (\<lambda>a. Inr (a, Some (labEntityLabOwner (labEntityId e))))
     | None \<Rightarrow> sum_bind (firstAddressFromNewEntityWallet W net ty)
         (\<lambda>a. Inr (a, Some (labEntityLabOwner (nextLabEntityId (entities (lwState w))))))) =
    Inr (coinbaseAddress t, ownerForCoinbase t)"
proof (cases "List.find (\<lambda>e. entityName e = Some n) (entities (lwState w))")
  case None
  then obtain a w1 e where c: "createAndRegisterLabEntityFromWasm W (nextLabEntityId (entities (lwState w)))
        (Some n) net ty now ''Lab entity wallet creation failed (no first address)'' w = (Inr a, w1)"
      and e: "List.find (\<lambda>e. entityName e = Some n) (entities (lwState w1)) = Some e"
      and s: "with_script W a (Some (labEntityLabOwner (labEntityId e))) w1 = (Inr t, w')"
    using assms unfolding mine_to_entity_name_def
    by (auto simp: op_bind_Inr split: option.splits)
  have "labEntityId e = nextLabEntityId (entities (lwState w))"
    using create_entity_Inr[OF c] e None by (auto simp: find_append split: if_splits)
  then show ?thesis using None create_entity_Inr[OF c] with_script_Inr[OF s] by simp
next
  case (Some e)
  then show ?thesis
    using assms unfolding mine_to_entity_name_def
    by (auto simp: op_bind_Inr sum_bind_Inr dest: with_script_Inr)
qed

lemma mine_to_new_entity_Inr:
  assumes "mine_to_new_entity W net ty now w = (Inr t, w')"
  shows "firstAddressFromNewEntityWallet W net ty = Inr (coinbaseAddress t) \<and>
    ownerForCoinbase t = Some (labEntityLabOwner (nextLabEntityId (entities (lwState w))))"
  using assms unfolding mine_to_new_entity_def
  by (auto simp: op_bind_Inr dest!: with_script_Inr create_entity_Inr)

lemma mine_to_entity_id_Inr:
  assumes "mine_to_entity_id W i w = (Inr t, w')"
  shows "\<exists>e. List.find (\<lambda>e. labEntityId e = i) (entities (lwState w)) = Some e \<and> \<not> isDead e \<and>
    entity_address W e = Inr (coinbaseAddress t) \<and> ownerForCoinbase t = Some (labEntityLabOwner (labEntityId e))"
  using assms unfolding mine_to_entity_id_def
  by (auto simp: op_bind_Inr split: option.splits if_splits dest!: with_script_Inr)

text \<open>the preview of the next block names the coinbase address and the miner that a
  mining run with the same controls then uses, whenever the run finds its target (for a wallet
  miner, as long as the wallet has a current address).\<close>

theorem template_mirrors_mining:
  assumes "resolve_mine_target W now (mine_target_of p) (mine_options_of p) w = (Inr target, w')"
    and "tp_ownerType p = WalletOwner \<Longrightarrow> trim_or_empty (tp_walletCurrentAddress p) \<noteq> ''''"
  shows "resolveTemplateCoinbase p W (lwState w) =
    Inr (coinbaseAddress target, mine_owner (mine_options_of p) target)"
proof (cases "tp_ownerType p")
  case WalletOwner
  have "js_trim (mine_target_of p) = trim_or_empty (tp_walletCurrentAddress p)"
    using WalletOwner js_trim_empty by (auto simp: mine_target_of_def trim_or_empty_def split: option.splits)
  then show ?thesis
    using assms WalletOwner with_script_Inr
    by (auto simp: resolve_mine_target_def resolveTemplateCoinbase_def mine_options_of_def Let_def mine_owner_def
        trim_or_empty_def[of None] split: option.splits dest!: with_script_Inr)
next
  case LabEntityOwner
  show ?thesis
  proof (cases "Option.bind (tp_ownerLabEntityId p) js_integer")
    case (Some i)
    then show ?thesis
      using assms(1) LabEntityOwner
      by (auto simp: resolve_mine_target_def resolveTemplateCoinbase_def mine_options_of_def Let_def mine_owner_def
          sum_bind_Inr dest!: mine_to_entity_id_Inr)
  next
    case None
    then show ?thesis
      using assms(1) LabEntityOwner mine_to_entity_name_Inr
      by (auto simp: resolve_mine_target_def resolveTemplateCoinbase_def mine_options_of_def mine_target_of_def
          Let_def mine_owner_def sum_bind_Inr split: if_splits
          dest!: mine_to_entity_name_Inr with_script_Inr mine_to_new_entity_Inr)
  qed
qed

subsection \<open>A concrete run\<close>

definition no_options :: mineOptions where
  "no_options = \<lparr>mi_ownerName = None, mi_ownerLabEntityId = None, mi_ownerWalletId = None,
     mi_labAddressType = None, mi_labNetwork = None\<rparr>"

definition sample_pool_worker :: labWorker where
  "sample_pool_worker = INITIAL_LAB_WORKER\<lparr>lwState := EMPTY_LAB_STATE\<lparr>mempool := [sample_pool ! 1]\<rparr>\<rparr>"

definition sample_run :: "js_number \<Rightarrow> labWorker \<Rightarrow> (string + labMineBlocksResult) \<times> labWorker" where
  "sample_run n = executeMineBlocks code_unit_compare sample_wasm ''now'' (\<lambda>_. ''now'') n '''' no_options"

lemma sample_run_succeeds: "case_sum (\<lambda>_. False) (\<lambda>_. True) (fst (sample_run (Fin 2) INITIAL_LAB_WORKER))"
  by code_simp

lemma sample_pool_run_succeeds:
  "case_sum (\<lambda>_. False) (\<lambda>_. True) (fst (sample_run (Fin 1) sample_pool_worker))"
  by code_simp

lemma run_result: "case_sum (\<lambda>_. False) (\<lambda>_. True) (fst r) \<Longrightarrow> \<exists>res. r = (Inr res, snd r)"
  by (cases r) (auto split: sum.splits)

theorem executeMineBlocks_extends_chain_witness:
  "map blk_height (blocks (lwState (snd (sample_run (Fin 2) INITIAL_LAB_WORKER)))) = [0, 1]"
proof -
  let ?r = "sample_run (Fin 2) INITIAL_LAB_WORKER"
  obtain res where r: "?r = (Inr res, snd ?r)" using run_result[OF sample_run_succeeds] by blast
  have "js_integer (Fin 2) = Some 2" by (simp add: js_integer_def)
  moreover have "blocks (lwState INITIAL_LAB_WORKER) = []" "next_height (lwState INITIAL_LAB_WORKER) = 0"
    by code_simp+
  ultimately obtain new where "blocks (lwState (snd ?r)) = new" "length new = 2"
      "consecutive_from 0 (map blk_height new)"
    using executeMineBlocks_extends_chain[OF r[unfolded sample_run_def]] unfolding sample_run_def by auto
  moreover have "consecutive_from 0 hs \<Longrightarrow> length hs = 2 \<Longrightarrow> hs = [0, 1]" for hs
    by (simp add: consecutive_from_def numeral_2_eq_2)
  ultimately show ?thesis by simp
qed


definition sample_params :: labCurrentBlockTemplateParams where
  "sample_params = \<lparr>tp_ownerType = LabEntityOwner, tp_targetAddress = '''', tp_ownerName = Some '' Alice '',
     tp_ownerLabEntityId = None, tp_ownerWalletId = None, tp_walletCurrentAddress = None,
     tp_labAddressType = None, tp_labNetwork = None\<rparr>"

theorem template_mirrors_mining_witness:
  "resolveTemplateCoinbase sample_params sample_wasm EMPTY_LAB_STATE = Inr (''bcrt1qa'', Some (LabEntity 1))"
proof -
  let ?t = "\<lparr>coinbaseAddress = ''bcrt1qa'', coinbaseScriptPubkeyHex = ''0014'', ownerForCoinbase = Some (LabEntity 1)\<rparr>"
  let ?r = "resolve_mine_target sample_wasm ''now'' (mine_target_of sample_params) (mine_options_of sample_params)
    INITIAL_LAB_WORKER"
  have "fst ?r = Inr ?t" by code_simp
  then have r: "?r = (Inr ?t, snd ?r)" by (metis prod.collapse)
  have "resolveTemplateCoinbase sample_params sample_wasm (lwState INITIAL_LAB_WORKER) =
      Inr (coinbaseAddress ?t, mine_owner (mine_options_of sample_params) ?t)"
    by (rule template_mirrors_mining[OF r]) (simp add: sample_params_def)
  moreover have "mine_owner (mine_options_of sample_params) ?t = Some (LabEntity 1)" by code_simp
  ultimately show ?thesis by (simp add: INITIAL_LAB_WORKER_def)
qed

text \<open>A dead entity.\<close>

definition dead_alice :: labWorker where
  "dead_alice = INITIAL_LAB_WORKER\<lparr>lwState := EMPTY_LAB_STATE\<lparr>entities :=
     [\<lparr>labEntityId = 1, entityName = Some ''Alice'', mnemonic = ''m'', changesetJson = ''c'',
       externalDescriptor = ''e'', internalDescriptor = ''i'', ent_network = ''regtest'',
       ent_addressType = SegWit, accountId = 0, createdAt = ''t'', updatedAt = ''t'', isDead = True\<rparr>]\<rparr>\<rparr>"

text \<open>Mining by name does not look at the dead flag that mining by id checks: the same dead entity
  is refused by its id and accepted as the coinbase recipient by its name.\<close>

theorem dead_entity_mined_by_name:
  "fst (resolve_mine_target sample_wasm ''now'' '''' (no_options\<lparr>mi_ownerLabEntityId := Some (Fin 1)\<rparr>) dead_alice) =
     Inl ''Cannot mine to a dead lab entity'' \<and>
   fst (resolve_mine_target sample_wasm ''now'' '''' (no_options\<lparr>mi_ownerName := Some ''Alice''\<rparr>) dead_alice) =
     Inr \<lparr>coinbaseAddress = ''bcrt1qa'', coinbaseScriptPubkeyHex = ''0014'', ownerForCoinbase = Some (LabEntity 1)\<rparr>"
  by code_simp

end
