(* ===== verification/Lab_Service.thy ===== *)
theory Lab_Service
  imports Lab_Mining
begin

text \<open>
  The operations the lab worker exposes: \<open>workers/lab.worker.ts\<close> with its helpers
  \<open>lab-append-mempool.ts\<close>, \<open>lab-wasm-utxos.ts\<close> and \<open>lab-random-transactions.ts\<close>. Each
  method of \<open>labService\<close> is an operation over the worker's state. \<open>now\<close> is the ISO text of
  the clock, \<open>JSON.parse(JSON.stringify(state))\<close> is a copy and hence the state itself.
\<close>

section \<open>Helpers\<close>

definition walletOwnedLabUtxos :: "int \<Rightarrow> labState \<Rightarrow> labUtxo list" where
  "walletOwnedLabUtxos walletId s =
     (let owners = or_empty (addressToOwner s); walletOwner = walletLabOwner walletId
      in filter (\<lambda>u. labOwnersEqual (lookupOwnerForLabAddress (u_address u) owners) (Some walletOwner)) (utxos s))"

text \<open>A \<open>u64\<close> of WASM arrives as a bigint or a number; anything not finite counts as 0.\<close>

definition wasmU64ToNumber :: "js_number \<Rightarrow> int" where
  "wasmU64ToNumber v = (case v of Fin x \<Rightarrow> \<lfloor>x\<rfloor> | _ \<Rightarrow> 0)"

text \<open>The rows \<open>utxosToJsonForLabWasm\<close> serialises.\<close>

definition utxosToJsonForLabWasm :: "labUtxo list \<Rightarrow> json" where
  "utxosToJsonForLabWasm us =
     JArr (map (\<lambda>u. JObj [(''txid'', JStr (u_txid u)), (''vout'', JNum (u_vout u)),
       (''amount_sats'', JNum (u_amountSats u)), (''script_pubkey_hex'', JStr (u_scriptPubkeyHex u)),
       (''address'', JStr (u_address u))]) us)"

definition txOperationPayload_json :: "labOwner option \<Rightarrow> string option \<Rightarrow> json" where
  "txOperationPayload_json receiver primaryToAddress =
     JObj [(''receiver'', owner_option_json receiver),
       (''primaryToAddress'', (case primaryToAddress of None \<Rightarrow> JNull | Some a \<Rightarrow> JStr a))]"

definition appendLabTxOperationAndMempoolEntry ::
  "string \<Rightarrow> string \<Rightarrow> int \<Rightarrow> labMempoolMetadata \<Rightarrow> labOwner \<Rightarrow> string option \<Rightarrow> int option \<Rightarrow> labWorker \<Rightarrow> labWorker" where
  "appendLabTxOperationAndMempoolEntry signedHex txid weight metadata sender changeAddress changeVout w =
     (let normalizedWeight = (if weight > 0 then weight else 1);
          vsize = labVsizeFromWeight normalizedWeight;
          primaryToAddress = map_option out_address (List.find (\<lambda>o'. \<not> out_isChange o') (mm_outputsDetail metadata));
          op = \<lparr>to_txid = txid, to_sender = sender, to_changeAddress = changeAddress, to_changeVout = changeVout,
                to_payloadJson = JText (txOperationPayload_json (mm_receiver metadata) primaryToAddress)\<rparr>;
          w1 = rebuildTxidToChangeAddressFromState
                 (w\<lparr>lwState := (lwState w)\<lparr>txOperations := txOperations (lwState w) @ [op]\<rparr>\<rparr>)
      in w1\<lparr>lwState := (lwState w1)\<lparr>mempool := mempool (lwState w1) @
           [\<lparr>signedTxHex = signedHex, me_txid = txid, me_sender = mm_sender metadata,
             me_receiver = mm_receiver metadata, me_feeSats = mm_feeSats metadata,
             me_weight = normalizedWeight, me_vsize = vsize, me_inputs = mm_inputs metadata,
             me_inputsDetail = mm_inputsDetail metadata, me_outputsDetail = mm_outputsDetail metadata\<rparr>]\<rparr>\<rparr>)"

section \<open>Loading and parameters\<close>

text \<open>A persisted state: the fields of \<open>LabState\<close>, where the two numbers may be missing or,
  through the legacy name, held elsewhere. \<open>JSON.stringify\<close> turns a number that is not
  finite into \<open>null\<close>.\<close>

record persistedLabState =
  ps_state :: labState
  ps_blockWeightLimit :: "js_number option"
  ps_blockSizeLimitVbytes :: "js_number option"
  ps_minerSubsidySats :: "js_number option"

definition json_number :: "js_number option \<Rightarrow> js_number option" where
  "json_number v = (case v of Some (Fin x) \<Rightarrow> Some (Fin x) | _ \<Rightarrow> None)"

definition normalize_loaded_entry :: "labWasm \<Rightarrow> mempoolEntry \<Rightarrow> string + mempoolEntry" where
  "normalize_loaded_entry W entry =
     sum_bind (if me_weight entry \<le> 0
               then sum_bind (lab_tx_weight W (signedTxHex entry)) (\<lambda>raw.
                      let txWeight = wasmU64ToNumber raw
                      in Inr (entry\<lparr>me_weight := (if txWeight > 0 then txWeight else 1)\<rparr>))
               else Inr entry)
       (\<lambda>e. Inr (e\<lparr>me_vsize := labVsizeFromWeight (me_weight e)\<rparr>))"

definition loadState :: "labWasm \<Rightarrow> persistedLabState \<Rightarrow> (labWorker, unit) op" where
  "loadState W persisted =
     (let s = ps_state persisted;
          blockWeightLimit' = normalizeBlockWeightLimit
            (case json_number (ps_blockWeightLimit persisted) of
               Some v \<Rightarrow> v
             | None \<Rightarrow> (case json_number (ps_blockSizeLimitVbytes persisted) of
                  Some v \<Rightarrow> v
                | None \<Rightarrow> Fin (of_int LAB_DEFAULT_BLOCK_WEIGHT_UNITS)));
          minerSubsidySats' = normalizeMinerSubsidySats
            (case json_number (ps_minerSubsidySats persisted) of
               Some v \<Rightarrow> v
             | None \<Rightarrow> Fin (of_int LAB_DEFAULT_MINER_SUBSIDY_SATS))
      in op_bind (op_lift (sum_map (normalize_loaded_entry W) (mempool s))) (\<lambda>mempool'.
         op_modify (\<lambda>w. rebuildTxidToChangeAddressFromState (replaceLabWorkerState
           (s\<lparr>addressToOwner := Some (or_empty (addressToOwner s)), mempool := mempool',
              blockWeightLimit := blockWeightLimit', minerSubsidySats := minerSubsidySats'\<rparr>) w))))"

definition snapshot :: "(labWorker, labState) op" where
  "snapshot = op_state (\<lambda>s. s)"

definition getStateSnapshot :: "(labWorker, labState) op" where
  "getStateSnapshot = op_state (\<lambda>s. s)"

definition setBlockWeightLimit :: "js_number \<Rightarrow> (labWorker, labState) op" where
  "setBlockWeightLimit v =
     (case v of
        Fin x \<Rightarrow>
          if \<lfloor>x\<rfloor> < LAB_MIN_BLOCK_WEIGHT_UNITS
          then op_throw (''blockWeightLimit must be at least '' @ int_str LAB_MIN_BLOCK_WEIGHT_UNITS @ '' weight units'')
          else op_bind (update_state (\<lambda>s. s\<lparr>blockWeightLimit := \<lfloor>x\<rfloor>\<rparr>)) (\<lambda>_. snapshot)
      | _ \<Rightarrow> op_throw ''blockWeightLimit must be a finite number'')"

definition setMinerSubsidySats :: "js_number \<Rightarrow> (labWorker, labState) op" where
  "setMinerSubsidySats v =
     (if \<not> js_is_finite v then op_throw ''minerSubsidySats must be a finite number''
      else op_bind (update_state (\<lambda>s. s\<lparr>minerSubsidySats := normalizeMinerSubsidySats v\<rparr>)) (\<lambda>_. snapshot))"

section \<open>Queries\<close>

definition getBlockCount :: "labState \<Rightarrow> int" where
  "getBlockCount s = (case getTip s of None \<Rightarrow> 0 | Some tip \<Rightarrow> blk_height tip + 1)"

definition getTransaction :: "string \<Rightarrow> labState \<Rightarrow> labTxDetails option" where
  "getTransaction txid s =
     (let normalizedTxid = js_lower (js_trim txid)
      in case List.find (\<lambda>e. js_lower (me_txid e) = normalizedTxid) (mempool s) of
           Some entry \<Rightarrow>
             Some \<lparr>td_txid = me_txid entry, td_blockHeight = - 1, td_blockTime = 0, td_confirmations = 0,
               td_inputs = mergeMempoolInputsDetailWithOutpoints (me_inputs entry) (me_inputsDetail entry),
               td_outputs = me_outputsDetail entry\<rparr>
         | None \<Rightarrow>
             map_option (\<lambda>d. d\<lparr>td_confirmations := getBlockCount s - td_blockHeight d\<rparr>)
               (List.find (\<lambda>d. js_lower (td_txid d) = normalizedTxid) (txDetails s)))"

definition getBlockByHeight ::
  "(8 word list \<Rightarrow> 8 word list) \<Rightarrow> int \<Rightarrow> labState \<Rightarrow> string + labBlockDetails option" where
  "getBlockByHeight sha256 height s =
     (case List.find (\<lambda>b. blk_height b = height) (blocks s) of
        None \<Rightarrow> Inr None
      | Some block \<Rightarrow> sum_bind (buildMinedBlockDetails sha256 s block) (\<lambda>d. Inr (Some d)))"

definition getAddresses :: "labState \<Rightarrow> labAddress list" where
  "getAddresses s = mergeAddressesWithUtxos (addresses s) (utxos s)"

record labWalletUtxoRow =
  wr_address :: string
  wr_amountSats :: int
  wr_txid :: string
  wr_vout :: int

definition listLabWalletUtxos :: "int \<Rightarrow> labState \<Rightarrow> labWalletUtxoRow list" where
  "listLabWalletUtxos walletId s =
     map (\<lambda>u. \<lparr>wr_address = u_address u, wr_amountSats = u_amountSats u, wr_txid = u_txid u, wr_vout = u_vout u\<rparr>)
       (walletOwnedLabUtxos walletId s)"

section \<open>Preparing transactions\<close>

record labEntityTransactionCryptoParams =
  cp_mnemonic :: string
  cp_changesetJson :: string
  cp_network :: string
  cp_addressType :: addressType
  cp_accountId :: int
  cp_utxosJson :: json
  cp_toAddress :: string
  cp_amountSats :: int
  cp_feeRateSatPerVb :: rat

record preparedEntityTx =
  pe_crypto :: labEntityTransactionCryptoParams
  pe_mempoolMetadata :: labMempoolMetadata
  pe_totalInput :: int

definition utxo_input_detail :: "labOwner js_record \<Rightarrow> labUtxo \<Rightarrow> labTxInputDetail" where
  "utxo_input_detail owners u =
     \<lparr>in_address = u_address u, in_amountSats = u_amountSats u,
      in_owner = lookupOwnerForLabAddress (u_address u) owners,
      in_prevTxid = Some (u_txid u), in_prevVout = Some (u_vout u), in_sequence = None\<rparr>"

definition sum_utxos :: "labUtxo list \<Rightarrow> int" where
  "sum_utxos us = sum_list (map u_amountSats us)"

definition payment_metadata ::
  "labOwner \<Rightarrow> labOwner \<Rightarrow> labOwner js_record \<Rightarrow> labUtxo list \<Rightarrow> string \<Rightarrow> int \<Rightarrow> string \<Rightarrow> labMempoolMetadata" where
  "payment_metadata sender receiver owners fromUtxos toAddress amountSats changeAddress =
     \<lparr>mm_sender = Some sender, mm_receiver = Some receiver, mm_feeSats = 0,
      mm_inputs = map utxo_point fromUtxos,
      mm_inputsDetail = map (utxo_input_detail owners) fromUtxos,
      mm_outputsDetail = [\<lparr>out_address = toAddress, out_amountSats = amountSats, out_isChange = False,
        out_owner = Some receiver\<rparr>],
      mm_hasChange = False, mm_walletChangeAddress = changeAddress\<rparr>"

definition quoted :: "string \<Rightarrow> string" where
  "quoted s = [CHR 0x22] @ s @ [CHR 0x22]"

definition prepareLabEntityTransaction ::
  "int \<Rightarrow> string \<Rightarrow> string \<Rightarrow> int \<Rightarrow> rat \<Rightarrow> labOwner option \<Rightarrow> (labWorker, preparedEntityTx) op" where
  "prepareLabEntityTransaction entityId fromAddress toAddress amountSats feeRate knownRecipient w =
     (let aliased = (addressToOwner (lwState w) \<noteq> None);
          s = lwState w;
          expectedOwner = labEntityLabOwner entityId;
          ownerAtFrom = lookupOwnerForLabAddress fromAddress (owner_view aliased w)
      in if \<not> labOwnersEqual ownerAtFrom (Some expectedOwner)
         then (Inl ''From address does not belong to this lab entity'', w)
         else if (case ownerAtFrom of Some (Wallet _) \<Rightarrow> True | _ \<Rightarrow> False)
         then (Inl ''Use the wallet Send flow for user-wallet lab spends'', w)
         else case findLabEntityById (entities s) entityId of
           None \<Rightarrow> (Inl (unknown_entity entityId), w)
         | Some entity \<Rightarrow>
             (case labEntityMustBeAliveToSend entity of
                Inl e \<Rightarrow> (Inl e, w)
              | Inr _ \<Rightarrow>
                  (let fromUtxos = filter (\<lambda>u. labBitcoinAddressesEqual (u_address u) fromAddress) (utxos s);
                       toOwner = lookupOwnerForLabAddress toAddress (owner_view aliased w);
                       receiver = or_else toOwner (or_else
                         (if labBitcoinAddressesEqual fromAddress toAddress then Some expectedOwner else None)
                         knownRecipient);
                       w1 = (case (receiver, toOwner) of
                               (Some r, None) \<Rightarrow> set_owner toAddress r w
                             | _ \<Rightarrow> w)
                   in if length fromUtxos = 0 then (Inl ''No UTXOs for the selected from address'', w)
                      else case assertLabReceiverNonNull receiver
                             (''prepareLabEntityTransaction labEntityId='' @ int_str entityId @ '' toAddress='' @ quoted toAddress) of
                        Inl e \<Rightarrow> (Inl e, w1)
                      | Inr r \<Rightarrow>
                          (Inr \<lparr>pe_crypto = \<lparr>cp_mnemonic = mnemonic entity, cp_changesetJson = changesetJson entity,
                                cp_network = ent_network entity, cp_addressType = ent_addressType entity,
                                cp_accountId = accountId entity, cp_utxosJson = utxosToJsonForLabWasm fromUtxos,
                                cp_toAddress = toAddress, cp_amountSats = amountSats, cp_feeRateSatPerVb = feeRate\<rparr>,
                              pe_mempoolMetadata = payment_metadata expectedOwner r (owner_view aliased w1) fromUtxos
                                toAddress amountSats '''',
                              pe_totalInput = sum_utxos fromUtxos\<rparr>, w1))))"

definition MANUAL_COIN_CONTROL_EMPTY_SELECTION_MESSAGE :: string where
  "MANUAL_COIN_CONTROL_EMPTY_SELECTION_MESSAGE = ''At least one UTXO must be selected for manual coin control''"

record preparedWalletTx =
  pw_utxosJson :: json
  pw_mempoolMetadata :: labMempoolMetadata
  pw_totalInput :: int

definition prepareLabWalletTransaction ::
  "int \<Rightarrow> string \<Rightarrow> int \<Rightarrow> string \<Rightarrow> labOwner option \<Rightarrow> outpoint list option \<Rightarrow> (labWorker, preparedWalletTx) op" where
  "prepareLabWalletTransaction walletId toAddress amountSats walletChangeAddress knownRecipient selectedOutpoints w =
     (let aliased = (addressToOwner (lwState w) \<noteq> None);
          walletUtxos = walletOwnedLabUtxos walletId (lwState w);
          fromUtxos = filterUtxosBySelectedOutpoints (\<lambda>u. (u_txid u, u_vout u)) walletUtxos selectedOutpoints;
          receiver0 = lookupOwnerForLabAddress toAddress (owner_view aliased w);
          (receiver, w1) = (case (receiver0, knownRecipient) of
                              (None, Some k) \<Rightarrow> (Some k, set_owner toAddress k w)
                            | _ \<Rightarrow> (receiver0, w))
      in if length walletUtxos = 0
         then (Inl (''No UTXOs available for the wallet. walletId='' @ int_str walletId @
                 ''. Ensure the wallet is loaded for lab (regtest) and you have mined to it.''), w)
         else if selectedOutpoints = Some []
         then (Inl MANUAL_COIN_CONTROL_EMPTY_SELECTION_MESSAGE, w)
         else if length fromUtxos = 0
         then (Inl (''No matching UTXOs for manual selection. walletId='' @ int_str walletId @ ''.''), w)
         else case receiver of
                None \<Rightarrow> (Inl (''prepareLabWalletTransaction: cannot resolve payee owner for toAddress='' @ quoted toAddress @
                  ''. Send to a lab-mapped address, or pay your active receive address (shown on Receive) '' @
                  ''so the app can set knownRecipientOwner.''), w1)
              | Some r \<Rightarrow>
                  (Inr \<lparr>pw_utxosJson = utxosToJsonForLabWasm fromUtxos,
                      pw_mempoolMetadata = payment_metadata (walletLabOwner walletId) r (owner_view aliased w1)
                        fromUtxos toAddress amountSats walletChangeAddress,
                      pw_totalInput = sum_utxos fromUtxos\<rparr>, w1))"

section \<open>Mempool operations\<close>

definition set_entity :: "int \<Rightarrow> (labEntityRecord \<Rightarrow> labEntityRecord) \<Rightarrow> labState \<Rightarrow> labState" where
  "set_entity i f s = s\<lparr>entities := update_first (\<lambda>e. labEntityId e = i) f (entities s)\<rparr>"

definition find_entity :: "int \<Rightarrow> (labWorker, labEntityRecord) op" where
  "find_entity i =
     op_bind (op_state (\<lambda>s. findLabEntityById (entities s) i)) (\<lambda>found.
       case found of None \<Rightarrow> op_throw (unknown_entity i) | Some e \<Rightarrow> op_return e)"

definition change_vout :: "labMempoolMetadata \<Rightarrow> int option" where
  "change_vout m = map_option int (find_index out_isChange (mm_outputsDetail m))"

definition tx_weight_or_one :: "js_number \<Rightarrow> int" where
  "tx_weight_or_one raw = (let weight = wasmU64ToNumber raw in if weight > 0 then weight else 1)"

definition finalizeLabEntityMempoolTransaction ::
  "labWasm \<Rightarrow> string \<Rightarrow> string \<Rightarrow> labMempoolMetadata \<Rightarrow> int \<Rightarrow> string \<Rightarrow> (labWorker, labState) op" where
  "finalizeLabEntityMempoolTransaction W now signedHex metadata entityId newChangesetJson =
     op_bind (find_entity entityId) (\<lambda>entity.
     op_bind (update_state (set_entity entityId (\<lambda>e. e\<lparr>changesetJson := newChangesetJson, updatedAt := now\<rparr>))) (\<lambda>_.
     op_bind (op_lift (lab_txid W signedHex)) (\<lambda>txid.
     op_bind (op_lift (assertLabReceiverNonNull (mm_receiver metadata)
                (''finalizeLabEntityMempoolTransaction txid='' @ txid))) (\<lambda>_.
     op_bind (op_lift (lab_tx_weight W signedHex)) (\<lambda>raw.
     let changeOut = (if mm_hasChange metadata then List.find out_isChange (mm_outputsDetail metadata) else None)
     in op_bind (op_modify (appendLabTxOperationAndMempoolEntry signedHex txid (tx_weight_or_one raw) metadata
            (labEntityLabOwner (labEntityId entity)) (map_option out_address changeOut) (change_vout metadata))) (\<lambda>_.
        getStateSnapshot))))))"

definition addSignedTransactionToMempool ::
  "labWasm \<Rightarrow> string \<Rightarrow> labMempoolMetadata \<Rightarrow> (labWorker, labState) op" where
  "addSignedTransactionToMempool W signedHex metadata =
     op_bind (op_lift (lab_txid W signedHex)) (\<lambda>txid.
     op_bind (op_lift (assertLabReceiverNonNull (mm_receiver metadata)
                (''addSignedTransactionToMempool txid='' @ txid))) (\<lambda>_.
     case mm_sender metadata of
       None \<Rightarrow> op_throw (''addSignedTransactionToMempool: missing sender for txid='' @ txid)
     | Some sender \<Rightarrow>
         op_bind (op_lift (lab_tx_weight W signedHex)) (\<lambda>raw.
         op_bind (op_modify (appendLabTxOperationAndMempoolEntry signedHex txid (tx_weight_or_one raw) metadata sender
            (if mm_hasChange metadata then Some (mm_walletChangeAddress metadata) else None) (change_vout metadata))) (\<lambda>_.
         getStateSnapshot))))"

section \<open>Entities\<close>

definition register_entity_address :: "string \<Rightarrow> int \<Rightarrow> (labWorker, labState) op" where
  "register_entity_address address i =
     op_bind (op_modify (set_owner address (labEntityLabOwner i))) (\<lambda>_. getStateSnapshot)"

definition createLabEntity ::
  "labWasm \<Rightarrow> string \<Rightarrow> string option \<Rightarrow> addressType option \<Rightarrow> string option \<Rightarrow> (labWorker, labState) op" where
  "createLabEntity W minedAtIso ownerName labAddressTypeOpt labNetworkOpt =
     (let labNetwork = default_network labNetworkOpt;
          labAddressType = default_address_type labAddressTypeOpt;
          name = trim_or_empty ownerName
      in if name \<noteq> '''' then
           op_bind (op_state (\<lambda>s. validateLabEntityRenameName name (entities s) (- 1))) (\<lambda>check.
           op_bind (op_lift check) (\<lambda>_.
           op_bind (op_state (\<lambda>s. List.find (\<lambda>e. entityName e = Some name) (entities s))) (\<lambda>found.
           op_bind (case found of
               Some e \<Rightarrow> op_return e
             | None \<Rightarrow>
                 op_bind (op_state (\<lambda>s. nextLabEntityId (entities s))) (\<lambda>newId.
                 op_bind (createAndRegisterLabEntityFromWasm W newId (Some name) labNetwork labAddressType minedAtIso
                            ''Lab entity wallet creation failed (no first address)'') (\<lambda>_.
                 op_bind (op_state (\<lambda>s. List.find (\<lambda>e. entityName e = Some name) (entities s))) (\<lambda>again.
                   case again of
                     None \<Rightarrow> op_throw ''Lab entity registration failed after wallet creation''
                   | Some e \<Rightarrow> op_return e)))) (\<lambda>entity.
           op_bind (op_lift (entity_address W entity)) (\<lambda>address.
           register_entity_address address (labEntityId entity))))))
         else
           op_bind (op_state (\<lambda>s. nextLabEntityId (entities s))) (\<lambda>newId.
           op_bind (createAndRegisterLabEntityFromWasm W newId None labNetwork labAddressType minedAtIso
                      ''Anonymous lab entity wallet creation failed (no first address)'') (\<lambda>address.
           register_entity_address address newId)))"

definition renameLabEntity :: "string \<Rightarrow> int \<Rightarrow> string \<Rightarrow> (labWorker, labState) op" where
  "renameLabEntity now i newName =
     (let trimmed = js_trim newName
      in op_bind (op_state (\<lambda>s. validateLabEntityRenameName trimmed (entities s) i)) (\<lambda>check.
         op_bind (op_lift check) (\<lambda>_.
         op_bind (find_entity i) (\<lambda>_.
         op_bind (update_state (set_entity i (\<lambda>e. e\<lparr>entityName := Some trimmed, updatedAt := now\<rparr>))) (\<lambda>_.
         getStateSnapshot)))))"

definition touchesTx :: "labOwner \<Rightarrow> labOwner option \<Rightarrow> labOwner option \<Rightarrow> bool" where
  "touchesTx owner sender receiver \<longleftrightarrow> labOwnersEqual sender (Some owner) \<or> labOwnersEqual receiver (Some owner)"

definition entity_has_tx :: "labOwner \<Rightarrow> labState \<Rightarrow> bool" where
  "entity_has_tx owner s \<longleftrightarrow>
     (\<exists>t \<in> set (transactions s). touchesTx owner (tr_sender t) (tr_receiver t)) \<or>
     (\<exists>e \<in> set (mempool s). touchesTx owner (me_sender e) (me_receiver e))"

definition remove_entity :: "int \<Rightarrow> labState \<Rightarrow> labState" where
  "remove_entity i s =
     (let owner = labEntityLabOwner i;
          m = or_empty (addressToOwner s);
          owned = map fst (filter (\<lambda>(a, x). labOwnersEqual (Some x) (Some owner)) m)
      in s\<lparr>entities := filter (\<lambda>e. labEntityId e \<noteq> i) (entities s),
           addressToOwner := Some (fold rec_delete owned m)\<rparr>)"

definition deleteLabEntity :: "int \<Rightarrow> (labWorker, labState) op" where
  "deleteLabEntity i =
     op_bind (find_entity i) (\<lambda>_.
     op_bind (op_state (entity_has_tx (labEntityLabOwner i))) (\<lambda>hasTx.
       if hasTx then op_throw (''Cannot delete: this entity has transactions. Use kill instead, '' @
              ''or remove transactions from the lab chain first.'')
       else op_bind (update_state (remove_entity i)) (\<lambda>_. getStateSnapshot)))"

definition setLabEntityDead :: "string \<Rightarrow> int \<Rightarrow> bool \<Rightarrow> (labWorker, labState) op" where
  "setLabEntityDead now i dead =
     op_bind (find_entity i) (\<lambda>_.
     op_bind (update_state (set_entity i (\<lambda>e. e\<lparr>isDead := dead, updatedAt := now\<rparr>))) (\<lambda>_. getStateSnapshot))"

section \<open>Random transactions\<close>

definition randomIntInclusive :: "rat \<Rightarrow> int \<Rightarrow> int \<Rightarrow> int" where
  "randomIntInclusive random min' max' = \<lfloor>dbl (random * of_int (max' - min' + 1))\<rfloor> + min'"

definition LAB_DUST_LIMIT_SATS :: int where "LAB_DUST_LIMIT_SATS = 546"

definition LAB_RANDOM_FEE_RATE_TENTHS_MIN :: int where "LAB_RANDOM_FEE_RATE_TENTHS_MIN = 1"

definition LAB_RANDOM_FEE_RATE_TENTHS_MAX :: int where "LAB_RANDOM_FEE_RATE_TENTHS_MAX = 100"

definition LAB_RANDOM_TX_MAX_ATTEMPTS_DEFAULT :: int where "LAB_RANDOM_TX_MAX_ATTEMPTS_DEFAULT = 500"

definition feeRateSatPerVbFromRandomRoll :: "int \<Rightarrow> rat" where
  "feeRateSatPerVbFromRandomRoll roll = dbl (of_int roll / 10)"

definition estimateRequiredFeeSats :: "int \<Rightarrow> rat \<Rightarrow> int" where
  "estimateRequiredFeeSats inputCount feeRate =
     (let estimatedVsize = 10 + 68 * inputCount + 34 * 2
      in \<lceil>dbl (of_int estimatedVsize * feeRate)\<rceil> + 1)"

definition isRandomAmountViable :: "int \<Rightarrow> int \<Rightarrow> int \<Rightarrow> bool" where
  "isRandomAmountViable amountSats totalInputSats requiredFeeSats =
     (let minAmount = LAB_DUST_LIMIT_SATS + requiredFeeSats;
          maxAmount = totalInputSats - requiredFeeSats
      in minAmount \<le> amountSats \<and> amountSats \<le> maxAmount)"

text \<open>The log-normal draw between the two bounds goes through the host's \<open>Math.log\<close>,
  \<open>exp\<close>, \<open>sqrt\<close> and \<open>cos\<close>, whose results are implementation-defined: \<open>draw\<close> is the
  floored candidate for given bounds.\<close>

definition sampleRandomLabAmountSats :: "(int \<Rightarrow> int \<Rightarrow> int) \<Rightarrow> int \<Rightarrow> int \<Rightarrow> int option" where
  "sampleRandomLabAmountSats draw totalInputSats requiredFeeSats =
     (let minAmount = LAB_DUST_LIMIT_SATS + requiredFeeSats;
          maxAmount = totalInputSats - requiredFeeSats
      in if minAmount > maxAmount then None
         else let candidate = draw minAmount maxAmount
              in if candidate < minAmount \<or> candidate > maxAmount then None else Some candidate)"

text \<open>The random values one attempt consumes.\<close>

record randomRolls =
  ro_source :: rat
  ro_target :: rat
  ro_from :: rat
  ro_fee :: rat
  ro_draw :: "int \<Rightarrow> int \<Rightarrow> int"

text \<open>Element access by a computed index; out of range is \<open>undefined\<close>, whose use throws.\<close>

definition pick :: "rat \<Rightarrow> 'a list \<Rightarrow> 'a option" where
  "pick r xs =
     (let i = randomIntInclusive r 0 (int (length xs) - 1)
      in if 0 \<le> i \<and> i < int (length xs) then Some (xs ! nat i) else None)"

record preparedRandomTx =
  pr_labEntityId :: int
  pr_amountSats :: int
  pr_prepared :: preparedEntityTx

definition owned_by_entity :: "labOwner js_record \<Rightarrow> int \<Rightarrow> labUtxo \<Rightarrow> bool" where
  "owned_by_entity owners i u =
     labOwnersEqual (lookupOwnerForLabAddress (u_address u) owners) (Some (labEntityLabOwner i))"

fun js_dedup :: "'a list \<Rightarrow> 'a list \<Rightarrow> 'a list" where
  "js_dedup seen [] = seen"
| "js_dedup seen (x # xs) = js_dedup (if x \<in> set seen then seen else seen @ [x]) xs"

text \<open>What an attempt settles before it asks WASM for an address: the amount, the fee rate
  and the source address, or nothing when it has to be retried.\<close>

definition random_amount ::
  "randomRolls \<Rightarrow> string \<Rightarrow> labState \<Rightarrow> (int \<times> rat) option" where
  "random_amount rolls fromAddress s =
     (let fromUtxos = filter (\<lambda>u. labBitcoinAddressesEqual (u_address u) fromAddress) (utxos s);
          feeRate = feeRateSatPerVbFromRandomRoll
            (randomIntInclusive (ro_fee rolls) LAB_RANDOM_FEE_RATE_TENTHS_MIN LAB_RANDOM_FEE_RATE_TENTHS_MAX);
          requiredFeeSats = estimateRequiredFeeSats (int (length fromUtxos)) feeRate
      in if length fromUtxos = 0 then None
         else map_option (\<lambda>a. (a, feeRate))
                (sampleRandomLabAmountSats (ro_draw rolls) (sum_utxos fromUtxos) requiredFeeSats))"

text \<open>The payee's address: a freshly revealed one when the entity pays itself, otherwise the
  target's current one. \<open>None\<close> sends the loop to its next attempt.\<close>

definition random_to_address ::
  "labWasm \<Rightarrow> string \<Rightarrow> labEntityRecord \<Rightarrow> labEntityRecord \<Rightarrow> (labWorker, string option) op" where
  "random_to_address W now source target =
     (if labEntityId source = labEntityId target then
        op_bind (op_lift (lab_entity_reveal_next_external_address W (mnemonic source) (changesetJson source)
                   (ent_network source) (ent_addressType source) (accountId source))) (\<lambda>revealed.
          case (truthy (rv_address revealed), truthy (rv_changesetJson revealed)) of
            (Some toAddress, Some nextChangesetJson) \<Rightarrow>
              op_bind (update_state (set_entity (labEntityId source)
                  (\<lambda>e. e\<lparr>changesetJson := nextChangesetJson, updatedAt := now\<rparr>))) (\<lambda>_.
              op_bind (op_modify (set_owner toAddress (labEntityLabOwner (labEntityId source)))) (\<lambda>_.
              op_return (Some toAddress)))
          | _ \<Rightarrow> op_return None)
      else
        op_bind (op_lift (entity_address W target)) (\<lambda>toAddress.
        op_bind (op_modify (set_owner toAddress (labEntityLabOwner (labEntityId target)))) (\<lambda>_.
        op_return (truthy (Some toAddress)))))"

definition random_attempt ::
  "labWasm \<Rightarrow> string \<Rightarrow> bool \<Rightarrow> labEntityRecord list \<Rightarrow> labEntityRecord list \<Rightarrow> randomRolls
     \<Rightarrow> (labWorker, preparedRandomTx option) op" where
  "random_attempt W now aliased sourceEntities aliveEntities rolls w =
     (case (pick (ro_source rolls) sourceEntities, pick (ro_target rolls) aliveEntities) of
        (Some source, Some target) \<Rightarrow>
          (let sourceAddresses = js_dedup [] (map u_address
                 (filter (owned_by_entity (owner_view aliased w) (labEntityId source)) (utxos (lwState w))))
           in if length sourceAddresses = 0 then (Inr None, w)
              else case pick (ro_from rolls) sourceAddresses of
                None \<Rightarrow> (Inl ''TypeError'', w)
              | Some fromAddress \<Rightarrow>
                  (case random_amount rolls fromAddress (lwState w) of
                     None \<Rightarrow> (Inr None, w)
                   | Some (amountSats, feeRate) \<Rightarrow>
                       op_bind (random_to_address W now source target) (\<lambda>toOpt.
                         case toOpt of
                           None \<Rightarrow> op_return None
                         | Some toAddress \<Rightarrow>
                             op_bind (prepareLabEntityTransaction (labEntityId source) fromAddress toAddress
                                        amountSats feeRate None) (\<lambda>prepared.
                             op_return (Some \<lparr>pr_labEntityId = labEntityId source, pr_amountSats = amountSats,
                               pr_prepared = (if labEntityId source = labEntityId target
                                 then prepared\<lparr>pe_mempoolMetadata := (pe_mempoolMetadata prepared)
                                        \<lparr>mm_receiver := Some (labEntityLabOwner (labEntityId source))\<rparr>\<rparr>
                                 else prepared)\<rparr>))) w))
      | _ \<Rightarrow> (Inl ''TypeError'', w))"

fun random_attempts ::
  "labWasm \<Rightarrow> string \<Rightarrow> bool \<Rightarrow> labEntityRecord list \<Rightarrow> labEntityRecord list \<Rightarrow> (nat \<Rightarrow> randomRolls) \<Rightarrow> nat \<Rightarrow> nat
     \<Rightarrow> (labWorker, preparedRandomTx option) op" where
  "random_attempts W now aliased sources alive rolls i 0 = op_return None"
| "random_attempts W now aliased sources alive rolls i (Suc k) =
     op_bind (random_attempt W now aliased sources alive (rolls i)) (\<lambda>r.
       case r of
         Some prepared \<Rightarrow> op_return (Some prepared)
       | None \<Rightarrow> random_attempts W now aliased sources alive rolls (Suc i) k)"

definition prepareRandomLabEntityTransaction ::
  "labWasm \<Rightarrow> string \<Rightarrow> (nat \<Rightarrow> randomRolls) \<Rightarrow> int option \<Rightarrow> (labWorker, preparedRandomTx option) op" where
  "prepareRandomLabEntityTransaction W now rolls maxAttemptsOpt w =
     (let maxAttempts = max 1 (case maxAttemptsOpt of None \<Rightarrow> LAB_RANDOM_TX_MAX_ATTEMPTS_DEFAULT | Some m \<Rightarrow> m);
          s = lwState w;
          aliased = (addressToOwner s \<noteq> None);
          aliveEntities = filter (\<lambda>e. \<not> isDead e) (entities s);
          sourceEntities = filter (\<lambda>e. \<exists>u \<in> set (utxos s). owned_by_entity (owner_map w) (labEntityId e) u) aliveEntities
      in if length sourceEntities = 0 then (Inr None, w)
         else random_attempts W now aliased sourceEntities aliveEntities rolls 0 (nat maxAttempts) w)"

end

