(* ===== verification/Lab_Invariant.thy ===== *)
theory Lab_Invariant
  imports Lab_Service
begin

text \<open>
  The invariant of the lab worker. A step relation lists every operation of the service that
  changes the state; reachable states start from the initial one and may be reloaded from a
  snapshot of a reachable state. An operation that throws contributes the state it left.
\<close>

section \<open>What mining leaves alone\<close>

definition static :: "labState \<Rightarrow> labEntityRecord list \<times> int \<times> int" where
  "static s = (entities s, blockWeightLimit s, minerSubsidySats s)"

lemma applyBlockEffects_static:
  "static (lwState (snd (applyBlockEffects W hex h na w))) = static (lwState w) \<and>
   mempool (lwState (snd (applyBlockEffects W hex h na w))) = mempool (lwState w)"
proof -
  have fr: "static (lwState w1) = static (lwState w) \<and> mempool (lwState w1) = mempool (lwState w)"
    if "applyTransactionsAndDetailsFromBlock txs h t w = (r, w1)" for txs t r w1
    using tx_frame_fields[of "lwState w1" "lwState w"] applyTransactions_frame[of txs h t w] that
    by (simp add: static_def)
  show ?thesis
    unfolding applyBlockEffects_def
    by (auto simp: op_bind_apply Let_def static_def dest!: fr[unfolded static_def] split: prod.splits sum.splits)
qed

text \<open>As an invariant relative to a fixed static part and a bound on the mempool.\<close>

definition pool_within :: "labEntityRecord list \<times> int \<times> int \<Rightarrow> mempoolEntry set \<Rightarrow> labWorker \<Rightarrow> bool" where
  "pool_within st P w \<longleftrightarrow> static (lwState w) = st \<and> set (mempool (lwState w)) \<subseteq> P"

lemma mine_one_within: "op_keeps (pool_within st P) (mine_one W run i prev h now)"
proof -
  have "op_keeps (pool_within st P) (after_block run i h now)"
    unfolding op_keeps_def pool_within_def static_def
    by (auto simp: after_block_def drop_included_def split: option.splits)
  moreover have "op_keeps (pool_within st P) (applyBlockEffects W hex h None)" for hex
    using applyBlockEffects_static by (simp add: op_keeps_def pool_within_def)
  ultimately show ?thesis
    unfolding mine_one_def by (intro op_keeps_bind op_keeps_lift)
qed

lemma mine_loop_within: "op_keeps (pool_within st P) (mine_loop W run clock i k prev h)"
proof (induction k arbitrary: i prev h)
  case (Suc k)
  then show ?case by (auto intro!: op_keeps_bind mine_one_within)
qed (simp add: op_keeps_def)

lemma mine_loop_static:
  "static (lwState (snd (mine_loop W run clock i k prev h w))) = static (lwState w) \<and>
   set (mempool (lwState (snd (mine_loop W run clock i k prev h w)))) \<subseteq> set (mempool (lwState w))"
  using mine_loop_within[of "static (lwState w)" "set (mempool (lwState w))"]
  unfolding op_keeps_def pool_within_def by blast

section \<open>The invariant\<close>

definition entities_ok :: "labEntityRecord list \<Rightarrow> bool" where
  "entities_ok es \<longleftrightarrow> distinct (map labEntityId es) \<and> distinct (List.map_filter entityName es)"

definition entry_ok :: "mempoolEntry \<Rightarrow> bool" where
  "entry_ok e \<longleftrightarrow> me_receiver e \<noteq> None \<and> 0 < me_weight e \<and> me_vsize e = labVsizeFromWeight (me_weight e)"

definition limits_ok :: "labState \<Rightarrow> bool" where
  "limits_ok s \<longleftrightarrow> LAB_MIN_BLOCK_WEIGHT_UNITS \<le> blockWeightLimit s \<and>
     0 \<le> minerSubsidySats s \<and> minerSubsidySats s \<le> LAB_MAX_MINER_SUBSIDY_SATS"

definition state_ok :: "labState \<Rightarrow> bool" where
  "state_ok s \<longleftrightarrow> entities_ok (entities s) \<and> (\<forall>e \<in> set (mempool s). entry_ok e) \<and> limits_ok s \<and>
     receivers_known s \<and> chain_ok s"

definition worker_ok :: "labWorker \<Rightarrow> bool" where
  "worker_ok w \<longleftrightarrow> state_ok (lwState w)"

lemma worker_ok_initial: "worker_ok INITIAL_LAB_WORKER"
  unfolding worker_ok_def state_ok_def
  by (auto simp: INITIAL_LAB_WORKER_def EMPTY_LAB_STATE_def entities_ok_def limits_ok_def receivers_known_def
      chain_ok_def consecutive_from_def LAB_MIN_BLOCK_WEIGHT_UNITS_def LAB_DEFAULT_BLOCK_WEIGHT_UNITS_def
      LAB_DEFAULT_MINER_SUBSIDY_SATS_def LAB_MAX_MINER_SUBSIDY_SATS_def MAX_SAFE_INTEGER_def List.map_filter_simps)

text \<open>The invariant does not look at the owner map, the unspent outputs, the operation log of
  transactions or the change map.\<close>

lemma state_ok_cong:
  assumes "entities s = entities s'" "mempool s = mempool s'" "blockWeightLimit s = blockWeightLimit s'"
    "minerSubsidySats s = minerSubsidySats s'" "transactions s = transactions s'" "blocks s = blocks s'"
    "mineOperations s = mineOperations s'"
  shows "state_ok s = state_ok s'"
  using assms by (simp add: state_ok_def limits_ok_def receivers_known_def chain_ok_def)

lemma worker_ok_set_owner [simp]: "worker_ok (set_owner a x w) = worker_ok w"
  unfolding worker_ok_def by (rule state_ok_cong) (simp_all add: set_owner_def)

lemma worker_ok_rebuild [simp]: "worker_ok (rebuildTxidToChangeAddressFromState w) = worker_ok w"
  by (simp add: worker_ok_def rebuildTxidToChangeAddressFromState_def rebuildTxidToChangeAddressFromMempool_def)

lemma entities_ok_snoc:
  assumes "entities_ok es" and "labEntityId e = nextLabEntityId es"
    and "\<forall>x \<in> set es. entityName e \<noteq> None \<longrightarrow> entityName x \<noteq> entityName e"
  shows "entities_ok (es @ [e])"
proof -
  have "labEntityId e \<notin> set (map labEntityId es)" using assms(2) nextLabEntityId_fresh[of es] by simp
  moreover have "set (List.map_filter entityName [e]) \<inter> set (List.map_filter entityName es) = {}"
    using assms(3) by (cases "entityName e") (auto simp: set_map_filter List.map_filter_simps)
  moreover have "distinct (List.map_filter entityName [e])"
    by (simp add: List.map_filter_simps split: option.splits)
  moreover have "List.map_filter entityName (es @ [e]) =
      List.map_filter entityName es @ List.map_filter entityName [e]"
    by (induction es) (auto simp: List.map_filter_simps split: option.splits)
  ultimately show ?thesis using assms(1) by (auto simp: entities_ok_def)
qed

lemma worker_ok_entity_added:
  assumes "worker_ok w" and "entity_added w w'"
  shows "worker_ok w'"
proof -
  obtain e where e: "w' = w\<lparr>lwState := (lwState w)\<lparr>entities := entities (lwState w) @ [e]\<rparr>\<rparr>"
      "entities_ok (entities (lwState w) @ [e])"
    using assms entities_ok_snoc unfolding entity_added_def worker_ok_def state_ok_def by blast
  then show ?thesis
    using assms(1) by (simp add: worker_ok_def state_ok_def limits_ok_def receivers_known_def chain_ok_def)
qed

lemma entities_ok_update_first:
  assumes "\<And>e. labEntityId (f e) = labEntityId e" "\<And>e. entityName (f e) = entityName e"
  shows "entities_ok (update_first P f es) = entities_ok es"
proof -
  have "List.map_filter entityName (update_first P f es) = List.map_filter entityName es"
    by (induction es) (auto simp: List.map_filter_simps assms(2) split: option.splits)
  then show ?thesis by (simp add: entities_ok_def map_update_first[of labEntityId f, OF assms(1)])
qed

section \<open>Every operation keeps it\<close>

lemma op_keeps_state [intro]: "op_keeps I (op_state f)"
  by (simp add: op_keeps_def op_state_def)

lemma op_keeps_snapshot [intro]: "op_keeps I getStateSnapshot" "op_keeps I snapshot"
  by (simp_all add: op_keeps_def getStateSnapshot_def snapshot_def)

lemma find_entity_keeps [intro]: "op_keeps I (find_entity i)"
  unfolding find_entity_def by (auto intro!: op_keeps_bind split: option.splits)

lemma update_state_keeps:
  "(\<And>s. state_ok s \<Longrightarrow> state_ok (f s)) \<Longrightarrow> op_keeps worker_ok (update_state f)"
  unfolding update_state_def by (rule op_keeps_modify) (simp add: worker_ok_def)

lemma set_entity_ok:
  assumes "\<And>e. labEntityId (f e) = labEntityId e" "\<And>e. entityName (f e) = entityName e" and "state_ok s"
  shows "state_ok (set_entity i f s)"
  using assms(3) entities_ok_update_first[of f, OF assms(1,2)]
  by (simp add: state_ok_def set_entity_def limits_ok_def receivers_known_def chain_ok_def)

lemma set_owner_keeps: "op_keeps worker_ok (op_modify (set_owner a x))"
  by (rule op_keeps_modify) simp

lemmas keeps_intros = op_keeps_bind op_keeps_lift op_keeps_return op_keeps_throw op_keeps_state
  op_keeps_snapshot find_entity_keeps set_owner_keeps

lemma mining_keeps: "op_keeps worker_ok (executeMineBlocks lc W now clock n ta opts)"
  unfolding op_keeps_def
proof (intro allI impI)
  fix w :: labWorker
  assume ok: "worker_ok w"
  let ?t = "snd (resolve_mine_target W now ta opts w)"
  let ?final = "snd (executeMineBlocks lc W now clock n ta opts w)"
  have t: "worker_ok ?t"
    using resolve_mine_target_state[of W now ta opts w] ok worker_ok_entity_added by metis
  have chain: "chain_ok (lwState ?final)"
    using executeMineBlocks_chain_ok ok unfolding op_keeps_def worker_ok_def state_ok_def by blast
  have rows: "receivers_known (lwState ?final)"
    using receivers.run_keeps ok unfolding op_keeps_def worker_ok_def state_ok_def by blast
  have "worker_ok ?final" if "?final = snd (mine_loop W run clock 0 k p h (register_coinbase_owner opts target ?t))"
    for run k p h target
  proof -
    let ?r = "register_coinbase_owner opts target ?t"
    have "worker_ok ?r" using t by (simp add: register_coinbase_owner_def split: option.splits)
    moreover have "static (lwState ?final) = static (lwState ?r)" "set (mempool (lwState ?final)) \<subseteq> set (mempool (lwState ?r))"
      using mine_loop_static[of W run clock 0 k p h ?r] that by simp_all
    ultimately show ?thesis
      using chain rows by (auto simp: worker_ok_def state_ok_def static_def limits_ok_def)
  qed
  then show "worker_ok ?final"
    using executeMineBlocks_state[of lc W now clock n ta opts w] ok t by metis
qed

lemma bind_ok:
  assumes "worker_ok (snd (m w))" and "\<And>x. op_keeps worker_ok (f x)"
  shows "worker_ok (snd (op_bind m f w))"
proof (cases "m w")
  case (Pair r w1)
  with assms show ?thesis by (cases r) (simp_all add: op_bind_apply op_keeps_def)
qed

lemma create_ok:
  assumes "worker_ok w" and "name = None \<or> List.find (\<lambda>e. entityName e = name) (entities (lwState w)) = None"
  shows "worker_ok (snd (createAndRegisterLabEntityFromWasm W (nextLabEntityId (entities (lwState w))) name net ty now err w))"
proof -
  obtain r w1 where c: "createAndRegisterLabEntityFromWasm W (nextLabEntityId (entities (lwState w))) name net ty now err w =
      (r, w1)" by fastforce
  have "w1 = w \<or> entity_added w w1"
    using create_entity_frame[OF c] assms(2) by (auto simp: entity_added_def find_None_all)
  then show ?thesis using c assms(1) worker_ok_entity_added by auto
qed

lemma register_entity_address_keeps: "op_keeps worker_ok (register_entity_address a i)"
  unfolding register_entity_address_def by (intro keeps_intros)

lemma createLabEntity_keeps: "op_keeps worker_ok (createLabEntity W now name ty net)"
  unfolding op_keeps_def
proof (intro allI impI)
  fix w :: labWorker
  assume ok: "worker_ok w"
  let ?name = "trim_or_empty name"
  let ?named = "\<lambda>entity. op_bind (op_lift (entity_address W entity)) (\<lambda>address.
    register_entity_address address (labEntityId entity))"
  have named: "op_keeps worker_ok (?named e)" for e
    by (intro keeps_intros register_entity_address_keeps)
  show "worker_ok (snd (createLabEntity W now name ty net w))"
  proof (cases "?name = ''''")
    case True
    have "worker_ok (snd (op_bind (createAndRegisterLabEntityFromWasm W (nextLabEntityId (entities (lwState w))) None
        (default_network net) (default_address_type ty) now
        ''Anonymous lab entity wallet creation failed (no first address)'')
        (\<lambda>a. register_entity_address a (nextLabEntityId (entities (lwState w)))) w))"
      by (intro bind_ok create_ok ok register_entity_address_keeps) simp
    with True show ?thesis by (simp add: createLabEntity_def Let_def op_bind_apply)
  next
    case False
    show ?thesis
    proof (cases "List.find (\<lambda>e. entityName e = Some ?name) (entities (lwState w))")
      case None
      let ?again = "\<lambda>_. op_bind (op_state (\<lambda>s. List.find (\<lambda>e. entityName e = Some ?name) (entities s))) (\<lambda>again.
        case again of None \<Rightarrow> op_throw ''Lab entity registration failed after wallet creation'' | Some e \<Rightarrow> op_return e)"
      have again: "op_keeps worker_ok (?again x)" for x :: string
        by (rule op_keeps_bind) (auto split: option.splits)
      have "worker_ok (snd (op_bind (op_bind (createAndRegisterLabEntityFromWasm W (nextLabEntityId (entities (lwState w)))
          (Some ?name) (default_network net) (default_address_type ty) now
          ''Lab entity wallet creation failed (no first address)'') ?again) ?named w))"
        by (intro bind_ok create_ok ok again named) (use None in simp)
      with False None ok show ?thesis
        by (cases "validateLabEntityRenameName ?name (entities (lwState w)) (- 1)")
          (simp_all add: createLabEntity_def Let_def op_bind_apply)
    next
      case (Some e)
      have "worker_ok (snd (?named e w))" using named ok unfolding op_keeps_def by blast
      with False Some ok show ?thesis
        by (cases "validateLabEntityRenameName ?name (entities (lwState w)) (- 1)")
          (simp_all add: createLabEntity_def Let_def op_bind_apply)
    qed
  qed
qed

lemma entities_ok_rename:
  assumes "entities_ok es" and "\<forall>e \<in> set es. labEntityId e \<noteq> i \<longrightarrow> entityName e \<noteq> Some n"
  shows "entities_ok (update_first (\<lambda>e. labEntityId e = i) (\<lambda>e. e\<lparr>entityName := Some n, updatedAt := t\<rparr>) es)"
proof -
  let ?u = "update_first (\<lambda>e. labEntityId e = i) (\<lambda>e. e\<lparr>entityName := Some n, updatedAt := t\<rparr>)"
  have "distinct (map labEntityId es) \<Longrightarrow> distinct (List.map_filter entityName es) \<Longrightarrow>
      \<forall>e \<in> set es. labEntityId e \<noteq> i \<longrightarrow> entityName e \<noteq> Some n \<Longrightarrow>
      distinct (List.map_filter entityName (?u es)) \<and>
      set (List.map_filter entityName (?u es)) \<subseteq> insert n (set (List.map_filter entityName es))"
    for es :: "labEntityRecord list"
  proof (induction es)
    case (Cons e es)
    then show ?case
      by (auto simp: List.map_filter_simps set_map_filter image_iff split: option.splits)
  qed (simp add: List.map_filter_simps)
  then show ?thesis
    using assms by (simp add: entities_ok_def map_update_first[where g = labEntityId])
qed

lemma renameLabEntity_keeps: "op_keeps worker_ok (renameLabEntity now i name)"
  unfolding op_keeps_def
proof (intro allI impI)
  fix w :: labWorker
  assume ok: "worker_ok w"
  let ?n = "js_trim name" and ?es = "entities (lwState w)"
  show "worker_ok (snd (renameLabEntity now i name w))"
  proof (cases "validateLabEntityRenameName ?n ?es i")
    case (Inr u)
    then have "\<forall>e \<in> set ?es. labEntityId e \<noteq> i \<longrightarrow> entityName e \<noteq> Some ?n"
      using validateLabEntityRenameName_ok[of ?n ?es i] by simp
    then have "worker_ok (w\<lparr>lwState := set_entity i (\<lambda>e. e\<lparr>entityName := Some ?n, updatedAt := now\<rparr>) (lwState w)\<rparr>)"
      using ok entities_ok_rename
      by (simp add: worker_ok_def state_ok_def set_entity_def limits_ok_def receivers_known_def chain_ok_def)
    with Inr ok show ?thesis
      by (simp add: renameLabEntity_def Let_def op_bind_apply find_entity_def getStateSnapshot_def
          split: option.splits)
  qed (use ok in \<open>simp add: renameLabEntity_def Let_def op_bind_apply\<close>)
qed

lemma deleteLabEntity_keeps: "op_keeps worker_ok (deleteLabEntity i)"
proof -
  have "state_ok (remove_entity i s)" if "state_ok s" for s
  proof -
    have "set (List.map_filter entityName (filter P es)) \<subseteq> set (List.map_filter entityName es)" for P and es
      by (auto simp: set_map_filter)
    then have "distinct (List.map_filter entityName es) \<Longrightarrow> distinct (List.map_filter entityName (filter P es))" for P and es
      by (induction es) (auto simp: List.map_filter_simps split: option.splits)
    then show ?thesis
      using that by (auto simp: remove_entity_def Let_def state_ok_def entities_ok_def limits_ok_def
          receivers_known_def chain_ok_def distinct_map_filter)
  qed
  then show ?thesis
    unfolding deleteLabEntity_def
    by (auto intro!: keeps_intros update_state_keeps)
qed

lemma setLabEntityDead_keeps: "op_keeps worker_ok (setLabEntityDead now i dead)"
  unfolding setLabEntityDead_def
  by (intro keeps_intros update_state_keeps set_entity_ok) simp_all

lemma append_ok:
  assumes "worker_ok w" and "mm_receiver m \<noteq> None"
  shows "worker_ok (appendLabTxOperationAndMempoolEntry hex txid weight m sender ca cv w)"
proof -
  let ?op = "\<lparr>to_txid = txid, to_sender = sender, to_changeAddress = ca, to_changeVout = cv,
    to_payloadJson = JText (txOperationPayload_json (mm_receiver m)
      (map_option out_address (List.find (\<lambda>o'. \<not> out_isChange o') (mm_outputsDetail m))))\<rparr>"
  let ?w1 = "rebuildTxidToChangeAddressFromState
    (w\<lparr>lwState := (lwState w)\<lparr>txOperations := txOperations (lwState w) @ [?op]\<rparr>\<rparr>)"
  have "worker_ok ?w1"
    unfolding worker_ok_rebuild using assms(1) state_ok_cong[of "lwState w" "(lwState w)\<lparr>txOperations := _\<rparr>"]
    by (simp add: worker_ok_def)
  then show ?thesis
    using assms(2)
    by (simp add: appendLabTxOperationAndMempoolEntry_def Let_def worker_ok_def state_ok_def entry_ok_def
        limits_ok_def receivers_known_def chain_ok_def)
qed

lemma receiver_guard:
  assumes "mm_receiver m \<noteq> None \<Longrightarrow> op_keeps I rest"
  shows "op_keeps I (op_bind (op_lift (assertLabReceiverNonNull (mm_receiver m) ctx)) (\<lambda>_. rest))"
proof (cases "mm_receiver m")
  case None
  then show ?thesis by (simp add: op_keeps_def op_bind_apply assertLabReceiverNonNull_def)
next
  case (Some r)
  then show ?thesis using assms by (auto intro!: op_keeps_bind)
qed

lemma finalize_keeps: "op_keeps worker_ok (finalizeLabEntityMempoolTransaction W now hex m i cs)"
  unfolding finalizeLabEntityMempoolTransaction_def Let_def
  by (intro keeps_intros receiver_guard update_state_keeps set_entity_ok op_keeps_modify append_ok) simp_all

lemma addSigned_keeps: "op_keeps worker_ok (addSignedTransactionToMempool W hex m)"
proof -
  have "op_keeps worker_ok (op_bind (op_lift (lab_tx_weight W hex)) (\<lambda>raw.
      op_bind (op_modify (appendLabTxOperationAndMempoolEntry hex txid (tx_weight_or_one raw) m sender ca cv)) (\<lambda>_.
      getStateSnapshot)))" if "mm_receiver m \<noteq> None" for txid sender ca cv
    by (intro keeps_intros op_keeps_modify append_ok that) simp_all
  then show ?thesis
    unfolding addSignedTransactionToMempool_def
    by (intro op_keeps_bind op_keeps_lift receiver_guard) (auto split: option.splits)
qed

lemma setBlockWeightLimit_keeps: "op_keeps worker_ok (setBlockWeightLimit v)"
  unfolding setBlockWeightLimit_def
  by (cases v) (auto intro!: keeps_intros update_state_keeps
      simp: state_ok_def limits_ok_def receivers_known_def chain_ok_def)

lemma setMinerSubsidySats_keeps: "op_keeps worker_ok (setMinerSubsidySats v)"
  unfolding setMinerSubsidySats_def
  by (auto intro!: keeps_intros update_state_keeps
      simp: state_ok_def limits_ok_def receivers_known_def chain_ok_def normalizeMinerSubsidySats_range)

lemma prepareEntity_keeps: "op_keeps worker_ok (prepareLabEntityTransaction i from' to' a fr known)"
  by (auto simp: op_keeps_def prepareLabEntityTransaction_def Let_def split: option.splits sum.splits)

lemma prepareWallet_keeps: "op_keeps worker_ok (prepareLabWalletTransaction i to' a ch known sel)"
  by (auto simp: op_keeps_def prepareLabWalletTransaction_def Let_def split: option.splits prod.splits)

lemma random_attempt_keeps: "op_keeps worker_ok (random_attempt W now al src alive rolls)"
proof -
  have "op_keeps worker_ok (random_to_address W now s t)" for s t
    unfolding random_to_address_def
    by (auto intro!: keeps_intros update_state_keeps set_entity_ok split: option.splits)
  then have "op_keeps worker_ok (op_bind (random_to_address W now s t) (\<lambda>toOpt.
      case toOpt of None \<Rightarrow> op_return None
      | Some toAddress \<Rightarrow> op_bind (prepareLabEntityTransaction (labEntityId s) fa toAddress a fr None) (\<lambda>p.
          op_return (g p))))" for s t fa a fr and g :: "preparedEntityTx \<Rightarrow> preparedRandomTx option"
    by (intro op_keeps_bind) (auto intro!: op_keeps_bind prepareEntity_keeps split: option.splits)
  then show ?thesis
    unfolding op_keeps_def random_attempt_def Let_def by (auto split: option.splits prod.splits)
qed

lemma random_attempts_keeps: "op_keeps worker_ok (random_attempts W now al src alive rolls i k)"
proof (induction k arbitrary: i)
  case (Suc k)
  then show ?case by (auto intro!: op_keeps_bind random_attempt_keeps split: option.splits)
qed (auto simp: op_keeps_def)

lemma prepareRandom_keeps: "op_keeps worker_ok (prepareRandomLabEntityTransaction W now rolls m)"
  using random_attempts_keeps by (auto simp: op_keeps_def prepareRandomLabEntityTransaction_def Let_def)

section \<open>Reachable states\<close>

inductive service_step :: "labWorker \<Rightarrow> labWorker \<Rightarrow> bool" where
  mine: "service_step w (snd (executeMineBlocks lc W now clock n ta opts w))"
| entity_tx: "service_step w (snd (prepareLabEntityTransaction i from' to' a fr known w))"
| random_tx: "service_step w (snd (prepareRandomLabEntityTransaction W now rolls m w))"
| entity_finalize: "service_step w (snd (finalizeLabEntityMempoolTransaction W now hex md i cs w))"
| wallet_tx: "service_step w (snd (prepareLabWalletTransaction wid to' a ch known sel w))"
| add_signed: "service_step w (snd (addSignedTransactionToMempool W hex md w))"
| create: "service_step w (snd (createLabEntity W now name ty net w))"
| rename: "service_step w (snd (renameLabEntity now i newName w))"
| delete: "service_step w (snd (deleteLabEntity i w))"
| set_dead: "service_step w (snd (setLabEntityDead now i dead w))"
| weight_limit: "service_step w (snd (setBlockWeightLimit v w))"
| subsidy: "service_step w (snd (setMinerSubsidySats v w))"

text \<open>The persisted form of a snapshot, as the database writes and reads it back.\<close>

definition persisted_of :: "labState \<Rightarrow> persistedLabState" where
  "persisted_of s = \<lparr>ps_state = s, ps_blockWeightLimit = Some (Fin (of_int (blockWeightLimit s))),
     ps_blockSizeLimitVbytes = None, ps_minerSubsidySats = Some (Fin (of_int (minerSubsidySats s)))\<rparr>"

inductive lab_reachable :: "labWorker \<Rightarrow> bool" where
  start: "lab_reachable INITIAL_LAB_WORKER"
| step: "lab_reachable w \<Longrightarrow> service_step w w' \<Longrightarrow> lab_reachable w'"
| reload: "lab_reachable w \<Longrightarrow> lab_reachable v \<Longrightarrow> lab_reachable (snd (loadState W (persisted_of (lwState v)) w))"

lemma service_step_keeps: "service_step w w' \<Longrightarrow> worker_ok w \<Longrightarrow> worker_ok w'"
proof (induction rule: service_step.induct)
qed (use mining_keeps prepareEntity_keeps prepareRandom_keeps finalize_keeps prepareWallet_keeps addSigned_keeps
    createLabEntity_keeps renameLabEntity_keeps deleteLabEntity_keeps setLabEntityDead_keeps
    setBlockWeightLimit_keeps setMinerSubsidySats_keeps in \<open>simp_all add: op_keeps_def\<close>)

lemma normalize_loaded_entry_ok:
  assumes "normalize_loaded_entry W e = Inr e'" and "me_receiver e \<noteq> None"
  shows "entry_ok e'"
  using assms unfolding normalize_loaded_entry_def
  by (auto simp: sum_bind_Inr Let_def entry_ok_def split: if_splits)

lemma loadState_ok:
  assumes "worker_ok w" and "state_ok s"
  shows "worker_ok (snd (loadState W (persisted_of s) w))"
proof (cases "sum_map (normalize_loaded_entry W) (mempool s)")
  case (Inl e)
  with assms(1) show ?thesis by (simp add: loadState_def persisted_of_def Let_def op_bind_apply)
next
  case (Inr es)
  have "entry_ok e" if e: "e \<in> set es" for e
  proof -
    obtain e0 where "e0 \<in> set (mempool s)" "normalize_loaded_entry W e0 = Inr e"
      using sum_map_Inr[OF Inr e] by blast
    moreover have "me_receiver e0 \<noteq> None"
      using assms(2) calculation(1) by (simp add: state_ok_def entry_ok_def)
    ultimately show ?thesis using normalize_loaded_entry_ok by blast
  qed
  with Inr assms(2) show ?thesis
    by (simp add: loadState_def persisted_of_def Let_def op_bind_apply replaceLabWorkerState_def json_number_def)
      (simp add: worker_ok_def state_ok_def limits_ok_def receivers_known_def chain_ok_def
        normalizeBlockWeightLimit_min[simplified] normalizeMinerSubsidySats_range[simplified] del: normalizeMinerSubsidySats.simps)
qed

lemma reachable_ok: "lab_reachable w \<Longrightarrow> worker_ok w"
proof (induction rule: lab_reachable.induct)
  case (reload w v W)
  then show ?case using loadState_ok[of w "lwState v" W] by (simp add: worker_ok_def)
qed (auto intro: worker_ok_initial service_step_keeps)

section \<open>Properties\<close>

text \<open>C1: in every reachable state of the lab worker entity ids are unique and so are entity
  names; every mempool entry has a receiver, a positive weight and the virtual size of that
  weight; every confirmed row has a receiver; the two simulation parameters are in range;
  block heights count from 0 without gaps, and the mining log matches the blocks.\<close>

theorem lab_reachable_invariant:
  assumes "lab_reachable w"
  shows "distinct (map labEntityId (entities (lwState w))) \<and>
    distinct (List.map_filter entityName (entities (lwState w))) \<and>
    (\<forall>e \<in> set (mempool (lwState w)). me_receiver e \<noteq> None \<and> 0 < me_weight e \<and>
       me_vsize e = labVsizeFromWeight (me_weight e)) \<and>
    (\<forall>r \<in> set (transactions (lwState w)). tr_receiver r \<noteq> None) \<and>
    1000 \<le> blockWeightLimit (lwState w) \<and>
    0 \<le> minerSubsidySats (lwState w) \<and> minerSubsidySats (lwState w) \<le> MAX_SAFE_INTEGER \<and>
    map blk_height (blocks (lwState w)) = map int [0..<length (blocks (lwState w))] \<and>
    map (\<lambda>o'. (mo_height o', mo_blockHash o')) (mineOperations (lwState w)) =
      map (\<lambda>b. (blk_height b, blockHash b)) (blocks (lwState w))"
  using reachable_ok[OF assms]
  unfolding worker_ok_def state_ok_def entities_ok_def entry_ok_def limits_ok_def receivers_known_def chain_ok_def
    consecutive_from_def LAB_MIN_BLOCK_WEIGHT_UNITS_def LAB_MAX_MINER_SUBSIDY_SATS_def
  by simp

theorem lab_reachable_invariant_witness:
  "map blk_height (blocks (lwState (snd (sample_run (Fin 2) INITIAL_LAB_WORKER)))) =
     map int [0..<length (blocks (lwState (snd (sample_run (Fin 2) INITIAL_LAB_WORKER))))]"
proof -
  have "service_step INITIAL_LAB_WORKER (snd (sample_run (Fin 2) INITIAL_LAB_WORKER))"
    unfolding sample_run_def by (rule service_step.mine)
  from lab_reachable_invariant[OF lab_reachable.step[OF lab_reachable.start this]] show ?thesis by simp
qed

end
