(* ===== verification/Lab_Ops.thy ===== *)
theory Lab_Ops
  imports Lab_Invariant
begin

text \<open>
  What the single operations of the lab service promise: payments are prepared from exactly
  the right outputs, entities are created, renamed and deleted cleanly, and the payee recorded
  with a transaction is the one found again when its block is applied.
\<close>

section \<open>Preparing payments\<close>

lemma owner_view_True [simp]: "owner_view True w = owner_map w"
  by (simp add: owner_view_def)

lemma prepareEntity_success:
  assumes "prepareLabEntityTransaction i from' to' amount fr known w = (Inr p, w')"
  obtains e r us where
    "lookupOwnerForLabAddress from' (owner_map w) = Some (LabEntity i)"
    "findLabEntityById (entities (lwState w)) i = Some e" "\<not> isDead e"
    "us = filter (\<lambda>u. labBitcoinAddressesEqual (u_address u) from') (utxos (lwState w))" "us \<noteq> []"
    "pe_totalInput p = sum_utxos us"
    "mm_inputs (pe_mempoolMetadata p) = map utxo_point us"
    "mm_sender (pe_mempoolMetadata p) = Some (LabEntity i)" "mm_receiver (pe_mempoolMetadata p) = Some r"
    "mm_outputsDetail (pe_mempoolMetadata p) =
       [\<lparr>out_address = to', out_amountSats = amount, out_isChange = False, out_owner = Some r\<rparr>]"
    "lookupOwnerForLabAddress to' (owner_map w') = Some r"
proof -
  have al: "addressToOwner (lwState w) \<noteq> None" "lookupOwnerForLabAddress from' (owner_map w) = Some (LabEntity i)"
    using assms by (auto simp: prepareLabEntityTransaction_def Let_def owner_view_def labEntityLabOwner_def
        lookupOwnerForLabAddress_def rec_get_def split: if_splits)
  show ?thesis
    using assms al that
    by (auto simp: prepareLabEntityTransaction_def Let_def labEntityLabOwner_def labEntityMustBeAliveToSend_def
        assertLabReceiverNonNull_def payment_metadata_def lookupOwner_eq or_else_def
        split: if_splits option.splits sum.splits)
qed

lemma prepareWallet_success:
  assumes "prepareLabWalletTransaction i to' amount ch known sel w = (Inr p, w')"
  obtains r us where
    "us = filterUtxosBySelectedOutpoints (\<lambda>u. (u_txid u, u_vout u)) (walletOwnedLabUtxos i (lwState w)) sel"
    "us \<noteq> []" "pw_totalInput p = sum_utxos us"
    "mm_inputs (pw_mempoolMetadata p) = map utxo_point us"
    "mm_sender (pw_mempoolMetadata p) = Some (Wallet i)" "mm_receiver (pw_mempoolMetadata p) = Some r"
    "lookupOwnerForLabAddress to' (owner_map w') = Some r"
proof -
  have "walletOwnedLabUtxos i (lwState w) \<noteq> []"
    using assms by (auto simp: prepareLabWalletTransaction_def Let_def split: if_splits prod.splits)
  then have "addressToOwner (lwState w) \<noteq> None"
    by (auto simp: walletOwnedLabUtxos_def or_empty_def lookupOwnerForLabAddress_def rec_get_def filter_empty_conv
        split: option.splits)
  then show ?thesis
    using assms that
    by (auto simp: prepareLabWalletTransaction_def Let_def walletLabOwner_def payment_metadata_def lookupOwner_eq
        split: if_splits option.splits prod.splits)
qed

lemma walletOwned_iff:
  "u \<in> set (walletOwnedLabUtxos i s) \<longleftrightarrow>
     u \<in> set (utxos s) \<and> lookupOwnerForLabAddress (u_address u) (or_empty (addressToOwner s)) = Some (Wallet i)"
  by (auto simp: walletOwnedLabUtxos_def Let_def walletLabOwner_def)

lemma filter_selected_set:
  "u \<in> set (filterUtxosBySelectedOutpoints (\<lambda>u. (u_txid u, u_vout u)) us (Some ops)) \<longleftrightarrow>
     u \<in> set us \<and> utxo_point u \<in> set ops"
proof -
  have "utxo_point u = p \<longleftrightarrow> op_txid p = u_txid u \<and> op_vout p = u_vout u" for p
    by (cases p) (auto simp: utxo_point_def)
  then have "utxo_point u \<in> set ops \<longleftrightarrow> (\<exists>p \<in> set ops. op_txid p = u_txid u \<and> op_vout p = u_vout u)"
    by metis
  then show ?thesis
    by (auto simp: filterUtxosBySelectedOutpoints_def Let_def row_key_def image_iff) metis
qed

section \<open>Properties\<close>

text \<open>a lab-entity payment that is prepared spends exactly the unspent outputs of the
  chosen address, which belongs to that entity; the entity exists and is alive; the total is
  the sum of those outputs; and the payee is known and registered for the target address.\<close>

theorem prepareLabEntityTransaction_correct:
  assumes "prepareLabEntityTransaction i from' to' amount fr known w = (Inr p, w')"
  shows "\<exists>e r. findLabEntityById (entities (lwState w)) i = Some e \<and> \<not> isDead e \<and>
    lookupOwnerForLabAddress from' (owner_map w) = Some (LabEntity i) \<and>
    mm_sender (pe_mempoolMetadata p) = Some (LabEntity i) \<and> mm_receiver (pe_mempoolMetadata p) = Some r \<and>
    mm_inputs (pe_mempoolMetadata p) =
      map utxo_point (filter (\<lambda>u. labBitcoinAddressesEqual (u_address u) from') (utxos (lwState w))) \<and>
    mm_inputs (pe_mempoolMetadata p) \<noteq> [] \<and>
    pe_totalInput p = sum_list (map u_amountSats
      (filter (\<lambda>u. labBitcoinAddressesEqual (u_address u) from') (utxos (lwState w)))) \<and>
    lookupOwnerForLabAddress to' (owner_map w') = Some r"
  using assms by (rule prepareEntity_success) (simp add: sum_utxos_def)

text \<open>a wallet payment that is prepared spends only unspent outputs of that wallet,
  and with coin control exactly the selected ones among them; the total is their sum, and the
  payee is known and registered.\<close>

theorem prepareLabWalletTransaction_correct:
  assumes "prepareLabWalletTransaction i to' amount ch known sel w = (Inr p, w')"
  shows "\<exists>us r. us \<noteq> [] \<and> mm_inputs (pw_mempoolMetadata p) = map utxo_point us \<and>
    set us = {u \<in> set (utxos (lwState w)). lookupOwnerForLabAddress (u_address u) (owner_map w) = Some (Wallet i) \<and>
      (case sel of None \<Rightarrow> True | Some ops \<Rightarrow> utxo_point u \<in> set ops)} \<and>
    pw_totalInput p = sum_list (map u_amountSats us) \<and>
    mm_sender (pw_mempoolMetadata p) = Some (Wallet i) \<and> mm_receiver (pw_mempoolMetadata p) = Some r \<and>
    lookupOwnerForLabAddress to' (owner_map w') = Some r"
  using assms
proof (rule prepareWallet_success)
  fix r us
  assume us: "us = filterUtxosBySelectedOutpoints (\<lambda>u. (u_txid u, u_vout u)) (walletOwnedLabUtxos i (lwState w)) sel"
    and rest: "us \<noteq> []" "pw_totalInput p = sum_utxos us" "mm_inputs (pw_mempoolMetadata p) = map utxo_point us"
      "mm_sender (pw_mempoolMetadata p) = Some (Wallet i)" "mm_receiver (pw_mempoolMetadata p) = Some r"
      "lookupOwnerForLabAddress to' (owner_map w') = Some r"
  have "u \<in> set us \<longleftrightarrow> u \<in> set (utxos (lwState w)) \<and>
      lookupOwnerForLabAddress (u_address u) (owner_map w) = Some (Wallet i) \<and>
      (case sel of None \<Rightarrow> True | Some ops \<Rightarrow> utxo_point u \<in> set ops)" for u
    by (cases sel)
      (auto simp: us filter_selected_set walletOwned_iff owner_map_def filterUtxosBySelectedOutpoints_def[of _ _ None])
  with rest show ?thesis by (intro exI[of _ us] exI[of _ r]) (auto simp: sum_utxos_def)
qed

text \<open>the outputs the coin-control list shows for a wallet add up to the balance the
  wallet page shows.\<close>

theorem wallet_list_matches_balance:
  "sum_list (map wr_amountSats (listLabWalletUtxos i s)) =
     sumLabWalletUtxoSats (utxos s) (or_empty (addressToOwner s)) i"
proof -
  have "walletOwnedLabUtxos i s = filter (\<lambda>u. let owner = lookupLabAddressOwner (u_address u) (or_empty (addressToOwner s))
      in owner \<noteq> None \<and> labOwnersEqual owner (Some (walletLabOwner i))) (utxos s)"
    by (auto simp: walletOwnedLabUtxos_def Let_def lookupOwner_eq intro: filter_cong)
  then show ?thesis
    by (simp add: listLabWalletUtxos_def sumLabWalletUtxoSats_def Let_def comp_def)
qed

text \<open>the payee and the primary address written with a transaction are read back
  unchanged when its block is applied.\<close>

theorem tx_payload_roundtrip:
  "parseTxOperationPayload (JText (txOperationPayload_json receiver primary)) =
     \<lparr>pl_receiver = receiver, pl_primaryToAddress = primary\<rparr>"
proof (cases receiver)
  case None
  then show ?thesis
    by (cases primary) (simp_all add: txOperationPayload_json_def json_field_def owner_option_json_def)
next
  case (Some x)
  then show ?thesis
    by (cases primary; cases x) (simp_all add: txOperationPayload_json_def json_field_def owner_option_json_def)
qed

lemma create_entity_state:
  assumes "createAndRegisterLabEntityFromWasm W i name net ty now err w = (Inr a, w')"
  obtains x where "w' = w\<lparr>lwState := (lwState w)\<lparr>entities := entities (lwState w) @ [x]\<rparr>\<rparr>"
    "labEntityId x = i" "entityName x = name" "\<not> isDead x"
  using create_entity_frame[OF assms] create_entity_Inr[OF assms] by auto

lemma fold_delete_get: "rec_get (fold rec_delete ks m) a = (if a \<in> set ks then None else rec_get m a)"
  by (rule js_rec.get_fold_delete)

text \<open>deleting an entity. It is refused while a confirmed or pending transaction names
  the entity; otherwise no entity with that id and no address owned by it remains, and every
  other entity, address and row stays.\<close>

theorem deleteLabEntity_correct:
  assumes "deleteLabEntity i w = (Inr res, w')" and "distinct (map fst (owner_map w))"
  shows "\<not> entity_has_tx (LabEntity i) (lwState w) \<and>
    entities (lwState w') = filter (\<lambda>e. labEntityId e \<noteq> i) (entities (lwState w)) \<and>
    (\<forall>a. rec_get (owner_map w') a =
      (if rec_get (owner_map w) a = Some (LabEntity i) then None else rec_get (owner_map w) a)) \<and>
    transactions (lwState w') = transactions (lwState w) \<and> mempool (lwState w') = mempool (lwState w) \<and>
    utxos (lwState w') = utxos (lwState w) \<and> blocks (lwState w') = blocks (lwState w) \<and> res = lwState w'"
proof -
  have no: "\<not> entity_has_tx (LabEntity i) (lwState w)" and w': "w' = w\<lparr>lwState := remove_entity i (lwState w)\<rparr>"
      and res: "res = lwState w'"
    using assms(1) unfolding deleteLabEntity_def
    by (auto simp: op_bind_Inr find_entity_def getStateSnapshot_def labEntityLabOwner_def split: option.splits if_splits)
  let ?owned = "map fst (filter (\<lambda>(a, x). labOwnersEqual (Some x) (Some (labEntityLabOwner i))) (owner_map w))"
  have "a \<in> set ?owned \<longleftrightarrow> rec_get (owner_map w) a = Some (LabEntity i)" for a
    using assms(2) by (force simp: rec_get_def labEntityLabOwner_def dest: map_of_SomeD)
  then have "rec_get (fold rec_delete ?owned (owner_map w)) a =
      (if rec_get (owner_map w) a = Some (LabEntity i) then None else rec_get (owner_map w) a)" for a
    by (simp only: fold_delete_get)
  moreover have "owner_map w' = fold rec_delete ?owned (owner_map w)"
    by (simp add: w' owner_map_def remove_entity_def Let_def or_empty_def)
  ultimately show ?thesis using no res by (simp add: w' remove_entity_def Let_def)
qed

text \<open>creating an entity always adds exactly one entity, alive, under an id no entity
  has, and registers its address; an entity that already has the wanted name makes the
  creation fail instead of being reused.\<close>

theorem createLabEntity_correct:
  assumes "createLabEntity W now name ty net w = (Inr res, w')"
    and "\<forall>e \<in> set (entities (lwState w)). 0 < labEntityId e"
  shows "\<exists>e a. entities (lwState w') = entities (lwState w) @ [e] \<and> \<not> isDead e \<and>
    labEntityId e = nextLabEntityId (entities (lwState w)) \<and>
    labEntityId e \<notin> labEntityId ` set (entities (lwState w)) \<and>
    entityName e = (if trim_or_empty name = '''' then None else Some (trim_or_empty name)) \<and>
    (\<forall>x \<in> set (entities (lwState w)). trim_or_empty name \<noteq> '''' \<longrightarrow> entityName x \<noteq> Some (trim_or_empty name)) \<and>
    rec_get (owner_map w') a = Some (LabEntity (labEntityId e))"
proof (cases "trim_or_empty name = ''''")
  case True
  then obtain a w1 where c: "createAndRegisterLabEntityFromWasm W (nextLabEntityId (entities (lwState w))) None
        (default_network net) (default_address_type ty) now
        ''Anonymous lab entity wallet creation failed (no first address)'' w = (Inr a, w1)"
      and w': "w' = set_owner a (LabEntity (nextLabEntityId (entities (lwState w)))) w1"
    using assms(1) by (auto simp: createLabEntity_def Let_def op_bind_Inr register_entity_address_def
        getStateSnapshot_def labEntityLabOwner_def)
  obtain x where x: "w1 = w\<lparr>lwState := (lwState w)\<lparr>entities := entities (lwState w) @ [x]\<rparr>\<rparr>"
      "labEntityId x = nextLabEntityId (entities (lwState w))" "entityName x = None" "\<not> isDead x"
    by (rule create_entity_state[OF c])
  with w' True show ?thesis
    using nextLabEntityId_fresh[of "entities (lwState w)"]
    by (intro exI[of _ x] exI[of _ a]) (auto simp: set_owner_def owner_map_def or_empty_def)
next
  case False
  let ?n = "trim_or_empty name" and ?es = "entities (lwState w)"
  have valid: "validateLabEntityRenameName ?n ?es (- 1) = Inr ()"
    using assms(1) False by (auto simp: createLabEntity_def Let_def op_bind_Inr)
  then have free: "\<forall>x \<in> set ?es. entityName x \<noteq> Some ?n"
    using assms(2) unfolding validateLabEntityRenameName_ok by force
  then have none: "List.find (\<lambda>e. entityName e = Some ?n) ?es = None" by (simp add: find_None_iff)
  obtain a0 w1 e a where c: "createAndRegisterLabEntityFromWasm W (nextLabEntityId ?es) (Some ?n)
        (default_network net) (default_address_type ty) now
        ''Lab entity wallet creation failed (no first address)'' w = (Inr a0, w1)"
      and e: "List.find (\<lambda>e. entityName e = Some ?n) (entities (lwState w1)) = Some e"
      and w': "w' = set_owner a (LabEntity (labEntityId e)) w1"
    using assms(1) False none
    by (auto simp: createLabEntity_def Let_def op_bind_Inr register_entity_address_def getStateSnapshot_def
        labEntityLabOwner_def split: option.splits)
  obtain x where x: "w1 = w\<lparr>lwState := (lwState w)\<lparr>entities := ?es @ [x]\<rparr>\<rparr>" "labEntityId x = nextLabEntityId ?es"
      "entityName x = Some ?n" "\<not> isDead x"
    by (rule create_entity_state[OF c])
  with e none have "e = x" by (auto simp: find_append split: if_splits)
  with x w' free False show ?thesis
    using nextLabEntityId_fresh[of ?es]
    by (intro exI[of _ x] exI[of _ a]) (auto simp: set_owner_def owner_map_def or_empty_def)
qed

text \<open>renaming succeeds exactly when the entity exists and the trimmed name is not
  empty, at most 128 characters long, free of the reserved prefix and not the name of
  another entity; a refused renaming changes nothing.\<close>

theorem renameLabEntity_iff:
  "(\<exists>res. fst (renameLabEntity now i name w) = Inr res) \<longleftrightarrow>
     i \<in> labEntityId ` set (entities (lwState w)) \<and> js_trim name \<noteq> '''' \<and> length (js_trim name) \<le> 128 \<and>
     \<not> starts_with ''Anonymous-'' (js_trim name) \<and>
     (\<forall>e \<in> set (entities (lwState w)). labEntityId e = i \<or> entityName e \<noteq> Some (js_trim name))"
proof -
  let ?v = "validateLabEntityRenameName (js_trim name) (entities (lwState w)) i"
  have "(\<exists>res. fst (renameLabEntity now i name w) = Inr res) \<longleftrightarrow>
      ?v = Inr () \<and> findLabEntityById (entities (lwState w)) i \<noteq> None"
    by (cases ?v) (auto simp: renameLabEntity_def Let_def op_bind_apply find_entity_def getStateSnapshot_def
        split: option.splits)
  then show ?thesis
    unfolding validateLabEntityRenameName_ok findLabEntityById_None by auto
qed

subsection \<open>Concrete states\<close>

definition sample_alice :: labEntityRecord where
  "sample_alice = \<lparr>labEntityId = 1, entityName = Some ''Alice'', mnemonic = ''m'', changesetJson = ''c'',
     externalDescriptor = ''e'', internalDescriptor = ''i'', ent_network = ''regtest'',
     ent_addressType = SegWit, accountId = 0, createdAt = ''t'', updatedAt = ''t'', isDead = False\<rparr>"

definition sample_utxo :: "string \<Rightarrow> string \<Rightarrow> int \<Rightarrow> labUtxo" where
  "sample_utxo txid address amount =
     \<lparr>u_txid = txid, u_vout = 0, u_address = address, u_amountSats = amount, u_scriptPubkeyHex = ''''\<rparr>"

definition sample_lab :: labWorker where
  "sample_lab = \<lparr>lwState = EMPTY_LAB_STATE\<lparr>entities := [sample_alice],
       utxos := [sample_utxo ''t0'' ''bcrt1qa'' 50, sample_utxo ''t1'' ''bcrt1qw'' 70, sample_utxo ''t2'' ''BCRT1QA'' 5],
       addressToOwner := Some [(''bcrt1qa'', LabEntity 1), (''bcrt1qw'', Wallet 1)]\<rparr>,
     txidToChangeOutput = []\<rparr>"

lemma op_result: "fst r = Inr x \<Longrightarrow> r = (Inr x, snd r)"
  by (cases r) simp

lemma op_result_ex: "case_sum (\<lambda>_. False) (\<lambda>_. True) (fst r) \<Longrightarrow> \<exists>x. r = (Inr x, snd r)"
  by (cases r) (auto split: sum.splits)

theorem prepareLabEntityTransaction_correct_witness:
  "\<exists>p. fst (prepareLabEntityTransaction 1 ''bcrt1qa'' ''bcrt1qw'' 10 1 None sample_lab) = Inr p \<and> pe_totalInput p = 55"
proof -
  let ?r = "prepareLabEntityTransaction 1 ''bcrt1qa'' ''bcrt1qw'' 10 1 None sample_lab"
  have "case_sum (\<lambda>_. False) (\<lambda>_. True) (fst ?r)" by code_simp
  then obtain p where p: "?r = (Inr p, snd ?r)" using op_result_ex by blast
  have "sum_list (map u_amountSats (filter (\<lambda>u. labBitcoinAddressesEqual (u_address u) ''bcrt1qa'')
      (utxos (lwState sample_lab)))) = 55" by code_simp
  then have "pe_totalInput p = 55" using prepareLabEntityTransaction_correct[OF p] by auto
  then show ?thesis using p by (metis fst_conv)
qed

theorem prepareLabWalletTransaction_correct_witness:
  "\<exists>p us. fst (prepareLabWalletTransaction 1 ''bcrt1qa'' 10 ''ch'' None None sample_lab) = Inr p \<and>
     set us = {u \<in> set (utxos (lwState sample_lab)).
       lookupOwnerForLabAddress (u_address u) (owner_map sample_lab) = Some (Wallet 1)} \<and>
     pw_totalInput p = sum_list (map u_amountSats us)"
proof -
  let ?r = "prepareLabWalletTransaction 1 ''bcrt1qa'' 10 ''ch'' None None sample_lab"
  have "case_sum (\<lambda>_. False) (\<lambda>_. True) (fst ?r)" by code_simp
  then obtain p where p: "?r = (Inr p, snd ?r)" using op_result_ex by blast
  have f: "fst ?r = Inr p" using p by (metis fst_conv)
  show ?thesis using prepareLabWalletTransaction_correct[OF p] f by auto
qed

theorem deleteLabEntity_correct_witness:
  "entities (lwState (snd (deleteLabEntity 1 sample_lab))) = [] \<and>
   rec_get (owner_map (snd (deleteLabEntity 1 sample_lab))) ''bcrt1qa'' = None \<and>
   rec_get (owner_map (snd (deleteLabEntity 1 sample_lab))) ''bcrt1qw'' = Some (Wallet 1)"
proof -
  let ?r = "deleteLabEntity 1 sample_lab"
  have "case_sum (\<lambda>_. False) (\<lambda>_. True) (fst ?r)" by code_simp
  then obtain p where p: "?r = (Inr p, snd ?r)" using op_result_ex by blast
  have m: "distinct (map fst (owner_map sample_lab))"
      "filter (\<lambda>e. labEntityId e \<noteq> 1) (entities (lwState sample_lab)) = []"
      "rec_get (owner_map sample_lab) ''bcrt1qa'' = Some (LabEntity 1)"
      "rec_get (owner_map sample_lab) ''bcrt1qw'' = Some (Wallet 1)"
    by code_simp+
  from deleteLabEntity_correct[OF p m(1)] m show ?thesis by simp
qed

theorem createLabEntity_correct_witness:
  "\<exists>e. entities (lwState (snd (createLabEntity sample_wasm ''now'' (Some '' Bob '') None None sample_lab))) =
     [sample_alice, e] \<and> labEntityId e = 2 \<and> entityName e = Some ''Bob''"
proof -
  let ?r = "createLabEntity sample_wasm ''now'' (Some '' Bob '') None None sample_lab"
  have "case_sum (\<lambda>_. False) (\<lambda>_. True) (fst ?r)" by code_simp
  then obtain p where p: "?r = (Inr p, snd ?r)" using op_result_ex by blast
  have "\<forall>e \<in> set (entities (lwState sample_lab)). 0 < labEntityId e" "trim_or_empty (Some '' Bob '') = ''Bob''"
      "entities (lwState sample_lab) = [sample_alice]" "nextLabEntityId (entities (lwState sample_lab)) = 2"
    by code_simp+
  then show ?thesis using createLabEntity_correct[OF p] by auto
qed

theorem renameLabEntity_iff_witness:
  "\<exists>res. fst (renameLabEntity ''now'' 1 '' Bob '' sample_lab) = Inr res"
proof -
  have "1 \<in> labEntityId ` set (entities (lwState sample_lab)) \<and> js_trim '' Bob '' \<noteq> '''' \<and>
      length (js_trim '' Bob '') \<le> 128 \<and> \<not> starts_with ''Anonymous-'' (js_trim '' Bob '') \<and>
      (\<forall>e \<in> set (entities (lwState sample_lab)). labEntityId e = 1 \<or> entityName e \<noteq> Some (js_trim '' Bob ''))"
    by code_simp
  then show ?thesis using renameLabEntity_iff[of "''now''" 1 "'' Bob ''" sample_lab] by blast
qed

end
