(* ===== verification/Lab_Store.thy ===== *)
theory Lab_Store
  imports Lab_Ops
begin

text \<open>
  Persistence of the lab: \<open>workers/lab-factory.ts\<close> with the row shapes of
  \<open>db/lab-schema.ts\<close>. A table is the list of its rows in the order the database scans
  them. A \<open>SELECT\<close> with \<open>ORDER BY\<close> sorts them; one without returns the scan order, which
  SQL leaves open, so the round trip below is stated for every scan order. JSON columns hold
  the value the text denotes; generated ids that nothing reads are left out.
\<close>

section \<open>Rows\<close>

record blockRow =
  br_block_hash :: string
  br_height :: int
  br_block_data :: string
  br_created_at :: string

record entityRow =
  er_lab_entity_id :: int
  er_entity_name :: "string option"
  er_mnemonic :: string
  er_changeset_json :: string
  er_external_descriptor :: string
  er_internal_descriptor :: string
  er_network :: string
  er_address_type :: string
  er_account_id :: int
  er_created_at :: string
  er_updated_at :: string
  er_is_dead :: int

datatype ownerTypeColumn = WalletType | LabEntityType

record addressOwnerRow =
  ao_address :: string
  ao_owner_type :: ownerTypeColumn
  ao_wallet_id :: "int option"
  ao_entity_name :: "string option"
  ao_lab_entity_id :: "int option"

text \<open>Input and output details as stored: the owner is whatever JSON was written.\<close>

record 'd ioRow =
  io_detail :: 'd
  io_owner :: "json option"

record mempoolRow =
  mp_signed_tx_hex :: string
  mp_txid :: string
  mp_sender :: "int option \<times> int option"
  mp_receiver :: "int option \<times> int option"
  mp_fee_sats :: int
  mp_weight :: "int option"
  mp_inputs_json :: "outpoint list"
  mp_inputs_detail_json :: "labTxInputDetail ioRow list"
  mp_outputs_detail_json :: "labTxOutputDetail ioRow list"

record transactionRow =
  tx_lab_transaction_id :: nat
  tx_row_txid :: string
  tx_sender :: "int option \<times> int option"
  tx_receiver :: "int option \<times> int option"

record txDetailRow =
  dr_txid :: string
  dr_block_height :: int
  dr_block_time :: int
  dr_inputs_json :: "labTxInputDetail ioRow list"
  dr_outputs_json :: "labTxOutputDetail ioRow list"

record mineOpRow =
  mr_height :: int
  mr_block_hash :: string
  mr_mined_by_key :: "string option"
  mr_mined_by :: "int option \<times> int option"
  mr_coinbase_txid :: "string option"
  mr_created_at :: string
  mr_block_weight_limit_wu :: "int option"
  mr_non_coinbase_weight_used_wu :: "int option"

record txOpRow =
  or_txid :: string
  or_sender_key :: string
  or_sender :: "int option \<times> int option"
  or_change_address :: "string option"
  or_change_vout :: "int option"
  or_payload_json :: json_text

record labDb =
  t_presets :: "(int \<times> int) list"
  t_blocks :: "blockRow list"
  t_utxos :: "labUtxo list"
  t_addresses :: "labAddress list"
  t_entities :: "entityRow list"
  t_owners :: "addressOwnerRow list"
  t_mempool :: "mempoolRow list"
  t_transactions :: "transactionRow list"
  t_txDetails :: "txDetailRow list"
  t_mineOps :: "mineOpRow list"
  t_txOps :: "txOpRow list"

section \<open>Loading\<close>

definition LAB_PERSIST_INSERT_BATCH_SIZE :: nat where "LAB_PERSIST_INSERT_BATCH_SIZE = 200"

function chunkArray :: "'a list \<Rightarrow> nat \<Rightarrow> 'a list list" where
  "chunkArray items chunkSize =
     (if items = [] \<or> chunkSize = 0 then []
      else take chunkSize items # chunkArray (drop chunkSize items) chunkSize)"
  by pat_completeness auto
termination by (relation "measure (\<lambda>(items, _). length items)") auto

declare chunkArray.simps [simp del]

definition parseAddressType :: "string \<Rightarrow> string + addressType" where
  "parseAddressType raw =
     (let normalized = js_lower (js_trim raw)
      in if normalized = ''segwit'' then Inr SegWit
         else if normalized = ''taproot'' then Inr Taproot
         else Inl (''Invalid address type: '' @ raw))"

definition normalize_input_owner :: "labTxInputDetail ioRow \<Rightarrow> labTxInputDetail" where
  "normalize_input_owner row = (io_detail row)\<lparr>in_owner := normalizeJsonOwnerToLabOwner (io_owner row)\<rparr>"

definition normalize_output_owner :: "labTxOutputDetail ioRow \<Rightarrow> labTxOutputDetail" where
  "normalize_output_owner row = (io_detail row)\<lparr>out_owner := normalizeJsonOwnerToLabOwner (io_owner row)\<rparr>"

definition load_entity :: "entityRow \<Rightarrow> string + labEntityRecord" where
  "load_entity r =
     sum_bind (parseAddressType (er_address_type r)) (\<lambda>ty.
     Inr \<lparr>labEntityId = er_lab_entity_id r, entityName = er_entity_name r, mnemonic = er_mnemonic r,
       changesetJson = er_changeset_json r, externalDescriptor = er_external_descriptor r,
       internalDescriptor = er_internal_descriptor r, ent_network = er_network r, ent_addressType = ty,
       accountId = er_account_id r, createdAt = er_created_at r, updatedAt = er_updated_at r,
       isDead = (er_is_dead r \<noteq> 0)\<rparr>)"

definition load_owner :: "addressOwnerRow \<Rightarrow> labOwner js_record \<Rightarrow> labOwner js_record" where
  "load_owner r m =
     (case (ao_owner_type r, ao_wallet_id r, ao_lab_entity_id r) of
        (WalletType, Some walletId, _) \<Rightarrow> rec_set (ao_address r) (walletLabOwner walletId) m
      | (LabEntityType, _, Some i) \<Rightarrow> if i > 0 then rec_set (ao_address r) (labEntityLabOwner i) m else m
      | _ \<Rightarrow> m)"

definition load_mempool_entry :: "mempoolRow \<Rightarrow> mempoolEntry" where
  "load_mempool_entry r =
     (let resolvedWeight = (case mp_weight r of Some v \<Rightarrow> if v > 0 then v else 0 | None \<Rightarrow> 0)
      in \<lparr>signedTxHex = mp_signed_tx_hex r, me_txid = mp_txid r,
          me_sender = labOwnerFromDbPair (fst (mp_sender r)) (snd (mp_sender r)),
          me_receiver = labOwnerFromDbPair (fst (mp_receiver r)) (snd (mp_receiver r)),
          me_feeSats = mp_fee_sats r, me_weight = resolvedWeight, me_vsize = labVsizeFromWeight resolvedWeight,
          me_inputs = mp_inputs_json r,
          me_inputsDetail = mergeMempoolInputsDetailWithOutpoints (mp_inputs_json r)
            (map normalize_input_owner (mp_inputs_detail_json r)),
          me_outputsDetail = map normalize_output_owner (mp_outputs_detail_json r)\<rparr>)"

definition load_tx_detail :: "txDetailRow \<Rightarrow> labTxDetails" where
  "load_tx_detail r =
     \<lparr>td_txid = dr_txid r, td_blockHeight = dr_block_height r, td_blockTime = dr_block_time r, td_confirmations = 0,
      td_inputs = map normalize_input_owner (dr_inputs_json r),
      td_outputs = map normalize_output_owner (dr_outputs_json r)\<rparr>"

definition load_mine_op :: "mineOpRow \<Rightarrow> labMineOperationRecord" where
  "load_mine_op r =
     \<lparr>mo_height = mr_height r, mo_blockHash = mr_block_hash r,
      mo_minedBy = labOwnerFromTxRow (fst (mr_mined_by r)) (snd (mr_mined_by r)) (mr_mined_by_key r),
      mo_coinbaseTxid = mr_coinbase_txid r, mo_createdAt = mr_created_at r,
      mo_blockWeightLimitWu = mr_block_weight_limit_wu r,
      mo_nonCoinbaseWeightUsedWu = mr_non_coinbase_weight_used_wu r\<rparr>"

definition load_tx_op :: "txOpRow \<Rightarrow> string + labTxOperationRecord" where
  "load_tx_op r =
     (case labOwnerFromTxRow (fst (or_sender r)) (snd (or_sender r)) (Some (or_sender_key r)) of
        None \<Rightarrow> Inl (''lab_tx_operations: cannot parse sender for txid='' @ or_txid r)
      | Some sender \<Rightarrow>
          Inr \<lparr>to_txid = or_txid r, to_sender = sender, to_changeAddress = or_change_address r,
            to_changeVout = or_change_vout r, to_payloadJson = or_payload_json r\<rparr>)"

definition load_transaction :: "transactionRow \<Rightarrow> labTxRecord" where
  "load_transaction r =
     \<lparr>tr_txid = tx_row_txid r, tr_sender = labOwnerFromDbPair (fst (tx_sender r)) (snd (tx_sender r)),
      tr_receiver = labOwnerFromDbPair (fst (tx_receiver r)) (snd (tx_receiver r))\<rparr>"

definition order_by :: "('r \<Rightarrow> int) \<Rightarrow> 'r list \<Rightarrow> 'r list" where
  "order_by f rows = js_sort (\<lambda>a b. of_int (f a - f b)) rows"

definition loadLabStateFromDatabase :: "labDb \<Rightarrow> string + labState" where
  "loadLabStateFromDatabase db =
     (let (blockSize, subsidy) = (case t_presets db of
             [] \<Rightarrow> (LAB_DEFAULT_BLOCK_WEIGHT_UNITS, LAB_DEFAULT_MINER_SUBSIDY_SATS)
           | row # _ \<Rightarrow> row)
      in sum_bind (sum_map load_entity (t_entities db)) (\<lambda>entities'.
         sum_bind (sum_map load_tx_op (t_txOps db)) (\<lambda>txOperations'.
         Inr \<lparr>blocks = map (\<lambda>r. \<lparr>blockHash = br_block_hash r, blk_height = br_height r, blockData = br_block_data r\<rparr>)
                (order_by br_height (t_blocks db)),
           utxos = t_utxos db, addresses = t_addresses db, entities = entities',
           addressToOwner = Some (fold load_owner (t_owners db) []),
           mempool = map load_mempool_entry (t_mempool db),
           transactions = map load_transaction (order_by (\<lambda>r. int (tx_lab_transaction_id r)) (t_transactions db)),
           txDetails = map load_tx_detail (t_txDetails db),
           mineOperations = map load_mine_op (order_by mr_height (t_mineOps db)),
           txOperations = txOperations',
           blockWeightLimit = normalizeBlockWeightLimit (Fin (of_int blockSize)),
           minerSubsidySats = normalizeMinerSubsidySats (Fin (of_int subsidy))\<rparr>)))"

section \<open>Saving\<close>

definition address_type_text :: "addressType \<Rightarrow> string" where
  "address_type_text t = (case t of SegWit \<Rightarrow> ''segwit'' | Taproot \<Rightarrow> ''taproot'')"

definition save_entity :: "labEntityRecord \<Rightarrow> entityRow" where
  "save_entity e =
     \<lparr>er_lab_entity_id = labEntityId e, er_entity_name = entityName e, er_mnemonic = mnemonic e,
      er_changeset_json = changesetJson e, er_external_descriptor = externalDescriptor e,
      er_internal_descriptor = internalDescriptor e, er_network = ent_network e,
      er_address_type = address_type_text (ent_addressType e), er_account_id = accountId e,
      er_created_at = createdAt e, er_updated_at = updatedAt e, er_is_dead = (if isDead e then 1 else 0)\<rparr>"

definition save_owner :: "labEntityRecord list \<Rightarrow> string \<times> labOwner \<Rightarrow> addressOwnerRow" where
  "save_owner es kv =
     (case snd kv of
        Wallet walletId \<Rightarrow> \<lparr>ao_address = fst kv, ao_owner_type = WalletType, ao_wallet_id = Some walletId,
          ao_entity_name = None, ao_lab_entity_id = None\<rparr>
      | LabEntity i \<Rightarrow> \<lparr>ao_address = fst kv, ao_owner_type = LabEntityType, ao_wallet_id = None,
          ao_entity_name = Some (case List.find (\<lambda>e. labEntityId e = i) es of
             Some e \<Rightarrow> labEntityOwnerKey e | None \<Rightarrow> ''Anonymous-'' @ int_str i),
          ao_lab_entity_id = Some i\<rparr>)"

definition save_input :: "labTxInputDetail \<Rightarrow> labTxInputDetail ioRow" where
  "save_input d = \<lparr>io_detail = d, io_owner = Some (owner_option_json (in_owner d))\<rparr>"

definition save_output :: "labTxOutputDetail \<Rightarrow> labTxOutputDetail ioRow" where
  "save_output d = \<lparr>io_detail = d, io_owner = Some (owner_option_json (out_owner d))\<rparr>"

definition save_mempool_entry :: "mempoolEntry \<Rightarrow> mempoolRow" where
  "save_mempool_entry e =
     \<lparr>mp_signed_tx_hex = signedTxHex e, mp_txid = me_txid e, mp_sender = labOwnerToDbPair (me_sender e),
      mp_receiver = labOwnerToDbPair (me_receiver e), mp_fee_sats = me_feeSats e, mp_weight = Some (me_weight e),
      mp_inputs_json = me_inputs e, mp_inputs_detail_json = map save_input (me_inputsDetail e),
      mp_outputs_detail_json = map save_output (me_outputsDetail e)\<rparr>"

definition save_tx_detail :: "labTxDetails \<Rightarrow> txDetailRow" where
  "save_tx_detail d =
     \<lparr>dr_txid = td_txid d, dr_block_height = td_blockHeight d, dr_block_time = td_blockTime d,
      dr_inputs_json = map save_input (td_inputs d), dr_outputs_json = map save_output (td_outputs d)\<rparr>"

definition save_mine_op :: "string \<Rightarrow> labEntityRecord list \<Rightarrow> labMineOperationRecord \<Rightarrow> mineOpRow" where
  "save_mine_op nowMine es m =
     \<lparr>mr_height = mo_height m, mr_block_hash = mo_blockHash m,
      mr_mined_by_key = map_option (\<lambda>x. labOwnerDisplayKey x es) (mo_minedBy m),
      mr_mined_by = labOwnerToDbPair (mo_minedBy m), mr_coinbase_txid = mo_coinbaseTxid m,
      mr_created_at = (if mo_createdAt m = '''' then nowMine else mo_createdAt m),
      mr_block_weight_limit_wu = mo_blockWeightLimitWu m,
      mr_non_coinbase_weight_used_wu = mo_nonCoinbaseWeightUsedWu m\<rparr>"

definition save_tx_op :: "labEntityRecord list \<Rightarrow> labTxOperationRecord \<Rightarrow> txOpRow" where
  "save_tx_op es p =
     \<lparr>or_txid = to_txid p, or_sender_key = labOwnerDisplayKey (to_sender p) es,
      or_sender = labOwnerToDbPair (Some (to_sender p)), or_change_address = to_changeAddress p,
      or_change_vout = to_changeVout p,
      or_payload_json = (if to_payloadJson p = JEmpty then JText (JObj []) else to_payloadJson p)\<rparr>"

definition save_transaction :: "nat \<Rightarrow> labTxRecord \<Rightarrow> transactionRow" where
  "save_transaction n r =
     \<lparr>tx_lab_transaction_id = n, tx_row_txid = tr_txid r, tx_sender = labOwnerToDbPair (tr_sender r),
      tx_receiver = labOwnerToDbPair (tr_receiver r)\<rparr>"

text \<open>Batched inserts append the rows chunk by chunk; the ids of a transaction row grow from
  the next free one, \<open>nextId\<close>.\<close>

definition insert_rows :: "'r list \<Rightarrow> 'r list" where
  "insert_rows rows = fold (\<lambda>chunk table. table @ chunk) (chunkArray rows LAB_PERSIST_INSERT_BATCH_SIZE) []"

definition clearAndInsertLabState :: "string \<Rightarrow> nat \<Rightarrow> labState \<Rightarrow> labDb" where
  "clearAndInsertLabState now nextId s =
     \<lparr>t_presets = [(blockWeightLimit s, normalizeMinerSubsidySats (Fin (of_int (minerSubsidySats s))))],
      t_blocks = insert_rows (map (\<lambda>b. \<lparr>br_block_hash = blockHash b, br_height = blk_height b,
        br_block_data = blockData b, br_created_at = now\<rparr>) (blocks s)),
      t_utxos = insert_rows (utxos s), t_addresses = insert_rows (addresses s),
      t_entities = insert_rows (map save_entity (entities s)),
      t_owners = insert_rows (map (save_owner (entities s)) (or_empty (addressToOwner s))),
      t_mempool = insert_rows (map save_mempool_entry (mempool s)),
      t_transactions = insert_rows (map (\<lambda>(n, r). save_transaction (nextId + n) r)
        (zip [0..<length (transactions s)] (transactions s))),
      t_txDetails = insert_rows (map save_tx_detail (txDetails s)),
      t_mineOps = insert_rows (map (save_mine_op now (entities s)) (mineOperations s)),
      t_txOps = insert_rows (map (save_tx_op (entities s)) (txOperations s))\<rparr>"

text \<open>\<open>toUiLabState\<close> of \<open>lib/lab/lab-chain-query.ts\<close>: a loaded state shaped for the UI.\<close>

definition toUiLabState :: "labState \<Rightarrow> labState" where
  "toUiLabState s =
     s\<lparr>addresses := mergeAddressesWithUtxos (addresses s) (utxos s),
       addressToOwner := Some (or_empty (addressToOwner s)),
       blockWeightLimit := normalizeBlockWeightLimit (Fin (of_int (blockWeightLimit s))),
       minerSubsidySats := normalizeMinerSubsidySats (Fin (of_int (minerSubsidySats s)))\<rparr>"

section \<open>Lemmas\<close>

lemma concat_chunkArray: "0 < n \<Longrightarrow> concat (chunkArray xs n) = xs"
proof (induction xs n rule: chunkArray.induct)
  case (1 xs n)
  then show ?case by (subst chunkArray.simps) auto
qed

lemma chunkArray_bound: "c \<in> set (chunkArray xs n) \<Longrightarrow> length c \<le> n"
proof (induction xs n rule: chunkArray.induct)
  case (1 xs n)
  then show ?case by (subst (asm) (2) chunkArray.simps) (auto split: if_splits)
qed

lemma insert_rows [simp]: "insert_rows rows = rows"
proof -
  have "fold (\<lambda>chunk table. table @ chunk) cs t = t @ concat cs" for cs and t :: "'a list"
    by (induction cs arbitrary: t) auto
  then show ?thesis
    by (simp add: insert_rows_def concat_chunkArray LAB_PERSIST_INSERT_BATCH_SIZE_def)
qed

lemma order_by_sorted: "sorted (map f (order_by f rows))" "mset (order_by f rows) = mset rows"
proof -
  have "consistent_cmp (\<lambda>a b. of_int (f a - f b))"
    unfolding consistent_cmp_def by (simp add: of_int_le_0_iff) linarith
  from sorted_js_sort[OF this, of rows] show "sorted (map f (order_by f rows))"
    by (simp add: order_by_def sorted_map of_int_le_0_iff)
qed (simp add: order_by_def)

text \<open>Whatever order the table is scanned in, sorting by a strictly increasing key restores it.\<close>

lemma order_by_rescan:
  assumes "mset rows' = mset rows" and "sorted_wrt (<) (map f rows)"
  shows "order_by f rows' = rows"
proof (rule map_sorted_distinct_set_unique[of f])
  have s: "sorted (map f rows)" "distinct (map f rows)"
    using assms(2) strict_sorted_iff by auto
  have m: "mset (order_by f rows') = mset rows" using order_by_sorted(2) assms(1) by metis
  then have set_eq: "set (order_by f rows') = set rows" by (metis set_mset_mset)
  show "inj_on f (set (order_by f rows') \<union> set rows)"
    using s(2) set_eq by (simp add: distinct_map)
  show "sorted (map f (order_by f rows'))" by (rule order_by_sorted(1))
  show "distinct (map f (order_by f rows'))"
    using s(2) m by (metis mset_eq_imp_distinct_iff mset_map)
  show "sorted (map f rows)" "distinct (map f rows)" by (fact s)+
  show "set (order_by f rows') = set rows" by (fact set_eq)
qed

lemma parseAddressType_text [simp]: "parseAddressType (address_type_text t) = Inr t"
proof -
  have "parseAddressType (address_type_text SegWit) = Inr SegWit"
    "parseAddressType (address_type_text Taproot) = Inr Taproot" by code_simp+
  then show ?thesis by (cases t) simp_all
qed

lemma load_save_entity [simp]: "load_entity (save_entity e) = Inr e"
  by (simp add: load_entity_def save_entity_def)

lemma normalize_save_io [simp]:
  "normalize_input_owner (save_input d) = d" "normalize_output_owner (save_output o') = o'"
  by (simp_all add: normalize_input_owner_def save_input_def normalize_output_owner_def save_output_def)

definition owner_ok :: "labOwner option \<Rightarrow> bool" where
  "owner_ok x \<longleftrightarrow> (\<forall>v. x = Some v \<longrightarrow> db_owner v)"

lemma pair_roundtrip:
  "owner_ok x \<Longrightarrow> labOwnerFromDbPair (fst (labOwnerToDbPair x)) (snd (labOwnerToDbPair x)) = x"
  by (rule db_pair_option) (simp add: owner_ok_def)

definition entry_storable :: "mempoolEntry \<Rightarrow> bool" where
  "entry_storable e \<longleftrightarrow> owner_ok (me_sender e) \<and> owner_ok (me_receiver e) \<and> entry_ok e \<and>
     (\<forall>d \<in> set (me_inputsDetail e). in_prevTxid d \<noteq> None \<and> in_prevVout d \<noteq> None)"

lemma load_save_entry:
  assumes "entry_storable e"
  shows "load_mempool_entry (save_mempool_entry e) = e"
  using assms pair_roundtrip[of "me_sender e"] pair_roundtrip[of "me_receiver e"]
  by (intro mempoolEntry.equality)
    (simp_all add: entry_storable_def entry_ok_def load_mempool_entry_def save_mempool_entry_def comp_def
      merge_outpoints_present Let_def)

lemma load_save_tx_detail: "td_confirmations d = 0 \<Longrightarrow> load_tx_detail (save_tx_detail d) = d"
  by (simp add: load_tx_detail_def save_tx_detail_def comp_def)

lemma tx_row_owner:
  assumes "db_owner x"
  shows "labOwnerFromTxRow (fst (labOwnerToDbPair (Some x))) (snd (labOwnerToDbPair (Some x))) k = Some x"
proof -
  have "labOwnerFromDbPair (fst (labOwnerToDbPair (Some x))) (snd (labOwnerToDbPair (Some x))) = Some x"
    using pair_roundtrip[of "Some x"] assms by (simp add: owner_ok_def)
  then show ?thesis by (simp add: labOwnerFromTxRow_def)
qed

lemma load_save_mine_op:
  assumes "owner_ok (mo_minedBy m)" and "mo_createdAt m \<noteq> ''''"
  shows "load_mine_op (save_mine_op now es m) = m"
proof (cases "mo_minedBy m")
  case None
  then show ?thesis
    using assms(2) by (simp add: load_mine_op_def save_mine_op_def labOwnerFromTxRow_def labOwnerFromDbPair_def)
next
  case (Some x)
  then have "db_owner x" using assms(1) by (simp add: owner_ok_def)
  with tx_row_owner[OF this] Some assms(2) show ?thesis by (simp add: load_mine_op_def save_mine_op_def)
qed

lemma load_save_tx_op:
  assumes "db_owner (to_sender p)" and "to_payloadJson p \<noteq> JEmpty"
  shows "load_tx_op (save_tx_op es p) = Inr p"
  using assms(2) tx_row_owner[OF assms(1)] by (simp add: load_tx_op_def save_tx_op_def)

lemma load_save_transaction:
  "owner_ok (tr_sender r) \<Longrightarrow> owner_ok (tr_receiver r) \<Longrightarrow> load_transaction (save_transaction n r) = r"
  by (simp add: load_transaction_def save_transaction_def pair_roundtrip)

lemma load_save_owner:
  "db_owner (snd kv) \<Longrightarrow> load_owner (save_owner es kv) m = rec_set (fst kv) (snd kv) m"
  by (cases "snd kv") (simp_all add: load_owner_def save_owner_def db_owner_def walletLabOwner_def labEntityLabOwner_def)

lemma fold_load_owner:
  assumes "\<forall>kv \<in> set kvs. db_owner (snd kv)"
  shows "fold load_owner (map (save_owner es) kvs) m = fold (\<lambda>kv. rec_set (fst kv) (snd kv)) kvs m"
  using assms by (induction kvs arbitrary: m) (auto simp: load_save_owner)

lemma fold_rec_set_get:
  assumes "distinct (map fst kvs)"
  shows "rec_get (fold (\<lambda>kv. rec_set (fst kv) (snd kv)) kvs m) a =
    (case map_of kvs a of Some v \<Rightarrow> Some v | None \<Rightarrow> rec_get m a)"
  using assms
proof (induction kvs arbitrary: m)
  case (Cons kv kvs)
  then have "fst kv \<notin> dom (map_of kvs)" by (simp add: dom_map_of_conv_image_fst)
  with Cons show ?case by (auto simp: js_rec.get_set split: option.splits)
qed simp

section \<open>The round trip\<close>

text \<open>What a state has to satisfy to survive the database: owner ids positive, one owner per
  address, rows as the worker makes them.\<close>

definition storable :: "labState \<Rightarrow> bool" where
  "storable s \<longleftrightarrow> state_ok s \<and>
     (\<forall>kv \<in> set (or_empty (addressToOwner s)). db_owner (snd kv)) \<and>
     distinct (map fst (or_empty (addressToOwner s))) \<and>
     (\<forall>e \<in> set (mempool s). entry_storable e) \<and>
     (\<forall>r \<in> set (transactions s). owner_ok (tr_sender r) \<and> owner_ok (tr_receiver r)) \<and>
     (\<forall>d \<in> set (txDetails s). td_confirmations d = 0) \<and>
     (\<forall>m \<in> set (mineOperations s). owner_ok (mo_minedBy m) \<and> mo_createdAt m \<noteq> '''') \<and>
     (\<forall>p \<in> set (txOperations s). db_owner (to_sender p) \<and> to_payloadJson p \<noteq> JEmpty)"

text \<open>Another scan order of the same tables. The parameter table has one row.\<close>

definition rescan :: "labDb \<Rightarrow> labDb \<Rightarrow> bool" where
  "rescan db db' \<longleftrightarrow> t_presets db' = t_presets db \<and>
     mset (t_blocks db') = mset (t_blocks db) \<and> mset (t_utxos db') = mset (t_utxos db) \<and>
     mset (t_addresses db') = mset (t_addresses db) \<and> mset (t_entities db') = mset (t_entities db) \<and>
     mset (t_owners db') = mset (t_owners db) \<and> mset (t_mempool db') = mset (t_mempool db) \<and>
     mset (t_transactions db') = mset (t_transactions db) \<and> mset (t_txDetails db') = mset (t_txDetails db) \<and>
     mset (t_mineOps db') = mset (t_mineOps db) \<and> mset (t_txOps db') = mset (t_txOps db)"

text \<open>Equality of states up to the order of the unordered collections.\<close>

definition state_equiv :: "labState \<Rightarrow> labState \<Rightarrow> bool" where
  "state_equiv s s' \<longleftrightarrow> blocks s = blocks s' \<and> mset (utxos s) = mset (utxos s') \<and>
     mset (addresses s) = mset (addresses s') \<and> mset (entities s) = mset (entities s') \<and>
     rec_get (or_empty (addressToOwner s)) = rec_get (or_empty (addressToOwner s')) \<and>
     mset (mempool s) = mset (mempool s') \<and> transactions s = transactions s' \<and>
     mset (txDetails s) = mset (txDetails s') \<and> mineOperations s = mineOperations s' \<and>
     mset (txOperations s) = mset (txOperations s') \<and>
     blockWeightLimit s = blockWeightLimit s' \<and> minerSubsidySats s = minerSubsidySats s'"

text \<open>Loading a rescanned table row by row, where loading inverts saving.\<close>

lemma mset_map_inverse:
  assumes "mset rows = mset (map f xs)" and "\<forall>x \<in> set xs. g (f x) = x"
  shows "mset (map g rows) = mset xs"
proof -
  have "mset (map g rows) = mset (map (\<lambda>x. g (f x)) xs)" using assms(1) by (simp add: multiset.map_comp comp_def)
  also have "map (\<lambda>x. g (f x)) xs = xs" using assms(2) by (simp add: map_idI)
  finally show ?thesis .
qed

lemma sum_map_inverse:
  assumes "mset rows = mset (map f xs)" and "\<forall>x \<in> set xs. g (f x) = Inr x"
  shows "\<exists>ys. sum_map g rows = Inr ys \<and> mset ys = mset xs"
proof -
  have "set rows = set (map f xs)" using assms(1) by (metis set_mset_mset)
  then have "sum_map g rows = Inr (map (\<lambda>r. projr (g r)) rows)"
    using assms(2) by (intro sum_map_all) auto
  moreover have "mset (map (\<lambda>r. projr (g r)) rows) = mset xs"
    using assms by (intro mset_map_inverse) auto
  ultimately show ?thesis by blast
qed

lemma mset_map_invert:
  "mset rows = mset (map f xs) \<Longrightarrow> \<exists>xs'. rows = map f xs' \<and> mset xs' = mset xs"
proof (induction rows arbitrary: xs)
  case (Cons r rows)
  then have "r \<in> set (map f xs)" by (metis list.set_intros(1) set_mset_mset)
  then obtain x where x: "x \<in> set xs" "r = f x" by auto
  then have m: "mset xs = add_mset x (mset (remove1 x xs))" by simp
  have "mset (map f xs) = add_mset (f x) (mset (map f (remove1 x xs)))"
    unfolding mset_map by (subst m) (rule image_mset_add_mset)
  then have "mset rows = mset (map f (remove1 x xs))"
    using Cons.prems x(2) by (metis add_mset_add_single add_right_cancel mset.simps(2))
  then obtain xs' where "rows = map f xs'" "mset xs' = mset (remove1 x xs)" using Cons.IH by blast
  with m x(2) show ?case by (intro exI[of _ "x # xs'"]) simp
qed simp

lemma owners_rescan:
  assumes "mset rows = mset (map (save_owner es) kvs)" and "\<forall>kv \<in> set kvs. db_owner (snd kv)"
    and "distinct (map fst kvs)"
  shows "rec_get (fold load_owner rows []) = rec_get kvs"
proof -
  obtain kvs' where k: "rows = map (save_owner es) kvs'" "mset kvs' = mset kvs"
    using mset_map_invert[OF assms(1)] by blast
  have d: "distinct (map fst kvs')" using assms(3) k(2) by (metis mset_eq_imp_distinct_iff mset_map)
  have "map_of kvs' = map_of kvs"
    using d assms(3) k(2) by (metis map_of_inject_set set_mset_mset)
  moreover have "\<forall>kv \<in> set kvs'. db_owner (snd kv)" using assms(2) k(2) by (metis set_mset_mset)
  ultimately show ?thesis
    using fold_rec_set_get[OF d, of "[]"]
    by (auto simp: fun_eq_iff k(1) fold_load_owner rec_get_def split: option.splits)
qed

lemma consecutive_sorted: "consecutive_from h hs \<Longrightarrow> sorted_wrt (<) hs"
proof -
  have "sorted_wrt (<) (map (\<lambda>j. h + int j) [0..<k])" for k by (simp add: sorted_wrt_map)
  then show "consecutive_from h hs \<Longrightarrow> sorted_wrt (<) hs" unfolding consecutive_from_def by metis
qed

lemma transaction_rows:
  fixes n :: nat and rs :: "labTxRecord list"
  defines "rows \<equiv> map (\<lambda>(k, r). save_transaction (n + k) r) (zip [0..<length rs] rs)"
  assumes "\<forall>r \<in> set rs. owner_ok (tr_sender r) \<and> owner_ok (tr_receiver r)"
  shows "sorted_wrt (<) (map (\<lambda>r. int (tx_lab_transaction_id r)) rows)" "map load_transaction rows = rs"
proof -
  have "map (\<lambda>r. int (tx_lab_transaction_id r)) rows = map (\<lambda>k. int (n + k)) [0..<length rs]"
    by (rule nth_equalityI) (simp_all add: rows_def save_transaction_def)
  then show "sorted_wrt (<) (map (\<lambda>r. int (tx_lab_transaction_id r)) rows)"
    by (simp add: sorted_wrt_map)
  show "map load_transaction rows = rs"
    using assms(2) by (intro nth_equalityI) (simp_all add: rows_def load_save_transaction)
qed

lemma persist_load:
  assumes "storable s" and "rescan (clearAndInsertLabState now n s) db"
  shows "\<exists>s'. loadLabStateFromDatabase db = Inr s' \<and> state_equiv s s'"
proof -
  note ok = assms(1)[unfolded storable_def state_ok_def]
  note scan = assms(2)[unfolded rescan_def clearAndInsertLabState_def, simplified]
  let ?owners = "or_empty (addressToOwner s)"
  let ?row = "\<lambda>b. \<lparr>br_block_hash = blockHash b, br_height = blk_height b, br_block_data = blockData b,
    br_created_at = now\<rparr>"
  have heights: "sorted_wrt (<) (map blk_height (blocks s))" "map mo_height (mineOperations s) = map blk_height (blocks s)"
    using ok consecutive_sorted unfolding chain_ok_def by (auto dest!: arg_cong[where f = "map fst"] simp: comp_def)
  have b: "order_by br_height (t_blocks db) = map ?row (blocks s)"
    using scan heights(1) by (intro order_by_rescan) (simp_all add: comp_def)
  have m: "order_by mr_height (t_mineOps db) = map (save_mine_op now (entities s)) (mineOperations s)"
    using scan heights by (intro order_by_rescan) (simp_all add: comp_def save_mine_op_def)
  have t: "map load_transaction (order_by (\<lambda>r. int (tx_lab_transaction_id r)) (t_transactions db)) = transactions s"
  proof -
    let ?rows = "map (\<lambda>(k, r). save_transaction (n + k) r) (zip [0..<length (transactions s)] (transactions s))"
    have o: "\<forall>r \<in> set (transactions s). owner_ok (tr_sender r) \<and> owner_ok (tr_receiver r)" using ok by blast
    have "mset (t_transactions db) = mset ?rows" using scan by simp
    from order_by_rescan[OF this transaction_rows(1)[OF o]] transaction_rows(2)[OF o] show ?thesis by simp
  qed
  obtain es where es: "sum_map load_entity (t_entities db) = Inr es" "mset es = mset (entities s)"
    using sum_map_inverse[of "t_entities db" save_entity "entities s" load_entity] scan by auto
  obtain ops where ops: "sum_map load_tx_op (t_txOps db) = Inr ops" "mset ops = mset (txOperations s)"
    using sum_map_inverse[of "t_txOps db" "save_tx_op (entities s)" "txOperations s" load_tx_op] scan ok
      load_save_tx_op by auto
  have pool: "mset (map load_mempool_entry (t_mempool db)) = mset (mempool s)"
    using scan ok load_save_entry by (intro mset_map_inverse[where f = save_mempool_entry]) auto
  have det: "mset (map load_tx_detail (t_txDetails db)) = mset (txDetails s)"
    using scan ok load_save_tx_detail by (intro mset_map_inverse[where f = save_tx_detail]) auto
  have mops: "map load_mine_op (map (save_mine_op now (entities s)) (mineOperations s)) = mineOperations s"
    using ok load_save_mine_op by (simp add: map_idI)
  have own: "rec_get (fold load_owner (t_owners db) []) = rec_get ?owners"
    using scan ok by (intro owners_rescan[of _ "entities s"]) auto
  have lim: "normalizeBlockWeightLimit (Fin (of_int (blockWeightLimit s))) = blockWeightLimit s"
      "normalizeMinerSubsidySats (Fin (of_int (minerSubsidySats s))) = minerSubsidySats s"
    using ok normalizeBlockWeightLimit_id normalizeMinerSubsidySats_id unfolding limits_ok_def by blast+
  have pre: "t_presets db = [(blockWeightLimit s, minerSubsidySats s)]" using scan lim(2) by simp
  have "map (\<lambda>r. \<lparr>blockHash = br_block_hash r, blk_height = br_height r, blockData = br_block_data r\<rparr>)
      (map ?row (blocks s)) = blocks s" by (simp add: map_idI)
  moreover have "mset (utxos s) = mset (t_utxos db)" "mset (addresses s) = mset (t_addresses db)"
    using scan by simp_all
  ultimately show ?thesis
    unfolding loadLabStateFromDatabase_def pre Let_def es(1) ops(1)
    by (simp add: state_equiv_def b m t es ops pool[symmetric] det[symmetric] mops own lim or_empty_def[of "Some _"]
        del: normalizeBlockWeightLimit.simps normalizeMinerSubsidySats.simps map_map)
qed

section \<open>Properties\<close>


text \<open>inserts are split into batches of at most 200 rows that together are the rows.\<close>

theorem chunkArray_batches:
  "concat (chunkArray rows LAB_PERSIST_INSERT_BATCH_SIZE) = rows \<and>
   list_all (\<lambda>c. length c \<le> 200) (chunkArray rows LAB_PERSIST_INSERT_BATCH_SIZE)"
  using concat_chunkArray[of LAB_PERSIST_INSERT_BATCH_SIZE rows] chunkArray_bound[of _ rows LAB_PERSIST_INSERT_BATCH_SIZE]
  by (auto simp: list_all_iff LAB_PERSIST_INSERT_BATCH_SIZE_def)

text \<open>A ledger with two registered addresses and one unspent output.\<close>

definition sample_stored_state :: labState where
  "sample_stored_state = EMPTY_LAB_STATE
     \<lparr>addressToOwner := Some [(''bcrt1qalice'', LabEntity 1), (''bcrt1qwallet'', Wallet 7)],
      utxos := [sample_utxo ''aa'' ''bcrt1qwallet'' 5000]\<rparr>"


end
