(* ===== verification/Lab_Operations.thy ===== *)
theory Lab_Operations
  imports Lab_Store
begin

text \<open>
  The lab operations of the application: \<open>lib/lab/lab-worker-operations.ts\<close> over
  \<open>workers/lab-factory.ts\<close> and the schema of
  \<open>db/migrations/lab/20260417120000_initial_lab_schema.ts\<close>. Every operation hydrates the
  worker from the database, runs one worker call, and a writing operation persists the
  snapshot it returned. The coordinator runs operations one after another, so an operation is
  one transition of the pair of database and worker memory; the signing call in the middle of
  an entity payment is outside the queue and other operations may run meanwhile.
\<close>

section \<open>The system\<close>

record labSystem =
  sysDb :: labDb
  sysWorker :: labWorker

text \<open>What an operation reads from outside: the WASM module, the scan order of the database,
  the clocks, the next generated row id and the text of the error that the database raises on
  a violated constraint.\<close>

record labEnv =
  en_wasm :: labWasm
  en_scan :: "labDb \<Rightarrow> labDb"
  en_now :: string
  en_rowId :: nat
  en_constraintError :: string

text \<open>Primary keys and unique columns of the schema. \<open>NULL\<close> names do not collide.\<close>

definition constraints_ok :: "labDb \<Rightarrow> bool" where
  "constraints_ok db \<longleftrightarrow>
     distinct (map br_block_hash (t_blocks db)) \<and>
     distinct (map la_address (t_addresses db)) \<and>
     distinct (map ao_address (t_owners db)) \<and>
     distinct (map dr_txid (t_txDetails db)) \<and>
     distinct (map er_lab_entity_id (t_entities db)) \<and>
     distinct (List.map_filter er_entity_name (t_entities db)) \<and>
     distinct (map or_txid (t_txOps db))"

text \<open>The database right after its migration.\<close>

definition initial_lab_schema :: labDb where
  "initial_lab_schema =
     \<lparr>t_presets = [(LAB_DEFAULT_BLOCK_WEIGHT_UNITS, LAB_DEFAULT_MINER_SUBSIDY_SATS)],
      t_blocks = [], t_utxos = [], t_addresses = [], t_entities = [], t_owners = [], t_mempool = [],
      t_transactions = [], t_txDetails = [], t_mineOps = [], t_txOps = []\<rparr>"

definition on_worker :: "(labWorker, 'a) op \<Rightarrow> (labSystem, 'a) op" where
  "on_worker m \<sigma> = (case m (sysWorker \<sigma>) of (r, w) \<Rightarrow> (r, \<sigma>\<lparr>sysWorker := w\<rparr>))"

definition read_database :: "labEnv \<Rightarrow> (labSystem, labState) op" where
  "read_database env \<sigma> = (loadLabStateFromDatabase (en_scan env (sysDb \<sigma>)), \<sigma>)"

definition initLabWorkerWithState :: "labEnv \<Rightarrow> (labSystem, labState) op" where
  "initLabWorkerWithState env =
     op_bind (read_database env) (\<lambda>state.
     op_bind (on_worker (loadState (en_wasm env) (persisted_of state))) (\<lambda>_. op_return state))"

text \<open>The rows are replaced in one database transaction: a violated constraint rolls it back.\<close>

definition persistLabState :: "labEnv \<Rightarrow> labState \<Rightarrow> (labSystem, unit) op" where
  "persistLabState env state \<sigma> =
     (let db = clearAndInsertLabState (en_now env) (en_rowId env) state
      in if constraints_ok db then (Inr (), \<sigma>\<lparr>sysDb := db\<rparr>) else (Inl (en_constraintError env), \<sigma>))"

definition resetLab :: "labEnv \<Rightarrow> (labSystem, unit) op" where
  "resetLab env =
     op_bind (persistLabState env EMPTY_LAB_STATE) (\<lambda>_.
     op_bind (initLabWorkerWithState env) (\<lambda>_. op_return ()))"

section \<open>Reading operations\<close>

text \<open>\<open>read_op\<close> is the shape of the operations that do not persist.\<close>

definition read_op :: "labEnv \<Rightarrow> (labWorker, 'a) op \<Rightarrow> (labSystem, 'a) op" where
  "read_op env work = op_bind (initLabWorkerWithState env) (\<lambda>_. on_worker work)"

definition labOpLoadChainFromDatabase :: "labEnv \<Rightarrow> (labSystem, labState) op" where
  "labOpLoadChainFromDatabase env = initLabWorkerWithState env"

definition labOpGetBlockByHeight ::
  "labEnv \<Rightarrow> (8 word list \<Rightarrow> 8 word list) \<Rightarrow> int \<Rightarrow> (labSystem, labBlockDetails option) op" where
  "labOpGetBlockByHeight env sha256 height =
     read_op env (\<lambda>w. (getBlockByHeight sha256 height (lwState w), w))"

definition labOpGetCurrentBlockTemplate ::
  "labEnv \<Rightarrow> (string \<Rightarrow> string \<Rightarrow> rat) \<Rightarrow> (8 word list \<Rightarrow> 8 word list) \<Rightarrow> labCurrentBlockTemplateParams
     \<Rightarrow> (labSystem, labBlockDetails) op" where
  "labOpGetCurrentBlockTemplate env localeCompare sha256 params =
     read_op env (\<lambda>w. (buildCurrentBlockTemplate localeCompare sha256 (en_wasm env) params (lwState w), w))"

section \<open>Writing operations\<close>

text \<open>\<open>write_op\<close> hydrates, works, and persists the state the worker returned.\<close>

definition write_op :: "labEnv \<Rightarrow> (labWorker, 'a) op \<Rightarrow> ('a \<Rightarrow> labState) \<Rightarrow> (labSystem, 'a) op" where
  "write_op env work state_of =
     op_bind (initLabWorkerWithState env) (\<lambda>_.
     op_bind (on_worker work) (\<lambda>outcome.
     op_bind (persistLabState env (state_of outcome)) (\<lambda>_. op_return outcome)))"

definition labOpMineBlocks ::
  "labEnv \<Rightarrow> (string \<Rightarrow> string \<Rightarrow> rat) \<Rightarrow> (nat \<Rightarrow> string) \<Rightarrow> js_number \<Rightarrow> string \<Rightarrow> mineOptions
     \<Rightarrow> (labSystem, labMineBlocksResult) op" where
  "labOpMineBlocks env localeCompare clock count' targetAddress options =
     write_op env (executeMineBlocks localeCompare (en_wasm env) (en_now env) clock count' targetAddress options) mr_state"

definition labOpAddSignedTransaction :: "labEnv \<Rightarrow> string \<Rightarrow> labMempoolMetadata \<Rightarrow> (labSystem, labState) op" where
  "labOpAddSignedTransaction env signedHex metadata =
     (if mm_receiver metadata = None then op_throw ''labOpAddSignedTransaction: receiver is required''
      else write_op env (addSignedTransactionToMempool (en_wasm env) signedHex metadata) (\<lambda>s. s))"

definition labOpReset :: "labEnv \<Rightarrow> (labSystem, labState) op" where
  "labOpReset env = op_bind (resetLab env) (\<lambda>_. read_database env)"

definition labOpCreateLabEntity ::
  "labEnv \<Rightarrow> string option \<Rightarrow> addressType option \<Rightarrow> string option \<Rightarrow> (labSystem, labState) op" where
  "labOpCreateLabEntity env ownerName ty net =
     write_op env (createLabEntity (en_wasm env) (en_now env) ownerName ty net) (\<lambda>s. s)"

definition labOpRenameLabEntity :: "labEnv \<Rightarrow> int \<Rightarrow> string \<Rightarrow> (labSystem, labState) op" where
  "labOpRenameLabEntity env i newName = write_op env (renameLabEntity (en_now env) i newName) (\<lambda>s. s)"

definition labOpDeleteLabEntity :: "labEnv \<Rightarrow> int \<Rightarrow> (labSystem, labState) op" where
  "labOpDeleteLabEntity env i = write_op env (deleteLabEntity i) (\<lambda>s. s)"

definition labOpSetLabEntityDead :: "labEnv \<Rightarrow> int \<Rightarrow> bool \<Rightarrow> (labSystem, labState) op" where
  "labOpSetLabEntityDead env i dead = write_op env (setLabEntityDead (en_now env) i dead) (\<lambda>s. s)"

definition labOpSetBlockWeightLimit :: "labEnv \<Rightarrow> js_number \<Rightarrow> (labSystem, labState) op" where
  "labOpSetBlockWeightLimit env v = write_op env (setBlockWeightLimit v) (\<lambda>s. s)"

definition labOpSetMinerSubsidySats :: "labEnv \<Rightarrow> js_number \<Rightarrow> (labSystem, labState) op" where
  "labOpSetMinerSubsidySats env v = write_op env (setMinerSubsidySats v) (\<lambda>s. s)"

section \<open>Signed entity payments\<close>

record wireLabEntitySignResult =
  ws_signed_tx_hex :: string
  ws_fee_sats :: int
  ws_has_change :: bool
  ws_final_amount_sats :: int
  ws_raised_to_min_dust :: bool
  ws_bumped_change_free :: bool
  ws_changeset_json :: string
  ws_change_address :: "string option"

record labEntitySignDomainResult =
  sg_signedTxHex :: string
  sg_feeSats :: int
  sg_hasChange :: bool
  sg_finalAmountSats :: int
  sg_isRaisedToMinDust :: bool
  sg_isBumpedChangeFree :: bool
  sg_changesetJson :: string
  sg_changeAddress :: "string option"

definition mapWireLabEntitySignResultToDomain :: "wireLabEntitySignResult \<Rightarrow> labEntitySignDomainResult" where
  "mapWireLabEntitySignResultToDomain wire =
     \<lparr>sg_signedTxHex = ws_signed_tx_hex wire, sg_feeSats = ws_fee_sats wire, sg_hasChange = ws_has_change wire,
      sg_finalAmountSats = ws_final_amount_sats wire, sg_isRaisedToMinDust = ws_raised_to_min_dust wire,
      sg_isBumpedChangeFree = ws_bumped_change_free wire, sg_changesetJson = ws_changeset_json wire,
      sg_changeAddress = truthy (ws_change_address wire)\<rparr>"

text \<open>The crypto worker's signing call, with the flag for a change-free payment.\<close>

type_synonym labSigner = "labEntityTransactionCryptoParams \<Rightarrow> bool \<Rightarrow> string + wireLabEntitySignResult"

text \<open>The outputs of a payment after signing: the recipient (the one output of the prepared
  metadata) and, with change, what is left.\<close>

definition signed_outputs ::
  "preparedEntityTx \<Rightarrow> int \<Rightarrow> labEntitySignDomainResult \<Rightarrow> labTxOutputDetail list" where
  "signed_outputs prep requestedAmount result =
     (let recipientLineAmount = (if sg_finalAmountSats result > 0 then sg_finalAmountSats result else requestedAmount);
          recipient = hd (mm_outputsDetail (pe_mempoolMetadata prep))
      in if sg_hasChange result
         then [recipient\<lparr>out_amountSats := recipientLineAmount\<rparr>,
               \<lparr>out_address = (case sg_changeAddress result of Some a \<Rightarrow> a | None \<Rightarrow> ''''),
                out_amountSats = pe_totalInput prep - recipientLineAmount - sg_feeSats result,
                out_isChange = True, out_owner = mm_sender (pe_mempoolMetadata prep)\<rparr>]
         else [recipient\<lparr>out_amountSats := pe_totalInput prep - sg_feeSats result\<rparr>])"

definition signed_metadata ::
  "preparedEntityTx \<Rightarrow> int \<Rightarrow> labEntitySignDomainResult \<Rightarrow> labMempoolMetadata" where
  "signed_metadata prep requestedAmount result =
     (pe_mempoolMetadata prep)\<lparr>mm_feeSats := sg_feeSats result, mm_hasChange := sg_hasChange result,
        mm_outputsDetail := signed_outputs prep requestedAmount result,
        mm_walletChangeAddress := (if sg_hasChange result
          then (case sg_changeAddress result of Some a \<Rightarrow> a | None \<Rightarrow> '''') else '''')\<rparr>"

text \<open>The checks between signing and finalising, with the caller's name in the messages.\<close>

definition check_signed ::
  "string \<Rightarrow> preparedEntityTx \<Rightarrow> int \<Rightarrow> labEntitySignDomainResult \<Rightarrow> string + labMempoolMetadata" where
  "check_signed caller prep requestedAmount result =
     (if sg_hasChange result \<and> (sg_changeAddress result = None \<or> sg_changeAddress result = Some '''')
      then Inl (caller @ '': change_address missing when has_change'')
      else let metadata = signed_metadata prep requestedAmount result
           in if mm_receiver metadata = None
              then Inl (caller @ '': receiver is required before finalize'')
              else Inr metadata)"

record entityPayment =
  ep_labEntityId :: int
  ep_fromAddress :: string
  ep_toAddress :: string
  ep_amountSats :: int
  ep_feeRateSatPerVb :: rat
  ep_knownRecipientOwner :: "labOwner option"
  ep_applyChangeFreeBump :: "bool option"

definition prepare_payment :: "entityPayment \<Rightarrow> (labWorker, preparedEntityTx) op" where
  "prepare_payment p =
     prepareLabEntityTransaction (ep_labEntityId p) (ep_fromAddress p) (ep_toAddress p) (ep_amountSats p)
       (ep_feeRateSatPerVb p) (ep_knownRecipientOwner p)"

definition labOpDraftLabEntityTransaction ::
  "labEnv \<Rightarrow> (labEntityTransactionCryptoParams \<Rightarrow> string + 'd) \<Rightarrow> entityPayment
     \<Rightarrow> (labSystem, preparedEntityTx \<times> 'd) op" where
  "labOpDraftLabEntityTransaction env draftPsbt p =
     op_bind (read_op env (prepare_payment p)) (\<lambda>prep.
     op_bind (op_lift (draftPsbt (pe_crypto prep))) (\<lambda>draft. op_return (prep, draft)))"

text \<open>\<open>meanwhile\<close> is what other queued operations do to the system while the payment is
  being signed.\<close>

definition labOpCreateLabEntityTransaction ::
  "labEnv \<Rightarrow> labEnv \<Rightarrow> labSigner \<Rightarrow> (labSystem \<Rightarrow> labSystem) \<Rightarrow> entityPayment \<Rightarrow> (labSystem, labState) op" where
  "labOpCreateLabEntityTransaction env env' sign meanwhile p =
     op_bind (read_op env (prepare_payment p)) (\<lambda>prep.
     op_bind (op_modify meanwhile) (\<lambda>_.
     op_bind (op_lift (sign (pe_crypto prep) (ep_applyChangeFreeBump p = Some True))) (\<lambda>signRaw.
     let result = mapWireLabEntitySignResultToDomain signRaw
     in op_bind (op_lift (check_signed ''labOpCreateLabEntityTransaction'' prep (ep_amountSats p) result)) (\<lambda>metadata.
        write_op env' (finalizeLabEntityMempoolTransaction (en_wasm env') (en_now env') (sg_signedTxHex result) metadata
          (ep_labEntityId p) (sg_changesetJson result)) (\<lambda>s. s)))))"

section \<open>Random payments\<close>

definition LAB_MAX_RANDOM_ENTITY_TRANSACTIONS :: int where "LAB_MAX_RANDOM_ENTITY_TRANSACTIONS = 100"

text \<open>\<open>Math.max(1, Math.trunc(count))\<close>. A comparison with NaN is false, so NaN passes the
  limit and the loop does not run.\<close>

definition requested_count :: "js_number \<Rightarrow> js_number" where
  "requested_count v =
     (case v of
        Fin x \<Rightarrow> Fin (of_int (max 1 (if x < 0 then \<lceil>x\<rceil> else \<lfloor>x\<rfloor>)))
      | PosInf \<Rightarrow> PosInf
      | NegInf \<Rightarrow> Fin 1
      | NaN \<Rightarrow> NaN)"

definition batch_size :: "js_number \<Rightarrow> string + nat" where
  "batch_size v =
     (let tooMany = (\<lambda>got. Inl (''At most '' @ int_str LAB_MAX_RANDOM_ENTITY_TRANSACTIONS @
            '' random lab transactions per batch (got '' @ got @ '')''))
      in case requested_count v of
           Fin x \<Rightarrow> if x > of_int LAB_MAX_RANDOM_ENTITY_TRANSACTIONS then tooMany (int_str \<lfloor>x\<rfloor>) else Inr (nat \<lfloor>x\<rfloor>)
         | PosInf \<Rightarrow> tooMany ''Infinity''
         | _ \<Rightarrow> Inr 0)"

text \<open>One round of the loop; \<open>False\<close> is the \<open>break\<close>.\<close>

definition random_payment ::
  "labWasm \<Rightarrow> labSigner \<Rightarrow> string \<Rightarrow> (nat \<Rightarrow> randomRolls) \<Rightarrow> (labWorker, bool) op" where
  "random_payment W sign now rolls =
     op_bind (prepareRandomLabEntityTransaction W now rolls None) (\<lambda>found.
       case found of
         None \<Rightarrow> op_return False
       | Some prepared \<Rightarrow>
           op_bind (op_lift (sign (pe_crypto (pr_prepared prepared)) False)) (\<lambda>signRaw.
           let result = mapWireLabEntitySignResultToDomain signRaw
           in op_bind (op_lift (check_signed ''labOpCreateRandomLabEntityTransactions'' (pr_prepared prepared)
                  (pr_amountSats prepared) result)) (\<lambda>metadata.
              op_bind (finalizeLabEntityMempoolTransaction W now (sg_signedTxHex result) metadata
                  (pr_labEntityId prepared) (sg_changesetJson result)) (\<lambda>_. op_return True))))"

fun random_payments ::
  "labWasm \<Rightarrow> labSigner \<Rightarrow> (nat \<Rightarrow> string) \<Rightarrow> (nat \<Rightarrow> nat \<Rightarrow> randomRolls) \<Rightarrow> nat \<Rightarrow> nat \<Rightarrow> (labWorker, nat) op" where
  "random_payments W sign clock rolls createdCount 0 = op_return createdCount"
| "random_payments W sign clock rolls createdCount (Suc k) =
     op_bind (random_payment W sign (clock createdCount) (rolls createdCount)) (\<lambda>created.
       if created then random_payments W sign clock rolls (Suc createdCount) k else op_return createdCount)"

text \<open>\<open>try \<dots> finally\<close>: the final part runs on both outcomes, and an error of its own wins.\<close>

definition op_finally :: "('s, 'a) op \<Rightarrow> ('s, 'b) op \<Rightarrow> ('s, 'a \<times> 'b) op" where
  "op_finally m fin \<sigma> =
     (case m \<sigma> of (r, \<sigma>1) \<Rightarrow>
        (case fin \<sigma>1 of
           (Inl e, \<sigma>2) \<Rightarrow> (Inl e, \<sigma>2)
         | (Inr y, \<sigma>2) \<Rightarrow> (case r of Inl e \<Rightarrow> (Inl e, \<sigma>2) | Inr x \<Rightarrow> (Inr (x, y), \<sigma>2))))"

definition persist_snapshot :: "labEnv \<Rightarrow> (labSystem, labState) op" where
  "persist_snapshot env =
     op_bind (on_worker getStateSnapshot) (\<lambda>s. op_bind (persistLabState env s) (\<lambda>_. op_return s))"

definition labOpCreateRandomLabEntityTransactions ::
  "labEnv \<Rightarrow> labSigner \<Rightarrow> (nat \<Rightarrow> string) \<Rightarrow> (nat \<Rightarrow> nat \<Rightarrow> randomRolls) \<Rightarrow> js_number
     \<Rightarrow> (labSystem, nat \<times> labState) op" where
  "labOpCreateRandomLabEntityTransactions env sign clock rolls count' =
     op_bind (op_lift (batch_size count')) (\<lambda>requestedCount.
     op_bind (initLabWorkerWithState env) (\<lambda>_.
     op_finally (on_worker (random_payments (en_wasm env) sign clock rolls 0 requestedCount)) (persist_snapshot env)))"

section \<open>Hydration\<close>

lemma on_worker_apply [op_simps]:
  "on_worker m \<sigma> = (fst (m (sysWorker \<sigma>)), \<sigma>\<lparr>sysWorker := snd (m (sysWorker \<sigma>))\<rparr>)"
  by (simp add: on_worker_def split: prod.splits)

lemma on_worker_Inr:
  "on_worker m \<sigma> = (Inr x, \<sigma>') \<longleftrightarrow> (\<exists>w. m (sysWorker \<sigma>) = (Inr x, w) \<and> \<sigma>' = \<sigma>\<lparr>sysWorker := w\<rparr>)"
  by (auto simp: on_worker_def split: prod.splits)

lemma loadState_result:
  "loadState W p w = (case sum_map (normalize_loaded_entry W) (mempool (ps_state p)) of
     Inl e \<Rightarrow> (Inl e, w) | Inr pool \<Rightarrow> (Inr (), snd (loadState W p v)))"
  by (simp add: loadState_def Let_def op_bind_apply replaceLabWorkerState_def rebuildTxidToChangeAddressFromState_def
      rebuildTxidToChangeAddressFromMempool_def split: sum.splits)

text \<open>Hydration reads the database only: what the worker held before does not matter.\<close>

definition hydrated :: "labEnv \<Rightarrow> labState \<Rightarrow> labWorker" where
  "hydrated env s = snd (loadState (en_wasm env) (persisted_of s) INITIAL_LAB_WORKER)"

lemma init_result:
  "initLabWorkerWithState env \<sigma> =
     (case loadLabStateFromDatabase (en_scan env (sysDb \<sigma>)) of
        Inl e \<Rightarrow> (Inl e, \<sigma>)
      | Inr s \<Rightarrow> (case sum_map (normalize_loaded_entry (en_wasm env)) (mempool s) of
          Inl e \<Rightarrow> (Inl e, \<sigma>)
        | Inr _ \<Rightarrow> (Inr s, \<lparr>sysDb = sysDb \<sigma>, sysWorker = hydrated env s\<rparr>)))"
proof (cases "loadLabStateFromDatabase (en_scan env (sysDb \<sigma>))")
  case (Inr s)
  have pool: "mempool (ps_state (persisted_of s)) = mempool s" by (simp add: persisted_of_def)
  note load = loadState_result[of "en_wasm env" "persisted_of s" "sysWorker \<sigma>" INITIAL_LAB_WORKER, unfolded pool]
  show ?thesis
  proof (cases "sum_map (normalize_loaded_entry (en_wasm env)) (mempool s)")
    case (Inl e)
    then show ?thesis using Inr load by (simp add: initLabWorkerWithState_def read_database_def op_simps)
  next
    case (Inr pool)
    then show ?thesis using \<open>loadLabStateFromDatabase _ = Inr s\<close> load
      by (simp add: initLabWorkerWithState_def read_database_def op_simps hydrated_def)
  qed
qed (simp add: initLabWorkerWithState_def read_database_def op_simps)

lemma init_db: "initLabWorkerWithState env \<sigma> = (r, \<sigma>') \<Longrightarrow> sysDb \<sigma>' = sysDb \<sigma>"
  by (auto simp: init_result split: sum.splits)

lemma init_fresh:
  assumes "sysDb \<sigma> = sysDb \<tau>"
  obtains e where "initLabWorkerWithState env \<sigma> = (Inl e, \<sigma>)" "initLabWorkerWithState env \<tau> = (Inl e, \<tau>)"
  | "initLabWorkerWithState env \<sigma> = initLabWorkerWithState env \<tau>"
proof -
  have "(\<exists>e. initLabWorkerWithState env \<sigma> = (Inl e, \<sigma>) \<and> initLabWorkerWithState env \<tau> = (Inl e, \<tau>)) \<or>
      initLabWorkerWithState env \<sigma> = initLabWorkerWithState env \<tau>"
    using assms by (auto simp: init_result split: sum.splits)
  then show ?thesis using that by blast
qed

lemma read_op_db: "read_op env work \<sigma> = (r, \<sigma>') \<Longrightarrow> sysDb \<sigma>' = sysDb \<sigma>"
  by (auto simp: read_op_def op_simps dest: init_db split: sum.splits prod.splits)

section \<open>Transactions on the database\<close>

text \<open>What a writing operation promises: it changes the database only when it succeeds, it then
  stores exactly the state it returns, and it does not depend on the memory of the worker.\<close>

locale db_transaction =
  fixes env :: labEnv and run :: "(labSystem, 'a) op" and state_of :: "'a \<Rightarrow> labState"
  assumes atomic: "run \<sigma> = (Inl e, \<sigma>') \<Longrightarrow> sysDb \<sigma>' = sysDb \<sigma>"
    and durable: "run \<sigma> = (Inr x, \<sigma>') \<Longrightarrow>
      sysDb \<sigma>' = clearAndInsertLabState (en_now env) (en_rowId env) (state_of x) \<and> constraints_ok (sysDb \<sigma>')"
    and fresh: "sysDb \<sigma> = sysDb \<tau> \<Longrightarrow>
      fst (run \<sigma>) = fst (run \<tau>) \<and> sysDb (snd (run \<sigma>)) = sysDb (snd (run \<tau>))"
begin

lemma keeps_constraints: "op_keeps (\<lambda>\<sigma>. constraints_ok (sysDb \<sigma>)) run"
  unfolding op_keeps_def
proof (intro allI impI)
  fix \<sigma> :: labSystem
  assume "constraints_ok (sysDb \<sigma>)"
  then show "constraints_ok (sysDb (snd (run \<sigma>)))"
    using atomic[of \<sigma> _ "snd (run \<sigma>)"] durable[of \<sigma> _ "snd (run \<sigma>)"] by (cases "run \<sigma>"; cases "fst (run \<sigma>)") auto
qed

text \<open>A later load, in whatever scan order, gives back the state that was returned.\<close>

lemma read_your_writes:
  assumes "run \<sigma> = (Inr x, \<sigma>')" and "storable (state_of x)" and "\<And>db. rescan db (en_scan env' db)"
  shows "\<exists>s'. loadLabStateFromDatabase (en_scan env' (sysDb \<sigma>')) = Inr s' \<and> state_equiv (state_of x) s'"
  using durable[OF assms(1)] persist_load[OF assms(2)] assms(3) by metis

end

lemma write_op_result:
  "write_op env work state_of \<sigma> =
     (let (r, \<sigma>1) = initLabWorkerWithState env \<sigma>
      in case r of Inl e \<Rightarrow> (Inl e, \<sigma>1)
         | Inr _ \<Rightarrow> (let (x, w) = work (sysWorker \<sigma>1); \<sigma>2 = \<sigma>1\<lparr>sysWorker := w\<rparr>
             in case x of Inl e \<Rightarrow> (Inl e, \<sigma>2)
                | Inr y \<Rightarrow> (let db = clearAndInsertLabState (en_now env) (en_rowId env) (state_of y)
                    in if constraints_ok db then (Inr y, \<sigma>2\<lparr>sysDb := db\<rparr>) else (Inl (en_constraintError env), \<sigma>2))))"
  by (auto simp: write_op_def persistLabState_def op_simps Let_def split: prod.splits sum.splits)

lemma write_op_transaction: "db_transaction env (write_op env work state_of) state_of"
proof
  fix \<sigma> \<sigma>' e
  assume "write_op env work state_of \<sigma> = (Inl e, \<sigma>')"
  then show "sysDb \<sigma>' = sysDb \<sigma>"
    unfolding write_op_result by (auto simp: Let_def dest: init_db split: prod.splits sum.splits if_splits)
next
  fix \<sigma> \<sigma>' x
  assume "write_op env work state_of \<sigma> = (Inr x, \<sigma>')"
  then show "sysDb \<sigma>' = clearAndInsertLabState (en_now env) (en_rowId env) (state_of x) \<and> constraints_ok (sysDb \<sigma>')"
    unfolding write_op_result by (auto simp: Let_def split: prod.splits sum.splits if_splits)
next
  fix \<sigma> \<tau> :: labSystem
  assume same: "sysDb \<sigma> = sysDb \<tau>"
  then show "fst (write_op env work state_of \<sigma>) = fst (write_op env work state_of \<tau>) \<and>
      sysDb (snd (write_op env work state_of \<sigma>)) = sysDb (snd (write_op env work state_of \<tau>))"
    by (rule init_fresh[where env = env]) (simp_all add: write_op_result same)
qed

text \<open>The interface holds of every writing operation that persists what it returns.\<close>

interpretation mine: db_transaction env "labOpMineBlocks env lc clock n ta opts" mr_state
  unfolding labOpMineBlocks_def by (rule write_op_transaction)

interpretation create: db_transaction env "labOpCreateLabEntity env name ty net" "\<lambda>s. s"
  unfolding labOpCreateLabEntity_def by (rule write_op_transaction)

interpretation rename: db_transaction env "labOpRenameLabEntity env i name" "\<lambda>s. s"
  unfolding labOpRenameLabEntity_def by (rule write_op_transaction)

interpretation remove: db_transaction env "labOpDeleteLabEntity env i" "\<lambda>s. s"
  unfolding labOpDeleteLabEntity_def by (rule write_op_transaction)

interpretation set_dead: db_transaction env "labOpSetLabEntityDead env i dead" "\<lambda>s. s"
  unfolding labOpSetLabEntityDead_def by (rule write_op_transaction)

interpretation weight_limit: db_transaction env "labOpSetBlockWeightLimit env v" "\<lambda>s. s"
  unfolding labOpSetBlockWeightLimit_def by (rule write_op_transaction)

interpretation subsidy: db_transaction env "labOpSetMinerSubsidySats env v" "\<lambda>s. s"
  unfolding labOpSetMinerSubsidySats_def by (rule write_op_transaction)

lemma add_signed_transaction: "db_transaction env (labOpAddSignedTransaction env hex md) (\<lambda>s. s)"
proof (cases "mm_receiver md")
  case None
  then show ?thesis by unfold_locales (auto simp: labOpAddSignedTransaction_def)
next
  case (Some r)
  then have "labOpAddSignedTransaction env hex md =
      write_op env (addSignedTransactionToMempool (en_wasm env) hex md) (\<lambda>s. s)"
    by (simp add: labOpAddSignedTransaction_def)
  then show ?thesis using write_op_transaction by metis
qed

interpretation add_signed: db_transaction env "labOpAddSignedTransaction env hex md" "\<lambda>s. s"
  by (rule add_signed_transaction)

section \<open>Reset\<close>

lemma load_initial: "loadLabStateFromDatabase initial_lab_schema = Inr EMPTY_LAB_STATE"
  by code_simp

lemma clear_initial: "clearAndInsertLabState now n EMPTY_LAB_STATE = initial_lab_schema"
  by (simp add: clearAndInsertLabState_def initial_lab_schema_def EMPTY_LAB_STATE_def or_empty_def insert_rows_def
      chunkArray.simps[of "[]"] LAB_DEFAULT_MINER_SUBSIDY_SATS_def LAB_MAX_MINER_SUBSIDY_SATS_def MAX_SAFE_INTEGER_def)

lemma rescan_initial: "rescan initial_lab_schema db \<Longrightarrow> db = initial_lab_schema"
  by (cases db) (simp add: rescan_def initial_lab_schema_def)

section \<open>Payments conserve value\<close>

text \<open>A prepared payment accounts for its inputs and has one output; a mempool entry is
  balanced when its inputs cover its outputs and its fee exactly.\<close>

definition prepared_ok :: "preparedEntityTx \<Rightarrow> bool" where
  "prepared_ok p \<longleftrightarrow> (\<exists>out. mm_outputsDetail (pe_mempoolMetadata p) = [out]) \<and>
     pe_totalInput p = sum_list (map in_amountSats (mm_inputsDetail (pe_mempoolMetadata p))) \<and>
     mm_receiver (pe_mempoolMetadata p) \<noteq> None"

definition balanced :: "mempoolEntry \<Rightarrow> bool" where
  "balanced e \<longleftrightarrow> sum_list (map in_amountSats (me_inputsDetail e)) =
     sum_list (map out_amountSats (me_outputsDetail e)) + me_feeSats e"

lemma prepareEntity_prepared_ok:
  assumes "prepareLabEntityTransaction i from' to' amount fr known w = (Inr p, w')"
  shows "prepared_ok p"
  using assms
  by (auto simp: prepareLabEntityTransaction_def Let_def prepared_ok_def payment_metadata_def sum_utxos_def
      utxo_input_detail_def comp_def assertLabReceiverNonNull_def split: if_splits option.splits sum.splits)

lemma random_attempt_prepared_ok:
  "random_attempt W now al src alive rolls w = (Inr (Some p), w') \<Longrightarrow> prepared_ok (pr_prepared p)"
  by (auto simp: random_attempt_def Let_def op_bind_Inr prepared_ok_def split: option.splits if_splits prod.splits
      dest!: prepareEntity_prepared_ok)

lemma random_attempts_prepared_ok:
  "random_attempts W now al src alive rolls i k w = (Inr (Some p), w') \<Longrightarrow> prepared_ok (pr_prepared p)"
proof (induction k arbitrary: i w)
  case (Suc k)
  then show ?case by (auto simp: op_bind_Inr split: option.splits dest: random_attempt_prepared_ok)
qed simp

lemma prepareRandom_prepared_ok:
  "prepareRandomLabEntityTransaction W now rolls m w = (Inr (Some p), w') \<Longrightarrow> prepared_ok (pr_prepared p)"
  by (auto simp: prepareRandomLabEntityTransaction_def Let_def split: if_splits dest: random_attempts_prepared_ok)

text \<open>Preparing touches the owner map and an entity's changeset, never the mempool.\<close>

lemma set_owner_mempool [simp]: "mempool (lwState (set_owner a x w)) = mempool (lwState w)"
  by (simp add: set_owner_def)

lemma prepareEntity_mempool: "op_keeps (\<lambda>w. mempool (lwState w) = pool) (prepareLabEntityTransaction i from' to' a fr known)"
  by (auto simp: op_keeps_def prepareLabEntityTransaction_def Let_def split: option.splits sum.splits)

lemma random_attempt_mempool: "op_keeps (\<lambda>w. mempool (lwState w) = pool) (random_attempt W now al src alive rolls)"
proof -
  let ?I = "\<lambda>w. mempool (lwState w) = pool"
  have "op_keeps ?I (random_to_address W now s t)" for s t
    unfolding random_to_address_def
    by (auto intro!: op_keeps_bind op_keeps_modify simp: update_state_def set_entity_def split: option.splits)
  then have "op_keeps ?I (op_bind (random_to_address W now s t) (\<lambda>toOpt.
      case toOpt of None \<Rightarrow> op_return None
      | Some toAddress \<Rightarrow> op_bind (prepareLabEntityTransaction (labEntityId s) fa toAddress a fr None) (\<lambda>p.
          op_return (g p))))" for s t fa a fr and g :: "preparedEntityTx \<Rightarrow> preparedRandomTx option"
    by (intro op_keeps_bind) (auto intro!: op_keeps_bind prepareEntity_mempool split: option.splits)
  then show ?thesis
    unfolding op_keeps_def random_attempt_def Let_def by (auto split: option.splits prod.splits)
qed

lemma random_attempts_mempool: "op_keeps (\<lambda>w. mempool (lwState w) = pool) (random_attempts W now al src alive rolls i k)"
  by (induction k arbitrary: i)
    (auto intro!: op_keeps_bind random_attempt_mempool simp: op_keeps_return split: option.splits)

lemma prepareRandom_mempool:
  assumes "prepareRandomLabEntityTransaction W now rolls m w = (r, w')"
  shows "mempool (lwState w') = mempool (lwState w)"
proof -
  have "mempool (lwState (snd (random_attempts W now al src alive rolls i k w))) = mempool (lwState w)" for al src alive i k
    using random_attempts_mempool[of "mempool (lwState w)"] by (simp add: op_keeps_def)
  then have "mempool (lwState (snd (prepareRandomLabEntityTransaction W now rolls m w))) = mempool (lwState w)"
    by (simp add: prepareRandomLabEntityTransaction_def Let_def)
  then show ?thesis using assms by simp
qed

text \<open>Finalising appends one entry with the metadata's figures.\<close>

definition appended_entry :: "string \<Rightarrow> string \<Rightarrow> int \<Rightarrow> labMempoolMetadata \<Rightarrow> mempoolEntry" where
  "appended_entry signedHex txid weight md =
     \<lparr>signedTxHex = signedHex, me_txid = txid, me_sender = mm_sender md, me_receiver = mm_receiver md,
      me_feeSats = mm_feeSats md, me_weight = weight, me_vsize = labVsizeFromWeight weight,
      me_inputs = mm_inputs md, me_inputsDetail = mm_inputsDetail md, me_outputsDetail = mm_outputsDetail md\<rparr>"

lemma append_mempool:
  "mempool (lwState (appendLabTxOperationAndMempoolEntry hex txid wt md sender ch vo w)) =
     mempool (lwState w) @ [appended_entry hex txid (if wt > 0 then wt else 1) md]"
  by (simp add: appendLabTxOperationAndMempoolEntry_def Let_def rebuildTxidToChangeAddressFromState_def
      rebuildTxidToChangeAddressFromMempool_def appended_entry_def)

lemma finalize_appends:
  assumes "finalizeLabEntityMempoolTransaction W now hex md i cs w = (Inr s, w')"
  shows "lwState w' = s \<and> (\<exists>txid wt. mempool s = mempool (lwState w) @ [appended_entry hex txid wt md])"
proof -
  obtain e where found: "find_entity i w = (Inr e, w)"
    using assms by (auto simp: finalizeLabEntityMempoolTransaction_def op_bind_Inr find_entity_def split: option.splits)
  have "mempool (set_entity i f t) = mempool t" for f t by (simp add: set_entity_def)
  with found show ?thesis
    using assms unfolding finalizeLabEntityMempoolTransaction_def getStateSnapshot_def
    by (auto simp: op_bind_Inr update_state_def append_mempool Let_def; blast)
qed

lemma check_signed_balanced:
  assumes "check_signed caller prep amount result = Inr md" and "prepared_ok prep"
  shows "mm_inputsDetail md = mm_inputsDetail (pe_mempoolMetadata prep)" "mm_feeSats md = sg_feeSats result"
    "sum_list (map in_amountSats (mm_inputsDetail md)) =
       sum_list (map out_amountSats (mm_outputsDetail md)) + mm_feeSats md"
    "mm_receiver md \<noteq> None"
  using assms
  by (auto simp: check_signed_def signed_metadata_def signed_outputs_def prepared_ok_def Let_def split: if_splits)

section \<open>Commands\<close>

text \<open>The writing operations under one type, each returning the persisted state.\<close>

datatype labCommand =
  MineBlocks js_number string mineOptions
| AddSigned string labMempoolMetadata
| CreateEntity "string option" "addressType option" "string option"
| RenameEntity int string
| DeleteEntity int
| SetEntityDead int bool
| SetWeightLimit js_number
| SetSubsidy js_number

fun run_command ::
  "labEnv \<Rightarrow> (string \<Rightarrow> string \<Rightarrow> rat) \<Rightarrow> (nat \<Rightarrow> string) \<Rightarrow> labCommand \<Rightarrow> (labSystem, labState) op" where
  "run_command env lc clock (MineBlocks n ta opts) =
     op_bind (labOpMineBlocks env lc clock n ta opts) (\<lambda>r. op_return (mr_state r))"
| "run_command env lc clock (AddSigned hex md) = labOpAddSignedTransaction env hex md"
| "run_command env lc clock (CreateEntity name ty net) = labOpCreateLabEntity env name ty net"
| "run_command env lc clock (RenameEntity i name) = labOpRenameLabEntity env i name"
| "run_command env lc clock (DeleteEntity i) = labOpDeleteLabEntity env i"
| "run_command env lc clock (SetEntityDead i dead) = labOpSetLabEntityDead env i dead"
| "run_command env lc clock (SetWeightLimit v) = labOpSetBlockWeightLimit env v"
| "run_command env lc clock (SetSubsidy v) = labOpSetMinerSubsidySats env v"

lemma mine_command_transaction:
  "db_transaction env (op_bind (labOpMineBlocks env lc clock n ta opts) (\<lambda>r. op_return (mr_state r))) (\<lambda>s. s)"
proof
  fix \<sigma> \<sigma>' e
  assume "op_bind (labOpMineBlocks env lc clock n ta opts) (\<lambda>r. op_return (mr_state r)) \<sigma> = (Inl e, \<sigma>')"
  then show "sysDb \<sigma>' = sysDb \<sigma>" by (auto simp: op_bind_apply split: prod.splits sum.splits intro: mine.atomic)
next
  fix \<sigma> \<sigma>' x
  assume "op_bind (labOpMineBlocks env lc clock n ta opts) (\<lambda>r. op_return (mr_state r)) \<sigma> = (Inr x, \<sigma>')"
  then show "sysDb \<sigma>' = clearAndInsertLabState (en_now env) (en_rowId env) x \<and> constraints_ok (sysDb \<sigma>')"
    by (auto simp: op_bind_apply split: prod.splits sum.splits dest: mine.durable)
next
  fix \<sigma> \<tau> :: labSystem
  assume "sysDb \<sigma> = sysDb \<tau>"
  from mine.fresh[OF this, of env lc clock n ta opts]
  show "fst (op_bind (labOpMineBlocks env lc clock n ta opts) (\<lambda>r. op_return (mr_state r)) \<sigma>) =
        fst (op_bind (labOpMineBlocks env lc clock n ta opts) (\<lambda>r. op_return (mr_state r)) \<tau>) \<and>
      sysDb (snd (op_bind (labOpMineBlocks env lc clock n ta opts) (\<lambda>r. op_return (mr_state r)) \<sigma>)) =
        sysDb (snd (op_bind (labOpMineBlocks env lc clock n ta opts) (\<lambda>r. op_return (mr_state r)) \<tau>))"
    by (auto simp: op_bind_apply split: prod.splits sum.splits)
qed

interpretation command: db_transaction env "run_command env lc clock cmd" "\<lambda>s. s"
proof (cases cmd)
  case (MineBlocks n ta opts)
  then show "db_transaction env (run_command env lc clock cmd) (\<lambda>s. s)" using mine_command_transaction by simp
qed (simp_all add: add_signed.db_transaction_axioms create.db_transaction_axioms rename.db_transaction_axioms
    remove.db_transaction_axioms set_dead.db_transaction_axioms weight_limit.db_transaction_axioms
    subsidy.db_transaction_axioms)

section \<open>Properties\<close>




text \<open>A reset succeeds from any state, returns the empty state and leaves the database as its
  migration created it.\<close>

theorem labOpReset_correct:
  assumes "\<And>db. rescan db (en_scan env db)"
  shows "\<exists>\<sigma>'. labOpReset env \<sigma> = (Inr EMPTY_LAB_STATE, \<sigma>') \<and> sysDb \<sigma>' = initial_lab_schema"
proof -
  have scan: "en_scan env initial_lab_schema = initial_lab_schema" using assms rescan_initial by blast
  have "constraints_ok initial_lab_schema"
    by (simp add: constraints_ok_def initial_lab_schema_def List.map_filter_simps)
  moreover have "mempool EMPTY_LAB_STATE = []" by (simp add: EMPTY_LAB_STATE_def)
  moreover have "read_database env \<tau> = (loadLabStateFromDatabase (en_scan env (sysDb \<tau>)), \<tau>)" for \<tau>
    by (simp add: read_database_def)
  ultimately show ?thesis
    by (simp add: labOpReset_def resetLab_def persistLabState_def clear_initial op_simps init_result
        scan load_initial Let_def)
qed

text \<open>C26: A signed entity payment is queued as one balanced mempool entry: whatever other operations
  did while it was signed, it is appended to the mempool that the database then held, its inputs
  cover its outputs and its fee exactly, and the new state is stored.\<close>

theorem labOpCreateLabEntityTransaction_balanced:
  assumes "labOpCreateLabEntityTransaction env env' sign meanwhile p \<sigma> = (Inr s, \<sigma>')"
  shows "\<exists>\<sigma>1 \<sigma>2 s0 e. sysDb \<sigma>1 = sysDb \<sigma> \<and> initLabWorkerWithState env' (meanwhile \<sigma>1) = (Inr s0, \<sigma>2) \<and>
    mempool s = mempool (lwState (sysWorker \<sigma>2)) @ [e] \<and> balanced e \<and> me_receiver e \<noteq> None \<and>
    sysDb \<sigma>' = clearAndInsertLabState (en_now env') (en_rowId env') s"
proof -
  from assms obtain prep \<sigma>1 raw md where
      prep: "read_op env (prepare_payment p) \<sigma> = (Inr prep, \<sigma>1)"
      and check: "check_signed ''labOpCreateLabEntityTransaction'' prep (ep_amountSats p)
        (mapWireLabEntitySignResultToDomain raw) = Inr md"
      and run: "write_op env' (finalizeLabEntityMempoolTransaction (en_wasm env') (en_now env')
        (ws_signed_tx_hex raw) md (ep_labEntityId p) (ws_changeset_json raw)) (\<lambda>s. s) (meanwhile \<sigma>1) = (Inr s, \<sigma>')"
    unfolding labOpCreateLabEntityTransaction_def op_bind_Inr
    by (auto simp: Let_def op_bind_Inr mapWireLabEntitySignResultToDomain_def)
  have ok: "prepared_ok prep"
    using prep prepareEntity_prepared_ok by (auto simp: read_op_def op_bind_Inr on_worker_Inr prepare_payment_def)
  obtain s0 \<sigma>2 w where init: "initLabWorkerWithState env' (meanwhile \<sigma>1) = (Inr s0, \<sigma>2)"
      and fin: "finalizeLabEntityMempoolTransaction (en_wasm env') (en_now env') (ws_signed_tx_hex raw) md
        (ep_labEntityId p) (ws_changeset_json raw) (sysWorker \<sigma>2) = (Inr s, w)"
    using run unfolding write_op_result by (auto simp: Let_def split: prod.splits sum.splits if_splits)
  obtain txid wt where "mempool s = mempool (lwState (sysWorker \<sigma>2)) @ [appended_entry (ws_signed_tx_hex raw) txid wt md]"
    using finalize_appends[OF fin] by blast
  moreover have "balanced (appended_entry (ws_signed_tx_hex raw) txid wt md)"
    using check_signed_balanced(3)[OF check ok] by (simp add: balanced_def appended_entry_def)
  moreover have "me_receiver (appended_entry (ws_signed_tx_hex raw) txid wt md) \<noteq> None"
    using check_signed_balanced(4)[OF check ok] by (simp add: appended_entry_def)
  moreover have "sysDb \<sigma>' = clearAndInsertLabState (en_now env') (en_rowId env') s"
    using db_transaction.durable[OF write_op_transaction run] by simp
  ultimately show ?thesis using init read_op_db[OF prep] by blast
qed

text \<open>A batch of random payments.\<close>

lemma random_payment_appends:
  assumes "random_payment W sign now rolls w = (Inr created, w')"
  shows "\<exists>es. mempool (lwState w') = mempool (lwState w) @ es \<and> length es = (if created then 1 else 0) \<and>
    (\<forall>e \<in> set es. balanced e)"
proof -
  obtain found w1 where found: "prepareRandomLabEntityTransaction W now rolls None w = (Inr found, w1)"
    using assms unfolding random_payment_def op_bind_Inr by blast
  note pool = prepareRandom_mempool[OF found]
  show ?thesis
  proof (cases found)
    case None
    then show ?thesis using assms found pool by (auto simp: random_payment_def op_bind_Inr)
  next
    case (Some prep)
    then obtain raw md s where
        check: "check_signed ''labOpCreateRandomLabEntityTransactions'' (pr_prepared prep) (pr_amountSats prep)
          (mapWireLabEntitySignResultToDomain raw) = Inr md"
        and fin: "finalizeLabEntityMempoolTransaction W now (ws_signed_tx_hex raw) md (pr_labEntityId prep)
          (ws_changeset_json raw) w1 = (Inr s, w')" and created
      using assms found unfolding random_payment_def op_bind_Inr
      by (auto simp: Let_def op_bind_Inr mapWireLabEntitySignResultToDomain_def)
    moreover have "prepared_ok (pr_prepared prep)" using prepareRandom_prepared_ok found Some by blast
    ultimately show ?thesis
      using finalize_appends[OF fin] check_signed_balanced(3)[OF check] pool
      by (auto simp: balanced_def appended_entry_def)
  qed
qed

lemma random_payments_append:
  assumes "random_payments W sign clock rolls n k w = (Inr n', w')"
  shows "n \<le> n' \<and> n' \<le> n + k \<and> (\<exists>es. mempool (lwState w') = mempool (lwState w) @ es \<and> length es = n' - n \<and>
    (\<forall>e \<in> set es. balanced e))"
  using assms
proof (induction k arbitrary: n w)
  case (Suc k)
  then obtain created w1 where step: "random_payment W sign (clock n) (rolls n) w = (Inr created, w1)"
      and rest: "(if created then random_payments W sign clock rolls (Suc n) k else op_return n) w1 = (Inr n', w')"
    by (auto simp: op_bind_Inr)
  obtain es where es: "mempool (lwState w1) = mempool (lwState w) @ es" "length es = (if created then 1 else 0)"
      "\<forall>e \<in> set es. balanced e"
    using random_payment_appends[OF step] by blast
  show ?case
  proof (cases created)
    case True
    then obtain fs where "Suc n \<le> n'" "n' \<le> Suc n + k" "mempool (lwState w') = mempool (lwState w1) @ fs"
        "length fs = n' - Suc n" "\<forall>e \<in> set fs. balanced e"
      using Suc.IH[of "Suc n" w1] rest by auto
    with es True show ?thesis by (intro conjI exI[of _ "es @ fs"]) auto
  qed (use rest es in auto)
qed auto

lemma op_finally_Inr:
  "op_finally m fin \<sigma> = (Inr (x, y), \<sigma>') \<longleftrightarrow> (\<exists>\<sigma>1. m \<sigma> = (Inr x, \<sigma>1) \<and> fin \<sigma>1 = (Inr y, \<sigma>'))"
  by (auto simp: op_finally_def split: prod.splits sum.splits)

lemma persist_snapshot_Inr:
  "persist_snapshot env \<sigma> = (Inr s, \<sigma>') \<longleftrightarrow>
     s = lwState (sysWorker \<sigma>) \<and> constraints_ok (clearAndInsertLabState (en_now env) (en_rowId env) s) \<and>
     \<sigma>' = \<sigma>\<lparr>sysDb := clearAndInsertLabState (en_now env) (en_rowId env) s\<rparr>"
  by (auto simp: persist_snapshot_def persistLabState_def getStateSnapshot_def op_simps Let_def)

lemma batch_size_bound: "batch_size v = Inr n \<Longrightarrow> int n \<le> LAB_MAX_RANDOM_ENTITY_TRANSACTIONS"
  by (auto simp: batch_size_def Let_def LAB_MAX_RANDOM_ENTITY_TRANSACTIONS_def split: js_number.splits if_splits) linarith

text \<open>A batch of random payments appends at most 100 balanced entries to the mempool, counts
  them correctly and stores the result.\<close>

theorem random_batch_correct:
  assumes "labOpCreateRandomLabEntityTransactions env sign clock rolls v \<sigma> = (Inr (n, s), \<sigma>')"
  shows "int n \<le> LAB_MAX_RANDOM_ENTITY_TRANSACTIONS \<and>
    sysDb \<sigma>' = clearAndInsertLabState (en_now env) (en_rowId env) s \<and>
    (\<exists>s0 \<sigma>1 es. initLabWorkerWithState env \<sigma> = (Inr s0, \<sigma>1) \<and>
      mempool s = mempool (lwState (sysWorker \<sigma>1)) @ es \<and> length es = n \<and> (\<forall>e \<in> set es. balanced e))"
proof -
  from assms obtain k s0 \<sigma>1 w where k: "batch_size v = Inr k" and init: "initLabWorkerWithState env \<sigma> = (Inr s0, \<sigma>1)"
      and run: "random_payments (en_wasm env) sign clock rolls 0 k (sysWorker \<sigma>1) = (Inr n, w)"
      and store: "s = lwState w" "sysDb \<sigma>' = clearAndInsertLabState (en_now env) (en_rowId env) s"
    unfolding labOpCreateRandomLabEntityTransactions_def op_bind_Inr op_finally_Inr persist_snapshot_Inr on_worker_Inr
    by fastforce
  show ?thesis using random_payments_append[OF run] batch_size_bound[OF k] init store by auto
qed

text \<open>Partial progress survives a failure: when a payment of the batch throws after others were
  finalised, the state the worker had reached is what the database holds afterwards, as long
  as it satisfies the constraints.\<close>

theorem random_batch_partial_progress:
  assumes "batch_size v = Inr k" and "initLabWorkerWithState env \<sigma> = (Inr s0, \<sigma>1)"
    and "random_payments (en_wasm env) sign clock rolls 0 k (sysWorker \<sigma>1) = (Inl e, w)"
    and "constraints_ok (clearAndInsertLabState (en_now env) (en_rowId env) (lwState w))"
  shows "labOpCreateRandomLabEntityTransactions env sign clock rolls v \<sigma> =
    (Inl e, \<lparr>sysDb = clearAndInsertLabState (en_now env) (en_rowId env) (lwState w), sysWorker = w\<rparr>)"
  using assms
  by (simp add: labOpCreateRandomLabEntityTransactions_def op_simps op_finally_def persist_snapshot_def
      persistLabState_def getStateSnapshot_def on_worker_def Let_def)

subsection \<open>Concrete systems\<close>

definition sample_env :: labEnv where
  "sample_env = \<lparr>en_wasm = sample_wasm, en_scan = (\<lambda>db. db), en_now = ''now'', en_rowId = 1,
     en_constraintError = ''UNIQUE constraint failed''\<rparr>"

definition sample_system :: labSystem where
  "sample_system = \<lparr>sysDb = initial_lab_schema, sysWorker = INITIAL_LAB_WORKER\<rparr>"

lemma sample_scan: "rescan db (en_scan sample_env db)"
  by (simp add: sample_env_def rescan_def)




theorem labOpReset_correct_witness:
  "fst (labOpReset sample_env (sample_system\<lparr>sysWorker := sample_worker\<rparr>)) = Inr EMPTY_LAB_STATE"
  using labOpReset_correct[OF sample_scan, of "sample_system\<lparr>sysWorker := sample_worker\<rparr>"] by auto

text \<open>An entity with 100000 sats, and a signer that charges 500.\<close>

definition sample_funded :: labSystem where
  "sample_funded = \<lparr>sysDb = clearAndInsertLabState ''now'' 1 (EMPTY_LAB_STATE\<lparr>entities := [sample_alice],
       utxos := [sample_utxo ''t0'' ''bcrt1qa'' 100000],
       addressToOwner := Some [(''bcrt1qa'', LabEntity 1), (''bcrt1qw'', Wallet 1)]\<rparr>),
     sysWorker = INITIAL_LAB_WORKER\<rparr>"

definition sample_signer :: labSigner where
  "sample_signer cp bump =
     (if cp_changesetJson cp = ''cs3'' then Inl ''signing failed''
      else Inr \<lparr>ws_signed_tx_hex = ''beef'', ws_fee_sats = 500, ws_has_change = True,
        ws_final_amount_sats = cp_amountSats cp, ws_raised_to_min_dust = False, ws_bumped_change_free = False,
        ws_changeset_json = ''cs3'', ws_change_address = Some ''bcrt1qc''\<rparr>)"

definition sample_payment :: entityPayment where
  "sample_payment = \<lparr>ep_labEntityId = 1, ep_fromAddress = ''bcrt1qa'', ep_toAddress = ''bcrt1qw'', ep_amountSats = 2000,
     ep_feeRateSatPerVb = 1, ep_knownRecipientOwner = None, ep_applyChangeFreeBump = None\<rparr>"

theorem labOpCreateLabEntityTransaction_balanced_witness:
  "\<exists>e. mempool (projr (fst (labOpCreateLabEntityTransaction sample_env sample_env sample_signer id sample_payment sample_funded))) = [e]
    \<and> balanced e"
proof -
  let ?r = "labOpCreateLabEntityTransaction sample_env sample_env sample_signer id sample_payment sample_funded"
  have "case_sum (\<lambda>_. False) (\<lambda>s. length (mempool s) = 1) (fst ?r)" by code_simp
  then obtain s where r: "?r = (Inr s, snd ?r)" and one: "length (mempool s) = 1"
    by (cases "fst ?r") (auto simp: prod_eq_iff)
  from labOpCreateLabEntityTransaction_balanced[OF r] one show ?thesis using r by (metis append_eq_Cons_conv
    append_is_Nil_conv append_self_conv2 fst_conv length_0_conv length_append_singleton list.size(3) nat.inject One_nat_def projr_def sum.sel(2))
qed

definition sample_rolls :: "nat \<Rightarrow> nat \<Rightarrow> randomRolls" where
  "sample_rolls i j = \<lparr>ro_source = 0, ro_target = 0, ro_from = 0, ro_fee = 0, ro_draw = (\<lambda>lo hi. lo)\<rparr>"

theorem random_batch_correct_witness:
  "\<exists>s \<sigma>'. labOpCreateRandomLabEntityTransactions sample_env sample_signer (\<lambda>_. ''t'') sample_rolls (Fin 1) sample_funded =
      (Inr (1, s), \<sigma>') \<and> length (mempool s) = 1 \<and> (\<forall>e \<in> set (mempool s). balanced e)"
proof -
  let ?r = "labOpCreateRandomLabEntityTransactions sample_env sample_signer (\<lambda>_. ''t'') sample_rolls (Fin 1) sample_funded"
  have "case_sum (\<lambda>_. False) (\<lambda>(n, s). n = 1 \<and> length (mempool s) = 1) (fst ?r)" by code_simp
  then obtain s where r: "?r = (Inr (1, s), snd ?r)" and one: "length (mempool s) = 1"
    by (cases "fst ?r") (auto simp: prod_eq_iff)
  obtain old es where "mempool s = old @ es" "length es = 1" "\<forall>e \<in> set es. balanced e"
    using random_batch_correct[OF r] by blast
  with one have "\<forall>e \<in> set (mempool s). balanced e" by simp
  with r one show ?thesis by blast
qed

theorem random_batch_partial_progress_witness:
  "fst (labOpCreateRandomLabEntityTransactions sample_env (\<lambda>_ _. Inl ''signing failed'') (\<lambda>_. ''t'') sample_rolls (Fin 1)
      sample_funded) = Inl ''signing failed'' \<and>
    length (t_owners (sysDb (snd (labOpCreateRandomLabEntityTransactions sample_env (\<lambda>_ _. Inl ''signing failed'') (\<lambda>_. ''t'')
      sample_rolls (Fin 1) sample_funded)))) = 3"
proof -
  let ?sign = "\<lambda>_ _. Inl ''signing failed'' :: string + wireLabEntitySignResult"
  let ?i = "initLabWorkerWithState sample_env sample_funded"
  let ?p = "random_payments (en_wasm sample_env) ?sign (\<lambda>_. ''t'') sample_rolls 0 1 (sysWorker (snd ?i))"
  have k: "batch_size (Fin 1) = Inr 1" by code_simp
  have "case_sum (\<lambda>_. False) (\<lambda>_. True) (fst ?i)" by code_simp
  then obtain s0 where init: "?i = (Inr s0, snd ?i)" by (cases "fst ?i") (auto simp: prod_eq_iff)
  have "case ?p of (r, w) \<Rightarrow> r = Inl ''signing failed'' \<and>
      constraints_ok (clearAndInsertLabState (en_now sample_env) (en_rowId sample_env) (lwState w)) \<and>
      length (or_empty (addressToOwner (lwState w))) = 3" by code_simp
  then have run: "?p = (Inl ''signing failed'', snd ?p)"
      and ok: "constraints_ok (clearAndInsertLabState (en_now sample_env) (en_rowId sample_env) (lwState (snd ?p)))"
      and three: "length (or_empty (addressToOwner (lwState (snd ?p)))) = 3" by (auto split: prod.splits)
  from random_batch_partial_progress[OF k init run ok] three show ?thesis
    by (simp add: clearAndInsertLabState_def)
qed

end
