(* ===== verification/Task_Queues.thy ===== *)
theory Task_Queues
  imports Prelude
begin

text \<open>
  Serialisation of asynchronous work: the promise chains of \<open>lib/lab/lab-coordinator.ts\<close> and
  \<open>lib/shared/serial-task-queue.ts\<close>, and the writer lock of \<open>lib/shared/opfs-writer-lock.ts\<close>.
  A chain is the list of the phases of its entries in the order they were submitted: an entry
  waits until the promise of its predecessor has settled, whatever its outcome. The steps of
  the relations are the points at which other code can run.
\<close>

section \<open>Promise chains\<close>

text \<open>The shape of a chain: while an entry has not settled, all later ones wait.\<close>

definition chain_shape :: "'p \<Rightarrow> ('p \<Rightarrow> bool) \<Rightarrow> 'p list \<Rightarrow> bool" where
  "chain_shape waiting settled ps \<longleftrightarrow>
     (\<forall>i j. i < j \<longrightarrow> j < length ps \<longrightarrow> settled (ps ! i) \<or> ps ! j = waiting)"

text \<open>An entry may start when it is the first or its predecessor has settled.\<close>

definition turn_comes :: "'p \<Rightarrow> ('p \<Rightarrow> bool) \<Rightarrow> 'p list \<Rightarrow> nat \<Rightarrow> bool" where
  "turn_comes waiting settled ps i \<longleftrightarrow>
     i < length ps \<and> ps ! i = waiting \<and> (i = 0 \<or> settled (ps ! (i - 1)))"

locale promise_chain =
  fixes waiting :: 'p and settled :: "'p \<Rightarrow> bool"
  assumes waiting_unsettled: "\<not> settled waiting"
begin

lemma shape_Nil: "chain_shape waiting settled []"
  by (simp add: chain_shape_def)

lemma shape_submit: "chain_shape waiting settled ps \<Longrightarrow> chain_shape waiting settled (ps @ [waiting])"
  by (auto simp: chain_shape_def nth_append less_Suc_eq)

lemma shapeD:
  "chain_shape waiting settled ps \<Longrightarrow> i < j \<Longrightarrow> j < length ps \<Longrightarrow> settled (ps ! i) \<or> ps ! j = waiting"
  by (simp add: chain_shape_def)

lemma shapeI:
  "(\<And>i j. i < j \<Longrightarrow> j < length ps \<Longrightarrow> settled (ps ! i) \<or> ps ! j = waiting) \<Longrightarrow> chain_shape waiting settled ps"
  by (simp add: chain_shape_def)

lemma shape_start:
  assumes shape: "chain_shape waiting settled ps" and turn: "turn_comes waiting settled ps i"
  shows "chain_shape waiting settled (ps[i := x])"
proof (rule shapeI)
  fix k j
  assume kj: "k < j" "j < length (ps[i := x])"
  have past: "settled (ps ! k)" if "k < i"
  proof (cases "k = i - 1")
    case False
    then have "settled (ps ! k) \<or> ps ! (i - 1) = waiting"
      using that turn by (intro shapeD[OF shape]) (auto simp: turn_comes_def)
    moreover have "settled (ps ! (i - 1))" using that turn by (auto simp: turn_comes_def)
    ultimately show ?thesis using waiting_unsettled by auto
  qed (use that turn in \<open>auto simp: turn_comes_def\<close>)
  have future: "ps ! j = waiting" if "i < j"
    using shapeD[OF shape that] kj turn waiting_unsettled by (auto simp: turn_comes_def)
  show "settled (ps[i := x] ! k) \<or> ps[i := x] ! j = waiting"
    using shapeD[OF shape kj(1)] kj past future by (cases "k = i"; cases "j = i") auto
qed

lemma shape_move:
  assumes shape: "chain_shape waiting settled ps" and "ps ! i \<noteq> waiting" and "\<not> settled (ps ! i)"
  shows "chain_shape waiting settled (ps[i := x])"
proof (rule shapeI)
  fix k j
  assume kj: "k < j" "j < length (ps[i := x])"
  show "settled (ps[i := x] ! k) \<or> ps[i := x] ! j = waiting"
    using shapeD[OF shape kj(1)] kj assms(2,3) by (cases "k = i"; cases "j = i") auto
qed

lemma shape_serial:
  assumes "chain_shape waiting settled ps" and "j < length ps" and "ps ! j \<noteq> waiting" and "i < j"
  shows "settled (ps ! i)"
  using assms unfolding chain_shape_def by blast

lemma shape_one_active:
  assumes "chain_shape waiting settled ps" and "i < length ps" "ps ! i \<noteq> waiting" "\<not> settled (ps ! i)"
    and "j < length ps" "ps ! j \<noteq> waiting" "\<not> settled (ps ! j)"
  shows "i = j"
  using assms shape_serial[OF assms(1)] by (metis linorder_neqE_nat)

lemma shape_drained:
  assumes "chain_shape waiting settled ps" and "ps \<noteq> []" and "settled (last ps)" and "p \<in> set ps"
  shows "settled p"
proof -
  obtain i where i: "i < length ps" "ps ! i = p" using assms(4) by (auto simp: in_set_conv_nth)
  have last: "last ps = ps ! (length ps - 1)" using assms(2) by (simp add: last_conv_nth)
  show ?thesis
  proof (cases "i = length ps - 1")
    case False
    then have "settled (ps ! i) \<or> ps ! (length ps - 1) = waiting" using i by (intro shapeD[OF assms(1)]) auto
    then show ?thesis using i assms(3) last waiting_unsettled by auto
  qed (use assms(3) i last in simp)
qed

text \<open>A chain that has not settled has an entry that runs or whose turn has come.\<close>

lemma shape_progress:
  assumes "p \<in> set ps" and "\<not> settled p"
  obtains i where "i < length ps" "\<not> settled (ps ! i)" "\<And>k. k < i \<Longrightarrow> settled (ps ! k)"
    "ps ! i = waiting \<longrightarrow> turn_comes waiting settled ps i"
proof -
  let ?P = "\<lambda>i. i < length ps \<and> \<not> settled (ps ! i)"
  have "\<exists>i. ?P i" using assms by (auto simp: in_set_conv_nth)
  then obtain n where n: "?P n" "\<And>k. k < n \<Longrightarrow> \<not> ?P k" using exists_least_iff[of ?P] by auto
  have past: "settled (ps ! k)" if "k < n" for k using n that by auto
  have "turn_comes waiting settled ps n" if "ps ! n = waiting"
    using n(1) that past[of "n - 1"] by (cases n) (simp_all add: turn_comes_def)
  with n(1) past show ?thesis using that by blast
qed

end

section \<open>The queue of lab operations\<close>

datatype opPhase = OpWaiting | OpRunning | OpSettled bool

definition op_settled :: "opPhase \<Rightarrow> bool" where
  "op_settled p = (case p of OpSettled _ \<Rightarrow> True | _ \<Rightarrow> False)"

lemma op_settled_simps [simp]: "\<not> op_settled OpWaiting" "\<not> op_settled OpRunning" "op_settled (OpSettled ok)"
  by (simp_all add: op_settled_def)

text \<open>\<open>runLabOp\<close> takes the tail as its predecessor and becomes the tail at once.\<close>

definition runLabOp :: "opPhase list \<Rightarrow> opPhase list" where
  "runLabOp chain = chain @ [OpWaiting]"

definition runAfterPreviousTail :: "opPhase list \<Rightarrow> nat \<Rightarrow> bool" where
  "runAfterPreviousTail chain i = turn_comes OpWaiting op_settled chain i"

definition awaitLabOperationQueueDrained :: "opPhase list \<Rightarrow> bool" where
  "awaitLabOperationQueueDrained chain \<longleftrightarrow> chain = [] \<or> op_settled (last chain)"

text \<open>The steps of queued work: an operation starts when its turn comes, and settles.\<close>

inductive queue_work :: "opPhase list \<Rightarrow> opPhase list \<Rightarrow> bool" where
  start: "runAfterPreviousTail chain i \<Longrightarrow> queue_work chain (chain[i := OpRunning])"
| settle: "i < length chain \<Longrightarrow> chain ! i = OpRunning \<Longrightarrow> queue_work chain (chain[i := OpSettled ok])"

inductive queue_reachable :: "opPhase list \<Rightarrow> bool" where
  idle: "queue_reachable []"
| submit: "queue_reachable chain \<Longrightarrow> queue_reachable (runLabOp chain)"
| work: "queue_reachable chain \<Longrightarrow> queue_work chain chain' \<Longrightarrow> queue_reachable chain'"

interpretation lab_queue: promise_chain OpWaiting op_settled
  by unfold_locales simp

lemma queue_work_shape:
  "queue_work chain chain' \<Longrightarrow> chain_shape OpWaiting op_settled chain \<Longrightarrow> chain_shape OpWaiting op_settled chain'"
  by (induction rule: queue_work.induct)
    (auto simp: runAfterPreviousTail_def intro: lab_queue.shape_start lab_queue.shape_move)

lemma queue_reachable_shape: "queue_reachable chain \<Longrightarrow> chain_shape OpWaiting op_settled chain"
  by (induction rule: queue_reachable.induct)
    (auto simp: runLabOp_def lab_queue.shape_Nil lab_queue.shape_submit queue_work_shape)

text \<open>Work still to do: two steps for a waiting operation, one for a running one.\<close>

definition remaining_work :: "opPhase list \<Rightarrow> nat" where
  "remaining_work chain = sum_list (map (\<lambda>p. case p of OpWaiting \<Rightarrow> 2 | OpRunning \<Rightarrow> 1 | OpSettled _ \<Rightarrow> 0) chain)"

lemma sum_list_update_less:
  fixes f :: "'a \<Rightarrow> nat"
  assumes "i < length xs" and "f x < f (xs ! i)"
  shows "sum_list (map f (xs[i := x])) < sum_list (map f xs)"
  using assms by (induction xs arbitrary: i) (auto split: nat.splits)

lemma queue_work_decreases: "queue_work chain chain' \<Longrightarrow> remaining_work chain' < remaining_work chain"
  unfolding remaining_work_def
  by (induction rule: queue_work.induct)
    (rule sum_list_update_less; auto simp: runAfterPreviousTail_def turn_comes_def)+

lemma queue_progress:
  assumes "p \<in> set chain" and "\<not> op_settled p"
  shows "\<exists>chain'. queue_work chain chain'"
proof -
  obtain i where i: "i < length chain" "\<not> op_settled (chain ! i)"
      "chain ! i = OpWaiting \<longrightarrow> turn_comes OpWaiting op_settled chain i"
    using lab_queue.shape_progress[OF assms] by metis
  show ?thesis
  proof (cases "chain ! i")
    case OpWaiting
    then show ?thesis using i queue_work.start[of chain i] by (auto simp: runAfterPreviousTail_def)
  qed (use i queue_work.settle[of i chain] in auto)
qed

lemma queue_drains:
  "\<exists>chain'. queue_work\<^sup>*\<^sup>* chain chain' \<and> (\<forall>p \<in> set chain'. op_settled p)"
proof (induction "remaining_work chain" arbitrary: chain rule: less_induct)
  case less
  show ?case
  proof (cases "\<forall>p \<in> set chain. op_settled p")
    case False
    then obtain chain1 where step: "queue_work chain chain1" using queue_progress by blast
    then obtain chain' where "queue_work\<^sup>*\<^sup>* chain1 chain'" "\<forall>p \<in> set chain'. op_settled p"
      using less queue_work_decreases by blast
    with step show ?thesis by (meson converse_rtranclp_into_rtranclp)
  qed blast
qed

section \<open>The writer lock\<close>

datatype turnPhase = TurnQueued | TurnRequesting | TurnHolding | TurnUnlocked | TurnDone

text \<open>One tab: the depth counter, the turns of \<open>sameTabWriteChain\<close>, and how many pieces of work
  are running that were let through because the tab held the lock when they were started.\<close>

record tabLock =
  holdDepth :: nat
  turns :: "turnPhase list"
  letThrough :: nat

definition createOpfsWriterLock :: tabLock where
  "createOpfsWriterLock = \<lparr>holdDepth = 0, turns = [], letThrough = 0\<rparr>"

definition isWriterLockHeld :: "tabLock \<Rightarrow> bool" where
  "isWriterLockHeld t \<longleftrightarrow> holdDepth t > 0"

text \<open>A call of \<open>withWriterLock\<close>: work is run at once when the tab holds the lock, and takes a
  turn otherwise.\<close>

definition withWriterLock :: "tabLock \<Rightarrow> tabLock" where
  "withWriterLock t =
     (if holdDepth t > 0 then t\<lparr>letThrough := letThrough t + 1\<rparr> else t\<lparr>turns := turns t @ [TurnQueued]\<rparr>)"

text \<open>\<open>runWithHoldDepth\<close> at its two ends.\<close>

definition enter_hold :: "nat \<Rightarrow> tabLock \<Rightarrow> tabLock" where
  "enter_hold i t = t\<lparr>holdDepth := holdDepth t + 1, turns := (turns t)[i := TurnHolding]\<rparr>"

definition leave_hold :: "nat \<Rightarrow> tabLock \<Rightarrow> tabLock" where
  "leave_hold i t = t\<lparr>holdDepth := holdDepth t - 1, turns := (turns t)[i := TurnDone]\<rparr>"

text \<open>\<open>runExclusive\<close> when the turn comes; \<open>locks\<close> says whether the Web Locks API exists.\<close>

definition runExclusive :: "bool \<Rightarrow> nat \<Rightarrow> tabLock \<Rightarrow> tabLock" where
  "runExclusive locks i t =
     (if holdDepth t > 0 then t\<lparr>turns := (turns t)[i := TurnUnlocked]\<rparr>
      else if locks then t\<lparr>turns := (turns t)[i := TurnRequesting]\<rparr>
      else enter_hold i t)"

definition turn_settled :: "turnPhase \<Rightarrow> bool" where
  "turn_settled p \<longleftrightarrow> p = TurnDone"

text \<open>The tabs of one origin. The browser grants the exclusive lock to a request only while no
  turn of any tab holds it.\<close>

definition lock_free :: "tabLock list \<Rightarrow> bool" where
  "lock_free ts \<longleftrightarrow> (\<forall>t \<in> set ts. TurnHolding \<notin> set (turns t))"

inductive lock_step :: "bool \<Rightarrow> tabLock list \<Rightarrow> tabLock list \<Rightarrow> bool" for locks where
  call: "k < length ts \<Longrightarrow> lock_step locks ts (ts[k := withWriterLock (ts ! k)])"
| turn: "k < length ts \<Longrightarrow> turn_comes TurnQueued turn_settled (turns (ts ! k)) i \<Longrightarrow>
    lock_step locks ts (ts[k := runExclusive locks i (ts ! k)])"
| grant: "k < length ts \<Longrightarrow> i < length (turns (ts ! k)) \<Longrightarrow> turns (ts ! k) ! i = TurnRequesting \<Longrightarrow> lock_free ts \<Longrightarrow>
    lock_step locks ts (ts[k := enter_hold i (ts ! k)])"
| release: "k < length ts \<Longrightarrow> i < length (turns (ts ! k)) \<Longrightarrow> turns (ts ! k) ! i = TurnHolding \<Longrightarrow>
    lock_step locks ts (ts[k := leave_hold i (ts ! k)])"
| unlocked_done: "k < length ts \<Longrightarrow> i < length (turns (ts ! k)) \<Longrightarrow> turns (ts ! k) ! i = TurnUnlocked \<Longrightarrow>
    lock_step locks ts (ts[k := (ts ! k)\<lparr>turns := (turns (ts ! k))[i := TurnDone]\<rparr>])"
| through_done: "k < length ts \<Longrightarrow> letThrough (ts ! k) > 0 \<Longrightarrow>
    lock_step locks ts (ts[k := (ts ! k)\<lparr>letThrough := letThrough (ts ! k) - 1\<rparr>])"

inductive lock_reachable :: "bool \<Rightarrow> tabLock list \<Rightarrow> bool" for locks where
  fresh: "lock_reachable locks (replicate n createOpfsWriterLock)"
| step: "lock_reachable locks ts \<Longrightarrow> lock_step locks ts ts' \<Longrightarrow> lock_reachable locks ts'"

interpretation write_chain: promise_chain TurnQueued turn_settled
  by unfold_locales (simp add: turn_settled_def)

definition tab_ok :: "tabLock \<Rightarrow> bool" where
  "tab_ok t \<longleftrightarrow> chain_shape TurnQueued turn_settled (turns t) \<and> TurnUnlocked \<notin> set (turns t) \<and>
     holdDepth t = (if TurnHolding \<in> set (turns t) then 1 else 0)"

definition world_ok :: "bool \<Rightarrow> tabLock list \<Rightarrow> bool" where
  "world_ok locks ts \<longleftrightarrow> (\<forall>t \<in> set ts. tab_ok t) \<and>
     (locks \<longrightarrow> (\<forall>k < length ts. \<forall>l < length ts. holdDepth (ts ! k) > 0 \<longrightarrow> holdDepth (ts ! l) > 0 \<longrightarrow> k = l))"

text \<open>When a turn comes, no turn of the tab holds the lock.\<close>

lemma turn_comes_idle:
  assumes "chain_shape TurnQueued turn_settled ps" and "turn_comes TurnQueued turn_settled ps i"
  shows "TurnHolding \<notin> set ps"
proof
  assume "TurnHolding \<in> set ps"
  then obtain j where j: "j < length ps" "ps ! j = TurnHolding" by (auto simp: in_set_conv_nth)
  have i: "i < length ps" "ps ! i = TurnQueued" using assms(2) by (auto simp: turn_comes_def)
  consider "i < j" | "j < i" using i j by (cases i j rule: linorder_cases) auto
  then show False
  proof cases
    case 1
    then show False using write_chain.shapeD[OF assms(1) 1] i j by (simp add: turn_settled_def)
  next
    case 2
    have "turn_settled (ps ! (i - 1))" using assms(2) 2 by (auto simp: turn_comes_def)
    moreover have "turn_settled (ps ! j) \<or> ps ! (i - 1) = TurnQueued" if "j \<noteq> i - 1"
      using that 2 i by (intro write_chain.shapeD[OF assms(1)]) auto
    ultimately show False using j by (cases "j = i - 1") (auto simp: turn_settled_def)
  qed
qed

text \<open>A turn that requests or holds the lock is the only active one of its tab.\<close>

lemma active_alone:
  assumes "chain_shape TurnQueued turn_settled ps" and "i < length ps" and "ps ! i = TurnRequesting \<or> ps ! i = TurnHolding"
    and "j < length ps" and "j \<noteq> i"
  shows "ps ! j = TurnQueued \<or> ps ! j = TurnDone"
proof (rule ccontr)
  assume "\<not> (ps ! j = TurnQueued \<or> ps ! j = TurnDone)"
  then have "i = j" using assms(2-4) by (intro write_chain.shape_one_active[OF assms(1)]) (auto simp: turn_settled_def)
  with assms(5) show False by simp
qed

lemma holding_after_update:
  assumes "chain_shape TurnQueued turn_settled ps" and "i < length ps" and "ps ! i = TurnRequesting \<or> ps ! i = TurnHolding"
  shows "TurnHolding \<in> set (ps[i := x]) \<longleftrightarrow> x = TurnHolding"
  using active_alone[OF assms] assms(2) by (auto simp: in_set_conv_nth nth_list_update) (metis turnPhase.distinct)

lemma tab_ok_fresh: "tab_ok createOpfsWriterLock"
  by (simp add: tab_ok_def createOpfsWriterLock_def write_chain.shape_Nil)

lemma tab_ok_call: "tab_ok t \<Longrightarrow> tab_ok (withWriterLock t)"
  by (auto simp: tab_ok_def withWriterLock_def write_chain.shape_submit)

lemma set_update_notin: "y \<notin> set xs \<Longrightarrow> y \<noteq> x \<Longrightarrow> y \<notin> set (xs[i := x])"
  using set_update_subset_insert by fastforce

lemma tab_ok_turn:
  assumes "tab_ok t" and "turn_comes TurnQueued turn_settled (turns t) i"
  shows "tab_ok (runExclusive locks i t)"
proof -
  have ok: "chain_shape TurnQueued turn_settled (turns t)" "TurnUnlocked \<notin> set (turns t)" using assms(1) by (auto simp: tab_ok_def)
  note idle = turn_comes_idle[OF ok(1) assms(2)]
  have i: "i < length (turns t)" using assms(2) by (simp add: turn_comes_def)
  show ?thesis
    using assms(1) idle i ok write_chain.shape_start[OF ok(1) assms(2)]
    by (auto simp: tab_ok_def runExclusive_def enter_hold_def set_update_notin set_update_memI)
qed

lemma tab_ok_grant:
  assumes "tab_ok t" and "i < length (turns t)" and "turns t ! i = TurnRequesting"
  shows "tab_ok (enter_hold i t) \<and> holdDepth t = 0"
proof -
  have ok: "chain_shape TurnQueued turn_settled (turns t)" "TurnUnlocked \<notin> set (turns t)" using assms(1) by (auto simp: tab_ok_def)
  have none: "TurnHolding \<notin> set (turns t)"
    using holding_after_update[OF ok(1) assms(2), of TurnRequesting] assms list_update_id[of "turns t" i] by simp
  then show ?thesis
    using assms ok write_chain.shape_move[OF ok(1), of i TurnHolding]
    by (auto simp: tab_ok_def enter_hold_def set_update_notin set_update_memI turn_settled_def)
qed

lemma tab_ok_release:
  assumes "tab_ok t" and "i < length (turns t)" and "turns t ! i = TurnHolding"
  shows "tab_ok (leave_hold i t) \<and> holdDepth (leave_hold i t) = 0"
proof -
  have ok: "chain_shape TurnQueued turn_settled (turns t)" "TurnUnlocked \<notin> set (turns t)" using assms(1) by (auto simp: tab_ok_def)
  have "TurnHolding \<in> set (turns t)" using assms(2,3) nth_mem by fastforce
  moreover have "TurnHolding \<notin> set ((turns t)[i := TurnDone])"
    using holding_after_update[OF ok(1) assms(2), of TurnDone] assms(3) by simp
  ultimately show ?thesis
    using assms ok write_chain.shape_move[OF ok(1), of i TurnDone]
    by (auto simp: tab_ok_def leave_hold_def set_update_notin turn_settled_def)
qed

lemma tab_ok_cong: "turns t = turns t' \<Longrightarrow> holdDepth t = holdDepth t' \<Longrightarrow> tab_ok t = tab_ok t'"
  by (simp add: tab_ok_def)

lemma world_ok_update:
  assumes "world_ok locks ts" and "k < length ts" and "tab_ok t"
    and "holdDepth t > 0 \<Longrightarrow> locks \<Longrightarrow> holdDepth (ts ! k) > 0 \<or> (\<forall>l < length ts. holdDepth (ts ! l) = 0)"
  shows "world_ok locks (ts[k := t])"
  unfolding world_ok_def
proof (intro conjI impI allI)
  show "\<forall>t' \<in> set (ts[k := t]). tab_ok t'"
    using assms(1,3) set_update_subset_insert[of ts k t] by (auto simp: world_ok_def)
next
  fix m l
  assume "locks" "m < length (ts[k := t])" "l < length (ts[k := t])"
    "0 < holdDepth (ts[k := t] ! m)" "0 < holdDepth (ts[k := t] ! l)"
  moreover have "m = l" if "m < length ts" "l < length ts" "0 < holdDepth (ts ! m)" "0 < holdDepth (ts ! l)"
    using that \<open>locks\<close> assms(1) by (simp add: world_ok_def)
  ultimately show "m = l" using assms(2,4) by (cases "m = k"; cases "l = k") auto
qed

lemma lock_step_ok:
  assumes "lock_step locks ts ts'" and ok: "world_ok locks ts"
  shows "world_ok locks ts'"
  using assms(1)
proof cases
  case (call k)
  have "tab_ok (ts ! k)" using ok call by (simp add: world_ok_def)
  then show ?thesis unfolding call(1) using call tab_ok_call[of "ts ! k"]
    by (intro world_ok_update[OF ok]) (auto simp: withWriterLock_def split: if_splits)
next
  case (turn k i)
  have t: "tab_ok (ts ! k)" using ok turn by (simp add: world_ok_def)
  then have "holdDepth (ts ! k) = 0"
    using turn_comes_idle[of "turns (ts ! k)" i] turn by (simp add: tab_ok_def)
  then show ?thesis unfolding turn(1) using turn tab_ok_turn[OF t]
    by (intro world_ok_update[OF ok]) (auto simp: runExclusive_def)
next
  case (grant k i)
  have t: "tab_ok (ts ! k)" using ok grant by (simp add: world_ok_def)
  have "holdDepth (ts ! l) = 0" if "l < length ts" for l
    using ok grant that by (auto simp: world_ok_def tab_ok_def lock_free_def)
  then show ?thesis unfolding grant(1) using grant tab_ok_grant[OF t] by (intro world_ok_update[OF ok]) auto
next
  case (release k i)
  have t: "tab_ok (ts ! k)" using ok release by (simp add: world_ok_def)
  show ?thesis unfolding release(1) using release tab_ok_release[OF t] by (intro world_ok_update[OF ok]) auto
next
  case (unlocked_done k i)
  have "tab_ok (ts ! k)" using ok unlocked_done by (simp add: world_ok_def)
  moreover have "TurnUnlocked \<in> set (turns (ts ! k))" using unlocked_done nth_mem by metis
  ultimately show ?thesis by (simp add: tab_ok_def)
next
  case (through_done k)
  have "tab_ok (ts ! k)" using ok through_done by (simp add: world_ok_def)
  then show ?thesis unfolding through_done(1) using through_done
    by (intro world_ok_update[OF ok]) (auto simp: tab_ok_def)
qed

lemma lock_reachable_ok: "lock_reachable locks ts \<Longrightarrow> world_ok locks ts"
proof (induction rule: lock_reachable.induct)
  case (fresh n)
  have "holdDepth createOpfsWriterLock = 0" by (simp add: createOpfsWriterLock_def)
  then show ?case by (simp add: world_ok_def tab_ok_fresh)
next
  case (step ts ts')
  then show ?case using lock_step_ok by blast
qed

section \<open>Properties\<close>

text \<open>Lab operations run one at a time and in the order they were submitted: when one has
  started, every earlier one has settled, and a failed one does not block the next.\<close>

theorem lab_queue_serial:
  assumes "queue_reachable chain" and "i < j" and "j < length chain" and "chain ! j \<noteq> OpWaiting"
  shows "op_settled (chain ! i)"
  using lab_queue.shape_serial[OF queue_reachable_shape[OF assms(1)]] assms by blast

text \<open>Every submitted operation is eventually run: from any reachable queue, starting and
  settling operations leads to a queue in which all have settled; and the wait for the queue to
  drain ends exactly when all have settled.\<close>

theorem lab_queue_drains:
  assumes "queue_reachable chain"
  shows "(\<exists>chain'. queue_work\<^sup>*\<^sup>* chain chain' \<and> (\<forall>p \<in> set chain'. op_settled p)) \<and>
    (awaitLabOperationQueueDrained chain \<longleftrightarrow> (\<forall>p \<in> set chain. op_settled p))"
proof (intro conjI queue_drains iffI)
  assume "awaitLabOperationQueueDrained chain"
  then show "\<forall>p \<in> set chain. op_settled p"
    using lab_queue.shape_drained[OF queue_reachable_shape[OF assms]]
    by (cases "chain = []") (auto simp: awaitLabOperationQueueDrained_def)
qed (use last_in_set in \<open>auto simp: awaitLabOperationQueueDrained_def\<close>)

text \<open>Where the Web Locks API exists, at most one turn of all tabs of the origin holds the writer
  lock, and a tab reports the lock as held exactly while one of its turns holds it.\<close>

theorem writer_lock_exclusive:
  assumes "lock_reachable True ts" and "k < length ts" "i < length (turns (ts ! k))" "turns (ts ! k) ! i = TurnHolding"
    and "l < length ts" "j < length (turns (ts ! l))" "turns (ts ! l) ! j = TurnHolding"
  shows "k = l \<and> i = j \<and> (\<forall>m < length ts. isWriterLockHeld (ts ! m) \<longleftrightarrow> m = k)"
proof -
  note ok = lock_reachable_ok[OF assms(1)]
  have tab: "tab_ok (ts ! m)" if "m < length ts" for m using ok that by (simp add: world_ok_def)
  have held: "holdDepth (ts ! k) > 0" "holdDepth (ts ! l) > 0"
    using tab assms nth_mem by (fastforce simp: tab_ok_def)+
  then have "k = l" using ok assms(2,5) by (simp add: world_ok_def)
  moreover have "i = j"
    using active_alone[of "turns (ts ! k)" i j] tab[OF assms(2)] assms \<open>k = l\<close> by (auto simp: tab_ok_def)
  moreover have "isWriterLockHeld (ts ! m) \<longleftrightarrow> m = k" if "m < length ts" for m
    using ok held assms(2) that by (auto simp: world_ok_def isWriterLockHeld_def)
  ultimately show ?thesis by blast
qed

text \<open>The depth counter belongs to the tab and not to a caller: work that an unrelated caller
  starts while the tab holds the lock is let through, and it may still be running when the lock
  has been released and another tab holds it. Two writers then overlap.\<close>

theorem writer_lock_overlap:
  "\<exists>ts. lock_reachable True ts \<and> letThrough (ts ! 0) > 0 \<and> isWriterLockHeld (ts ! 1)"
proof -
  let ?idle = "\<lparr>holdDepth = 0, turns = [], letThrough = 0\<rparr>"
  let ?t = "\<lambda>d p n. \<lparr>holdDepth = d, turns = [p], letThrough = n\<rparr>"
  have 0: "lock_reachable True [?idle, ?idle]"
    using lock_reachable.fresh[of True 2] by (simp add: createOpfsWriterLock_def numeral_2_eq_2)
  have 1: "lock_reachable True [?t 0 TurnQueued 0, ?idle]"
    using lock_reachable.step[OF 0 lock_step.call[of 0]] by (simp add: withWriterLock_def)
  have 2: "lock_reachable True [?t 0 TurnRequesting 0, ?idle]"
    using lock_reachable.step[OF 1 lock_step.turn[of 0 _ 0]] by (simp add: runExclusive_def turn_comes_def)
  have 3: "lock_reachable True [?t 1 TurnHolding 0, ?idle]"
    using lock_reachable.step[OF 2 lock_step.grant[of 0 _ 0]] by (simp add: enter_hold_def lock_free_def)
  have 4: "lock_reachable True [?t 1 TurnHolding 1, ?idle]"
    using lock_reachable.step[OF 3 lock_step.call[of 0]] by (simp add: withWriterLock_def)
  have 5: "lock_reachable True [?t 0 TurnDone 1, ?idle]"
    using lock_reachable.step[OF 4 lock_step.release[of 0 _ 0]] by (simp add: leave_hold_def)
  have 6: "lock_reachable True [?t 0 TurnDone 1, ?t 0 TurnQueued 0]"
    using lock_reachable.step[OF 5 lock_step.call[of 1]] by (simp add: withWriterLock_def)
  have 7: "lock_reachable True [?t 0 TurnDone 1, ?t 0 TurnRequesting 0]"
    using lock_reachable.step[OF 6 lock_step.turn[of 1 _ 0]] by (simp add: runExclusive_def turn_comes_def)
  have 8: "lock_reachable True [?t 0 TurnDone 1, ?t 1 TurnHolding 0]"
    using lock_reachable.step[OF 7 lock_step.grant[of 1 _ 0]] by (simp add: enter_hold_def lock_free_def)
  show ?thesis by (intro exI conjI, rule 8) (simp_all add: isWriterLockHeld_def)
qed

text \<open>Two submitted operations, the first running.\<close>

lemma sample_queue: "queue_reachable [OpRunning, OpWaiting]"
proof -
  have "queue_reachable [OpWaiting, OpWaiting]"
    using queue_reachable.submit[OF queue_reachable.submit[OF queue_reachable.idle]] by (simp add: runLabOp_def)
  from queue_reachable.work[OF this queue_work.start[of _ 0]] show ?thesis
    by (simp add: runAfterPreviousTail_def turn_comes_def)
qed

theorem lab_queue_serial_witness: "op_settled ([OpSettled False, OpRunning] ! 0)"
proof -
  have "queue_reachable [OpSettled False, OpWaiting]"
    using queue_reachable.work[OF sample_queue queue_work.settle[of 0 _ False]] by simp
  from queue_reachable.work[OF this queue_work.start[of _ 1]] have "queue_reachable [OpSettled False, OpRunning]"
    by (simp add: runAfterPreviousTail_def turn_comes_def)
  from lab_queue_serial[OF this, of 0 1] show ?thesis by simp
qed

theorem lab_queue_drains_witness:
  "\<exists>chain'. queue_work\<^sup>*\<^sup>* [OpRunning, OpWaiting] chain' \<and> (\<forall>p \<in> set chain'. op_settled p)"
  using lab_queue_drains[OF sample_queue] by blast

theorem writer_lock_exclusive_witness:
  "isWriterLockHeld ([\<lparr>holdDepth = 1, turns = [TurnHolding], letThrough = 0\<rparr>] ! 0)"
proof -
  let ?t = "\<lambda>d p. \<lparr>holdDepth = d, turns = p, letThrough = 0\<rparr>"
  have 0: "lock_reachable True [?t 0 []]"
    using lock_reachable.fresh[of True 1] by (simp add: createOpfsWriterLock_def)
  have 1: "lock_reachable True [?t 0 [TurnQueued]]"
    using lock_reachable.step[OF 0 lock_step.call[of 0]] by (simp add: withWriterLock_def)
  have 2: "lock_reachable True [?t 0 [TurnRequesting]]"
    using lock_reachable.step[OF 1 lock_step.turn[of 0 _ 0]] by (simp add: runExclusive_def turn_comes_def)
  have 3: "lock_reachable True [?t 1 [TurnHolding]]"
    using lock_reachable.step[OF 2 lock_step.grant[of 0 _ 0]] by (simp add: enter_hold_def lock_free_def)
  from writer_lock_exclusive[OF 3, of 0 0 0 0] show ?thesis by simp
qed

end
