(* ===== verification/Js_Float.thy ===== *)
theory Js_Float
  imports Js_Number
begin

text \<open>
  Floating-point arithmetic and decimal text of JavaScript over the numbers of \<open>Js_Number\<close>:
  rounding with overflow and subnormal values, products and quotients, \<open>parseFloat\<close>,
  \<open>parseInt\<close>, \<open>Number.prototype.toFixed\<close> and \<open>String\<close> of large numbers. The two zeros
  are not distinguished.
\<close>

section \<open>Rounding and arithmetic\<close>

text \<open>The number nearest to a rational: infinite from half an ulp above the largest finite
  number on, and a multiple of the least subnormal number below the normal range.\<close>

definition js_double :: "rat \<Rightarrow> js_number" where
  "js_double q =
     (if 2 ^ 1024 - 2 ^ 970 \<le> q then PosInf
      else if q \<le> - (2 ^ 1024 - 2 ^ 970) then NegInf
      else if \<bar>q\<bar> < 1 / 2 ^ 1022 then Fin (of_int (round_half_even (q * 2 ^ 1074)) / 2 ^ 1074)
      else Fin (dbl q))"

text \<open>Product with and quotient by a positive finite constant.\<close>

definition js_scale :: "js_number \<Rightarrow> rat \<Rightarrow> js_number" where
  "js_scale v c = (case v of Fin x \<Rightarrow> js_double (x * c) | _ \<Rightarrow> v)"

definition js_div :: "js_number \<Rightarrow> rat \<Rightarrow> js_number" where
  "js_div v c = (case v of Fin x \<Rightarrow> js_double (x / c) | _ \<Rightarrow> v)"

text \<open>\<open>v < c\<close>, false for NaN.\<close>

definition js_less :: "js_number \<Rightarrow> rat \<Rightarrow> bool" where
  "js_less v c = (case v of Fin x \<Rightarrow> x < c | NegInf \<Rightarrow> True | _ \<Rightarrow> False)"

lemma dbl_error: "\<bar>dbl x - x\<bar> \<le> \<bar>x\<bar> / 2 ^ 53"
proof (cases "x = 0")
  case False
  let ?u = "(2 :: rat) powi (bin_exp \<bar>x\<bar> - 52)"
  have u: "0 < ?u" by simp
  have "dbl x - x = (of_int (round_half_even (x / ?u)) - x / ?u) * ?u"
    using False u by (simp add: dbl_def Let_def left_diff_distrib)
  then have "\<bar>dbl x - x\<bar> = \<bar>of_int (round_half_even (x / ?u)) - x / ?u\<bar> * ?u"
    using u by (simp add: abs_mult)
  also have "\<dots> \<le> 1 / 2 * ?u"
    using u round_half_even_near[of "x / ?u"] by (intro mult_right_mono) auto
  also have "?u = 2 powi bin_exp \<bar>x\<bar> / 2 ^ 52" by (simp add: power_int_diff)
  also have "1 / 2 * (2 powi bin_exp \<bar>x\<bar> / 2 ^ 52) \<le> \<bar>x\<bar> / 2 ^ 53"
    using bin_exp_bounds(1)[of "\<bar>x\<bar>"] False by simp
  finally show ?thesis .
qed (simp add: dbl_def)

lemma round_half_even_nonneg: "0 \<le> x \<Longrightarrow> 0 \<le> round_half_even x"
  by (simp add: round_half_even_def Let_def)

lemma dbl_nonneg: "0 \<le> x \<Longrightarrow> 0 \<le> dbl x"
  by (simp add: dbl_def Let_def round_half_even_nonneg)

lemma js_double_nonneg:
  assumes "0 \<le> q" and "js_double q = Fin x"
  shows "0 \<le> x"
proof -
  have "0 \<le> q * 2 ^ 1074" using assms(1) by (intro mult_nonneg_nonneg) simp_all
  then have "0 \<le> (of_int (round_half_even (q * 2 ^ 1074)) / 2 ^ 1074 :: rat)"
    by (intro divide_nonneg_nonneg) (simp_all only: of_int_0_le_iff round_half_even_nonneg, simp)
  then show ?thesis
    using assms(2) dbl_nonneg[OF assms(1)] unfolding js_double_def
    by (auto simp only: js_number.inject js_number.distinct split: if_splits)
qed

lemma js_double_normal:
  assumes "1 / 2 ^ 1022 \<le> \<bar>q\<bar> \<or> q = 0" and "\<bar>q\<bar> < 2 ^ 60"
  shows "js_double q = Fin (dbl q)"
proof -
  have "(2 :: rat) ^ 60 \<le> 2 ^ 1024 - 2 ^ 970" by simp
  then have "\<not> 2 ^ 1024 - 2 ^ 970 \<le> q" "\<not> q \<le> - (2 ^ 1024 - 2 ^ 970)" using assms(2) by linarith+
  then show ?thesis using assms(1) by (auto simp: js_double_def dbl_def round_half_even_def)
qed

text \<open>For evaluation: the common case without the huge bounds.\<close>

lemma js_double_code [code]:
  "js_double q =
     (if q = 0 \<or> (1 / 1000000000000000000 \<le> \<bar>q\<bar> \<and> \<bar>q\<bar> < 1000000000000000000) then Fin (dbl q)
      else if 2 ^ 1024 - 2 ^ 970 \<le> q then PosInf
      else if q \<le> - (2 ^ 1024 - 2 ^ 970) then NegInf
      else if \<bar>q\<bar> < 1 / 2 ^ 1022 then Fin (of_int (round_half_even (q * 2 ^ 1074)) / 2 ^ 1074)
      else Fin (dbl q))"
proof (cases "q = 0 \<or> (1 / 1000000000000000000 \<le> \<bar>q\<bar> \<and> \<bar>q\<bar> < 1000000000000000000)")
  case True
  have "(1 :: rat) / 2 ^ 1022 \<le> 1 / 1000000000000000000" "(1000000000000000000 :: rat) < 2 ^ 60" by simp_all
  then have "(1 / 2 ^ 1022 \<le> \<bar>q\<bar> \<or> q = 0) \<and> \<bar>q\<bar> < 2 ^ 60" using True by auto
  then show ?thesis unfolding if_P[OF True] by (intro js_double_normal) auto
next
  case False
  show ?thesis unfolding if_not_P[OF False] by (rule js_double_def)
qed

section \<open>Text\<close>

text \<open>The exponent part at the start of a string and what follows; without one, \<open>0\<close> and the
  string itself.\<close>

definition exponent_part :: "string \<Rightarrow> int \<times> string" where
  "exponent_part s =
     (if take 1 s = ''e'' \<or> take 1 s = ''E'' then
        let t = drop 1 s;
            body = (if take 1 t = ''-'' \<or> take 1 t = ''+'' then drop 1 t else t);
            ds = takeWhile is_digit body;
            n = int (digits_value ds)
        in if ds = [] then (0, s) else (if take 1 t = ''-'' then - n else n, dropWhile is_digit body)
      else (0, s))"

text \<open>The longest prefix that is an optionally signed \<open>Infinity\<close> or decimal literal, NaN when
  there is none, and what follows it.\<close>

definition js_float_prefix :: "string \<Rightarrow> js_number \<times> string" where
  "js_float_prefix t =
     (let neg = (take 1 t = ''-'');
          body = (if neg \<or> take 1 t = ''+'' then drop 1 t else t)
      in if starts_with ''Infinity'' body then (if neg then NegInf else PosInf, drop 8 body)
         else
           let ip = takeWhile is_digit body;
               rest = dropWhile is_digit body;
               fp = (if take 1 rest = ''.'' then takeWhile is_digit (drop 1 rest) else []);
               rest2 = (if take 1 rest = ''.'' then dropWhile is_digit (drop 1 rest) else rest)
           in if ip = [] \<and> fp = [] then (NaN, t)
              else let (e, rest3) = exponent_part rest2;
                       q = of_nat (digits_value (ip @ fp)) * 10 powi (e - int (length fp))
                   in (js_double (if neg then - q else q), rest3))"

definition js_parse_float :: "string \<Rightarrow> js_number" where
  "js_parse_float s = fst (js_float_prefix (dropWhile js_ws s))"

text \<open>\<open>Number(s)\<close>: the whole trimmed string is a decimal literal, or a prefixed literal of
  another radix; the empty string is zero.\<close>

definition radix_digit :: "char \<Rightarrow> nat" where
  "radix_digit c =
     (let n = of_char (js_lower_char c) :: nat
      in if is_digit c then n - 48 else if 97 \<le> n \<and> n \<le> 122 then n - 87 else 99)"

definition js_to_number :: "string \<Rightarrow> js_number" where
  "js_to_number s =
     (let t = js_trim s;
          prefix = js_lower (take 2 t);
          radix = (if prefix = ''0x'' then 16 else if prefix = ''0o'' then 8 else if prefix = ''0b'' then 2 else 0);
          ds = map radix_digit (drop 2 t)
      in if t = [] then Fin 0
         else if radix > 0 then
           (if ds \<noteq> [] \<and> (\<forall>x \<in> set ds. x < radix) then js_double (of_nat (foldl (\<lambda>v x. radix * v + x) 0 ds)) else NaN)
         else case js_float_prefix t of (v, rest) \<Rightarrow> if rest = [] then v else NaN)"

text \<open>\<open>parseInt(s, 10)\<close> with overflow to infinity.\<close>

definition js_parse_int_number :: "string \<Rightarrow> js_number" where
  "js_parse_int_number s =
     (let t = dropWhile js_ws s;
          neg = (take 1 t = ''-'');
          body = (if neg \<or> take 1 t = ''+'' then drop 1 t else t);
          ds = takeWhile is_digit body
      in if ds = [] then NaN
         else js_double (if neg then - of_nat (digits_value ds) else of_nat (digits_value ds)))"

text \<open>\<open>padStart(width, '0')\<close>.\<close>

definition pad_zeros :: "nat \<Rightarrow> string \<Rightarrow> string" where
  "pad_zeros width s = replicate (width - length s) CHR ''0'' @ s"

text \<open>The decimal digits of \<open>n\<close> with a point before the last \<open>d\<close> of them.\<close>

definition fixed_digits :: "nat \<Rightarrow> nat \<Rightarrow> string" where
  "fixed_digits d n =
     (let m = pad_zeros (d + 1) (nat_str n); k = length m - d
      in if d = 0 then nat_str n else take k m @ ''.'' @ drop k m)"

text \<open>\<open>String(x)\<close> for \<open>x \<ge> 10 ^ 21\<close>: the fewest significant digits that denote the number,
  the closest such number to \<open>x\<close>, in exponent notation.\<close>

definition digit_candidates :: "rat \<Rightarrow> nat \<Rightarrow> nat \<Rightarrow> nat list" where
  "digit_candidates x n k =
     (let u = 10 powi (int n - int k); f = nat \<lfloor>x / u\<rfloor>;
          near = (if x / u - of_nat f \<le> of_nat f + 1 - x / u then [f, f + 1] else [f + 1, f])
      in filter (\<lambda>s. 10 ^ (k - 1) \<le> s \<and> s < 10 ^ k \<and> js_double (of_nat s * u) = Fin x) near)"

definition large_str :: "rat \<Rightarrow> string" where
  "large_str x =
     (let n = length (nat_str (nat \<lfloor>x\<rfloor>))
      in case List.find (\<lambda>k. digit_candidates x n k \<noteq> []) [1..<18] of
           None \<Rightarrow> []
         | Some k \<Rightarrow>
             let ds = nat_str (hd (digit_candidates x n k))
             in (if k = 1 then ds else take 1 ds @ ''.'' @ drop 1 ds) @ ''e+'' @ nat_str (n - 1))"

text \<open>\<open>v.toFixed(d)\<close>: the larger of two equally near integers, with a point.\<close>

definition to_fixed :: "nat \<Rightarrow> js_number \<Rightarrow> string" where
  "to_fixed d v =
     (case v of
        NaN \<Rightarrow> ''NaN''
      | PosInf \<Rightarrow> ''Infinity''
      | NegInf \<Rightarrow> ''-Infinity''
      | Fin x \<Rightarrow>
          (if x < 0 then ''-'' else []) @
          (if 10 ^ 21 \<le> \<bar>x\<bar> then large_str \<bar>x\<bar>
           else fixed_digits d (nat \<lfloor>\<bar>x\<bar> * 10 ^ d + 1 / 2\<rfloor>)))"

section \<open>Reading fixed-point text back\<close>

lemma digits_value_zeros [simp]: "digits_value (replicate k CHR ''0'' @ s) = digits_value s"
  by (induction k) (simp_all add: digits_value_def digit_val_def)

lemma pad_zeros_digits: "list_all is_digit s \<Longrightarrow> list_all is_digit (pad_zeros w s)"
  by (auto simp: pad_zeros_def is_digit_def list_all_iff)

lemma length_pad_zeros: "length (pad_zeros w s) = max w (length s)"
  by (simp add: pad_zeros_def)

lemma takeWhile_digits_dot:
  assumes "list_all is_digit a"
  shows "takeWhile is_digit (a @ CHR ''.'' # b) = a" and "dropWhile is_digit (a @ CHR ''.'' # b) = CHR ''.'' # b"
proof -
  have "\<not> is_digit (CHR ''.'')" by (simp add: is_digit_def)
  then show "takeWhile is_digit (a @ CHR ''.'' # b) = a" "dropWhile is_digit (a @ CHR ''.'' # b) = CHR ''.'' # b"
    using assms by (simp_all add: list_all_iff takeWhile_append2 dropWhile_append2)
qed

lemma digit_facts: "is_digit c \<Longrightarrow> \<not> js_ws c \<and> c \<noteq> CHR ''-'' \<and> c \<noteq> CHR ''+'' \<and> c \<noteq> CHR ''I''"
  by (auto simp: is_digit_def js_ws_def Let_def)

lemma js_parse_float_decimal:
  assumes "list_all is_digit a" and "list_all is_digit b" and "a \<noteq> []"
  shows "js_parse_float (a @ CHR ''.'' # b) =
    js_double (of_nat (digits_value (a @ b)) * 10 powi (- int (length b)))"
proof -
  obtain c r where a: "a = c # r" using assms(3) by (cases a) auto
  have c: "is_digit c" using assms(1) a by simp
  have b: "takeWhile is_digit b = b" "dropWhile is_digit b = []"
    using assms(2) by (simp_all add: list_all_iff)
  let ?s = "a @ CHR ''.'' # b"
  have start: "dropWhile js_ws ?s = ?s" "take 1 ?s \<noteq> ''-''" "take 1 ?s \<noteq> ''+''" "\<not> starts_with ''Infinity'' ?s"
    using digit_facts[OF c] by (simp_all add: a starts_with_def)
  show ?thesis
    using assms(3) start by (simp add: js_parse_float_def js_float_prefix_def exponent_part_def takeWhile_digits_dot[OF assms(1), of b] b Let_def)
qed

lemma js_parse_float_fixed_digits:
  assumes "0 < d"
  shows "js_parse_float (fixed_digits d n) = js_double (of_nat n / 10 ^ d)"
proof -
  let ?m = "pad_zeros (d + 1) (nat_str n)"
  let ?k = "length ?m - d"
  have m: "list_all is_digit ?m" using nat_str_digits[of n] by (intro pad_zeros_digits) (simp add: list_all_iff)
  have len: "d + 1 \<le> length ?m" by (simp add: length_pad_zeros)
  have val: "digits_value (pad_zeros (Suc d) (nat_str n)) = n" by (simp add: pad_zeros_def)
  have parts: "list_all is_digit (take ?k ?m)" "list_all is_digit (drop ?k ?m)"
    using m by (auto simp: list_all_iff dest: in_set_takeD in_set_dropD)
  have "take ?k ?m \<noteq> []" using len by (metis Suc_eq_plus1 Suc_le_lessD less_irrefl take_eq_Nil zero_less_diff list.size(3) not_less0)
  moreover have "length (drop ?k ?m) = d" using len by simp
  ultimately show ?thesis
    using js_parse_float_decimal[OF parts] assms
    by (simp add: fixed_digits_def Let_def val power_int_minus divide_inverse)
qed

text \<open>Scaling the quotient back leaves an error below one unit.\<close>

lemma scaled_near:
  assumes "0 \<le> n"
  shows "\<bar>dbl (of_int n / 10 ^ d) * 10 ^ d - of_int n\<bar> \<le> of_int n / 2 ^ 53"
proof -
  let ?q = "of_int n / 10 ^ d :: rat" and ?t = "10 ^ d :: rat"
  have "\<bar>dbl ?q * ?t - of_int n\<bar> = \<bar>dbl ?q - ?q\<bar> * ?t"
  proof -
    have "dbl ?q * ?t - of_int n = (dbl ?q - ?q) * ?t" by (simp add: left_diff_distrib)
    then show ?thesis by (simp add: abs_mult)
  qed
  also have "\<dots> \<le> \<bar>?q\<bar> / 2 ^ 53 * ?t" using dbl_error[of ?q] by (intro mult_right_mono) auto
  also have "\<dots> = of_int n / 2 ^ 53" using assms by (simp add: abs_of_nonneg)
  finally show ?thesis .
qed

text \<open>Division and \<open>toFixed\<close> keep an integer amount of smallest units.\<close>

lemma to_fixed_quotient:
  assumes "0 \<le> n" and "n < 2 ^ 52"
  shows "to_fixed d (Fin (dbl (of_int n / 10 ^ d))) = fixed_digits d (nat n)"
proof -
  let ?q = "of_int n / 10 ^ d :: rat" and ?t = "10 ^ d :: rat" and ?n = "of_int n :: rat"
  have t: "1 \<le> ?t" by simp
  have n: "(of_int n :: rat) < 2 ^ 52"
    using assms(2) by (metis of_int_less_iff of_int_numeral of_int_power)
  have err: "\<bar>dbl ?q - ?q\<bar> \<le> ?q / 2 ^ 53" using dbl_error[of ?q] assms(1) by (simp add: abs_of_nonneg)
  have q: "0 \<le> ?q" "?q \<le> of_int n" using assms(1) mult_left_mono[OF t, of "of_int n"] by (simp_all add: divide_le_eq)
  have pos: "0 \<le> dbl ?q" using q(1) by (rule dbl_nonneg)
  have small: "dbl ?q < 10 ^ 21"
  proof -
    have "dbl ?q \<le> ?q + ?q / 2 ^ 53" using err by linarith
    also have "\<dots> \<le> 2 * of_int n" using q by simp
    also have "\<dots> < 10 ^ 21" using n by simp
    finally show ?thesis .
  qed
  have "\<bar>dbl ?q * ?t - of_int n\<bar> \<le> of_int n / 2 ^ 53" by (rule scaled_near[OF assms(1)])
  also have "\<dots> < 1 / 2" using n by simp
  finally have "\<bar>dbl ?q * ?t - of_int n\<bar> < 1 / 2" .
  then have "?n \<le> dbl ?q * ?t + 1 / 2 \<and> dbl ?q * ?t + 1 / 2 < ?n + 1" by linarith
  then have "\<lfloor>dbl ?q * ?t + 1 / 2\<rfloor> = n" by (simp add: floor_eq_iff)
  then show ?thesis using pos small by (simp add: to_fixed_def)
qed

lemma dbl_scaled_near:
  assumes "0 \<le> n" and "n < 2 ^ 51"
  shows "\<bar>dbl (dbl (of_int n / 10 ^ d) * 10 ^ d) - of_int n\<bar> < 1"
proof -
  let ?z = "dbl (of_int n / 10 ^ d) * 10 ^ d" and ?n = "of_int n :: rat"
  have n: "?n < 2 ^ 51" "0 \<le> ?n"
    using assms by (metis of_int_less_iff of_int_numeral of_int_power) (simp add: assms)
  note z = scaled_near[OF assms(1), of d]
  have "\<bar>dbl ?z - ?n\<bar> \<le> \<bar>dbl ?z - ?z\<bar> + \<bar>?z - ?n\<bar>" by linarith
  also have "\<dots> \<le> \<bar>?z\<bar> / 2 ^ 53 + ?n / 2 ^ 53" using dbl_error[of ?z] z by linarith
  also have "\<dots> \<le> 2 * ?n / 2 ^ 53 + ?n / 2 ^ 53"
  proof -
    have "?n / 2 ^ 53 \<le> ?n" using n(2) by simp
    then have "\<bar>?z\<bar> \<le> 2 * ?n" using z n(2) by linarith
    then show ?thesis by (simp add: divide_right_mono)
  qed
  also have "\<dots> < 1" using n(1) by simp
  finally show ?thesis .
qed

end
