(* ===== verification/Amounts.thy ===== *)
theory Amounts
  imports Js_Float Lab_Chain
begin

text \<open>
  Amounts and networks of the wallet: \<open>lib/wallet/bitcoin-utils.ts\<close> without the Esplora
  requests, \<open>lib/wallet/bitcoin-display-unit.ts\<close> and \<open>lib/wallet/bitcoin-dust.ts\<close>. An amount
  that comes from the user interface is any JavaScript number; a parsed amount is an integer.
\<close>

section \<open>Networks\<close>

datatype networkMode = Lab | Regtest | Signet | Mutinynet | Testnet | Mainnet

datatype bitcoinNetwork = BnRegtest | BnBitcoin | BnTestnet | BnSignet | BnMutinynet

fun toBitcoinNetwork :: "networkMode \<Rightarrow> bitcoinNetwork" where
  "toBitcoinNetwork Lab = BnRegtest"
| "toBitcoinNetwork Mainnet = BnBitcoin"
| "toBitcoinNetwork Testnet = BnTestnet"
| "toBitcoinNetwork Signet = BnSignet"
| "toBitcoinNetwork Mutinynet = BnMutinynet"
| "toBitcoinNetwork Regtest = BnRegtest"

fun ADDRESS_PREFIXES :: "networkMode \<Rightarrow> string list" where
  "ADDRESS_PREFIXES Mainnet = [''bc1p'', ''bc1q'', ''1'', ''3'']"
| "ADDRESS_PREFIXES Testnet = [''tb1p'', ''tb1q'', ''m'', ''n'', ''2'']"
| "ADDRESS_PREFIXES Signet = [''tb1p'', ''tb1q'']"
| "ADDRESS_PREFIXES Mutinynet = [''tb1p'', ''tb1q'']"
| "ADDRESS_PREFIXES Regtest = [''bcrt1p'', ''bcrt1q'']"
| "ADDRESS_PREFIXES Lab = [''bcrt1q'', ''bcrt1p'']"

definition isValidAddress :: "string \<Rightarrow> networkMode \<Rightarrow> bool" where
  "isValidAddress address network = list_ex (\<lambda>prefix. starts_with prefix address) (ADDRESS_PREFIXES network)"

definition truncateAddress :: "string \<Rightarrow> nat \<Rightarrow> nat \<Rightarrow> string" where
  "truncateAddress address prefixLen suffixLen =
     (if length address \<le> prefixLen + suffixLen then address
      else take prefixLen address @ ''...'' @
           (if suffixLen = 0 then address else drop (length address - suffixLen) address))"

section \<open>Satoshis and millisatoshis\<close>

definition SATS_PER_BTC :: int where "SATS_PER_BTC = 100000000"
definition MSATS_PER_SAT :: int where "MSATS_PER_SAT = 1000"

definition MAX_SATS_MSAT_AMOUNT_NUMBER :: int where
  "MAX_SATS_MSAT_AMOUNT_NUMBER = \<lfloor>dbl (of_int MAX_SAFE_INTEGER / of_int MSATS_PER_SAT)\<rfloor>"

definition MAX_SAFE_SATS :: int where "MAX_SAFE_SATS = MAX_SAFE_INTEGER"

definition msatsAmountNumberFromSatsExact :: "js_number \<Rightarrow> string + js_number" where
  "msatsAmountNumberFromSatsExact sats =
     (case js_integer sats of
        None \<Rightarrow> Inl ''sats must be an integer''
      | Some n \<Rightarrow>
          if n < 0 \<or> n > MAX_SATS_MSAT_AMOUNT_NUMBER
          then Inl (''sats out of safe millisatoshi conversion range (0-'' @ int_str MAX_SATS_MSAT_AMOUNT_NUMBER @ '')'')
          else Inr (js_scale sats (of_int MSATS_PER_SAT)))"

definition formatBTC :: "js_number \<Rightarrow> string" where
  "formatBTC sats = to_fixed 8 (js_div sats (of_int SATS_PER_BTC))"

definition formatSats :: "js_number \<Rightarrow> string" where
  "formatSats sats =
     (case sats of
        Fin x \<Rightarrow> if x < 0 then ''0'' else int_str \<lfloor>min x (of_int MAX_SAFE_SATS)\<rfloor>
      | _ \<Rightarrow> ''0'')"

text \<open>\<open>Math.min(Math.floor(v), MAX_SAFE_SATS)\<close>; the callers have excluded NaN and negative infinity.\<close>

definition floor_min_safe :: "js_number \<Rightarrow> int" where
  "floor_min_safe v = (case v of Fin x \<Rightarrow> min \<lfloor>x\<rfloor> MAX_SAFE_SATS | _ \<Rightarrow> MAX_SAFE_SATS)"

text \<open>The common guard of the parsers: NaN, infinite or negative.\<close>

definition unusable_amount :: "js_number \<Rightarrow> bool" where
  "unusable_amount v \<longleftrightarrow> \<not> js_is_finite v \<or> js_less v 0"

definition parseBTC :: "string \<Rightarrow> int" where
  "parseBTC btcString =
     (if js_trim btcString = [] then 0
      else let parsed = js_parse_float btcString
           in if unusable_amount parsed then 0
              else floor_min_safe (js_scale parsed (of_int SATS_PER_BTC)))"

section \<open>Display units\<close>

datatype bitcoinDisplayUnit = BTC | MBTC | UBTC | Ksat | Sat

definition BITCOIN_DISPLAY_UNITS :: "bitcoinDisplayUnit list" where
  "BITCOIN_DISPLAY_UNITS = [BTC, MBTC, UBTC, Ksat, Sat]"

text \<open>The strings that stand for the units in the code.\<close>

fun unit_name :: "bitcoinDisplayUnit \<Rightarrow> string" where
  "unit_name BTC = ''BTC''"
| "unit_name MBTC = ''mBTC''"
| "unit_name UBTC = ''uBTC''"
| "unit_name Ksat = ''ksat''"
| "unit_name Sat = ''sat''"

fun BITCOIN_DISPLAY_UNIT_LABEL :: "bitcoinDisplayUnit \<Rightarrow> string" where
  "BITCOIN_DISPLAY_UNIT_LABEL UBTC = CHR 0xB5 # ''BTC''"
| "BITCOIN_DISPLAY_UNIT_LABEL unit = unit_name unit"

definition isBitcoinDisplayUnit :: "string \<Rightarrow> bool" where
  "isBitcoinDisplayUnit value = (value \<in> set (map unit_name BITCOIN_DISPLAY_UNITS))"

definition isLiveTestNetwork :: "networkMode \<Rightarrow> bool" where
  "isLiveTestNetwork mode \<longleftrightarrow> mode = Testnet \<or> mode = Signet \<or> mode = Mutinynet \<or> mode = Regtest"

datatype networkUnitIndicator = TestIndicator | LabIndicator

definition getNetworkUnitIndicator :: "networkMode \<Rightarrow> networkUnitIndicator option" where
  "getNetworkUnitIndicator mode =
     (if mode = Lab then Some LabIndicator else if isLiveTestNetwork mode then Some TestIndicator else None)"

definition getPrefixedBitcoinDisplayUnitLabel :: "bitcoinDisplayUnit \<Rightarrow> networkMode \<Rightarrow> string" where
  "getPrefixedBitcoinDisplayUnitLabel unit mode =
     (if isLiveTestNetwork mode then ''t'' @ BITCOIN_DISPLAY_UNIT_LABEL unit else BITCOIN_DISPLAY_UNIT_LABEL unit)"

definition getAccessibleBitcoinDisplayUnitLabel :: "bitcoinDisplayUnit \<Rightarrow> networkMode \<Rightarrow> string" where
  "getAccessibleBitcoinDisplayUnitLabel unit mode =
     (if isLiveTestNetwork mode then ''t'' @ BITCOIN_DISPLAY_UNIT_LABEL unit
      else if mode = Lab then ''Lab '' @ BITCOIN_DISPLAY_UNIT_LABEL unit
      else BITCOIN_DISPLAY_UNIT_LABEL unit)"

definition SATS_PER_mBTC :: int where "SATS_PER_mBTC = 100000"
definition SATS_PER_uBTC :: int where "SATS_PER_uBTC = 100"
definition SATS_PER_ksat :: int where "SATS_PER_ksat = 1000"

definition clampSats :: "js_number \<Rightarrow> int" where
  "clampSats sats = (if unusable_amount sats then 0 else floor_min_safe sats)"

definition formatAmountInBitcoinDisplayUnit :: "js_number \<Rightarrow> bitcoinDisplayUnit \<Rightarrow> string" where
  "formatAmountInBitcoinDisplayUnit sats unit =
     (let clampedSats = (if unusable_amount sats then Fin 0 else sats)
      in case unit of
           BTC \<Rightarrow> to_fixed 8 (js_div clampedSats (of_int SATS_PER_BTC))
         | MBTC \<Rightarrow> to_fixed 5 (js_div clampedSats (of_int SATS_PER_mBTC))
         | UBTC \<Rightarrow> to_fixed 2 (js_div clampedSats (of_int SATS_PER_uBTC))
         | Sat \<Rightarrow> formatSats clampedSats
         | Ksat \<Rightarrow> to_fixed 3 (js_div clampedSats (of_int SATS_PER_ksat)))"

text \<open>One branch of the parser: a decimal number of units worth \<open>satsPerUnit\<close> each.\<close>

definition parse_decimal_units :: "string \<Rightarrow> int \<Rightarrow> int" where
  "parse_decimal_units trimmed satsPerUnit =
     (let parsed = js_parse_float trimmed
      in if unusable_amount parsed then 0 else clampSats (js_scale parsed (of_int satsPerUnit)))"

definition parseAmountToSatsFromBitcoinDisplayUnit :: "string \<Rightarrow> bitcoinDisplayUnit \<Rightarrow> int" where
  "parseAmountToSatsFromBitcoinDisplayUnit amountStr unit =
     (let trimmed = js_trim amountStr
      in if trimmed = [] then 0
         else case unit of
           BTC \<Rightarrow> parse_decimal_units trimmed SATS_PER_BTC
         | MBTC \<Rightarrow> parse_decimal_units trimmed SATS_PER_mBTC
         | UBTC \<Rightarrow> parse_decimal_units trimmed SATS_PER_uBTC
         | Ksat \<Rightarrow> parse_decimal_units trimmed SATS_PER_ksat
         | Sat \<Rightarrow>
             (let parsed = js_parse_int_number (filter (\<lambda>c. c \<noteq> CHR '','') trimmed)
              in if parsed = NaN \<or> js_less parsed 0 then 0 else clampSats parsed))"

fun amountInputPlaceholderForUnit :: "bitcoinDisplayUnit \<Rightarrow> string" where
  "amountInputPlaceholderForUnit BTC = ''0.00000000''"
| "amountInputPlaceholderForUnit MBTC = ''0.00000''"
| "amountInputPlaceholderForUnit UBTC = ''0.00''"
| "amountInputPlaceholderForUnit Ksat = ''0.000''"
| "amountInputPlaceholderForUnit Sat = ''0''"

definition UX_DUST_FLOOR_SATS :: int where "UX_DUST_FLOOR_SATS = 546"

definition formatAmountInputFromSats :: "int \<Rightarrow> bitcoinDisplayUnit \<Rightarrow> string" where
  "formatAmountInputFromSats sats unit = formatAmountInBitcoinDisplayUnit (Fin (of_int sats)) unit"

section \<open>Amounts of transactions in the list\<close>

datatype txDirection = DirSent | DirReceived

definition formatTxDirection :: "transactionDetails \<Rightarrow> txDirection" where
  "formatTxDirection tx = (if sentSats tx > receivedSats tx then DirSent else DirReceived)"

definition getTxGrossWalletDebitSats :: "transactionDetails \<Rightarrow> int" where
  "getTxGrossWalletDebitSats tx = sentSats tx - receivedSats tx"

definition getTxListDisplayAmountSats :: "transactionDetails \<Rightarrow> int" where
  "getTxListDisplayAmountSats tx =
     (if formatTxDirection tx = DirReceived then receivedSats tx - sentSats tx
      else let grossWalletDebit = getTxGrossWalletDebitSats tx
           in case tx_feeSats tx of
                Some feeSats \<Rightarrow> if \<not> isLabTx tx then grossWalletDebit - feeSats else grossWalletDebit
              | None \<Rightarrow> grossWalletDebit)"

section \<open>Lemmas\<close>

lemma MAX_SAFE_SATS_value: "MAX_SAFE_SATS = 9007199254740991"
  by (simp add: MAX_SAFE_SATS_def MAX_SAFE_INTEGER_def)

lemma clampSats_bounds: "0 \<le> clampSats v \<and> clampSats v \<le> MAX_SAFE_SATS"
  by (cases v) (auto simp: clampSats_def unusable_amount_def floor_min_safe_def js_is_finite_def js_less_def MAX_SAFE_SATS_value)

lemma parse_decimal_units_bounds: "0 \<le> parse_decimal_units s u \<and> parse_decimal_units s u \<le> MAX_SAFE_SATS"
  using clampSats_bounds by (simp add: parse_decimal_units_def Let_def MAX_SAFE_SATS_value)

lemma clampSats_int: "0 \<le> n \<Longrightarrow> n \<le> MAX_SAFE_SATS \<Longrightarrow> clampSats (Fin (of_int n)) = n"
  by (simp add: clampSats_def unusable_amount_def floor_min_safe_def js_is_finite_def js_less_def)

lemma js_less_zero_int: "0 \<le> n \<Longrightarrow> \<not> unusable_amount (Fin (of_int n))"
  by (simp add: unusable_amount_def js_is_finite_def js_less_def)

text \<open>The text of a fixed-point amount has no white space around it.\<close>

lemma js_trim_id:
  assumes "s \<noteq> []" and "\<not> js_ws (hd s)" and "\<not> js_ws (last s)"
  shows "js_trim s = s"
proof -
  have "dropWhile js_ws s = s" using assms(1,2) by (cases s) auto
  moreover have "dropWhile js_ws (rev s) = rev s" using assms(1,3) by (cases s rule: rev_cases) auto
  ultimately show ?thesis by (simp add: js_trim_def)
qed

lemma js_trim_digits: "list_all is_digit s \<Longrightarrow> js_trim s = s"
  using js_trim_id[of s] by (cases "s = []") (auto simp: js_trim_def list_all_iff digit_facts)

lemma fixed_digits_trim:
  assumes "0 < d"
  shows "js_trim (fixed_digits d n) = fixed_digits d n" and "fixed_digits d n \<noteq> []"
proof -
  let ?m = "pad_zeros (d + 1) (nat_str n)"
  let ?k = "length ?m - d"
  have m: "list_all is_digit ?m" using nat_str_digits[of n] by (intro pad_zeros_digits) (simp add: list_all_iff)
  have len: "d + 1 \<le> length ?m" by (simp add: length_pad_zeros)
  have form: "fixed_digits d n = take ?k ?m @ CHR ''.'' # drop ?k ?m"
    using assms by (simp add: fixed_digits_def Let_def)
  show "fixed_digits d n \<noteq> []" by (simp add: form)
  have ne: "take ?k ?m \<noteq> []" "drop ?k ?m \<noteq> []" using len assms by auto
  have "is_digit (hd (take ?k ?m))" "is_digit (last (drop ?k ?m))"
    using m ne hd_in_set[OF ne(1)] last_in_set[OF ne(2)]
    by (auto simp: list_all_iff dest: in_set_takeD in_set_dropD)
  then show "js_trim (fixed_digits d n) = fixed_digits d n"
    unfolding form using ne digit_facts by (intro js_trim_id) auto
qed

text \<open>Every branch of the formatter but the one for whole satoshis: \<open>d\<close> decimals of a unit
  of \<open>10 ^ d\<close> satoshis.\<close>

lemma quotient_normal:
  assumes "0 \<le> n" and "n < 2 ^ 52" and "d \<le> 8"
  shows "js_double (of_int n / 10 ^ d) = Fin (dbl (of_int n / 10 ^ d))"
proof -
  have n: "(of_int n :: rat) < 2 ^ 52" using assms(2) by (metis of_int_less_iff of_int_numeral of_int_power)
  have t: "(1 :: rat) \<le> 10 ^ d" "(10 :: rat) ^ d \<le> 10 ^ 8" using power_increasing[OF assms(3), of "10 :: rat"] by auto
  have "(of_int n :: rat) / 10 ^ d \<le> of_int n" using t assms(1) mult_left_mono[OF t(1), of "of_int n"] by (simp add: divide_le_eq)
  then have up: "\<bar>of_int n / 10 ^ d\<bar> < (2 :: rat) ^ 60" using n assms(1) by simp
  have low: "1 / 2 ^ 1022 \<le> \<bar>of_int n / 10 ^ d :: rat\<bar>" if "n \<noteq> 0"
  proof -
    have "(1 :: rat) / 2 ^ 1022 \<le> 1 / 10 ^ 8" by simp
    also have "\<dots> \<le> 1 / 10 ^ d" using t by (simp add: frac_le)
    also have "\<dots> \<le> of_int n / 10 ^ d" using that assms(1) by (simp add: divide_right_mono)
    finally show ?thesis using assms(1) by (simp add: abs_of_nonneg)
  qed
  show ?thesis using up low by (intro js_double_normal) auto
qed

lemma format_decimal:
  assumes "0 \<le> n" and "n < 2 ^ 52" and "d \<le> 8"
  shows "to_fixed d (js_div (Fin (of_int n)) (10 ^ d)) = fixed_digits d (nat n)"
  using quotient_normal[OF assms] to_fixed_quotient[OF assms(1,2)] by (simp add: js_div_def)

lemma parse_decimal:
  assumes "0 \<le> n" and "n < 2 ^ 51" and "0 < d" and "d \<le> 8" and "of_int u = (10 :: rat) ^ d"
  shows "parse_decimal_units (fixed_digits d (nat n)) u = \<lfloor>dbl (dbl (of_int n / 10 ^ d) * 10 ^ d)\<rfloor>"
    and "\<lfloor>dbl (dbl (of_int n / 10 ^ d) * 10 ^ d)\<rfloor> \<in> {n - 1, n}"
proof -
  let ?q = "of_int n / 10 ^ d :: rat"
  let ?z = "dbl ?q * 10 ^ d"
  have n: "(of_int n :: rat) < 2 ^ 51" "0 \<le> (of_int n :: rat)" 
    using assms(1,2) by (metis of_int_less_iff of_int_numeral of_int_power) (simp add: assms)
  have parsed: "js_parse_float (fixed_digits d (nat n)) = Fin (dbl ?q)"
    using js_parse_float_fixed_digits[OF assms(3)] quotient_normal[of n d] assms by simp
  have z: "\<bar>?z - of_int n\<bar> \<le> of_int n / 2 ^ 53" by (rule scaled_near[OF assms(1)])
  have small: "of_int n / 2 ^ 53 \<le> (of_int n :: rat) / 2" using n by simp
  have "n \<noteq> 0 \<Longrightarrow> (1 :: rat) \<le> of_int n" using assms(1) by simp
  then have "n \<noteq> 0 \<Longrightarrow> 1 / 2 \<le> ?z" "?z \<le> 2 * 2 ^ 51" using z small n by linarith+
  moreover have "n = 0 \<Longrightarrow> ?z = 0" by (simp add: dbl_def)
  ultimately have "(1 / 2 ^ 1022 \<le> \<bar>?z\<bar> \<or> ?z = 0) \<and> \<bar>?z\<bar> < 2 ^ 60"
    by (cases "n = 0") (simp_all add: abs_if)
  then have scaled: "js_scale (Fin (dbl ?q)) (of_int u) = Fin (dbl ?z)"
    using assms(5) js_double_normal[of ?z] by (simp add: js_scale_def)
  have pos: "0 \<le> dbl ?q" using assms(1) by (intro dbl_nonneg) simp
  have near: "\<bar>dbl ?z - of_int n\<bar> < 1" by (rule dbl_scaled_near[OF assms(1,2)])
  have "0 \<le> dbl ?z" using pos by (intro dbl_nonneg) simp
  then have "parse_decimal_units (fixed_digits d (nat n)) u = min \<lfloor>dbl ?z\<rfloor> MAX_SAFE_SATS"
    using pos by (simp add: parse_decimal_units_def parsed scaled clampSats_def unusable_amount_def
      js_is_finite_def js_less_def floor_min_safe_def)
  moreover have floor: "\<lfloor>dbl ?z\<rfloor> = n - 1 \<or> \<lfloor>dbl ?z\<rfloor> = n"
    using near unfolding floor_eq_iff by (simp; linarith)
  ultimately show "parse_decimal_units (fixed_digits d (nat n)) u = \<lfloor>dbl ?z\<rfloor>"
    using assms(2) by (auto simp: MAX_SAFE_SATS_value)
  show "\<lfloor>dbl ?z\<rfloor> \<in> {n - 1, n}" using floor by simp
qed

lemma formatSats_int: "0 \<le> n \<Longrightarrow> n \<le> MAX_SAFE_SATS \<Longrightarrow> formatSats (Fin (of_int n)) = int_str n"
  by (simp add: formatSats_def min_def)

lemma js_double_int:
  assumes "0 \<le> n" and "n \<le> MAX_SAFE_SATS"
  shows "js_double (of_int n) = Fin (of_int n)"
proof -
  have "(of_int n :: rat) < 2 ^ 60" using assms(2) by (simp add: MAX_SAFE_SATS_value)
  moreover have "1 / 2 ^ 1022 \<le> \<bar>of_int n :: rat\<bar> \<or> (of_int n :: rat) = 0" using assms(1) by (cases "n = 0") auto
  ultimately have "js_double (of_int n) = Fin (dbl (of_int n))" using assms(1) by (intro js_double_normal) auto
  also have "dbl (of_int n) = of_int n" using assms by (intro dbl_of_int) (simp add: MAX_SAFE_SATS_value)
  finally show ?thesis .
qed

lemma parse_int_str:
  assumes "0 \<le> n" and "n \<le> MAX_SAFE_SATS"
  shows "js_parse_int_number (int_str n) = Fin (of_int n)"
proof -
  have digits: "list_all is_digit (int_str n)" using int_str_digits[OF assms(1)] .
  obtain c r where cr: "int_str n = c # r" using int_str_not_Nil[of n] by (cases "int_str n") auto
  have c: "is_digit c" using digits cr by simp
  have start: "dropWhile js_ws (int_str n) = int_str n" "take 1 (int_str n) \<noteq> ''-''" "take 1 (int_str n) \<noteq> ''+''"
    using digit_facts[OF c] by (simp_all add: cr)
  have all: "takeWhile is_digit (int_str n) = int_str n" using digits by (simp add: list_all_iff)
  have val: "of_nat (digits_value (int_str n)) = (of_int n :: rat)"
    using digits_value_int_str[OF assms(1)] by (metis of_int_of_nat_eq)
  show ?thesis using start val js_double_int[OF assms] by (simp add: js_parse_int_number_def all)
qed

text \<open>Decimals shown in a unit: the unit is worth \<open>10 ^ d\<close> satoshis.\<close>

fun unit_decimals :: "bitcoinDisplayUnit \<Rightarrow> nat" where
  "unit_decimals BTC = 8"
| "unit_decimals MBTC = 5"
| "unit_decimals UBTC = 2"
| "unit_decimals Ksat = 3"
| "unit_decimals Sat = 0"

lemmas unit_values = SATS_PER_BTC_def SATS_PER_mBTC_def SATS_PER_uBTC_def SATS_PER_ksat_def

lemma format_in_unit:
  assumes "unit \<noteq> Sat" and "0 \<le> n" and "n < 2 ^ 52"
  shows "formatAmountInBitcoinDisplayUnit (Fin (of_int n)) unit = fixed_digits (unit_decimals unit) (nat n)"
  using assms format_decimal[OF assms(2,3), of "unit_decimals unit"] js_less_zero_int[OF assms(2)]
  by (cases unit) (simp_all add: formatAmountInBitcoinDisplayUnit_def unit_values)

lemma parse_in_unit:
  assumes "unit \<noteq> Sat" and "0 \<le> n" and "n < 2 ^ 51"
  shows "parseAmountToSatsFromBitcoinDisplayUnit (fixed_digits (unit_decimals unit) (nat n)) unit =
    \<lfloor>dbl (dbl (of_int n / 10 ^ unit_decimals unit) * 10 ^ unit_decimals unit)\<rfloor>"
proof -
  have "0 < unit_decimals unit" "unit_decimals unit \<le> 8" using assms(1) by (cases unit; simp)+
  then show ?thesis
    using parse_decimal(1)[OF assms(2,3), of "unit_decimals unit"] fixed_digits_trim[of "unit_decimals unit" "nat n"] assms(1)
    by (cases unit) (simp_all add: parseAmountToSatsFromBitcoinDisplayUnit_def unit_values)
qed

lemma sat_text_roundtrip:
  assumes "0 \<le> n" and "n \<le> MAX_SAFE_SATS"
  shows "parseAmountToSatsFromBitcoinDisplayUnit (formatAmountInBitcoinDisplayUnit (Fin (of_int n)) Sat) Sat = n"
proof -
  have digits: "list_all is_digit (int_str n)" using int_str_digits[OF assms(1)] .
  have "CHR '','' \<notin> set (int_str n)" using digits by (auto simp: list_all_iff is_digit_def)
  then have "filter (\<lambda>c. c \<noteq> CHR '','') (int_str n) = int_str n" by (auto intro: filter_True)
  then show ?thesis
    using assms js_trim_digits[OF digits] js_less_zero_int[OF assms(1)] parse_int_str[OF assms]
      formatSats_int[OF assms] clampSats_int[OF assms]
    by (simp add: formatAmountInBitcoinDisplayUnit_def parseAmountToSatsFromBitcoinDisplayUnit_def js_less_def)
qed

lemma parse_amount_bounds:
  "0 \<le> parseAmountToSatsFromBitcoinDisplayUnit s unit \<and> parseAmountToSatsFromBitcoinDisplayUnit s unit \<le> MAX_SAFE_SATS"
  using parse_decimal_units_bounds clampSats_bounds
  by (cases unit) (simp_all add: parseAmountToSatsFromBitcoinDisplayUnit_def Let_def MAX_SAFE_SATS_value)

lemma parseBTC_bounds: "0 \<le> parseBTC s \<and> parseBTC s \<le> MAX_SAFE_SATS"
proof (cases "js_parse_float s")
  case (Fin x)
  then show ?thesis
    using js_double_nonneg[of "x * 100000000"]
    by (cases "js_double (x * 100000000)")
      (auto simp: parseBTC_def unusable_amount_def js_is_finite_def js_less_def floor_min_safe_def js_scale_def
        SATS_PER_BTC_def MAX_SAFE_SATS_value not_less)
qed (simp_all add: parseBTC_def unusable_amount_def js_is_finite_def MAX_SAFE_SATS_value)

lemma MAX_MSAT_value: "MAX_SATS_MSAT_AMOUNT_NUMBER = 9007199254740"
  unfolding MAX_SATS_MSAT_AMOUNT_NUMBER_def MAX_SAFE_INTEGER_def MSATS_PER_SAT_def by code_simp

lemma msats_exact:
  "case msatsAmountNumberFromSatsExact (Fin x) of
     Inr m \<Rightarrow> m = Fin (x * 1000) \<and> 0 \<le> x \<and> x * 1000 \<le> of_int MAX_SAFE_INTEGER \<and> x = of_int \<lfloor>x\<rfloor>
   | Inl _ \<Rightarrow> x < 0 \<or> x * 1000 > of_int MAX_SAFE_INTEGER \<or> x \<noteq> of_int \<lfloor>x\<rfloor>"
proof (cases "x = of_int \<lfloor>x\<rfloor>")
  case True
  then obtain n where x: "x = of_int n" by metis
  have "js_double (of_int (n * 1000)) = Fin (of_int (n * 1000))" if "0 \<le> n" "n \<le> 9007199254740"
  proof -
    have "n * 1000 < 2 ^ 53" using that by simp
    then have "js_double (of_int (n * 1000)) = Fin (dbl (of_int (n * 1000)))"
      using that by (intro js_double_normal) (cases "n = 0"; simp)+
    then show ?thesis using dbl_of_int[of "n * 1000"] that by simp
  qed
  then show ?thesis
    by (auto simp: x msatsAmountNumberFromSatsExact_def MAX_MSAT_value js_scale_def MSATS_PER_SAT_def MAX_SAFE_INTEGER_def)
qed (auto simp: msatsAmountNumberFromSatsExact_def js_integer_def)

section \<open>Properties\<close>

text \<open>C27: Formatting an amount and parsing the text back. In satoshis this gives the amount back over
  the whole safe range. In every other unit it gives the amount or one satoshi less, for all
  amounts below \<open>2 ^ 51\<close> satoshis, which is more than the supply of bitcoin.\<close>

theorem amount_text_roundtrip:
  assumes "0 \<le> n"
  shows "(n \<le> MAX_SAFE_SATS \<longrightarrow>
      parseAmountToSatsFromBitcoinDisplayUnit (formatAmountInBitcoinDisplayUnit (Fin (of_int n)) Sat) Sat = n) \<and>
    (n < 2 ^ 51 \<longrightarrow>
      parseAmountToSatsFromBitcoinDisplayUnit (formatAmountInBitcoinDisplayUnit (Fin (of_int n)) unit) unit \<in> {n - 1, n})"
proof (intro conjI impI)
  assume small: "n < 2 ^ 51"
  show "parseAmountToSatsFromBitcoinDisplayUnit (formatAmountInBitcoinDisplayUnit (Fin (of_int n)) unit) unit \<in> {n - 1, n}"
  proof (cases "unit = Sat")
    case True
    then show ?thesis using sat_text_roundtrip[OF assms] small by (simp add: MAX_SAFE_SATS_value)
  next
    case False
    then have "0 < unit_decimals unit" "unit_decimals unit \<le> 8" by (cases unit; simp)+
    with False show ?thesis
      using format_in_unit[OF False assms] parse_in_unit[OF False assms small]
        parse_decimal(2)[OF assms small, of "unit_decimals unit" "10 ^ unit_decimals unit"] small by simp
  qed
qed (rule sat_text_roundtrip[OF assms])

text \<open>The satoshi is really lost: three satoshis are shown as 0.00000003 BTC, and that text is
  parsed as two satoshis, because the product with the number of satoshis per bitcoin is rounded
  below three and then floored.\<close>

theorem amount_text_loses_satoshi:
  "formatAmountInBitcoinDisplayUnit (Fin 3) BTC = ''0.00000003'' \<and>
   parseAmountToSatsFromBitcoinDisplayUnit ''0.00000003'' BTC = 2 \<and>
   parseAmountToSatsFromBitcoinDisplayUnit ''1.001'' Ksat = 1000"
proof (intro conjI)
  have shown: "fixed_digits 8 3 = ''0.00000003''" "fixed_digits 3 1001 = ''1.001''" by code_simp+
  show "formatAmountInBitcoinDisplayUnit (Fin 3) BTC = ''0.00000003''"
    using format_in_unit[of BTC 3] shown by simp
  have "\<lfloor>dbl (dbl (3 / 10 ^ 8) * 10 ^ 8)\<rfloor> = 2" "\<lfloor>dbl (dbl (1001 / 10 ^ 3) * 10 ^ 3)\<rfloor> = 1000" by code_simp+
  then show "parseAmountToSatsFromBitcoinDisplayUnit ''0.00000003'' BTC = 2"
      "parseAmountToSatsFromBitcoinDisplayUnit ''1.001'' Ksat = 1000"
    using parse_in_unit[of BTC 3] parse_in_unit[of Ksat 1001] shown by simp_all
qed

lemma floor_below: "x = of_int \<lfloor>x\<rfloor> \<or> of_int \<lfloor>x\<rfloor> < (x :: rat)"
  using of_int_floor_le[of x] by linarith

text \<open>Whatever the user types, the parsed amount is a safe non-negative integer, and below the
  limit for exact millisatoshis the conversion to them is exact; above it, and for
  fractions, it is refused.\<close>

theorem parsed_amount_bounds:
  "0 \<le> parseAmountToSatsFromBitcoinDisplayUnit s unit \<and>
   parseAmountToSatsFromBitcoinDisplayUnit s unit \<le> MAX_SAFE_SATS \<and>
   0 \<le> parseBTC s \<and> parseBTC s \<le> MAX_SAFE_SATS \<and>
   (case msatsAmountNumberFromSatsExact (Fin x) of
      Inr m \<Rightarrow> m = Fin (x * 1000) \<and> 0 \<le> x \<and> x * 1000 \<le> of_int MAX_SAFE_INTEGER \<and> x = of_int \<lfloor>x\<rfloor>
    | Inl _ \<Rightarrow> x < 0 \<or> x * 1000 > of_int MAX_SAFE_INTEGER \<or> of_int \<lfloor>x\<rfloor> < x)"
  using parse_amount_bounds[of s unit] parseBTC_bounds[of s] msats_exact[of x] floor_below[of x]
  by (auto split: sum.splits)

theorem amount_text_roundtrip_witness:
  "parseAmountToSatsFromBitcoinDisplayUnit (formatAmountInBitcoinDisplayUnit (Fin (of_int 1234)) BTC) BTC \<in> {1233, 1234}"
  using amount_text_roundtrip[of 1234 BTC] by simp

end
