(* ===== verification/Send_Form.thy ===== *)
theory Send_Form
  imports Amounts
begin

text \<open>
  The on-chain part of the send form: validation and eligibility (\<open>lib/wallet/send/\<close>), the
  figures of the review step (\<open>lib/wallet/send-review-summary.ts\<close>), the form's store
  (\<open>stores/sendStore.ts\<close>) and the fee presets (\<open>lib/esplora/esplora-fee-estimates.ts\<close>,
  \<open>lib/wallet/send-fee-preset-definitions.ts\<close>) without the HTTP request.
\<close>

section \<open>Eligibility\<close>

definition isValidSendAmountSats :: "js_number \<Rightarrow> bool" where
  "isValidSendAmountSats amountSats \<longleftrightarrow>
     (case js_integer amountSats of Some n \<Rightarrow> n \<ge> 1 \<and> n \<le> MAX_SAFE_SATS | None \<Rightarrow> False)"

definition isLabWithNoBalance :: "networkMode \<Rightarrow> int option \<Rightarrow> bool" where
  "isLabWithNoBalance mode labBalanceSats \<longleftrightarrow> mode = Lab \<and> (labBalanceSats = Some 0 \<or> labBalanceSats = None)"

record canBuildOnChainSendInput =
  cb_isLightningSendMode :: bool
  cb_isArkadeSendMode :: bool
  cb_isBarkSendMode :: bool
  cb_normalizedRecipient :: string
  cb_networkMode :: networkMode
  cb_amountSats :: int
  cb_confirmedBalance :: int
  cb_isLabWithNoBalance :: bool
  cb_useCustomFee :: bool
  cb_customFeeParsed :: "rat option"

definition canBuildOnChainSend :: "canBuildOnChainSendInput \<Rightarrow> bool" where
  "canBuildOnChainSend i \<longleftrightarrow>
     \<not> cb_isLightningSendMode i \<and>
     \<not> cb_isArkadeSendMode i \<and>
     \<not> cb_isBarkSendMode i \<and>
     length (cb_normalizedRecipient i) > 0 \<and>
     isValidAddress (cb_normalizedRecipient i) (cb_networkMode i) \<and>
     isValidSendAmountSats (Fin (of_int (cb_amountSats i))) \<and>
     cb_amountSats i \<le> cb_confirmedBalance i \<and>
     \<not> cb_isLabWithNoBalance i \<and>
     (\<not> cb_useCustomFee i \<or> cb_customFeeParsed i \<noteq> None)"

definition isUsableBtcSpotPriceInFiat :: "js_number option \<Rightarrow> bool" where
  "isUsableBtcSpotPriceInFiat btcPriceInFiat \<longleftrightarrow>
     (case btcPriceInFiat of Some (Fin x) \<Rightarrow> x > 0 | _ \<Rightarrow> False)"

record isSendFiatRateOkInput =
  fr_mainnetFiatMode :: bool
  fr_isLightningSendMode :: bool
  fr_needsUserLightningAmount :: bool
  fr_btcPriceInFiat :: "js_number option"
  fr_fiatRatesQueryIsError :: bool

definition isSendFiatRateOk :: "isSendFiatRateOkInput \<Rightarrow> bool" where
  "isSendFiatRateOk i \<longleftrightarrow>
     \<not> fr_mainnetFiatMode i \<or>
     (fr_isLightningSendMode i \<and> \<not> fr_needsUserLightningAmount i) \<or>
     (isUsableBtcSpotPriceInFiat (fr_btcPriceInFiat i) \<and> \<not> fr_fiatRatesQueryIsError i)"

record canProceedToSendReviewInput =
  cp_isLightningSendMode :: bool
  cp_isBarkSendMode :: bool
  cp_isArkadeSendMode :: bool
  cp_canBuildLightning :: bool
  cp_canBuildBark :: bool
  cp_canBuildArkade :: bool
  cp_canBuildOnChain :: bool
  cp_fiatRateOk :: bool

definition canProceedToSendReview :: "canProceedToSendReviewInput \<Rightarrow> bool" where
  "canProceedToSendReview i =
     (let canBuild =
        (if cp_isLightningSendMode i then cp_canBuildLightning i
         else if cp_isBarkSendMode i then cp_canBuildBark i
         else if cp_isArkadeSendMode i then cp_canBuildArkade i
         else cp_canBuildOnChain i)
      in canBuild \<and> cp_fiatRateOk i)"

section \<open>Balances and the dust floor\<close>

record balanceInfo =
  confirmedSats :: int
  trustedPendingSats :: int
  untrustedPendingSats :: int
  immatureSats :: int
  bi_totalSats :: int

record sendPageBalances =
  sp_confirmedBalance :: int
  sp_totalBalanceSats :: int

definition computeSendPageBalances :: "networkMode \<Rightarrow> int option \<Rightarrow> balanceInfo option \<Rightarrow> sendPageBalances" where
  "computeSendPageBalances mode labBalanceSats balance =
     (case labBalanceSats of
        Some b \<Rightarrow> if mode = Lab then \<lparr>sp_confirmedBalance = b, sp_totalBalanceSats = b\<rparr>
          else \<lparr>sp_confirmedBalance = case_option 0 confirmedSats balance, sp_totalBalanceSats = case_option 0 bi_totalSats balance\<rparr>
      | None \<Rightarrow> \<lparr>sp_confirmedBalance = case_option 0 confirmedSats balance, sp_totalBalanceSats = case_option 0 bi_totalSats balance\<rparr>)"

record onchainDustWarning =
  previousSats :: int
  isRaisedToMinDust :: bool
  isBumpedChangeFree :: bool

definition resolveLabDraftAmountWithMinDustFloor :: "int \<Rightarrow> int \<Rightarrow> int \<times> onchainDustWarning option" where
  "resolveLabDraftAmountWithMinDustFloor amountSats confirmedBalance =
     (if confirmedBalance \<ge> UX_DUST_FLOOR_SATS \<and> isValidSendAmountSats (Fin (of_int amountSats)) \<and>
         amountSats > 0 \<and> amountSats < UX_DUST_FLOOR_SATS
      then (UX_DUST_FLOOR_SATS,
            Some \<lparr>previousSats = amountSats, isRaisedToMinDust = True, isBumpedChangeFree = False\<rparr>)
      else (amountSats, None))"

definition RAISED_TO_MIN_OUTPUT_WARNING :: string where
  "RAISED_TO_MIN_OUTPUT_WARNING =
     ''Amount was below the minimum output size ('' @ int_str UX_DUST_FLOOR_SATS @
     '' sats). It was increased automatically.''"

definition minOutputSizeRaisedToastMessage :: string where
  "minOutputSizeRaisedToastMessage = RAISED_TO_MIN_OUTPUT_WARNING"

definition onchainDustPrepareWarningLines :: "bool \<Rightarrow> bool \<Rightarrow> string list" where
  "onchainDustPrepareWarningLines raised bumped =
     (if raised then [RAISED_TO_MIN_OUTPUT_WARNING] else []) @
     (if bumped then
        [''Change for this transaction would have been below the dust limit; the amount was increased to make the transfer change-free.'']
      else [])"

section \<open>Review figures\<close>

record reviewInputUtxo =
  ri_address :: string
  ri_amountSats :: int
  ri_txid :: string
  ri_vout :: int

record sendReviewTxSummary =
  rs_feeSats :: int
  rs_changeSats :: int
  rs_inputUtxos :: "reviewInputUtxo list"

record sendReviewDisplayAmountsInput =
  da_amountSats :: int
  da_reviewFeeSats :: "int option"
  da_reviewChangeSats :: "int option"
  da_reviewInputUtxos :: "reviewInputUtxo list option"
  da_spendableBalanceSats :: int
  da_totalBalanceSats :: int

record sendReviewDisplayAmounts =
  totalInputSats :: int
  totalDeductedSats :: int
  amountRemainingSats :: int
  immediatelySpendableRemainingSats :: int
  changeSats :: int

definition computeSendReviewDisplayAmounts :: "sendReviewDisplayAmountsInput \<Rightarrow> sendReviewDisplayAmounts" where
  "computeSendReviewDisplayAmounts i =
     (let inputUtxos = case_option [] id (da_reviewInputUtxos i);
          inputSum = foldl (\<lambda>sum utxo. sum + ri_amountSats utxo) 0 inputUtxos;
          deducted = da_amountSats i + case_option 0 id (da_reviewFeeSats i)
      in \<lparr>totalInputSats = inputSum,
          totalDeductedSats = deducted,
          amountRemainingSats = max 0 (da_totalBalanceSats i - deducted),
          immediatelySpendableRemainingSats = max 0 (da_spendableBalanceSats i - inputSum),
          changeSats = case_option 0 id (da_reviewChangeSats i)\<rparr>)"

section \<open>Fee presets\<close>

datatype sendFeePresetLabel = LowFee | MediumFee | HighFee

fun NON_ESPLORA_FEE_PRESET_RATES_SAT_PER_VB :: "sendFeePresetLabel \<Rightarrow> rat" where
  "NON_ESPLORA_FEE_PRESET_RATES_SAT_PER_VB LowFee = 1 / 2"
| "NON_ESPLORA_FEE_PRESET_RATES_SAT_PER_VB MediumFee = 2"
| "NON_ESPLORA_FEE_PRESET_RATES_SAT_PER_VB HighFee = 10"

fun preset_target_blocks :: "sendFeePresetLabel \<Rightarrow> int" where
  "preset_target_blocks LowFee = 144"
| "preset_target_blocks MediumFee = 6"
| "preset_target_blocks HighFee = 1"

definition MAX_FEE_RATE_SAT_PER_VB :: rat where "MAX_FEE_RATE_SAT_PER_VB = 1000000"

text \<open>A JSON value as far as the parser looks at it: a number or something else.\<close>

definition isValidPositiveFeeRateSatPerVb :: "js_number option \<Rightarrow> bool" where
  "isValidPositiveFeeRateSatPerVb v \<longleftrightarrow> (case v of Some (Fin x) \<Rightarrow> x > 0 | _ \<Rightarrow> False)"

text \<open>The entries of an object in the order of \<open>Object.entries\<close>; \<open>None\<close> is a value that is no object.\<close>

definition parseFeeEstimatesJson :: "(string \<times> js_number option) list option \<Rightarrow> (string \<times> js_number) list" where
  "parseFeeEstimatesJson raw =
     (case raw of
        None \<Rightarrow> []
      | Some entries \<Rightarrow>
          List.map_filter (\<lambda>(key, rate).
            if key \<noteq> [] \<and> list_all is_digit key \<and> isValidPositiveFeeRateSatPerVb rate then
              (case rate of Some (Fin x) \<Rightarrow> Some (key, Fin (min x MAX_FEE_RATE_SAT_PER_VB)) | _ \<Rightarrow> None)
            else None) entries)"

definition usable_pair :: "string \<times> js_number \<Rightarrow> (int \<times> rat) option" where
  "usable_pair entry =
     (case (js_integer (js_to_number (fst entry)), snd entry) of
        (Some targetBlocks, Fin rate) \<Rightarrow>
          if targetBlocks > 0 \<and> isValidPositiveFeeRateSatPerVb (Some (Fin rate)) then Some (targetBlocks, rate) else None
      | _ \<Rightarrow> None)"

definition estimateSatPerVbForTarget :: "(string \<times> js_number) list \<Rightarrow> js_number \<Rightarrow> rat option" where
  "estimateSatPerVbForTarget estimates requested =
     (case js_integer requested of
        None \<Rightarrow> None
      | Some target \<Rightarrow>
          if target < 1 then None
          else
            let pairs = List.map_filter usable_pair estimates
            in if pairs = [] then None
               else case List.find (\<lambda>p. fst p = target) pairs of
                 Some p \<Rightarrow> Some (snd p)
               | None \<Rightarrow>
                   let sorted_pairs = js_sort (\<lambda>a b. of_int (fst a - fst b)) pairs
                   in case List.find (\<lambda>p. fst p \<ge> target) sorted_pairs of
                        Some p \<Rightarrow> Some (snd p)
                      | None \<Rightarrow> Some (snd (last sorted_pairs)))"

definition fallbackPresetRatesSatPerVb :: "sendFeePresetLabel \<Rightarrow> rat" where
  "fallbackPresetRatesSatPerVb label = NON_ESPLORA_FEE_PRESET_RATES_SAT_PER_VB label"

definition pickPresetRatesFromEsploraOrFallback :: "(string \<times> js_number) list option \<Rightarrow> sendFeePresetLabel \<Rightarrow> rat" where
  "pickPresetRatesFromEsploraOrFallback estimates label =
     (case estimates of
        None \<Rightarrow> fallbackPresetRatesSatPerVb label
      | Some es \<Rightarrow>
          if es = [] then fallbackPresetRatesSatPerVb label
          else case estimateSatPerVbForTarget es (Fin (of_int (preset_target_blocks label))) of
            Some rate \<Rightarrow> rate
          | None \<Rightarrow> NON_ESPLORA_FEE_PRESET_RATES_SAT_PER_VB label)"

definition formatSatPerVbTwoDecimals :: "js_number \<Rightarrow> string" where
  "formatSatPerVbTwoDecimals rate =
     (case rate of Fin x \<Rightarrow> if x \<le> 0 then ''?'' else to_fixed 2 rate | _ \<Rightarrow> ''?'')"

section \<open>The store of the form\<close>

record sendState =
  step :: nat
  recipient :: string
  amount :: string
  amountUnit :: bitcoinDisplayUnit
  feePresetSelection :: sendFeePresetLabel
  feeRate :: rat
  customFeeRate :: string
  useCustomFee :: bool
  psbt :: "string option"
  reviewFeeSats :: "int option"
  reviewChangeSats :: "int option"
  reviewInputUtxos :: "reviewInputUtxo list option"
  onchainDust :: "onchainDustWarning option"
  isManualUtxoSelectionActive :: bool

definition initialState :: sendState where
  "initialState =
     \<lparr>step = 1, recipient = [], amount = [], amountUnit = BTC, feePresetSelection = MediumFee,
      feeRate = NON_ESPLORA_FEE_PRESET_RATES_SAT_PER_VB MediumFee, customFeeRate = [], useCustomFee = False,
      psbt = None, reviewFeeSats = None, reviewChangeSats = None, reviewInputUtxos = None,
      onchainDust = None, isManualUtxoSelectionActive = False\<rparr>"

definition setAmount :: "string \<Rightarrow> bool \<Rightarrow> sendState \<Rightarrow> sendState" where
  "setAmount text fromUser s = s\<lparr>amount := text, onchainDust := if fromUser then None else onchainDust s\<rparr>"

definition reset_form :: "bitcoinDisplayUnit \<Rightarrow> sendState \<Rightarrow> sendState" where
  "reset_form defaultBitcoinUnit s = initialState\<lparr>amountUnit := defaultBitcoinUnit\<rparr>"

definition applySendReviewTxSummaryToStore :: "sendReviewTxSummary \<Rightarrow> sendState \<Rightarrow> sendState" where
  "applySendReviewTxSummaryToStore summary s =
     s\<lparr>reviewFeeSats := Some (rs_feeSats summary), reviewChangeSats := Some (rs_changeSats summary),
       reviewInputUtxos := Some (rs_inputUtxos summary)\<rparr>"

definition clearSendReviewTxSummaryFromStore :: "sendState \<Rightarrow> sendState" where
  "clearSendReviewTxSummaryFromStore s = s\<lparr>reviewFeeSats := None, reviewChangeSats := None, reviewInputUtxos := None\<rparr>"

text \<open>The figures shown for a reviewed transaction: the store after the summary was applied.\<close>

definition reviewed_amounts :: "sendState \<Rightarrow> int \<Rightarrow> sendPageBalances \<Rightarrow> sendReviewDisplayAmounts" where
  "reviewed_amounts s amountSats balances =
     computeSendReviewDisplayAmounts
       \<lparr>da_amountSats = amountSats, da_reviewFeeSats = reviewFeeSats s, da_reviewChangeSats = reviewChangeSats s,
        da_reviewInputUtxos = reviewInputUtxos s, da_spendableBalanceSats = sp_confirmedBalance balances,
        da_totalBalanceSats = sp_totalBalanceSats balances\<rparr>"

section \<open>Lemmas\<close>

lemma find_sorted_least:
  assumes "sorted_wrt (\<lambda>a b. f a \<le> f b) xs" and "List.find (\<lambda>x. t \<le> f x) xs = Some p" and "q \<in> set xs" and "t \<le> f q"
  shows "f p \<le> (f q :: int)"
  using assms by (induction xs) (auto split: if_splits)

lemma sorted_pairs:
  "sorted_wrt (\<lambda>a b. fst a \<le> fst b) (js_sort (\<lambda>a b. of_int (fst a - fst b)) (pairs :: (int \<times> rat) list))"
proof -
  have cons: "consistent_cmp (\<lambda>a b :: int \<times> rat. of_int (fst a - fst b) :: rat)"
    by (auto simp: consistent_cmp_def simp flip: of_int_diff)
  have eq: "(\<lambda>a b :: int \<times> rat. of_int (fst a - fst b) \<le> (0 :: rat)) = (\<lambda>a b. fst a \<le> fst b)"
    by (intro ext) (simp flip: of_int_diff)
  show ?thesis using sorted_js_sort[OF cons, of pairs] unfolding eq .
qed

lemma sorted_last_greatest:
  "sorted_wrt (\<lambda>a b. f a \<le> f b) xs \<Longrightarrow> q \<in> set xs \<Longrightarrow> f q \<le> (f (last xs) :: int)"
  by (induction xs) (auto split: if_splits)

lemma estimate_choice:
  assumes "estimateSatPerVbForTarget estimates (Fin (of_int target)) = Some rate"
  obtains b where "(b, rate) \<in> set (List.map_filter usable_pair estimates)"
    and "\<And>b' r'. (b', r') \<in> set (List.map_filter usable_pair estimates) \<Longrightarrow>
      b = target \<or> (target \<le> b \<and> (target \<le> b' \<longrightarrow> b \<le> b')) \<or> (b' < target \<and> b' \<le> b)"
proof -
  let ?ps = "List.map_filter usable_pair estimates"
  let ?ss = "js_sort (\<lambda>a b. of_int (fst a - fst b)) ?ps"
  have sorted: "sorted_wrt (\<lambda>a b. fst a \<le> fst b) ?ss" by (rule sorted_pairs)
  have ne: "?ps \<noteq> []" using assms by (auto simp: estimateSatPerVbForTarget_def split: if_splits)
  show ?thesis
  proof (cases "List.find (\<lambda>p. fst p = target) ?ps")
    case (Some p)
    then have "p \<in> set ?ps" "fst p = target" using find_Some_iff_mem[OF Some] by auto
    moreover have "rate = snd p" using assms Some ne by (auto simp: estimateSatPerVbForTarget_def split: if_splits)
    ultimately show ?thesis using that[of target] by (metis prod.collapse)
  next
    case None
    show ?thesis
    proof (cases "List.find (\<lambda>p. target \<le> fst p) ?ss")
      case (Some p)
      then have "p \<in> set ?ss" "target \<le> fst p" using find_Some_iff_mem[OF Some] by auto
      moreover have "rate = snd p"
        using assms Some None ne by (auto simp: estimateSatPerVbForTarget_def Let_def split: if_splits)
      moreover have "fst p \<le> b'" if "(b', r') \<in> set ?ps" "target \<le> b'" for b' r'
        using find_sorted_least[OF sorted Some, of "(b', r')"] that by simp
      ultimately show ?thesis using that[of "fst p"] by (metis prod.collapse set_js_sort)
    next
      case none: None
      have "?ss \<noteq> []" using ne by (metis length_0_conv length_js_sort)
      then have "last ?ss \<in> set ?ps" by (metis last_in_set set_js_sort)
      moreover have "rate = snd (last ?ss)"
        using assms none None ne by (auto simp: estimateSatPerVbForTarget_def Let_def split: if_splits)
      moreover have "b' < target \<and> b' \<le> fst (last ?ss)" if "(b', r') \<in> set ?ps" for b' r'
        using none that sorted_last_greatest[OF sorted, of "(b', r')"] by (auto simp: find_None_all not_le)
      ultimately show ?thesis using that[of "fst (last ?ss)"] by (metis prod.collapse)
    qed
  qed
qed

lemma usable_pairD: "usable_pair e = Some (b, r) \<Longrightarrow> snd e = Fin r \<and> 0 < b \<and> 0 < r"
  by (auto simp: usable_pair_def isValidPositiveFeeRateSatPerVb_def split: option.splits js_number.splits if_splits)

lemma parsed_rate_limit: "(key, Fin r) \<in> set (parseFeeEstimatesJson raw) \<Longrightarrow> r \<le> MAX_FEE_RATE_SAT_PER_VB"
  by (auto simp: parseFeeEstimatesJson_def mem_map_filter split: option.splits js_number.splits if_splits)

lemma usable_pair_parsed:
  assumes "(b, r) \<in> set (List.map_filter usable_pair (parseFeeEstimatesJson raw))"
  shows "0 < r \<and> r \<le> MAX_FEE_RATE_SAT_PER_VB"
proof -
  obtain e where e: "e \<in> set (parseFeeEstimatesJson raw)" "usable_pair e = Some (b, r)"
    using assms by (auto simp: mem_map_filter)
  then show ?thesis using usable_pairD[OF e(2)] parsed_rate_limit[of "fst e" r raw] by (metis prod.collapse)
qed

lemma foldl_add_sum: "foldl (\<lambda>sum u. sum + f u) (a :: int) us = a + sum_list (map f us)"
  by (induction us arbitrary: a) auto

section \<open>Properties\<close>

text \<open>C28: When the form lets the user continue with the amount typed, the amount of the lab
  draft is payable: at least one satoshi, at most the confirmed balance, never below the amount
  typed, and below the dust floor only when the whole balance is; the warning is shown exactly
  when the amount was raised, and it remembers the amount typed.\<close>

theorem send_draft_payable:
  assumes "canBuildOnChainSend i" and "cb_amountSats i = parseAmountToSatsFromBitcoinDisplayUnit typed unit"
    and "resolveLabDraftAmountWithMinDustFloor (cb_amountSats i) (cb_confirmedBalance i) = (draft, warning)"
  shows "1 \<le> draft \<and> draft \<le> cb_confirmedBalance i \<and> cb_amountSats i \<le> draft \<and>
    (draft < UX_DUST_FLOOR_SATS \<longrightarrow> cb_confirmedBalance i < UX_DUST_FLOOR_SATS) \<and>
    (case warning of None \<Rightarrow> draft = cb_amountSats i
     | Some w \<Rightarrow> draft = UX_DUST_FLOOR_SATS \<and> previousSats w = cb_amountSats i \<and> cb_amountSats i < draft)"
  using assms
  by (auto simp: canBuildOnChainSend_def isValidSendAmountSats_def resolveLabDraftAmountWithMinDustFloor_def
      UX_DUST_FLOOR_SATS_def split: if_splits)

text \<open>Fee presets from an Esplora answer: every rate is positive and at most the limit of the crypto
  module or a fallback rate; and a rate that comes from the answer belongs to the requested
  target if the answer has it, else to the least target above it, else to the greatest.\<close>

theorem fee_estimate_nearest_target:
  assumes "estimateSatPerVbForTarget (parseFeeEstimatesJson raw) (Fin (of_int target)) = Some rate"
  shows "0 < rate \<and> rate \<le> MAX_FEE_RATE_SAT_PER_VB \<and>
    (\<exists>b. (b, rate) \<in> set (List.map_filter usable_pair (parseFeeEstimatesJson raw)) \<and>
      (\<forall>(b', r') \<in> set (List.map_filter usable_pair (parseFeeEstimatesJson raw)).
         b = target \<or> (target \<le> b \<and> (target \<le> b' \<longrightarrow> b \<le> b')) \<or> (b' < target \<and> b' \<le> b)))"
  by (rule estimate_choice[OF assms], use usable_pair_parsed in blast)

text \<open>The figures of the review step agree with a balanced transaction: inputs equal to payment,
  fee and change, and within the balances. What stays spendable at once plus the change is the
  confirmed balance less payment and fee, and nothing is cut off at zero.\<close>

theorem review_figures_consistent:
  assumes "sum_list (map ri_amountSats (rs_inputUtxos summary)) = amountSats + rs_feeSats summary + rs_changeSats summary"
    and "sum_list (map ri_amountSats (rs_inputUtxos summary)) \<le> sp_confirmedBalance balances"
    and "sp_confirmedBalance balances \<le> sp_totalBalanceSats balances" and "0 \<le> rs_changeSats summary"
    and "figures = reviewed_amounts (applySendReviewTxSummaryToStore summary s) amountSats balances"
  shows "immediatelySpendableRemainingSats figures + changeSats figures =
      sp_confirmedBalance balances - amountSats - rs_feeSats summary \<and>
    amountRemainingSats figures = sp_totalBalanceSats balances - totalDeductedSats figures \<and>
    totalInputSats figures = totalDeductedSats figures + changeSats figures"
  using assms
  by (simp add: reviewed_amounts_def applySendReviewTxSummaryToStore_def computeSendReviewDisplayAmounts_def
      foldl_add_sum Let_def)

definition sample_send_input :: canBuildOnChainSendInput where
  "sample_send_input = \<lparr>cb_isLightningSendMode = False, cb_isArkadeSendMode = False, cb_isBarkSendMode = False,
     cb_normalizedRecipient = ''bcrt1qabc'', cb_networkMode = Lab, cb_amountSats = 100, cb_confirmedBalance = 5000,
     cb_isLabWithNoBalance = False, cb_useCustomFee = False, cb_customFeeParsed = None\<rparr>"

theorem send_draft_payable_witness:
  "100 \<le> (546 :: int) \<and> resolveLabDraftAmountWithMinDustFloor 100 5000 =
     (546, Some \<lparr>previousSats = 100, isRaisedToMinDust = True, isBumpedChangeFree = False\<rparr>)"
proof -
  let ?w = "\<lparr>previousSats = 100, isRaisedToMinDust = True, isBumpedChangeFree = False\<rparr>"
  have amount: "isValidSendAmountSats (Fin (of_int 100))"
    unfolding isValidSendAmountSats_def js_integer_of_int by (simp add: MAX_SAFE_SATS_value)
  have draft: "resolveLabDraftAmountWithMinDustFloor 100 5000 = (546, Some ?w)"
    using amount by (simp add: resolveLabDraftAmountWithMinDustFloor_def UX_DUST_FLOOR_SATS_def)
  have typed: "parseAmountToSatsFromBitcoinDisplayUnit (formatAmountInBitcoinDisplayUnit (Fin (of_int 100)) Sat) Sat = 100"
    by (rule sat_text_roundtrip) (simp_all add: MAX_SAFE_SATS_value)
  have "canBuildOnChainSend sample_send_input"
    using amount by (simp add: canBuildOnChainSend_def sample_send_input_def isValidAddress_def starts_with_def)
  then have "cb_amountSats sample_send_input \<le> 546"
    using send_draft_payable[of sample_send_input "formatAmountInBitcoinDisplayUnit (Fin (of_int 100)) Sat" Sat 546 "Some ?w"]
      typed draft by (simp add: sample_send_input_def)
  with draft show ?thesis by (simp add: sample_send_input_def)
qed

theorem fee_estimate_nearest_target_witness:
  "0 < (7 :: rat) \<and> estimateSatPerVbForTarget (parseFeeEstimatesJson (Some [(''10'', Some (Fin 7))])) (Fin (of_int 6)) = Some 7"
proof -
  have "estimateSatPerVbForTarget (parseFeeEstimatesJson (Some [(''10'', Some (Fin 7))])) (Fin (of_int 6)) = Some 7"
    by code_simp
  from fee_estimate_nearest_target[OF this] this show ?thesis by simp
qed

theorem review_figures_consistent_witness:
  "immediatelySpendableRemainingSats
     (reviewed_amounts
       (applySendReviewTxSummaryToStore
         \<lparr>rs_feeSats = 10, rs_changeSats = 390, rs_inputUtxos = [\<lparr>ri_address = [], ri_amountSats = 1000, ri_txid = [], ri_vout = 0\<rparr>]\<rparr>
         initialState) 600 \<lparr>sp_confirmedBalance = 3000, sp_totalBalanceSats = 3500\<rparr>) + 390 = 2390"
  using review_figures_consistent[of
      "\<lparr>rs_feeSats = 10, rs_changeSats = 390, rs_inputUtxos = [\<lparr>ri_address = [], ri_amountSats = 1000, ri_txid = [], ri_vout = 0\<rparr>]\<rparr>"
      600 "\<lparr>sp_confirmedBalance = 3000, sp_totalBalanceSats = 3500\<rparr>", OF _ _ _ _ refl, of initialState]
  by (simp add: reviewed_amounts_def computeSendReviewDisplayAmounts_def applySendReviewTxSummaryToStore_def)

end
