(* ===== verification/Exit_Machine.thy ===== *)
theory Exit_Machine
  imports Amounts
begin

text \<open>
  The unilateral exit of an Arkade wallet: the state machine of
  \<open>lib/wallet/lifecycle/unilateral-exit/unilateral-exit.machine.ts\<close> with the guards and actions of
  \<open>unilateral-exit-machine-setup.ts\<close>, the child machines of \<open>vtxo-exit.machine.ts\<close>, the progress
  predicates of \<open>lib/arkade/unilateral-exit-broadcast.ts\<close> and \<open>unilateral-exit-branch-complete.ts\<close>,
  and the stores of the persisted job and failure.

  The machine is a declarative configuration for XState. It is read the way XState documents it:
  the first transition whose guard holds is taken; its actions run in order, then the entry actions
  of the target, then the target's actor is started; leaving a state stops its actor, so that the
  done and error events of an actor are only seen in the state that started it. A delayed
  transition is an event that may come at any time. What the actions do outside the machine
  (starting actors, toasts, cache invalidation, scheduled writes) is recorded in a log.
\<close>

section \<open>Data\<close>

record arkadeWalletScope =
  walletId :: int
  scopeNetworkMode :: networkMode
  arkadeAccountId :: string

fun network_name :: "networkMode \<Rightarrow> string" where
  "network_name Lab = ''lab''"
| "network_name Regtest = ''regtest''"
| "network_name Signet = ''signet''"
| "network_name Mutinynet = ''mutinynet''"
| "network_name Testnet = ''testnet''"
| "network_name Mainnet = ''mainnet''"

definition arkadeWalletScopeKey :: "arkadeWalletScope \<Rightarrow> string" where
  "arkadeWalletScopeKey scope =
     int_str (walletId scope) @ '':'' @ network_name (scopeNetworkMode scope) @ '':'' @ arkadeAccountId scope"

record arkadeVtxoOutpoint =
  vo_txid :: string
  vo_vout :: int

definition arkadeVtxoOutpointsEqual :: "arkadeVtxoOutpoint \<Rightarrow> arkadeVtxoOutpoint \<Rightarrow> bool" where
  "arkadeVtxoOutpointsEqual l r \<longleftrightarrow> vo_txid l = vo_txid r \<and> vo_vout l = vo_vout r"

definition arkadeVtxoOutpointListsEqual :: "arkadeVtxoOutpoint list \<Rightarrow> arkadeVtxoOutpoint list \<Rightarrow> bool" where
  "arkadeVtxoOutpointListsEqual l r \<longleftrightarrow> length l = length r \<and> list_all (\<lambda>(a, b). arkadeVtxoOutpointsEqual a b) (zip l r)"

definition sortArkadeVtxoOutpoints ::
  "(string \<Rightarrow> string \<Rightarrow> rat) \<Rightarrow> arkadeVtxoOutpoint list \<Rightarrow> arkadeVtxoOutpoint list" where
  "sortArkadeVtxoOutpoints lc outpoints =
     js_sort (\<lambda>l r. if lc (vo_txid l) (vo_txid r) \<noteq> 0 then lc (vo_txid l) (vo_txid r)
                    else of_int (vo_vout l - vo_vout r)) outpoints"

fun join_with :: "string \<Rightarrow> string list \<Rightarrow> string" where
  "join_with sep [] = []"
| "join_with sep [x] = x"
| "join_with sep (x # y # xs) = x @ sep @ join_with sep (y # xs)"

definition arkadeVtxoOutpointCacheKey ::
  "(string \<Rightarrow> string \<Rightarrow> rat) \<Rightarrow> arkadeVtxoOutpoint list \<Rightarrow> string" where
  "arkadeVtxoOutpointCacheKey lc outpoints =
     join_with '','' (map (\<lambda>p. vo_txid p @ '':'' @ int_str (vo_vout p)) (sortArkadeVtxoOutpoints lc outpoints))"

datatype exitPhaseKind = PhaseIdle | PhaseWaiting | PhaseComplete

datatype exitNodeStatusKind = NodePending | NodeInProgress | NodeConfirmed

record exitNodeStatus =
  ns_txid :: string
  ns_confirmations :: int
  ns_status :: exitNodeStatusKind

record exitLeafStatus =
  ls_txid :: string
  ls_vout :: int
  ls_confirmations :: int
  ls_isUnrolled :: bool

record exitProgress =
  stepIndex :: int
  totalSteps :: int
  xp_phase :: exitPhaseKind
  currentStepWaitingSince :: "int option"
  currentStepTxRelayed :: bool
  nodeStatuses :: "exitNodeStatus list"
  leafStatuses :: "exitLeafStatus list"

datatype exitViabilityStatus = ViabilityOk | AspSweptTargets | BranchFundingLost

record exitJobViability =
  vi_status :: exitViabilityStatus
  vi_reasonCode :: string
  vi_detailMessage :: "string option"
  vi_offendingOutpoints :: "arkadeVtxoOutpoint list"

datatype exitPausedReason = FeeCapExceeded | BumperInsufficient | PausedByError | UserDisabled

record exitPolicyEvaluation =
  pe_feeRateSatPerVb :: rat
  pe_pausedReason :: "exitPausedReason option"

text \<open>What an actor can be rejected with: a message, whether it is an \<open>Error\<close> object, and the two
  optional properties of \<open>ParentUnconfirmedPackageError\<close>.\<close>

record exitError =
  er_isError :: bool
  er_message :: string
  er_rewoundProgress :: "exitProgress option"
  er_retryableUnconfirmedParent :: "bool option"

datatype exitSettleResult = SettleBranchComplete | SettleWaitingConfirm | SettlePaused | SettleError | SettleTerminated

record unconfirmedParentRetry =
  up_stepIndex :: int
  up_parentConfirmationsAtFail :: int

record exitContext =
  cx_walletScope :: "arkadeWalletScope option"
  cx_jobOutpoints :: "arkadeVtxoOutpoint list"
  cx_progress :: "exitProgress option"
  cx_automationEnabled :: bool
  cx_pausedReason :: "exitPausedReason option"
  cx_lastErrorMessage :: "string option"
  cx_lastSettleResult :: "exitSettleResult option"
  cx_feeRateSatPerVb :: "rat option"
  cx_proceedRequested :: bool
  cx_proceedTargetStepIndex :: "int option"
  cx_progressRefreshRequested :: bool
  cx_unconfirmedParentRetry :: "unconfirmedParentRetry option"
  cx_pollDelayMs :: int
  cx_parentDataWaitMs :: int
  cx_reconcileInProgressSats :: int
  cx_reconcileInProgressOutpoints :: "arkadeVtxoOutpoint list"

definition UNILATERAL_EXIT_AUTOMATION_WAIT_POLL_MS :: int where "UNILATERAL_EXIT_AUTOMATION_WAIT_POLL_MS = 15000"
definition UNILATERAL_EXIT_PARENT_DATA_WAIT_MS :: int where "UNILATERAL_EXIT_PARENT_DATA_WAIT_MS = 15000"
definition UNILATERAL_EXIT_AUTOMATION_WAIT_POLL_MS_REGTEST :: int where
  "UNILATERAL_EXIT_AUTOMATION_WAIT_POLL_MS_REGTEST = 2000"

definition unilateralExitAutomationWaitPollMs :: "networkMode \<Rightarrow> int" where
  "unilateralExitAutomationWaitPollMs mode =
     (if mode = Regtest then UNILATERAL_EXIT_AUTOMATION_WAIT_POLL_MS_REGTEST else UNILATERAL_EXIT_AUTOMATION_WAIT_POLL_MS)"

definition createInitialUnilateralExitContext :: "int option \<Rightarrow> int option \<Rightarrow> exitContext" where
  "createInitialUnilateralExitContext pollDelay parentWait =
     \<lparr>cx_walletScope = None, cx_jobOutpoints = [], cx_progress = None, cx_automationEnabled = False,
      cx_pausedReason = None, cx_lastErrorMessage = None, cx_lastSettleResult = None, cx_feeRateSatPerVb = None,
      cx_proceedRequested = False, cx_proceedTargetStepIndex = None, cx_progressRefreshRequested = False,
      cx_unconfirmedParentRetry = None,
      cx_pollDelayMs = case_option UNILATERAL_EXIT_AUTOMATION_WAIT_POLL_MS_REGTEST id pollDelay,
      cx_parentDataWaitMs = case_option UNILATERAL_EXIT_PARENT_DATA_WAIT_MS id parentWait,
      cx_reconcileInProgressSats = 0, cx_reconcileInProgressOutpoints = []\<rparr>"

section \<open>Progress of the branch\<close>

definition isUnilateralExitBranchComplete :: "exitProgress \<Rightarrow> bool" where
  "isUnilateralExitBranchComplete p \<longleftrightarrow>
     xp_phase p = PhaseComplete \<and> totalSteps p \<noteq> 0 \<and>
     list_all (\<lambda>node. ns_status node = NodeConfirmed) (nodeStatuses p)"

definition isUnilateralExitJobComplete :: "exitProgress \<Rightarrow> bool" where
  "isUnilateralExitJobComplete p = isUnilateralExitBranchComplete p"

definition isCurrentStepRelayed :: "exitProgress \<Rightarrow> bool" where
  "isCurrentStepRelayed p \<longleftrightarrow> currentStepTxRelayed p \<or> currentStepWaitingSince p \<noteq> None"

definition needsBroadcastEnsurance :: "exitProgress \<Rightarrow> bool" where
  "needsBroadcastEnsurance p \<longleftrightarrow> \<not> isUnilateralExitBranchComplete p \<and> \<not> isCurrentStepRelayed p"

definition isWaitingForRelayedStepConfirmation :: "exitProgress \<Rightarrow> bool" where
  "isWaitingForRelayedStepConfirmation p \<longleftrightarrow>
     \<not> isUnilateralExitBranchComplete p \<and> isCurrentStepRelayed p \<and>
     (xp_phase p = PhaseWaiting \<or> currentStepWaitingSince p \<noteq> None)"

definition contains_text :: "string \<Rightarrow> string \<Rightarrow> bool" where
  "contains_text part s \<longleftrightarrow> (\<exists>i \<in> set [0..<Suc (length s)]. starts_with part (drop i s))"

definition isPackageNotChildWithUnconfirmedParentsError :: "exitError \<Rightarrow> bool" where
  "isPackageNotChildWithUnconfirmedParentsError e =
     contains_text ''package-not-child-with-unconfirmed-parents'' (js_lower (er_message e))"

definition isInsufficientConfirmedBumperFundsError :: "exitError \<Rightarrow> bool" where
  "isInsufficientConfirmedBumperFundsError e = contains_text ''insufficient confirmed funds'' (js_lower (er_message e))"

definition UNCONFIRMED_PARENT_PACKAGE_RETRY_MESSAGE :: string where
  "UNCONFIRMED_PARENT_PACKAGE_RETRY_MESSAGE =
     ''Previous unroll step is not confirmed on-chain yet. Wait for a confirmation, then proceed again.''"

definition isRetryableUnconfirmedParentPackageError :: "exitError \<Rightarrow> bool" where
  "isRetryableUnconfirmedParentPackageError e \<longleftrightarrow>
     isPackageNotChildWithUnconfirmedParentsError e \<or> isInsufficientConfirmedBumperFundsError e \<or>
     (er_isError e \<and> (er_message e = UNCONFIRMED_PARENT_PACKAGE_RETRY_MESSAGE \<or> er_retryableUnconfirmedParent e = Some True))"

definition rewoundProgressFromPackageError :: "exitError \<Rightarrow> exitProgress option" where
  "rewoundProgressFromPackageError e = (if er_isError e then er_rewoundProgress e else None)"

definition parentConfirmationsForStep :: "exitProgress option \<Rightarrow> int \<Rightarrow> int" where
  "parentConfirmationsForStep progress i =
     (case progress of
        None \<Rightarrow> 0
      | Some p \<Rightarrow> if i \<le> 0 then 0
          else if nat (i - 1) < length (nodeStatuses p) then ns_confirmations (nodeStatuses p ! nat (i - 1)) else 0)"

definition unconfirmedParentRetryFromProgress :: "exitProgress option \<Rightarrow> unconfirmedParentRetry option" where
  "unconfirmedParentRetryFromProgress progress =
     (case progress of
        None \<Rightarrow> None
      | Some p \<Rightarrow> Some \<lparr>up_stepIndex = stepIndex p, up_parentConfirmationsAtFail = parentConfirmationsForStep progress (stepIndex p)\<rparr>)"

definition stepIndexAdvancedPastContext :: "exitProgress option \<Rightarrow> exitProgress \<Rightarrow> bool" where
  "stepIndexAdvancedPastContext previous nxt = (case previous of None \<Rightarrow> False | Some p \<Rightarrow> stepIndex nxt > stepIndex p)"

definition relayWaitUnixFromProgress :: "exitProgress \<Rightarrow> int option" where
  "relayWaitUnixFromProgress p = currentStepWaitingSince p"

section \<open>Persisted job and failure\<close>

record persistedExitJob =
  pj_selectedLeafOutpoints :: "arkadeVtxoOutpoint list"
  pj_currentStepRelayedSinceUnix :: "int option"
  pj_jobStartedAtUnix :: "int option"

datatype exitFailureReasonCode = FailAspSweptTargets | FailBranchFundingLost | FailUserAborted

record persistedExitFailure =
  pf_selectedLeafOutpoints :: "arkadeVtxoOutpoint list"
  pf_jobStartedAtUnix :: int
  pf_detectedAtUnix :: int
  pf_reasonCode :: exitFailureReasonCode
  pf_detailMessage :: string
  pf_vtxoIds :: "string list"

definition emptyPersistedUnilateralExitJob :: persistedExitJob where
  "emptyPersistedUnilateralExitJob =
     \<lparr>pj_selectedLeafOutpoints = [], pj_currentStepRelayedSinceUnix = None, pj_jobStartedAtUnix = None\<rparr>"

definition newActivePersistedJob :: "int \<Rightarrow> arkadeVtxoOutpoint list \<Rightarrow> persistedExitJob" where
  "newActivePersistedJob now outpoints =
     \<lparr>pj_selectedLeafOutpoints = outpoints, pj_currentStepRelayedSinceUnix = None, pj_jobStartedAtUnix = Some now\<rparr>"

definition persistedJobOutpointsUnchanged ::
  "(string \<Rightarrow> string \<Rightarrow> rat) \<Rightarrow> persistedExitJob \<Rightarrow> arkadeVtxoOutpoint list \<Rightarrow> bool" where
  "persistedJobOutpointsUnchanged lc current outpoints \<longleftrightarrow>
     length (pj_selectedLeafOutpoints current) > 0 \<and>
     arkadeVtxoOutpointCacheKey lc (pj_selectedLeafOutpoints current) = arkadeVtxoOutpointCacheKey lc outpoints"

record legacyPersistedJob =
  lj_selectedLeafOutpoints :: "arkadeVtxoOutpoint list option"
  lj_currentStepRelayedSinceUnix :: "int option"
  lj_jobStartedAtUnix :: "int option"
  lj_jobActive :: "bool option"
  lj_suppressHydrateResume :: "bool option"

definition migratePersistedUnilateralExitJob :: "legacyPersistedJob \<Rightarrow> persistedExitJob" where
  "migratePersistedUnilateralExitJob job =
     (let outpoints = case_option [] id (lj_selectedLeafOutpoints job)
      in if lj_jobActive job = Some False \<or> lj_suppressHydrateResume job = Some True \<or> outpoints = []
         then emptyPersistedUnilateralExitJob
         else \<lparr>pj_selectedLeafOutpoints = outpoints,
               pj_currentStepRelayedSinceUnix = lj_currentStepRelayedSinceUnix job,
               pj_jobStartedAtUnix = lj_jobStartedAtUnix job\<rparr>)"

section \<open>The child machine of one VTXO\<close>

datatype vtxoExitPhase =
  Tagged | HostBroadcastAttempted | HostRelayed | HostConfirmed | Unrolled | CompleteReady | Exited | FundingLost

definition ARKADE_VTXO_EXIT_PHASES :: "vtxoExitPhase list" where
  "ARKADE_VTXO_EXIT_PHASES =
     [Tagged, HostBroadcastAttempted, HostRelayed, HostConfirmed, Unrolled, CompleteReady, Exited, FundingLost]"

record vtxoExitRecord =
  vr_txid :: string
  vr_vout :: int
  vr_amountSats :: int
  vr_phase :: vtxoExitPhase
  vr_taggedAt :: int

datatype vtxoExitState = Routing | InPhase vtxoExitPhase | ChildIdle

record vtxoExitMachine =
  vx_state :: vtxoExitState
  vx_context :: vtxoExitRecord

datatype vtxoExitEvent =
  HYDRATE vtxoExitPhase | HOST_REGISTERED | HOST_RELAYED | HOST_CONFIRMED | UNROLLED | COMPLETE_READY | EXITED
  | FUNDING_LOST | UNTAG

text \<open>Started from a record: the routing state leaves at once for the state of the context's phase.\<close>

definition start_vtxo_exit :: "vtxoExitRecord \<Rightarrow> vtxoExitMachine" where
  "start_vtxo_exit input =
     (case List.find (\<lambda>phase. vr_phase input = phase) ARKADE_VTXO_EXIT_PHASES of
        Some phase \<Rightarrow> \<lparr>vx_state = InPhase phase, vx_context = input\<rparr>
      | None \<Rightarrow> \<lparr>vx_state = Routing, vx_context = input\<rparr>)"

definition vtxo_goto :: "vtxoExitPhase \<Rightarrow> vtxoExitMachine \<Rightarrow> vtxoExitMachine" where
  "vtxo_goto phase m = m\<lparr>vx_state := InPhase phase, vx_context := (vx_context m)\<lparr>vr_phase := phase\<rparr>\<rparr>"

fun vtxo_exit_step :: "vtxoExitEvent \<Rightarrow> vtxoExitMachine \<Rightarrow> vtxoExitMachine" where
  "vtxo_exit_step (HYDRATE phase) m =
     (case List.find (\<lambda>p. phase = p) ARKADE_VTXO_EXIT_PHASES of Some p \<Rightarrow> vtxo_goto p m | None \<Rightarrow> m)"
| "vtxo_exit_step HOST_REGISTERED m = vtxo_goto HostBroadcastAttempted m"
| "vtxo_exit_step HOST_RELAYED m = vtxo_goto HostRelayed m"
| "vtxo_exit_step HOST_CONFIRMED m = vtxo_goto HostConfirmed m"
| "vtxo_exit_step UNROLLED m = vtxo_goto Unrolled m"
| "vtxo_exit_step COMPLETE_READY m = vtxo_goto CompleteReady m"
| "vtxo_exit_step EXITED m = vtxo_goto Exited m"
| "vtxo_exit_step FUNDING_LOST m = vtxo_goto FundingLost m"
| "vtxo_exit_step UNTAG m = (if vx_state m = InPhase Tagged then m\<lparr>vx_state := ChildIdle\<rparr> else m)"

definition vtxoExitPhaseFromMachineState :: "vtxoExitState \<Rightarrow> vtxoExitPhase option" where
  "vtxoExitPhaseFromMachineState s = (case s of InPhase p \<Rightarrow> Some p | _ \<Rightarrow> None)"

definition vtxoExitOutpointKey :: "string \<Rightarrow> int \<Rightarrow> string" where
  "vtxoExitOutpointKey txid vout = txid @ '':'' @ int_str vout"

definition VTXO_EXIT_CHILD_ID_PREFIX :: string where "VTXO_EXIT_CHILD_ID_PREFIX = ''vtxoExit:''"

definition vtxoExitChildId :: "string \<Rightarrow> int \<Rightarrow> string" where
  "vtxoExitChildId txid vout = VTXO_EXIT_CHILD_ID_PREFIX @ vtxoExitOutpointKey txid vout"

section \<open>The world of the machine\<close>

datatype exitState =
  NotConfigured | Idle | TaggingPlan | CheckingProgress | LoadingProgress | EvaluatingPolicy | Proceeding
  | EnsuringBroadcast | WaitingConfirm | WaitingForParentData | Paused | Complete | Terminated | Aborted | ErrorState

datatype exitEffect =
  InvokeTagPlan arkadeWalletScope "arkadeVtxoOutpoint list"
  | InvokeEvaluateJobViability "arkadeVtxoOutpoint list"
  | InvokeFetchProgress "arkadeWalletScope option" "arkadeVtxoOutpoint list"
  | InvokeEvaluateAutomationPolicy arkadeWalletScope "arkadeVtxoOutpoint list"
  | InvokeProceedStep arkadeWalletScope "arkadeVtxoOutpoint list" rat
  | InvokeEnsureBroadcast arkadeWalletScope "arkadeVtxoOutpoint list" "rat option" bool
  | InvokeResolveAbortVtxoIds "arkadeVtxoOutpoint list"
  | ScheduleJobSdkWrite arkadeWalletScope
  | ScheduleFailureSdkWrite arkadeWalletScope
  | InvalidateQueries arkadeWalletScope "arkadeVtxoOutpoint list"
  | ToastSuccess string
  | ToastError string

record exitWorld =
  xw_state :: exitState
  xw_context :: exitContext
  xw_jobsByKey :: "persistedExitJob js_record"
  xw_failuresByKey :: "persistedExitFailure js_record"
  xw_children :: "vtxoExitMachine js_record"
  xw_log :: "exitEffect list"

text \<open>The string comparison of the locale, the text the user sees for an error value, and the one
  for an optional message.\<close>

record exitEnv =
  xe_localeCompare :: "string \<Rightarrow> string \<Rightarrow> rat"
  xe_userFacingErrorMessage :: "exitError \<Rightarrow> string"
  xe_userFacingText :: "string option \<Rightarrow> string"

datatype exitEvent =
  WALLET_CONFIGURED arkadeWalletScope
  | HYDRATE_OR_START arkadeWalletScope "arkadeVtxoOutpoint list" "bool option" "bool option" "int option"
      "arkadeVtxoOutpoint list option"
  | START_MANUAL arkadeWalletScope "arkadeVtxoOutpoint list" rat
  | START_AUTOMATIC arkadeWalletScope "arkadeVtxoOutpoint list"
  | PROCEED_MANUAL rat
  | POLL_TICK
  | RESUME
  | CLEAR_JOB
  | ABORT_ORCHESTRATION "arkadeVtxoOutpoint list"
  | ARKADE_SESSION_RESET
  | AUTOMATION_PREFS_CHANGED bool
  | HYDRATE_VTXO_RECORDS "vtxoExitRecord list"
  | AFTER_DELAY
  | DONE_TAG_PLAN | DONE_VIABILITY exitJobViability | DONE_FETCH exitProgress | DONE_POLICY exitPolicyEvaluation
  | DONE_PROCEED exitProgress | DONE_ENSURE exitProgress | DONE_ABORT_IDS "string list"
  | ERROR_TAG_PLAN exitError | ERROR_VIABILITY exitError | ERROR_FETCH exitError | ERROR_POLICY exitError
  | ERROR_PROCEED exitError | ERROR_ENSURE exitError | ERROR_ABORT_IDS exitError

definition emit :: "exitEffect \<Rightarrow> exitWorld \<Rightarrow> exitWorld" where
  "emit e w = w\<lparr>xw_log := xw_log w @ [e]\<rparr>"

definition upd_context :: "(exitContext \<Rightarrow> exitContext) \<Rightarrow> exitWorld \<Rightarrow> exitWorld" where
  "upd_context f w = w\<lparr>xw_context := f (xw_context w)\<rparr>"

section \<open>Store operations\<close>

definition getPersistedUnilateralExitJob :: "arkadeWalletScope \<Rightarrow> exitWorld \<Rightarrow> persistedExitJob" where
  "getPersistedUnilateralExitJob scope w =
     case_option emptyPersistedUnilateralExitJob id (rec_get (xw_jobsByKey w) (arkadeWalletScopeKey scope))"

definition updateJob :: "arkadeWalletScope \<Rightarrow> (persistedExitJob \<Rightarrow> persistedExitJob) \<Rightarrow> exitWorld \<Rightarrow> exitWorld" where
  "updateJob scope updater w =
     w\<lparr>xw_jobsByKey := rec_set (arkadeWalletScopeKey scope) (updater (getPersistedUnilateralExitJob scope w)) (xw_jobsByKey w)\<rparr>"

definition setActiveJob :: "exitEnv \<Rightarrow> int \<Rightarrow> arkadeWalletScope \<Rightarrow> arkadeVtxoOutpoint list \<Rightarrow> exitWorld \<Rightarrow> exitWorld" where
  "setActiveJob env now scope outpoints w =
     updateJob scope (\<lambda>_. newActivePersistedJob now (sortArkadeVtxoOutpoints (xe_localeCompare env) outpoints)) w"

definition ensureActiveJob :: "exitEnv \<Rightarrow> int \<Rightarrow> arkadeWalletScope \<Rightarrow> arkadeVtxoOutpoint list \<Rightarrow> exitWorld \<Rightarrow> exitWorld" where
  "ensureActiveJob env now scope outpoints w =
     (let sorted_outpoints = sortArkadeVtxoOutpoints (xe_localeCompare env) outpoints
      in if persistedJobOutpointsUnchanged (xe_localeCompare env) (getPersistedUnilateralExitJob scope w) sorted_outpoints then w
         else updateJob scope (\<lambda>_. newActivePersistedJob now sorted_outpoints) w)"

definition persistActiveUnilateralExitJob ::
  "exitEnv \<Rightarrow> int \<Rightarrow> arkadeWalletScope \<Rightarrow> arkadeVtxoOutpoint list \<Rightarrow> exitWorld \<Rightarrow> exitWorld" where
  "persistActiveUnilateralExitJob env now scope outpoints w =
     emit (ScheduleJobSdkWrite scope) (setActiveJob env now scope outpoints w)"

definition ensurePersistedUnilateralExitJob ::
  "exitEnv \<Rightarrow> int \<Rightarrow> arkadeWalletScope \<Rightarrow> arkadeVtxoOutpoint list \<Rightarrow> exitWorld \<Rightarrow> exitWorld" where
  "ensurePersistedUnilateralExitJob env now scope outpoints w =
     (let jobBefore = getPersistedUnilateralExitJob scope w;
          w' = ensureActiveJob env now scope outpoints w;
          jobAfter = getPersistedUnilateralExitJob scope w'
      in if pj_jobStartedAtUnix jobBefore \<noteq> pj_jobStartedAtUnix jobAfter \<or>
            pj_currentStepRelayedSinceUnix jobBefore \<noteq> pj_currentStepRelayedSinceUnix jobAfter \<or>
            arkadeVtxoOutpointCacheKey (xe_localeCompare env) (pj_selectedLeafOutpoints jobBefore) \<noteq>
              arkadeVtxoOutpointCacheKey (xe_localeCompare env) (pj_selectedLeafOutpoints jobAfter)
         then emit (ScheduleJobSdkWrite scope) w' else w')"

definition updatePersistedUnilateralExitRelayWait :: "arkadeWalletScope \<Rightarrow> int option \<Rightarrow> exitWorld \<Rightarrow> exitWorld" where
  "updatePersistedUnilateralExitRelayWait scope sinceUnix w =
     (if pj_currentStepRelayedSinceUnix (getPersistedUnilateralExitJob scope w) = sinceUnix then w
      else emit (ScheduleJobSdkWrite scope)
             (updateJob scope (\<lambda>job. job\<lparr>pj_currentStepRelayedSinceUnix := sinceUnix\<rparr>) w))"

definition clearPersistedUnilateralExitJob :: "arkadeWalletScope \<Rightarrow> exitWorld \<Rightarrow> exitWorld" where
  "clearPersistedUnilateralExitJob scope w =
     emit (ScheduleJobSdkWrite scope) (updateJob scope (\<lambda>_. emptyPersistedUnilateralExitJob) w)"

definition hydrateJob :: "arkadeWalletScope \<Rightarrow> persistedExitJob \<Rightarrow> exitWorld \<Rightarrow> exitWorld" where
  "hydrateJob scope job w = w\<lparr>xw_jobsByKey := rec_set (arkadeWalletScopeKey scope) job (xw_jobsByKey w)\<rparr>"

definition getPersistedUnilateralExitFailure :: "arkadeWalletScope \<Rightarrow> exitWorld \<Rightarrow> persistedExitFailure option" where
  "getPersistedUnilateralExitFailure scope w = rec_get (xw_failuresByKey w) (arkadeWalletScopeKey scope)"

definition hydrateFailure :: "arkadeWalletScope \<Rightarrow> persistedExitFailure option \<Rightarrow> exitWorld \<Rightarrow> exitWorld" where
  "hydrateFailure scope failure w =
     w\<lparr>xw_failuresByKey :=
        (case failure of None \<Rightarrow> rec_delete (arkadeWalletScopeKey scope) (xw_failuresByKey w)
         | Some f \<Rightarrow> rec_set (arkadeWalletScopeKey scope) f (xw_failuresByKey w))\<rparr>"

definition persistUnilateralExitFailureRecord ::
  "exitEnv \<Rightarrow> arkadeWalletScope \<Rightarrow> persistedExitFailure \<Rightarrow> exitWorld \<Rightarrow> exitWorld" where
  "persistUnilateralExitFailureRecord env scope failure w =
     emit (ScheduleFailureSdkWrite scope)
       (w\<lparr>xw_failuresByKey :=
          rec_set (arkadeWalletScopeKey scope)
            (failure\<lparr>pf_selectedLeafOutpoints :=
               sortArkadeVtxoOutpoints (xe_localeCompare env) (pf_selectedLeafOutpoints failure)\<rparr>)
            (xw_failuresByKey w)\<rparr>)"

definition clearPersistedUnilateralExitFailure :: "arkadeWalletScope \<Rightarrow> exitWorld \<Rightarrow> exitWorld" where
  "clearPersistedUnilateralExitFailure scope w =
     emit (ScheduleFailureSdkWrite scope) (hydrateFailure scope None w)"

definition clear_scope :: "arkadeWalletScope \<Rightarrow> exitWorld \<Rightarrow> exitWorld" where
  "clear_scope scope w =
     w\<lparr>xw_jobsByKey := rec_delete (arkadeWalletScopeKey scope) (xw_jobsByKey w),
       xw_failuresByKey := rec_delete (arkadeWalletScopeKey scope) (xw_failuresByKey w)\<rparr>"

definition buildPersistedUnilateralExitFailure ::
  "int \<Rightarrow> arkadeVtxoOutpoint list \<Rightarrow> int \<Rightarrow> exitFailureReasonCode \<Rightarrow> string \<Rightarrow> string list option \<Rightarrow> persistedExitFailure" where
  "buildPersistedUnilateralExitFailure now outpoints startedAt reason detail vtxoIds =
     \<lparr>pf_selectedLeafOutpoints = outpoints, pf_jobStartedAtUnix = startedAt, pf_detectedAtUnix = now,
      pf_reasonCode = reason, pf_detailMessage = detail, pf_vtxoIds = case_option [] id vtxoIds\<rparr>"

section \<open>Guards\<close>

definition needsBroadcastFromFetchEvent :: "exitContext \<Rightarrow> exitProgress \<Rightarrow> bool" where
  "needsBroadcastFromFetchEvent c output =
     (if \<not> needsBroadcastEnsurance output then False
      else if cx_automationEnabled c then True
      else if \<not> cx_proceedRequested c \<or> cx_feeRateSatPerVb c = None then False
      else case cx_proceedTargetStepIndex c of None \<Rightarrow> True | Some i \<Rightarrow> stepIndex output = i)"

definition needsBroadcastBeforeEnsureBroadcast :: "exitContext \<Rightarrow> exitProgress \<Rightarrow> bool" where
  "needsBroadcastBeforeEnsureBroadcast c output \<longleftrightarrow>
     needsBroadcastEnsurance output \<and> cx_automationEnabled c \<and> cx_feeRateSatPerVb c = None"

definition isUnconfirmedParentRetryProgressRefresh :: "exitContext \<Rightarrow> bool" where
  "isUnconfirmedParentRetryProgressRefresh c \<longleftrightarrow> cx_unconfirmedParentRetry c \<noteq> None \<and> cx_progressRefreshRequested c"

definition manualProceedTargetMismatch :: "exitContext \<Rightarrow> exitProgress \<Rightarrow> bool" where
  "manualProceedTargetMismatch c output \<longleftrightarrow>
     \<not> cx_automationEnabled c \<and> cx_proceedRequested c \<and>
     (case cx_proceedTargetStepIndex c of None \<Rightarrow> False | Some i \<Rightarrow> stepIndex output \<noteq> i)"

definition manualFetchStepIndexAdvanced :: "exitContext \<Rightarrow> exitProgress \<Rightarrow> bool" where
  "manualFetchStepIndexAdvanced c output \<longleftrightarrow>
     \<not> cx_automationEnabled c \<and> \<not> cx_proceedRequested c \<and> stepIndexAdvancedPastContext (cx_progress c) output"

definition hasActiveManualJob :: "exitContext \<Rightarrow> bool" where
  "hasActiveManualJob c \<longleftrightarrow> \<not> cx_automationEnabled c \<and> length (cx_jobOutpoints c) > 0 \<and> cx_progress c \<noteq> None"

definition hasActiveAutomaticJob :: "exitContext \<Rightarrow> bool" where
  "hasActiveAutomaticJob c \<longleftrightarrow>
     cx_automationEnabled c \<and> cx_pausedReason c = None \<and> length (cx_jobOutpoints c) > 0 \<and>
     (case cx_progress c of None \<Rightarrow> False | Some p \<Rightarrow> \<not> isUnilateralExitJobComplete p)"

definition shouldWaitAfterEnsureBroadcast :: "exitContext \<Rightarrow> exitProgress \<Rightarrow> bool" where
  "shouldWaitAfterEnsureBroadcast c output \<longleftrightarrow>
     isWaitingForRelayedStepConfirmation output \<and>
     (cx_automationEnabled c \<or> \<not> stepIndexAdvancedPastContext (cx_progress c) output)"

definition shouldContinueAutomationAfterEnsureBroadcast :: "exitContext \<Rightarrow> exitProgress \<Rightarrow> bool" where
  "shouldContinueAutomationAfterEnsureBroadcast c output \<longleftrightarrow>
     cx_automationEnabled c \<and> cx_pausedReason c = None \<and> \<not> isUnilateralExitJobComplete output \<and>
     \<not> isWaitingForRelayedStepConfirmation output"

definition shouldRunAutomationPolicyFromEvent :: "exitContext \<Rightarrow> exitProgress \<Rightarrow> bool" where
  "shouldRunAutomationPolicyFromEvent c output \<longleftrightarrow>
     cx_automationEnabled c \<and> cx_proceedRequested c \<and> cx_pausedReason c = None \<and>
     xp_phase output = PhaseIdle \<and> \<not> needsBroadcastEnsurance output"

definition shouldProceedNowFromEvent :: "exitContext \<Rightarrow> exitProgress \<Rightarrow> bool" where
  "shouldProceedNowFromEvent c output \<longleftrightarrow>
     cx_proceedRequested c \<and> cx_feeRateSatPerVb c \<noteq> None \<and> xp_phase output = PhaseIdle \<and>
     \<not> needsBroadcastEnsurance output"

definition isTerminalViabilityStatus :: "exitJobViability \<Rightarrow> bool" where
  "isTerminalViabilityStatus v \<longleftrightarrow> vi_status v = AspSweptTargets \<or> vi_status v = BranchFundingLost"

definition persistedJobMatchesContextOutpoints :: "exitWorld \<Rightarrow> bool" where
  "persistedJobMatchesContextOutpoints w =
     (case cx_walletScope (xw_context w) of
        None \<Rightarrow> False
      | Some scope \<Rightarrow>
          length (cx_jobOutpoints (xw_context w)) \<noteq> 0 \<and>
          arkadeVtxoOutpointListsEqual (pj_selectedLeafOutpoints (getPersistedUnilateralExitJob scope w))
            (cx_jobOutpoints (xw_context w)))"

section \<open>Actions\<close>

definition assignWalletScope :: "arkadeWalletScope \<Rightarrow> exitWorld \<Rightarrow> exitWorld" where
  "assignWalletScope scope = upd_context (\<lambda>c. c\<lparr>cx_walletScope := Some scope,
     cx_pollDelayMs := unilateralExitAutomationWaitPollMs (scopeNetworkMode scope)\<rparr>)"

definition assignStartManual :: "exitEnv \<Rightarrow> arkadeWalletScope \<Rightarrow> arkadeVtxoOutpoint list \<Rightarrow> rat \<Rightarrow> exitWorld \<Rightarrow> exitWorld" where
  "assignStartManual env scope outpoints fee = upd_context (\<lambda>c. c\<lparr>cx_walletScope := Some scope,
     cx_jobOutpoints := sortArkadeVtxoOutpoints (xe_localeCompare env) outpoints, cx_proceedRequested := True,
     cx_proceedTargetStepIndex := None, cx_progressRefreshRequested := False, cx_unconfirmedParentRetry := None,
     cx_feeRateSatPerVb := Some fee, cx_pausedReason := None, cx_lastErrorMessage := None,
     cx_lastSettleResult := None, cx_progress := None\<rparr>)"

definition assignStartAutomatic :: "exitEnv \<Rightarrow> arkadeWalletScope \<Rightarrow> arkadeVtxoOutpoint list \<Rightarrow> exitWorld \<Rightarrow> exitWorld" where
  "assignStartAutomatic env scope outpoints = upd_context (\<lambda>c. c\<lparr>cx_walletScope := Some scope,
     cx_jobOutpoints := sortArkadeVtxoOutpoints (xe_localeCompare env) outpoints, cx_automationEnabled := True,
     cx_proceedRequested := True, cx_proceedTargetStepIndex := None, cx_progressRefreshRequested := False,
     cx_unconfirmedParentRetry := None, cx_feeRateSatPerVb := None, cx_pausedReason := None,
     cx_lastErrorMessage := None, cx_lastSettleResult := None, cx_progress := None\<rparr>)"

definition assignHydrate ::
  "exitEnv \<Rightarrow> arkadeWalletScope \<Rightarrow> arkadeVtxoOutpoint list \<Rightarrow> bool option \<Rightarrow> bool option \<Rightarrow> int option \<Rightarrow>
   arkadeVtxoOutpoint list option \<Rightarrow> exitWorld \<Rightarrow> exitWorld" where
  "assignHydrate env scope eventOutpoints automation resume sats inProgress = upd_context (\<lambda>c.
     let outpoints = sortArkadeVtxoOutpoints (xe_localeCompare env) eventOutpoints;
         enabled = case_option False id automation;
         resumeAutomation = case_option False id resume;
         keepExistingProgress = (cx_progress c \<noteq> None \<and> arkadeVtxoOutpointListsEqual (cx_jobOutpoints c) outpoints)
     in c\<lparr>cx_walletScope := Some scope, cx_jobOutpoints := outpoints, cx_automationEnabled := enabled,
          cx_proceedRequested := resumeAutomation \<and> enabled, cx_proceedTargetStepIndex := None,
          cx_progressRefreshRequested := False, cx_unconfirmedParentRetry := None,
          cx_feeRateSatPerVb := (if enabled then None else cx_feeRateSatPerVb c),
          cx_progress := (if keepExistingProgress then cx_progress c else None), cx_pausedReason := None,
          cx_lastErrorMessage := None, cx_lastSettleResult := None,
          cx_reconcileInProgressSats := case_option 0 id sats,
          cx_reconcileInProgressOutpoints := case_option [] id inProgress\<rparr>)"

definition persistActiveJobFromContext :: "exitEnv \<Rightarrow> int \<Rightarrow> exitWorld \<Rightarrow> exitWorld" where
  "persistActiveJobFromContext env now w =
     (case cx_walletScope (xw_context w) of
        None \<Rightarrow> w
      | Some scope \<Rightarrow> persistActiveUnilateralExitJob env now scope (cx_jobOutpoints (xw_context w)) w)"

definition ensurePersistedJobFromContext :: "exitEnv \<Rightarrow> int \<Rightarrow> exitWorld \<Rightarrow> exitWorld" where
  "ensurePersistedJobFromContext env now w =
     (case cx_walletScope (xw_context w) of
        None \<Rightarrow> w
      | Some scope \<Rightarrow> ensurePersistedUnilateralExitJob env now scope (cx_jobOutpoints (xw_context w)) w)"

text \<open>\<open>userFacingLifecycleErrorMessage\<close>: the fallback stands in for an empty text.\<close>

definition actorErrorMessage :: "exitEnv \<Rightarrow> exitError \<Rightarrow> string \<Rightarrow> string" where
  "actorErrorMessage env e fallback =
     (if xe_userFacingErrorMessage env e = [] then fallback else xe_userFacingErrorMessage env e)"

definition assignErrorFromTagPlan :: "exitEnv \<Rightarrow> exitError \<Rightarrow> exitWorld \<Rightarrow> exitWorld" where
  "assignErrorFromTagPlan env e = upd_context (\<lambda>c. c\<lparr>
     cx_lastErrorMessage := Some (actorErrorMessage env e ''Failed to lock VTXOs for unilateral exit.''),
     cx_proceedRequested := False\<rparr>)"

definition assignProceedManual :: "rat \<Rightarrow> exitWorld \<Rightarrow> exitWorld" where
  "assignProceedManual fee = upd_context (\<lambda>c. c\<lparr>cx_proceedRequested := True,
     cx_proceedTargetStepIndex := map_option stepIndex (cx_progress c), cx_progressRefreshRequested := False,
     cx_feeRateSatPerVb := Some fee, cx_pausedReason := None, cx_lastErrorMessage := None,
     cx_lastSettleResult := None\<rparr>)"

definition assignProgressFromFetch :: "exitProgress \<Rightarrow> exitWorld \<Rightarrow> exitWorld" where
  "assignProgressFromFetch output = upd_context (\<lambda>c. c\<lparr>cx_progress := Some output,
     cx_unconfirmedParentRetry :=
       (case cx_unconfirmedParentRetry c of None \<Rightarrow> None
        | Some retry \<Rightarrow> if stepIndex output \<noteq> up_stepIndex retry then None else Some retry)\<rparr>)"

definition assignProgressAfterBroadcast :: "exitProgress \<Rightarrow> exitWorld \<Rightarrow> exitWorld" where
  "assignProgressAfterBroadcast output = upd_context (\<lambda>c. c\<lparr>cx_progress := Some output, cx_unconfirmedParentRetry := None\<rparr>)"

definition assignFeeFromPolicy :: "exitPolicyEvaluation \<Rightarrow> exitWorld \<Rightarrow> exitWorld" where
  "assignFeeFromPolicy p = upd_context (\<lambda>c. c\<lparr>cx_feeRateSatPerVb := Some (pe_feeRateSatPerVb p)\<rparr>)"

definition assignPausedFromPolicy :: "exitPolicyEvaluation \<Rightarrow> exitWorld \<Rightarrow> exitWorld" where
  "assignPausedFromPolicy p = upd_context (\<lambda>c. c\<lparr>cx_pausedReason := pe_pausedReason p, cx_proceedRequested := False\<rparr>)"

definition assignPausedUnknownPolicy :: "exitWorld \<Rightarrow> exitWorld" where
  "assignPausedUnknownPolicy = upd_context (\<lambda>c. c\<lparr>cx_pausedReason := Some PausedByError,
     cx_lastErrorMessage := Some ''Policy check failed.'', cx_proceedRequested := False\<rparr>)"

definition assignAutomationPrefs :: "bool \<Rightarrow> exitWorld \<Rightarrow> exitWorld" where
  "assignAutomationPrefs enabled = upd_context (\<lambda>c. c\<lparr>cx_automationEnabled := enabled, cx_pausedReason := None,
     cx_lastErrorMessage := None, cx_feeRateSatPerVb := (if enabled then None else cx_feeRateSatPerVb c),
     cx_proceedRequested := (if enabled then length (cx_jobOutpoints c) > 0 else False)\<rparr>)"

definition assignResume :: "exitWorld \<Rightarrow> exitWorld" where
  "assignResume = upd_context (\<lambda>c. c\<lparr>cx_pausedReason := None, cx_lastErrorMessage := None,
     cx_lastSettleResult := None, cx_proceedRequested := cx_automationEnabled c\<rparr>)"

definition resumeAutomationProceed :: "exitWorld \<Rightarrow> exitWorld" where
  "resumeAutomationProceed = upd_context (\<lambda>c. c\<lparr>
     cx_proceedRequested := (if cx_unconfirmedParentRetry c \<noteq> None then False else cx_automationEnabled c),
     cx_proceedTargetStepIndex :=
       (if cx_unconfirmedParentRetry c \<noteq> None then cx_proceedTargetStepIndex c
        else if cx_automationEnabled c then cx_proceedTargetStepIndex c else None),
     cx_progressRefreshRequested := False\<rparr>)"

definition assignProceedForUnconfirmedParentRetry :: "exitWorld \<Rightarrow> exitWorld" where
  "assignProceedForUnconfirmedParentRetry = upd_context (\<lambda>c. c\<lparr>cx_proceedRequested := True,
     cx_proceedTargetStepIndex :=
       (case cx_unconfirmedParentRetry c of Some retry \<Rightarrow> Some (up_stepIndex retry)
        | None \<Rightarrow> map_option stepIndex (cx_progress c))\<rparr>)"

definition assignProgressRefresh :: "exitWorld \<Rightarrow> exitWorld" where
  "assignProgressRefresh = upd_context (\<lambda>c. c\<lparr>cx_progressRefreshRequested := True, cx_proceedRequested := False,
     cx_proceedTargetStepIndex := None\<rparr>)"

definition clearProgressRefresh :: "exitWorld \<Rightarrow> exitWorld" where
  "clearProgressRefresh = upd_context (\<lambda>c. c\<lparr>cx_progressRefreshRequested := False\<rparr>)"

definition clearProceedRequested :: "exitWorld \<Rightarrow> exitWorld" where
  "clearProceedRequested = upd_context (\<lambda>c. c\<lparr>cx_proceedRequested := False, cx_proceedTargetStepIndex := None,
     cx_progressRefreshRequested := False\<rparr>)"

definition clearJobActorContext :: "exitWorld \<Rightarrow> exitWorld" where
  "clearJobActorContext = upd_context (\<lambda>c. c\<lparr>cx_jobOutpoints := [], cx_progress := None, cx_proceedRequested := False,
     cx_proceedTargetStepIndex := None, cx_progressRefreshRequested := False, cx_unconfirmedParentRetry := None,
     cx_feeRateSatPerVb := None, cx_pausedReason := None, cx_lastErrorMessage := None,
     cx_reconcileInProgressSats := 0, cx_reconcileInProgressOutpoints := []\<rparr>)"

definition assignSettleResult :: "exitSettleResult \<Rightarrow> exitWorld \<Rightarrow> exitWorld" where
  "assignSettleResult r = upd_context (\<lambda>c. c\<lparr>cx_lastSettleResult := Some r\<rparr>)"

definition assignSettleResultTerminated :: "exitJobViability \<Rightarrow> exitWorld \<Rightarrow> exitWorld" where
  "assignSettleResultTerminated v = upd_context (\<lambda>c. c\<lparr>cx_lastSettleResult := Some SettleTerminated,
     cx_lastErrorMessage :=
       Some (case vi_detailMessage v of
               Some m \<Rightarrow> if m = [] then ''Unilateral exit was terminated.'' else m
             | None \<Rightarrow> ''Unilateral exit was terminated.'')\<rparr>)"

definition notifyTerminated :: "exitEnv \<Rightarrow> exitWorld \<Rightarrow> exitWorld" where
  "notifyTerminated env w =
     emit (ToastError (let shown = xe_userFacingText env (cx_lastErrorMessage (xw_context w))
                       in if shown = [] then ''Unilateral exit was terminated.'' else shown)) w"

definition syncVtxoExitChildren :: "vtxoExitRecord list \<Rightarrow> exitWorld \<Rightarrow> exitWorld" where
  "syncVtxoExitChildren records w =
     (let desired = filter (\<lambda>r. vr_phase r \<noteq> Exited) records;
          idOf = (\<lambda>r. vtxoExitChildId (vr_txid r) (vr_vout r));
          existing = map fst (xw_children w);
          kept = filter (\<lambda>(k, _). k \<in> set (map idOf desired)) (xw_children w)
      in w\<lparr>xw_children :=
            fold (\<lambda>r cs.
              let spawned = (if idOf r \<in> set existing then cs else rec_set (idOf r) (start_vtxo_exit r) cs)
              in case rec_get spawned (idOf r) of
                   None \<Rightarrow> spawned
                 | Some child \<Rightarrow> rec_set (idOf r) (vtxo_exit_step (HYDRATE (vr_phase r)) child) spawned) desired kept\<rparr>)"

definition clearPersistedJob :: "exitWorld \<Rightarrow> exitWorld" where
  "clearPersistedJob w =
     (case cx_walletScope (xw_context w) of None \<Rightarrow> w | Some scope \<Rightarrow> clearPersistedUnilateralExitJob scope w)"

definition syncPersistedRelayWait :: "exitProgress \<Rightarrow> exitWorld \<Rightarrow> exitWorld" where
  "syncPersistedRelayWait progress w =
     (case cx_walletScope (xw_context w) of
        None \<Rightarrow> w
      | Some scope \<Rightarrow> updatePersistedUnilateralExitRelayWait scope (relayWaitUnixFromProgress progress) w)"

definition rewound_or_current :: "exitError \<Rightarrow> exitContext \<Rightarrow> exitProgress option" where
  "rewound_or_current e c = (case rewoundProgressFromPackageError e of Some p \<Rightarrow> Some p | None \<Rightarrow> cx_progress c)"

definition assignErrorFromBroadcast :: "exitEnv \<Rightarrow> exitError \<Rightarrow> string \<Rightarrow> exitWorld \<Rightarrow> exitWorld" where
  "assignErrorFromBroadcast env e fallback = upd_context (\<lambda>c. c\<lparr>
     cx_lastErrorMessage := Some (actorErrorMessage env e fallback), cx_proceedRequested := False,
     cx_progress := rewound_or_current e c\<rparr>)"

definition assignUnconfirmedParentRetry :: "exitError \<Rightarrow> exitWorld \<Rightarrow> exitWorld" where
  "assignUnconfirmedParentRetry e = upd_context (\<lambda>c. c\<lparr>cx_lastErrorMessage := None, cx_proceedRequested := False,
     cx_progress := rewound_or_current e c,
     cx_unconfirmedParentRetry := unconfirmedParentRetryFromProgress (rewound_or_current e c)\<rparr>)"

definition assignErrorFromFetch :: "exitEnv \<Rightarrow> exitError \<Rightarrow> exitWorld \<Rightarrow> exitWorld" where
  "assignErrorFromFetch env e = upd_context (\<lambda>c. c\<lparr>
     cx_lastErrorMessage := Some (actorErrorMessage env e ''Failed to load unilateral exit progress.'')\<rparr>)"

definition assignPolicyError :: "exitEnv \<Rightarrow> exitError \<Rightarrow> exitWorld \<Rightarrow> exitWorld" where
  "assignPolicyError env e = upd_context (\<lambda>c. c\<lparr>cx_pausedReason := Some PausedByError,
     cx_lastErrorMessage := Some (actorErrorMessage env e ''Policy check failed.''), cx_proceedRequested := False\<rparr>)"

definition assignAutomationBroadcastFailure :: "exitEnv \<Rightarrow> exitError \<Rightarrow> exitWorld \<Rightarrow> exitWorld" where
  "assignAutomationBroadcastFailure env e = upd_context (\<lambda>c. c\<lparr>cx_pausedReason := Some PausedByError,
     cx_proceedRequested := False, cx_lastErrorMessage := Some (actorErrorMessage env e ''Unroll step failed.'')\<rparr>)"

definition assignErrorFromViability :: "exitEnv \<Rightarrow> exitError \<Rightarrow> exitWorld \<Rightarrow> exitWorld" where
  "assignErrorFromViability env e = upd_context (\<lambda>c. c\<lparr>
     cx_lastErrorMessage := Some (actorErrorMessage env e ''Failed to evaluate unilateral exit job viability.''),
     cx_proceedRequested := False\<rparr>)"

definition viability_reason :: "exitJobViability \<Rightarrow> exitFailureReasonCode option" where
  "viability_reason v =
     (if vi_reasonCode v = ''asp_swept_targets'' then Some FailAspSweptTargets
      else if vi_reasonCode v = ''branch_funding_lost'' then Some FailBranchFundingLost else None)"

definition persistUnilateralExitFailureFromViability :: "exitEnv \<Rightarrow> int \<Rightarrow> exitJobViability \<Rightarrow> exitWorld \<Rightarrow> exitWorld" where
  "persistUnilateralExitFailureFromViability env now v w =
     (case (cx_walletScope (xw_context w), viability_reason v) of
        (Some scope, Some reason) \<Rightarrow>
          if isTerminalViabilityStatus v
          then persistUnilateralExitFailureRecord env scope
                 (buildPersistedUnilateralExitFailure now (cx_jobOutpoints (xw_context w))
                   (case_option now id (pj_jobStartedAtUnix (getPersistedUnilateralExitJob scope w)))
                   reason (case_option [] id (vi_detailMessage v)) None) w
          else w
      | _ \<Rightarrow> w)"

definition persistAbortedUnilateralExitFailure :: "exitEnv \<Rightarrow> int \<Rightarrow> exitWorld \<Rightarrow> exitWorld" where
  "persistAbortedUnilateralExitFailure env now w =
     (case cx_walletScope (xw_context w) of
        None \<Rightarrow> w
      | Some scope \<Rightarrow>
          persistUnilateralExitFailureRecord env scope
            (buildPersistedUnilateralExitFailure now (cx_jobOutpoints (xw_context w))
              (case_option now id (pj_jobStartedAtUnix (getPersistedUnilateralExitJob scope w)))
              FailUserAborted [] (Some [])) w)"

definition patchAbortedFailureVtxoIds :: "exitEnv \<Rightarrow> string list \<Rightarrow> exitWorld \<Rightarrow> exitWorld" where
  "patchAbortedFailureVtxoIds env ids w =
     (case cx_walletScope (xw_context w) of
        None \<Rightarrow> w
      | Some scope \<Rightarrow>
          (case getPersistedUnilateralExitFailure scope w of
             None \<Rightarrow> w
           | Some failure \<Rightarrow>
               if pf_reasonCode failure \<noteq> FailUserAborted then w
               else persistUnilateralExitFailureRecord env scope (failure\<lparr>pf_vtxoIds := ids\<rparr>) w))"

definition stageAbortedJobOutpoints :: "exitEnv \<Rightarrow> arkadeVtxoOutpoint list \<Rightarrow> exitWorld \<Rightarrow> exitWorld" where
  "stageAbortedJobOutpoints env resolved = upd_context (\<lambda>c.
     if length (cx_jobOutpoints c) > 0 \<or> resolved = [] then c
     else c\<lparr>cx_jobOutpoints := sortArkadeVtxoOutpoints (xe_localeCompare env) resolved\<rparr>)"

definition invalidateUnilateralExitQueriesOnTerminate :: "exitWorld \<Rightarrow> exitWorld" where
  "invalidateUnilateralExitQueriesOnTerminate w =
     (case cx_walletScope (xw_context w) of
        None \<Rightarrow> w
      | Some scope \<Rightarrow>
          if cx_jobOutpoints (xw_context w) = [] then w else emit (InvalidateQueries scope (cx_jobOutpoints (xw_context w))) w)"

definition clearTerminatedProceedRequested :: "exitWorld \<Rightarrow> exitWorld" where
  "clearTerminatedProceedRequested = upd_context (\<lambda>c. c\<lparr>cx_proceedRequested := False\<rparr>)"

definition isVtxoExitChildId :: "string \<Rightarrow> bool" where
  "isVtxoExitChildId actorId = starts_with VTXO_EXIT_CHILD_ID_PREFIX actorId"

definition stopAllVtxoExitChildren :: "exitWorld \<Rightarrow> exitWorld" where
  "stopAllVtxoExitChildren w = w\<lparr>xw_children := filter (\<lambda>(k, _). \<not> isVtxoExitChildId k) (xw_children w)\<rparr>"

definition resetToNotConfigured :: "exitWorld \<Rightarrow> exitWorld" where
  "resetToNotConfigured w = upd_context (\<lambda>_. createInitialUnilateralExitContext None None) (stopAllVtxoExitChildren w)"

section \<open>Entering a state\<close>

definition requireUnilateralExitWalletScope :: "arkadeWalletScope option \<Rightarrow> string + arkadeWalletScope" where
  "requireUnilateralExitWalletScope s =
     (case s of None \<Rightarrow> Inl ''Unilateral exit requires a configured wallet scope'' | Some scope \<Rightarrow> Inr scope)"

definition requireUnilateralExitFeeRateSatPerVb :: "rat option \<Rightarrow> string + rat" where
  "requireUnilateralExitFeeRateSatPerVb fee =
     (case fee of None \<Rightarrow> Inl ''Fee rate is required to proceed with a unilateral exit step'' | Some f \<Rightarrow> Inr f)"

definition in_state :: "exitState \<Rightarrow> exitWorld \<Rightarrow> exitWorld" where
  "in_state s w = w\<lparr>xw_state := s\<rparr>"

text \<open>Entry actions and the start of the actor, whose input is computed first and may throw.\<close>

definition enter_taggingPlan :: "exitWorld \<Rightarrow> string + exitWorld" where
  "enter_taggingPlan w =
     (case requireUnilateralExitWalletScope (cx_walletScope (xw_context w)) of
        Inl e \<Rightarrow> Inl e
      | Inr scope \<Rightarrow> Inr (emit (InvokeTagPlan scope (cx_jobOutpoints (xw_context w))) (in_state TaggingPlan w)))"

definition enter_checkingProgress :: "exitWorld \<Rightarrow> string + exitWorld" where
  "enter_checkingProgress w =
     Inr (emit (InvokeEvaluateJobViability (cx_jobOutpoints (xw_context w))) (in_state CheckingProgress w))"

definition enter_loadingProgress :: "exitWorld \<Rightarrow> string + exitWorld" where
  "enter_loadingProgress w =
     Inr (emit (InvokeFetchProgress (cx_walletScope (xw_context w)) (cx_jobOutpoints (xw_context w)))
            (in_state LoadingProgress w))"

definition enter_evaluatingPolicy :: "exitWorld \<Rightarrow> string + exitWorld" where
  "enter_evaluatingPolicy w =
     (case requireUnilateralExitWalletScope (cx_walletScope (xw_context w)) of
        Inl e \<Rightarrow> Inl e
      | Inr scope \<Rightarrow>
          Inr (emit (InvokeEvaluateAutomationPolicy scope (cx_jobOutpoints (xw_context w))) (in_state EvaluatingPolicy w)))"

definition enter_proceeding :: "exitWorld \<Rightarrow> string + exitWorld" where
  "enter_proceeding w =
     (case requireUnilateralExitWalletScope (cx_walletScope (xw_context w)) of
        Inl e \<Rightarrow> Inl e
      | Inr scope \<Rightarrow>
          (case requireUnilateralExitFeeRateSatPerVb (cx_feeRateSatPerVb (xw_context w)) of
             Inl e \<Rightarrow> Inl e
           | Inr fee \<Rightarrow> Inr (emit (InvokeProceedStep scope (cx_jobOutpoints (xw_context w)) fee) (in_state Proceeding w))))"

definition enter_ensuringBroadcast :: "exitWorld \<Rightarrow> string + exitWorld" where
  "enter_ensuringBroadcast w =
     (case requireUnilateralExitWalletScope (cx_walletScope (xw_context w)) of
        Inl e \<Rightarrow> Inl e
      | Inr scope \<Rightarrow>
          Inr (emit (InvokeEnsureBroadcast scope (cx_jobOutpoints (xw_context w)) (cx_feeRateSatPerVb (xw_context w))
                 (cx_automationEnabled (xw_context w))) (in_state EnsuringBroadcast w)))"

definition enter_waitingConfirm :: "exitWorld \<Rightarrow> string + exitWorld" where
  "enter_waitingConfirm w = Inr (assignSettleResult SettleWaitingConfirm (in_state WaitingConfirm w))"

definition enter_paused :: "exitWorld \<Rightarrow> string + exitWorld" where
  "enter_paused w = Inr (assignSettleResult SettlePaused (in_state Paused w))"

definition enter_error :: "exitWorld \<Rightarrow> string + exitWorld" where
  "enter_error w = Inr (assignSettleResult SettleError (in_state ErrorState w))"

text \<open>The states \<open>complete\<close> and \<open>terminated\<close> are left at once for \<open>idle\<close>.\<close>

definition enter_complete :: "exitWorld \<Rightarrow> string + exitWorld" where
  "enter_complete w =
     (let w1 = invalidateUnilateralExitQueriesOnTerminate (in_state Complete w);
          w2 = clearPersistedJob w1;
          w3 = assignSettleResult SettleBranchComplete w2;
          w4 = emit (ToastSuccess ''Unilateral exit branch complete.'') w3
      in Inr (in_state Idle (clearJobActorContext w4)))"

definition enter_terminated :: "exitEnv \<Rightarrow> int \<Rightarrow> exitJobViability \<Rightarrow> exitWorld \<Rightarrow> string + exitWorld" where
  "enter_terminated env now v w =
     (let w1 = persistUnilateralExitFailureFromViability env now v (in_state Terminated w);
          w2 = invalidateUnilateralExitQueriesOnTerminate w1;
          w3 = clearPersistedJob w2;
          w4 = assignSettleResultTerminated v w3;
          w5 = notifyTerminated env w4;
          w6 = clearTerminatedProceedRequested w5
      in Inr (in_state Idle (clearJobActorContext w6)))"

definition enter_aborted :: "exitEnv \<Rightarrow> int \<Rightarrow> arkadeVtxoOutpoint list \<Rightarrow> exitWorld \<Rightarrow> string + exitWorld" where
  "enter_aborted env now resolved w =
     (let w1 = stageAbortedJobOutpoints env resolved (in_state Aborted w);
          w2 = persistAbortedUnilateralExitFailure env now w1;
          w3 = invalidateUnilateralExitQueriesOnTerminate w2;
          w4 = clearPersistedJob w3;
          w5 = clearTerminatedProceedRequested w4;
          outpoints = (if length resolved > 0 then sortArkadeVtxoOutpoints (xe_localeCompare env) resolved
                       else cx_jobOutpoints (xw_context w5))
      in Inr (emit (InvokeResolveAbortVtxoIds outpoints) w5))"

section \<open>Transitions\<close>

definition assign_and_sync :: "exitProgress \<Rightarrow> exitWorld \<Rightarrow> exitWorld" where
  "assign_and_sync output w = syncPersistedRelayWait output (assignProgressFromFetch output w)"

definition checkingProgressOnDone :: "exitProgress \<Rightarrow> exitWorld \<Rightarrow> string + exitWorld" where
  "checkingProgressOnDone output w =
     (let c = xw_context w
      in if isUnilateralExitJobComplete output then enter_complete (assignProgressFromFetch output w)
         else if isUnconfirmedParentRetryProgressRefresh c
           then Inr (in_state WaitingForParentData (clearProgressRefresh (assign_and_sync output w)))
         else if cx_progressRefreshRequested c then Inr (in_state Idle (clearProgressRefresh (assign_and_sync output w)))
         else if manualProceedTargetMismatch c output then Inr (in_state Idle (clearProceedRequested (assign_and_sync output w)))
         else if needsBroadcastBeforeEnsureBroadcast c output then enter_evaluatingPolicy (assign_and_sync output w)
         else if needsBroadcastFromFetchEvent c output then enter_ensuringBroadcast (assign_and_sync output w)
         else if manualFetchStepIndexAdvanced c output then Inr (in_state Idle (clearProceedRequested (assign_and_sync output w)))
         else if isWaitingForRelayedStepConfirmation output
           then enter_waitingConfirm (clearProceedRequested (assign_and_sync output w))
         else if shouldRunAutomationPolicyFromEvent c output then enter_evaluatingPolicy (assign_and_sync output w)
         else if shouldProceedNowFromEvent c output then enter_proceeding (assign_and_sync output w)
         else Inr (in_state Idle (assign_and_sync output w)))"

definition ensuringBroadcastOnDone :: "exitProgress \<Rightarrow> exitWorld \<Rightarrow> string + exitWorld" where
  "ensuringBroadcastOnDone output w =
     (let c = xw_context w; w' = syncPersistedRelayWait output (assignProgressAfterBroadcast output w)
      in if isUnilateralExitJobComplete output then enter_complete (assignProgressAfterBroadcast output w)
         else if shouldWaitAfterEnsureBroadcast c output then enter_waitingConfirm (clearProceedRequested w')
         else if shouldContinueAutomationAfterEnsureBroadcast c output then enter_checkingProgress (resumeAutomationProceed w')
         else Inr (in_state Idle (clearProceedRequested w')))"

definition idlePollTransitions :: "exitWorld \<Rightarrow> string + exitWorld" where
  "idlePollTransitions w =
     (if hasActiveAutomaticJob (xw_context w) then enter_checkingProgress (resumeAutomationProceed w)
      else if hasActiveManualJob (xw_context w) then enter_checkingProgress (assignProgressRefresh w)
      else Inr w)"

definition parentDataWaitTransitions :: "exitWorld \<Rightarrow> string + exitWorld" where
  "parentDataWaitTransitions w =
     (if cx_automationEnabled (xw_context w) then enter_checkingProgress (assignProceedForUnconfirmedParentRetry w)
      else enter_checkingProgress (assignProgressRefresh w))"

definition broadcast_error :: "exitEnv \<Rightarrow> exitError \<Rightarrow> string \<Rightarrow> exitWorld \<Rightarrow> string + exitWorld" where
  "broadcast_error env e fallback w =
     (if isRetryableUnconfirmedParentPackageError e then Inr (in_state WaitingForParentData (assignUnconfirmedParentRetry e w))
      else if cx_automationEnabled (xw_context w) then enter_paused (assignAutomationBroadcastFailure env e w)
      else enter_error (assignErrorFromBroadcast env e fallback w))"

definition clear_job :: "exitWorld \<Rightarrow> exitWorld" where
  "clear_job w = clearJobActorContext (clearPersistedJob w)"

fun step_idle :: "exitEnv \<Rightarrow> int \<Rightarrow> exitEvent \<Rightarrow> exitWorld \<Rightarrow> string + exitWorld" where
  "step_idle env now AFTER_DELAY w = idlePollTransitions w"
| "step_idle env now POLL_TICK w = idlePollTransitions w"
| "step_idle env now (START_MANUAL scope outpoints fee) w = enter_taggingPlan (assignStartManual env scope outpoints fee w)"
| "step_idle env now (START_AUTOMATIC scope outpoints) w = enter_taggingPlan (assignStartAutomatic env scope outpoints w)"
| "step_idle env now (HYDRATE_OR_START scope outpoints automation resume sats inProgress) w =
     enter_taggingPlan (assignHydrate env scope outpoints automation resume sats inProgress w)"
| "step_idle env now (PROCEED_MANUAL fee) w = enter_checkingProgress (assignProceedManual fee w)"
| "step_idle env now (ABORT_ORCHESTRATION resolved) w = enter_aborted env now resolved w"
| "step_idle env now CLEAR_JOB w = Inr (clear_job w)"
| "step_idle env now (AUTOMATION_PREFS_CHANGED enabled) w =
     (if enabled \<and> length (cx_jobOutpoints (xw_context w)) > 0 then enter_checkingProgress (assignAutomationPrefs enabled w)
      else Inr (assignAutomationPrefs enabled w))"
| "step_idle env now _ w = Inr w"

fun inFlightAbortAndPrefs :: "exitEnv \<Rightarrow> int \<Rightarrow> exitEvent \<Rightarrow> exitWorld \<Rightarrow> string + exitWorld" where
  "inFlightAbortAndPrefs env now (ABORT_ORCHESTRATION resolved) w = enter_aborted env now resolved w"
| "inFlightAbortAndPrefs env now (AUTOMATION_PREFS_CHANGED enabled) w = Inr (assignAutomationPrefs enabled w)"
| "inFlightAbortAndPrefs env now _ w = Inr w"

fun inFlightAbortPrefsAndProceed :: "exitEnv \<Rightarrow> int \<Rightarrow> exitEvent \<Rightarrow> exitWorld \<Rightarrow> string + exitWorld" where
  "inFlightAbortPrefsAndProceed env now (PROCEED_MANUAL fee) w = Inr (assignProceedManual fee w)"
| "inFlightAbortPrefsAndProceed env now ev w = inFlightAbortAndPrefs env now ev w"

fun step_taggingPlan :: "exitEnv \<Rightarrow> int \<Rightarrow> exitEvent \<Rightarrow> exitWorld \<Rightarrow> string + exitWorld" where
  "step_taggingPlan env now DONE_TAG_PLAN w =
     (if persistedJobMatchesContextOutpoints w then enter_checkingProgress (ensurePersistedJobFromContext env now w)
      else enter_checkingProgress (persistActiveJobFromContext env now w))"
| "step_taggingPlan env now (ERROR_TAG_PLAN e) w = enter_error (assignErrorFromTagPlan env e w)"
| "step_taggingPlan env now ev w = inFlightAbortAndPrefs env now ev w"

fun step_checkingProgress :: "exitEnv \<Rightarrow> int \<Rightarrow> exitEvent \<Rightarrow> exitWorld \<Rightarrow> string + exitWorld" where
  "step_checkingProgress env now (DONE_VIABILITY v) w =
     (if isTerminalViabilityStatus v then enter_terminated env now v w else enter_loadingProgress w)"
| "step_checkingProgress env now (ERROR_VIABILITY e) w = enter_error (assignErrorFromViability env e w)"
| "step_checkingProgress env now ev w = inFlightAbortPrefsAndProceed env now ev w"

fun step_loadingProgress :: "exitEnv \<Rightarrow> int \<Rightarrow> exitEvent \<Rightarrow> exitWorld \<Rightarrow> string + exitWorld" where
  "step_loadingProgress env now (DONE_FETCH output) w = checkingProgressOnDone output w"
| "step_loadingProgress env now (ERROR_FETCH e) w = enter_error (assignErrorFromFetch env e w)"
| "step_loadingProgress env now ev w = inFlightAbortPrefsAndProceed env now ev w"

fun step_evaluatingPolicy :: "exitEnv \<Rightarrow> int \<Rightarrow> exitEvent \<Rightarrow> exitWorld \<Rightarrow> string + exitWorld" where
  "step_evaluatingPolicy env now (DONE_POLICY p) w =
     (if pe_pausedReason p \<noteq> None then enter_paused (assignPausedFromPolicy p w)
      else if pe_pausedReason p = None then enter_proceeding (assignFeeFromPolicy p w)
      else enter_paused (assignPausedUnknownPolicy w))"
| "step_evaluatingPolicy env now (ERROR_POLICY e) w = enter_paused (assignPolicyError env e w)"
| "step_evaluatingPolicy env now ev w = inFlightAbortAndPrefs env now ev w"

fun step_proceeding :: "exitEnv \<Rightarrow> int \<Rightarrow> exitEvent \<Rightarrow> exitWorld \<Rightarrow> string + exitWorld" where
  "step_proceeding env now (DONE_PROCEED output) w =
     (if isUnilateralExitJobComplete output then enter_complete (assignProgressAfterBroadcast output w)
      else enter_ensuringBroadcast (syncPersistedRelayWait output (assignProgressAfterBroadcast output w)))"
| "step_proceeding env now (ERROR_PROCEED e) w = broadcast_error env e ''Unroll step failed.'' w"
| "step_proceeding env now ev w = inFlightAbortAndPrefs env now ev w"

fun step_ensuringBroadcast :: "exitEnv \<Rightarrow> int \<Rightarrow> exitEvent \<Rightarrow> exitWorld \<Rightarrow> string + exitWorld" where
  "step_ensuringBroadcast env now (DONE_ENSURE output) w = ensuringBroadcastOnDone output w"
| "step_ensuringBroadcast env now (ERROR_ENSURE e) w =
     broadcast_error env e ''Failed to broadcast unilateral exit step.'' w"
| "step_ensuringBroadcast env now ev w = inFlightAbortAndPrefs env now ev w"

fun step_waitingConfirm :: "exitEnv \<Rightarrow> int \<Rightarrow> exitEvent \<Rightarrow> exitWorld \<Rightarrow> string + exitWorld" where
  "step_waitingConfirm env now AFTER_DELAY w = enter_checkingProgress (resumeAutomationProceed w)"
| "step_waitingConfirm env now POLL_TICK w = enter_checkingProgress (resumeAutomationProceed w)"
| "step_waitingConfirm env now (ABORT_ORCHESTRATION resolved) w = enter_aborted env now resolved w"
| "step_waitingConfirm env now (PROCEED_MANUAL fee) w = enter_checkingProgress (assignProceedManual fee w)"
| "step_waitingConfirm env now RESUME w = enter_checkingProgress (assignResume w)"
| "step_waitingConfirm env now (AUTOMATION_PREFS_CHANGED enabled) w =
     (if enabled then enter_checkingProgress (assignAutomationPrefs enabled w) else Inr (assignAutomationPrefs enabled w))"
| "step_waitingConfirm env now CLEAR_JOB w = Inr (in_state Idle (clear_job w))"
| "step_waitingConfirm env now _ w = Inr w"

fun step_waitingForParentData :: "exitEnv \<Rightarrow> int \<Rightarrow> exitEvent \<Rightarrow> exitWorld \<Rightarrow> string + exitWorld" where
  "step_waitingForParentData env now AFTER_DELAY w = parentDataWaitTransitions w"
| "step_waitingForParentData env now POLL_TICK w = parentDataWaitTransitions w"
| "step_waitingForParentData env now (PROCEED_MANUAL fee) w = enter_checkingProgress (assignProceedManual fee w)"
| "step_waitingForParentData env now CLEAR_JOB w = Inr (in_state Idle (clear_job w))"
| "step_waitingForParentData env now ev w = inFlightAbortAndPrefs env now ev w"

fun step_paused :: "exitEnv \<Rightarrow> int \<Rightarrow> exitEvent \<Rightarrow> exitWorld \<Rightarrow> string + exitWorld" where
  "step_paused env now (ABORT_ORCHESTRATION resolved) w = enter_aborted env now resolved w"
| "step_paused env now RESUME w = enter_checkingProgress (assignResume w)"
| "step_paused env now (AUTOMATION_PREFS_CHANGED enabled) w =
     (if enabled then enter_checkingProgress (assignAutomationPrefs enabled w)
      else Inr (in_state Idle (assignAutomationPrefs enabled w)))"
| "step_paused env now CLEAR_JOB w = Inr (in_state Idle (clear_job w))"
| "step_paused env now (PROCEED_MANUAL fee) w = enter_checkingProgress (assignProceedManual fee w)"
| "step_paused env now _ w = Inr w"

fun step_aborted :: "exitEnv \<Rightarrow> int \<Rightarrow> exitEvent \<Rightarrow> exitWorld \<Rightarrow> string + exitWorld" where
  "step_aborted env now (DONE_ABORT_IDS ids) w = Inr (in_state Idle (clearJobActorContext (patchAbortedFailureVtxoIds env ids w)))"
| "step_aborted env now (ERROR_ABORT_IDS e) w = Inr (in_state Idle (clearJobActorContext w))"
| "step_aborted env now _ w = Inr w"

fun step_error :: "exitEnv \<Rightarrow> int \<Rightarrow> exitEvent \<Rightarrow> exitWorld \<Rightarrow> string + exitWorld" where
  "step_error env now (ABORT_ORCHESTRATION resolved) w = enter_aborted env now resolved w"
| "step_error env now CLEAR_JOB w = Inr (in_state Idle (clear_job w))"
| "step_error env now (PROCEED_MANUAL fee) w = enter_checkingProgress (assignProceedManual fee w)"
| "step_error env now RESUME w = enter_checkingProgress (assignResume w)"
| "step_error env now _ w = Inr w"

fun step_notConfigured :: "exitEvent \<Rightarrow> exitWorld \<Rightarrow> string + exitWorld" where
  "step_notConfigured (WALLET_CONFIGURED scope) w = Inr (in_state Idle (assignWalletScope scope w))"
| "step_notConfigured _ w = Inr w"

text \<open>The transitions of the current state, and those of the root for the events that every state
  handles the same way. No state handles the two events of the root itself.\<close>

definition state_step :: "exitEnv \<Rightarrow> int \<Rightarrow> exitEvent \<Rightarrow> exitWorld \<Rightarrow> string + exitWorld" where
  "state_step env now ev w =
     (case xw_state w of
        NotConfigured \<Rightarrow> step_notConfigured ev w
      | Idle \<Rightarrow> step_idle env now ev w
      | TaggingPlan \<Rightarrow> step_taggingPlan env now ev w
      | CheckingProgress \<Rightarrow> step_checkingProgress env now ev w
      | LoadingProgress \<Rightarrow> step_loadingProgress env now ev w
      | EvaluatingPolicy \<Rightarrow> step_evaluatingPolicy env now ev w
      | Proceeding \<Rightarrow> step_proceeding env now ev w
      | EnsuringBroadcast \<Rightarrow> step_ensuringBroadcast env now ev w
      | WaitingConfirm \<Rightarrow> step_waitingConfirm env now ev w
      | WaitingForParentData \<Rightarrow> step_waitingForParentData env now ev w
      | Paused \<Rightarrow> step_paused env now ev w
      | Aborted \<Rightarrow> step_aborted env now ev w
      | ErrorState \<Rightarrow> step_error env now ev w
      | Complete \<Rightarrow> Inr w
      | Terminated \<Rightarrow> Inr w)"

definition unilateralExitMachine :: "exitEnv \<Rightarrow> int \<Rightarrow> exitEvent \<Rightarrow> exitWorld \<Rightarrow> string + exitWorld" where
  "unilateralExitMachine env now ev w =
     (case ev of
        ARKADE_SESSION_RESET \<Rightarrow> Inr (in_state NotConfigured (resetToNotConfigured w))
      | HYDRATE_VTXO_RECORDS records \<Rightarrow> Inr (syncVtxoExitChildren records w)
      | _ \<Rightarrow> state_step env now ev w)"

section \<open>Runs\<close>

text \<open>What can happen to the machine and its stores: an event at some time, and the changes of
  the stores by the code that hydrates them.\<close>

datatype exitInput =
  MachineEvent int exitEvent
  | HydrateJob arkadeWalletScope persistedExitJob
  | HydrateFailure arkadeWalletScope "persistedExitFailure option"
  | ClearFailure arkadeWalletScope
  | ClearScope arkadeWalletScope

fun exit_input :: "exitEnv \<Rightarrow> exitInput \<Rightarrow> exitWorld \<Rightarrow> string + exitWorld" where
  "exit_input env (MachineEvent now ev) w = unilateralExitMachine env now ev w"
| "exit_input env (HydrateJob scope job) w = Inr (hydrateJob scope job w)"
| "exit_input env (HydrateFailure scope failure) w = Inr (hydrateFailure scope failure w)"
| "exit_input env (ClearFailure scope) w = Inr (clearPersistedUnilateralExitFailure scope w)"
| "exit_input env (ClearScope scope) w = Inr (clear_scope scope w)"

definition createUnilateralExitActor :: "exitWorld" where
  "createUnilateralExitActor =
     \<lparr>xw_state = NotConfigured,
      xw_context = createInitialUnilateralExitContext (Some UNILATERAL_EXIT_AUTOMATION_WAIT_POLL_MS_REGTEST) None,
      xw_jobsByKey = [], xw_failuresByKey = [], xw_children = [], xw_log = []\<rparr>"

fun run_exit :: "exitEnv \<Rightarrow> exitInput list \<Rightarrow> exitWorld \<Rightarrow> string + exitWorld" where
  "run_exit env [] w = Inr w"
| "run_exit env (i # is) w = (case exit_input env i w of Inl e \<Rightarrow> Inl e | Inr w' \<Rightarrow> run_exit env is w')"

end
