(* ===== verification/Exit_Safety.thy ===== *)
theory Exit_Safety
  imports Exit_Machine
begin

text \<open>
  Safety of the unilateral exit machine: it never throws, it broadcasts only at fee rates that the
  user entered or the policy approved, without automation it broadcasts at most once per request,
  and a job that ends is released.
\<close>

section \<open>Invariants over runs\<close>

text \<open>A contract for invariants of runs: \<open>observe\<close> collects what the inputs say, and every admitted
  input succeeds and keeps the invariant.\<close>

locale run_invariant =
  fixes env :: exitEnv
    and admitted :: "exitInput \<Rightarrow> bool"
    and observe :: "exitInput \<Rightarrow> 'a list"
    and inv :: "'a list \<Rightarrow> exitWorld \<Rightarrow> bool"
  assumes input_keeps: "inv seen w \<Longrightarrow> admitted i \<Longrightarrow> \<exists>w'. exit_input env i w = Inr w' \<and> inv (seen @ observe i) w'"
begin

lemma run_keeps:
  "inv seen w \<Longrightarrow> list_all admitted inputs \<Longrightarrow>
   \<exists>w'. run_exit env inputs w = Inr w' \<and> inv (seen @ concat (map observe inputs)) w'"
proof (induction inputs arbitrary: seen w)
  case (Cons i inputs)
  then obtain w1 where w1: "exit_input env i w = Inr w1" "inv (seen @ observe i) w1"
    using input_keeps by fastforce
  then show ?case using Cons.IH[OF w1(2)] Cons.prems(2) by auto
qed simp

end

section \<open>What the actions leave alone\<close>

lemmas assign_defs =
  assignWalletScope_def assignStartManual_def assignStartAutomatic_def assignHydrate_def assignErrorFromTagPlan_def
  assignProceedManual_def assignProgressFromFetch_def assignProgressAfterBroadcast_def assignFeeFromPolicy_def
  assignPausedFromPolicy_def assignPausedUnknownPolicy_def assignAutomationPrefs_def assignResume_def
  resumeAutomationProceed_def assignProceedForUnconfirmedParentRetry_def assignProgressRefresh_def
  clearProgressRefresh_def clearProceedRequested_def clearJobActorContext_def assignSettleResult_def
  assignSettleResultTerminated_def assignErrorFromBroadcast_def assignUnconfirmedParentRetry_def
  assignErrorFromFetch_def assignPolicyError_def assignAutomationBroadcastFailure_def assignErrorFromViability_def
  stageAbortedJobOutpoints_def clearTerminatedProceedRequested_def upd_context_def Let_def

lemmas store_defs =
  persistActiveJobFromContext_def ensurePersistedJobFromContext_def persistActiveUnilateralExitJob_def
  ensurePersistedUnilateralExitJob_def setActiveJob_def ensureActiveJob_def updateJob_def
  updatePersistedUnilateralExitRelayWait_def clearPersistedUnilateralExitJob_def clearPersistedJob_def
  syncPersistedRelayWait_def persistUnilateralExitFailureRecord_def persistUnilateralExitFailureFromViability_def
  persistAbortedUnilateralExitFailure_def patchAbortedFailureVtxoIds_def invalidateUnilateralExitQueriesOnTerminate_def
  notifyTerminated_def hydrateJob_def hydrateFailure_def clearPersistedUnilateralExitFailure_def clear_scope_def
  syncVtxoExitChildren_def stopAllVtxoExitChildren_def emit_def Let_def

text \<open>The actions on the stores keep state and context, and add only notices to the log.\<close>

definition notice :: "exitEffect \<Rightarrow> bool" where
  "notice e = (case e of ScheduleJobSdkWrite _ \<Rightarrow> True | ScheduleFailureSdkWrite _ \<Rightarrow> True | InvalidateQueries _ _ \<Rightarrow> True
     | ToastSuccess _ \<Rightarrow> True | ToastError _ \<Rightarrow> True | _ \<Rightarrow> False)"

lemma notice_simps [simp]:
  "notice (ScheduleJobSdkWrite s)" "notice (ScheduleFailureSdkWrite s)" "notice (InvalidateQueries s os)"
  "notice (ToastSuccess t)" "notice (ToastError t)" "\<not> notice (InvokeProceedStep s os f)"
  "\<not> notice (InvokeEnsureBroadcast s os f' b)" "\<not> notice (InvokeEvaluateAutomationPolicy s os)"
  by (simp_all add: notice_def)

definition actor_calls :: "exitWorld \<Rightarrow> exitEffect list" where
  "actor_calls w = filter (\<lambda>e. \<not> notice e) (xw_log w)"

lemma assigns_keep_calls [simp]:
  "actor_calls (upd_context f w) = actor_calls w" "actor_calls (in_state s w) = actor_calls w"
  "xw_state (upd_context f w) = xw_state w" "xw_state (in_state s w) = s"
  "xw_context (upd_context f w) = f (xw_context w)" "xw_context (in_state s w) = xw_context w"
  by (simp_all add: actor_calls_def upd_context_def in_state_def)

lemma emit_simps [simp]:
  "actor_calls (emit e w) = (if notice e then actor_calls w else actor_calls w @ [e])"
  "xw_state (emit e w) = xw_state w" "xw_context (emit e w) = xw_context w"
  by (simp_all add: actor_calls_def emit_def)

text \<open>What a world shows apart from its stores, children and notices.\<close>

abbreviation same_control :: "exitWorld \<Rightarrow> exitWorld \<Rightarrow> bool" where
  "same_control w w' \<equiv> xw_state w = xw_state w' \<and> xw_context w = xw_context w' \<and> actor_calls w = actor_calls w'"

lemma updateJob_control: "same_control (updateJob scope f w) w"
  by (simp add: updateJob_def actor_calls_def)

lemma store_actions_control [simp]:
  "same_control (updateJob scope f w) w"
  "same_control (persistActiveJobFromContext env now w) w"
  "same_control (ensurePersistedJobFromContext env now w) w"
  "same_control (clearPersistedJob w) w"
  "same_control (syncPersistedRelayWait p w) w"
  "same_control (invalidateUnilateralExitQueriesOnTerminate w) w"
  "same_control (notifyTerminated env w) w"
  "same_control (persistUnilateralExitFailureRecord env scope f' w) w"
  "same_control (persistUnilateralExitFailureFromViability env now v w) w"
  "same_control (persistAbortedUnilateralExitFailure env now w) w"
  "same_control (patchAbortedFailureVtxoIds env ids w) w"
  "same_control (hydrateJob scope job w) w"
  "same_control (hydrateFailure scope failure w) w"
  "same_control (clearPersistedUnilateralExitFailure scope w) w"
  "same_control (clear_scope scope w) w"
  "same_control (syncVtxoExitChildren records w) w"
  "same_control (stopAllVtxoExitChildren w) w"
  by (auto simp: store_defs actor_calls_def split: option.splits)

section \<open>Soundness of every run\<close>

text \<open>Fee rates that an input offers: entered by the user, or approved by the policy.\<close>

fun offered_fees :: "exitInput \<Rightarrow> rat list" where
  "offered_fees (MachineEvent now (START_MANUAL scope outpoints fee)) = [fee]"
| "offered_fees (MachineEvent now (PROCEED_MANUAL fee)) = [fee]"
| "offered_fees (MachineEvent now (DONE_POLICY p)) = (if pe_pausedReason p = None then [pe_feeRateSatPerVb p] else [])"
| "offered_fees _ = []"

definition proceeds_from :: "rat list \<Rightarrow> exitEffect list \<Rightarrow> bool" where
  "proceeds_from fees calls \<longleftrightarrow> (\<forall>scope outpoints fee. InvokeProceedStep scope outpoints fee \<in> set calls \<longrightarrow> fee \<in> set fees)"

definition fee_known :: "rat list \<Rightarrow> exitContext \<Rightarrow> bool" where
  "fee_known fees c \<longleftrightarrow> (case cx_feeRateSatPerVb c of None \<Rightarrow> True | Some fee \<Rightarrow> fee \<in> set fees)"

text \<open>What holds at every moment: a wallet is configured in every state but the first, the
  transient states are never stayed in, waiting for a confirmation means that the step is
  relayed, a pause has a reason and no request, and fee rates come from the inputs.\<close>

definition exit_sound :: "rat list \<Rightarrow> exitWorld \<Rightarrow> bool" where
  "exit_sound fees w \<longleftrightarrow>
     (xw_state w = NotConfigured \<or> cx_walletScope (xw_context w) \<noteq> None) \<and>
     xw_state w \<noteq> Complete \<and> xw_state w \<noteq> Terminated \<and>
     (xw_state w = WaitingConfirm \<longrightarrow>
        (\<exists>p. cx_progress (xw_context w) = Some p \<and> isWaitingForRelayedStepConfirmation p)) \<and>
     (xw_state w = Paused \<longrightarrow> cx_pausedReason (xw_context w) \<noteq> None \<and> \<not> cx_proceedRequested (xw_context w)) \<and>
     fee_known fees (xw_context w) \<and> proceeds_from fees (actor_calls w)"

text \<open>What every action keeps while a job runs.\<close>

definition exit_core :: "rat list \<Rightarrow> exitWorld \<Rightarrow> bool" where
  "exit_core fees w \<longleftrightarrow>
     cx_walletScope (xw_context w) \<noteq> None \<and> fee_known fees (xw_context w) \<and> proceeds_from fees (actor_calls w)"

definition succeeds :: "(exitWorld \<Rightarrow> bool) \<Rightarrow> string + exitWorld \<Rightarrow> bool" where
  "succeeds P r \<longleftrightarrow> (case r of Inl _ \<Rightarrow> False | Inr w \<Rightarrow> P w)"

lemma succeeds_Inr [simp]: "succeeds P (Inr w) = P w"
  by (simp add: succeeds_def)

lemma succeeds_if: "(b \<Longrightarrow> succeeds P x) \<Longrightarrow> (\<not> b \<Longrightarrow> succeeds P y) \<Longrightarrow> succeeds P (if b then x else y)"
  by simp

lemma sound_core: "exit_sound fees w \<Longrightarrow> xw_state w \<noteq> NotConfigured \<Longrightarrow> exit_core fees w"
  by (simp add: exit_sound_def exit_core_def)

lemma core_sound:
  "exit_core fees w \<Longrightarrow> xw_state w \<notin> {Complete, Terminated, WaitingConfirm, Paused} \<Longrightarrow> exit_sound fees w"
  by (simp add: exit_sound_def exit_core_def)

lemma proceeds_from_snoc:
  "proceeds_from fees (calls @ [e]) \<longleftrightarrow>
     proceeds_from fees calls \<and> (case e of InvokeProceedStep scope outpoints fee \<Rightarrow> fee \<in> set fees | _ \<Rightarrow> True)"
  by (auto simp: proceeds_from_def split: exitEffect.splits)

lemma more_fees: "exit_sound fees w \<Longrightarrow> exit_sound (fees @ fees2) w"
  by (auto simp: exit_sound_def fee_known_def proceeds_from_def split: option.splits)

lemmas core_defs = exit_core_def fee_known_def

lemma enter_keeps:
  assumes "exit_core fees w"
  shows "succeeds (exit_sound fees) (enter_taggingPlan w)"
    and "succeeds (exit_sound fees) (enter_checkingProgress w)"
    and "succeeds (exit_sound fees) (enter_loadingProgress w)"
    and "succeeds (exit_sound fees) (enter_evaluatingPolicy w)"
    and "succeeds (exit_sound fees) (enter_ensuringBroadcast w)"
    and "succeeds (exit_sound fees) (enter_error w)"
    and "succeeds (exit_sound fees) (enter_complete w)"
    and "succeeds (exit_sound fees) (enter_terminated env now v w)"
    and "succeeds (exit_sound fees) (enter_aborted env now resolved w)"
  using assms
  by (auto simp: exit_core_def exit_sound_def fee_known_def proceeds_from_snoc enter_taggingPlan_def enter_checkingProgress_def
      enter_loadingProgress_def enter_evaluatingPolicy_def enter_ensuringBroadcast_def enter_error_def enter_complete_def
      enter_terminated_def enter_aborted_def requireUnilateralExitWalletScope_def assignSettleResult_def
      clearJobActorContext_def assignSettleResultTerminated_def clearTerminatedProceedRequested_def
      stageAbortedJobOutpoints_def notice_def Let_def split: option.splits)

lemma enter_proceeding_keeps:
  "exit_core fees w \<Longrightarrow> cx_feeRateSatPerVb (xw_context w) \<noteq> None \<Longrightarrow> succeeds (exit_sound fees) (enter_proceeding w)"
  by (auto simp: exit_core_def exit_sound_def fee_known_def proceeds_from_snoc enter_proceeding_def
      requireUnilateralExitWalletScope_def requireUnilateralExitFeeRateSatPerVb_def notice_def split: option.splits)

lemma enter_waitingConfirm_keeps:
  "exit_core fees w \<Longrightarrow> cx_progress (xw_context w) = Some p \<Longrightarrow> isWaitingForRelayedStepConfirmation p \<Longrightarrow>
   succeeds (exit_sound fees) (enter_waitingConfirm w)"
  by (simp add: exit_core_def exit_sound_def fee_known_def enter_waitingConfirm_def assignSettleResult_def)

lemma enter_paused_keeps:
  "exit_core fees w \<Longrightarrow> cx_pausedReason (xw_context w) \<noteq> None \<Longrightarrow> \<not> cx_proceedRequested (xw_context w) \<Longrightarrow>
   succeeds (exit_sound fees) (enter_paused w)"
  by (simp add: exit_core_def exit_sound_def fee_known_def enter_paused_def assignSettleResult_def)

lemma idle_sound: "exit_core fees w \<Longrightarrow> exit_sound fees (in_state Idle w)"
  by (simp add: exit_core_def exit_sound_def)

lemma parent_sound: "exit_core fees w \<Longrightarrow> exit_sound fees (in_state WaitingForParentData w)"
  by (simp add: exit_core_def exit_sound_def)

text \<open>The core through the actions that do not start a job.\<close>

lemma core_actions:
  assumes "exit_core fees w"
  shows "exit_core fees (assignProgressFromFetch p w)" "exit_core fees (assignProgressAfterBroadcast p w)"
    "exit_core fees (syncPersistedRelayWait p w)" "exit_core fees (assign_and_sync p w)"
    "exit_core fees (clearProgressRefresh w)" "exit_core fees (clearProceedRequested w)"
    "exit_core fees (resumeAutomationProceed w)" "exit_core fees (assignProceedForUnconfirmedParentRetry w)"
    "exit_core fees (assignProgressRefresh w)" "exit_core fees (assignResume w)"
    "exit_core fees (assignAutomationPrefs b w)" "exit_core fees (clear_job w)" "exit_core fees (clearJobActorContext w)"
    "exit_core fees (assignErrorFromTagPlan env e w)" "exit_core fees (assignErrorFromViability env e w)"
    "exit_core fees (assignErrorFromFetch env e w)" "exit_core fees (assignPolicyError env e w)"
    "exit_core fees (assignErrorFromBroadcast env e m w)" "exit_core fees (assignAutomationBroadcastFailure env e w)"
    "exit_core fees (assignUnconfirmedParentRetry e w)" "exit_core fees (assignPausedFromPolicy q w)"
    "exit_core fees (ensurePersistedJobFromContext env now w)" "exit_core fees (persistActiveJobFromContext env now w)"
    "exit_core fees (patchAbortedFailureVtxoIds env ids w)"
  using assms
  by (simp_all add: exit_core_def fee_known_def assign_and_sync_def clear_job_def assignProgressFromFetch_def
      assignProgressAfterBroadcast_def clearProgressRefresh_def clearProceedRequested_def resumeAutomationProceed_def
      assignProceedForUnconfirmedParentRetry_def assignProgressRefresh_def assignResume_def assignAutomationPrefs_def
      clearJobActorContext_def assignErrorFromTagPlan_def assignErrorFromViability_def assignErrorFromFetch_def
      assignPolicyError_def assignErrorFromBroadcast_def assignAutomationBroadcastFailure_def
      assignUnconfirmedParentRetry_def assignPausedFromPolicy_def)

text \<open>The core through the actions that bring a fee rate or a wallet.\<close>

lemma core_new_fee:
  "exit_core fees w \<Longrightarrow> exit_core (fees @ [fee]) (assignProceedManual fee w)"
  "proceeds_from fees (actor_calls w) \<Longrightarrow> exit_core (fees @ [fee]) (assignStartManual env scope outpoints fee w)"
  "exit_core fees w \<Longrightarrow> exit_core (fees @ [pe_feeRateSatPerVb q]) (assignFeeFromPolicy q w)"
  by (auto simp: exit_core_def fee_known_def proceeds_from_def assignProceedManual_def assignStartManual_def
      assignFeeFromPolicy_def Let_def)

lemma core_start:
  "exit_core fees w \<Longrightarrow> exit_core fees (assignStartAutomatic env scope outpoints w)"
  "exit_core fees w \<Longrightarrow> exit_core fees (assignHydrate env scope outpoints a r s i w)"
  by (auto simp: exit_core_def fee_known_def assignStartAutomatic_def assignHydrate_def Let_def split: option.splits)

lemmas keep_rules =
  succeeds_if enter_keeps enter_proceeding_keeps enter_waitingConfirm_keeps enter_paused_keeps idle_sound
  parent_sound core_actions core_new_fee core_start

lemma checkingProgressOnDone_keeps:
  assumes "exit_core fees w"
  shows "succeeds (exit_sound fees) (checkingProgressOnDone p w)"
proof -
  have "cx_progress (xw_context (clearProceedRequested (assign_and_sync p w))) = Some p"
    by (simp add: assign_and_sync_def clearProceedRequested_def assignProgressFromFetch_def)
  moreover have "cx_feeRateSatPerVb (xw_context (assign_and_sync p w)) = cx_feeRateSatPerVb (xw_context w)"
    by (simp add: assign_and_sync_def assignProgressFromFetch_def)
  ultimately show ?thesis
    unfolding checkingProgressOnDone_def Let_def using assms
    by (intro keep_rules) (auto simp: shouldProceedNowFromEvent_def intro: keep_rules)
qed

lemma ensuringBroadcastOnDone_keeps:
  assumes "exit_core fees w"
  shows "succeeds (exit_sound fees) (ensuringBroadcastOnDone p w)"
proof -
  have "cx_progress (xw_context (clearProceedRequested (syncPersistedRelayWait p (assignProgressAfterBroadcast p w)))) = Some p"
    by (simp add: clearProceedRequested_def assignProgressAfterBroadcast_def)
  then show ?thesis
    unfolding ensuringBroadcastOnDone_def Let_def using assms
    by (intro keep_rules) (auto simp: shouldWaitAfterEnsureBroadcast_def intro: keep_rules)
qed

lemma broadcast_error_keeps: "exit_core fees w \<Longrightarrow> succeeds (exit_sound fees) (broadcast_error env e m w)"
  unfolding broadcast_error_def
  by (intro keep_rules) (auto simp: assignAutomationBroadcastFailure_def intro: keep_rules)

lemma polls_keep:
  "exit_sound fees w \<Longrightarrow> exit_core fees w \<Longrightarrow> succeeds (exit_sound fees) (idlePollTransitions w)"
  "exit_core fees w \<Longrightarrow> succeeds (exit_sound fees) (parentDataWaitTransitions w)"
  unfolding idlePollTransitions_def parentDataWaitTransitions_def by (auto intro: keep_rules)

text \<open>Events that leave the state do not add a fee rate.\<close>

abbreviation event_keeps :: "exitEnv \<Rightarrow> int \<Rightarrow> rat list \<Rightarrow> exitEvent \<Rightarrow> string + exitWorld \<Rightarrow> bool" where
  "event_keeps env now fees ev r \<equiv> succeeds (exit_sound (fees @ offered_fees (MachineEvent now ev))) r"

lemma prefs_sound:
  "exit_sound fees w \<Longrightarrow> xw_state w \<noteq> Paused \<Longrightarrow> exit_sound fees (assignAutomationPrefs b w)"
  by (auto simp: exit_sound_def fee_known_def assignAutomationPrefs_def)

lemma proceed_sound:
  "exit_sound fees w \<Longrightarrow> xw_state w \<noteq> Paused \<Longrightarrow> exit_sound (fees @ [fee]) (assignProceedManual fee w)"
  by (auto simp: exit_sound_def fee_known_def proceeds_from_def assignProceedManual_def)

lemma inFlight_keeps:
  assumes "exit_sound fees w" and "xw_state w \<notin> {Paused, NotConfigured}"
  shows "event_keeps env now fees ev (inFlightAbortAndPrefs env now ev w)"
    and "event_keeps env now fees ev (inFlightAbortPrefsAndProceed env now ev w)"
  using assms sound_core[of fees w] more_fees[of fees w]
  by (cases ev; auto intro: enter_keeps prefs_sound proceed_sound)+

lemma step_idle_keeps:
  assumes "exit_sound fees w" and "xw_state w = Idle"
  shows "event_keeps env now fees ev (step_idle env now ev w)"
proof -
  have core: "exit_core fees w" using assms sound_core by auto
  then have "proceeds_from fees (actor_calls w)" by (simp add: exit_core_def)
  moreover have "exit_sound fees (clear_job w)"
    using core_sound[OF core_actions(12)[OF core]] assms(2) by (simp add: clear_job_def clearJobActorContext_def)
  ultimately show ?thesis
    using assms core more_fees[OF assms(1)] by (cases ev) (auto intro: keep_rules polls_keep prefs_sound)
qed

lemma step_flight_keeps:
  assumes "exit_sound fees w"
  shows "xw_state w = TaggingPlan \<Longrightarrow> event_keeps env now fees ev (step_taggingPlan env now ev w)"
    and "xw_state w = CheckingProgress \<Longrightarrow> event_keeps env now fees ev (step_checkingProgress env now ev w)"
    and "xw_state w = LoadingProgress \<Longrightarrow> event_keeps env now fees ev (step_loadingProgress env now ev w)"
    and "xw_state w = Proceeding \<Longrightarrow> event_keeps env now fees ev (step_proceeding env now ev w)"
    and "xw_state w = EnsuringBroadcast \<Longrightarrow> event_keeps env now fees ev (step_ensuringBroadcast env now ev w)"
    and "xw_state w = WaitingForParentData \<Longrightarrow> event_keeps env now fees ev (step_waitingForParentData env now ev w)"
proof -
  note core = sound_core[OF assms] and flight = inFlight_keeps[OF assms, where env = env and now = now and ev = ev]
  note rules = keep_rules checkingProgressOnDone_keeps ensuringBroadcastOnDone_keeps broadcast_error_keeps polls_keep(2)
  show "xw_state w = TaggingPlan \<Longrightarrow> event_keeps env now fees ev (step_taggingPlan env now ev w)"
    using core flight by (cases ev) (auto intro: rules simp del: inFlightAbortAndPrefs.simps)
  show "xw_state w = CheckingProgress \<Longrightarrow> event_keeps env now fees ev (step_checkingProgress env now ev w)"
    using core flight by (cases ev) (auto intro: rules simp del: inFlightAbortPrefsAndProceed.simps)
  show "xw_state w = LoadingProgress \<Longrightarrow> event_keeps env now fees ev (step_loadingProgress env now ev w)"
    using core flight by (cases ev) (auto intro: rules simp del: inFlightAbortPrefsAndProceed.simps)
  show "xw_state w = Proceeding \<Longrightarrow> event_keeps env now fees ev (step_proceeding env now ev w)"
    using core flight by (cases ev) (auto intro: rules simp del: inFlightAbortAndPrefs.simps)
  show "xw_state w = EnsuringBroadcast \<Longrightarrow> event_keeps env now fees ev (step_ensuringBroadcast env now ev w)"
    using core flight by (cases ev) (auto intro: rules simp del: inFlightAbortAndPrefs.simps)
  show "xw_state w = WaitingForParentData \<Longrightarrow> event_keeps env now fees ev (step_waitingForParentData env now ev w)"
    using core flight by (cases ev) (auto intro: rules simp del: inFlightAbortAndPrefs.simps)
qed

lemma step_policy_keeps:
  assumes "exit_sound fees w" and "xw_state w = EvaluatingPolicy"
  shows "event_keeps env now fees ev (step_evaluatingPolicy env now ev w)"
proof -
  have core: "exit_core fees w" using assms sound_core by auto
  note flight = inFlight_keeps(1)[OF assms(1), where env = env and now = now and ev = ev]
  have fee: "succeeds (exit_sound (fees @ [pe_feeRateSatPerVb q])) (enter_proceeding (assignFeeFromPolicy q w))" for q
    using core by (intro enter_proceeding_keeps core_new_fee) (simp_all add: assignFeeFromPolicy_def)
  show ?thesis
  proof (cases ev)
    case (DONE_POLICY q)
    have "cx_pausedReason (xw_context (assignPausedFromPolicy q w)) = pe_pausedReason q"
        "\<not> cx_proceedRequested (xw_context (assignPausedFromPolicy q w))"
      by (simp_all add: assignPausedFromPolicy_def)
    with DONE_POLICY show ?thesis using core fee by (auto intro!: enter_paused_keeps core_actions)
  next
    case (ERROR_POLICY e)
    have "cx_pausedReason (xw_context (assignPolicyError env e w)) \<noteq> None"
        "\<not> cx_proceedRequested (xw_context (assignPolicyError env e w))"
      by (simp_all add: assignPolicyError_def)
    with ERROR_POLICY show ?thesis using core by (auto intro!: enter_paused_keeps core_actions)
  qed (use assms(2) flight in auto)
qed

lemma step_rest_keeps:
  assumes "exit_sound fees w"
  shows "xw_state w = WaitingConfirm \<Longrightarrow> event_keeps env now fees ev (step_waitingConfirm env now ev w)"
    and "xw_state w = Paused \<Longrightarrow> event_keeps env now fees ev (step_paused env now ev w)"
    and "xw_state w = Aborted \<Longrightarrow> event_keeps env now fees ev (step_aborted env now ev w)"
    and "xw_state w = ErrorState \<Longrightarrow> event_keeps env now fees ev (step_error env now ev w)"
    and "xw_state w = NotConfigured \<Longrightarrow> event_keeps env now fees ev (step_notConfigured ev w)"
proof -
  note core = sound_core[OF assms] and more = more_fees[OF assms]
  have conf: "exit_sound fees (in_state Idle (assignWalletScope scope w))" for scope
    using assms by (simp add: exit_sound_def fee_known_def assignWalletScope_def)
  show "xw_state w = WaitingConfirm \<Longrightarrow> event_keeps env now fees ev (step_waitingConfirm env now ev w)"
    using assms core more by (cases ev) (auto intro: keep_rules prefs_sound core_sound)
  show "xw_state w = Paused \<Longrightarrow> event_keeps env now fees ev (step_paused env now ev w)"
    using assms core more by (cases ev) (auto intro: keep_rules core_sound)
  show "xw_state w = Aborted \<Longrightarrow> event_keeps env now fees ev (step_aborted env now ev w)"
    using assms core more by (cases ev) (auto intro: keep_rules core_sound)
  show "xw_state w = ErrorState \<Longrightarrow> event_keeps env now fees ev (step_error env now ev w)"
    using assms core more by (cases ev) (auto intro: keep_rules core_sound)
  show "xw_state w = NotConfigured \<Longrightarrow> event_keeps env now fees ev (step_notConfigured ev w)"
    using assms more conf by (cases ev) auto
qed

lemma machine_keeps:
  assumes "exit_sound fees w"
  shows "succeeds (exit_sound (fees @ offered_fees (MachineEvent now ev))) (unilateralExitMachine env now ev w)"
proof -
  have state: "event_keeps env now fees ev (state_step env now ev w)"
    using assms step_idle_keeps[OF assms] step_flight_keeps[OF assms] step_policy_keeps[OF assms] step_rest_keeps[OF assms]
    by (cases "xw_state w") (auto simp: state_step_def exit_sound_def simp del: step_idle.simps step_taggingPlan.simps
        step_checkingProgress.simps step_loadingProgress.simps step_evaluatingPolicy.simps step_proceeding.simps
        step_ensuringBroadcast.simps step_waitingConfirm.simps step_waitingForParentData.simps step_paused.simps
        step_aborted.simps step_error.simps step_notConfigured.simps)
  have reset: "exit_sound fees (in_state NotConfigured (resetToNotConfigured w))"
    using assms by (simp add: exit_sound_def resetToNotConfigured_def fee_known_def createInitialUnilateralExitContext_def)
  have children: "exit_sound fees (syncVtxoExitChildren records w)" for records
    using assms by (simp add: exit_sound_def)
  show ?thesis using state reset children by (cases ev) (auto simp: unilateralExitMachine_def)
qed

lemma input_keeps_sound: "exit_sound fees w \<Longrightarrow> \<exists>w'. exit_input env i w = Inr w' \<and> exit_sound (fees @ offered_fees i) w'"
proof (cases i)
  case (MachineEvent now ev)
  assume "exit_sound fees w"
  then show ?thesis using machine_keeps[of fees w now ev env] MachineEvent
    by (auto simp: succeeds_def split: sum.splits)
qed (auto simp: exit_sound_def)

interpretation sound: run_invariant env "\<lambda>_. True" offered_fees exit_sound
  by unfold_locales (rule input_keeps_sound)

lemma initial_sound: "exit_sound [] createUnilateralExitActor"
  by (simp add: exit_sound_def createUnilateralExitActor_def createInitialUnilateralExitContext_def fee_known_def
      actor_calls_def proceeds_from_def)

section \<open>Runs without automation\<close>

text \<open>Inputs that do not switch automation on.\<close>

fun manual_input :: "exitInput \<Rightarrow> bool" where
  "manual_input (MachineEvent now (START_AUTOMATIC scope outpoints)) = False"
| "manual_input (MachineEvent now (HYDRATE_OR_START scope outpoints automation resume sats inProgress)) = (automation \<noteq> Some True)"
| "manual_input (MachineEvent now (AUTOMATION_PREFS_CHANGED enabled)) = (\<not> enabled)"
| "manual_input _ = True"

fun proceed_requests :: "exitInput \<Rightarrow> rat list" where
  "proceed_requests (MachineEvent now (START_MANUAL scope outpoints fee)) = [fee]"
| "proceed_requests (MachineEvent now (PROCEED_MANUAL fee)) = [fee]"
| "proceed_requests _ = []"

fun is_proceed_call :: "exitEffect \<Rightarrow> bool" where
  "is_proceed_call (InvokeProceedStep scope outpoints fee) = True"
| "is_proceed_call _ = False"

fun is_ensure_call :: "exitEffect \<Rightarrow> bool" where
  "is_ensure_call (InvokeEnsureBroadcast scope outpoints fee automation) = True"
| "is_ensure_call _ = False"

definition count_calls :: "(exitEffect \<Rightarrow> bool) \<Rightarrow> exitWorld \<Rightarrow> nat" where
  "count_calls P w = length (filter P (actor_calls w))"

text \<open>Without automation every call is covered by a request, the fee rates are those of the
  requests, and a request that is still open is not used up yet.\<close>

definition calls_covered :: "rat list \<Rightarrow> exitWorld \<Rightarrow> bool" where
  "calls_covered requests w \<longleftrightarrow>
     \<not> cx_automationEnabled (xw_context w) \<and> fee_known requests (xw_context w) \<and> proceeds_from requests (actor_calls w) \<and>
     count_calls is_proceed_call w \<le> length requests \<and> count_calls is_ensure_call w \<le> length requests"

definition request_unused :: "rat list \<Rightarrow> exitWorld \<Rightarrow> bool" where
  "request_unused requests w \<longleftrightarrow>
     count_calls is_proceed_call w < length requests \<and> count_calls is_ensure_call w < length requests"

definition manual_core :: "rat list \<Rightarrow> exitWorld \<Rightarrow> bool" where
  "manual_core requests w \<longleftrightarrow>
     calls_covered requests w \<and> (cx_proceedRequested (xw_context w) \<longrightarrow> request_unused requests w)"

definition exit_manual :: "rat list \<Rightarrow> exitWorld \<Rightarrow> bool" where
  "exit_manual requests w \<longleftrightarrow>
     calls_covered requests w \<and> xw_state w \<noteq> EvaluatingPolicy \<and>
     (xw_state w = Proceeding \<longrightarrow> count_calls is_ensure_call w < length requests) \<and>
     (xw_state w \<notin> {Proceeding, EnsuringBroadcast} \<longrightarrow> manual_core requests w)"

definition unless_throws :: "(exitWorld \<Rightarrow> bool) \<Rightarrow> string + exitWorld \<Rightarrow> bool" where
  "unless_throws P r \<longleftrightarrow> (case r of Inl _ \<Rightarrow> True | Inr w \<Rightarrow> P w)"

lemma unless_throws_simps [simp]: "unless_throws P (Inr w) = P w" "unless_throws P (Inl e)"
  by (simp_all add: unless_throws_def)

lemma unless_throws_if:
  "(b \<Longrightarrow> unless_throws P x) \<Longrightarrow> (\<not> b \<Longrightarrow> unless_throws P y) \<Longrightarrow> unless_throws P (if b then x else y)"
  by simp

lemma count_calls_simps [simp]:
  "count_calls P (upd_context f w) = count_calls P w" "count_calls P (in_state s w) = count_calls P w"
  "count_calls P (emit e w) = count_calls P w + (if \<not> notice e \<and> P e then 1 else 0)"
  by (simp_all add: count_calls_def)

lemma count_calls_cong: "actor_calls w = actor_calls w' \<Longrightarrow> count_calls P w = count_calls P w'"
  by (simp add: count_calls_def)

lemmas manual_defs = exit_manual_def manual_core_def calls_covered_def request_unused_def fee_known_def

lemma store_counts [simp]:
  "count_calls P (persistActiveJobFromContext env now w) = count_calls P w"
  "count_calls P (ensurePersistedJobFromContext env now w) = count_calls P w"
  "count_calls P (clearPersistedJob w) = count_calls P w"
  "count_calls P (syncPersistedRelayWait p w) = count_calls P w"
  "count_calls P (invalidateUnilateralExitQueriesOnTerminate w) = count_calls P w"
  "count_calls P (notifyTerminated env w) = count_calls P w"
  "count_calls P (persistUnilateralExitFailureFromViability env now v w) = count_calls P w"
  "count_calls P (persistAbortedUnilateralExitFailure env now w) = count_calls P w"
  "count_calls P (patchAbortedFailureVtxoIds env ids w) = count_calls P w"
  by (rule count_calls_cong, simp)+

lemma enter_manual:
  assumes "manual_core requests w"
  shows "unless_throws (exit_manual requests) (enter_taggingPlan w)"
    and "unless_throws (exit_manual requests) (enter_checkingProgress w)"
    and "unless_throws (exit_manual requests) (enter_loadingProgress w)"
    and "unless_throws (exit_manual requests) (enter_error w)"
    and "unless_throws (exit_manual requests) (enter_waitingConfirm w)"
    and "exit_manual requests (in_state Idle w)"
    and "exit_manual requests (in_state WaitingForParentData w)"
  using assms
  by (auto simp: manual_defs proceeds_from_snoc enter_taggingPlan_def enter_checkingProgress_def enter_loadingProgress_def
      enter_error_def enter_waitingConfirm_def requireUnilateralExitWalletScope_def assignSettleResult_def notice_def
      split: option.splits)

lemma enter_manual_end:
  assumes "calls_covered requests w"
  shows "unless_throws (exit_manual requests) (enter_complete w)"
    and "unless_throws (exit_manual requests) (enter_terminated env now v w)"
    and "unless_throws (exit_manual requests) (enter_aborted env now resolved w)"
  using assms
  by (auto simp: manual_defs proceeds_from_snoc enter_complete_def enter_terminated_def enter_aborted_def
      assignSettleResult_def clearJobActorContext_def assignSettleResultTerminated_def
      clearTerminatedProceedRequested_def stageAbortedJobOutpoints_def notice_def Let_def split: option.splits)

lemma enter_manual_broadcast:
  "manual_core requests w \<Longrightarrow> cx_proceedRequested (xw_context w) \<Longrightarrow> unless_throws (exit_manual requests) (enter_proceeding w)"
  "calls_covered requests w \<Longrightarrow> count_calls is_ensure_call w < length requests \<Longrightarrow>
   unless_throws (exit_manual requests) (enter_ensuringBroadcast w)"
  by (auto simp: manual_defs proceeds_from_snoc enter_proceeding_def enter_ensuringBroadcast_def
      requireUnilateralExitWalletScope_def requireUnilateralExitFeeRateSatPerVb_def notice_def split: option.splits)

lemma covered_actions:
  assumes "calls_covered requests w"
  shows "calls_covered requests (assignProgressFromFetch p w)" "calls_covered requests (assignProgressAfterBroadcast p w)"
    "calls_covered requests (syncPersistedRelayWait p w)" "calls_covered requests (assign_and_sync p w)"
    "manual_core requests (clearProceedRequested w)" "manual_core requests (resumeAutomationProceed w)"
    "manual_core requests (assignProgressRefresh w)" "manual_core requests (assignResume w)"
    "manual_core requests (assignAutomationPrefs False w)" "manual_core requests (clear_job w)"
    "manual_core requests (clearJobActorContext w)" "manual_core requests (assignErrorFromTagPlan env e w)"
    "manual_core requests (assignErrorFromViability env e w)" "manual_core requests (assignErrorFromBroadcast env e m w)"
    "manual_core requests (assignUnconfirmedParentRetry e w)"
    "calls_covered requests (patchAbortedFailureVtxoIds env ids w)"
  using assms
  by (auto simp: manual_defs assign_and_sync_def clear_job_def assignProgressFromFetch_def
      assignProgressAfterBroadcast_def clearProceedRequested_def resumeAutomationProceed_def
      assignProgressRefresh_def assignResume_def assignAutomationPrefs_def
      clearJobActorContext_def assignErrorFromTagPlan_def assignErrorFromViability_def
      assignErrorFromBroadcast_def assignUnconfirmedParentRetry_def)

lemma manual_core_actions:
  assumes "manual_core requests w"
  shows "manual_core requests (assign_and_sync p w)" "manual_core requests (clearProgressRefresh w)"
    "manual_core requests (assignErrorFromFetch env e w)" "calls_covered requests w"
    "manual_core requests (ensurePersistedJobFromContext env now w)" "manual_core requests (persistActiveJobFromContext env now w)"
  using assms
  by (auto simp: manual_defs assign_and_sync_def assignProgressFromFetch_def clearProgressRefresh_def assignErrorFromFetch_def)

lemma covered_new_request:
  assumes "calls_covered requests w"
  shows "manual_core (requests @ [fee]) (assignProceedManual fee w)"
    and "manual_core (requests @ [fee]) (assignStartManual env scope outpoints fee w)"
    and "automation \<noteq> Some True \<Longrightarrow> manual_core requests (assignHydrate env scope outpoints automation r s i w)"
  using assms
  by (auto simp: manual_defs proceeds_from_def assignProceedManual_def assignStartManual_def assignHydrate_def Let_def
      split: option.splits)

lemma more_requests: "exit_manual requests w \<Longrightarrow> exit_manual (requests @ requests2) w"
  by (auto simp: manual_defs proceeds_from_def split: option.splits)

lemma manual_states:
  "exit_manual requests w \<Longrightarrow> calls_covered requests w"
  "exit_manual requests w \<Longrightarrow> xw_state w \<notin> {Proceeding, EnsuringBroadcast} \<Longrightarrow> manual_core requests w"
  by (auto simp: exit_manual_def)

lemma assign_and_sync_simps [simp]:
  "count_calls P (assign_and_sync p w) = count_calls P w"
  "cx_proceedRequested (xw_context (assign_and_sync p w)) = cx_proceedRequested (xw_context w)"
  by (simp_all add: assign_and_sync_def assignProgressFromFetch_def)

lemma checkingProgressOnDone_manual:
  assumes "manual_core requests w"
  shows "unless_throws (exit_manual requests) (checkingProgressOnDone p w)"
proof -
  have auto: "\<not> cx_automationEnabled (xw_context w)" using assms by (simp add: manual_core_def calls_covered_def)
  have ensure: "count_calls is_ensure_call w < length requests" if "needsBroadcastFromFetchEvent (xw_context w) p"
    using that auto assms by (auto simp: needsBroadcastFromFetchEvent_def manual_core_def request_unused_def split: if_splits)
  note cov = manual_core_actions(4)[OF assms] manual_core_actions(1)[OF assms]
  show ?thesis
    unfolding checkingProgressOnDone_def Let_def
    using auto assms cov ensure
    by (intro unless_throws_if enter_manual enter_manual_end enter_manual_broadcast)
      (auto simp: shouldProceedNowFromEvent_def needsBroadcastBeforeEnsureBroadcast_def shouldRunAutomationPolicyFromEvent_def
        intro: enter_manual enter_manual_end enter_manual_broadcast covered_actions manual_core_actions)
qed

lemma ensuringBroadcastOnDone_manual:
  assumes "calls_covered requests w"
  shows "unless_throws (exit_manual requests) (ensuringBroadcastOnDone p w)"
proof -
  have "\<not> cx_automationEnabled (xw_context w)" using assms by (simp add: calls_covered_def)
  then show ?thesis
    unfolding ensuringBroadcastOnDone_def Let_def using assms
    by (intro unless_throws_if)
      (auto simp: shouldContinueAutomationAfterEnsureBroadcast_def intro: enter_manual enter_manual_end covered_actions)
qed

lemma broadcast_error_manual:
  assumes "calls_covered requests w"
  shows "unless_throws (exit_manual requests) (broadcast_error env e m w)"
proof -
  have "\<not> cx_automationEnabled (xw_context w)" using assms by (simp add: calls_covered_def)
  then show ?thesis
    unfolding broadcast_error_def using assms by (auto intro: enter_manual covered_actions)
qed

lemma polls_manual:
  assumes "exit_manual requests w" and "calls_covered requests w"
  shows "unless_throws (exit_manual requests) (idlePollTransitions w)"
    and "unless_throws (exit_manual requests) (parentDataWaitTransitions w)"
proof -
  have "\<not> cx_automationEnabled (xw_context w)" using assms by (simp add: calls_covered_def)
  then show "unless_throws (exit_manual requests) (idlePollTransitions w)"
      "unless_throws (exit_manual requests) (parentDataWaitTransitions w)"
    using assms by (auto simp: idlePollTransitions_def parentDataWaitTransitions_def hasActiveAutomaticJob_def
        intro: enter_manual covered_actions)
qed

lemma manual_in_place:
  assumes "exit_manual requests w"
  shows "exit_manual requests (assignAutomationPrefs False w)"
    and "xw_state w \<notin> {Proceeding, EnsuringBroadcast} \<Longrightarrow> exit_manual (requests @ [fee]) (assignProceedManual fee w)"
    and "xw_state w = Idle \<Longrightarrow> exit_manual requests (clear_job w)"
proof -
  note cov = manual_states(1)[OF assms]
  show "exit_manual requests (assignAutomationPrefs False w)"
    using assms covered_actions(9)[OF cov] by (simp add: exit_manual_def manual_core_def) (simp add: assignAutomationPrefs_def)
  show "xw_state w \<notin> {Proceeding, EnsuringBroadcast} \<Longrightarrow> exit_manual (requests @ [fee]) (assignProceedManual fee w)"
    using assms covered_new_request(1)[OF cov, of fee] by (simp add: exit_manual_def manual_core_def) (simp add: assignProceedManual_def)
  show "xw_state w = Idle \<Longrightarrow> exit_manual requests (clear_job w)"
    using covered_actions(10)[OF cov] by (simp add: exit_manual_def manual_core_def) (simp add: clear_job_def clearJobActorContext_def)
qed

lemmas manual_rules =
  enter_manual enter_manual_end enter_manual_broadcast covered_actions manual_core_actions covered_new_request
  checkingProgressOnDone_manual ensuringBroadcastOnDone_manual broadcast_error_manual polls_manual manual_in_place

abbreviation manual_event_keeps :: "int \<Rightarrow> rat list \<Rightarrow> exitEvent \<Rightarrow> string + exitWorld \<Rightarrow> bool" where
  "manual_event_keeps now requests ev r \<equiv> unless_throws (exit_manual (requests @ proceed_requests (MachineEvent now ev))) r"

lemma inFlight_manual:
  assumes "exit_manual requests w" and "manual_input (MachineEvent now ev)"
  shows "manual_event_keeps now requests ev (inFlightAbortAndPrefs env now ev w)"
    and "xw_state w \<notin> {Proceeding, EnsuringBroadcast} \<Longrightarrow>
      manual_event_keeps now requests ev (inFlightAbortPrefsAndProceed env now ev w)"
  using assms manual_states(1)[OF assms(1)] more_requests[OF assms(1)]
  by (cases ev; auto intro: manual_rules)+

lemma state_step_manual:
  assumes manual: "exit_manual requests w" "manual_input (MachineEvent now ev)"
  shows "manual_event_keeps now requests ev (state_step env now ev w)"
proof -
  note cov = manual_states(1)[OF manual(1)] and core = manual_states(2)[OF manual(1)] and more = more_requests[OF manual(1)]
  note flight = inFlight_manual[OF manual, where env = env]
  show ?thesis
  proof (cases "xw_state w")
    case Idle
    then show ?thesis using manual cov more by (cases ev) (auto simp: state_step_def intro: manual_rules)
  next
    case TaggingPlan
    then show ?thesis using manual core flight
      by (cases ev) (auto simp: state_step_def intro: manual_rules simp del: inFlightAbortAndPrefs.simps)
  next
    case CheckingProgress
    then show ?thesis using manual core cov flight
      by (cases ev) (auto simp: state_step_def intro: manual_rules simp del: inFlightAbortPrefsAndProceed.simps)
  next
    case LoadingProgress
    then show ?thesis using manual core flight
      by (cases ev) (auto simp: state_step_def intro: manual_rules simp del: inFlightAbortPrefsAndProceed.simps)
  next
    case Proceeding
    then have "count_calls is_ensure_call w < length requests" using manual(1) by (simp add: exit_manual_def)
    then have "unless_throws (exit_manual requests) (enter_ensuringBroadcast (syncPersistedRelayWait p (assignProgressAfterBroadcast p w)))" for p
      using cov by (intro enter_manual_broadcast(2) covered_actions(2,3)) (simp_all add: assignProgressAfterBroadcast_def)
    with Proceeding show ?thesis using manual cov flight
      by (cases ev) (auto simp: state_step_def intro: manual_rules simp del: inFlightAbortAndPrefs.simps)
  next
    case EnsuringBroadcast
    then show ?thesis using manual cov flight
      by (cases ev) (auto simp: state_step_def intro: manual_rules simp del: inFlightAbortAndPrefs.simps)
  next
    case WaitingForParentData
    then show ?thesis using manual cov flight
      by (cases ev) (auto simp: state_step_def intro: manual_rules simp del: inFlightAbortAndPrefs.simps)
  next
    case NotConfigured
    then have "exit_manual requests (in_state Idle (assignWalletScope scope w))" for scope
      using core by (intro enter_manual) (simp_all add: manual_defs assignWalletScope_def)
    with NotConfigured show ?thesis using manual more by (cases ev) (auto simp: state_step_def)
  qed (use manual cov more in \<open>cases ev; auto simp: state_step_def exit_manual_def[of _ w] intro: manual_rules\<close>)+
qed

lemma machine_manual:
  assumes manual: "exit_manual requests w" "manual_input (MachineEvent now ev)"
  shows "manual_event_keeps now requests ev (unilateralExitMachine env now ev w)"
proof -
  have reset: "exit_manual requests (in_state NotConfigured (resetToNotConfigured w))"
    using manual_states(1)[OF manual(1)]
    by (simp add: manual_defs resetToNotConfigured_def createInitialUnilateralExitContext_def count_calls_def)
  have children: "exit_manual requests (syncVtxoExitChildren records w)" for records
    using manual(1) by (simp add: manual_defs count_calls_def)
  show ?thesis using state_step_manual[OF manual] reset children by (cases ev) (simp_all add: unilateralExitMachine_def)
qed

lemma manual_same_control: "exit_manual requests w \<Longrightarrow> same_control w' w \<Longrightarrow> exit_manual requests w'"
  by (simp add: manual_defs count_calls_def)

definition manual_sound :: "rat list \<Rightarrow> exitWorld \<Rightarrow> bool" where
  "manual_sound requests w \<longleftrightarrow> (\<exists>fees. exit_sound fees w) \<and> exit_manual requests w"

lemma input_keeps_manual:
  assumes "manual_sound requests w" and "manual_input i"
  shows "\<exists>w'. exit_input env i w = Inr w' \<and> manual_sound (requests @ proceed_requests i) w'"
proof -
  obtain fees where "exit_sound fees w" using assms(1) by (auto simp: manual_sound_def)
  then obtain w' where w': "exit_input env i w = Inr w'" "exit_sound (fees @ offered_fees i) w'"
    using input_keeps_sound by blast
  have manual: "exit_manual requests w" using assms(1) by (simp add: manual_sound_def)
  have "exit_manual (requests @ proceed_requests i) w'"
  proof (cases i)
    case (MachineEvent now ev)
    have "exit_input env i w = unilateralExitMachine env now ev w" by (simp add: MachineEvent)
    then show ?thesis using machine_manual[OF manual, of now ev env] assms(2) w'(1) MachineEvent
      by (simp add: unless_throws_def)
  qed (use w'(1) manual_same_control[OF manual] in \<open>auto\<close>)
  with w' show ?thesis by (auto simp: manual_sound_def)
qed

interpretation manual: run_invariant env manual_input proceed_requests manual_sound
  by unfold_locales (rule input_keeps_manual)

lemma initial_manual: "manual_sound [] createUnilateralExitActor"
proof -
  have "exit_manual [] createUnilateralExitActor"
    by (simp add: manual_defs createUnilateralExitActor_def createInitialUnilateralExitContext_def count_calls_def
        actor_calls_def proceeds_from_def)
  then show ?thesis using initial_sound by (auto simp: manual_sound_def)
qed

section \<open>The end of a job\<close>

lemma first_colon_inject:
  assumes "a @ CHR '':'' # xs = b @ CHR '':'' # ys" and "CHR '':'' \<notin> set a" and "CHR '':'' \<notin> set b"
  shows "a = b \<and> xs = ys"
proof -
  let ?P = "\<lambda>c. c \<noteq> CHR '':''"
  have prefix: "takeWhile ?P (s @ CHR '':'' # zs) = s" if "CHR '':'' \<notin> set s" for s zs
    using that by (subst takeWhile_append2) auto
  have "a = takeWhile ?P (a @ CHR '':'' # xs)" using prefix[OF assms(2)] by simp
  also have "\<dots> = b" unfolding assms(1) by (rule prefix[OF assms(3)])
  finally have "a = b" .
  with assms(1) show ?thesis by simp
qed

lemma scope_key_inject: "arkadeWalletScopeKey s = arkadeWalletScopeKey s' \<longleftrightarrow> s = s'"
proof
  assume eq: "arkadeWalletScopeKey s = arkadeWalletScopeKey s'"
  have colon: "CHR '':'' \<notin> set (network_name m)" for m by (cases m) auto
  have net: "network_name m = network_name m' \<Longrightarrow> m = m'" for m m' by (cases m; cases m') simp_all
  let ?rest = "\<lambda>s. network_name (scopeNetworkMode s) @ CHR '':'' # arkadeAccountId s"
  have 1: "int_str (walletId s) = int_str (walletId s') \<and> ?rest s = ?rest s'"
    using eq by (intro first_colon_inject) (simp_all add: arkadeWalletScopeKey_def colon_notin_int_str)
  have 2: "network_name (scopeNetworkMode s) = network_name (scopeNetworkMode s') \<and> arkadeAccountId s = arkadeAccountId s'"
    using 1 colon by (intro first_colon_inject) auto
  show "s = s'" using 1 2 net int_str_inject by (intro arkadeWalletScope.equality) auto
qed simp

lemma job_after_update:
  "getPersistedUnilateralExitJob s (updateJob scope f w) =
     (if s = scope then f (getPersistedUnilateralExitJob scope w) else getPersistedUnilateralExitJob s w)"
  by (simp add: getPersistedUnilateralExitJob_def updateJob_def js_rec.get_set scope_key_inject)

lemma job_simps [simp]:
  "getPersistedUnilateralExitJob s (emit e w) = getPersistedUnilateralExitJob s w"
  "getPersistedUnilateralExitJob s (upd_context f w) = getPersistedUnilateralExitJob s w"
  "getPersistedUnilateralExitJob s (in_state st w) = getPersistedUnilateralExitJob s w"
  by (simp_all add: getPersistedUnilateralExitJob_def emit_def upd_context_def in_state_def)

lemma failure_simps [simp]:
  "getPersistedUnilateralExitFailure s (emit e w) = getPersistedUnilateralExitFailure s w"
  "getPersistedUnilateralExitFailure s (upd_context f w) = getPersistedUnilateralExitFailure s w"
  "getPersistedUnilateralExitFailure s (in_state st w) = getPersistedUnilateralExitFailure s w"
  "getPersistedUnilateralExitFailure s (updateJob scope g w) = getPersistedUnilateralExitFailure s w"
  by (simp_all add: getPersistedUnilateralExitFailure_def emit_def upd_context_def in_state_def updateJob_def)

lemma clearPersistedJob_effect:
  assumes "cx_walletScope (xw_context w) = Some scope"
  shows "getPersistedUnilateralExitJob s (clearPersistedJob w) =
      (if s = scope then emptyPersistedUnilateralExitJob else getPersistedUnilateralExitJob s w)"
    and "getPersistedUnilateralExitFailure s (clearPersistedJob w) = getPersistedUnilateralExitFailure s w"
  using assms by (simp_all add: clearPersistedJob_def clearPersistedUnilateralExitJob_def job_after_update)

lemma invalidate_keeps [simp]:
  "getPersistedUnilateralExitJob s (invalidateUnilateralExitQueriesOnTerminate w) = getPersistedUnilateralExitJob s w"
  "getPersistedUnilateralExitFailure s (invalidateUnilateralExitQueriesOnTerminate w) = getPersistedUnilateralExitFailure s w"
  by (auto simp: invalidateUnilateralExitQueriesOnTerminate_def split: option.splits)

lemma failure_recorded:
  "getPersistedUnilateralExitFailure s (persistUnilateralExitFailureRecord env scope f w) =
     (if s = scope
      then Some (f\<lparr>pf_selectedLeafOutpoints := sortArkadeVtxoOutpoints (xe_localeCompare env) (pf_selectedLeafOutpoints f)\<rparr>)
      else getPersistedUnilateralExitFailure s w)"
  "getPersistedUnilateralExitJob s (persistUnilateralExitFailureRecord env scope f w) = getPersistedUnilateralExitJob s w"
  by (simp_all add: persistUnilateralExitFailureRecord_def getPersistedUnilateralExitFailure_def emit_def
      getPersistedUnilateralExitJob_def js_rec.get_set scope_key_inject)

text \<open>What is left of a job when it has ended.\<close>

definition job_released :: "arkadeWalletScope \<Rightarrow> exitWorld \<Rightarrow> exitWorld \<Rightarrow> bool" where
  "job_released scope w w' \<longleftrightarrow>
     xw_state w' = Idle \<and> cx_jobOutpoints (xw_context w') = [] \<and> cx_progress (xw_context w') = None \<and>
     \<not> cx_proceedRequested (xw_context w') \<and> cx_feeRateSatPerVb (xw_context w') = None \<and>
     (\<forall>s. getPersistedUnilateralExitJob s w' =
        (if s = scope then emptyPersistedUnilateralExitJob else getPersistedUnilateralExitJob s w))"

lemma enter_complete_releases:
  assumes "cx_walletScope (xw_context w) = Some scope"
  shows "\<exists>w'. enter_complete w = Inr w' \<and> job_released scope w w' \<and>
    cx_lastSettleResult (xw_context w') = Some SettleBranchComplete \<and>
    (\<forall>s. getPersistedUnilateralExitFailure s w' = getPersistedUnilateralExitFailure s w)"
  using assms clearPersistedJob_effect[of "invalidateUnilateralExitQueriesOnTerminate (in_state Complete w)" scope]
  by (simp add: enter_complete_def job_released_def clearJobActorContext_def assignSettleResult_def Let_def)

lemma enter_aborted_effect:
  assumes "cx_walletScope (xw_context w) = Some scope"
  obtains w' where "enter_aborted env now resolved w = Inr w'" "xw_state w' = Aborted"
    "cx_walletScope (xw_context w') = Some scope"
    "\<And>s. getPersistedUnilateralExitJob s w' =
      (if s = scope then emptyPersistedUnilateralExitJob else getPersistedUnilateralExitJob s w)"
    "getPersistedUnilateralExitFailure scope w' =
      Some \<lparr>pf_selectedLeafOutpoints = sortArkadeVtxoOutpoints (xe_localeCompare env)
             (if cx_jobOutpoints (xw_context w) = [] then sortArkadeVtxoOutpoints (xe_localeCompare env) resolved
              else cx_jobOutpoints (xw_context w)),
            pf_jobStartedAtUnix = case_option now id (pj_jobStartedAtUnix (getPersistedUnilateralExitJob scope w)),
            pf_detectedAtUnix = now, pf_reasonCode = FailUserAborted, pf_detailMessage = [], pf_vtxoIds = []\<rparr>"
proof -
  define w1 where "w1 = stageAbortedJobOutpoints env resolved (in_state Aborted w)"
  have w1: "cx_walletScope (xw_context w1) = Some scope" "xw_state w1 = Aborted"
      "getPersistedUnilateralExitJob s w1 = getPersistedUnilateralExitJob s w"
      "cx_jobOutpoints (xw_context w1) = (if cx_jobOutpoints (xw_context w) = [] then sortArkadeVtxoOutpoints (xe_localeCompare env) resolved
        else cx_jobOutpoints (xw_context w))" for s
    using assms by (auto simp: w1_def stageAbortedJobOutpoints_def sortArkadeVtxoOutpoints_def)
  define w3 where "w3 = invalidateUnilateralExitQueriesOnTerminate (persistAbortedUnilateralExitFailure env now w1)"
  have w3: "cx_walletScope (xw_context w3) = Some scope" "xw_state w3 = Aborted"
      "getPersistedUnilateralExitJob s w3 = getPersistedUnilateralExitJob s w" for s
    using w1 by (auto simp: w3_def persistAbortedUnilateralExitFailure_def failure_recorded)
  have fail: "getPersistedUnilateralExitFailure scope w3 =
      Some ((buildPersistedUnilateralExitFailure now (cx_jobOutpoints (xw_context w1))
              (case_option now id (pj_jobStartedAtUnix (getPersistedUnilateralExitJob scope w))) FailUserAborted [] (Some []))
            \<lparr>pf_selectedLeafOutpoints := sortArkadeVtxoOutpoints (xe_localeCompare env) (cx_jobOutpoints (xw_context w1))\<rparr>)"
    using w1(1,3) by (simp add: w3_def persistAbortedUnilateralExitFailure_def failure_recorded
        buildPersistedUnilateralExitFailure_def)
  let ?w' = "emit (InvokeResolveAbortVtxoIds (if length resolved > 0 then sortArkadeVtxoOutpoints (xe_localeCompare env) resolved
      else cx_jobOutpoints (xw_context (clearTerminatedProceedRequested (clearPersistedJob w3)))))
    (clearTerminatedProceedRequested (clearPersistedJob w3))"
  show thesis
  proof (rule that[of ?w'])
    show "enter_aborted env now resolved w = Inr ?w'" by (simp add: enter_aborted_def w1_def w3_def Let_def)
    show "xw_state ?w' = Aborted" "cx_walletScope (xw_context ?w') = Some scope"
      using w3 by (simp_all add: clearTerminatedProceedRequested_def)
    show "getPersistedUnilateralExitJob s ?w' =
      (if s = scope then emptyPersistedUnilateralExitJob else getPersistedUnilateralExitJob s w)" for s
      using w3 clearPersistedJob_effect(1)[OF w3(1)] by (simp add: clearTerminatedProceedRequested_def)
    show "getPersistedUnilateralExitFailure scope ?w' = Some \<lparr>pf_selectedLeafOutpoints = sortArkadeVtxoOutpoints (xe_localeCompare env)
             (if cx_jobOutpoints (xw_context w) = [] then sortArkadeVtxoOutpoints (xe_localeCompare env) resolved
              else cx_jobOutpoints (xw_context w)),
            pf_jobStartedAtUnix = case_option now id (pj_jobStartedAtUnix (getPersistedUnilateralExitJob scope w)),
            pf_detectedAtUnix = now, pf_reasonCode = FailUserAborted, pf_detailMessage = [], pf_vtxoIds = []\<rparr>"
      using clearPersistedJob_effect(2)[OF w3(1)] fail
      by (simp add: clearTerminatedProceedRequested_def w1(4) buildPersistedUnilateralExitFailure_def)
  qed
qed

section \<open>Sample runs\<close>

definition sample_scope :: arkadeWalletScope where
  "sample_scope = \<lparr>walletId = 1, scopeNetworkMode = Signet, arkadeAccountId = ''a''\<rparr>"

definition sample_outpoint :: arkadeVtxoOutpoint where
  "sample_outpoint = \<lparr>vo_txid = ''t'', vo_vout = 0\<rparr>"

definition sample_progress :: exitProgress where
  "sample_progress = \<lparr>stepIndex = 1, totalSteps = 3, xp_phase = PhaseIdle, currentStepWaitingSince = None,
     currentStepTxRelayed = True, nodeStatuses = [], leafStatuses = []\<rparr>"

definition sample_viability :: exitJobViability where
  "sample_viability = \<lparr>vi_status = ViabilityOk, vi_reasonCode = '''', vi_detailMessage = None, vi_offendingOutpoints = []\<rparr>"

definition sample_error :: exitError where
  "sample_error = \<lparr>er_isError = True, er_message = ''lock failed'', er_rewoundProgress = None, er_retryableUnconfirmedParent = None\<rparr>"

definition automation_off_run :: "exitInput list" where
  "automation_off_run = map (MachineEvent 0)
     [WALLET_CONFIGURED sample_scope, START_AUTOMATIC sample_scope [sample_outpoint], DONE_TAG_PLAN,
      DONE_VIABILITY sample_viability, DONE_FETCH sample_progress, AUTOMATION_PREFS_CHANGED False,
      DONE_POLICY \<lparr>pe_feeRateSatPerVb = 7, pe_pausedReason = None\<rparr>]"

definition failed_tag_run :: "exitInput list" where
  "failed_tag_run = map (MachineEvent 0)
     [WALLET_CONFIGURED sample_scope, START_MANUAL sample_scope [sample_outpoint] 5, ERROR_TAG_PLAN sample_error,
      PROCEED_MANUAL 5, DONE_VIABILITY sample_viability, DONE_FETCH sample_progress]"

definition sample_env :: exitEnv where
  "sample_env = \<lparr>xe_localeCompare = (\<lambda>l r. if l = r then 0 else -1), xe_userFacingErrorMessage = er_message,
     xe_userFacingText = case_option [] id\<rparr>"

definition complete_progress :: exitProgress where
  "complete_progress = \<lparr>stepIndex = 3, totalSteps = 3, xp_phase = PhaseComplete, currentStepWaitingSince = None,
     currentStepTxRelayed = True, nodeStatuses = [\<lparr>ns_txid = ''n'', ns_confirmations = 1, ns_status = NodeConfirmed\<rparr>],
     leafStatuses = []\<rparr>"

definition loading_world :: exitWorld where
  "loading_world = createUnilateralExitActor\<lparr>xw_state := LoadingProgress,
     xw_context := (xw_context createUnilateralExitActor)\<lparr>cx_walletScope := Some sample_scope,
       cx_jobOutpoints := [sample_outpoint]\<rparr>\<rparr>"

lemmas run_defs = unilateralExitMachine_def state_step_def sample_scope_def sample_outpoint_def sample_progress_def
  sample_viability_def sample_error_def createUnilateralExitActor_def createInitialUnilateralExitContext_def
  assign_defs store_defs in_state_def enter_taggingPlan_def enter_checkingProgress_def enter_loadingProgress_def
  enter_evaluatingPolicy_def enter_proceeding_def enter_ensuringBroadcast_def enter_error_def
  requireUnilateralExitWalletScope_def requireUnilateralExitFeeRateSatPerVb_def isTerminalViabilityStatus_def
  checkingProgressOnDone_def assign_and_sync_def isUnilateralExitJobComplete_def isUnilateralExitBranchComplete_def
  isUnconfirmedParentRetryProgressRefresh_def manualProceedTargetMismatch_def needsBroadcastBeforeEnsureBroadcast_def
  needsBroadcastEnsurance_def isCurrentStepRelayed_def needsBroadcastFromFetchEvent_def manualFetchStepIndexAdvanced_def
  stepIndexAdvancedPastContext_def isWaitingForRelayedStepConfirmation_def shouldRunAutomationPolicyFromEvent_def
  shouldProceedNowFromEvent_def relayWaitUnixFromProgress_def getPersistedUnilateralExitJob_def
  persistedJobMatchesContextOutpoints_def arkadeVtxoOutpointListsEqual_def emptyPersistedUnilateralExitJob_def
  newActivePersistedJob_def sortArkadeVtxoOutpoints_def rec_get_def rec_set_def

section \<open>Properties\<close>

text \<open>C4: Whatever events arrive, in whatever order, the machine never throws: the wallet and the fee
  rate that an actor needs are always there when it is started. It stays only in proper states,
  it waits for a confirmation only when the step has been relayed, a pause has a reason, and every
  step is broadcast at a fee rate that the user entered or the policy approved.\<close>

theorem exit_machine_sound:
  "\<exists>w. run_exit env inputs createUnilateralExitActor = Inr w \<and> exit_sound (concat (map offered_fees inputs)) w"
  using sound.run_keeps[OF initial_sound, of inputs env] by (simp add: list_all_iff)

text \<open>C19: Without automation the machine does not act on its own: steps are broadcast at most once per
  request of the user and at the fee rates of the requests, the same bound holds for the checks
  that re-broadcast a step, and the automation policy is never consulted.\<close>

theorem exit_manual_bounded:
  assumes "list_all manual_input inputs"
  shows "\<exists>w. run_exit env inputs createUnilateralExitActor = Inr w \<and>
    count_calls is_proceed_call w \<le> length (concat (map proceed_requests inputs)) \<and>
    count_calls is_ensure_call w \<le> length (concat (map proceed_requests inputs)) \<and>
    proceeds_from (concat (map proceed_requests inputs)) (actor_calls w) \<and> xw_state w \<noteq> EvaluatingPolicy"
  using manual.run_keeps[OF initial_manual assms] by (auto simp: manual_sound_def exit_manual_def calls_covered_def)

theorem exit_manual_bounded_witness:
  "list_all manual_input failed_tag_run \<and>
   (\<exists>w. run_exit sample_env failed_tag_run createUnilateralExitActor = Inr w \<and>
     count_calls is_proceed_call w \<le> 2 \<and> proceeds_from [5, 5] (actor_calls w))"
proof -
  have m: "list_all manual_input failed_tag_run" and r: "concat (map proceed_requests failed_tag_run) = [5, 5]"
    by (simp_all add: failed_tag_run_def)
  show ?thesis using exit_manual_bounded[OF m, of sample_env] m by (auto simp: r)
qed

text \<open>A job whose branch is complete is released, in whichever of the three states the
  completion is seen: the machine is idle with an empty job, the persisted job of the wallet is
  cleared, those of other wallets are untouched, and no failure is recorded.\<close>

theorem exit_complete_releases_job:
  assumes "cx_walletScope (xw_context w) = Some scope" and "isUnilateralExitJobComplete p"
    and "(xw_state w, ev) \<in> {(LoadingProgress, DONE_FETCH p), (Proceeding, DONE_PROCEED p), (EnsuringBroadcast, DONE_ENSURE p)}"
  shows "\<exists>w'. unilateralExitMachine env now ev w = Inr w' \<and> job_released scope w w' \<and>
    cx_lastSettleResult (xw_context w') = Some SettleBranchComplete \<and>
    (\<forall>s. getPersistedUnilateralExitFailure s w' = getPersistedUnilateralExitFailure s w)"
proof -
  have "cx_walletScope (xw_context (assignProgressFromFetch p w)) = Some scope"
      "cx_walletScope (xw_context (assignProgressAfterBroadcast p w)) = Some scope"
    using assms(1) by (simp_all add: assignProgressFromFetch_def assignProgressAfterBroadcast_def)
  from this[THEN enter_complete_releases] show ?thesis
    using assms(2,3)
    by (auto simp: unilateralExitMachine_def state_step_def checkingProgressOnDone_def ensuringBroadcastOnDone_def
        job_released_def assignProgressFromFetch_def assignProgressAfterBroadcast_def)
qed

theorem exit_complete_releases_job_witness:
  "\<exists>w'. unilateralExitMachine sample_env 9 (DONE_FETCH complete_progress) loading_world = Inr w' \<and>
    job_released sample_scope loading_world w' \<and> cx_jobOutpoints (xw_context loading_world) \<noteq> []"
proof -
  have "cx_walletScope (xw_context loading_world) = Some sample_scope" and "isUnilateralExitJobComplete complete_progress"
    and "(xw_state loading_world, DONE_FETCH complete_progress) \<in> {(LoadingProgress, DONE_FETCH complete_progress),
      (Proceeding, DONE_PROCEED complete_progress), (EnsuringBroadcast, DONE_ENSURE complete_progress)}"
    and job: "cx_jobOutpoints (xw_context loading_world) = [sample_outpoint]"
    by (simp_all add: loading_world_def complete_progress_def isUnilateralExitJobComplete_def
        isUnilateralExitBranchComplete_def)
  from exit_complete_releases_job[OF this(1-3), of sample_env 9] show ?thesis by (auto simp: job)
qed

text \<open>An abort in any state with a configured wallet ends the job and leaves a record of it: the
  outpoints of the job (or, when the machine has none, those given with the abort), the time the
  job started, the reason, and the identifiers that were resolved for them.\<close>

theorem exit_abort_recorded:
  assumes "cx_walletScope (xw_context w) = Some scope"
    and "xw_state w \<notin> {NotConfigured, Aborted, Complete, Terminated}"
  shows "\<exists>w' f. run_exit env [MachineEvent now (ABORT_ORCHESTRATION resolved), MachineEvent now' (DONE_ABORT_IDS ids)] w = Inr w' \<and>
    job_released scope w w' \<and> getPersistedUnilateralExitFailure scope w' = Some f \<and>
    set (pf_selectedLeafOutpoints f) = set (if cx_jobOutpoints (xw_context w) = [] then resolved else cx_jobOutpoints (xw_context w)) \<and>
    pf_jobStartedAtUnix f = case_option now id (pj_jobStartedAtUnix (getPersistedUnilateralExitJob scope w)) \<and>
    pf_detectedAtUnix f = now \<and> pf_reasonCode f = FailUserAborted \<and> pf_vtxoIds f = ids"
proof -
  obtain w1 where w1: "enter_aborted env now resolved w = Inr w1" "xw_state w1 = Aborted"
      "cx_walletScope (xw_context w1) = Some scope"
      "\<And>s. getPersistedUnilateralExitJob s w1 =
        (if s = scope then emptyPersistedUnilateralExitJob else getPersistedUnilateralExitJob s w)"
      "getPersistedUnilateralExitFailure scope w1 =
        Some \<lparr>pf_selectedLeafOutpoints = sortArkadeVtxoOutpoints (xe_localeCompare env)
               (if cx_jobOutpoints (xw_context w) = [] then sortArkadeVtxoOutpoints (xe_localeCompare env) resolved
                else cx_jobOutpoints (xw_context w)),
              pf_jobStartedAtUnix = case_option now id (pj_jobStartedAtUnix (getPersistedUnilateralExitJob scope w)),
              pf_detectedAtUnix = now, pf_reasonCode = FailUserAborted, pf_detailMessage = [], pf_vtxoIds = []\<rparr>"
    using enter_aborted_effect[OF assms(1)] by blast
  have abort: "unilateralExitMachine env now (ABORT_ORCHESTRATION resolved) w = Inr w1"
    using w1(1) assms(2) by (cases "xw_state w") (auto simp: unilateralExitMachine_def state_step_def)
  have "run_exit env [MachineEvent now (ABORT_ORCHESTRATION resolved), MachineEvent now' (DONE_ABORT_IDS ids)] w =
      Inr (in_state Idle (clearJobActorContext (patchAbortedFailureVtxoIds env ids w1)))"
    using w1(2) by (simp add: abort) (simp add: unilateralExitMachine_def state_step_def)
  then show ?thesis
    using w1 by (auto simp: patchAbortedFailureVtxoIds_def job_released_def
        clearJobActorContext_def failure_recorded sortArkadeVtxoOutpoints_def)
qed

theorem exit_abort_recorded_witness:
  "\<exists>w' f. run_exit sample_env [MachineEvent 7 (ABORT_ORCHESTRATION []), MachineEvent 8 (DONE_ABORT_IDS [''v''])]
      loading_world = Inr w' \<and>
    job_released sample_scope loading_world w' \<and> getPersistedUnilateralExitFailure sample_scope w' = Some f \<and>
    set (pf_selectedLeafOutpoints f) = {sample_outpoint} \<and> pf_detectedAtUnix f = 7 \<and>
    pf_reasonCode f = FailUserAborted \<and> pf_vtxoIds f = [''v'']"
proof -
  have "cx_walletScope (xw_context loading_world) = Some sample_scope"
    and "xw_state loading_world \<notin> {NotConfigured, Aborted, Complete, Terminated}"
    and job: "cx_jobOutpoints (xw_context loading_world) = [sample_outpoint]"
    by (simp_all add: loading_world_def)
  from exit_abort_recorded[OF this(1,2), of sample_env 7 "[]" 8 "[''v'']"] show ?thesis by (auto simp: job)
qed

text \<open>Two ways around the intended order. When automation is switched off while the policy is
  being evaluated, the answer of the policy still starts a step, although nothing requests one any
  more. And after locking the coins of a job has failed, a request to proceed broadcasts a step of
  that job: the coins are not locked and no job is persisted.\<close>

theorem exit_unrequested_step:
  "(\<exists>w. run_exit env automation_off_run createUnilateralExitActor = Inr w \<and> xw_state w = Proceeding \<and>
      \<not> cx_automationEnabled (xw_context w) \<and> \<not> cx_proceedRequested (xw_context w) \<and>
      InvokeProceedStep sample_scope [sample_outpoint] 7 \<in> set (xw_log w)) \<and>
   (\<exists>w. run_exit env failed_tag_run createUnilateralExitActor = Inr w \<and> xw_state w = Proceeding \<and>
      getPersistedUnilateralExitJob sample_scope w = emptyPersistedUnilateralExitJob \<and>
      InvokeProceedStep sample_scope [sample_outpoint] 5 \<in> set (xw_log w))"
  unfolding automation_off_run_def failed_tag_run_def by (simp add: run_defs)

end
