(* ===== verification/Exit_View.thy ===== *)
theory Exit_View
  imports Exit_Safety Send_Form
begin

text \<open>
  What the user interface shows of the unilateral exit and which actions it offers: the snapshot
  helpers (\<open>unilateral-exit-snapshot.ts\<close>), the selectors (\<open>unilateral-exit-selectors.ts\<close>,
  \<open>vtxo-exit-selectors.ts\<close>), the settle outcome (\<open>unilateral-exit-settle.ts\<close>), the map of child
  machines (\<open>unilateral-exit-runtime.ts\<close>) and the labels of
  \<open>lib/arkade/unilateral-exit-control-phase.ts\<close>. A snapshot of the actor is the world of the machine.
  The properties relate what is offered to what the machine accepts.
\<close>

section \<open>Snapshots\<close>

definition unilateralExitSnapshotIsInState :: "exitWorld \<Rightarrow> exitState \<Rightarrow> bool" where
  "unilateralExitSnapshotIsInState w s \<longleftrightarrow> xw_state w = s"

definition unilateralExitSnapshotIsInAnyState :: "exitWorld \<Rightarrow> exitState list \<Rightarrow> bool" where
  "unilateralExitSnapshotIsInAnyState w ss \<longleftrightarrow> xw_state w \<in> set ss"

definition UNILATERAL_EXIT_PROCEEDING_MACHINE_STATES :: "exitState list" where
  "UNILATERAL_EXIT_PROCEEDING_MACHINE_STATES =
     [TaggingPlan, Proceeding, CheckingProgress, LoadingProgress, EvaluatingPolicy, EnsuringBroadcast]"

definition unilateralExitSnapshotIsProceeding :: "exitWorld \<Rightarrow> bool" where
  "unilateralExitSnapshotIsProceeding w =
     (if cx_progressRefreshRequested (xw_context w) then False
      else unilateralExitSnapshotIsInAnyState w UNILATERAL_EXIT_PROCEEDING_MACHINE_STATES)"

section \<open>Lifecycle and automation\<close>

datatype exitLifecyclePhase =
  PhNotConfigured | PhIdle | PhAdvancing | PhWaitingConfirm | PhWaitingForParentData | PhComplete | PhTerminated | PhError

record exitLifecycleSnapshot =
  lc_phase :: exitLifecyclePhase
  lc_walletScope :: "arkadeWalletScope option"
  lc_selectedLeafOutpoints :: "arkadeVtxoOutpoint list"
  lc_progress :: "exitProgress option"
  lc_lastErrorMessage :: "string option"

definition refreshing_for_parent :: "exitWorld \<Rightarrow> bool" where
  "refreshing_for_parent w \<longleftrightarrow>
     cx_unconfirmedParentRetry (xw_context w) \<noteq> None \<and> cx_progressRefreshRequested (xw_context w) \<and>
     unilateralExitSnapshotIsInAnyState w [CheckingProgress, LoadingProgress]"

definition lifecyclePhaseFromMachineState :: "exitWorld \<Rightarrow> exitLifecyclePhase" where
  "lifecyclePhaseFromMachineState w =
     (if unilateralExitSnapshotIsInState w NotConfigured then PhNotConfigured
      else if unilateralExitSnapshotIsInState w Complete then PhComplete
      else if unilateralExitSnapshotIsInState w Terminated then PhTerminated
      else if unilateralExitSnapshotIsInState w Aborted then PhIdle
      else if unilateralExitSnapshotIsInState w ErrorState then PhError
      else if unilateralExitSnapshotIsInState w Proceeding then PhAdvancing
      else if unilateralExitSnapshotIsInState w EnsuringBroadcast then PhAdvancing
      else if unilateralExitSnapshotIsInState w WaitingConfirm then PhWaitingConfirm
      else if unilateralExitSnapshotIsInState w WaitingForParentData \<or> refreshing_for_parent w then PhWaitingForParentData
      else if unilateralExitSnapshotIsInAnyState w [TaggingPlan, CheckingProgress, LoadingProgress, EvaluatingPolicy, Paused]
        then if unilateralExitSnapshotIsInState w Paused then PhIdle
             else if cx_progressRefreshRequested (xw_context w) then PhIdle
             else if length (cx_jobOutpoints (xw_context w)) > 0 then PhAdvancing else PhIdle
      else PhIdle)"

definition selectUnilateralExitLifecycleSnapshot :: "exitWorld \<Rightarrow> exitLifecycleSnapshot" where
  "selectUnilateralExitLifecycleSnapshot w =
     \<lparr>lc_phase = lifecyclePhaseFromMachineState w, lc_walletScope = cx_walletScope (xw_context w),
      lc_selectedLeafOutpoints = cx_jobOutpoints (xw_context w), lc_progress = cx_progress (xw_context w),
      lc_lastErrorMessage = cx_lastErrorMessage (xw_context w)\<rparr>"

record exitAutomationPrefs =
  ap_enabled :: bool
  ap_feePresetLabel :: sendFeePresetLabel
  ap_maxFeeRateSatPerVb :: js_number

definition defaultUnilateralExitAutomationPrefs :: exitAutomationPrefs where
  "defaultUnilateralExitAutomationPrefs = \<lparr>ap_enabled = False, ap_feePresetLabel = MediumFee, ap_maxFeeRateSatPerVb = Fin 10\<rparr>"

datatype exitScheduling = SchedIdle | Scheduled | SchedPaused

record exitAutomationSnapshot =
  as_prefs :: exitAutomationPrefs
  as_pausedReason :: "exitPausedReason option"
  as_lastErrorMessage :: "string option"
  as_scheduling :: exitScheduling

definition selectUnilateralExitAutomationSnapshot :: "exitWorld \<Rightarrow> exitAutomationPrefs \<Rightarrow> exitAutomationSnapshot" where
  "selectUnilateralExitAutomationSnapshot w prefs =
     \<lparr>as_prefs = prefs\<lparr>ap_enabled := cx_automationEnabled (xw_context w)\<rparr>,
      as_pausedReason = cx_pausedReason (xw_context w),
      as_lastErrorMessage = cx_lastErrorMessage (xw_context w),
      as_scheduling =
        (if unilateralExitSnapshotIsInState w Paused then SchedPaused
         else if cx_automationEnabled (xw_context w) \<and>
           unilateralExitSnapshotIsInAnyState w [WaitingConfirm, WaitingForParentData, TaggingPlan, CheckingProgress,
             EvaluatingPolicy, Proceeding, EnsuringBroadcast] then Scheduled
         else SchedIdle)\<rparr>"

definition selectIsUnilateralExitJobActive :: "exitWorld \<Rightarrow> bool" where
  "selectIsUnilateralExitJobActive w =
     (if unilateralExitSnapshotIsInState w Aborted then False
      else let lifecycle = selectUnilateralExitLifecycleSnapshot w
           in if lc_phase lifecycle = PhTerminated then False
              else lc_phase lifecycle = PhAdvancing \<or> lc_phase lifecycle = PhWaitingConfirm \<or>
                   lc_phase lifecycle = PhWaitingForParentData \<or>
                   (lc_phase lifecycle = PhError \<and> length (lc_selectedLeafOutpoints lifecycle) > 0) \<or>
                   (lc_phase lifecycle = PhIdle \<and> length (lc_selectedLeafOutpoints lifecycle) > 0))"

record exitAbortParams =
  ab_resolvedJobOutpointsCount :: int
  ab_lifecycleJobActive :: bool
  ab_persistedJobExists :: bool

definition selectCanAbortUnilateralExitOrchestration :: "exitWorld \<Rightarrow> exitAbortParams \<Rightarrow> bool" where
  "selectCanAbortUnilateralExitOrchestration w params =
     (if ab_resolvedJobOutpointsCount params = 0 then False
      else if unilateralExitSnapshotIsInState w Complete then False
      else if unilateralExitSnapshotIsInState w Aborted then False
      else length (cx_jobOutpoints (xw_context w)) > 0 \<or> ab_lifecycleJobActive params \<or> ab_persistedJobExists params \<or>
           unilateralExitSnapshotIsProceeding w \<or> unilateralExitSnapshotIsInState w WaitingConfirm \<or>
           unilateralExitSnapshotIsInState w WaitingForParentData \<or> unilateralExitSnapshotIsInState w Paused)"

section \<open>The control page\<close>

datatype exitDisplayPhase =
  DisplayIdle | DisplayWaiting | DisplayComplete | DisplayAdvancing | DisplayEnsuringBroadcast | DisplayWaitingForParentData

definition controlDisplayPhaseFromMachine :: "exitWorld \<Rightarrow> exitDisplayPhase" where
  "controlDisplayPhaseFromMachine w =
     (if unilateralExitSnapshotIsInState w Complete then DisplayComplete
      else if unilateralExitSnapshotIsInState w WaitingConfirm then DisplayWaiting
      else if unilateralExitSnapshotIsInState w WaitingForParentData \<or> refreshing_for_parent w then DisplayWaitingForParentData
      else if unilateralExitSnapshotIsInState w EnsuringBroadcast then DisplayEnsuringBroadcast
      else if cx_progressRefreshRequested (xw_context w) \<and>
        unilateralExitSnapshotIsInAnyState w [CheckingProgress, LoadingProgress] then DisplayIdle
      else if unilateralExitSnapshotIsInAnyState w [TaggingPlan, Proceeding, CheckingProgress, LoadingProgress, EvaluatingPolicy]
        then DisplayAdvancing
      else DisplayIdle)"

record exitControlJobState =
  cj_phase :: exitDisplayPhase
  cj_exitJobInFlight :: bool
  cj_jobActive :: bool
  cj_showStepProgress :: bool
  cj_isProceeding :: bool

definition selectUnilateralExitControlJobState :: "exitWorld \<Rightarrow> int \<Rightarrow> exitControlJobState" where
  "selectUnilateralExitControlJobState w steps =
     (let isProceeding = unilateralExitSnapshotIsProceeding w;
          exitJobInFlight = selectIsUnilateralExitJobActive w \<or> isProceeding
      in \<lparr>cj_phase = controlDisplayPhaseFromMachine w, cj_exitJobInFlight = exitJobInFlight,
          cj_jobActive = selectIsUnilateralExitJobActive w,
          cj_showStepProgress = (exitJobInFlight \<and> steps > 0), cj_isProceeding = isProceeding\<rparr>)"

definition selectUnilateralExitProgressForDisplay :: "exitWorld \<Rightarrow> exitProgress option" where
  "selectUnilateralExitProgressForDisplay w =
     (if length (cx_jobOutpoints (xw_context w)) > 0 then cx_progress (xw_context w) else None)"

datatype exitOverlayKind = OverlayEnsuringBroadcast | OverlayWaiting | OverlayWaitingForParentData | OverlayFiguringOut
  | OverlayReadyToProceed

definition selectUnilateralExitInProgressOverlay :: "exitWorld \<Rightarrow> exitOverlayKind option" where
  "selectUnilateralExitInProgressOverlay w =
     (let p = selectUnilateralExitProgressForDisplay w
      in if unilateralExitSnapshotIsInState w WaitingConfirm then Some OverlayWaiting
         else if unilateralExitSnapshotIsInState w WaitingForParentData \<or> refreshing_for_parent w
           then Some OverlayWaitingForParentData
         else if unilateralExitSnapshotIsInState w EnsuringBroadcast then Some OverlayEnsuringBroadcast
         else if unilateralExitSnapshotIsInAnyState w [CheckingProgress, LoadingProgress] \<and>
           cx_progressRefreshRequested (xw_context w)
           then (if length (cx_jobOutpoints (xw_context w)) > 0 \<and> p \<noteq> None then Some OverlayReadyToProceed else None)
         else if unilateralExitSnapshotIsInAnyState w [TaggingPlan, Proceeding, CheckingProgress, LoadingProgress, EvaluatingPolicy]
           then Some OverlayFiguringOut
         else if (unilateralExitSnapshotIsInState w Idle \<or> unilateralExitSnapshotIsInState w ErrorState) \<and>
           length (cx_jobOutpoints (xw_context w)) > 0 \<and> p \<noteq> None then Some OverlayReadyToProceed
         else None)"

datatype exitButtonLabel = LabelStartUnroll | LabelRunningAutomatically | LabelProceed

record exitButtonState =
  bt_visible :: bool
  bt_disabled :: bool
  bt_label :: exitButtonLabel
  bt_showSpinner :: bool
  bt_canProceedStep :: bool

record exitButtonParams =
  bp_jobOutpointsCount :: int
  bp_automationEnabled :: bool
  bp_bumperLow :: bool
  bp_batchEstimateLoading :: bool
  bp_prefsHydrated :: bool
  bp_lifecycleJobActive :: bool
  bp_phase :: exitDisplayPhase

definition selectUnilateralExitProceedButtonState :: "exitWorld \<Rightarrow> exitButtonParams \<Rightarrow> exitButtonState" where
  "selectUnilateralExitProceedButtonState w params =
     (let isProceeding = unilateralExitSnapshotIsProceeding w;
          machineWaiting = unilateralExitSnapshotIsInState w WaitingConfirm;
          automationRunning =
            bp_automationEnabled params \<and>
            (isProceeding \<or> machineWaiting \<or>
             unilateralExitSnapshotIsInAnyState w [EvaluatingPolicy, Proceeding, EnsuringBroadcast, WaitingForParentData]);
          canProceedStep = (bp_lifecycleJobActive params \<and> bp_phase params \<noteq> DisplayComplete);
          showSpinner = (isProceeding \<and> bp_phase params \<noteq> DisplayWaiting \<and> bp_phase params \<noteq> DisplayWaitingForParentData)
      in \<lparr>bt_visible = ((bp_lifecycleJobActive params \<or> bp_jobOutpointsCount params > 0) \<and>
            (\<not> bp_automationEnabled params \<or> \<not> bp_lifecycleJobActive params \<or> automationRunning)),
          bt_disabled = (\<not> bp_prefsHydrated params \<or> bp_jobOutpointsCount params = 0 \<or> bp_bumperLow params \<or> showSpinner \<or>
            machineWaiting \<or> (canProceedStep \<and> bp_batchEstimateLoading params) \<or> bp_phase params = DisplayComplete \<or>
            automationRunning),
          bt_label = (if automationRunning then LabelRunningAutomatically
            else if bp_automationEnabled params \<and> bp_lifecycleJobActive params then LabelRunningAutomatically
            else if canProceedStep then LabelProceed else LabelStartUnroll),
          bt_showSpinner = showSpinner, bt_canProceedStep = canProceedStep\<rparr>)"

definition appendAutomaticProceedingSuffix :: "string \<Rightarrow> bool \<Rightarrow> string" where
  "appendAutomaticProceedingSuffix label proceedingAutomatically =
     (if \<not> proceedingAutomatically then label else label @ '' (proceeding automatically)'')"

fun unilateralExitInProgressOverlayLabel :: "exitOverlayKind \<Rightarrow> bool \<Rightarrow> string option" where
  "unilateralExitInProgressOverlayLabel OverlayWaitingForParentData a =
     Some (appendAutomaticProceedingSuffix ''Waiting for Esplora to acknowledge parent data'' a)"
| "unilateralExitInProgressOverlayLabel OverlayWaiting a = Some (appendAutomaticProceedingSuffix ''Waiting for confirmation'' a)"
| "unilateralExitInProgressOverlayLabel OverlayEnsuringBroadcast a = Some (appendAutomaticProceedingSuffix ''Broadcasting'' a)"
| "unilateralExitInProgressOverlayLabel OverlayFiguringOut a =
     Some (appendAutomaticProceedingSuffix ''Figuring out what to do next'' a)"
| "unilateralExitInProgressOverlayLabel OverlayReadyToProceed a = None"

definition isUnilateralExitProceedingAutomatically :: "exitDisplayPhase \<Rightarrow> bool \<Rightarrow> bool \<Rightarrow> bool \<Rightarrow> bool \<Rightarrow> bool" where
  "isUnilateralExitProceedingAutomatically phase hasPersistedFailure automationEnabled automationPaused jobInFlight \<longleftrightarrow>
     automationEnabled \<and> \<not> automationPaused \<and> phase \<noteq> DisplayComplete \<and> \<not> hasPersistedFailure \<and> jobInFlight"

section \<open>Settle outcome\<close>

record exitSettleOutcome =
  so_result :: "exitSettleResult option"
  so_lastErrorMessage :: "string option"

fun settleResultFromMachineState :: "exitState \<Rightarrow> exitSettleResult option" where
  "settleResultFromMachineState Complete = Some SettleBranchComplete"
| "settleResultFromMachineState Terminated = Some SettleTerminated"
| "settleResultFromMachineState WaitingConfirm = Some SettleWaitingConfirm"
| "settleResultFromMachineState Paused = Some SettlePaused"
| "settleResultFromMachineState ErrorState = Some SettleError"
| "settleResultFromMachineState _ = None"

definition settleOutcomeFromSnapshot :: "exitWorld \<Rightarrow> exitSettleOutcome" where
  "settleOutcomeFromSnapshot w =
     \<lparr>so_result = (case cx_lastSettleResult (xw_context w) of Some r \<Rightarrow> Some r | None \<Rightarrow> settleResultFromMachineState (xw_state w)),
      so_lastErrorMessage = cx_lastErrorMessage (xw_context w)\<rparr>"

definition toastUnilateralExitSettleResult :: "exitEnv \<Rightarrow> exitSettleOutcome \<Rightarrow> string \<Rightarrow> exitEffect list" where
  "toastUnilateralExitSettleResult env outcome successMessage =
     (if so_result outcome = Some SettleError
      then [ToastError (xe_userFacingText env (Some (case_option ''Unroll step failed.'' id (so_lastErrorMessage outcome))))]
      else if so_result outcome = Some SettleWaitingConfirm then [ToastSuccess successMessage]
      else [])"

section \<open>The child machines\<close>

record vtxoExitChildView =
  cv_childId :: string
  cv_txid :: string
  cv_vout :: int
  cv_phase :: vtxoExitPhase
  cv_machineState :: vtxoExitState

definition getVtxoExitChildSnapshotMap :: "exitWorld \<Rightarrow> vtxoExitChildView js_record" where
  "getVtxoExitChildSnapshotMap w =
     fold (\<lambda>(childId, child) views.
       if \<not> isVtxoExitChildId childId then views
       else case vtxoExitPhaseFromMachineState (vx_state child) of
              None \<Rightarrow> views
            | Some phase \<Rightarrow>
                rec_set (vtxoExitOutpointKey (vr_txid (vx_context child)) (vr_vout (vx_context child)))
                  \<lparr>cv_childId = childId, cv_txid = vr_txid (vx_context child), cv_vout = vr_vout (vx_context child),
                   cv_phase = phase, cv_machineState = vx_state child\<rparr> views) (xw_children w) []"

definition vtxoExitChildSnapshotMapEqual :: "vtxoExitChildView js_record \<Rightarrow> vtxoExitChildView js_record \<Rightarrow> bool" where
  "vtxoExitChildSnapshotMapEqual previous nxt \<longleftrightarrow>
     length previous = length nxt \<and>
     list_all (\<lambda>key.
       case (rec_get previous key, rec_get nxt key) of
         (Some p, Some n) \<Rightarrow> cv_phase p = cv_phase n \<and> cv_machineState p = cv_machineState n \<and> cv_childId p = cv_childId n
       | _ \<Rightarrow> False) (map fst previous)"

definition lookupVtxoExitChildPhase :: "vtxoExitChildView js_record \<Rightarrow> string \<Rightarrow> int \<Rightarrow> vtxoExitPhase option" where
  "lookupVtxoExitChildPhase snapshots txid vout = map_option cv_phase (rec_get snapshots (vtxoExitOutpointKey txid vout))"

definition resolveVtxoExitPhaseForCopy :: "vtxoExitPhase option \<Rightarrow> vtxoExitPhase option \<Rightarrow> vtxoExitPhase option" where
  "resolveVtxoExitPhaseForCopy childPhase recordPhase = (case childPhase of None \<Rightarrow> recordPhase | Some p \<Rightarrow> Some p)"

datatype vtxoExitPhaseCopyKind =
  CopyWaitingForHostBroadcast | CopyWaitingForFirstConfirmation | CopyWaitingForSixConfirmations | CopyWaitingForTimelock
  | CopyReady | CopyFundingLost | CopyExited

fun vtxoExitPhaseCopyFromPhase :: "vtxoExitPhase option \<Rightarrow> vtxoExitPhaseCopyKind option" where
  "vtxoExitPhaseCopyFromPhase None = None"
| "vtxoExitPhaseCopyFromPhase (Some Tagged) = Some CopyWaitingForHostBroadcast"
| "vtxoExitPhaseCopyFromPhase (Some HostBroadcastAttempted) = Some CopyWaitingForHostBroadcast"
| "vtxoExitPhaseCopyFromPhase (Some HostRelayed) = Some CopyWaitingForFirstConfirmation"
| "vtxoExitPhaseCopyFromPhase (Some HostConfirmed) = Some CopyWaitingForSixConfirmations"
| "vtxoExitPhaseCopyFromPhase (Some Unrolled) = Some CopyWaitingForTimelock"
| "vtxoExitPhaseCopyFromPhase (Some CompleteReady) = Some CopyReady"
| "vtxoExitPhaseCopyFromPhase (Some FundingLost) = Some CopyFundingLost"
| "vtxoExitPhaseCopyFromPhase (Some Exited) = Some CopyExited"

fun formatVtxoExitPhaseCopy :: "vtxoExitPhaseCopyKind option \<Rightarrow> string" where
  "formatVtxoExitPhaseCopy (Some CopyWaitingForHostBroadcast) = ''waiting for host transaction broadcast''"
| "formatVtxoExitPhaseCopy (Some CopyWaitingForFirstConfirmation) = ''waiting for first confirmation''"
| "formatVtxoExitPhaseCopy (Some CopyWaitingForSixConfirmations) = ''waiting for '' @ int_str 6 @ '' confirmations''"
| "formatVtxoExitPhaseCopy (Some CopyWaitingForTimelock) = ''waiting for timelock''"
| "formatVtxoExitPhaseCopy (Some CopyReady) = ''ready to complete''"
| "formatVtxoExitPhaseCopy (Some CopyFundingLost) = ''funding lost''"
| "formatVtxoExitPhaseCopy (Some CopyExited) = ''exited''"
| "formatVtxoExitPhaseCopy None = []"

definition BRANCH_COMPLETE_LEFTOVER_CHILD_PHASES :: "vtxoExitPhase list" where
  "BRANCH_COMPLETE_LEFTOVER_CHILD_PHASES = [HostConfirmed, Unrolled, CompleteReady]"

definition hasLeftoverBranchCompleteVtxoChildren :: "vtxoExitChildView js_record \<Rightarrow> bool" where
  "hasLeftoverBranchCompleteVtxoChildren snapshots \<longleftrightarrow>
     (\<exists>child \<in> set (map snd snapshots). cv_phase child \<in> set BRANCH_COMPLETE_LEFTOVER_CHILD_PHASES)"

definition shouldShowUnilateralExitBranchCompleteStatus :: "bool \<Rightarrow> bool \<Rightarrow> vtxoExitChildView js_record \<Rightarrow> bool" where
  "shouldShowUnilateralExitBranchCompleteStatus jobActive hasPersistedFailure snapshots =
     (if jobActive \<or> hasPersistedFailure then False else hasLeftoverBranchCompleteVtxoChildren snapshots)"

section \<open>When a refresh is pending\<close>

text \<open>A requested refresh is pending only while progress is read, after reading failed, or until an
  abort has finished; every other way out of reading withdraws the request.\<close>

definition refresh_ok :: "exitWorld \<Rightarrow> bool" where
  "refresh_ok w \<longleftrightarrow>
     (cx_progressRefreshRequested (xw_context w) \<longrightarrow> xw_state w \<in> {CheckingProgress, LoadingProgress, ErrorState, Aborted})"

lemmas refresh_simps = refresh_ok_def unless_throws_def assign_defs enter_taggingPlan_def enter_checkingProgress_def enter_loadingProgress_def
  enter_evaluatingPolicy_def enter_proceeding_def enter_ensuringBroadcast_def enter_error_def enter_waitingConfirm_def
  enter_paused_def

lemma refresh_entries:
  "unless_throws refresh_ok (enter_checkingProgress w)" "unless_throws refresh_ok (enter_loadingProgress w)"
  "unless_throws refresh_ok (enter_error w)" "unless_throws refresh_ok (enter_aborted env now resolved w)"
  "unless_throws refresh_ok (enter_complete w)" "unless_throws refresh_ok (enter_terminated env now v w)"
  by (auto simp: refresh_simps enter_aborted_def enter_complete_def enter_terminated_def split: option.splits sum.splits)


lemma refresh_entries_clear:
  assumes "\<not> cx_progressRefreshRequested (xw_context w)"
  shows "unless_throws refresh_ok (enter_taggingPlan w)" and "unless_throws refresh_ok (enter_evaluatingPolicy w)"
    and "unless_throws refresh_ok (enter_proceeding w)" and "unless_throws refresh_ok (enter_ensuringBroadcast w)"
    and "unless_throws refresh_ok (enter_waitingConfirm w)" and "unless_throws refresh_ok (enter_paused w)"
  using assms by (auto simp: refresh_simps split: sum.splits)

lemma refresh_fields [simp]:
  "cx_progressRefreshRequested (xw_context (assignStartManual env scope os fee w)) = False"
  "cx_progressRefreshRequested (xw_context (assignStartAutomatic env scope os w)) = False"
  "cx_progressRefreshRequested (xw_context (assignHydrate env scope os a r sats ip w)) = False"
  "cx_progressRefreshRequested (xw_context (assignProceedManual fee w)) = False"
  "cx_progressRefreshRequested (xw_context (resumeAutomationProceed w)) = False"
  "cx_progressRefreshRequested (xw_context (clearProgressRefresh w)) = False"
  "cx_progressRefreshRequested (xw_context (clearProceedRequested w)) = False"
  "cx_progressRefreshRequested (xw_context (clearJobActorContext w)) = False"
  "cx_progressRefreshRequested (xw_context (clear_job w)) = False"
  "cx_progressRefreshRequested (xw_context (resetToNotConfigured w)) = False"
  "cx_progressRefreshRequested (xw_context (assignWalletScope scope w)) = cx_progressRefreshRequested (xw_context w)"
  "cx_progressRefreshRequested (xw_context (assignAutomationPrefs b w)) = cx_progressRefreshRequested (xw_context w)"
  "cx_progressRefreshRequested (xw_context (assign_and_sync p w)) = cx_progressRefreshRequested (xw_context w)"
  "cx_progressRefreshRequested (xw_context (assignProgressAfterBroadcast p w)) = cx_progressRefreshRequested (xw_context w)"
  "cx_progressRefreshRequested (xw_context (assignUnconfirmedParentRetry e w)) = cx_progressRefreshRequested (xw_context w)"
  "cx_progressRefreshRequested (xw_context (assignAutomationBroadcastFailure env e w)) = cx_progressRefreshRequested (xw_context w)"
  "cx_progressRefreshRequested (xw_context (assignPausedFromPolicy q w)) = cx_progressRefreshRequested (xw_context w)"
  "cx_progressRefreshRequested (xw_context (assignFeeFromPolicy q w)) = cx_progressRefreshRequested (xw_context w)"
  "cx_progressRefreshRequested (xw_context (assignPolicyError env e w)) = cx_progressRefreshRequested (xw_context w)"
  by (simp_all add: assign_defs assign_and_sync_def clear_job_def resetToNotConfigured_def
      createInitialUnilateralExitContext_def)

lemma refresh_in_state: "\<not> cx_progressRefreshRequested (xw_context w) \<Longrightarrow> refresh_ok (in_state s w)"
  by (simp add: refresh_ok_def)

lemma refresh_prefs: "refresh_ok w \<Longrightarrow> refresh_ok (assignAutomationPrefs b w)"
  by (simp add: refresh_ok_def assignAutomationPrefs_def)

lemma refresh_manual: "refresh_ok (assignProceedManual fee w)"
  by (simp add: refresh_ok_def)

lemmas refresh_rules = refresh_entries refresh_entries_clear refresh_in_state refresh_prefs refresh_manual unless_throws_if

lemma refresh_done:
  "unless_throws refresh_ok (checkingProgressOnDone output w)"
  "\<not> cx_progressRefreshRequested (xw_context w) \<Longrightarrow> unless_throws refresh_ok (ensuringBroadcastOnDone output w)"
  "\<not> cx_progressRefreshRequested (xw_context w) \<Longrightarrow> unless_throws refresh_ok (broadcast_error env e fallback w)"
  unfolding checkingProgressOnDone_def ensuringBroadcastOnDone_def broadcast_error_def Let_def
  by (auto intro!: refresh_rules)

lemma refresh_inFlight:
  assumes "refresh_ok w"
  shows "unless_throws refresh_ok (inFlightAbortAndPrefs env now ev w)"
    and "unless_throws refresh_ok (inFlightAbortPrefsAndProceed env now ev w)"
  using assms by (cases ev; auto intro: refresh_rules)+

lemma refresh_steps:
  assumes "refresh_ok w"
  shows "xw_state w = Idle \<Longrightarrow> unless_throws refresh_ok (step_idle env now ev w)"
    and "xw_state w = TaggingPlan \<Longrightarrow> unless_throws refresh_ok (step_taggingPlan env now ev w)"
    and "xw_state w = CheckingProgress \<Longrightarrow> unless_throws refresh_ok (step_checkingProgress env now ev w)"
    and "xw_state w = LoadingProgress \<Longrightarrow> unless_throws refresh_ok (step_loadingProgress env now ev w)"
    and "xw_state w = EvaluatingPolicy \<Longrightarrow> unless_throws refresh_ok (step_evaluatingPolicy env now ev w)"
    and "xw_state w = Proceeding \<Longrightarrow> unless_throws refresh_ok (step_proceeding env now ev w)"
    and "xw_state w = EnsuringBroadcast \<Longrightarrow> unless_throws refresh_ok (step_ensuringBroadcast env now ev w)"
    and "xw_state w = WaitingConfirm \<Longrightarrow> unless_throws refresh_ok (step_waitingConfirm env now ev w)"
    and "xw_state w = WaitingForParentData \<Longrightarrow> unless_throws refresh_ok (step_waitingForParentData env now ev w)"
    and "xw_state w = Paused \<Longrightarrow> unless_throws refresh_ok (step_paused env now ev w)"
    and "xw_state w = Aborted \<Longrightarrow> unless_throws refresh_ok (step_aborted env now ev w)"
    and "xw_state w = ErrorState \<Longrightarrow> unless_throws refresh_ok (step_error env now ev w)"
    and "xw_state w = NotConfigured \<Longrightarrow> unless_throws refresh_ok (step_notConfigured ev w)"
proof -
  have clear: "\<not> cx_progressRefreshRequested (xw_context w)"
    if "xw_state w \<notin> {CheckingProgress, LoadingProgress, ErrorState, Aborted}"
    using assms that by (auto simp: refresh_ok_def)
  note flight = refresh_inFlight[OF assms, where env = env and now = now and ev = ev]
  note rules = refresh_rules refresh_done
  show "xw_state w = Idle \<Longrightarrow> unless_throws refresh_ok (step_idle env now ev w)"
    using assms clear by (cases ev) (auto intro!: rules simp: idlePollTransitions_def refresh_ok_def)
  show "xw_state w = TaggingPlan \<Longrightarrow> unless_throws refresh_ok (step_taggingPlan env now ev w)"
    using assms flight by (cases ev) (auto intro!: rules simp del: inFlightAbortAndPrefs.simps)
  show "xw_state w = CheckingProgress \<Longrightarrow> unless_throws refresh_ok (step_checkingProgress env now ev w)"
    using assms flight by (cases ev) (auto intro!: rules simp del: inFlightAbortPrefsAndProceed.simps)
  show "xw_state w = LoadingProgress \<Longrightarrow> unless_throws refresh_ok (step_loadingProgress env now ev w)"
    using assms flight by (cases ev) (auto intro!: rules simp del: inFlightAbortPrefsAndProceed.simps)
  show "xw_state w = EvaluatingPolicy \<Longrightarrow> unless_throws refresh_ok (step_evaluatingPolicy env now ev w)"
    using assms flight clear by (cases ev) (auto intro!: rules simp del: inFlightAbortAndPrefs.simps)
  show "xw_state w = Proceeding \<Longrightarrow> unless_throws refresh_ok (step_proceeding env now ev w)"
    using assms flight clear by (cases ev) (auto intro!: rules simp del: inFlightAbortAndPrefs.simps)
  show "xw_state w = EnsuringBroadcast \<Longrightarrow> unless_throws refresh_ok (step_ensuringBroadcast env now ev w)"
    using assms flight clear by (cases ev) (auto intro!: rules simp del: inFlightAbortAndPrefs.simps)
  show "xw_state w = WaitingConfirm \<Longrightarrow> unless_throws refresh_ok (step_waitingConfirm env now ev w)"
    using assms clear by (cases ev) (auto intro!: rules)
  show "xw_state w = WaitingForParentData \<Longrightarrow> unless_throws refresh_ok (step_waitingForParentData env now ev w)"
    using assms flight clear
    by (cases ev) (auto intro!: rules simp: parentDataWaitTransitions_def simp del: inFlightAbortAndPrefs.simps)
  show "xw_state w = Paused \<Longrightarrow> unless_throws refresh_ok (step_paused env now ev w)"
    using assms clear by (cases ev) (auto intro!: rules)
  show "xw_state w = Aborted \<Longrightarrow> unless_throws refresh_ok (step_aborted env now ev w)"
    using assms by (cases ev) (auto intro!: rules)
  show "xw_state w = ErrorState \<Longrightarrow> unless_throws refresh_ok (step_error env now ev w)"
    using assms by (cases ev) (auto intro!: rules)
  show "xw_state w = NotConfigured \<Longrightarrow> unless_throws refresh_ok (step_notConfigured ev w)"
    using assms clear by (cases ev) (auto intro!: rules)
qed


lemma input_keeps_shown:
  assumes "exit_sound fees w \<and> refresh_ok w"
  shows "\<exists>w'. exit_input env i w = Inr w' \<and> exit_sound (fees @ offered_fees i) w' \<and> refresh_ok w'"
proof -
  obtain w' where w': "exit_input env i w = Inr w'" "exit_sound (fees @ offered_fees i) w'"
    using assms input_keeps_sound by blast
  have machine: "unless_throws refresh_ok (unilateralExitMachine env now ev w)" for now ev
  proof -
    have "unless_throws refresh_ok (state_step env now ev w)"
      using assms refresh_steps[of w]
      by (cases "xw_state w") (auto simp: state_step_def exit_sound_def simp del: step_idle.simps step_taggingPlan.simps
          step_checkingProgress.simps step_loadingProgress.simps step_evaluatingPolicy.simps step_proceeding.simps
          step_ensuringBroadcast.simps step_waitingConfirm.simps step_waitingForParentData.simps step_paused.simps
          step_aborted.simps step_error.simps step_notConfigured.simps)
    then show ?thesis using assms
      by (cases ev) (auto simp: unilateralExitMachine_def refresh_ok_def)
  qed
  have "refresh_ok w'"
  proof (cases i)
    case (MachineEvent now ev)
    with w'(1) machine[of now ev] show ?thesis by simp
  qed (use w'(1) assms in \<open>auto simp: refresh_ok_def\<close>)
  with w' show ?thesis by blast
qed

interpretation shown: run_invariant env "\<lambda>_. True" offered_fees "\<lambda>fees w. exit_sound fees w \<and> refresh_ok w"
  by unfold_locales (rule input_keeps_shown)

lemma reachable_shown:
  assumes "run_exit env inputs createUnilateralExitActor = Inr w"
  shows "exit_sound (concat (map offered_fees inputs)) w" and "refresh_ok w"
proof -
  have "exit_sound [] createUnilateralExitActor \<and> refresh_ok createUnilateralExitActor"
    using initial_sound
    by (simp add: refresh_ok_def createUnilateralExitActor_def createInitialUnilateralExitContext_def)
  from shown.run_keeps[OF this, of inputs env] assms
  show "exit_sound (concat (map offered_fees inputs)) w" "refresh_ok w" by (auto simp: list_all_iff)
qed

section \<open>The control page and the machine\<close>

text \<open>The control page resolves the outpoints of the job, shows the button and the abort action,
  and a click on the button proceeds when a job is active.\<close>

definition resolveUnilateralExitJobOutpoints ::
  "exitEnv \<Rightarrow> arkadeVtxoOutpoint list \<Rightarrow> persistedExitJob option \<Rightarrow> arkadeVtxoOutpoint list option \<Rightarrow> arkadeVtxoOutpoint list" where
  "resolveUnilateralExitJobOutpoints env lifecycleOutpoints persistedJob fallbackOutpoints =
     sortArkadeVtxoOutpoints (xe_localeCompare env)
       (if length lifecycleOutpoints > 0 then lifecycleOutpoints
        else case persistedJob of
          Some job \<Rightarrow> if length (pj_selectedLeafOutpoints job) > 0 then pj_selectedLeafOutpoints job
                      else case_option [] id fallbackOutpoints
        | None \<Rightarrow> case_option [] id fallbackOutpoints)"

definition persistedUnilateralExitJobExists :: "persistedExitJob \<Rightarrow> bool" where
  "persistedUnilateralExitJobExists job \<longleftrightarrow> length (pj_selectedLeafOutpoints job) > 0"

record exitPageView =
  pv_persistedJob :: persistedExitJob
  pv_selectedLeafOutpoints :: "arkadeVtxoOutpoint list"
  pv_bumperLow :: bool
  pv_batchEstimateLoading :: bool
  pv_prefsHydrated :: bool

definition page_jobOutpoints :: "exitEnv \<Rightarrow> exitPageView \<Rightarrow> exitWorld \<Rightarrow> arkadeVtxoOutpoint list" where
  "page_jobOutpoints env v w =
     resolveUnilateralExitJobOutpoints env (lc_selectedLeafOutpoints (selectUnilateralExitLifecycleSnapshot w))
       (Some (pv_persistedJob v))
       (Some (if persistedUnilateralExitJobExists (pv_persistedJob v) \<or> selectIsUnilateralExitJobActive w then []
              else pv_selectedLeafOutpoints v))"

definition proceedButton :: "exitEnv \<Rightarrow> exitPageView \<Rightarrow> exitWorld \<Rightarrow> exitButtonState" where
  "proceedButton env v w =
     selectUnilateralExitProceedButtonState w
       \<lparr>bp_jobOutpointsCount = int (length (page_jobOutpoints env v w)),
        bp_automationEnabled = cx_automationEnabled (xw_context w), bp_bumperLow = pv_bumperLow v,
        bp_batchEstimateLoading = pv_batchEstimateLoading v, bp_prefsHydrated = pv_prefsHydrated v,
        bp_lifecycleJobActive = selectIsUnilateralExitJobActive w, bp_phase = controlDisplayPhaseFromMachine w\<rparr>"

definition showAbortButton :: "exitEnv \<Rightarrow> exitPageView \<Rightarrow> exitWorld \<Rightarrow> bool" where
  "showAbortButton env v w =
     selectCanAbortUnilateralExitOrchestration w
       \<lparr>ab_resolvedJobOutpointsCount = int (length (page_jobOutpoints env v w)),
        ab_lifecycleJobActive = selectIsUnilateralExitJobActive w,
        ab_persistedJobExists = persistedUnilateralExitJobExists (pv_persistedJob v)\<rparr>"

text \<open>A request to proceed is accepted: the machine is reading the progress and will act on it.\<close>

definition proceed_accepted :: "exitEnv \<Rightarrow> int \<Rightarrow> rat \<Rightarrow> exitWorld \<Rightarrow> bool" where
  "proceed_accepted env now fee w \<longleftrightarrow>
     (\<exists>w'. unilateralExitMachine env now (PROCEED_MANUAL fee) w = Inr w' \<and> xw_state w' \<in> {CheckingProgress, LoadingProgress} \<and>
       cx_proceedRequested (xw_context w') \<and> cx_feeRateSatPerVb (xw_context w') = Some fee \<and>
       \<not> cx_progressRefreshRequested (xw_context w'))"

lemma proceed_accepted_states:
  "xw_state w \<in> {Idle, ErrorState, Paused, WaitingForParentData, WaitingConfirm, CheckingProgress, LoadingProgress} \<Longrightarrow>
   proceed_accepted env now fee w"
  by (auto simp: proceed_accepted_def unilateralExitMachine_def state_step_def enter_checkingProgress_def assignProceedManual_def)

lemma abort_accepted_states:
  "xw_state w \<notin> {NotConfigured, Aborted, Complete, Terminated} \<Longrightarrow>
   \<exists>w'. unilateralExitMachine env now (ABORT_ORCHESTRATION resolved) w = Inr w' \<and> xw_state w' = Aborted"
  by (cases "xw_state w") (auto simp: unilateralExitMachine_def state_step_def enter_aborted_def Let_def
      clearTerminatedProceedRequested_def stageAbortedJobOutpoints_def)

lemmas view_defs = unilateralExitSnapshotIsInState_def unilateralExitSnapshotIsInAnyState_def
  unilateralExitSnapshotIsProceeding_def UNILATERAL_EXIT_PROCEEDING_MACHINE_STATES_def refreshing_for_parent_def

text \<open>What the control page offers in a reachable state is what the machine accepts there: a click on
  an enabled button that proceeds, and the node marked as ready, start the requested step, and
  an offered abort is carried out once a wallet is configured.\<close>

theorem exit_offers_accepted:
  assumes "run_exit env inputs createUnilateralExitActor = Inr w"
  shows "(bt_visible (proceedButton env v w) \<and> \<not> bt_disabled (proceedButton env v w) \<and>
      bt_canProceedStep (proceedButton env v w) \<longrightarrow> proceed_accepted env now fee w) \<and>
    (selectUnilateralExitInProgressOverlay w = Some OverlayReadyToProceed \<longrightarrow> proceed_accepted env now fee w) \<and>
    (showAbortButton env v w \<and> xw_state w \<noteq> NotConfigured \<longrightarrow>
      (\<exists>w'. unilateralExitMachine env now (ABORT_ORCHESTRATION resolved) w = Inr w' \<and> xw_state w' = Aborted))"
proof (intro conjI impI)
  note inv = reachable_shown[OF assms]
  assume "bt_visible (proceedButton env v w) \<and> \<not> bt_disabled (proceedButton env v w) \<and>
      bt_canProceedStep (proceedButton env v w)"
  then show "proceed_accepted env now fee w"
    using inv by (cases "xw_state w") (auto intro!: proceed_accepted_states simp: view_defs proceedButton_def
        selectUnilateralExitProceedButtonState_def Let_def controlDisplayPhaseFromMachine_def selectIsUnilateralExitJobActive_def
        selectUnilateralExitLifecycleSnapshot_def lifecyclePhaseFromMachineState_def exit_sound_def refresh_ok_def)
next
  assume "selectUnilateralExitInProgressOverlay w = Some OverlayReadyToProceed"
  then show "proceed_accepted env now fee w"
    by (cases "xw_state w") (auto intro!: proceed_accepted_states
        simp: view_defs selectUnilateralExitInProgressOverlay_def Let_def split: if_splits)
next
  assume "showAbortButton env v w \<and> xw_state w \<noteq> NotConfigured"
  then show "\<exists>w'. unilateralExitMachine env now (ABORT_ORCHESTRATION resolved) w = Inr w' \<and> xw_state w' = Aborted"
    using reachable_shown(1)[OF assms] by (intro abort_accepted_states)
      (auto simp: showAbortButton_def selectCanAbortUnilateralExitOrchestration_def view_defs exit_sound_def split: if_splits)
qed

definition sample_page :: exitPageView where
  "sample_page = \<lparr>pv_persistedJob = emptyPersistedUnilateralExitJob, pv_selectedLeafOutpoints = [], pv_bumperLow = False,
     pv_batchEstimateLoading = False, pv_prefsHydrated = True\<rparr>"

theorem exit_offers_accepted_witness:
  "\<exists>w. run_exit sample_env (take 3 failed_tag_run) createUnilateralExitActor = Inr w \<and> xw_state w = ErrorState \<and>
     bt_label (proceedButton sample_env sample_page w) = LabelProceed \<and> proceed_accepted sample_env 0 5 w"
proof -
  obtain w where w: "run_exit sample_env (take 3 failed_tag_run) createUnilateralExitActor = Inr w"
      "xw_state w = ErrorState" "cx_jobOutpoints (xw_context w) = [sample_outpoint]"
      "\<not> cx_automationEnabled (xw_context w)"
    by (simp add: failed_tag_run_def run_defs)
  then have b: "bt_visible (proceedButton sample_env sample_page w) \<and> \<not> bt_disabled (proceedButton sample_env sample_page w) \<and>
      bt_canProceedStep (proceedButton sample_env sample_page w)"
      "bt_label (proceedButton sample_env sample_page w) = LabelProceed"
    by (simp_all add: view_defs proceedButton_def selectUnilateralExitProceedButtonState_def Let_def
        controlDisplayPhaseFromMachine_def selectIsUnilateralExitJobActive_def selectUnilateralExitLifecycleSnapshot_def
        lifecyclePhaseFromMachineState_def sample_page_def page_jobOutpoints_def resolveUnilateralExitJobOutpoints_def
        sortArkadeVtxoOutpoints_def)
  show ?thesis using exit_offers_accepted[OF w(1), of sample_page 0 5 "[]"] w b by blast
qed

end
