(* ===== verification/Exit_Topology.thy ===== *)
theory Exit_Topology
  imports Exit_View "HOL-Library.While_Combinator"
begin

text \<open>
  The tree of transactions of a unilateral exit as the control page draws it:
  \<open>lib/arkade/unilateral-exit-topology.ts\<close>, with the badges of \<open>unilateral-exit-node-icons.ts\<close>,
  \<open>unilateral-exit-vtxo-expiry.ts\<close> and \<open>vtxo-exit-selectors.ts\<close>. The transactions on the exit path are
  found by a depth-first search with an explicit stack, written with \<open>while\<close> as in the source; it
  is shown to end on every graph, also a cyclic one, with exactly the ancestors of the leaf. The
  layout of the graph and the shape of an edge come from packages and are parameters.
\<close>

section \<open>Data\<close>

record exitTopologyNode =
  tn_txid :: string
  tn_txType :: string
  tn_spends :: "string list"

record exitHostOutpoint =
  ho_txid :: string
  ho_vout :: int
  ho_amountSats :: int
  ho_isUnrolled :: bool
  ho_expiresAt :: int

record exitTopology =
  tp_nodes :: "exitTopologyNode list"
  tp_leafOutpoints :: "arkadeVtxoOutpoint list"
  tp_hostOutpoints :: "exitHostOutpoint list"
  tp_exitBranchTxids :: "string list"
  tp_commitmentTxids :: "string list"

definition includesArkadeVtxoOutpoint :: "arkadeVtxoOutpoint list \<Rightarrow> arkadeVtxoOutpoint \<Rightarrow> bool" where
  "includesArkadeVtxoOutpoint outpoints p \<longleftrightarrow> list_ex (\<lambda>q. arkadeVtxoOutpointsEqual q p) outpoints"

definition resolveUnilateralExitTopologyOutpoints ::
  "exitEnv \<Rightarrow> arkadeVtxoOutpoint list option \<Rightarrow> arkadeVtxoOutpoint list \<Rightarrow> arkadeVtxoOutpoint list \<Rightarrow>
   arkadeVtxoOutpoint list option \<Rightarrow> arkadeVtxoOutpoint list" where
  "resolveUnilateralExitTopologyOutpoints env authoritative selected inProgress persisted =
     (if authoritative \<noteq> None \<and> length (the authoritative) > 0 then sortArkadeVtxoOutpoints (xe_localeCompare env) (the authoritative)
      else if length selected > 0 then sortArkadeVtxoOutpoints (xe_localeCompare env) selected
      else if persisted \<noteq> None \<and> length (the persisted) > 0 then sortArkadeVtxoOutpoints (xe_localeCompare env) (the persisted)
      else if length inProgress > 0 then sortArkadeVtxoOutpoints (xe_localeCompare env) inProgress
      else [])"

section \<open>Node identifiers\<close>

definition leafOutpointNodeId :: "arkadeVtxoOutpoint \<Rightarrow> string" where
  "leafOutpointNodeId p = vo_txid p @ '':'' @ int_str (vo_vout p)"

text \<open>\<open>lastIndexOf(':')\<close>, as the length of what follows the last colon.\<close>

definition after_last_colon :: "string \<Rightarrow> string" where
  "after_last_colon s = rev (takeWhile (\<lambda>c. c \<noteq> CHR '':'') (rev s))"

definition parseUnilateralExitNodeId :: "string \<Rightarrow> string \<times> int option" where
  "parseUnilateralExitNodeId nodeId =
     (if CHR '':'' \<notin> set nodeId then (nodeId, None)
      else let tail = after_last_colon nodeId;
               txid = take (length nodeId - length tail - 1) nodeId
           in case js_integer (js_to_number tail) of
                Some vout \<Rightarrow> if vout \<ge> 0 then (txid, Some vout) else (nodeId, None)
              | None \<Rightarrow> (nodeId, None))"

section \<open>Grouping\<close>

text \<open>A \<open>Map\<close> from a txid to the outpoints on it; each group is sorted by its output index.\<close>

definition group_by_txid :: "('o \<Rightarrow> string) \<Rightarrow> ('o \<Rightarrow> int) \<Rightarrow> 'o list \<Rightarrow> 'o list js_record" where
  "group_by_txid txid vout outpoints =
     map (\<lambda>(k, siblings). (k, js_sort (\<lambda>l r. of_int (vout l - vout r)) siblings))
       (fold (\<lambda>o' grouped. rec_set (txid o') (case_option [] id (rec_get grouped (txid o')) @ [o']) grouped) outpoints [])"

definition groupLeafOutpointsByTxid :: "arkadeVtxoOutpoint list \<Rightarrow> arkadeVtxoOutpoint list js_record" where
  "groupLeafOutpointsByTxid = group_by_txid vo_txid vo_vout"

definition groupHostOutpointsByTxid :: "exitHostOutpoint list \<Rightarrow> exitHostOutpoint list js_record" where
  "groupHostOutpointsByTxid = group_by_txid ho_txid ho_vout"

definition hostOutpointsForTxid :: "exitTopology \<Rightarrow> string \<Rightarrow> exitHostOutpoint list" where
  "hostOutpointsForTxid topology txid =
     case_option [] id (rec_get (groupHostOutpointsByTxid (tp_hostOutpoints topology)) txid)"

definition leafOutpointsForTxid :: "exitTopology \<Rightarrow> string \<Rightarrow> arkadeVtxoOutpoint list" where
  "leafOutpointsForTxid topology txid =
     case_option [] id (rec_get (groupLeafOutpointsByTxid (tp_leafOutpoints topology)) txid)"

definition allLeafOutpointsSelected :: "arkadeVtxoOutpoint list \<Rightarrow> arkadeVtxoOutpoint list \<Rightarrow> bool" where
  "allLeafOutpointsSelected leafOutpoints selected \<longleftrightarrow>
     length leafOutpoints > 0 \<and> list_all (includesArkadeVtxoOutpoint selected) leafOutpoints"

section \<open>The exit path\<close>

text \<open>A JavaScript \<open>Set\<close> of strings in insertion order.\<close>

definition set_add :: "string \<Rightarrow> string list \<Rightarrow> string list" where
  "set_add x xs = (if x \<in> set xs then xs else xs @ [x])"

type_synonym search_state = "string list \<times> string list \<times> string list"

definition search_open :: "search_state \<Rightarrow> bool" where
  "search_open = (\<lambda>(visited, path, stack). length stack > 0)"

definition spends_of :: "exitTopologyNode js_record \<Rightarrow> string \<Rightarrow> string list" where
  "spends_of nodes txid = (case rec_get nodes txid of Some node \<Rightarrow> tn_spends node | None \<Rightarrow> [])"

definition search_step :: "exitTopologyNode js_record \<Rightarrow> search_state \<Rightarrow> search_state" where
  "search_step nodes = (\<lambda>(visited, path, stack).
     let txid = last stack; rest = butlast stack
     in if txid \<in> set visited then (visited, path, rest)
        else (set_add txid visited, set_add txid path, rest @ spends_of nodes txid))"

definition collectAncestorTxids :: "string \<Rightarrow> exitTopologyNode js_record \<Rightarrow> string list" where
  "collectAncestorTxids start nodes =
     (case while search_open (search_step nodes) ([], [], [start]) of (visited, path, stack) \<Rightarrow> path)"

definition node_map :: "exitTopologyNode list \<Rightarrow> exitTopologyNode js_record" where
  "node_map nodes = fold (\<lambda>node. rec_set (tn_txid node) node) nodes []"

definition computeExitPathTxids :: "exitTopology \<Rightarrow> arkadeVtxoOutpoint list \<Rightarrow> string list" where
  "computeExitPathTxids topology selected =
     (if length selected = 0 then []
      else fold (\<lambda>leaf path. fold set_add (collectAncestorTxids (vo_txid leaf) (node_map (tp_nodes topology))) path) selected [])"

definition mergeNodeStatuses :: "exitTopology \<Rightarrow> exitNodeStatus list \<Rightarrow> exitNodeStatus js_record" where
  "mergeNodeStatuses topology statuses =
     fold (\<lambda>node m. if rec_get m (tn_txid node) \<noteq> None then m
                    else rec_set (tn_txid node) \<lparr>ns_txid = tn_txid node, ns_confirmations = 0, ns_status = NodePending\<rparr> m)
       (tp_nodes topology) (fold (\<lambda>status. rec_set (ns_txid status) status) statuses [])"

definition buildGraphLinks :: "exitTopology \<Rightarrow> (string \<times> string) list" where
  "buildGraphLinks topology =
     (let linksFromSpends = concat (map (\<lambda>node. map (\<lambda>parent. (parent, tn_txid node)) (tn_spends node)) (tp_nodes topology))
      in if length linksFromSpends > 0 then linksFromSpends
         else zip (tp_exitBranchTxids topology) (drop 1 (tp_exitBranchTxids topology)))"

section \<open>Badges\<close>

definition DAY_SECONDS :: int where "DAY_SECONDS = 86400"

definition UNILATERAL_EXIT_VTXO_EXPIRY_WARNING_SECONDS :: int where
  "UNILATERAL_EXIT_VTXO_EXPIRY_WARNING_SECONDS = 3 * DAY_SECONDS"

datatype exitExpiryUrgency = UrgencyExpired | UrgencyWarning

definition remainingExpirySeconds :: "int option \<Rightarrow> int \<Rightarrow> int option" where
  "remainingExpirySeconds expiresAt nowSeconds =
     (case expiresAt of None \<Rightarrow> None | Some e \<Rightarrow> if e \<le> 0 then None else Some (e - nowSeconds))"

definition formatRemainingDaysCopy :: "int \<Rightarrow> string" where
  "formatRemainingDaysCopy remainingSeconds =
     (if remainingSeconds < DAY_SECONDS then ''expires in less than 1 day''
      else let remainingDays = remainingSeconds div DAY_SECONDS
           in if remainingDays = 1 then ''expires in 1 day'' else ''expires in '' @ int_str remainingDays @ '' days'')"

definition urgencyForRemainingSeconds :: "int \<Rightarrow> exitExpiryUrgency option" where
  "urgencyForRemainingSeconds remainingSeconds =
     (if remainingSeconds \<le> 0 then Some UrgencyExpired
      else if remainingSeconds < UNILATERAL_EXIT_VTXO_EXPIRY_WARNING_SECONDS then Some UrgencyWarning
      else None)"

definition formatUnilateralExitVtxoExpiryRemaining :: "int option \<Rightarrow> int \<Rightarrow> string option" where
  "formatUnilateralExitVtxoExpiryRemaining expiresAt nowSeconds =
     (case remainingExpirySeconds expiresAt nowSeconds of
        None \<Rightarrow> None
      | Some r \<Rightarrow> if r \<le> 0 then Some ''expired'' else Some (formatRemainingDaysCopy r))"

fun urgency_loop :: "exitHostOutpoint list \<Rightarrow> int \<Rightarrow> bool \<Rightarrow> exitExpiryUrgency option" where
  "urgency_loop [] nowSeconds warningFound = (if warningFound then Some UrgencyWarning else None)"
| "urgency_loop (o' # os) nowSeconds warningFound =
     (case remainingExpirySeconds (Some (ho_expiresAt o')) nowSeconds of
        None \<Rightarrow> urgency_loop os nowSeconds warningFound
      | Some r \<Rightarrow>
          (case urgencyForRemainingSeconds r of
             Some UrgencyExpired \<Rightarrow> Some UrgencyExpired
           | Some UrgencyWarning \<Rightarrow> urgency_loop os nowSeconds True
           | None \<Rightarrow> urgency_loop os nowSeconds warningFound))"

definition hostTxVtxoExpiryUrgency :: "exitHostOutpoint list \<Rightarrow> int \<Rightarrow> exitExpiryUrgency option" where
  "hostTxVtxoExpiryUrgency hostOutpoints nowSeconds = urgency_loop hostOutpoints nowSeconds False"

datatype exitCoinStage = Exitable | Timelocked | Claimable

definition resolveExitCoinStage :: "bool list \<Rightarrow> bool \<Rightarrow> exitCoinStage" where
  "resolveExitCoinStage trackedVtxosPastTimelock txConfirmed =
     (if length trackedVtxosPastTimelock > 0 \<and> list_all id trackedVtxosPastTimelock then Claimable
      else if txConfirmed then Timelocked else Exitable)"

definition HOST_CONFIRMED_CHILD_PHASES :: "vtxoExitPhase list" where
  "HOST_CONFIRMED_CHILD_PHASES = [HostConfirmed, Unrolled, CompleteReady]"

definition resolveArkadeHostCoinStage ::
  "exitHostOutpoint list \<Rightarrow> bool \<Rightarrow> vtxoExitChildView js_record \<Rightarrow> exitCoinStage" where
  "resolveArkadeHostCoinStage hostOutpoints nodeConfirmed snapshots =
     (let trackedPhases = List.map_filter (\<lambda>h. lookupVtxoExitChildPhase snapshots (ho_txid h) (ho_vout h)) hostOutpoints
      in resolveExitCoinStage (map (\<lambda>phase. phase = CompleteReady) trackedPhases)
           (nodeConfirmed \<or> list_ex ho_isUnrolled hostOutpoints \<or>
            list_ex (\<lambda>phase. phase \<in> set HOST_CONFIRMED_CHILD_PHASES) trackedPhases))"

datatype exitNodeIconKind = IconCommitment | IconCheckpoint | IconTree | IconLeaf | IconFallback

definition resolveUnilateralExitNodeIconKind :: "string \<Rightarrow> bool \<Rightarrow> exitNodeIconKind" where
  "resolveUnilateralExitNodeIconKind txType isLeaf =
     (if isLeaf then IconLeaf
      else if txType = ''commitment'' then IconCommitment
      else if txType = ''checkpoint'' then IconCheckpoint
      else if txType = ''tree'' then IconTree
      else IconFallback)"

definition formatUnilateralExitTxTypeLabel :: "string \<Rightarrow> bool \<Rightarrow> string" where
  "formatUnilateralExitTxTypeLabel txType isLeaf =
     (if isLeaf then ''Leaf VTXO''
      else if txType = ''commitment'' then ''Commitment''
      else if txType = ''checkpoint'' then ''Checkpoint''
      else if txType = ''tree'' then ''Tree''
      else if txType = ''ark'' then ''Ark''
      else if txType = ''unspecified'' then ''Unspecified''
      else txType)"

section \<open>The drawn graph\<close>

datatype layoutDirection = DirLR | DirTB

datatype connectionSide = SideTop | SideBottom | SideLeft | SideRight

type_synonym point = "js_number \<times> js_number"

definition js_plus :: "js_number \<Rightarrow> rat \<Rightarrow> js_number" where
  "js_plus v r = (case v of Fin x \<Rightarrow> js_double (x + r) | _ \<Rightarrow> v)"

definition UNILATERAL_EXIT_NODE_DIAMETER_PX :: rat where "UNILATERAL_EXIT_NODE_DIAMETER_PX = 48"
definition UNILATERAL_EXIT_LAYOUT_NODE_SIZE_PX :: rat where
  "UNILATERAL_EXIT_LAYOUT_NODE_SIZE_PX = UNILATERAL_EXIT_NODE_DIAMETER_PX * 2"

definition EXIT_GRAPH_PATH_EDGE_COLOR :: string where "EXIT_GRAPH_PATH_EDGE_COLOR = ''#3b82f6''"
definition EXIT_GRAPH_DEFAULT_EDGE_COLOR :: string where "EXIT_GRAPH_DEFAULT_EDGE_COLOR = ''#94a3b8''"
definition EXIT_GRAPH_PATH_STROKE_WIDTH :: rat where "EXIT_GRAPH_PATH_STROKE_WIDTH = 5 / 2"
definition EXIT_GRAPH_DEFAULT_STROKE_WIDTH :: rat where "EXIT_GRAPH_DEFAULT_STROKE_WIDTH = 3 / 2"

definition resolveNodeConnectionPositions :: "layoutDirection \<Rightarrow> connectionSide \<times> connectionSide" where
  "resolveNodeConnectionPositions d = (if d = DirLR then (SideRight, SideLeft) else (SideBottom, SideTop))"

fun connectionPointFromNodeCenter :: "point \<Rightarrow> connectionSide \<Rightarrow> rat \<Rightarrow> point" where
  "connectionPointFromNodeCenter (x, y) SideTop d = (x, js_plus y (- (d / 2)))"
| "connectionPointFromNodeCenter (x, y) SideBottom d = (x, js_plus y (d / 2))"
| "connectionPointFromNodeCenter (x, y) SideLeft d = (js_plus x (- (d / 2)), y)"
| "connectionPointFromNodeCenter (x, y) SideRight d = (js_plus x (d / 2), y)"

definition layoutPosition :: "js_number \<Rightarrow> js_number \<Rightarrow> layoutDirection \<Rightarrow> int \<Rightarrow> int \<Rightarrow> point" where
  "layoutPosition layoutX layoutY d spreadIndex spreadCount =
     (let spreadOffset = (of_int spreadIndex - of_int (spreadCount - 1) / 2) * UNILATERAL_EXIT_LAYOUT_NODE_SIZE_PX
      in if d = DirLR then (layoutY, js_plus layoutX spreadOffset) else (js_plus layoutX spreadOffset, layoutY))"

definition resolveLayoutDirection :: "rat \<Rightarrow> rat \<Rightarrow> layoutDirection" where
  "resolveLayoutDirection containerWidth containerHeight = (if containerWidth > containerHeight then DirLR else DirTB)"

record exitEdgePath =
  ep_id :: string
  ep_path :: string
  ep_animated :: bool
  ep_stroke :: string
  ep_strokeWidth :: rat

text \<open>The shape of an edge between two connection points is a parameter.\<close>

type_synonym smooth_step_path = "point \<Rightarrow> connectionSide \<Rightarrow> point \<Rightarrow> connectionSide \<Rightarrow> string"

definition buildEdgePaths ::
  "smooth_step_path \<Rightarrow> (string \<times> string) list \<Rightarrow> point js_record \<Rightarrow> layoutDirection \<Rightarrow> string list \<Rightarrow> exitEdgePath list" where
  "buildEdgePaths smooth graphLinks positions d pathTxids =
     (case resolveNodeConnectionPositions d of (sourcePosition, targetPosition) \<Rightarrow>
       concat (map (\<lambda>(source, target).
         case (rec_get positions source, rec_get positions target) of
           (Some sourceCenter, Some targetCenter) \<Rightarrow>
             (let sourcePoint = connectionPointFromNodeCenter sourceCenter sourcePosition UNILATERAL_EXIT_NODE_DIAMETER_PX;
                  targetPoint = connectionPointFromNodeCenter targetCenter targetPosition UNILATERAL_EXIT_NODE_DIAMETER_PX;
                  onPath = (source \<in> set pathTxids \<and> target \<in> set pathTxids)
              in [\<lparr>ep_id = source @ ''->'' @ target, ep_path = smooth sourcePoint sourcePosition targetPoint targetPosition,
                   ep_animated = onPath,
                   ep_stroke = (if onPath then EXIT_GRAPH_PATH_EDGE_COLOR else EXIT_GRAPH_DEFAULT_EDGE_COLOR),
                   ep_strokeWidth = (if onPath then EXIT_GRAPH_PATH_STROKE_WIDTH else EXIT_GRAPH_DEFAULT_STROKE_WIDTH)\<rparr>])
         | _ \<Rightarrow> []) graphLinks))"

text \<open>A callback is known by its name.\<close>

record exitTreeNodeData =
  nd_txid :: string
  nd_vout :: "int option"
  nd_txType :: string
  nd_isLeaf :: bool
  nd_isSelectedLeaf :: bool
  nd_isOnExitPath :: bool
  nd_isFocused :: bool
  nd_status :: exitNodeStatusKind
  nd_inProgressOverlay :: "exitOverlayKind option"
  nd_proceedingAutomatically :: bool
  nd_onReadyToProceed :: "string option"
  nd_readyToProceedDisabled :: "bool option"
  nd_confirmations :: int
  nd_layoutDirection :: layoutDirection
  nd_exitableVtxoCount :: int
  nd_hostCoinStage :: exitCoinStage
  nd_vtxoExpiryUrgency :: "exitExpiryUrgency option"

record exitGraphParams =
  gp_topology :: exitTopology
  gp_selectedLeafOutpoints :: "arkadeVtxoOutpoint list"
  gp_nodeStatuses :: "exitNodeStatus list"
  gp_inProgressOverlay :: "exitOverlayKind option"
  gp_proceedingAutomatically :: bool
  gp_layoutDirection :: layoutDirection
  gp_focusedNodeId :: "string option"
  gp_onReadyToProceed :: "string option"
  gp_readyToProceedDisabled :: "bool option"
  gp_vtxoExitSnapshots :: "vtxoExitChildView js_record"
  gp_nowSeconds :: int

definition buildTreeNodeData ::
  "exitGraphParams \<Rightarrow> string list \<Rightarrow> string \<Rightarrow> int option \<Rightarrow> string \<Rightarrow> bool \<Rightarrow> bool \<Rightarrow> int \<Rightarrow> exitCoinStage \<Rightarrow>
   exitExpiryUrgency option \<Rightarrow> exitNodeStatus option \<Rightarrow> exitTreeNodeData" where
  "buildTreeNodeData g pathTxids txid vout txType isLeaf isSelectedLeaf vtxoCount stage urgency status =
     (let nodeStatus = case_option NodePending ns_status status;
          overlay = (if nodeStatus = NodeInProgress then gp_inProgressOverlay g else None)
      in \<lparr>nd_txid = txid, nd_vout = vout, nd_txType = txType, nd_isLeaf = isLeaf, nd_isSelectedLeaf = isSelectedLeaf,
          nd_isOnExitPath = (txid \<in> set pathTxids), nd_isFocused = (gp_focusedNodeId g = Some txid),
          nd_status = nodeStatus, nd_inProgressOverlay = overlay,
          nd_proceedingAutomatically =
            (if overlay \<noteq> None \<and> overlay \<noteq> Some OverlayReadyToProceed then gp_proceedingAutomatically g else False),
          nd_onReadyToProceed = (if overlay = Some OverlayReadyToProceed then gp_onReadyToProceed g else None),
          nd_readyToProceedDisabled = (if overlay = Some OverlayReadyToProceed then gp_readyToProceedDisabled g else None),
          nd_confirmations = case_option 0 ns_confirmations status, nd_layoutDirection = gp_layoutDirection g,
          nd_exitableVtxoCount = vtxoCount, nd_hostCoinStage = stage, nd_vtxoExpiryUrgency = urgency\<rparr>)"

record exitFlowNode =
  fl_id :: string
  fl_position :: point
  fl_sourcePosition :: connectionSide
  fl_targetPosition :: connectionSide
  fl_data :: exitTreeNodeData

text \<open>The layered layout of the graph is a parameter: it gives the nodes of the links with their
  coordinates, or throws (a cyclic graph has no layers).\<close>

type_synonym dag_layout = "(string \<times> string) list \<Rightarrow> string + (string \<times> js_number option \<times> js_number option) list"

definition flow_node :: "exitGraphParams \<Rightarrow> (js_number \<times> js_number) js_record \<Rightarrow> string \<Rightarrow> exitFlowNode" where
  "flow_node g dagPositions txid =
     (let topology = gp_topology g;
          pathTxids = computeExitPathTxids topology (gp_selectedLeafOutpoints g);
          leafOutpoints = case_option [] id (rec_get (groupLeafOutpointsByTxid (tp_leafOutpoints topology)) txid);
          hostOutpoints = case_option [] id (rec_get (groupHostOutpointsByTxid (tp_hostOutpoints topology)) txid);
          status = rec_get (mergeNodeStatuses topology (gp_nodeStatuses g)) txid;
          topologyNode = List.find (\<lambda>node. tn_txid node = txid) (tp_nodes topology);
          dagPosition = case_option (Fin 0, Fin 0) id (rec_get dagPositions txid);
          sides = resolveNodeConnectionPositions (gp_layoutDirection g)
      in \<lparr>fl_id = txid,
          fl_position = layoutPosition (fst dagPosition) (snd dagPosition) (gp_layoutDirection g) 0 1,
          fl_sourcePosition = fst sides, fl_targetPosition = snd sides,
          fl_data = buildTreeNodeData g pathTxids txid None (case_option ''unknown'' tn_txType topologyNode)
            (length leafOutpoints > 0) (allLeafOutpointsSelected leafOutpoints (gp_selectedLeafOutpoints g))
            (int (length hostOutpoints))
            (resolveArkadeHostCoinStage hostOutpoints (map_option ns_status status = Some NodeConfirmed) (gp_vtxoExitSnapshots g))
            (hostTxVtxoExpiryUrgency hostOutpoints (gp_nowSeconds g)) status\<rparr>)"

definition layoutUnilateralExitGraph ::
  "dag_layout \<Rightarrow> smooth_step_path \<Rightarrow> exitGraphParams \<Rightarrow> string + exitFlowNode list \<times> exitEdgePath list" where
  "layoutUnilateralExitGraph layout smooth g =
     (let graphLinks = buildGraphLinks (gp_topology g)
      in if length graphLinks = 0 \<and> length (tp_nodes (gp_topology g)) = 0 then Inr ([], [])
         else case layout graphLinks of
           Inl e \<Rightarrow> Inl e
         | Inr dagNodes \<Rightarrow>
             (let dagPositions =
                    fold (\<lambda>(txid, x, y). rec_set txid (case_option (Fin 0) id x, case_option (Fin 0) id y)) dagNodes [];
                  nodes = map (\<lambda>(txid, _). flow_node g dagPositions txid) dagNodes;
                  positions = fold (\<lambda>node. rec_set (fl_id node) (fl_position node)) nodes []
              in Inr (nodes, buildEdgePaths smooth graphLinks positions (gp_layoutDirection g)
                               (computeExitPathTxids (gp_topology g) (gp_selectedLeafOutpoints g)))))"

section \<open>The search\<close>

definition spends_rel :: "exitTopologyNode js_record \<Rightarrow> (string \<times> string) set" where
  "spends_rel nodes = {(child, parent). parent \<in> set (spends_of nodes child)}"

definition search_inv :: "exitTopologyNode js_record \<Rightarrow> string \<Rightarrow> search_state \<Rightarrow> bool" where
  "search_inv nodes start = (\<lambda>(visited, path, stack).
     path = visited \<and> distinct visited \<and> start \<in> set visited \<union> set stack \<and>
     set visited \<union> set stack \<subseteq> {t. (start, t) \<in> (spends_rel nodes)\<^sup>*} \<and>
     (\<forall>t \<in> set visited. set (spends_of nodes t) \<subseteq> set visited \<union> set stack))"

lemma search_inv_step:
  assumes "search_inv nodes start s" and "search_open s"
  shows "search_inv nodes start (search_step nodes s)"
proof -
  obtain visited stack where s: "s = (visited, visited, stack)" and ne: "stack \<noteq> []"
    using assms by (cases s) (auto simp: search_inv_def search_open_def)
  then obtain rest t where st: "stack = rest @ [t]" by (metis rev_exhaust)
  have reach: "(start, p) \<in> (spends_rel nodes)\<^sup>*" if "p \<in> set (spends_of nodes t)" for p
  proof -
    have "(start, t) \<in> (spends_rel nodes)\<^sup>*" using assms(1) s st by (auto simp: search_inv_def)
    then show ?thesis using that by (auto simp: spends_rel_def intro: rtrancl_into_rtrancl)
  qed
  show ?thesis
    using assms(1) reach unfolding s st
    by (cases "t \<in> set visited") (auto simp: search_inv_def search_step_def set_add_def)
qed

text \<open>Either a transaction that has a node is visited for the first time, or the stack shrinks.\<close>

lemma search_step_decreases:
  assumes "search_open s"
  shows "(search_step nodes s, s) \<in> measures [\<lambda>(visited, path, stack). card (set (map fst nodes) - set visited),
    \<lambda>(visited, path, stack). length stack]"
proof -
  obtain visited path stack where s: "s = (visited, path, stack)" by (cases s)
  from assms s have "stack \<noteq> []" by (simp add: search_open_def)
  then obtain rest t where st: "stack = rest @ [t]" by (metis rev_exhaust)
  show ?thesis
  proof (cases "t \<in> set visited")
    case False
    show ?thesis
    proof (cases "t \<in> set (map fst nodes)")
      case True
      then have "set (map fst nodes) - set (visited @ [t]) \<subset> set (map fst nodes) - set visited" using False by auto
      then have "card (set (map fst nodes) - set (visited @ [t])) < card (set (map fst nodes) - set visited)"
        by (intro psubset_card_mono) auto
      then show ?thesis using False by (simp add: s st search_step_def set_add_def)
    next
      case absent: False
      then have "rec_get nodes t = None" by (metis rec_get_def map_of_eq_None_iff list.set_map)
      moreover from absent have "set (map fst nodes) - set (visited @ [t]) = set (map fst nodes) - set visited" by auto
      ultimately show ?thesis using False by (simp add: s st search_step_def set_add_def spends_of_def)
    qed
  qed (simp add: s st search_step_def)
qed

lemma search_ends: "\<exists>t. while_option search_open (search_step nodes) s = Some t"
  by (rule wf_rel_while_option_Some[where P = "\<lambda>_. True", OF wf_measures search_step_decreases]) auto

lemma collect_result:
  "\<exists>path. while_option search_open (search_step nodes) ([], [], [start]) = Some (path, path, []) \<and>
     collectAncestorTxids start nodes = path \<and> distinct path \<and> set path = {t. (start, t) \<in> (spends_rel nodes)\<^sup>*}"
proof -
  obtain s where w: "while_option search_open (search_step nodes) ([], [], [start]) = Some s" using search_ends by blast
  have inv: "search_inv nodes start s"
  proof (rule while_option_rule[where P = "search_inv nodes start", OF _ w])
    show "search_inv nodes start ([], [], [start])" by (simp add: search_inv_def)
  qed (rule search_inv_step)
  have "\<not> search_open s" using while_option_stop[OF w] .
  then obtain path where s: "s = (path, path, [])"
    using inv by (cases s) (auto simp: search_inv_def search_open_def)
  have "t \<in> set path" if "(start, t) \<in> (spends_rel nodes)\<^sup>*" for t
    using that
  proof induction
    case base
    show ?case using inv by (simp add: search_inv_def s)
  next
    case (step t u)
    then show ?case using inv by (auto simp: search_inv_def s spends_rel_def)
  qed
  then have "set path = {t. (start, t) \<in> (spends_rel nodes)\<^sup>*}" using inv by (auto simp: search_inv_def s)
  moreover have "collectAncestorTxids start nodes = path" using w by (simp add: collectAncestorTxids_def while_def s)
  ultimately show ?thesis using w inv by (auto simp: s search_inv_def)
qed

lemma set_fold_set_add: "set (fold set_add xs path) = set path \<union> set xs"
  by (induction xs arbitrary: path) (auto simp: set_add_def)

lemma distinct_fold_set_add: "distinct path \<Longrightarrow> distinct (fold set_add xs path)"
  by (induction xs arbitrary: path) (auto simp: set_add_def)

text \<open>A transaction that a selected leaf depends on.\<close>

definition leaf_ancestor :: "exitTopology \<Rightarrow> arkadeVtxoOutpoint list \<Rightarrow> string \<Rightarrow> bool" where
  "leaf_ancestor topology selected t \<longleftrightarrow>
     (\<exists>leaf \<in> set selected. (vo_txid leaf, t) \<in> (spends_rel (node_map (tp_nodes topology)))\<^sup>*)"

lemma computeExitPathTxids_result:
  "distinct (computeExitPathTxids topology selected) \<and>
   set (computeExitPathTxids topology selected) = {t. leaf_ancestor topology selected t}"
proof -
  have collect: "set (collectAncestorTxids a (node_map (tp_nodes topology))) =
      {t. (a, t) \<in> (spends_rel (node_map (tp_nodes topology)))\<^sup>*}" for a
    using collect_result by metis
  define path :: "arkadeVtxoOutpoint \<Rightarrow> string list \<Rightarrow> string list" where
    "path = (\<lambda>leaf. fold set_add (collectAncestorTxids (vo_txid leaf) (node_map (tp_nodes topology))))"
  have "set (fold path ls acc) = set acc \<union> {t. \<exists>leaf \<in> set ls. (vo_txid leaf, t) \<in> (spends_rel (node_map (tp_nodes topology)))\<^sup>*}"
    and "distinct acc \<Longrightarrow> distinct (fold path ls acc)" for ls acc
    by (induction ls arbitrary: acc) (auto simp: path_def set_fold_set_add collect distinct_fold_set_add)
  from this[where ls = selected and acc = "[]"] show ?thesis
    by (auto simp: computeExitPathTxids_def path_def leaf_ancestor_def)
qed


section \<open>Node identifiers\<close>

lemma after_last_colon_digits: "after_last_colon (t @ '':'' @ int_str n) = int_str n"
proof -
  have "takeWhile (\<lambda>c. c \<noteq> CHR '':'') (rev (int_str n) @ CHR '':'' # rev t) = rev (int_str n)"
    using colon_notin_int_str[of n] by (subst takeWhile_append2) auto
  then show ?thesis by (simp add: after_last_colon_def)
qed

lemma digits_prefix:
  assumes "list_all is_digit s"
  shows "js_lower (take 2 s) \<noteq> ''0x''" and "js_lower (take 2 s) \<noteq> ''0o''" and "js_lower (take 2 s) \<noteq> ''0b''"
proof -
  have "js_lower_char c = c" if "is_digit c" for c using that by (auto simp: js_lower_char_def is_digit_def Let_def)
  then have low: "js_lower (take 2 s) = take 2 s"
    using assms by (auto simp: js_lower_def list_all_iff intro!: map_idI dest: in_set_takeD)
  have "list_all is_digit (take 2 s)" using assms by (auto simp: list_all_iff dest: in_set_takeD)
  then show "js_lower (take 2 s) \<noteq> ''0x''" "js_lower (take 2 s) \<noteq> ''0o''" "js_lower (take 2 s) \<noteq> ''0b''"
    unfolding low by (auto simp: is_digit_def)
qed

lemma js_to_number_int_str:
  assumes "0 \<le> n" and "n \<le> MAX_SAFE_SATS"
  shows "js_to_number (int_str n) = Fin (of_int n)"
proof -
  have digits: "list_all is_digit (int_str n)" using int_str_digits[OF assms(1)] .
  obtain c r where cr: "int_str n = c # r" using int_str_not_Nil[of n] by (cases "int_str n") auto
  have c: "is_digit c" using digits cr by simp
  have start: "take 1 (int_str n) \<noteq> ''-''" "take 1 (int_str n) \<noteq> ''+''" "\<not> starts_with ''Infinity'' (int_str n)"
    using digit_facts[OF c] by (simp_all add: cr starts_with_def)
  have all: "takeWhile is_digit (int_str n) = int_str n" "dropWhile is_digit (int_str n) = []"
    using digits by (simp_all add: list_all_iff)
  have val: "of_nat (digits_value (int_str n)) = (of_int n :: rat)"
    using digits_value_int_str[OF assms(1)] by (metis of_int_of_nat_eq)
  show ?thesis
    using start js_double_int[OF assms] digits_prefix[OF digits]
    by (simp add: js_to_number_def js_trim_digits[OF digits] js_float_prefix_def all exponent_part_def val Let_def)
qed

lemma node_id_roundtrip:
  assumes "0 \<le> vo_vout p" and "vo_vout p \<le> MAX_SAFE_SATS"
  shows "parseUnilateralExitNodeId (leafOutpointNodeId p) = (vo_txid p, Some (vo_vout p))"
proof -
  have "js_integer (js_to_number (int_str (vo_vout p))) = Some (vo_vout p)"
    using js_to_number_int_str[OF assms] by simp
  then show ?thesis
    using assms(1) after_last_colon_digits[of "vo_txid p" "vo_vout p"]
    by (simp add: parseUnilateralExitNodeId_def leafOutpointNodeId_def Let_def)
qed

section \<open>What the graph shows\<close>

lemma flow_node_data:
  "fl_id (flow_node g positions txid) = txid"
  "nd_txid (fl_data (flow_node g positions txid)) = txid"
  "nd_isOnExitPath (fl_data (flow_node g positions txid)) \<longleftrightarrow>
     txid \<in> set (computeExitPathTxids (gp_topology g) (gp_selectedLeafOutpoints g))"
  "nd_onReadyToProceed (fl_data (flow_node g positions txid)) = None \<or>
     nd_status (fl_data (flow_node g positions txid)) = NodeInProgress"
  by (auto simp: flow_node_def buildTreeNodeData_def Let_def split: if_splits)

lemma rec_get_fold_positions:
  "rec_get (fold (\<lambda>node. rec_set (fl_id node) (fl_position node)) nodes m) k \<noteq> None \<longleftrightarrow>
   k \<in> fl_id ` set nodes \<or> rec_get m k \<noteq> None"
  by (induction nodes arbitrary: m) (auto simp: js_rec.get_set)

lemma edge_paths_result:
  "map (\<lambda>e. (ep_id e, ep_animated e)) (buildEdgePaths smooth links positions d path) =
   map (\<lambda>(a, b). (a @ ''->'' @ b, a \<in> set path \<and> b \<in> set path))
     (filter (\<lambda>(a, b). rec_get positions a \<noteq> None \<and> rec_get positions b \<noteq> None) links)"
proof (induction links)
  case (Cons l links)
  obtain a b where l: "l = (a, b)" by (cases l)
  obtain s t where st: "resolveNodeConnectionPositions d = (s, t)" by (cases "resolveNodeConnectionPositions d")
  show ?case
    using Cons.IH by (cases "rec_get positions a"; cases "rec_get positions b") (simp_all add: l buildEdgePaths_def st Let_def)
qed (simp add: buildEdgePaths_def split: prod.split)

section \<open>Properties\<close>

text \<open>C34: The search for the ancestors of a leaf ends on every set of transactions, also when they spend
  each other in a circle, and finds each transaction that the leaf depends on exactly once,
  and no other.\<close>

theorem exit_path_search_ends:
  "\<exists>path. while_option search_open (search_step nodes) ([], [], [start]) = Some (path, path, []) \<and>
     collectAncestorTxids start nodes = path \<and> distinct path \<and> set path = {t. (start, t) \<in> (spends_rel nodes)\<^sup>*}"
  by (rule collect_result)

text \<open>When the layout succeeds, the drawn graph has the transactions of the layout as its nodes; a node
  is marked as on the exit path exactly when a selected leaf depends on it, an edge is drawn for
  every link between drawn nodes and animated exactly when both its ends are on that path, and
  only a node in progress can offer to proceed.\<close>

theorem exit_graph_shows_path:
  assumes "layout (buildGraphLinks (gp_topology g)) = Inr laid" and "tp_nodes (gp_topology g) \<noteq> []"
  shows "\<exists>nodes edges. layoutUnilateralExitGraph layout smooth g = Inr (nodes, edges) \<and> map fl_id nodes = map fst laid \<and>
    list_all (\<lambda>n. nd_isOnExitPath (fl_data n) \<longleftrightarrow> leaf_ancestor (gp_topology g) (gp_selectedLeafOutpoints g) (fl_id n)) nodes \<and>
    list_all (\<lambda>n. nd_onReadyToProceed (fl_data n) = None \<or> nd_status (fl_data n) = NodeInProgress) nodes \<and>
    map (\<lambda>e. (ep_id e, ep_animated e)) edges =
      map (\<lambda>(a, b). (a @ ''->'' @ b, leaf_ancestor (gp_topology g) (gp_selectedLeafOutpoints g) a \<and>
          leaf_ancestor (gp_topology g) (gp_selectedLeafOutpoints g) b))
        (filter (\<lambda>(a, b). a \<in> set (map fst laid) \<and> b \<in> set (map fst laid)) (buildGraphLinks (gp_topology g)))"
proof -
  define dagPositions where
    "dagPositions = fold (\<lambda>(txid, x, y). rec_set txid (case_option (Fin 0) id x, case_option (Fin 0) id y)) laid []"
  define nodes where "nodes = map (\<lambda>(txid, _). flow_node g dagPositions txid) laid"
  define positions where "positions = fold (\<lambda>node. rec_set (fl_id node) (fl_position node)) nodes []"
  define edges where "edges = buildEdgePaths smooth (buildGraphLinks (gp_topology g)) positions (gp_layoutDirection g)
    (computeExitPathTxids (gp_topology g) (gp_selectedLeafOutpoints g))"
  have result: "layoutUnilateralExitGraph layout smooth g = Inr (nodes, edges)"
    using assms by (simp add: layoutUnilateralExitGraph_def Let_def edges_def positions_def nodes_def dagPositions_def)
  have ids: "map fl_id nodes = map fst laid" by (auto simp: nodes_def flow_node_data)
  have drawn: "rec_get positions k \<noteq> None \<longleftrightarrow> k \<in> set (map fst laid)" for k
    using rec_get_fold_positions[of nodes "[]" k] ids[THEN arg_cong, of set] by (simp add: positions_def rec_get_def)
  have path: "t \<in> set (computeExitPathTxids (gp_topology g) (gp_selectedLeafOutpoints g)) \<longleftrightarrow>
      leaf_ancestor (gp_topology g) (gp_selectedLeafOutpoints g) t" for t
    using computeExitPathTxids_result by simp
  have marks: "list_all (\<lambda>n. nd_isOnExitPath (fl_data n) \<longleftrightarrow>
        leaf_ancestor (gp_topology g) (gp_selectedLeafOutpoints g) (fl_id n)) nodes"
      "list_all (\<lambda>n. nd_onReadyToProceed (fl_data n) = None \<or> nd_status (fl_data n) = NodeInProgress) nodes"
    using flow_node_data(4)[of g dagPositions] by (auto simp: nodes_def list_all_iff flow_node_data(1,3) path split: prod.splits)
  show ?thesis
    using result ids marks edge_paths_result[of smooth "buildGraphLinks (gp_topology g)" positions "gp_layoutDirection g"
        "computeExitPathTxids (gp_topology g) (gp_selectedLeafOutpoints g)", folded edges_def, unfolded drawn path]
    by (intro exI[of _ nodes] exI[of _ edges]) simp
qed

definition sample_graph :: exitGraphParams where
  "sample_graph = \<lparr>
     gp_topology = \<lparr>tp_nodes = [\<lparr>tn_txid = ''l'', tn_txType = ''ark'', tn_spends = [''r'']\<rparr>,
         \<lparr>tn_txid = ''m'', tn_txType = ''ark'', tn_spends = [''r'']\<rparr>],
       tp_leafOutpoints = [\<lparr>vo_txid = ''l'', vo_vout = 0\<rparr>], tp_hostOutpoints = [], tp_exitBranchTxids = [],
       tp_commitmentTxids = [''r'']\<rparr>,
     gp_selectedLeafOutpoints = [\<lparr>vo_txid = ''l'', vo_vout = 0\<rparr>], gp_nodeStatuses = [], gp_inProgressOverlay = None,
     gp_proceedingAutomatically = False, gp_layoutDirection = DirTB, gp_focusedNodeId = None, gp_onReadyToProceed = None,
     gp_readyToProceedDisabled = None, gp_vtxoExitSnapshots = [], gp_nowSeconds = 0\<rparr>"

definition sample_layout :: dag_layout where
  "sample_layout links = Inr (map (\<lambda>t. (t, None, None)) (remdups (concat (map (\<lambda>(a, b). [a, b]) links))))"

theorem exit_graph_shows_path_witness:
  "\<exists>nodes edges. layoutUnilateralExitGraph sample_layout (\<lambda>_ _ _ _. []) sample_graph = Inr (nodes, edges) \<and>
     map fl_id nodes = [''l'', ''r'', ''m''] \<and> map ep_id edges = [''r->l'', ''r->m'']"
proof -
  have links: "buildGraphLinks (gp_topology sample_graph) = [(''r'', ''l''), (''r'', ''m'')]"
    by (simp add: buildGraphLinks_def sample_graph_def)
  have "sample_layout (buildGraphLinks (gp_topology sample_graph)) =
      Inr [(''l'', None, None), (''r'', None, None), (''m'', None, None)]"
    by (simp add: links sample_layout_def)
  moreover have "tp_nodes (gp_topology sample_graph) \<noteq> []" by (simp add: sample_graph_def)
  ultimately obtain nodes edges where
      "layoutUnilateralExitGraph sample_layout (\<lambda>_ _ _ _. []) sample_graph = Inr (nodes, edges)"
      "map fl_id nodes = [''l'', ''r'', ''m'']"
      and e: "map fst (map (\<lambda>e. (ep_id e, ep_animated e)) edges) = [''r->l'', ''r->m'']"
    using exit_graph_shows_path[of sample_layout sample_graph _ "\<lambda>_ _ _ _. []"] by (fastforce simp: links)
  moreover have "map ep_id edges = [''r->l'', ''r->m'']" using e by (simp add: o_def)
  ultimately show ?thesis by (intro exI conjI)
qed

end
