(* ===== verification/Save_Lifecycle.thy ===== *)
theory Save_Lifecycle
  imports Exit_View
begin

text \<open>
  Saving the state of a rail (on-chain, Arkade, Lightning):
  \<open>lib/wallet/lifecycle/save-lifecycle-orchestrator-factory.ts\<close> on top of the tracker of
  \<open>lifecycle-in-flight-tracker.ts\<close>, with the three configurations of the rails. The code is
  asynchronous; the model is a function on events, one per stretch of code that runs without
  interruption: a call up to its first \<open>await\<close>, the end of the body of a save, and the settling of
  its promise, which comes a little later and only then frees the tracker. Any order of events is
  a possible schedule.
\<close>

section \<open>Event systems\<close>

text \<open>A schedule is a list of events; \<open>admissible\<close> says that each event is allowed in the state it
  meets. The first locale is the contract for invariants of such schedules, the second one is for
  events that are allowed in every state or in none.\<close>

primrec admissible :: "('e \<Rightarrow> 's \<Rightarrow> 's) \<Rightarrow> ('e \<Rightarrow> 's \<Rightarrow> bool) \<Rightarrow> 'e list \<Rightarrow> 's \<Rightarrow> bool" where
  "admissible f allowed [] s \<longleftrightarrow> True"
| "admissible f allowed (e # es) s \<longleftrightarrow> allowed e s \<and> admissible f allowed es (f e s)"

locale guarded_invariant =
  fixes step :: "'e \<Rightarrow> 's \<Rightarrow> 's"
    and allowed :: "'e \<Rightarrow> 's \<Rightarrow> bool"
    and inv :: "'s \<Rightarrow> bool"
  assumes guarded_step_keeps: "inv s \<Longrightarrow> allowed e s \<Longrightarrow> inv (step e s)"
begin

lemma guarded_run_keeps: "inv s \<Longrightarrow> admissible step allowed es s \<Longrightarrow> inv (fold step es s)"
  by (induction es arbitrary: s) (auto intro: guarded_step_keeps)

end

locale event_invariant =
  fixes step :: "'e \<Rightarrow> 's \<Rightarrow> 's"
    and admitted :: "'e \<Rightarrow> bool"
    and inv :: "'s \<Rightarrow> bool"
  assumes step_keeps: "inv s \<Longrightarrow> admitted e \<Longrightarrow> inv (step e s)"

sublocale event_invariant \<subseteq> guarded: guarded_invariant step "\<lambda>e s. admitted e" inv
  by unfold_locales (rule step_keeps)

context event_invariant
begin

lemma admissible_list_all: "list_all admitted es \<Longrightarrow> admissible step (\<lambda>e s. admitted e) es s"
  by (induction es arbitrary: s) auto

lemma run_keeps: "inv s \<Longrightarrow> list_all admitted es \<Longrightarrow> inv (fold step es s)"
  by (rule guarded.guarded_run_keeps[OF _ admissible_list_all])

end

section \<open>State\<close>

datatype saveLifecyclePhase = SaveNotConfigured | NotSaving | Saving | SaveError

datatype lockLifecyclePhase = NoLock | Locked | Locking | Unlocking | Unlocked

definition shouldSkipRailLifecycleResetForLockPhase :: "lockLifecyclePhase \<Rightarrow> bool \<Rightarrow> bool" where
  "shouldSkipRailLifecycleResetForLockPhase lockPhase hasInFlightLifecycleWork \<longleftrightarrow>
     lockPhase = Unlocking \<or> lockPhase = Unlocked \<or> hasInFlightLifecycleWork"

record 's saveSnapshot =
  sn_savePhase :: saveLifecyclePhase
  sn_errorMessage :: "string option"
  sn_scope :: "'s option"

definition notConfiguredSnapshot :: "'s saveSnapshot" where
  "notConfiguredSnapshot = \<lparr>sn_savePhase = SaveNotConfigured, sn_errorMessage = None, sn_scope = None\<rparr>"

definition notSavingSnapshot :: "'s \<Rightarrow> 's saveSnapshot" where
  "notSavingSnapshot scope = \<lparr>sn_savePhase = NotSaving, sn_errorMessage = None, sn_scope = Some scope\<rparr>"

definition savingSnapshot :: "'s \<Rightarrow> 's saveSnapshot" where
  "savingSnapshot scope = \<lparr>sn_savePhase = Saving, sn_errorMessage = None, sn_scope = Some scope\<rparr>"

definition saveErrorSnapshot :: "'s \<Rightarrow> string \<Rightarrow> 's saveSnapshot" where
  "saveErrorSnapshot scope message = \<lparr>sn_savePhase = SaveError, sn_errorMessage = Some message, sn_scope = Some scope\<rparr>"

record ('p, 's) saveConfig =
  cfg_saveKey :: "'p \<Rightarrow> string"
  cfg_scopeFromParams :: "'p \<Rightarrow> 's"
  cfg_skipConfigureForLoadedRail :: "'s \<Rightarrow> bool"
  cfg_retrySaveErrorMessage :: string
  cfg_userFacingErrorMessage :: "string \<Rightarrow> string"

text \<open>A piece of work: its body runs, has ended, or its promise has settled (with an error or
  without).\<close>

datatype workStage = BodyRunning | BodyResolved | BodyRejected string | Settled "string option"

record 'p saveWork =
  wk_key :: string
  wk_params :: 'p
  wk_stage :: workStage

text \<open>The state of one orchestrator. \<open>so_calls\<close> records which work each call got as its promise,
  \<open>so_failed\<close> the calls that failed at once, \<open>so_waits\<close> what each wait for quiescence waits for.\<close>

record ('p, 's) saveOrchestrator =
  so_snapshot :: "'s saveSnapshot"
  so_inFlight :: "nat option"
  so_works :: "'p saveWork list"
  so_lastSaveParams :: "'p option"
  so_forcedLockAcknowledged :: bool
  so_calls :: "(nat \<times> 'p \<times> nat) list"
  so_failed :: "(nat \<times> string) list"
  so_waits :: "(nat \<times> nat option) list"

definition createSaveLifecycleOrchestrator :: "('p, 's) saveOrchestrator" where
  "createSaveLifecycleOrchestrator =
     \<lparr>so_snapshot = notConfiguredSnapshot, so_inFlight = None, so_works = [], so_lastSaveParams = None,
      so_forcedLockAcknowledged = False, so_calls = [], so_failed = [], so_waits = []\<rparr>"

section \<open>The tracker\<close>

definition getCoalescedInFlightPromise :: "string \<Rightarrow> ('p, 's) saveOrchestrator \<Rightarrow> nat option" where
  "getCoalescedInFlightPromise key st =
     (case so_inFlight st of
        Some n \<Rightarrow> if wk_key (so_works st ! n) = key then Some n else None
      | None \<Rightarrow> None)"

definition begin_work :: "string \<Rightarrow> 'p \<Rightarrow> ('p, 's) saveOrchestrator \<Rightarrow> ('p, 's) saveOrchestrator" where
  "begin_work key params st =
     st\<lparr>so_inFlight := Some (length (so_works st)),
        so_works := so_works st @ [\<lparr>wk_key = key, wk_params = params, wk_stage = BodyRunning\<rparr>]\<rparr>"

definition clearCompletedWork :: "nat \<Rightarrow> ('p, 's) saveOrchestrator \<Rightarrow> ('p, 's) saveOrchestrator" where
  "clearCompletedWork n st = (if so_inFlight st = Some n then st\<lparr>so_inFlight := None\<rparr> else st)"

definition set_stage :: "nat \<Rightarrow> workStage \<Rightarrow> ('p, 's) saveOrchestrator \<Rightarrow> ('p, 's) saveOrchestrator" where
  "set_stage n stage st = st\<lparr>so_works := (so_works st)[n := (so_works st ! n)\<lparr>wk_stage := stage\<rparr>]\<rparr>"

definition awaitQuiescence :: "nat \<Rightarrow> ('p, 's) saveOrchestrator \<Rightarrow> ('p, 's) saveOrchestrator" where
  "awaitQuiescence c st = st\<lparr>so_waits := so_waits st @ [(c, so_inFlight st)]\<rparr>"

section \<open>The orchestrator\<close>

definition isSaveBlockingLock :: "('p, 's) saveOrchestrator \<Rightarrow> bool" where
  "isSaveBlockingLock st \<longleftrightarrow> sn_savePhase (so_snapshot st) = SaveError \<and> \<not> so_forcedLockAcknowledged st"

definition acknowledgeSaveErrorForForcedLock :: "('p, 's) saveOrchestrator \<Rightarrow> ('p, 's) saveOrchestrator" where
  "acknowledgeSaveErrorForForcedLock st =
     (let st' = st\<lparr>so_forcedLockAcknowledged := True\<rparr>
      in if sn_savePhase (so_snapshot st) = SaveError
         then case sn_scope (so_snapshot st) of
                Some scope \<Rightarrow> st'\<lparr>so_snapshot := notSavingSnapshot scope\<rparr>
              | None \<Rightarrow> st'
         else st')"

definition configureSaveForLoadedRail :: "('p, 's) saveConfig \<Rightarrow> 's \<Rightarrow> ('p, 's) saveOrchestrator \<Rightarrow> ('p, 's) saveOrchestrator" where
  "configureSaveForLoadedRail cfg scope st =
     (if sn_savePhase (so_snapshot st) \<noteq> SaveNotConfigured then st
      else if cfg_skipConfigureForLoadedRail cfg scope then st
      else st\<lparr>so_snapshot := notSavingSnapshot scope\<rparr>)"

definition syncSaveLifecycleWithLockPhase :: "lockLifecyclePhase \<Rightarrow> ('p, 's) saveOrchestrator \<Rightarrow> ('p, 's) saveOrchestrator" where
  "syncSaveLifecycleWithLockPhase lockPhase st =
     (if shouldSkipRailLifecycleResetForLockPhase lockPhase (so_inFlight st \<noteq> None) then st
      else st\<lparr>so_forcedLockAcknowledged := False, so_lastSaveParams := None, so_snapshot := notConfiguredSnapshot\<rparr>)"

definition forceResetSaveLifecycleForTeardown :: "('p, 's) saveOrchestrator \<Rightarrow> ('p, 's) saveOrchestrator" where
  "forceResetSaveLifecycleForTeardown st =
     st\<lparr>so_inFlight := None, so_forcedLockAcknowledged := False, so_lastSaveParams := None,
        so_snapshot := notConfiguredSnapshot\<rparr>"

text \<open>A call joins the work in flight when that has the same key; otherwise it starts its own.\<close>

definition orchestrateSave :: "('p, 's) saveConfig \<Rightarrow> nat \<Rightarrow> 'p \<Rightarrow> ('p, 's) saveOrchestrator \<Rightarrow> ('p, 's) saveOrchestrator" where
  "orchestrateSave cfg c params st =
     (let key = cfg_saveKey cfg params
      in case getCoalescedInFlightPromise key st of
           Some n \<Rightarrow> st\<lparr>so_calls := so_calls st @ [(c, params, n)]\<rparr>
         | None \<Rightarrow>
             (begin_work key params st)
               \<lparr>so_lastSaveParams := Some params, so_forcedLockAcknowledged := False,
                so_snapshot := savingSnapshot (cfg_scopeFromParams cfg params),
                so_calls := so_calls st @ [(c, params, length (so_works st))]\<rparr>)"

definition orchestrateRetrySave :: "('p, 's) saveConfig \<Rightarrow> nat \<Rightarrow> ('p, 's) saveOrchestrator \<Rightarrow> ('p, 's) saveOrchestrator" where
  "orchestrateRetrySave cfg c st =
     (case so_lastSaveParams st of
        None \<Rightarrow> st\<lparr>so_failed := so_failed st @ [(c, cfg_retrySaveErrorMessage cfg)]\<rparr>
      | Some params \<Rightarrow> orchestrateSave cfg c params st)"

definition LIFECYCLE_SAVE_ERROR_FALLBACK :: string where "LIFECYCLE_SAVE_ERROR_FALLBACK = ''Save failed''"

definition save_body_resolves :: "('p, 's) saveConfig \<Rightarrow> nat \<Rightarrow> ('p, 's) saveOrchestrator \<Rightarrow> ('p, 's) saveOrchestrator" where
  "save_body_resolves cfg n st =
     (set_stage n BodyResolved st)\<lparr>so_snapshot := notSavingSnapshot (cfg_scopeFromParams cfg (wk_params (so_works st ! n)))\<rparr>"

definition save_body_rejects :: "('p, 's) saveConfig \<Rightarrow> nat \<Rightarrow> string \<Rightarrow> ('p, 's) saveOrchestrator \<Rightarrow> ('p, 's) saveOrchestrator" where
  "save_body_rejects cfg n e st =
     (let shown = cfg_userFacingErrorMessage cfg e;
          message = (if shown = [] then LIFECYCLE_SAVE_ERROR_FALLBACK else shown)
      in (set_stage n (BodyRejected e) st)
           \<lparr>so_snapshot := saveErrorSnapshot (cfg_scopeFromParams cfg (wk_params (so_works st ! n))) message\<rparr>)"

datatype ('p, 's) saveEvent =
  CallSave nat 'p
  | CallRetry nat
  | BodyResolves nat
  | BodyRejects nat string
  | PromiseSettles nat
  | AcknowledgeError
  | ConfigureRail 's
  | LockPhaseChanged lockLifecyclePhase
  | ForceReset
  | AwaitQuiescence nat

definition has_stage :: "nat \<Rightarrow> (workStage \<Rightarrow> bool) \<Rightarrow> ('p, 's) saveOrchestrator \<Rightarrow> bool" where
  "has_stage n f st \<longleftrightarrow> n < length (so_works st) \<and> f (wk_stage (so_works st ! n))"

fun save_step :: "('p, 's) saveConfig \<Rightarrow> ('p, 's) saveEvent \<Rightarrow> ('p, 's) saveOrchestrator \<Rightarrow> ('p, 's) saveOrchestrator" where
  "save_step cfg (CallSave c params) st = orchestrateSave cfg c params st"
| "save_step cfg (CallRetry c) st = orchestrateRetrySave cfg c st"
| "save_step cfg (BodyResolves n) st =
     (if has_stage n (\<lambda>s. s = BodyRunning) st then save_body_resolves cfg n st else st)"
| "save_step cfg (BodyRejects n e) st =
     (if has_stage n (\<lambda>s. s = BodyRunning) st then save_body_rejects cfg n e st else st)"
| "save_step cfg (PromiseSettles n) st =
     (if n < length (so_works st)
      then case wk_stage (so_works st ! n) of
             BodyResolved \<Rightarrow> clearCompletedWork n (set_stage n (Settled None) st)
           | BodyRejected e \<Rightarrow> clearCompletedWork n (set_stage n (Settled (Some e)) st)
           | _ \<Rightarrow> st
      else st)"
| "save_step cfg AcknowledgeError st = acknowledgeSaveErrorForForcedLock st"
| "save_step cfg (ConfigureRail scope) st = configureSaveForLoadedRail cfg scope st"
| "save_step cfg (LockPhaseChanged p) st = syncSaveLifecycleWithLockPhase p st"
| "save_step cfg ForceReset st = forceResetSaveLifecycleForTeardown st"
| "save_step cfg (AwaitQuiescence c) st = awaitQuiescence c st"

definition run_save :: "('p, 's) saveConfig \<Rightarrow> ('p, 's) saveEvent list \<Rightarrow> ('p, 's) saveOrchestrator" where
  "run_save cfg es = fold (save_step cfg) es createSaveLifecycleOrchestrator"

section \<open>The rails\<close>

text \<open>The address type is a string enumeration; it is kept as its string.\<close>

record onchainSaveParams =
  op_walletId :: int
  op_networkMode :: networkMode
  op_addressType :: string
  op_accountId :: int
  op_markFullScanDone :: "bool option"

record onchainRailDescriptorScope =
  od_walletId :: int
  od_networkMode :: networkMode
  od_addressType :: string
  od_accountId :: int

definition onchainRailDescriptorScopeKey :: "onchainRailDescriptorScope \<Rightarrow> string" where
  "onchainRailDescriptorScopeKey scope =
     int_str (od_walletId scope) @ '':'' @ network_name (od_networkMode scope) @ '':'' @ od_addressType scope @ '':'' @
     int_str (od_accountId scope)"

definition descriptorScopeFromParams :: "onchainSaveParams \<Rightarrow> onchainRailDescriptorScope" where
  "descriptorScopeFromParams params =
     \<lparr>od_walletId = op_walletId params, od_networkMode = op_networkMode params, od_addressType = op_addressType params,
      od_accountId = op_accountId params\<rparr>"

definition onchainSaveLifecycle :: "(string \<Rightarrow> string) \<Rightarrow> (onchainSaveParams, onchainRailDescriptorScope) saveConfig" where
  "onchainSaveLifecycle shown =
     \<lparr>cfg_saveKey = (\<lambda>params. onchainRailDescriptorScopeKey (descriptorScopeFromParams params)),
      cfg_scopeFromParams = descriptorScopeFromParams,
      cfg_skipConfigureForLoadedRail = (\<lambda>scope. od_networkMode scope = Lab),
      cfg_retrySaveErrorMessage = ''No on-chain save to retry'', cfg_userFacingErrorMessage = shown\<rparr>"

definition arkadeSaveLifecycle :: "(string \<Rightarrow> string) \<Rightarrow> (arkadeWalletScope, arkadeWalletScope) saveConfig" where
  "arkadeSaveLifecycle shown =
     \<lparr>cfg_saveKey = arkadeWalletScopeKey, cfg_scopeFromParams = id, cfg_skipConfigureForLoadedRail = (\<lambda>_. False),
      cfg_retrySaveErrorMessage = ''No Arkade save to retry'', cfg_userFacingErrorMessage = shown\<rparr>"

record lightningRailScope =
  ln_walletId :: int
  ln_networkMode :: networkMode

text \<open>What a Lightning save carries: a change of the stored connections, or patches of their
  snapshots.\<close>

datatype 'c lightningSaveKind = SaveConnections "'c list \<Rightarrow> 'c list" | SaveSnapshotPatches "(string \<times> string) list"

record 'c lightningSaveParams =
  lp_scope :: lightningRailScope
  lp_save :: "'c lightningSaveKind"

definition lightningRailScopeKey :: "lightningRailScope \<Rightarrow> string" where
  "lightningRailScopeKey scope = int_str (ln_walletId scope) @ '':'' @ network_name (ln_networkMode scope)"

fun lightning_save_kind :: "'c lightningSaveKind \<Rightarrow> string" where
  "lightning_save_kind (SaveConnections u) = ''connections''"
| "lightning_save_kind (SaveSnapshotPatches ps) = ''snapshotPatches''"

definition lightningSaveLifecycle :: "(string \<Rightarrow> string) \<Rightarrow> ('c lightningSaveParams, lightningRailScope) saveConfig" where
  "lightningSaveLifecycle shown =
     \<lparr>cfg_saveKey = (\<lambda>params. lightningRailScopeKey (lp_scope params) @ '':'' @ lightning_save_kind (lp_save params)),
      cfg_scopeFromParams = lp_scope, cfg_skipConfigureForLoadedRail = (\<lambda>_. False),
      cfg_retrySaveErrorMessage = ''No Lightning save to retry'', cfg_userFacingErrorMessage = shown\<rparr>"

text \<open>The stored connections after the bodies that have ended well, in the order they were started.\<close>

definition body_ended_well :: "workStage \<Rightarrow> bool" where
  "body_ended_well s \<longleftrightarrow> s = BodyResolved \<or> s = Settled None"

definition stored_connections :: "('c lightningSaveParams, lightningRailScope) saveOrchestrator \<Rightarrow> 'c list \<Rightarrow> 'c list" where
  "stored_connections st =
     fold (\<lambda>w. if body_ended_well (wk_stage w)
               then (case lp_save (wk_params w) of SaveConnections update \<Rightarrow> update | SaveSnapshotPatches _ \<Rightarrow> id)
               else id) (so_works st)"

section \<open>What holds under every schedule\<close>

definition settled :: "workStage \<Rightarrow> bool" where
  "settled s \<longleftrightarrow> (case s of Settled _ \<Rightarrow> True | _ \<Rightarrow> False)"

lemma settled_simps [simp]: "settled (Settled r)" "\<not> settled BodyRunning" "\<not> settled BodyResolved" "\<not> settled (BodyRejected e)"
  by (simp_all add: settled_def)

text \<open>The work in flight has not settled; every call got a work with the key of its own parameters;
  saving is shown only while the body of the latest save runs; an error has a scope.\<close>

definition call_ok :: "('p, 's) saveConfig \<Rightarrow> 'p saveWork list \<Rightarrow> nat \<times> 'p \<times> nat \<Rightarrow> bool" where
  "call_ok cfg works = (\<lambda>(c, p, n). n < length works \<and> wk_key (works ! n) = cfg_saveKey cfg p)"

definition save_inv :: "('p, 's) saveConfig \<Rightarrow> ('p, 's) saveOrchestrator \<Rightarrow> bool" where
  "save_inv cfg st \<longleftrightarrow>
     (\<forall>n. so_inFlight st = Some n \<longrightarrow> n < length (so_works st) \<and> \<not> settled (wk_stage (so_works st ! n))) \<and>
     list_all (\<lambda>w. wk_key w = cfg_saveKey cfg (wk_params w)) (so_works st) \<and>
     list_all (call_ok cfg (so_works st)) (so_calls st) \<and>
     (sn_savePhase (so_snapshot st) = Saving \<longrightarrow>
        (\<exists>n. length (so_works st) = Suc n \<and> wk_stage (so_works st ! n) = BodyRunning)) \<and>
     (sn_savePhase (so_snapshot st) = SaveError \<longrightarrow> sn_scope (so_snapshot st) \<noteq> None)"

lemmas snapshot_defs = notConfiguredSnapshot_def notSavingSnapshot_def savingSnapshot_def saveErrorSnapshot_def

lemma save_inv_initial: "save_inv cfg createSaveLifecycleOrchestrator"
  by (simp add: save_inv_def createSaveLifecycleOrchestrator_def notConfiguredSnapshot_def)

lemma call_ok_append: "call_ok cfg works x \<Longrightarrow> call_ok cfg (works @ [w]) x"
  by (auto simp: call_ok_def nth_append)

lemma call_ok_stage: "call_ok cfg works x \<Longrightarrow> call_ok cfg (works[n := (works ! n)\<lparr>wk_stage := s\<rparr>]) x"
  by (cases "snd (snd x) = n") (auto simp: call_ok_def)

lemma works_keys_stage:
  "list_all (\<lambda>w. wk_key w = cfg_saveKey cfg (wk_params w)) works \<Longrightarrow>
   list_all (\<lambda>w. wk_key w = cfg_saveKey cfg (wk_params w)) (works[n := (works ! n)\<lparr>wk_stage := s\<rparr>])"
  by (cases "n < length works") (auto simp: list_all_length nth_list_update)

lemma orchestrateSave_inv:
  assumes "save_inv cfg st"
  shows "save_inv cfg (orchestrateSave cfg c p st)"
proof (cases "getCoalescedInFlightPromise (cfg_saveKey cfg p) st")
  case None
  have "list_all (call_ok cfg (so_works st @ [w])) (so_calls st)" for w
    using assms by (auto simp: save_inv_def list_all_iff intro: call_ok_append)
  then show ?thesis using assms None
    by (simp add: save_inv_def orchestrateSave_def begin_work_def savingSnapshot_def call_ok_def)
next
  case (Some n)
  then have "call_ok cfg (so_works st) (c, p, n)"
    using assms by (auto simp: save_inv_def getCoalescedInFlightPromise_def call_ok_def split: option.splits if_splits)
  then show ?thesis using assms Some by (simp add: save_inv_def orchestrateSave_def)
qed

lemma set_stage_inv:
  assumes "save_inv cfg st" and "n < length (so_works st)" and "settled s \<Longrightarrow> inFlight \<noteq> Some n"
    and "inFlight = None \<or> inFlight = so_inFlight st"
    and "sn_savePhase snap = Saving \<Longrightarrow> snap = so_snapshot st \<and> wk_stage (so_works st ! n) \<noteq> BodyRunning"
    and "sn_savePhase snap = SaveError \<Longrightarrow> sn_scope snap \<noteq> None"
  shows "save_inv cfg ((set_stage n s st)\<lparr>so_snapshot := snap, so_inFlight := inFlight\<rparr>)"
proof -
  have "list_all (call_ok cfg ((so_works st)[n := (so_works st ! n)\<lparr>wk_stage := s\<rparr>])) (so_calls st)"
    using assms(1) by (auto simp: save_inv_def list_all_iff intro: call_ok_stage)
  moreover have "list_all (\<lambda>w. wk_key w = cfg_saveKey cfg (wk_params w)) ((so_works st)[n := (so_works st ! n)\<lparr>wk_stage := s\<rparr>])"
    using assms(1) by (intro works_keys_stage) (simp add: save_inv_def)
  ultimately show ?thesis using assms by (auto simp: save_inv_def set_stage_def nth_list_update)
qed

lemma update_same: "(set_stage n s st)\<lparr>so_snapshot := so_snapshot st, so_inFlight := x\<rparr> = (set_stage n s st)\<lparr>so_inFlight := x\<rparr>"
    "(set_stage n s st)\<lparr>so_snapshot := y, so_inFlight := so_inFlight st\<rparr> = (set_stage n s st)\<lparr>so_snapshot := y\<rparr>"
    "(set_stage n s st)\<lparr>so_inFlight := so_inFlight st\<rparr> = set_stage n s st"
  by (simp_all add: set_stage_def)

lemma save_step_inv:
  assumes "save_inv cfg st"
  shows "save_inv cfg (save_step cfg e st)"
proof (cases e)
  case (CallRetry c)
  then show ?thesis using assms orchestrateSave_inv[OF assms]
    by (simp add: orchestrateRetrySave_def split: option.split) (simp add: save_inv_def)
next
  case (BodyResolves n)
  then show ?thesis
    using assms by (auto simp: save_body_resolves_def has_stage_def snapshot_defs
        intro!: set_stage_inv[where inFlight = "so_inFlight st" and st = st and n = n, unfolded update_same])
next
  case (BodyRejects n m)
  then show ?thesis
    using assms by (auto simp: save_body_rejects_def has_stage_def snapshot_defs Let_def
        intro!: set_stage_inv[where inFlight = "so_inFlight st" and st = st and n = n, unfolded update_same])
next
  case (PromiseSettles n)
  have "save_inv cfg (clearCompletedWork n (set_stage n (Settled r) st))"
    if "n < length (so_works st)" "wk_stage (so_works st ! n) \<noteq> BodyRunning" for r
  proof -
    have "clearCompletedWork n (set_stage n (Settled r) st) =
        (set_stage n (Settled r) st)\<lparr>so_snapshot := so_snapshot st, so_inFlight := (if so_inFlight st = Some n then None else so_inFlight st)\<rparr>"
      by (simp add: clearCompletedWork_def set_stage_def)
    moreover have "save_inv cfg \<dots>"
      using assms that by (intro set_stage_inv) (auto simp: save_inv_def)
    ultimately show ?thesis by simp
  qed
  then show ?thesis using PromiseSettles assms by (auto split: workStage.splits)
qed (use assms orchestrateSave_inv[OF assms] in \<open>auto simp: save_inv_def acknowledgeSaveErrorForForcedLock_def
  configureSaveForLoadedRail_def syncSaveLifecycleWithLockPhase_def forceResetSaveLifecycleForTeardown_def
  awaitQuiescence_def snapshot_defs Let_def split: option.splits\<close>)

interpretation save_any: event_invariant "save_step cfg" "\<lambda>_. True" "save_inv cfg"
  by unfold_locales (rule save_step_inv)

lemma run_save_inv: "save_inv cfg (run_save cfg es)"
  using save_any.run_keeps[OF save_inv_initial, of es cfg] by (simp add: run_save_def list_all_iff)


section \<open>Saves with one key\<close>

text \<open>Schedules in which all saves have the same key and nothing tears the rail down.\<close>

fun one_key :: "('p, 's) saveConfig \<Rightarrow> string \<Rightarrow> ('p, 's) saveEvent \<Rightarrow> bool" where
  "one_key cfg k (CallSave c p) \<longleftrightarrow> cfg_saveKey cfg p = k"
| "one_key cfg k ForceReset \<longleftrightarrow> False"
| "one_key cfg k _ \<longleftrightarrow> True"

definition latest_stage :: "('p, 's) saveOrchestrator \<Rightarrow> workStage option" where
  "latest_stage st = (if so_works st = [] then None else Some (wk_stage (last (so_works st))))"

text \<open>Only the latest save can be unfinished, it is the one in flight until it settles, and the
  phase is \<open>saving\<close> exactly while its body runs.\<close>

definition single_inv :: "('p, 's) saveConfig \<Rightarrow> string \<Rightarrow> ('p, 's) saveOrchestrator \<Rightarrow> bool" where
  "single_inv cfg k st \<longleftrightarrow>
     list_all (\<lambda>w. wk_key w = k \<and> settled (wk_stage w)) (butlast (so_works st)) \<and>
     (so_works st \<noteq> [] \<longrightarrow> wk_key (last (so_works st)) = k) \<and>
     so_inFlight st = (case latest_stage st of None \<Rightarrow> None | Some s \<Rightarrow> if settled s then None else Some (length (so_works st) - 1)) \<and>
     (sn_savePhase (so_snapshot st) = Saving \<longleftrightarrow> latest_stage st = Some BodyRunning) \<and>
     (\<forall>p. so_lastSaveParams st = Some p \<longrightarrow> cfg_saveKey cfg p = k)"

lemma single_not_settled:
  assumes "single_inv cfg k st" and "n < length (so_works st)" and "\<not> settled (wk_stage (so_works st ! n))"
  shows "n = length (so_works st) - 1" and "so_works st \<noteq> []"
proof -
  show "so_works st \<noteq> []" using assms(2) by auto
  have "settled (wk_stage (so_works st ! n))" if "n < length (so_works st) - 1"
    using assms(1) that by (auto simp: single_inv_def list_all_length nth_butlast)
  then show "n = length (so_works st) - 1" using assms(2,3) by linarith
qed

lemma single_orchestrateSave:
  assumes "single_inv cfg k st" and "cfg_saveKey cfg p = k"
  shows "single_inv cfg k (orchestrateSave cfg c p st)"
proof (cases "so_inFlight st")
  case None
  then have "list_all (\<lambda>w. wk_key w = k \<and> settled (wk_stage w)) (so_works st)"
    using assms(1) by (cases "so_works st" rule: rev_cases) (auto simp: single_inv_def latest_stage_def split: if_splits)
  then show ?thesis using assms None
    by (simp add: single_inv_def orchestrateSave_def getCoalescedInFlightPromise_def begin_work_def latest_stage_def
        savingSnapshot_def)
next
  case (Some n)
  then have "wk_key (so_works st ! n) = k"
    using assms(1) by (auto simp: single_inv_def latest_stage_def last_conv_nth split: if_splits)
  then have "orchestrateSave cfg c p st = st\<lparr>so_calls := so_calls st @ [(c, p, n)]\<rparr>"
    using assms(2) Some by (simp add: orchestrateSave_def getCoalescedInFlightPromise_def)
  then show ?thesis using assms(1) by (simp add: single_inv_def latest_stage_def)
qed

lemma set_stage_last:
  "so_works st \<noteq> [] \<Longrightarrow> so_works (set_stage (length (so_works st) - 1) s st) =
     butlast (so_works st) @ [(last (so_works st))\<lparr>wk_stage := s\<rparr>]"
  by (cases "so_works st" rule: rev_cases) (auto simp: set_stage_def list_update_append)

lemma single_step:
  assumes "single_inv cfg k st" and "one_key cfg k e"
  shows "single_inv cfg k (save_step cfg e st)"
proof (cases e)
  case (CallRetry c)
  show ?thesis
  proof (cases "so_lastSaveParams st")
    case None
    then show ?thesis using assms(1) CallRetry by (simp add: orchestrateRetrySave_def single_inv_def latest_stage_def)
  next
    case (Some p)
    moreover from this have "cfg_saveKey cfg p = k" using assms(1) by (simp add: single_inv_def)
    ultimately show ?thesis using CallRetry single_orchestrateSave[OF assms(1)] by (simp add: orchestrateRetrySave_def)
  qed
next
  case (BodyResolves n)
  show ?thesis
  proof (cases "has_stage n (\<lambda>s. s = BodyRunning) st")
    case True
    then have n: "n = length (so_works st) - 1" "so_works st \<noteq> []" "wk_stage (last (so_works st)) = BodyRunning"
      using single_not_settled[OF assms(1), of n] by (auto simp: has_stage_def last_conv_nth)
    then show ?thesis using assms(1) True BodyResolves set_stage_last[OF n(2), of BodyResolved]
      by (auto simp: save_body_resolves_def single_inv_def latest_stage_def notSavingSnapshot_def)
        (auto simp: set_stage_def)
  qed (use assms BodyResolves in simp)
next
  case (BodyRejects n m)
  show ?thesis
  proof (cases "has_stage n (\<lambda>s. s = BodyRunning) st")
    case True
    then have n: "n = length (so_works st) - 1" "so_works st \<noteq> []" "wk_stage (last (so_works st)) = BodyRunning"
      using single_not_settled[OF assms(1), of n] by (auto simp: has_stage_def last_conv_nth)
    then show ?thesis using assms(1) True BodyRejects set_stage_last[OF n(2), of "BodyRejected m"]
      by (auto simp: save_body_rejects_def single_inv_def latest_stage_def saveErrorSnapshot_def Let_def)
        (auto simp: set_stage_def)
  qed (use assms BodyRejects in simp)
next
  case (PromiseSettles n)
  have "single_inv cfg k (clearCompletedWork n (set_stage n (Settled r) st))"
    if "n < length (so_works st)" "\<not> settled (wk_stage (so_works st ! n))" "wk_stage (so_works st ! n) \<noteq> BodyRunning" for r
  proof -
    have n: "n = length (so_works st) - 1" "so_works st \<noteq> []" using single_not_settled[OF assms(1) that(1,2)] .
    moreover have "wk_stage (last (so_works st)) \<noteq> BodyRunning" "\<not> settled (wk_stage (last (so_works st)))"
      using that n by (simp_all add: last_conv_nth)
    ultimately show ?thesis using assms(1) set_stage_last[OF n(2), of "Settled r"]
      by (auto simp: single_inv_def clearCompletedWork_def latest_stage_def) (auto simp: set_stage_def)
  qed
  then show ?thesis using PromiseSettles assms by (auto split: workStage.splits)
qed (use assms single_orchestrateSave[OF assms(1)] in \<open>auto simp: single_inv_def acknowledgeSaveErrorForForcedLock_def
  configureSaveForLoadedRail_def syncSaveLifecycleWithLockPhase_def shouldSkipRailLifecycleResetForLockPhase_def
  awaitQuiescence_def snapshot_defs Let_def latest_stage_def split: option.splits if_splits\<close>)


lemma single_initial: "single_inv cfg k createSaveLifecycleOrchestrator"
  by (simp add: single_inv_def createSaveLifecycleOrchestrator_def latest_stage_def notConfiguredSnapshot_def)

interpretation save_single: event_invariant "save_step cfg" "one_key cfg k" "single_inv cfg k"
  by unfold_locales (rule single_step)

section \<open>The outcome of the latest save\<close>

text \<open>Schedules in which, besides, nobody acknowledges an error and the wallet stays unlocked.\<close>

fun unlocked_key :: "('p, 's) saveConfig \<Rightarrow> string \<Rightarrow> ('p, 's) saveEvent \<Rightarrow> bool" where
  "unlocked_key cfg k AcknowledgeError \<longleftrightarrow> False"
| "unlocked_key cfg k (LockPhaseChanged p) \<longleftrightarrow> p = Unlocking \<or> p = Unlocked"
| "unlocked_key cfg k e \<longleftrightarrow> one_key cfg k e"

fun phase_of_stage :: "workStage \<Rightarrow> saveLifecyclePhase" where
  "phase_of_stage BodyRunning = Saving"
| "phase_of_stage BodyResolved = NotSaving"
| "phase_of_stage (BodyRejected e) = SaveError"
| "phase_of_stage (Settled None) = NotSaving"
| "phase_of_stage (Settled (Some e)) = SaveError"

lemma phase_of_stage_configured: "phase_of_stage s \<noteq> SaveNotConfigured" "SaveNotConfigured \<noteq> phase_of_stage s"
  by (cases s rule: phase_of_stage.cases; simp)+

definition outcome_inv :: "('p, 's) saveConfig \<Rightarrow> string \<Rightarrow> ('p, 's) saveOrchestrator \<Rightarrow> bool" where
  "outcome_inv cfg k st \<longleftrightarrow>
     single_inv cfg k st \<and> \<not> so_forcedLockAcknowledged st \<and>
     (so_works st = [] \<longrightarrow> sn_savePhase (so_snapshot st) \<in> {SaveNotConfigured, NotSaving}) \<and>
     (so_works st \<noteq> [] \<longrightarrow> sn_savePhase (so_snapshot st) = phase_of_stage (wk_stage (last (so_works st))) \<and>
        so_lastSaveParams st = Some (wk_params (last (so_works st))))"

lemma outcome_orchestrateSave:
  "outcome_inv cfg k st \<Longrightarrow> cfg_saveKey cfg p = k \<Longrightarrow> outcome_inv cfg k (orchestrateSave cfg c p st)"
  using single_orchestrateSave[of cfg k st p c]
  by (auto simp: outcome_inv_def orchestrateSave_def getCoalescedInFlightPromise_def begin_work_def savingSnapshot_def Let_def
      split: option.splits if_splits)

lemma outcome_stage:
  assumes "outcome_inv cfg k st" and "n < length (so_works st)" and "\<not> settled (wk_stage (so_works st ! n))"
    and "sn_savePhase snap = phase_of_stage s"
    and "single_inv cfg k ((set_stage n s st)\<lparr>so_snapshot := snap, so_inFlight := inFlight\<rparr>)"
  shows "outcome_inv cfg k ((set_stage n s st)\<lparr>so_snapshot := snap, so_inFlight := inFlight\<rparr>)"
proof -
  have n: "n = length (so_works st) - 1" "so_works st \<noteq> []"
    using single_not_settled[OF _ assms(2,3)] assms(1) by (auto simp: outcome_inv_def)
  show ?thesis
    using assms n set_stage_last[OF n(2), of s] by (auto simp: outcome_inv_def) (auto simp: set_stage_def)
qed

lemma outcome_step:
  assumes "outcome_inv cfg k st" and "unlocked_key cfg k e"
  shows "outcome_inv cfg k (save_step cfg e st)"
proof -
  have single: "single_inv cfg k (save_step cfg e st)"
    using assms by (intro single_step) (cases e; auto simp: outcome_inv_def)+
  show ?thesis
  proof (cases e)
    case (CallRetry c)
    then show ?thesis
      using assms outcome_orchestrateSave[OF assms(1)]
      by (cases "so_lastSaveParams st") (auto simp: orchestrateRetrySave_def outcome_inv_def single_inv_def latest_stage_def)
  next
    case (BodyResolves n)
    then show ?thesis
      using assms single by (auto simp: save_body_resolves_def has_stage_def notSavingSnapshot_def
          intro!: outcome_stage[where inFlight = "so_inFlight st" and st = st and n = n, unfolded update_same])
  next
    case (BodyRejects n m)
    then show ?thesis
      using assms single by (auto simp: save_body_rejects_def has_stage_def saveErrorSnapshot_def Let_def
          intro!: outcome_stage[where inFlight = "so_inFlight st" and st = st and n = n, unfolded update_same])
  next
    case (PromiseSettles n)
    have clear: "clearCompletedWork n (set_stage n s st) =
        (set_stage n s st)\<lparr>so_snapshot := so_snapshot st, so_inFlight := (if so_inFlight st = Some n then None else so_inFlight st)\<rparr>" for s
      by (simp add: clearCompletedWork_def set_stage_def)
    have phase: "sn_savePhase (so_snapshot st) = phase_of_stage (wk_stage (so_works st ! n))"
      if "n < length (so_works st)" "\<not> settled (wk_stage (so_works st ! n))"
      using assms(1) single_not_settled[OF _ that] by (auto simp: outcome_inv_def last_conv_nth)
    show ?thesis
      using assms single PromiseSettles phase
      by (auto simp: clear split: workStage.splits intro!: outcome_stage)
  qed (use assms single outcome_orchestrateSave[OF assms(1)] in \<open>auto simp: outcome_inv_def configureSaveForLoadedRail_def
    syncSaveLifecycleWithLockPhase_def shouldSkipRailLifecycleResetForLockPhase_def awaitQuiescence_def notSavingSnapshot_def
      phase_of_stage_configured\<close>)
qed

interpretation save_outcome: event_invariant "save_step cfg" "unlocked_key cfg k" "outcome_inv cfg k"
  by unfold_locales (rule outcome_step)

lemma outcome_initial: "outcome_inv cfg k createSaveLifecycleOrchestrator"
  using single_initial[of cfg k] by (simp add: outcome_inv_def createSaveLifecycleOrchestrator_def notConfiguredSnapshot_def)

section \<open>A sample schedule\<close>

definition failed_save :: "(arkadeWalletScope, arkadeWalletScope) saveEvent list" where
  "failed_save = [ConfigureRail sample_scope, CallSave 1 sample_scope, CallSave 2 sample_scope, BodyRejects 0 ''e'']"

lemma failed_save_run:
  "run_save (arkadeSaveLifecycle id) failed_save =
     \<lparr>so_snapshot = saveErrorSnapshot sample_scope ''e'', so_inFlight = Some 0,
      so_works = [\<lparr>wk_key = arkadeWalletScopeKey sample_scope, wk_params = sample_scope, wk_stage = BodyRejected ''e''\<rparr>],
      so_lastSaveParams = Some sample_scope, so_forcedLockAcknowledged = False,
      so_calls = [(1, sample_scope, 0), (2, sample_scope, 0)], so_failed = [], so_waits = []\<rparr>"
  by (simp add: failed_save_def run_save_def orchestrateSave_def arkadeSaveLifecycle_def createSaveLifecycleOrchestrator_def
      getCoalescedInFlightPromise_def begin_work_def has_stage_def save_body_rejects_def set_stage_def
      configureSaveForLoadedRail_def notConfiguredSnapshot_def Let_def)

section \<open>Properties\<close>

text \<open>Whatever the schedule, every call is served by a save with the key of its own parameters, one it
  joined or one it started, and the phase is \<open>saving\<close> only while the latest save runs.\<close>

theorem save_calls_served:
  assumes "(c, p, n) \<in> set (so_calls (run_save cfg es))"
  shows "n < length (so_works (run_save cfg es)) \<and>
    cfg_saveKey cfg (wk_params (so_works (run_save cfg es) ! n)) = cfg_saveKey cfg p \<and>
    (sn_savePhase (so_snapshot (run_save cfg es)) = Saving \<longrightarrow>
      wk_stage (last (so_works (run_save cfg es))) = BodyRunning)"
proof -
  note inv = run_save_inv[of cfg es, unfolded save_inv_def]
  have "call_ok cfg (so_works (run_save cfg es)) (c, p, n)" using inv assms by (auto simp: list_all_iff)
  then have n: "n < length (so_works (run_save cfg es))" "wk_key (so_works (run_save cfg es) ! n) = cfg_saveKey cfg p"
    by (simp_all add: call_ok_def)
  moreover have "wk_key (so_works (run_save cfg es) ! n) = cfg_saveKey cfg (wk_params (so_works (run_save cfg es) ! n))"
    using inv n(1) by (simp add: list_all_length)
  moreover have "last ws = ws ! m" if "length ws = Suc m" for ws :: "'a saveWork list" and m
    using that by (metis diff_Suc_1 last_conv_nth length_0_conv nat.distinct(1))
  ultimately show ?thesis using inv by metis
qed

theorem save_calls_served_witness:
  "(2, sample_scope, 0) \<in> set (so_calls (run_save (arkadeSaveLifecycle id) failed_save)) \<and>
   cfg_saveKey (arkadeSaveLifecycle id) (wk_params (so_works (run_save (arkadeSaveLifecycle id) failed_save) ! 0)) =
     arkadeWalletScopeKey sample_scope"
proof -
  have "(2, sample_scope, 0) \<in> set (so_calls (run_save (arkadeSaveLifecycle id) failed_save))" by (simp add: failed_save_run)
  from save_calls_served[OF this] this show ?thesis by (simp add: arkadeSaveLifecycle_def)
qed

text \<open>When all saves of a rail have one key, at most one body runs at a time, the phase is \<open>saving\<close>
  exactly then, and a wait for quiescence waits for every save that has not settled.\<close>

theorem save_one_key_exclusive:
  assumes "list_all (one_key cfg k) es"
  shows "(\<forall>m n. has_stage m (\<lambda>s. s = BodyRunning) (run_save cfg es) \<and> has_stage n (\<lambda>s. s = BodyRunning) (run_save cfg es) \<longrightarrow> m = n) \<and>
    (sn_savePhase (so_snapshot (run_save cfg es)) = Saving \<longleftrightarrow> (\<exists>n. has_stage n (\<lambda>s. s = BodyRunning) (run_save cfg es))) \<and>
    (\<forall>n. has_stage n (\<lambda>s. \<not> settled s) (run_save cfg es) \<longrightarrow> so_inFlight (run_save cfg es) = Some n)"
proof -
  have inv: "single_inv cfg k (run_save cfg es)"
    using save_single.run_keeps[OF single_initial assms] by (simp add: run_save_def)
  have latest: "n = length (so_works (run_save cfg es)) - 1 \<and> so_works (run_save cfg es) \<noteq> []"
    if "has_stage n (\<lambda>s. \<not> settled s) (run_save cfg es)" for n
    using single_not_settled[OF inv, of n] that by (simp add: has_stage_def)
  have running: "has_stage n (\<lambda>s. \<not> settled s) (run_save cfg es)" if "has_stage n (\<lambda>s. s = BodyRunning) (run_save cfg es)" for n
    using that by (auto simp: has_stage_def)
  have "so_inFlight (run_save cfg es) = Some n" if "has_stage n (\<lambda>s. \<not> settled s) (run_save cfg es)" for n
    using latest[OF that] that inv by (auto simp: single_inv_def latest_stage_def has_stage_def last_conv_nth)
  moreover have "sn_savePhase (so_snapshot (run_save cfg es)) = Saving \<longleftrightarrow>
      (\<exists>n. has_stage n (\<lambda>s. s = BodyRunning) (run_save cfg es))"
  proof -
    have "sn_savePhase (so_snapshot (run_save cfg es)) = Saving \<longleftrightarrow> so_works (run_save cfg es) \<noteq> [] \<and>
        wk_stage (so_works (run_save cfg es) ! (length (so_works (run_save cfg es)) - 1)) = BodyRunning"
      using inv by (auto simp: single_inv_def latest_stage_def last_conv_nth)
    also have "\<dots> \<longleftrightarrow> (\<exists>n. has_stage n (\<lambda>s. s = BodyRunning) (run_save cfg es))"
      using latest[OF running] by (auto simp: has_stage_def intro!: exI[of _ "length (so_works (run_save cfg es)) - 1"])
    finally show ?thesis .
  qed
  ultimately show ?thesis using latest[OF running] by metis
qed

theorem save_one_key_exclusive_witness:
  "list_all (one_key (arkadeSaveLifecycle id) (arkadeWalletScopeKey sample_scope)) failed_save \<and>
   so_inFlight (run_save (arkadeSaveLifecycle id) failed_save) = Some 0"
proof -
  have one: "list_all (one_key (arkadeSaveLifecycle id) (arkadeWalletScopeKey sample_scope)) failed_save"
    by (simp add: failed_save_def arkadeSaveLifecycle_def)
  moreover have "has_stage 0 (\<lambda>s. \<not> settled s) (run_save (arkadeSaveLifecycle id) failed_save)"
    by (simp add: has_stage_def failed_save_run)
  ultimately show ?thesis using save_one_key_exclusive[OF one] by blast
qed



text \<open>Two changes of the Lightning connections of a wallet at the same time: the second call joins the
  first, both calls return without an error, and only the first change has been stored.\<close>

theorem save_joined_change_lost:
  "\<exists>st. run_save (lightningSaveLifecycle shown)
        [CallSave 1 \<lparr>lp_scope = scope, lp_save = SaveConnections u1\<rparr>, CallSave 2 \<lparr>lp_scope = scope, lp_save = SaveConnections u2\<rparr>,
         BodyResolves 0, PromiseSettles 0] = st \<and>
     map (\<lambda>(c, p, n). (c, wk_stage (so_works st ! n))) (so_calls st) = [(1, Settled None), (2, Settled None)] \<and>
     stored_connections st connections = u1 connections \<and> so_inFlight st = None"
  by (simp add: run_save_def orchestrateSave_def lightningSaveLifecycle_def createSaveLifecycleOrchestrator_def
      getCoalescedInFlightPromise_def begin_work_def has_stage_def save_body_resolves_def set_stage_def clearCompletedWork_def
      stored_connections_def body_ended_well_def)

text \<open>Two kinds of Lightning saves at the same time: once the later one has settled, the phase says that
  nothing is saved and a wait for quiescence returns at once, although the first save is still
  running.\<close>

theorem save_quiescence_overlooks:
  "\<exists>st. run_save (lightningSaveLifecycle shown)
        [CallSave 1 \<lparr>lp_scope = scope, lp_save = SaveConnections u\<rparr>, CallSave 2 \<lparr>lp_scope = scope, lp_save = SaveSnapshotPatches ps\<rparr>,
         BodyResolves 1, PromiseSettles 1, AwaitQuiescence 3] = st \<and>
     so_waits st = [(3, None)] \<and> sn_savePhase (so_snapshot st) = NotSaving \<and> has_stage 0 (\<lambda>s. s = BodyRunning) st \<and>
     \<not> isSaveBlockingLock st"
  by (simp add: run_save_def orchestrateSave_def lightningSaveLifecycle_def createSaveLifecycleOrchestrator_def
      getCoalescedInFlightPromise_def begin_work_def has_stage_def save_body_resolves_def set_stage_def clearCompletedWork_def
      awaitQuiescence_def isSaveBlockingLock_def notSavingSnapshot_def)

end
