(* ===== verification/Lock_Lifecycle.thy ===== *)
theory Lock_Lifecycle
  imports Save_Lifecycle
begin

text \<open>
  Locking and unlocking the wallet: \<open>lib/wallet/lifecycle/lock-lifecycle-orchestrator.ts\<close>. Three calls
  (lock, manual unlock, bootstrap unlock) share one slot for the work in flight; a lock waits for
  the saves of the three rails, whose orchestrators (theory \<open>Save_Lifecycle\<close>) are part of the state.
  As there, the model is a function on events, one for each stretch of code between two \<open>await\<close>s. The
  loads and syncs of the rails, the secrets session, the purge of the runtime and the wallet store
  are the environment: their results are events.
\<close>

section \<open>State\<close>

datatype lockOperation = OpNone | OpLocking | OpManualUnlock | OpBootstrapUnlock

datatype walletStatus = StatusNone | StatusLocked | StatusUnlocked

record unlockParams =
  ul_walletId :: "int option"
  ul_networkMode :: networkMode
  ul_addressType :: string
  ul_accountId :: int

definition unlockLoadKey :: "unlockParams \<Rightarrow> string" where
  "unlockLoadKey p =
     (case ul_walletId p of None \<Rightarrow> ''null'' | Some i \<Rightarrow> int_str i) @ '':'' @ network_name (ul_networkMode p) @ '':'' @
     ul_addressType p @ '':'' @ int_str (ul_accountId p)"

text \<open>What a lock waits for, in this order.\<close>

datatype quiescence = LoadOnchain | LoadArkade | LoadBark | LoadLightning | SyncOnchain | SaveOnchain | SyncArkade
  | SaveArkade | SyncLightning | SaveLightning

definition lock_awaits :: "quiescence list" where
  "lock_awaits = [LoadOnchain, LoadArkade, LoadBark, LoadLightning, SyncOnchain, SaveOnchain, SyncArkade, SaveArkade,
     SyncLightning, SaveLightning]"

datatype lockStage =
  Quiescing quiescence "nat option" "quiescence list"
  | FlushingWrites
  | Purging
  | CancellingQueries
  | StartingSession
  | LoadingWallet
  | EndingSession string
  | CheckingSession
  | BodyEnded "string option"
  | WorkSettled "string option"

record lockWork =
  lk_kind :: lockOperation
  lk_key :: string
  lk_stage :: lockStage

datatype lockRequest = RequestLock | RequestManualUnlock unlockParams | RequestBootstrapUnlock unlockParams

datatype callerStage = CallWaiting "nat option" | CallJoined nat | CallReturned | CallFailed string

record lockWorld =
  lw_phase :: lockLifecyclePhase
  lw_operation :: lockOperation
  lw_inFlight :: "nat option"
  lw_works :: "lockWork list"
  lw_callers :: "(lockRequest \<times> callerStage) list"
  lw_activeWalletId :: "int option"
  lw_walletStatus :: walletStatus
  lw_anyRailSyncing :: bool
  lw_onchain :: "(onchainSaveParams, onchainRailDescriptorScope) saveOrchestrator"
  lw_arkade :: "(arkadeWalletScope, arkadeWalletScope) saveOrchestrator"
  lw_lightning :: "(string lightningSaveParams, lightningRailScope) saveOrchestrator"

definition initial_lock_world :: lockWorld where
  "initial_lock_world =
     \<lparr>lw_phase = NoLock, lw_operation = OpNone, lw_inFlight = None, lw_works = [], lw_callers = [], lw_activeWalletId = None,
      lw_walletStatus = StatusNone, lw_anyRailSyncing = False, lw_onchain = createSaveLifecycleOrchestrator,
      lw_arkade = createSaveLifecycleOrchestrator, lw_lightning = createSaveLifecycleOrchestrator\<rparr>"

definition set_lock_snapshot :: "lockLifecyclePhase \<Rightarrow> lockOperation \<Rightarrow> lockWorld \<Rightarrow> lockWorld" where
  "set_lock_snapshot phase operation w = w\<lparr>lw_phase := phase, lw_operation := operation\<rparr>"

definition set_lock_stage :: "nat \<Rightarrow> lockStage \<Rightarrow> lockWorld \<Rightarrow> lockWorld" where
  "set_lock_stage n s w = w\<lparr>lw_works := (lw_works w)[n := (lw_works w ! n)\<lparr>lk_stage := s\<rparr>]\<rparr>"

definition set_caller :: "nat \<Rightarrow> callerStage \<Rightarrow> lockWorld \<Rightarrow> lockWorld" where
  "set_caller c s w = w\<lparr>lw_callers := (lw_callers w)[c := (fst (lw_callers w ! c), s)]\<rparr>"

section \<open>Alignment with the wallet store\<close>

definition walletIsUnlockedOrSyncing :: "lockWorld \<Rightarrow> bool" where
  "walletIsUnlockedOrSyncing w \<longleftrightarrow> lw_walletStatus w = StatusUnlocked \<or> lw_anyRailSyncing w"

definition isWalletStoreUnlocked :: "lockWorld \<Rightarrow> bool" where
  "isWalletStoreUnlocked w \<longleftrightarrow> lw_walletStatus w = StatusUnlocked"

definition revertAfterUnlockFailure :: "lockWorld \<Rightarrow> lockWorld" where
  "revertAfterUnlockFailure w =
     (if lw_activeWalletId w = None then set_lock_snapshot NoLock OpNone w else set_lock_snapshot Locked OpNone w)"

definition syncLockLifecycleWithActiveWallet :: "int option \<Rightarrow> lockWorld \<Rightarrow> lockWorld" where
  "syncLockLifecycleWithActiveWallet activeWalletId w =
     (if activeWalletId = None then (if lw_inFlight w \<noteq> None then w else set_lock_snapshot NoLock OpNone w)
      else if lw_phase w = NoLock \<and> lw_operation w = OpNone then set_lock_snapshot Locked OpNone w
      else w)"

definition syncLockLifecycleFromWalletStore :: "lockWorld \<Rightarrow> lockWorld" where
  "syncLockLifecycleFromWalletStore w =
     (if lw_operation w \<noteq> OpNone then w
      else if lw_activeWalletId w = None then set_lock_snapshot NoLock OpNone w
      else if walletIsUnlockedOrSyncing w
        then (if lw_phase w \<noteq> Unlocked then w\<lparr>lw_phase := Unlocked\<rparr> else w)
      else if lw_phase w = NoLock \<or> lw_phase w = Unlocked then w\<lparr>lw_phase := Locked\<rparr>
      else w)"

definition canStartBootstrapUnlock :: "lockWorld \<Rightarrow> bool" where
  "canStartBootstrapUnlock w =
     (if lw_phase w = NoLock then False
      else if lw_operation w = OpManualUnlock \<or> lw_operation w = OpLocking then False
      else if walletIsUnlockedOrSyncing w \<and> lw_operation w \<noteq> OpBootstrapUnlock then False
      else True)"

definition isLockUnlockInProgress :: "lockWorld \<Rightarrow> bool" where
  "isLockUnlockInProgress w \<longleftrightarrow> lw_operation w = OpManualUnlock \<or> lw_operation w = OpBootstrapUnlock"

section \<open>The bodies\<close>

definition lock_blocked_by :: "lockWorld \<Rightarrow> string option" where
  "lock_blocked_by w =
     (if isSaveBlockingLock (lw_onchain w) then Some ''On-chain save-error blocks lock until retry or forced lock''
      else if isSaveBlockingLock (lw_arkade w) then Some ''Arkade save-error blocks lock until retry or forced lock''
      else if isSaveBlockingLock (lw_lightning w) then Some ''Lightning save-error blocks lock until retry or forced lock''
      else None)"

text \<open>A wait for the save of a rail looks up its work in flight when the wait begins.\<close>

fun await_target :: "quiescence \<Rightarrow> lockWorld \<Rightarrow> nat option" where
  "await_target SaveOnchain w = so_inFlight (lw_onchain w)"
| "await_target SaveArkade w = so_inFlight (lw_arkade w)"
| "await_target SaveLightning w = so_inFlight (lw_lightning w)"
| "await_target _ w = None"

definition work_result :: "'p saveWork list \<Rightarrow> nat \<Rightarrow> string option \<Rightarrow> bool" where
  "work_result works m r \<longleftrightarrow> m < length works \<and> wk_stage (works ! m) = Settled r"

text \<open>The wait can end with the given result.\<close>

fun await_ends :: "quiescence \<Rightarrow> nat option \<Rightarrow> string option \<Rightarrow> lockWorld \<Rightarrow> bool" where
  "await_ends SaveOnchain t r w = (case t of None \<Rightarrow> r = None | Some m \<Rightarrow> work_result (so_works (lw_onchain w)) m r)"
| "await_ends SaveArkade t r w = (case t of None \<Rightarrow> r = None | Some m \<Rightarrow> work_result (so_works (lw_arkade w)) m r)"
| "await_ends SaveLightning t r w = (case t of None \<Rightarrow> r = None | Some m \<Rightarrow> work_result (so_works (lw_lightning w)) m r)"
| "await_ends _ t r w = True"

fun next_lock_stage :: "quiescence list \<Rightarrow> lockWorld \<Rightarrow> lockStage" where
  "next_lock_stage [] w = (case lock_blocked_by w of Some e \<Rightarrow> BodyEnded (Some e) | None \<Rightarrow> FlushingWrites)"
| "next_lock_stage (q # qs) w = Quiescing q (await_target q w) qs"

definition start_lock :: "lockWorld \<Rightarrow> lockStage" where
  "start_lock w = (case lock_blocked_by w of Some e \<Rightarrow> BodyEnded (Some e) | None \<Rightarrow> next_lock_stage lock_awaits w)"

definition start_bootstrap :: "unlockParams \<Rightarrow> lockStage" where
  "start_bootstrap p = (if ul_walletId p = None then BodyEnded (Some ''Bootstrap unlock ran without wallet'') else CheckingSession)"

definition syncAllRailLifecyclesWithLockPhase :: "lockLifecyclePhase \<Rightarrow> lockWorld \<Rightarrow> lockWorld" where
  "syncAllRailLifecyclesWithLockPhase p w =
     w\<lparr>lw_onchain := syncSaveLifecycleWithLockPhase p (lw_onchain w),
       lw_arkade := syncSaveLifecycleWithLockPhase p (lw_arkade w),
       lw_lightning := syncSaveLifecycleWithLockPhase p (lw_lightning w)\<rparr>"

text \<open>The end of a load: a manual unlock ends the secrets session again when it failed.\<close>

definition load_ends :: "nat \<Rightarrow> string option \<Rightarrow> lockWorld \<Rightarrow> lockWorld" where
  "load_ends n r w =
     (if lk_kind (lw_works w ! n) = OpManualUnlock
      then (case r of
              Some e \<Rightarrow> set_lock_stage n (EndingSession e) w
            | None \<Rightarrow>
                if \<not> isWalletStoreUnlocked w then set_lock_stage n (EndingSession ''Wallet unlock did not complete'') w
                else set_lock_snapshot Unlocked OpNone (set_lock_stage n (BodyEnded None) w))
      else (case r of
              Some e \<Rightarrow> revertAfterUnlockFailure (set_lock_stage n (BodyEnded (Some e)) w)
            | None \<Rightarrow> set_lock_snapshot Unlocked OpNone (set_lock_stage n (BodyEnded None) w)))"

section \<open>The calls\<close>

definition beginInFlightWork :: "lockOperation \<Rightarrow> string \<Rightarrow> lockStage \<Rightarrow> lockWorld \<Rightarrow> lockWorld" where
  "beginInFlightWork kind key stage w =
     w\<lparr>lw_inFlight := Some (length (lw_works w)),
       lw_works := lw_works w @ [\<lparr>lk_kind = kind, lk_key = key, lk_stage = stage\<rparr>]\<rparr>"

fun request_kind :: "lockRequest \<Rightarrow> lockOperation" where
  "request_kind RequestLock = OpLocking"
| "request_kind (RequestManualUnlock p) = OpManualUnlock"
| "request_kind (RequestBootstrapUnlock p) = OpBootstrapUnlock"

fun request_key :: "lockRequest \<Rightarrow> string" where
  "request_key RequestLock = ''lock''"
| "request_key (RequestManualUnlock p) = ''manual:'' @ unlockLoadKey p"
| "request_key (RequestBootstrapUnlock p) = ''bootstrap:'' @ unlockLoadKey p"

text \<open>The work in flight that a request joins: any lock for a lock, the same unlock for an unlock.\<close>

definition joinable :: "lockRequest \<Rightarrow> lockWorld \<Rightarrow> nat option" where
  "joinable rq w =
     (case lw_inFlight w of
        None \<Rightarrow> None
      | Some n \<Rightarrow>
          if lk_kind (lw_works w ! n) = request_kind rq \<and> (rq = RequestLock \<or> lk_key (lw_works w ! n) = request_key rq)
          then Some n else None)"

definition refused_at_once :: "lockRequest \<Rightarrow> lockWorld \<Rightarrow> callerStage option" where
  "refused_at_once rq w =
     (case rq of
        RequestLock \<Rightarrow> if lw_phase w = NoLock then Some CallReturned else None
      | RequestManualUnlock p \<Rightarrow> if ul_walletId p = None then Some (CallFailed ''No active wallet'') else None
      | RequestBootstrapUnlock p \<Rightarrow> None)"

definition call_lock_lifecycle :: "lockRequest \<Rightarrow> lockWorld \<Rightarrow> lockWorld" where
  "call_lock_lifecycle rq w =
     w\<lparr>lw_callers := lw_callers w @
        [(rq, case refused_at_once rq w of
                Some s \<Rightarrow> s
              | None \<Rightarrow> (case joinable rq w of Some n \<Rightarrow> CallJoined n | None \<Rightarrow> CallWaiting (lw_inFlight w)))]\<rparr>"

definition start_stage :: "lockRequest \<Rightarrow> lockWorld \<Rightarrow> lockStage" where
  "start_stage rq w =
     (case rq of RequestLock \<Rightarrow> start_lock w | RequestManualUnlock p \<Rightarrow> CancellingQueries | RequestBootstrapUnlock p \<Rightarrow> start_bootstrap p)"

definition is_bootstrap :: "lockRequest \<Rightarrow> bool" where
  "is_bootstrap rq = (case rq of RequestBootstrapUnlock p \<Rightarrow> True | _ \<Rightarrow> False)"

text \<open>After the wait for the work in flight.\<close>

definition continue_call :: "nat \<Rightarrow> lockRequest \<Rightarrow> lockWorld \<Rightarrow> lockWorld" where
  "continue_call c rq w =
     (if is_bootstrap rq \<and> (isWalletStoreUnlocked w \<or> isLockUnlockInProgress w) then set_caller c CallReturned w
      else case joinable rq w of
        Some n \<Rightarrow> set_caller c (CallJoined n) w
      | None \<Rightarrow>
          set_caller c (CallJoined (length (lw_works w)))
            (beginInFlightWork (request_kind rq) (request_key rq) (start_stage rq w) w))"

definition resume_call :: "nat \<Rightarrow> lockWorld \<Rightarrow> lockWorld" where
  "resume_call c w =
     (if c < length (lw_callers w)
      then case lw_callers w ! c of
          (rq, CallWaiting None) \<Rightarrow> continue_call c rq w
        | (rq, CallWaiting (Some n)) \<Rightarrow>
            (case lk_stage (lw_works w ! n) of
               WorkSettled None \<Rightarrow> continue_call c rq w
             | WorkSettled (Some e) \<Rightarrow> set_caller c (CallFailed e) w
             | _ \<Rightarrow> w)
        | _ \<Rightarrow> w
      else w)"

datatype lockEvent =
  CallLifecycle lockRequest
  | ResumeCaller nat
  | AwaitEnds nat "string option"
  | WritesFlushed nat
  | PurgeEnds nat "string option"
  | QueriesCancelled nat
  | SessionStarts nat "string option"
  | LoadEnds nat "string option"
  | SessionEnds nat "string option"
  | SessionChecked nat bool
  | WorkSettles nat
  | StoreChanges "int option" walletStatus bool
  | SyncActiveWallet "int option"
  | SyncFromStore
  | OnchainSave "(onchainSaveParams, onchainRailDescriptorScope) saveEvent"
  | ArkadeSave "(arkadeWalletScope, arkadeWalletScope) saveEvent"
  | LightningSave "(string lightningSaveParams, lightningRailScope) saveEvent"

definition at_stage :: "nat \<Rightarrow> lockStage \<Rightarrow> lockWorld \<Rightarrow> bool" where
  "at_stage n s w \<longleftrightarrow> n < length (lw_works w) \<and> lk_stage (lw_works w ! n) = s"

fun lifecycle_step :: "(string \<Rightarrow> string) \<Rightarrow> lockEvent \<Rightarrow> lockWorld \<Rightarrow> lockWorld" where
  "lifecycle_step shown (CallLifecycle rq) w = call_lock_lifecycle rq w"
| "lifecycle_step shown (ResumeCaller c) w = resume_call c w"
| "lifecycle_step shown (AwaitEnds n r) w =
     (if n < length (lw_works w)
      then case lk_stage (lw_works w ! n) of
          Quiescing q t qs \<Rightarrow>
            if await_ends q t r w
            then (case r of Some e \<Rightarrow> set_lock_stage n (BodyEnded (Some e)) w
                          | None \<Rightarrow> set_lock_stage n (next_lock_stage qs w) w)
            else w
        | _ \<Rightarrow> w
      else w)"
| "lifecycle_step shown (WritesFlushed n) w =
     (if at_stage n FlushingWrites w then set_lock_snapshot Locking OpLocking (set_lock_stage n Purging w) else w)"
| "lifecycle_step shown (PurgeEnds n r) w =
     (if at_stage n Purging w
      then set_lock_snapshot Locked OpNone (syncAllRailLifecyclesWithLockPhase Locked (set_lock_stage n (BodyEnded r) w))
      else w)"
| "lifecycle_step shown (QueriesCancelled n) w =
     (if at_stage n CancellingQueries w then set_lock_snapshot Unlocking OpManualUnlock (set_lock_stage n StartingSession w) else w)"
| "lifecycle_step shown (SessionStarts n r) w =
     (if at_stage n StartingSession w
      then case r of
             Some e \<Rightarrow> revertAfterUnlockFailure (set_lock_stage n (BodyEnded (Some e)) w)
           | None \<Rightarrow> set_lock_stage n LoadingWallet w
      else w)"
| "lifecycle_step shown (LoadEnds n r) w = (if at_stage n LoadingWallet w then load_ends n r w else w)"
| "lifecycle_step shown (SessionEnds n r) w =
     (if n < length (lw_works w)
      then case lk_stage (lw_works w ! n) of
             EndingSession e \<Rightarrow>
               revertAfterUnlockFailure (set_lock_stage n (BodyEnded (Some (case r of Some e' \<Rightarrow> e' | None \<Rightarrow> e))) w)
           | _ \<Rightarrow> w
      else w)"
| "lifecycle_step shown (SessionChecked n active) w =
     (if at_stage n CheckingSession w
      then if \<not> active then set_lock_stage n (BodyEnded (Some ''Bootstrap unlock ran without wallet secrets session'')) w
           else if isWalletStoreUnlocked w then set_lock_stage n (BodyEnded None) w
           else set_lock_snapshot Unlocking OpBootstrapUnlock (set_lock_stage n LoadingWallet w)
      else w)"
| "lifecycle_step shown (WorkSettles n) w =
     (if n < length (lw_works w)
      then case lk_stage (lw_works w ! n) of
             BodyEnded r \<Rightarrow>
               (let w' = set_lock_stage n (WorkSettled r) w
                in if lw_inFlight w = Some n then w'\<lparr>lw_inFlight := None\<rparr> else w')
           | _ \<Rightarrow> w
      else w)"
| "lifecycle_step shown (StoreChanges active status syncing) w =
     w\<lparr>lw_activeWalletId := active, lw_walletStatus := status, lw_anyRailSyncing := syncing\<rparr>"
| "lifecycle_step shown (SyncActiveWallet active) w = syncLockLifecycleWithActiveWallet active w"
| "lifecycle_step shown SyncFromStore w = syncLockLifecycleFromWalletStore w"
| "lifecycle_step shown (OnchainSave e) w = w\<lparr>lw_onchain := save_step (onchainSaveLifecycle shown) e (lw_onchain w)\<rparr>"
| "lifecycle_step shown (ArkadeSave e) w = w\<lparr>lw_arkade := save_step (arkadeSaveLifecycle shown) e (lw_arkade w)\<rparr>"
| "lifecycle_step shown (LightningSave e) w = w\<lparr>lw_lightning := save_step (lightningSaveLifecycle shown) e (lw_lightning w)\<rparr>"

definition run_lock :: "(string \<Rightarrow> string) \<Rightarrow> lockEvent list \<Rightarrow> lockWorld" where
  "run_lock shown es = fold (lifecycle_step shown) es initial_lock_world"

section \<open>The snapshot and the work\<close>

text \<open>The stages in which a body has announced its operation in the snapshot.\<close>

fun announced :: "lockOperation \<Rightarrow> lockStage \<Rightarrow> bool" where
  "announced OpLocking Purging \<longleftrightarrow> True"
| "announced OpManualUnlock StartingSession \<longleftrightarrow> True"
| "announced OpManualUnlock LoadingWallet \<longleftrightarrow> True"
| "announced OpManualUnlock (EndingSession e) \<longleftrightarrow> True"
| "announced OpBootstrapUnlock LoadingWallet \<longleftrightarrow> True"
| "announced _ _ \<longleftrightarrow> False"

fun work_settled :: "lockStage \<Rightarrow> bool" where
  "work_settled (WorkSettled r) \<longleftrightarrow> True"
| "work_settled _ \<longleftrightarrow> False"

text \<open>Each stage belongs to the body of one kind of work, loading to the two unlocks.\<close>

fun stage_of_kind :: "lockOperation \<Rightarrow> lockStage \<Rightarrow> bool" where
  "stage_of_kind k (Quiescing q t qs) \<longleftrightarrow> k = OpLocking"
| "stage_of_kind k FlushingWrites \<longleftrightarrow> k = OpLocking"
| "stage_of_kind k Purging \<longleftrightarrow> k = OpLocking"
| "stage_of_kind k CancellingQueries \<longleftrightarrow> k = OpManualUnlock"
| "stage_of_kind k StartingSession \<longleftrightarrow> k = OpManualUnlock"
| "stage_of_kind k LoadingWallet \<longleftrightarrow> k = OpManualUnlock \<or> k = OpBootstrapUnlock"
| "stage_of_kind k (EndingSession e) \<longleftrightarrow> k = OpManualUnlock"
| "stage_of_kind k CheckingSession \<longleftrightarrow> k = OpBootstrapUnlock"
| "stage_of_kind k (BodyEnded r) \<longleftrightarrow> k \<noteq> OpNone"
| "stage_of_kind k (WorkSettled r) \<longleftrightarrow> k \<noteq> OpNone"

definition works_typed :: "lockWork list \<Rightarrow> bool" where
  "works_typed ws \<longleftrightarrow> list_all (\<lambda>x. stage_of_kind (lk_kind x) (lk_stage x)) ws"

definition in_flight_ok :: "nat option \<Rightarrow> lockWork list \<Rightarrow> bool" where
  "in_flight_ok i ws \<longleftrightarrow> (\<forall>n. i = Some n \<longrightarrow> n < length ws \<and> \<not> work_settled (lk_stage (ws ! n)))"

definition caller_ok :: "nat \<Rightarrow> callerStage \<Rightarrow> bool" where
  "caller_ok len s = (case s of CallWaiting (Some n) \<Rightarrow> n < len | CallJoined n \<Rightarrow> n < len | _ \<Rightarrow> True)"

definition phase_ok :: "lockLifecyclePhase \<Rightarrow> lockOperation \<Rightarrow> bool" where
  "phase_ok phase operation \<longleftrightarrow>
     (phase = Locking \<longleftrightarrow> operation = OpLocking) \<and>
     (phase = Unlocking \<longleftrightarrow> operation = OpManualUnlock \<or> operation = OpBootstrapUnlock)"

definition operation_runs :: "lockOperation \<Rightarrow> lockWork list \<Rightarrow> bool" where
  "operation_runs operation ws \<longleftrightarrow> operation \<noteq> OpNone \<longrightarrow> (\<exists>x \<in> set ws. lk_kind x = operation \<and> announced operation (lk_stage x))"

definition lock_inv :: "lockWorld \<Rightarrow> bool" where
  "lock_inv w \<longleftrightarrow>
     works_typed (lw_works w) \<and> in_flight_ok (lw_inFlight w) (lw_works w) \<and>
     list_all (\<lambda>(rq, s). caller_ok (length (lw_works w)) s) (lw_callers w) \<and>
     phase_ok (lw_phase w) (lw_operation w) \<and> operation_runs (lw_operation w) (lw_works w)"

text \<open>The two ways in which a body changes its stage: announcing an operation, or leaving the snapshot
  without one.\<close>

lemma set_lock_stage_sel [simp]:
  "lw_works (set_lock_stage n s w) = (lw_works w)[n := (lw_works w ! n)\<lparr>lk_stage := s\<rparr>]"
  "lw_phase (set_lock_stage n s w) = lw_phase w" "lw_operation (set_lock_stage n s w) = lw_operation w"
  "lw_inFlight (set_lock_stage n s w) = lw_inFlight w" "lw_callers (set_lock_stage n s w) = lw_callers w"
  "lw_walletStatus (set_lock_stage n s w) = lw_walletStatus w" "lw_activeWalletId (set_lock_stage n s w) = lw_activeWalletId w"
  by (simp_all add: set_lock_stage_def)

lemma set_lock_snapshot_sel [simp]:
  "lw_works (set_lock_snapshot p o' w) = lw_works w" "lw_phase (set_lock_snapshot p o' w) = p"
  "lw_operation (set_lock_snapshot p o' w) = o'" "lw_inFlight (set_lock_snapshot p o' w) = lw_inFlight w"
  "lw_callers (set_lock_snapshot p o' w) = lw_callers w" "lw_walletStatus (set_lock_snapshot p o' w) = lw_walletStatus w"
  by (simp_all add: set_lock_snapshot_def)

lemma set_caller_sel [simp]:
  "lw_works (set_caller c s w) = lw_works w" "lw_phase (set_caller c s w) = lw_phase w"
  "lw_operation (set_caller c s w) = lw_operation w" "lw_inFlight (set_caller c s w) = lw_inFlight w"
  "lw_callers (set_caller c s w) = (lw_callers w)[c := (fst (lw_callers w ! c), s)]"
  by (simp_all add: set_caller_def)

lemma beginInFlightWork_sel [simp]:
  "lw_works (beginInFlightWork k key s w) = lw_works w @ [\<lparr>lk_kind = k, lk_key = key, lk_stage = s\<rparr>]"
  "lw_phase (beginInFlightWork k key s w) = lw_phase w" "lw_operation (beginInFlightWork k key s w) = lw_operation w"
  "lw_inFlight (beginInFlightWork k key s w) = Some (length (lw_works w))"
  "lw_callers (beginInFlightWork k key s w) = lw_callers w"
  by (simp_all add: beginInFlightWork_def)

lemma works_typed_update:
  "works_typed ws \<Longrightarrow> n < length ws \<Longrightarrow> stage_of_kind (lk_kind (ws ! n)) s \<Longrightarrow> works_typed (ws[n := (ws ! n)\<lparr>lk_stage := s\<rparr>])"
  by (auto simp: works_typed_def list_all_length nth_list_update)

lemma works_typed_nth: "works_typed ws \<Longrightarrow> n < length ws \<Longrightarrow> stage_of_kind (lk_kind (ws ! n)) (lk_stage (ws ! n))"
  by (simp add: works_typed_def list_all_length)

lemma in_flight_ok_update:
  "in_flight_ok i ws \<Longrightarrow> \<not> work_settled s \<Longrightarrow> in_flight_ok i (ws[n := (ws ! n)\<lparr>lk_stage := s\<rparr>])"
  by (cases "n < length ws") (auto simp: in_flight_ok_def nth_list_update)

lemma operation_runs_update:
  assumes "operation_runs op ws" and "n < length ws"
    and "\<not> (announced (lk_kind (ws ! n)) (lk_stage (ws ! n)) \<and> lk_kind (ws ! n) = op) \<or> announced op s"
  shows "operation_runs op (ws[n := (ws ! n)\<lparr>lk_stage := s\<rparr>])"
proof (cases "op = OpNone")
  case False
  then obtain m where m: "m < length ws" "lk_kind (ws ! m) = op" "announced op (lk_stage (ws ! m))"
    using assms(1) by (auto simp: operation_runs_def in_set_conv_nth)
  let ?ws = "ws[n := (ws ! n)\<lparr>lk_stage := s\<rparr>]"
  have "lk_kind (?ws ! m) = op \<and> announced op (lk_stage (?ws ! m))"
    using m assms(2,3) by (cases "m = n") auto
  then show ?thesis using m(1) by (auto simp: operation_runs_def in_set_conv_nth intro!: bexI[of _ "?ws ! m"])
qed (simp add: operation_runs_def)

lemma operation_runs_announce:
  "n < length ws \<Longrightarrow> lk_kind (ws ! n) = op \<Longrightarrow> announced op s \<Longrightarrow> operation_runs op (ws[n := (ws ! n)\<lparr>lk_stage := s\<rparr>])"
  by (auto simp: operation_runs_def intro!: bexI[OF _ set_update_memI])

lemma operation_runs_none [simp]: "operation_runs OpNone ws" by (simp add: operation_runs_def)

lemma operation_runs_append: "operation_runs op ws \<Longrightarrow> operation_runs op (ws @ xs)" by (auto simp: operation_runs_def)

lemma phase_ok_simps [simp]:
  "phase_ok NoLock OpNone" "phase_ok Locked OpNone" "phase_ok Unlocked OpNone" "phase_ok Locking OpLocking"
  "phase_ok Unlocking OpManualUnlock" "phase_ok Unlocking OpBootstrapUnlock"
  by (simp_all add: phase_ok_def)

text \<open>A stage change that leaves the operation announced or not, as it was.\<close>

lemma lock_inv_stage:
  assumes "lock_inv w" and "n < length (lw_works w)" and "stage_of_kind (lk_kind (lw_works w ! n)) s" and "\<not> work_settled s"
    and "\<not> announced (lk_kind (lw_works w ! n)) (lk_stage (lw_works w ! n)) \<or> announced (lk_kind (lw_works w ! n)) s"
  shows "lock_inv (set_lock_stage n s w)"
  using assms by (auto simp: lock_inv_def works_typed_update in_flight_ok_update intro!: operation_runs_update)

lemma lock_inv_stage_snapshot:
  assumes "lock_inv w" and "n < length (lw_works w)" and "stage_of_kind (lk_kind (lw_works w ! n)) s" and "\<not> work_settled s"
    and "phase_ok p op" and "op = OpNone \<or> lk_kind (lw_works w ! n) = op \<and> announced op s"
  shows "lock_inv (set_lock_snapshot p op (set_lock_stage n s w))"
  using assms by (auto simp: lock_inv_def works_typed_update in_flight_ok_update operation_runs_announce)

text \<open>The calls.\<close>

lemma caller_ok_mono: "caller_ok m s \<Longrightarrow> m \<le> n \<Longrightarrow> caller_ok n s"
  by (auto simp: caller_ok_def split: callerStage.splits option.splits)

lemma joinable_in_flight: "joinable rq w = Some n \<Longrightarrow> lw_inFlight w = Some n"
  by (auto simp: joinable_def split: option.splits if_splits)

lemma lock_inv_in_flight: "lock_inv w \<Longrightarrow> lw_inFlight w = Some n \<Longrightarrow> n < length (lw_works w) \<and> \<not> work_settled (lk_stage (lw_works w ! n))"
  by (simp add: lock_inv_def in_flight_ok_def)

lemma list_all_update: "list_all f xs \<Longrightarrow> f x \<Longrightarrow> list_all f (xs[i := x])"
  by (cases "i < length xs") (auto simp: list_all_length nth_list_update)

lemma lock_inv_caller:
  "lock_inv w \<Longrightarrow> caller_ok (length (lw_works w)) s \<Longrightarrow> lock_inv (set_caller c s w)"
  by (auto simp: lock_inv_def intro!: list_all_update)

lemma lock_inv_call: "lock_inv w \<Longrightarrow> lock_inv (call_lock_lifecycle rq w)"
  using joinable_in_flight[of rq w] lock_inv_in_flight[of w]
  by (auto simp: lock_inv_def call_lock_lifecycle_def caller_ok_def refused_at_once_def split: option.splits lockRequest.splits if_splits)

lemma start_stage_kind: "stage_of_kind (request_kind rq) (start_stage rq w)" "\<not> work_settled (start_stage rq w)"
  by (cases rq; auto simp: start_stage_def start_lock_def start_bootstrap_def lock_awaits_def split: option.splits)+

lemma lock_inv_begin:
  assumes "lock_inv w" and "stage_of_kind k s" and "\<not> work_settled s"
  shows "lock_inv (beginInFlightWork k key s w)"
  using assms by (auto simp: lock_inv_def works_typed_def in_flight_ok_def operation_runs_append list_all_iff
      intro: caller_ok_mono)

lemma lock_inv_continue: "lock_inv w \<Longrightarrow> lock_inv (continue_call c rq w)"
  using lock_inv_in_flight[OF _ joinable_in_flight[of rq w]]
  by (auto simp: continue_call_def caller_ok_def start_stage_kind split: option.splits intro!: lock_inv_caller lock_inv_begin)

lemma lock_inv_resume: "lock_inv w \<Longrightarrow> lock_inv (resume_call c w)"
  by (auto simp: resume_call_def caller_ok_def lock_inv_continue lock_inv_caller
      split: prod.splits callerStage.splits option.splits lockStage.splits)

lemma next_lock_stage_kind: "stage_of_kind OpLocking (next_lock_stage qs w)" "\<not> work_settled (next_lock_stage qs w)"
  by (cases qs; auto split: option.splits)+

lemma lock_inv_typed:
  "lock_inv w \<Longrightarrow> n < length (lw_works w) \<Longrightarrow> stage_of_kind (lk_kind (lw_works w ! n)) (lk_stage (lw_works w ! n))"
  by (simp add: lock_inv_def works_typed_nth)

lemma lock_inv_same:
  "lock_inv w \<Longrightarrow> lw_works w' = lw_works w \<Longrightarrow> lw_inFlight w' = lw_inFlight w \<Longrightarrow> lw_callers w' = lw_callers w \<Longrightarrow>
   lw_phase w' = lw_phase w \<Longrightarrow> lw_operation w' = lw_operation w \<Longrightarrow> lock_inv w'"
  by (simp add: lock_inv_def)

lemma lock_inv_idle:
  "lock_inv w \<Longrightarrow> phase_ok p OpNone \<Longrightarrow> lock_inv (set_lock_snapshot p OpNone w)"
  by (simp add: lock_inv_def)

lemma lock_inv_settles:
  assumes "lock_inv w" and "n < length (lw_works w)" and "lk_stage (lw_works w ! n) = BodyEnded r"
  shows "lock_inv (lifecycle_step shown (WorkSettles n) w)"
proof -
  have kind: "lk_kind (lw_works w ! n) \<noteq> OpNone" using lock_inv_typed[OF assms(1,2)] assms(3) by simp
  have quiet: "\<not> announced k (BodyEnded r)" for k by (cases k) auto
  have runs: "operation_runs (lw_operation w) ((lw_works w)[n := (lw_works w ! n)\<lparr>lk_stage := WorkSettled r\<rparr>])"
    using assms quiet by (intro operation_runs_update) (auto simp: lock_inv_def)
  show ?thesis
    using assms kind runs
    by (auto simp: lock_inv_def Let_def works_typed_update in_flight_ok_def nth_list_update)
qed

lemma not_announced [simp]:
  "\<not> announced k (Quiescing q t qs)" "\<not> announced k FlushingWrites" "\<not> announced k CancellingQueries" "\<not> announced k CheckingSession"
  "\<not> announced k (BodyEnded r)" "\<not> announced k (WorkSettled r)"
  by (cases k; simp)+

lemma revert_cases: "revertAfterUnlockFailure w = set_lock_snapshot (if lw_activeWalletId w = None then NoLock else Locked) OpNone w"
  by (simp add: revertAfterUnlockFailure_def)

lemma lock_inv_load_ends:
  assumes "lock_inv w" and "at_stage n LoadingWallet w"
  shows "lock_inv (load_ends n r w)"
  using assms lock_inv_typed[OF assms(1), of n]
  by (auto simp: at_stage_def load_ends_def revert_cases split: option.splits intro!: lock_inv_stage lock_inv_stage_snapshot)

lemma lock_inv_sync_store: "lock_inv w \<Longrightarrow> lock_inv (syncLockLifecycleFromWalletStore w)"
  by (auto simp: syncLockLifecycleFromWalletStore_def lock_inv_idle) (simp_all add: lock_inv_def)

lemma lock_inv_step:
  assumes "lock_inv w"
  shows "lock_inv (lifecycle_step shown e w)"
proof -
  note typed = lock_inv_typed[OF assms]
  show ?thesis
  proof (cases e)
    case (AwaitEnds n r)
    then show ?thesis
      using assms typed[of n]
      by (auto simp: next_lock_stage_kind split: lockStage.splits option.splits intro!: lock_inv_stage)
  next
    case (PurgeEnds n r)
    have "lock_inv (set_lock_snapshot Locked OpNone (set_lock_stage n (BodyEnded r) w))" if "at_stage n Purging w"
      using that assms typed[of n] by (auto simp: at_stage_def intro!: lock_inv_stage_snapshot)
    then show ?thesis
      using assms PurgeEnds by (simp add: lock_inv_def syncAllRailLifecyclesWithLockPhase_def set_lock_snapshot_def)
  next
    case (WorkSettles n)
    then show ?thesis
      using assms lock_inv_settles[OF assms, of n _ shown]
      by (cases "n < length (lw_works w)"; cases "lk_stage (lw_works w ! n)") simp_all
  next
    case (SessionStarts n r)
    then show ?thesis
      using assms typed[of n]
      by (auto simp: at_stage_def revert_cases split: option.splits intro!: lock_inv_stage lock_inv_stage_snapshot)
  next
    case (SessionEnds n r)
    then show ?thesis
      using assms typed[of n] by (auto simp: revert_cases split: lockStage.splits intro!: lock_inv_stage_snapshot)
  next
    case (SessionChecked n b)
    then show ?thesis
      using assms typed[of n] by (auto simp: at_stage_def intro!: lock_inv_stage lock_inv_stage_snapshot)
  next
    case (SyncActiveWallet a)
    then show ?thesis using assms by (auto simp: syncLockLifecycleWithActiveWallet_def lock_inv_idle)
  next
    case (WritesFlushed n)
    then show ?thesis using assms typed[of n] by (auto simp: at_stage_def intro!: lock_inv_stage_snapshot)
  next
    case (QueriesCancelled n)
    then show ?thesis using assms typed[of n] by (auto simp: at_stage_def intro!: lock_inv_stage_snapshot)
  qed (use assms in \<open>auto simp: lock_inv_call lock_inv_resume lock_inv_load_ends lock_inv_sync_store elim!: lock_inv_same\<close>)
qed

interpretation lock_any: event_invariant "lifecycle_step shown" "\<lambda>_. True" lock_inv
  by unfold_locales (rule lock_inv_step)

lemma lock_inv_initial: "lock_inv initial_lock_world"
  by (simp add: lock_inv_def initial_lock_world_def works_typed_def in_flight_ok_def)

lemma run_lock_inv: "lock_inv (run_lock shown es)"
  unfolding run_lock_def by (rule lock_any.run_keeps[OF lock_inv_initial]) (simp add: list_all_iff)

section \<open>One waiting call at a time\<close>

text \<open>Schedules in which no call is made while another one still waits for the work in flight.\<close>

definition call_waits :: "callerStage \<Rightarrow> bool" where
  "call_waits s = (case s of CallWaiting t \<Rightarrow> True | _ \<Rightarrow> False)"

fun call_when_free :: "lockEvent \<Rightarrow> lockWorld \<Rightarrow> bool" where
  "call_when_free (CallLifecycle rq) w \<longleftrightarrow> list_all (\<lambda>(rq, s). \<not> call_waits s) (lw_callers w)"
| "call_when_free _ w \<longleftrightarrow> True"

text \<open>Then the work in flight is the only one whose promise is open, and a waiting call waits for it.\<close>

definition only_in_flight :: "nat option \<Rightarrow> lockWork list \<Rightarrow> bool" where
  "only_in_flight i ws \<longleftrightarrow> (\<forall>n < length ws. \<not> work_settled (lk_stage (ws ! n)) \<longrightarrow> i = Some n)"

definition waits_for :: "nat option \<Rightarrow> callerStage \<Rightarrow> bool" where
  "waits_for i s = (case s of CallWaiting t \<Rightarrow> i = None \<or> t = i | _ \<Rightarrow> True)"

definition one_waits :: "(lockRequest \<times> callerStage) list \<Rightarrow> bool" where
  "one_waits cs \<longleftrightarrow> (\<forall>a < length cs. \<forall>b < length cs. call_waits (snd (cs ! a)) \<longrightarrow> call_waits (snd (cs ! b)) \<longrightarrow> a = b)"

definition serial_inv :: "lockWorld \<Rightarrow> bool" where
  "serial_inv w \<longleftrightarrow>
     lock_inv w \<and> only_in_flight (lw_inFlight w) (lw_works w) \<and>
     list_all (\<lambda>(rq, s). waits_for (lw_inFlight w) s) (lw_callers w) \<and> one_waits (lw_callers w)"

text \<open>Every event but a call, its continuation and the settling of a promise keeps the work in flight and
  the callers, and moves at most one open work to another stage.\<close>

definition moves_one :: "lockWork list \<Rightarrow> lockWork list \<Rightarrow> bool" where
  "moves_one ws ws' \<longleftrightarrow> ws' = ws \<or>
     (\<exists>n s. n < length ws \<and> \<not> work_settled (lk_stage (ws ! n)) \<and> ws' = ws[n := (ws ! n)\<lparr>lk_stage := s\<rparr>])"

lemma moves_one_refl [simp]: "moves_one ws ws" by (simp add: moves_one_def)

lemma moves_one_update:
  "n < length ws \<Longrightarrow> \<not> work_settled (lk_stage (ws ! n)) \<Longrightarrow> moves_one ws (ws[n := (ws ! n)\<lparr>lk_stage := s\<rparr>])"
  by (auto simp: moves_one_def)

lemma only_in_flight_moves: "only_in_flight i ws \<Longrightarrow> moves_one ws ws' \<Longrightarrow> only_in_flight i ws'"
  by (auto simp: only_in_flight_def moves_one_def nth_list_update split: if_splits)

fun changes_slot :: "lockEvent \<Rightarrow> bool" where
  "changes_slot (CallLifecycle rq) \<longleftrightarrow> True"
| "changes_slot (ResumeCaller c) \<longleftrightarrow> True"
| "changes_slot (WorkSettles n) \<longleftrightarrow> True"
| "changes_slot _ \<longleftrightarrow> False"

lemma body_event_effect:
  assumes "\<not> changes_slot e"
  shows "lw_inFlight (lifecycle_step shown e w) = lw_inFlight w" "lw_callers (lifecycle_step shown e w) = lw_callers w"
    "moves_one (lw_works w) (lw_works (lifecycle_step shown e w))"
  using assms
  by (cases e; auto simp: syncAllRailLifecyclesWithLockPhase_def at_stage_def load_ends_def revert_cases moves_one_update
      syncLockLifecycleWithActiveWallet_def syncLockLifecycleFromWalletStore_def split: lockStage.splits option.splits)+

lemma waits_for_none [simp]: "waits_for None s" by (auto simp: waits_for_def split: callerStage.splits)

lemma waits_for_quiet: "\<not> call_waits s \<Longrightarrow> waits_for i s" by (auto simp: waits_for_def call_waits_def split: callerStage.splits)

lemma call_waits_simps [simp]:
  "call_waits (CallWaiting t)" "\<not> call_waits (CallJoined n)" "\<not> call_waits CallReturned" "\<not> call_waits (CallFailed e)"
  by (simp_all add: call_waits_def)

lemma serial_call:
  assumes "serial_inv w" and "list_all (\<lambda>(rq, s). \<not> call_waits s) (lw_callers w)"
  shows "serial_inv (call_lock_lifecycle rq w)"
proof -
  have "\<not> call_waits (snd (lw_callers w ! a))" if "a < length (lw_callers w)" for a
    using assms(2) that by (auto simp: list_all_length case_prod_unfold)
  then have "one_waits (lw_callers w @ [x])" for x by (auto simp: one_waits_def nth_append)
  moreover have "refused_at_once rq w \<noteq> Some (CallWaiting t)" for t by (simp add: refused_at_once_def split: lockRequest.splits)
  moreover have "lock_inv (call_lock_lifecycle rq w)" using assms(1) by (simp add: serial_inv_def lock_inv_call)
  ultimately show ?thesis
    using assms(1) by (auto simp: serial_inv_def call_lock_lifecycle_def waits_for_def split: option.splits callerStage.splits)
qed

lemma one_waits_update: "one_waits cs \<Longrightarrow> \<not> call_waits s \<Longrightarrow> one_waits (cs[c := (rq, s)])"
  by (cases "c < length cs") (auto simp: one_waits_def nth_list_update split: if_splits)

lemma serial_caller:
  "serial_inv w \<Longrightarrow> \<not> call_waits s \<Longrightarrow> caller_ok (length (lw_works w)) s \<Longrightarrow> serial_inv (set_caller c s w)"
  by (auto simp: serial_inv_def lock_inv_caller one_waits_update waits_for_quiet intro!: list_all_update)

text \<open>The call that resumes is the only one that waits; it finds the slot free.\<close>

lemma serial_resume_free:
  assumes "serial_inv w" and "c < length (lw_callers w)" and "lw_callers w ! c = (rq, CallWaiting t)"
    and "\<forall>n. t = Some n \<longrightarrow> work_settled (lk_stage (lw_works w ! n))"
  shows "lw_inFlight w = None"
proof (rule ccontr)
  assume "lw_inFlight w \<noteq> None"
  then obtain n where n: "lw_inFlight w = Some n" by blast
  have "waits_for (lw_inFlight w) (CallWaiting t)"
    using assms(1-3) by (fastforce simp: serial_inv_def list_all_length)
  then show False using n assms(1,4) lock_inv_in_flight[of w n] by (auto simp: waits_for_def serial_inv_def)
qed

lemma serial_begin:
  assumes "serial_inv w" and "lw_inFlight w = None" and "c < length (lw_callers w)" and "call_waits (snd (lw_callers w ! c))"
  shows "serial_inv (set_caller c (CallJoined (length (lw_works w)))
    (beginInFlightWork (request_kind rq) (request_key rq) (start_stage rq w) w))"
proof -
  let ?w = "beginInFlightWork (request_kind rq) (request_key rq) (start_stage rq w) w"
  have "lock_inv ?w" using assms(1) by (simp add: serial_inv_def lock_inv_begin start_stage_kind)
  then have inv: "lock_inv (set_caller c (CallJoined (length (lw_works w))) ?w)" by (rule lock_inv_caller) (simp add: caller_ok_def)
  have only: "only_in_flight (Some (length (lw_works w))) (lw_works w @ [x])" for x
    using assms(1,2) by (auto simp: serial_inv_def only_in_flight_def nth_append less_Suc_eq)
  have quiet: "\<not> call_waits (snd ((lw_callers w)[c := (rq', CallJoined m)] ! a))" if "a < length (lw_callers w)" for a rq' m
    using assms that by (cases "a = c") (auto simp: serial_inv_def one_waits_def)
  show ?thesis
    using inv only quiet assms(1)
    by (auto simp: serial_inv_def one_waits_update list_all_length case_prod_unfold waits_for_quiet)
qed

lemma serial_continue:
  assumes "serial_inv w" and "lw_inFlight w = None" and "c < length (lw_callers w)" and "call_waits (snd (lw_callers w ! c))"
  shows "serial_inv (continue_call c rq w)"
  using assms serial_begin[OF assms, of rq] by (auto simp: continue_call_def joinable_def caller_ok_def intro!: serial_caller)

lemma serial_resume:
  assumes "serial_inv w"
  shows "serial_inv (resume_call c w)"
proof (cases "c < length (lw_callers w)")
  case True
  obtain rq s where call: "lw_callers w ! c = (rq, s)" by fastforce
  have go: "serial_inv (continue_call c rq w)" if "s = CallWaiting t" "\<forall>n. t = Some n \<longrightarrow> work_settled (lk_stage (lw_works w ! n))" for t
    using serial_continue[OF assms serial_resume_free[OF assms True] True] call that by auto
  show ?thesis
    using True call assms go
    by (auto simp: resume_call_def caller_ok_def split: callerStage.splits option.splits lockStage.splits intro!: serial_caller)
qed (simp add: resume_call_def assms)

lemma serial_settles:
  assumes "serial_inv w"
  shows "serial_inv (lifecycle_step shown (WorkSettles n) w)"
proof -
  have inv: "lock_inv (lifecycle_step shown (WorkSettles n) w)" using assms by (intro lock_inv_step) (simp add: serial_inv_def)
  have "only_in_flight None ((lw_works w)[n := (lw_works w ! n)\<lparr>lk_stage := WorkSettled r\<rparr>])" if "lw_inFlight w = Some n" for r
  proof -
    have "work_settled (lk_stage ((lw_works w)[n := (lw_works w ! n)\<lparr>lk_stage := WorkSettled r\<rparr>] ! m))" if "m < length (lw_works w)" for m
      using assms that \<open>lw_inFlight w = Some n\<close> by (cases "m = n") (auto simp: serial_inv_def only_in_flight_def)
    then show ?thesis by (simp add: only_in_flight_def)
  qed
  then show ?thesis
    using inv assms
    by (auto simp: serial_inv_def Let_def list_all_iff split: lockStage.splits if_splits
        elim!: only_in_flight_moves intro!: moves_one_update)
qed

lemma serial_step:
  assumes "serial_inv w" and "call_when_free e w"
  shows "serial_inv (lifecycle_step shown e w)"
proof (cases "changes_slot e")
  case True
  then show ?thesis using assms by (cases e) (simp_all add: serial_call serial_resume serial_settles del: lifecycle_step.simps(11))
next
  case False
  have "lock_inv (lifecycle_step shown e w)" using assms(1) by (intro lock_inv_step) (simp add: serial_inv_def)
  then show ?thesis
    using assms(1) body_event_effect[OF False, where shown = shown and w = w] only_in_flight_moves by (auto simp: serial_inv_def)
qed

interpretation lock_serial: guarded_invariant "lifecycle_step shown" call_when_free serial_inv
  by unfold_locales (rule serial_step)

lemma serial_initial: "serial_inv initial_lock_world"
  using lock_inv_initial by (simp add: serial_inv_def initial_lock_world_def only_in_flight_def one_waits_def)

section \<open>Sample schedules\<close>

definition sample_unlock :: unlockParams where
  "sample_unlock = \<lparr>ul_walletId = Some 1, ul_networkMode = Signet, ul_addressType = ''taproot'', ul_accountId = 0\<rparr>"

definition manual_unlock_runs :: "lockEvent list" where
  "manual_unlock_runs = [StoreChanges (Some 1) StatusLocked False, SyncActiveWallet (Some 1),
     CallLifecycle (RequestManualUnlock sample_unlock), ResumeCaller 0, QueriesCancelled 0]"

lemmas run_defs = run_lock_def initial_lock_world_def syncLockLifecycleWithActiveWallet_def call_lock_lifecycle_def refused_at_once_def
  joinable_def resume_call_def continue_call_def is_bootstrap_def beginInFlightWork_def start_stage_def set_caller_def set_lock_stage_def
  set_lock_snapshot_def at_stage_def

lemma manual_unlock_runs_world:
  "run_lock shown manual_unlock_runs = initial_lock_world
     \<lparr>lw_phase := Unlocking, lw_operation := OpManualUnlock, lw_inFlight := Some 0,
      lw_works := [\<lparr>lk_kind = OpManualUnlock, lk_key = ''manual:'' @ unlockLoadKey sample_unlock, lk_stage = StartingSession\<rparr>],
      lw_callers := [(RequestManualUnlock sample_unlock, CallJoined 0)], lw_activeWalletId := Some 1, lw_walletStatus := StatusLocked\<rparr>"
  by (simp add: run_defs manual_unlock_runs_def) (simp add: sample_unlock_def)

section \<open>Properties\<close>

text \<open>C31: Whatever the schedule of calls, loads, saves and store changes, the snapshot tells the truth: the
  phase is \<open>locking\<close> or \<open>unlocking\<close> exactly when the operation says so, an operation is named only
  while the body of such a work is in the part that announced it, and the work in flight is an open
  one of the list.\<close>

theorem lock_snapshot_truthful:
  "(lw_phase (run_lock shown es) = Locking \<longleftrightarrow> lw_operation (run_lock shown es) = OpLocking) \<and>
   (lw_phase (run_lock shown es) = Unlocking \<longleftrightarrow> isLockUnlockInProgress (run_lock shown es)) \<and>
   (lw_operation (run_lock shown es) \<noteq> OpNone \<longrightarrow>
      (\<exists>x \<in> set (lw_works (run_lock shown es)).
         lk_kind x = lw_operation (run_lock shown es) \<and> announced (lk_kind x) (lk_stage x))) \<and>
   (\<forall>n. lw_inFlight (run_lock shown es) = Some n \<longrightarrow>
      n < length (lw_works (run_lock shown es)) \<and> \<not> work_settled (lk_stage (lw_works (run_lock shown es) ! n)))"
  using run_lock_inv[of shown es]
  by (auto simp: lock_inv_def phase_ok_def operation_runs_def in_flight_ok_def isLockUnlockInProgress_def)

theorem lock_snapshot_truthful_witness:
  "lw_operation (run_lock id manual_unlock_runs) = OpManualUnlock \<and>
   (\<exists>x \<in> set (lw_works (run_lock id manual_unlock_runs)).
      lk_kind x = OpManualUnlock \<and> announced (lk_kind x) (lk_stage x))"
proof -
  have "lw_operation (run_lock id manual_unlock_runs) = OpManualUnlock" by (simp add: manual_unlock_runs_world)
  then show ?thesis using lock_snapshot_truthful[of id manual_unlock_runs] by auto
qed

text \<open>When no call is made while another one waits, the orchestrator serializes its work: at most one work
  is open at any time, so that no unlock loads the wallet while a lock purges it, and it is the one in
  flight.\<close>

theorem lock_serial_single_waiter:
  assumes "admissible (lifecycle_step shown) call_when_free es initial_lock_world"
    and "m < length (lw_works (run_lock shown es))" and "\<not> work_settled (lk_stage (lw_works (run_lock shown es) ! m))"
  shows "lw_inFlight (run_lock shown es) = Some m \<and>
    (\<forall>n. at_stage n Purging (run_lock shown es) \<or> at_stage n LoadingWallet (run_lock shown es) \<longrightarrow> n = m)"
proof -
  have "serial_inv (run_lock shown es)"
    using lock_serial.guarded_run_keeps[OF serial_initial assms(1)] by (simp add: run_lock_def)
  then have only: "lw_inFlight (run_lock shown es) = Some n"
    if "n < length (lw_works (run_lock shown es))" "\<not> work_settled (lk_stage (lw_works (run_lock shown es) ! n))" for n
    using that by (auto simp: serial_inv_def only_in_flight_def)
  have "n = m" if "at_stage n s (run_lock shown es)" "\<not> work_settled s" for n s
    using that only[of n] only[OF assms(2,3)] by (auto simp: at_stage_def)
  then show ?thesis using only[OF assms(2,3)] by auto
qed

theorem lock_serial_single_waiter_witness:
  "admissible (lifecycle_step id) call_when_free manual_unlock_runs initial_lock_world \<and>
   lw_inFlight (run_lock id manual_unlock_runs) = Some 0"
proof -
  have adm: "admissible (lifecycle_step id) call_when_free manual_unlock_runs initial_lock_world"
    by (simp add: manual_unlock_runs_def run_defs)
  moreover have "0 < length (lw_works (run_lock id manual_unlock_runs))"
    "\<not> work_settled (lk_stage (lw_works (run_lock id manual_unlock_runs) ! 0))"
    by (simp_all add: manual_unlock_runs_world)
  ultimately show ?thesis using lock_serial_single_waiter[OF adm, of 0] by blast
qed

text \<open>Two calls that wait at the same time are not serialized: a manual unlock and a lock that are
  called before either continues both start, and the lock purges the runtime while the unlock starts
  its secrets session. When the purge has ended the phase says \<open>locked\<close> although the unlock is still
  open, and the end of its load makes the phase \<open>unlocked\<close>.\<close>

theorem lock_unlock_overlap:
  "\<exists>w w' w''. run_lock shown
      ([StoreChanges (Some 1) StatusLocked False, SyncActiveWallet (Some 1), CallLifecycle (RequestManualUnlock sample_unlock),
        CallLifecycle RequestLock, ResumeCaller 0, ResumeCaller 1, QueriesCancelled 0] @
       replicate 10 (AwaitEnds 1 None) @ [WritesFlushed 1]) = w \<and>
     at_stage 0 StartingSession w \<and> at_stage 1 Purging w \<and>
     lifecycle_step shown (PurgeEnds 1 None) w = w' \<and>
     lw_phase w' = Locked \<and> lw_operation w' = OpNone \<and> at_stage 0 StartingSession w' \<and>
     fold (lifecycle_step shown) [SessionStarts 0 None, StoreChanges (Some 1) StatusUnlocked False, LoadEnds 0 None] w' = w'' \<and>
     lw_phase w'' = Unlocked"
  by (simp add: run_defs numeral_eq_Suc start_lock_def lock_blocked_by_def lock_awaits_def isSaveBlockingLock_def
      createSaveLifecycleOrchestrator_def notConfiguredSnapshot_def syncAllRailLifecyclesWithLockPhase_def load_ends_def
      isWalletStoreUnlocked_def sample_unlock_def)

text \<open>A lock that starts while a save of a rail has failed without acknowledgement is refused: its promise
  is rejected with the message of the first such rail, and phase, operation and the rails stay as they
  were.\<close>

theorem lock_refused_on_save_error:
  assumes "lw_phase w \<noteq> NoLock" and "lw_inFlight w = None" and "lock_blocked_by w = Some e"
  shows "\<exists>w'. fold (lifecycle_step shown) [CallLifecycle RequestLock, ResumeCaller (length (lw_callers w)), WorkSettles (length (lw_works w))] w = w' \<and>
    lk_stage (lw_works w' ! length (lw_works w)) = WorkSettled (Some e) \<and>
    lw_callers w' = lw_callers w @ [(RequestLock, CallJoined (length (lw_works w)))] \<and>
    lw_inFlight w' = None \<and> lw_phase w' = lw_phase w \<and> lw_operation w' = lw_operation w \<and>
    lw_onchain w' = lw_onchain w \<and> lw_arkade w' = lw_arkade w \<and> lw_lightning w' = lw_lightning w"
proof -
  have "lock_blocked_by (w\<lparr>lw_callers := cs\<rparr>) = lock_blocked_by w" for cs by (simp add: lock_blocked_by_def)
  then show ?thesis using assms by (simp add: run_defs start_lock_def Let_def)
qed

text \<open>A wallet with a failed Arkade save.\<close>

definition blocked_world :: lockWorld where
  "blocked_world = initial_lock_world\<lparr>lw_phase := Unlocked, lw_arkade := run_save (arkadeSaveLifecycle id) failed_save\<rparr>"

theorem lock_refused_on_save_error_witness:
  "lock_blocked_by blocked_world = Some ''Arkade save-error blocks lock until retry or forced lock'' \<and>
   (\<exists>w'. fold (lifecycle_step id) [CallLifecycle RequestLock, ResumeCaller 0, WorkSettles 0] blocked_world = w' \<and>
     lk_stage (lw_works w' ! 0) = WorkSettled (Some ''Arkade save-error blocks lock until retry or forced lock'') \<and>
     lw_phase w' = Unlocked)"
proof -
  have e: "lock_blocked_by blocked_world = Some ''Arkade save-error blocks lock until retry or forced lock''"
    by (simp add: blocked_world_def lock_blocked_by_def failed_save_run isSaveBlockingLock_def initial_lock_world_def
        createSaveLifecycleOrchestrator_def notConfiguredSnapshot_def saveErrorSnapshot_def)
  have sel: "lw_phase blocked_world = Unlocked" "lw_inFlight blocked_world = None" "lw_callers blocked_world = []" "lw_works blocked_world = []"
    by (simp_all add: blocked_world_def initial_lock_world_def)
  show ?thesis using lock_refused_on_save_error[of blocked_world, OF _ _ e, of id] e unfolding sel by auto
qed

end
