(* ===== verification/Wallet_Secrets.thy ===== *)
theory Wallet_Secrets
  imports Prelude Js_Number
begin

text \<open>
  The payload of the encrypted wallet secrets: \<open>lib/wallet/wallet-domain-types.ts\<close> with the parts of
  \<open>lib/bark/bark-exit-seizure.ts\<close> and \<open>lib/lightning/lightning-snapshot-payload.ts\<close> it uses. The
  payload is untyped data out of \<open>JSON.parse\<close>; the code validates it, repairs or drops the rows of
  the accounts, and refuses what is left over. The model keeps it untyped: a value is what
  \<open>JSON.parse\<close> returns, and a field that is absent is \<open>None\<close>. Warnings of development builds are left
  out.
\<close>

section \<open>Values\<close>

datatype jsValue =
  VNull | VBool bool | VNum js_number | VStr string | VArr "jsValue list" | VObj "(string \<times> jsValue) list"

text \<open>Access to a named field, which an array does not have, and the spread \<open>{...value}\<close>.\<close>

fun field :: "jsValue \<Rightarrow> string \<Rightarrow> jsValue option" where
  "field (VObj o') k = rec_get o' k"
| "field _ k = None"

fun spread :: "jsValue \<Rightarrow> jsValue js_record" where
  "spread (VObj o') = o'"
| "spread (VArr xs) = zip (map nat_str [0..<length xs]) xs"
| "spread _ = []"

text \<open>The length of the UTF-8 encoding.\<close>

definition utf8_length :: "string \<Rightarrow> nat" where
  "utf8_length s = sum_list (map (\<lambda>c. if (of_char c :: nat) < 128 then 1 else 2) s)"

fun str_of :: "jsValue option \<Rightarrow> string option" where
  "str_of (Some (VStr s)) = Some s"
| "str_of _ = None"

fun num_of :: "jsValue option \<Rightarrow> js_number option" where
  "num_of (Some (VNum n)) = Some n"
| "num_of _ = None"

fun list_of :: "jsValue option \<Rightarrow> jsValue list option" where
  "list_of (Some (VArr xs)) = Some xs"
| "list_of _ = None"

fun is_bool :: "jsValue option \<Rightarrow> bool" where
  "is_bool (Some (VBool b)) = True"
| "is_bool _ = False"

text \<open>A check on the string, the number or the array of a field.\<close>

definition is_str :: "(string \<Rightarrow> bool) \<Rightarrow> jsValue option \<Rightarrow> bool" where
  "is_str p v = (case str_of v of Some s \<Rightarrow> p s | None \<Rightarrow> False)"

definition is_num :: "(js_number \<Rightarrow> bool) \<Rightarrow> jsValue option \<Rightarrow> bool" where
  "is_num p v = (case num_of v of Some n \<Rightarrow> p n | None \<Rightarrow> False)"

definition is_list :: "(jsValue list \<Rightarrow> bool) \<Rightarrow> jsValue option \<Rightarrow> bool" where
  "is_list p v = (case list_of v of Some xs \<Rightarrow> p xs | None \<Rightarrow> False)"

definition optional :: "(jsValue option \<Rightarrow> bool) \<Rightarrow> jsValue option \<Rightarrow> bool" where
  "optional p v \<longleftrightarrow> v = None \<or> p v"

section \<open>Items of a sweep\<close>

datatype sweepKind = SweepAnchor | SweepInternal | SweepLeaf | SweepCheckpoint

record sweepItem =
  sw_vtxoId :: string
  sw_nodeKind :: sweepKind

definition BARK_EXIT_NODE_SWEEP_KINDS :: "(string \<times> sweepKind) list" where
  "BARK_EXIT_NODE_SWEEP_KINDS =
     [(''anchor'', SweepAnchor), (''internal'', SweepInternal), (''leaf'', SweepLeaf), (''checkpoint'', SweepCheckpoint)]"

definition isBarkExitNodeSweepKind :: "jsValue option \<Rightarrow> sweepKind option" where
  "isBarkExitNodeSweepKind v = (case str_of v of Some s \<Rightarrow> map_of BARK_EXIT_NODE_SWEEP_KINDS s | None \<Rightarrow> None)"

fun sweep_kind_name :: "sweepKind \<Rightarrow> string" where
  "sweep_kind_name SweepAnchor = ''anchor''"
| "sweep_kind_name SweepInternal = ''internal''"
| "sweep_kind_name SweepLeaf = ''leaf''"
| "sweep_kind_name SweepCheckpoint = ''checkpoint''"

fun NODE_KIND_RANK :: "sweepKind \<Rightarrow> rat" where
  "NODE_KIND_RANK SweepAnchor = 0"
| "NODE_KIND_RANK SweepInternal = 1"
| "NODE_KIND_RANK SweepLeaf = 2"
| "NODE_KIND_RANK SweepCheckpoint = 3"

definition compareExitNodeSweepVtxoItems :: "sweepItem \<Rightarrow> sweepItem \<Rightarrow> rat" where
  "compareExitNodeSweepVtxoItems left right =
     (let kindOrder = NODE_KIND_RANK (sw_nodeKind left) - NODE_KIND_RANK (sw_nodeKind right)
      in if kindOrder \<noteq> 0 then kindOrder else code_unit_compare (sw_vtxoId left) (sw_vtxoId right))"

text \<open>The loop keeps the first item of each pair of VTXO and kind; the sets of seen ids per kind are the
  items kept so far.\<close>

fun unique_items :: "sweepItem list \<Rightarrow> sweepItem list \<Rightarrow> sweepItem list" where
  "unique_items kept [] = kept"
| "unique_items kept (item # items) =
     (if sw_vtxoId item = [] then unique_items kept items
      else if item \<in> set kept then unique_items kept items
      else unique_items (kept @ [item]) items)"

definition normalizeExitNodeSweepVtxoItems :: "sweepItem list \<Rightarrow> sweepItem list" where
  "normalizeExitNodeSweepVtxoItems items = js_sort compareExitNodeSweepVtxoItems (unique_items [] items)"

definition mergeExitNodeSweepVtxoItems :: "sweepItem list \<Rightarrow> sweepItem list \<Rightarrow> sweepItem list" where
  "mergeExitNodeSweepVtxoItems existing incoming = normalizeExitNodeSweepVtxoItems (existing @ incoming)"

definition exitNodeSweepVtxoItemsWithoutKind :: "sweepItem list \<Rightarrow> sweepKind \<Rightarrow> sweepItem list" where
  "exitNodeSweepVtxoItemsWithoutKind items kind = filter (\<lambda>item. sw_nodeKind item \<noteq> kind) items"

definition vtxoIdsForExitNodeSweepKind :: "sweepItem list \<Rightarrow> sweepKind \<Rightarrow> string list" where
  "vtxoIdsForExitNodeSweepKind items kind = map sw_vtxoId (filter (\<lambda>item. sw_nodeKind item = kind) items)"

definition exitNodeSweepKindsByVtxoId :: "sweepItem list \<Rightarrow> sweepKind list js_record" where
  "exitNodeSweepKindsByVtxoId items =
     fold (\<lambda>item m.
       let kinds = (case rec_get m (sw_vtxoId item) of Some ks \<Rightarrow> ks | None \<Rightarrow> [])
       in rec_set (sw_vtxoId item) (if sw_nodeKind item \<in> set kinds then kinds else kinds @ [sw_nodeKind item]) m) items []"

text \<open>An entry of a stored list; here a record is an object and not an array.\<close>

definition sweep_entry :: "jsValue \<Rightarrow> sweepItem option" where
  "sweep_entry entry =
     (case entry of
        VObj o' \<Rightarrow>
          (case str_of (rec_get o' ''vtxoId'') of
             None \<Rightarrow> None
           | Some vtxoId \<Rightarrow>
               if vtxoId = [] then None
               else (case isBarkExitNodeSweepKind (rec_get o' ''nodeKind'') of
                       None \<Rightarrow> None
                     | Some kind \<Rightarrow> Some \<lparr>sw_vtxoId = vtxoId, sw_nodeKind = kind\<rparr>))
      | _ \<Rightarrow> None)"

fun sweep_entries :: "jsValue list \<Rightarrow> sweepItem list option" where
  "sweep_entries [] = Some []"
| "sweep_entries (e # es) =
     (case sweep_entry e of
        None \<Rightarrow> None
      | Some item \<Rightarrow> (case sweep_entries es of None \<Rightarrow> None | Some items \<Rightarrow> Some (item # items)))"

definition exitNodeSweepVtxoItemsFromUnknown :: "jsValue option \<Rightarrow> sweepItem list option" where
  "exitNodeSweepVtxoItemsFromUnknown v =
     (case list_of v of
        None \<Rightarrow> None
      | Some es \<Rightarrow> map_option normalizeExitNodeSweepVtxoItems (sweep_entries es))"

definition sweep_item_value :: "sweepItem \<Rightarrow> jsValue" where
  "sweep_item_value item = VObj [(''vtxoId'', VStr (sw_vtxoId item)), (''nodeKind'', VStr (sweep_kind_name (sw_nodeKind item)))]"

definition sweep_items_value :: "sweepItem list \<Rightarrow> jsValue" where
  "sweep_items_value items = VArr (map sweep_item_value items)"

section \<open>Validation of the rows\<close>

text \<open>What the validation asks of its environment: which texts \<open>Date.parse\<close> understands, and the
  settings of the build for Bark on regtest.\<close>

record secretsEnv =
  env_dateParses :: "string \<Rightarrow> bool"
  env_barkRegtest :: bool
  env_barkRegtestServerUrl :: string

definition isRecord :: "jsValue \<Rightarrow> bool" where
  "isRecord v = (case v of VObj _ \<Rightarrow> True | VArr _ \<Rightarrow> True | _ \<Rightarrow> False)"

definition isNonEmptyString :: "jsValue option \<Rightarrow> bool" where
  "isNonEmptyString = is_str (\<lambda>s. js_trim s \<noteq> [])"

definition isIso8601Timestamp :: "secretsEnv \<Rightarrow> jsValue option \<Rightarrow> bool" where
  "isIso8601Timestamp env = is_str (\<lambda>s. js_trim s \<noteq> [] \<and> env_dateParses env s)"

definition is_hex_char :: "char \<Rightarrow> bool" where
  "is_hex_char c \<longleftrightarrow> is_digit c \<or> (let n = (of_char c :: nat) in (97 \<le> n \<and> n \<le> 102) \<or> (65 \<le> n \<and> n \<le> 70))"

definition isBarkFingerprint :: "jsValue option \<Rightarrow> bool" where
  "isBarkFingerprint = is_str (\<lambda>s. length s = 8 \<and> list_all is_hex_char s)"

definition BARK_SIGNET_SERVER_URL :: string where "BARK_SIGNET_SERVER_URL = ''https://ark.signet.2nd.dev''"
definition BARK_MAINNET_SERVER_URL :: string where "BARK_MAINNET_SERVER_URL = ''https://ark.second.tech''"

definition BARK_RAIL_SERVER_URL :: "secretsEnv \<Rightarrow> (string \<times> string) list" where
  "BARK_RAIL_SERVER_URL env =
     [(''signet'', BARK_SIGNET_SERVER_URL), (''mainnet'', BARK_MAINNET_SERVER_URL), (''regtest'', env_barkRegtestServerUrl env)]"

definition MAX_BARK_RECEIVE_KEY_INDEX :: int where "MAX_BARK_RECEIVE_KEY_INDEX = 4294967295"

definition isBarkReceiveKeyIndex :: "jsValue option \<Rightarrow> bool" where
  "isBarkReceiveKeyIndex =
     is_num (\<lambda>n. case js_integer n of Some i \<Rightarrow> 0 \<le> i \<and> i \<le> MAX_BARK_RECEIVE_KEY_INDEX | None \<Rightarrow> False)"

definition isPendingEmergencyClaim :: "jsValue option \<Rightarrow> bool" where
  "isPendingEmergencyClaim value =
     (case value of
        None \<Rightarrow> False
      | Some v \<Rightarrow> isRecord v \<and> is_str (\<lambda>s. s \<noteq> []) (field v ''txid'') \<and>
          is_list (\<lambda>xs. xs \<noteq> [] \<and> list_all (\<lambda>x. is_str (\<lambda>s. s \<noteq> []) (Some x)) xs) (field v ''vtxoIds''))"

definition the_value :: "jsValue option \<Rightarrow> jsValue" where
  "the_value v = (case v of Some x \<Rightarrow> x | None \<Rightarrow> VNull)"

definition pendingEmergencyClaimFromUnknown :: "jsValue option \<Rightarrow> jsValue option" where
  "pendingEmergencyClaimFromUnknown value =
     (if isPendingEmergencyClaim value
      then Some (VObj [(''txid'', the_value (field (the_value value) ''txid'')),
                       (''vtxoIds'', the_value (field (the_value value) ''vtxoIds''))])
      else None)"

definition proceedAutomaticallyFromUnknown :: "jsValue option \<Rightarrow> bool" where
  "proceedAutomaticallyFromUnknown value \<longleftrightarrow> value = Some (VBool True)"

definition BARK_EMERGENCY_EXIT_FEE_PRESETS :: "string list" where
  "BARK_EMERGENCY_EXIT_FEE_PRESETS = [''Low'', ''Medium'', ''High'']"

definition emergencyExitFeePresetFromUnknown :: "jsValue option \<Rightarrow> string option" where
  "emergencyExitFeePresetFromUnknown value =
     (case str_of value of
        Some s \<Rightarrow> if s \<in> set BARK_EMERGENCY_EXIT_FEE_PRESETS then Some s else None
      | None \<Rightarrow> None)"

definition emergencyExitMaxFeeRateFromUnknown :: "jsValue option \<Rightarrow> rat option" where
  "emergencyExitMaxFeeRateFromUnknown value =
     (case num_of value of Some (Fin r) \<Rightarrow> if r \<le> 0 then None else Some r | _ \<Rightarrow> None)"

text \<open>The fields that no later step repairs.\<close>

definition bark_core_ok :: "secretsEnv \<Rightarrow> jsValue \<Rightarrow> bool" where
  "bark_core_ok env value \<longleftrightarrow>
     isRecord value \<and> isNonEmptyString (field value ''id'') \<and>
     is_str (\<lambda>network.
       network \<in> set (if env_barkRegtest env then [''signet'', ''mainnet'', ''regtest''] else [''signet'', ''mainnet'']) \<and>
       field value ''serverUrl'' = map_option VStr (map_of (BARK_RAIL_SERVER_URL env) network)) (field value ''networkMode'') \<and>
     isBarkFingerprint (field value ''fingerprint'') \<and>
     optional (isIso8601Timestamp env) (field value ''lastSuccessfulSyncAt'') \<and>
     optional isBarkReceiveKeyIndex (field value ''receiveKeyIndex'') \<and>
     optional (is_str (\<lambda>_. True)) (field value ''recordEnvelope'')"

definition isStoredBarkAccount :: "secretsEnv \<Rightarrow> jsValue \<Rightarrow> bool" where
  "isStoredBarkAccount env value \<longleftrightarrow>
     bark_core_ok env value \<and>
     optional isPendingEmergencyClaim (field value ''pendingEmergencyClaim'') \<and>
     optional is_bool (field value ''proceedAutomatically'') \<and>
     optional (\<lambda>v. emergencyExitFeePresetFromUnknown v \<noteq> None) (field value ''emergencyExitFeePreset'') \<and>
     optional (\<lambda>v. emergencyExitMaxFeeRateFromUnknown v \<noteq> None) (field value ''emergencyExitMaxFeeRateSatPerVb'') \<and>
     optional (\<lambda>v. exitNodeSweepVtxoItemsFromUnknown v \<noteq> None) (field value ''exitNodeSweepVtxoItems'')"

definition migrateLegacyBarkRecordDumpField :: "jsValue js_record \<Rightarrow> jsValue js_record" where
  "migrateLegacyBarkRecordDumpField row =
     (let legacy = rec_get row ''recordDump'';
          cleaned = (if rec_get row ''recordEnvelope'' = None \<and> is_str (\<lambda>_. True) legacy
                     then rec_set ''recordEnvelope'' (the_value legacy) row else row)
      in rec_delete ''recordDump'' cleaned)"

definition set_or_delete :: "string \<Rightarrow> jsValue option \<Rightarrow> jsValue js_record \<Rightarrow> jsValue js_record" where
  "set_or_delete k v row = (case v of Some x \<Rightarrow> rec_set k x row | None \<Rightarrow> rec_delete k row)"

text \<open>The repair of the optional fields of a row: what is malformed is dropped.\<close>

definition kept_sweep_items :: "jsValue option \<Rightarrow> jsValue option" where
  "kept_sweep_items v =
     (case exitNodeSweepVtxoItemsFromUnknown v of
        Some items \<Rightarrow> if items = [] then None else Some (sweep_items_value items)
      | None \<Rightarrow> None)"

definition cleaned_bark_row :: "jsValue \<Rightarrow> jsValue js_record \<Rightarrow> jsValue js_record" where
  "cleaned_bark_row row migrated =
     set_or_delete ''exitNodeSweepVtxoItems'' (kept_sweep_items (rec_get migrated ''exitNodeSweepVtxoItems''))
      (set_or_delete ''emergencyExitMaxFeeRateSatPerVb''
         (map_option (\<lambda>r. VNum (Fin r)) (emergencyExitMaxFeeRateFromUnknown (field row ''emergencyExitMaxFeeRateSatPerVb'')))
        (set_or_delete ''emergencyExitFeePreset''
           (map_option VStr (emergencyExitFeePresetFromUnknown (field row ''emergencyExitFeePreset'')))
          (set_or_delete ''proceedAutomatically''
             (if proceedAutomaticallyFromUnknown (field row ''proceedAutomatically'') then Some (VBool True) else None)
            (set_or_delete ''pendingEmergencyClaim'' (pendingEmergencyClaimFromUnknown (field row ''pendingEmergencyClaim''))
              migrated))))"

definition sanitizeStoredBarkAccountRow :: "secretsEnv \<Rightarrow> jsValue \<Rightarrow> jsValue option" where
  "sanitizeStoredBarkAccountRow env row =
     (if \<not> isRecord row then None
      else let migrated = migrateLegacyBarkRecordDumpField (spread row)
           in if isStoredBarkAccount env (VObj migrated) then Some (VObj migrated)
              else let cleaned = cleaned_bark_row row migrated
                   in if isStoredBarkAccount env (VObj cleaned) then Some (VObj cleaned) else None)"

fun deduplicate_networks :: "jsValue option list \<Rightarrow> jsValue list \<Rightarrow> jsValue list" where
  "deduplicate_networks seen [] = []"
| "deduplicate_networks seen (account # accounts) =
     (if field account ''networkMode'' \<in> set seen then deduplicate_networks seen accounts
      else account # deduplicate_networks (field account ''networkMode'' # seen) accounts)"

definition BARK_RECORD_ENVELOPE_MAX_BYTES :: nat where "BARK_RECORD_ENVELOPE_MAX_BYTES = 10 * 1024 * 1024"

definition assertBarkRecordEnvelopeWithinSizeLimit :: "string \<Rightarrow> string + unit" where
  "assertBarkRecordEnvelopeWithinSizeLimit recordEnvelope =
     (if utf8_length recordEnvelope > BARK_RECORD_ENVELOPE_MAX_BYTES
      then Inl (''Bark record envelope exceeds '' @ nat_str BARK_RECORD_ENVELOPE_MAX_BYTES @ '' bytes'') else Inr ())"

section \<open>Arkade, Lightning and descriptor rows\<close>

definition ARKADE_SUPPORTED_NETWORK_MODES :: "string list" where
  "ARKADE_SUPPORTED_NETWORK_MODES = [''mainnet'', ''signet'', ''mutinynet'', ''regtest'']"

definition ARKADE_SDK_PERSISTENCE_JSON_MAX_BYTES :: nat where
  "ARKADE_SDK_PERSISTENCE_JSON_MAX_BYTES = 10 * 1024 * 1024"

definition isStoredArkadeAccount :: "secretsEnv \<Rightarrow> jsValue \<Rightarrow> bool" where
  "isStoredArkadeAccount env value \<longleftrightarrow>
     isRecord value \<and> is_str (\<lambda>s. s \<in> set ARKADE_SUPPORTED_NETWORK_MODES) (field value ''networkMode'') \<and>
     isNonEmptyString (field value ''id'') \<and> is_str (\<lambda>_. True) (field value ''label'') \<and>
     isNonEmptyString (field value ''operatorUrl'') \<and> isNonEmptyString (field value ''operatorSignerPkHex'') \<and>
     isIso8601Timestamp env (field value ''createdAt'') \<and> optional (is_str (\<lambda>_. True)) (field value ''delegatorUrl'') \<and>
     optional (isIso8601Timestamp env) (field value ''lastSessionOpenedAt'') \<and>
     optional (isIso8601Timestamp env) (field value ''lastSuccessfulOperatorSyncAt'') \<and>
     optional (is_str (\<lambda>s. utf8_length s \<le> ARKADE_SDK_PERSISTENCE_JSON_MAX_BYTES)) (field value ''sdkPersistenceJson'')"

definition stripOversizedSdkPersistenceJson :: "jsValue \<Rightarrow> jsValue" where
  "stripOversizedSdkPersistenceJson row =
     (case str_of (field row ''sdkPersistenceJson'') of
        None \<Rightarrow> row
      | Some s \<Rightarrow>
          if utf8_length s \<le> ARKADE_SDK_PERSISTENCE_JSON_MAX_BYTES then row
          else VObj (rec_delete ''sdkPersistenceJson'' (spread row)))"

definition sanitizeStoredArkadeAccountRow :: "secretsEnv \<Rightarrow> jsValue \<Rightarrow> jsValue option" where
  "sanitizeStoredArkadeAccountRow env row =
     (if \<not> isRecord row then None else List.find (isStoredArkadeAccount env) [row, stripOversizedSdkPersistenceJson row])"

definition hasLightningPaymentCoreFields :: "jsValue \<Rightarrow> bool" where
  "hasLightningPaymentCoreFields row \<longleftrightarrow>
     is_str (\<lambda>_. True) (field row ''paymentHash'') \<and>
     (is_bool (field row ''isPending'') \<or> is_bool (field row ''pending'')) \<and>
     is_num (\<lambda>_. True) (field row ''amountSats'') \<and> is_str (\<lambda>_. True) (field row ''memo'') \<and>
     is_num (\<lambda>_. True) (field row ''timestamp'') \<and> is_str (\<lambda>_. True) (field row ''bolt11'') \<and>
     is_str (\<lambda>s. s = ''incoming'' \<or> s = ''outgoing'') (field row ''direction'') \<and>
     is_num (\<lambda>_. True) (field row ''feesPaidSats'')"

definition normalizeLightningPaymentPayload :: "jsValue \<Rightarrow> jsValue option" where
  "normalizeLightningPaymentPayload row =
     (if \<not> isRecord row then None
      else if \<not> hasLightningPaymentCoreFields row then None
      else Some (VObj
        [(''paymentHash'', the_value (field row ''paymentHash'')),
         (''isPending'', if is_bool (field row ''isPending'') then the_value (field row ''isPending'')
                         else the_value (field row ''pending'')),
         (''amountSats'', the_value (field row ''amountSats'')), (''memo'', the_value (field row ''memo'')),
         (''timestamp'', the_value (field row ''timestamp'')), (''bolt11'', the_value (field row ''bolt11'')),
         (''direction'', the_value (field row ''direction'')), (''feesPaidSats'', the_value (field row ''feesPaidSats''))]))"

definition isLightningPaymentPayload :: "jsValue \<Rightarrow> bool" where
  "isLightningPaymentPayload row \<longleftrightarrow> normalizeLightningPaymentPayload row \<noteq> None"

definition isNwcConnectionSnapshot :: "jsValue option \<Rightarrow> bool" where
  "isNwcConnectionSnapshot value =
     (case value of
        None \<Rightarrow> False
      | Some v \<Rightarrow> isRecord v \<and> is_num js_is_finite (field v ''balanceSats'') \<and>
          is_str (\<lambda>s. s \<noteq> []) (field v ''balanceUpdatedAt'') \<and>
          is_list (list_all isLightningPaymentPayload) (field v ''payments'') \<and>
          is_str (\<lambda>s. s \<noteq> []) (field v ''paymentsUpdatedAt''))"

definition LIGHTNING_NETWORK_MODES :: "string list" where
  "LIGHTNING_NETWORK_MODES = [''mainnet'', ''testnet'', ''signet'', ''mutinynet'']"

definition MAX_NWC_CONNECTION_STRING_LENGTH :: nat where "MAX_NWC_CONNECTION_STRING_LENGTH = 8192"
definition MAX_LIGHTNING_WALLET_LABEL_LENGTH :: nat where "MAX_LIGHTNING_WALLET_LABEL_LENGTH = 128"

definition isLightningNetworkMode :: "jsValue option \<Rightarrow> bool" where
  "isLightningNetworkMode = is_str (\<lambda>s. s \<in> set LIGHTNING_NETWORK_MODES)"

definition isStoredNwcLightningConnection :: "jsValue \<Rightarrow> bool" where
  "isStoredNwcLightningConnection value \<longleftrightarrow>
     isRecord value \<and> isNonEmptyString (field value ''id'') \<and>
     is_str (\<lambda>s. length s \<le> MAX_LIGHTNING_WALLET_LABEL_LENGTH) (field value ''label'') \<and>
     isLightningNetworkMode (field value ''networkMode'') \<and>
     is_str (\<lambda>s. s \<noteq> [] \<and> length s \<le> MAX_NWC_CONNECTION_STRING_LENGTH) (field value ''connectionString'') \<and>
     is_str (\<lambda>_. True) (field value ''createdAt'') \<and> optional isNwcConnectionSnapshot (field value ''nwcSnapshot'')"

definition SUPPORTED_BITCOIN_NETWORKS :: "string list" where
  "SUPPORTED_BITCOIN_NETWORKS = [''bitcoin'', ''testnet'', ''signet'', ''mutinynet'', ''regtest'']"

definition SUPPORTED_ADDRESS_TYPES :: "string list" where
  "SUPPORTED_ADDRESS_TYPES = [''segwit'', ''taproot'']"

definition isDescriptorWalletData :: "secretsEnv \<Rightarrow> jsValue \<Rightarrow> bool" where
  "isDescriptorWalletData env value \<longleftrightarrow>
     isRecord value \<and> is_str (\<lambda>s. s \<in> set SUPPORTED_BITCOIN_NETWORKS) (field value ''network'') \<and>
     is_str (\<lambda>s. s \<in> set SUPPORTED_ADDRESS_TYPES) (field value ''addressType'') \<and>
     is_num (\<lambda>n. case js_integer n of Some i \<Rightarrow> 0 \<le> i | None \<Rightarrow> False) (field value ''accountId'') \<and>
     isNonEmptyString (field value ''externalDescriptor'') \<and> isNonEmptyString (field value ''internalDescriptor'') \<and>
     isNonEmptyString (field value ''changeSet'') \<and> is_bool (field value ''fullScanDone'') \<and>
     optional (isIso8601Timestamp env) (field value ''lastSuccessfulEsploraSyncAt'')"

section \<open>The payload\<close>

text \<open>The checks that the payload and the full secrets share.\<close>

definition bark_networks :: "jsValue list \<Rightarrow> jsValue option list" where
  "bark_networks rows = map (\<lambda>row. field row ''networkMode'') rows"

definition payload_fields_ok :: "secretsEnv \<Rightarrow> jsValue \<Rightarrow> bool" where
  "payload_fields_ok env value \<longleftrightarrow>
     is_list (list_all (isDescriptorWalletData env)) (field value ''descriptorWallets'') \<and>
     is_list (list_all isStoredNwcLightningConnection) (field value ''lightningNwcConnections'') \<and>
     is_list (list_all (isStoredArkadeAccount env)) (field value ''arkadeAccounts'') \<and>
     optional (\<lambda>v. isRecord (the_value v)) (field value ''activeArkadeAccountIdByNetwork'') \<and>
     is_list (\<lambda>rows. list_all (isStoredBarkAccount env) rows \<and> distinct (bark_networks rows)) (field value ''barkAccounts'')"

definition isWalletSecretsPayload :: "secretsEnv \<Rightarrow> jsValue \<Rightarrow> bool" where
  "isWalletSecretsPayload env value \<longleftrightarrow> isRecord value \<and> field value ''mnemonic'' = None \<and> payload_fields_ok env value"

definition isWalletSecrets :: "secretsEnv \<Rightarrow> jsValue \<Rightarrow> bool" where
  "isWalletSecrets env value \<longleftrightarrow> isRecord value \<and> isNonEmptyString (field value ''mnemonic'') \<and> payload_fields_ok env value"

text \<open>An object literal whose entries may be undefined.\<close>

definition object_of :: "(string \<times> jsValue option) list \<Rightarrow> jsValue" where
  "object_of kvs = VObj (List.map_filter (\<lambda>(k, v). map_option (Pair k) v) kvs)"

definition nullish_or :: "jsValue option \<Rightarrow> jsValue \<Rightarrow> jsValue" where
  "nullish_or v d = (case v of None \<Rightarrow> d | Some VNull \<Rightarrow> d | Some x \<Rightarrow> x)"

definition walletSecretsPayloadFromSecrets :: "jsValue \<Rightarrow> jsValue" where
  "walletSecretsPayloadFromSecrets secrets =
     object_of
       [(''descriptorWallets'', field secrets ''descriptorWallets''),
        (''lightningNwcConnections'', field secrets ''lightningNwcConnections''),
        (''arkadeAccounts'', Some (nullish_or (field secrets ''arkadeAccounts'') (VArr []))),
        (''activeArkadeAccountIdByNetwork'', Some (nullish_or (field secrets ''activeArkadeAccountIdByNetwork'') (VObj []))),
        (''barkAccounts'', Some (nullish_or (field secrets ''barkAccounts'') (VArr [])))]"

definition assembleWalletSecrets :: "string \<Rightarrow> jsValue \<Rightarrow> jsValue" where
  "assembleWalletSecrets mnemonic' payload = VObj ((''mnemonic'', VStr mnemonic') # spread (walletSecretsPayloadFromSecrets payload))"

definition coalesceNullishArrayField :: "jsValue option \<Rightarrow> jsValue" where
  "coalesceNullishArrayField v = nullish_or v (VArr [])"

definition sanitizeOptionalObjectArray :: "jsValue option \<Rightarrow> (jsValue \<Rightarrow> jsValue option) \<Rightarrow> jsValue" where
  "sanitizeOptionalObjectArray v sanitizeRow =
     (case coalesceNullishArrayField v of
        VArr rows \<Rightarrow> VArr (List.map_filter sanitizeRow rows)
      | coalesced \<Rightarrow> coalesced)"

definition sanitizeActiveArkadeAccountIdByNetwork :: "jsValue option \<Rightarrow> jsValue option set \<Rightarrow> jsValue" where
  "sanitizeActiveArkadeAccountIdByNetwork v validAccountIds =
     (case v of
        Some (VObj entries) \<Rightarrow>
          VObj (filter (\<lambda>(networkMode, arkadeAccountId).
                  networkMode \<in> set ARKADE_SUPPORTED_NETWORK_MODES \<and> is_str (\<lambda>s. js_trim s \<noteq> []) (Some arkadeAccountId) \<and>
                  Some arkadeAccountId \<in> validAccountIds) entries)
      | _ \<Rightarrow> VObj [])"

definition pick_field :: "jsValue js_record \<Rightarrow> string \<Rightarrow> string \<Rightarrow> jsValue option" where
  "pick_field raw current legacy = (if rec_get raw current \<noteq> None then rec_get raw current else rec_get raw legacy)"

text \<open>Only a string or an array can be iterated over; the characters of a string have no network.\<close>

definition deduplicateBarkAccountsByNetwork :: "jsValue \<Rightarrow> string + jsValue" where
  "deduplicateBarkAccountsByNetwork accounts =
     (case accounts of
        VArr rows \<Rightarrow> Inr (VArr (deduplicate_networks [] rows))
      | VStr s \<Rightarrow> Inr (VArr (deduplicate_networks [] (map (\<lambda>c. VStr [c]) s)))
      | _ \<Rightarrow> Inl ''accounts is not iterable'')"

definition LEGACY_PAYLOAD_KEYS :: "string list" where
  "LEGACY_PAYLOAD_KEYS = [''arkadeOperatorConnections'', ''activeArkadeConnectionIdByNetwork'', ''arkadeAccounts'',
     ''activeArkadeAccountIdByNetwork'', ''barkRails'', ''barkAccounts'']"

definition normalizeWalletSecretsPayload :: "secretsEnv \<Rightarrow> jsValue \<Rightarrow> string + jsValue" where
  "normalizeWalletSecretsPayload env raw =
     (if \<not> isRecord raw then Inr raw
      else
        let raw' = rec_delete ''arkadeWallets'' (spread raw);
            arkadeAccounts = sanitizeOptionalObjectArray (pick_field raw' ''arkadeAccounts'' ''arkadeOperatorConnections'')
              (sanitizeStoredArkadeAccountRow env);
            validAccountIds = (case arkadeAccounts of VArr rows \<Rightarrow> (\<lambda>row. field row ''id'') ` set rows | _ \<Rightarrow> {});
            rest = fold rec_delete LEGACY_PAYLOAD_KEYS raw'
        in case deduplicateBarkAccountsByNetwork
               (sanitizeOptionalObjectArray (rec_get raw' ''barkAccounts'') (sanitizeStoredBarkAccountRow env)) of
             Inl e \<Rightarrow> Inl e
           | Inr barkAccounts \<Rightarrow>
               Inr (VObj
                 (rec_set ''barkAccounts'' barkAccounts
                   (rec_set ''activeArkadeAccountIdByNetwork''
                      (sanitizeActiveArkadeAccountIdByNetwork
                        (pick_field (spread raw) ''activeArkadeAccountIdByNetwork'' ''activeArkadeConnectionIdByNetwork'') validAccountIds)
                     (rec_set ''arkadeAccounts'' arkadeAccounts
                       (rec_set ''lightningNwcConnections'' (coalesceNullishArrayField (rec_get rest ''lightningNwcConnections''))
                         rest))))))"

fun first_duplicate :: "jsValue option list \<Rightarrow> jsValue option list \<Rightarrow> jsValue option option" where
  "first_duplicate seen [] = None"
| "first_duplicate seen (n # ns) = (if n \<in> set seen then Some n else first_duplicate (n # seen) ns)"

definition list_issue :: "jsValue option \<Rightarrow> (jsValue \<Rightarrow> bool) \<Rightarrow> string \<Rightarrow> string list" where
  "list_issue v ok name =
     (case list_of v of
        None \<Rightarrow> [name @ '' must be an array'']
      | Some rows \<Rightarrow> if list_all ok rows then [] else [name @ '' contains an invalid row''])"

definition network_text :: "jsValue option \<Rightarrow> string" where
  "network_text v = (case str_of v of Some s \<Rightarrow> s | None \<Rightarrow> ''undefined'')"

definition describeWalletSecretsPayloadValidationIssues :: "secretsEnv \<Rightarrow> jsValue \<Rightarrow> string list" where
  "describeWalletSecretsPayloadValidationIssues env value =
     (if \<not> isRecord value then [''root is not an object'']
      else
        (if field value ''mnemonic'' \<noteq> None then [''mnemonic must not appear in payload-only secrets''] else []) @
        list_issue (field value ''descriptorWallets'') (isDescriptorWalletData env) ''descriptorWallets'' @
        list_issue (field value ''lightningNwcConnections'') isStoredNwcLightningConnection ''lightningNwcConnections'' @
        list_issue (field value ''arkadeAccounts'') (isStoredArkadeAccount env) ''arkadeAccounts'' @
        (case field value ''activeArkadeAccountIdByNetwork'' of
           Some v \<Rightarrow> if isRecord v then [] else [''activeArkadeAccountIdByNetwork must be an object'']
         | None \<Rightarrow> []) @
        (case list_issue (field value ''barkAccounts'') (isStoredBarkAccount env) ''barkAccounts'' of
           [] \<Rightarrow> (case list_of (field value ''barkAccounts'') of
                    None \<Rightarrow> []
                  | Some rows \<Rightarrow>
                      (case first_duplicate [] (bark_networks rows) of
                         None \<Rightarrow> []
                       | Some n \<Rightarrow> [''barkAccounts has duplicate account for network '' @ network_text n]))
         | issues \<Rightarrow> issues))"

fun join_text :: "string \<Rightarrow> string list \<Rightarrow> string" where
  "join_text sep [] = []"
| "join_text sep [s] = s"
| "join_text sep (s # t # ss) = s @ sep @ join_text sep (t # ss)"

definition issue_detail :: "string list \<Rightarrow> string" where
  "issue_detail issues = (if issues \<noteq> [] then '': '' @ join_text ''; '' issues else [])"

text \<open>The parsers; \<open>jsonParse\<close> is \<open>JSON.parse\<close>, \<open>None\<close> where it throws.\<close>

definition parseWalletPayloadJson :: "(string \<Rightarrow> jsValue option) \<Rightarrow> secretsEnv \<Rightarrow> string \<Rightarrow> string + jsValue" where
  "parseWalletPayloadJson jsonParse env walletSecretsJson =
     (case jsonParse walletSecretsJson of
        None \<Rightarrow> Inl ''Invalid wallet secrets payload: not valid JSON''
      | Some raw \<Rightarrow>
          (case normalizeWalletSecretsPayload env raw of
             Inl e \<Rightarrow> Inl e
           | Inr parsed \<Rightarrow>
               if isWalletSecretsPayload env parsed then Inr parsed
               else Inl (''Invalid wallet secrets payload: schema validation failed'' @
                         issue_detail (describeWalletSecretsPayloadValidationIssues env parsed))))"

definition parseWalletSecretsJson :: "(string \<Rightarrow> jsValue option) \<Rightarrow> secretsEnv \<Rightarrow> string \<Rightarrow> string + jsValue" where
  "parseWalletSecretsJson jsonParse env walletSecretsJson =
     (case jsonParse walletSecretsJson of
        None \<Rightarrow> Inl ''Invalid wallet secrets: not valid JSON''
      | Some raw \<Rightarrow>
          (case normalizeWalletSecretsPayload env raw of
             Inl e \<Rightarrow> Inl e
           | Inr parsed \<Rightarrow>
               if isWalletSecrets env parsed then Inr parsed
               else if \<not> isRecord parsed \<or> \<not> isNonEmptyString (field parsed ''mnemonic'')
                 then Inl ''Invalid wallet secrets: schema validation failed: mnemonic missing or invalid''
               else Inl (''Invalid wallet secrets: schema validation failed'' @
                         issue_detail (describeWalletSecretsPayloadValidationIssues env parsed))))"

section \<open>Objects\<close>

lemma rec_get_set [simp]: "rec_get (rec_set k v r) j = (if j = k then Some v else rec_get r j)"
  by (rule js_rec.get_set)

lemma rec_get_delete [simp]: "rec_get (rec_delete k r) j = (if j = k then None else rec_get r j)"
  by (rule js_rec.get_delete)

lemma rec_get_Nil [simp]: "rec_get [] k = None" by (simp add: rec_get_def)

lemma rec_get_Cons [simp]: "rec_get ((j, v) # r) k = (if k = j then Some v else rec_get r k)"
  by (simp add: rec_get_def)

lemma rec_set_new: "rec_get r k = None \<Longrightarrow> rec_set k v r = r @ [(k, v)]"
  by (induction r) (auto simp: rec_get_def rec_set_def)

lemma rec_set_same: "rec_get r k = Some v \<Longrightarrow> rec_set k v r = r"
  by (induction r) (auto simp: rec_get_def rec_set_def split: if_splits)

lemma rec_delete_absent: "rec_get r k = None \<Longrightarrow> rec_delete k r = r"
  by (induction r) (auto simp: rec_get_def rec_delete_def split: if_splits)

lemma rec_delete_append: "rec_delete k (r @ s) = rec_delete k r @ rec_delete k s"
  by (simp add: rec_delete_def AList.delete_eq)

lemma rec_get_set_or_delete [simp]: "rec_get (set_or_delete k v r) j = (if j = k then v else rec_get r j)"
  by (simp add: set_or_delete_def split: option.split)

lemma optional_simps [simp]: "optional p None" "optional p (Some v) = p (Some v)"
  by (simp_all add: optional_def)

section \<open>The list of issues\<close>

lemma first_duplicate_None: "first_duplicate seen ns = None \<longleftrightarrow> distinct ns \<and> set seen \<inter> set ns = {}"
  by (induction seen ns rule: first_duplicate.induct) auto

lemma list_issue_Nil: "list_issue v ok name = [] \<longleftrightarrow> is_list (list_all ok) v"
  by (simp add: list_issue_def is_list_def split: option.split)

lemma bark_issue_Nil:
  "(case list_issue v (isStoredBarkAccount env) ''barkAccounts'' of
      [] \<Rightarrow> (case list_of v of
               None \<Rightarrow> []
             | Some rows \<Rightarrow> (case first_duplicate [] (bark_networks rows) of None \<Rightarrow> [] | Some n \<Rightarrow> [f n]))
    | i # is \<Rightarrow> i # is) = [] \<longleftrightarrow>
   is_list (\<lambda>rows. list_all (isStoredBarkAccount env) rows \<and> distinct (bark_networks rows)) v"
proof (cases "list_of v")
  case None
  then show ?thesis by (simp add: list_issue_def is_list_def)
next
  case (Some rows)
  then show ?thesis
    using first_duplicate_None[of "[]" "bark_networks rows"]
    by (cases "first_duplicate [] (bark_networks rows)") (simp_all add: list_issue_def is_list_def)
qed

lemma issues_Nil: "describeWalletSecretsPayloadValidationIssues env v = [] \<longleftrightarrow> isWalletSecretsPayload env v"
proof (cases "isRecord v")
  case True
  have active: "(case field v k of Some x \<Rightarrow> if isRecord x then [] else [e] | None \<Rightarrow> []) = [] \<longleftrightarrow>
      optional (\<lambda>v. isRecord (the_value v)) (field v k)" for k and e :: string
    by (cases "field v k") (simp_all add: the_value_def)
  show ?thesis
    using True unfolding describeWalletSecretsPayloadValidationIssues_def isWalletSecretsPayload_def payload_fields_ok_def
    by (simp add: list_issue_Nil active bark_issue_Nil)
next
  case False
  then show ?thesis by (simp add: describeWalletSecretsPayloadValidationIssues_def isWalletSecretsPayload_def)
qed

section \<open>Repaired rows\<close>

lemma is_str_present: "is_str p v \<Longrightarrow> is_str p (Some (the_value v))"
  by (cases v) (simp_all add: is_str_def the_value_def)

lemma is_list_present: "is_list p v \<Longrightarrow> is_list p (Some (the_value v))"
  by (cases v) (simp_all add: is_list_def the_value_def)

lemma pending_claim_from_unknown_ok: "pendingEmergencyClaimFromUnknown v = Some c \<Longrightarrow> isPendingEmergencyClaim (Some c)"
proof -
  assume "pendingEmergencyClaimFromUnknown v = Some c"
  then obtain w where w: "v = Some w" "isPendingEmergencyClaim (Some w)"
    "c = VObj [(''txid'', the_value (field w ''txid'')), (''vtxoIds'', the_value (field w ''vtxoIds''))]"
    by (cases v) (auto simp: pendingEmergencyClaimFromUnknown_def isPendingEmergencyClaim_def the_value_def split: if_splits)
  show ?thesis using w by (simp add: isPendingEmergencyClaim_def isRecord_def is_str_present is_list_present)
qed

lemma fee_preset_from_unknown_ok:
  "emergencyExitFeePresetFromUnknown v = Some s \<Longrightarrow> emergencyExitFeePresetFromUnknown (Some (VStr s)) = Some s"
  by (auto simp: emergencyExitFeePresetFromUnknown_def split: option.splits if_splits)

lemma max_fee_rate_from_unknown_ok:
  "emergencyExitMaxFeeRateFromUnknown v = Some r \<Longrightarrow> emergencyExitMaxFeeRateFromUnknown (Some (VNum (Fin r))) = Some r"
  by (auto simp: emergencyExitMaxFeeRateFromUnknown_def split: option.splits if_splits js_number.splits)

lemma sweep_kind_roundtrip: "isBarkExitNodeSweepKind (Some (VStr (sweep_kind_name k))) = Some k"
  by (cases k) (simp_all add: isBarkExitNodeSweepKind_def BARK_EXIT_NODE_SWEEP_KINDS_def)

lemma sweep_entry_roundtrip: "sw_vtxoId item \<noteq> [] \<Longrightarrow> sweep_entry (sweep_item_value item) = Some item"
  by (simp add: sweep_entry_def sweep_item_value_def sweep_kind_roundtrip)

lemma sweep_entries_roundtrip: "list_all (\<lambda>i. sw_vtxoId i \<noteq> []) items \<Longrightarrow> sweep_entries (map sweep_item_value items) = Some items"
  by (induction items) (simp_all add: sweep_entry_roundtrip)

lemma set_unique_items: "set (unique_items kept items) = set kept \<union> {i \<in> set items. sw_vtxoId i \<noteq> []}"
  by (induction kept items rule: unique_items.induct) auto

lemma distinct_unique_items: "distinct kept \<Longrightarrow> distinct (unique_items kept items)"
  by (induction kept items rule: unique_items.induct) auto

lemma set_normalize_items [simp]: "set (normalizeExitNodeSweepVtxoItems items) = {i \<in> set items. sw_vtxoId i \<noteq> []}"
  by (simp add: normalizeExitNodeSweepVtxoItems_def set_unique_items)

lemma distinct_normalize_items: "distinct (normalizeExitNodeSweepVtxoItems items)"
  using distinct_unique_items[of "[]" items] distinct_map_js_sort[of id compareExitNodeSweepVtxoItems]
  by (simp add: normalizeExitNodeSweepVtxoItems_def)

lemma kept_sweep_items_ok:
  assumes "kept_sweep_items v = Some c"
  shows "exitNodeSweepVtxoItemsFromUnknown (Some c) \<noteq> None"
proof -
  obtain items where c: "c = sweep_items_value (normalizeExitNodeSweepVtxoItems items)"
    using assms by (auto simp: kept_sweep_items_def exitNodeSweepVtxoItemsFromUnknown_def split: option.splits if_splits)
  have "list_all (\<lambda>i. sw_vtxoId i \<noteq> []) (normalizeExitNodeSweepVtxoItems items)" for items
    by (simp add: list_all_iff)
  then show ?thesis
    using c by (simp add: exitNodeSweepVtxoItemsFromUnknown_def sweep_items_value_def sweep_entries_roundtrip)
qed

lemma bark_core_ok_cong:
  assumes "isRecord v = isRecord w"
    and "\<And>k. k \<in> {''id'', ''networkMode'', ''serverUrl'', ''fingerprint'', ''lastSuccessfulSyncAt'', ''receiveKeyIndex'', ''recordEnvelope''} \<Longrightarrow>
      field v k = field w k"
  shows "bark_core_ok env v = bark_core_ok env w"
  using assms by (simp add: bark_core_ok_def)

lemma cleaned_row_stored:
  assumes "bark_core_ok env (VObj migrated)"
  shows "isStoredBarkAccount env (VObj (cleaned_bark_row row migrated))"
proof -
  have core: "bark_core_ok env (VObj (cleaned_bark_row row migrated)) = bark_core_ok env (VObj migrated)"
    by (rule bark_core_ok_cong) (auto simp: cleaned_bark_row_def isRecord_def)
  have keep: "optional p x" if "\<And>c. x = Some c \<Longrightarrow> p (Some c)" for p x
    using that by (cases x) auto
  show ?thesis
    unfolding isStoredBarkAccount_def core
    using assms
    by (auto simp: cleaned_bark_row_def intro!: keep
        dest: pending_claim_from_unknown_ok fee_preset_from_unknown_ok max_fee_rate_from_unknown_ok kept_sweep_items_ok split: if_splits)
qed

lemma sanitize_bark_iff:
  "sanitizeStoredBarkAccountRow env row \<noteq> None \<longleftrightarrow>
     isRecord row \<and> bark_core_ok env (VObj (migrateLegacyBarkRecordDumpField (spread row)))"
proof -
  have core: "bark_core_ok env (VObj (cleaned_bark_row row m)) = bark_core_ok env (VObj m)" for m
    by (rule bark_core_ok_cong) (auto simp: cleaned_bark_row_def isRecord_def)
  show ?thesis
    using cleaned_row_stored[of env "migrateLegacyBarkRecordDumpField (spread row)" row]
    by (auto simp: sanitizeStoredBarkAccountRow_def Let_def isStoredBarkAccount_def core)
qed

lemma sanitize_bark_cases:
  assumes "sanitizeStoredBarkAccountRow env row = Some row'"
  obtains o' where "row' = VObj o'" and "isStoredBarkAccount env (VObj o')" and "rec_get o' ''recordDump'' = None"
    and "rec_get o' ''recordEnvelope'' = rec_get (migrateLegacyBarkRecordDumpField (spread row)) ''recordEnvelope''"
proof -
  have dump: "rec_get (migrateLegacyBarkRecordDumpField r) ''recordDump'' = None" for r
    by (simp add: migrateLegacyBarkRecordDumpField_def Let_def)
  show ?thesis
    using assms dump[of "spread row"]
    by (auto simp: sanitizeStoredBarkAccountRow_def Let_def cleaned_bark_row_def split: if_splits intro!: that)
qed

text \<open>A row that has been repaired is left as it is.\<close>

lemma sanitize_bark_fixed:
  assumes "isStoredBarkAccount env (VObj o')" and "rec_get o' ''recordDump'' = None"
  shows "sanitizeStoredBarkAccountRow env (VObj o') = Some (VObj o')"
  using assms
  by (simp add: sanitizeStoredBarkAccountRow_def isRecord_def migrateLegacyBarkRecordDumpField_def is_str_def Let_def rec_delete_absent)

lemma sanitize_arkade_stored: "sanitizeStoredArkadeAccountRow env row = Some row' \<Longrightarrow> isStoredArkadeAccount env row'"
  by (auto simp: sanitizeStoredArkadeAccountRow_def split: if_splits)

lemma sanitize_arkade_fixed: "isStoredArkadeAccount env row \<Longrightarrow> sanitizeStoredArkadeAccountRow env row = Some row"
  by (simp add: sanitizeStoredArkadeAccountRow_def isStoredArkadeAccount_def)

section \<open>The normal form of a payload\<close>

lemma deduplicate_subset: "set (deduplicate_networks seen rows) \<subseteq> set rows"
  by (induction seen rows rule: deduplicate_networks.induct) auto

lemma deduplicate_distinct:
  "distinct (bark_networks (deduplicate_networks seen rows)) \<and> set seen \<inter> set (bark_networks (deduplicate_networks seen rows)) = {}"
  by (induction seen rows rule: deduplicate_networks.induct) (auto simp: bark_networks_def)

lemma deduplicate_fixed:
  "distinct (bark_networks rows) \<Longrightarrow> set seen \<inter> set (bark_networks rows) = {} \<Longrightarrow> deduplicate_networks seen rows = rows"
  by (induction seen rows rule: deduplicate_networks.induct) (auto simp: bark_networks_def)

lemma map_filter_fixed: "list_all (\<lambda>x. f x = Some x) xs \<Longrightarrow> List.map_filter f xs = xs"
  by (induction xs) (auto simp: List.map_filter_simps)

lemma map_filter_member: "y \<in> set (List.map_filter f xs) \<longleftrightarrow> (\<exists>x \<in> set xs. f x = Some y)"
  by (induction xs) (auto simp: List.map_filter_simps split: option.splits)

lemma coalesce_not_nullish: "coalesceNullishArrayField v \<noteq> VNull"
  by (auto simp: coalesceNullishArrayField_def nullish_or_def split: option.splits jsValue.splits)

lemma coalesce_idem: "v \<noteq> VNull \<Longrightarrow> coalesceNullishArrayField (Some v) = v"
  by (cases v) (simp_all add: coalesceNullishArrayField_def nullish_or_def)

definition account_ids :: "jsValue \<Rightarrow> jsValue option set" where
  "account_ids accounts = (case accounts of VArr rows \<Rightarrow> (\<lambda>row. field row ''id'') ` set rows | _ \<Rightarrow> {})"

text \<open>A normalized payload: the remaining fields, with the connections among them, followed by the three
  fields that are rebuilt.\<close>

definition normal_payload :: "jsValue js_record \<Rightarrow> jsValue \<Rightarrow> jsValue \<Rightarrow> jsValue \<Rightarrow> jsValue" where
  "normal_payload rest accounts active barks =
     VObj (rest @ [(''arkadeAccounts'', accounts), (''activeArkadeAccountIdByNetwork'', active), (''barkAccounts'', barks)])"

definition rest_ok :: "jsValue js_record \<Rightarrow> bool" where
  "rest_ok rest \<longleftrightarrow> list_all (\<lambda>k. rec_get rest k = None) (''arkadeWallets'' # LEGACY_PAYLOAD_KEYS)"

lemma rec_get_append: "rec_get (r @ s) k = (case rec_get r k of Some v \<Rightarrow> Some v | None \<Rightarrow> rec_get s k)"
  by (cases "rec_get r k") (simp_all add: rec_get_def map_add_def)

lemma rec_get_fold_delete: "rec_get (fold rec_delete ks r) k = (if k \<in> set ks then None else rec_get r k)"
  by (rule js_rec.get_fold_delete)

text \<open>The rebuilt fields of a normalized payload.\<close>

definition normal_accounts :: "secretsEnv \<Rightarrow> jsValue js_record \<Rightarrow> jsValue" where
  "normal_accounts env r =
     sanitizeOptionalObjectArray (pick_field r ''arkadeAccounts'' ''arkadeOperatorConnections'') (sanitizeStoredArkadeAccountRow env)"

definition normal_active :: "secretsEnv \<Rightarrow> jsValue js_record \<Rightarrow> jsValue" where
  "normal_active env r =
     sanitizeActiveArkadeAccountIdByNetwork (pick_field r ''activeArkadeAccountIdByNetwork'' ''activeArkadeConnectionIdByNetwork'')
       (account_ids (normal_accounts env r))"

definition normal_barks :: "secretsEnv \<Rightarrow> jsValue js_record \<Rightarrow> string + jsValue" where
  "normal_barks env r =
     deduplicateBarkAccountsByNetwork (sanitizeOptionalObjectArray (rec_get r ''barkAccounts'') (sanitizeStoredBarkAccountRow env))"

definition normal_rest :: "jsValue js_record \<Rightarrow> jsValue js_record" where
  "normal_rest r =
     (let rest = fold rec_delete LEGACY_PAYLOAD_KEYS (rec_delete ''arkadeWallets'' r)
      in rec_set ''lightningNwcConnections'' (coalesceNullishArrayField (rec_get rest ''lightningNwcConnections'')) rest)"

lemma rest_ok_normal_rest: "rest_ok (normal_rest r)"
  by (simp add: rest_ok_def normal_rest_def Let_def rec_get_fold_delete LEGACY_PAYLOAD_KEYS_def)

lemma normalize_eq:
  assumes "isRecord raw"
  shows "normalizeWalletSecretsPayload env raw =
    (case normal_barks env (spread raw) of
       Inl e \<Rightarrow> Inl e
     | Inr barks \<Rightarrow> Inr (normal_payload (normal_rest (spread raw)) (normal_accounts env (spread raw)) (normal_active env (spread raw)) barks))"
proof -
  let ?r = "rec_delete ''arkadeWallets'' (spread raw)" and ?rest = "normal_rest (spread raw)"
  have pick: "pick_field ?r ''arkadeAccounts'' ''arkadeOperatorConnections'' =
      pick_field (spread raw) ''arkadeAccounts'' ''arkadeOperatorConnections''"
    by (simp add: pick_field_def)
  have none: "rec_get ?rest k = None" if "k \<in> {''arkadeAccounts'', ''activeArkadeAccountIdByNetwork'', ''barkAccounts''}" for k
    using that rest_ok_normal_rest[of "spread raw"] by (auto simp: rest_ok_def LEGACY_PAYLOAD_KEYS_def)
  have build: "rec_set ''barkAccounts'' b (rec_set ''activeArkadeAccountIdByNetwork'' a (rec_set ''arkadeAccounts'' k ?rest)) =
      ?rest @ [(''arkadeAccounts'', k), (''activeArkadeAccountIdByNetwork'', a), (''barkAccounts'', b)]" for a b k
    using none by (simp add: rec_set_new rec_get_append)
  show ?thesis
    using assms build
    by (simp add: normalizeWalletSecretsPayload_def Let_def pick normal_barks_def normal_accounts_def normal_active_def account_ids_def
        normal_payload_def normal_rest_def split: sum.split)
qed

text \<open>A normalized payload whose rows are valid is a fixed point.\<close>

lemma normalize_fixed:
  assumes "rest_ok rest" and "rec_get rest ''lightningNwcConnections'' = Some l" and "l \<noteq> VNull"
    and "list_all (isStoredArkadeAccount env) accounts"
    and "list_all (\<lambda>(n, i). n \<in> set ARKADE_SUPPORTED_NETWORK_MODES \<and> is_str (\<lambda>s. js_trim s \<noteq> []) (Some i) \<and>
      Some i \<in> account_ids (VArr accounts)) active"
    and "list_all (\<lambda>row. sanitizeStoredBarkAccountRow env row = Some row) barks" and "distinct (bark_networks barks)"
  shows "normalizeWalletSecretsPayload env (normal_payload rest (VArr accounts) (VObj active) (VArr barks)) =
    Inr (normal_payload rest (VArr accounts) (VObj active) (VArr barks))"
proof -
  let ?r = "rest @ [(''arkadeAccounts'', VArr accounts), (''activeArkadeAccountIdByNetwork'', VObj active), (''barkAccounts'', VArr barks)]"
  have none: "rec_get rest k = None" if "k \<in> insert ''arkadeWallets'' (set LEGACY_PAYLOAD_KEYS)" for k
    using assms(1) that by (auto simp: rest_ok_def list_all_iff)
  have gets: "rec_get ?r ''arkadeAccounts'' = Some (VArr accounts)" "rec_get ?r ''activeArkadeAccountIdByNetwork'' = Some (VObj active)"
    "rec_get ?r ''barkAccounts'' = Some (VArr barks)"
    using none by (simp_all add: rec_get_append LEGACY_PAYLOAD_KEYS_def)
  have arkade: "normal_accounts env ?r = VArr accounts"
    using assms(4) by (simp add: normal_accounts_def pick_field_def gets sanitizeOptionalObjectArray_def coalesce_idem
        map_filter_fixed list_all_iff sanitize_arkade_fixed)
  have act: "normal_active env ?r = VObj active"
    using assms(5) by (simp add: normal_active_def pick_field_def gets arkade sanitizeActiveArkadeAccountIdByNetwork_def
        filter_id_conv list_all_iff)
  have bark: "normal_barks env ?r = Inr (VArr barks)"
    using assms(6,7) by (simp add: normal_barks_def gets sanitizeOptionalObjectArray_def coalesce_idem map_filter_fixed
        deduplicateBarkAccountsByNetwork_def deduplicate_fixed)
  have deleted: "rec_delete k (rest @ s) = rest @ rec_delete k s" if "k \<in> insert ''arkadeWallets'' (set LEGACY_PAYLOAD_KEYS)" for k s
    using none[OF that] by (simp add: rec_delete_append rec_delete_absent)
  have "fold rec_delete LEGACY_PAYLOAD_KEYS (rec_delete ''arkadeWallets'' ?r) = rest"
    using deleted by (simp add: LEGACY_PAYLOAD_KEYS_def) (simp add: rec_delete_def)
  then have "normal_rest ?r = rest" using assms(2,3) by (simp add: normal_rest_def coalesce_idem rec_set_same)
  then show ?thesis
    using arkade act bark by (simp add: normalize_eq normal_payload_def isRecord_def)
qed

lemma normal_accounts_valid: "normal_accounts env r = VArr rows \<Longrightarrow> list_all (isStoredArkadeAccount env) rows"
  by (auto simp: normal_accounts_def sanitizeOptionalObjectArray_def list_all_iff map_filter_member
      dest: sanitize_arkade_stored split: jsValue.splits)

lemma normal_active_valid:
  "\<exists>active. normal_active env r = VObj active \<and>
     list_all (\<lambda>(n, i). n \<in> set ARKADE_SUPPORTED_NETWORK_MODES \<and> is_str (\<lambda>s. js_trim s \<noteq> []) (Some i) \<and>
       Some i \<in> account_ids (normal_accounts env r)) active"
  by (auto simp: normal_active_def sanitizeActiveArkadeAccountIdByNetwork_def list_all_iff split: option.splits jsValue.splits)

text \<open>The Bark accounts of a normalized payload, unless they were given as a text.\<close>

lemma normal_barks_cases:
  assumes "normal_barks env r = Inr barks"
  obtains rows where "barks = VArr rows" and "distinct (bark_networks rows)"
    and "list_all (\<lambda>row. sanitizeStoredBarkAccountRow env row = Some row) rows \<or> (\<exists>s. rec_get r ''barkAccounts'' = Some (VStr s) \<and> s \<noteq> [] \<and> (\<exists>c. rows = [VStr [c]]))"
proof -
  note defs = normal_barks_def sanitizeOptionalObjectArray_def deduplicateBarkAccountsByNetwork_def
  have fixed: "sanitizeStoredBarkAccountRow env row' = Some row'" if "sanitizeStoredBarkAccountRow env row = Some row'" for row row'
    using that by (auto elim!: sanitize_bark_cases simp: sanitize_bark_fixed)
  have letters: "deduplicate_networks seen (map (\<lambda>c. VStr [c]) s) = []" if "None \<in> set seen" for seen s
    using that by (induction s) auto
  consider (rows) given where "coalesceNullishArrayField (rec_get r ''barkAccounts'') = VArr given"
    "barks = VArr (deduplicate_networks [] (List.map_filter (sanitizeStoredBarkAccountRow env) given))"
    | (chars) s where "coalesceNullishArrayField (rec_get r ''barkAccounts'') = VStr s" "barks = VArr (deduplicate_networks [] (map (\<lambda>c. VStr [c]) s))"
    using assms by (auto simp: defs split: jsValue.splits)
  then show ?thesis
  proof cases
    case rows
    have "list_all (\<lambda>row. sanitizeStoredBarkAccountRow env row = Some row)
        (deduplicate_networks [] (List.map_filter (sanitizeStoredBarkAccountRow env) given))"
      using deduplicate_subset[of "[]" "List.map_filter (sanitizeStoredBarkAccountRow env) given"] fixed
      by (fastforce simp: list_all_iff map_filter_member)
    then show ?thesis using rows(2) deduplicate_distinct that by blast
  next
    case chars
    have raw: "rec_get r ''barkAccounts'' = Some (VStr s)"
      using chars(1) by (auto simp: coalesceNullishArrayField_def nullish_or_def split: option.splits jsValue.splits)
    show ?thesis
    proof (cases s)
      case Nil
      then show ?thesis using chars(2) that[of "[]"] by (simp add: bark_networks_def)
    next
      case (Cons c cs)
      then show ?thesis using chars(2) raw that[of "[VStr [c]]"] letters by (auto simp: bark_networks_def)
    qed
  qed
qed

lemma normal_rest_gets:
  "rec_get (normal_rest r) ''lightningNwcConnections'' = Some (coalesceNullishArrayField (rec_get r ''lightningNwcConnections''))"
  "rec_get (normal_rest r) ''descriptorWallets'' = rec_get r ''descriptorWallets''"
  "rec_get (normal_rest r) ''mnemonic'' = rec_get r ''mnemonic''"
  by (simp_all add: normal_rest_def Let_def rec_get_fold_delete LEGACY_PAYLOAD_KEYS_def)

lemma normal_payload_fields:
  assumes "rest_ok rest"
  shows "field (normal_payload rest k a b) ''arkadeAccounts'' = Some k"
    and "field (normal_payload rest k a b) ''activeArkadeAccountIdByNetwork'' = Some a"
    and "field (normal_payload rest k a b) ''barkAccounts'' = Some b"
    and "field (normal_payload rest k a b) ''descriptorWallets'' = rec_get rest ''descriptorWallets''"
    and "field (normal_payload rest k a b) ''lightningNwcConnections'' = rec_get rest ''lightningNwcConnections''"
    and "field (normal_payload rest k a b) ''mnemonic'' = rec_get rest ''mnemonic''"
  using assms by (simp_all add: normal_payload_def rec_get_append rest_ok_def LEGACY_PAYLOAD_KEYS_def split: option.split)

lemma isRecord_normal [simp]: "isRecord (normal_payload rest k a b)" by (simp add: normal_payload_def isRecord_def)

definition nullish :: "jsValue option \<Rightarrow> bool" where
  "nullish v \<longleftrightarrow> v = None \<or> v = Some VNull"

lemma is_list_coalesce: "is_list p (Some (coalesceNullishArrayField v)) \<longleftrightarrow> (nullish v \<and> p []) \<or> is_list p v"
  by (cases v rule: list_of.cases) (auto simp: is_list_def coalesceNullishArrayField_def nullish_or_def nullish_def)

lemma normal_accounts_list:
  "is_list (list_all (isStoredArkadeAccount env)) (Some (normal_accounts env r)) \<longleftrightarrow>
     nullish (pick_field r ''arkadeAccounts'' ''arkadeOperatorConnections'') \<or>
     is_list (\<lambda>_. True) (pick_field r ''arkadeAccounts'' ''arkadeOperatorConnections'')" (is "?l \<longleftrightarrow> ?r")
proof -
  have "?l \<longleftrightarrow> (\<exists>rows. normal_accounts env r = VArr rows)"
    by (cases "normal_accounts env r") (auto simp: is_list_def dest: normal_accounts_valid)
  also have "\<dots> \<longleftrightarrow> is_list (\<lambda>_. True) (Some (coalesceNullishArrayField (pick_field r ''arkadeAccounts'' ''arkadeOperatorConnections'')))"
    by (auto simp: normal_accounts_def sanitizeOptionalObjectArray_def is_list_def split: jsValue.splits)
  finally show ?thesis by (simp add: is_list_coalesce)
qed

lemma normal_barks_ok_iff:
  "(\<exists>barks. normal_barks env r = Inr barks \<and>
      is_list (\<lambda>rows. list_all (isStoredBarkAccount env) rows \<and> distinct (bark_networks rows)) (Some barks)) \<longleftrightarrow>
   nullish (rec_get r ''barkAccounts'') \<or> is_list (\<lambda>_. True) (rec_get r ''barkAccounts'') \<or> rec_get r ''barkAccounts'' = Some (VStr [])"
  (is "?l \<longleftrightarrow> ?r")
proof
  assume ?l
  then obtain rows where rows: "normal_barks env r = Inr (VArr rows)" "list_all (isStoredBarkAccount env) rows"
    by (auto simp: is_list_def elim!: list_of.elims split: option.splits)
  have "\<not> isStoredBarkAccount env (VStr s)" for s by (simp add: isStoredBarkAccount_def bark_core_ok_def isRecord_def)
  with rows have "\<not> (\<exists>s. s \<noteq> [] \<and> rec_get r ''barkAccounts'' = Some (VStr s))"
    by (auto simp: neq_Nil_conv normal_barks_def sanitizeOptionalObjectArray_def deduplicateBarkAccountsByNetwork_def coalesce_idem)
  then show ?r
    using rows(1) by (auto simp: normal_barks_def sanitizeOptionalObjectArray_def deduplicateBarkAccountsByNetwork_def nullish_def is_list_def
        coalesceNullishArrayField_def nullish_or_def split: option.splits jsValue.splits)
next
  assume r: ?r
  then obtain barks where barks: "normal_barks env r = Inr barks"
    by (cases "rec_get r ''barkAccounts''" rule: list_of.cases)
       (auto simp: normal_barks_def sanitizeOptionalObjectArray_def deduplicateBarkAccountsByNetwork_def nullish_def is_list_def
        coalesceNullishArrayField_def nullish_or_def)
  from barks obtain rows where rows: "barks = VArr rows" "distinct (bark_networks rows)"
    "list_all (\<lambda>row. sanitizeStoredBarkAccountRow env row = Some row) rows"
    by (rule normal_barks_cases) (use r in \<open>auto simp: nullish_def is_list_def\<close>)
  have "isStoredBarkAccount env row" if "sanitizeStoredBarkAccountRow env row = Some row" for row
    using that by (auto elim: sanitize_bark_cases)
  then show ?l using barks rows by (auto simp: is_list_def list_all_iff)
qed

lemma payload_normal_iff:
  assumes "rest_ok rest"
  shows "isWalletSecretsPayload env (normal_payload rest k a b) \<longleftrightarrow>
    rec_get rest ''mnemonic'' = None \<and> is_list (list_all (isDescriptorWalletData env)) (rec_get rest ''descriptorWallets'') \<and>
    is_list (list_all isStoredNwcLightningConnection) (rec_get rest ''lightningNwcConnections'') \<and>
    is_list (list_all (isStoredArkadeAccount env)) (Some k) \<and> isRecord a \<and>
    is_list (\<lambda>rows. list_all (isStoredBarkAccount env) rows \<and> distinct (bark_networks rows)) (Some b)"
  by (simp add: isWalletSecretsPayload_def payload_fields_ok_def normal_payload_fields[OF assms] the_value_def)

text \<open>What an accepted payload looks like.\<close>

lemma parse_payload_cases:
  assumes "parseWalletPayloadJson jsonParse env s = Inr v"
  obtains raw rest accounts active barks where "jsonParse s = Some raw" and "isRecord raw"
    and "v = normal_payload rest (VArr accounts) (VObj active) (VArr barks)" and "rest = normal_rest (spread raw)"
    and "normal_accounts env (spread raw) = VArr accounts" and "normal_active env (spread raw) = VObj active"
    and "normal_barks env (spread raw) = Inr (VArr barks)" and "isWalletSecretsPayload env v"
proof -
  obtain raw where raw: "jsonParse s = Some raw" "normalizeWalletSecretsPayload env raw = Inr v" "isWalletSecretsPayload env v"
    using assms by (auto simp: parseWalletPayloadJson_def split: option.splits sum.splits if_splits)
  have is_rec: "isRecord raw"
    using raw(2,3) by (cases "isRecord raw") (auto simp: normalizeWalletSecretsPayload_def isWalletSecretsPayload_def)
  obtain b where b: "normal_barks env (spread raw) = Inr b"
    "v = normal_payload (normal_rest (spread raw)) (normal_accounts env (spread raw)) (normal_active env (spread raw)) b"
    using raw(2) normalize_eq[OF is_rec] by (auto split: sum.splits)
  have ok: "is_list (list_all (isStoredArkadeAccount env)) (Some (normal_accounts env (spread raw)))"
    "is_list (\<lambda>rows. list_all (isStoredBarkAccount env) rows \<and> distinct (bark_networks rows)) (Some b)"
    using raw(3) unfolding b(2) payload_normal_iff[OF rest_ok_normal_rest] by simp_all
  obtain accounts where accounts: "normal_accounts env (spread raw) = VArr accounts"
    using ok(1) by (cases "normal_accounts env (spread raw)") (auto simp: is_list_def)
  obtain barks where barks: "b = VArr barks" using ok(2) by (cases b) (auto simp: is_list_def)
  obtain active where "normal_active env (spread raw) = VObj active" using normal_active_valid by blast
  with raw is_rec b accounts barks show ?thesis by (intro that) auto
qed

section \<open>A sample payload\<close>

definition sample_secrets_env :: secretsEnv where
  "sample_secrets_env = \<lparr>env_dateParses = (\<lambda>s. True), env_barkRegtest = False, env_barkRegtestServerUrl = ''http://localhost:3535''\<rparr>"

text \<open>A Bark row with a valid core, the envelope under its old name and a malformed pending claim.\<close>

definition sample_bark_core :: "jsValue js_record" where
  "sample_bark_core = [(''id'', VStr ''b1''), (''networkMode'', VStr ''signet''), (''serverUrl'', VStr ''https://ark.signet.2nd.dev''),
     (''fingerprint'', VStr ''0123abcd'')]"

definition sample_bark_row :: jsValue where
  "sample_bark_row = VObj (sample_bark_core @ [(''recordDump'', VStr ''AAEC''), (''pendingEmergencyClaim'', VStr ''?'')])"

definition sample_arkade_row :: jsValue where
  "sample_arkade_row = VObj [(''id'', VStr ''a1''), (''label'', VStr ''ark''), (''networkMode'', VStr ''signet''),
     (''operatorUrl'', VStr ''https://o''), (''operatorSignerPkHex'', VStr ''02ab''), (''createdAt'', VStr ''2026-01-01'')]"

definition sample_secrets :: "jsValue js_record" where
  "sample_secrets = [(''descriptorWallets'', VArr []), (''arkadeOperatorConnections'', VArr [sample_arkade_row, VNull]),
     (''activeArkadeConnectionIdByNetwork'', VObj [(''signet'', VStr ''a1''), (''mainnet'', VStr ''gone'')]),
     (''barkAccounts'', VArr [sample_bark_row, VNull])]"

definition sample_json :: "jsValue option \<Rightarrow> string \<Rightarrow> jsValue option" where
  "sample_json second s = (if s = ''p'' then Some (VObj sample_secrets) else if s = ''q'' then second else None)"

lemma sample_arkade_stored: "isStoredArkadeAccount sample_secrets_env sample_arkade_row"
  by (simp add: isStoredArkadeAccount_def sample_arkade_row_def isRecord_def is_str_def isNonEmptyString_def isIso8601Timestamp_def
      ARKADE_SUPPORTED_NETWORK_MODES_def sample_secrets_env_def js_trim_def js_ws_def Let_def)

lemma sample_bark_core_ok: "bark_core_ok sample_secrets_env (VObj (migrateLegacyBarkRecordDumpField (spread sample_bark_row)))"
  by (simp add: bark_core_ok_def sample_bark_row_def sample_bark_core_def isRecord_def is_str_def isNonEmptyString_def
      isIso8601Timestamp_def sample_secrets_env_def js_trim_def js_ws_def Let_def migrateLegacyBarkRecordDumpField_def
      BARK_RAIL_SERVER_URL_def BARK_SIGNET_SERVER_URL_def isBarkFingerprint_def is_hex_char_def is_digit_def the_value_def)

lemma sample_accepted: "\<exists>v. parseWalletPayloadJson (sample_json x) sample_secrets_env ''p'' = Inr v"
proof -
  have "normal_barks sample_secrets_env sample_secrets \<noteq> Inl e" for e
    by (simp add: normal_barks_def sample_secrets_def sanitizeOptionalObjectArray_def coalesce_idem deduplicateBarkAccountsByNetwork_def)
  then obtain b where b: "normal_barks sample_secrets_env sample_secrets = Inr b" by (cases "normal_barks sample_secrets_env sample_secrets") auto
  have list: "rec_get sample_secrets ''barkAccounts'' = Some (VArr [sample_bark_row, VNull])"
    "pick_field sample_secrets ''arkadeAccounts'' ''arkadeOperatorConnections'' = Some (VArr [sample_arkade_row, VNull])"
    "rec_get sample_secrets ''mnemonic'' = None" "rec_get sample_secrets ''descriptorWallets'' = Some (VArr [])"
    "rec_get sample_secrets ''lightningNwcConnections'' = None"
    by (simp_all add: sample_secrets_def pick_field_def)
  have "is_list (\<lambda>rows. list_all (isStoredBarkAccount sample_secrets_env) rows \<and> distinct (bark_networks rows)) (Some b)"
    using normal_barks_ok_iff[of sample_secrets_env sample_secrets] b by (auto simp: list is_list_def)
  moreover have "isRecord (normal_active sample_secrets_env sample_secrets)"
    using normal_active_valid[of sample_secrets_env sample_secrets] by (auto simp: isRecord_def)
  moreover have "is_list (list_all (isStoredArkadeAccount sample_secrets_env)) (Some (normal_accounts sample_secrets_env sample_secrets))"
    by (simp add: normal_accounts_list list) (simp add: is_list_def)
  moreover have "is_list (list_all (isDescriptorWalletData sample_secrets_env)) (Some (VArr []))" by (simp add: is_list_def)
  ultimately have "isWalletSecretsPayload sample_secrets_env
      (normal_payload (normal_rest sample_secrets) (normal_accounts sample_secrets_env sample_secrets) (normal_active sample_secrets_env sample_secrets) b)"
    by (simp add: payload_normal_iff[OF rest_ok_normal_rest] normal_rest_gets is_list_coalesce list nullish_def)
  then show ?thesis
    by (simp add: parseWalletPayloadJson_def sample_json_def normalize_eq isRecord_def b)
qed

section \<open>Properties\<close>

text \<open>The list of issues that goes into the error message is empty exactly for a valid payload: the two
  parallel checks of the code agree, and a refused payload always comes with a reason.\<close>

theorem payload_issues_iff:
  "describeWalletSecretsPayloadValidationIssues env v = [] \<longleftrightarrow> isWalletSecretsPayload env v"
  by (rule issues_Nil)

text \<open>What the parser returns is a normalized payload, and normalizing it again changes nothing.\<close>

definition normal_form :: "secretsEnv \<Rightarrow> jsValue \<Rightarrow> bool" where
  "normal_form env v \<longleftrightarrow> isWalletSecretsPayload env v \<and> normalizeWalletSecretsPayload env v = Inr v"

lemma parse_normal: "normal_form env v \<Longrightarrow> jsonParse s = Some v \<Longrightarrow> parseWalletPayloadJson jsonParse env s = Inr v"
  by (simp add: parseWalletPayloadJson_def normal_form_def)

lemma parsed_normal:
  assumes "parseWalletPayloadJson jsonParse env s = Inr v"
  shows "normal_form env v"
proof -
  from assms obtain raw rest accounts active barks where
    v: "v = normal_payload rest (VArr accounts) (VObj active) (VArr barks)" "isWalletSecretsPayload env v"
    and rest: "rest = normal_rest (spread raw)" and accounts: "normal_accounts env (spread raw) = VArr accounts"
    and active: "normal_active env (spread raw) = VObj active" and barks: "normal_barks env (spread raw) = Inr (VArr barks)"
    by (rule parse_payload_cases)
  have ok: "rest_ok rest" using rest by (simp add: rest_ok_normal_rest)
  have valid: "list_all (isStoredBarkAccount env) barks"
    using v(2) unfolding v(1) payload_normal_iff[OF ok] by (simp add: is_list_def)
  from barks have fixed: "list_all (\<lambda>row. sanitizeStoredBarkAccountRow env row = Some row) barks" "distinct (bark_networks barks)"
    by (rule normal_barks_cases; use valid in \<open>auto simp: isStoredBarkAccount_def bark_core_ok_def isRecord_def\<close>)+
  have "normalizeWalletSecretsPayload env v = Inr v"
    unfolding v(1)
  proof (rule normalize_fixed[OF ok])
    show "rec_get rest ''lightningNwcConnections'' = Some (coalesceNullishArrayField (rec_get (spread raw) ''lightningNwcConnections''))"
      by (simp add: rest normal_rest_gets)
    show "list_all (isStoredArkadeAccount env) accounts" using accounts by (rule normal_accounts_valid)
    show "list_all (\<lambda>(n, i). n \<in> set ARKADE_SUPPORTED_NETWORK_MODES \<and> is_str (\<lambda>s. js_trim s \<noteq> []) (Some i) \<and>
        Some i \<in> account_ids (VArr accounts)) active"
      using normal_active_valid[of env "spread raw"] active accounts by auto
  qed (use fixed coalesce_not_nullish in auto)
  then show ?thesis using v(2) by (simp add: normal_form_def)
qed

text \<open>C22: Reading a payload and writing it back loses nothing more: what the parser returns, once it has been
  written and read again as the same JSON value, is parsed to itself.\<close>

theorem wallet_payload_reparse:
  assumes "parseWalletPayloadJson jsonParse env s = Inr v" and "jsonParse (jsonStringify v) = Some v"
  shows "parseWalletPayloadJson jsonParse env (jsonStringify v) = Inr v"
  using parsed_normal[OF assms(1)] assms(2) by (rule parse_normal)

theorem wallet_payload_reparse_witness:
  "\<exists>v. parseWalletPayloadJson (sample_json (Some v)) sample_secrets_env ''p'' = Inr v \<and>
     parseWalletPayloadJson (sample_json (Some v)) sample_secrets_env ''q'' = Inr v"
proof -
  obtain v where v: "parseWalletPayloadJson (sample_json None) sample_secrets_env ''p'' = Inr v" using sample_accepted by blast
  have p: "parseWalletPayloadJson (sample_json (Some v)) sample_secrets_env ''p'' = Inr v"
    using v by (simp add: parseWalletPayloadJson_def sample_json_def)
  moreover have "sample_json (Some v) ((\<lambda>_. ''q'') v) = Some v" by (simp add: sample_json_def)
  from wallet_payload_reparse[where jsonStringify = "\<lambda>_. ''q''", OF p this] have "parseWalletPayloadJson (sample_json (Some v)) sample_secrets_env ''q'' = Inr v" by simp
  ultimately show ?thesis by blast
qed

text \<open>A payload object is accepted exactly when it has no mnemonic, its descriptor wallets and Lightning
  connections are valid, and the two lists of accounts are lists or missing. A broken row of an
  account never blocks the wallet.\<close>

theorem wallet_payload_accepted_iff:
  assumes "jsonParse s = Some (VObj r)"
  shows "(\<exists>v. parseWalletPayloadJson jsonParse env s = Inr v) \<longleftrightarrow>
    rec_get r ''mnemonic'' = None \<and> is_list (list_all (isDescriptorWalletData env)) (rec_get r ''descriptorWallets'') \<and>
    (nullish (rec_get r ''lightningNwcConnections'') \<or>
      is_list (list_all isStoredNwcLightningConnection) (rec_get r ''lightningNwcConnections'')) \<and>
    (nullish (pick_field r ''arkadeAccounts'' ''arkadeOperatorConnections'') \<or>
      is_list (\<lambda>_. True) (pick_field r ''arkadeAccounts'' ''arkadeOperatorConnections'')) \<and>
    (nullish (rec_get r ''barkAccounts'') \<or> is_list (\<lambda>_. True) (rec_get r ''barkAccounts'') \<or> rec_get r ''barkAccounts'' = Some (VStr []))"
proof -
  have "(\<exists>v. parseWalletPayloadJson jsonParse env s = Inr v) \<longleftrightarrow>
      (\<exists>b. normal_barks env r = Inr b \<and>
        isWalletSecretsPayload env (normal_payload (normal_rest r) (normal_accounts env r) (normal_active env r) b))"
    using assms by (auto simp: parseWalletPayloadJson_def normalize_eq isRecord_def split: sum.splits)
  moreover have "isRecord (normal_active env r)" using normal_active_valid[of env r] by (auto simp: isRecord_def)
  ultimately show ?thesis
    using normal_barks_ok_iff[of env r]
    by (auto simp: payload_normal_iff[OF rest_ok_normal_rest] normal_rest_gets is_list_coalesce normal_accounts_list)
qed

theorem wallet_payload_accepted_iff_witness:
  "\<exists>v. parseWalletPayloadJson (sample_json None) sample_secrets_env ''p'' = Inr v"
proof -
  have "sample_json None ''p'' = Some (VObj sample_secrets)" by (simp add: sample_json_def)
  from wallet_payload_accepted_iff[of "sample_json None" "''p''", OF this, of sample_secrets_env] show ?thesis
    by (simp add: sample_secrets_def pick_field_def nullish_def is_list_def)
qed



text \<open>A Bark row is kept exactly when its core is valid, whatever its other fields hold, and a kept row has
  the record envelope of the stored row, also when that was stored under its former name.\<close>

theorem bark_row_keeps_envelope:
  "(\<exists>row'. sanitizeStoredBarkAccountRow env row = Some row' \<and> isStoredBarkAccount env row' \<and>
      field row' ''recordEnvelope'' = rec_get (migrateLegacyBarkRecordDumpField (spread row)) ''recordEnvelope'') \<longleftrightarrow>
   isRecord row \<and> bark_core_ok env (VObj (migrateLegacyBarkRecordDumpField (spread row)))"
proof
  assume "isRecord row \<and> bark_core_ok env (VObj (migrateLegacyBarkRecordDumpField (spread row)))"
  then obtain row' where row': "sanitizeStoredBarkAccountRow env row = Some row'" using sanitize_bark_iff by blast
  then show "\<exists>row'. sanitizeStoredBarkAccountRow env row = Some row' \<and> isStoredBarkAccount env row' \<and>
      field row' ''recordEnvelope'' = rec_get (migrateLegacyBarkRecordDumpField (spread row)) ''recordEnvelope''"
    by (rule sanitize_bark_cases) (auto simp: row')
qed (use sanitize_bark_iff[of env row] in auto)

text \<open>The message for refused full secrets always blames the mnemonic, which those secrets must contain: it
  is built from the issues of a payload, where a mnemonic is an error.\<close>

theorem secrets_error_blames_mnemonic:
  assumes "jsonParse s = Some (VObj r)" and "isNonEmptyString (rec_get r ''mnemonic'')"
    and "normalizeWalletSecretsPayload env (VObj r) = Inr parsed" and "parseWalletSecretsJson jsonParse env s = Inl e"
  shows "\<exists>t. e = ''Invalid wallet secrets: schema validation failed: mnemonic must not appear in payload-only secrets'' @ t"
proof -
  obtain k a b where "parsed = normal_payload (normal_rest r) k a b"
    using assms(3) by (auto simp: normalize_eq isRecord_def split: sum.splits)
  then have parsed: "field parsed ''mnemonic'' = rec_get r ''mnemonic''" "isRecord parsed"
    using normal_payload_fields(6)[OF rest_ok_normal_rest, of r k a b] by (simp_all add: normal_rest_gets)
  obtain is' where issues: "describeWalletSecretsPayloadValidationIssues env parsed = ''mnemonic must not appear in payload-only secrets'' # is'"
    using assms(2) parsed by (cases "rec_get r ''mnemonic''") (auto simp: describeWalletSecretsPayloadValidationIssues_def isNonEmptyString_def is_str_def)
  have "e = ''Invalid wallet secrets: schema validation failed'' @ issue_detail (describeWalletSecretsPayloadValidationIssues env parsed)"
    using assms parsed by (auto simp: parseWalletSecretsJson_def split: if_splits)
  then show ?thesis unfolding issues by (cases is') (simp_all add: issue_detail_def)
qed

theorem secrets_error_blames_mnemonic_witness:
  "\<exists>t. parseWalletSecretsJson (\<lambda>s. Some (VObj [(''mnemonic'', VStr ''abandon''), (''descriptorWallets'', VNum (Fin 0))])) sample_secrets_env [] =
     Inl (''Invalid wallet secrets: schema validation failed: mnemonic must not appear in payload-only secrets'' @ t)"
proof -
  let ?r = "[(''mnemonic'', VStr ''abandon''), (''descriptorWallets'', VNum (Fin 0))]"
  let ?jp = "\<lambda>s :: string. Some (VObj ?r)"
  obtain parsed where parsed: "normalizeWalletSecretsPayload sample_secrets_env (VObj ?r) = Inr parsed"
    by (simp add: normalize_eq isRecord_def normal_barks_def sanitizeOptionalObjectArray_def coalesceNullishArrayField_def nullish_or_def
        deduplicateBarkAccountsByNetwork_def)
  obtain k a b where shape: "parsed = normal_payload (normal_rest ?r) k a b"
    using parsed by (auto simp: normalize_eq isRecord_def split: sum.splits)
  have words: "isNonEmptyString (rec_get ?r ''mnemonic'')" by (simp add: isNonEmptyString_def is_str_def js_trim_def js_ws_def Let_def)
  have "field parsed ''descriptorWallets'' = Some (VNum (Fin 0))"
    by (simp add: shape normal_payload_fields[OF rest_ok_normal_rest] normal_rest_gets)
  then have "\<not> isWalletSecrets sample_secrets_env parsed" by (simp add: isWalletSecrets_def payload_fields_ok_def is_list_def)
  then obtain e where e: "parseWalletSecretsJson ?jp sample_secrets_env [] = Inl e"
    by (cases "isRecord parsed \<longrightarrow> \<not> isNonEmptyString (field parsed ''mnemonic'')") (simp_all add: parseWalletSecretsJson_def parsed)
  have given: "?jp [] = Some (VObj ?r)" by simp
  show ?thesis using secrets_error_blames_mnemonic[of ?jp "[]", OF given words parsed e] e by auto
qed

end
