(* ===== verification/Payload_Updates.thy ===== *)
theory Payload_Updates
  imports Wallet_Secrets
begin

text \<open>
  Changes of the Bark account of a network (\<open>lib/bark/bark-rail-metadata.ts\<close>). Each is a function from a
  payload of the wallet to a new one or an error; a payload is a value that \<open>isWalletSecretsPayload\<close> accepts. The build settings and
  \<open>Date.parse\<close> come from the environment of the validation, new identifiers and the current time are
  arguments.
\<close>

section \<open>The Bark account of a network\<close>

definition bark_rows :: "jsValue \<Rightarrow> jsValue list" where
  "bark_rows payload = (case list_of (field payload ''barkAccounts'') of Some rows \<Rightarrow> rows | None \<Rightarrow> [])"

definition on_network :: "string \<Rightarrow> jsValue \<Rightarrow> bool" where
  "on_network network row \<longleftrightarrow> field row ''networkMode'' = Some (VStr network)"

definition barkServerUrl :: "secretsEnv \<Rightarrow> string \<Rightarrow> string" where
  "barkServerUrl env network =
     (if network = ''signet'' then BARK_SIGNET_SERVER_URL
      else if network = ''regtest'' then env_barkRegtestServerUrl env
      else BARK_MAINNET_SERVER_URL)"

definition findBarkAccount :: "jsValue \<Rightarrow> string \<Rightarrow> jsValue option" where
  "findBarkAccount payload network = List.find (on_network network) (bark_rows payload)"

definition requireBarkAccount :: "jsValue \<Rightarrow> string \<Rightarrow> string + jsValue" where
  "requireBarkAccount payload network =
     (case findBarkAccount payload network of None \<Rightarrow> Inl ''Bark account is missing'' | Some account \<Rightarrow> Inr account)"

definition with_field :: "string \<Rightarrow> jsValue \<Rightarrow> jsValue \<Rightarrow> jsValue" where
  "with_field k v object = VObj (rec_set k v (spread object))"

definition upsertBarkAccountInPayload :: "jsValue \<Rightarrow> jsValue \<Rightarrow> jsValue" where
  "upsertBarkAccountInPayload payload account =
     (let same = (\<lambda>row. field row ''networkMode'' = field account ''networkMode'')
      in with_field ''barkAccounts''
           (VArr (case find_index same (bark_rows payload) of
                    Some i \<Rightarrow> (bark_rows payload)[i := account]
                  | None \<Rightarrow> bark_rows payload @ [account])) payload)"

definition opt_field :: "jsValue option \<Rightarrow> string \<Rightarrow> jsValue option" where
  "opt_field v k = (case v of Some x \<Rightarrow> field x k | None \<Rightarrow> None)"

text \<open>Setting a field unless the value is null or undefined.\<close>

definition set_present :: "string \<Rightarrow> jsValue option \<Rightarrow> jsValue js_record \<Rightarrow> jsValue js_record" where
  "set_present k v r = (if nullish v then r else rec_set k (the_value v) r)"

definition or_else :: "jsValue option \<Rightarrow> jsValue option \<Rightarrow> jsValue option" where
  "or_else v w = (if nullish v then w else v)"

definition accountWithPreservedFields ::
  "secretsEnv \<Rightarrow> string \<Rightarrow> string \<Rightarrow> jsValue option \<Rightarrow> string \<Rightarrow> js_number option \<Rightarrow> string option \<Rightarrow> jsValue" where
  "accountWithPreservedFields env uuid network existing fingerprint receiveKeyIndex recordEnvelope =
     VObj (set_present ''exitNodeSweepVtxoItems'' (kept_sweep_items (opt_field existing ''exitNodeSweepVtxoItems''))
      (set_present ''emergencyExitMaxFeeRateSatPerVb''
        (map_option (\<lambda>r. VNum (Fin r)) (emergencyExitMaxFeeRateFromUnknown (opt_field existing ''emergencyExitMaxFeeRateSatPerVb'')))
       (set_present ''emergencyExitFeePreset''
         (map_option VStr (emergencyExitFeePresetFromUnknown (opt_field existing ''emergencyExitFeePreset'')))
        (set_present ''proceedAutomatically''
          (if proceedAutomaticallyFromUnknown (opt_field existing ''proceedAutomatically'') then Some (VBool True) else None)
         (set_present ''pendingEmergencyClaim'' (pendingEmergencyClaimFromUnknown (opt_field existing ''pendingEmergencyClaim''))
          (set_present ''recordEnvelope'' (or_else (map_option VStr recordEnvelope) (opt_field existing ''recordEnvelope''))
           (set_present ''receiveKeyIndex'' (or_else (map_option VNum receiveKeyIndex) (opt_field existing ''receiveKeyIndex''))
            (set_present ''lastSuccessfulSyncAt'' (opt_field existing ''lastSuccessfulSyncAt'')
             [(''id'', nullish_or (opt_field existing ''id'') (VStr uuid)), (''networkMode'', VStr network),
              (''serverUrl'', VStr (barkServerUrl env network)), (''fingerprint'', VStr fingerprint)]))))))))"

section \<open>The changes of a Bark account\<close>

definition check_envelope :: "string option \<Rightarrow> string + unit" where
  "check_envelope recordEnvelope =
     (case recordEnvelope of
        None \<Rightarrow> Inr ()
      | Some envelope \<Rightarrow>
          if envelope = [] then Inl ''Bark record envelope is empty'' else assertBarkRecordEnvelopeWithinSizeLimit envelope)"

definition check_index :: "js_number option \<Rightarrow> string + unit" where
  "check_index receiveKeyIndex =
     (if receiveKeyIndex \<noteq> None \<and> \<not> isBarkReceiveKeyIndex (map_option VNum receiveKeyIndex)
      then Inl ''Bark receive key index is invalid'' else Inr ())"

definition check_timestamp :: "secretsEnv \<Rightarrow> string option \<Rightarrow> string + unit" where
  "check_timestamp env syncedAt =
     (case syncedAt of
        Some t \<Rightarrow> if env_dateParses env t then Inr () else Inl ''Bark sync timestamp must be a parseable ISO-8601 string''
      | None \<Rightarrow> Inr ())"

fun and_then :: "string + unit \<Rightarrow> string + 'a \<Rightarrow> string + 'a" where
  "and_then (Inl e) m = Inl e"
| "and_then (Inr u) m = m"

definition fingerprint_text :: "jsValue \<Rightarrow> string" where
  "fingerprint_text account = (case str_of (field account ''fingerprint'') of Some s \<Rightarrow> s | None \<Rightarrow> [])"

definition applyOpenedBarkAccount ::
  "secretsEnv \<Rightarrow> string \<Rightarrow> jsValue \<Rightarrow> string \<Rightarrow> string \<Rightarrow> js_number option \<Rightarrow> string option \<Rightarrow> string + jsValue" where
  "applyOpenedBarkAccount env uuid payload network fingerprint receiveKeyIndex recordEnvelope =
     and_then (check_index receiveKeyIndex) (and_then (check_envelope recordEnvelope)
       (let existing = findBarkAccount payload network
        in if existing \<noteq> None \<and> js_lower (fingerprint_text (the_value existing)) \<noteq> js_lower fingerprint
           then Inl ''Bark fingerprint does not match the stored account''
           else Inr (upsertBarkAccountInPayload payload
             (accountWithPreservedFields env uuid network existing fingerprint receiveKeyIndex recordEnvelope))))"

text \<open>The frame of the other changes: the account must exist, its fields are carried over, one of them is
  changed.\<close>

definition change_account ::
  "secretsEnv \<Rightarrow> jsValue \<Rightarrow> string \<Rightarrow> js_number option \<Rightarrow> string option \<Rightarrow> (jsValue js_record \<Rightarrow> jsValue js_record) \<Rightarrow> string + jsValue" where
  "change_account env payload network receiveKeyIndex recordEnvelope change =
     (case requireBarkAccount payload network of
        Inl e \<Rightarrow> Inl e
      | Inr existing \<Rightarrow>
          Inr (upsertBarkAccountInPayload payload
            (VObj (change (spread (accountWithPreservedFields env [] network (Some existing) (fingerprint_text existing)
              receiveKeyIndex recordEnvelope))))))"

definition applySuccessfulBarkSync :: "secretsEnv \<Rightarrow> jsValue \<Rightarrow> string \<Rightarrow> string \<Rightarrow> string option \<Rightarrow> string + jsValue" where
  "applySuccessfulBarkSync env payload network syncedAt recordEnvelope =
     and_then (check_timestamp env (Some syncedAt)) (and_then (check_envelope recordEnvelope)
       (change_account env payload network None recordEnvelope (rec_set ''lastSuccessfulSyncAt'' (VStr syncedAt))))"

definition applyBarkRecordEnvelope ::
  "secretsEnv \<Rightarrow> jsValue \<Rightarrow> string \<Rightarrow> string \<Rightarrow> js_number option \<Rightarrow> string option \<Rightarrow> string + jsValue" where
  "applyBarkRecordEnvelope env payload network recordEnvelope receiveKeyIndex lastSuccessfulSyncAt =
     and_then (check_envelope (Some recordEnvelope)) (and_then (check_index receiveKeyIndex)
       (and_then (check_timestamp env lastSuccessfulSyncAt)
         (change_account env payload network receiveKeyIndex (Some recordEnvelope)
           (case lastSuccessfulSyncAt of Some t \<Rightarrow> rec_set ''lastSuccessfulSyncAt'' (VStr t) | None \<Rightarrow> id))))"

record pendingClaim =
  pc_txid :: string
  pc_vtxoIds :: "string list"

definition pending_claim_value :: "pendingClaim \<Rightarrow> jsValue" where
  "pending_claim_value pending = VObj [(''txid'', VStr (pc_txid pending)), (''vtxoIds'', VArr (map VStr (pc_vtxoIds pending)))]"

definition applyPendingEmergencyClaim :: "secretsEnv \<Rightarrow> jsValue \<Rightarrow> string \<Rightarrow> pendingClaim option \<Rightarrow> string + jsValue" where
  "applyPendingEmergencyClaim env payload network pending =
     (if pending \<noteq> None \<and> pendingEmergencyClaimFromUnknown (map_option pending_claim_value pending) = None
      then Inl ''Bark pending emergency claim is invalid''
      else change_account env payload network None None
        (set_or_delete ''pendingEmergencyClaim'' (map_option pending_claim_value pending)))"

definition applyProceedAutomatically :: "secretsEnv \<Rightarrow> jsValue \<Rightarrow> string \<Rightarrow> bool \<Rightarrow> string + jsValue" where
  "applyProceedAutomatically env payload network enabled =
     change_account env payload network None None
       (set_or_delete ''proceedAutomatically'' (if enabled then Some (VBool True) else None))"

definition applyEmergencyExitFeePreset :: "secretsEnv \<Rightarrow> jsValue \<Rightarrow> string \<Rightarrow> string \<Rightarrow> string + jsValue" where
  "applyEmergencyExitFeePreset env payload network feePreset =
     (case emergencyExitFeePresetFromUnknown (Some (VStr feePreset)) of
        None \<Rightarrow> Inl ''Emergency exit fee preset must be Low, Medium, or High''
      | Some preset \<Rightarrow> change_account env payload network None None (rec_set ''emergencyExitFeePreset'' (VStr preset)))"

definition applyEmergencyExitMaxFeeRate :: "secretsEnv \<Rightarrow> jsValue \<Rightarrow> string \<Rightarrow> js_number \<Rightarrow> string + jsValue" where
  "applyEmergencyExitMaxFeeRate env payload network maxFeeRateSatPerVb =
     (case emergencyExitMaxFeeRateFromUnknown (Some (VNum maxFeeRateSatPerVb)) of
        None \<Rightarrow> Inl ''Max fee rate must be a positive number of sat/vB''
      | Some rate \<Rightarrow> change_account env payload network None None (rec_set ''emergencyExitMaxFeeRateSatPerVb'' (VNum (Fin rate))))"

definition stored_sweep_items :: "jsValue option \<Rightarrow> sweepItem list" where
  "stored_sweep_items v = (case exitNodeSweepVtxoItemsFromUnknown v of Some items \<Rightarrow> items | None \<Rightarrow> [])"

definition applyMergedExitChainNotice :: "secretsEnv \<Rightarrow> jsValue \<Rightarrow> string \<Rightarrow> sweepItem list \<Rightarrow> string + jsValue" where
  "applyMergedExitChainNotice env payload network items =
     (if items = [] then Inr payload
      else case requireBarkAccount payload network of
        Inl e \<Rightarrow> Inl e
      | Inr existing \<Rightarrow>
          (let merged = mergeExitNodeSweepVtxoItems (stored_sweep_items (field existing ''exitNodeSweepVtxoItems'')) items
           in if merged = [] then Inr payload
              else change_account env payload network None None (rec_set ''exitNodeSweepVtxoItems'' (sweep_items_value merged))))"

definition applyClearedExitChainNotice :: "secretsEnv \<Rightarrow> jsValue \<Rightarrow> string \<Rightarrow> sweepKind \<Rightarrow> string + jsValue" where
  "applyClearedExitChainNotice env payload network kind =
     (case requireBarkAccount payload network of
        Inl e \<Rightarrow> Inl e
      | Inr existing \<Rightarrow>
          (let remaining = exitNodeSweepVtxoItemsWithoutKind (stored_sweep_items (field existing ''exitNodeSweepVtxoItems'')) kind
           in change_account env payload network None None
                (set_or_delete ''exitNodeSweepVtxoItems'' (if remaining = [] then None else Some (sweep_items_value remaining)))))"

definition recordEnvelopeForOpen :: "jsValue \<Rightarrow> string \<Rightarrow> string + string" where
  "recordEnvelopeForOpen payload network =
     (case str_of (opt_field (findBarkAccount payload network) ''recordEnvelope'') of
        None \<Rightarrow> Inr []
      | Some envelope \<Rightarrow>
          if envelope = [] then Inr [] else and_then (assertBarkRecordEnvelopeWithinSizeLimit envelope) (Inr envelope))"

text \<open>The changes as data.\<close>

datatype barkUpdate =
  OpenedAccount string "js_number option" "string option"
  | SuccessfulSync string "string option"
  | RecordEnvelope string "js_number option" "string option"
  | PendingClaim "pendingClaim option"
  | ProceedAutomatically bool
  | FeePreset string
  | MaxFeeRate js_number
  | MergedNotice "sweepItem list"
  | ClearedNotice sweepKind

fun apply_bark_update :: "secretsEnv \<Rightarrow> string \<Rightarrow> string \<Rightarrow> barkUpdate \<Rightarrow> jsValue \<Rightarrow> string + jsValue" where
  "apply_bark_update env uuid network (OpenedAccount fp idx envelope) payload =
     applyOpenedBarkAccount env uuid payload network fp idx envelope"
| "apply_bark_update env uuid network (SuccessfulSync t envelope) payload = applySuccessfulBarkSync env payload network t envelope"
| "apply_bark_update env uuid network (RecordEnvelope envelope idx t) payload = applyBarkRecordEnvelope env payload network envelope idx t"
| "apply_bark_update env uuid network (PendingClaim p) payload = applyPendingEmergencyClaim env payload network p"
| "apply_bark_update env uuid network (ProceedAutomatically b) payload = applyProceedAutomatically env payload network b"
| "apply_bark_update env uuid network (FeePreset p) payload = applyEmergencyExitFeePreset env payload network p"
| "apply_bark_update env uuid network (MaxFeeRate r) payload = applyEmergencyExitMaxFeeRate env payload network r"
| "apply_bark_update env uuid network (MergedNotice items) payload = applyMergedExitChainNotice env payload network items"
| "apply_bark_update env uuid network (ClearedNotice kind) payload = applyClearedExitChainNotice env payload network kind"

section \<open>The account list\<close>

definition upsert_row :: "jsValue \<Rightarrow> jsValue list \<Rightarrow> jsValue list" where
  "upsert_row account rows =
     (case find_index (\<lambda>row. field row ''networkMode'' = field account ''networkMode'') rows of
        Some i \<Rightarrow> rows[i := account] | None \<Rightarrow> rows @ [account])"

lemma upsert_row_simps [simp]:
  "upsert_row account [] = [account]"
  "upsert_row account (row # rows) =
     (if field row ''networkMode'' = field account ''networkMode'' then account # rows else row # upsert_row account rows)"
  by (simp_all add: upsert_row_def split: option.split)

lemma find_upsert_row:
  assumes "field account ''networkMode'' = Some (VStr n)"
  shows "List.find (on_network m) (upsert_row account rows) = (if m = n then Some account else List.find (on_network m) rows)"
  using assms by (induction rows) (auto simp: on_network_def)

lemma networks_upsert_row:
  "set (bark_networks (upsert_row account rows)) = insert (field account ''networkMode'') (set (bark_networks rows))"
  by (induction rows) (auto simp: bark_networks_def)

lemma distinct_upsert_row: "distinct (bark_networks rows) \<Longrightarrow> distinct (bark_networks (upsert_row account rows))"
proof (induction rows)
  case (Cons row rows)
  then show ?case using networks_upsert_row[of account rows] by (auto simp: bark_networks_def)
qed (simp add: bark_networks_def)

lemma all_upsert_row: "list_all p rows \<Longrightarrow> p account \<Longrightarrow> list_all p (upsert_row account rows)"
  by (induction rows) auto

lemma upsert_payload: "upsertBarkAccountInPayload payload account = with_field ''barkAccounts'' (VArr (upsert_row account (bark_rows payload))) payload"
  by (simp add: upsertBarkAccountInPayload_def upsert_row_def)

lemma field_with_field: "payload = VObj r \<Longrightarrow> field (with_field k v payload) j = (if j = k then Some v else field payload j)"
  by (simp add: with_field_def)

lemma bark_rows_upsert: "payload = VObj r \<Longrightarrow> bark_rows (upsertBarkAccountInPayload payload account) = upsert_row account (bark_rows payload)"
  by (simp add: upsert_payload bark_rows_def field_with_field)

text \<open>A payload is an object, and its Bark rows are valid with different networks.\<close>

lemma payload_object: "isWalletSecretsPayload env payload \<Longrightarrow> \<exists>r. payload = VObj r"
  by (cases payload) (auto simp: isWalletSecretsPayload_def payload_fields_ok_def isRecord_def is_list_def)

lemma payload_bark_rows:
  assumes "isWalletSecretsPayload env payload"
  shows "list_all (isStoredBarkAccount env) (bark_rows payload)" "distinct (bark_networks (bark_rows payload))"
  using assms by (auto simp: isWalletSecretsPayload_def payload_fields_ok_def bark_rows_def is_list_def split: option.splits)

lemma upsert_valid:
  assumes "isWalletSecretsPayload env payload" and "isStoredBarkAccount env account"
  shows "isWalletSecretsPayload env (upsertBarkAccountInPayload payload account)"
proof -
  obtain r where r: "payload = VObj r" using payload_object[OF assms(1)] by blast
  have "isRecord (upsertBarkAccountInPayload payload account)" by (simp add: upsert_payload with_field_def isRecord_def)
  moreover have "is_list (\<lambda>rows. list_all (isStoredBarkAccount env) rows \<and> distinct (bark_networks rows))
      (field (upsertBarkAccountInPayload payload account) ''barkAccounts'')"
    using payload_bark_rows[OF assms(1)] assms(2)
    by (simp add: upsert_payload field_with_field[OF r] is_list_def all_upsert_row distinct_upsert_row)
  ultimately show ?thesis
    using assms(1) by (simp add: isWalletSecretsPayload_def payload_fields_ok_def upsert_payload field_with_field[OF r])
qed

lemma find_stored:
  assumes "isWalletSecretsPayload env payload" and "findBarkAccount payload network = Some account"
  shows "isStoredBarkAccount env account" "field account ''networkMode'' = Some (VStr network)"
  using payload_bark_rows(1)[OF assms(1)] assms(2)
  by (auto simp: findBarkAccount_def list_all_iff on_network_def dest!: find_Some_iff_mem)

section \<open>The fields that are carried over\<close>

definition present :: "jsValue option \<Rightarrow> jsValue option" where
  "present v = (if nullish v then None else v)"

lemma present_simps [simp]: "present None = None" "present (Some v) = (if v = VNull then None else Some v)"
  by (auto simp: present_def nullish_def)

lemma rec_get_set_present [simp]:
  "rec_get (set_present k v r) j = (if j = k then (if nullish v then rec_get r j else v) else rec_get r j)"
  by (auto simp: set_present_def the_value_def nullish_def split: option.split)

lemma preserved_fields:
  fixes existing :: "jsValue option" and idx envelope env uuid network fp
  defines "account \<equiv> accountWithPreservedFields env uuid network existing fp idx envelope"
  shows "field account ''id'' = Some (nullish_or (opt_field existing ''id'') (VStr uuid))"
    and "field account ''networkMode'' = Some (VStr network)" and "field account ''serverUrl'' = Some (VStr (barkServerUrl env network))"
    and "field account ''fingerprint'' = Some (VStr fp)"
    and "field account ''lastSuccessfulSyncAt'' = present (opt_field existing ''lastSuccessfulSyncAt'')"
    and "field account ''receiveKeyIndex'' = present (or_else (map_option VNum idx) (opt_field existing ''receiveKeyIndex''))"
    and "field account ''recordEnvelope'' = present (or_else (map_option VStr envelope) (opt_field existing ''recordEnvelope''))"
    and "field account ''pendingEmergencyClaim'' = present (pendingEmergencyClaimFromUnknown (opt_field existing ''pendingEmergencyClaim''))"
    and "field account ''proceedAutomatically'' =
      (if proceedAutomaticallyFromUnknown (opt_field existing ''proceedAutomatically'') then Some (VBool True) else None)"
    and "field account ''emergencyExitFeePreset'' = map_option VStr (emergencyExitFeePresetFromUnknown (opt_field existing ''emergencyExitFeePreset''))"
    and "field account ''emergencyExitMaxFeeRateSatPerVb'' =
      map_option (\<lambda>r. VNum (Fin r)) (emergencyExitMaxFeeRateFromUnknown (opt_field existing ''emergencyExitMaxFeeRateSatPerVb''))"
    and "field account ''exitNodeSweepVtxoItems'' = kept_sweep_items (opt_field existing ''exitNodeSweepVtxoItems'')"
proof -
  have sweep: "kept_sweep_items v \<noteq> Some VNull" for v
    by (auto simp: kept_sweep_items_def sweep_items_value_def split: option.splits if_splits)
  have maps: "map_option VStr v \<noteq> Some VNull" "map_option (\<lambda>r. VNum (Fin r)) q \<noteq> Some VNull" for v q by auto
  note get = account_def accountWithPreservedFields_def
  show "field account ''id'' = Some (nullish_or (opt_field existing ''id'') (VStr uuid))"
    and "field account ''networkMode'' = Some (VStr network)" and "field account ''serverUrl'' = Some (VStr (barkServerUrl env network))"
    and "field account ''fingerprint'' = Some (VStr fp)"
    and "field account ''lastSuccessfulSyncAt'' = present (opt_field existing ''lastSuccessfulSyncAt'')"
    and "field account ''receiveKeyIndex'' = present (or_else (map_option VNum idx) (opt_field existing ''receiveKeyIndex''))"
    and "field account ''recordEnvelope'' = present (or_else (map_option VStr envelope) (opt_field existing ''recordEnvelope''))"
    and "field account ''pendingEmergencyClaim'' = present (pendingEmergencyClaimFromUnknown (opt_field existing ''pendingEmergencyClaim''))"
    by (simp_all add: get present_def)
  show "field account ''proceedAutomatically'' =
      (if proceedAutomaticallyFromUnknown (opt_field existing ''proceedAutomatically'') then Some (VBool True) else None)"
    by (simp add: get nullish_def)
  show "field account ''emergencyExitFeePreset'' = map_option VStr (emergencyExitFeePresetFromUnknown (opt_field existing ''emergencyExitFeePreset''))"
    "field account ''emergencyExitMaxFeeRateSatPerVb'' =
      map_option (\<lambda>r. VNum (Fin r)) (emergencyExitMaxFeeRateFromUnknown (opt_field existing ''emergencyExitMaxFeeRateSatPerVb''))"
    "field account ''exitNodeSweepVtxoItems'' = kept_sweep_items (opt_field existing ''exitNodeSweepVtxoItems'')"
    using maps sweep by (auto simp: get nullish_def)
qed

lemma preserved_no_dump: "field (accountWithPreservedFields env uuid network existing fp idx envelope) ''recordDump'' = None"
  by (simp add: accountWithPreservedFields_def)

text \<open>Which networks the build allows, and the identity of an account.\<close>

definition network_allowed :: "secretsEnv \<Rightarrow> string \<Rightarrow> bool" where
  "network_allowed env network \<longleftrightarrow>
     network \<in> set (if env_barkRegtest env then [''signet'', ''mainnet'', ''regtest''] else [''signet'', ''mainnet''])"

lemma server_url_of_allowed: "network_allowed env network \<Longrightarrow> map_of (BARK_RAIL_SERVER_URL env) network = Some (barkServerUrl env network)"
  by (auto simp: network_allowed_def barkServerUrl_def BARK_RAIL_SERVER_URL_def split: if_splits)

lemma stored_network_allowed:
  "isStoredBarkAccount env account \<Longrightarrow> field account ''networkMode'' = Some (VStr n) \<Longrightarrow> network_allowed env n"
  by (simp add: isStoredBarkAccount_def bark_core_ok_def network_allowed_def is_str_def)

text \<open>A stored account has no null among its fields.\<close>

lemma stored_present:
  assumes "isStoredBarkAccount env account"
  shows "present (field account ''lastSuccessfulSyncAt'') = field account ''lastSuccessfulSyncAt''"
    and "present (field account ''receiveKeyIndex'') = field account ''receiveKeyIndex''"
    and "present (field account ''recordEnvelope'') = field account ''recordEnvelope''"
proof -
  have "present v = v" if "optional p v" "\<not> p (Some VNull)" for p v
    using that by (cases v) auto
  then show "present (field account ''lastSuccessfulSyncAt'') = field account ''lastSuccessfulSyncAt''"
    and "present (field account ''receiveKeyIndex'') = field account ''receiveKeyIndex''"
    and "present (field account ''recordEnvelope'') = field account ''recordEnvelope''"
    using assms by (auto simp: isStoredBarkAccount_def bark_core_ok_def isIso8601Timestamp_def isBarkReceiveKeyIndex_def is_str_def is_num_def)
qed

lemma present_or_else: "present (or_else v w) = (if nullish v then present w else v)"
  by (auto simp: or_else_def present_def)

lemma nullish_map_option [simp]: "nullish (map_option VNum i) \<longleftrightarrow> i = None" "nullish (map_option VStr s) \<longleftrightarrow> s = None"
  by (auto simp: nullish_def)

definition existing_ok :: "secretsEnv \<Rightarrow> jsValue option \<Rightarrow> bool" where
  "existing_ok env existing \<longleftrightarrow> (case existing of Some account \<Rightarrow> isStoredBarkAccount env account | None \<Rightarrow> True)"

lemma existing_fields_ok:
  assumes "existing_ok env existing"
  shows "optional (isIso8601Timestamp env) (present (opt_field existing ''lastSuccessfulSyncAt''))"
    and "optional isBarkReceiveKeyIndex (present (opt_field existing ''receiveKeyIndex''))"
    and "optional (is_str (\<lambda>_. True)) (present (opt_field existing ''recordEnvelope''))"
  using assms stored_present[of env "the existing"]
  by (auto simp: existing_ok_def opt_field_def isStoredBarkAccount_def bark_core_ok_def split: option.splits)

lemma account_stored:
  assumes "network_allowed env network" and "isBarkFingerprint (Some (VStr fp))" and "existing_ok env existing"
    and "existing = None \<Longrightarrow> js_trim uuid \<noteq> []" and "check_index idx = Inr ()"
  shows "isStoredBarkAccount env (accountWithPreservedFields env uuid network existing fp idx envelope)" (is "isStoredBarkAccount env ?a")
proof -
  have keep: "optional p x" if "\<And>c. x = Some c \<Longrightarrow> p (Some c)" for p x using that by (cases x) auto
  have "isNonEmptyString (field ?a ''id'')"
    using assms(3,4) by (cases existing)
      (auto simp: preserved_fields opt_field_def nullish_or_def existing_ok_def isStoredBarkAccount_def bark_core_ok_def isNonEmptyString_def
        is_str_def split: option.splits jsValue.splits)
  moreover have "isRecord ?a" by (simp add: accountWithPreservedFields_def isRecord_def)
  moreover have "optional isBarkReceiveKeyIndex (field ?a ''receiveKeyIndex'')"
    using assms(5) existing_fields_ok(2)[OF assms(3)] by (auto simp: preserved_fields present_or_else check_index_def split: if_splits)
  moreover have "optional (is_str (\<lambda>_. True)) (field ?a ''recordEnvelope'')"
    using existing_fields_ok(3)[OF assms(3)] by (auto simp: preserved_fields present_or_else is_str_def)
  moreover have "is_str (\<lambda>n. n \<in> set (if env_barkRegtest env then [''signet'', ''mainnet'', ''regtest''] else [''signet'', ''mainnet'']) \<and>
      field ?a ''serverUrl'' = map_option VStr (map_of (BARK_RAIL_SERVER_URL env) n)) (field ?a ''networkMode'')"
    using assms(1) server_url_of_allowed[OF assms(1)] by (simp add: preserved_fields is_str_def network_allowed_def split del: if_split)
  ultimately have "bark_core_ok env ?a"
    using assms(2) existing_fields_ok(1)[OF assms(3)] by (simp add: bark_core_ok_def preserved_fields split del: if_split)
  moreover have "optional isPendingEmergencyClaim (field ?a ''pendingEmergencyClaim'')"
    "optional is_bool (field ?a ''proceedAutomatically'')"
    "optional (\<lambda>v. emergencyExitFeePresetFromUnknown v \<noteq> None) (field ?a ''emergencyExitFeePreset'')"
    "optional (\<lambda>v. emergencyExitMaxFeeRateFromUnknown v \<noteq> None) (field ?a ''emergencyExitMaxFeeRateSatPerVb'')"
    "optional (\<lambda>v. exitNodeSweepVtxoItemsFromUnknown v \<noteq> None) (field ?a ''exitNodeSweepVtxoItems'')"
    unfolding preserved_fields present_def
    by (auto intro!: keep dest: pending_claim_from_unknown_ok fee_preset_from_unknown_ok max_fee_rate_from_unknown_ok kept_sweep_items_ok
        split: if_splits)
  ultimately show ?thesis by (simp add: isStoredBarkAccount_def)
qed

section \<open>The settings of an account\<close>

text \<open>What the fields of an account mean; the items of a sweep count as a set.\<close>

record barkSettings =
  bs_fingerprint :: string
  bs_lastSync :: "string option"
  bs_receiveKeyIndex :: "js_number option"
  bs_envelope :: "string option"
  bs_pending :: "pendingClaim option"
  bs_automatic :: bool
  bs_preset :: "string option"
  bs_maxRate :: "rat option"
  bs_sweeps :: "sweepItem set"

definition pending_of :: "jsValue option \<Rightarrow> pendingClaim option" where
  "pending_of v =
     (if isPendingEmergencyClaim v
      then Some \<lparr>pc_txid = the (str_of (field (the_value v) ''txid'')),
                 pc_vtxoIds = List.map_filter (\<lambda>x. str_of (Some x)) (the (list_of (field (the_value v) ''vtxoIds'')))\<rparr>
      else None)"

definition bark_settings :: "jsValue \<Rightarrow> barkSettings" where
  "bark_settings account =
     \<lparr>bs_fingerprint = fingerprint_text account, bs_lastSync = str_of (field account ''lastSuccessfulSyncAt''),
      bs_receiveKeyIndex = num_of (field account ''receiveKeyIndex''), bs_envelope = str_of (field account ''recordEnvelope''),
      bs_pending = pending_of (field account ''pendingEmergencyClaim''),
      bs_automatic = proceedAutomaticallyFromUnknown (field account ''proceedAutomatically''),
      bs_preset = emergencyExitFeePresetFromUnknown (field account ''emergencyExitFeePreset''),
      bs_maxRate = emergencyExitMaxFeeRateFromUnknown (field account ''emergencyExitMaxFeeRateSatPerVb''),
      bs_sweeps = set (stored_sweep_items (field account ''exitNodeSweepVtxoItems''))\<rparr>"

definition fresh_settings :: "string \<Rightarrow> barkSettings" where
  "fresh_settings fp =
     \<lparr>bs_fingerprint = fp, bs_lastSync = None, bs_receiveKeyIndex = None, bs_envelope = None, bs_pending = None, bs_automatic = False,
      bs_preset = None, bs_maxRate = None, bs_sweeps = {}\<rparr>"

definition override :: "'a option \<Rightarrow> 'a option \<Rightarrow> 'a option" where
  "override new old = (case new of Some x \<Rightarrow> Some x | None \<Rightarrow> old)"

text \<open>The specification: a change sets its own fields and no other.\<close>

fun settings_update :: "barkUpdate \<Rightarrow> barkSettings option \<Rightarrow> barkSettings option" where
  "settings_update (OpenedAccount fp idx envelope) old =
     (let s = (case old of Some s \<Rightarrow> s | None \<Rightarrow> fresh_settings fp)
      in Some (s\<lparr>bs_fingerprint := fp, bs_receiveKeyIndex := override idx (bs_receiveKeyIndex s),
                 bs_envelope := override envelope (bs_envelope s)\<rparr>))"
| "settings_update (SuccessfulSync t envelope) old =
     map_option (\<lambda>s. s\<lparr>bs_lastSync := Some t, bs_envelope := override envelope (bs_envelope s)\<rparr>) old"
| "settings_update (RecordEnvelope envelope idx t) old =
     map_option (\<lambda>s. s\<lparr>bs_envelope := Some envelope, bs_receiveKeyIndex := override idx (bs_receiveKeyIndex s),
       bs_lastSync := override t (bs_lastSync s)\<rparr>) old"
| "settings_update (PendingClaim p) old = map_option (\<lambda>s. s\<lparr>bs_pending := p\<rparr>) old"
| "settings_update (ProceedAutomatically b) old = map_option (\<lambda>s. s\<lparr>bs_automatic := b\<rparr>) old"
| "settings_update (FeePreset p) old = map_option (\<lambda>s. s\<lparr>bs_preset := Some p\<rparr>) old"
| "settings_update (MaxFeeRate r) old = map_option (\<lambda>s. s\<lparr>bs_maxRate := (case r of Fin x \<Rightarrow> Some x | _ \<Rightarrow> None)\<rparr>) old"
| "settings_update (MergedNotice items) old =
     map_option (\<lambda>s. s\<lparr>bs_sweeps := bs_sweeps s \<union> {i \<in> set items. sw_vtxoId i \<noteq> []}\<rparr>) old"
| "settings_update (ClearedNotice kind) old = map_option (\<lambda>s. s\<lparr>bs_sweeps := {i \<in> bs_sweeps s. sw_nodeKind i \<noteq> kind}\<rparr>) old"

lemma str_of_present [simp]: "str_of (present v) = str_of v" and num_of_present [simp]: "num_of (present v) = num_of v"
  by (cases v; simp)+

lemma str_of_or_else: "str_of (or_else (map_option VStr s) v) = override s (str_of v)"
  and num_of_or_else: "num_of (or_else (map_option VNum i) v) = override i (num_of v)"
  by (cases s; simp add: or_else_def override_def nullish_def) (cases i; simp add: or_else_def override_def nullish_def)

lemma pending_of_from_unknown: "pending_of (present (pendingEmergencyClaimFromUnknown v)) = pending_of v"
proof (cases "isPendingEmergencyClaim v")
  case True
  then obtain w where w: "v = Some w" by (cases v) (auto simp: isPendingEmergencyClaim_def)
  let ?c = "VObj [(''txid'', the_value (field w ''txid'')), (''vtxoIds'', the_value (field w ''vtxoIds''))]"
  have c: "pendingEmergencyClaimFromUnknown v = Some ?c" using True w by (simp add: pendingEmergencyClaimFromUnknown_def the_value_def)
  have "str_of (Some (the_value x)) = str_of x" "list_of (Some (the_value x)) = list_of x" for x
    by (cases x; simp add: the_value_def)+
  then show ?thesis using c pending_claim_from_unknown_ok[OF c] True w by (simp add: pending_of_def the_value_def)
next
  case False
  then show ?thesis by (simp add: pendingEmergencyClaimFromUnknown_def pending_of_def) (simp add: isPendingEmergencyClaim_def)
qed

lemma pending_of_value:
  assumes "isPendingEmergencyClaim (Some (pending_claim_value p))"
  shows "pending_of (Some (pending_claim_value p)) = Some p"
proof -
  have "List.map_filter (\<lambda>x. str_of (Some x)) (map VStr xs) = xs" for xs by (induction xs) (simp_all add: List.map_filter_simps)
  then show ?thesis using assms by (simp add: pending_of_def the_value_def pending_claim_value_def)
qed

lemma stored_sweep_items_value:
  "list_all (\<lambda>i. sw_vtxoId i \<noteq> []) items \<Longrightarrow> set (stored_sweep_items (Some (sweep_items_value items))) = set items"
  by (auto simp: stored_sweep_items_def exitNodeSweepVtxoItemsFromUnknown_def sweep_items_value_def sweep_entries_roundtrip list_all_iff)

lemma stored_sweep_items_ids: "list_all (\<lambda>i. sw_vtxoId i \<noteq> []) (stored_sweep_items v)"
  by (cases "list_of v"; cases "sweep_entries (the (list_of v))")
     (auto simp: stored_sweep_items_def exitNodeSweepVtxoItemsFromUnknown_def list_all_iff)

lemma stored_kept_sweep_items: "set (stored_sweep_items (kept_sweep_items v)) = set (stored_sweep_items v)"
proof (cases "exitNodeSweepVtxoItemsFromUnknown v")
  case None
  then show ?thesis by (simp add: kept_sweep_items_def stored_sweep_items_def) (simp add: exitNodeSweepVtxoItemsFromUnknown_def)
next
  case (Some items)
  then have "stored_sweep_items v = items" by (simp add: stored_sweep_items_def)
  then show ?thesis
    using Some stored_sweep_items_ids[of v] stored_sweep_items_value[of items]
    by (cases "items = []") (simp_all add: kept_sweep_items_def stored_sweep_items_def exitNodeSweepVtxoItemsFromUnknown_def)
qed

lemma from_unknown_idem:
  "emergencyExitFeePresetFromUnknown (map_option VStr (emergencyExitFeePresetFromUnknown v)) = emergencyExitFeePresetFromUnknown v"
  "emergencyExitMaxFeeRateFromUnknown (map_option (\<lambda>r. VNum (Fin r)) (emergencyExitMaxFeeRateFromUnknown v)) = emergencyExitMaxFeeRateFromUnknown v"
  "proceedAutomaticallyFromUnknown (if proceedAutomaticallyFromUnknown v then Some (VBool True) else None) = proceedAutomaticallyFromUnknown v"
proof -
  show "emergencyExitFeePresetFromUnknown (map_option VStr (emergencyExitFeePresetFromUnknown v)) = emergencyExitFeePresetFromUnknown v"
    using fee_preset_from_unknown_ok[of v] by (cases "emergencyExitFeePresetFromUnknown v") (auto simp: emergencyExitFeePresetFromUnknown_def)
  show "emergencyExitMaxFeeRateFromUnknown (map_option (\<lambda>r. VNum (Fin r)) (emergencyExitMaxFeeRateFromUnknown v)) = emergencyExitMaxFeeRateFromUnknown v"
    using max_fee_rate_from_unknown_ok[of v] by (cases "emergencyExitMaxFeeRateFromUnknown v") (auto simp: emergencyExitMaxFeeRateFromUnknown_def)
qed (simp add: proceedAutomaticallyFromUnknown_def)

lemma settings_preserved:
  "bark_settings (accountWithPreservedFields env uuid network existing fp idx envelope) =
     (let s = (case existing of Some a \<Rightarrow> bark_settings a | None \<Rightarrow> fresh_settings fp)
      in s\<lparr>bs_fingerprint := fp, bs_receiveKeyIndex := override idx (bs_receiveKeyIndex s),
           bs_envelope := override envelope (bs_envelope s)\<rparr>)"
proof -
  note fields = preserved_fields str_of_or_else num_of_or_else pending_of_from_unknown from_unknown_idem stored_kept_sweep_items
  show ?thesis
  proof (cases existing)
    case None
    then show ?thesis
      by (simp add: bark_settings_def fingerprint_text_def fields opt_field_def fresh_settings_def)
         (simp add: pending_of_def isPendingEmergencyClaim_def proceedAutomaticallyFromUnknown_def emergencyExitFeePresetFromUnknown_def
           emergencyExitMaxFeeRateFromUnknown_def stored_sweep_items_def exitNodeSweepVtxoItemsFromUnknown_def)
  next
    case (Some a)
    then show ?thesis by (simp add: bark_settings_def fingerprint_text_def fields opt_field_def)
  qed
qed

section \<open>Every change refines its specification\<close>

text \<open>What a change does to the payload: it replaces the account of the network by a stored one with the
  specified settings, or it leaves the payload as it is when the settings stay the same.\<close>

definition changes_to :: "secretsEnv \<Rightarrow> string \<Rightarrow> jsValue \<Rightarrow> barkSettings option \<Rightarrow> jsValue \<Rightarrow> bool" where
  "changes_to env network payload settings payload' \<longleftrightarrow>
     (\<exists>account. payload' = upsertBarkAccountInPayload payload account \<and> isStoredBarkAccount env account \<and>
        field account ''networkMode'' = Some (VStr network) \<and> field account ''recordDump'' = None \<and>
        settings = Some (bark_settings account)) \<or>
     payload' = payload \<and> settings = map_option bark_settings (findBarkAccount payload network)"

lemma change_account_Inr:
  assumes "change_account env payload network idx envelope change = Inr payload'"
  obtains existing r where "findBarkAccount payload network = Some existing"
    and "accountWithPreservedFields env [] network (Some existing) (fingerprint_text existing) idx envelope = VObj r"
    and "payload' = upsertBarkAccountInPayload payload (VObj (change r))"
proof -
  obtain existing where existing: "findBarkAccount payload network = Some existing"
    using assms by (auto simp: change_account_def requireBarkAccount_def split: option.splits)
  obtain r where r: "accountWithPreservedFields env [] network (Some existing) (fingerprint_text existing) idx envelope = VObj r"
    by (simp add: accountWithPreservedFields_def)
  have "payload' = upsertBarkAccountInPayload payload (VObj (change r))"
    using assms existing by (simp add: change_account_def requireBarkAccount_def r)
  with existing r show ?thesis by (rule that)
qed

lemma fingerprint_text_ok: "isStoredBarkAccount env account \<Longrightarrow> isBarkFingerprint (Some (VStr (fingerprint_text account)))"
  by (auto simp: isStoredBarkAccount_def bark_core_ok_def isBarkFingerprint_def is_str_def fingerprint_text_def split: option.splits)

lemma change_account_changes:
  assumes "isWalletSecretsPayload env payload" and "change_account env payload network idx envelope change = Inr payload'"
    and "check_index idx = Inr ()"
    and stored: "\<And>r. isStoredBarkAccount env (VObj r) \<Longrightarrow> isStoredBarkAccount env (VObj (change r))"
    and net: "\<And>r k. k \<in> {''networkMode'', ''recordDump''} \<Longrightarrow> rec_get (change r) k = rec_get r k"
    and settings: "\<And>r s. findBarkAccount payload network = Some s \<Longrightarrow> bark_settings (VObj r) = (bark_settings s)
        \<lparr>bs_receiveKeyIndex := override idx (bs_receiveKeyIndex (bark_settings s)), bs_envelope := override envelope (bs_envelope (bark_settings s))\<rparr> \<Longrightarrow>
      bark_settings (VObj (change r)) = f (bark_settings s)"
  shows "changes_to env network payload (map_option f (map_option bark_settings (findBarkAccount payload network))) payload'"
proof -
  from assms(2) obtain existing r where existing: "findBarkAccount payload network = Some existing"
    and r: "accountWithPreservedFields env [] network (Some existing) (fingerprint_text existing) idx envelope = VObj r"
    and payload': "payload' = upsertBarkAccountInPayload payload (VObj (change r))"
    by (rule change_account_Inr)
  note found = find_stored[OF assms(1) existing]
  have "isStoredBarkAccount env (VObj r)"
    unfolding r[symmetric] using found assms(3)
    by (intro account_stored) (auto simp: stored_network_allowed fingerprint_text_ok existing_ok_def)
  moreover have "rec_get r ''networkMode'' = Some (VStr network)"
    using preserved_fields(2)[of env "[]" network "Some existing" "fingerprint_text existing" idx envelope] by (simp add: r)
  moreover have "rec_get r ''recordDump'' = None"
    using preserved_no_dump[of env "[]" network "Some existing" "fingerprint_text existing" idx envelope] by (simp add: r)
  moreover have "bark_settings (VObj r) = (bark_settings existing)
      \<lparr>bs_receiveKeyIndex := override idx (bs_receiveKeyIndex (bark_settings existing)),
       bs_envelope := override envelope (bs_envelope (bark_settings existing))\<rparr>"
    unfolding r[symmetric] settings_preserved by (simp add: bark_settings_def)
  ultimately show ?thesis
    using stored net settings existing payload' unfolding changes_to_def by (intro disjI1 exI[of _ "VObj (change r)"]) simp
qed

lemma and_then_Inr: "and_then m n = Inr x \<longleftrightarrow> m = Inr () \<and> n = Inr x"
  by (cases m) auto

lemma override_simps [simp]: "override None x = x" "override (Some y) x = Some y" by (simp_all add: override_def)

lemma settings_same: "s\<lparr>bs_receiveKeyIndex := bs_receiveKeyIndex s, bs_envelope := bs_envelope s\<rparr> = (s :: barkSettings)" by simp

text \<open>What the update of an opened account needs of its arguments, and the blank text that is no date.\<close>

definition update_ok :: "secretsEnv \<Rightarrow> string \<Rightarrow> barkUpdate \<Rightarrow> bool" where
  "update_ok env uuid u \<longleftrightarrow>
     js_trim uuid \<noteq> [] \<and> (\<forall>t. env_dateParses env t \<longrightarrow> js_trim t \<noteq> []) \<and>
     (case u of OpenedAccount fp idx envelope \<Rightarrow> isBarkFingerprint (Some (VStr fp)) | _ \<Rightarrow> True)"

lemma opened_changes:
  assumes "isWalletSecretsPayload env payload" and "network_allowed env network" and "update_ok env uuid (OpenedAccount fp idx envelope)"
    and "applyOpenedBarkAccount env uuid payload network fp idx envelope = Inr payload'"
  shows "changes_to env network payload
    (settings_update (OpenedAccount fp idx envelope) (map_option bark_settings (findBarkAccount payload network))) payload'"
proof -
  let ?e = "findBarkAccount payload network"
  let ?a = "accountWithPreservedFields env uuid network ?e fp idx envelope"
  have ok: "check_index idx = Inr ()" "payload' = upsertBarkAccountInPayload payload ?a"
    using assms(4) by (auto simp: applyOpenedBarkAccount_def and_then_Inr Let_def split: if_splits)
  have "isStoredBarkAccount env ?a"
    using assms ok find_stored(1)[OF assms(1)]
    by (intro account_stored) (auto simp: update_ok_def existing_ok_def split: option.split)
  moreover have "settings_update (OpenedAccount fp idx envelope) (map_option bark_settings ?e) = Some (bark_settings ?a)"
    by (cases ?e) (simp_all add: settings_preserved Let_def)
  ultimately show ?thesis
    unfolding changes_to_def using ok(2) preserved_fields(2) preserved_no_dump by blast
qed

lemmas stored_defs = isStoredBarkAccount_def bark_core_ok_def isRecord_def

lemma sweep_value_ok: "list_all (\<lambda>i. sw_vtxoId i \<noteq> []) items \<Longrightarrow> exitNodeSweepVtxoItemsFromUnknown (Some (sweep_items_value items)) \<noteq> None"
  by (simp add: exitNodeSweepVtxoItemsFromUnknown_def sweep_items_value_def sweep_entries_roundtrip)

lemma merged_changes:
  assumes "isWalletSecretsPayload env payload" and "applyMergedExitChainNotice env payload network items = Inr payload'"
  shows "changes_to env network payload (settings_update (MergedNotice items) (map_option bark_settings (findBarkAccount payload network))) payload'"
proof (cases "items = []")
  case True
  then show ?thesis using assms(2) by (simp add: applyMergedExitChainNotice_def changes_to_def option.map_comp comp_def)
next
  case False
  then obtain existing where existing: "findBarkAccount payload network = Some existing"
    using assms(2) by (auto simp: applyMergedExitChainNotice_def requireBarkAccount_def split: option.splits)
  let ?old = "stored_sweep_items (field existing ''exitNodeSweepVtxoItems'')"
  let ?merged = "mergeExitNodeSweepVtxoItems ?old items"
  have set: "set ?merged = set ?old \<union> {i \<in> set items. sw_vtxoId i \<noteq> []}"
    using stored_sweep_items_ids[of "field existing ''exitNodeSweepVtxoItems''"] by (auto simp: mergeExitNodeSweepVtxoItems_def list_all_iff)
  show ?thesis
  proof (cases "?merged = []")
    case True
    then have "set ?old \<union> {i \<in> set items. sw_vtxoId i \<noteq> []} = {}" using set by simp
    then have "(bark_settings existing)\<lparr>bs_sweeps := bs_sweeps (bark_settings existing) \<union> {i \<in> set items. sw_vtxoId i \<noteq> []}\<rparr> = bark_settings existing"
      by (simp add: bark_settings_def)
    then show ?thesis
      using assms(2) False True existing by (simp add: applyMergedExitChainNotice_def requireBarkAccount_def changes_to_def)
  next
    case nonempty: False
    have ids: "list_all (\<lambda>i. sw_vtxoId i \<noteq> []) ?merged" by (simp add: mergeExitNodeSweepVtxoItems_def list_all_iff)
    have change: "change_account env payload network None None (rec_set ''exitNodeSweepVtxoItems'' (sweep_items_value ?merged)) = Inr payload'"
      using assms(2) False nonempty existing by (simp add: applyMergedExitChainNotice_def requireBarkAccount_def Let_def)
    show ?thesis
      unfolding settings_update.simps
      by (intro change_account_changes[OF assms(1) change])
         (use existing set stored_sweep_items_value[OF ids] sweep_value_ok[OF ids] in
           \<open>auto simp: check_index_def stored_defs bark_settings_def fingerprint_text_def\<close>)
  qed
qed

lemma cleared_changes:
  assumes "isWalletSecretsPayload env payload" and "applyClearedExitChainNotice env payload network kind = Inr payload'"
  shows "changes_to env network payload (settings_update (ClearedNotice kind) (map_option bark_settings (findBarkAccount payload network))) payload'"
proof -
  obtain existing where existing: "findBarkAccount payload network = Some existing"
    using assms(2) by (auto simp: applyClearedExitChainNotice_def requireBarkAccount_def split: option.splits)
  let ?rest = "exitNodeSweepVtxoItemsWithoutKind (stored_sweep_items (field existing ''exitNodeSweepVtxoItems'')) kind"
  let ?items = "if ?rest = [] then None else Some (sweep_items_value ?rest)"
  have ids: "list_all (\<lambda>i. sw_vtxoId i \<noteq> []) ?rest"
    using stored_sweep_items_ids[of "field existing ''exitNodeSweepVtxoItems''"] by (simp add: exitNodeSweepVtxoItemsWithoutKind_def list_all_iff)
  have "set (stored_sweep_items ?items) = set ?rest"
    using stored_sweep_items_value[OF ids] by (simp add: stored_sweep_items_def exitNodeSweepVtxoItemsFromUnknown_def)
  then have set: "set (stored_sweep_items ?items) = {i \<in> set (stored_sweep_items (field existing ''exitNodeSweepVtxoItems'')). sw_nodeKind i \<noteq> kind}"
    by (auto simp: exitNodeSweepVtxoItemsWithoutKind_def)
  have ok: "optional (\<lambda>v. exitNodeSweepVtxoItemsFromUnknown v \<noteq> None) ?items" using sweep_value_ok[OF ids] by simp
  have change: "change_account env payload network None None (set_or_delete ''exitNodeSweepVtxoItems'' ?items) = Inr payload'"
    using assms(2) existing by (simp add: applyClearedExitChainNotice_def requireBarkAccount_def Let_def)
  show ?thesis
    unfolding settings_update.simps
    by (intro change_account_changes[OF assms(1) change])
       (use existing set ok in \<open>auto simp: check_index_def stored_defs bark_settings_def fingerprint_text_def simp del: optional_simps\<close>)
qed

lemma bark_update_changes:
  assumes "isWalletSecretsPayload env payload" and "network_allowed env network" and "update_ok env uuid u"
    and "apply_bark_update env uuid network u payload = Inr payload'"
  shows "changes_to env network payload (settings_update u (map_option bark_settings (findBarkAccount payload network))) payload'"
proof (cases u)
  case (OpenedAccount fp idx envelope)
  then show ?thesis using opened_changes[OF assms(1,2)] assms(3,4) by simp
next
  case (SuccessfulSync t envelope)
  have t: "isIso8601Timestamp env (Some (VStr t))" "change_account env payload network None envelope (rec_set ''lastSuccessfulSyncAt'' (VStr t)) = Inr payload'"
    using assms(3,4) SuccessfulSync
    by (auto simp: applySuccessfulBarkSync_def and_then_Inr check_timestamp_def isIso8601Timestamp_def is_str_def update_ok_def split: if_splits)
  then show ?thesis
    unfolding SuccessfulSync settings_update.simps
    by (intro change_account_changes[OF assms(1) t(2)])
       (auto simp: check_index_def stored_defs bark_settings_def fingerprint_text_def)
next
  case (RecordEnvelope envelope idx t)
  let ?change = "case t of Some t \<Rightarrow> rec_set ''lastSuccessfulSyncAt'' (VStr t) | None \<Rightarrow> id"
  have t: "t = None \<or> isIso8601Timestamp env (map_option VStr t)" "check_index idx = Inr ()"
    "change_account env payload network idx (Some envelope) ?change = Inr payload'"
    using assms(3,4) RecordEnvelope
    by (auto simp: applyBarkRecordEnvelope_def and_then_Inr check_timestamp_def isIso8601Timestamp_def is_str_def update_ok_def split: if_splits option.splits)
  then show ?thesis
    unfolding RecordEnvelope settings_update.simps
    by (intro change_account_changes[OF assms(1) t(3)])
       (auto simp: stored_defs bark_settings_def fingerprint_text_def split: option.splits)
next
  case (PendingClaim p)
  have p: "p = None \<or> isPendingEmergencyClaim (map_option pending_claim_value p)"
    "change_account env payload network None None (set_or_delete ''pendingEmergencyClaim'' (map_option pending_claim_value p)) = Inr payload'"
    using assms(4) PendingClaim by (auto simp: applyPendingEmergencyClaim_def pendingEmergencyClaimFromUnknown_def split: if_splits)
  have "pending_of (map_option pending_claim_value p) = p"
    using p(1) pending_of_value by (cases p) (auto simp: pending_of_def isPendingEmergencyClaim_def)
  then show ?thesis
    using p(1) unfolding PendingClaim settings_update.simps
    by (intro change_account_changes[OF assms(1) p(2)])
       (auto simp: check_index_def stored_defs bark_settings_def fingerprint_text_def optional_def)
next
  case (ProceedAutomatically b)
  have b: "change_account env payload network None None (set_or_delete ''proceedAutomatically'' (if b then Some (VBool True) else None)) = Inr payload'"
    using assms(4) ProceedAutomatically by (simp add: applyProceedAutomatically_def)
  show ?thesis
    unfolding ProceedAutomatically settings_update.simps
    by (intro change_account_changes[OF assms(1) b]) (auto simp: check_index_def stored_defs bark_settings_def fingerprint_text_def proceedAutomaticallyFromUnknown_def)
next
  case (FeePreset q)
  have q: "emergencyExitFeePresetFromUnknown (Some (VStr q)) = Some q"
    "change_account env payload network None None (rec_set ''emergencyExitFeePreset'' (VStr q)) = Inr payload'"
    using assms(4) FeePreset
    by (auto simp: applyEmergencyExitFeePreset_def emergencyExitFeePresetFromUnknown_def split: if_splits option.splits)
  then show ?thesis
    unfolding FeePreset settings_update.simps
    by (intro change_account_changes[OF assms(1) q(2)]) (auto simp: check_index_def stored_defs bark_settings_def fingerprint_text_def)
next
  case (MaxFeeRate q)
  obtain x where x: "q = Fin x" "emergencyExitMaxFeeRateFromUnknown (Some (VNum (Fin x))) = Some x"
    "change_account env payload network None None (rec_set ''emergencyExitMaxFeeRateSatPerVb'' (VNum (Fin x))) = Inr payload'"
    using assms(4) MaxFeeRate
    by (auto simp: applyEmergencyExitMaxFeeRate_def emergencyExitMaxFeeRateFromUnknown_def split: if_splits option.splits js_number.splits)
  then show ?thesis
    unfolding MaxFeeRate settings_update.simps
    by (intro change_account_changes[OF assms(1) x(3)]) (auto simp: check_index_def stored_defs bark_settings_def fingerprint_text_def)
next
  case (MergedNotice items)
  then show ?thesis using merged_changes[OF assms(1)] assms(4) by simp
next
  case (ClearedNotice kind)
  then show ?thesis using cleared_changes[OF assms(1)] assms(4) by simp
qed

text \<open>When a change is made: its arguments are within their limits and the account exists, except for the
  account of an opened session, whose fingerprint must then agree, and for a notice with no items.\<close>

definition envelope_ok :: "string option \<Rightarrow> bool" where
  "envelope_ok envelope \<longleftrightarrow>
     (case envelope of None \<Rightarrow> True | Some s \<Rightarrow> s \<noteq> [] \<and> utf8_length s \<le> BARK_RECORD_ENVELOPE_MAX_BYTES)"

definition index_ok :: "js_number option \<Rightarrow> bool" where
  "index_ok idx \<longleftrightarrow>
     (case idx of
        None \<Rightarrow> True
      | Some n \<Rightarrow> (case js_integer n of Some i \<Rightarrow> 0 \<le> i \<and> i \<le> MAX_BARK_RECEIVE_KEY_INDEX | None \<Rightarrow> False))"

definition pending_ok :: "pendingClaim option \<Rightarrow> bool" where
  "pending_ok p \<longleftrightarrow>
     (case p of None \<Rightarrow> True | Some c \<Rightarrow> pc_txid c \<noteq> [] \<and> pc_vtxoIds c \<noteq> [] \<and> list_all (\<lambda>s. s \<noteq> []) (pc_vtxoIds c))"

fun update_admissible :: "secretsEnv \<Rightarrow> barkUpdate \<Rightarrow> barkSettings option \<Rightarrow> bool" where
  "update_admissible env (OpenedAccount fp idx envelope) old \<longleftrightarrow>
     index_ok idx \<and> envelope_ok envelope \<and>
     (case old of None \<Rightarrow> True | Some s \<Rightarrow> js_lower (bs_fingerprint s) = js_lower fp)"
| "update_admissible env (SuccessfulSync t envelope) old \<longleftrightarrow> env_dateParses env t \<and> envelope_ok envelope \<and> old \<noteq> None"
| "update_admissible env (RecordEnvelope envelope idx t) old \<longleftrightarrow>
     envelope_ok (Some envelope) \<and> index_ok idx \<and> (case t of None \<Rightarrow> True | Some s \<Rightarrow> env_dateParses env s) \<and> old \<noteq> None"
| "update_admissible env (PendingClaim p) old \<longleftrightarrow> pending_ok p \<and> old \<noteq> None"
| "update_admissible env (ProceedAutomatically b) old \<longleftrightarrow> old \<noteq> None"
| "update_admissible env (FeePreset p) old \<longleftrightarrow> p \<in> set BARK_EMERGENCY_EXIT_FEE_PRESETS \<and> old \<noteq> None"
| "update_admissible env (MaxFeeRate r) old \<longleftrightarrow> (case r of Fin x \<Rightarrow> x > 0 | _ \<Rightarrow> False) \<and> old \<noteq> None"
| "update_admissible env (MergedNotice items) old \<longleftrightarrow> items = [] \<or> old \<noteq> None"
| "update_admissible env (ClearedNotice kind) old \<longleftrightarrow> old \<noteq> None"

lemma checks_ok:
  "(\<exists>u. check_envelope e = Inr u) \<longleftrightarrow> envelope_ok e" "(\<exists>u. check_index i = Inr u) \<longleftrightarrow> index_ok i"
  "(\<exists>u. check_timestamp env t = Inr u) \<longleftrightarrow> (case t of None \<Rightarrow> True | Some s \<Rightarrow> env_dateParses env s)"
  by (auto simp: check_envelope_def assertBarkRecordEnvelopeWithinSizeLimit_def envelope_ok_def check_index_def index_ok_def
      isBarkReceiveKeyIndex_def is_num_def check_timestamp_def split: option.splits)

lemma change_account_accepts: "(\<exists>p. change_account env payload network idx envelope change = Inr p) \<longleftrightarrow> findBarkAccount payload network \<noteq> None"
  by (auto simp: change_account_def requireBarkAccount_def split: option.splits)

lemma pending_ok_iff: "(p \<noteq> None \<and> pendingEmergencyClaimFromUnknown (map_option pending_claim_value p) = None) \<longleftrightarrow> \<not> pending_ok p"
  by (auto simp: pendingEmergencyClaimFromUnknown_def isPendingEmergencyClaim_def pending_claim_value_def pending_ok_def isRecord_def is_str_def
      is_list_def list_all_iff split: option.splits)

lemma bark_update_accepts:
  "(\<exists>payload'. apply_bark_update env uuid network u payload = Inr payload') \<longleftrightarrow>
     update_admissible env u (map_option bark_settings (findBarkAccount payload network))"
proof -
  have unit: "(\<exists>u. x = Inr u) \<longleftrightarrow> x = Inr ()" for x :: "string + unit" by auto
  note ok = checks_ok[unfolded unit, symmetric]
  note defs = applyOpenedBarkAccount_def applySuccessfulBarkSync_def applyBarkRecordEnvelope_def applyPendingEmergencyClaim_def
    applyProceedAutomatically_def applyEmergencyExitFeePreset_def applyEmergencyExitMaxFeeRate_def
  show ?thesis
  proof (cases u)
    case (OpenedAccount fp idx envelope)
    then show ?thesis
      by (cases "findBarkAccount payload network") (auto simp: defs and_then_Inr ok Let_def bark_settings_def the_value_def)
  next
    case (SuccessfulSync t envelope)
    then show ?thesis using ok(3)[of env "Some t"] by (auto simp: defs and_then_Inr ok change_account_accepts)
  next
    case (RecordEnvelope envelope idx t)
    then show ?thesis by (auto simp: defs and_then_Inr ok change_account_accepts)
  next
    case (PendingClaim p)
    have "applyPendingEmergencyClaim env payload network p = (if \<not> pending_ok p then Inl ''Bark pending emergency claim is invalid''
        else change_account env payload network None None (set_or_delete ''pendingEmergencyClaim'' (map_option pending_claim_value p)))"
      by (simp only: defs pending_ok_iff)
    then show ?thesis by (simp add: PendingClaim change_account_accepts)
  next
    case (ProceedAutomatically b)
    then show ?thesis by (simp add: defs change_account_accepts)
  next
    case (FeePreset q)
    then show ?thesis by (auto simp: defs change_account_accepts emergencyExitFeePresetFromUnknown_def)
  next
    case (MaxFeeRate q)
    then show ?thesis by (cases q) (auto simp: defs change_account_accepts emergencyExitMaxFeeRateFromUnknown_def)
  next
    case (MergedNotice items)
    then show ?thesis
      by (cases "findBarkAccount payload network") (auto simp: applyMergedExitChainNotice_def requireBarkAccount_def Let_def change_account_accepts)
  next
    case (ClearedNotice kind)
    then show ?thesis
      by (cases "findBarkAccount payload network") (auto simp: applyClearedExitChainNotice_def requireBarkAccount_def Let_def change_account_accepts)
  qed
qed

lemma changes_to_effect:
  assumes "isWalletSecretsPayload env payload" and "changes_to env network payload settings payload'"
  shows "isWalletSecretsPayload env payload'"
    and "map_option bark_settings (findBarkAccount payload' network) = settings"
    and "m \<noteq> network \<Longrightarrow> findBarkAccount payload' m = findBarkAccount payload m"
    and "k \<noteq> ''barkAccounts'' \<Longrightarrow> field payload' k = field payload k"
proof -
  obtain r where r: "payload = VObj r" using payload_object[OF assms(1)] by blast
  from assms(2) consider (same) "payload' = payload" "settings = map_option bark_settings (findBarkAccount payload network)"
    | (new) account where "payload' = upsertBarkAccountInPayload payload account" "isStoredBarkAccount env account"
        "field account ''networkMode'' = Some (VStr network)" "settings = Some (bark_settings account)"
    unfolding changes_to_def by blast
  then have "isWalletSecretsPayload env payload' \<and> map_option bark_settings (findBarkAccount payload' network) = settings \<and>
      (m \<noteq> network \<longrightarrow> findBarkAccount payload' m = findBarkAccount payload m) \<and> (k \<noteq> ''barkAccounts'' \<longrightarrow> field payload' k = field payload k)"
  proof cases
    case same
    then show ?thesis using assms(1) by simp
  next
    case new
    have "findBarkAccount payload' q = (if q = network then Some account else findBarkAccount payload q)" for q
      using find_upsert_row[OF new(3)] by (simp add: findBarkAccount_def new(1) bark_rows_upsert[OF r])
    then show ?thesis
      using upsert_valid[OF assms(1) new(2)] new(4) by (simp add: new(1)) (simp add: upsert_payload field_with_field[OF r])
  qed
  then show "isWalletSecretsPayload env payload'" "map_option bark_settings (findBarkAccount payload' network) = settings"
    "m \<noteq> network \<Longrightarrow> findBarkAccount payload' m = findBarkAccount payload m"
    "k \<noteq> ''barkAccounts'' \<Longrightarrow> field payload' k = field payload k" by simp_all
qed

text \<open>C6: A change of a Bark account is made exactly when it is admissible. It then sets the fields the
  change names and carries every other setting over, keeps the accounts of the other networks and the
  other fields of the payload, and leaves a payload that passes validation.\<close>

theorem bark_update_refines:
  assumes "isWalletSecretsPayload env payload" and "network_allowed env network" and "update_ok env uuid u"
  shows "if update_admissible env u (map_option bark_settings (findBarkAccount payload network))
         then \<exists>payload'. apply_bark_update env uuid network u payload = Inr payload' \<and> isWalletSecretsPayload env payload' \<and>
           map_option bark_settings (findBarkAccount payload' network) =
             settings_update u (map_option bark_settings (findBarkAccount payload network)) \<and>
           (\<forall>m. m \<noteq> network \<longrightarrow> findBarkAccount payload' m = findBarkAccount payload m) \<and>
           (\<forall>k. k \<noteq> ''barkAccounts'' \<longrightarrow> field payload' k = field payload k)
         else \<exists>e. apply_bark_update env uuid network u payload = Inl e"
proof (cases "apply_bark_update env uuid network u payload")
  case (Inl e)
  then have "\<not> update_admissible env u (map_option bark_settings (findBarkAccount payload network))"
    using bark_update_accepts[of env uuid network u payload] by simp
  then show ?thesis using Inl by simp
next
  case (Inr payload')
  then have "update_admissible env u (map_option bark_settings (findBarkAccount payload network))"
    using bark_update_accepts[of env uuid network u payload] by blast
  then show ?thesis using Inr changes_to_effect[OF assms(1) bark_update_changes[OF assms Inr]] by simp
qed

text \<open>A payload with one Bark account on signet.\<close>

definition sample_env :: secretsEnv where
  "sample_env = \<lparr>env_dateParses = (\<lambda>t. t = ''2026-01-01T00:00:00Z''), env_barkRegtest = False, env_barkRegtestServerUrl = []\<rparr>"

definition sample_bark_account :: jsValue where
  "sample_bark_account =
     VObj [(''id'', VStr ''a1''), (''networkMode'', VStr ''signet''), (''serverUrl'', VStr BARK_SIGNET_SERVER_URL),
       (''fingerprint'', VStr ''0a1b2c3d''), (''recordEnvelope'', VStr ''box''), (''proceedAutomatically'', VBool True)]"

definition sample_payload :: jsValue where
  "sample_payload =
     VObj [(''descriptorWallets'', VArr []), (''lightningNwcConnections'', VArr []), (''arkadeAccounts'', VArr []),
       (''activeArkadeAccountIdByNetwork'', VObj []), (''barkAccounts'', VArr [sample_bark_account])]"

lemmas sample_defs = sample_env_def sample_payload_def sample_bark_account_def

lemma sample_payload_valid: "isWalletSecretsPayload sample_env sample_payload"
  by (simp add: sample_defs isWalletSecretsPayload_def payload_fields_ok_def isRecord_def is_list_def bark_networks_def isStoredBarkAccount_def
      bark_core_ok_def isNonEmptyString_def is_str_def js_trim_def js_ws_def Let_def isBarkFingerprint_def is_hex_char_def is_digit_def
      BARK_RAIL_SERVER_URL_def optional_def the_value_def)

theorem bark_update_refines_witness:
  "\<exists>payload' s. apply_bark_update sample_env ''u'' ''signet'' (FeePreset ''High'') sample_payload = Inr payload' \<and>
     isWalletSecretsPayload sample_env payload' \<and> map_option bark_settings (findBarkAccount payload' ''signet'') = Some s \<and>
     bs_preset s = Some ''High'' \<and> bs_envelope s = Some ''box'' \<and> bs_automatic s"
proof -
  have found: "findBarkAccount sample_payload ''signet'' = Some sample_bark_account"
    by (simp add: findBarkAccount_def bark_rows_def sample_payload_def on_network_def) (simp add: sample_bark_account_def)
  have ok: "update_ok sample_env ''u'' (FeePreset ''High'')" "network_allowed sample_env ''signet''"
    by (auto simp: update_ok_def sample_env_def js_trim_def js_ws_def Let_def network_allowed_def)
  have adm: "update_admissible sample_env (FeePreset ''High'') (map_option bark_settings (findBarkAccount sample_payload ''signet''))"
    by (simp add: found BARK_EMERGENCY_EXIT_FEE_PRESETS_def)
  have fields: "bs_envelope (bark_settings sample_bark_account) = Some ''box''" "bs_automatic (bark_settings sample_bark_account)"
    by (simp_all add: bark_settings_def sample_bark_account_def proceedAutomaticallyFromUnknown_def)
  obtain payload' where "apply_bark_update sample_env ''u'' ''signet'' (FeePreset ''High'') sample_payload = Inr payload'"
    "isWalletSecretsPayload sample_env payload'"
    "map_option bark_settings (findBarkAccount payload' ''signet'') = Some ((bark_settings sample_bark_account)\<lparr>bs_preset := Some ''High''\<rparr>)"
    using bark_update_refines[OF sample_payload_valid ok(2,1)] adm unfolding found by auto
  moreover define s where "s = (bark_settings sample_bark_account)\<lparr>bs_preset := Some ''High''\<rparr>"
  ultimately show ?thesis using fields by (intro exI[of _ payload'] exI[of _ s]) (simp add: s_def)
qed

section \<open>Notices of swept exits\<close>

lemma sorted_wrt_unique:
  assumes "\<And>a b. R a b \<Longrightarrow> R b a \<Longrightarrow> a = b" and "sorted_wrt R xs" "sorted_wrt R ys" "distinct xs" "distinct ys" "set xs = set ys"
  shows "xs = ys"
  using assms(2-)
proof (induction xs arbitrary: ys)
  case (Cons x xs)
  then obtain y ys' where ys: "ys = y # ys'" by (cases ys) auto
  have "x = y"
  proof (rule ccontr)
    assume "x \<noteq> y"
    with Cons.prems(5) ys have "y \<in> set xs" "x \<in> set ys'" by auto
    then have "R x y" "R y x" using Cons.prems(1,2) ys by auto
    with assms(1) \<open>x \<noteq> y\<close> show False by blast
  qed
  moreover from this have "set xs = set ys'" using Cons.prems(3-5) ys by auto
  ultimately show ?case using Cons ys by simp
qed simp

lemma lex_le_antisym: "lex_le xs ys \<Longrightarrow> lex_le ys xs \<Longrightarrow> xs = ys"
  by (induction xs ys rule: lex_le.induct) (auto elim: lex_le.elims)

lemma rank_inj: "NODE_KIND_RANK a = NODE_KIND_RANK b \<longleftrightarrow> a = b"
  by (cases a; cases b) simp_all

lemma compare_items_le:
  "compareExitNodeSweepVtxoItems a b \<le> 0 \<longleftrightarrow>
     NODE_KIND_RANK (sw_nodeKind a) < NODE_KIND_RANK (sw_nodeKind b) \<or>
     sw_nodeKind a = sw_nodeKind b \<and> lex_le (map of_char (sw_vtxoId a)) (map of_char (sw_vtxoId b))"
  using rank_inj[of "sw_nodeKind a" "sw_nodeKind b"] code_unit_compare_le[of "sw_vtxoId a" "sw_vtxoId b"]
  by (cases "sw_nodeKind a = sw_nodeKind b") (auto simp: compareExitNodeSweepVtxoItems_def Let_def)

lemma compare_items_consistent: "consistent_cmp compareExitNodeSweepVtxoItems"
proof -
  let ?c = compareExitNodeSweepVtxoItems
  have "?c a b \<le> 0 \<or> ?c b a \<le> 0" for a b
    using lex_le_total[of "map of_char (sw_vtxoId a)" "map of_char (sw_vtxoId b)"] rank_inj[of "sw_nodeKind a" "sw_nodeKind b"]
    by (auto simp: compare_items_le)
  moreover have "?c a c \<le> 0" if "?c a b \<le> 0" "?c b c \<le> 0" for a b c
    using that lex_le_trans[of "map of_char (sw_vtxoId a)" "map of_char (sw_vtxoId b)" "map of_char (sw_vtxoId c)"]
    by (auto simp: compare_items_le)
  ultimately show ?thesis unfolding consistent_cmp_def by blast
qed

lemma compare_items_antisym:
  assumes "compareExitNodeSweepVtxoItems a b \<le> 0" "compareExitNodeSweepVtxoItems b a \<le> 0"
  shows "a = b"
proof -
  have "sw_nodeKind a = sw_nodeKind b" "map of_char (sw_vtxoId a) = (map of_char (sw_vtxoId b) :: nat list)"
    using assms lex_le_antisym by (auto simp: compare_items_le)
  moreover from this(2) have "sw_vtxoId a = sw_vtxoId b" by (metis list.inj_map_strong of_char_eq_iff)
  ultimately show ?thesis by simp
qed

text \<open>Merged lists of sweep notices are canonical: two merges give the same list exactly when their
  inputs hold the same notices with a VTXO id. So merging is commutative, associative and idempotent,
  and concurrent reports lose none.\<close>

theorem sweep_merge_canonical:
  "mergeExitNodeSweepVtxoItems a b = mergeExitNodeSweepVtxoItems c d \<longleftrightarrow>
     {i \<in> set a \<union> set b. sw_vtxoId i \<noteq> []} = {i \<in> set c \<union> set d. sw_vtxoId i \<noteq> []}"
proof
  assume "mergeExitNodeSweepVtxoItems a b = mergeExitNodeSweepVtxoItems c d"
  then have "set (mergeExitNodeSweepVtxoItems a b) = set (mergeExitNodeSweepVtxoItems c d)" by simp
  then show "{i \<in> set a \<union> set b. sw_vtxoId i \<noteq> []} = {i \<in> set c \<union> set d. sw_vtxoId i \<noteq> []}"
    by (simp add: mergeExitNodeSweepVtxoItems_def)
next
  assume same: "{i \<in> set a \<union> set b. sw_vtxoId i \<noteq> []} = {i \<in> set c \<union> set d. sw_vtxoId i \<noteq> []}"
  have ord: "sorted_wrt (\<lambda>a b. compareExitNodeSweepVtxoItems a b \<le> 0) (normalizeExitNodeSweepVtxoItems items)" for items
    unfolding normalizeExitNodeSweepVtxoItems_def by (rule sorted_js_sort[OF compare_items_consistent])
  show "mergeExitNodeSweepVtxoItems a b = mergeExitNodeSweepVtxoItems c d"
    unfolding mergeExitNodeSweepVtxoItems_def using same
    by (intro sorted_wrt_unique[OF _ ord ord]) (auto intro: compare_items_antisym simp: distinct_normalize_items)
qed

end
