(* ===== verification/Arkade_Payload.thy ===== *)
theory Arkade_Payload
  imports Payload_Updates
begin

text \<open>
  The Arkade accounts of the wallet payload (\<open>lib/arkade/arkade-payload-merge.ts\<close>) and the state of the Arkade
  SDK they carry (\<open>lib/arkade/arkade-sdk-persistence-types.ts\<close>). \<open>JSON.parse\<close>, new identifiers, the label
  made from the address of the operator and the current time are arguments.
\<close>

section \<open>Arkade accounts\<close>

definition arkade_rows :: "jsValue \<Rightarrow> jsValue list" where
  "arkade_rows payload = (case list_of (field payload ''arkadeAccounts'') of Some rows \<Rightarrow> rows | None \<Rightarrow> [])"

definition findArkadeAccount :: "jsValue \<Rightarrow> jsValue \<Rightarrow> jsValue option" where
  "findArkadeAccount payload arkadeAccountId = List.find (\<lambda>row. field row ''id'' = Some arkadeAccountId) (arkade_rows payload)"

definition findActiveArkadeAccount :: "jsValue \<Rightarrow> string \<Rightarrow> jsValue option" where
  "findActiveArkadeAccount payload networkMode =
     (let activeId = opt_field (field payload ''activeArkadeAccountIdByNetwork'') networkMode
      in if nullish activeId then None else findArkadeAccount payload (the_value activeId))"

definition signer_of :: "jsValue \<Rightarrow> jsValue option" where
  "signer_of account = field account ''operatorSignerPkHex''"

definition assertOperatorSignerMatches :: "jsValue \<Rightarrow> string \<Rightarrow> string + unit" where
  "assertOperatorSignerMatches account operatorSignerPkHex =
     (if signer_of account \<noteq> Some (VStr operatorSignerPkHex)
      then Inl ''Arkade persistence belongs to a different operator (signer public key mismatch)'' else Inr ())"

text \<open>The migration hint names the previous signer.\<close>

definition assertOperatorSignerMatchesOrMigration :: "jsValue \<Rightarrow> string \<Rightarrow> string option \<Rightarrow> string + unit" where
  "assertOperatorSignerMatchesOrMigration account operatorSignerPkHex previousSigner =
     (if signer_of account = Some (VStr operatorSignerPkHex) then Inr ()
      else if previousSigner \<noteq> None \<and> signer_of account = map_option VStr previousSigner then Inr ()
      else assertOperatorSignerMatches account operatorSignerPkHex)"

definition parseNonNegativeIntegerField :: "jsValue \<Rightarrow> string \<Rightarrow> string + int" where
  "parseNonNegativeIntegerField v fieldLabel =
     (case v of
        VNum n \<Rightarrow> (case js_integer n of
                    Some i \<Rightarrow> if i < 0 then Inl (fieldLabel @ '' must be a non-negative integer'') else Inr i
                  | None \<Rightarrow> Inl (fieldLabel @ '' must be a non-negative integer''))
      | _ \<Rightarrow> Inl (fieldLabel @ '' must be a non-negative integer''))"

definition parseOptionalIntegerField :: "jsValue option \<Rightarrow> string \<Rightarrow> string + int option" where
  "parseOptionalIntegerField v fieldLabel =
     (case v of None \<Rightarrow> Inr None | Some x \<Rightarrow> map_sum id Some (parseNonNegativeIntegerField x fieldLabel))"

record sdkEnvelope =
  sdk_version :: "int option"
  sdk_walletDb :: "int option option"

definition parseArkadeSdkPersistenceJson :: "(string \<Rightarrow> jsValue option) \<Rightarrow> string \<Rightarrow> string + sdkEnvelope" where
  "parseArkadeSdkPersistenceJson jsonParse s =
     (case jsonParse s of
        None \<Rightarrow> Inl ''Arkade SDK persistence is not valid JSON''
      | Some (VObj envelope) \<Rightarrow>
          (case parseOptionalIntegerField (rec_get envelope ''version'') ''Arkade SDK persistence version'' of
             Inl e \<Rightarrow> Inl e
           | Inr version \<Rightarrow>
               (case rec_get envelope ''wallet_db'' of
                  None \<Rightarrow> Inr \<lparr>sdk_version = version, sdk_walletDb = None\<rparr>
                | Some (VObj walletDb) \<Rightarrow>
                    (case parseOptionalIntegerField (rec_get walletDb ''offchain_next_derivation_index'')
                            ''Arkade SDK persistence wallet_db.offchain_next_derivation_index'' of
                       Inl e \<Rightarrow> Inl e
                     | Inr idx \<Rightarrow> Inr \<lparr>sdk_version = version, sdk_walletDb = Some idx\<rparr>)
                | Some _ \<Rightarrow> Inl ''Arkade SDK persistence wallet_db must be an object''))
      | Some _ \<Rightarrow> Inl ''Arkade SDK persistence must be a JSON object'')"

definition readOffchainNextDerivationIndex :: "(string \<Rightarrow> jsValue option) \<Rightarrow> string option \<Rightarrow> string + int" where
  "readOffchainNextDerivationIndex jsonParse sdkPersistenceJson =
     (case sdkPersistenceJson of
        None \<Rightarrow> Inr 0
      | Some s \<Rightarrow>
          map_sum id (\<lambda>envelope. case sdk_walletDb envelope of Some (Some i) \<Rightarrow> i | _ \<Rightarrow> 0) (parseArkadeSdkPersistenceJson jsonParse s))"

definition mergeSdkPersistenceJsonMonotonic :: "(string \<Rightarrow> jsValue option) \<Rightarrow> string option \<Rightarrow> string \<Rightarrow> string + string" where
  "mergeSdkPersistenceJsonMonotonic jsonParse existingJson incomingJson =
     (case existingJson of
        None \<Rightarrow> Inr incomingJson
      | Some existing \<Rightarrow>
          (case readOffchainNextDerivationIndex jsonParse (Some existing) of
             Inl e \<Rightarrow> Inl e
           | Inr existingIndex \<Rightarrow>
               (case readOffchainNextDerivationIndex jsonParse (Some incomingJson) of
                  Inl e \<Rightarrow> Inl e
                | Inr incomingIndex \<Rightarrow> Inr (if incomingIndex \<ge> existingIndex then incomingJson else existing))))"

definition assertSdkPersistenceJsonWithinSizeLimit :: "string \<Rightarrow> string + unit" where
  "assertSdkPersistenceJsonWithinSizeLimit s =
     (if utf8_length s > ARKADE_SDK_PERSISTENCE_JSON_MAX_BYTES
      then Inl (''Arkade SDK persistence exceeds '' @ nat_str ARKADE_SDK_PERSISTENCE_JSON_MAX_BYTES @ '' bytes'') else Inr ())"

definition network_of :: "jsValue \<Rightarrow> string" where
  "network_of account = (case str_of (field account ''networkMode'') of Some n \<Rightarrow> n | None \<Rightarrow> ''undefined'')"

definition upsertArkadeAccountInPayload :: "jsValue \<Rightarrow> jsValue \<Rightarrow> bool \<Rightarrow> jsValue" where
  "upsertArkadeAccountInPayload payload account setActiveForNetwork =
     (let others = filter (\<lambda>row. field row ''id'' \<noteq> field account ''id'') (arkade_rows payload);
          active = spread (the_value (field payload ''activeArkadeAccountIdByNetwork''));
          active' = (if setActiveForNetwork then rec_set (network_of account) (the_value (field account ''id'')) active else active)
      in with_field ''activeArkadeAccountIdByNetwork'' (VObj active') (with_field ''arkadeAccounts'' (VArr (others @ [account])) payload))"

text \<open>The parameters of an opened session. The label of the operator and the identifier of a new account
  come from the environment, as does the current time.\<close>

record arkadeOpened =
  ao_networkMode :: string
  ao_operatorSignerPkHex :: string
  ao_operatorUrl :: string
  ao_delegatorUrl :: string
  ao_sdkPersistenceJson :: "string option"
  ao_arkadeAccountId :: "string option"
  ao_previousSigner :: "string option"
  ao_label :: string
  ao_uuid :: string
  ao_now :: string

definition text_or_undefined :: "string \<Rightarrow> jsValue option" where
  "text_or_undefined s = (if s = [] then None else Some (VStr s))"

definition buildDefaultArkadeAccount :: "arkadeOpened \<Rightarrow> jsValue" where
  "buildDefaultArkadeAccount p =
     object_of [(''id'', Some (VStr (ao_uuid p))), (''label'', Some (VStr (ao_label p))), (''networkMode'', Some (VStr (ao_networkMode p))),
       (''operatorUrl'', Some (VStr (ao_operatorUrl p))), (''delegatorUrl'', text_or_undefined (ao_delegatorUrl p)),
       (''operatorSignerPkHex'', Some (VStr (ao_operatorSignerPkHex p))), (''createdAt'', Some (VStr (ao_now p))),
       (''sdkPersistenceJson'', map_option VStr (ao_sdkPersistenceJson p))]"

definition matches_signer :: "arkadeOpened \<Rightarrow> jsValue \<Rightarrow> bool" where
  "matches_signer p row \<longleftrightarrow>
     field row ''networkMode'' = Some (VStr (ao_networkMode p)) \<and>
     (signer_of row = Some (VStr (ao_operatorSignerPkHex p)) \<or>
      ao_previousSigner p \<noteq> None \<and> signer_of row = map_option VStr (ao_previousSigner p))"

definition reopened :: "arkadeOpened \<Rightarrow> jsValue \<Rightarrow> jsValue js_record \<Rightarrow> jsValue" where
  "reopened p existing base =
     VObj (rec_set ''lastSessionOpenedAt'' (VStr (ao_now p))
      (set_or_delete ''sdkPersistenceJson'' (or_else (field existing ''sdkPersistenceJson'') (map_option VStr (ao_sdkPersistenceJson p)))
       (rec_set ''operatorSignerPkHex'' (VStr (ao_operatorSignerPkHex p)) base)))"

definition ensureArkadeAccountInPayload :: "jsValue \<Rightarrow> arkadeOpened \<Rightarrow> string + jsValue \<times> jsValue" where
  "ensureArkadeAccountInPayload payload p =
     (case findActiveArkadeAccount payload (ao_networkMode p) of
        Some existingActive \<Rightarrow>
          and_then (assertOperatorSignerMatchesOrMigration existingActive (ao_operatorSignerPkHex p) (ao_previousSigner p))
            (let account = reopened p existingActive
                   (set_or_delete ''delegatorUrl'' (text_or_undefined (ao_delegatorUrl p))
                     (rec_set ''operatorUrl'' (VStr (ao_operatorUrl p)) (spread existingActive)))
             in Inr (upsertArkadeAccountInPayload payload account True, account))
      | None \<Rightarrow>
          (case List.find (matches_signer p) (arkade_rows payload) of
             Some matchingAccount \<Rightarrow>
               (let account = reopened p matchingAccount (spread matchingAccount)
                in Inr (upsertArkadeAccountInPayload payload account True, account))
           | None \<Rightarrow>
               (let account = (case ao_arkadeAccountId p of
                                 Some i \<Rightarrow> with_field ''id'' (VStr i) (buildDefaultArkadeAccount p)
                               | None \<Rightarrow> buildDefaultArkadeAccount p)
                in Inr (upsertArkadeAccountInPayload payload account True, account))))"

definition mergeSdkPersistenceIntoPayload ::
  "(string \<Rightarrow> jsValue option) \<Rightarrow> jsValue \<Rightarrow> string \<Rightarrow> string \<Rightarrow> string option \<Rightarrow> string + jsValue" where
  "mergeSdkPersistenceIntoPayload jsonParse payload arkadeAccountId sdkPersistenceJson lastSuccessfulOperatorSyncAt =
     and_then (assertSdkPersistenceJsonWithinSizeLimit sdkPersistenceJson)
       (case findArkadeAccount payload (VStr arkadeAccountId) of
          None \<Rightarrow> Inl (''Unknown Arkade account: '' @ arkadeAccountId)
        | Some existing \<Rightarrow>
            (case mergeSdkPersistenceJsonMonotonic jsonParse (str_of (field existing ''sdkPersistenceJson'')) sdkPersistenceJson of
               Inl e \<Rightarrow> Inl e
             | Inr merged \<Rightarrow>
                 Inr (upsertArkadeAccountInPayload payload
                   (VObj (set_or_delete ''lastSuccessfulOperatorSyncAt''
                      (or_else (map_option VStr lastSuccessfulOperatorSyncAt) (field existing ''lastSuccessfulOperatorSyncAt''))
                      (rec_set ''sdkPersistenceJson'' (VStr merged) (spread existing)))) False)))"

definition updateOperatorSyncAtInPayload :: "jsValue \<Rightarrow> string \<Rightarrow> string \<Rightarrow> string + jsValue" where
  "updateOperatorSyncAtInPayload payload arkadeAccountId lastSuccessfulOperatorSyncAt =
     (case findArkadeAccount payload (VStr arkadeAccountId) of
        None \<Rightarrow> Inl (''Unknown Arkade account: '' @ arkadeAccountId)
      | Some existing \<Rightarrow>
          Inr (upsertArkadeAccountInPayload payload
            (with_field ''lastSuccessfulOperatorSyncAt'' (VStr lastSuccessfulOperatorSyncAt) existing) False))"

section \<open>The Arkade account of a session\<close>

definition account_id :: "jsValue \<Rightarrow> jsValue" where
  "account_id account = the_value (field account ''id'')"

lemma find_arkade_upsert:
  assumes "payload = VObj r" and "field account ''id'' \<noteq> None"
  shows "findArkadeAccount (upsertArkadeAccountInPayload payload account active) i =
     (if Some i = field account ''id'' then Some account else findArkadeAccount payload i)"
proof -
  have rows: "arkade_rows (upsertArkadeAccountInPayload payload account active) =
      filter (\<lambda>row. field row ''id'' \<noteq> field account ''id'') (arkade_rows payload) @ [account]"
    by (simp add: upsertArkadeAccountInPayload_def Let_def arkade_rows_def assms(1) with_field_def)
  have "List.find (\<lambda>row. field row ''id'' = Some i) (filter (\<lambda>row. field row ''id'' \<noteq> field account ''id'') xs @ [account]) =
      (if Some i = field account ''id'' then Some account else List.find (\<lambda>row. field row ''id'' = Some i) xs)" for xs
    by (induction xs) auto
  then show ?thesis by (simp add: findArkadeAccount_def rows)
qed

lemma arkade_active_upsert:
  "payload = VObj r \<Longrightarrow> field (upsertArkadeAccountInPayload payload account active) ''activeArkadeAccountIdByNetwork'' =
     Some (VObj (let a = spread (the_value (field payload ''activeArkadeAccountIdByNetwork''))
       in if active then rec_set (network_of account) (account_id account) a else a))"
  by (simp add: upsertArkadeAccountInPayload_def Let_def with_field_def account_id_def)

lemma arkade_other_fields:
  "payload = VObj r \<Longrightarrow> k \<noteq> ''arkadeAccounts'' \<Longrightarrow> k \<noteq> ''activeArkadeAccountIdByNetwork'' \<Longrightarrow>
     field (upsertArkadeAccountInPayload payload account active) k = field payload k"
  by (simp add: upsertArkadeAccountInPayload_def Let_def with_field_def)

lemma arkade_upsert_valid:
  assumes "isWalletSecretsPayload env payload" and "isStoredArkadeAccount env account"
  shows "isWalletSecretsPayload env (upsertArkadeAccountInPayload payload account active)" (is "isWalletSecretsPayload env ?p")
proof -
  obtain r where r: "payload = VObj r" using payload_object[OF assms(1)] by blast
  obtain rows where rows: "field payload ''arkadeAccounts'' = Some (VArr rows)" "list_all (isStoredArkadeAccount env) rows"
    using assms(1) by (cases "field payload ''arkadeAccounts''" rule: list_of.cases)
      (auto simp: isWalletSecretsPayload_def payload_fields_ok_def is_list_def)
  have "is_list (list_all (isStoredArkadeAccount env)) (field ?p ''arkadeAccounts'')"
    using rows assms(2) by (simp add: upsertArkadeAccountInPayload_def Let_def r with_field_def is_list_def arkade_rows_def list_all_iff)
  moreover have "isRecord ?p" by (simp add: upsertArkadeAccountInPayload_def Let_def with_field_def isRecord_def)
  ultimately show ?thesis
    using assms(1) by (simp add: isWalletSecretsPayload_def payload_fields_ok_def arkade_other_fields[OF r] arkade_active_upsert[OF r] isRecord_def the_value_def)
qed

lemma arkade_row_stored:
  assumes "isWalletSecretsPayload env payload" and "row \<in> set (arkade_rows payload)"
  shows "isStoredArkadeAccount env row" "\<exists>r. row = VObj r"
proof -
  show "isStoredArkadeAccount env row"
    using assms by (auto simp: isWalletSecretsPayload_def payload_fields_ok_def arkade_rows_def is_list_def list_all_iff split: option.splits)
  then show "\<exists>r. row = VObj r" by (cases row) (auto simp: isStoredArkadeAccount_def isRecord_def is_str_def)
qed

lemma find_arkade_mem: "findArkadeAccount payload i = Some row \<Longrightarrow> row \<in> set (arkade_rows payload) \<and> field row ''id'' = Some i"
  by (auto simp: findArkadeAccount_def dest: find_Some_iff_mem)

lemmas arkade_row_defs = isStoredArkadeAccount_def isNonEmptyString_def isIso8601Timestamp_def


text \<open>The arguments of a session that opens: usable identifiers and addresses, a time that parses, SDK state
  within its limit.\<close>

definition opened_ok :: "secretsEnv \<Rightarrow> arkadeOpened \<Rightarrow> bool" where
  "opened_ok env p \<longleftrightarrow>
     ao_networkMode p \<in> set ARKADE_SUPPORTED_NETWORK_MODES \<and> js_trim (ao_operatorUrl p) \<noteq> [] \<and>
     js_trim (ao_operatorSignerPkHex p) \<noteq> [] \<and> js_trim (ao_now p) \<noteq> [] \<and> env_dateParses env (ao_now p) \<and> js_trim (ao_uuid p) \<noteq> [] \<and>
     (case ao_arkadeAccountId p of Some i \<Rightarrow> js_trim i \<noteq> [] | None \<Rightarrow> True) \<and>
     (case ao_sdkPersistenceJson p of Some s \<Rightarrow> utf8_length s \<le> ARKADE_SDK_PERSISTENCE_JSON_MAX_BYTES | None \<Rightarrow> True)"

lemma reopened_stored:
  assumes "isStoredArkadeAccount env row" and "row = VObj r" and "opened_ok env p"
    and "\<And>k. k \<noteq> ''operatorUrl'' \<Longrightarrow> k \<noteq> ''delegatorUrl'' \<Longrightarrow> rec_get base k = rec_get r k"
    and "rec_get base ''operatorUrl'' \<in> {rec_get r ''operatorUrl'', Some (VStr (ao_operatorUrl p))}"
    and "rec_get base ''delegatorUrl'' \<in> {rec_get r ''delegatorUrl'', text_or_undefined (ao_delegatorUrl p)}"
  shows "isStoredArkadeAccount env (reopened p row base)"
proof -
  have "optional (is_str (\<lambda>s. utf8_length s \<le> ARKADE_SDK_PERSISTENCE_JSON_MAX_BYTES)) (or_else (rec_get r ''sdkPersistenceJson'') (map_option VStr (ao_sdkPersistenceJson p)))"
    using assms(1-3) by (cases "ao_sdkPersistenceJson p") (auto simp: arkade_row_defs opened_ok_def or_else_def is_str_def)
  moreover have "optional (is_str (\<lambda>_. True)) (rec_get base ''delegatorUrl'')" "is_str (\<lambda>s. js_trim s \<noteq> []) (rec_get base ''operatorUrl'')"
    using assms(1-3,5,6) by (auto simp: arkade_row_defs opened_ok_def text_or_undefined_def is_str_def)
  ultimately show ?thesis
    using assms(1-4) by (simp add: arkade_row_defs reopened_def isRecord_def opened_ok_def is_str_def)
qed

lemma default_account_fields:
  "field (buildDefaultArkadeAccount p) k = map_of
     [(''id'', VStr (ao_uuid p)), (''label'', VStr (ao_label p)), (''networkMode'', VStr (ao_networkMode p)),
      (''operatorUrl'', VStr (ao_operatorUrl p)), (''operatorSignerPkHex'', VStr (ao_operatorSignerPkHex p)), (''createdAt'', VStr (ao_now p))] k"
  if "k \<noteq> ''delegatorUrl''" "k \<noteq> ''sdkPersistenceJson''"
  using that by (cases "ao_sdkPersistenceJson p") (auto simp: buildDefaultArkadeAccount_def object_of_def text_or_undefined_def rec_get_def)

lemma default_account_optional_fields:
  "field (buildDefaultArkadeAccount p) ''delegatorUrl'' = text_or_undefined (ao_delegatorUrl p)"
  "field (buildDefaultArkadeAccount p) ''sdkPersistenceJson'' = map_option VStr (ao_sdkPersistenceJson p)"
  by (cases "ao_sdkPersistenceJson p"; simp add: buildDefaultArkadeAccount_def object_of_def text_or_undefined_def rec_get_def)+

lemma default_account_object: "\<exists>r. buildDefaultArkadeAccount p = VObj r"
  by (simp add: buildDefaultArkadeAccount_def object_of_def)

lemma default_account_stored:
  assumes "opened_ok env p" and "js_trim i \<noteq> []"
  shows "isStoredArkadeAccount env (buildDefaultArkadeAccount p)" "isStoredArkadeAccount env (with_field ''id'' (VStr i) (buildDefaultArkadeAccount p))"
proof -
  let ?a = "buildDefaultArkadeAccount p"
  obtain r where r: "?a = VObj r" using default_account_object by blast
  have opt: "optional (is_str (\<lambda>s. utf8_length s \<le> ARKADE_SDK_PERSISTENCE_JSON_MAX_BYTES)) (field ?a ''sdkPersistenceJson'')"
    "optional (is_str (\<lambda>_. True)) (field ?a ''delegatorUrl'')"
    using assms(1) by (auto simp: default_account_optional_fields opened_ok_def text_or_undefined_def is_str_def optional_def split: option.splits)
  show "isStoredArkadeAccount env ?a"
    using assms(1) opt by (simp add: arkade_row_defs default_account_fields opened_ok_def is_str_def) (simp add: r isRecord_def)
  show "isStoredArkadeAccount env (with_field ''id'' (VStr i) ?a)"
    using assms opt by (simp add: arkade_row_defs field_with_field[OF r] default_account_fields opened_ok_def is_str_def) (simp add: with_field_def isRecord_def)
qed

text \<open>The effect of putting the account of a session into the payload.\<close>

lemma arkade_upsert_effect:
  assumes "isWalletSecretsPayload env payload" and "isStoredArkadeAccount env account" and "payload' = upsertArkadeAccountInPayload payload account True"
    and "field account ''networkMode'' = Some (VStr n) \<or>
      findActiveArkadeAccount payload n \<noteq> None \<and> field account ''id'' = opt_field (field payload ''activeArkadeAccountIdByNetwork'') n"
  shows "isWalletSecretsPayload env payload'" and "findActiveArkadeAccount payload' n = Some account"
    and "VStr j \<noteq> account_id account \<Longrightarrow> findArkadeAccount payload' (VStr j) = findArkadeAccount payload (VStr j)"
proof -
  obtain r where r: "payload = VObj r" using payload_object[OF assms(1)] by blast
  obtain i where i: "field account ''id'' = Some (VStr i)"
    using assms(2) by (cases "field account ''id''" rule: str_of.cases) (auto simp: arkade_row_defs is_str_def)
  show "isWalletSecretsPayload env payload'" unfolding assms(3) by (rule arkade_upsert_valid[OF assms(1,2)])
  show "VStr j \<noteq> account_id account \<Longrightarrow> findArkadeAccount payload' (VStr j) = findArkadeAccount payload (VStr j)"
    using i by (simp add: assms(3) find_arkade_upsert[OF r] account_id_def the_value_def)
  have "opt_field (field payload' ''activeArkadeAccountIdByNetwork'') n = Some (VStr i)"
  proof (cases "field account ''networkMode'' = Some (VStr n)")
    case True
    then show ?thesis using i by (simp add: assms(3) arkade_active_upsert[OF r] opt_field_def network_of_def account_id_def the_value_def)
  next
    case False
    then obtain a where a: "field payload ''activeArkadeAccountIdByNetwork'' = Some (VObj a)" "rec_get a n = Some (VStr i)"
      using assms(4) i by (cases "field payload ''activeArkadeAccountIdByNetwork''"; cases "the_value (field payload ''activeArkadeAccountIdByNetwork'')")
        (auto simp: opt_field_def the_value_def)
    then show ?thesis using i by (simp add: assms(3) arkade_active_upsert[OF r] opt_field_def account_id_def the_value_def Let_def)
  qed
  then show "findActiveArkadeAccount payload' n = Some account"
    using i by (simp add: findActiveArkadeAccount_def nullish_def the_value_def assms(3) find_arkade_upsert[OF r])
qed

lemma find_active_id:
  assumes "findActiveArkadeAccount payload n = Some row"
  shows "field row ''id'' = opt_field (field payload ''activeArkadeAccountIdByNetwork'') n" "row \<in> set (arkade_rows payload)"
  using assms find_arkade_mem[of payload _ row]
  by (auto simp: findActiveArkadeAccount_def Let_def the_value_def nullish_def split: if_splits option.splits)

text \<open>What opening a session gives: the account is active for the network and has the signer, its SDK state
  is the stored one when there is one, and every other account is kept.\<close>

definition session_result :: "secretsEnv \<Rightarrow> jsValue \<Rightarrow> arkadeOpened \<Rightarrow> jsValue \<Rightarrow> jsValue \<Rightarrow> bool" where
  "session_result env payload p payload' account \<longleftrightarrow>
     isWalletSecretsPayload env payload' \<and> findActiveArkadeAccount payload' (ao_networkMode p) = Some account \<and>
     signer_of account = Some (VStr (ao_operatorSignerPkHex p)) \<and>
     (\<forall>j. VStr j \<noteq> account_id account \<longrightarrow> findArkadeAccount payload' (VStr j) = findArkadeAccount payload (VStr j))"

definition signer_accepted :: "arkadeOpened \<Rightarrow> jsValue \<Rightarrow> bool" where
  "signer_accepted p row \<longleftrightarrow>
     signer_of row = Some (VStr (ao_operatorSignerPkHex p)) \<or> ao_previousSigner p \<noteq> None \<and> signer_of row = map_option VStr (ao_previousSigner p)"

lemma reopened_fields:
  "field (reopened p row base) ''id'' = rec_get base ''id''" "field (reopened p row base) ''networkMode'' = rec_get base ''networkMode''"
  "signer_of (reopened p row base) = Some (VStr (ao_operatorSignerPkHex p))"
  "field (reopened p row base) ''sdkPersistenceJson'' = or_else (field row ''sdkPersistenceJson'') (map_option VStr (ao_sdkPersistenceJson p))"
  by (simp_all add: reopened_def signer_of_def)

lemma ensure_active:
  assumes "isWalletSecretsPayload env payload" and "opened_ok env p" and active: "findActiveArkadeAccount payload (ao_networkMode p) = Some row"
    and "signer_accepted p row"
  shows "\<exists>payload' account. ensureArkadeAccountInPayload payload p = Inr (payload', account) \<and> session_result env payload p payload' account \<and>
    field account ''sdkPersistenceJson'' = or_else (field row ''sdkPersistenceJson'') (map_option VStr (ao_sdkPersistenceJson p))"
proof -
  note row = find_active_id[OF active]
  obtain r where r: "row = VObj r" using arkade_row_stored(2)[OF assms(1) row(2)] by blast
  let ?base = "set_or_delete ''delegatorUrl'' (text_or_undefined (ao_delegatorUrl p)) (rec_set ''operatorUrl'' (VStr (ao_operatorUrl p)) (spread row))"
  let ?a = "reopened p row ?base"
  have "isStoredArkadeAccount env ?a"
    by (rule reopened_stored[OF arkade_row_stored(1)[OF assms(1) row(2)] r assms(2)]) (simp_all add: r)
  note effect = arkade_upsert_effect[OF assms(1) this refl, of "ao_networkMode p"]
  have id: "field ?a ''id'' = opt_field (field payload ''activeArkadeAccountIdByNetwork'') (ao_networkMode p)"
    using row(1) by (simp add: reopened_fields r)
  have "assertOperatorSignerMatchesOrMigration row (ao_operatorSignerPkHex p) (ao_previousSigner p) = Inr ()"
    using assms(4) by (auto simp: assertOperatorSignerMatchesOrMigration_def signer_accepted_def)
  then show ?thesis
    using effect active id by (simp add: ensureArkadeAccountInPayload_def session_result_def reopened_fields Let_def)
qed

lemma ensure_matching:
  assumes "isWalletSecretsPayload env payload" and "opened_ok env p" and "findActiveArkadeAccount payload (ao_networkMode p) = None"
    and found: "List.find (matches_signer p) (arkade_rows payload) = Some row"
  shows "\<exists>payload' account. ensureArkadeAccountInPayload payload p = Inr (payload', account) \<and> session_result env payload p payload' account \<and>
    field account ''sdkPersistenceJson'' = or_else (field row ''sdkPersistenceJson'') (map_option VStr (ao_sdkPersistenceJson p))"
proof -
  have row: "row \<in> set (arkade_rows payload)" "field row ''networkMode'' = Some (VStr (ao_networkMode p))"
    using found by (auto simp: matches_signer_def dest!: find_Some_iff_mem)
  obtain r where r: "row = VObj r" using arkade_row_stored(2)[OF assms(1) row(1)] by blast
  have "isStoredArkadeAccount env (reopened p row (spread row))"
    by (rule reopened_stored[OF arkade_row_stored(1)[OF assms(1) row(1)] r assms(2)]) (simp_all add: r)
  note effect = arkade_upsert_effect[OF assms(1) this refl, of "ao_networkMode p"]
  show ?thesis using effect assms(3) found row(2) r by (simp add: ensureArkadeAccountInPayload_def session_result_def reopened_fields Let_def)
qed

lemma ensure_new:
  assumes "isWalletSecretsPayload env payload" and "opened_ok env p" and "findActiveArkadeAccount payload (ao_networkMode p) = None"
    and "List.find (matches_signer p) (arkade_rows payload) = None"
  shows "\<exists>payload' account. ensureArkadeAccountInPayload payload p = Inr (payload', account) \<and> session_result env payload p payload' account \<and>
    field account ''sdkPersistenceJson'' = map_option VStr (ao_sdkPersistenceJson p)"
proof -
  let ?a = "case ao_arkadeAccountId p of Some i \<Rightarrow> with_field ''id'' (VStr i) (buildDefaultArkadeAccount p) | None \<Rightarrow> buildDefaultArkadeAccount p"
  have stored: "isStoredArkadeAccount env ?a"
    using default_account_stored[OF assms(2)] assms(2) by (cases "ao_arkadeAccountId p") (auto simp: opened_ok_def)
  obtain r where r: "buildDefaultArkadeAccount p = VObj r" using default_account_object by blast
  have fields: "field ?a ''networkMode'' = Some (VStr (ao_networkMode p))" "signer_of ?a = Some (VStr (ao_operatorSignerPkHex p))"
    "field ?a ''sdkPersistenceJson'' = map_option VStr (ao_sdkPersistenceJson p)"
    by (simp_all add: field_with_field[OF r] default_account_fields default_account_optional_fields signer_of_def split: option.split)
  note effect = arkade_upsert_effect[OF assms(1) stored refl, of "ao_networkMode p"]
  show ?thesis using effect assms(3,4) fields by (simp add: ensureArkadeAccountInPayload_def session_result_def Let_def)
qed

text \<open>C23: Opening an Arkade session fails exactly when the account that is active for the network belongs
  to another signer and no migration hint names that signer. Otherwise the returned account is the
  active one of the network with the new signer, keeps the SDK state the account had, no other account
  changes and the payload passes validation.\<close>

theorem arkade_session_account:
  assumes "isWalletSecretsPayload env payload" and "opened_ok env p"
  shows "case ensureArkadeAccountInPayload payload p of
      Inl e \<Rightarrow> \<exists>row. findActiveArkadeAccount payload (ao_networkMode p) = Some row \<and> \<not> signer_accepted p row
    | Inr (payload', account) \<Rightarrow>
        (case findActiveArkadeAccount payload (ao_networkMode p) of Some row \<Rightarrow> signer_accepted p row | None \<Rightarrow> True) \<and>
        session_result env payload p payload' account \<and>
        field account ''sdkPersistenceJson'' =
          (case (case findActiveArkadeAccount payload (ao_networkMode p) of
                   Some row \<Rightarrow> Some row | None \<Rightarrow> List.find (matches_signer p) (arkade_rows payload)) of
             Some row \<Rightarrow> or_else (field row ''sdkPersistenceJson'') (map_option VStr (ao_sdkPersistenceJson p))
           | None \<Rightarrow> map_option VStr (ao_sdkPersistenceJson p))"
proof (cases "findActiveArkadeAccount payload (ao_networkMode p)")
  case None
  then show ?thesis
    using ensure_matching[OF assms None] ensure_new[OF assms None]
    by (cases "List.find (matches_signer p) (arkade_rows payload)") auto
next
  case (Some row)
  show ?thesis
  proof (cases "signer_accepted p row")
    case True
    then show ?thesis using ensure_active[OF assms Some True] Some by auto
  next
    case False
    then have "ensureArkadeAccountInPayload payload p = Inl ''Arkade persistence belongs to a different operator (signer public key mismatch)''"
      using Some by (auto simp: ensureArkadeAccountInPayload_def assertOperatorSignerMatchesOrMigration_def assertOperatorSignerMatches_def signer_accepted_def)
    then show ?thesis using Some False by simp
  qed
qed


definition sample_arkade_account :: jsValue where
  "sample_arkade_account =
     VObj [(''id'', VStr ''k1''), (''label'', VStr ''operator''), (''networkMode'', VStr ''signet''), (''operatorUrl'', VStr ''https://o''),
       (''operatorSignerPkHex'', VStr ''02aa''), (''createdAt'', VStr ''2026-01-01T00:00:00Z''), (''sdkPersistenceJson'', VStr ''old'')]"

definition sample_arkade_payload :: jsValue where
  "sample_arkade_payload =
     VObj [(''descriptorWallets'', VArr []), (''lightningNwcConnections'', VArr []), (''arkadeAccounts'', VArr [sample_arkade_account]),
       (''activeArkadeAccountIdByNetwork'', VObj [(''signet'', VStr ''k1'')]), (''barkAccounts'', VArr [])]"

definition sample_opened :: "string \<Rightarrow> string option \<Rightarrow> arkadeOpened" where
  "sample_opened signer previous =
     \<lparr>ao_networkMode = ''signet'', ao_operatorSignerPkHex = signer, ao_operatorUrl = ''https://o'', ao_delegatorUrl = [],
      ao_sdkPersistenceJson = Some ''new'', ao_arkadeAccountId = None, ao_previousSigner = previous, ao_label = ''o'', ao_uuid = ''u'',
      ao_now = ''2026-01-01T00:00:00Z''\<rparr>"

lemma sample_account_stored: "isStoredArkadeAccount sample_env sample_arkade_account"
  by (simp add: arkade_row_defs sample_arkade_account_def isRecord_def is_str_def ARKADE_SUPPORTED_NETWORK_MODES_def js_trim_def js_ws_def Let_def
      sample_env_def utf8_length_def ARKADE_SDK_PERSISTENCE_JSON_MAX_BYTES_def)

lemma sample_arkade_valid: "isWalletSecretsPayload sample_env sample_arkade_payload"
  using sample_account_stored
  by (simp add: sample_arkade_payload_def isWalletSecretsPayload_def payload_fields_ok_def isRecord_def is_list_def bark_networks_def the_value_def)

lemma sample_arkade_active: "findActiveArkadeAccount sample_arkade_payload ''signet'' = Some sample_arkade_account"
  by (simp add: findActiveArkadeAccount_def sample_arkade_payload_def opt_field_def nullish_def the_value_def findArkadeAccount_def arkade_rows_def
      Let_def sample_arkade_account_def)

theorem arkade_session_account_witness:
  "\<exists>payload' account. ensureArkadeAccountInPayload sample_arkade_payload (sample_opened ''02bb'' (Some ''02aa'')) = Inr (payload', account) \<and>
     signer_of account = Some (VStr ''02bb'') \<and> field account ''sdkPersistenceJson'' = Some (VStr ''old'')"
proof -
  let ?p = "sample_opened ''02bb'' (Some ''02aa'')"
  have ok: "opened_ok sample_env ?p"
    by (simp add: opened_ok_def sample_opened_def sample_env_def ARKADE_SUPPORTED_NETWORK_MODES_def js_trim_def js_ws_def Let_def utf8_length_def
        ARKADE_SDK_PERSISTENCE_JSON_MAX_BYTES_def)
  have active: "findActiveArkadeAccount sample_arkade_payload (ao_networkMode ?p) = Some sample_arkade_account"
    using sample_arkade_active by (simp add: sample_opened_def)
  have "signer_accepted ?p sample_arkade_account" "field sample_arkade_account ''sdkPersistenceJson'' = Some (VStr ''old'')"
    "ao_operatorSignerPkHex ?p = ''02bb''"
    by (simp_all add: signer_accepted_def signer_of_def sample_arkade_account_def sample_opened_def)
  then show ?thesis
    using arkade_session_account[OF sample_arkade_valid ok] active
    by (auto simp: session_result_def or_else_def nullish_def split: sum.splits prod.splits)
qed

section \<open>The cursor of the SDK state\<close>

definition arkade_cursor :: "(string \<Rightarrow> jsValue option) \<Rightarrow> jsValue \<Rightarrow> string + int" where
  "arkade_cursor jsonParse account = readOffchainNextDerivationIndex jsonParse (str_of (field account ''sdkPersistenceJson''))"

lemma optional_integer_nonneg: "parseOptionalIntegerField v l = Inr (Some i) \<Longrightarrow> 0 \<le> i"
  by (auto simp: parseOptionalIntegerField_def parseNonNegativeIntegerField_def split: option.splits jsValue.splits if_splits)

lemma parsed_index_nonneg:
  "parseArkadeSdkPersistenceJson jp s = Inr envelope \<Longrightarrow> sdk_walletDb envelope = Some (Some i) \<Longrightarrow> 0 \<le> i"
  by (auto simp: parseArkadeSdkPersistenceJson_def dest: optional_integer_nonneg split: option.splits jsValue.splits sum.splits)

lemma cursor_nonneg: "readOffchainNextDerivationIndex jp s = Inr i \<Longrightarrow> 0 \<le> i"
  by (auto simp: readOffchainNextDerivationIndex_def dest: parsed_index_nonneg split: option.splits sum.splits elim!: sumE
      simp: map_sum_def)

lemma merged_cursor:
  assumes "readOffchainNextDerivationIndex jp old = Inr a" and "readOffchainNextDerivationIndex jp (Some json) = Inr b"
  shows "\<exists>m. mergeSdkPersistenceJsonMonotonic jp old json = Inr m \<and> readOffchainNextDerivationIndex jp (Some m) = Inr (max a b) \<and>
    (m = json \<or> old = Some m)"
  using assms cursor_nonneg[OF assms(2)]
  by (cases old) (auto simp: mergeSdkPersistenceJsonMonotonic_def readOffchainNextDerivationIndex_def[of jp None] max_def)

text \<open>C24: Storing the SDK state of an Arkade account never moves its receive cursor back: the stored cursor
  becomes the larger of the two, whichever of two racing writes comes last. The other accounts and the
  active accounts stay, and the payload passes validation.\<close>

theorem arkade_cursor_monotone:
  assumes "isWalletSecretsPayload env payload" and found: "findArkadeAccount payload (VStr i) = Some existing"
    and "utf8_length json \<le> ARKADE_SDK_PERSISTENCE_JSON_MAX_BYTES" and "optional (isIso8601Timestamp env) (map_option VStr syncedAt)"
    and "arkade_cursor jp existing = Inr a" and "readOffchainNextDerivationIndex jp (Some json) = Inr b"
  shows "\<exists>payload' account. mergeSdkPersistenceIntoPayload jp payload i json syncedAt = Inr payload' \<and> isWalletSecretsPayload env payload' \<and>
    findArkadeAccount payload' (VStr i) = Some account \<and> arkade_cursor jp account = Inr (max a b) \<and>
    (\<forall>j. j \<noteq> i \<longrightarrow> findArkadeAccount payload' (VStr j) = findArkadeAccount payload (VStr j)) \<and>
    (\<forall>act. field payload ''activeArkadeAccountIdByNetwork'' = Some (VObj act) \<longrightarrow>
       field payload' ''activeArkadeAccountIdByNetwork'' = Some (VObj act))"
proof -
  obtain r where r: "payload = VObj r" using payload_object[OF assms(1)] by blast
  have row: "existing \<in> set (arkade_rows payload)" "field existing ''id'' = Some (VStr i)" using find_arkade_mem[OF found] by auto
  note stored = arkade_row_stored[OF assms(1) row(1)]
  obtain x where x: "existing = VObj x" using stored(2) by blast
  obtain m where m: "mergeSdkPersistenceJsonMonotonic jp (str_of (field existing ''sdkPersistenceJson'')) json = Inr m"
    "readOffchainNextDerivationIndex jp (Some m) = Inr (max a b)" "m = json \<or> str_of (field existing ''sdkPersistenceJson'') = Some m"
    using merged_cursor[OF assms(5)[unfolded arkade_cursor_def] assms(6)] by blast
  let ?at = "or_else (map_option VStr syncedAt) (field existing ''lastSuccessfulOperatorSyncAt'')"
  let ?a = "VObj (set_or_delete ''lastSuccessfulOperatorSyncAt'' ?at (rec_set ''sdkPersistenceJson'' (VStr m) (spread existing)))"
  have size: "utf8_length m \<le> ARKADE_SDK_PERSISTENCE_JSON_MAX_BYTES"
    using m(3) assms(3) stored(1)
    by (cases "field existing ''sdkPersistenceJson''") (auto simp: isStoredArkadeAccount_def is_str_def)
  have "optional (isIso8601Timestamp env) ?at"
    using assms(4) stored(1) by (cases syncedAt) (auto simp: isStoredArkadeAccount_def or_else_def nullish_def)
  then have valid: "isStoredArkadeAccount env ?a"
    using stored(1) size by (simp add: isStoredArkadeAccount_def x isRecord_def is_str_def)
  have id: "field ?a ''id'' = Some (VStr i)" using row(2) by (simp add: x)
  have merge: "mergeSdkPersistenceIntoPayload jp payload i json syncedAt = Inr (upsertArkadeAccountInPayload payload ?a False)"
    using assms(3) found m(1) by (simp add: mergeSdkPersistenceIntoPayload_def assertSdkPersistenceJsonWithinSizeLimit_def)
  have active: "field (upsertArkadeAccountInPayload payload ?a False) ''activeArkadeAccountIdByNetwork'' = Some (VObj act)"
    if "field payload ''activeArkadeAccountIdByNetwork'' = Some (VObj act)" for act
    using that by (simp add: arkade_active_upsert[OF r] the_value_def)
  have other: "findArkadeAccount (upsertArkadeAccountInPayload payload ?a False) (VStr j) =
      (if j = i then Some ?a else findArkadeAccount payload (VStr j))" for j
    using find_arkade_upsert[OF r, of ?a False "VStr j"] id by simp
  have cursor: "arkade_cursor jp ?a = Inr (max a b)" using m(2) by (simp add: arkade_cursor_def)
  show ?thesis
    using merge arkade_upsert_valid[OF assms(1) valid] other active cursor
    by (intro exI[of _ "upsertArkadeAccountInPayload payload ?a False"] exI[of _ ?a]) simp
qed

definition sample_sdk_json :: "string \<Rightarrow> jsValue option" where
  "sample_sdk_json s = Some (VObj [(''wallet_db'', VObj [(''offchain_next_derivation_index'', VNum (Fin (if s = ''old'' then 7 else 4)))])])"

theorem arkade_cursor_monotone_witness:
  "\<exists>payload' account. mergeSdkPersistenceIntoPayload sample_sdk_json sample_arkade_payload ''k1'' ''late'' None = Inr payload' \<and>
     findArkadeAccount payload' (VStr ''k1'') = Some account \<and> arkade_cursor sample_sdk_json account = Inr 7"
proof -
  have found: "findArkadeAccount sample_arkade_payload (VStr ''k1'') = Some sample_arkade_account"
    by (simp add: findArkadeAccount_def sample_arkade_payload_def arkade_rows_def sample_arkade_account_def)
  have size: "utf8_length ''late'' \<le> ARKADE_SDK_PERSISTENCE_JSON_MAX_BYTES" "optional (isIso8601Timestamp sample_env) (map_option VStr None)"
    by (simp_all add: utf8_length_def ARKADE_SDK_PERSISTENCE_JSON_MAX_BYTES_def)
  have cursors: "arkade_cursor sample_sdk_json sample_arkade_account = Inr 7" "readOffchainNextDerivationIndex sample_sdk_json (Some ''late'') = Inr 4"
    by (simp_all add: arkade_cursor_def readOffchainNextDerivationIndex_def parseArkadeSdkPersistenceJson_def sample_sdk_json_def
        sample_arkade_account_def parseOptionalIntegerField_def parseNonNegativeIntegerField_def js_integer_def)
  from arkade_cursor_monotone[OF sample_arkade_valid found size cursors] show ?thesis by auto
qed

end
