(* ===== verification/Secrets_Store.thy ===== *)
theory Secrets_Store
  imports Wallet_Secrets Save_Lifecycle
begin

text \<open>
  The encrypted secrets of the wallets in the database (\<open>db/wallet-persistence.ts\<close>), the update of a payload
  under a revision check with retries, re-encryption for a new password, new and deleted wallets, and the
  data migrations of the wallets (\<open>db/data-migrations\<close>). A table is a list of rows; an operation is a
  function from the database to a result or an error and the new database. The encryption worker and
  \<open>JSON\<close> are arguments. Operations of several tabs and of parallel tasks interleave at every await: a task
  that updates a payload is a value with a phase, and each of its database accesses is one event.
\<close>

section \<open>Tables\<close>

record blob =
  ciphertext :: string
  iv :: string
  salt :: string
  kdfPhc :: string

record secretsRow =
  sr_id :: int
  sr_wallet :: int
  sr_revision :: int
  sr_payload :: blob
  sr_mnemonic :: blob
  sr_created :: string
  sr_updated :: string

record markerRow =
  mr_wallet :: int
  mr_name :: string
  mr_appliedAt :: string

text \<open>The two counters are those of the automatic ids, which are not used twice.\<close>

record walletDb =
  wd_wallets :: "int list"
  wd_walletSeq :: int
  wd_secrets :: "secretsRow list"
  wd_secretsSeq :: int
  wd_markers :: "markerRow list"

type_synonym 'a dbOp = "(walletDb, 'a) op"

text \<open>A transaction that throws leaves the database as it was.\<close>

definition in_transaction :: "'a dbOp \<Rightarrow> 'a dbOp" where
  "in_transaction work = (\<lambda>db. case work db of (Inl e, t) \<Rightarrow> (Inl e, db) | (Inr x, t) \<Rightarrow> (Inr x, t))"

section \<open>Reading and writing a row\<close>

record splitBlobs =
  sb_payload :: blob
  sb_mnemonic :: blob

definition find_row :: "int \<Rightarrow> walletDb \<Rightarrow> secretsRow option" where
  "find_row wid db = List.find (\<lambda>r. sr_wallet r = wid) (wd_secrets db)"

definition assertWalletExists :: "int \<Rightarrow> unit dbOp" where
  "assertWalletExists wid =
     (\<lambda>db. op_assert (wid \<in> set (wd_wallets db)) (''Wallet with id '' @ int_str wid @ '' not found'') db)"

definition getWalletSecretsEncryptedWithRevision :: "int \<Rightarrow> (splitBlobs \<times> int) dbOp" where
  "getWalletSecretsEncryptedWithRevision wid =
     (\<lambda>db. case find_row wid db of
        None \<Rightarrow> (Inl (''Wallet secrets for wallet '' @ int_str wid @ '' not found''), db)
      | Some r \<Rightarrow> (Inr (\<lparr>sb_payload = sr_payload r, sb_mnemonic = sr_mnemonic r\<rparr>, sr_revision r), db))"

definition getWalletSecretsEncrypted :: "int \<Rightarrow> splitBlobs dbOp" where
  "getWalletSecretsEncrypted wid = op_bind (getWalletSecretsEncryptedWithRevision wid) (\<lambda>(blobs, _). op_return blobs)"

definition written_row :: "string \<Rightarrow> blob \<Rightarrow> blob option \<Rightarrow> secretsRow \<Rightarrow> secretsRow" where
  "written_row now payload newMnemonic r =
     r\<lparr>sr_payload := payload, sr_mnemonic := (case newMnemonic of Some m \<Rightarrow> m | None \<Rightarrow> sr_mnemonic r), sr_updated := now,
       sr_revision := sr_revision r + 1\<rparr>"

definition update_rows :: "(secretsRow \<Rightarrow> bool) \<Rightarrow> (secretsRow \<Rightarrow> secretsRow) \<Rightarrow> walletDb \<Rightarrow> walletDb" where
  "update_rows p f db = db\<lparr>wd_secrets := map (\<lambda>r. if p r then f r else r) (wd_secrets db)\<rparr>"

definition putSplitWalletSecretsEncrypted :: "string \<Rightarrow> int \<Rightarrow> blob \<Rightarrow> blob option \<Rightarrow> unit dbOp" where
  "putSplitWalletSecretsEncrypted now wid payload newMnemonic =
     op_bind (assertWalletExists wid) (\<lambda>_ db.
       case find_row wid db of
         Some existing \<Rightarrow> (Inr (), update_rows (\<lambda>r. sr_id r = sr_id existing) (written_row now payload newMnemonic) db)
       | None \<Rightarrow>
           (case newMnemonic of
              None \<Rightarrow> (Inl ''New wallet secrets row requires both payload and mnemonic ciphertexts'', db)
            | Some m \<Rightarrow>
                (Inr (), db\<lparr>wd_secretsSeq := wd_secretsSeq db + 1,
                   wd_secrets := wd_secrets db @ [\<lparr>sr_id = wd_secretsSeq db + 1, sr_wallet = wid, sr_revision = 0,
                     sr_payload = payload, sr_mnemonic = m, sr_created = now, sr_updated = now\<rparr>]\<rparr>)))"

definition putSplitWalletSecretsEncryptedIfRevisionMatches ::
  "string \<Rightarrow> int \<Rightarrow> blob \<Rightarrow> blob option \<Rightarrow> int \<Rightarrow> bool dbOp" where
  "putSplitWalletSecretsEncryptedIfRevisionMatches now wid payload newMnemonic expectedRevision =
     op_bind (assertWalletExists wid) (\<lambda>_ db.
       let hit = (\<lambda>r. sr_wallet r = wid \<and> sr_revision r = expectedRevision)
       in (Inr (length (filter hit (wd_secrets db)) = 1), update_rows hit (written_row now payload newMnemonic) db))"

definition putPayloadAndWriteAlongsideIfRevisionMatches :: "string \<Rightarrow> int \<Rightarrow> blob \<Rightarrow> int \<Rightarrow> unit dbOp \<Rightarrow> bool dbOp" where
  "putPayloadAndWriteAlongsideIfRevisionMatches now wid payload expectedRevision writeAlongside =
     in_transaction (op_bind (putSplitWalletSecretsEncryptedIfRevisionMatches now wid payload None expectedRevision) (\<lambda>updated.
       if updated then op_bind writeAlongside (\<lambda>_. op_return True) else op_return False))"

definition deleteWalletSecrets :: "int \<Rightarrow> unit dbOp" where
  "deleteWalletSecrets wid = op_modify (\<lambda>db. db\<lparr>wd_secrets := filter (\<lambda>r. sr_wallet r \<noteq> wid) (wd_secrets db)\<rparr>)"

definition deleteWalletDataMigrationMarkers :: "int \<Rightarrow> unit dbOp" where
  "deleteWalletDataMigrationMarkers wid = op_modify (\<lambda>db. db\<lparr>wd_markers := filter (\<lambda>m. mr_wallet m \<noteq> wid) (wd_markers db)\<rparr>)"

definition delete_wallet_row :: "int \<Rightarrow> unit dbOp" where
  "delete_wallet_row wid = op_modify (\<lambda>db. db\<lparr>wd_wallets := filter (\<lambda>i. i \<noteq> wid) (wd_wallets db)\<rparr>)"

definition deleteWalletCompletely :: "int \<Rightarrow> unit dbOp" where
  "deleteWalletCompletely wid =
     op_bind (deleteWalletSecrets wid) (\<lambda>_. op_bind (deleteWalletDataMigrationMarkers wid) (\<lambda>_. delete_wallet_row wid))"

definition listWalletIdsWithSecrets :: "walletDb \<Rightarrow> int list" where
  "listWalletIdsWithSecrets db = sort (map sr_wallet (wd_secrets db))"

section \<open>Markers of data migrations\<close>

definition SIGNET_NETWORK_SPLIT_DATA_MIGRATION_NAME :: string where
  "SIGNET_NETWORK_SPLIT_DATA_MIGRATION_NAME = ''signet-network-split''"

definition listAppliedWalletDataMigrationNames :: "walletDb \<Rightarrow> int \<Rightarrow> string list" where
  "listAppliedWalletDataMigrationNames db wid = map mr_name (filter (\<lambda>m. mr_wallet m = wid) (wd_markers db))"

text \<open>Wallet and name are the primary key of the markers.\<close>

definition recordWalletDataMigrationsApplied :: "string \<Rightarrow> int \<Rightarrow> string list \<Rightarrow> unit dbOp" where
  "recordWalletDataMigrationsApplied now wid names =
     (if names = [] then op_return ()
      else (\<lambda>db. if distinct names \<and> set names \<inter> set (listAppliedWalletDataMigrationNames db wid) = {}
         then (Inr (), db\<lparr>wd_markers := wd_markers db @ map (\<lambda>n. \<lparr>mr_wallet = wid, mr_name = n, mr_appliedAt = now\<rparr>) names\<rparr>)
         else (Inl ''UNIQUE constraint failed: wallet_data_migrations.wallet_id, wallet_data_migrations.migration_name'', db)))"

definition recordAllWalletDataMigrationsApplied :: "string \<Rightarrow> int \<Rightarrow> unit dbOp" where
  "recordAllWalletDataMigrationsApplied now wid = recordWalletDataMigrationsApplied now wid [SIGNET_NETWORK_SPLIT_DATA_MIGRATION_NAME]"

section \<open>New wallets\<close>

definition insertWalletRow :: "int dbOp" where
  "insertWalletRow = (\<lambda>db. (Inr (wd_walletSeq db + 1),
     db\<lparr>wd_walletSeq := wd_walletSeq db + 1, wd_wallets := wd_wallets db @ [wd_walletSeq db + 1]\<rparr>))"

definition persistNewWalletWithSecrets :: "(int \<Rightarrow> blob \<Rightarrow> blob \<Rightarrow> unit dbOp) \<Rightarrow> string \<Rightarrow> splitBlobs \<Rightarrow> int dbOp" where
  "persistNewWalletWithSecrets putSecrets now blobs =
     op_bind insertWalletRow (\<lambda>wid db.
       case in_transaction (op_bind (putSecrets wid (sb_payload blobs) (sb_mnemonic blobs))
              (\<lambda>_. recordAllWalletDataMigrationsApplied now wid)) db of
         (Inr _, t) \<Rightarrow> (Inr wid, t)
       | (Inl e, t) \<Rightarrow> op_bind (delete_wallet_row wid) (\<lambda>_. op_throw e) t)"

section \<open>Encryption\<close>

text \<open>The encryption worker: with the key of the session, or with a password. The number stands for the
  random values of one encryption.\<close>

record secretsCrypto =
  sc_encrypt :: "nat \<Rightarrow> string \<Rightarrow> string + blob"
  sc_decrypt :: "blob \<Rightarrow> string + string"
  sc_encryptWith :: "string \<Rightarrow> nat \<Rightarrow> string \<Rightarrow> string + blob"
  sc_decryptWith :: "string \<Rightarrow> blob \<Rightarrow> string + string"
  sc_parse :: "string \<Rightarrow> jsValue option"
  sc_stringify :: "jsValue \<Rightarrow> string"
  sc_env :: secretsEnv

definition sum_then :: "string + 'a \<Rightarrow> ('a \<Rightarrow> string + 'b) \<Rightarrow> string + 'b" where
  "sum_then m f = (case m of Inl e \<Rightarrow> Inl e | Inr x \<Rightarrow> f x)"

lemma sum_then_Inr: "sum_then m f = Inr y \<longleftrightarrow> (\<exists>x. m = Inr x \<and> f x = Inr y)"
  by (cases m) (auto simp: sum_then_def)

definition read_payload :: "secretsCrypto \<Rightarrow> string \<Rightarrow> string + jsValue" where
  "read_payload c plaintext = parseWalletPayloadJson (sc_parse c) (sc_env c) plaintext"

definition mnemonic_text :: "jsValue \<Rightarrow> string" where
  "mnemonic_text secrets = (case str_of (field secrets ''mnemonic'') of Some s \<Rightarrow> s | None \<Rightarrow> [])"

definition saveWalletSecrets :: "secretsCrypto \<Rightarrow> nat \<Rightarrow> string \<Rightarrow> int \<Rightarrow> jsValue \<Rightarrow> unit dbOp" where
  "saveWalletSecrets c nonce now wid secrets =
     op_bind (assertWalletExists wid) (\<lambda>_.
     op_bind (op_lift (sc_encrypt c nonce (sc_stringify c (walletSecretsPayloadFromSecrets secrets)))) (\<lambda>payload.
     op_bind (op_lift (sc_encrypt c (nonce + 1) (mnemonic_text secrets))) (\<lambda>m.
     putSplitWalletSecretsEncrypted now wid payload (Some m))))"

definition loadWalletSecretsPayload :: "secretsCrypto \<Rightarrow> int \<Rightarrow> jsValue dbOp" where
  "loadWalletSecretsPayload c wid =
     op_bind (getWalletSecretsEncrypted wid) (\<lambda>blobs.
       op_lift (sum_then (sc_decrypt c (sb_payload blobs)) (read_payload c)))"

text \<open>Decryption of a row with one of the two ways to decrypt.\<close>

definition decrypt_row :: "secretsCrypto \<Rightarrow> (blob \<Rightarrow> string + string) \<Rightarrow> splitBlobs \<Rightarrow> string + jsValue" where
  "decrypt_row c decrypt blobs =
     sum_then (decrypt (sb_payload blobs)) (\<lambda>payloadPlaintext.
     sum_then (decrypt (sb_mnemonic blobs)) (\<lambda>mnemonicPlaintext.
     sum_then (read_payload c payloadPlaintext) (\<lambda>payload. Inr (assembleWalletSecrets mnemonicPlaintext payload))))"

definition loadWalletSecrets :: "secretsCrypto \<Rightarrow> int \<Rightarrow> jsValue dbOp" where
  "loadWalletSecrets c wid =
     op_bind (getWalletSecretsEncrypted wid) (\<lambda>blobs. op_lift (decrypt_row c (sc_decrypt c) blobs))"

definition loadWalletSecretsWithPassword :: "secretsCrypto \<Rightarrow> string \<Rightarrow> int \<Rightarrow> jsValue dbOp" where
  "loadWalletSecretsWithPassword c password wid =
     op_bind (getWalletSecretsEncrypted wid) (\<lambda>blobs. op_lift (decrypt_row c (sc_decryptWith c password) blobs))"

section \<open>A new password\<close>

fun decrypt_all :: "secretsCrypto \<Rightarrow> string \<Rightarrow> int list \<Rightarrow> (int \<times> jsValue) list dbOp" where
  "decrypt_all c password [] = op_return []"
| "decrypt_all c password (i # is) =
     op_bind (loadWalletSecretsWithPassword c password i) (\<lambda>secrets.
     op_bind (decrypt_all c password is) (\<lambda>rest. op_return ((i, secrets) # rest)))"

fun encrypt_all :: "secretsCrypto \<Rightarrow> string \<Rightarrow> nat \<Rightarrow> (int \<times> jsValue) list \<Rightarrow> string + (int \<times> splitBlobs) list" where
  "encrypt_all c password nonce [] = Inr []"
| "encrypt_all c password nonce ((i, secrets) # rest) =
     sum_then (sc_encryptWith c password nonce (sc_stringify c (walletSecretsPayloadFromSecrets secrets))) (\<lambda>payload.
     sum_then (sc_encryptWith c password (nonce + 1) (mnemonic_text secrets)) (\<lambda>m.
     sum_then (encrypt_all c password (nonce + 2) rest) (\<lambda>blobs. Inr ((i, \<lparr>sb_payload = payload, sb_mnemonic = m\<rparr>) # blobs))))"

fun put_all :: "string \<Rightarrow> (int \<times> splitBlobs) list \<Rightarrow> unit dbOp" where
  "put_all now [] = op_return ()"
| "put_all now ((i, b) # rest) =
     op_bind (putSplitWalletSecretsEncrypted now i (sb_payload b) (Some (sb_mnemonic b))) (\<lambda>_. put_all now rest)"

text \<open>The reads and the encryption, and the write of all rows in one transaction.\<close>

definition reencrypt_prepare :: "secretsCrypto \<Rightarrow> nat \<Rightarrow> string \<Rightarrow> string \<Rightarrow> (int \<times> splitBlobs) list dbOp" where
  "reencrypt_prepare c nonce oldPassword newPassword =
     (\<lambda>db. let wids = listWalletIdsWithSecrets db
       in if wids = [] then (Inl ''No wallet secrets to re-encrypt'', db)
          else op_bind (decrypt_all c oldPassword wids) (\<lambda>decrypted. op_lift (encrypt_all c newPassword nonce decrypted)) db)"

definition reencryptAllWalletSecretsWithNewPasswordImpl :: "secretsCrypto \<Rightarrow> nat \<Rightarrow> string \<Rightarrow> string \<Rightarrow> string \<Rightarrow> unit dbOp" where
  "reencryptAllWalletSecretsWithNewPasswordImpl c nonce now oldPassword newPassword =
     op_bind (reencrypt_prepare c nonce oldPassword newPassword) (\<lambda>blobs. in_transaction (put_all now blobs))"

definition reencryptAllWalletSecretsWithNewPassword :: "secretsCrypto \<Rightarrow> nat \<Rightarrow> string \<Rightarrow> string \<Rightarrow> string \<Rightarrow> unit dbOp \<Rightarrow> unit dbOp" where
  "reencryptAllWalletSecretsWithNewPassword c nonce now oldPassword newPassword afterReencrypt =
     op_bind (reencryptAllWalletSecretsWithNewPasswordImpl c nonce now oldPassword newPassword) (\<lambda>_. afterReencrypt)"

section \<open>Updates of a payload\<close>

definition WALLET_SECRETS_CAS_MAX_RETRIES :: nat where "WALLET_SECRETS_CAS_MAX_RETRIES = 8"

definition walletSecretsConflictError :: "nat \<Rightarrow> string" where
  "walletSecretsConflictError maxRetries = ''Failed to update encrypted wallet secrets after '' @ nat_str maxRetries @ '' CAS retries''"

text \<open>A task reads the row, computes the next payload and writes it if the revision is still the one it read.
  The computation may look at the database; it also yields the names of the migrations to mark in the
  transaction of the write, which are none for the other updates.\<close>

datatype updatePhase =
  Reading nat
  | Transforming nat blob int
  | Writing nat blob blob int "string list"
  | Returned
  | Threw string

record updateTask =
  ut_wallet :: int
  ut_transform :: "nat \<Rightarrow> walletDb \<Rightarrow> blob \<Rightarrow> string + blob \<times> string list"
  ut_maxRetries :: nat
  ut_phase :: updatePhase

definition start_attempt :: "nat \<Rightarrow> nat \<Rightarrow> updatePhase" where
  "start_attempt maxRetries attempt = (if attempt \<le> maxRetries then Reading attempt else Threw (walletSecretsConflictError maxRetries))"

definition update_task :: "int \<Rightarrow> nat \<Rightarrow> (nat \<Rightarrow> walletDb \<Rightarrow> blob \<Rightarrow> string + blob \<times> string list) \<Rightarrow> updateTask" where
  "update_task wid maxRetries transform =
     \<lparr>ut_wallet = wid, ut_transform = transform, ut_maxRetries = maxRetries, ut_phase = start_attempt maxRetries 1\<rparr>"

text \<open>The transform of the main thread decrypts and encrypts with the session, the transform of the workers
  maps ciphertext to ciphertext.\<close>

definition payload_transform ::
  "secretsCrypto \<Rightarrow> (walletDb \<Rightarrow> jsValue \<Rightarrow> string + jsValue \<times> string list) \<Rightarrow> nat \<Rightarrow> walletDb \<Rightarrow> blob \<Rightarrow> string + blob \<times> string list" where
  "payload_transform c transform nonce db payload =
     sum_then (sc_decrypt c payload) (\<lambda>plaintext.
     sum_then (read_payload c plaintext) (\<lambda>value.
     sum_then (transform db value) (\<lambda>(nextPayload, names).
     sum_then (sc_encrypt c nonce (sc_stringify c nextPayload)) (\<lambda>encrypted. Inr (encrypted, names)))))"

definition updateWalletSecretsPayloadWithRetry ::
  "secretsCrypto \<Rightarrow> int \<Rightarrow> (walletDb \<Rightarrow> jsValue \<Rightarrow> string + jsValue \<times> string list) \<Rightarrow> nat \<Rightarrow> updateTask" where
  "updateWalletSecretsPayloadWithRetry c wid transform maxRetries = update_task wid maxRetries (payload_transform c transform)"

definition updateWalletSecretsEncryptedPayloadWithRetry :: "int \<Rightarrow> (nat \<Rightarrow> blob \<Rightarrow> string + blob) \<Rightarrow> nat \<Rightarrow> updateTask" where
  "updateWalletSecretsEncryptedPayloadWithRetry wid transform maxRetries =
     update_task wid maxRetries (\<lambda>nonce db payload. sum_then (transform nonce payload) (\<lambda>encrypted. Inr (encrypted, [])))"

definition update_read :: "walletDb \<Rightarrow> updateTask \<Rightarrow> updateTask" where
  "update_read db t =
     (case ut_phase t of
        Reading k \<Rightarrow>
          (case fst (getWalletSecretsEncryptedWithRevision (ut_wallet t) db) of
             Inl e \<Rightarrow> t\<lparr>ut_phase := Threw e\<rparr>
           | Inr (blobs, revision) \<Rightarrow> t\<lparr>ut_phase := Transforming k (sb_payload blobs) revision\<rparr>)
      | _ \<Rightarrow> t)"

definition update_compute :: "walletDb \<Rightarrow> updateTask \<Rightarrow> updateTask" where
  "update_compute db t =
     (case ut_phase t of
        Transforming k payload revision \<Rightarrow>
          (case ut_transform t k db payload of
             Inl e \<Rightarrow> t\<lparr>ut_phase := Threw e\<rparr>
           | Inr (nextPayload, names) \<Rightarrow> t\<lparr>ut_phase := Writing k payload nextPayload revision names\<rparr>)
      | _ \<Rightarrow> t)"

definition update_write :: "string \<Rightarrow> walletDb \<Rightarrow> updateTask \<Rightarrow> updateTask \<times> walletDb" where
  "update_write now db t =
     (case ut_phase t of
        Writing k payload nextPayload revision names \<Rightarrow>
          (case putPayloadAndWriteAlongsideIfRevisionMatches now (ut_wallet t) nextPayload revision
                  (recordWalletDataMigrationsApplied now (ut_wallet t) names) db of
             (Inl e, t') \<Rightarrow> (t\<lparr>ut_phase := Threw e\<rparr>, t')
           | (Inr True, t') \<Rightarrow> (t\<lparr>ut_phase := Returned\<rparr>, t')
           | (Inr False, t') \<Rightarrow> (t\<lparr>ut_phase := start_attempt (ut_maxRetries t) (k + 1)\<rparr>, t'))
      | _ \<Rightarrow> (t, db))"

section \<open>Interleavings\<close>

text \<open>The log lists the committed writes of payloads; a write by re-encryption has no task.\<close>

record payloadCommit =
  co_task :: "nat option"
  co_wallet :: int
  co_before :: blob
  co_after :: blob
  co_names :: "string list"

record secretsWorld =
  wo_db :: walletDb
  wo_tasks :: "updateTask list"
  wo_log :: "payloadCommit list"

datatype secretsEvent =
  SubmitUpdate updateTask
  | TaskRead nat
  | TaskCompute nat
  | TaskWrite nat string
  | NewWallet string splitBlobs
  | Reencrypted string "(int \<times> splitBlobs) list"
  | SecretsDeleted int
  | MarkersDeleted int
  | WalletDeleted int

definition with_task :: "nat \<Rightarrow> (updateTask \<Rightarrow> updateTask) \<Rightarrow> secretsWorld \<Rightarrow> secretsWorld" where
  "with_task i f s = (if i < length (wo_tasks s) then s\<lparr>wo_tasks := (wo_tasks s)[i := f (wo_tasks s ! i)]\<rparr> else s)"

definition commit_of :: "nat \<Rightarrow> updateTask \<Rightarrow> payloadCommit list" where
  "commit_of i t =
     (case ut_phase t of
        Writing k payload nextPayload revision names \<Rightarrow>
          [\<lparr>co_task = Some i, co_wallet = ut_wallet t, co_before = payload, co_after = nextPayload, co_names = names\<rparr>]
      | _ \<Rightarrow> [])"

text \<open>The payload that a write replaces is read off the database, not off the task.\<close>

definition stored_payload :: "walletDb \<Rightarrow> int \<Rightarrow> blob option" where
  "stored_payload db wid = map_option sr_payload (find_row wid db)"

definition replaced :: "walletDb \<Rightarrow> payloadCommit \<Rightarrow> payloadCommit" where
  "replaced db c = (case stored_payload db (co_wallet c) of Some p \<Rightarrow> c\<lparr>co_before := p\<rparr> | None \<Rightarrow> c)"

definition reencrypt_commits :: "walletDb \<Rightarrow> (int \<times> splitBlobs) list \<Rightarrow> payloadCommit list" where
  "reencrypt_commits db blobs =
     map (\<lambda>(i, b). replaced db \<lparr>co_task = None, co_wallet = i, co_before = sb_payload b, co_after = sb_payload b, co_names = []\<rparr>) blobs"

fun secrets_event :: "secretsEvent \<Rightarrow> secretsWorld \<Rightarrow> secretsWorld" where
  "secrets_event (SubmitUpdate t) s = s\<lparr>wo_tasks := wo_tasks s @ [t\<lparr>ut_phase := start_attempt (ut_maxRetries t) 1\<rparr>]\<rparr>"
| "secrets_event (TaskRead i) s = with_task i (update_read (wo_db s)) s"
| "secrets_event (TaskCompute i) s = with_task i (update_compute (wo_db s)) s"
| "secrets_event (TaskWrite i now) s =
     (if i < length (wo_tasks s)
      then let (t, db) = update_write now (wo_db s) (wo_tasks s ! i)
           in s\<lparr>wo_tasks := (wo_tasks s)[i := t], wo_db := db,
                wo_log := wo_log s @ (if ut_phase t = Returned then map (replaced (wo_db s)) (commit_of i (wo_tasks s ! i)) else [])\<rparr>
      else s)"
| "secrets_event (NewWallet now blobs) s =
     s\<lparr>wo_db := snd (persistNewWalletWithSecrets (\<lambda>i p m. putSplitWalletSecretsEncrypted now i p (Some m)) now blobs (wo_db s))\<rparr>"
| "secrets_event (Reencrypted now blobs) s =
     (case in_transaction (put_all now blobs) (wo_db s) of
        (Inl e, db) \<Rightarrow> s\<lparr>wo_db := db\<rparr>
      | (Inr _, db) \<Rightarrow> s\<lparr>wo_db := db, wo_log := wo_log s @ reencrypt_commits (wo_db s) blobs\<rparr>)"
| "secrets_event (SecretsDeleted i) s = s\<lparr>wo_db := snd (deleteWalletSecrets i (wo_db s))\<rparr>"
| "secrets_event (MarkersDeleted i) s = s\<lparr>wo_db := snd (deleteWalletDataMigrationMarkers i (wo_db s))\<rparr>"
| "secrets_event (WalletDeleted i) s = s\<lparr>wo_db := snd (delete_wallet_row i (wo_db s))\<rparr>"

text \<open>Re-encryption writes rows that are there, and the markers of a wallet are deleted after its secrets.\<close>

fun secrets_allowed :: "secretsEvent \<Rightarrow> secretsWorld \<Rightarrow> bool" where
  "secrets_allowed (Reencrypted now blobs) s \<longleftrightarrow>
     distinct (map fst blobs) \<and> list_all (\<lambda>(i, b). find_row i (wo_db s) \<noteq> None) blobs"
| "secrets_allowed (MarkersDeleted i) s \<longleftrightarrow> find_row i (wo_db s) = None"
| "secrets_allowed e s \<longleftrightarrow> True"

definition run_secrets :: "walletDb \<Rightarrow> secretsEvent list \<Rightarrow> secretsWorld" where
  "run_secrets db es = fold secrets_event es \<lparr>wo_db = db, wo_tasks = [], wo_log = []\<rparr>"

definition secrets_schedule :: "walletDb \<Rightarrow> secretsEvent list \<Rightarrow> bool" where
  "secrets_schedule db es \<longleftrightarrow> admissible secrets_event secrets_allowed es \<lparr>wo_db = db, wo_tasks = [], wo_log = []\<rparr>"

section \<open>How the operations change the rows\<close>

definition marker_names :: "walletDb \<Rightarrow> int \<Rightarrow> string list" where
  "marker_names db wid = listAppliedWalletDataMigrationNames db wid"

text \<open>The constraints of the tables: ids are unique and below the counters.\<close>

definition db_ok :: "walletDb \<Rightarrow> bool" where
  "db_ok db \<longleftrightarrow>
     distinct (map sr_wallet (wd_secrets db)) \<and> distinct (map sr_id (wd_secrets db)) \<and>
     list_all (\<lambda>r. sr_id r \<le> wd_secretsSeq db \<and> sr_wallet r \<le> wd_walletSeq db) (wd_secrets db) \<and>
     list_all (\<lambda>i. i \<le> wd_walletSeq db) (wd_wallets db) \<and> list_all (\<lambda>m. mr_wallet m \<le> wd_walletSeq db) (wd_markers db)"

lemma written_row_simps [simp]:
  "sr_wallet (written_row now p m r) = sr_wallet r" "sr_id (written_row now p m r) = sr_id r"
  "sr_revision (written_row now p m r) = sr_revision r + 1" "sr_payload (written_row now p m r) = p"
  by (simp_all add: written_row_def)

lemma update_rows_simps [simp]:
  "wd_wallets (update_rows p f db) = wd_wallets db" "wd_walletSeq (update_rows p f db) = wd_walletSeq db"
  "wd_secretsSeq (update_rows p f db) = wd_secretsSeq db" "wd_markers (update_rows p f db) = wd_markers db"
  "marker_names (update_rows p f db) v = marker_names db v"
  by (simp_all add: update_rows_def marker_names_def listAppliedWalletDataMigrationNames_def)

lemma find_map_rows:
  "(\<And>r. sr_wallet (f r) = sr_wallet r) \<Longrightarrow>
   List.find (\<lambda>r. sr_wallet r = v) (map (\<lambda>r. if p r then f r else r) rows) =
     map_option (\<lambda>r. if p r then f r else r) (List.find (\<lambda>r. sr_wallet r = v) rows)"
  by (induction rows) auto

lemma find_row_update:
  "(\<And>r. sr_wallet (f r) = sr_wallet r) \<Longrightarrow> find_row v (update_rows p f db) = map_option (\<lambda>r. if p r then f r else r) (find_row v db)"
  by (simp add: find_row_def update_rows_def find_map_rows)

lemma find_row_wallet: "find_row v db = Some r \<Longrightarrow> sr_wallet r = v \<and> r \<in> set (wd_secrets db)"
  by (auto simp: find_row_def dest: find_Some_iff_mem)

lemma find_row_None: "find_row v db = None \<longleftrightarrow> v \<notin> sr_wallet ` set (wd_secrets db)"
  by (auto simp: find_row_def find_None_all)

lemma db_ok_update:
  assumes "db_ok db" and "\<And>r. sr_wallet (f r) = sr_wallet r" "\<And>r. sr_id (f r) = sr_id r"
  shows "db_ok (update_rows p f db)"
proof -
  have "map sr_wallet (wd_secrets (update_rows p f db)) = map sr_wallet (wd_secrets db)"
    "map sr_id (wd_secrets (update_rows p f db)) = map sr_id (wd_secrets db)"
    using assms(2,3) by (simp_all add: update_rows_def)
  moreover have "list_all (\<lambda>r. sr_id r \<le> wd_secretsSeq db \<and> sr_wallet r \<le> wd_walletSeq db) (wd_secrets (update_rows p f db))"
    using assms by (auto simp: db_ok_def list_all_iff update_rows_def)
  ultimately show ?thesis using assms(1) by (simp add: db_ok_def)
qed

lemma filter_hit:
  assumes "distinct (map sr_wallet rows)"
  shows "length (filter (\<lambda>r. sr_wallet r = v \<and> sr_revision r = n) rows) = 1 \<longleftrightarrow>
    (\<exists>r. List.find (\<lambda>r. sr_wallet r = v) rows = Some r \<and> sr_revision r = n)"
  using assms
proof (induction rows)
  case (Cons r rows)
  show ?case
  proof (cases "sr_wallet r = v")
    case True
    then have "filter (\<lambda>r. sr_wallet r = v \<and> sr_revision r = n) rows = []" using Cons.prems by (force simp: filter_empty_conv image_iff)
    then show ?thesis using True by simp
  qed (use Cons in auto)
qed simp

text \<open>The conditional write.\<close>

lemma put_if_matches:
  assumes "db_ok db"
  shows "putSplitWalletSecretsEncryptedIfRevisionMatches now v p m n db =
    (if v \<notin> set (wd_wallets db) then (Inl (''Wallet with id '' @ int_str v @ '' not found''), db)
     else (Inr (\<exists>r. find_row v db = Some r \<and> sr_revision r = n),
       update_rows (\<lambda>r. sr_wallet r = v \<and> sr_revision r = n) (written_row now p m) db))"
proof -
  have "distinct (map sr_wallet (wd_secrets db))" using assms by (simp add: db_ok_def)
  from filter_hit[OF this] show ?thesis
    by (simp add: putSplitWalletSecretsEncryptedIfRevisionMatches_def assertWalletExists_def op_bind_apply Let_def find_row_def)
qed

lemma update_rows_none:
  assumes "db_ok db" and "\<not> (\<exists>r. find_row v db = Some r \<and> sr_revision r = n)"
  shows "update_rows (\<lambda>r. sr_wallet r = v \<and> sr_revision r = n) f db = db"
proof -
  have "\<not> (sr_wallet r = v \<and> sr_revision r = n)" if mem: "r \<in> set (wd_secrets db)" for r
  proof
    assume hit: "sr_wallet r = v \<and> sr_revision r = n"
    then obtain r' where r': "find_row v db = Some r'" using mem find_row_None[of v db] by (cases "find_row v db") auto
    then have "r' = r" using find_row_wallet[OF r'] mem hit assms(1) by (auto simp: db_ok_def dest: inj_onD distinct_map[THEN iffD1, THEN conjunct2])
    then show False using r' hit assms(2) by blast
  qed
  then have "map (\<lambda>r. if sr_wallet r = v \<and> sr_revision r = n then f r else r) (wd_secrets db) = wd_secrets db" by (intro map_idI) auto
  then show ?thesis by (simp add: update_rows_def)
qed

definition with_markers :: "string \<Rightarrow> int \<Rightarrow> string list \<Rightarrow> walletDb \<Rightarrow> walletDb" where
  "with_markers now v names db = db\<lparr>wd_markers := wd_markers db @ map (\<lambda>n. \<lparr>mr_wallet = v, mr_name = n, mr_appliedAt = now\<rparr>) names\<rparr>"

lemma with_markers_simps [simp]:
  "wd_wallets (with_markers now v ns db) = wd_wallets db" "wd_walletSeq (with_markers now v ns db) = wd_walletSeq db"
  "find_row u (with_markers now v ns db) = find_row u db"
  "marker_names (with_markers now v ns db) u = marker_names db u @ (if u = v then ns else [])"
proof -
  have "filter (\<lambda>m. mr_wallet m = u) (map (\<lambda>n. \<lparr>mr_wallet = v, mr_name = n, mr_appliedAt = now\<rparr>) ns) =
      (if u = v then map (\<lambda>n. \<lparr>mr_wallet = v, mr_name = n, mr_appliedAt = now\<rparr>) ns else [])" by (induction ns) auto
  then show "marker_names (with_markers now v ns db) u = marker_names db u @ (if u = v then ns else [])"
    by (simp add: marker_names_def with_markers_def listAppliedWalletDataMigrationNames_def comp_def)
qed (simp_all add: with_markers_def find_row_def)

lemma record_markers:
  "recordWalletDataMigrationsApplied now v names db =
     (if distinct names \<and> set names \<inter> set (marker_names db v) = {} then (Inr (), with_markers now v names db)
      else (Inl ''UNIQUE constraint failed: wallet_data_migrations.wallet_id, wallet_data_migrations.migration_name'', db))"
  by (simp add: recordWalletDataMigrationsApplied_def with_markers_def marker_names_def)

lemma db_ok_markers: "db_ok db \<Longrightarrow> v \<le> wd_walletSeq db \<Longrightarrow> db_ok (with_markers now v names db)"
  by (auto simp: db_ok_def with_markers_def list_all_iff)

text \<open>The write of a task: either it commits, or nothing changes.\<close>

definition commit_db :: "string \<Rightarrow> int \<Rightarrow> blob \<Rightarrow> int \<Rightarrow> string list \<Rightarrow> walletDb \<Rightarrow> walletDb" where
  "commit_db now v p n names db = with_markers now v names (update_rows (\<lambda>r. sr_wallet r = v \<and> sr_revision r = n) (written_row now p None) db)"

lemma put_alongside:
  assumes "db_ok db"
  shows "putPayloadAndWriteAlongsideIfRevisionMatches now v p n (recordWalletDataMigrationsApplied now v names) db =
    (if v \<notin> set (wd_wallets db) then (Inl (''Wallet with id '' @ int_str v @ '' not found''), db)
     else if \<not> (\<exists>r. find_row v db = Some r \<and> sr_revision r = n) then (Inr False, db)
     else if distinct names \<and> set names \<inter> set (marker_names db v) = {} then (Inr True, commit_db now v p n names db)
     else (Inl ''UNIQUE constraint failed: wallet_data_migrations.wallet_id, wallet_data_migrations.migration_name'', db))"
proof (cases "\<exists>r. find_row v db = Some r \<and> sr_revision r = n")
  case True
  then show ?thesis
    by (simp add: putPayloadAndWriteAlongsideIfRevisionMatches_def in_transaction_def op_bind_apply put_if_matches[OF assms] record_markers commit_db_def)
next
  case False
  then have "(\<exists>r. find_row v db = Some r \<and> sr_revision r = n) = False" by blast
  then show ?thesis
    using update_rows_none[OF assms False]
    by (simp only: putPayloadAndWriteAlongsideIfRevisionMatches_def in_transaction_def op_bind_apply put_if_matches[OF assms]) simp
qed

lemma commit_effect:
  assumes "db_ok db" and "find_row v db = Some r" "sr_revision r = n"
  shows "find_row u (commit_db now v p n names db) = (if u = v then Some (written_row now p None r) else find_row u db)"
    and "marker_names (commit_db now v p n names db) u = marker_names db u @ (if u = v then names else [])"
    and "wd_walletSeq (commit_db now v p n names db) = wd_walletSeq db"
    and "db_ok (commit_db now v p n names db)"
proof -
  show "find_row u (commit_db now v p n names db) = (if u = v then Some (written_row now p None r) else find_row u db)"
    using assms(2,3) find_row_wallet[of u db] by (cases "find_row u db") (auto simp: commit_db_def find_row_update)
  have "v \<le> wd_walletSeq db" using assms(1) find_row_wallet[OF assms(2)] by (auto simp: db_ok_def list_all_iff)
  then show "db_ok (commit_db now v p n names db)" using assms(1) by (simp add: commit_db_def db_ok_markers db_ok_update)
qed (simp_all add: commit_db_def)

text \<open>The unconditional write of rows that exist, one after the other.\<close>

lemma put_existing:
  assumes "db_ok db" and "find_row v db = Some r" and "v \<in> set (wd_wallets db)"
  shows "putSplitWalletSecretsEncrypted now v p m db = (Inr (), update_rows (\<lambda>x. sr_wallet x = v) (written_row now p m) db)"
proof -
  have "sr_id x = sr_id r \<longleftrightarrow> sr_wallet x = v" if "x \<in> set (wd_secrets db)" for x
    using assms(1) that find_row_wallet[OF assms(2)] by (auto simp: db_ok_def distinct_map dest: inj_onD)
  then have "update_rows (\<lambda>x. sr_id x = sr_id r) f db = update_rows (\<lambda>x. sr_wallet x = v) f db" for f
    by (simp add: update_rows_def)
  then show ?thesis using assms(2,3) by (simp add: putSplitWalletSecretsEncrypted_def op_bind_apply assertWalletExists_def)
qed

definition put_rows :: "string \<Rightarrow> (int \<times> splitBlobs) list \<Rightarrow> walletDb \<Rightarrow> walletDb" where
  "put_rows now blobs db = fold (\<lambda>(i, b). update_rows (\<lambda>x. sr_wallet x = i) (written_row now (sb_payload b) (Some (sb_mnemonic b)))) blobs db"

lemma put_all_existing:
  assumes "db_ok db" and "list_all (\<lambda>(i, b). find_row i db \<noteq> None) blobs"
  shows "put_all now blobs db = (Inr (), put_rows now blobs db) \<or> (\<exists>e t. put_all now blobs db = (Inl e, t))"
  using assms
proof (induction blobs arbitrary: db)
  case (Cons ib blobs)
  obtain i b where ib: "ib = (i, b)" by fastforce
  obtain r where r: "find_row i db = Some r" using Cons.prems ib by auto
  let ?db = "update_rows (\<lambda>x. sr_wallet x = i) (written_row now (sb_payload b) (Some (sb_mnemonic b))) db"
  show ?case
  proof (cases "i \<in> set (wd_wallets db)")
    case True
    have "db_ok ?db" "list_all (\<lambda>(i, b). find_row i ?db \<noteq> None) blobs"
      using Cons.prems by (simp_all add: db_ok_update find_row_update)
    from Cons.IH[OF this] show ?thesis
      using put_existing[OF Cons.prems(1) r True] by (auto simp: ib op_bind_apply put_rows_def)
  next
    case False
    then show ?thesis by (simp add: ib op_bind_apply putSplitWalletSecretsEncrypted_def assertWalletExists_def)
  qed
qed (simp add: put_rows_def)

lemma put_rows_effect:
  "distinct (map fst blobs) \<Longrightarrow> find_row v (put_rows now blobs db) =
     (case map_of blobs v of
        Some b \<Rightarrow> map_option (written_row now (sb_payload b) (Some (sb_mnemonic b))) (find_row v db)
      | None \<Rightarrow> find_row v db)"
  "wd_walletSeq (put_rows now blobs db) = wd_walletSeq db" "marker_names (put_rows now blobs db) v = marker_names db v"
  "wd_wallets (put_rows now blobs db) = wd_wallets db" "db_ok db \<Longrightarrow> db_ok (put_rows now blobs db)"
proof -
  show "wd_walletSeq (put_rows now blobs db) = wd_walletSeq db" "marker_names (put_rows now blobs db) v = marker_names db v"
    "wd_wallets (put_rows now blobs db) = wd_wallets db" "db_ok db \<Longrightarrow> db_ok (put_rows now blobs db)"
    by (induction blobs arbitrary: db) (auto simp: put_rows_def db_ok_update)
  show "distinct (map fst blobs) \<Longrightarrow> find_row v (put_rows now blobs db) =
     (case map_of blobs v of
        Some b \<Rightarrow> map_option (written_row now (sb_payload b) (Some (sb_mnemonic b))) (find_row v db)
      | None \<Rightarrow> find_row v db)"
  proof (induction blobs arbitrary: db)
    case (Cons ib blobs)
    obtain i b where ib: "ib = (i, b)" by fastforce
    let ?db = "update_rows (\<lambda>x. sr_wallet x = i) (written_row now (sb_payload b) (Some (sb_mnemonic b))) db"
    have none: "map_of blobs i = None" using Cons.prems ib by (simp add: map_of_eq_None_iff)
    have one: "find_row v ?db = (if v = i then map_option (written_row now (sb_payload b) (Some (sb_mnemonic b))) (find_row v db) else find_row v db)"
      using find_row_wallet[of v db] by (cases "find_row v db") (auto simp: find_row_update)
    have "find_row v (put_rows now (ib # blobs) db) = find_row v (put_rows now blobs ?db)" by (simp add: ib put_rows_def)
    also have "\<dots> = (case map_of blobs v of
        Some b \<Rightarrow> map_option (written_row now (sb_payload b) (Some (sb_mnemonic b))) (find_row v ?db) | None \<Rightarrow> find_row v ?db)"
      using Cons by simp
    finally show ?case unfolding one using none by (simp add: ib)
  qed (simp add: put_rows_def)
qed

text \<open>A new wallet.\<close>

lemma new_wallet:
  assumes "db_ok db"
  shows "\<exists>t. persistNewWalletWithSecrets (\<lambda>i p m. putSplitWalletSecretsEncrypted now i p (Some m)) now blobs db = (Inr (wd_walletSeq db + 1), t) \<and>
    wd_walletSeq t = wd_walletSeq db + 1 \<and> db_ok t \<and>
    (\<forall>v. v \<le> wd_walletSeq db \<longrightarrow> find_row v t = find_row v db \<and> marker_names t v = marker_names db v) \<and>
    map_option (\<lambda>r. (sr_revision r, sr_payload r, sr_mnemonic r)) (find_row (wd_walletSeq db + 1) t) = Some (0, sb_payload blobs, sb_mnemonic blobs) \<and>
    marker_names t (wd_walletSeq db + 1) = [SIGNET_NETWORK_SPLIT_DATA_MIGRATION_NAME]"
proof -
  let ?i = "wd_walletSeq db + 1"
  let ?db = "db\<lparr>wd_walletSeq := ?i, wd_wallets := wd_wallets db @ [?i]\<rparr>"
  let ?row = "\<lparr>sr_id = wd_secretsSeq db + 1, sr_wallet = ?i, sr_revision = 0, sr_payload = sb_payload blobs, sr_mnemonic = sb_mnemonic blobs,
    sr_created = now, sr_updated = now\<rparr>"
  let ?t = "with_markers now ?i [SIGNET_NETWORK_SPLIT_DATA_MIGRATION_NAME]
    (?db\<lparr>wd_secretsSeq := wd_secretsSeq db + 1, wd_secrets := wd_secrets db @ [?row]\<rparr>)"
  have fresh: "sr_wallet r \<noteq> ?i" "sr_id r \<noteq> wd_secretsSeq db + 1" if "r \<in> set (wd_secrets db)" for r
    using assms that by (auto simp: db_ok_def list_all_iff)
  then have none: "find_row ?i ?db = None" by (force simp: find_row_None)
  have marks: "marker_names db ?i = []"
    using assms by (auto simp: marker_names_def listAppliedWalletDataMigrationNames_def db_ok_def list_all_iff filter_empty_conv)
  then have "set [SIGNET_NETWORK_SPLIT_DATA_MIGRATION_NAME] \<inter> set (marker_names (?db\<lparr>wd_secretsSeq := wd_secretsSeq db + 1,
      wd_secrets := wd_secrets db @ [?row]\<rparr>) ?i) = {}"
    by (simp add: marker_names_def listAppliedWalletDataMigrationNames_def)
  then have "persistNewWalletWithSecrets (\<lambda>i p m. putSplitWalletSecretsEncrypted now i p (Some m)) now blobs db = (Inr ?i, ?t)"
    using none by (simp add: persistNewWalletWithSecrets_def insertWalletRow_def op_bind_apply in_transaction_def putSplitWalletSecretsEncrypted_def
        assertWalletExists_def recordAllWalletDataMigrationsApplied_def record_markers)
  moreover have find: "find_row v ?t = (if v = ?i then Some ?row else find_row v db)" for v
  proof -
    have "List.find (\<lambda>r. sr_wallet r = v) (rows @ [?row]) = (if v = ?i then Some ?row else List.find (\<lambda>r. sr_wallet r = v) rows)"
      if "\<And>r. r \<in> set rows \<Longrightarrow> sr_wallet r \<noteq> ?i" for rows using that by (induction rows) auto
    then show ?thesis using fresh by (simp add: find_row_def with_markers_def)
  qed
  moreover have "marker_names ?t v = marker_names db v @ (if v = ?i then [SIGNET_NETWORK_SPLIT_DATA_MIGRATION_NAME] else [])" for v
    unfolding with_markers_simps by (simp add: marker_names_def listAppliedWalletDataMigrationNames_def)
  moreover have "db_ok ?t"
    using assms fresh by (auto simp: db_ok_def with_markers_def list_all_iff)
  ultimately show ?thesis using marks by (intro exI[of _ ?t]) simp
qed

section \<open>What every event keeps\<close>

text \<open>A row that was there before is unchanged, with its markers, or has a larger revision.\<close>

definition db_evolves :: "walletDb \<Rightarrow> walletDb \<Rightarrow> bool" where
  "db_evolves db db' \<longleftrightarrow>
     wd_walletSeq db \<le> wd_walletSeq db' \<and>
     (\<forall>v r'. v \<le> wd_walletSeq db \<and> find_row v db' = Some r' \<longrightarrow>
        (\<exists>r. find_row v db = Some r \<and>
          (r' = r \<and> marker_names db' v = marker_names db v \<or> sr_revision r < sr_revision r')))"

lemma evolves_refl [simp]: "db_evolves db db"
  by (simp add: db_evolves_def)

lemma evolves_commit:
  assumes "db_ok db" and "find_row v db = Some r" "sr_revision r = n"
  shows "db_evolves db (commit_db now v p n names db)"
  using assms(2) by (auto simp: db_evolves_def commit_effect[OF assms])

lemma evolves_put_rows:
  assumes "distinct (map fst blobs)"
  shows "db_evolves db (put_rows now blobs db)"
  by (auto simp: db_evolves_def put_rows_effect(2,3) put_rows_effect(1)[OF assms] split: option.splits)

lemma evolves_new:
  assumes "db_ok db"
  shows "db_evolves db (snd (persistNewWalletWithSecrets (\<lambda>i p m. putSplitWalletSecretsEncrypted now i p (Some m)) now blobs db))"
  using new_wallet[OF assms, of now blobs] by (auto simp: db_evolves_def)

lemma find_row_deletes:
  "find_row v (snd (deleteWalletSecrets u db)) = (if v = u then None else find_row v db)"
  "find_row v (snd (deleteWalletDataMigrationMarkers u db)) = find_row v db" "find_row v (snd (delete_wallet_row u db)) = find_row v db"
proof -
  have find: "List.find (\<lambda>r. sr_wallet r = v) (filter (\<lambda>r. sr_wallet r \<noteq> u) rows) = (if v = u then None else List.find (\<lambda>r. sr_wallet r = v) rows)" for rows
    by (induction rows) auto
  have "wd_secrets (snd (deleteWalletSecrets u db)) = filter (\<lambda>r. sr_wallet r \<noteq> u) (wd_secrets db)" by (simp add: deleteWalletSecrets_def)
  then show "find_row v (snd (deleteWalletSecrets u db)) = (if v = u then None else find_row v db)"
    unfolding find_row_def by (simp only: find)
qed (simp_all add: find_row_def deleteWalletDataMigrationMarkers_def delete_wallet_row_def)

lemma marker_names_deletes:
  "marker_names (snd (deleteWalletSecrets u db)) v = marker_names db v" "marker_names (snd (delete_wallet_row u db)) v = marker_names db v"
  "v \<noteq> u \<Longrightarrow> marker_names (snd (deleteWalletDataMigrationMarkers u db)) v = marker_names db v"
proof -
  show "v \<noteq> u \<Longrightarrow> marker_names (snd (deleteWalletDataMigrationMarkers u db)) v = marker_names db v"
    unfolding marker_names_def listAppliedWalletDataMigrationNames_def deleteWalletDataMigrationMarkers_def by (simp add: conj_commute) metis
qed (simp_all add: marker_names_def listAppliedWalletDataMigrationNames_def deleteWalletSecrets_def delete_wallet_row_def)

lemma deletes_keep:
  "wd_walletSeq (snd (deleteWalletSecrets u db)) = wd_walletSeq db" "wd_walletSeq (snd (deleteWalletDataMigrationMarkers u db)) = wd_walletSeq db"
  "wd_walletSeq (snd (delete_wallet_row u db)) = wd_walletSeq db"
  "db_ok db \<Longrightarrow> db_ok (snd (deleteWalletSecrets u db))" "db_ok db \<Longrightarrow> db_ok (snd (deleteWalletDataMigrationMarkers u db))"
  "db_ok db \<Longrightarrow> db_ok (snd (delete_wallet_row u db))"
  by (auto simp: deleteWalletSecrets_def deleteWalletDataMigrationMarkers_def delete_wallet_row_def db_ok_def list_all_iff distinct_map_filter)

text \<open>What a task knows: as long as the revision is the one it read, the payload is the one it read and none
  of the names it computed is marked.\<close>

definition fresh_read :: "walletDb \<Rightarrow> int \<Rightarrow> blob \<Rightarrow> int \<Rightarrow> string list \<Rightarrow> bool" where
  "fresh_read db v p n names \<longleftrightarrow>
     v \<le> wd_walletSeq db \<and>
     (\<forall>r. find_row v db = Some r \<longrightarrow>
        n \<le> sr_revision r \<and> (sr_revision r = n \<longrightarrow> sr_payload r = p \<and> set names \<inter> set (marker_names db v) = {}))"

lemma fresh_read_evolves: "fresh_read db v p n names \<Longrightarrow> db_evolves db db' \<Longrightarrow> fresh_read db' v p n names"
  unfolding fresh_read_def db_evolves_def by (smt (verit, ccfv_SIG) order_trans order_less_imp_le order_less_le_trans)

definition pending_only :: "updateTask \<Rightarrow> bool" where
  "pending_only t \<longleftrightarrow>
     (\<forall>k db p p' names. ut_transform t k db p = Inr (p', names) \<longrightarrow>
        distinct names \<and> set names \<inter> set (marker_names db (ut_wallet t)) = {})"

definition task_ok :: "walletDb \<Rightarrow> updateTask \<Rightarrow> bool" where
  "task_ok db t \<longleftrightarrow>
     (case ut_phase t of
        Transforming k p n \<Rightarrow> fresh_read db (ut_wallet t) p n []
      | Writing k p p' n names \<Rightarrow> 
          (\<exists>d. ut_transform t k d p = Inr (p', names)) \<and> fresh_read db (ut_wallet t) p n [] \<and>
          (pending_only t \<longrightarrow> distinct names \<and> fresh_read db (ut_wallet t) p n names)
      | _ \<Rightarrow> True)"

lemma task_ok_evolves: "task_ok db t \<Longrightarrow> db_evolves db db' \<Longrightarrow> task_ok db' t"
  by (auto simp: task_ok_def split: updatePhase.splits intro: fresh_read_evolves)

lemma start_attempt_ok [simp]: "task_ok db (t\<lparr>ut_phase := start_attempt m k\<rparr>)" "start_attempt m k \<noteq> Returned"
  by (auto simp: task_ok_def start_attempt_def)

lemma update_static:
  "ut_wallet (update_read db t) = ut_wallet t" "ut_transform (update_read db t) = ut_transform t"
  "ut_wallet (update_compute db t) = ut_wallet t" "ut_transform (update_compute db t) = ut_transform t"
  "ut_wallet (fst (update_write now db t)) = ut_wallet t" "ut_transform (fst (update_write now db t)) = ut_transform t"
  by (auto simp: update_read_def update_compute_def update_write_def split: updatePhase.splits sum.splits bool.splits prod.splits)

lemma update_returned:
  "ut_phase (update_read db t) = Returned \<longleftrightarrow> ut_phase t = Returned" "ut_phase (update_compute db t) = Returned \<longleftrightarrow> ut_phase t = Returned"
  by (auto simp: update_read_def update_compute_def split: updatePhase.splits sum.splits)

lemma update_read_ok:
  assumes "db_ok db" "task_ok db t"
  shows "task_ok db (update_read db t)"
proof -
  have "v \<le> wd_walletSeq db" if "find_row v db = Some r" for v r
    using assms(1) find_row_wallet[OF that] by (auto simp: db_ok_def list_all_iff)
  then show "task_ok db (update_read db t)"
    using assms(2)
    by (cases "ut_phase t"; cases "find_row (ut_wallet t) db")
       (auto simp: update_read_def getWalletSecretsEncryptedWithRevision_def task_ok_def fresh_read_def)
qed

lemma update_compute_ok:
  assumes "task_ok db t"
  shows "task_ok db (update_compute db t)"
proof (cases "ut_phase t")
  case (Transforming k p n)
  then have fresh: "fresh_read db (ut_wallet t) p n []" using assms by (simp add: task_ok_def)
  show ?thesis
  proof (cases "ut_transform t k db p")
    case (Inr res)
    obtain p' names where res: "res = (p', names)" by fastforce
    let ?t = "t\<lparr>ut_phase := Writing k p p' n names\<rparr>"
    have "distinct names \<and> fresh_read db (ut_wallet t) p n names" if "pending_only ?t"
      using that fresh Inr res by (auto simp: pending_only_def fresh_read_def)
    then show ?thesis using Transforming Inr res fresh by (auto simp: update_compute_def task_ok_def)
  qed (use Transforming in \<open>simp add: update_compute_def task_ok_def\<close>)
qed (use assms in \<open>auto simp: update_compute_def\<close>)

text \<open>The write of a task, by cases.\<close>

lemma update_write_cases:
  assumes "db_ok db" "task_ok db t"
  obtains (kept) t' where "update_write now db t = (t', db)" "task_ok db t'" "ut_phase t' = Returned \<longleftrightarrow> ut_phase t = Returned"
    "ut_phase t = Returned \<Longrightarrow> t' = t"
  | (committed) k p p' n names r where "ut_phase t = Writing k p p' n names" "find_row (ut_wallet t) db = Some r" "sr_revision r = n" "sr_payload r = p"
    "distinct names" "set names \<inter> set (marker_names db (ut_wallet t)) = {}"
    "update_write now db t = (t\<lparr>ut_phase := Returned\<rparr>, commit_db now (ut_wallet t) p' n names db)"
proof (cases "ut_phase t")
  case (Writing k p p' n names)
  note put = put_alongside[OF assms(1), of now "ut_wallet t" p' n names]
  show ?thesis
  proof (cases "ut_wallet t \<in> set (wd_wallets db) \<and> (\<exists>r. find_row (ut_wallet t) db = Some r \<and> sr_revision r = n) \<and>
      distinct names \<and> set names \<inter> set (marker_names db (ut_wallet t)) = {}")
    case True
    then obtain r where r: "find_row (ut_wallet t) db = Some r" "sr_revision r = n" by blast
    moreover from r have "sr_payload r = p" using assms(2) Writing by (simp add: task_ok_def fresh_read_def)
    moreover have "update_write now db t = (t\<lparr>ut_phase := Returned\<rparr>, commit_db now (ut_wallet t) p' n names db)"
      using True put by (auto simp: update_write_def Writing)
    ultimately show ?thesis using True Writing by (intro committed) auto
  next
    case False
    have "task_ok db (t\<lparr>ut_phase := Threw e\<rparr>)" for e by (simp add: task_ok_def)
    moreover obtain t' where "update_write now db t = (t', db)" "(\<exists>e. t' = t\<lparr>ut_phase := Threw e\<rparr>) \<or> t' = t\<lparr>ut_phase := start_attempt (ut_maxRetries t) (k + 1)\<rparr>"
      using False put by (auto simp: update_write_def Writing split: if_splits)
    ultimately show ?thesis using Writing by (intro kept[of t']) auto
  qed
next
  case (Reading k)
  then show ?thesis using assms by (intro kept[of t]) (simp_all add: update_write_def)
next
  case (Transforming k p n)
  then show ?thesis using assms by (intro kept[of t]) (simp_all add: update_write_def)
next
  case Returned
  then show ?thesis using assms by (intro kept[of t]) (simp_all add: update_write_def)
next
  case (Threw e)
  then show ?thesis using assms by (intro kept[of t]) (simp_all add: update_write_def)
qed

section \<open>No update is lost\<close>

text \<open>Each write of the list replaces the payload the write before it left.\<close>

fun chained :: "blob \<Rightarrow> payloadCommit list \<Rightarrow> blob \<Rightarrow> bool" where
  "chained p [] q \<longleftrightarrow> p = q"
| "chained p (c # cs) q \<longleftrightarrow> co_before c = p \<and> chained (co_after c) cs q"

lemma chained_append: "chained p (xs @ ys) q \<longleftrightarrow> (\<exists>m. chained p xs m \<and> chained m ys q)"
  by (induction xs arbitrary: p) auto

definition commits_of :: "int \<Rightarrow> secretsWorld \<Rightarrow> payloadCommit list" where
  "commits_of w s = filter (\<lambda>c. co_wallet c = w) (wo_log s)"

definition commit_ok :: "updateTask list \<Rightarrow> payloadCommit \<Rightarrow> bool" where
  "commit_ok ts c \<longleftrightarrow>
     (case co_task c of
        None \<Rightarrow> co_names c = []
      | Some i \<Rightarrow> i < length ts \<and> ut_wallet (ts ! i) = co_wallet c \<and> ut_phase (ts ! i) = Returned \<and>
          (\<exists>k d. ut_transform (ts ! i) k d (co_before c) = Inr (co_after c, co_names c)))"

definition commits_by :: "nat \<Rightarrow> payloadCommit list \<Rightarrow> nat" where
  "commits_by i cs = length (filter (\<lambda>c. co_task c = Some i) cs)"

definition tasks_ok :: "secretsWorld \<Rightarrow> bool" where
  "tasks_ok s \<longleftrightarrow>
     db_ok (wo_db s) \<and> list_all (task_ok (wo_db s)) (wo_tasks s) \<and> list_all (commit_ok (wo_tasks s)) (wo_log s) \<and>
     (\<forall>i < length (wo_tasks s). commits_by i (wo_log s) = (if ut_phase (wo_tasks s ! i) = Returned then 1 else 0))"

definition row_ok :: "int \<Rightarrow> blob \<Rightarrow> int \<Rightarrow> string list \<Rightarrow> secretsWorld \<Rightarrow> bool" where
  "row_ok w p0 n0 m0 s \<longleftrightarrow>
     w \<le> wd_walletSeq (wo_db s) \<and>
     (\<forall>r. find_row w (wo_db s) = Some r \<longrightarrow>
        chained p0 (commits_of w s) (sr_payload r) \<and> sr_revision r = n0 + int (length (commits_of w s)) \<and>
        marker_names (wo_db s) w = m0 @ concat (map co_names (commits_of w s)) \<and> distinct (marker_names (wo_db s) w))"

text \<open>Events that change neither the tasks nor the log.\<close>

lemma db_only:
  assumes "tasks_ok s" and "db_evolves (wo_db s) db'" "db_ok db'"
  shows "tasks_ok (s\<lparr>wo_db := db'\<rparr>)"
  using assms(1,3) task_ok_evolves[OF _ assms(2)] by (simp add: tasks_ok_def list_all_iff)

lemma row_kept:
  assumes "row_ok w p0 n0 m0 s" and "wd_walletSeq (wo_db s) \<le> wd_walletSeq db'"
    and "\<And>r. find_row w db' = Some r \<Longrightarrow> find_row w (wo_db s) = Some r \<and> marker_names db' w = marker_names (wo_db s) w"
  shows "row_ok w p0 n0 m0 (s\<lparr>wo_db := db'\<rparr>)"
proof -
  have "commits_of w (s\<lparr>wo_db := db'\<rparr>) = commits_of w s" by (simp add: commits_of_def)
  then show ?thesis using assms(1,2) assms(3) unfolding row_ok_def by fastforce
qed


text \<open>Steps of one task that do not commit.\<close>

lemma commit_ok_update:
  assumes "commit_ok ts c" and "i < length ts" "ut_wallet t' = ut_wallet (ts ! i)" "ut_transform t' = ut_transform (ts ! i)"
    and "ut_phase (ts ! i) = Returned \<Longrightarrow> ut_phase t' = Returned"
  shows "commit_ok (ts[i := t']) c"
  using assms by (auto simp: commit_ok_def nth_list_update split: option.splits)

lemma task_only:
  assumes "tasks_ok s" and "i < length (wo_tasks s)" and "task_ok (wo_db s) t'"
    and "ut_wallet t' = ut_wallet (wo_tasks s ! i)" "ut_transform t' = ut_transform (wo_tasks s ! i)"
    and "ut_phase t' = Returned \<longleftrightarrow> ut_phase (wo_tasks s ! i) = Returned"
  shows "tasks_ok (s\<lparr>wo_tasks := (wo_tasks s)[i := t']\<rparr>)"
proof -
  have "list_all (commit_ok ((wo_tasks s)[i := t'])) (wo_log s)"
    using assms by (auto simp: tasks_ok_def list_all_iff intro: commit_ok_update)
  moreover have "list_all (task_ok (wo_db s)) ((wo_tasks s)[i := t'])"
    using assms(1,3) set_update_subset_insert[of "wo_tasks s" i t'] by (auto simp: tasks_ok_def list_all_iff)
  ultimately show ?thesis using assms(1,2,6) by (auto simp: tasks_ok_def nth_list_update)
qed

lemma with_task_keeps:
  assumes "tasks_ok s" and "\<And>t. t \<in> set (wo_tasks s) \<Longrightarrow> task_ok (wo_db s) (f t)"
    and "\<And>t. ut_wallet (f t) = ut_wallet t" "\<And>t. ut_transform (f t) = ut_transform t"
    and "\<And>t. ut_phase (f t) = Returned \<longleftrightarrow> ut_phase t = Returned"
  shows "tasks_ok (with_task i f s)"
  using assms by (auto simp: with_task_def intro!: task_only)

lemma row_ok_tasks: "row_ok w p0 n0 m0 (s\<lparr>wo_tasks := ts\<rparr>) \<longleftrightarrow> row_ok w p0 n0 m0 s"
  by (simp add: row_ok_def commits_of_def)

lemma row_ok_with_task: "row_ok w p0 n0 m0 (with_task i f s) \<longleftrightarrow> row_ok w p0 n0 m0 s"
  by (simp add: with_task_def row_ok_tasks)

lemma submit_keeps:
  assumes "tasks_ok s"
  shows "tasks_ok (secrets_event (SubmitUpdate t) s)"
proof -
  let ?t = "t\<lparr>ut_phase := start_attempt (ut_maxRetries t) 1\<rparr>"
  have none: "commits_by (length (wo_tasks s)) (wo_log s) = 0"
    using assms by (auto simp: tasks_ok_def commits_by_def filter_empty_conv list_all_iff commit_ok_def split: option.splits)
  have "commit_ok (wo_tasks s @ [?t]) c" if "commit_ok (wo_tasks s) c" for c
    using that by (auto simp: commit_ok_def nth_append split: option.splits)
  then have "list_all (commit_ok (wo_tasks s @ [?t])) (wo_log s)" using assms by (auto simp: tasks_ok_def list_all_iff)
  moreover have "commits_by i (wo_log s) = (if ut_phase ((wo_tasks s @ [?t]) ! i) = Returned then 1 else 0)" if "i < Suc (length (wo_tasks s))" for i
  proof (cases "i = length (wo_tasks s)")
    case False
    then show ?thesis using that assms by (simp add: tasks_ok_def nth_append)
  qed (simp add: none)
  ultimately show ?thesis using assms by (simp add: tasks_ok_def del: One_nat_def)
qed

text \<open>The write of a task.\<close>

lemma commit_keeps:
  fixes s i now
  defines "t \<equiv> wo_tasks s ! i"
  assumes "tasks_ok s" "row_ok w p0 n0 m0 s" "i < length (wo_tasks s)"
    and wr: "ut_phase t = Writing k p p' n names" "find_row (ut_wallet t) (wo_db s) = Some r" "sr_revision r = n" "sr_payload r = p"
      "distinct names" "set names \<inter> set (marker_names (wo_db s) (ut_wallet t)) = {}"
    and c: "c = \<lparr>co_task = Some i, co_wallet = ut_wallet t, co_before = p, co_after = p', co_names = names\<rparr>"
    and s': "s' = s\<lparr>wo_tasks := (wo_tasks s)[i := t\<lparr>ut_phase := Returned\<rparr>], wo_db := commit_db now (ut_wallet t) p' n names (wo_db s),
      wo_log := wo_log s @ [c]\<rparr>"
  shows "tasks_ok s' \<and> row_ok w p0 n0 m0 s'"
proof
  have ok: "db_ok (wo_db s)" "task_ok (wo_db s) t" using assms(2,4) by (auto simp: tasks_ok_def list_all_iff t_def)
  note effect = commit_effect[OF ok(1) wr(2,3), where now = now and p = p' and names = names]
  let ?ts = "(wo_tasks s)[i := t\<lparr>ut_phase := Returned\<rparr>]"
  have "list_all (task_ok (wo_db s')) ?ts"
    using assms(2) set_update_subset_insert[of "wo_tasks s" i "t\<lparr>ut_phase := Returned\<rparr>"]
      task_ok_evolves[OF _ evolves_commit[OF ok(1) wr(2,3), where now = now and p = p' and names = names]]
    by (auto simp: tasks_ok_def list_all_iff s' task_ok_def[of _ "t\<lparr>ut_phase := Returned\<rparr>"])
  moreover have "commit_ok ?ts c"
    using ok(2) assms(4) by (auto simp: task_ok_def wr(1) commit_ok_def c)
  moreover have "list_all (commit_ok ?ts) (wo_log s)"
    using assms(2,4) by (auto simp: tasks_ok_def list_all_iff t_def intro!: commit_ok_update)
  moreover have "commits_by j (wo_log s @ [c]) = (if ut_phase (?ts ! j) = Returned then 1 else 0)" if "j < length (wo_tasks s)" for j
    using assms(2,4) that wr(1) by (auto simp: tasks_ok_def commits_by_def c nth_list_update t_def)
  ultimately show "tasks_ok s'" using effect(4) by (simp add: tasks_ok_def s')
  have commits: "commits_of w s' = commits_of w s @ (if w = ut_wallet t then [c] else [])" by (simp add: commits_of_def s' c)
  show "row_ok w p0 n0 m0 s'"
  proof (cases "w = ut_wallet t")
    case True
    then have row: "chained p0 (commits_of w s) p" "n = n0 + int (length (commits_of w s))"
      "marker_names (wo_db s) w = m0 @ concat (map co_names (commits_of w s))" "distinct (marker_names (wo_db s) w)"
      using assms(3) wr(2-4) unfolding row_ok_def by blast+
    have new: "find_row w (wo_db s') = Some (written_row now p' None r)" "marker_names (wo_db s') w = marker_names (wo_db s) w @ names"
      "wd_walletSeq (wo_db s') = wd_walletSeq (wo_db s)"
      using True effect by (simp_all add: s')
    have log: "chained p0 (commits_of w s') p'" "concat (map co_names (commits_of w s')) = concat (map co_names (commits_of w s)) @ names"
      "length (commits_of w s') = length (commits_of w s) + 1"
      unfolding commits using row(1) True by (auto simp: chained_append c)
    have "distinct (marker_names (wo_db s') w)" using new(2) row(4) wr(5,6) True by auto
    moreover have "marker_names (wo_db s') w = m0 @ concat (map co_names (commits_of w s'))" using new(2) row(3) log(2) by simp
    moreover have "sr_revision (written_row now p' None r) = n0 + int (length (commits_of w s'))" using row(2) wr(3) log(3) by simp
    moreover have "w \<le> wd_walletSeq (wo_db s')" using assms(3) new(3) by (simp add: row_ok_def)
    ultimately show ?thesis using new(1) log(1) unfolding row_ok_def by simp
  next
    case False
    then have same: "commits_of w s' = commits_of w s" "find_row w (wo_db s') = find_row w (wo_db s)" "marker_names (wo_db s') w = marker_names (wo_db s) w"
      "wd_walletSeq (wo_db s') = wd_walletSeq (wo_db s)"
      using commits effect by (simp_all add: s')
    show ?thesis using assms(3) unfolding row_ok_def same .
  qed
qed

lemma write_keeps:
  assumes "tasks_ok s" "row_ok w p0 n0 m0 s"
  shows "tasks_ok (secrets_event (TaskWrite i now) s) \<and> row_ok w p0 n0 m0 (secrets_event (TaskWrite i now) s)"
proof (cases "i < length (wo_tasks s)")
  case True
  let ?t = "wo_tasks s ! i"
  have ok: "db_ok (wo_db s)" "task_ok (wo_db s) ?t" using assms(1) True by (auto simp: tasks_ok_def list_all_iff)
  from ok show ?thesis
  proof (cases rule: update_write_cases[where now = now])
    case (kept t')
    have log: "(if ut_phase t' = Returned then map (replaced (wo_db s)) (commit_of i ?t) else []) = []"
      using kept by (auto simp: commit_of_def)
    have "ut_wallet t' = ut_wallet ?t" "ut_transform t' = ut_transform ?t"
      using kept(1) update_static(5,6)[of now "wo_db s" ?t] by auto
    then have "tasks_ok (s\<lparr>wo_tasks := (wo_tasks s)[i := t']\<rparr>)" by (intro task_only[OF assms(1) True kept(2)]) (use kept in auto)
    then show ?thesis using assms(2) kept log True by (simp add: row_ok_tasks)
  next
    case (committed k p p' n names r)
    have "replaced (wo_db s) \<lparr>co_task = Some i, co_wallet = ut_wallet ?t, co_before = p, co_after = p', co_names = names\<rparr> =
        \<lparr>co_task = Some i, co_wallet = ut_wallet ?t, co_before = p, co_after = p', co_names = names\<rparr>"
      using committed by (simp add: replaced_def stored_payload_def)
    then show ?thesis
      using commit_keeps[OF assms True committed(1-6) refl refl, where now = now] committed True by (simp add: commit_of_def)
  qed
qed (use assms in simp)


text \<open>Re-encryption.\<close>

lemma reencrypt_commits_of:
  assumes "distinct (map fst blobs)"
  shows "filter (\<lambda>c. co_wallet c = w) (reencrypt_commits db blobs) =
    (case map_of blobs w of
       Some b \<Rightarrow> [replaced db \<lparr>co_task = None, co_wallet = w, co_before = sb_payload b, co_after = sb_payload b, co_names = []\<rparr>]
     | None \<Rightarrow> [])"
proof -
  have [simp]: "co_wallet (replaced db c) = co_wallet c" for c by (simp add: replaced_def split: option.split)
  have none: "filter (\<lambda>c. co_wallet c = w) (reencrypt_commits db xs) = []" if "map_of xs w = None" for xs
    using that by (induction xs) (auto simp: reencrypt_commits_def split: if_splits)
  show ?thesis using assms
  proof (induction blobs)
    case (Cons ib blobs)
    obtain i b where ib: "ib = (i, b)" by fastforce
    have "map_of blobs i = None" using Cons.prems by (simp add: ib map_of_eq_None_iff)
    then show ?case using Cons none[of blobs] by (cases "i = w") (auto simp: ib reencrypt_commits_def)
  qed (simp add: reencrypt_commits_def)
qed

lemma reencrypted_keeps:
  assumes "tasks_ok s" "row_ok w p0 n0 m0 s" "secrets_allowed (Reencrypted now blobs) s"
  shows "tasks_ok (secrets_event (Reencrypted now blobs) s) \<and> row_ok w p0 n0 m0 (secrets_event (Reencrypted now blobs) s)"
proof -
  have dist: "distinct (map fst blobs)" and rows: "list_all (\<lambda>(i, b). find_row i (wo_db s) \<noteq> None) blobs" using assms(3) by auto
  have ok: "db_ok (wo_db s)" using assms(1) by (simp add: tasks_ok_def)
  consider (done_all) "put_all now blobs (wo_db s) = (Inr (), put_rows now blobs (wo_db s))" | (failed) e t where "put_all now blobs (wo_db s) = (Inl e, t)"
    using put_all_existing[OF ok rows, of now] by blast
  then show ?thesis
  proof cases
    case failed
    then show ?thesis using assms by (simp add: in_transaction_def)
  next
    case done_all
    let ?db = "put_rows now blobs (wo_db s)" and ?cs = "reencrypt_commits (wo_db s) blobs"
    let ?s = "s\<lparr>wo_db := ?db, wo_log := wo_log s @ ?cs\<rparr>"
    have event: "secrets_event (Reencrypted now blobs) s = ?s" using done_all by (simp add: in_transaction_def)
    have none: "\<forall>c \<in> set ?cs. co_task c = None \<and> co_names c = []"
      by (auto simp: reencrypt_commits_def replaced_def split: option.splits)
    then have "list_all (commit_ok (wo_tasks s)) ?cs" "commits_by i ?cs = 0" for i
      by (auto simp: list_all_iff commit_ok_def commits_by_def filter_empty_conv)
    then have "tasks_ok ?s"
      using db_only[OF assms(1) evolves_put_rows[OF dist] put_rows_effect(5)[OF ok], of now]
      by (simp add: tasks_ok_def commits_by_def)
    moreover have "row_ok w p0 n0 m0 ?s"
      using assms(2) reencrypt_commits_of[OF dist, of w "wo_db s"] put_rows_effect(1)[OF dist, of w now "wo_db s"]
      by (cases "map_of blobs w"; cases "find_row w (wo_db s)")
         (simp_all add: row_ok_def commits_of_def put_rows_effect(2,3) chained_append replaced_def stored_payload_def)
    ultimately show ?thesis using event by simp
  qed
qed

lemma secrets_event_keeps:
  assumes "tasks_ok s \<and> row_ok w p0 n0 m0 s" and "secrets_allowed e s"
  shows "tasks_ok (secrets_event e s) \<and> row_ok w p0 n0 m0 (secrets_event e s)"
proof -
  have db_change: "tasks_ok (s\<lparr>wo_db := db'\<rparr>) \<and> row_ok w p0 n0 m0 (s\<lparr>wo_db := db'\<rparr>)"
    if "db_evolves (wo_db s) db'" "db_ok (wo_db s) \<Longrightarrow> db_ok db'"
      "\<And>r. find_row w db' = Some r \<Longrightarrow> find_row w (wo_db s) = Some r \<and> marker_names db' w = marker_names (wo_db s) w" for db'
    using that assms(1) db_only[of s db'] row_kept[of w p0 n0 m0 s db'] by (auto simp: tasks_ok_def db_evolves_def)
  show ?thesis
proof (cases e)
  case (SubmitUpdate t)
  then show ?thesis using assms(1) submit_keeps[of s t] by (simp add: row_ok_tasks)
next
  case (TaskRead i)
  have "tasks_ok (with_task i (update_read (wo_db s)) s)"
    using assms(1) by (intro with_task_keeps) (auto simp: update_static update_returned update_read_ok tasks_ok_def list_all_iff)
  then show ?thesis using assms(1) TaskRead by (simp add: row_ok_with_task)
next
  case (TaskCompute i)
  have "tasks_ok (with_task i (update_compute (wo_db s)) s)"
    using assms(1) by (intro with_task_keeps) (auto simp: update_static update_returned update_compute_ok tasks_ok_def list_all_iff)
  then show ?thesis using assms(1) TaskCompute by (simp add: row_ok_with_task)
next
  case (TaskWrite i now)
  then show ?thesis using assms(1) write_keeps[of s w p0 n0 m0 i now] by simp
next
  case (NewWallet now blobs)
  have ok: "db_ok (wo_db s)" "w \<le> wd_walletSeq (wo_db s)" using assms(1) by (auto simp: tasks_ok_def row_ok_def)
  from new_wallet[OF ok(1), of now blobs] ok(2) have "row_ok w p0 n0 m0 (secrets_event e s)" "db_ok (wo_db (secrets_event e s))"
    using assms(1) NewWallet by (auto intro!: row_kept)
  then show ?thesis using assms(1) db_only[OF _ evolves_new[OF ok(1)]] NewWallet by simp
next
  case (Reencrypted now blobs)
  then show ?thesis using assms reencrypted_keeps[of s w p0 n0 m0 now blobs] by simp
next
  case (SecretsDeleted u)
  have "db_evolves (wo_db s) (snd (deleteWalletSecrets u (wo_db s)))"
    by (auto simp: db_evolves_def deletes_keep find_row_deletes marker_names_deletes)
  then have "tasks_ok (s\<lparr>wo_db := snd (deleteWalletSecrets u (wo_db s))\<rparr>) \<and> row_ok w p0 n0 m0 (s\<lparr>wo_db := snd (deleteWalletSecrets u (wo_db s))\<rparr>)"
    by (rule db_change) (auto simp: deletes_keep find_row_deletes marker_names_deletes split: if_splits)
  then show ?thesis using SecretsDeleted by simp
next
  case (MarkersDeleted u)
  have other: "find_row v (wo_db s) = Some r \<Longrightarrow> v \<noteq> u" for v r using assms(2) MarkersDeleted by auto
  then have "db_evolves (wo_db s) (snd (deleteWalletDataMigrationMarkers u (wo_db s)))"
    using marker_names_deletes(3) by (fastforce simp: db_evolves_def deletes_keep find_row_deletes)
  from db_change[OF this] show ?thesis
    using assms(1) MarkersDeleted other marker_names_deletes(3) by (simp add: deletes_keep find_row_deletes)
next
  case (WalletDeleted u)
  have "db_evolves (wo_db s) (snd (delete_wallet_row u (wo_db s)))"
    by (auto simp: db_evolves_def deletes_keep find_row_deletes marker_names_deletes)
  from db_change[OF this] show ?thesis
    using assms(1) WalletDeleted by (simp add: deletes_keep find_row_deletes marker_names_deletes)
qed
qed

interpretation secrets_inv: guarded_invariant secrets_event secrets_allowed "\<lambda>s. tasks_ok s \<and> row_ok w p0 n0 m0 s" for w p0 n0 m0
  by unfold_locales (rule secrets_event_keeps)

lemma run_secrets_inv:
  assumes "db_ok db" "find_row w db = Some r" "distinct (marker_names db w)" "secrets_schedule db es"
  shows "tasks_ok (run_secrets db es)" "row_ok w (sr_payload r) (sr_revision r) (marker_names db w) (run_secrets db es)"
proof -
  let ?s = "\<lparr>wo_db = db, wo_tasks = [], wo_log = []\<rparr>"
  have "w \<le> wd_walletSeq db" using assms(1) find_row_wallet[OF assms(2)] by (auto simp: db_ok_def list_all_iff)
  then have "tasks_ok ?s \<and> row_ok w (sr_payload r) (sr_revision r) (marker_names db w) ?s"
    using assms(1-3) by (simp add: tasks_ok_def row_ok_def commits_of_def)
  from secrets_inv.guarded_run_keeps[OF this] assms(4)
  show "tasks_ok (run_secrets db es)" "row_ok w (sr_payload r) (sr_revision r) (marker_names db w) (run_secrets db es)"
    by (auto simp: secrets_schedule_def run_secrets_def)
qed



text \<open>Two tasks that race on one wallet: the second write meets a newer revision and starts over.\<close>

definition plain_blob :: "string \<Rightarrow> blob" where
  "plain_blob s = \<lparr>ciphertext = s, iv = [], salt = [], kdfPhc = []\<rparr>"

definition sample_db :: walletDb where
  "sample_db = \<lparr>wd_wallets = [1], wd_walletSeq = 1,
     wd_secrets = [\<lparr>sr_id = 1, sr_wallet = 1, sr_revision = 4, sr_payload = plain_blob ''p'', sr_mnemonic = plain_blob ''m'', sr_created = [], sr_updated = []\<rparr>],
     wd_secretsSeq = 1, wd_markers = []\<rparr>"

definition appending :: "string \<Rightarrow> updateTask" where
  "appending s = updateWalletSecretsEncryptedPayloadWithRetry 1 (\<lambda>k b. Inr (plain_blob (ciphertext b @ s))) WALLET_SECRETS_CAS_MAX_RETRIES"

definition sample_race :: "secretsEvent list" where
  "sample_race = [SubmitUpdate (appending ''a''), SubmitUpdate (appending ''b''), TaskRead 0, TaskRead 1, TaskCompute 1, TaskWrite 1 ''t1'',
     TaskCompute 0, TaskWrite 0 ''t2'', TaskRead 0, TaskCompute 0, TaskWrite 0 ''t3'']"

lemmas race_defs = sample_race_def appending_def updateWalletSecretsEncryptedPayloadWithRetry_def update_task_def with_task_def update_read_def
  update_compute_def update_write_def getWalletSecretsEncryptedWithRevision_def find_row_def putPayloadAndWriteAlongsideIfRevisionMatches_def
  putSplitWalletSecretsEncryptedIfRevisionMatches_def assertWalletExists_def op_bind_apply in_transaction_def recordWalletDataMigrationsApplied_def
  start_attempt_def WALLET_SECRETS_CAS_MAX_RETRIES_def sum_then_def update_rows_def written_row_def Let_def

lemma sample_db_ok: "db_ok sample_db" "find_row 1 sample_db = Some (wd_secrets sample_db ! 0)" "marker_names sample_db 1 = []"
  by (simp_all add: db_ok_def sample_db_def find_row_def marker_names_def listAppliedWalletDataMigrationNames_def)

lemma sample_race_run:
  "map_option (\<lambda>r. (ciphertext (sr_payload r), sr_revision r)) (find_row 1 (wo_db (run_secrets sample_db sample_race))) = Some (''pba'', 6)"
  "map co_task (commits_of 1 (run_secrets sample_db sample_race)) = [Some 1, Some 0]"
  by (simp_all add: run_secrets_def race_defs sample_db_def plain_blob_def commits_of_def commit_of_def replaced_def stored_payload_def)

lemma sample_race_schedule: "secrets_schedule sample_db sample_race"
  by (simp add: secrets_schedule_def sample_race_def)


text \<open>A worker that does not encrypt, and the payload of a wallet without accounts.\<close>

definition bare_payload :: jsValue where
  "bare_payload =
     VObj [(''descriptorWallets'', VArr []), (''lightningNwcConnections'', VArr []), (''arkadeAccounts'', VArr []),
       (''activeArkadeAccountIdByNetwork'', VObj []), (''barkAccounts'', VArr [])]"

definition plain_crypto :: secretsCrypto where
  "plain_crypto =
     \<lparr>sc_encrypt = (\<lambda>n s. Inr (plain_blob s)), sc_decrypt = (\<lambda>b. Inr (ciphertext b)), sc_encryptWith = (\<lambda>pw n s. Inr ((plain_blob s)\<lparr>salt := pw\<rparr>)),
      sc_decryptWith = (\<lambda>pw b. if salt b = pw then Inr (ciphertext b) else Inl ''wrong password''), sc_parse = (\<lambda>s. Some bare_payload), sc_stringify = (\<lambda>v. ''json''),
      sc_env = \<lparr>env_dateParses = (\<lambda>_. False), env_barkRegtest = False, env_barkRegtestServerUrl = []\<rparr>\<rparr>"

lemma bare_payload_normal: "bare_payload = normal_payload [(''descriptorWallets'', VArr []), (''lightningNwcConnections'', VArr [])] (VArr []) (VObj []) (VArr [])"
  by (simp add: bare_payload_def normal_payload_def)

lemma bare_payload_read: "read_payload plain_crypto s = Inr bare_payload"
proof -
  have "normalizeWalletSecretsPayload (sc_env plain_crypto) bare_payload = Inr bare_payload"
    unfolding bare_payload_normal by (rule normalize_fixed[where l = "VArr []"]) (simp_all add: rest_ok_def LEGACY_PAYLOAD_KEYS_def bark_networks_def)
  moreover have "isWalletSecretsPayload (sc_env plain_crypto) bare_payload"
    by (simp add: bare_payload_def isWalletSecretsPayload_def payload_fields_ok_def isRecord_def is_list_def bark_networks_def the_value_def)
  ultimately show ?thesis by (simp add: read_payload_def parseWalletPayloadJson_def plain_crypto_def)
qed

end
