(* ===== verification/Secrets_Password.thy ===== *)
theory Secrets_Password
  imports Secrets_Store
begin

text \<open>
  Saving, loading and re-encrypting the secrets of the wallets: what \<open>db/wallet-persistence.ts\<close> promises when
  the encryption worker and \<open>JSON\<close> keep their contracts.
\<close>

section \<open>The contract of the encryption\<close>

text \<open>An encryption with a password succeeds, and decrypting with that password gives the text back.\<close>

definition password_crypto_ok :: "secretsCrypto \<Rightarrow> bool" where
  "password_crypto_ok c \<longleftrightarrow> (\<forall>pw n s. \<exists>b. sc_encryptWith c pw n s = Inr b \<and> sc_decryptWith c pw b = Inr s)"

definition json_ok :: "secretsCrypto \<Rightarrow> jsValue \<Rightarrow> bool" where
  "json_ok c v \<longleftrightarrow> sc_parse c (sc_stringify c v) = Some v"

text \<open>The secrets of a wallet, read with one way to decrypt.\<close>

definition secrets_of :: "secretsCrypto \<Rightarrow> (blob \<Rightarrow> string + string) \<Rightarrow> walletDb \<Rightarrow> int \<Rightarrow> jsValue option" where
  "secrets_of c decrypt db w =
     (case find_row w db of
        None \<Rightarrow> None
      | Some r \<Rightarrow> (case decrypt_row c decrypt \<lparr>sb_payload = sr_payload r, sb_mnemonic = sr_mnemonic r\<rparr> of Inr v \<Rightarrow> Some v | Inl _ \<Rightarrow> None))"

lemma load_with_password:
  "snd (loadWalletSecretsWithPassword c pw w db) = db"
  "fst (loadWalletSecretsWithPassword c pw w db) = Inr v \<longleftrightarrow> secrets_of c (sc_decryptWith c pw) db w = Some v"
  by (auto simp: loadWalletSecretsWithPassword_def getWalletSecretsEncrypted_def getWalletSecretsEncryptedWithRevision_def op_bind_apply
      secrets_of_def split: option.splits sum.splits)

section \<open>What was read can be written and read again\<close>

lemma object_of_five:
  "field payload ''descriptorWallets'' = Some d \<Longrightarrow> field payload ''lightningNwcConnections'' = Some l \<Longrightarrow>
   field payload ''arkadeAccounts'' = Some (VArr k) \<Longrightarrow> field payload ''activeArkadeAccountIdByNetwork'' = Some (VObj a) \<Longrightarrow>
   field payload ''barkAccounts'' = Some (VArr b) \<Longrightarrow>
   walletSecretsPayloadFromSecrets payload =
     normal_payload [(''descriptorWallets'', d), (''lightningNwcConnections'', l)] (VArr k) (VObj a) (VArr b)"
  by (simp add: walletSecretsPayloadFromSecrets_def object_of_def nullish_or_def normal_payload_def List.map_filter_simps)

lemma assembled_fields:
  "k \<noteq> ''mnemonic'' \<Longrightarrow> field (assembleWalletSecrets m payload) k = field (walletSecretsPayloadFromSecrets payload) k"
  "field (assembleWalletSecrets m payload) ''mnemonic'' = Some (VStr m)"
  by (simp_all add: assembleWalletSecrets_def walletSecretsPayloadFromSecrets_def object_of_def)

lemma reread_payload:
  assumes "read_payload c s = Inr payload" and secrets: "secrets = assembleWalletSecrets m payload"
    and "json_ok c (walletSecretsPayloadFromSecrets secrets)"
  shows "read_payload c (sc_stringify c (walletSecretsPayloadFromSecrets secrets)) = Inr (walletSecretsPayloadFromSecrets secrets)"
    and "assembleWalletSecrets m (walletSecretsPayloadFromSecrets secrets) = secrets"
proof -
  let ?env = "sc_env c"
  from assms(1)[unfolded read_payload_def] obtain raw rest accounts active barks where
    v: "payload = normal_payload rest (VArr accounts) (VObj active) (VArr barks)" "isWalletSecretsPayload ?env payload"
    and rest: "rest = normal_rest (spread raw)" and accounts: "normal_accounts ?env (spread raw) = VArr accounts"
    and active: "normal_active ?env (spread raw) = VObj active" and barks: "normal_barks ?env (spread raw) = Inr (VArr barks)"
    by (rule parse_payload_cases)
  have ok: "rest_ok rest" using rest by (simp add: rest_ok_normal_rest)
  note valid = v(2)[unfolded v(1) payload_normal_iff[OF ok]]
  obtain d where d: "rec_get rest ''descriptorWallets'' = Some d" "is_list (list_all (isDescriptorWalletData ?env)) (Some d)"
    using valid by (cases "rec_get rest ''descriptorWallets''") (auto simp: is_list_def)
  obtain l where l: "rec_get rest ''lightningNwcConnections'' = Some l" "is_list (list_all isStoredNwcLightningConnection) (Some l)"
    using valid by (cases "rec_get rest ''lightningNwcConnections''") (auto simp: is_list_def)
  let ?rest = "[(''descriptorWallets'', d), (''lightningNwcConnections'', l)]"
  let ?p = "normal_payload ?rest (VArr accounts) (VObj active) (VArr barks)"
  have rest': "rest_ok ?rest" by (simp add: rest_ok_def LEGACY_PAYLOAD_KEYS_def)
  note p_fields = normal_payload_fields[OF rest', of "VArr accounts" "VObj active" "VArr barks"]
  have from_payload: "walletSecretsPayloadFromSecrets payload = ?p"
    by (rule object_of_five) (simp_all add: v(1) normal_payload_fields[OF ok] d l)
  have from_p: "walletSecretsPayloadFromSecrets ?p = ?p"
    by (rule object_of_five) (simp_all add: p_fields)
  have from_secrets: "walletSecretsPayloadFromSecrets secrets = ?p"
    by (rule object_of_five) (simp_all add: secrets assembled_fields from_payload p_fields)
  show "assembleWalletSecrets m (walletSecretsPayloadFromSecrets secrets) = secrets"
    unfolding from_secrets by (simp add: assembleWalletSecrets_def from_payload from_p secrets)
  have stored: "list_all (isStoredBarkAccount ?env) barks" "distinct (bark_networks barks)" using valid by (auto simp: is_list_def)
  from barks have fixed: "list_all (\<lambda>row. sanitizeStoredBarkAccountRow ?env row = Some row) barks"
    by (rule normal_barks_cases; use stored in \<open>auto simp: isStoredBarkAccount_def bark_core_ok_def isRecord_def\<close>)
  have "l \<noteq> VNull" using l(2) by (auto simp: is_list_def)
  then have "normalizeWalletSecretsPayload ?env ?p = Inr ?p"
    by (intro normalize_fixed[OF rest', where l = l])
       (use fixed stored accounts active normal_accounts_valid[OF accounts] normal_active_valid[of ?env "spread raw"] in auto)
  moreover have "isWalletSecretsPayload ?env ?p" using valid d l unfolding payload_normal_iff[OF rest'] by simp
  ultimately show "read_payload c (sc_stringify c (walletSecretsPayloadFromSecrets secrets)) = Inr (walletSecretsPayloadFromSecrets secrets)"
    using assms(3) by (simp add: from_secrets read_payload_def parseWalletPayloadJson_def json_ok_def)
qed


section \<open>A new password\<close>

definition reads_with :: "secretsCrypto \<Rightarrow> string \<Rightarrow> walletDb \<Rightarrow> int \<Rightarrow> bool" where
  "reads_with c pw db w \<longleftrightarrow> secrets_of c (sc_decryptWith c pw) db w \<noteq> None"

lemma decrypt_all_eq:
  "if list_all (reads_with c pw db) ws
   then decrypt_all c pw ws db = (Inr (map (\<lambda>w. (w, the (secrets_of c (sc_decryptWith c pw) db w))) ws), db)
   else \<exists>e. decrypt_all c pw ws db = (Inl e, db)"
proof (induction ws)
  case (Cons w ws)
  obtain res where load: "loadWalletSecretsWithPassword c pw w db = (res, db)"
    using load_with_password(1)[of c pw w db] by (metis prod.collapse)
  then show ?case
    using Cons load_with_password(2)[of c pw w db]
    by (cases res) (auto simp: op_bind_apply reads_with_def split: if_splits option.splits)
qed simp

text \<open>The blobs of a wallet decrypt to its secrets.\<close>

definition blobs_hold :: "secretsCrypto \<Rightarrow> string \<Rightarrow> int \<times> jsValue \<Rightarrow> int \<times> splitBlobs \<Rightarrow> bool" where
  "blobs_hold c pw is ib \<longleftrightarrow>
     fst ib = fst is \<and> sc_decryptWith c pw (sb_payload (snd ib)) = Inr (sc_stringify c (walletSecretsPayloadFromSecrets (snd is))) \<and>
     sc_decryptWith c pw (sb_mnemonic (snd ib)) = Inr (mnemonic_text (snd is))"

lemma encrypt_all_holds:
  assumes "password_crypto_ok c"
  shows "\<exists>blobs. encrypt_all c pw n xs = Inr blobs \<and> list_all2 (blobs_hold c pw) xs blobs"
proof (induction xs arbitrary: n)
  case (Cons x xs)
  obtain i secrets where x: "x = (i, secrets)" by fastforce
  obtain p where p: "sc_encryptWith c pw n (sc_stringify c (walletSecretsPayloadFromSecrets secrets)) = Inr p"
    "sc_decryptWith c pw p = Inr (sc_stringify c (walletSecretsPayloadFromSecrets secrets))" using assms unfolding password_crypto_ok_def by blast
  obtain m where m: "sc_encryptWith c pw (n + 1) (mnemonic_text secrets) = Inr m" "sc_decryptWith c pw m = Inr (mnemonic_text secrets)"
    using assms unfolding password_crypto_ok_def by blast
  obtain blobs where "encrypt_all c pw (n + 2) xs = Inr blobs" "list_all2 (blobs_hold c pw) xs blobs" using Cons by blast
  moreover from p(2) m(2) have "blobs_hold c pw x (i, \<lparr>sb_payload = p, sb_mnemonic = m\<rparr>)" by (simp add: x blobs_hold_def)
  ultimately show ?case using p(1) m(1) by (auto simp: x sum_then_def)
qed simp

lemma put_all_success:
  assumes "db_ok db" and "list_all (\<lambda>(i, b). find_row i db \<noteq> None \<and> i \<in> set (wd_wallets db)) blobs"
  shows "put_all now blobs db = (Inr (), put_rows now blobs db)"
  using assms
proof (induction blobs arbitrary: db)
  case (Cons ib blobs)
  obtain i b where ib: "ib = (i, b)" by fastforce
  obtain r where r: "find_row i db = Some r" "i \<in> set (wd_wallets db)" using Cons.prems ib by auto
  let ?db = "update_rows (\<lambda>x. sr_wallet x = i) (written_row now (sb_payload b) (Some (sb_mnemonic b))) db"
  have "db_ok ?db" "list_all (\<lambda>(i, b). find_row i ?db \<noteq> None \<and> i \<in> set (wd_wallets ?db)) blobs"
    using Cons.prems by (simp_all add: db_ok_update find_row_update)
  from Cons.IH[OF this] show ?case using put_existing[OF Cons.prems(1) r] by (simp add: ib op_bind_apply put_rows_def)
qed (simp add: put_rows_def)

lemma ids_with_rows: "db_ok db \<Longrightarrow> distinct (listWalletIdsWithSecrets db)" "w \<in> set (listWalletIdsWithSecrets db) \<longleftrightarrow> find_row w db \<noteq> None"
  by (auto simp: listWalletIdsWithSecrets_def db_ok_def find_row_None)

lemma held_secrets:
  assumes "blobs_hold c pw (w, secrets) (w, b)" and "secrets_of c d db w = Some secrets" and "json_ok c (walletSecretsPayloadFromSecrets secrets)"
  shows "decrypt_row c (sc_decryptWith c pw) \<lparr>sb_payload = sb_payload b, sb_mnemonic = sb_mnemonic b\<rparr> = Inr secrets"
proof -
  obtain s m payload where read: "read_payload c s = Inr payload" "secrets = assembleWalletSecrets m payload"
    using assms(2) by (auto simp: secrets_of_def decrypt_row_def sum_then_def split: option.splits sum.splits)
  have "mnemonic_text secrets = m" using read(2) by (simp add: mnemonic_text_def assembled_fields)
  then show ?thesis
    using reread_payload[OF read assms(3)] assms(1) by (simp add: blobs_hold_def decrypt_row_def sum_then_def)
qed

lemma ids_Nil: "listWalletIdsWithSecrets db = [] \<longleftrightarrow> wd_secrets db = []"
proof -
  have "length (listWalletIdsWithSecrets db) = length (wd_secrets db)" by (simp add: listWalletIdsWithSecrets_def)
  then show ?thesis by (metis length_0_conv)
qed

text \<open>The reads either fail, or they give blobs that hold the secrets of the rows.\<close>

lemma prepare_fails:
  assumes "\<not> (wd_secrets db \<noteq> [] \<and> list_all (reads_with c old db) (listWalletIdsWithSecrets db))"
  shows "\<exists>e. reencrypt_prepare c n old new db = (Inl e, db)"
  using assms decrypt_all_eq[of c old db "listWalletIdsWithSecrets db"]
  by (auto simp: reencrypt_prepare_def Let_def ids_Nil op_bind_apply split: if_splits)

lemma prepare_succeeds:
  assumes "password_crypto_ok c" and "wd_secrets db \<noteq> []" "list_all (reads_with c old db) (listWalletIdsWithSecrets db)"
  obtains blobs where "reencrypt_prepare c n old new db = (Inr blobs, db)" "map fst blobs = listWalletIdsWithSecrets db"
    "list_all2 (blobs_hold c new) (map (\<lambda>w. (w, the (secrets_of c (sc_decryptWith c old) db w))) (listWalletIdsWithSecrets db)) blobs"
proof -
  let ?xs = "map (\<lambda>w. (w, the (secrets_of c (sc_decryptWith c old) db w))) (listWalletIdsWithSecrets db)"
  obtain blobs where blobs: "encrypt_all c new n ?xs = Inr blobs" "list_all2 (blobs_hold c new) ?xs blobs"
    using encrypt_all_holds[OF assms(1)] by blast
  have "reencrypt_prepare c n old new db = (Inr blobs, db)"
    using assms(2,3) decrypt_all_eq[of c old db "listWalletIdsWithSecrets db"] blobs(1)
    by (simp add: reencrypt_prepare_def Let_def op_bind_apply ids_Nil)
  moreover have "map fst blobs = listWalletIdsWithSecrets db"
    using blobs(2) by (auto simp: list_all2_conv_all_nth blobs_hold_def intro!: nth_equalityI)
  ultimately show ?thesis using blobs(2) by (rule that)
qed

lemma encrypt_all_ids: "encrypt_all c pw n xs = Inr blobs \<Longrightarrow> map fst blobs = map fst xs"
  by (induction xs arbitrary: n blobs) (auto simp: sum_then_def split: sum.splits)

lemma prepare_ids:
  "snd (reencrypt_prepare c n old new db) = db"
  "fst (reencrypt_prepare c n old new db) = Inr blobs \<Longrightarrow> map fst blobs = listWalletIdsWithSecrets db"
proof -
  note all = decrypt_all_eq[of c old db "listWalletIdsWithSecrets db"]
  show "snd (reencrypt_prepare c n old new db) = db"
    using all by (auto simp: reencrypt_prepare_def Let_def op_bind_apply split: if_splits)
  show "fst (reencrypt_prepare c n old new db) = Inr blobs \<Longrightarrow> map fst blobs = listWalletIdsWithSecrets db"
    using all by (auto simp: reencrypt_prepare_def Let_def op_bind_apply comp_def dest!: encrypt_all_ids split: if_splits)
qed

lemma put_all_orphan:
  assumes "j \<in> fst ` set bs" "j \<notin> set (wd_wallets d)" "db_ok d" "list_all (\<lambda>(i, b). find_row i d \<noteq> None) bs"
  shows "\<exists>e t. put_all now bs d = (Inl e, t)"
  using assms
proof (induction bs arbitrary: d)
  case (Cons x bs)
  obtain k b where x: "x = (k, b)" by fastforce
  obtain r where r: "find_row k d = Some r" using Cons.prems(4) by (auto simp: x)
  let ?d = "update_rows (\<lambda>y. sr_wallet y = k) (written_row now (sb_payload b) (Some (sb_mnemonic b))) d"
  show ?case
  proof (cases "k \<in> set (wd_wallets d)")
    case True
    then have "j \<in> fst ` set bs" using Cons.prems(1,2) by (auto simp: x)
    then have "\<exists>e t. put_all now bs ?d = (Inl e, t)"
      using Cons.prems by (intro Cons.IH) (auto simp: db_ok_update find_row_update list_all_iff)
    then show ?thesis using put_existing[OF Cons.prems(3) r True] by (auto simp: x op_bind_apply)
  qed (simp add: x op_bind_apply putSplitWalletSecretsEncrypted_def assertWalletExists_def)
qed simp

lemma put_rows_secrets:
  assumes "db_ok db" and ids: "map fst blobs = listWalletIdsWithSecrets db" and old: "\<forall>w \<in> set (map fst blobs). old w \<noteq> None"
    and hold: "list_all2 (blobs_hold c new) (map (\<lambda>w. (w, the (old w))) (map fst blobs)) blobs"
    and source: "\<And>w. old w = secrets_of c d db w"
    and json: "\<And>w secrets. old w = Some secrets \<Longrightarrow> json_ok c (walletSecretsPayloadFromSecrets secrets)"
  shows "secrets_of c (sc_decryptWith c new) (put_rows now blobs db) w = old w \<and>
    map_option sr_revision (find_row w (put_rows now blobs db)) = map_option (\<lambda>r. sr_revision r + 1) (find_row w db)"
proof -
  have dist: "distinct (map fst blobs)" using ids ids_with_rows(1)[OF assms(1)] by simp
  note effect = put_rows_effect(1)[OF dist, of _ now db]
  show ?thesis
  proof (cases "find_row w db")
    case None
    then show ?thesis using source[of w] by (simp add: effect secrets_of_def split: option.split)
  next
    case (Some r)
    then have mem: "w \<in> set (map fst blobs)" using ids by (simp add: ids_with_rows(2))
    then obtain i where i: "i < length blobs" "fst (blobs ! i) = w" by (auto simp: in_set_conv_nth)
    define b where "b = snd (blobs ! i)"
    have "(w, b) \<in> set blobs" using i by (auto simp: b_def in_set_conv_nth prod_eq_iff)
    then have of_w: "map_of blobs w = Some b" using dist by simp
    have held: "blobs_hold c new (w, the (old w)) (w, b)"
      using hold i by (auto simp: list_all2_conv_all_nth b_def prod_eq_iff)
    have some: "old w = Some (the (old w))" using old mem by auto
    have "decrypt_row c (sc_decryptWith c new) \<lparr>sb_payload = sb_payload b, sb_mnemonic = sb_mnemonic b\<rparr> = Inr (the (old w))"
      by (rule held_secrets[OF held]) (use some source json in auto)
    then have "secrets_of c (sc_decryptWith c new) (put_rows now blobs db) w = Some (the (old w))"
      by (simp add: secrets_of_def effect of_w Some written_row_def)
    then show ?thesis using some by (simp add: effect of_w Some)
  qed
qed

text \<open>C9: A change of the password is all or nothing. When every row decrypts with the old password and
  belongs to a wallet, every wallet afterwards gives the same secrets under the new password, with a
  new revision; otherwise the change throws and the database is as it was.\<close>

theorem password_change_atomic:
  assumes "db_ok db" and "password_crypto_ok c"
    and json: "\<forall>w secrets. secrets_of c (sc_decryptWith c old) db w = Some secrets \<longrightarrow> json_ok c (walletSecretsPayloadFromSecrets secrets)"
  shows "if wd_secrets db \<noteq> [] \<and> list_all (\<lambda>w. reads_with c old db w \<and> w \<in> set (wd_wallets db)) (listWalletIdsWithSecrets db)
    then \<exists>t. reencryptAllWalletSecretsWithNewPasswordImpl c n now old new db = (Inr (), t) \<and> db_ok t \<and> wd_wallets t = wd_wallets db \<and>
      (\<forall>w. secrets_of c (sc_decryptWith c new) t w = secrets_of c (sc_decryptWith c old) db w \<and>
        map_option sr_revision (find_row w t) = map_option (\<lambda>r. sr_revision r + 1) (find_row w db))
    else \<exists>e. reencryptAllWalletSecretsWithNewPasswordImpl c n now old new db = (Inl e, db)"
proof (cases "wd_secrets db \<noteq> [] \<and> list_all (reads_with c old db) (listWalletIdsWithSecrets db)")
  case False
  with prepare_fails[OF False, of n new] show ?thesis
    by (auto simp: reencryptAllWalletSecretsWithNewPasswordImpl_def op_bind_apply list_all_iff)
next
  case readable: True
  let ?ws = "listWalletIdsWithSecrets db"
  obtain blobs where prepared: "reencrypt_prepare c n old new db = (Inr blobs, db)" and ids: "map fst blobs = ?ws"
    and hold: "list_all2 (blobs_hold c new) (map (\<lambda>w. (w, the (secrets_of c (sc_decryptWith c old) db w))) (map fst blobs)) blobs"
    using prepare_succeeds[OF assms(2)] readable by metis
  have rows: "list_all (\<lambda>(i, b). find_row i db \<noteq> None) blobs"
    unfolding list_all_iff case_prod_beta ids_with_rows(2)[symmetric] ids[symmetric] by simp
  show ?thesis
  proof (cases "list_all (\<lambda>w. w \<in> set (wd_wallets db)) ?ws")
    case True
    then have "list_all (\<lambda>(i, b). find_row i db \<noteq> None \<and> i \<in> set (wd_wallets db)) blobs"
      using rows unfolding ids[symmetric] by (auto simp: list_all_iff)
    then have "reencryptAllWalletSecretsWithNewPasswordImpl c n now old new db = (Inr (), put_rows now blobs db)"
      using prepared put_all_success[OF assms(1)] by (simp add: reencryptAllWalletSecretsWithNewPasswordImpl_def op_bind_apply in_transaction_def)
    moreover have "\<forall>w \<in> set (map fst blobs). secrets_of c (sc_decryptWith c old) db w \<noteq> None"
      using readable ids by (auto simp: list_all_iff reads_with_def)
    ultimately show ?thesis
      using put_rows_secrets[OF assms(1) ids _ hold refl] json readable True put_rows_effect(4,5) assms(1) by (simp add: list_all_iff)
  next
    case False
    then obtain i where "i \<in> set ?ws" "i \<notin> set (wd_wallets db)" by (auto simp: list_all_iff)
    then obtain e t where "put_all now blobs db = (Inl e, t)" using put_all_orphan[of i blobs db now] ids rows assms(1) by (metis list.set_map)
    then have "reencryptAllWalletSecretsWithNewPasswordImpl c n now old new db = (Inl e, db)"
      using prepared by (simp add: reencryptAllWalletSecretsWithNewPasswordImpl_def op_bind_apply in_transaction_def)
    then show ?thesis using False by (auto simp: list_all_iff)
  qed
qed

lemma plain_crypto_ok: "password_crypto_ok plain_crypto"
  by (simp add: password_crypto_ok_def plain_crypto_def plain_blob_def)

lemma plain_json: "json_ok plain_crypto (walletSecretsPayloadFromSecrets (assembleWalletSecrets m bare_payload))"
proof -
  have "walletSecretsPayloadFromSecrets (assembleWalletSecrets m bare_payload) = bare_payload"
    by (simp add: assembleWalletSecrets_def walletSecretsPayloadFromSecrets_def object_of_def bare_payload_def nullish_or_def List.map_filter_simps)
  then show ?thesis by (simp add: json_ok_def plain_crypto_def)
qed

lemma plain_secrets: "secrets_of plain_crypto d db w = Some secrets \<Longrightarrow> \<exists>m. secrets = assembleWalletSecrets m bare_payload"
  by (auto simp: secrets_of_def decrypt_row_def sum_then_def bare_payload_read split: option.splits sum.splits)

theorem password_change_atomic_witness:
  "\<exists>t. reencryptAllWalletSecretsWithNewPasswordImpl plain_crypto 0 ''now'' [] ''new'' sample_db = (Inr (), t) \<and>
     secrets_of plain_crypto (sc_decryptWith plain_crypto ''new'') t 1 = Some (assembleWalletSecrets ''m'' bare_payload)"
proof -
  have json: "\<forall>w secrets. secrets_of plain_crypto (sc_decryptWith plain_crypto []) sample_db w = Some secrets \<longrightarrow>
      json_ok plain_crypto (walletSecretsPayloadFromSecrets secrets)"
    using plain_secrets plain_json by blast
  have before: "secrets_of plain_crypto (sc_decryptWith plain_crypto []) sample_db 1 = Some (assembleWalletSecrets ''m'' bare_payload)"
    by (simp add: secrets_of_def decrypt_row_def sum_then_def bare_payload_read sample_db_def find_row_def) (simp add: plain_crypto_def plain_blob_def)
  then have ok: "wd_secrets sample_db \<noteq> []"
    "list_all (\<lambda>w. reads_with plain_crypto [] sample_db w \<and> w \<in> set (wd_wallets sample_db)) (listWalletIdsWithSecrets sample_db)"
    by (simp_all add: listWalletIdsWithSecrets_def reads_with_def) (simp_all add: sample_db_def)
  from password_change_atomic[OF sample_db_ok(1) plain_crypto_ok json, of 0 "''now''" "''new''"] ok before show ?thesis
    by (auto split: if_splits)
qed

section \<open>Deleting a wallet during a change of the password\<close>

text \<open>C40: The three statements of the deletion are not one transaction and do not wait for the queue of
  the secrets. When a change of the password, prepared before, commits between the first two, it
  inserts the secrets of the wallet again: the deleted wallet keeps its encrypted mnemonic, and every
  later change of the password throws.\<close>

theorem delete_race_keeps_secrets:
  assumes "db_ok db" and "w \<in> set (wd_wallets db)"
    and raced_def: "raced = snd (delete_wallet_row w (snd (deleteWalletDataMigrationMarkers w
    (snd (in_transaction (put_all now [(w, b)]) (snd (deleteWalletSecrets w db)))))))"
  shows "w \<notin> set (wd_wallets raced) \<and> map_option sr_mnemonic (find_row w raced) = Some (sb_mnemonic b) \<and>
    (\<forall>c n old new. \<exists>e. fst (reencryptAllWalletSecretsWithNewPasswordImpl c n now old new raced) = Inl e)"
proof -
  let ?db = "snd (deleteWalletSecrets w db)"
  let ?row = "\<lparr>sr_id = wd_secretsSeq db + 1, sr_wallet = w, sr_revision = 0, sr_payload = sb_payload b, sr_mnemonic = sb_mnemonic b,
    sr_created = now, sr_updated = now\<rparr>"
  let ?t = "?db\<lparr>wd_secretsSeq := wd_secretsSeq db + 1, wd_secrets := wd_secrets ?db @ [?row]\<rparr>"
  have none: "find_row w ?db = None" by (simp add: find_row_deletes)
  have wallets: "wd_wallets ?db = wd_wallets db" "wd_secretsSeq ?db = wd_secretsSeq db" by (simp_all add: deleteWalletSecrets_def)
  have "in_transaction (put_all now [(w, b)]) ?db = (Inr (), ?t)"
    using assms(2) none by (simp add: in_transaction_def op_bind_apply putSplitWalletSecretsEncrypted_def assertWalletExists_def wallets)
  then have raced: "raced = snd (delete_wallet_row w (snd (deleteWalletDataMigrationMarkers w ?t)))" by (simp add: raced_def)
  have last: "List.find (\<lambda>r. sr_wallet r = w) (xs @ [?row]) = Some ?row" if "List.find (\<lambda>r. sr_wallet r = w) xs = None" for xs
    using that by (induction xs) (auto split: if_splits)
  from last[OF none[unfolded find_row_def]] have row: "find_row w raced = Some ?row"
    by (simp add: raced find_row_deletes) (simp add: find_row_def)
  have gone: "w \<notin> set (wd_wallets raced)" by (simp add: raced delete_wallet_row_def)
  have "db_ok ?t"
    using deletes_keep(4)[OF assms(1), of w] none find_row_None[of w ?db] assms(1,2)
    by (auto simp: db_ok_def list_all_iff deleteWalletSecrets_def)
  then have ok: "db_ok raced" unfolding raced by (intro deletes_keep)
  have mem: "w \<in> set (listWalletIdsWithSecrets raced)" by (simp add: ids_with_rows(2) row)
  have "\<exists>e. fst (reencryptAllWalletSecretsWithNewPasswordImpl c n now old new raced) = Inl e" for c n old new
  proof (cases "reencrypt_prepare c n old new raced")
    case (Pair res t)
    have t: "t = raced" and ids: "res = Inr blobs \<Longrightarrow> map fst blobs = listWalletIdsWithSecrets raced" for blobs
      using Pair prepare_ids[of c n old new raced] by auto
    show ?thesis
    proof (cases res)
      case (Inr blobs)
      have "list_all (\<lambda>(i, b). find_row i raced \<noteq> None) blobs"
        using ids[OF Inr] unfolding list_all_iff case_prod_beta ids_with_rows(2)[symmetric] by (metis image_eqI list.set_map)
      then obtain e s where "put_all now blobs raced = (Inl e, s)"
        using put_all_orphan[of w blobs raced now] gone ok ids[OF Inr] mem by (metis list.set_map)
      then show ?thesis using Pair Inr t by (simp add: reencryptAllWalletSecretsWithNewPasswordImpl_def op_bind_apply in_transaction_def)
    qed (use Pair in \<open>simp add: reencryptAllWalletSecretsWithNewPasswordImpl_def op_bind_apply\<close>)
  qed
  then show ?thesis using gone row by simp
qed


theorem delete_race_keeps_secrets_witness:
  "map_option sr_mnemonic (find_row 1 (snd (delete_wallet_row 1 (snd (deleteWalletDataMigrationMarkers 1
     (snd (in_transaction (put_all ''now'' [(1, \<lparr>sb_payload = plain_blob ''p'', sb_mnemonic = plain_blob ''words''\<rparr>)])
       (snd (deleteWalletSecrets 1 sample_db))))))))) = Some (plain_blob ''words'')"
proof -
  have "1 \<in> set (wd_wallets sample_db)" by (simp add: sample_db_def)
  from delete_race_keeps_secrets[OF sample_db_ok(1) this refl, of "''now''" "\<lparr>sb_payload = plain_blob ''p'', sb_mnemonic = plain_blob ''words''\<rparr>"]
  show ?thesis unfolding splitBlobs.simps by blast
qed

end
