(* ===== verification/Worker_Payload.thy ===== *)
theory Worker_Payload
  imports Arkade_Payload Secrets_Password
begin

text \<open>
  How the workers of the Bark and Arkade rails read and change the encrypted payload of a wallet:
  \<open>workers/worker-wallet-payload-update.ts\<close>, \<open>workers/bark-worker-metadata.ts\<close>,
  \<open>workers/arkade-worker-encrypted-payload.ts\<close>, \<open>workers/bark-durable-flush.ts\<close> and the bridge to the
  database in \<open>lib/wallet/encrypted-wallet-secrets-host.ts\<close>. A worker decrypts the current payload,
  changes it and encrypts it again inside an update of \<open>Secrets_Store\<close>; the changes are those of
  \<open>Payload_Updates\<close> and \<open>Arkade_Payload\<close>. A write is an update task, a read an operation of the
  database.
\<close>

section \<open>The host of the encrypted payload\<close>

text \<open>What happens first while the host waits for a run of a transform. The first component of a run says
  whether there is a signal for the end of the worker and whether it was set before the run.\<close>

datatype transformEnd = WorkSettled | WorkerGone | TimerFired

type_synonym hostRuns = "nat \<Rightarrow> bool option \<times> transformEnd"

definition DEFAULT_TRANSFORM_TIMEOUT_MS :: int where "DEFAULT_TRANSFORM_TIMEOUT_MS = 60000"

definition WORKER_DETACHED_ERROR_MESSAGE :: string where
  "WORKER_DETACHED_ERROR_MESSAGE = ''Wallet secrets update was abandoned because its worker was detached''"

definition TRANSFORM_TIMED_OUT_ERROR_MESSAGE :: string where
  "TRANSFORM_TIMED_OUT_ERROR_MESSAGE = ''Wallet secrets update was abandoned because its transform did not finish in time''"

text \<open>A promise that does not settle before the timer is \<open>None\<close>.\<close>

definition rejectWhenTimedOut :: "(string + 'a) option \<Rightarrow> string + 'a" where
  "rejectWhenTimedOut work = (case work of Some res \<Rightarrow> res | None \<Rightarrow> Inl TRANSFORM_TIMED_OUT_ERROR_MESSAGE)"

definition rejectWhenDetached :: "transformEnd \<Rightarrow> string + 'a \<Rightarrow> bool option \<Rightarrow> (string + 'a) option" where
  "rejectWhenDetached first work detachSignal =
     (case detachSignal of
        None \<Rightarrow> if first = WorkSettled then Some work else None
      | Some aborted \<Rightarrow>
          if aborted then Some (Inl WORKER_DETACHED_ERROR_MESSAGE)
          else (case first of
                  WorkSettled \<Rightarrow> Some work
                | WorkerGone \<Rightarrow> Some (Inl WORKER_DETACHED_ERROR_MESSAGE)
                | TimerFired \<Rightarrow> None))"

definition readEncryptedPayload :: "int \<Rightarrow> blob dbOp" where
  "readEncryptedPayload wid = op_bind (getWalletSecretsEncrypted wid) (\<lambda>encrypted. op_return (sb_payload encrypted))"

definition updateEncryptedPayload :: "hostRuns \<Rightarrow> int \<Rightarrow> (nat \<Rightarrow> blob \<Rightarrow> string + blob) \<Rightarrow> updateTask" where
  "updateEncryptedPayload runs wid transform =
     updateWalletSecretsEncryptedPayloadWithRetry wid
       (\<lambda>k currentPayload. rejectWhenTimedOut (rejectWhenDetached (snd (runs k)) (transform k currentPayload) (fst (runs k))))
       WALLET_SECRETS_CAS_MAX_RETRIES"

section \<open>Updates of the decrypted payload\<close>

definition read_blob :: "secretsCrypto \<Rightarrow> blob \<Rightarrow> string + jsValue" where
  "read_blob c encrypted = sum_then (sc_decrypt c encrypted) (read_payload c)"

text \<open>One run of the transform: the payload it leaves in \<open>writtenPayload\<close> and its ciphertext.\<close>

definition transform_run :: "secretsCrypto \<Rightarrow> (jsValue \<Rightarrow> string + jsValue) \<Rightarrow> nat \<Rightarrow> blob \<Rightarrow> string + jsValue \<times> blob" where
  "transform_run c applyChange k currentBlob =
     sum_then (read_blob c currentBlob) (\<lambda>payload.
     sum_then (applyChange payload) (\<lambda>nextPayload.
     sum_then (sc_encrypt c k (sc_stringify c nextPayload)) (\<lambda>encryptedNext. Inr (nextPayload, encryptedNext))))"

definition updateDecryptedWalletPayload :: "secretsCrypto \<Rightarrow> hostRuns \<Rightarrow> int \<Rightarrow> (jsValue \<Rightarrow> string + jsValue) \<Rightarrow> updateTask" where
  "updateDecryptedWalletPayload c runs wid applyChange =
     updateEncryptedPayload runs wid (\<lambda>k currentBlob. sum_then (transform_run c applyChange k currentBlob) (\<lambda>(_, encryptedNext). Inr encryptedNext))"

text \<open>What the call returns to the worker once its task has ended, from the payload of the last run.\<close>

definition written_result :: "updatePhase \<Rightarrow> jsValue option \<Rightarrow> (string + jsValue) option" where
  "written_result phase writtenPayload =
     (case phase of
        Threw e \<Rightarrow> Some (Inl e)
      | Returned \<Rightarrow> Some (case writtenPayload of
                           None \<Rightarrow> Inl ''Wallet payload update finished without writing a payload''
                         | Some payload \<Rightarrow> Inr payload)
      | _ \<Rightarrow> None)"

definition readDecryptedWalletPayload :: "secretsCrypto \<Rightarrow> int \<Rightarrow> jsValue dbOp" where
  "readDecryptedWalletPayload c wid =
     op_bind (readEncryptedPayload wid) (\<lambda>encryptedPayload. op_lift (read_blob c encryptedPayload))"

section \<open>The settings of the Bark rail\<close>

definition readStoredBarkReceiveKeyIndex :: "secretsCrypto \<Rightarrow> int \<Rightarrow> string \<Rightarrow> js_number option dbOp" where
  "readStoredBarkReceiveKeyIndex c wid network =
     op_bind (readDecryptedWalletPayload c wid) (\<lambda>payload.
       op_return (num_of (opt_field (findBarkAccount payload network) ''receiveKeyIndex'')))"

definition readRecordEnvelopeForOpen :: "secretsCrypto \<Rightarrow> int \<Rightarrow> string \<Rightarrow> string dbOp" where
  "readRecordEnvelopeForOpen c wid network =
     op_bind (readDecryptedWalletPayload c wid) (\<lambda>payload. op_lift (recordEnvelopeForOpen payload network))"

definition persistOpenedBarkAccount ::
  "secretsCrypto \<Rightarrow> hostRuns \<Rightarrow> string \<Rightarrow> int \<Rightarrow> string \<Rightarrow> string \<Rightarrow> js_number \<Rightarrow> string \<Rightarrow> updateTask" where
  "persistOpenedBarkAccount c runs uuid wid network fingerprint receiveKeyIndex recordEnvelope =
     updateDecryptedWalletPayload c runs wid (\<lambda>payload.
       applyOpenedBarkAccount (sc_env c) uuid payload network fingerprint (Some receiveKeyIndex) (Some recordEnvelope))"

text \<open>The account that \<open>persistOpenedBarkAccount\<close> returns, from the payload that was written.\<close>

definition opened_account :: "string \<Rightarrow> jsValue \<Rightarrow> string + jsValue" where
  "opened_account network nextPayload =
     (case findBarkAccount nextPayload network of None \<Rightarrow> Inl ''Bark account is missing'' | Some account \<Rightarrow> Inr account)"

record protocolUpdate =
  pu_recordEnvelope :: string
  pu_receiveKeyIndex :: "js_number option"
  pu_lastSuccessfulSyncAt :: "string option"

definition persistBarkProtocolState :: "secretsCrypto \<Rightarrow> hostRuns \<Rightarrow> int \<Rightarrow> string \<Rightarrow> protocolUpdate \<Rightarrow> updateTask" where
  "persistBarkProtocolState c runs wid network update =
     updateDecryptedWalletPayload c runs wid (\<lambda>payload.
       applyBarkRecordEnvelope (sc_env c) payload network (pu_recordEnvelope update) (pu_receiveKeyIndex update) (pu_lastSuccessfulSyncAt update))"

definition readPendingEmergencyClaim :: "secretsCrypto \<Rightarrow> int \<Rightarrow> string \<Rightarrow> jsValue option dbOp" where
  "readPendingEmergencyClaim c wid network =
     op_bind (readDecryptedWalletPayload c wid) (\<lambda>payload.
       op_return (present (opt_field (findBarkAccount payload network) ''pendingEmergencyClaim'')))"

definition readExitChainNotices :: "secretsCrypto \<Rightarrow> int \<Rightarrow> string \<Rightarrow> jsValue dbOp" where
  "readExitChainNotices c wid network =
     op_bind (readDecryptedWalletPayload c wid) (\<lambda>payload.
       op_return (nullish_or (opt_field (findBarkAccount payload network) ''exitNodeSweepVtxoItems'') (VArr [])))"

definition mergeExitChainNotice :: "secretsCrypto \<Rightarrow> hostRuns \<Rightarrow> int \<Rightarrow> string \<Rightarrow> sweepItem list \<Rightarrow> updateTask option" where
  "mergeExitChainNotice c runs wid network items =
     (if items = [] then None
      else Some (updateDecryptedWalletPayload c runs wid (\<lambda>payload. applyMergedExitChainNotice (sc_env c) payload network items)))"

definition clearExitChainNotice :: "secretsCrypto \<Rightarrow> hostRuns \<Rightarrow> int \<Rightarrow> string \<Rightarrow> sweepKind \<Rightarrow> updateTask" where
  "clearExitChainNotice c runs wid network kind =
     updateDecryptedWalletPayload c runs wid (\<lambda>payload. applyClearedExitChainNotice (sc_env c) payload network kind)"

definition writePendingEmergencyClaim :: "secretsCrypto \<Rightarrow> hostRuns \<Rightarrow> int \<Rightarrow> string \<Rightarrow> pendingClaim option \<Rightarrow> updateTask" where
  "writePendingEmergencyClaim c runs wid network pending =
     updateDecryptedWalletPayload c runs wid (\<lambda>payload. applyPendingEmergencyClaim (sc_env c) payload network pending)"

definition readProceedAutomatically :: "secretsCrypto \<Rightarrow> int \<Rightarrow> string \<Rightarrow> bool dbOp" where
  "readProceedAutomatically c wid network =
     op_bind (readDecryptedWalletPayload c wid) (\<lambda>payload.
       op_return (opt_field (findBarkAccount payload network) ''proceedAutomatically'' = Some (VBool True)))"

definition writeProceedAutomatically :: "secretsCrypto \<Rightarrow> hostRuns \<Rightarrow> int \<Rightarrow> string \<Rightarrow> bool \<Rightarrow> updateTask" where
  "writeProceedAutomatically c runs wid network enabled =
     updateDecryptedWalletPayload c runs wid (\<lambda>payload. applyProceedAutomatically (sc_env c) payload network enabled)"

record feePrefs =
  fp_feePresetLabel :: string
  fp_maxFeeRateSatPerVb :: "rat option"

definition DEFAULT_BARK_EMERGENCY_EXIT_FEE_PRESET :: string where "DEFAULT_BARK_EMERGENCY_EXIT_FEE_PRESET = ''Medium''"

definition fee_prefs :: "jsValue option \<Rightarrow> feePrefs" where
  "fee_prefs account =
     \<lparr>fp_feePresetLabel =
        (case emergencyExitFeePresetFromUnknown (opt_field account ''emergencyExitFeePreset'') of
           Some preset \<Rightarrow> preset | None \<Rightarrow> DEFAULT_BARK_EMERGENCY_EXIT_FEE_PRESET),
      fp_maxFeeRateSatPerVb = emergencyExitMaxFeeRateFromUnknown (opt_field account ''emergencyExitMaxFeeRateSatPerVb'')\<rparr>"

definition readEmergencyExitFeePrefs :: "secretsCrypto \<Rightarrow> int \<Rightarrow> string \<Rightarrow> feePrefs dbOp" where
  "readEmergencyExitFeePrefs c wid network =
     op_bind (readDecryptedWalletPayload c wid) (\<lambda>payload. op_return (fee_prefs (findBarkAccount payload network)))"

definition writeEmergencyExitFeePreset :: "secretsCrypto \<Rightarrow> hostRuns \<Rightarrow> int \<Rightarrow> string \<Rightarrow> string \<Rightarrow> updateTask" where
  "writeEmergencyExitFeePreset c runs wid network feePreset =
     updateDecryptedWalletPayload c runs wid (\<lambda>payload. applyEmergencyExitFeePreset (sc_env c) payload network feePreset)"

definition writeEmergencyExitMaxFeeRate :: "secretsCrypto \<Rightarrow> hostRuns \<Rightarrow> int \<Rightarrow> string \<Rightarrow> js_number \<Rightarrow> updateTask" where
  "writeEmergencyExitMaxFeeRate c runs wid network maxFeeRateSatPerVb =
     updateDecryptedWalletPayload c runs wid (\<lambda>payload. applyEmergencyExitMaxFeeRate (sc_env c) payload network maxFeeRateSatPerVb)"

section \<open>The accounts of the Arkade rail\<close>

definition loadArkadeAccountSdkPersistence :: "secretsCrypto \<Rightarrow> blob \<Rightarrow> string \<Rightarrow> string + bool \<times> string option" where
  "loadArkadeAccountSdkPersistence c encryptedPayload accountKey =
     sum_then (read_blob c encryptedPayload) (\<lambda>payload.
       let account = findArkadeAccount payload (VStr accountKey)
       in Inr (account \<noteq> None, str_of (opt_field account ''sdkPersistenceJson'')))"

definition extractSdkPersistenceJsonForAccount :: "secretsCrypto \<Rightarrow> blob \<Rightarrow> string \<Rightarrow> string + string option" where
  "extractSdkPersistenceJsonForAccount c encryptedPayload accountKey =
     sum_then (loadArkadeAccountSdkPersistence c encryptedPayload accountKey) (\<lambda>(_, sdkPersistenceJson). Inr sdkPersistenceJson)"

definition persistSdkJsonToEncryptedPayload ::
  "secretsCrypto \<Rightarrow> hostRuns \<Rightarrow> int \<Rightarrow> string \<Rightarrow> string \<Rightarrow> string option \<Rightarrow> updateTask" where
  "persistSdkJsonToEncryptedPayload c runs wid accountKey sdkPersistenceJson lastSuccessfulOperatorSyncAt =
     updateDecryptedWalletPayload c runs wid (\<lambda>payload.
       mergeSdkPersistenceIntoPayload (sc_parse c) payload accountKey sdkPersistenceJson lastSuccessfulOperatorSyncAt)"

definition updateOperatorSyncAtEncrypted :: "secretsCrypto \<Rightarrow> hostRuns \<Rightarrow> int \<Rightarrow> string \<Rightarrow> string \<Rightarrow> updateTask" where
  "updateOperatorSyncAtEncrypted c runs wid accountKey lastSuccessfulOperatorSyncAt =
     updateDecryptedWalletPayload c runs wid (\<lambda>payload.
       updateOperatorSyncAtInPayload payload accountKey lastSuccessfulOperatorSyncAt)"

text \<open>The SDK state of a new account is exported from the session when the caller has none.\<close>

definition ensureArkadeAccountEncrypted ::
  "secretsCrypto \<Rightarrow> hostRuns \<Rightarrow> int \<Rightarrow> arkadeOpened \<Rightarrow> (string + string) option \<Rightarrow> string + updateTask" where
  "ensureArkadeAccountEncrypted c runs wid p exportInitialSdkFromWasm =
     sum_then
       (case (ao_sdkPersistenceJson p, exportInitialSdkFromWasm) of
          (None, Some exported) \<Rightarrow> sum_then exported (\<lambda>sdk. Inr (Some sdk))
        | (sdk, _) \<Rightarrow> Inr sdk)
       (\<lambda>sdk. Inr (updateDecryptedWalletPayload c runs wid (\<lambda>payload.
          sum_then (ensureArkadeAccountInPayload payload (p\<lparr>ao_sdkPersistenceJson := sdk\<rparr>)) (\<lambda>(mergedPayload, account). Inr mergedPayload))))"

section \<open>Saving the record envelope after a call\<close>

record flushMetadata =
  fm_receiveKeyIndex :: "js_number option"
  fm_lastSuccessfulSyncAt :: "string option"

definition no_metadata :: flushMetadata where
  "no_metadata = \<lparr>fm_receiveKeyIndex = None, fm_lastSuccessfulSyncAt = None\<rparr>"

text \<open>The call, and the export that follows it while the session is open, also when the call failed. An error
  is its message. A call without a result has no metadata of its own in the code either.\<close>

definition finishBarkMutation ::
  "bool \<Rightarrow> ('s, 'a) op \<Rightarrow> (flushMetadata \<Rightarrow> ('s, unit) op) \<Rightarrow> ('a \<Rightarrow> flushMetadata) \<Rightarrow> ('s, 'a) op" where
  "finishBarkMutation sessionOpen operation flushProtocolState metadata =
     (\<lambda>s. let (res, s1) = operation s;
              (flushed, s2) =
                (if sessionOpen
                 then flushProtocolState (case res of Inr x \<Rightarrow> metadata x | Inl e \<Rightarrow> no_metadata) s1
                 else (Inr (), s1))
          in (case (res, flushed) of
                (Inl operationError, Inl flushError) \<Rightarrow>
                  (Inl (operationError @ '' (Bark record envelope was not saved: '' @ flushError @ '')''), s2)
              | (Inr x, Inl flushError) \<Rightarrow> (Inl flushError, s2)
              | (res, Inr u) \<Rightarrow> (res, s2)))"

lemma finish_returns:
  assumes "finishBarkMutation sessionOpen operation flush metadata s = (Inr x, s')"
  obtains s1 where "operation s = (Inr x, s1)" and "if sessionOpen then flush (metadata x) s1 = (Inr (), s') else s' = s1"
  using assms by (auto simp: finishBarkMutation_def Let_def split: prod.splits sum.splits if_splits)

section \<open>Changes keep the normal form\<close>

text \<open>The changes of both rails as data. The last case stands for the changes that other parts of the program
  make to the same payload.\<close>

datatype railChange =
  BarkChange string string barkUpdate
  | ArkadePersist string string "string option"
  | ArkadeSyncAt string string
  | ArkadeEnsure arkadeOpened
  | OtherChange "jsValue \<Rightarrow> string + jsValue"

fun apply_change :: "secretsCrypto \<Rightarrow> railChange \<Rightarrow> jsValue \<Rightarrow> string + jsValue" where
  "apply_change c (BarkChange uuid network u) payload = apply_bark_update (sc_env c) uuid network u payload"
| "apply_change c (ArkadePersist i json syncedAt) payload = mergeSdkPersistenceIntoPayload (sc_parse c) payload i json syncedAt"
| "apply_change c (ArkadeSyncAt i syncedAt) payload = updateOperatorSyncAtInPayload payload i syncedAt"
| "apply_change c (ArkadeEnsure p) payload =
     sum_then (ensureArkadeAccountInPayload payload p) (\<lambda>(mergedPayload, account). Inr mergedPayload)"
| "apply_change c (OtherChange f) payload = f payload"

definition active_ok :: "jsValue list \<Rightarrow> jsValue js_record \<Rightarrow> bool" where
  "active_ok accounts active \<longleftrightarrow>
     list_all (\<lambda>(n, i). n \<in> set ARKADE_SUPPORTED_NETWORK_MODES \<and> is_str (\<lambda>s. js_trim s \<noteq> []) (Some i) \<and>
       Some i \<in> account_ids (VArr accounts)) active"

lemma normal_form_cases:
  assumes "normal_form env v"
  obtains rest l accounts active barks where "v = normal_payload rest (VArr accounts) (VObj active) (VArr barks)"
    and "rest_ok rest" "rec_get rest ''lightningNwcConnections'' = Some l" "l \<noteq> VNull"
    and "list_all (isStoredArkadeAccount env) accounts" "active_ok accounts active"
    and "list_all (\<lambda>row. sanitizeStoredBarkAccountRow env row = Some row) barks" "distinct (bark_networks barks)"
proof -
  have "parseWalletPayloadJson (\<lambda>_. Some v) env [] = Inr v" using assms by (rule parse_normal) simp
  then obtain raw rest accounts active barks where
    v: "v = normal_payload rest (VArr accounts) (VObj active) (VArr barks)" "isWalletSecretsPayload env v"
    and rest: "rest = normal_rest (spread raw)" and accounts: "normal_accounts env (spread raw) = VArr accounts"
    and active: "normal_active env (spread raw) = VObj active" and barks: "normal_barks env (spread raw) = Inr (VArr barks)"
    by (rule parse_payload_cases)
  have ok: "rest_ok rest" using rest by (simp add: rest_ok_normal_rest)
  have valid: "list_all (isStoredBarkAccount env) barks" "distinct (bark_networks barks)"
    using v(2) unfolding v(1) payload_normal_iff[OF ok] by (simp_all add: is_list_def)
  from barks have fixed: "list_all (\<lambda>row. sanitizeStoredBarkAccountRow env row = Some row) barks"
    by (rule normal_barks_cases; use valid in \<open>auto simp: isStoredBarkAccount_def bark_core_ok_def isRecord_def\<close>)
  have "active_ok accounts active" using normal_active_valid[of env "spread raw"] active accounts by (auto simp: active_ok_def)
  with v(1) ok rest fixed valid(2) normal_accounts_valid[OF accounts] show ?thesis
    by (intro that) (auto simp: normal_rest_gets coalesce_not_nullish)
qed

lemma normal_formI:
  assumes "isWalletSecretsPayload env v" and "v = normal_payload rest (VArr accounts) (VObj active) (VArr barks)"
    and "rest_ok rest" "rec_get rest ''lightningNwcConnections'' = Some l" "l \<noteq> VNull"
    and "list_all (isStoredArkadeAccount env) accounts" "active_ok accounts active"
    and "list_all (\<lambda>row. sanitizeStoredBarkAccountRow env row = Some row) barks" "distinct (bark_networks barks)"
  shows "normal_form env v"
  using assms by (simp add: normal_form_def normalize_fixed active_ok_def)

lemma rec_set_append: "rec_get r k = None \<Longrightarrow> rec_set k v (r @ s) = r @ rec_set k v s"
  by (induction r) (auto simp: rec_set_def split: if_splits)

lemma normal_payload_sets:
  assumes "rest_ok rest"
  shows "with_field ''barkAccounts'' v (normal_payload rest a b k) = normal_payload rest a b v"
    and "with_field ''arkadeAccounts'' v (normal_payload rest a b k) = normal_payload rest v b k"
    and "with_field ''activeArkadeAccountIdByNetwork'' v (normal_payload rest a b k) = normal_payload rest a v k"
  using assms by (simp_all add: with_field_def normal_payload_def rec_set_append rest_ok_def LEGACY_PAYLOAD_KEYS_def)
    (simp_all add: rec_set_def)

lemma bark_change_normal:
  assumes "normal_form env p" and "changes_to env network p settings p'"
  shows "normal_form env p'"
  using assms(2) unfolding changes_to_def
proof (elim disjE exE conjE)
  fix account
  assume p': "p' = upsertBarkAccountInPayload p account" and stored: "isStoredBarkAccount env account"
    and dump: "field account ''recordDump'' = None"
  from assms(1) obtain rest l accounts active barks where p: "p = normal_payload rest (VArr accounts) (VObj active) (VArr barks)"
    and ok: "rest_ok rest" "rec_get rest ''lightningNwcConnections'' = Some l" "l \<noteq> VNull"
      "list_all (isStoredArkadeAccount env) accounts" "active_ok accounts active"
      "list_all (\<lambda>row. sanitizeStoredBarkAccountRow env row = Some row) barks" "distinct (bark_networks barks)"
    by (rule normal_form_cases)
  obtain o' where o': "account = VObj o'" using stored by (cases account) (auto simp: isStoredBarkAccount_def bark_core_ok_def isRecord_def is_str_def isNonEmptyString_def)
  have fixed: "sanitizeStoredBarkAccountRow env account = Some account"
    using sanitize_bark_fixed[of env o'] stored dump by (simp add: o')
  have "bark_rows p = barks" by (simp add: bark_rows_def p normal_payload_fields[OF ok(1)])
  then have "p' = normal_payload rest (VArr accounts) (VObj active) (VArr (upsert_row account barks))"
    by (simp add: p' upsert_payload) (simp add: p normal_payload_sets[OF ok(1)])
  moreover have "isWalletSecretsPayload env p'" using assms(1) stored by (simp add: p' upsert_valid normal_form_def)
  ultimately show ?thesis
    using ok fixed by (auto intro!: normal_formI all_upsert_row distinct_upsert_row)
qed (use assms(1) in simp)

lemma arkade_upsert_normal:
  assumes "normal_form env p" and "isStoredArkadeAccount env account"
  shows "normal_form env (upsertArkadeAccountInPayload p account setActive)"
    and "findBarkAccount (upsertArkadeAccountInPayload p account setActive) n = findBarkAccount p n"
proof -
  from assms(1) obtain rest l accounts active barks where p: "p = normal_payload rest (VArr accounts) (VObj active) (VArr barks)"
    and ok: "rest_ok rest" "rec_get rest ''lightningNwcConnections'' = Some l" "l \<noteq> VNull"
      "list_all (isStoredArkadeAccount env) accounts" "active_ok accounts active"
      "list_all (\<lambda>row. sanitizeStoredBarkAccountRow env row = Some row) barks" "distinct (bark_networks barks)"
    by (rule normal_form_cases)
  note fields = normal_payload_fields[OF ok(1), of "VArr accounts" "VObj active" "VArr barks", folded p]
  let ?accounts = "filter (\<lambda>row. field row ''id'' \<noteq> field account ''id'') accounts @ [account]"
  let ?active = "if setActive then rec_set (network_of account) (the_value (field account ''id'')) active else active"
  have rows: "arkade_rows p = accounts" by (simp add: arkade_rows_def fields)
  have p': "upsertArkadeAccountInPayload p account setActive = normal_payload rest (VArr ?accounts) (VObj ?active) (VArr barks)"
    by (simp add: upsertArkadeAccountInPayload_def rows fields the_value_def Let_def) (simp add: p normal_payload_sets[OF ok(1)])
  obtain i n where i: "field account ''id'' = Some (VStr i)" "js_trim i \<noteq> []" and n: "field account ''networkMode'' = Some (VStr n)" "n \<in> set ARKADE_SUPPORTED_NETWORK_MODES"
    using assms(2) by (cases "field account ''id''" rule: str_of.cases; cases "field account ''networkMode''" rule: str_of.cases)
      (auto simp: isStoredArkadeAccount_def isNonEmptyString_def is_str_def)
  have ids: "account_ids (VArr ?accounts) = insert (Some (VStr i)) (account_ids (VArr accounts))"
    using i by (auto simp: account_ids_def)
  have old: "active_ok ?accounts active" using ok(5) by (auto simp: active_ok_def ids list_all_iff)
  have new: "active_ok ?accounts (rec_set n (VStr i) active)"
  proof -
    have "set (rec_set n (VStr i) active) \<subseteq> insert (n, VStr i) (set active)"
      unfolding rec_set_def by (induction active) auto
    then show ?thesis using old i n ids by (auto simp: active_ok_def list_all_iff is_str_def dest!: subsetD)
  qed
  have "active_ok ?accounts ?active" using old new i n by (simp add: network_of_def the_value_def)
  moreover have "list_all (isStoredArkadeAccount env) ?accounts" using ok(4) assms(2) by (auto simp: list_all_iff)
  ultimately show "normal_form env (upsertArkadeAccountInPayload p account setActive)"
    using ok assms by (intro normal_formI[OF _ p']) (auto simp: arkade_upsert_valid normal_form_def)
  show "findBarkAccount (upsertArkadeAccountInPayload p account setActive) n = findBarkAccount p n" for n
    by (simp add: p' findBarkAccount_def bark_rows_def normal_payload_fields[OF ok(1)] fields)
qed

text \<open>The settings of the Bark rail by network.\<close>

type_synonym railSettings = "string \<Rightarrow> barkSettings option"

definition settings_of :: "jsValue \<Rightarrow> railSettings" where
  "settings_of payload = (\<lambda>n. map_option bark_settings (findBarkAccount payload n))"

text \<open>What the callers guarantee of a change: networks of the build, usable identifiers, times that parse; the
  other changes keep the normal form and the settings of the Bark rail.\<close>

fun change_ok :: "secretsEnv \<Rightarrow> railChange \<Rightarrow> bool" where
  "change_ok env (BarkChange uuid network u) \<longleftrightarrow> network_allowed env network \<and> update_ok env uuid u"
| "change_ok env (ArkadePersist i json syncedAt) \<longleftrightarrow> optional (isIso8601Timestamp env) (map_option VStr syncedAt)"
| "change_ok env (ArkadeSyncAt i syncedAt) \<longleftrightarrow> isIso8601Timestamp env (Some (VStr syncedAt))"
| "change_ok env (ArkadeEnsure p) \<longleftrightarrow> opened_ok env p"
| "change_ok env (OtherChange f) \<longleftrightarrow>
     (\<forall>p p'. normal_form env p \<and> f p = Inr p' \<longrightarrow> normal_form env p' \<and> settings_of p' = settings_of p)"

text \<open>Each change of the Arkade rail puts a stored account into the payload.\<close>

definition arkade_upserts :: "secretsEnv \<Rightarrow> jsValue \<Rightarrow> jsValue \<Rightarrow> bool" where
  "arkade_upserts env p p' \<longleftrightarrow> (\<exists>account active. p' = upsertArkadeAccountInPayload p account active \<and> isStoredArkadeAccount env account)"

lemma arkade_upsertsI: "p' = upsertArkadeAccountInPayload p account active \<Longrightarrow> isStoredArkadeAccount env account \<Longrightarrow> arkade_upserts env p p'"
  by (auto simp: arkade_upserts_def)

lemma found_arkade:
  assumes "isWalletSecretsPayload env p" "findArkadeAccount p i = Some existing"
  obtains x where "existing = VObj x" "isStoredArkadeAccount env (VObj x)"
  using arkade_row_stored[OF assms(1)] find_arkade_mem[OF assms(2)] by blast

lemma merged_one_of: "mergeSdkPersistenceJsonMonotonic jp old json = Inr m \<Longrightarrow> m = json \<or> old = Some m"
  by (auto simp: mergeSdkPersistenceJsonMonotonic_def split: option.splits sum.splits if_splits)

lemma arkade_persist_upserts:
  assumes "isWalletSecretsPayload env p" and "mergeSdkPersistenceIntoPayload jp p i json syncedAt = Inr p'"
    and "optional (isIso8601Timestamp env) (map_option VStr syncedAt)"
  shows "arkade_upserts env p p'"
proof -
  obtain existing m where found: "findArkadeAccount p (VStr i) = Some existing"
    and m: "mergeSdkPersistenceJsonMonotonic jp (str_of (field existing ''sdkPersistenceJson'')) json = Inr m"
    and size: "utf8_length json \<le> ARKADE_SDK_PERSISTENCE_JSON_MAX_BYTES"
    and p': "p' = upsertArkadeAccountInPayload p (VObj (set_or_delete ''lastSuccessfulOperatorSyncAt''
        (Payload_Updates.or_else (map_option VStr syncedAt) (field existing ''lastSuccessfulOperatorSyncAt'')) (rec_set ''sdkPersistenceJson'' (VStr m) (spread existing)))) False"
    using assms(2) by (auto simp: mergeSdkPersistenceIntoPayload_def and_then_Inr assertSdkPersistenceJsonWithinSizeLimit_def
        split: option.splits sum.splits if_splits)
  from found_arkade[OF assms(1) found] obtain x where x: "existing = VObj x" "isStoredArkadeAccount env (VObj x)" .
  have "utf8_length m \<le> ARKADE_SDK_PERSISTENCE_JSON_MAX_BYTES"
    using merged_one_of[OF m] size x by (cases "rec_get x ''sdkPersistenceJson''") (auto simp: isStoredArkadeAccount_def is_str_def)
  moreover have "optional (isIso8601Timestamp env) (Payload_Updates.or_else (map_option VStr syncedAt) (rec_get x ''lastSuccessfulOperatorSyncAt''))"
    using assms(3) x(2) by (cases syncedAt) (auto simp: isStoredArkadeAccount_def Payload_Updates.or_else_def nullish_def)
  ultimately show ?thesis
    using x by (auto intro!: arkade_upsertsI[OF p'] simp: isStoredArkadeAccount_def isRecord_def is_str_def)
qed

lemma arkade_sync_upserts:
  assumes "isWalletSecretsPayload env p" and "updateOperatorSyncAtInPayload p i syncedAt = Inr p'" and "isIso8601Timestamp env (Some (VStr syncedAt))"
  shows "arkade_upserts env p p'"
proof -
  obtain existing where found: "findArkadeAccount p (VStr i) = Some existing"
    and p': "p' = upsertArkadeAccountInPayload p (with_field ''lastSuccessfulOperatorSyncAt'' (VStr syncedAt) existing) False"
    using assms(2) by (auto simp: updateOperatorSyncAtInPayload_def split: option.splits)
  from found_arkade[OF assms(1) found] obtain x where x: "existing = VObj x" "isStoredArkadeAccount env (VObj x)" .
  show ?thesis
    using x assms(3) by (auto intro!: arkade_upsertsI[OF p'] simp: isStoredArkadeAccount_def isRecord_def with_field_def)
qed

lemma arkade_ensure_upserts:
  assumes "isWalletSecretsPayload env p" and "ensureArkadeAccountInPayload p q = Inr (p', account)" and "opened_ok env q"
  shows "arkade_upserts env p p'"
proof -
  have upsert: "p' = upsertArkadeAccountInPayload p account True"
    using assms(2) by (auto simp: ensureArkadeAccountInPayload_def and_then_Inr Let_def split: option.splits)
  have accepted: "findActiveArkadeAccount p (ao_networkMode q) = Some row \<Longrightarrow> signer_accepted q row" for row
    using assms(2) by (auto simp: ensureArkadeAccountInPayload_def and_then_Inr signer_accepted_def assertOperatorSignerMatchesOrMigration_def
        assertOperatorSignerMatches_def split: if_splits option.splits)
  have "session_result env p q p' account"
  proof (cases "findActiveArkadeAccount p (ao_networkMode q)")
    case (Some row)
    from ensure_active[OF assms(1,3) this accepted[OF this]] show ?thesis using assms(2) by auto
  next
    case None
    then show ?thesis
      using ensure_matching[OF assms(1,3) None] ensure_new[OF assms(1,3) None] assms(2)
      by (cases "List.find (matches_signer q) (arkade_rows p)") auto
  qed
  then have "isStoredArkadeAccount env account"
    using arkade_row_stored(1) find_active_id(2) unfolding session_result_def by blast
  with upsert show ?thesis unfolding arkade_upserts_def by blast
qed

section \<open>The sequential specification\<close>

text \<open>A Bark change sets the settings of its network when it is admissible, the other changes leave them.\<close>

fun settings_step :: "secretsEnv \<Rightarrow> railChange \<Rightarrow> railSettings \<Rightarrow> railSettings option" where
  "settings_step env (BarkChange uuid network u) st =
     (if update_admissible env u (st network) then Some (st(network := settings_update u (st network))) else None)"
| "settings_step env _ st = Some st"

fun settings_run :: "secretsEnv \<Rightarrow> railChange list \<Rightarrow> railSettings \<Rightarrow> railSettings option" where
  "settings_run env [] st = Some st"
| "settings_run env (ch # chs) st = Option.bind (settings_step env ch st) (settings_run env chs)"

lemma change_refines:
  assumes "normal_form (sc_env c) p" and "change_ok (sc_env c) ch" and "apply_change c ch p = Inr p'"
  shows "normal_form (sc_env c) p'" and "settings_step (sc_env c) ch (settings_of p) = Some (settings_of p')"
proof -
  let ?env = "sc_env c"
  have valid: "isWalletSecretsPayload ?env p" using assms(1) by (simp add: normal_form_def)
  have arkade: "normal_form ?env p' \<and> settings_of p' = settings_of p" if "arkade_upserts ?env p p'"
    using that arkade_upsert_normal[OF assms(1)] by (auto simp: arkade_upserts_def settings_of_def)
  have "normal_form ?env p' \<and> settings_step ?env ch (settings_of p) = Some (settings_of p')"
  proof (cases ch)
    case (BarkChange uuid network u)
    have ok: "network_allowed ?env network" "update_ok ?env uuid u" "apply_bark_update ?env uuid network u p = Inr p'"
      using assms(2,3) BarkChange by simp_all
    note changes = bark_update_changes[OF valid ok]
    have "update_admissible ?env u (settings_of p network)"
      using bark_update_accepts[of ?env uuid network u p] ok(3) by (auto simp: settings_of_def)
    moreover have "settings_of p' = (settings_of p)(network := settings_update u (settings_of p network))"
      using changes_to_effect(2,3)[OF valid changes] by (auto simp: settings_of_def)
    ultimately show ?thesis using bark_change_normal[OF assms(1) changes] by (simp add: BarkChange)
  next
    case (ArkadePersist i json syncedAt)
    then show ?thesis using assms(2,3) arkade arkade_persist_upserts[OF valid] by simp
  next
    case (ArkadeSyncAt i syncedAt)
    then show ?thesis using assms(2,3) arkade arkade_sync_upserts[OF valid] by simp
  next
    case (ArkadeEnsure q)
    then show ?thesis using assms(2,3) arkade arkade_ensure_upserts[OF valid]
      by (auto simp: sum_then_def split: sum.splits)
  next
    case (OtherChange f)
    then show ?thesis using assms by auto
  qed
  then show "normal_form ?env p'" "settings_step ?env ch (settings_of p) = Some (settings_of p')" by simp_all
qed

section \<open>Interleaved writers\<close>

text \<open>A writer is a worker with its change or the main thread.\<close>

datatype payloadWriter = WorkerWrite hostRuns int railChange | MainWrite int railChange

fun writer_change :: "payloadWriter \<Rightarrow> railChange" where
  "writer_change (WorkerWrite runs wid ch) = ch"
| "writer_change (MainWrite wid ch) = ch"

fun writer_task :: "secretsCrypto \<Rightarrow> payloadWriter \<Rightarrow> updateTask" where
  "writer_task c (WorkerWrite runs wid ch) = updateDecryptedWalletPayload c runs wid (apply_change c ch)"
| "writer_task c (MainWrite wid ch) =
     updateWalletSecretsPayloadWithRetry c wid (\<lambda>db payload. sum_then (apply_change c ch payload) (\<lambda>p. Inr (p, []))) WALLET_SECRETS_CAS_MAX_RETRIES"

lemma host_result:
  "rejectWhenTimedOut (rejectWhenDetached first work signal) = Inr x \<Longrightarrow> work = Inr x"
  by (auto simp: rejectWhenTimedOut_def rejectWhenDetached_def split: option.splits if_splits transformEnd.splits)

lemma writer_commit:
  assumes "ut_transform (writer_task c wr) k d b = Inr (b', names)"
  obtains p p' where "read_blob c b = Inr p" "apply_change c (writer_change wr) p = Inr p'" "sc_encrypt c k (sc_stringify c p') = Inr b'"
  using assms
  by (cases wr)
     (auto simp: updateDecryptedWalletPayload_def updateEncryptedPayload_def updateWalletSecretsEncryptedPayloadWithRetry_def
       updateWalletSecretsPayloadWithRetry_def update_task_def payload_transform_def transform_run_def read_blob_def sum_then_Inr
       dest!: host_result)

fun submitted :: "secretsEvent list \<Rightarrow> updateTask list" where
  "submitted [] = []"
| "submitted (SubmitUpdate t # es) = t # submitted es"
| "submitted (_ # es) = submitted es"

fun same_password :: "secretsEvent \<Rightarrow> bool" where
  "same_password (Reencrypted now blobs) = False"
| "same_password _ = True"

definition statics :: "updateTask \<Rightarrow> int \<times> (nat \<Rightarrow> walletDb \<Rightarrow> blob \<Rightarrow> string + blob \<times> string list)" where
  "statics t = (ut_wallet t, ut_transform t)"

lemma statics_update: "statics t = statics (ts ! i) \<Longrightarrow> i < length ts \<Longrightarrow> map statics (ts[i := t]) = map statics ts"
  by (metis list_update_id map_update)

lemma statics_with_task: "(\<And>t. statics (f t) = statics t) \<Longrightarrow> map statics (wo_tasks (with_task i f s)) = map statics (wo_tasks s)"
  by (simp add: with_task_def statics_update)

lemma statics_event:
  "map statics (wo_tasks (secrets_event e s)) = map statics (wo_tasks s) @ map statics (submitted [e])"
proof (cases e)
  case (TaskWrite i now)
  have "statics (fst (update_write now db t)) = statics t" for db t by (simp add: statics_def update_static)
  then show ?thesis
    using TaskWrite by (cases "update_write now (wo_db s) (wo_tasks s ! i)") (simp add: statics_update, metis fst_conv statics_update)
qed (simp_all add: statics_with_task statics_def update_static split: sum.split prod.split)

lemma statics_run: "map statics (wo_tasks (fold secrets_event es s)) = map statics (wo_tasks s) @ map statics (submitted es)"
proof (induction es arbitrary: s)
  case (Cons e es)
  have "submitted (e # es) = submitted [e] @ submitted es" by (cases e) simp_all
  then show ?case using Cons statics_event[of e s] by simp
qed simp

lemma logged_by_tasks:
  "list_all same_password es \<Longrightarrow> list_all (\<lambda>cm. co_task cm \<noteq> None) (wo_log s) \<Longrightarrow> list_all (\<lambda>cm. co_task cm \<noteq> None) (wo_log (fold secrets_event es s))"
proof (induction es arbitrary: s)
  case (Cons e es)
  have rep: "co_task (replaced db cm) = co_task cm" for db cm by (simp add: replaced_def split: option.split)
  have "list_all (\<lambda>cm. co_task cm \<noteq> None) (map (replaced db) (commit_of i t))" for db i t
    by (auto simp: commit_of_def rep split: updatePhase.split)
  then have "list_all (\<lambda>cm. co_task cm \<noteq> None) (wo_log (secrets_event e s))"
    using Cons.prems by (cases e) (auto simp: with_task_def Let_def split: prod.split)
  then show ?case using Cons by simp
qed simp

text \<open>Decrypting what the session encrypted gives the text back.\<close>

definition session_crypto_ok :: "secretsCrypto \<Rightarrow> bool" where
  "session_crypto_ok c \<longleftrightarrow> (\<forall>n t b. sc_encrypt c n t = Inr b \<longrightarrow> sc_decrypt c b = Inr t)"

text \<open>The changes that were committed to a wallet, in the order of the commits.\<close>

definition committed_changes :: "payloadWriter list \<Rightarrow> payloadCommit list \<Rightarrow> railChange list" where
  "committed_changes writers cms = map (\<lambda>cm. writer_change (writers ! the (co_task cm))) cms"

definition commit_json_ok :: "secretsCrypto \<Rightarrow> payloadWriter list \<Rightarrow> payloadCommit \<Rightarrow> bool" where
  "commit_json_ok c writers cm \<longleftrightarrow>
     (case read_blob c (co_before cm) of
        Inl e \<Rightarrow> True
      | Inr p \<Rightarrow> (case apply_change c (writer_change (writers ! the (co_task cm))) p of Inl e \<Rightarrow> True | Inr p' \<Rightarrow> json_ok c p'))"

definition writer_commits :: "secretsCrypto \<Rightarrow> payloadWriter list \<Rightarrow> payloadCommit \<Rightarrow> bool" where
  "writer_commits c writers cm \<longleftrightarrow>
     (\<exists>i k d. co_task cm = Some i \<and> i < length writers \<and>
        ut_transform (writer_task c (writers ! i)) k d (co_before cm) = Inr (co_after cm, co_names cm))"

lemma read_normal: "read_blob c b = Inr p \<Longrightarrow> normal_form (sc_env c) p"
  by (auto simp: read_blob_def sum_then_Inr read_payload_def intro: parsed_normal)

lemma commits_refine:
  assumes "session_crypto_ok c" and "list_all (\<lambda>wr. change_ok (sc_env c) (writer_change wr)) writers"
    and "chained b cms b'" "list_all (writer_commits c writers) cms" "list_all (commit_json_ok c writers) cms"
    and "read_blob c b = Inr p"
  shows "\<exists>p'. read_blob c b' = Inr p' \<and>
    settings_run (sc_env c) (committed_changes writers cms) (settings_of p) = Some (settings_of p')"
  using assms(3-)
proof (induction cms arbitrary: b p)
  case Nil
  then show ?case by (simp add: committed_changes_def)
next
  case (Cons cm cms)
  from Cons.prems obtain i k d where i: "co_task cm = Some i" "i < length writers" and before: "co_before cm = b"
    and run: "ut_transform (writer_task c (writers ! i)) k d b = Inr (co_after cm, co_names cm)"
    by (auto simp: writer_commits_def)
  let ?ch = "writer_change (writers ! i)"
  from run Cons.prems(4) obtain p' where p': "apply_change c ?ch p = Inr p'" "sc_encrypt c k (sc_stringify c p') = Inr (co_after cm)"
    by (auto elim: writer_commit)
  have ok: "change_ok (sc_env c) ?ch" using assms(2) i(2) by (simp add: list_all_length)
  note refined = change_refines[OF read_normal[OF Cons.prems(4)] ok p'(1)]
  have "json_ok c p'" using Cons.prems(3,4) before i p'(1) by (simp add: commit_json_ok_def)
  then have after: "read_blob c (co_after cm) = Inr p'"
    using assms(1) p'(2) parse_normal[OF refined(1)]
    by (simp add: read_blob_def session_crypto_ok_def sum_then_Inr read_payload_def json_ok_def)
  have rest: "chained (co_after cm) cms b'" "list_all (writer_commits c writers) cms" "list_all (commit_json_ok c writers) cms"
    using Cons.prems(1-3) by simp_all
  from Cons.IH[OF rest after] show ?case using refined(2) i(1) by (simp add: committed_changes_def)
qed

lemma run_writer_commits:
  assumes "db_ok db" "find_row w db = Some r" "distinct (marker_names db w)" "secrets_schedule db es"
    and "list_all same_password es" "submitted es = map (writer_task c) writers"
  shows "list_all (writer_commits c writers) (commits_of w (run_secrets db es))"
proof -
  let ?s = "run_secrets db es"
  have statics: "map statics (wo_tasks ?s) = map statics (map (writer_task c) writers)"
    using statics_run[of es "\<lparr>wo_db = db, wo_tasks = [], wo_log = []\<rparr>"] by (simp add: run_secrets_def assms(6))
  then have len: "length (wo_tasks ?s) = length writers" by (metis length_map)
  have same: "ut_transform (wo_tasks ?s ! i) = ut_transform (writer_task c (writers ! i))" if "i < length writers" for i
    using arg_cong[OF statics, of "\<lambda>xs. snd (xs ! i)"] that len by (simp add: statics_def)
  have tasks: "list_all (\<lambda>cm. co_task cm \<noteq> None) (wo_log ?s)"
    unfolding run_secrets_def using assms(5) by (rule logged_by_tasks) simp
  have "list_all (commit_ok (wo_tasks ?s)) (wo_log ?s)" using run_secrets_inv(1)[OF assms(1-4)] by (simp add: tasks_ok_def)
  with tasks show ?thesis
    by (fastforce simp: list_all_iff commits_of_def writer_commits_def commit_ok_def len same split: option.splits)
qed

text \<open>The readers of a wallet answer from the settings that are stored.\<close>

lemma readers_of_settings:
  assumes "find_row w db = Some r" and "read_blob c (sr_payload r) = Inr p"
  shows "fst (readStoredBarkReceiveKeyIndex c w n db) = Inr (Option.bind (settings_of p n) bs_receiveKeyIndex)"
    and "fst (readProceedAutomatically c w n db) = Inr (case settings_of p n of Some st \<Rightarrow> bs_automatic st | None \<Rightarrow> False)"
    and "fst (readEmergencyExitFeePrefs c w n db) =
      Inr \<lparr>fp_feePresetLabel = (case Option.bind (settings_of p n) bs_preset of Some q \<Rightarrow> q | None \<Rightarrow> DEFAULT_BARK_EMERGENCY_EXIT_FEE_PRESET),
           fp_maxFeeRateSatPerVb = Option.bind (settings_of p n) bs_maxRate\<rparr>"
    and "\<exists>v. fst (readPendingEmergencyClaim c w n db) = Inr v \<and> pending_of v = Option.bind (settings_of p n) bs_pending"
proof -
  have payload: "readDecryptedWalletPayload c w db = (Inr p, db)"
    using assms by (simp add: readDecryptedWalletPayload_def readEncryptedPayload_def getWalletSecretsEncrypted_def
        getWalletSecretsEncryptedWithRevision_def op_bind_apply)
  note reads = op_bind_apply payload settings_of_def opt_field_def bark_settings_def
  have none: "pending_of None = None" by (simp add: pending_of_def isPendingEmergencyClaim_def)
  have some: "pending_of (present v) = pending_of v" for v
    by (cases v) (auto simp: pending_of_def isPendingEmergencyClaim_def isRecord_def)
  show "fst (readStoredBarkReceiveKeyIndex c w n db) = Inr (Option.bind (settings_of p n) bs_receiveKeyIndex)"
    by (simp add: readStoredBarkReceiveKeyIndex_def reads split: option.split)
  show "fst (readProceedAutomatically c w n db) = Inr (case settings_of p n of Some st \<Rightarrow> bs_automatic st | None \<Rightarrow> False)"
    by (simp add: readProceedAutomatically_def reads proceedAutomaticallyFromUnknown_def split: option.split)
  show "fst (readEmergencyExitFeePrefs c w n db) =
      Inr \<lparr>fp_feePresetLabel = (case Option.bind (settings_of p n) bs_preset of Some q \<Rightarrow> q | None \<Rightarrow> DEFAULT_BARK_EMERGENCY_EXIT_FEE_PRESET),
           fp_maxFeeRateSatPerVb = Option.bind (settings_of p n) bs_maxRate\<rparr>"
    by (cases "findBarkAccount p n")
       (simp_all add: readEmergencyExitFeePrefs_def reads fee_prefs_def emergencyExitFeePresetFromUnknown_def emergencyExitMaxFeeRateFromUnknown_def)
  show "\<exists>v. fst (readPendingEmergencyClaim c w n db) = Inr v \<and> pending_of v = Option.bind (settings_of p n) bs_pending"
    by (cases "findBarkAccount p n") (simp_all add: readPendingEmergencyClaim_def reads none some)
qed

lemma commits_of_wallet:
  assumes "tasks_ok s" and "i < length (wo_tasks s)" and "ut_wallet (wo_tasks s ! i) = w"
  shows "commits_by i (commits_of w s) = (if ut_phase (wo_tasks s ! i) = Returned then 1 else 0)"
proof -
  have "filter (\<lambda>cm. co_task cm = Some i) (commits_of w s) = filter (\<lambda>cm. co_task cm = Some i) (wo_log s)"
    using assms unfolding commits_of_def filter_filter
    by (intro filter_cong) (auto simp: tasks_ok_def list_all_iff commit_ok_def split: option.splits)
  then show ?thesis using assms(1,2) by (simp add: commits_by_def tasks_ok_def)
qed

text \<open>C8: However the workers of both rails, the main thread and other tabs interleave their changes of a wallet
  between two changes of the password, the stored settings of the Bark rail are those of the sequential
  specification run over the committed changes in the order of their commits: each of them was
  admissible when it was committed, none is lost or applied to an old payload, and the payload stays
  readable. A call that returned has committed once; one that threw, ran into the timeout or lost its
  worker has not. The readers of the worker answer from these settings.\<close>

theorem rail_changes_serializable:
  assumes "db_ok db" "find_row w db = Some r" "distinct (marker_names db w)" "secrets_schedule db es" "list_all same_password es"
    and "submitted es = map (writer_task c) writers" and "list_all (\<lambda>wr. change_ok (sc_env c) (writer_change wr)) writers"
    and "session_crypto_ok c" and "read_blob c (sr_payload r) = Inr p"
    and s: "s = run_secrets db es" and "find_row w (wo_db s) = Some r'" and "list_all (commit_json_ok c writers) (commits_of w s)"
  shows "(\<exists>p'. read_blob c (sr_payload r') = Inr p' \<and>
      settings_run (sc_env c) (committed_changes writers (commits_of w s)) (settings_of p) = Some (settings_of p') \<and>
      (\<forall>n. fst (readProceedAutomatically c w n (wo_db s)) = Inr (case settings_of p' n of Some st \<Rightarrow> bs_automatic st | None \<Rightarrow> False) \<and>
        fst (readStoredBarkReceiveKeyIndex c w n (wo_db s)) = Inr (Option.bind (settings_of p' n) bs_receiveKeyIndex) \<and>
        (\<exists>v. fst (readPendingEmergencyClaim c w n (wo_db s)) = Inr v \<and> pending_of v = Option.bind (settings_of p' n) bs_pending))) \<and>
    (\<forall>i < length (wo_tasks s). ut_wallet (wo_tasks s ! i) = w \<longrightarrow>
      commits_by i (commits_of w s) = (if ut_phase (wo_tasks s ! i) = Returned then 1 else 0))"
proof -
  note inv = run_secrets_inv[OF assms(1-4)]
  have "chained (sr_payload r) (commits_of w s) (sr_payload r')" using inv(2) assms(11) unfolding s row_ok_def by blast
  moreover have "list_all (writer_commits c writers) (commits_of w s)" unfolding s by (rule run_writer_commits[OF assms(1-6)])
  ultimately obtain p' where p': "read_blob c (sr_payload r') = Inr p'"
    "settings_run (sc_env c) (committed_changes writers (commits_of w s)) (settings_of p) = Some (settings_of p')"
    using commits_refine[OF assms(8,7) _ _ assms(12,9)] by blast
  moreover have "tasks_ok s" using inv(1) by (simp add: s)
  ultimately show ?thesis using readers_of_settings[OF assms(11) p'(1)] commits_of_wallet by blast
qed

text \<open>Two workers that race on the settings of one account; the worker of a third write is gone.\<close>

abbreviation rail_env :: secretsEnv where "rail_env \<equiv> Payload_Updates.sample_env"

definition result_payload :: "string + jsValue \<Rightarrow> jsValue" where
  "result_payload res = (case res of Inr p \<Rightarrow> p | Inl e \<Rightarrow> VNull)"

definition paused_payload :: jsValue where
  "paused_payload = result_payload (apply_bark_update rail_env ''u'' ''signet'' (ProceedAutomatically False) sample_payload)"

definition urgent_payload :: jsValue where
  "urgent_payload = result_payload (apply_bark_update rail_env ''u'' ''signet'' (FeePreset ''High'') paused_payload)"

definition sample_codec :: secretsCrypto where
  "sample_codec = plain_crypto
     \<lparr>sc_parse := map_of [(''0'', sample_payload), (''1'', paused_payload), (''2'', urgent_payload)],
      sc_stringify := (\<lambda>v. if v = paused_payload then ''1'' else if v = urgent_payload then ''2'' else ''0''),
      sc_env := rail_env\<rparr>"

definition sample_writers :: "payloadWriter list" where
  "sample_writers =
     [WorkerWrite (\<lambda>_. (Some False, WorkSettled)) 1 (BarkChange ''u'' ''signet'' (FeePreset ''High'')),
      WorkerWrite (\<lambda>_. (None, WorkSettled)) 1 (BarkChange ''u'' ''signet'' (ProceedAutomatically False)),
      WorkerWrite (\<lambda>_. (Some False, WorkerGone)) 1 (BarkChange ''u'' ''signet'' (FeePreset ''Low''))]"

definition sample_rail_db :: walletDb where
  "sample_rail_db = sample_db\<lparr>wd_secrets := [(wd_secrets sample_db ! 0)\<lparr>sr_payload := plain_blob ''0''\<rparr>]\<rparr>"

definition sample_rail_race :: "secretsEvent list" where
  "sample_rail_race = map SubmitUpdate (map (writer_task sample_codec) sample_writers) @
     [TaskRead 0, TaskRead 1, TaskCompute 1, TaskRead 2, TaskCompute 2, TaskWrite 1 ''t1'', TaskCompute 0, TaskWrite 0 ''t2'',
      TaskRead 0, TaskCompute 0, TaskWrite 0 ''t3'']"

lemma sample_normal: "normal_form rail_env sample_payload"
proof -
  have "sample_payload = normal_payload [(''descriptorWallets'', VArr []), (''lightningNwcConnections'', VArr [])] (VArr []) (VObj []) (VArr [sample_bark_account])"
    by (simp add: sample_payload_def normal_payload_def)
  moreover have "isStoredBarkAccount rail_env sample_bark_account"
    using payload_bark_rows(1)[OF sample_payload_valid] by (simp add: bark_rows_def sample_payload_def)
  then have "sanitizeStoredBarkAccountRow rail_env sample_bark_account = Some sample_bark_account"
    unfolding sample_bark_account_def by (rule sanitize_bark_fixed) simp
  ultimately show ?thesis
    by (intro normal_formI[OF sample_payload_valid, where l = "VArr []"]) (auto simp: rest_ok_def LEGACY_PAYLOAD_KEYS_def active_ok_def bark_networks_def)
qed

lemma sample_updates_ok: "network_allowed rail_env ''signet''" "update_ok rail_env ''u'' (FeePreset q)" "update_ok rail_env ''u'' (ProceedAutomatically b)"
  by (auto simp: update_ok_def Payload_Updates.sample_env_def js_trim_def js_ws_def Let_def network_allowed_def)

lemma sample_signet: "settings_of sample_payload ''signet'' = Some (bark_settings sample_bark_account)"
  by (simp add: settings_of_def findBarkAccount_def bark_rows_def sample_payload_def on_network_def) (simp add: sample_bark_account_def)

lemma sample_change:
  assumes "normal_form rail_env p" "settings_of p ''signet'' = Some st" "update_ok rail_env ''u'' u" "update_admissible rail_env u (Some st)"
  shows "apply_bark_update rail_env ''u'' ''signet'' u p = Inr (result_payload (apply_bark_update rail_env ''u'' ''signet'' u p))"
    and "normal_form rail_env (result_payload (apply_bark_update rail_env ''u'' ''signet'' u p))"
    and "settings_of (result_payload (apply_bark_update rail_env ''u'' ''signet'' u p)) ''signet'' = settings_update u (Some st)"
proof -
  obtain p' where p': "apply_bark_update rail_env ''u'' ''signet'' u p = Inr p'"
    using bark_update_accepts[of rail_env "''u''" "''signet''" u p] assms(2,4) by (auto simp: settings_of_def)
  have "isWalletSecretsPayload rail_env p" using assms(1) by (simp add: normal_form_def)
  note changes = bark_update_changes[OF this sample_updates_ok(1) assms(3) p'] and effect = changes_to_effect(2)[OF this]
  have settings: "settings_of p' ''signet'' = settings_update u (Some st)"
    using effect[OF changes] assms(2) unfolding settings_of_def by metis
  show "apply_bark_update rail_env ''u'' ''signet'' u p = Inr (result_payload (apply_bark_update rail_env ''u'' ''signet'' u p))"
    "normal_form rail_env (result_payload (apply_bark_update rail_env ''u'' ''signet'' u p))"
    "settings_of (result_payload (apply_bark_update rail_env ''u'' ''signet'' u p)) ''signet'' = settings_update u (Some st)"
    using bark_change_normal[OF assms(1) changes] settings by (simp_all add: p' result_payload_def)
qed

lemma sample_payloads:
  shows "apply_bark_update rail_env ''u'' ''signet'' (ProceedAutomatically False) sample_payload = Inr paused_payload"
    and "apply_bark_update rail_env ''u'' ''signet'' (FeePreset ''High'') paused_payload = Inr urgent_payload"
    and "normal_form rail_env paused_payload" "normal_form rail_env urgent_payload" "urgent_payload \<noteq> paused_payload"
    and "\<exists>v. apply_bark_update rail_env ''u'' ''signet'' (FeePreset ''High'') sample_payload = Inr v"
proof -
  have adm: "update_admissible rail_env (FeePreset ''High'') (Some st)" "update_admissible rail_env (ProceedAutomatically False) (Some st)" for st
    by (simp_all add: BARK_EMERGENCY_EXIT_FEE_PRESETS_def)
  note paused = sample_change[OF sample_normal sample_signet sample_updates_ok(3) adm(2), folded paused_payload_def]
  then obtain st where st: "settings_of paused_payload ''signet'' = Some st" "bs_preset st = None"
    by (auto simp: bark_settings_def sample_bark_account_def emergencyExitFeePresetFromUnknown_def)
  note urgent = sample_change[OF paused(2) st(1) sample_updates_ok(2) adm(1), folded urgent_payload_def]
  show "apply_bark_update rail_env ''u'' ''signet'' (ProceedAutomatically False) sample_payload = Inr paused_payload"
    "apply_bark_update rail_env ''u'' ''signet'' (FeePreset ''High'') paused_payload = Inr urgent_payload"
    "normal_form rail_env paused_payload" "normal_form rail_env urgent_payload"
    using paused urgent by blast+
  show "urgent_payload \<noteq> paused_payload"
  proof
    assume "urgent_payload = paused_payload"
    then have "st = st\<lparr>bs_preset := Some ''High''\<rparr>" using urgent(3) st(1) by simp
    then have "bs_preset st = Some ''High''" by (metis barkSettings.select_convs(7) barkSettings.surjective barkSettings.update_convs(7))
    with st(2) show False by simp
  qed
  show "\<exists>v. apply_bark_update rail_env ''u'' ''signet'' (FeePreset ''High'') sample_payload = Inr v"
    using sample_change(1)[OF sample_normal sample_signet sample_updates_ok(2) adm(1)] by blast
qed

lemma codec_reads:
  "read_blob sample_codec (plain_blob ''0'') = Inr sample_payload" "read_blob sample_codec (plain_blob ''1'') = Inr paused_payload"
  "read_blob sample_codec (plain_blob ''2'') = Inr urgent_payload"
proof -
  have "read_blob sample_codec (plain_blob t) = Inr v" if "sc_parse sample_codec t = Some v" "normal_form rail_env v" for t v
    using that parse_normal by (simp add: read_blob_def sum_then_def read_payload_def sample_codec_def plain_crypto_def plain_blob_def)
  then show "read_blob sample_codec (plain_blob ''0'') = Inr sample_payload" "read_blob sample_codec (plain_blob ''1'') = Inr paused_payload"
    "read_blob sample_codec (plain_blob ''2'') = Inr urgent_payload"
    using sample_normal sample_payloads(3,4) by (simp_all add: sample_codec_def)
qed

lemma codec_ok: "session_crypto_ok sample_codec" "sc_env sample_codec = rail_env"
    "json_ok sample_codec paused_payload" "json_ok sample_codec urgent_payload"
  using sample_payloads(5) by (simp_all add: session_crypto_ok_def json_ok_def sample_codec_def plain_crypto_def plain_blob_def)

lemma codec_transforms:
  "transform_run sample_codec (apply_change sample_codec (BarkChange ''u'' ''signet'' (ProceedAutomatically False))) k (plain_blob ''0'') =
     Inr (paused_payload, plain_blob ''1'')"
  "transform_run sample_codec (apply_change sample_codec (BarkChange ''u'' ''signet'' (FeePreset ''High''))) k (plain_blob ''1'') =
     Inr (urgent_payload, plain_blob ''2'')"
  "\<exists>v t. transform_run sample_codec (apply_change sample_codec (BarkChange ''u'' ''signet'' (FeePreset ''High''))) k (plain_blob ''0'') = Inr (v, plain_blob t)"
proof -
  have enc: "sc_encrypt sample_codec k t = Inr (plain_blob t)" for k t by (simp add: sample_codec_def plain_crypto_def)
  have str: "sc_stringify sample_codec paused_payload = ''1''" "sc_stringify sample_codec urgent_payload = ''2''"
    using sample_payloads(5) by (simp_all add: sample_codec_def)
  show "transform_run sample_codec (apply_change sample_codec (BarkChange ''u'' ''signet'' (ProceedAutomatically False))) k (plain_blob ''0'') =
     Inr (paused_payload, plain_blob ''1'')"
    "transform_run sample_codec (apply_change sample_codec (BarkChange ''u'' ''signet'' (FeePreset ''High''))) k (plain_blob ''1'') =
     Inr (urgent_payload, plain_blob ''2'')"
    using sample_payloads(1,2) by (simp_all del: apply_bark_update.simps add: transform_run_def codec_reads sum_then_def enc str codec_ok(2))
  show "\<exists>v t. transform_run sample_codec (apply_change sample_codec (BarkChange ''u'' ''signet'' (FeePreset ''High''))) k (plain_blob ''0'') = Inr (v, plain_blob t)"
    using sample_payloads(6) by (auto simp del: apply_bark_update.simps simp: transform_run_def codec_reads sum_then_def enc codec_ok(2))
qed

lemma sample_rail_commits:
  "commits_of 1 (run_secrets sample_rail_db sample_rail_race) =
     [\<lparr>co_task = Some 1, co_wallet = 1, co_before = plain_blob ''0'', co_after = plain_blob ''1'', co_names = []\<rparr>,
      \<lparr>co_task = Some 0, co_wallet = 1, co_before = plain_blob ''1'', co_after = plain_blob ''2'', co_names = []\<rparr>]"
  "\<exists>r'. find_row 1 (wo_db (run_secrets sample_rail_db sample_rail_race)) = Some r' \<and> sr_payload r' = plain_blob ''2''"
proof -
  obtain v t where stale: "transform_run sample_codec (apply_change sample_codec (BarkChange ''u'' ''signet'' (FeePreset ''High''))) (Suc 0) (plain_blob ''0'') =
      Inr (v, plain_blob t)"
    using codec_transforms(3) by blast
  note run = run_secrets_def sample_rail_race_def sample_writers_def updateDecryptedWalletPayload_def updateEncryptedPayload_def race_defs
    rejectWhenDetached_def rejectWhenTimedOut_def codec_transforms(1,2) stale sample_rail_db_def sample_db_def
    commits_of_def commit_of_def replaced_def stored_payload_def
  show "commits_of 1 (run_secrets sample_rail_db sample_rail_race) =
     [\<lparr>co_task = Some 1, co_wallet = 1, co_before = plain_blob ''0'', co_after = plain_blob ''1'', co_names = []\<rparr>,
      \<lparr>co_task = Some 0, co_wallet = 1, co_before = plain_blob ''1'', co_after = plain_blob ''2'', co_names = []\<rparr>]"
    "\<exists>r'. find_row 1 (wo_db (run_secrets sample_rail_db sample_rail_race)) = Some r' \<and> sr_payload r' = plain_blob ''2''"
    by (simp_all add: run)
qed

theorem rail_changes_serializable_witness:
  "\<exists>r' p' st. find_row 1 (wo_db (run_secrets sample_rail_db sample_rail_race)) = Some r' \<and> read_blob sample_codec (sr_payload r') = Inr p' \<and>
     settings_of p' ''signet'' = Some st \<and> bs_preset st = Some ''High'' \<and> \<not> bs_automatic st \<and>
     fst (readProceedAutomatically sample_codec 1 ''signet'' (wo_db (run_secrets sample_rail_db sample_rail_race))) = Inr False"
proof -
  let ?s = "run_secrets sample_rail_db sample_rail_race"
  obtain r' where r': "find_row 1 (wo_db ?s) = Some r'" using sample_rail_commits(2) by blast
  have db: "db_ok sample_rail_db" "find_row 1 sample_rail_db = Some (wd_secrets sample_rail_db ! 0)" "distinct (marker_names sample_rail_db 1)"
    by (simp_all add: db_ok_def sample_rail_db_def sample_db_def find_row_def marker_names_def listAppliedWalletDataMigrationNames_def)
  have schedule: "secrets_schedule sample_rail_db sample_rail_race" "list_all same_password sample_rail_race"
    "submitted sample_rail_race = map (writer_task sample_codec) sample_writers"
    by (simp_all add: secrets_schedule_def sample_rail_race_def sample_writers_def del: writer_task.simps)
  have ok: "list_all (\<lambda>wr. change_ok (sc_env sample_codec) (writer_change wr)) sample_writers"
    using sample_updates_ok by (simp add: sample_writers_def codec_ok(2))
  have first: "read_blob sample_codec (sr_payload (wd_secrets sample_rail_db ! 0)) = Inr sample_payload"
    by (simp add: sample_rail_db_def codec_reads)
  have json: "list_all (commit_json_ok sample_codec sample_writers) (commits_of 1 ?s)"
    using sample_payloads(1,2) codec_ok
    by (simp del: apply_bark_update.simps add: sample_rail_commits(1) commit_json_ok_def codec_reads sample_writers_def)
  obtain p' where p': "read_blob sample_codec (sr_payload r') = Inr p'"
    "settings_run rail_env (committed_changes sample_writers (commits_of 1 ?s)) (settings_of sample_payload) = Some (settings_of p')"
    "\<forall>n. fst (readProceedAutomatically sample_codec 1 n (wo_db ?s)) = Inr (case settings_of p' n of Some st \<Rightarrow> bs_automatic st | None \<Rightarrow> False)"
    using rail_changes_serializable[OF db schedule ok codec_ok(1) first refl r' json] unfolding codec_ok(2) by blast
  have shown: "(settings_of sample_payload)(''signet'' \<mapsto> (bark_settings sample_bark_account)\<lparr>bs_automatic := False, bs_preset := Some ''High''\<rparr>) = settings_of p'"
    using p'(2) sample_signet by (simp add: committed_changes_def sample_rail_commits(1) sample_writers_def BARK_EMERGENCY_EXIT_FEE_PRESETS_def)
  have "settings_of p' ''signet'' = Some ((bark_settings sample_bark_account)\<lparr>bs_automatic := False, bs_preset := Some ''High''\<rparr>)"
    using fun_cong[OF shown, of "''signet''"] by simp
  then show ?thesis using r' p'(1,3) by auto
qed

end
