(* ===== verification/Data_Migrations.thy ===== *)
theory Data_Migrations
  imports Secrets_Store
begin

text \<open>
  Data migrations (\<open>db/data-migrations\<close>) and the one migration there is, the split of Signet and Mutinynet
  (\<open>lib/wallet/signet-network-split-migration.ts\<close>, \<open>lib/wallet/historical-signet-onchain-chain.ts\<close>). The
  device step rewrites settings and stores a result, once per device; the wallet step rewrites the
  payload of each wallet under the revision check and marks it in the same transaction. \<open>new URL\<close> is an
  argument that gives host and path.
\<close>

section \<open>The chain of the old signet setting\<close>

datatype signetChain = ChainMutinynet | ChainPublicSignet | ChainCustomHost

fun chain_text :: "signetChain \<Rightarrow> string" where
  "chain_text ChainMutinynet = ''mutinynet''"
| "chain_text ChainPublicSignet = ''public-signet''"
| "chain_text ChainCustomHost = ''custom-host''"

definition parseHistoricalSignetOnchainChain :: "string option \<Rightarrow> signetChain option" where
  "parseHistoricalSignetOnchainChain value =
     (if value = Some ''mutinynet'' then Some ChainMutinynet
      else if value = Some ''public-signet'' then Some ChainPublicSignet
      else if value = Some ''custom-host'' then Some ChainCustomHost else None)"

definition CUSTOM_ESPLORA_URL_KEY_PREFIX :: string where "CUSTOM_ESPLORA_URL_KEY_PREFIX = ''custom_esplora_url_''"
definition SIGNET_ESPLORA_SETTINGS_KEY :: string where "SIGNET_ESPLORA_SETTINGS_KEY = CUSTOM_ESPLORA_URL_KEY_PREFIX @ ''signet''"
definition MUTINYNET_ESPLORA_SETTINGS_KEY :: string where "MUTINYNET_ESPLORA_SETTINGS_KEY = CUSTOM_ESPLORA_URL_KEY_PREFIX @ ''mutinynet''"
definition LEGACY_SIGNET_NETWORK_SPLIT_ESPLORA_MIGRATED_KEY :: string where
  "LEGACY_SIGNET_NETWORK_SPLIT_ESPLORA_MIGRATED_KEY = ''signet_network_split_esplora_migrated''"
definition LEGACY_SIGNET_NETWORK_SPLIT_ONCHAIN_CHAIN_KEY :: string where
  "LEGACY_SIGNET_NETWORK_SPLIT_ONCHAIN_CHAIN_KEY = ''signet_network_split_onchain_chain''"

type_synonym urlParser = "string \<Rightarrow> (string \<times> string) option"

text \<open>The loop that drops slashes at the end, on the reversed path.\<close>

fun drop_slashes :: "string \<Rightarrow> string" where
  "drop_slashes (c # d # cs) = (if c = CHR ''/'' then drop_slashes (d # cs) else c # d # cs)"
| "drop_slashes cs = cs"

definition parseEsploraUrl :: "urlParser \<Rightarrow> string \<Rightarrow> (string \<times> string) option" where
  "parseEsploraUrl newUrl urlString =
     map_option (\<lambda>(host, path). (js_lower host, rev (drop_slashes (rev (js_lower path))))) (newUrl urlString)"

definition isMutinynetEsplora :: "string \<times> string \<Rightarrow> bool" where
  "isMutinynetEsplora url \<longleftrightarrow> fst url = ''mutinynet.com'' \<or> snd url = ''/api/esplora/default/signet''"

definition text_includes :: "string \<Rightarrow> string \<Rightarrow> bool" where
  "text_includes s part \<longleftrightarrow> (\<exists>i \<in> set [0..<Suc (length s)]. starts_with part (drop i s))"

definition isPublicSignetEsplora :: "string \<times> string \<Rightarrow> bool" where
  "isPublicSignetEsplora url \<longleftrightarrow>
     fst url = ''mempool.space'' \<and> text_includes (snd url) ''/signet'' \<or>
     fst url = ''blockstream.info'' \<and> text_includes (snd url) ''/signet'' \<or>
     snd url \<in> {''/api/esplora/legacy/signet'', ''/api/esplora/blockstream/signet''}"

definition classifyHistoricalSignetEsplora :: "urlParser \<Rightarrow> string option \<Rightarrow> signetChain" where
  "classifyHistoricalSignetEsplora newUrl url =
     (let trimmedUrl = (case url of Some u \<Rightarrow> js_trim u | None \<Rightarrow> [])
      in if trimmedUrl = [] then ChainMutinynet
         else case parseEsploraUrl newUrl trimmedUrl of
           None \<Rightarrow> ChainCustomHost
         | Some parsed \<Rightarrow>
             if isMutinynetEsplora parsed then ChainMutinynet
             else if isPublicSignetEsplora parsed then ChainPublicSignet else ChainCustomHost)"

definition historicalSignetOnchainWasMutinynet :: "signetChain option \<Rightarrow> bool" where
  "historicalSignetOnchainWasMutinynet chain \<longleftrightarrow> chain = Some ChainMutinynet"

section \<open>The device step\<close>

record deviceDb =
  dd_settings :: "string js_record"
  dd_migrations :: "string option js_record"

definition readSetting :: "deviceDb \<Rightarrow> string \<Rightarrow> string option" where
  "readSetting db key = rec_get (dd_settings db) key"

definition writeSetting :: "string \<Rightarrow> string \<Rightarrow> deviceDb \<Rightarrow> deviceDb" where
  "writeSetting key value db = db\<lparr>dd_settings := rec_set key value (dd_settings db)\<rparr>"

definition delete_settings :: "string list \<Rightarrow> deviceDb \<Rightarrow> deviceDb" where
  "delete_settings keys db = db\<lparr>dd_settings := fold rec_delete keys (dd_settings db)\<rparr>"

definition adoptLegacySignetNetworkSplitClassification :: "(deviceDb, signetChain option) op" where
  "adoptLegacySignetNetworkSplitClassification =
     (\<lambda>db. (Inr (parseHistoricalSignetOnchainChain (readSetting db LEGACY_SIGNET_NETWORK_SPLIT_ONCHAIN_CHAIN_KEY)),
        delete_settings [LEGACY_SIGNET_NETWORK_SPLIT_ESPLORA_MIGRATED_KEY, LEGACY_SIGNET_NETWORK_SPLIT_ONCHAIN_CHAIN_KEY] db))"

definition moveSignetEsploraUrlToMutinynet :: "string \<Rightarrow> (deviceDb, unit) op" where
  "moveSignetEsploraUrlToMutinynet legacySignetUrl =
     (\<lambda>db. (Inr (), delete_settings [SIGNET_ESPLORA_SETTINGS_KEY]
        (if readSetting db MUTINYNET_ESPLORA_SETTINGS_KEY = None then writeSetting MUTINYNET_ESPLORA_SETTINGS_KEY legacySignetUrl db else db)))"

definition migrateSignetNetworkSplitDeviceSettings :: "urlParser \<Rightarrow> (deviceDb, signetChain) op" where
  "migrateSignetNetworkSplitDeviceSettings newUrl =
     op_bind adoptLegacySignetNetworkSplitClassification (\<lambda>legacyChain.
       case legacyChain of
         Some chain \<Rightarrow> op_return chain
       | None \<Rightarrow> (\<lambda>db.
           let legacySignetUrl = readSetting db SIGNET_ESPLORA_SETTINGS_KEY;
               chain = classifyHistoricalSignetEsplora newUrl legacySignetUrl
           in (case legacySignetUrl of
                 Some url \<Rightarrow> if chain = ChainMutinynet then op_bind (moveSignetEsploraUrlToMutinynet url) (\<lambda>_. op_return chain) db else (Inr chain, db)
               | None \<Rightarrow> (Inr chain, db))))"

definition readDeviceDataMigrationResult :: "deviceDb \<Rightarrow> string \<Rightarrow> string option" where
  "readDeviceDataMigrationResult db name = (case rec_get (dd_migrations db) name of Some result \<Rightarrow> result | None \<Rightarrow> None)"

text \<open>The transaction looks for the row of the migration first; none of its statements throws.\<close>

definition applyDeviceDataMigrationOnce :: "string \<Rightarrow> (deviceDb, string option) op \<Rightarrow> (deviceDb, string option) op" where
  "applyDeviceDataMigrationOnce name run =
     (\<lambda>db. case rec_get (dd_migrations db) name of
        Some result \<Rightarrow> (Inr result, db)
      | None \<Rightarrow>
          (case run db of
             (Inl e, _) \<Rightarrow> (Inl e, db)
           | (Inr result, t) \<Rightarrow> (Inr result, t\<lparr>dd_migrations := rec_set name result (dd_migrations t)\<rparr>)))"

text \<open>Runs the one migration of the device; the value is the chain that is put into memory.\<close>

definition runDeviceDataMigrations :: "urlParser \<Rightarrow> (deviceDb, signetChain option) op" where
  "runDeviceDataMigrations newUrl =
     (\<lambda>db. case applyDeviceDataMigrationOnce SIGNET_NETWORK_SPLIT_DATA_MIGRATION_NAME
                  (op_bind (migrateSignetNetworkSplitDeviceSettings newUrl) (\<lambda>chain. op_return (Some (chain_text chain)))) db of
        (Inl e, t) \<Rightarrow> (Inl (''Migration '' @ [char_of (34::nat)] @ SIGNET_NETWORK_SPLIT_DATA_MIGRATION_NAME @ [char_of (34::nat)] @ '' failed''), t)
      | (Inr result, t) \<Rightarrow> (Inr (parseHistoricalSignetOnchainChain result), t))"

definition readWalletDataMigrationContext :: "deviceDb \<Rightarrow> string + signetChain" where
  "readWalletDataMigrationContext db =
     (case parseHistoricalSignetOnchainChain (readDeviceDataMigrationResult db SIGNET_NETWORK_SPLIT_DATA_MIGRATION_NAME) of
        None \<Rightarrow> Inl ''Signet network split device migration has no valid result''
      | Some chain \<Rightarrow> Inr chain)"

section \<open>The wallet step\<close>

definition LEGACY_SIGNET_NETWORK_SPLIT_APPLIED_FIELD :: string where
  "LEGACY_SIGNET_NETWORK_SPLIT_APPLIED_FIELD = ''signetNetworkSplitApplied''"

definition hasLegacySignetNetworkSplitAppliedFlag :: "jsValue \<Rightarrow> bool" where
  "hasLegacySignetNetworkSplitAppliedFlag payload \<longleftrightarrow> rec_get (spread payload) LEGACY_SIGNET_NETWORK_SPLIT_APPLIED_FIELD = Some (VBool True)"

definition withoutLegacySignetNetworkSplitAppliedFlag :: "jsValue \<Rightarrow> jsValue" where
  "withoutLegacySignetNetworkSplitAppliedFlag payload = VObj (rec_delete LEGACY_SIGNET_NETWORK_SPLIT_APPLIED_FIELD (spread payload))"

text \<open>Renames the network in a field of a row.\<close>

definition move_signet :: "string \<Rightarrow> jsValue \<Rightarrow> jsValue" where
  "move_signet k row = (if field row k = Some (VStr ''signet'') then VObj (rec_set k (VStr ''mutinynet'') (spread row)) else row)"

definition moveSignetNetworkToMutinynet :: "jsValue \<Rightarrow> jsValue" where
  "moveSignetNetworkToMutinynet = move_signet ''network''"

definition moveSignetNetworkModeToMutinynet :: "jsValue \<Rightarrow> jsValue" where
  "moveSignetNetworkModeToMutinynet = move_signet ''networkMode''"

definition renameSignetMapKeyToMutinynet :: "jsValue js_record \<Rightarrow> jsValue js_record" where
  "renameSignetMapKeyToMutinynet value =
     rec_delete ''signet''
       (case str_of (rec_get value ''signet'') of
          Some s \<Rightarrow> if rec_get value ''mutinynet'' = None then rec_set ''mutinynet'' (VStr s) value else value
        | None \<Rightarrow> value)"

definition copyWithSignetKeyRenamedToMutinynet :: "jsValue option \<Rightarrow> jsValue" where
  "copyWithSignetKeyRenamedToMutinynet m = VObj (renameSignetMapKeyToMutinynet (spread (the_value m)))"

definition rows_of :: "jsValue option \<Rightarrow> jsValue list" where
  "rows_of v = (case list_of v of Some rows \<Rightarrow> rows | None \<Rightarrow> [])"

definition applySignetNetworkSplitToPayload :: "jsValue \<Rightarrow> signetChain \<Rightarrow> jsValue" where
  "applySignetNetworkSplitToPayload payload chain =
     (if hasLegacySignetNetworkSplitAppliedFlag payload then withoutLegacySignetNetworkSplitAppliedFlag payload
      else
        let onchainWasMutinynet = historicalSignetOnchainWasMutinynet (Some chain);
            r = spread payload
        in VObj (rec_set ''activeArkadeAccountIdByNetwork'' (copyWithSignetKeyRenamedToMutinynet (rec_get r ''activeArkadeAccountIdByNetwork''))
             (rec_set ''arkadeAccounts'' (VArr (map moveSignetNetworkModeToMutinynet (rows_of (rec_get r ''arkadeAccounts''))))
              (if onchainWasMutinynet
               then rec_set ''lightningNwcConnections'' (VArr (map moveSignetNetworkModeToMutinynet (rows_of (rec_get r ''lightningNwcConnections''))))
                 (rec_set ''descriptorWallets'' (VArr (map moveSignetNetworkToMutinynet (rows_of (rec_get r ''descriptorWallets'')))) r)
               else r))))"

definition WALLET_DATA_MIGRATIONS :: "(string \<times> (jsValue \<Rightarrow> signetChain \<Rightarrow> jsValue)) list" where
  "WALLET_DATA_MIGRATIONS = [(SIGNET_NETWORK_SPLIT_DATA_MIGRATION_NAME, applySignetNetworkSplitToPayload)]"

definition listPendingWalletDataMigrations :: "walletDb \<Rightarrow> int \<Rightarrow> (string \<times> (jsValue \<Rightarrow> signetChain \<Rightarrow> jsValue)) list" where
  "listPendingWalletDataMigrations db wid =
     filter (\<lambda>m. fst m \<notin> set (listAppliedWalletDataMigrationNames db wid)) WALLET_DATA_MIGRATIONS"

definition applyWalletDataMigrations ::
  "jsValue \<Rightarrow> (string \<times> (jsValue \<Rightarrow> signetChain \<Rightarrow> jsValue)) list \<Rightarrow> signetChain \<Rightarrow> jsValue" where
  "applyWalletDataMigrations payload migrations chain = fold (\<lambda>m p. snd m p chain) migrations payload"

definition migration_task :: "secretsCrypto \<Rightarrow> signetChain \<Rightarrow> int \<Rightarrow> updateTask" where
  "migration_task c chain wid =
     updateWalletSecretsPayloadWithRetry c wid
       (\<lambda>db payload. let pending = listPendingWalletDataMigrations db wid
          in Inr (applyWalletDataMigrations payload pending chain, map fst pending))
       WALLET_SECRETS_CAS_MAX_RETRIES"

definition migrateWalletIfPending :: "secretsCrypto \<Rightarrow> signetChain \<Rightarrow> walletDb \<Rightarrow> int \<Rightarrow> updateTask option" where
  "migrateWalletIfPending c chain db wid =
     (if listPendingWalletDataMigrations db wid = [] then None else Some (migration_task c chain wid))"

section \<open>Each migration is applied once\<close>

lemma pending_names: "map fst (listPendingWalletDataMigrations db w) = filter (\<lambda>n. n \<notin> set (marker_names db w)) [SIGNET_NETWORK_SPLIT_DATA_MIGRATION_NAME]"
  by (simp add: listPendingWalletDataMigrations_def WALLET_DATA_MIGRATIONS_def marker_names_def)

lemma migration_transform:
  assumes "ut_transform (migration_task c chain w) k db b = Inr (b', names)"
  obtains plain payload where "sc_decrypt c b = Inr plain" "read_payload c plain = Inr payload"
    and "names = map fst (listPendingWalletDataMigrations db w)"
    and "sc_encrypt c k (sc_stringify c (applyWalletDataMigrations payload (listPendingWalletDataMigrations db w) chain)) = Inr b'"
  using assms
  by (auto simp: migration_task_def updateWalletSecretsPayloadWithRetry_def update_task_def payload_transform_def sum_then_Inr Let_def)

lemma migration_pending_only: "pending_only (migration_task c chain w)"
  unfolding pending_only_def
proof (intro allI impI)
  fix k db p p' names
  assume "ut_transform (migration_task c chain w) k db p = Inr (p', names)"
  then have "names = filter (\<lambda>n. n \<notin> set (marker_names db w)) [SIGNET_NETWORK_SPLIT_DATA_MIGRATION_NAME]"
    by (rule migration_transform) (simp add: pending_names)
  moreover have "ut_wallet (migration_task c chain w) = w" by (simp add: migration_task_def updateWalletSecretsPayloadWithRetry_def update_task_def)
  ultimately show "distinct names \<and> set names \<inter> set (marker_names db (ut_wallet (migration_task c chain w))) = {}" by auto
qed

text \<open>Tasks are updates that mark nothing or migrations of their wallet.\<close>

definition marks_nothing :: "updateTask \<Rightarrow> bool" where
  "marks_nothing t \<longleftrightarrow> (\<forall>k db p p' names. ut_transform t k db p = Inr (p', names) \<longrightarrow> names = [])"

definition is_migration :: "secretsCrypto \<Rightarrow> signetChain \<Rightarrow> updateTask \<Rightarrow> bool" where
  "is_migration c chain t \<longleftrightarrow> ut_transform t = ut_transform (migration_task c chain (ut_wallet t))"

text \<open>The commit of a migration: the payload it replaced, with the split applied.\<close>

definition split_commit :: "secretsCrypto \<Rightarrow> signetChain \<Rightarrow> payloadCommit \<Rightarrow> bool" where
  "split_commit c chain co \<longleftrightarrow>
     (\<exists>plain payload nonce. sc_decrypt c (co_before co) = Inr plain \<and> read_payload c plain = Inr payload \<and>
        sc_encrypt c nonce (sc_stringify c (applySignetNetworkSplitToPayload payload chain)) = Inr (co_after co))"

lemma migration_commit:
  assumes "ut_transform t k db (co_before co) = Inr (co_after co, co_names co)" and "marks_nothing t \<or> is_migration c chain t"
    and "co_names co \<noteq> []"
  shows "co_names co = [SIGNET_NETWORK_SPLIT_DATA_MIGRATION_NAME]" "split_commit c chain co"
proof -
  have "ut_transform (migration_task c chain (ut_wallet t)) k db (co_before co) = Inr (co_after co, co_names co)"
    using assms by (auto simp: marks_nothing_def is_migration_def)
  then obtain plain payload where m: "sc_decrypt c (co_before co) = Inr plain" "read_payload c plain = Inr payload"
    "co_names co = map fst (listPendingWalletDataMigrations db (ut_wallet t))"
    "sc_encrypt c k (sc_stringify c (applyWalletDataMigrations payload (listPendingWalletDataMigrations db (ut_wallet t)) chain)) = Inr (co_after co)"
    by (rule migration_transform)
  show names: "co_names co = [SIGNET_NETWORK_SPLIT_DATA_MIGRATION_NAME]"
    using m(3) assms(3) unfolding pending_names by (auto split: if_splits)
  then have "listPendingWalletDataMigrations db (ut_wallet t) = WALLET_DATA_MIGRATIONS"
    using m(3) by (auto simp: listPendingWalletDataMigrations_def WALLET_DATA_MIGRATIONS_def split: if_splits)
  then show "split_commit c chain co"
    using m by (auto simp: split_commit_def applyWalletDataMigrations_def WALLET_DATA_MIGRATIONS_def)
qed

lemma distinct_replicateD: "distinct (replicate n x) \<Longrightarrow> n \<le> 1"
  by (cases n) (auto simp: set_replicate_conv_if split: if_splits)

lemma concat_singletons:
  "(\<And>c. c \<in> set cs \<Longrightarrow> f c \<noteq> [] \<Longrightarrow> f c = [x]) \<Longrightarrow> concat (map f cs) = replicate (length (filter (\<lambda>c. f c \<noteq> []) cs)) x"
  by (induction cs) auto


text \<open>Two tabs that migrate the same wallet.\<close>

definition sample_migration_race :: "secretsEvent list" where
  "sample_migration_race =
     [SubmitUpdate (migration_task plain_crypto ChainMutinynet 1), SubmitUpdate (migration_task plain_crypto ChainMutinynet 1),
      TaskRead 0, TaskRead 1, TaskCompute 0, TaskCompute 1, TaskWrite 0 ''t1'', TaskWrite 1 ''t2'', TaskRead 1, TaskCompute 1, TaskWrite 1 ''t3'']"

lemma sample_migration_transform:
  "payload_transform plain_crypto f k db b = sum_then (f db bare_payload) (\<lambda>(v, names). Inr (plain_blob ''json'', names))"
proof -
  have "sc_decrypt plain_crypto b = Inr (ciphertext b)" "sc_encrypt plain_crypto k x = Inr (plain_blob x)" "sc_stringify plain_crypto v = ''json''" for x v
    by (simp_all add: plain_crypto_def)
  then show ?thesis
    by (cases "f db bare_payload") (auto simp: payload_transform_def bare_payload_read sum_then_def)
qed

lemma sample_migration_run:
  "\<exists>r'. find_row 1 (wo_db (run_secrets sample_db sample_migration_race)) = Some r'"
  "map ut_phase (wo_tasks (run_secrets sample_db sample_migration_race)) = [Returned, Returned]"
  "marker_names (wo_db (run_secrets sample_db sample_migration_race)) 1 = [SIGNET_NETWORK_SPLIT_DATA_MIGRATION_NAME]"
  by (simp_all add: run_secrets_def sample_migration_race_def migration_task_def updateWalletSecretsPayloadWithRetry_def sample_migration_transform
      race_defs sample_db_def listPendingWalletDataMigrations_def WALLET_DATA_MIGRATIONS_def listAppliedWalletDataMigrationNames_def
      marker_names_def image_iff)

lemma sample_migration_tasks:
  "list_all (\<lambda>t. marks_nothing t \<or> is_migration plain_crypto ChainMutinynet t) (wo_tasks (run_secrets sample_db sample_migration_race))"
  by (simp add: run_secrets_def sample_migration_race_def with_task_def Let_def update_static split_beta is_migration_def)
     (simp add: migration_task_def updateWalletSecretsPayloadWithRetry_def update_task_def)


section \<open>The split of Signet and Mutinynet\<close>

lemma move_signet_field:
  "isRecord row \<Longrightarrow> field row k = Some (VStr n) \<Longrightarrow>
     field (move_signet k row) j = (if j = k then Some (VStr (if n = ''signet'' then ''mutinynet'' else n)) else field row j)"
  by (cases row) (auto simp: move_signet_def isRecord_def)

lemma move_signet_record: "isRecord row \<Longrightarrow> isRecord (move_signet k row)"
  by (simp add: move_signet_def isRecord_def)

lemma move_descriptor: "isDescriptorWalletData env row \<Longrightarrow> isDescriptorWalletData env (moveSignetNetworkToMutinynet row)"
  unfolding moveSignetNetworkToMutinynet_def
  by (cases "field row ''network''" rule: str_of.cases)
     (auto simp: isDescriptorWalletData_def move_signet_field move_signet_record is_str_def SUPPORTED_BITCOIN_NETWORKS_def)

lemma move_connection: "isStoredNwcLightningConnection row \<Longrightarrow> isStoredNwcLightningConnection (moveSignetNetworkModeToMutinynet row)"
  unfolding moveSignetNetworkModeToMutinynet_def
  by (cases "field row ''networkMode''" rule: str_of.cases)
     (auto simp: isStoredNwcLightningConnection_def move_signet_field move_signet_record is_str_def isLightningNetworkMode_def LIGHTNING_NETWORK_MODES_def)

lemma move_arkade: "isStoredArkadeAccount env row \<Longrightarrow> isStoredArkadeAccount env (moveSignetNetworkModeToMutinynet row)"
  unfolding moveSignetNetworkModeToMutinynet_def
  by (cases "field row ''networkMode''" rule: str_of.cases)
     (auto simp: isStoredArkadeAccount_def move_signet_field move_signet_record is_str_def ARKADE_SUPPORTED_NETWORK_MODES_def)

lemma move_arkade_network:
  "isStoredArkadeAccount env row \<Longrightarrow> field (moveSignetNetworkModeToMutinynet row) ''networkMode'' \<noteq> Some (VStr ''signet'') \<and>
     field (moveSignetNetworkModeToMutinynet row) ''id'' = field row ''id''"
  unfolding moveSignetNetworkModeToMutinynet_def
  by (cases "field row ''networkMode''" rule: str_of.cases) (auto simp: isStoredArkadeAccount_def move_signet_field is_str_def)

lemma split_fields:
  assumes "payload = VObj r" and "\<not> hasLegacySignetNetworkSplitAppliedFlag payload"
  shows "field (applySignetNetworkSplitToPayload payload chain) k =
    (if k = ''activeArkadeAccountIdByNetwork'' then Some (copyWithSignetKeyRenamedToMutinynet (field payload k))
     else if k = ''arkadeAccounts'' then Some (VArr (map moveSignetNetworkModeToMutinynet (rows_of (field payload k))))
     else if chain = ChainMutinynet \<and> k = ''lightningNwcConnections'' then Some (VArr (map moveSignetNetworkModeToMutinynet (rows_of (field payload k))))
     else if chain = ChainMutinynet \<and> k = ''descriptorWallets'' then Some (VArr (map moveSignetNetworkToMutinynet (rows_of (field payload k))))
     else field payload k)"
  using assms by (simp add: applySignetNetworkSplitToPayload_def Let_def historicalSignetOnchainWasMutinynet_def)

lemma rows_of_VArr [simp]: "rows_of (Some (VArr xs)) = xs"
  by (simp add: rows_of_def)

lemma rows_of_list: "is_list p v \<Longrightarrow> p (rows_of v)"
  by (cases v rule: list_of.cases) (auto simp: is_list_def rows_of_def)

lemma rename_key:
  "rec_get (renameSignetMapKeyToMutinynet m) k =
     (if k = ''signet'' then None
      else if k = ''mutinynet'' \<and> rec_get m ''mutinynet'' = None then map_option VStr (str_of (rec_get m ''signet''))
      else rec_get m k)"
  by (auto simp: renameSignetMapKeyToMutinynet_def split: option.split)

lemma is_list_map: "is_list (list_all p) v \<Longrightarrow> (\<And>x. p x \<Longrightarrow> q (f x)) \<Longrightarrow> is_list (list_all q) (Some (VArr (map f (rows_of v))))"
  by (cases v rule: list_of.cases) (auto simp: is_list_def rows_of_def list_all_iff)

text \<open>The split keeps a payload valid. No Arkade account is on Signet afterwards and the order and ids of
  the accounts stay; an active Signet account becomes the active Mutinynet account unless there is
  one; descriptors and connections move only when the old chain was Mutinynet; Bark accounts and all
  other fields stay. A payload that an earlier build has split loses only the flag that says so.\<close>

theorem signet_split_effect:
  assumes "isWalletSecretsPayload env payload"
  shows "isWalletSecretsPayload env (applySignetNetworkSplitToPayload payload chain) \<and>
    (if hasLegacySignetNetworkSplitAppliedFlag payload
     then \<forall>k. field (applySignetNetworkSplitToPayload payload chain) k =
            (if k = LEGACY_SIGNET_NETWORK_SPLIT_APPLIED_FIELD then None else field payload k)
     else
       list_all (\<lambda>row. field row ''networkMode'' \<noteq> Some (VStr ''signet''))
         (rows_of (field (applySignetNetworkSplitToPayload payload chain) ''arkadeAccounts'')) \<and>
       map (\<lambda>row. field row ''id'') (rows_of (field (applySignetNetworkSplitToPayload payload chain) ''arkadeAccounts'')) =
         map (\<lambda>row. field row ''id'') (rows_of (field payload ''arkadeAccounts'')) \<and>
       (\<forall>active. field payload ''activeArkadeAccountIdByNetwork'' = Some (VObj active) \<longrightarrow>
          (\<exists>active'. field (applySignetNetworkSplitToPayload payload chain) ''activeArkadeAccountIdByNetwork'' = Some (VObj active') \<and>
             rec_get active' ''signet'' = None \<and>
             rec_get active' ''mutinynet'' =
               (if rec_get active ''mutinynet'' = None then map_option VStr (str_of (rec_get active ''signet'')) else rec_get active ''mutinynet''))) \<and>
       (\<forall>k. k \<notin> {''activeArkadeAccountIdByNetwork'', ''arkadeAccounts''} \<union>
              (if chain = ChainMutinynet then {''lightningNwcConnections'', ''descriptorWallets''} else {}) \<longrightarrow>
          field (applySignetNetworkSplitToPayload payload chain) k = field payload k))"
proof -
  obtain r where r: "payload = VObj r"
    using assms by (cases payload) (auto simp: isWalletSecretsPayload_def payload_fields_ok_def isRecord_def is_list_def)
  show ?thesis
  proof (cases "hasLegacySignetNetworkSplitAppliedFlag payload")
    case True
    then have fields: "field (applySignetNetworkSplitToPayload payload chain) k =
        (if k = LEGACY_SIGNET_NETWORK_SPLIT_APPLIED_FIELD then None else field payload k)" for k
      by (simp add: applySignetNetworkSplitToPayload_def withoutLegacySignetNetworkSplitAppliedFlag_def r)
    moreover have "isRecord (applySignetNetworkSplitToPayload payload chain)"
      using True by (simp add: applySignetNetworkSplitToPayload_def withoutLegacySignetNetworkSplitAppliedFlag_def isRecord_def)
    ultimately show ?thesis
      using assms True by (simp add: isWalletSecretsPayload_def payload_fields_ok_def LEGACY_SIGNET_NETWORK_SPLIT_APPLIED_FIELD_def)
  next
    case False
    note fields = split_fields[OF r False, of chain]
    have lists: "is_list (list_all (isDescriptorWalletData env)) (field payload ''descriptorWallets'')"
      "is_list (list_all isStoredNwcLightningConnection) (field payload ''lightningNwcConnections'')"
      "is_list (list_all (isStoredArkadeAccount env)) (field payload ''arkadeAccounts'')"
      "field payload ''mnemonic'' = None" "is_list (\<lambda>rows. list_all (isStoredBarkAccount env) rows \<and> distinct (bark_networks rows)) (field payload ''barkAccounts'')"
      using assms by (simp_all add: isWalletSecretsPayload_def payload_fields_ok_def)
    have "isRecord (applySignetNetworkSplitToPayload payload chain)" using False by (simp add: applySignetNetworkSplitToPayload_def isRecord_def Let_def)
    moreover have "payload_fields_ok env (applySignetNetworkSplitToPayload payload chain)"
      using lists by (auto simp: payload_fields_ok_def fields copyWithSignetKeyRenamedToMutinynet_def isRecord_def the_value_def
          intro!: is_list_map move_descriptor move_connection move_arkade)
    ultimately have valid: "isWalletSecretsPayload env (applySignetNetworkSplitToPayload payload chain)"
      using lists(4) by (simp add: isWalletSecretsPayload_def fields)
    have accounts: "rows_of (field (applySignetNetworkSplitToPayload payload chain) ''arkadeAccounts'') =
        map moveSignetNetworkModeToMutinynet (rows_of (field payload ''arkadeAccounts''))"
      unfolding fields by (simp add: rows_of_def)
    have stored: "\<forall>row \<in> set (rows_of (field payload ''arkadeAccounts'')). isStoredArkadeAccount env row"
      using rows_of_list[OF lists(3)] by (simp add: list_all_iff)
    show ?thesis
      using valid False stored move_arkade_network
      by (auto simp: accounts list_all_iff comp_def fields copyWithSignetKeyRenamedToMutinynet_def the_value_def rename_key)
  qed
qed

theorem signet_split_effect_witness:
  "isWalletSecretsPayload (sc_env plain_crypto) (applySignetNetworkSplitToPayload bare_payload ChainMutinynet)"
proof -
  have "isWalletSecretsPayload (sc_env plain_crypto) bare_payload"
    by (simp add: bare_payload_def isWalletSecretsPayload_def payload_fields_ok_def isRecord_def is_list_def bark_networks_def the_value_def)
  from signet_split_effect[OF this, of ChainMutinynet] show ?thesis by blast
qed

section \<open>The device step runs once\<close>

lemma chain_text_roundtrip [simp]: "parseHistoricalSignetOnchainChain (Some (chain_text chain)) = Some chain"
  by (cases chain) (simp_all add: parseHistoricalSignetOnchainChain_def)

lemma device_settings_total: "\<exists>chain t. migrateSignetNetworkSplitDeviceSettings newUrl db = (Inr chain, t) \<and> dd_migrations t = dd_migrations db"
  by (auto simp: migrateSignetNetworkSplitDeviceSettings_def adoptLegacySignetNetworkSplitClassification_def op_bind_apply Let_def
      moveSignetEsploraUrlToMutinynet_def delete_settings_def writeSetting_def split: option.split)

text \<open>The device step decides the old chain once: the first run stores its result, every later run gives
  the same chain and changes nothing, whatever the settings say by then, and the wallet step finds a
  valid result.\<close>

theorem device_migration_once:
  assumes "rec_get (dd_migrations db) SIGNET_NETWORK_SPLIT_DATA_MIGRATION_NAME = None"
  shows "\<exists>chain t. runDeviceDataMigrations newUrl db = (Inr (Some chain), t) \<and> readWalletDataMigrationContext t = Inr chain \<and>
    (\<forall>newUrl' settings. runDeviceDataMigrations newUrl' (t\<lparr>dd_settings := settings\<rparr>) = (Inr (Some chain), t\<lparr>dd_settings := settings\<rparr>))"
proof -
  obtain chain t where run: "migrateSignetNetworkSplitDeviceSettings newUrl db = (Inr chain, t)" "dd_migrations t = dd_migrations db"
    using device_settings_total by blast
  let ?t = "t\<lparr>dd_migrations := rec_set SIGNET_NETWORK_SPLIT_DATA_MIGRATION_NAME (Some (chain_text chain)) (dd_migrations t)\<rparr>"
  have "runDeviceDataMigrations newUrl db = (Inr (Some chain), ?t)"
    using assms run by (simp add: runDeviceDataMigrations_def applyDeviceDataMigrationOnce_def op_bind_apply)
  moreover have "runDeviceDataMigrations newUrl' (?t\<lparr>dd_settings := settings\<rparr>) = (Inr (Some chain), ?t\<lparr>dd_settings := settings\<rparr>)" for newUrl' settings
    by (simp add: runDeviceDataMigrations_def applyDeviceDataMigrationOnce_def)
  moreover have "readWalletDataMigrationContext ?t = Inr chain"
    by (simp add: readWalletDataMigrationContext_def readDeviceDataMigrationResult_def)
  ultimately show ?thesis by blast
qed

theorem device_migration_once_witness:
  "\<exists>chain t. runDeviceDataMigrations (\<lambda>_. None) \<lparr>dd_settings = [], dd_migrations = []\<rparr> = (Inr (Some chain), t) \<and>
     readWalletDataMigrationContext t = Inr chain"
  using device_migration_once[of "\<lparr>dd_settings = [], dd_migrations = []\<rparr>" "\<lambda>_. None"] by auto

end
