(* ===== verification/Work_List.thy ===== *)
theory Work_List
  imports Prelude "HOL-Library.While_Combinator"
begin

text \<open>
  Graph searches as the code writes them: a list of pending nodes, and a loop that takes one of them,
  skips it when a node of the same key was seen, and otherwise keeps it and appends its successors.
  The code takes the next node from the end of the list (\<open>pop\<close>) or from its front (\<open>shift\<close>); both are
  covered by the law that a turn takes one of the pending nodes. A graph may have cycles, and several
  nodes may have one key.
\<close>

section \<open>The loop\<close>

type_synonym 'n work = "'n list \<times> 'n list"

definition work_open :: "'n work \<Rightarrow> bool" where
  "work_open = (\<lambda>(seen, pending). length pending > 0)"

definition work_step :: "('n list \<Rightarrow> 'n \<times> 'n list) \<Rightarrow> ('n \<Rightarrow> 'k) \<Rightarrow> ('n \<Rightarrow> 'n list) \<Rightarrow> 'n work \<Rightarrow> 'n work" where
  "work_step take_one key succs = (\<lambda>(seen, pending).
     let (n, rest) = take_one pending
     in if key n \<in> key ` set seen then (seen, rest) else (seen @ [n], rest @ succs n))"

definition js_pop :: "'n list \<Rightarrow> 'n \<times> 'n list" where
  "js_pop xs = (last xs, butlast xs)"

definition js_shift :: "'n list \<Rightarrow> 'n \<times> 'n list" where
  "js_shift xs = (hd xs, tl xs)"

definition work_search :: "('n list \<Rightarrow> 'n \<times> 'n list) \<Rightarrow> ('n \<Rightarrow> 'k) \<Rightarrow> ('n \<Rightarrow> 'n list) \<Rightarrow> 'n list \<Rightarrow> 'n list" where
  "work_search take_one key succs start = fst (while work_open (work_step take_one key succs) ([], start))"

section \<open>What the loop finds\<close>

definition succ_rel :: "('n \<Rightarrow> 'n list) \<Rightarrow> ('n \<times> 'n) set" where
  "succ_rel succs = {(n, m). m \<in> set (succs n)}"

definition reached :: "('n \<Rightarrow> 'n list) \<Rightarrow> 'n list \<Rightarrow> 'n set" where
  "reached succs start = (succ_rel succs)\<^sup>* `` set start"

lemma reached_step: "n \<in> reached succs start \<Longrightarrow> m \<in> set (succs n) \<Longrightarrow> m \<in> reached succs start"
  by (auto simp: reached_def succ_rel_def Image_iff intro: rtrancl_into_rtrancl)

lemma reached_start: "n \<in> set start \<Longrightarrow> n \<in> reached succs start"
  by (auto simp: reached_def)

lemma reached_induct [consumes 1, case_names start step]:
  assumes "n \<in> reached succs start" and "\<And>n. n \<in> set start \<Longrightarrow> P n"
    and "\<And>n m. n \<in> reached succs start \<Longrightarrow> P n \<Longrightarrow> m \<in> set (succs n) \<Longrightarrow> P m"
  shows "P n"
proof -
  obtain s where s: "s \<in> set start" and r: "(s, n) \<in> (succ_rel succs)\<^sup>*" using assms(1) by (auto simp: reached_def)
  have "P n \<and> n \<in> reached succs start" using r
  proof induction
    case base
    show ?case using assms(2) s reached_start by metis
  next
    case (step n m)
    then have "m \<in> set (succs n)" by (simp add: succ_rel_def)
    then show ?case using step assms(3) reached_step by metis
  qed
  then show ?thesis ..
qed

locale work_list =
  fixes take_one :: "'n list \<Rightarrow> 'n \<times> 'n list" and key :: "'n \<Rightarrow> 'k" and succs :: "'n \<Rightarrow> 'n list" and universe :: "'n set"
  assumes takes: "pending \<noteq> [] \<Longrightarrow> take_one pending = (n, rest) \<Longrightarrow> set pending = insert n (set rest) \<and> length rest < length pending"
    and finite_keys: "finite (key ` universe)"
    and closed: "n \<in> universe \<Longrightarrow> set (succs n) \<subseteq> universe"
begin

lemma step_unfold:
  assumes "pending \<noteq> []"
  shows "\<exists>n rest. set pending = insert n (set rest) \<and> length rest < length pending \<and>
    work_step take_one key succs (seen, pending) =
      (if key n \<in> key ` set seen then (seen, rest) else (seen @ [n], rest @ succs n))"
proof -
  obtain n rest where "take_one pending = (n, rest)" by fastforce
  with takes[OF assms this] show ?thesis by (auto simp: work_step_def)
qed

definition search_ok :: "'n list \<Rightarrow> 'n work \<Rightarrow> bool" where
  "search_ok start = (\<lambda>(seen, pending).
     set pending \<union> set seen \<subseteq> reached succs start \<and> distinct (map key seen) \<and>
     key ` set start \<subseteq> key ` (set seen \<union> set pending) \<and>
     (\<forall>n \<in> set seen. key ` set (succs n) \<subseteq> key ` (set seen \<union> set pending)))"

lemma search_ok_step:
  assumes "search_ok start w" and "work_open w"
  shows "search_ok start (work_step take_one key succs w)"
proof -
  obtain seen pending where w: "w = (seen, pending)" by fastforce
  with assms(2) have "pending \<noteq> []" by (simp add: work_open_def)
  then obtain n rest where set_eq: "set pending = insert n (set rest)"
    and st: "work_step take_one key succs (seen, pending) =
      (if key n \<in> key ` set seen then (seen, rest) else (seen @ [n], rest @ succs n))"
    using step_unfold by blast
  have new: "set (succs n) \<subseteq> reached succs start"
  proof -
    have "n \<in> reached succs start" using assms(1) by (simp add: w search_ok_def set_eq)
    then show ?thesis using reached_step by fast
  qed
  show ?thesis
  proof (cases "key n \<in> key ` set seen")
    case True
    then have "key ` (set seen \<union> set pending) = key ` (set seen \<union> set rest)" by (auto simp: set_eq)
    then show ?thesis using assms(1) True unfolding w st search_ok_def by (simp add: set_eq)
  next
    case False
    have keys: "key ` (set seen \<union> set pending) \<subseteq> key ` (set (seen @ [n]) \<union> set (rest @ succs n))" by (auto simp: set_eq)
    have "key ` set (succs m) \<subseteq> key ` (set (seen @ [n]) \<union> set (rest @ succs n))" if "m \<in> set (seen @ [n])" for m
    proof (cases "m \<in> set seen")
      case True
      then have "key ` set (succs m) \<subseteq> key ` (set seen \<union> set pending)" using assms(1) by (simp add: w search_ok_def)
      then show ?thesis using keys by (rule subset_trans)
    next
      case False
      then have "m = n" using that by simp
      then show ?thesis by auto
    qed
    moreover have "key ` set start \<subseteq> key ` (set (seen @ [n]) \<union> set (rest @ succs n))"
    proof (rule subset_trans[OF _ keys])
      show "key ` set start \<subseteq> key ` (set seen \<union> set pending)" using assms(1) by (simp add: w search_ok_def)
    qed
    moreover have "set (rest @ succs n) \<union> set (seen @ [n]) \<subseteq> reached succs start"
      using assms(1) new by (simp add: w search_ok_def set_eq)
    moreover have "distinct (map key (seen @ [n]))" using assms(1) False unfolding w search_ok_def by auto
    ultimately show ?thesis using False unfolding w st search_ok_def by simp
  qed
qed

lemma step_decreases:
  assumes "set (snd w) \<subseteq> universe" and "work_open w"
  shows "(work_step take_one key succs w, w) \<in>
    measures [\<lambda>(seen, pending). card (key ` universe - key ` set seen), \<lambda>(seen, pending). length pending]"
    and "set (snd (work_step take_one key succs w)) \<subseteq> universe"
proof -
  obtain seen pending where w: "w = (seen, pending)" by fastforce
  with assms(2) have "pending \<noteq> []" by (simp add: work_open_def)
  then obtain n rest where set_eq: "set pending = insert n (set rest)" and len: "length rest < length pending"
    and st: "work_step take_one key succs (seen, pending) =
      (if key n \<in> key ` set seen then (seen, rest) else (seen @ [n], rest @ succs n))"
    using step_unfold by blast
  have n: "n \<in> universe" using assms(1) by (simp add: w set_eq)
  show "(work_step take_one key succs w, w) \<in>
    measures [\<lambda>(seen, pending). card (key ` universe - key ` set seen), \<lambda>(seen, pending). length pending]"
  proof (cases "key n \<in> key ` set seen")
    case True
    then show ?thesis using len by (simp add: w st)
  next
    case False
    have "card (key ` universe - key ` set (seen @ [n])) < card (key ` universe - key ` set seen)"
      using False n finite_keys by (intro psubset_card_mono) auto
    with False show ?thesis by (simp add: w st)
  qed
  show "set (snd (work_step take_one key succs w)) \<subseteq> universe"
    using assms(1) closed[OF n] unfolding w st by (auto simp: set_eq)
qed

text \<open>The loop ends; it keeps at most one node of a key, only nodes that the start leads to, and a
  node of the key of every start node and of every successor of a kept node.\<close>

lemma search_result:
  assumes "set start \<subseteq> universe"
  shows "\<exists>seen. while_option work_open (work_step take_one key succs) ([], start) = Some (seen, []) \<and>
    work_search take_one key succs start = seen \<and> search_ok start (seen, [])"
proof -
  have "\<exists>t. while_option work_open (work_step take_one key succs) ([], start) = Some t"
    by (rule wf_rel_while_option_Some[where P = "\<lambda>w. set (snd w) \<subseteq> universe", OF wf_measures step_decreases])
      (use assms in auto)
  then obtain w where w: "while_option work_open (work_step take_one key succs) ([], start) = Some w" by blast
  have "search_ok start w"
  proof (rule while_option_rule[where P = "search_ok start", OF _ w])
    show "search_ok start ([], start)" using reached_start by (auto simp: search_ok_def)
  qed (rule search_ok_step)
  moreover obtain seen where "w = (seen, [])" using while_option_stop[OF w] by (cases w) (auto simp: work_open_def)
  ultimately show ?thesis using w by (simp add: work_search_def while_def)
qed

lemma search_sound: "set start \<subseteq> universe \<Longrightarrow> set (work_search take_one key succs start) \<subseteq> reached succs start"
  using search_result by (fastforce simp: search_ok_def)

lemma search_distinct: "set start \<subseteq> universe \<Longrightarrow> distinct (map key (work_search take_one key succs start))"
  using search_result by (fastforce simp: search_ok_def)

text \<open>When the nodes that the start leads to have different keys, these are exactly the nodes found.\<close>

lemma search_complete:
  assumes "set start \<subseteq> universe" and inj: "inj_on key (reached succs start)"
  shows "set (work_search take_one key succs start) = reached succs start"
proof
  obtain seen where res: "work_search take_one key succs start = seen" and ok: "search_ok start (seen, [])"
    using search_result[OF assms(1)] by blast
  have same: "m = n" if "m \<in> set seen" "key m = key n" "n \<in> reached succs start" for m n
    using that ok inj_onD[OF inj] by (auto simp: search_ok_def)
  have "n \<in> set seen" if "n \<in> reached succs start" for n
    using that
  proof (induction rule: reached_induct)
    case (start n)
    then obtain m where "m \<in> set seen" "key m = key n" using ok by (force simp: search_ok_def)
    then show ?case using same reached_start[OF start] by metis
  next
    case (step n m)
    then obtain m' where "m' \<in> set seen" "key m' = key m" using ok by (force simp: search_ok_def)
    then show ?case using same reached_step step by metis
  qed
  then show "reached succs start \<subseteq> set (work_search take_one key succs start)" by (auto simp: res)
qed (rule search_sound[OF assms(1)])

text \<open>A found node is a start node or comes after a node that leads to it.\<close>

definition led_to :: "'n list \<Rightarrow> 'n list \<Rightarrow> 'n \<Rightarrow> bool" where
  "led_to start xs n \<longleftrightarrow> n \<in> set start \<or> (\<exists>m \<in> set xs. n \<in> set (succs m))"

definition order_ok :: "'n list \<Rightarrow> 'n work \<Rightarrow> bool" where
  "order_ok start = (\<lambda>(seen, pending).
     (\<forall>n \<in> set pending. led_to start seen n) \<and> (\<forall>xs n ys. seen = xs @ n # ys \<longrightarrow> led_to start xs n))"

lemma order_ok_step:
  assumes "order_ok start w" and "work_open w"
  shows "order_ok start (work_step take_one key succs w)"
proof -
  obtain seen pending where w: "w = (seen, pending)" by fastforce
  with assms(2) have "pending \<noteq> []" by (simp add: work_open_def)
  then obtain n rest where set_eq: "set pending = insert n (set rest)"
    and st: "work_step take_one key succs (seen, pending) =
      (if key n \<in> key ` set seen then (seen, rest) else (seen @ [n], rest @ succs n))"
    using step_unfold by blast
  have pend: "led_to start seen n" "\<And>m. m \<in> set rest \<Longrightarrow> led_to start seen m"
    and seen: "\<And>xs m ys. seen = xs @ m # ys \<Longrightarrow> led_to start xs m"
    using assms(1) by (simp_all add: w order_ok_def set_eq)
  have "led_to start xs m" if "seen @ [n] = xs @ m # ys" for xs m ys
    using that seen pend(1) by (cases ys rule: rev_cases) auto
  moreover have "led_to start (seen @ [n]) m" if "m \<in> set (rest @ succs n)" for m
    using that pend(2) by (auto simp: led_to_def)
  ultimately have "order_ok start (seen @ [n], rest @ succs n)" by (simp add: order_ok_def) blast
  moreover have "order_ok start (seen, rest)" using pend(2) seen by (simp add: order_ok_def) blast
  ultimately show ?thesis unfolding w st by simp
qed

lemma search_order:
  assumes "set start \<subseteq> universe" and split: "work_search take_one key succs start = xs @ n # ys"
  shows "led_to start xs n"
proof -
  obtain seen where w: "while_option work_open (work_step take_one key succs) ([], start) = Some (seen, [])"
    and res: "work_search take_one key succs start = seen" using search_result[OF assms(1)] by blast
  have "order_ok start (seen, [])"
  proof (rule while_option_rule[where P = "order_ok start", OF _ w])
    show "order_ok start ([], start)" by (simp add: order_ok_def led_to_def)
  qed (rule order_ok_step)
  then show ?thesis using split res by (simp add: order_ok_def)
qed

end

lemma js_pop_takes: "pending \<noteq> [] \<Longrightarrow> js_pop pending = (n, rest) \<Longrightarrow> set pending = insert n (set rest) \<and> length rest < length pending"
  by (cases pending rule: rev_cases) (auto simp: js_pop_def)

lemma js_shift_takes: "pending \<noteq> [] \<Longrightarrow> js_shift pending = (n, rest) \<Longrightarrow> set pending = insert n (set rest) \<and> length rest < length pending"
  by (cases pending) (auto simp: js_shift_def)

end
