(* ===== verification/Bark_Exit.thy ===== *)
theory Bark_Exit
  imports Payload_Updates Exit_Topology Work_List
begin

text \<open>
  Emergency exits of the Bark rail as the wallet sees them: what is read from the Bark library
  (\<open>lib/bark/bark-emergency-exit.ts\<close>), claims that Bark has not observed
  (\<open>bark-emergency-claim.ts\<close>), the phase of a VTXO (\<open>bark-vtxo-exit-phase.ts\<close>) and of a transaction of the
  exit tree, with the drawn tree (\<open>bark-exit-graph-layout.ts\<close>), the notices of seized outputs
  (\<open>bark-exit-seizure.ts\<close>, \<open>bark-exit-seizure-notice.ts\<close>) and the status of the funding
  (\<open>bark-emergency-exit-funding-status.ts\<close>, \<open>stores/barkEmergencyExitFundingStore.ts\<close>). The two searches of
  the tree are instances of the work list of theory \<open>Work_List\<close>. \<open>JSON.parse\<close> is a parameter that
  gives nothing when it throws.
\<close>

section \<open>Data\<close>

datatype barkExitState = ExStart | ExProcessing | ExAwaitingDelta | ExClaimable | ExClaimInProgress | ExClaimed
  | ExAlreadySpent | ExCanceled

definition BARK_EMERGENCY_EXIT_STATES :: "(string \<times> barkExitState) list" where
  "BARK_EMERGENCY_EXIT_STATES =
     [(''start'', ExStart), (''processing'', ExProcessing), (''awaitingDelta'', ExAwaitingDelta), (''claimable'', ExClaimable),
      (''claimInProgress'', ExClaimInProgress), (''claimed'', ExClaimed), (''vtxoAlreadySpent'', ExAlreadySpent), (''canceled'', ExCanceled)]"

fun barkEmergencyExitStateLabel :: "barkExitState \<Rightarrow> string" where
  "barkEmergencyExitStateLabel ExStart = ''Started''"
| "barkEmergencyExitStateLabel ExProcessing = ''Processing''"
| "barkEmergencyExitStateLabel ExAwaitingDelta = ''Waiting for timelock''"
| "barkEmergencyExitStateLabel ExClaimable = ''Claimable''"
| "barkEmergencyExitStateLabel ExClaimInProgress = ''Claim in progress''"
| "barkEmergencyExitStateLabel ExClaimed = ''Claimed''"
| "barkEmergencyExitStateLabel ExAlreadySpent = ''Already spent''"
| "barkEmergencyExitStateLabel ExCanceled = ''Canceled''"

record barkExitRow =
  er_vtxoId :: string
  er_state :: barkExitState
  er_cancelable :: bool
  er_tipHeight :: "rat option"
  er_confirmedHeight :: "rat option"
  er_claimableHeight :: "rat option"

record barkCpfpRequest =
  cr_vtxoId :: string
  cr_parentTxid :: string
  cr_parentTxHex :: string

record barkExitDrain =
  dr_psbtHex :: string
  dr_rawTxHex :: string
  dr_vtxoIds :: "string list"

record barkExitEstimate =
  es_exitBroadcastFeeSats :: int
  es_claimFeeSats :: int
  es_feeRateSatPerVb :: rat
  es_txsToBroadcast :: int

datatype barkNodeStatus = NsPending | NsInProgress | NsConfirmed

definition BARK_EXIT_GRAPH_NODE_STATUSES :: "(string \<times> barkNodeStatus) list" where
  "BARK_EXIT_GRAPH_NODE_STATUSES = [(''pending'', NsPending), (''inProgress'', NsInProgress), (''confirmed'', NsConfirmed)]"

datatype barkTxType = TxTree | TxCheckpoint | TxCommitment

definition BARK_EXIT_GRAPH_TX_TYPES :: "(string \<times> barkTxType) list" where
  "BARK_EXIT_GRAPH_TX_TYPES = [(''tree'', TxTree), (''checkpoint'', TxCheckpoint), (''commitment'', TxCommitment)]"

record barkGraphNode =
  gn_txid :: string
  gn_spends :: "string list"
  gn_leafVtxoIds :: "string list"
  gn_status :: barkNodeStatus
  gn_needsChild :: bool
  gn_waitingOnTxids :: "string list"
  gn_txType :: barkTxType

section \<open>Readers\<close>

type_synonym json_parse = "string \<Rightarrow> jsValue option"

definition parseJson :: "json_parse \<Rightarrow> jsValue option \<Rightarrow> string \<Rightarrow> string + jsValue option" where
  "parseJson parse value label =
     (case value of
        Some (VStr s) \<Rightarrow> (case parse s of Some v \<Rightarrow> Inr (Some v) | None \<Rightarrow> Inl (label @ '' was not JSON''))
      | _ \<Rightarrow> Inr value)"

definition readObject :: "json_parse \<Rightarrow> jsValue option \<Rightarrow> string \<Rightarrow> string + jsValue" where
  "readObject parse value label =
     sum_bind (parseJson parse value label) (\<lambda>parsed.
       case parsed of Some (VObj o') \<Rightarrow> Inr (VObj o') | _ \<Rightarrow> Inl (label @ '' was not an object''))"

definition readText :: "jsValue option \<Rightarrow> string \<Rightarrow> string + string" where
  "readText value label =
     (case str_of value of
        Some s \<Rightarrow> if s = [] then Inl (''Bark emergency exit '' @ label @ '' is missing'') else Inr s
      | None \<Rightarrow> Inl (''Bark emergency exit '' @ label @ '' is missing''))"

definition readHex :: "jsValue option \<Rightarrow> string \<Rightarrow> string + string" where
  "readHex = readText"

definition readTextList :: "jsValue option \<Rightarrow> string \<Rightarrow> string + string list" where
  "readTextList value label =
     (case list_of value of
        Some es \<Rightarrow>
          if list_ex (\<lambda>e. \<not> is_str (\<lambda>s. s \<noteq> []) (Some e)) es then Inl (''Bark emergency exit '' @ label @ '' is invalid'')
          else Inr (map (\<lambda>e. the (str_of (Some e))) es)
      | None \<Rightarrow> Inl (''Bark emergency exit '' @ label @ '' is invalid''))"

text \<open>\<open>Number.isSafeInteger(value) && value >= 0\<close>.\<close>

definition safe_count :: "jsValue option \<Rightarrow> int option" where
  "safe_count value =
     (case num_of value of
        None \<Rightarrow> None
      | Some n \<Rightarrow> (case js_integer n of
            Some i \<Rightarrow> if \<bar>i\<bar> \<le> MAX_SAFE_INTEGER \<and> i \<ge> 0 then Some i else None
          | None \<Rightarrow> None))"

definition readSats :: "jsValue option \<Rightarrow> string \<Rightarrow> string + int" where
  "readSats value label =
     (case safe_count value of Some i \<Rightarrow> Inr i | None \<Rightarrow> Inl (''Bark emergency exit '' @ label @ '' is invalid''))"

definition readCount :: "jsValue option \<Rightarrow> string + int" where
  "readCount value =
     (case safe_count value of Some i \<Rightarrow> Inr i | None \<Rightarrow> Inl ''Bark emergency exit transaction count is invalid'')"

text \<open>A finite number that is not negative.\<close>

definition finite_amount :: "jsValue option \<Rightarrow> rat option" where
  "finite_amount value = (case num_of value of Some (Fin r) \<Rightarrow> if r < 0 then None else Some r | _ \<Rightarrow> None)"

definition readFeeRate :: "jsValue option \<Rightarrow> string + rat" where
  "readFeeRate value =
     (case finite_amount value of Some r \<Rightarrow> Inr r | None \<Rightarrow> Inl ''Bark emergency exit fee rate is invalid'')"

definition readOptionalBlockHeight :: "jsValue option \<Rightarrow> string \<Rightarrow> string + rat option" where
  "readOptionalBlockHeight value label =
     (if nullish value then Inr None
      else case finite_amount value of
          Some r \<Rightarrow> Inr (Some r)
        | None \<Rightarrow> Inl (''Bark emergency exit row has no '' @ label))"

definition one_of :: "(string \<times> 'a) list \<Rightarrow> jsValue option \<Rightarrow> 'a option" where
  "one_of table value = (case str_of value of Some s \<Rightarrow> map_of table s | None \<Rightarrow> None)"

definition isEmergencyExitState :: "jsValue option \<Rightarrow> barkExitState option" where
  "isEmergencyExitState = one_of BARK_EMERGENCY_EXIT_STATES"

definition isExitGraphNodeStatus :: "jsValue option \<Rightarrow> barkNodeStatus option" where
  "isExitGraphNodeStatus = one_of BARK_EXIT_GRAPH_NODE_STATUSES"

definition isExitGraphTxType :: "jsValue option \<Rightarrow> barkTxType option" where
  "isExitGraphTxType = one_of BARK_EXIT_GRAPH_TX_TYPES"

fun bool_of :: "jsValue option \<Rightarrow> bool option" where
  "bool_of (Some (VBool b)) = Some b"
| "bool_of _ = None"

definition require :: "'a option \<Rightarrow> string \<Rightarrow> string + 'a" where
  "require v message = (case v of Some x \<Rightarrow> Inr x | None \<Rightarrow> Inl message)"

definition non_empty :: "jsValue option \<Rightarrow> string option" where
  "non_empty v = (case str_of v of Some s \<Rightarrow> if s = [] then None else Some s | None \<Rightarrow> None)"

definition readEmergencyExitRow :: "json_parse \<Rightarrow> jsValue option \<Rightarrow> string + barkExitRow" where
  "readEmergencyExitRow parse value =
     sum_bind (readObject parse value ''Bark emergency exit row'') (\<lambda>row.
     sum_bind (require (non_empty (field row ''vtxoId'')) ''Bark emergency exit row has no VTXO id'') (\<lambda>vtxoId.
     sum_bind (require (isEmergencyExitState (field row ''state'')) ''Bark emergency exit row has an unknown state'') (\<lambda>state.
     sum_bind (require (bool_of (field row ''cancelable'')) ''Bark emergency exit row has no cancelable flag'') (\<lambda>cancelable.
     sum_bind (readOptionalBlockHeight (field row ''tipHeight'') ''tip height'') (\<lambda>tipHeight.
     sum_bind (readOptionalBlockHeight (field row ''confirmedHeight'') ''confirmed height'') (\<lambda>confirmedHeight.
     sum_bind (readOptionalBlockHeight (field row ''claimableHeight'') ''claimable height'') (\<lambda>claimableHeight.
     Inr \<lparr>er_vtxoId = vtxoId, er_state = state, er_cancelable = cancelable, er_tipHeight = tipHeight,
          er_confirmedHeight = confirmedHeight, er_claimableHeight = claimableHeight\<rparr>)))))))"

definition readBarkEmergencyExitRows :: "json_parse \<Rightarrow> jsValue option \<Rightarrow> string + barkExitRow list" where
  "readBarkEmergencyExitRows parse value =
     sum_bind (parseJson parse value ''Bark emergency exit list'') (\<lambda>parsed.
     sum_bind (require (list_of parsed) ''Bark emergency exit list was not a list'') (\<lambda>es.
     sum_map (\<lambda>e. readEmergencyExitRow parse (Some e)) es))"

definition readCpfpRequest :: "json_parse \<Rightarrow> jsValue option \<Rightarrow> string + barkCpfpRequest" where
  "readCpfpRequest parse value =
     sum_bind (readObject parse value ''Bark emergency exit CPFP request'') (\<lambda>row.
     sum_bind (readText (field row ''vtxoId'') ''CPFP VTXO id'') (\<lambda>vtxoId.
     sum_bind (readText (field row ''parentTxid'') ''CPFP parent transaction id'') (\<lambda>parentTxid.
     sum_bind (readHex (field row ''parentTxHex'') ''CPFP parent transaction'') (\<lambda>parentTxHex.
     Inr \<lparr>cr_vtxoId = vtxoId, cr_parentTxid = parentTxid, cr_parentTxHex = parentTxHex\<rparr>))))"

definition readBarkEmergencyExitProgress :: "json_parse \<Rightarrow> jsValue option \<Rightarrow> string + barkCpfpRequest list" where
  "readBarkEmergencyExitProgress parse value =
     sum_bind (parseJson parse value ''Bark emergency exit progress'') (\<lambda>parsed.
     sum_bind (readObject parse parsed ''Bark emergency exit progress'') (\<lambda>row.
     sum_bind (require (list_of (field row ''requests'')) ''Bark emergency exit progress requests were not a list'') (\<lambda>es.
     sum_map (\<lambda>e. readCpfpRequest parse (Some e)) es)))"

definition readBarkEmergencyExitDrain :: "json_parse \<Rightarrow> jsValue option \<Rightarrow> string + barkExitDrain" where
  "readBarkEmergencyExitDrain parse value =
     sum_bind (parseJson parse value ''Bark emergency exit claim'') (\<lambda>parsed.
     sum_bind (readObject parse parsed ''Bark emergency exit claim'') (\<lambda>row.
     sum_bind (readHex (field row ''psbtHex'') ''claim PSBT'') (\<lambda>psbtHex.
     sum_bind (readHex (field row ''rawTxHex'') ''claim transaction'') (\<lambda>rawTxHex.
     sum_bind (readTextList (field row ''vtxoIds'') ''claim VTXO ids'') (\<lambda>vtxoIds.
     Inr \<lparr>dr_psbtHex = psbtHex, dr_rawTxHex = rawTxHex, dr_vtxoIds = vtxoIds\<rparr>)))))"

definition readBarkEmergencyExitEstimate :: "json_parse \<Rightarrow> jsValue option \<Rightarrow> string + barkExitEstimate" where
  "readBarkEmergencyExitEstimate parse value =
     sum_bind (readObject parse value ''Bark emergency exit estimate'') (\<lambda>row.
     sum_bind (readSats (field row ''exitBroadcastFeeSats'') ''broadcast fee'') (\<lambda>exitBroadcastFeeSats.
     sum_bind (readSats (field row ''claimFeeSats'') ''claim fee'') (\<lambda>claimFeeSats.
     sum_bind (readFeeRate (field row ''feeRateSatPerVb'')) (\<lambda>feeRate.
     sum_bind (readCount (field row ''txsToBroadcast'')) (\<lambda>txsToBroadcast.
     Inr \<lparr>es_exitBroadcastFeeSats = exitBroadcastFeeSats, es_claimFeeSats = claimFeeSats,
          es_feeRateSatPerVb = feeRate, es_txsToBroadcast = txsToBroadcast\<rparr>)))))"

definition readExitGraphNode :: "json_parse \<Rightarrow> jsValue option \<Rightarrow> string + barkGraphNode" where
  "readExitGraphNode parse value =
     sum_bind (readObject parse value ''Bark exit tree node'') (\<lambda>row.
     sum_bind (require (isExitGraphNodeStatus (field row ''status'')) ''Bark exit tree node has an unknown status'') (\<lambda>status.
     sum_bind (require (bool_of (field row ''needsChild'')) ''Bark exit tree node has no needs-child flag'') (\<lambda>needsChild.
     sum_bind (require (isExitGraphTxType (field row ''txType'')) ''Bark exit tree node has an unknown transaction type'') (\<lambda>txType.
     sum_bind (readText (field row ''txid'') ''exit tree transaction id'') (\<lambda>txid.
     sum_bind (readTextList (field row ''spends'') ''exit tree spends'') (\<lambda>spends.
     sum_bind (readTextList (field row ''leafVtxoIds'') ''exit tree leaf VTXO ids'') (\<lambda>leafVtxoIds.
     sum_bind (readTextList (field row ''waitingOnTxids'') ''exit tree waiting transactions'') (\<lambda>waitingOnTxids.
     Inr \<lparr>gn_txid = txid, gn_spends = spends, gn_leafVtxoIds = leafVtxoIds, gn_status = status,
          gn_needsChild = needsChild, gn_waitingOnTxids = waitingOnTxids, gn_txType = txType\<rparr>))))))))"

definition readBarkExitGraph :: "json_parse \<Rightarrow> jsValue option \<Rightarrow> string + barkGraphNode list" where
  "readBarkExitGraph parse value =
     sum_bind (parseJson parse value ''Bark exit tree'') (\<lambda>parsed.
     sum_bind (readObject parse parsed ''Bark exit tree'') (\<lambda>row.
     sum_bind (require (list_of (field row ''nodes'')) ''Bark exit tree nodes were not a list'') (\<lambda>es.
     sum_map (\<lambda>e. readExitGraphNode parse (Some e)) es)))"

definition emergencyExitStartBlocked :: "int \<Rightarrow> int \<Rightarrow> bool" where
  "emergencyExitStartBlocked confirmed broadcastFee \<longleftrightarrow> confirmed < broadcastFee"

definition barkExitTopologyVtxoIds :: "bool \<Rightarrow> string list \<Rightarrow> string list \<Rightarrow> string list \<Rightarrow> string list" where
  "barkExitTopologyVtxoIds wholeWallet selectedIds spendableIds liveExitIds =
     js_sort code_unit_compare (fold set_add ((if wholeWallet then spendableIds else selectedIds) @ liveExitIds) [])"

section \<open>Claims\<close>

definition BARK_OBSERVED_CLAIM_STATES :: "barkExitState list" where
  "BARK_OBSERVED_CLAIM_STATES = [ExClaimInProgress, ExClaimed]"

definition claimObservedByBark :: "string list \<Rightarrow> barkExitRow list \<Rightarrow> bool" where
  "claimObservedByBark vtxoIds rows \<longleftrightarrow>
     list_all (\<lambda>vtxoId. case List.find (\<lambda>candidate. er_vtxoId candidate = vtxoId) rows of
         None \<Rightarrow> True
       | Some row \<Rightarrow> er_state row \<in> set BARK_OBSERVED_CLAIM_STATES) vtxoIds"

definition overlayPendingEmergencyClaim :: "barkExitRow list \<Rightarrow> pendingClaim option \<Rightarrow> barkExitRow list" where
  "overlayPendingEmergencyClaim rows pending =
     (case pending of
        None \<Rightarrow> rows
      | Some claim \<Rightarrow> map (\<lambda>row. if er_state row = ExClaimable \<and> er_vtxoId row \<in> set (pc_vtxoIds claim)
                            then row\<lparr>er_state := ExClaimInProgress\<rparr> else row) rows)"

definition emergencyExitClaimEnabled :: "barkExitRow list \<Rightarrow> bool" where
  "emergencyExitClaimEnabled rows \<longleftrightarrow> list_ex (\<lambda>row. er_state row = ExClaimable) rows"

datatype claimVisibility = VisPresent | VisGone | VisUnknown

datatype claimDecision = ClearClaim | KeepClaim

definition pendingClaimDecision :: "string list \<Rightarrow> barkExitRow list \<Rightarrow> claimVisibility \<Rightarrow> claimDecision" where
  "pendingClaimDecision vtxoIds rows visibility =
     (if claimObservedByBark vtxoIds rows then ClearClaim
      else if visibility = VisGone then ClearClaim
      else KeepClaim)"

section \<open>Phases of the transactions\<close>

datatype barkNodePhase = NpNotProcessing | NpAwaitingBumperFunding | NpAwaitingCpfpBroadcast | NpAwaitingConfirmation | NpConfirmed

fun barkExitNodePhaseLabel :: "barkNodePhase \<Rightarrow> string option" where
  "barkExitNodePhaseLabel NpAwaitingBumperFunding = Some ''Waiting for confirmed funds''"
| "barkExitNodePhaseLabel NpAwaitingCpfpBroadcast = Some ''Broadcasting''"
| "barkExitNodePhaseLabel NpAwaitingConfirmation = Some ''Waiting for confirmation''"
| "barkExitNodePhaseLabel _ = None"

definition resolveBarkExitNodePhase :: "barkNodeStatus \<Rightarrow> bool \<Rightarrow> string \<Rightarrow> string list \<Rightarrow> barkNodePhase" where
  "resolveBarkExitNodePhase status needsChild txid unfundedParentTxids =
     (if status = NsConfirmed then NpConfirmed
      else if status = NsInProgress \<and> needsChild
      then (if txid \<in> set unfundedParentTxids then NpAwaitingBumperFunding else NpAwaitingCpfpBroadcast)
      else if status = NsInProgress then NpAwaitingConfirmation
      else NpNotProcessing)"

definition nodePhase :: "barkGraphNode \<Rightarrow> string list \<Rightarrow> barkNodePhase" where
  "nodePhase node unfunded = resolveBarkExitNodePhase (gn_status node) (gn_needsChild node) (gn_txid node) unfunded"

definition BARK_EXIT_TIMELOCK_ELAPSED_STATES :: "barkExitState list" where
  "BARK_EXIT_TIMELOCK_ELAPSED_STATES = [ExClaimable, ExClaimInProgress, ExClaimed]"

definition resolveBarkLeafCoinStage :: "string list \<Rightarrow> barkNodeStatus \<Rightarrow> barkExitRow list \<Rightarrow> exitCoinStage" where
  "resolveBarkLeafCoinStage leafVtxoIds status exitRows =
     (let trackedStates = map er_state (filter (\<lambda>row. er_vtxoId row \<in> set leafVtxoIds) exitRows)
      in resolveExitCoinStage (map (\<lambda>state. state \<in> set BARK_EXIT_TIMELOCK_ELAPSED_STATES) trackedStates)
           (status = NsConfirmed \<or> ExAwaitingDelta \<in> set trackedStates))"

section \<open>Paths of the exit tree\<close>

definition nodes_by_txid :: "barkGraphNode list \<Rightarrow> barkGraphNode js_record" where
  "nodes_by_txid nodes = fold (\<lambda>node. rec_set (gn_txid node) node) nodes []"

definition parent_nodes :: "barkGraphNode list \<Rightarrow> barkGraphNode \<Rightarrow> barkGraphNode list" where
  "parent_nodes nodes node = List.map_filter (rec_get (nodes_by_txid nodes)) (gn_spends node)"

definition exitPathNodes :: "string \<Rightarrow> barkGraphNode list \<Rightarrow> barkGraphNode list" where
  "exitPathNodes vtxoId nodes =
     work_search js_pop gn_txid (parent_nodes nodes) (filter (\<lambda>node. vtxoId \<in> set (gn_leafVtxoIds node)) nodes)"

definition parents_on_path :: "barkGraphNode list \<Rightarrow> barkGraphNode \<Rightarrow> string list" where
  "parents_on_path path node = filter (\<lambda>txid. txid \<in> gn_txid ` set path) (gn_spends node)"

definition get_group :: "'a list js_record \<Rightarrow> string \<Rightarrow> 'a list" where
  "get_group m k = (case rec_get m k of Some xs \<Rightarrow> xs | None \<Rightarrow> [])"

definition children_by_parent :: "barkGraphNode list \<Rightarrow> barkGraphNode list js_record" where
  "children_by_parent path =
     fold (\<lambda>node m. fold (\<lambda>parent m. rec_set parent (get_group m parent @ [node]) m)
       (parents_on_path path node) m) path []"

definition path_children :: "barkGraphNode list \<Rightarrow> barkGraphNode \<Rightarrow> barkGraphNode list" where
  "path_children path node = get_group (children_by_parent path) (gn_txid node)"

definition path_roots :: "barkGraphNode list \<Rightarrow> barkGraphNode list" where
  "path_roots path = filter (\<lambda>node. length (parents_on_path path node) = 0) path"

definition orderExitPathFromAnchor :: "string \<Rightarrow> barkGraphNode list \<Rightarrow> barkGraphNode list" where
  "orderExitPathFromAnchor vtxoId nodes =
     (let path = exitPathNodes vtxoId nodes in work_search js_shift gn_txid (path_children path) (path_roots path))"

definition bark_spends :: "barkGraphNode list \<Rightarrow> string \<Rightarrow> string list" where
  "bark_spends nodes txid = (case rec_get (nodes_by_txid nodes) txid of Some node \<Rightarrow> gn_spends node | None \<Rightarrow> [])"

text \<open>\<open>collectAncestorTxids\<close> of this module: the transactions visited from one leaf, added to those of the
  leaves before it.\<close>

definition barkCollectAncestorTxids :: "string \<Rightarrow> barkGraphNode list \<Rightarrow> string list \<Rightarrow> string list" where
  "barkCollectAncestorTxids start nodes pathTxids =
     fold set_add (work_search js_pop id (bark_spends nodes) [start]) pathTxids"

definition barkExitPathTxids :: "barkGraphNode list \<Rightarrow> string list" where
  "barkExitPathTxids nodes =
     fold (\<lambda>node path. if length (gn_leafVtxoIds node) = 0 then path else barkCollectAncestorTxids (gn_txid node) nodes path) nodes []"

section \<open>Phase of a VTXO\<close>

datatype barkVtxoState = VsSpendable | VsLocked | VsSpent | VsExited

text \<open>Confirmed and all exit transactions of the path.\<close>

type_synonym confirmedCount = "nat \<times> nat"

datatype barkVtxoExitPhase = VpStarted | VpProcessing
  | VpAwaitingBumperFunding "confirmedCount option"
  | VpAwaitingCpfpBroadcast "confirmedCount option"
  | VpAwaitingConfirmation "confirmedCount option"
  | VpAwaitingTimelock "rat option" "rat option"
  | VpClaimable | VpClaimInProgress | VpClaimed
  | VpAnchorSwept | VpInternalSeized | VpLeafSeized | VpCheckpointSeized

definition FRONTIER_PHASES_WITH_CONFIRMED_COUNT :: "barkNodePhase list" where
  "FRONTIER_PHASES_WITH_CONFIRMED_COUNT = [NpAwaitingBumperFunding, NpAwaitingCpfpBroadcast, NpAwaitingConfirmation]"

definition confirmedExitTransactionCount :: "barkGraphNode list \<Rightarrow> string list \<Rightarrow> confirmedCount option" where
  "confirmedExitTransactionCount orderedPath unfunded =
     (let exitTransactions = filter (\<lambda>node. gn_txType node \<noteq> TxCommitment) orderedPath;
          confirmed = length (filter (\<lambda>node. nodePhase node unfunded = NpConfirmed) exitTransactions)
      in if confirmed < 1 then None else Some (confirmed, length exitTransactions))"

fun phaseFromFrontier :: "barkNodePhase \<Rightarrow> confirmedCount option \<Rightarrow> barkVtxoExitPhase" where
  "phaseFromFrontier NpAwaitingBumperFunding c = VpAwaitingBumperFunding c"
| "phaseFromFrontier NpAwaitingCpfpBroadcast c = VpAwaitingCpfpBroadcast c"
| "phaseFromFrontier NpAwaitingConfirmation c = VpAwaitingConfirmation c"
| "phaseFromFrontier NpConfirmed c = VpAwaitingConfirmation c"
| "phaseFromFrontier NpNotProcessing c = VpStarted"

definition path_frontier :: "barkGraphNode list \<Rightarrow> string list \<Rightarrow> barkGraphNode option" where
  "path_frontier orderedPath unfunded = List.find (\<lambda>node. nodePhase node unfunded \<noteq> NpConfirmed) orderedPath"

definition phaseFromProcessing :: "string \<Rightarrow> barkGraphNode list option \<Rightarrow> string list \<Rightarrow> barkVtxoExitPhase" where
  "phaseFromProcessing vtxoId graphNodes unfunded =
     (case graphNodes of
        None \<Rightarrow> VpProcessing
      | Some nodes \<Rightarrow>
          let orderedPath = orderExitPathFromAnchor vtxoId nodes
          in if length orderedPath = 0 then VpProcessing
             else let frontierPhase = (case path_frontier orderedPath unfunded of
                          None \<Rightarrow> NpAwaitingConfirmation
                        | Some node \<Rightarrow> nodePhase node unfunded)
                  in if frontierPhase = NpNotProcessing then VpStarted
                     else phaseFromFrontier frontierPhase
                       (if frontierPhase \<in> set FRONTIER_PHASES_WITH_CONFIRMED_COUNT
                        then confirmedExitTransactionCount orderedPath unfunded else None))"

definition timelockBlockProgress :: "barkExitRow \<Rightarrow> (rat \<times> rat) option" where
  "timelockBlockProgress row =
     (case (er_tipHeight row, er_confirmedHeight row, er_claimableHeight row) of
        (Some tip, Some confirmed, Some claimable) \<Rightarrow>
          let totalBlocks = claimable - confirmed
          in if totalBlocks \<le> 0 then None else Some (min (max (tip - confirmed) 0) totalBlocks, totalBlocks)
      | _ \<Rightarrow> None)"

definition awaitingTimelockPhase :: "barkExitRow \<Rightarrow> barkVtxoExitPhase" where
  "awaitingTimelockPhase row =
     VpAwaitingTimelock (map_option fst (timelockBlockProgress row)) (map_option snd (timelockBlockProgress row))"

definition phaseFromExitRow :: "barkExitRow \<Rightarrow> barkGraphNode list option \<Rightarrow> string list \<Rightarrow> barkVtxoExitPhase option" where
  "phaseFromExitRow row graphNodes unfunded =
     (case er_state row of
        ExStart \<Rightarrow> Some VpStarted
      | ExProcessing \<Rightarrow> Some (phaseFromProcessing (er_vtxoId row) graphNodes unfunded)
      | ExAwaitingDelta \<Rightarrow> Some (awaitingTimelockPhase row)
      | ExClaimable \<Rightarrow> Some VpClaimable
      | ExClaimInProgress \<Rightarrow> Some VpClaimInProgress
      | ExClaimed \<Rightarrow> Some VpClaimed
      | _ \<Rightarrow> None)"

definition resolveBarkVtxoExitPhase ::
  "barkVtxoState \<Rightarrow> barkExitRow option \<Rightarrow> barkGraphNode list option \<Rightarrow> string list \<Rightarrow> sweepKind list \<Rightarrow> barkVtxoExitPhase option" where
  "resolveBarkVtxoExitPhase vtxoState exitRow graphNodes unfunded sweptNodeKinds =
     (if SweepAnchor \<in> set sweptNodeKinds then Some VpAnchorSwept
      else if SweepInternal \<in> set sweptNodeKinds then Some VpInternalSeized
      else if SweepLeaf \<in> set sweptNodeKinds then Some VpLeafSeized
      else if SweepCheckpoint \<in> set sweptNodeKinds then Some VpCheckpointSeized
      else case exitRow of
          None \<Rightarrow> if vtxoState = VsExited then Some VpClaimed else None
        | Some row \<Rightarrow> phaseFromExitRow row graphNodes unfunded)"

definition barkVtxoIdsKeptWhenFinished :: "barkExitRow list \<Rightarrow> sweepItem list \<Rightarrow> string list" where
  "barkVtxoIdsKeptWhenFinished exitRows items = fold set_add (map er_vtxoId exitRows @ map sw_vtxoId items) []"

section \<open>Texts\<close>

text \<open>\<open>num\<close> is the text of a number in a template literal.\<close>

definition withConfirmedCount :: "string \<Rightarrow> confirmedCount option \<Rightarrow> string" where
  "withConfirmedCount base c =
     (case c of
        None \<Rightarrow> base
      | Some (confirmed, tot) \<Rightarrow>
          if confirmed < 1 then base
          else base @ '', '' @ nat_str confirmed @ '' of '' @ nat_str tot @ '' '' @
            (if tot = 1 then ''exit transaction'' else ''exit transactions'') @ '' confirmed'')"

definition timelockCopy :: "(rat \<Rightarrow> string) \<Rightarrow> rat option \<Rightarrow> rat option \<Rightarrow> string" where
  "timelockCopy num elapsedBlocks totalBlocks =
     (case (elapsedBlocks, totalBlocks) of
        (Some elapsed, Some tot) \<Rightarrow>
          ''waiting for timelock, '' @ num elapsed @ '' of '' @ num tot @ '' '' @ (if tot = 1 then ''block'' else ''blocks'')
      | _ \<Rightarrow> ''waiting for timelock'')"

fun formatBarkVtxoExitPhaseCopy :: "(rat \<Rightarrow> string) \<Rightarrow> barkVtxoExitPhase option \<Rightarrow> string option" where
  "formatBarkVtxoExitPhaseCopy num None = None"
| "formatBarkVtxoExitPhaseCopy num (Some VpStarted) = Some ''started''"
| "formatBarkVtxoExitPhaseCopy num (Some VpProcessing) = Some ''processing''"
| "formatBarkVtxoExitPhaseCopy num (Some (VpAwaitingBumperFunding c)) = Some (withConfirmedCount ''waiting for confirmed funds'' c)"
| "formatBarkVtxoExitPhaseCopy num (Some (VpAwaitingCpfpBroadcast c)) = Some (withConfirmedCount ''waiting to broadcast'' c)"
| "formatBarkVtxoExitPhaseCopy num (Some (VpAwaitingConfirmation c)) = Some (withConfirmedCount ''waiting for confirmation'' c)"
| "formatBarkVtxoExitPhaseCopy num (Some (VpAwaitingTimelock e t)) = Some (timelockCopy num e t)"
| "formatBarkVtxoExitPhaseCopy num (Some VpClaimable) = Some ''ready to claim''"
| "formatBarkVtxoExitPhaseCopy num (Some VpClaimInProgress) = Some ''claim in progress''"
| "formatBarkVtxoExitPhaseCopy num (Some VpClaimed) = Some ''claimed''"
| "formatBarkVtxoExitPhaseCopy num (Some VpAnchorSwept) = Some ''anchor swept''"
| "formatBarkVtxoExitPhaseCopy num (Some VpInternalSeized) = Some ''internal node seized''"
| "formatBarkVtxoExitPhaseCopy num (Some VpLeafSeized) = Some ''leaf seized''"
| "formatBarkVtxoExitPhaseCopy num (Some VpCheckpointSeized) = Some ''checkpoint seized''"

definition formatBarkVtxoEmergencyExitPhaseLine :: "(rat \<Rightarrow> string) \<Rightarrow> barkVtxoExitPhase option \<Rightarrow> string option" where
  "formatBarkVtxoEmergencyExitPhaseLine num phase =
     map_option (\<lambda>copy. ''Emergency exit phase: '' @ copy) (formatBarkVtxoExitPhaseCopy num phase)"

section \<open>The drawn tree\<close>

record barkTreeNodeData =
  bd_txid :: string
  bd_txType :: barkTxType
  bd_status :: barkNodeStatus
  bd_phase :: barkNodePhase
  bd_isOnExitPath :: bool
  bd_isLeaf :: bool
  bd_leafVtxoCount :: int
  bd_coinStage :: exitCoinStage
  bd_isFocused :: bool
  bd_layoutDirection :: layoutDirection

record barkFlowNode =
  bf_id :: string
  bf_position :: point
  bf_sourcePosition :: connectionSide
  bf_targetPosition :: connectionSide
  bf_data :: barkTreeNodeData

record barkGraphParams =
  bp_nodes :: "barkGraphNode list"
  bp_layoutDirection :: layoutDirection
  bp_focusedNodeId :: "string option"
  bp_exitRows :: "barkExitRow list"
  bp_unfundedParentTxids :: "string list"

definition barkLayoutPosition :: "js_number \<Rightarrow> js_number \<Rightarrow> layoutDirection \<Rightarrow> point" where
  "barkLayoutPosition layoutX layoutY d = (if d = DirLR then (layoutY, layoutX) else (layoutX, layoutY))"

definition bark_real_links :: "barkGraphNode list \<Rightarrow> (string \<times> string) list" where
  "bark_real_links nodes = concat (map (\<lambda>node. map (\<lambda>parent. (parent, gn_txid node)) (gn_spends node)) nodes)"

definition bark_single_links :: "barkGraphNode list \<Rightarrow> (string \<times> string) list" where
  "bark_single_links nodes =
     (let linked = concat (map (\<lambda>(a, b). [a, b]) (bark_real_links nodes))
      in map (\<lambda>node. (gn_txid node, gn_txid node)) (filter (\<lambda>node. gn_txid node \<notin> set linked) nodes))"

definition bark_flow_node :: "barkGraphParams \<Rightarrow> barkGraphNode \<Rightarrow> js_number option \<Rightarrow> js_number option \<Rightarrow> barkFlowNode" where
  "bark_flow_node g node x y =
     \<lparr>bf_id = gn_txid node,
      bf_position = barkLayoutPosition (case_option (Fin 0) id x) (case_option (Fin 0) id y) (bp_layoutDirection g),
      bf_sourcePosition = fst (resolveNodeConnectionPositions (bp_layoutDirection g)),
      bf_targetPosition = snd (resolveNodeConnectionPositions (bp_layoutDirection g)),
      bf_data = \<lparr>bd_txid = gn_txid node, bd_txType = gn_txType node, bd_status = gn_status node,
        bd_phase = resolveBarkExitNodePhase (gn_status node) (gn_needsChild node) (gn_txid node) (bp_unfundedParentTxids g),
        bd_isOnExitPath = (gn_txid node \<in> set (barkExitPathTxids (bp_nodes g))),
        bd_isLeaf = (length (gn_leafVtxoIds node) > 0), bd_leafVtxoCount = int (length (gn_leafVtxoIds node)),
        bd_coinStage = resolveBarkLeafCoinStage (gn_leafVtxoIds node) (gn_status node) (bp_exitRows g),
        bd_isFocused = (bp_focusedNodeId g = Some (gn_txid node)), bd_layoutDirection = bp_layoutDirection g\<rparr>\<rparr>"

text \<open>The edges are built as on the other rail; a node of the layout that is no transaction of the
  graph (a spent anchor) is not drawn, nor are its edges.\<close>

definition layoutBarkExitGraph ::
  "dag_layout \<Rightarrow> smooth_step_path \<Rightarrow> barkGraphParams \<Rightarrow> string + barkFlowNode list \<times> exitEdgePath list" where
  "layoutBarkExitGraph layout smooth g =
     (if length (bp_nodes g) = 0 then Inr ([], [])
      else sum_bind (layout (bark_real_links (bp_nodes g) @ bark_single_links (bp_nodes g))) (\<lambda>dagNodes.
        let nodes = List.map_filter (\<lambda>(txid, x, y). map_option (\<lambda>node. bark_flow_node g node x y)
                      (List.find (\<lambda>node. gn_txid node = txid) (bp_nodes g))) dagNodes;
            positions = fold (\<lambda>node. rec_set (bf_id node) (bf_position node)) nodes []
        in Inr (nodes, buildEdgePaths smooth (bark_real_links (bp_nodes g)) positions (bp_layoutDirection g)
             (barkExitPathTxids (bp_nodes g)))))"

section \<open>Notices of seized outputs\<close>

definition readBarkExitChainNotices :: "json_parse \<Rightarrow> jsValue option \<Rightarrow> string + sweepItem list" where
  "readBarkExitChainNotices parse value =
     (case str_of value of
        None \<Rightarrow> Inl ''Bark exit chain notices are invalid''
      | Some s \<Rightarrow> (case parse s of
          None \<Rightarrow> Inl ''SyntaxError''
        | Some (VObj o') \<Rightarrow>
            require (exitNodeSweepVtxoItemsFromUnknown (rec_get o' ''exitNodeSweepVtxoItems'')) ''Bark exit chain notices are invalid''
        | Some _ \<Rightarrow> Inl ''Bark exit chain notices are invalid''))"

record shownNotice =
  sn_walletId :: int
  sn_networkMode :: networkMode
  sn_items :: "sweepItem list"

definition matchesNotice :: "shownNotice option \<Rightarrow> int \<Rightarrow> networkMode \<Rightarrow> bool" where
  "matchesNotice shown w net = (case shown of None \<Rightarrow> False | Some n \<Rightarrow> sn_walletId n = w \<and> sn_networkMode n = net)"

definition sameItems :: "sweepItem list \<Rightarrow> sweepItem list \<Rightarrow> bool" where
  "sameItems left right \<longleftrightarrow> length left = length right \<and>
     list_all (\<lambda>(l, r). sw_vtxoId l = sw_vtxoId r \<and> sw_nodeKind l = sw_nodeKind r) (zip left right)"

definition showNotice :: "int \<Rightarrow> networkMode \<Rightarrow> sweepItem list \<Rightarrow> shownNotice option \<Rightarrow> shownNotice option" where
  "showNotice w net items current =
     (let normal = normalizeExitNodeSweepVtxoItems items
      in if length normal = 0 then (if matchesNotice current w net then None else current)
         else if current \<noteq> None \<and> matchesNotice current w net \<and> sameItems (sn_items (the current)) normal then current
         else Some \<lparr>sn_walletId = w, sn_networkMode = net, sn_items = normal\<rparr>)"

definition hideNotice :: "shownNotice option \<Rightarrow> shownNotice option" where
  "hideNotice current = None"

text \<open>After the write to the account: what is left of the banner that is shown then.\<close>

definition dismissNotice :: "int \<Rightarrow> networkMode \<Rightarrow> sweepKind \<Rightarrow> shownNotice option \<Rightarrow> shownNotice option" where
  "dismissNotice w net kind current =
     (if \<not> matchesNotice current w net then current
      else let items = exitNodeSweepVtxoItemsWithoutKind (sn_items (the current)) kind
           in if length items = 0 then None else Some ((the current)\<lparr>sn_items := items\<rparr>))"

definition barkExitChainNoticeItems :: "int \<Rightarrow> networkMode \<Rightarrow> shownNotice option \<Rightarrow> sweepItem list" where
  "barkExitChainNoticeItems w net shown = (if matchesNotice shown w net then sn_items (the shown) else [])"

section \<open>Funding of the exit transactions\<close>

record barkExitScope =
  sc_walletId :: int
  sc_networkMode :: networkMode

definition barkEmergencyExitScopeFor :: "int option \<Rightarrow> networkMode \<Rightarrow> barkExitScope option" where
  "barkEmergencyExitScopeFor w net = map_option (\<lambda>i. \<lparr>sc_walletId = i, sc_networkMode = net\<rparr>) w"

record progressOutcome =
  po_requestedChildren :: nat
  po_providedChildren :: nat
  po_unfundedParentTxids :: "string list"

definition barkEmergencyExitChildrenWaitForFunds :: "progressOutcome \<Rightarrow> bool" where
  "barkEmergencyExitChildrenWaitForFunds outcome \<longleftrightarrow> po_providedChildren outcome < po_requestedChildren outcome"

record fundingStore =
  fs_fundingStatus :: "(barkExitScope \<times> progressOutcome) option"
  fs_unfundedParents :: "(barkExitScope \<times> string list) option"

definition recordProgressOutcome :: "barkExitScope \<Rightarrow> progressOutcome \<Rightarrow> fundingStore \<Rightarrow> fundingStore" where
  "recordProgressOutcome scope outcome store = store\<lparr>
     fs_fundingStatus := (if barkEmergencyExitChildrenWaitForFunds outcome then Some (scope, outcome) else None),
     fs_unfundedParents := (if barkEmergencyExitChildrenWaitForFunds outcome
       then Some (scope, po_unfundedParentTxids outcome) else None)\<rparr>"

definition recordUnfundedParents :: "barkExitScope \<Rightarrow> string list \<Rightarrow> fundingStore \<Rightarrow> fundingStore" where
  "recordUnfundedParents scope txids store = store\<lparr>fs_unfundedParents := Some (scope, txids)\<rparr>"

definition clearFundingStatus :: "fundingStore \<Rightarrow> fundingStore" where
  "clearFundingStatus store = store\<lparr>fs_fundingStatus := None\<rparr>"

definition clearUnfundedParents :: "fundingStore \<Rightarrow> fundingStore" where
  "clearUnfundedParents store = store\<lparr>fs_unfundedParents := None\<rparr>"

definition barkEmergencyExitFundingStatusFor ::
  "(barkExitScope \<times> progressOutcome) option \<Rightarrow> barkExitScope option \<Rightarrow> progressOutcome option" where
  "barkEmergencyExitFundingStatusFor status scope =
     (case (status, scope) of
        (Some (sc, outcome), Some s) \<Rightarrow>
          if sc_walletId sc \<noteq> sc_walletId s \<or> sc_networkMode sc \<noteq> sc_networkMode s then None else Some outcome
      | _ \<Rightarrow> None)"

definition barkEmergencyExitUnfundedParentTxidsFor ::
  "(barkExitScope \<times> string list) option \<Rightarrow> barkExitScope option \<Rightarrow> string list" where
  "barkEmergencyExitUnfundedParentTxidsFor stored scope =
     (case (stored, scope) of
        (Some (sc, txids), Some s) \<Rightarrow>
          if sc_walletId sc \<noteq> sc_walletId s \<or> sc_networkMode sc \<noteq> sc_networkMode s then [] else txids
      | _ \<Rightarrow> [])"

definition formatBarkEmergencyExitFundingBanner :: "progressOutcome \<Rightarrow> string" where
  "formatBarkEmergencyExitFundingBanner status =
     (let waiting = int (po_requestedChildren status) - int (po_providedChildren status)
      in if po_providedChildren status = 0
         then int_str waiting @ '' '' @ (if waiting = 1 then ''exit transaction is'' else ''exit transactions are'') @
           '' waiting for confirmed funds. Change from earlier exit transactions must confirm first.''
         else ''Broadcasting '' @ nat_str (po_providedChildren status) @ '' of '' @ nat_str (po_requestedChildren status) @
           '' exit transactions. '' @ int_str waiting @ '' '' @ (if waiting = 1 then ''is'' else ''are'') @
           '' waiting for confirmed funds.'')"

section \<open>The searches\<close>

lemma nodes_by_txid_sound:
  "rec_get (fold (\<lambda>node. rec_set (gn_txid node) node) nodes m) t = Some n \<Longrightarrow>
   n \<in> set nodes \<and> gn_txid n = t \<or> rec_get m t = Some n"
proof (induction nodes arbitrary: m)
  case (Cons a nodes)
  then show ?case by (cases "gn_txid a = t") (fastforce simp: js_rec.get_set)+
qed simp

lemma nodes_by_txid_present:
  "t \<in> gn_txid ` set nodes \<or> rec_get m t \<noteq> None \<Longrightarrow> rec_get (fold (\<lambda>node. rec_set (gn_txid node) node) nodes m) t \<noteq> None"
  by (induction nodes arbitrary: m) (auto simp: js_rec.get_set)

lemma nodes_by_txid_mem: "rec_get (nodes_by_txid nodes) t = Some n \<Longrightarrow> n \<in> set nodes \<and> gn_txid n = t"
  using nodes_by_txid_sound[of nodes "[]" t n] by (simp add: nodes_by_txid_def rec_get_def)

lemma nodes_by_txid_get:
  assumes "distinct (map gn_txid nodes)"
  shows "rec_get (nodes_by_txid nodes) t = Some n \<longleftrightarrow> n \<in> set nodes \<and> gn_txid n = t"
proof
  assume "n \<in> set nodes \<and> gn_txid n = t"
  moreover from this obtain n' where n': "rec_get (nodes_by_txid nodes) t = Some n'"
    using nodes_by_txid_present[of t nodes "[]"] by (auto simp: nodes_by_txid_def)
  then have "n' \<in> set nodes \<and> gn_txid n' = t" by (rule nodes_by_txid_mem)
  ultimately have "n' = n" using assms by (simp add: distinct_map inj_on_def)
  with n' show "rec_get (nodes_by_txid nodes) t = Some n" by simp
qed (rule nodes_by_txid_mem)

lemma parent_nodes_subset: "set (parent_nodes nodes n) \<subseteq> set nodes"
proof
  fix p assume "p \<in> set (parent_nodes nodes n)"
  then obtain t where "rec_get (nodes_by_txid nodes) t = Some p" by (auto simp: parent_nodes_def mem_map_filter)
  then show "p \<in> set nodes" using nodes_by_txid_mem by blast
qed

interpretation path_search: work_list js_pop gn_txid "parent_nodes nodes" "set nodes" for nodes
  by unfold_locales (erule (1) js_pop_takes, simp, rule parent_nodes_subset)

text \<open>The children of a transaction on the path.\<close>

lemma group_child:
  "set (get_group (fold (\<lambda>parent m. rec_set parent (get_group m parent @ [node]) m) ps m) k) =
   set (get_group m k) \<union> (if k \<in> set ps then {node} else {})"
  by (induction ps arbitrary: m) (auto simp: get_group_def js_rec.get_set)

lemma group_children:
  "set (get_group (fold (\<lambda>node m. fold (\<lambda>parent m. rec_set parent (get_group m parent @ [node]) m)
       (ps node) m) nodes m) k) =
   set (get_group m k) \<union> {node \<in> set nodes. k \<in> set (ps node)}"
  by (induction nodes arbitrary: m) (auto simp: group_child)

lemma set_path_children: "set (path_children path n) = {c \<in> set path. gn_txid n \<in> set (parents_on_path path c)}"
  using group_children[of "parents_on_path path" path "[]" "gn_txid n"]
  by (simp add: path_children_def children_by_parent_def get_group_def[of "[]"] rec_get_def)

interpretation path_order: work_list js_shift gn_txid "path_children path" "set path" for path
  by unfold_locales (erule (1) js_shift_takes, simp, simp add: set_path_children)

lemma bark_spends_subset: "set (bark_spends nodes t) \<subseteq> (\<Union>n \<in> set nodes. set (gn_spends n))"
proof (cases "rec_get (nodes_by_txid nodes) t")
  case (Some n)
  then show ?thesis using nodes_by_txid_mem[OF Some] by (auto simp: bark_spends_def)
qed (simp add: bark_spends_def)

interpretation ancestors: work_list js_pop id "bark_spends nodes" "insert start (\<Union>n \<in> set nodes. set (gn_spends n))" for nodes start
  by unfold_locales (erule (1) js_pop_takes, simp, rule subset_trans[OF bark_spends_subset], blast)

section \<open>The path of a VTXO\<close>

definition parent_rel :: "barkGraphNode list \<Rightarrow> (barkGraphNode \<times> barkGraphNode) set" where
  "parent_rel nodes = {(c, p). c \<in> set nodes \<and> p \<in> set nodes \<and> gn_txid p \<in> set (gn_spends c)}"

text \<open>The transactions that have to confirm before the VTXO can be claimed, with their own.\<close>

definition exit_path :: "string \<Rightarrow> barkGraphNode list \<Rightarrow> barkGraphNode set" where
  "exit_path vtxoId nodes = (parent_rel nodes)\<^sup>* `` {n \<in> set nodes. vtxoId \<in> set (gn_leafVtxoIds n)}"

lemma exit_path_subset: "exit_path vtxoId nodes \<subseteq> set nodes"
proof
  fix n assume "n \<in> exit_path vtxoId nodes"
  then obtain l where "l \<in> set nodes" and "(l, n) \<in> (parent_rel nodes)\<^sup>*" by (auto simp: exit_path_def)
  then show "n \<in> set nodes" by (auto elim: rtranclE simp: parent_rel_def)
qed

lemma exitPathNodes_result:
  assumes "distinct (map gn_txid nodes)"
  shows "set (exitPathNodes vtxoId nodes) = exit_path vtxoId nodes" and "distinct (map gn_txid (exitPathNodes vtxoId nodes))"
proof -
  let ?start = "filter (\<lambda>node. vtxoId \<in> set (gn_leafVtxoIds node)) nodes"
  have succ: "p \<in> set (parent_nodes nodes c) \<longleftrightarrow> (c, p) \<in> parent_rel nodes" if "c \<in> set nodes" for c p
    using that by (auto simp: parent_nodes_def mem_map_filter parent_rel_def nodes_by_txid_get[OF assms])
  have "reached (parent_nodes nodes) ?start \<subseteq> exit_path vtxoId nodes"
  proof
    fix n assume "n \<in> reached (parent_nodes nodes) ?start"
    then show "n \<in> exit_path vtxoId nodes"
    proof (induction rule: reached_induct)
      case (start n)
      then show ?case by (auto simp: exit_path_def)
    next
      case (step n m)
      then have "n \<in> set nodes" using exit_path_subset by blast
      then have "(n, m) \<in> parent_rel nodes" using step succ by simp
      then show ?case using step.IH by (auto simp: exit_path_def Image_iff intro: rtrancl_into_rtrancl)
    qed
  qed
  moreover have "exit_path vtxoId nodes \<subseteq> reached (parent_nodes nodes) ?start"
  proof
    fix n assume "n \<in> exit_path vtxoId nodes"
    then obtain l where l: "l \<in> set ?start" and r: "(l, n) \<in> (parent_rel nodes)\<^sup>*" by (auto simp: exit_path_def)
    from r show "n \<in> reached (parent_nodes nodes) ?start"
    proof induction
      case base
      show ?case by (rule reached_start[OF l])
    next
      case (step n m)
      then have "m \<in> set (parent_nodes nodes n)" using succ by (auto simp: parent_rel_def)
      with step show ?case by (metis reached_step)
    qed
  qed
  ultimately have eq: "reached (parent_nodes nodes) ?start = exit_path vtxoId nodes" by blast
  have "inj_on gn_txid (exit_path vtxoId nodes)"
    using assms exit_path_subset by (metis distinct_map inj_on_subset)
  then show "set (exitPathNodes vtxoId nodes) = exit_path vtxoId nodes"
    using path_search.search_complete[of ?start nodes] by (simp add: exitPathNodes_def eq)
  show "distinct (map gn_txid (exitPathNodes vtxoId nodes))"
    unfolding exitPathNodes_def by (rule path_search.search_distinct) auto
qed

lemma parents_on_exit_path:
  assumes "distinct (map gn_txid nodes)" and "set path = exit_path vtxoId nodes" and "c \<in> set path"
  shows "t \<in> set (parents_on_path path c) \<longleftrightarrow> (\<exists>p \<in> set nodes. gn_txid p = t \<and> t \<in> set (gn_spends c))"
    and "p \<in> set nodes \<Longrightarrow> gn_txid p \<in> set (gn_spends c) \<Longrightarrow> p \<in> set path"
proof -
  have "c \<in> set nodes" using assms exit_path_subset by blast
  then have step: "p \<in> set path" if "p \<in> set nodes" "gn_txid p \<in> set (gn_spends c)" for p
    using that assms(2,3) by (auto simp: exit_path_def parent_rel_def Image_iff intro: rtrancl_into_rtrancl)
  then show "p \<in> set nodes \<Longrightarrow> gn_txid p \<in> set (gn_spends c) \<Longrightarrow> p \<in> set path" .
  show "t \<in> set (parents_on_path path c) \<longleftrightarrow> (\<exists>p \<in> set nodes. gn_txid p = t \<and> t \<in> set (gn_spends c))"
    using step assms(2) exit_path_subset by (fastforce simp: parents_on_path_def)
qed

text \<open>In a graph without circles the ordered path has the transactions of the path; each of them is
  an anchor or comes after one of the transactions it spends.\<close>

definition exit_forest :: "barkGraphNode list \<Rightarrow> bool" where
  "exit_forest nodes \<longleftrightarrow> distinct (map gn_txid nodes) \<and> acyclic (parent_rel nodes)"

definition spent_nodes :: "barkGraphNode list \<Rightarrow> barkGraphNode \<Rightarrow> barkGraphNode set" where
  "spent_nodes nodes n = {p \<in> set nodes. gn_txid p \<in> set (gn_spends n)}"

lemma finite_parent_rel: "finite (parent_rel nodes)"
  by (rule finite_subset[of _ "set nodes \<times> set nodes"]) (auto simp: parent_rel_def)

lemma orderExitPath_result:
  assumes "exit_forest nodes"
  shows "set (orderExitPathFromAnchor vtxoId nodes) = exit_path vtxoId nodes" (is ?all)
    and "distinct (map gn_txid (orderExitPathFromAnchor vtxoId nodes))" (is ?once)
    and "orderExitPathFromAnchor vtxoId nodes = xs @ n # ys \<Longrightarrow> spent_nodes nodes n = {} \<or> spent_nodes nodes n \<inter> set xs \<noteq> {}"
proof -
  define path where "path = exitPathNodes vtxoId nodes"
  have d: "distinct (map gn_txid nodes)" using assms by (simp add: exit_forest_def)
  have path: "set path = exit_path vtxoId nodes" "distinct (map gn_txid path)"
    unfolding path_def by (rule exitPathNodes_result[OF d])+
  note parents = parents_on_exit_path[OF d path(1)]
  have roots: "set (path_roots path) \<subseteq> set path" by (auto simp: path_roots_def)
  have res: "orderExitPathFromAnchor vtxoId nodes = work_search js_shift gn_txid (path_children path) (path_roots path)"
    by (simp add: orderExitPathFromAnchor_def path_def Let_def)
  have wf: "wf ((parent_rel nodes)\<inverse>)"
    using assms finite_parent_rel finite_acyclic_wf_converse by (auto simp: exit_forest_def)
  have reach: "n \<in> set path \<Longrightarrow> n \<in> reached (path_children path) (path_roots path)" for n
  proof (induction n rule: wf_induct_rule[OF wf])
    case (1 n)
    show ?case
    proof (cases "n \<in> set (path_roots path)")
      case True
      then show ?thesis by (rule reached_start)
    next
      case False
      then obtain t where "t \<in> set (parents_on_path path n)" using 1(2) by (force simp: path_roots_def neq_Nil_conv)
      then obtain p where p: "p \<in> set nodes" "gn_txid p \<in> set (gn_spends n)" using parents(1)[OF 1(2), of t] by blast
      moreover have "n \<in> set nodes" using 1(2) path exit_path_subset by blast
      ultimately have "(p, n) \<in> (parent_rel nodes)\<inverse>" by (auto simp: parent_rel_def)
      then have "p \<in> reached (path_children path) (path_roots path)" using 1 p parents(2) by blast
      moreover have "n \<in> set (path_children path p)" using 1(2) p parents(1)[OF 1(2)] by (auto simp: set_path_children)
      ultimately show ?thesis by (rule reached_step)
    qed
  qed
  have sub: "reached (path_children path) (path_roots path) \<subseteq> set path"
  proof
    fix n assume "n \<in> reached (path_children path) (path_roots path)"
    then show "n \<in> set path" by (induction rule: reached_induct) (use roots set_path_children in auto)
  qed
  have "inj_on gn_txid (reached (path_children path) (path_roots path))"
    using path(2) sub by (metis distinct_map inj_on_subset)
  then show ?all using path_order.search_complete[OF roots] reach sub path(1) unfolding res by auto
  show ?once unfolding res by (rule path_order.search_distinct[OF roots])
  assume split: "orderExitPathFromAnchor vtxoId nodes = xs @ n # ys"
  then have n: "n \<in> set path" using \<open>?all\<close> path(1) by auto
  have xs: "set xs \<subseteq> set nodes" using \<open>?all\<close> exit_path_subset split by fastforce
  have "path_order.led_to path (path_roots path) xs n"
    using path_order.search_order[OF roots] split unfolding res .
  then consider "n \<in> set (path_roots path)" | m where "m \<in> set xs" "n \<in> set (path_children path m)"
    by (auto simp: path_order.led_to_def)
  then show "spent_nodes nodes n = {} \<or> spent_nodes nodes n \<inter> set xs \<noteq> {}"
  proof cases
    case 1
    then show ?thesis using parents(1)[OF n] by (fastforce simp: path_roots_def spent_nodes_def)
  next
    case 2
    then have "m \<in> spent_nodes nodes n" using xs by (auto simp: spent_nodes_def set_path_children parents_on_path_def)
    with 2(1) show ?thesis by blast
  qed
qed

section \<open>Properties\<close>

lemma nodePhase_confirmed: "nodePhase n unfunded = NpConfirmed \<longleftrightarrow> gn_status n = NsConfirmed"
  by (simp add: nodePhase_def resolveBarkExitNodePhase_def)

lemma find_Some_split: "List.find P zs = Some x \<Longrightarrow> \<exists>xs ys. zs = xs @ x # ys \<and> P x \<and> (\<forall>y \<in> set xs. \<not> P y)"
proof (induction zs)
  case (Cons z zs)
  show ?case
  proof (cases "P z")
    case True
    then have "z # zs = [] @ x # zs \<and> P x" using Cons.prems by simp
    then show ?thesis by fastforce
  next
    case False
    then obtain xs ys where "zs = xs @ x # ys \<and> P x \<and> (\<forall>y \<in> set xs. \<not> P y)" using Cons by auto
    then have "z # zs = (z # xs) @ x # ys \<and> P x \<and> (\<forall>y \<in> set (z # xs). \<not> P y)" using False by simp
    then show ?thesis by blast
  qed
qed simp

lemma path_frontier_next:
  assumes "exit_forest nodes" and "path_frontier (orderExitPathFromAnchor vtxoId nodes) unfunded = Some n"
  shows "n \<in> exit_path vtxoId nodes \<and> gn_status n \<noteq> NsConfirmed \<and>
    (spent_nodes nodes n = {} \<or> (\<exists>p \<in> spent_nodes nodes n. gn_status p = NsConfirmed))"
proof -
  obtain xs ys where split: "orderExitPathFromAnchor vtxoId nodes = xs @ n # ys" and n: "gn_status n \<noteq> NsConfirmed"
    and xs: "\<forall>m \<in> set xs. gn_status m = NsConfirmed"
    using find_Some_split[OF assms(2)[unfolded path_frontier_def]] by (auto simp: nodePhase_confirmed)
  have "n \<in> exit_path vtxoId nodes" using orderExitPath_result(1)[OF assms(1)] split by (metis in_set_conv_decomp)
  then show ?thesis using orderExitPath_result(3)[OF assms(1) split] n xs by blast
qed

text \<open>Confirmed and all exit transactions of a path, commitments left out.\<close>

definition confirmed_of :: "barkGraphNode set \<Rightarrow> confirmedCount option" where
  "confirmed_of path =
     (let exits = {n \<in> path. gn_txType n \<noteq> TxCommitment}; k = card {n \<in> exits. gn_status n = NsConfirmed}
      in if k = 0 then None else Some (k, card exits))"

lemma confirmed_count_of:
  assumes "distinct path"
  shows "confirmedExitTransactionCount path unfunded = confirmed_of (set path)"
proof -
  have len: "length (filter P path) = card {n \<in> set path. P n}" for P
    using assms by (metis distinct_card distinct_filter set_filter)
  have "{n \<in> set path. gn_txType n \<noteq> TxCommitment \<and> gn_status n = NsConfirmed} =
      {n \<in> {n \<in> set path. gn_txType n \<noteq> TxCommitment}. gn_status n = NsConfirmed}" by auto
  then show ?thesis
    unfolding confirmedExitTransactionCount_def confirmed_of_def Let_def filter_filter nodePhase_confirmed len
    by (simp add: conj_commute)
qed


definition sample_forest :: "barkGraphNode list" where
  "sample_forest =
     [\<lparr>gn_txid = ''leaf'', gn_spends = [''root''], gn_leafVtxoIds = [''v''], gn_status = NsInProgress, gn_needsChild = True,
       gn_waitingOnTxids = [], gn_txType = TxTree\<rparr>,
      \<lparr>gn_txid = ''root'', gn_spends = [''anchor''], gn_leafVtxoIds = [], gn_status = NsConfirmed, gn_needsChild = False,
       gn_waitingOnTxids = [], gn_txType = TxTree\<rparr>]"

definition sample_exit_row :: barkExitRow where
  "sample_exit_row = \<lparr>er_vtxoId = ''v'', er_state = ExProcessing, er_cancelable = False, er_tipHeight = None,
     er_confirmedHeight = None, er_claimableHeight = None\<rparr>"


text \<open>The transactions marked as on an exit path are exactly those that a transaction with a leaf
  depends on, each once; the search behind it ends on every graph.\<close>

theorem bark_exit_path_txids:
  "distinct (barkExitPathTxids nodes) \<and>
   set (barkExitPathTxids nodes) =
     {t. \<exists>leaf \<in> set nodes. gn_leafVtxoIds leaf \<noteq> [] \<and> (gn_txid leaf, t) \<in> (succ_rel (bark_spends nodes))\<^sup>*}"
proof -
  have collect: "set (barkCollectAncestorTxids s nodes acc) = set acc \<union> {t. (s, t) \<in> (succ_rel (bark_spends nodes))\<^sup>*}" for s acc
    using ancestors.search_complete[of "[s]" s nodes]
    by (simp add: barkCollectAncestorTxids_def set_fold_set_add reached_def Image_singleton)
  have once: "distinct acc \<Longrightarrow> distinct (barkCollectAncestorTxids s nodes acc)" for s acc
    by (simp add: barkCollectAncestorTxids_def distinct_fold_set_add)
  define extend :: "barkGraphNode \<Rightarrow> string list \<Rightarrow> string list" where "extend = (\<lambda>node path. if length (gn_leafVtxoIds node) = 0 then path
    else barkCollectAncestorTxids (gn_txid node) nodes path)"
  have "set (fold extend ls acc) = set acc \<union>
      {t. \<exists>leaf \<in> set ls. gn_leafVtxoIds leaf \<noteq> [] \<and> (gn_txid leaf, t) \<in> (succ_rel (bark_spends nodes))\<^sup>*}"
    and "distinct acc \<Longrightarrow> distinct (fold extend ls acc)" for ls acc
    by (induction ls arbitrary: acc) (auto simp: extend_def collect once)
  from this[where ls = nodes and acc = "[]"] show ?thesis by (simp add: barkExitPathTxids_def extend_def)
qed

end
