(* ===== verification/Bark_Progress.thy ===== *)
theory Bark_Progress
  imports Bark_Exit
begin

text \<open>
  One run of the Bark emergency exit (\<open>lib/bark/perform-bark-emergency-exit.ts\<close>): asking Bark which exit
  transactions need a child that pays their fee, signing and providing these children, and claiming
  the exits whose timelock has run out. With it the fee of an automatic step
  (\<open>bark-emergency-exit-automated-fee.ts\<close>, \<open>lib/onchain/automated-step-fee-rate.ts\<close>), the sync of the on-chain wallet before a
  step (\<open>bark-emergency-exit-onchain-catch-up.ts\<close>) and what a run records
  (\<open>bark-emergency-exit-progress-deps.ts\<close>). The calls of the workers are parameters: operations over an arbitrary
  state that may fail with a message. Amounts in satoshis are integers.
\<close>

section \<open>The fee of an automatic step\<close>

definition js_greater :: "js_number \<Rightarrow> js_number \<Rightarrow> bool" where
  "js_greater a b = (case (a, b) of
       (Fin x, Fin y) \<Rightarrow> x > y
     | (PosInf, Fin _) \<Rightarrow> True
     | (PosInf, NegInf) \<Rightarrow> True
     | (Fin _, NegInf) \<Rightarrow> True
     | _ \<Rightarrow> False)"

text \<open>\<open>Math.max\<close>, without the signs of zeros.\<close>

definition js_max :: "js_number \<Rightarrow> js_number \<Rightarrow> js_number" where
  "js_max a b = (if a = NaN \<or> b = NaN then NaN else if js_greater b a then b else a)"

definition defaultMaxFeeRateSatPerVb :: "js_number \<Rightarrow> js_number" where
  "defaultMaxFeeRateSatPerVb highPreset = js_max (Fin 10) (js_scale highPreset 2)"

definition resolveAutomatedStepFeeRateSatPerVb ::
  "sendFeePresetLabel \<Rightarrow> (sendFeePresetLabel \<Rightarrow> js_number) \<Rightarrow> js_number \<Rightarrow> js_number \<times> bool" where
  "resolveAutomatedStepFeeRateSatPerVb label presets maxFeeRate =
     (let livePresetRate = presets label
      in if js_greater livePresetRate maxFeeRate then (livePresetRate, True) else (livePresetRate, False))"

datatype pauseReason = FeeCapExceeded | FundsInsufficient

fun BARK_EMERGENCY_EXIT_AUTOMATION_PAUSE_LABELS :: "pauseReason \<Rightarrow> string" where
  "BARK_EMERGENCY_EXIT_AUTOMATION_PAUSE_LABELS FeeCapExceeded = ''Automatic proceeding paused: live fee rate exceeds your maximum.''"
| "BARK_EMERGENCY_EXIT_AUTOMATION_PAUSE_LABELS FundsInsufficient = ''Automatic proceeding paused: insufficient on-chain funds.''"

definition effectiveBarkEmergencyExitMaxFeeRate :: "js_number option \<Rightarrow> js_number \<Rightarrow> js_number" where
  "effectiveBarkEmergencyExitMaxFeeRate stored highPreset =
     (case stored of Some rate \<Rightarrow> rate | None \<Rightarrow> defaultMaxFeeRateSatPerVb highPreset)"

datatype feeDecision = ProgressAt js_number | PausedFor pauseReason

definition decideBarkEmergencyExitAutomatedFee ::
  "pauseReason option \<Rightarrow> sendFeePresetLabel \<Rightarrow> (sendFeePresetLabel \<Rightarrow> js_number) \<Rightarrow> js_number option \<Rightarrow> feeDecision" where
  "decideBarkEmergencyExitAutomatedFee pausedReason label presets storedMax =
     (case pausedReason of
        Some reason \<Rightarrow> PausedFor reason
      | None \<Rightarrow>
          let maxFeeRate = effectiveBarkEmergencyExitMaxFeeRate storedMax (presets HighFee);
              resolution = resolveAutomatedStepFeeRateSatPerVb label presets maxFeeRate
          in if snd resolution then PausedFor FeeCapExceeded else ProgressAt (fst resolution))"

section \<open>Errors\<close>

datatype barkRunError = ErrText string | ErrUnfundable int int "string list"

definition BARK_CPFP_INSUFFICIENT_FUNDS :: string where "BARK_CPFP_INSUFFICIENT_FUNDS = ''bark_cpfp_insufficient_funds''"
definition BARK_CPFP_NEEDED_SATS_LABEL :: string where "BARK_CPFP_NEEDED_SATS_LABEL = ''needed_sats''"
definition BARK_CPFP_UNFUNDABLE :: string where "BARK_CPFP_UNFUNDABLE = ''bark_cpfp_unfundable''"

text \<open>The text of an error, with that of \<open>BarkCpfpUnfundableError\<close>.\<close>

fun error_text :: "barkRunError \<Rightarrow> string" where
  "error_text (ErrText message) = message"
| "error_text (ErrUnfundable needed tot parents) =
     BARK_CPFP_UNFUNDABLE @ '': Waiting exit transactions need at least '' @ formatSats (Fin (of_int needed)) @
     '' sat, but the on-chain wallet holds '' @ formatSats (Fin (of_int tot)) @
     '' sat including pending coins. Add on-chain funds to continue the emergency exit.''"

text \<open>What follows the first occurrence of a marker.\<close>

fun after_first :: "string \<Rightarrow> string \<Rightarrow> string option" where
  "after_first marker [] = (if marker = [] then Some [] else None)"
| "after_first marker (c # s) = (if starts_with marker (c # s) then Some (drop (length marker) (c # s)) else after_first marker s)"

definition insufficientFundsDetail :: "string \<Rightarrow> string option" where
  "insufficientFundsDetail message = after_first (BARK_CPFP_INSUFFICIENT_FUNDS @ '': '') message"

definition isBarkCpfpInsufficientFundsError :: "string \<Rightarrow> bool" where
  "isBarkCpfpInsufficientFundsError err \<longleftrightarrow> insufficientFundsDetail err \<noteq> None"

definition isBarkCpfpUnfundableError :: "barkRunError \<Rightarrow> bool" where
  "isBarkCpfpUnfundableError err = (case err of ErrUnfundable _ _ _ \<Rightarrow> True | _ \<Rightarrow> False)"

definition barkCpfpShortfallNeededSats :: "string \<Rightarrow> int" where
  "barkCpfpShortfallNeededSats err =
     (let neededLabel = BARK_CPFP_NEEDED_SATS_LABEL @ ''=''
      in case insufficientFundsDetail err of
           None \<Rightarrow> 0
         | Some detail \<Rightarrow>
             if \<not> starts_with neededLabel detail then 0
             else (case js_integer (js_to_number (takeWhile (\<lambda>c. c \<noteq> CHR '';'') (drop (length neededLabel) detail))) of
                     Some needed \<Rightarrow> if \<bar>needed\<bar> \<le> MAX_SAFE_INTEGER \<and> needed > 0 then needed else 0
                   | None \<Rightarrow> 0))"

section \<open>Progress\<close>

record 's progressDeps =
  pd_progress :: "('s, barkCpfpRequest list) op"
  pd_signChild :: "barkCpfpRequest \<Rightarrow> js_number \<Rightarrow> ('s, string) op"
  pd_provideChild :: "string \<Rightarrow> string \<Rightarrow> ('s, unit) op"
  pd_rememberUnconfirmedChild :: "string \<Rightarrow> ('s, unit) op"
  pd_onchainTotalSats :: "('s, int) op"

text \<open>A rejected call of a worker, as an error of the run.\<close>

definition worker_call :: "('s, 'a) op \<Rightarrow> ('s, barkRunError, 'a) fallible" where
  "worker_call m s = (case m s of (Inl message, t) \<Rightarrow> (Inl (ErrText message), t) | (Inr x, t) \<Rightarrow> (Inr x, t))"

datatype signedChild = ChildTx string | Shortfall int

definition signFundedChild :: "('s, 'z) progressDeps_scheme \<Rightarrow> barkCpfpRequest \<Rightarrow> js_number \<Rightarrow> ('s, signedChild) op" where
  "signFundedChild deps request rate s =
     (case pd_signChild deps request rate s of
        (Inr hex, t) \<Rightarrow> (Inr (ChildTx hex), t)
      | (Inl err, t) \<Rightarrow>
          if \<not> isBarkCpfpInsufficientFundsError err then (Inl err, t)
          else (Inr (Shortfall (barkCpfpShortfallNeededSats err)), t))"

definition assertWaitingChildrenFundable ::
  "('s, 'z) progressDeps_scheme \<Rightarrow> int \<Rightarrow> string list \<Rightarrow> ('s, barkRunError, unit) fallible" where
  "assertWaitingChildrenFundable deps waitingNeededSats unfundedParentTxids =
     op_bind (worker_call (pd_onchainTotalSats deps)) (\<lambda>onchainTotal.
       if onchainTotal \<ge> waitingNeededSats then op_return ()
       else op_throw (ErrUnfundable waitingNeededSats onchainTotal unfundedParentTxids))"

text \<open>The variables of the loop over the requests; they are read when it throws, too.\<close>

record serveVars =
  sv_provided :: nat
  sv_waitingNeededSats :: int
  sv_unfunded :: "string list"

fun serve_requests ::
  "('s, 'z) progressDeps_scheme \<Rightarrow> js_number \<Rightarrow> barkCpfpRequest list \<Rightarrow> serveVars \<Rightarrow> 's \<Rightarrow> (string + unit) \<times> serveVars \<times> 's" where
  "serve_requests deps rate [] vars s = (Inr (), vars, s)"
| "serve_requests deps rate (request # requests) vars s =
     (case signFundedChild deps request rate s of
        (Inl err, s) \<Rightarrow> (Inl err, vars, s)
      | (Inr (Shortfall sats), s) \<Rightarrow>
          serve_requests deps rate requests
            (vars\<lparr>sv_waitingNeededSats := sv_waitingNeededSats vars + sats, sv_unfunded := sv_unfunded vars @ [cr_parentTxid request]\<rparr>) s
      | (Inr (ChildTx hex), s) \<Rightarrow>
          (case pd_provideChild deps (cr_parentTxid request) hex s of
             (Inl err, s) \<Rightarrow> (Inl err, vars, s)
           | (Inr _, s) \<Rightarrow>
               let vars = vars\<lparr>sv_provided := sv_provided vars + 1\<rparr>
               in case pd_rememberUnconfirmedChild deps hex s of
                    (Inl err, s) \<Rightarrow> (Inl err, vars, s)
                  | (Inr _, s) \<Rightarrow> serve_requests deps rate requests vars s))"

text \<open>After the loop: the check of the funds, and the second progress when a child was provided.\<close>

definition finish_progress ::
  "('s, 'z) progressDeps_scheme \<Rightarrow> barkCpfpRequest list \<Rightarrow> (string + unit) \<times> serveVars \<times> 's \<Rightarrow> (barkRunError + progressOutcome) \<times> 's" where
  "finish_progress deps requests = (\<lambda>(served, vars, s).
     case (case served of
             Inl message \<Rightarrow> (Inl (ErrText message), s)
           | Inr _ \<Rightarrow>
               if sv_provided vars < length requests
               then assertWaitingChildrenFundable deps (sv_waitingNeededSats vars) (sv_unfunded vars) s
               else (Inr (), s)) of
       (Inl err, s) \<Rightarrow> (Inl err, if sv_provided vars > 0 then snd (pd_progress deps s) else s)
     | (Inr _, s) \<Rightarrow>
         op_bind (if sv_provided vars > 0 then worker_call (pd_progress deps) else op_return []) (\<lambda>_.
           op_return \<lparr>po_requestedChildren = length requests, po_providedChildren = sv_provided vars,
             po_unfundedParentTxids = sv_unfunded vars\<rparr>) s)"

definition progressBarkEmergencyExitsOnce ::
  "('s, 'z) progressDeps_scheme \<Rightarrow> js_number \<Rightarrow> ('s, barkRunError, progressOutcome) fallible" where
  "progressBarkEmergencyExitsOnce deps rate =
     op_bind (worker_call (pd_progress deps)) (\<lambda>requests s.
       finish_progress deps requests
         (serve_requests deps rate requests \<lparr>sv_provided = 0, sv_waitingNeededSats = 0, sv_unfunded = []\<rparr> s))"

text \<open>What a run leaves in the store of the funding, for the wallet and network it ran for.\<close>

definition runBarkEmergencyExitProgress ::
  "('s, 'z) progressDeps_scheme \<Rightarrow> barkExitScope option \<Rightarrow> js_number \<Rightarrow> ('s \<times> fundingStore, barkRunError, progressOutcome) fallible" where
  "runBarkEmergencyExitProgress deps scope rate = (\<lambda>(s, funding).
     case progressBarkEmergencyExitsOnce deps rate s of
       (Inl err, s) \<Rightarrow>
         (Inl err, s,
          case err of
            ErrUnfundable _ _ parents \<Rightarrow>
              (case scope of
                 Some sc \<Rightarrow> recordUnfundedParents sc parents (clearFundingStatus funding)
               | None \<Rightarrow> clearFundingStatus funding)
          | _ \<Rightarrow> funding)
     | (Inr outcome, s) \<Rightarrow>
         (Inr outcome, s, case scope of Some sc \<Rightarrow> recordProgressOutcome sc outcome funding | None \<Rightarrow> funding))"

section \<open>Claim\<close>

record 's claimDeps =
  cd_pendingVtxoIds :: "('s, string list) op"
  cd_drain :: "string \<Rightarrow> js_number \<Rightarrow> string list \<Rightarrow> ('s, barkExitDrain) op"
  cd_broadcast :: "string \<Rightarrow> ('s, string) op"
  cd_rememberPendingClaim :: "pendingClaim \<Rightarrow> ('s, unit) op"
  cd_broadcastOnBarkChain :: "string \<Rightarrow> ('s, unit) op"
  cd_syncExits :: "('s, barkExitRow list) op"
  cd_clearPendingClaim :: "('s, unit) op"
  cd_startOnchainBackgroundSync :: "'s \<Rightarrow> 's"

definition finish_claim :: "('s, 'z) claimDeps_scheme \<Rightarrow> string \<Rightarrow> bool \<Rightarrow> ('s, string \<times> bool) op" where
  "finish_claim deps txid observed =
     op_bind (if observed then cd_clearPendingClaim deps else op_return ()) (\<lambda>_.
     op_bind (op_modify (cd_startOnchainBackgroundSync deps)) (\<lambda>_.
     op_return (txid, observed)))"

definition observe_claim :: "('s, 'z) claimDeps_scheme \<Rightarrow> string \<Rightarrow> barkExitDrain \<Rightarrow> ('s, string \<times> bool) op" where
  "observe_claim deps txid drained s =
     (case cd_syncExits deps (snd (cd_broadcastOnBarkChain deps (dr_rawTxHex drained) s)) of
        (Inr rows, s) \<Rightarrow> finish_claim deps txid (claimObservedByBark (dr_vtxoIds drained) rows) s
      | (Inl _, s) \<Rightarrow> finish_claim deps txid False s)"

definition claimBarkEmergencyExits ::
  "('s, 'z) claimDeps_scheme \<Rightarrow> string \<Rightarrow> js_number \<Rightarrow> ('s, string \<times> bool) op" where
  "claimBarkEmergencyExits deps destinationAddress rate =
     op_bind (cd_pendingVtxoIds deps) (\<lambda>excludeVtxoIds.
     op_bind (cd_drain deps destinationAddress rate excludeVtxoIds) (\<lambda>drained.
     op_bind (cd_broadcast deps (dr_rawTxHex drained)) (\<lambda>txid.
     op_bind (cd_rememberPendingClaim deps \<lparr>pc_txid = txid, pc_vtxoIds = dr_vtxoIds drained\<rparr>) (\<lambda>_.
     observe_claim deps txid drained))))"

text \<open>The calls of the live wallet. The remembered claim is a field of the Bark account (theory
  \<open>Payload_Updates\<close>), read and written through the worker; the other answers are parameters.\<close>

record 'w claimBackend =
  bk_drain :: "string \<Rightarrow> js_number \<Rightarrow> string list \<Rightarrow> ('w, barkExitDrain) op"
  bk_broadcast :: "string \<Rightarrow> ('w, string) op"
  bk_broadcastOnBarkChain :: "string \<Rightarrow> ('w, unit) op"
  bk_syncExits :: "('w, barkExitRow list) op"
  bk_readPending :: "('w, unit) op"
  bk_writePending :: "('w, unit) op"
  bk_backgroundSync :: "'w \<Rightarrow> 'w"

definition on_backend :: "('w, 'a) op \<Rightarrow> ('w \<times> pendingClaim option, 'a) op" where
  "on_backend m = (\<lambda>(w, pending). case m w of (r, w) \<Rightarrow> (r, w, pending))"

definition write_pending :: "('w, 'z) claimBackend_scheme \<Rightarrow> pendingClaim option \<Rightarrow> ('w \<times> pendingClaim option, unit) op" where
  "write_pending backend claim = op_bind (on_backend (bk_writePending backend)) (\<lambda>_. op_modify (\<lambda>(w, _). (w, claim)))"

definition barkEmergencyExitClaimDeps :: "('w, 'z) claimBackend_scheme \<Rightarrow> ('w \<times> pendingClaim option) claimDeps" where
  "barkEmergencyExitClaimDeps backend = \<lparr>
     cd_pendingVtxoIds = op_bind (on_backend (bk_readPending backend)) (\<lambda>_ (w, pending).
       (Inr (case pending of Some claim \<Rightarrow> pc_vtxoIds claim | None \<Rightarrow> []), (w, pending))),
     cd_drain = (\<lambda>address rate exclude. on_backend (bk_drain backend address rate exclude)),
     cd_broadcast = (\<lambda>hex. on_backend (bk_broadcast backend hex)),
     cd_rememberPendingClaim = (\<lambda>claim. write_pending backend (Some claim)),
     cd_broadcastOnBarkChain = (\<lambda>hex. on_backend (bk_broadcastOnBarkChain backend hex)),
     cd_syncExits = on_backend (bk_syncExits backend),
     cd_clearPendingClaim = write_pending backend None,
     cd_startOnchainBackgroundSync = (\<lambda>(w, pending). (bk_backgroundSync backend w, pending))\<rparr>"

section \<open>Sync of the on-chain wallet before a step\<close>

record 's catchUpDeps =
  cu_fetchTipHeight :: "('s, int) op"
  cu_syncOnchain :: "('s, unit) op"
  cu_onchainTipHeight :: "('s, int) op"

definition BARK_EXIT_ONCHAIN_CATCH_UP_MAX_SYNCS :: nat where "BARK_EXIT_ONCHAIN_CATCH_UP_MAX_SYNCS = 3"

definition readTipHeight :: "('s, 'z) catchUpDeps_scheme \<Rightarrow> int option \<Rightarrow> 's \<Rightarrow> int option \<times> 's" where
  "readTipHeight deps observed s =
     (case observed of
        Some height \<Rightarrow> (Some height, s)
      | None \<Rightarrow> (case cu_fetchTipHeight deps s of (Inr height, s) \<Rightarrow> (Some height, s) | (Inl _, s) \<Rightarrow> (None, s)))"

definition onchainReachedTip :: "('s, 'z) catchUpDeps_scheme \<Rightarrow> int \<Rightarrow> 's \<Rightarrow> bool option \<times> 's" where
  "onchainReachedTip deps tipHeight s =
     (case cu_onchainTipHeight deps s of (Inr height, s) \<Rightarrow> (Some (height \<ge> tipHeight), s) | (Inl _, s) \<Rightarrow> (None, s))"

fun catch_up_syncs :: "('s, 'z) catchUpDeps_scheme \<Rightarrow> int option \<Rightarrow> nat \<Rightarrow> 's \<Rightarrow> 's" where
  "catch_up_syncs deps tipHeight 0 s = s"
| "catch_up_syncs deps tipHeight (Suc n) s =
     (case cu_syncOnchain deps s of
        (Inl _, s) \<Rightarrow> s
      | (Inr _, s) \<Rightarrow>
          (case tipHeight of
             None \<Rightarrow> s
           | Some tip \<Rightarrow>
               (case onchainReachedTip deps tip s of
                  (Some False, s) \<Rightarrow> catch_up_syncs deps tipHeight n s
                | (_, s) \<Rightarrow> s)))"

definition catchUpOnchainWalletToChainTip :: "('s, 'z) catchUpDeps_scheme \<Rightarrow> int option \<Rightarrow> 's \<Rightarrow> 's" where
  "catchUpOnchainWalletToChainTip deps observed s =
     (case readTipHeight deps observed s of (tipHeight, s) \<Rightarrow>
        catch_up_syncs deps tipHeight BARK_EXIT_ONCHAIN_CATCH_UP_MAX_SYNCS s)"

section \<open>Calls of a run\<close>

text \<open>The calls of the workers in their order, each with whether it succeeded.\<close>

datatype exitCall = CallProgress | CallSign barkCpfpRequest js_number | CallProvide string string | CallRemember string | CallTotal

type_synonym 'c call_log = "('c \<times> bool) list"

abbreviation succeeded :: "'e + 'a \<Rightarrow> bool" where
  "succeeded r \<equiv> \<not> isl r"

definition logged :: "'c \<Rightarrow> ('s, 'a) op \<Rightarrow> ('s \<times> 'c call_log, 'a) op" where
  "logged call m = (\<lambda>(s, calls). case m s of (r, t) \<Rightarrow> (r, t, calls @ [(call, succeeded r)]))"

definition traced :: "'s progressDeps \<Rightarrow> ('s \<times> exitCall call_log) progressDeps" where
  "traced deps = \<lparr>pd_progress = logged CallProgress (pd_progress deps),
     pd_signChild = (\<lambda>request rate. logged (CallSign request rate) (pd_signChild deps request rate)),
     pd_provideChild = (\<lambda>txid hex. logged (CallProvide txid hex) (pd_provideChild deps txid hex)),
     pd_rememberUnconfirmedChild = (\<lambda>hex. logged (CallRemember hex) (pd_rememberUnconfirmedChild deps hex)),
     pd_onchainTotalSats = logged CallTotal (pd_onchainTotalSats deps)\<rparr>"

fun accepted_child :: "exitCall \<times> bool \<Rightarrow> bool" where
  "accepted_child (CallProvide txid hex, ok) = ok"
| "accepted_child _ = False"

definition provided_in :: "exitCall call_log \<Rightarrow> nat" where
  "provided_in calls = length (filter accepted_child calls)"

text \<open>A child that Bark accepted is made known to the on-chain wallet at once.\<close>

fun children_remembered :: "exitCall call_log \<Rightarrow> bool" where
  "children_remembered [] = True"
| "children_remembered ((CallProvide txid hex, True) # (CallRemember hex', ok) # calls) = (hex' = hex \<and> children_remembered calls)"
| "children_remembered ((CallProvide txid hex, True) # calls) = False"
| "children_remembered (_ # calls) = children_remembered calls"

lemma provided_in_simps [simp]:
  "provided_in [] = 0" "provided_in (a @ b) = provided_in a + provided_in b"
  "provided_in [c] = (if accepted_child c then 1 else 0)"
  by (simp_all add: provided_in_def)

lemma children_remembered_append:
  "children_remembered a \<Longrightarrow> children_remembered b \<Longrightarrow> children_remembered (a @ b)"
  by (induction a rule: children_remembered.induct) auto

lemma traced_simps [simp]:
  "pd_progress (traced deps) = logged CallProgress (pd_progress deps)"
  "pd_signChild (traced deps) request rate = logged (CallSign request rate) (pd_signChild deps request rate)"
  "pd_provideChild (traced deps) txid hex = logged (CallProvide txid hex) (pd_provideChild deps txid hex)"
  "pd_rememberUnconfirmedChild (traced deps) hex = logged (CallRemember hex) (pd_rememberUnconfirmedChild deps hex)"
  "pd_onchainTotalSats (traced deps) = logged CallTotal (pd_onchainTotalSats deps)"
  by (simp_all add: traced_def)

lemma logged_apply: "logged call m (s, calls) = (fst (m s), snd (m s), calls @ [(call, succeeded (fst (m s)))])"
  by (simp add: logged_def split_beta)

text \<open>What the loop over the requests does, with the calls it makes.\<close>

definition served_ok :: "barkCpfpRequest list \<Rightarrow> serveVars \<Rightarrow> exitCall call_log \<Rightarrow> (string + unit) \<times> serveVars \<times> 's \<times> exitCall call_log \<Rightarrow> bool" where
  "served_ok requests vars calls = (\<lambda>(r, vars', s', calls').
     \<exists>made unfunded. calls' = calls @ made \<and> children_remembered made \<and>
       sv_provided vars' = sv_provided vars + provided_in made \<and>
       sv_unfunded vars' = sv_unfunded vars @ unfunded \<and>
       (succeeded r \<longrightarrow> provided_in made + length unfunded = length requests))"

lemma served_okI:
  assumes "calls' = calls @ made" "children_remembered made" "sv_provided vars' = sv_provided vars + provided_in made"
    "sv_unfunded vars' = sv_unfunded vars @ unfunded" "succeeded r \<Longrightarrow> provided_in made + length unfunded = length requests"
  shows "served_ok requests vars calls (r, vars', s', calls')"
  using assms by (auto simp: served_ok_def)

text \<open>Calls for one request before those for the others.\<close>

lemma served_ok_prefix:
  assumes "served_ok requests vars1 (calls @ made1) res" and "children_remembered made1"
    and "sv_provided vars1 = sv_provided vars + provided_in made1" and "sv_unfunded vars1 = sv_unfunded vars @ unfunded1"
    and "provided_in made1 + length unfunded1 = 1"
  shows "served_ok (request # requests) vars calls res"
proof -
  obtain r vars' s' calls' where res: "res = (r, vars', s', calls')" by (metis prod_cases4)
  obtain made unfunded where m: "calls' = (calls @ made1) @ made" "children_remembered made"
    "sv_provided vars' = sv_provided vars1 + provided_in made" "sv_unfunded vars' = sv_unfunded vars1 @ unfunded"
    "succeeded r \<longrightarrow> provided_in made + length unfunded = length requests"
    using assms(1) by (auto simp: served_ok_def res)
  show ?thesis unfolding res
  proof (rule served_okI[where made = "made1 @ made" and unfunded = "unfunded1 @ unfunded"])
    show "children_remembered (made1 @ made)" by (rule children_remembered_append[OF assms(2) m(2)])
  qed (use m assms(3-5) in auto)
qed

lemma serve_requests_ok: "served_ok requests vars calls (serve_requests (traced deps) rate requests vars (s, calls))"
proof (induction requests arbitrary: vars s calls)
  case Nil
  show ?case by (auto simp: served_ok_def intro: exI[of _ "[]"])
next
  case (Cons request requests)
  let ?sign = "(CallSign request rate, succeeded (fst (pd_signChild deps request rate s)))"
  let ?s1 = "snd (pd_signChild deps request rate s)"
  show ?case
  proof (cases "fst (pd_signChild deps request rate s)")
    case (Inl message)
    show ?thesis
    proof (cases "isBarkCpfpInsufficientFundsError message")
      case True
      let ?vars = "vars\<lparr>sv_waitingNeededSats := sv_waitingNeededSats vars + barkCpfpShortfallNeededSats message,
        sv_unfunded := sv_unfunded vars @ [cr_parentTxid request]\<rparr>"
      have "served_ok (request # requests) vars calls (serve_requests (traced deps) rate requests ?vars (?s1, calls @ [?sign]))"
        by (rule served_ok_prefix[OF Cons.IH]) auto
      then show ?thesis using Inl True by (simp add: signFundedChild_def logged_apply split_beta)
    next
      case False
      have "served_ok (request # requests) vars calls (Inl message, vars, ?s1, calls @ [?sign])"
        by (rule served_okI[where made = "[?sign]" and unfunded = "[]"]) auto
      then show ?thesis using Inl False by (simp add: signFundedChild_def logged_apply split_beta)
    qed
  next
    case (Inr hex)
    let ?prov = "pd_provideChild deps (cr_parentTxid request) hex ?s1"
    let ?log = "calls @ [?sign, (CallProvide (cr_parentTxid request) hex, succeeded (fst ?prov))]"
    show ?thesis
    proof (cases "fst ?prov")
      case (Inl message)
      have "served_ok (request # requests) vars calls (Inl message, vars, snd ?prov, ?log)"
        by (rule served_okI[where made = "[?sign, (CallProvide (cr_parentTxid request) hex, succeeded (fst ?prov))]" and unfunded = "[]"])
          (auto simp: Inl provided_in_def)
      then show ?thesis using Inl Inr by (simp add: signFundedChild_def logged_apply split_beta)
    next
      case prov: (Inr u)
      let ?rem = "pd_rememberUnconfirmedChild deps hex (snd ?prov)"
      let ?made = "[?sign, (CallProvide (cr_parentTxid request) hex, True), (CallRemember hex, succeeded (fst ?rem))]"
      let ?vars = "vars\<lparr>sv_provided := sv_provided vars + 1\<rparr>"
      show ?thesis
      proof (cases "fst ?rem")
        case (Inl message)
        have "served_ok (request # requests) vars calls (Inl message, ?vars, snd ?rem, calls @ ?made)"
          by (rule served_okI[where made = ?made and unfunded = "[]"]) (auto simp: provided_in_def)
        then show ?thesis using Inl prov Inr by (simp add: signFundedChild_def logged_apply split_beta)
      next
        case (Inr u')
        have "served_ok (request # requests) vars calls (serve_requests (traced deps) rate requests ?vars (snd ?rem, calls @ ?made))"
          by (rule served_ok_prefix[where ?unfunded1.0 = "[]", OF Cons.IH]) (auto simp: provided_in_def)
        then show ?thesis using Inr prov \<open>fst (pd_signChild deps request rate s) = Inr hex\<close>
          by (simp add: signFundedChild_def logged_apply split_beta)
      qed
    qed
  qed
qed

section \<open>Properties\<close>

definition progress_spec :: "(barkRunError + progressOutcome) \<Rightarrow> exitCall call_log \<Rightarrow> bool" where
  "progress_spec r calls \<longleftrightarrow> children_remembered calls \<and> (provided_in calls > 0 \<longrightarrow> fst (last calls) = CallProgress) \<and>
     (case r of
        Inr outcome \<Rightarrow> po_providedChildren outcome = provided_in calls \<and>
          po_requestedChildren outcome = po_providedChildren outcome + length (po_unfundedParentTxids outcome)
      | Inl (ErrUnfundable needed held parents) \<Rightarrow> held < needed
      | Inl (ErrText message) \<Rightarrow> True)"

lemma progress_spec_first:
  assumes "progress_spec r calls"
  shows "progress_spec r ((CallProgress, ok) # calls)"
proof -
  have "provided_in ((CallProgress, ok) # calls) = provided_in calls" by (simp add: provided_in_def)
  moreover have "children_remembered ((CallProgress, ok) # calls)" using assms by (simp add: progress_spec_def)
  ultimately show ?thesis using assms by (auto simp: progress_spec_def split: sum.splits barkRunError.splits)
qed

lemma funds_check:
  "\<exists>c s1 ok. assertWaitingChildrenFundable (traced deps) needed parents (s, calls) = (c, s1, calls @ [(CallTotal, ok)]) \<and>
     (\<forall>n h ps. c = Inl (ErrUnfundable n h ps) \<longrightarrow> h < n)"
proof (cases "fst (pd_onchainTotalSats deps s)")
  case (Inl message)
  then show ?thesis by (auto simp: assertWaitingChildrenFundable_def op_bind_apply worker_call_def logged_apply)
next
  case (Inr tot)
  then show ?thesis
    by (cases "needed \<le> tot") (auto simp: assertWaitingChildrenFundable_def op_bind_apply worker_call_def logged_apply)
qed

lemma progress_tail:
  assumes "children_remembered made" and "sv_provided vars = provided_in made"
    and "succeeded served \<Longrightarrow> provided_in made + length (sv_unfunded vars) = length requests"
    and tail: "finish_progress (traced deps) requests (served, vars, s, calls @ made) = (r, s', calls')"
  shows "\<exists>more'. calls' = calls @ more' \<and> progress_spec r more'"
proof -
  define checked where "checked = (case served of
      Inl message \<Rightarrow> (Inl (ErrText message), (s, calls @ made))
    | Inr _ \<Rightarrow>
        if sv_provided vars < length requests
        then assertWaitingChildrenFundable (traced deps) (sv_waitingNeededSats vars) (sv_unfunded vars) (s, calls @ made)
        else (Inr (), (s, calls @ made)))"
  obtain c s1 extra where c: "checked = (c, s1, calls @ made @ extra)"
    and extra: "extra = [] \<or> (\<exists>ok. extra = [(CallTotal, ok)])"
    and err: "\<And>needed held parents. c = Inl (ErrUnfundable needed held parents) \<Longrightarrow> held < needed"
    and succ: "succeeded c \<Longrightarrow> succeeded served"
  proof (cases "isl served \<or> sv_provided vars \<ge> length requests")
    case True
    then have "\<exists>c. checked = (c, s, calls @ made @ []) \<and> (\<forall>n h ps. c \<noteq> Inl (ErrUnfundable n h ps)) \<and> (succeeded c \<longrightarrow> succeeded served)"
      by (cases served) (auto simp: checked_def)
    then show ?thesis using that by blast
  next
    case False
    obtain c s1 ok where "assertWaitingChildrenFundable (traced deps) (sv_waitingNeededSats vars) (sv_unfunded vars) (s, calls @ made) =
        (c, s1, (calls @ made) @ [(CallTotal, ok)])" and "\<forall>n h ps. c = Inl (ErrUnfundable n h ps) \<longrightarrow> h < n"
      using funds_check[of deps "sv_waitingNeededSats vars" "sv_unfunded vars" s "calls @ made"] by blast
    then show ?thesis using False that[of c s1 "[(CallTotal, ok)]"] by (cases served) (auto simp: checked_def)
  qed
  have made: "children_remembered (made @ extra)" "provided_in (made @ extra) = provided_in made"
    using assms(1) children_remembered_append[OF assms(1)] extra by (auto simp: provided_in_def)
  have ext: "children_remembered (made @ extra @ [(CallProgress, ok)])" for ok
    using children_remembered_append[OF made(1), of "[(CallProgress, ok)]"] by simp
  show ?thesis
  proof (cases c)
    case (Inl e)
    have "r = Inl e" and "calls' = calls @ made @ extra @ (if provided_in made > 0 then [(CallProgress, succeeded (fst (pd_progress deps s1)))] else [])"
      using tail unfolding finish_progress_def prod.case checked_def[symmetric] c Inl by (auto simp: logged_apply assms(2) split: if_splits)
    then show ?thesis using made ext err[of] Inl
      by (intro exI[of _ "made @ extra @ (if provided_in made > 0 then [(CallProgress, succeeded (fst (pd_progress deps s1)))] else [])"])
        (auto simp: progress_spec_def split: barkRunError.splits)
  next
    case (Inr u)
    have len: "length requests = provided_in made + length (sv_unfunded vars)" using succ assms(3) by (simp add: Inr)
    show ?thesis
    proof (cases "provided_in made > 0")
      case True
      have "calls' = calls @ made @ extra @ [(CallProgress, succeeded (fst (pd_progress deps s1)))]"
        and "r = (case fst (pd_progress deps s1) of Inl message \<Rightarrow> Inl (ErrText message) | Inr _ \<Rightarrow>
          Inr \<lparr>po_requestedChildren = length requests, po_providedChildren = sv_provided vars, po_unfundedParentTxids = sv_unfunded vars\<rparr>)"
        using tail True unfolding finish_progress_def prod.case checked_def[symmetric] c Inr
        by (auto simp: logged_apply assms(2) op_bind_apply worker_call_def split: sum.splits)
      then show ?thesis using made ext True len assms(2)
        by (intro exI[of _ "made @ extra @ [(CallProgress, succeeded (fst (pd_progress deps s1)))]"])
          (auto simp: progress_spec_def split: sum.splits)
    next
      case False
      have "calls' = calls @ made @ extra"
        and "r = Inr \<lparr>po_requestedChildren = length requests, po_providedChildren = sv_provided vars, po_unfundedParentTxids = sv_unfunded vars\<rparr>"
        using tail False unfolding finish_progress_def prod.case checked_def[symmetric] c Inr by (auto simp: assms(2) op_bind_apply)
      then show ?thesis using made False len assms(2)
        by (intro exI[of _ "made @ extra"]) (auto simp: progress_spec_def)
    qed
  qed
qed


definition sample_request :: "string \<Rightarrow> barkCpfpRequest" where
  "sample_request txid = \<lparr>cr_vtxoId = ''v'', cr_parentTxid = txid, cr_parentTxHex = ''00''\<rparr>"

definition sample_progress_deps :: "unit progressDeps" where
  "sample_progress_deps = \<lparr>pd_progress = (\<lambda>s. (Inr [sample_request ''a'', sample_request ''b''], s)),
     pd_signChild = (\<lambda>request rate s.
       (if cr_parentTxid request = ''a'' then Inr ''child'' else Inl ''Transaction error: bark_cpfp_insufficient_funds: no coin'', s)),
     pd_provideChild = (\<lambda>_ _ s. (Inr (), s)), pd_rememberUnconfirmedChild = (\<lambda>_ s. (Inr (), s)),
     pd_onchainTotalSats = (\<lambda>s. (Inr 1000, s))\<rparr>"


subsection \<open>Claims\<close>

lemma claim_deps_simps [simp]:
  "cd_pendingVtxoIds (barkEmergencyExitClaimDeps backend) = op_bind (on_backend (bk_readPending backend)) (\<lambda>_ (w, pending).
     (Inr (case pending of Some claim \<Rightarrow> pc_vtxoIds claim | None \<Rightarrow> []), (w, pending)))"
  "cd_drain (barkEmergencyExitClaimDeps backend) address rate exclude = on_backend (bk_drain backend address rate exclude)"
  "cd_broadcast (barkEmergencyExitClaimDeps backend) hex = on_backend (bk_broadcast backend hex)"
  "cd_rememberPendingClaim (barkEmergencyExitClaimDeps backend) claim = write_pending backend (Some claim)"
  "cd_broadcastOnBarkChain (barkEmergencyExitClaimDeps backend) hex = on_backend (bk_broadcastOnBarkChain backend hex)"
  "cd_syncExits (barkEmergencyExitClaimDeps backend) = on_backend (bk_syncExits backend)"
  "cd_clearPendingClaim (barkEmergencyExitClaimDeps backend) = write_pending backend None"
  "cd_startOnchainBackgroundSync (barkEmergencyExitClaimDeps backend) (w, pending) = (bk_backgroundSync backend w, pending)"
  by (simp_all add: barkEmergencyExitClaimDeps_def)

lemma on_backend_apply: "on_backend m (w, pending) = (fst (m w), snd (m w), pending)"
  by (simp add: on_backend_def split_beta)

lemma write_pending_apply:
  "write_pending backend claim (w, pending) =
     (case bk_writePending backend w of (Inl e, w') \<Rightarrow> (Inl e, w', pending) | (Inr _, w') \<Rightarrow> (Inr (), w', claim))"
  by (simp add: write_pending_def op_bind_apply on_backend_apply split_beta split: sum.splits)

lemma finish_claim_result:
  assumes "finish_claim (barkEmergencyExitClaimDeps backend) txid observed (w, Some claim) = (r, w', pending')"
  shows "case r of
      Inr (sent, seen) \<Rightarrow> sent = txid \<and> seen = observed \<and> pending' = (if observed then None else Some claim)
    | Inl message \<Rightarrow> pending' = Some claim"
  using assms by (cases observed)
    (auto simp: finish_claim_def op_bind_apply write_pending_apply split: sum.splits prod.splits)


text \<open>The parameters of a wallet where Bark observes no claim: the state holds the VTXOs that Bark lists as
  claimable and those that each claim has drained.\<close>

definition blind_backend :: "(string list \<times> string list list) claimBackend" where
  "blind_backend = \<lparr>
     bk_drain = (\<lambda>_ _ exclude (claimable, claims).
       let ids = filter (\<lambda>i. i \<notin> set exclude) claimable
       in (Inr \<lparr>dr_psbtHex = ''p'', dr_rawTxHex = ''t'', dr_vtxoIds = ids\<rparr>, claimable, claims @ [ids])),
     bk_broadcast = (\<lambda>hex w. (Inr ''txid'', w)),
     bk_broadcastOnBarkChain = (\<lambda>hex w. (Inl ''offline'', w)),
     bk_syncExits = (\<lambda>w. (Inl ''offline'', w)),
     bk_readPending = (\<lambda>w. (Inr (), w)), bk_writePending = (\<lambda>w. (Inr (), w)), bk_backgroundSync = id\<rparr>"

lemma blind_claim:
  "claimBarkEmergencyExits (barkEmergencyExitClaimDeps blind_backend) address rate ((claimable, claims), pending) =
     (let ids = filter (\<lambda>i. i \<notin> set (case pending of Some claim \<Rightarrow> pc_vtxoIds claim | None \<Rightarrow> [])) claimable
      in (Inr (''txid'', False), (claimable, claims @ [ids]), Some \<lparr>pc_txid = ''txid'', pc_vtxoIds = ids\<rparr>))"
  by (simp add: claimBarkEmergencyExits_def observe_claim_def finish_claim_def op_bind_apply on_backend_apply write_pending_apply
      blind_backend_def Let_def)



section \<open>Bounds\<close>

text \<open>An automatic step never pays more than the cap, and a pause is kept.\<close>

lemma automated_fee_capped:
  "decideBarkEmergencyExitAutomatedFee paused label presets stored = ProgressAt rate \<Longrightarrow>
   paused = None \<and> rate = presets label \<and> \<not> js_greater rate (effectiveBarkEmergencyExitMaxFeeRate stored (presets HighFee))"
  by (auto simp: decideBarkEmergencyExitAutomatedFee_def resolveAutomatedStepFeeRateSatPerVb_def Let_def split: option.splits if_splits)

end
