(* ===== verification/Bark_Automation.thy ===== *)
theory Bark_Automation
  imports Bark_Progress Lock_Lifecycle
begin

text \<open>
  Automatic proceeding of Bark emergency exits: \<open>lib/bark/bark-emergency-exit-automation.ts\<close>,
  \<open>bark-emergency-exit-after-sync.ts\<close> and \<open>stores/barkEmergencyExitAutomationStore.ts\<close>. One turn of the loop that watches the chain
  tip is a function of the answers to its calls, each with whether the run was aborted while it
  waited; starting, replacing and stopping runs is a function on events, one for each stretch of
  code between two \<open>await\<close>s, because a run that was aborted still finishes the call it waits
  for. The workers, Esplora and the stores of the wallet are parameters.
\<close>

section \<open>The tip\<close>

definition barkEmergencyExitTipPollMs :: "networkMode \<Rightarrow> nat" where
  "barkEmergencyExitTipPollMs net = (if net = Regtest then 2000 else 15000)"

record barkTip =
  bt_height :: int
  bt_hash :: string

record sessionGate =
  sg_proceedAutomatically :: bool
  sg_walletUnlocked :: bool
  sg_sameWallet :: bool
  sg_sameNetwork :: bool
  sg_sessionLoaded :: bool

definition barkEmergencyExitTipChanged :: "barkTip option \<Rightarrow> barkTip \<Rightarrow> bool" where
  "barkEmergencyExitTipChanged previousTip nextTip =
     (case previousTip of
        None \<Rightarrow> True
      | Some previous \<Rightarrow> bt_height previous \<noteq> bt_height nextTip \<or> bt_hash previous \<noteq> bt_hash nextTip)"

definition shouldProgressBarkEmergencyExitOnTip ::
  "sessionGate \<Rightarrow> nat \<Rightarrow> barkTip option \<Rightarrow> barkTip option \<Rightarrow> bool \<Rightarrow> bool" where
  "shouldProgressBarkEmergencyExitOnTip gate exitCount previousTip nextTip justBecameActive =
     (if \<not> sg_proceedAutomatically gate then False
      else if \<not> sg_walletUnlocked gate then False
      else if \<not> sg_sameWallet gate then False
      else if \<not> sg_sameNetwork gate then False
      else if \<not> sg_sessionLoaded gate then False
      else if exitCount < 1 then False
      else if justBecameActive then True
      else case nextTip of None \<Rightarrow> False | Some tip \<Rightarrow> barkEmergencyExitTipChanged previousTip tip)"

definition sessionStillAllowsAutomation :: "sessionGate \<Rightarrow> bool" where
  "sessionStillAllowsAutomation session \<longleftrightarrow>
     sg_proceedAutomatically session \<and> sg_walletUnlocked session \<and> sg_sameWallet session \<and> sg_sameNetwork session \<and>
     sg_sessionLoaded session"

section \<open>Watching the tip\<close>

text \<open>The answers to the calls of one turn: nothing for a call that failed, and whether the signal was
  aborted when the call had settled.\<close>

record pollAnswers =
  pa_gate :: "sessionGate option"
  pa_gateAborted :: bool
  pa_tip :: "barkTip option"
  pa_tipAborted :: bool
  pa_exitCount :: "nat option"
  pa_countAborted :: bool
  pa_listedAborted :: bool
  pa_progressOk :: bool
  pa_progressAborted :: bool
  pa_afterAborted :: bool
  pa_waitAborted :: bool

record watchVars =
  wv_previousTip :: "barkTip option"
  wv_justBecameActive :: bool
  wv_rememberNext :: bool

datatype watchCall = OnProgressStart | OnProgressSuccess | OnProgressIdle | OnProgressError | OnTipReadError
  | OnListed | AfterProgress | DoProgress "barkTip option" bool

definition watch_start :: watchVars where
  "watch_start = \<lparr>wv_previousTip = None, wv_justBecameActive = True, wv_rememberNext = False\<rparr>"

text \<open>After the gate, the tip and the exits are known and the signal is not aborted.\<close>

definition watch_decide :: "pollAnswers \<Rightarrow> sessionGate \<Rightarrow> nat \<Rightarrow> watchVars \<Rightarrow> watchVars \<times> watchCall list \<times> bool" where
  "watch_decide a session exitCount v =
     (if wv_rememberNext v \<and> pa_tip a \<noteq> None
      then (v\<lparr>wv_previousTip := pa_tip a, wv_rememberNext := False\<rparr>, [], \<not> pa_waitAborted a)
      else if shouldProgressBarkEmergencyExitOnTip session exitCount (wv_previousTip v) (pa_tip a) (wv_justBecameActive v)
      then let calls = (if wv_justBecameActive v then [] else [OnProgressStart]) @ [DoProgress (pa_tip a) (pa_progressOk a)]
           in if pa_progressOk a
              then (v\<lparr>wv_justBecameActive := False,
                      wv_previousTip := (if pa_tip a \<noteq> None then pa_tip a else wv_previousTip v),
                      wv_rememberNext := (if pa_tip a \<noteq> None then wv_rememberNext v else True)\<rparr>,
                    calls @ [OnProgressSuccess, AfterProgress], \<not> pa_afterAborted a \<and> \<not> pa_waitAborted a)
              else if pa_progressAborted a then (v, calls, False)
              else (v, calls @ [OnProgressError], \<not> pa_waitAborted a)
      else (v, if wv_justBecameActive v then [OnProgressIdle] else [], \<not> pa_waitAborted a))"

text \<open>One turn of \<open>watchBarkEmergencyExitTips\<close>: the variables after it, its calls, and whether the loop
  goes on.\<close>

definition watch_poll :: "pollAnswers \<Rightarrow> watchVars \<Rightarrow> watchVars \<times> watchCall list \<times> bool" where
  "watch_poll a v =
     (let starts = (if wv_justBecameActive v then [OnProgressStart] else [])
      in case pa_gate a of
           None \<Rightarrow> (v, starts, \<not> pa_gateAborted a \<and> \<not> pa_waitAborted a)
         | Some session \<Rightarrow>
             if pa_gateAborted a then (v, starts, False)
             else if \<not> sessionStillAllowsAutomation session then (v, starts @ [OnProgressIdle], False)
             else if pa_tipAborted a then (v, starts, False)
             else let tipCalls = starts @ (if pa_tip a = None then [OnTipReadError] else [])
                  in case pa_exitCount a of
                       None \<Rightarrow>
                         if pa_countAborted a then (v, tipCalls, False)
                         else (v, tipCalls @ (if wv_justBecameActive v then [OnProgressIdle] else []), \<not> pa_waitAborted a)
                     | Some exitCount \<Rightarrow>
                         if pa_countAborted a then (v, tipCalls, False)
                         else if pa_listedAborted a then (v, tipCalls @ [OnListed], False)
                         else (case watch_decide a session exitCount v of (v', calls, goes) \<Rightarrow>
                                 (v', tipCalls @ OnListed # calls, goes)))"

text \<open>The calls of the turns, up to the one that ends the loop.\<close>

fun watchBarkEmergencyExitTips :: "pollAnswers list \<Rightarrow> watchVars \<Rightarrow> watchCall list list" where
  "watchBarkEmergencyExitTips [] v = []"
| "watchBarkEmergencyExitTips (a # as) v =
     (case watch_poll a v of (v', calls, goes) \<Rightarrow> calls # (if goes then watchBarkEmergencyExitTips as v' else []))"

section \<open>The shown activity\<close>

record automationActivity =
  aa_inFlight :: bool
  aa_errorMessage :: "string option"
  aa_pausedReason :: "pauseReason option"

definition IDLE_BARK_EMERGENCY_EXIT_AUTOMATION_ACTIVITY :: automationActivity where
  "IDLE_BARK_EMERGENCY_EXIT_AUTOMATION_ACTIVITY = \<lparr>aa_inFlight = False, aa_errorMessage = None, aa_pausedReason = None\<rparr>"

definition pauseBarkEmergencyExitAutomation :: "pauseReason \<Rightarrow> automationActivity \<Rightarrow> automationActivity" where
  "pauseBarkEmergencyExitAutomation reason activity = \<lparr>aa_inFlight = False, aa_errorMessage = None, aa_pausedReason = Some reason\<rparr>"

definition clearBarkEmergencyExitAutomationPause :: "automationActivity \<Rightarrow> automationActivity" where
  "clearBarkEmergencyExitAutomationPause activity =
     (if aa_pausedReason activity = None then activity else activity\<lparr>aa_pausedReason := None\<rparr>)"

text \<open>The activity and the toasts that were opened.\<close>

definition publishAutomationActivity :: "automationActivity \<Rightarrow> automationActivity \<times> string list \<Rightarrow> automationActivity \<times> string list" where
  "publishAutomationActivity upcoming = (\<lambda>(previous, toasts).
     if aa_inFlight previous = aa_inFlight upcoming \<and> aa_errorMessage previous = aa_errorMessage upcoming \<and>
        aa_pausedReason previous = aa_pausedReason upcoming
     then (previous, toasts)
     else (upcoming,
       case aa_errorMessage upcoming of
         Some message \<Rightarrow> if aa_errorMessage previous \<noteq> Some message then toasts @ [message] else toasts
       | None \<Rightarrow> toasts))"

text \<open>\<open>shown\<close> is the sanitised text of an error, which may be empty.\<close>

definition automationActivityError :: "string \<Rightarrow> string \<Rightarrow> string" where
  "automationActivityError shown fallback = (let message = js_trim shown in if length message > 0 then message else fallback)"

section \<open>One automatic step\<close>

record 's automationDeps =
  ad_readFeePrefs :: "('s, sendFeePresetLabel \<times> js_number option) op"
  ad_presetRates :: "('s, sendFeePresetLabel \<Rightarrow> js_number) op"
  ad_catchUp :: "'s catchUpDeps"
  ad_progress :: "'s progressDeps"

definition progressBarkEmergencyExitAutomatically ::
  "('s, 'z) automationDeps_scheme \<Rightarrow> barkExitScope option \<Rightarrow> int option \<Rightarrow>
   ('s \<times> fundingStore \<times> automationActivity, barkRunError, unit) fallible" where
  "progressBarkEmergencyExitAutomatically deps scope observedTipHeight = (\<lambda>(s, funding, activity).
     if aa_pausedReason activity \<noteq> None then (Inr (), s, funding, activity)
     else case op_bind (worker_call (ad_readFeePrefs deps)) (\<lambda>prefs.
                 op_bind (worker_call (ad_presetRates deps)) (\<lambda>presets. op_return (prefs, presets))) s of
        (Inl err, s) \<Rightarrow> (Inl err, s, funding, activity)
      | (Inr ((label, storedMax), presets), s) \<Rightarrow>
          (case decideBarkEmergencyExitAutomatedFee None label presets storedMax of
             PausedFor reason \<Rightarrow> (Inr (), s, funding, pauseBarkEmergencyExitAutomation reason activity)
           | ProgressAt rate \<Rightarrow>
               (case runBarkEmergencyExitProgress (ad_progress deps) scope rate
                       (catchUpOnchainWalletToChainTip (ad_catchUp deps) observedTipHeight s, funding) of
                  (Inr _, s, funding) \<Rightarrow> (Inr (), s, funding, activity)
                | (Inl err, s, funding) \<Rightarrow>
                    if isBarkCpfpUnfundableError err
                    then (Inr (), s, funding, pauseBarkEmergencyExitAutomation FundsInsufficient activity)
                    else (Inl err, s, funding, activity))))"

section \<open>After a sync\<close>

record 's settleDeps = "'s automationDeps" +
  sd_readPendingClaim :: "('s, pendingClaim option) op"
  sd_listEmergencyExits :: "('s, barkExitRow list) op"
  sd_esploraUrl :: "('s, string) op"
  sd_visibility :: "string \<Rightarrow> string \<Rightarrow> ('s, claimVisibility) op"
  sd_clearPendingClaim :: "('s, unit) op"
  sd_readProceedAutomatically :: "('s, bool) op"
  sd_activeWalletId :: "'s \<Rightarrow> int option"

definition reconcilePendingEmergencyClaim :: "'s settleDeps \<Rightarrow> ('s, unit) op" where
  "reconcilePendingEmergencyClaim deps =
     op_bind (sd_readPendingClaim deps) (\<lambda>pending.
       case pending of
         None \<Rightarrow> op_return ()
       | Some claim \<Rightarrow>
           op_bind (sd_listEmergencyExits deps) (\<lambda>rows.
           op_bind (sd_esploraUrl deps) (\<lambda>url.
           op_bind (if length url = 0 then op_return VisUnknown else sd_visibility deps url (pc_txid claim)) (\<lambda>visibility.
             if pendingClaimDecision (pc_vtxoIds claim) rows visibility = ClearClaim then sd_clearPendingClaim deps
             else op_return ()))))"

definition settleBarkEmergencyExitAfterSync ::
  "'s settleDeps \<Rightarrow> networkMode \<Rightarrow> ('s \<times> fundingStore \<times> automationActivity, barkRunError, unit) fallible" where
  "settleBarkEmergencyExitAfterSync deps net = (\<lambda>(s, funding, activity).
     case op_bind (worker_call (reconcilePendingEmergencyClaim deps)) (\<lambda>_. worker_call (sd_listEmergencyExits deps)) s of
       (Inl err, s) \<Rightarrow> (Inl err, s, funding, activity)
     | (Inr rows, s) \<Rightarrow>
         if length rows = 0 then (Inr (), s, clearUnfundedParents (clearFundingStatus funding), activity)
         else let scope = barkEmergencyExitScopeFor (sd_activeWalletId deps s) net
              in case worker_call (sd_readProceedAutomatically deps) s of
                   (Inl err, s) \<Rightarrow> (Inl err, s, funding, activity)
                 | (Inr True, s) \<Rightarrow> progressBarkEmergencyExitAutomatically deps scope None (s, funding, activity)
                 | (Inr False, s) \<Rightarrow>
                     (case worker_call (ad_presetRates deps) s of
                        (Inl err, s) \<Rightarrow> (Inl err, s, funding, activity)
                      | (Inr presets, s) \<Rightarrow>
                          (case runBarkEmergencyExitProgress (ad_progress deps) scope (presets HighFee) (s, funding) of
                             (Inl err, s, funding) \<Rightarrow> (Inl err, s, funding, activity)
                           | (Inr _, s, funding) \<Rightarrow> (Inr (), s, funding, activity))))"

section \<open>Runs of the loop\<close>

text \<open>What the live session is read from: the wallet store and the load lifecycle of Bark.\<close>

record liveSession =
  ls_walletUnlocked :: bool
  ls_activeWalletId :: "int option"
  ls_committedNetwork :: networkMode
  ls_loaded :: bool
  ls_loadNetwork :: "networkMode option"

text \<open>\<open>active net\<close> tells whether Bark is enabled and runs on the network.\<close>

definition readLiveSessionGate :: "(networkMode \<Rightarrow> bool) \<Rightarrow> barkExitScope \<Rightarrow> liveSession \<Rightarrow> sessionGate" where
  "readLiveSessionGate active scope live = \<lparr>sg_proceedAutomatically = False,
     sg_walletUnlocked = ls_walletUnlocked live,
     sg_sameWallet = (ls_activeWalletId live = Some (sc_walletId scope)),
     sg_sameNetwork = (ls_committedNetwork live = sc_networkMode scope \<and> ls_loadNetwork live = Some (sc_networkMode scope)),
     sg_sessionLoaded = (ls_loaded live \<and> ls_loadNetwork live = Some (sc_networkMode scope) \<and> active (sc_networkMode scope))\<rparr>"

definition readPersistedSessionGate :: "(networkMode \<Rightarrow> bool) \<Rightarrow> barkExitScope \<Rightarrow> liveSession \<Rightarrow> bool \<Rightarrow> sessionGate" where
  "readPersistedSessionGate active scope live proceedAutomatically =
     (readLiveSessionGate active scope live)\<lparr>sg_proceedAutomatically := proceedAutomatically\<rparr>"

definition liveSessionStillMatches :: "(networkMode \<Rightarrow> bool) \<Rightarrow> barkExitScope \<Rightarrow> liveSession \<Rightarrow> bool" where
  "liveSessionStillMatches active scope live \<longleftrightarrow>
     (let session = readLiveSessionGate active scope live
      in sg_walletUnlocked session \<and> sg_sameWallet session \<and> sg_sameNetwork session \<and> sg_sessionLoaded session)"

datatype runStage = RunReading | RunWatching | RunEnded

record automationRun =
  ar_scope :: barkExitScope
  ar_stage :: runStage
  ar_aborted :: bool

text \<open>A run is known by its token. \<open>aw_active\<close> is the run of \<open>activeAutomationRun\<close>, the only one that is
  subscribed to the stores.\<close>

record automationWorld =
  aw_generation :: nat
  aw_active :: "nat option"
  aw_runs :: "nat \<rightharpoonup> automationRun"
  aw_shown :: "automationActivity \<times> string list"
  aw_live :: liveSession

definition publish :: "automationActivity \<Rightarrow> automationWorld \<Rightarrow> automationWorld" where
  "publish activity w = w\<lparr>aw_shown := publishAutomationActivity activity (aw_shown w)\<rparr>"

definition update_run :: "nat \<Rightarrow> (automationRun \<Rightarrow> automationRun) \<Rightarrow> automationWorld \<Rightarrow> automationWorld" where
  "update_run t f w = w\<lparr>aw_runs := (aw_runs w)(t := map_option f (aw_runs w t))\<rparr>"

text \<open>A new generation, with the active run aborted and forgotten.\<close>

definition drop_active :: "automationWorld \<Rightarrow> automationWorld" where
  "drop_active w =
     (let w' = w\<lparr>aw_generation := aw_generation w + 1, aw_active := None\<rparr>
      in case aw_active w of Some t \<Rightarrow> update_run t (\<lambda>r. r\<lparr>ar_aborted := True\<rparr>) w' | None \<Rightarrow> w')"

definition stopBarkEmergencyExitAutomation :: "automationWorld \<Rightarrow> automationWorld" where
  "stopBarkEmergencyExitAutomation w = publish IDLE_BARK_EMERGENCY_EXIT_AUTOMATION_ACTIVITY (drop_active w)"

text \<open>\<open>syncBarkEmergencyExitAutomation\<close> up to the read of the setting, and after it.\<close>

definition sync_called :: "(networkMode \<Rightarrow> bool) \<Rightarrow> barkExitScope \<Rightarrow> automationWorld \<Rightarrow> automationWorld" where
  "sync_called active scope w =
     (let w = drop_active w
      in if liveSessionStillMatches active scope (aw_live w)
         then w\<lparr>aw_runs := (aw_runs w)(aw_generation w \<mapsto> \<lparr>ar_scope = scope, ar_stage = RunReading, ar_aborted = False\<rparr>)\<rparr>
         else w)"

definition end_run :: "nat \<Rightarrow> automationWorld \<Rightarrow> automationWorld" where
  "end_run t = update_run t (\<lambda>r. r\<lparr>ar_stage := RunEnded\<rparr>)"

definition proceed_read :: "(networkMode \<Rightarrow> bool) \<Rightarrow> nat \<Rightarrow> automationRun \<Rightarrow> string + bool \<Rightarrow> automationWorld \<Rightarrow> automationWorld" where
  "proceed_read active t run answer w =
     (case answer of
        Inl shown \<Rightarrow>
          if t \<noteq> aw_generation w then end_run t w
          else end_run t (publish \<lparr>aa_inFlight = False,
            aa_errorMessage = Some (automationActivityError shown ''Could not read automatic proceeding''), aa_pausedReason = None\<rparr> w)
      | Inr proceedAutomatically \<Rightarrow>
          if t \<noteq> aw_generation w \<or> \<not> proceedAutomatically then end_run t w
          else if \<not> sg_sessionLoaded (readLiveSessionGate active (ar_scope run) (aw_live w)) then end_run t w
          else (update_run t (\<lambda>r. r\<lparr>ar_stage := RunWatching\<rparr>) w)\<lparr>aw_active := Some t\<rparr>)"

text \<open>The callbacks that a loop reports with.\<close>

datatype runReport = ReportStart | ReportSuccess | ReportIdle | ReportError string | ReportTipError string

definition run_report :: "runReport \<Rightarrow> automationWorld \<Rightarrow> automationWorld" where
  "run_report report w =
     (let current = fst (aw_shown w)
      in case report of
           ReportStart \<Rightarrow> publish (current\<lparr>aa_inFlight := True\<rparr>) w
         | ReportSuccess \<Rightarrow> publish (current\<lparr>aa_inFlight := False, aa_errorMessage := None\<rparr>) w
         | ReportIdle \<Rightarrow> publish (current\<lparr>aa_inFlight := False\<rparr>) w
         | ReportError shown \<Rightarrow>
             publish (current\<lparr>aa_inFlight := False,
               aa_errorMessage := Some (automationActivityError shown ''Emergency exit failed to progress'')\<rparr>) w
         | ReportTipError shown \<Rightarrow>
             if aa_inFlight current then w
             else publish (current\<lparr>aa_inFlight := False,
               aa_errorMessage := Some (automationActivityError shown ''Could not read the chain tip'')\<rparr>) w)"

text \<open>A loop that was aborted reports nothing more, except that the step it waited for succeeded; and
  that step can still pause the automation.\<close>

datatype automationEvent =
    SyncCalled barkExitScope
  | ProceedRead nat "string + bool"
  | StopCalled
  | LiveChanged liveSession
  | RunReports nat runReport
  | StepPauses nat pauseReason
  | WatchReturns nat
  | PauseCleared

definition pause_shown :: "(automationActivity \<Rightarrow> automationActivity) \<Rightarrow> automationWorld \<Rightarrow> automationWorld" where
  "pause_shown f w = w\<lparr>aw_shown := (f (fst (aw_shown w)), snd (aw_shown w))\<rparr>"

fun automation_step :: "(networkMode \<Rightarrow> bool) \<Rightarrow> automationEvent \<Rightarrow> automationWorld \<Rightarrow> automationWorld" where
  "automation_step active (SyncCalled scope) w = sync_called active scope w"
| "automation_step active (ProceedRead t answer) w =
     (case aw_runs w t of
        Some run \<Rightarrow> if ar_stage run = RunReading then proceed_read active t run answer w else w
      | None \<Rightarrow> w)"
| "automation_step active StopCalled w = stopBarkEmergencyExitAutomation w"
| "automation_step active (LiveChanged live) w =
     (let w' = w\<lparr>aw_live := live\<rparr>
      in case aw_active w of
           Some t \<Rightarrow> (case aw_runs w t of
                        Some run \<Rightarrow> if liveSessionStillMatches active (ar_scope run) live then w' else stopBarkEmergencyExitAutomation w'
                      | None \<Rightarrow> w')
         | None \<Rightarrow> w')"
| "automation_step active (RunReports t report) w =
     (case aw_runs w t of
        Some run \<Rightarrow> if ar_stage run = RunWatching \<and> (\<not> ar_aborted run \<or> report = ReportSuccess) then run_report report w else w
      | None \<Rightarrow> w)"
| "automation_step active (StepPauses t reason) w =
     (case aw_runs w t of
        Some run \<Rightarrow> if ar_stage run = RunWatching then pause_shown (pauseBarkEmergencyExitAutomation reason) w else w
      | None \<Rightarrow> w)"
| "automation_step active (WatchReturns t) w =
     (case aw_runs w t of
        Some run \<Rightarrow>
          if ar_stage run = RunWatching
          then end_run t (if aw_active w = Some t then w\<lparr>aw_active := None\<rparr> else w)
          else w
      | None \<Rightarrow> w)"
| "automation_step active PauseCleared w = pause_shown clearBarkEmergencyExitAutomationPause w"

definition automation_start :: "liveSession \<Rightarrow> automationWorld" where
  "automation_start live = \<lparr>aw_generation = 0, aw_active = None, aw_runs = Map.empty,
     aw_shown = (IDLE_BARK_EMERGENCY_EXIT_AUTOMATION_ACTIVITY, []), aw_live = live\<rparr>"

section \<open>One run at a time\<close>

definition runs_live :: "automationWorld \<Rightarrow> nat \<Rightarrow> bool" where
  "runs_live w t \<longleftrightarrow> (case aw_runs w t of Some run \<Rightarrow> ar_stage run = RunWatching \<and> \<not> ar_aborted run | None \<Rightarrow> False)"

definition automation_inv :: "automationWorld \<Rightarrow> bool" where
  "automation_inv w \<longleftrightarrow>
     (\<forall>t. aw_runs w t \<noteq> None \<longrightarrow> t \<le> aw_generation w) \<and>
     (\<forall>t. runs_live w t \<longleftrightarrow> aw_active w = Some t) \<and>
     (\<forall>t. aw_active w = Some t \<longrightarrow> t = aw_generation w) \<and>
     (\<forall>t run. aw_runs w t = Some run \<and> ar_stage run = RunReading \<longrightarrow> \<not> ar_aborted run)"

lemma publish_runs [simp]:
  "aw_generation (publish a w) = aw_generation w" "aw_active (publish a w) = aw_active w" "aw_runs (publish a w) = aw_runs w"
  "aw_live (publish a w) = aw_live w"
  by (simp_all add: publish_def)

lemma run_report_runs [simp]:
  "aw_generation (run_report r w) = aw_generation w" "aw_active (run_report r w) = aw_active w" "aw_runs (run_report r w) = aw_runs w"
  by (simp_all add: run_report_def Let_def split: runReport.splits)

lemma automation_inv_shown: "aw_generation w' = aw_generation w \<Longrightarrow> aw_active w' = aw_active w \<Longrightarrow> aw_runs w' = aw_runs w \<Longrightarrow>
  automation_inv w' = automation_inv w"
  by (simp add: automation_inv_def runs_live_def)

lemma drop_active_inv:
  assumes "automation_inv w"
  shows "automation_inv (drop_active w)" and "aw_runs (drop_active w) (aw_generation (drop_active w)) = None"
    and "aw_active (drop_active w) = None" and "aw_live (drop_active w) = aw_live w"
proof -
  have g: "aw_generation (drop_active w) = aw_generation w + 1"
    by (simp add: drop_active_def update_run_def Let_def split: option.splits)
  have fresh: "aw_runs w (aw_generation w + 1) = None"
    using assms by (metis automation_inv_def not_less_eq_eq Suc_eq_plus1 le_refl)
  show "aw_runs (drop_active w) (aw_generation (drop_active w)) = None"
    using fresh assms unfolding g by (auto simp: drop_active_def update_run_def Let_def automation_inv_def split: option.splits)
  show "aw_active (drop_active w) = None" "aw_live (drop_active w) = aw_live w"
    by (simp_all add: drop_active_def update_run_def Let_def split: option.splits)
  show "automation_inv (drop_active w)"
  proof (cases "aw_active w")
    case None
    then show ?thesis using assms by (auto simp: drop_active_def automation_inv_def runs_live_def)
  next
    case (Some t)
    then have "runs_live w t" using assms by (simp add: automation_inv_def)
    then obtain run where run: "aw_runs w t = Some run" "ar_stage run = RunWatching" by (auto simp: runs_live_def split: option.splits)
    have others: "\<not> runs_live w u" if "u \<noteq> t" for u using assms Some that by (auto simp: automation_inv_def)
    show ?thesis unfolding automation_inv_def
    proof (intro conjI allI impI)
      fix u
      show "runs_live (drop_active w) u \<longleftrightarrow> aw_active (drop_active w) = Some u"
        using others[of u] by (cases "u = t") (auto simp: drop_active_def update_run_def runs_live_def Some run)
    qed (use assms Some run in \<open>auto simp: automation_inv_def drop_active_def update_run_def split: if_splits\<close>)
  qed
qed

lemma end_run_inv:
  assumes "automation_inv w" and "aw_active w \<noteq> Some t"
  shows "automation_inv (end_run t w)"
  unfolding automation_inv_def
proof (intro conjI allI impI)
  fix u
  show "runs_live (end_run t w) u \<longleftrightarrow> aw_active (end_run t w) = Some u"
    using assms by (cases "u = t") (auto simp: end_run_def update_run_def runs_live_def automation_inv_def split: option.splits)
qed (use assms in \<open>auto simp: automation_inv_def end_run_def update_run_def split: if_splits\<close>)

lemma sync_called_inv:
  assumes "automation_inv w"
  shows "automation_inv (sync_called active scope w)"
proof -
  let ?w = "drop_active w"
  note d = drop_active_inv[OF assms]
  let ?w' = "?w\<lparr>aw_runs := (aw_runs ?w)(aw_generation ?w \<mapsto> \<lparr>ar_scope = scope, ar_stage = RunReading, ar_aborted = False\<rparr>)\<rparr>"
  have "automation_inv ?w'"
    unfolding automation_inv_def
  proof (intro conjI allI impI)
    fix u
    show "runs_live ?w' u \<longleftrightarrow> aw_active ?w' = Some u"
      using d(1,3) by (cases "u = aw_generation ?w") (auto simp: runs_live_def automation_inv_def)
  qed (use d(1,3) in \<open>auto simp: automation_inv_def split: if_splits\<close>)
  then show ?thesis using d(1) by (simp add: sync_called_def Let_def)
qed

lemma reading_not_active:
  assumes "automation_inv w" and "aw_runs w t = Some run" and "ar_stage run = RunReading"
  shows "aw_active w \<noteq> Some t"
proof
  assume "aw_active w = Some t"
  then have "runs_live w t" using assms(1) by (simp add: automation_inv_def)
  then show False using assms(2,3) by (simp add: runs_live_def)
qed

lemma proceed_read_inv:
  assumes "automation_inv w" and run: "aw_runs w t = Some run" "ar_stage run = RunReading"
  shows "automation_inv (proceed_read active t run answer w)"
proof -
  note idle = reading_not_active[OF assms]
  have published: "automation_inv (end_run t (publish a w))" for a
    using end_run_inv[of "publish a w" t] automation_inv_shown[of "publish a w" w] assms(1) idle by simp
  let ?w = "(update_run t (\<lambda>r. r\<lparr>ar_stage := RunWatching\<rparr>) w)\<lparr>aw_active := Some t\<rparr>"
  have "automation_inv ?w" if "t = aw_generation w"
    unfolding automation_inv_def
  proof (intro conjI allI impI)
    fix u
    have "aw_active w = None" using assms(1) idle that by (cases "aw_active w") (auto simp: automation_inv_def)
    then show "runs_live ?w u \<longleftrightarrow> aw_active ?w = Some u"
      using assms by (cases "u = t") (auto simp: runs_live_def update_run_def automation_inv_def)
  qed (use assms that in \<open>auto simp: automation_inv_def update_run_def split: if_splits\<close>)
  then show ?thesis
    using end_run_inv[OF assms(1) idle] published by (auto simp: proceed_read_def split: sum.splits)
qed

interpretation automation: event_invariant "automation_step active" "\<lambda>_. True" automation_inv for active
proof
  fix w e
  assume inv: "automation_inv w"
  have stop: "automation_inv (stopBarkEmergencyExitAutomation v)" if "automation_inv v" for v
    using drop_active_inv(1)[OF that] automation_inv_shown[of "publish _ (drop_active v)" "drop_active v"]
    by (simp add: stopBarkEmergencyExitAutomation_def)
  have live: "automation_inv (w\<lparr>aw_live := l\<rparr>)" for l using inv automation_inv_shown[of "w\<lparr>aw_live := l\<rparr>" w] by simp
  have report: "automation_inv (run_report r w)" for r using inv automation_inv_shown[of "run_report r w" w] by simp
  have pause: "automation_inv (pause_shown f w)" for f using inv automation_inv_shown[of "pause_shown f w" w] by (simp add: pause_shown_def)
  show "automation_inv (automation_step active e w)"
  proof (cases e)
    case (WatchReturns t)
    have cleared: "automation_inv (end_run t (w\<lparr>aw_active := None\<rparr>))" if act: "aw_active w = Some t"
      unfolding automation_inv_def
    proof (intro conjI allI impI)
      fix u
      show "runs_live (end_run t (w\<lparr>aw_active := None\<rparr>)) u \<longleftrightarrow> aw_active (end_run t (w\<lparr>aw_active := None\<rparr>)) = Some u"
        using inv act by (cases "u = t") (auto simp: runs_live_def end_run_def update_run_def automation_inv_def split: option.splits)
    qed (use inv act in \<open>auto simp: automation_inv_def end_run_def update_run_def split: if_splits\<close>)
    show ?thesis using inv cleared end_run_inv[OF inv, of t] by (auto simp: WatchReturns split: option.splits)
  qed (use inv stop live report pause sync_called_inv proceed_read_inv in \<open>auto simp: Let_def split: option.splits\<close>)
qed

section \<open>Steps and blocks\<close>

text \<open>The steps that a loop has run: the tip it was run for, and whether it succeeded.\<close>

fun step_of :: "watchCall \<Rightarrow> (barkTip option \<times> bool) option" where
  "step_of (DoProgress tip ok) = Some (tip, ok)"
| "step_of _ = None"

definition steps_of :: "watchCall list \<Rightarrow> (barkTip option \<times> bool) list" where
  "steps_of calls = List.map_filter step_of calls"

text \<open>After a step that succeeded, the next one is for a known tip that differs from its own.\<close>

fun spaced :: "barkTip option option \<Rightarrow> (barkTip option \<times> bool) list \<Rightarrow> bool" where
  "spaced last_ok [] = True"
| "spaced last_ok ((tip, ok) # steps) =
     ((case last_ok of Some tip' \<Rightarrow> tip \<noteq> None \<and> tip \<noteq> tip' | None \<Rightarrow> True) \<and>
      spaced (if ok then Some tip else last_ok) steps)"

lemma steps_of_simps [simp]:
  "steps_of [] = []" "steps_of (a @ b) = steps_of a @ steps_of b" "steps_of (DoProgress tip ok # calls) = (tip, ok) # steps_of calls"
  "step_of c = None \<Longrightarrow> steps_of (c # calls) = steps_of calls"
  by (simp_all add: steps_of_def List.map_filter_simps map_filter_def)

text \<open>What the variables of the loop remember of the last step that succeeded.\<close>

definition watch_inv :: "barkTip option option \<Rightarrow> watchVars \<Rightarrow> bool" where
  "watch_inv last_ok v = (case last_ok of
       None \<Rightarrow> \<not> wv_rememberNext v
     | Some None \<Rightarrow> \<not> wv_justBecameActive v
     | Some (Some tip) \<Rightarrow> \<not> wv_justBecameActive v \<and> wv_previousTip v = Some tip \<and> \<not> wv_rememberNext v)"

definition watch_after :: "barkTip option option \<Rightarrow> (barkTip option \<times> bool) list \<Rightarrow> barkTip option option" where
  "watch_after last_ok steps = fold (\<lambda>(tip, ok) l. if ok then Some tip else l) steps last_ok"

lemma tip_unchanged: "\<not> barkEmergencyExitTipChanged (Some tip) tip"
  by (simp add: barkEmergencyExitTipChanged_def)

lemma watch_decide_spaced:
  assumes "watch_inv last_ok v" and "watch_decide a session n v = (v', calls, goes)"
  shows "spaced last_ok (steps_of calls) \<and> watch_inv (watch_after last_ok (steps_of calls)) v' \<and>
    (steps_of calls \<noteq> [] \<longrightarrow> sessionStillAllowsAutomation session \<and> n \<ge> 1)"
proof -
  consider (remember) "wv_rememberNext v \<and> pa_tip a \<noteq> None"
    | (idle) "\<not> (wv_rememberNext v \<and> pa_tip a \<noteq> None)"
        "\<not> shouldProgressBarkEmergencyExitOnTip session n (wv_previousTip v) (pa_tip a) (wv_justBecameActive v)"
    | (step) "\<not> (wv_rememberNext v \<and> pa_tip a \<noteq> None)"
        "shouldProgressBarkEmergencyExitOnTip session n (wv_previousTip v) (pa_tip a) (wv_justBecameActive v)"
    by blast
  then show ?thesis
  proof cases
    case remember
    then show ?thesis using assms by (auto simp: watch_decide_def watch_after_def watch_inv_def split: option.splits)
  next
    case idle
    then show ?thesis using assms by (auto simp: watch_decide_def watch_after_def split: if_splits)
  next
    case step
    have steps: "steps_of calls = [(pa_tip a, pa_progressOk a)]"
      using assms(2) step by (auto simp: watch_decide_def Let_def split: if_splits)
    have gate: "sessionStillAllowsAutomation session" "n \<ge> 1"
      using step(2) by (auto simp: shouldProgressBarkEmergencyExitOnTip_def sessionStillAllowsAutomation_def split: if_splits)
    have sp: "spaced last_ok (steps_of calls)"
    proof (cases last_ok)
      case (Some l)
      then have "\<not> wv_justBecameActive v" using assms(1) by (auto simp: watch_inv_def split: option.splits)
      then obtain tip where tip: "pa_tip a = Some tip" and changed: "barkEmergencyExitTipChanged (wv_previousTip v) tip"
        using step(2) by (auto simp: shouldProgressBarkEmergencyExitOnTip_def split: if_splits option.splits)
      have "l \<noteq> Some tip" using assms(1) changed tip_unchanged by (auto simp: Some watch_inv_def split: option.splits)
      then show ?thesis using tip by (auto simp: steps Some)
    qed (simp add: steps)
    have v': "v' = (if pa_progressOk a then v\<lparr>wv_justBecameActive := False,
        wv_previousTip := (if pa_tip a \<noteq> None then pa_tip a else wv_previousTip v),
        wv_rememberNext := (if pa_tip a \<noteq> None then wv_rememberNext v else True)\<rparr> else v)"
      using assms(2) step by (auto simp: watch_decide_def Let_def split: if_splits)
    have "watch_inv (watch_after last_ok (steps_of calls)) v'"
      using assms(1) step(1) unfolding v' steps
      by (auto simp: watch_after_def watch_inv_def split: option.splits)
    with sp gate show ?thesis by blast
  qed
qed

lemma watch_poll_cases:
  assumes "watch_poll a v = (v', calls, goes)"
  obtains (quiet) "steps_of calls = []" "v' = v"
    | (decided) session n c where "pa_gate a = Some session" "pa_exitCount a = Some n" "watch_decide a session n v = (v', c, goes)"
        "steps_of calls = steps_of c"
proof (cases "pa_gate a")
  case None
  then show thesis using assms by (intro quiet) (auto simp: watch_poll_def split: if_splits)
next
  case (Some session)
  show thesis
  proof (cases "pa_gateAborted a \<or> \<not> sessionStillAllowsAutomation session \<or> pa_tipAborted a")
    case True
    then show thesis using assms Some by (intro quiet) (auto simp: watch_poll_def Let_def split: if_splits)
  next
    case go: False
    show thesis
    proof (cases "pa_exitCount a")
      case None
      then show thesis using assms Some go by (intro quiet) (auto simp: watch_poll_def Let_def split: if_splits)
    next
      case n: (Some n)
      show thesis
      proof (cases "pa_countAborted a \<or> pa_listedAborted a")
        case True
        then show thesis using assms Some go n by (intro quiet) (auto simp: watch_poll_def Let_def split: if_splits)
      next
        case False
        obtain v1 c g where d: "watch_decide a session n v = (v1, c, g)" by (metis prod_cases3)
        then have "v1 = v'" "g = goes" "steps_of calls = steps_of c"
          using assms Some go n False by (auto simp: watch_poll_def Let_def split: if_splits)
        then show thesis using decided[OF Some n] d by simp
      qed
    qed
  qed
qed

lemma watch_poll_spaced:
  assumes "watch_inv last_ok v" and "watch_poll a v = (v', calls, goes)"
  shows "spaced last_ok (steps_of calls) \<and> watch_inv (watch_after last_ok (steps_of calls)) v' \<and>
    (steps_of calls \<noteq> [] \<longrightarrow> (\<exists>session n. pa_gate a = Some session \<and> sessionStillAllowsAutomation session \<and> pa_exitCount a = Some n \<and> n \<ge> 1))"
  using assms(2)
proof (cases rule: watch_poll_cases)
  case quiet
  then show ?thesis using assms(1) by (simp add: watch_after_def)
next
  case decided
  then show ?thesis using watch_decide_spaced[OF assms(1) decided(3)] by auto
qed

lemma spaced_append: "spaced l (xs @ ys) \<longleftrightarrow> spaced l xs \<and> spaced (watch_after l xs) ys"
proof (induction xs arbitrary: l)
  case (Cons x xs)
  have "watch_after l (x # xs) = watch_after (if snd x then Some (fst x) else l) xs"
    by (simp add: watch_after_def split_beta)
  with Cons show ?case by (cases x) (simp only: append_Cons spaced.simps fst_conv snd_conv conj_assoc)
qed (simp add: watch_after_def)

lemma watch_run_spaced:
  "watch_inv last_ok v \<Longrightarrow> spaced last_ok (steps_of (concat (watchBarkEmergencyExitTips answers v)))"
proof (induction answers arbitrary: last_ok v)
  case (Cons a answers)
  obtain v' calls goes where poll: "watch_poll a v = (v', calls, goes)" by (metis prod_cases3)
  from watch_poll_spaced[OF Cons.prems poll] Cons.IH show ?case by (auto simp: poll spaced_append)
qed simp

lemma watch_run_allowed:
  "watch_inv last_ok v \<Longrightarrow> i < length (watchBarkEmergencyExitTips answers v) \<Longrightarrow>
   steps_of (watchBarkEmergencyExitTips answers v ! i) \<noteq> [] \<Longrightarrow>
   \<exists>session n. pa_gate (answers ! i) = Some session \<and> sessionStillAllowsAutomation session \<and> pa_exitCount (answers ! i) = Some n \<and> n \<ge> 1"
proof (induction answers arbitrary: last_ok v i)
  case (Cons a answers)
  obtain v' calls goes where poll: "watch_poll a v = (v', calls, goes)" by (metis prod_cases3)
  note p = watch_poll_spaced[OF Cons.prems(1) poll]
  show ?case
  proof (cases i)
    case 0
    then show ?thesis using p Cons.prems(3) by (simp add: poll)
  next
    case (Suc j)
    then show ?thesis using Cons.IH[of "watch_after last_ok (steps_of calls)" v' j] p Cons.prems by (auto simp: poll split: if_splits)
  qed
qed simp

lemma watch_start_inv: "watch_inv None watch_start"
  by (simp add: watch_inv_def watch_start_def)

section \<open>Properties\<close>

text \<open>C13: Automatic steps follow the blocks. Whatever the calls of the loop answer, a step is only run in a
  turn where the stored setting, the unlocked wallet, its network and its loaded session
  allow it and an exit is listed; and after a step that succeeded, another one is only run for a
  known tip that differs from the tip of that step.\<close>

theorem bark_watch_spaced:
  "spaced None (steps_of (concat (watchBarkEmergencyExitTips answers watch_start))) \<and>
   (\<forall>i < length (watchBarkEmergencyExitTips answers watch_start).
      steps_of (watchBarkEmergencyExitTips answers watch_start ! i) \<noteq> [] \<longrightarrow>
      (\<exists>session n. pa_gate (answers ! i) = Some session \<and> sessionStillAllowsAutomation session \<and>
         pa_exitCount (answers ! i) = Some n \<and> n \<ge> 1))"
  using watch_run_spaced[OF watch_start_inv] watch_run_allowed[OF watch_start_inv] by blast

definition open_gate :: sessionGate where
  "open_gate = \<lparr>sg_proceedAutomatically = True, sg_walletUnlocked = True, sg_sameWallet = True, sg_sameNetwork = True, sg_sessionLoaded = True\<rparr>"

definition poll_at :: "int \<Rightarrow> pollAnswers" where
  "poll_at h = \<lparr>pa_gate = Some open_gate, pa_gateAborted = False, pa_tip = Some \<lparr>bt_height = h, bt_hash = ''h''\<rparr>, pa_tipAborted = False,
     pa_exitCount = Some 1, pa_countAborted = False, pa_listedAborted = False, pa_progressOk = True, pa_progressAborted = False,
     pa_afterAborted = False, pa_waitAborted = False\<rparr>"

theorem bark_watch_spaced_witness:
  "map steps_of (watchBarkEmergencyExitTips [poll_at 7, poll_at 7, poll_at 8] watch_start) =
     [[(Some \<lparr>bt_height = 7, bt_hash = ''h''\<rparr>, True)], [], [(Some \<lparr>bt_height = 8, bt_hash = ''h''\<rparr>, True)]] \<and>
   spaced None (steps_of (concat (watchBarkEmergencyExitTips [poll_at 7, poll_at 7, poll_at 8] watch_start))) \<and>
   (\<exists>n. pa_exitCount ([poll_at 7, poll_at 7, poll_at 8] ! 2) = Some n \<and> n \<ge> 1)"
proof -
  let ?as = "[poll_at 7, poll_at 7, poll_at 8]"
  have m: "map steps_of (watchBarkEmergencyExitTips ?as watch_start) =
     [[(Some \<lparr>bt_height = 7, bt_hash = ''h''\<rparr>, True)], [], [(Some \<lparr>bt_height = 8, bt_hash = ''h''\<rparr>, True)]]"
    by (simp add: watch_poll_def watch_decide_def poll_at_def open_gate_def watch_start_def sessionStillAllowsAutomation_def
        shouldProgressBarkEmergencyExitOnTip_def barkEmergencyExitTipChanged_def)
  then have "length (watchBarkEmergencyExitTips ?as watch_start) = 3" by (metis length_map list.size(3,4) numeral_3_eq_3 One_nat_def Suc_eq_plus1)
  moreover have "steps_of (watchBarkEmergencyExitTips ?as watch_start ! 2) \<noteq> []"
    using arg_cong[OF m, of "\<lambda>xs. xs ! 2"] calculation by (simp add: numeral_2_eq_2)
  ultimately have "\<exists>session n. pa_gate (?as ! 2) = Some session \<and> sessionStillAllowsAutomation session \<and> pa_exitCount (?as ! 2) = Some n \<and> n \<ge> 1"
    using bark_watch_spaced[of ?as, THEN conjunct2, rule_format, of 2] by simp
  then have "\<exists>n. pa_exitCount (?as ! 2) = Some n \<and> n \<ge> 1" by blast
  with m bark_watch_spaced[of ?as, THEN conjunct1] show ?thesis by (intro conjI)
qed

text \<open>C36: A block is not missed: once the loop knows the tip of its last step, a turn that reads another
  tip while the session allows it and an exit is listed runs a step for that tip, in every turn
  until one succeeds.\<close>

theorem bark_watch_new_block:
  assumes "pa_gate a = Some session" and "sessionStillAllowsAutomation session" and "pa_tip a = Some tip"
    and "pa_exitCount a = Some n" and "n \<ge> 1" and "\<not> wv_rememberNext v" and "wv_previousTip v \<noteq> Some tip"
    and "\<not> pa_gateAborted a \<and> \<not> pa_tipAborted a \<and> \<not> pa_countAborted a \<and> \<not> pa_listedAborted a"
  shows "\<exists>v' calls goes. watch_poll a v = (v', calls, goes) \<and> DoProgress (Some tip) (pa_progressOk a) \<in> set calls \<and>
    (if pa_progressOk a then wv_previousTip v' = Some tip \<and> \<not> wv_rememberNext v' else v' = v)"
proof -
  have changed: "barkEmergencyExitTipChanged (wv_previousTip v) tip"
    using assms(7) by (auto simp: barkEmergencyExitTipChanged_def split: option.splits)
  then have "shouldProgressBarkEmergencyExitOnTip session n (wv_previousTip v) (pa_tip a) (wv_justBecameActive v)"
    using assms(2,3,5) by (simp add: shouldProgressBarkEmergencyExitOnTip_def sessionStillAllowsAutomation_def)
  then show ?thesis using assms by (auto simp: watch_poll_def watch_decide_def Let_def)
qed

theorem bark_watch_new_block_witness:
  "\<exists>v' calls goes. watch_poll (poll_at 7) watch_start = (v', calls, goes) \<and>
     DoProgress (Some \<lparr>bt_height = 7, bt_hash = ''h''\<rparr>) True \<in> set calls"
proof -
  have "sessionStillAllowsAutomation open_gate" by (simp add: sessionStillAllowsAutomation_def open_gate_def)
  with bark_watch_new_block[of "poll_at 7" open_gate "\<lparr>bt_height = 7, bt_hash = ''h''\<rparr>" 1 watch_start] show ?thesis
    by (auto simp: poll_at_def watch_start_def)
qed

text \<open>C15: At most one loop runs. In every order of starts, stops, answers and changes of the wallet, a loop
  that has not been aborted is the active one and belongs to the last start or stop.\<close>

theorem automation_single_run:
  assumes "w = fold (automation_step active) events (automation_start live)" and "runs_live w t"
  shows "aw_active w = Some t \<and> t = aw_generation w"
proof -
  have "automation_inv (automation_start live)" by (simp add: automation_inv_def automation_start_def runs_live_def)
  then have "automation_inv w" unfolding assms(1) by (rule automation.run_keeps) (simp add: list_all_iff)
  with assms(2) show ?thesis by (simp add: automation_inv_def)
qed

definition session_of :: "int \<Rightarrow> liveSession" where
  "session_of i = \<lparr>ls_walletUnlocked = True, ls_activeWalletId = Some i, ls_committedNetwork = Signet, ls_loaded = True, ls_loadNetwork = Some Signet\<rparr>"

definition signet_scope :: "int \<Rightarrow> barkExitScope" where
  "signet_scope i = \<lparr>sc_walletId = i, sc_networkMode = Signet\<rparr>"

lemmas automation_defs = automation_start_def session_of_def signet_scope_def sync_called_def drop_active_def update_run_def
  proceed_read_def liveSessionStillMatches_def readLiveSessionGate_def stopBarkEmergencyExitAutomation_def publish_def
  publishAutomationActivity_def IDLE_BARK_EMERGENCY_EXIT_AUTOMATION_ACTIVITY_def pause_shown_def pauseBarkEmergencyExitAutomation_def
  run_report_def

theorem automation_single_run_witness:
  "\<exists>w. w = fold (automation_step (\<lambda>_. True)) [SyncCalled (signet_scope 1), ProceedRead 1 (Inr True)] (automation_start (session_of 1)) \<and>
     runs_live w 1 \<and> aw_active w = Some 1"
proof -
  let ?w = "fold (automation_step (\<lambda>_. True)) [SyncCalled (signet_scope 1), ProceedRead 1 (Inr True)] (automation_start (session_of 1))"
  have "runs_live ?w 1" by (simp add: automation_defs runs_live_def)
  with automation_single_run[OF refl this] show ?thesis by simp
qed

text \<open>A loop that was stopped still changes what is shown. After the user has switched from one wallet to
  another, a step of the first wallet that finds the fee above its cap pauses the automation
  of the second, whose own loop is the active one and whose next step then does nothing.\<close>

theorem automation_stale_pause:
  "\<exists>events w. w = fold (automation_step (\<lambda>_. True)) events (automation_start (session_of 1)) \<and>
     last events = StepPauses 1 FeeCapExceeded \<and>
     map_option ar_scope (aw_runs w 1) = Some (signet_scope 1) \<and>
     aw_active w = Some 3 \<and> map_option ar_scope (aw_runs w 3) = Some (signet_scope 2) \<and>
     aa_pausedReason (fst (aw_shown w)) = Some FeeCapExceeded \<and>
     (\<forall>deps (s :: 's) funding tip.
        progressBarkEmergencyExitAutomatically deps (Some (signet_scope 2)) tip (s, funding, fst (aw_shown w)) =
          (Inr (), s, funding, fst (aw_shown w)))"
  by (rule exI[of _ "[SyncCalled (signet_scope 1), ProceedRead 1 (Inr True), LiveChanged (session_of 2),
        SyncCalled (signet_scope 2), ProceedRead 3 (Inr True), StepPauses 1 FeeCapExceeded]"], rule exI, rule conjI[OF refl])
    (simp add: automation_defs progressBarkEmergencyExitAutomatically_def)

text \<open>An automatic step above the cap makes no call that costs a fee, and pauses.\<close>

lemma automatic_step_capped:
  assumes "ad_readFeePrefs deps s = (Inr (label, stored), s1)" and "ad_presetRates deps s1 = (Inr presets, s2)"
    and "js_greater (presets label) (effectiveBarkEmergencyExitMaxFeeRate stored (presets HighFee))"
    and "aa_pausedReason activity = None"
  shows "progressBarkEmergencyExitAutomatically deps scope tip (s, funding, activity) =
    (Inr (), s2, funding, pauseBarkEmergencyExitAutomation FeeCapExceeded activity)"
  using assms by (simp add: progressBarkEmergencyExitAutomatically_def op_bind_apply worker_call_def
      decideBarkEmergencyExitAutomatedFee_def resolveAutomatedStepFeeRateSatPerVb_def)

end
