(* ===== verification/Flight_Tracker.thy ===== *)
theory Flight_Tracker
  imports Save_Lifecycle
begin

text \<open>
  \<open>lib/wallet/lifecycle/lifecycle-in-flight-tracker.ts\<close> for the lifecycles that load and
  sync a rail. Unlike the saves, their bodies wait several times, so a flight carries the state its
  body has reached. A flight that has ended settles its promise a little later, and only then
  leaves the tracker; a tracker that was cleared in the meantime is not touched.
\<close>

section \<open>Flights\<close>

datatype 'b flightStage = FlightRunning 'b | FlightEnded "string option" | FlightSettled "string option"

record 'b flight =
  fl_key :: string
  fl_stage :: "'b flightStage"

record 'b flightTracker =
  ft_inFlight :: "nat option"
  ft_flights :: "'b flight list"

definition createInFlightLifecycleTracker :: "'b flightTracker" where
  "createInFlightLifecycleTracker = \<lparr>ft_inFlight = None, ft_flights = []\<rparr>"

definition running :: "'b flightTracker \<Rightarrow> nat \<Rightarrow> 'b option" where
  "running tr n =
     (if n < length (ft_flights tr)
      then case fl_stage (ft_flights tr ! n) of FlightRunning b \<Rightarrow> Some b | _ \<Rightarrow> None
      else None)"

definition has_settled :: "'b flightTracker \<Rightarrow> nat \<Rightarrow> bool" where
  "has_settled tr n \<longleftrightarrow> n < length (ft_flights tr) \<and>
     (case fl_stage (ft_flights tr ! n) of FlightSettled _ \<Rightarrow> True | _ \<Rightarrow> False)"

text \<open>The error a flight ended with, if any.\<close>

definition flight_error :: "'b flightTracker \<Rightarrow> nat \<Rightarrow> string option" where
  "flight_error tr n =
     (case fl_stage (ft_flights tr ! n) of FlightRunning _ \<Rightarrow> None | FlightEnded e \<Rightarrow> e | FlightSettled e \<Rightarrow> e)"

definition coalesced_flight :: "string \<Rightarrow> 'b flightTracker \<Rightarrow> nat option" where
  "coalesced_flight key tr =
     (case ft_inFlight tr of
        Some n \<Rightarrow> if fl_key (ft_flights tr ! n) = key then Some n else None
      | None \<Rightarrow> None)"

text \<open>The flight \<open>awaitDifferentInFlightWork\<close> waits for.\<close>

definition different_flight :: "string \<Rightarrow> 'b flightTracker \<Rightarrow> nat option" where
  "different_flight key tr =
     (case ft_inFlight tr of
        Some n \<Rightarrow> if fl_key (ft_flights tr ! n) = key then None else Some n
      | None \<Rightarrow> None)"

definition begin_flight :: "string \<Rightarrow> 'b \<Rightarrow> 'b flightTracker \<Rightarrow> 'b flightTracker" where
  "begin_flight key b tr =
     (case coalesced_flight key tr of
        Some n \<Rightarrow> tr
      | None \<Rightarrow> tr\<lparr>ft_inFlight := Some (length (ft_flights tr)),
                   ft_flights := ft_flights tr @ [\<lparr>fl_key = key, fl_stage = FlightRunning b\<rparr>]\<rparr>)"

definition set_flight :: "nat \<Rightarrow> 'b flightStage \<Rightarrow> 'b flightTracker \<Rightarrow> 'b flightTracker" where
  "set_flight n stage tr = tr\<lparr>ft_flights := (ft_flights tr)[n := (ft_flights tr ! n)\<lparr>fl_stage := stage\<rparr>]\<rparr>"

definition clear_flight :: "nat \<Rightarrow> 'b flightTracker \<Rightarrow> 'b flightTracker" where
  "clear_flight n tr = (if ft_inFlight tr = Some n then tr\<lparr>ft_inFlight := None\<rparr> else tr)"

definition settle_flight :: "nat \<Rightarrow> 'b flightTracker \<Rightarrow> 'b flightTracker" where
  "settle_flight n tr =
     (if n < length (ft_flights tr)
      then case fl_stage (ft_flights tr ! n) of
             FlightEnded e \<Rightarrow> clear_flight n (set_flight n (FlightSettled e) tr)
           | _ \<Rightarrow> tr
      else tr)"

definition clearCurrent :: "'b flightTracker \<Rightarrow> 'b flightTracker" where
  "clearCurrent tr = tr\<lparr>ft_inFlight := None\<rparr>"

section \<open>Which bodies run\<close>

lemma running_create [simp]: "running createInFlightLifecycleTracker n = None"
  by (simp add: running_def createInFlightLifecycleTracker_def)

lemma running_clearCurrent [simp]: "running (clearCurrent tr) n = running tr n"
  by (simp add: running_def clearCurrent_def)

lemma running_bound: "running tr n = Some b \<Longrightarrow> n < length (ft_flights tr)"
  by (simp add: running_def split: if_splits)

lemma running_begin:
  "coalesced_flight key tr = None \<Longrightarrow>
   running (begin_flight key b tr) n = (if n = length (ft_flights tr) then Some b else running tr n)"
  by (auto simp: running_def begin_flight_def nth_append)

lemma begin_joins: "coalesced_flight key tr = Some n \<Longrightarrow> begin_flight key b tr = tr"
  by (simp add: begin_flight_def)

lemma running_set:
  "n < length (ft_flights tr) \<Longrightarrow>
   running (set_flight n stage tr) m =
     (if m = n then (case stage of FlightRunning b \<Rightarrow> Some b | _ \<Rightarrow> None) else running tr m)"
  by (auto simp: running_def set_flight_def nth_list_update)

lemma running_clear_flight [simp]: "running (clear_flight n tr) m = running tr m"
  by (simp add: running_def clear_flight_def)

lemma running_settle [simp]: "running (settle_flight n tr) m = running tr m"
  by (auto simp: settle_flight_def running_set split: flightStage.split) (auto simp: running_def)

text \<open>A body that runs with a property, and how it is kept: bodies that do not have the property may
  move or end.\<close>

definition some_runs :: "('b \<Rightarrow> bool) \<Rightarrow> 'b flightTracker \<Rightarrow> bool" where
  "some_runs P tr \<longleftrightarrow> (\<exists>n b. running tr n = Some b \<and> P b)"

definition all_running :: "('b \<Rightarrow> bool) \<Rightarrow> 'b flightTracker \<Rightarrow> bool" where
  "all_running P tr \<longleftrightarrow> (\<forall>n b. running tr n = Some b \<longrightarrow> P b)"

lemma some_runs_same [simp]:
  "some_runs P (clearCurrent tr) = some_runs P tr" "some_runs P (settle_flight n tr) = some_runs P tr"
  "all_running P (clearCurrent tr) = all_running P tr" "all_running P (settle_flight n tr) = all_running P tr"
  "all_running P createInFlightLifecycleTracker"
  by (simp_all add: some_runs_def all_running_def)

lemma some_runs_begin: "coalesced_flight key tr = None \<Longrightarrow> P b \<Longrightarrow> some_runs P (begin_flight key b tr)"
  by (auto simp: some_runs_def running_begin)

lemma some_runs_kept:
  assumes "some_runs P tr"
  shows "some_runs P (begin_flight key b tr)"
proof (cases "coalesced_flight key tr")
  case None
  obtain n c where n: "running tr n = Some c" "P c" using assms by (auto simp: some_runs_def)
  then have "n \<noteq> length (ft_flights tr)" using running_bound by fastforce
  then show ?thesis using n by (auto simp: some_runs_def running_begin[OF None])
qed (simp add: begin_joins assms)

lemma some_runs_set:
  assumes "running tr n = Some b" and "\<not> P b" and "some_runs P tr"
  shows "some_runs P (set_flight n stage tr)"
proof -
  obtain m c where m: "running tr m = Some c" "P c" using assms(3) by (auto simp: some_runs_def)
  then have "m \<noteq> n" using assms by auto
  then show ?thesis using m by (auto simp: some_runs_def running_set[OF running_bound[OF assms(1)]] intro!: exI[of _ m])
qed

lemma some_runs_moved:
  assumes "running tr n = Some b" and "P b'"
  shows "some_runs P (set_flight n (FlightRunning b') tr)"
  using assms by (auto simp: some_runs_def running_set[OF running_bound[OF assms(1)]])

lemma all_running_begin:
  "all_running P tr \<Longrightarrow> P b \<Longrightarrow> all_running P (begin_flight key b tr)"
  by (cases "coalesced_flight key tr") (auto simp: all_running_def running_begin begin_joins)

lemma all_running_set:
  assumes "all_running P tr" and "running tr n = Some b" and "\<And>b'. stage = FlightRunning b' \<Longrightarrow> P b'"
  shows "all_running P (set_flight n stage tr)"
  using assms by (auto simp: all_running_def running_set[OF running_bound[OF assms(2)]] split: flightStage.splits)

lemma all_running_mono: "all_running P tr \<Longrightarrow> (\<And>b. P b \<Longrightarrow> Q b) \<Longrightarrow> all_running Q tr"
  by (auto simp: all_running_def)

lemma all_runningD: "all_running P tr \<Longrightarrow> running tr n = Some b \<Longrightarrow> P b"
  by (auto simp: all_running_def)

end
