(* ===== verification/Bark_Session.thy ===== *)
theory Bark_Session
  imports Bark_Exit Flight_Tracker
begin

text \<open>
  Opening, syncing and closing the Bark session of a wallet:
  \<open>lib/wallet/lifecycle/bark-load-lifecycle-orchestrator.ts\<close>,
  \<open>bark-sync-lifecycle-orchestrator.ts\<close>, \<open>lib/bark/bark-session-service.ts\<close> and
  \<open>lib/bark/bark-server-notice.ts\<close>. The code runs while the user switches the wallet or the
  network, so a body that waits for the worker compares a generation before it publishes what it
  got. The model is a function on events, one for each stretch of code between two \<open>await\<close>s; any
  order of the events is a possible schedule. What the worker answers comes with the events.
\<close>

section \<open>Snapshots\<close>

datatype loadLifecyclePhase = LoadNotConfigured | Loading | Loaded | LoadError

datatype syncLifecyclePhase = SyncNotConfigured | NotSyncing | Syncing | SyncError

record barkLoadSnapshot =
  bl_loadPhase :: loadLifecyclePhase
  bl_networkMode :: "networkMode option"
  bl_errorMessage :: "string option"
  bl_receiveKeyIndex :: "js_number option"

definition idleBarkLoadSnapshot :: barkLoadSnapshot where
  "idleBarkLoadSnapshot =
     \<lparr>bl_loadPhase = LoadNotConfigured, bl_networkMode = None, bl_errorMessage = None, bl_receiveKeyIndex = None\<rparr>"

datatype barkRefreshStatus = RefreshIdle | RefreshScheduled | RefreshPending | RefreshWarning

record barkNextRefreshSchedule =
  nr_tipHeight :: int
  nr_nextRefreshHeight :: int

record barkBalanceParts =
  bb_spendableSats :: int
  bb_lockedSats :: int
  bb_exitingSats :: int

record barkSyncResult =
  sr_lastSuccessfulSyncAt :: string
  sr_refreshStatus :: "barkRefreshStatus option"
  sr_nextRefresh :: "barkNextRefreshSchedule option"
  sr_exitNodeSweepVtxoItems :: "sweepItem list option"

text \<open>An observation of the next refresh is the schedule with the time of the sync that read it.\<close>

record barkSyncSnapshot =
  bs_syncPhase :: syncLifecyclePhase
  bs_networkMode :: "networkMode option"
  bs_errorMessage :: "string option"
  bs_spendableSats :: "int option"
  bs_lockedSats :: "int option"
  bs_exitingSats :: "int option"
  bs_lastSuccessfulSyncAt :: "string option"
  bs_refreshStatus :: barkRefreshStatus
  bs_nextRefresh :: "(barkNextRefreshSchedule \<times> string) option"

definition idleBarkSyncSnapshot :: barkSyncSnapshot where
  "idleBarkSyncSnapshot =
     \<lparr>bs_syncPhase = SyncNotConfigured, bs_networkMode = None, bs_errorMessage = None, bs_spendableSats = None,
      bs_lockedSats = None, bs_exitingSats = None, bs_lastSuccessfulSyncAt = None, bs_refreshStatus = RefreshIdle,
      bs_nextRefresh = None\<rparr>"

definition observeNextRefresh :: "barkSyncResult \<Rightarrow> (barkNextRefreshSchedule \<times> string) option" where
  "observeNextRefresh synced = map_option (\<lambda>schedule. (schedule, sr_lastSuccessfulSyncAt synced)) (sr_nextRefresh synced)"

section \<open>The notice of the server\<close>

text \<open>What the same-origin reader answers: the request fails, or it has a status and perhaps a text.\<close>

datatype noticeAnswer = NoticeFails | NoticeAnswers bool "string option"

record barkSessionEnv =
  be_userFacingErrorMessage :: "string \<Rightarrow> string"
  be_sanitizeErrorMessageForUi :: "string \<Rightarrow> string"
  be_e2eRegtestControl :: bool

definition lifecycle_message :: "barkSessionEnv \<Rightarrow> string \<Rightarrow> string \<Rightarrow> string" where
  "lifecycle_message env err fallback =
     (let shown = be_userFacingErrorMessage env err in if shown = [] then fallback else shown)"

definition LIFECYCLE_LOAD_ERROR_FALLBACK :: string where "LIFECYCLE_LOAD_ERROR_FALLBACK = ''Load failed''"

definition LIFECYCLE_SYNC_ERROR_FALLBACK :: string where "LIFECYCLE_SYNC_ERROR_FALLBACK = ''Sync failed''"

definition BARK_ARK_OPERATOR_NOTICE_PREFIX :: string where
  "BARK_ARK_OPERATOR_NOTICE_PREFIX = ''Message from the Ark operator:''"

definition barkSyncFailureShouldReadServerNotice :: "string \<Rightarrow> bool" where
  "barkSyncFailureShouldReadServerNotice message =
     (let lower = js_lower message
      in contains_text ''failed to fetch'' lower \<or> contains_text ''handshake request failed'' lower)"

definition barkPublicNoticeNetwork :: "networkMode \<Rightarrow> networkMode option" where
  "barkPublicNoticeNetwork net = (if net = Signet \<or> net = Mainnet then Some net else None)"

text \<open>\<open>fetchBarkServerPublicNotice\<close>: \<open>Inl\<close> when the request throws.\<close>

fun fetchBarkServerPublicNotice :: "barkSessionEnv \<Rightarrow> noticeAnswer \<Rightarrow> unit + string option" where
  "fetchBarkServerPublicNotice env NoticeFails = Inl ()"
| "fetchBarkServerPublicNotice env (NoticeAnswers ok psa) =
     (if \<not> ok then Inr None
      else case psa of
             None \<Rightarrow> Inr None
           | Some s \<Rightarrow> (let shown = be_sanitizeErrorMessageForUi env (js_trim s)
                       in Inr (if length shown > 0 then Some shown else None)))"

definition barkSyncErrorMessageWithServerNotice :: "barkSessionEnv \<Rightarrow> networkMode \<Rightarrow> string \<Rightarrow> noticeAnswer \<Rightarrow> string" where
  "barkSyncErrorMessageWithServerNotice env net err answer =
     (let transportError = lifecycle_message env err LIFECYCLE_SYNC_ERROR_FALLBACK
      in if barkPublicNoticeNetwork net = None \<or> \<not> barkSyncFailureShouldReadServerNotice err then transportError
         else case fetchBarkServerPublicNotice env answer of
                Inl _ \<Rightarrow> transportError
              | Inr None \<Rightarrow> transportError
              | Inr (Some shown) \<Rightarrow> transportError @ '' '' @ BARK_ARK_OPERATOR_NOTICE_PREFIX @ '' '' @ shown)"

section \<open>State\<close>

record barkLoadParams =
  lp_walletId :: int
  lp_networkMode :: networkMode
  lp_allowRetryFromError :: bool

record barkSyncParams =
  sp_walletId :: int
  sp_networkMode :: networkMode
  sp_throwOnError :: "bool option"
  sp_settleExits :: "bool option"

record barkLoadBody =
  lb_params :: barkLoadParams
  lb_generation :: nat

text \<open>A sync waits for the worker to sync, for the balance, for the exits to be settled, or, when it
  failed, for the notice of the server; then it has kept the snapshot it met.\<close>

datatype barkSyncWait = SyncWaits | BalanceWaits barkSyncResult | ExitsWait | NoticeWaits barkSyncSnapshot string

record barkSyncBody =
  sb_params :: barkSyncParams
  sb_generation :: nat
  sb_wait :: barkSyncWait

datatype closeKind = CloseSession | CloseForWalletChange | CloseInactive

datatype closeWait = ImportWaits | LoadWaits "nat option" | SyncsWait "nat option" | WorkerCloses | Closed "string option"

datatype barkCallOutcome = CallReturns | CallThrows string | CallFollows nat | CallWaits nat | CallCloses nat

datatype barkEffect = StopAutomation | SyncAutomation int networkMode | TerminateWorker | RemoveQueries

text \<open>\<open>bn_reads\<close> and \<open>bn_sent\<close> remember which balances were read and which sends reported one, with
  the generation the sync or the send began in; the code does not keep them.\<close>

record barkSession =
  bn_enabled :: bool
  bn_worker :: bool
  bn_load :: barkLoadSnapshot
  bn_loadGeneration :: nat
  bn_loads :: "barkLoadBody flightTracker"
  bn_lastLoadParams :: "(int \<times> networkMode) option"
  bn_waitingLoads :: "(nat \<times> barkLoadParams \<times> nat) list"
  bn_sync :: barkSyncSnapshot
  bn_syncGeneration :: nat
  bn_syncs :: "barkSyncBody flightTracker"
  bn_notice :: "shownNotice option"
  bn_closings :: "(closeKind \<times> closeWait) list"
  bn_sends :: "(nat \<times> nat) list"
  bn_outcomes :: "(nat \<times> barkCallOutcome) list"
  bn_effects :: "barkEffect list"
  bn_reads :: "(nat \<times> barkBalanceParts) list"
  bn_sent :: "(nat \<times> int) list"

definition initial_bark_session :: "bool \<Rightarrow> barkSession" where
  "initial_bark_session enabled =
     \<lparr>bn_enabled = enabled, bn_worker = False, bn_load = idleBarkLoadSnapshot, bn_loadGeneration = 0,
      bn_loads = createInFlightLifecycleTracker, bn_lastLoadParams = None, bn_waitingLoads = [],
      bn_sync = idleBarkSyncSnapshot, bn_syncGeneration = 0, bn_syncs = createInFlightLifecycleTracker,
      bn_notice = None, bn_closings = [], bn_sends = [], bn_outcomes = [], bn_effects = [], bn_reads = [], bn_sent = []\<rparr>"

definition isBarkNetworkMode :: "barkSessionEnv \<Rightarrow> networkMode \<Rightarrow> bool" where
  "isBarkNetworkMode env net \<longleftrightarrow> (if net = Signet \<or> net = Mainnet then True else net = Regtest \<and> be_e2eRegtestControl env)"

definition isBarkActiveForNetworkMode :: "barkSessionEnv \<Rightarrow> barkSession \<Rightarrow> networkMode \<Rightarrow> bool" where
  "isBarkActiveForNetworkMode env s net \<longleftrightarrow> bn_enabled s \<and> isBarkNetworkMode env net"

definition effect :: "barkEffect \<Rightarrow> barkSession \<Rightarrow> barkSession" where
  "effect e s = s\<lparr>bn_effects := bn_effects s @ [e]\<rparr>"

definition outcome :: "nat \<Rightarrow> barkCallOutcome \<Rightarrow> barkSession \<Rightarrow> barkSession" where
  "outcome c r s = s\<lparr>bn_outcomes := bn_outcomes s @ [(c, r)]\<rparr>"

definition terminateBarkWorker :: "barkSession \<Rightarrow> barkSession" where
  "terminateBarkWorker s = effect TerminateWorker (s\<lparr>bn_worker := False\<rparr>)"

section \<open>Resets\<close>

definition forceResetBarkSyncLifecycleForTeardown :: "barkSession \<Rightarrow> barkSession" where
  "forceResetBarkSyncLifecycleForTeardown s =
     s\<lparr>bn_syncGeneration := Suc (bn_syncGeneration s), bn_syncs := clearCurrent (bn_syncs s),
       bn_notice := hideNotice (bn_notice s), bn_sync := idleBarkSyncSnapshot\<rparr>"

definition discardShownBarkBalanceForSessionChange :: "barkSession \<Rightarrow> barkSession" where
  "discardShownBarkBalanceForSessionChange s =
     s\<lparr>bn_syncGeneration := Suc (bn_syncGeneration s), bn_notice := hideNotice (bn_notice s),
       bn_sync := idleBarkSyncSnapshot\<rparr>"

definition prepareBarkSyncForSessionOpen :: "networkMode \<Rightarrow> barkSession \<Rightarrow> barkSession" where
  "prepareBarkSyncForSessionOpen net s =
     s\<lparr>bn_syncGeneration := Suc (bn_syncGeneration s), bn_syncs := clearCurrent (bn_syncs s),
       bn_notice := hideNotice (bn_notice s),
       bn_sync := \<lparr>bs_syncPhase = NotSyncing, bs_networkMode = Some net, bs_errorMessage = None, bs_spendableSats = None,
         bs_lockedSats = None, bs_exitingSats = None, bs_lastSuccessfulSyncAt = None, bs_refreshStatus = RefreshIdle,
         bs_nextRefresh = None\<rparr>\<rparr>"

definition rememberBarkPersistedSyncTime :: "string option \<Rightarrow> barkSession \<Rightarrow> barkSession" where
  "rememberBarkPersistedSyncTime stamp s = s\<lparr>bn_sync := (bn_sync s)\<lparr>bs_lastSuccessfulSyncAt := stamp\<rparr>\<rparr>"

definition forceResetBarkLoadLifecycleForTeardown :: "barkSession \<Rightarrow> barkSession" where
  "forceResetBarkLoadLifecycleForTeardown s =
     effect StopAutomation
       (s\<lparr>bn_loadGeneration := Suc (bn_loadGeneration s), bn_loads := clearCurrent (bn_loads s), bn_lastLoadParams := None,
          bn_load := idleBarkLoadSnapshot\<rparr>)"

definition discardShownBarkLoadForSessionChange :: "barkSession \<Rightarrow> barkSession" where
  "discardShownBarkLoadForSessionChange s =
     effect StopAutomation (s\<lparr>bn_loadGeneration := Suc (bn_loadGeneration s), bn_load := idleBarkLoadSnapshot\<rparr>)"

definition syncBarkLoadLifecycleWithLockPhase :: "lockLifecyclePhase \<Rightarrow> barkSession \<Rightarrow> barkSession" where
  "syncBarkLoadLifecycleWithLockPhase lockPhase s =
     (if shouldSkipRailLifecycleResetForLockPhase lockPhase (ft_inFlight (bn_loads s) \<noteq> None) then s
      else effect StopAutomation (s\<lparr>bn_load := idleBarkLoadSnapshot\<rparr>))"

definition syncBarkSyncLifecycleWithLockPhase :: "lockLifecyclePhase \<Rightarrow> barkSession \<Rightarrow> barkSession" where
  "syncBarkSyncLifecycleWithLockPhase lockPhase s =
     (if shouldSkipRailLifecycleResetForLockPhase lockPhase (ft_inFlight (bn_syncs s) \<noteq> None) then s
      else forceResetBarkSyncLifecycleForTeardown s)"

definition abortBarkSessionForNetworkSwitch :: "barkSession \<Rightarrow> barkSession" where
  "abortBarkSessionForNetworkSwitch s =
     effect RemoveQueries (forceResetBarkLoadLifecycleForTeardown (terminateBarkWorker (forceResetBarkSyncLifecycleForTeardown s)))"

section \<open>Syncing\<close>

definition sync_key :: "barkSyncParams \<Rightarrow> string" where
  "sync_key params = int_str (sp_walletId params) @ '':'' @ network_name (sp_networkMode params)"

definition sync_throws :: "barkSyncParams \<Rightarrow> bool" where
  "sync_throws params = (case sp_throwOnError params of None \<Rightarrow> True | Some b \<Rightarrow> b)"

text \<open>The body of a sync up to the answer of the worker.\<close>

definition start_sync :: "barkSyncParams \<Rightarrow> barkSession \<Rightarrow> barkSession" where
  "start_sync params s =
     s\<lparr>bn_syncs := begin_flight (sync_key params)
         \<lparr>sb_params = params, sb_generation = bn_syncGeneration s, sb_wait = SyncWaits\<rparr> (bn_syncs s),
       bn_sync := (bn_sync s)\<lparr>bs_syncPhase := Syncing, bs_networkMode := Some (sp_networkMode params), bs_errorMessage := None\<rparr>,
       bn_worker := True\<rparr>"

text \<open>A call of the sync: its outcome and the state it leaves. A sync of the same wallet and network
  is followed only by a call that throws.\<close>

definition orchestrateBarkSync :: "barkSessionEnv \<Rightarrow> barkSyncParams \<Rightarrow> barkSession \<Rightarrow> barkCallOutcome \<times> barkSession" where
  "orchestrateBarkSync env params s =
     (if \<not> isBarkActiveForNetworkMode env s (sp_networkMode params)
      then (if sync_throws params then CallThrows ''Bark is not active'' else CallReturns,
            forceResetBarkSyncLifecycleForTeardown s)
      else if bl_loadPhase (bn_load s) \<noteq> Loaded \<or> bl_networkMode (bn_load s) \<noteq> Some (sp_networkMode params)
      then (if sync_throws params then CallThrows ''Bark session is not open'' else CallReturns, s)
      else case coalesced_flight (sync_key params) (bn_syncs s) of
             Some n \<Rightarrow> (if sync_throws params then CallFollows n else CallReturns, s)
           | None \<Rightarrow> (CallFollows (length (ft_flights (bn_syncs s))), start_sync params s))"

definition orchestrateBarkPostLoadSync :: "barkSessionEnv \<Rightarrow> int \<Rightarrow> networkMode \<Rightarrow> barkSession \<Rightarrow> barkSession" where
  "orchestrateBarkPostLoadSync env w net s =
     snd (orchestrateBarkSync env
       \<lparr>sp_walletId = w, sp_networkMode = net, sp_throwOnError = Some False, sp_settleExits = None\<rparr> s)"

definition end_sync :: "nat \<Rightarrow> string option \<Rightarrow> barkSession \<Rightarrow> barkSession" where
  "end_sync n e s = s\<lparr>bn_syncs := set_flight n (FlightEnded e) (bn_syncs s)\<rparr>"

definition sync_waits :: "nat \<Rightarrow> barkSyncBody \<Rightarrow> barkSyncWait \<Rightarrow> barkSession \<Rightarrow> barkSession" where
  "sync_waits n b wait s = s\<lparr>bn_syncs := set_flight n (FlightRunning (b\<lparr>sb_wait := wait\<rparr>)) (bn_syncs s)\<rparr>"

definition sync_failed :: "nat \<Rightarrow> barkSyncBody \<Rightarrow> string \<Rightarrow> barkSession \<Rightarrow> barkSession" where
  "sync_failed n b err s =
     (if sb_generation b \<noteq> bn_syncGeneration s then end_sync n None s
      else sync_waits n b (NoticeWaits (bn_sync s) err) s)"

definition worker_synced :: "nat \<Rightarrow> barkSyncBody \<Rightarrow> string + barkSyncResult \<Rightarrow> barkSession \<Rightarrow> barkSession" where
  "worker_synced n b answer s =
     (case answer of
        Inl err \<Rightarrow> sync_failed n b err s
      | Inr synced \<Rightarrow>
          if sb_generation b \<noteq> bn_syncGeneration s then end_sync n None s
          else sync_waits n b (BalanceWaits synced)
                 (s\<lparr>bn_notice := showNotice (sp_walletId (sb_params b)) (sp_networkMode (sb_params b))
                      (case sr_exitNodeSweepVtxoItems synced of None \<Rightarrow> [] | Some items \<Rightarrow> items) (bn_notice s)\<rparr>))"

definition balance_snapshot :: "networkMode \<Rightarrow> barkSyncResult \<Rightarrow> barkBalanceParts \<Rightarrow> barkSyncSnapshot" where
  "balance_snapshot net synced balance =
     \<lparr>bs_syncPhase = NotSyncing, bs_networkMode = Some net, bs_errorMessage = None,
      bs_spendableSats = Some (bb_spendableSats balance), bs_lockedSats = Some (bb_lockedSats balance),
      bs_exitingSats = Some (bb_exitingSats balance),
      bs_lastSuccessfulSyncAt = Some (sr_lastSuccessfulSyncAt synced),
      bs_refreshStatus = (case sr_refreshStatus synced of None \<Rightarrow> RefreshIdle | Some status \<Rightarrow> status),
      bs_nextRefresh = observeNextRefresh synced\<rparr>"

definition balance_read :: "nat \<Rightarrow> barkSyncBody \<Rightarrow> barkSyncResult \<Rightarrow> string + barkBalanceParts \<Rightarrow> barkSession \<Rightarrow> barkSession" where
  "balance_read n b synced answer s =
     (case answer of
        Inl err \<Rightarrow> sync_failed n b err s
      | Inr balance \<Rightarrow>
          if sb_generation b \<noteq> bn_syncGeneration s then end_sync n None s
          else let s' = s\<lparr>bn_sync := balance_snapshot (sp_networkMode (sb_params b)) synced balance,
                         bn_reads := bn_reads s @ [(sb_generation b, balance)]\<rparr>
               in if sp_settleExits (sb_params b) = Some False then end_sync n None s' else sync_waits n b ExitsWait s')"

text \<open>The notice of the server has been read, or the attempt failed; the snapshot that was kept is
  published with the error.\<close>

definition notice_read :: "barkSessionEnv \<Rightarrow> nat \<Rightarrow> barkSyncBody \<Rightarrow> barkSyncSnapshot \<Rightarrow> string \<Rightarrow> noticeAnswer \<Rightarrow> barkSession \<Rightarrow> barkSession" where
  "notice_read env n b kept err answer s =
     end_sync n (if sync_throws (sb_params b) then Some err else None)
       (s\<lparr>bn_sync := kept\<lparr>bs_syncPhase := SyncError, bs_networkMode := Some (sp_networkMode (sb_params b)),
            bs_errorMessage := Some (barkSyncErrorMessageWithServerNotice env (sp_networkMode (sb_params b)) err answer)\<rparr>\<rparr>)"

definition recordBarkSpendableAfterSend :: "int \<Rightarrow> string \<Rightarrow> barkSession \<Rightarrow> barkSession" where
  "recordBarkSpendableAfterSend spendable stamp s =
     s\<lparr>bn_sync := (bn_sync s)\<lparr>bs_syncPhase := NotSyncing, bs_errorMessage := None, bs_spendableSats := Some spendable,
         bs_lastSuccessfulSyncAt := Some stamp\<rparr>\<rparr>"

section \<open>Opening\<close>

definition load_key :: "barkLoadParams \<Rightarrow> string" where
  "load_key params = int_str (lp_walletId params) @ '':'' @ network_name (lp_networkMode params)"

definition isBarkLoadFailedForNetwork :: "barkSession \<Rightarrow> networkMode \<Rightarrow> bool" where
  "isBarkLoadFailedForNetwork s net \<longleftrightarrow> bl_loadPhase (bn_load s) = LoadError \<and> bl_networkMode (bn_load s) = Some net"

definition start_load :: "nat \<Rightarrow> barkLoadParams \<Rightarrow> barkSession \<Rightarrow> barkSession" where
  "start_load c params s =
     (let key = load_key params; s' = s\<lparr>bn_lastLoadParams := Some (lp_walletId params, lp_networkMode params)\<rparr>
      in case coalesced_flight key (bn_loads s) of
           Some n \<Rightarrow> outcome c (CallFollows n) s'
         | None \<Rightarrow>
             let opening = prepareBarkSyncForSessionOpen (lp_networkMode params)
                   (s'\<lparr>bn_loads := begin_flight key \<lparr>lb_params = params, lb_generation = bn_loadGeneration s\<rparr> (bn_loads s)\<rparr>)
             in outcome c (CallFollows (length (ft_flights (bn_loads s))))
                  (opening\<lparr>bn_load := \<lparr>bl_loadPhase = Loading, bl_networkMode = Some (lp_networkMode params),
                      bl_errorMessage = None, bl_receiveKeyIndex = None\<rparr>, bn_worker := True\<rparr>))"

definition orchestrateBarkLoad :: "barkSessionEnv \<Rightarrow> nat \<Rightarrow> barkLoadParams \<Rightarrow> barkSession \<Rightarrow> barkSession" where
  "orchestrateBarkLoad env c params s =
     (if \<not> isBarkActiveForNetworkMode env s (lp_networkMode params)
      then outcome c (CallCloses (length (bn_closings s))) (s\<lparr>bn_closings := bn_closings s @ [(CloseInactive, ImportWaits)]\<rparr>)
      else if isBarkLoadFailedForNetwork s (lp_networkMode params) \<and> \<not> lp_allowRetryFromError params
      then outcome c CallReturns s
      else case coalesced_flight (load_key params) (bn_loads s) of
             Some n \<Rightarrow> outcome c (CallFollows n) s
           | None \<Rightarrow> (case different_flight (load_key params) (bn_loads s) of
               Some n \<Rightarrow> outcome c (CallWaits n) (s\<lparr>bn_waitingLoads := bn_waitingLoads s @ [(c, params, n)]\<rparr>)
             | None \<Rightarrow> start_load c params s))"

definition orchestrateBarkRetryLoad :: "barkSessionEnv \<Rightarrow> nat \<Rightarrow> barkSession \<Rightarrow> barkSession" where
  "orchestrateBarkRetryLoad env c s =
     (case bn_lastLoadParams s of
        None \<Rightarrow> outcome c (CallThrows ''No Bark load to retry'') s
      | Some (w, net) \<Rightarrow>
          orchestrateBarkLoad env c \<lparr>lp_walletId = w, lp_networkMode = net, lp_allowRetryFromError = True\<rparr> s)"

text \<open>A call that waited for another load goes on when that has settled.\<close>

definition load_resumes :: "nat \<Rightarrow> barkSession \<Rightarrow> barkSession" where
  "load_resumes c s =
     (case List.find (\<lambda>(c', p, n). c' = c) (bn_waitingLoads s) of
        None \<Rightarrow> s
      | Some (c', params, n) \<Rightarrow>
          if \<not> has_settled (bn_loads s) n then s
          else let s' = s\<lparr>bn_waitingLoads := filter (\<lambda>(c', p, n). c' \<noteq> c) (bn_waitingLoads s)\<rparr>
               in case coalesced_flight (load_key params) (bn_loads s') of
                    Some m \<Rightarrow> outcome c (CallFollows m) s'
                  | None \<Rightarrow> start_load c params s')"

record openedSession =
  os_receiveKeyIndex :: js_number
  os_lastSuccessfulSyncAt :: "string option"
  os_exitNodeSweepVtxoItems :: "sweepItem list option"

definition checked_opened :: "string + openedSession \<Rightarrow> string + openedSession" where
  "checked_opened answer =
     sum_bind answer (\<lambda>opened.
       if isBarkReceiveKeyIndex (Some (VNum (os_receiveKeyIndex opened))) then Inr opened
       else Inl ''Bark session opened without a receive key index'')"

definition end_load :: "nat \<Rightarrow> string option \<Rightarrow> barkSession \<Rightarrow> barkSession" where
  "end_load n e s = s\<lparr>bn_loads := set_flight n (FlightEnded e) (bn_loads s)\<rparr>"

definition session_opened :: "barkSessionEnv \<Rightarrow> nat \<Rightarrow> barkLoadBody \<Rightarrow> string + openedSession \<Rightarrow> barkSession \<Rightarrow> barkSession" where
  "session_opened env n b answer s =
     (let w = lp_walletId (lb_params b); net = lp_networkMode (lb_params b)
      in if lb_generation b \<noteq> bn_loadGeneration s then end_load n None s
         else case checked_opened answer of
           Inl err \<Rightarrow>
             end_load n (Some err)
               ((effect StopAutomation (forceResetBarkSyncLifecycleForTeardown (terminateBarkWorker s)))
                  \<lparr>bn_load := \<lparr>bl_loadPhase = LoadError, bl_networkMode = Some net,
                     bl_errorMessage = Some (lifecycle_message env err LIFECYCLE_LOAD_ERROR_FALLBACK),
                     bl_receiveKeyIndex = None\<rparr>\<rparr>)
         | Inr opened \<Rightarrow>
             let loaded = s\<lparr>bn_load := \<lparr>bl_loadPhase = Loaded, bl_networkMode = Some net, bl_errorMessage = None,
                              bl_receiveKeyIndex = Some (os_receiveKeyIndex opened)\<rparr>\<rparr>;
                 shown = (rememberBarkPersistedSyncTime (os_lastSuccessfulSyncAt opened) loaded)
                   \<lparr>bn_notice := showNotice w net (case os_exitNodeSweepVtxoItems opened of None \<Rightarrow> [] | Some items \<Rightarrow> items)
                      (bn_notice s)\<rparr>
             in end_load n None (effect (SyncAutomation w net) (orchestrateBarkPostLoadSync env w net shown)))"

definition rememberBarkReceiveKeyIndex :: "js_number \<Rightarrow> barkSession \<Rightarrow> string + barkSession" where
  "rememberBarkReceiveKeyIndex i s =
     (if \<not> isBarkReceiveKeyIndex (Some (VNum i)) then Inl ''Bark receive key index is invalid''
      else if bl_loadPhase (bn_load s) \<noteq> Loaded then Inl ''Bark session is not open''
      else Inr (s\<lparr>bn_load := (bn_load s)\<lparr>bl_receiveKeyIndex := Some i\<rparr>\<rparr>))"

section \<open>Closing\<close>

text \<open>\<open>closeBarkSession\<close> hides what is shown at once and then waits for the load and the sync that
  are under way; \<open>closeBarkSessionForWalletChange\<close> aborts when one of them fails, and a load on a
  network without Bark closes the session too.\<close>

definition discard_shown :: "barkSession \<Rightarrow> barkSession" where
  "discard_shown s = discardShownBarkLoadForSessionChange (discardShownBarkBalanceForSessionChange s)"

definition close_call :: "closeKind \<Rightarrow> nat \<Rightarrow> barkSession \<Rightarrow> barkSession" where
  "close_call kind c s =
     outcome c (CallCloses (length (bn_closings s)))
       ((discard_shown s)\<lparr>bn_closings := bn_closings s @ [(kind, LoadWaits (ft_inFlight (bn_loads s)))]\<rparr>)"

definition close_waits :: "nat \<Rightarrow> closeKind \<Rightarrow> closeWait \<Rightarrow> barkSession \<Rightarrow> barkSession" where
  "close_waits k kind wait s = s\<lparr>bn_closings := (bn_closings s)[k := (kind, wait)]\<rparr>"

definition close_finishes :: "nat \<Rightarrow> closeKind \<Rightarrow> barkSession \<Rightarrow> barkSession" where
  "close_finishes k kind s =
     (let torn = effect RemoveQueries
            (forceResetBarkLoadLifecycleForTeardown (forceResetBarkSyncLifecycleForTeardown (terminateBarkWorker s)))
      in close_waits k kind (Closed None)
           (if kind = CloseInactive then torn\<lparr>bn_load := idleBarkLoadSnapshot\<rparr> else torn))"

definition close_fails :: "nat \<Rightarrow> closeKind \<Rightarrow> string \<Rightarrow> barkSession \<Rightarrow> barkSession" where
  "close_fails k kind err s =
     (if kind = CloseForWalletChange then close_waits k kind (Closed None) (abortBarkSessionForNetworkSwitch s)
      else close_waits k kind (Closed (Some err)) s)"

text \<open>Going on after a wait for quiescence: nothing was under way, it has not settled yet, it failed, or
  it is over.\<close>

definition after_quiescence ::
  "'b flightTracker \<Rightarrow> nat option \<Rightarrow> (string \<Rightarrow> 'a) \<Rightarrow> 'a \<Rightarrow> 'a \<Rightarrow> 'a" where
  "after_quiescence tr waited failed stays over =
     (case waited of
        None \<Rightarrow> over
      | Some n \<Rightarrow> if \<not> has_settled tr n then stays
                 else case flight_error tr n of Some e \<Rightarrow> failed e | None \<Rightarrow> over)"

definition close_step :: "nat \<Rightarrow> closeKind \<Rightarrow> closeWait \<Rightarrow> barkSession \<Rightarrow> barkSession" where
  "close_step k kind wait s =
     (case wait of
        ImportWaits \<Rightarrow>
          close_waits k kind (LoadWaits (ft_inFlight (bn_loads s))) (discard_shown (forceResetBarkSyncLifecycleForTeardown s))
      | LoadWaits waited \<Rightarrow>
          after_quiescence (bn_loads s) waited (\<lambda>e. close_fails k kind e s) s
            (close_waits k kind (SyncsWait (ft_inFlight (bn_syncs s))) s)
      | SyncsWait waited \<Rightarrow>
          after_quiescence (bn_syncs s) waited (\<lambda>e. close_fails k kind e s) s
            (if bn_worker s then close_waits k kind WorkerCloses s else close_finishes k kind s)
      | WorkerCloses \<Rightarrow> close_finishes k kind s
      | Closed r \<Rightarrow> s)"

definition startBarkLoadAfterUnlock :: "barkSessionEnv \<Rightarrow> nat \<Rightarrow> int \<Rightarrow> networkMode \<Rightarrow> barkSession \<Rightarrow> barkSession" where
  "startBarkLoadAfterUnlock env c w net s =
     (if \<not> isBarkActiveForNetworkMode env s net then s
      else orchestrateBarkLoad env c \<lparr>lp_walletId = w, lp_networkMode = net, lp_allowRetryFromError = True\<rparr> s)"

definition refreshBarkSessionAfterNetworkSwitch ::
  "barkSessionEnv \<Rightarrow> nat \<Rightarrow> int option \<Rightarrow> networkMode \<Rightarrow> barkSession \<Rightarrow> barkSession" where
  "refreshBarkSessionAfterNetworkSwitch env c w net s =
     (case w of
        None \<Rightarrow> s
      | Some i \<Rightarrow>
          if \<not> isBarkActiveForNetworkMode env s net then close_call CloseSession c s
          else orchestrateBarkLoad env c \<lparr>lp_walletId = i, lp_networkMode = net, lp_allowRetryFromError = True\<rparr> s)"

section \<open>Events\<close>

datatype barkEvent =
  FeatureChanges bool
  | LoadCalled nat barkLoadParams
  | LoadRetried nat
  | LoadAfterUnlock nat int networkMode
  | NetworkSwitched nat "int option" networkMode
  | LoadResumes nat
  | SessionOpened nat "string + openedSession"
  | LoadSettles nat
  | KeyIndexRemembered js_number
  | SyncCalled nat barkSyncParams
  | WorkerSynced nat "string + barkSyncResult"
  | BalanceRead nat "string + barkBalanceParts"
  | ExitsSettled nat
  | NoticeRead nat noticeAnswer
  | SyncSettles nat
  | SendCalled nat
  | SendEnds nat "string + int \<times> string"
  | SessionLockPhase lockLifecyclePhase
  | SessionAborted
  | CloseCalled closeKind nat
  | CloseAdvances nat

definition on_running :: "'b flightTracker \<Rightarrow> nat \<Rightarrow> ('b \<Rightarrow> 's \<Rightarrow> 's) \<Rightarrow> 's \<Rightarrow> 's" where
  "on_running tr n f s = (case running tr n of None \<Rightarrow> s | Some b \<Rightarrow> f b s)"

definition on_wait :: "nat \<Rightarrow> (barkSyncBody \<Rightarrow> (barkSession \<Rightarrow> barkSession) option) \<Rightarrow> barkSession \<Rightarrow> barkSession" where
  "on_wait n f s = on_running (bn_syncs s) n (\<lambda>b s. case f b of None \<Rightarrow> s | Some g \<Rightarrow> g s) s"

text \<open>A send remembers the generation it began in; \<open>commitBarkArkoorSend\<close> itself does not.\<close>

definition send_ends :: "nat \<Rightarrow> string + int \<times> string \<Rightarrow> barkSession \<Rightarrow> barkSession" where
  "send_ends c answer s =
     (case List.find (\<lambda>(c', g). c' = c) (bn_sends s) of
        None \<Rightarrow> s
      | Some (c', g) \<Rightarrow>
          let s' = s\<lparr>bn_sends := filter (\<lambda>(c', g). c' \<noteq> c) (bn_sends s)\<rparr>
          in case answer of
               Inl err \<Rightarrow> outcome c (CallThrows err) s'
             | Inr (spendable, stamp) \<Rightarrow>
                 outcome c CallReturns
                   (recordBarkSpendableAfterSend spendable stamp (s'\<lparr>bn_sent := bn_sent s @ [(g, spendable)]\<rparr>)))"

fun bark_step :: "barkSessionEnv \<Rightarrow> barkEvent \<Rightarrow> barkSession \<Rightarrow> barkSession" where
  "bark_step env (FeatureChanges on) s = s\<lparr>bn_enabled := on\<rparr>"
| "bark_step env (LoadCalled c params) s = orchestrateBarkLoad env c params s"
| "bark_step env (LoadRetried c) s = orchestrateBarkRetryLoad env c s"
| "bark_step env (LoadAfterUnlock c w net) s = startBarkLoadAfterUnlock env c w net s"
| "bark_step env (NetworkSwitched c w net) s = refreshBarkSessionAfterNetworkSwitch env c w net s"
| "bark_step env (LoadResumes c) s = load_resumes c s"
| "bark_step env (SessionOpened n answer) s = on_running (bn_loads s) n (\<lambda>b. session_opened env n b answer) s"
| "bark_step env (LoadSettles n) s = s\<lparr>bn_loads := settle_flight n (bn_loads s)\<rparr>"
| "bark_step env (KeyIndexRemembered i) s = (case rememberBarkReceiveKeyIndex i s of Inl _ \<Rightarrow> s | Inr s' \<Rightarrow> s')"
| "bark_step env (SyncCalled c params) s = (case orchestrateBarkSync env params s of (r, s') \<Rightarrow> outcome c r s')"
| "bark_step env (WorkerSynced n answer) s =
     on_wait n (\<lambda>b. case sb_wait b of SyncWaits \<Rightarrow> Some (worker_synced n b answer) | _ \<Rightarrow> None) s"
| "bark_step env (BalanceRead n answer) s =
     on_wait n (\<lambda>b. case sb_wait b of BalanceWaits synced \<Rightarrow> Some (balance_read n b synced answer) | _ \<Rightarrow> None) s"
| "bark_step env (ExitsSettled n) s =
     on_wait n (\<lambda>b. case sb_wait b of ExitsWait \<Rightarrow> Some (end_sync n None) | _ \<Rightarrow> None) s"
| "bark_step env (NoticeRead n answer) s =
     on_wait n (\<lambda>b. case sb_wait b of NoticeWaits kept err \<Rightarrow> Some (notice_read env n b kept err answer) | _ \<Rightarrow> None) s"
| "bark_step env (SyncSettles n) s = s\<lparr>bn_syncs := settle_flight n (bn_syncs s)\<rparr>"
| "bark_step env (SendCalled c) s = s\<lparr>bn_sends := bn_sends s @ [(c, bn_syncGeneration s)]\<rparr>"
| "bark_step env (SendEnds c answer) s = send_ends c answer s"
| "bark_step env (SessionLockPhase p) s = syncBarkSyncLifecycleWithLockPhase p (syncBarkLoadLifecycleWithLockPhase p s)"
| "bark_step env SessionAborted s = abortBarkSessionForNetworkSwitch s"
| "bark_step env (CloseCalled kind c) s = close_call kind c s"
| "bark_step env (CloseAdvances k) s =
     (if k < length (bn_closings s) then case bn_closings s ! k of (kind, wait) \<Rightarrow> close_step k kind wait s else s)"

definition run_bark :: "barkSessionEnv \<Rightarrow> bool \<Rightarrow> barkEvent list \<Rightarrow> barkSession" where
  "run_bark env enabled es = fold (bark_step env) es (initial_bark_session enabled)"

section \<open>What holds under every schedule\<close>

text \<open>The invariants read only the part of the state that belongs to the load or to the sync.\<close>

definition load_part :: "barkSession \<Rightarrow> barkLoadSnapshot \<times> nat \<times> barkLoadBody flightTracker" where
  "load_part s = (bn_load s, bn_loadGeneration s, bn_loads s)"

definition sync_part :: "barkSession \<Rightarrow> barkSyncSnapshot \<times> nat \<times> barkSyncBody flightTracker \<times> (nat \<times> barkBalanceParts) list \<times> (nat \<times> int) list" where
  "sync_part s = (bn_sync s, bn_syncGeneration s, bn_syncs s, bn_reads s, bn_sent s)"

lemmas part_defs = load_part_def sync_part_def effect_def outcome_def terminateBarkWorker_def end_load_def end_sync_def
  sync_waits_def close_waits_def forceResetBarkSyncLifecycleForTeardown_def discardShownBarkBalanceForSessionChange_def
  prepareBarkSyncForSessionOpen_def rememberBarkPersistedSyncTime_def forceResetBarkLoadLifecycleForTeardown_def
  discardShownBarkLoadForSessionChange_def recordBarkSpendableAfterSend_def start_sync_def

text \<open>The key index is there exactly while the session is loaded, and it is valid; loading is shown only
  while a load of the current generation runs.\<close>

fun load_ok :: "barkLoadSnapshot \<times> nat \<times> barkLoadBody flightTracker \<Rightarrow> bool" where
  "load_ok (snap, g, tr) \<longleftrightarrow>
     (bl_loadPhase snap = Loading \<longrightarrow> some_runs (\<lambda>b. lb_generation b = g) tr) \<and>
     (case bl_receiveKeyIndex snap of
        None \<Rightarrow> bl_loadPhase snap \<noteq> Loaded
      | Some i \<Rightarrow> bl_loadPhase snap = Loaded \<and> isBarkReceiveKeyIndex (Some (VNum i)))"

text \<open>Syncing is shown only while a sync of the current generation runs that has not published yet.\<close>

fun sync_ok :: "barkSyncSnapshot \<times> nat \<times> barkSyncBody flightTracker \<times> 'r \<Rightarrow> bool" where
  "sync_ok (snap, g, tr, r) \<longleftrightarrow>
     (bs_syncPhase snap = Syncing \<longrightarrow> some_runs (\<lambda>b. sb_generation b = g \<and> sb_wait b \<noteq> ExitsWait) tr)"

text \<open>The figures of a snapshot were read, or reported by a send, in the given generation.\<close>

definition figures_of :: "nat \<Rightarrow> (nat \<times> barkBalanceParts) list \<Rightarrow> (nat \<times> int) list \<Rightarrow> barkSyncSnapshot \<Rightarrow> bool" where
  "figures_of g reads sent snap \<longleftrightarrow>
     (\<forall>v. bs_spendableSats snap = Some v \<longrightarrow> (\<exists>b. (g, b) \<in> set reads \<and> bb_spendableSats b = v) \<or> (g, v) \<in> set sent) \<and>
     (\<forall>v. bs_lockedSats snap = Some v \<longrightarrow> (\<exists>b. (g, b) \<in> set reads \<and> bb_lockedSats b = v)) \<and>
     (\<forall>v. bs_exitingSats snap = Some v \<longrightarrow> (\<exists>b. (g, b) \<in> set reads \<and> bb_exitingSats b = v))"

definition kept_of :: "nat \<Rightarrow> (nat \<times> barkBalanceParts) list \<Rightarrow> (nat \<times> int) list \<Rightarrow> barkSyncBody \<Rightarrow> bool" where
  "kept_of g reads sent b \<longleftrightarrow> sb_generation b \<le> g \<and>
     (case sb_wait b of NoticeWaits kept e \<Rightarrow> sb_generation b = g \<longrightarrow> figures_of g reads sent kept | _ \<Rightarrow> True)"

fun balance_ok :: "barkSyncSnapshot \<times> nat \<times> barkSyncBody flightTracker \<times> (nat \<times> barkBalanceParts) list \<times> (nat \<times> int) list \<Rightarrow> bool" where
  "balance_ok (snap, g, tr, reads, sent) \<longleftrightarrow> figures_of g reads sent snap \<and> all_running (kept_of g reads sent) tr"

declare load_ok.simps [simp del] sync_ok.simps [simp del] balance_ok.simps [simp del]

lemma figures_mono: "figures_of g reads sent snap \<Longrightarrow> figures_of g (reads @ rs) (sent @ ss) snap"
  unfolding figures_of_def by (metis Un_iff set_append)

lemma kept_mono: "kept_of g reads sent b \<Longrightarrow> kept_of g (reads @ rs) (sent @ ss) b"
  by (auto simp: kept_of_def figures_mono split: barkSyncWait.splits)

lemma kept_next: "kept_of g reads sent b \<Longrightarrow> kept_of (Suc g) reads sent b"
  by (auto simp: kept_of_def split: barkSyncWait.splits)

lemma figures_cong:
  "bs_spendableSats snap' = bs_spendableSats snap \<Longrightarrow> bs_lockedSats snap' = bs_lockedSats snap \<Longrightarrow>
   bs_exitingSats snap' = bs_exitingSats snap \<Longrightarrow> figures_of g reads sent snap' = figures_of g reads sent snap"
  by (simp add: figures_of_def)

lemma figures_none:
  "bs_spendableSats snap = None \<Longrightarrow> bs_lockedSats snap = None \<Longrightarrow> bs_exitingSats snap = None \<Longrightarrow> figures_of g reads sent snap"
  by (simp add: figures_of_def)

text \<open>Frames: which operations leave which part alone.\<close>

lemma load_part_frame [simp]:
  "load_part (effect e s) = load_part s" "load_part (outcome c r s) = load_part s" "load_part (terminateBarkWorker s) = load_part s"
  "load_part (forceResetBarkSyncLifecycleForTeardown s) = load_part s"
  "load_part (discardShownBarkBalanceForSessionChange s) = load_part s"
  "load_part (prepareBarkSyncForSessionOpen net s) = load_part s"
  "load_part (rememberBarkPersistedSyncTime t s) = load_part s" "load_part (end_sync n r' s) = load_part s"
  "load_part (sync_waits n b w s) = load_part s" "load_part (start_sync p s) = load_part s"
  "load_part (recordBarkSpendableAfterSend v t' s) = load_part s" "load_part (close_waits k kind cw s) = load_part s"
  by (simp_all add: part_defs)

lemma load_part_sync [simp]: "load_part (snd (orchestrateBarkSync env p s)) = load_part s"
  by (simp add: orchestrateBarkSync_def split: option.split)

lemma load_part_post [simp]: "load_part (orchestrateBarkPostLoadSync env w net s) = load_part s"
  by (simp add: orchestrateBarkPostLoadSync_def)

lemma sync_part_frame [simp]:
  "sync_part (effect e s) = sync_part s" "sync_part (outcome c r s) = sync_part s" "sync_part (terminateBarkWorker s) = sync_part s"
  "sync_part (forceResetBarkLoadLifecycleForTeardown s) = sync_part s" "sync_part (discardShownBarkLoadForSessionChange s) = sync_part s"
  "sync_part (end_load n r' s) = sync_part s" "sync_part (close_waits k kind cw s) = sync_part s"
  by (simp_all add: part_defs)

lemma reset_parts:
  "sync_part (forceResetBarkSyncLifecycleForTeardown s) =
     (idleBarkSyncSnapshot, Suc (bn_syncGeneration s), clearCurrent (bn_syncs s), bn_reads s, bn_sent s)"
  "sync_part (discardShownBarkBalanceForSessionChange s) =
     (idleBarkSyncSnapshot, Suc (bn_syncGeneration s), bn_syncs s, bn_reads s, bn_sent s)"
  "load_part (forceResetBarkLoadLifecycleForTeardown s) = (idleBarkLoadSnapshot, Suc (bn_loadGeneration s), clearCurrent (bn_loads s))"
  "load_part (discardShownBarkLoadForSessionChange s) = (idleBarkLoadSnapshot, Suc (bn_loadGeneration s), bn_loads s)"
  by (simp_all add: part_defs)

lemma load_ok_idle [simp]: "load_ok (idleBarkLoadSnapshot, g, tr)"
  by (simp add: load_ok.simps idleBarkLoadSnapshot_def)

lemma sync_ok_idle [simp]: "bs_syncPhase snap \<noteq> Syncing \<Longrightarrow> sync_ok (snap, g, tr, r)" "sync_ok (idleBarkSyncSnapshot, g, tr, r)"
  by (simp_all add: sync_ok.simps idleBarkSyncSnapshot_def)

text \<open>A new generation without figures.\<close>

lemma balance_ok_next:
  assumes "balance_ok (sync_part s)" and "bs_spendableSats snap = None" and "bs_lockedSats snap = None" and "bs_exitingSats snap = None"
  shows "balance_ok (snap, Suc (bn_syncGeneration s), clearCurrent (bn_syncs s), bn_reads s, bn_sent s)"
    and "balance_ok (snap, Suc (bn_syncGeneration s), bn_syncs s, bn_reads s, bn_sent s)"
  using assms by (auto simp: balance_ok.simps sync_part_def figures_none intro: all_running_mono[OF _ kept_next])

subsection \<open>The load\<close>

lemma load_ok_start:
  assumes "load_ok (load_part s)"
  shows "load_ok (load_part (start_load c p s))"
  using assms
  by (auto simp: load_ok.simps start_load_def Let_def load_part_def outcome_def prepareBarkSyncForSessionOpen_def some_runs_begin
      split: option.split)

lemma load_ok_call:
  assumes "load_ok (load_part s)"
  shows "load_ok (load_part (orchestrateBarkLoad env c p s))"
proof -
  have "load_part (s\<lparr>bn_closings := x\<rparr>) = load_part s" "load_part (s\<lparr>bn_waitingLoads := y\<rparr>) = load_part s" for x y
    by (simp_all add: load_part_def)
  then show ?thesis using assms load_ok_start[OF assms]
    by (simp add: orchestrateBarkLoad_def split: option.split)
qed

lemma load_ok_resumes:
  assumes "load_ok (load_part s)"
  shows "load_ok (load_part (load_resumes c s))"
proof -
  have part: "load_part (s\<lparr>bn_waitingLoads := y\<rparr>) = load_part s" for y
    by (simp add: load_part_def)
  then have "load_ok (load_part (start_load c p (s\<lparr>bn_waitingLoads := y\<rparr>)))" for p y
    using assms by (intro load_ok_start) simp
  then show ?thesis using assms part
    by (auto simp: load_resumes_def Let_def split: option.split prod.split)
qed

lemma load_part_set [simp]: "load_part (s\<lparr>bn_load := x\<rparr>) = (x, snd (load_part s))"
    "load_part (s\<lparr>bn_notice := y\<rparr>) = load_part s" "load_part (s\<lparr>bn_worker := z\<rparr>) = load_part s"
    "load_part (s\<lparr>bn_enabled := on\<rparr>) = load_part s" "load_part (s\<lparr>bn_syncs := tr\<rparr>) = load_part s"
    "load_part (s\<lparr>bn_sends := u\<rparr>) = load_part s"
  by (simp_all add: load_part_def)

lemma load_ok_ends:
  assumes "load_ok (load_part s)" and "bl_loadPhase (fst (load_part s)) \<noteq> Loading"
  shows "load_ok (load_part (end_load n r s))"
  using assms by (simp add: load_ok.simps load_part_def end_load_def)

lemma load_ok_ends_stale:
  assumes "load_ok (load_part s)" and "running (bn_loads s) n = Some b" and "lb_generation b \<noteq> bn_loadGeneration s"
  shows "load_ok (load_part (end_load n r s))"
  using assms by (auto simp: load_ok.simps load_part_def end_load_def intro: some_runs_set)

lemma load_ok_snapshot:
  assumes "bl_loadPhase snap \<noteq> Loading"
    and "case bl_receiveKeyIndex snap of
           None \<Rightarrow> bl_loadPhase snap \<noteq> Loaded
         | Some i \<Rightarrow> bl_loadPhase snap = Loaded \<and> isBarkReceiveKeyIndex (Some (VNum i))"
  shows "load_ok (snap, x)"
  using assms by (cases x) (simp add: load_ok.simps)

lemma load_ok_opened:
  assumes "load_ok (load_part s)" and run: "running (bn_loads s) n = Some b"
  shows "load_ok (load_part (session_opened env n b answer s))"
proof (cases "lb_generation b = bn_loadGeneration s")
  case False
  then show ?thesis using assms load_ok_ends_stale[OF assms] by (simp add: session_opened_def Let_def)
next
  case True
  show ?thesis
  proof (cases "checked_opened answer")
    case (Inl err)
    then show ?thesis using True by (simp add: session_opened_def Let_def load_ok_ends load_ok_snapshot)
  next
    case (Inr opened)
    then have "isBarkReceiveKeyIndex (Some (VNum (os_receiveKeyIndex opened)))"
      by (cases answer) (auto simp: checked_opened_def split: if_splits)
    then show ?thesis using True Inr by (simp add: session_opened_def Let_def load_ok_ends load_ok_snapshot)
  qed
qed

lemma load_ok_close:
  assumes "load_ok (load_part s)"
  shows "load_ok (load_part (close_step k kind wait s))"
  using assms
  by (auto simp: close_step_def close_finishes_def close_fails_def after_quiescence_def discard_shown_def reset_parts
      abortBarkSessionForNetworkSwitch_def Let_def load_ok_snapshot idleBarkLoadSnapshot_def split: closeWait.split option.split)

lemma load_ok_close_call: "load_ok (load_part (close_call kind c s))"
  by (simp add: close_call_def discard_shown_def load_part_def) (simp add: part_defs)

lemma load_part_sync_ops [simp]:
  "load_part (sync_failed n b err s) = load_part s" "load_part (worker_synced n b a s) = load_part s"
  "load_part (balance_read n b synced a' s) = load_part s" "load_part (notice_read env n b kept err a'' s) = load_part s"
  "load_part (send_ends c a3 s) = load_part s" "load_part (syncBarkSyncLifecycleWithLockPhase p s) = load_part s"
proof -
  have "load_part (s\<lparr>bn_sync := x\<rparr>) = load_part s" "load_part (s\<lparr>bn_sync := x, bn_reads := r\<rparr>) = load_part s"
    "load_part (s\<lparr>bn_sends := y\<rparr>) = load_part s" "load_part (s\<lparr>bn_sends := y, bn_sent := z\<rparr>) = load_part s" for x r y z
    by (simp_all add: load_part_def)
  then show "load_part (sync_failed n b err s) = load_part s" "load_part (worker_synced n b a s) = load_part s"
    "load_part (balance_read n b synced a' s) = load_part s" "load_part (notice_read env n b kept err a'' s) = load_part s"
    "load_part (send_ends c a3 s) = load_part s" "load_part (syncBarkSyncLifecycleWithLockPhase p s) = load_part s"
    by (simp_all add: sync_failed_def worker_synced_def balance_read_def notice_read_def send_ends_def Let_def
        syncBarkSyncLifecycleWithLockPhase_def split: sum.split option.split prod.split)
qed

lemma on_wait_cases:
  "on_wait n f s = s \<or> (\<exists>b g. running (bn_syncs s) n = Some b \<and> f b = Some g \<and> on_wait n f s = g s)"
  by (auto simp: on_wait_def on_running_def split: option.split)

lemma on_wait_load_part:
  assumes "\<And>b g. f b = Some g \<Longrightarrow> load_part (g s) = load_part s"
  shows "load_part (on_wait n f s) = load_part s"
  using on_wait_cases[of n f s] assms by metis

lemma wait_step_load_part [simp]:
  "load_part (bark_step env (WorkerSynced n a1) s) = load_part s" "load_part (bark_step env (BalanceRead n a2) s) = load_part s"
  "load_part (bark_step env (ExitsSettled n) s) = load_part s" "load_part (bark_step env (NoticeRead n a3) s) = load_part s"
  by (auto simp only: bark_step.simps intro!: on_wait_load_part split: barkSyncWait.splits) simp_all

lemma load_step:
  assumes ok: "load_ok (load_part s)"
  shows "load_ok (load_part (bark_step env e s))"
proof (cases e)
  case (LoadRetried c)
  then show ?thesis using ok by (simp add: orchestrateBarkRetryLoad_def load_ok_call split: option.split prod.split)
next
  case (SessionOpened n answer)
  then show ?thesis using ok by (simp add: on_running_def load_ok_opened split: option.split)
next
  case (LoadSettles n)
  then show ?thesis using ok by (simp add: load_part_def load_ok.simps)
next
  case (KeyIndexRemembered i)
  then show ?thesis using ok
    by (auto simp: rememberBarkReceiveKeyIndex_def load_part_def load_ok.simps split: option.split)
next
  case (SyncCalled c p)
  then show ?thesis using ok by (simp add: case_prod_beta)
next
  case (SessionLockPhase p)
  then show ?thesis using ok by (simp add: syncBarkLoadLifecycleWithLockPhase_def load_ok_snapshot idleBarkLoadSnapshot_def)
qed (use ok wait_step_load_part[where env = env and s = s] in \<open>auto simp: load_ok_call load_ok_resumes load_ok_close
    load_ok_close_call startBarkLoadAfterUnlock_def refreshBarkSessionAfterNetworkSwitch_def
    abortBarkSessionForNetworkSwitch_def reset_parts split: prod.splits option.split\<close>)

subsection \<open>The sync\<close>

lemma sync_part_set [simp]:
  "sync_part (s\<lparr>bn_load := x1\<rparr>) = sync_part s" "sync_part (s\<lparr>bn_loads := x2\<rparr>) = sync_part s"
  "sync_part (s\<lparr>bn_notice := x3\<rparr>) = sync_part s" "sync_part (s\<lparr>bn_worker := x4\<rparr>) = sync_part s"
  "sync_part (s\<lparr>bn_enabled := x5\<rparr>) = sync_part s" "sync_part (s\<lparr>bn_sends := x6\<rparr>) = sync_part s"
  "sync_part (s\<lparr>bn_lastLoadParams := x7\<rparr>) = sync_part s" "sync_part (s\<lparr>bn_waitingLoads := x8\<rparr>) = sync_part s"
  "sync_part (s\<lparr>bn_closings := x9\<rparr>) = sync_part s"
  by (simp_all add: sync_part_def)

lemma sync_ok_ends:
  assumes "sync_ok (sync_part s)" and "running (bn_syncs s) n = Some b"
    and "sb_generation b \<noteq> bn_syncGeneration s \<or> sb_wait b = ExitsWait"
  shows "sync_ok (sync_part (end_sync n r s))"
  using assms by (auto simp: sync_ok.simps sync_part_def end_sync_def intro: some_runs_set)

lemma sync_ok_waits:
  assumes "running (bn_syncs s) n = Some b" and "sb_generation b = bn_syncGeneration s" and "wait \<noteq> ExitsWait"
  shows "sync_ok (sync_part (sync_waits n b wait s))"
  using assms by (auto simp: sync_ok.simps sync_part_def sync_waits_def intro!: some_runs_moved)

lemma sync_ok_quiet:
  assumes "bs_syncPhase (bn_sync s) \<noteq> Syncing"
  shows "sync_ok (sync_part (sync_waits n b wait s))" and "sync_ok (sync_part (end_sync n r s))" and "sync_ok (sync_part s)"
  using assms by (simp_all add: sync_part_def sync_waits_def end_sync_def)

lemma balance_ok_ends:
  assumes "balance_ok (sync_part s)" and "running (bn_syncs s) n = Some b"
  shows "balance_ok (sync_part (end_sync n r s))"
  using assms all_running_set by (fastforce simp: balance_ok.simps sync_part_def end_sync_def)

lemma balance_ok_waits:
  assumes "balance_ok (sync_part s)" and run: "running (bn_syncs s) n = Some b"
    and "case wait of NoticeWaits kept err \<Rightarrow> kept = bn_sync s | _ \<Rightarrow> True"
  shows "balance_ok (sync_part (sync_waits n b wait s))"
proof -
  have "kept_of (bn_syncGeneration s) (bn_reads s) (bn_sent s) b"
    using assms(1) run by (auto simp: balance_ok.simps sync_part_def dest: all_runningD)
  then have "kept_of (bn_syncGeneration s) (bn_reads s) (bn_sent s) (b\<lparr>sb_wait := wait\<rparr>)"
    using assms by (auto simp: kept_of_def balance_ok.simps sync_part_def split: barkSyncWait.splits)
  then show ?thesis using assms(1) run
    by (auto simp: balance_ok.simps sync_part_def sync_waits_def intro!: all_running_set)
qed

lemma sync_failed_ok:
  assumes "running (bn_syncs s) n = Some b"
  shows "sync_ok (sync_part s) \<Longrightarrow> sync_ok (sync_part (sync_failed n b err s))"
    and "balance_ok (sync_part s) \<Longrightarrow> balance_ok (sync_part (sync_failed n b err s))"
  using assms by (auto simp: sync_failed_def sync_ok_ends sync_ok_waits balance_ok_ends balance_ok_waits)

lemma worker_synced_ok:
  assumes "running (bn_syncs s) n = Some b"
  shows "sync_ok (sync_part s) \<Longrightarrow> sync_ok (sync_part (worker_synced n b answer s))"
    and "balance_ok (sync_part s) \<Longrightarrow> balance_ok (sync_part (worker_synced n b answer s))"
  using assms
  by (auto simp: worker_synced_def sync_failed_ok sync_ok_ends sync_ok_waits balance_ok_ends balance_ok_waits split: sum.split)

lemma balance_ok_published:
  assumes "balance_ok (sync_part s)"
  shows "balance_ok (sync_part (s\<lparr>bn_sync := balance_snapshot net synced balance,
           bn_reads := bn_reads s @ [(bn_syncGeneration s, balance)]\<rparr>))"
proof -
  have "all_running (kept_of (bn_syncGeneration s) (bn_reads s @ [(bn_syncGeneration s, balance)]) (bn_sent s @ [])) (bn_syncs s)"
    using assms by (auto simp only: balance_ok.simps sync_part_def intro: all_running_mono[OF _ kept_mono])
  then show ?thesis by (simp add: balance_ok.simps sync_part_def balance_snapshot_def figures_of_def) fastforce
qed

lemma balance_snapshot_phase [simp]: "bs_syncPhase (balance_snapshot net synced balance) = NotSyncing"
  by (simp add: balance_snapshot_def)

lemma balance_read_ok:
  assumes "running (bn_syncs s) n = Some b"
  shows "sync_ok (sync_part s) \<Longrightarrow> sync_ok (sync_part (balance_read n b synced answer s))"
    and "balance_ok (sync_part s) \<Longrightarrow> balance_ok (sync_part (balance_read n b synced answer s))"
  using assms balance_ok_published[of s]
  by (auto simp: balance_read_def Let_def sync_failed_ok sync_ok_ends sync_ok_quiet balance_ok_ends balance_ok_waits
      split: sum.split)

lemma notice_read_ok:
  assumes "running (bn_syncs s) n = Some b" and "sb_wait b = NoticeWaits kept err"
  shows "sync_ok (sync_part (notice_read env n b kept err answer s))"
    and "sb_generation b = bn_syncGeneration s \<Longrightarrow> balance_ok (sync_part s) \<Longrightarrow>
      balance_ok (sync_part (notice_read env n b kept err answer s))"
proof -
  show "sync_ok (sync_part (notice_read env n b kept err answer s))"
    by (simp add: notice_read_def sync_ok_quiet)
  assume "sb_generation b = bn_syncGeneration s" and ok: "balance_ok (sync_part s)"
  then have "figures_of (bn_syncGeneration s) (bn_reads s) (bn_sent s) kept"
    using assms by (auto simp: balance_ok.simps sync_part_def kept_of_def dest!: all_runningD)
  then have "balance_ok (sync_part (s\<lparr>bn_sync := kept\<lparr>bs_syncPhase := p, bs_networkMode := m, bs_errorMessage := t\<rparr>\<rparr>))" for p m t
    using ok by (simp add: balance_ok.simps sync_part_def figures_of_def)
  then show "balance_ok (sync_part (notice_read env n b kept err answer s))"
    using assms by (simp add: notice_read_def balance_ok_ends)
qed

lemma resets_ok:
  "sync_ok (sync_part (forceResetBarkSyncLifecycleForTeardown s))"
  "sync_ok (sync_part (discardShownBarkBalanceForSessionChange s))"
  "sync_ok (sync_part (prepareBarkSyncForSessionOpen net s))"
  "balance_ok (sync_part s) \<Longrightarrow> balance_ok (sync_part (forceResetBarkSyncLifecycleForTeardown s))"
  "balance_ok (sync_part s) \<Longrightarrow> balance_ok (sync_part (discardShownBarkBalanceForSessionChange s))"
  "balance_ok (sync_part s) \<Longrightarrow> balance_ok (sync_part (prepareBarkSyncForSessionOpen net s))"
  by (simp_all add: reset_parts balance_ok_next idleBarkSyncSnapshot_def)
    (simp_all add: sync_part_def prepareBarkSyncForSessionOpen_def balance_ok_next)

lemma start_sync_ok:
  assumes "coalesced_flight (sync_key p) (bn_syncs s) = None"
  shows "sync_ok (sync_part (start_sync p s))"
    and "balance_ok (sync_part s) \<Longrightarrow> balance_ok (sync_part (start_sync p s))"
  using assms
  by (auto simp: sync_ok.simps balance_ok.simps sync_part_def start_sync_def kept_of_def figures_of_def
      intro!: some_runs_begin all_running_begin)

lemma orchestrateBarkSync_ok:
  "sync_ok (sync_part s) \<Longrightarrow> sync_ok (sync_part (snd (orchestrateBarkSync env p s)))"
  "balance_ok (sync_part s) \<Longrightarrow> balance_ok (sync_part (snd (orchestrateBarkSync env p s)))"
  by (auto simp: orchestrateBarkSync_def resets_ok start_sync_ok split: option.split)

lemma start_load_ok:
  "sync_ok (sync_part s) \<Longrightarrow> sync_ok (sync_part (start_load c p s))"
  "balance_ok (sync_part s) \<Longrightarrow> balance_ok (sync_part (start_load c p s))"
  by (auto simp: start_load_def Let_def resets_ok split: option.split)

lemma orchestrateBarkLoad_ok:
  "sync_ok (sync_part s) \<Longrightarrow> sync_ok (sync_part (orchestrateBarkLoad env c p s))"
  "balance_ok (sync_part s) \<Longrightarrow> balance_ok (sync_part (orchestrateBarkLoad env c p s))"
  by (auto simp: orchestrateBarkLoad_def start_load_ok split: option.split)

lemma load_resumes_ok:
  "sync_ok (sync_part s) \<Longrightarrow> sync_ok (sync_part (load_resumes c s))"
  "balance_ok (sync_part s) \<Longrightarrow> balance_ok (sync_part (load_resumes c s))"
  by (auto simp: load_resumes_def Let_def start_load_ok split: option.split prod.split)

lemma remember_ok:
  "sync_ok (sync_part s) \<Longrightarrow> sync_ok (sync_part (rememberBarkPersistedSyncTime t s))"
  "balance_ok (sync_part s) \<Longrightarrow> balance_ok (sync_part (rememberBarkPersistedSyncTime t s))"
  by (simp_all add: rememberBarkPersistedSyncTime_def sync_part_def sync_ok.simps balance_ok.simps figures_of_def)

lemma session_opened_ok:
  "sync_ok (sync_part s) \<Longrightarrow> sync_ok (sync_part (session_opened env n b answer s))"
  "balance_ok (sync_part s) \<Longrightarrow> balance_ok (sync_part (session_opened env n b answer s))"
  by (auto simp: session_opened_def Let_def resets_ok orchestrateBarkPostLoadSync_def orchestrateBarkSync_ok remember_ok
      split: sum.split)

lemma close_step_ok:
  "sync_ok (sync_part s) \<Longrightarrow> sync_ok (sync_part (close_step k kind wait s))"
  "balance_ok (sync_part s) \<Longrightarrow> balance_ok (sync_part (close_step k kind wait s))"
  by (auto simp: close_step_def close_finishes_def close_fails_def after_quiescence_def discard_shown_def
      abortBarkSessionForNetworkSwitch_def Let_def resets_ok split: closeWait.split option.split)

lemma send_ends_sync_ok:
  assumes "sync_ok (sync_part s)"
  shows "sync_ok (sync_part (send_ends c answer s))"
  using assms
  by (auto simp: send_ends_def Let_def recordBarkSpendableAfterSend_def sync_ok_quiet(3) split: sum.split option.split prod.split)

lemma send_ends_balance_ok:
  assumes "balance_ok (sync_part s)" and "list_all (\<lambda>(c', g). c' = c \<longrightarrow> g = bn_syncGeneration s) (bn_sends s)"
  shows "balance_ok (sync_part (send_ends c answer s))"
proof -
  have "balance_ok (sync_part (recordBarkSpendableAfterSend v t (s\<lparr>bn_sends := x, bn_sent := bn_sent s @ [(bn_syncGeneration s, v)]\<rparr>)))" for v t x
  proof -
    have "all_running (kept_of (bn_syncGeneration s) (bn_reads s @ []) (bn_sent s @ [(bn_syncGeneration s, v)])) (bn_syncs s)"
      using assms(1) by (auto simp only: balance_ok.simps sync_part_def intro: all_running_mono[OF _ kept_mono])
    then show ?thesis using assms(1)
      by (simp add: balance_ok.simps sync_part_def recordBarkSpendableAfterSend_def figures_of_def)
  qed
  moreover have "g = bn_syncGeneration s" if "List.find (\<lambda>(c', g). c' = c) (bn_sends s) = Some (c', g)" for c' g
    using that assms(2) by (auto simp: find_Some_iff list_all_length)
  ultimately show ?thesis using assms(1)
    by (auto simp: send_ends_def Let_def split: sum.split option.split prod.split)
qed

subsection \<open>Schedules\<close>

lemma on_wait_ok:
  assumes "P (sync_part s)" and "\<And>b g. running (bn_syncs s) n = Some b \<Longrightarrow> f b = Some g \<Longrightarrow> P (sync_part (g s))"
  shows "P (sync_part (on_wait n f s))"
  using on_wait_cases[of n f s] assms by metis

lemma settle_ok:
  "sync_ok (sync_part (s\<lparr>bn_syncs := settle_flight n (bn_syncs s)\<rparr>)) = sync_ok (sync_part s)"
  "balance_ok (sync_part (s\<lparr>bn_syncs := settle_flight n (bn_syncs s)\<rparr>)) = balance_ok (sync_part s)"
  by (simp_all add: sync_part_def sync_ok.simps balance_ok.simps)

lemma remembered_ok: "sync_part (bark_step env (KeyIndexRemembered i) s) = sync_part s"
  by (simp add: rememberBarkReceiveKeyIndex_def)

lemma lock_phase_ok:
  "sync_ok (sync_part s) \<Longrightarrow> sync_ok (sync_part (bark_step env (SessionLockPhase p) s))"
  "balance_ok (sync_part s) \<Longrightarrow> balance_ok (sync_part (bark_step env (SessionLockPhase p) s))"
  by (simp_all add: syncBarkSyncLifecycleWithLockPhase_def syncBarkLoadLifecycleWithLockPhase_def resets_ok)

lemmas session_ok = orchestrateBarkLoad_ok load_resumes_ok session_opened_ok orchestrateBarkSync_ok close_step_ok
  settle_ok remembered_ok lock_phase_ok resets_ok

lemma sync_step:
  assumes "sync_ok (sync_part s)"
  shows "sync_ok (sync_part (bark_step env e s))"
proof (cases e)
  case (WorkerSynced n answer)
  then show ?thesis using assms
    by (simp only: bark_step.simps) (rule on_wait_ok, auto simp: worker_synced_ok split: barkSyncWait.splits)
next
  case (BalanceRead n answer)
  then show ?thesis using assms
    by (simp only: bark_step.simps) (rule on_wait_ok, auto simp: balance_read_ok split: barkSyncWait.splits)
next
  case (ExitsSettled n)
  then show ?thesis using assms
    by (simp only: bark_step.simps) (rule on_wait_ok, auto simp: sync_ok_ends split: barkSyncWait.splits)
next
  case (NoticeRead n answer)
  then show ?thesis using assms
    by (simp only: bark_step.simps) (rule on_wait_ok, auto simp: notice_read_ok split: barkSyncWait.splits)
next
  case (KeyIndexRemembered i)
  then show ?thesis using assms by (simp only: remembered_ok)
next
  case (SessionLockPhase p)
  then show ?thesis using assms by (simp only: lock_phase_ok)
qed (use assms in \<open>auto simp: session_ok send_ends_sync_ok orchestrateBarkRetryLoad_def on_running_def case_prod_beta
    abortBarkSessionForNetworkSwitch_def close_call_def discard_shown_def startBarkLoadAfterUnlock_def
    refreshBarkSessionAfterNetworkSwitch_def split: option.split\<close>)

text \<open>The schedules in which no new session begins while a failed sync reads the notice of the server or
  while a payment is under way.\<close>

fun stays_in_session :: "barkEvent \<Rightarrow> barkSession \<Rightarrow> bool" where
  "stays_in_session (NoticeRead n answer) s =
     (case running (bn_syncs s) n of None \<Rightarrow> True | Some b \<Rightarrow> sb_generation b = bn_syncGeneration s)"
| "stays_in_session (SendEnds c answer) s = list_all (\<lambda>(c', g). c' = c \<longrightarrow> g = bn_syncGeneration s) (bn_sends s)"
| "stays_in_session e s = True"

lemma balance_step:
  assumes "balance_ok (sync_part s)" and "stays_in_session e s"
  shows "balance_ok (sync_part (bark_step env e s))"
proof (cases e)
  case (WorkerSynced n answer)
  then show ?thesis using assms
    by (simp only: bark_step.simps) (rule on_wait_ok, auto simp: worker_synced_ok split: barkSyncWait.splits)
next
  case (BalanceRead n answer)
  then show ?thesis using assms
    by (simp only: bark_step.simps) (rule on_wait_ok, auto simp: balance_read_ok split: barkSyncWait.splits)
next
  case (ExitsSettled n)
  then show ?thesis using assms
    by (simp only: bark_step.simps) (rule on_wait_ok, auto simp: balance_ok_ends split: barkSyncWait.splits)
next
  case (NoticeRead n answer)
  then show ?thesis using assms
    by (simp only: bark_step.simps) (rule on_wait_ok, auto simp: notice_read_ok split: barkSyncWait.splits)
next
  case (KeyIndexRemembered i)
  then show ?thesis using assms by (simp only: remembered_ok)
next
  case (SessionLockPhase p)
  then show ?thesis using assms by (simp only: lock_phase_ok)
qed (use assms in \<open>auto simp: session_ok send_ends_balance_ok orchestrateBarkRetryLoad_def on_running_def case_prod_beta
    abortBarkSessionForNetworkSwitch_def close_call_def discard_shown_def startBarkLoadAfterUnlock_def
    refreshBarkSessionAfterNetworkSwitch_def split: option.split\<close>)

interpretation bark_phases: event_invariant "bark_step env" "\<lambda>_. True" "\<lambda>s. load_ok (load_part s) \<and> sync_ok (sync_part s)"
  by unfold_locales (simp add: load_step sync_step)

interpretation bark_balance: guarded_invariant "bark_step env" stays_in_session "\<lambda>s. balance_ok (sync_part s)"
  by unfold_locales (rule balance_step)

lemma initial_session_ok:
  "load_ok (load_part (initial_bark_session enabled))" "sync_ok (sync_part (initial_bark_session enabled))"
  "balance_ok (sync_part (initial_bark_session enabled))"
  by (simp_all add: initial_bark_session_def load_part_def sync_part_def balance_ok.simps figures_none idleBarkSyncSnapshot_def)

section \<open>What the snapshots mean\<close>

definition plain_bark_env :: barkSessionEnv where
  "plain_bark_env =
     \<lparr>be_userFacingErrorMessage = (\<lambda>e. e), be_sanitizeErrorMessageForUi = (\<lambda>e. e), be_e2eRegtestControl = False\<rparr>"

definition sample_load :: "int \<Rightarrow> networkMode \<Rightarrow> barkLoadParams" where
  "sample_load w net = \<lparr>lp_walletId = w, lp_networkMode = net, lp_allowRetryFromError = False\<rparr>"

definition sample_opened :: openedSession where
  "sample_opened = \<lparr>os_receiveKeyIndex = Fin 3, os_lastSuccessfulSyncAt = None, os_exitNodeSweepVtxoItems = None\<rparr>"

definition sample_synced :: barkSyncResult where
  "sample_synced =
     \<lparr>sr_lastSuccessfulSyncAt = ''t'', sr_refreshStatus = None, sr_nextRefresh = None, sr_exitNodeSweepVtxoItems = None\<rparr>"

definition sample_balance :: "int \<Rightarrow> barkBalanceParts" where
  "sample_balance v = \<lparr>bb_spendableSats = v, bb_lockedSats = 20, bb_exitingSats = 0\<rparr>"

text \<open>A session of a wallet is opened and synced once.\<close>

definition synced_once :: "int \<Rightarrow> networkMode \<Rightarrow> int \<Rightarrow> barkEvent list" where
  "synced_once w net v =
     [LoadCalled 0 (sample_load w net), SessionOpened 0 (Inr sample_opened), LoadSettles 0,
      WorkerSynced 0 (Inr sample_synced), BalanceRead 0 (Inr (sample_balance v)), ExitsSettled 0, SyncSettles 0]"

text \<open>C32: Under every schedule of calls, answers of the worker, switches and locks, the Bark snapshots are
  truthful: loading is shown only while an opening of the current generation is under way, syncing is
  shown only while a sync of the current generation is, and a session is shown as loaded exactly when
  its receive key index is there, which then is a valid one.\<close>

theorem bark_phases_truthful:
  assumes "s = run_bark env enabled es"
  shows "(bl_loadPhase (bn_load s) = Loading \<longrightarrow>
        (\<exists>n b. running (bn_loads s) n = Some b \<and> lb_generation b = bn_loadGeneration s)) \<and>
     (bs_syncPhase (bn_sync s) = Syncing \<longrightarrow>
        (\<exists>n b. running (bn_syncs s) n = Some b \<and> sb_generation b = bn_syncGeneration s)) \<and>
     (bl_loadPhase (bn_load s) = Loaded \<longleftrightarrow>
        (\<exists>i. bl_receiveKeyIndex (bn_load s) = Some i \<and> isBarkReceiveKeyIndex (Some (VNum i))))"
proof -
  have "load_ok (load_part s) \<and> sync_ok (sync_part s)"
    unfolding assms run_bark_def
    by (rule bark_phases.run_keeps) (simp_all add: initial_session_ok list_all_iff)
  then show ?thesis
    by (auto simp: load_part_def sync_part_def load_ok.simps sync_ok.simps some_runs_def split: option.splits)
qed

lemma sample_syncing:
  "bs_syncPhase (bn_sync (run_bark plain_bark_env True (take 2 (synced_once 1 Signet 5000)))) = Syncing"
  "bl_loadPhase (bn_load (run_bark plain_bark_env True (take 1 (synced_once 1 Signet 5000)))) = Loading"
  by code_simp+

theorem bark_phases_truthful_witness:
  "(\<exists>n b. running (bn_syncs (run_bark plain_bark_env True (take 2 (synced_once 1 Signet 5000)))) n = Some b \<and>
      sb_generation b = bn_syncGeneration (run_bark plain_bark_env True (take 2 (synced_once 1 Signet 5000)))) \<and>
   (\<exists>n b. running (bn_loads (run_bark plain_bark_env True (take 1 (synced_once 1 Signet 5000)))) n = Some b \<and>
      lb_generation b = bn_loadGeneration (run_bark plain_bark_env True (take 1 (synced_once 1 Signet 5000))))"
  using bark_phases_truthful[OF refl, of plain_bark_env True "take 2 (synced_once 1 Signet 5000)"]
    bark_phases_truthful[OF refl, of plain_bark_env True "take 1 (synced_once 1 Signet 5000)"]
  unfolding sample_syncing by blast

text \<open>C10: As long as no new session begins while a failed sync reads the notice of the server or while a
  payment is under way, the balance that is shown belongs to the session: the spendable amount was read
  by a sync of the current generation or reported by a payment that began in it, and the locked and
  exiting amounts were read by a sync of the current generation, under every schedule of loads, syncs,
  failures, retries, locks and closings.\<close>

theorem bark_balance_of_session:
  assumes "admissible (bark_step env) stays_in_session es (initial_bark_session enabled)"
    and "s = run_bark env enabled es"
  shows "(\<forall>v. bs_spendableSats (bn_sync s) = Some v \<longrightarrow>
        (\<exists>b. (bn_syncGeneration s, b) \<in> set (bn_reads s) \<and> bb_spendableSats b = v) \<or> (bn_syncGeneration s, v) \<in> set (bn_sent s)) \<and>
     (\<forall>v. bs_lockedSats (bn_sync s) = Some v \<longrightarrow>
        (\<exists>b. (bn_syncGeneration s, b) \<in> set (bn_reads s) \<and> bb_lockedSats b = v)) \<and>
     (\<forall>v. bs_exitingSats (bn_sync s) = Some v \<longrightarrow>
        (\<exists>b. (bn_syncGeneration s, b) \<in> set (bn_reads s) \<and> bb_exitingSats b = v))"
proof -
  have "balance_ok (sync_part s)"
    unfolding assms(2) run_bark_def
    by (rule bark_balance.guarded_run_keeps[OF _ assms(1)]) (simp add: initial_session_ok)
  then show ?thesis by (simp add: sync_part_def balance_ok.simps figures_of_def)
qed

lemma sample_shown:
  "admissible (bark_step plain_bark_env) stays_in_session (synced_once 1 Signet 5000) (initial_bark_session True)"
  "bs_lockedSats (bn_sync (run_bark plain_bark_env True (synced_once 1 Signet 5000))) = Some 20"
  by code_simp+

theorem bark_balance_of_session_witness:
  "\<exists>b. (bn_syncGeneration (run_bark plain_bark_env True (synced_once 1 Signet 5000)), b)
      \<in> set (bn_reads (run_bark plain_bark_env True (synced_once 1 Signet 5000))) \<and> bb_lockedSats b = 20"
  using bark_balance_of_session[OF sample_shown(1) refl] sample_shown(2) by blast

text \<open>A sync of the first wallet fails and waits for the notice of the server while the user leaves the
  network and opens the session of another wallet.\<close>

definition stale_error_run :: "int \<Rightarrow> int \<Rightarrow> int \<Rightarrow> barkEvent list" where
  "stale_error_run w w' v =
     synced_once w Signet v @
     [SyncCalled 1 \<lparr>sp_walletId = w, sp_networkMode = Signet, sp_throwOnError = Some False, sp_settleExits = None\<rparr>,
      WorkerSynced 1 (Inl ''Failed to fetch''), SessionAborted, LoadCalled 2 (sample_load w' Mainnet),
      SessionOpened 1 (Inr sample_opened), NoticeRead 1 NoticeFails]"


end
