(* ===== verification/Onchain_Lifecycle.thy ===== *)
theory Onchain_Lifecycle
  imports Bark_Session Lock_Lifecycle
begin

text \<open>
  Loading and syncing the on-chain wallet:
  \<open>lib/wallet/lifecycle/onchain-load-lifecycle-orchestrator.ts\<close>,
  \<open>onchain-sync-lifecycle-orchestrator.ts\<close>, \<open>onchain-post-unlock-scan-policy.ts\<close>,
  \<open>onchain-rail-snapshot.ts\<close>, the reads of \<open>lib/wallet/onchain-bdk-store-sync.ts\<close> and of
  \<open>syncActiveWalletAndUpdateState\<close>, and the part of \<open>stores/walletStore.ts\<close> they write. The save that
  ends a sync runs in the save lifecycle. The model is a function on events, one for each stretch of
  code between two \<open>await\<close>s; the user may switch the wallet or lock it between any two of them. What
  the crypto worker, the database and Esplora answer comes with the events, and so does the moment
  in which the writer lock is granted.
\<close>

section \<open>The store\<close>

text \<open>Balance and transaction list are always written together; they are one value, of any type.
  The address, the balance and the descriptor carry the wallet they were written for, which the
  code does not keep.\<close>

record 'd walletStore =
  ws_activeWalletId :: "int option"
  ws_walletStatus :: walletStatus
  ws_currentAddress :: "(int \<times> string) option"
  ws_bdk :: "(int \<times> 'd) option"
  ws_lastSyncTime :: "string option"
  ws_loadedDescriptor :: "(int \<times> onchainRailDescriptorScope) option"
  ws_preferred :: onchainRailDescriptorScope

definition lockWallet :: "'d walletStore \<Rightarrow> 'd walletStore" where
  "lockWallet st = st\<lparr>ws_walletStatus := StatusLocked, ws_currentAddress := None, ws_bdk := None, ws_lastSyncTime := None,
     ws_loadedDescriptor := None\<rparr>"

definition commitLoadedDescriptorWallet :: "onchainRailDescriptorScope \<Rightarrow> 'd walletStore \<Rightarrow> 'd walletStore" where
  "commitLoadedDescriptorWallet scope st =
     st\<lparr>ws_loadedDescriptor := Some (od_walletId scope, scope), ws_preferred := scope\<rparr>"

definition targets_active :: "int \<Rightarrow> 'd walletStore \<Rightarrow> bool" where
  "targets_active w st \<longleftrightarrow> ws_activeWalletId st = Some w"

text \<open>\<open>refreshWalletStoreFromLoadedBdk\<close> after the reads; a wallet that is no longer active is skipped.\<close>

definition refreshWalletStoreFromLoadedBdk :: "int \<Rightarrow> 'd \<Rightarrow> 'd walletStore \<Rightarrow> 'd walletStore" where
  "refreshWalletStoreFromLoadedBdk w data st =
     (if ws_activeWalletId st \<noteq> Some w then st else st\<lparr>ws_bdk := Some (w, data)\<rparr>)"

section \<open>Loading a persisted chain\<close>

definition PERSISTED_CHAIN_MISMATCH_MARKERS :: "string list" where
  "PERSISTED_CHAIN_MISMATCH_MARKERS =
     [''Network mismatch'', ''Genesis hash mismatch'', ''could not be loaded from changeset'', ''Descriptor mismatch'']"

definition isPersistedChainMismatchError :: "string \<Rightarrow> bool" where
  "isPersistedChainMismatchError detail = list_ex (\<lambda>marker. contains_text marker detail) PERSISTED_CHAIN_MISMATCH_MARKERS"

text \<open>The operation is called with an empty chain only after it refused the stored one; the second
  component says whether it was.\<close>

definition withPersistedChainMismatchRetry :: "(bool \<Rightarrow> string + 'a) \<Rightarrow> bool \<Rightarrow> string + 'a \<times> bool" where
  "withPersistedChainMismatchRetry operation useEmptyChain =
     (case operation useEmptyChain of
        Inr r \<Rightarrow> Inr (r, False)
      | Inl err \<Rightarrow>
          if useEmptyChain then Inl err
          else if \<not> isPersistedChainMismatchError err then Inl err
          else (case operation True of Inl e \<Rightarrow> Inl e | Inr r \<Rightarrow> Inr (r, True)))"

section \<open>State\<close>

record onchainLoadSnapshot =
  os_loadPhase :: loadLifecyclePhase
  os_networkMode :: "networkMode option"
  os_errorMessage :: "string option"

definition idle_load_snapshot :: onchainLoadSnapshot where
  "idle_load_snapshot = \<lparr>os_loadPhase = LoadNotConfigured, os_networkMode = None, os_errorMessage = None\<rparr>"

record onchainSyncSnapshot =
  oy_syncPhase :: syncLifecyclePhase
  oy_descriptorScope :: "onchainRailDescriptorScope option"
  oy_errorMessage :: "string option"

definition idle_sync_snapshot :: onchainSyncSnapshot where
  "idle_sync_snapshot = \<lparr>oy_syncPhase = SyncNotConfigured, oy_descriptorScope = None, oy_errorMessage = None\<rparr>"

record onchainLoadHydration =
  lh_fullScanDone :: bool
  lh_usedEmptyChainFallback :: bool

definition onchainPostUnlockNeedsFullScan :: "onchainLoadHydration option \<Rightarrow> bool" where
  "onchainPostUnlockNeedsFullScan input =
     (case input of None \<Rightarrow> True | Some h \<Rightarrow> \<not> lh_fullScanDone h \<or> lh_usedEmptyChainFallback h)"

record onchainLoadParams =
  ol_scope :: onchainRailDescriptorScope
  ol_clearLastSyncTime :: bool
  ol_allowRetryFromError :: bool

text \<open>Where a load waits; \<open>WasmReturns\<close> is the way back from \<open>runWasmLoad\<close> to its caller.\<close>

datatype onchainLoadWait =
  HealthWaits | ResolveWaits | WasmWaits bool | AddressWaits | RefreshWaits | TimerWaits | WasmReturns "string option"

record onchainLoadBody =
  lo_params :: onchainLoadParams
  lo_wait :: onchainLoadWait

datatype onchainSyncKind =
  PostUnlock | IncrementalDashboard | FullRescanDashboard | DescriptorSwitch | SetupInitial | PostBroadcast | BarkExitCatchUp

fun sync_kind_name :: "onchainSyncKind \<Rightarrow> string" where
  "sync_kind_name PostUnlock = ''postUnlock''"
| "sync_kind_name IncrementalDashboard = ''incrementalDashboard''"
| "sync_kind_name FullRescanDashboard = ''fullRescanDashboard''"
| "sync_kind_name DescriptorSwitch = ''descriptorSwitch''"
| "sync_kind_name SetupInitial = ''setupInitial''"
| "sync_kind_name PostBroadcast = ''postBroadcast''"
| "sync_kind_name BarkExitCatchUp = ''barkExitCatchUp''"

record onchainSyncParams =
  oy_scope :: onchainRailDescriptorScope
  oy_syncKind :: onchainSyncKind
  oy_useFullScan :: bool
  oy_markFullScanDone :: "bool option"
  oy_awaitCompletion :: "bool option"
  oy_throwOnError :: "bool option"

datatype onchainSyncWait =
  LockWaits | EsploraWaits | EsploraReturns "string option" | SaveWaits nat | ErrorRefreshWaits string

record onchainSyncBody =
  so_params :: onchainSyncParams
  so_wait :: onchainSyncWait

type_synonym onchainSaves = "(onchainSaveParams, onchainRailDescriptorScope) saveOrchestrator"

record 'd onchainWorld =
  oc_store :: "'d walletStore"
  oc_otherRailSyncing :: bool
  oc_load :: onchainLoadSnapshot
  oc_hydration :: "onchainLoadHydration option"
  oc_loads :: "onchainLoadBody flightTracker"
  oc_lastLoadParams :: "onchainLoadParams option"
  oc_waitingLoads :: "(nat \<times> onchainLoadParams \<times> nat) list"
  oc_sync :: onchainSyncSnapshot
  oc_syncs :: "onchainSyncBody flightTracker"
  oc_waitingSyncs :: "(nat \<times> onchainSyncParams \<times> nat) list"
  oc_saves :: onchainSaves
  oc_outcomes :: "(nat \<times> barkCallOutcome) list"
  oc_syncErrors :: "(nat \<times> string) list"

definition initial_onchain :: "onchainRailDescriptorScope \<Rightarrow> 'd onchainWorld" where
  "initial_onchain preferred =
     \<lparr>oc_store = \<lparr>ws_activeWalletId = None, ws_walletStatus = StatusNone, ws_currentAddress = None, ws_bdk = None,
        ws_lastSyncTime = None, ws_loadedDescriptor = None, ws_preferred = preferred\<rparr>,
      oc_otherRailSyncing = False, oc_load = idle_load_snapshot, oc_hydration = None, oc_loads = createInFlightLifecycleTracker,
      oc_lastLoadParams = None, oc_waitingLoads = [], oc_sync = idle_sync_snapshot, oc_syncs = createInFlightLifecycleTracker,
      oc_waitingSyncs = [], oc_saves = createSaveLifecycleOrchestrator, oc_outcomes = [], oc_syncErrors = []\<rparr>"

definition on_store :: "('d walletStore \<Rightarrow> 'd walletStore) \<Rightarrow> 'd onchainWorld \<Rightarrow> 'd onchainWorld" where
  "on_store f s = s\<lparr>oc_store := f (oc_store s)\<rparr>"

definition oc_outcome :: "nat \<Rightarrow> barkCallOutcome \<Rightarrow> 'd onchainWorld \<Rightarrow> 'd onchainWorld" where
  "oc_outcome c r s = s\<lparr>oc_outcomes := oc_outcomes s @ [(c, r)]\<rparr>"

definition wallet_active :: "int \<Rightarrow> 'd onchainWorld \<Rightarrow> bool" where
  "wallet_active w s = targets_active w (oc_store s)"

section \<open>Snapshots and scopes\<close>

definition oc_message :: "(string \<Rightarrow> string) \<Rightarrow> string \<Rightarrow> string \<Rightarrow> string" where
  "oc_message shown err fallback = (if shown err = [] then fallback else shown err)"

definition configureOnchainSyncForLoadedRail ::
  "(string \<Rightarrow> string) \<Rightarrow> onchainRailDescriptorScope \<Rightarrow> 'd onchainWorld \<Rightarrow> 'd onchainWorld" where
  "configureOnchainSyncForLoadedRail shown scope s =
     (if od_networkMode scope = Lab then s
      else if oy_syncPhase (oc_sync s) \<noteq> SyncNotConfigured \<and>
              map_option od_walletId (oy_descriptorScope (oc_sync s)) = Some (od_walletId scope) then s
      else s\<lparr>oc_sync := \<lparr>oy_syncPhase = NotSyncing, oy_descriptorScope = Some scope, oy_errorMessage = None\<rparr>,
             oc_saves := configureSaveForLoadedRail (onchainSaveLifecycle shown) scope (oc_saves s)\<rparr>)"

definition detachOnchainLoadSnapshotIfDifferentWallet :: "int \<Rightarrow> 'd onchainWorld \<Rightarrow> 'd onchainWorld" where
  "detachOnchainLoadSnapshotIfDifferentWallet w s =
     (if os_loadPhase (oc_load s) = LoadNotConfigured then s
      else if map_option (od_walletId \<circ> ol_scope) (oc_lastLoadParams s) = Some w then s
      else s\<lparr>oc_hydration := None, oc_load := idle_load_snapshot\<rparr>)"

definition detachOnchainSyncSnapshotIfDifferentWallet :: "int \<Rightarrow> 'd onchainWorld \<Rightarrow> 'd onchainWorld" where
  "detachOnchainSyncSnapshotIfDifferentWallet w s =
     (case oy_descriptorScope (oc_sync s) of
        None \<Rightarrow> s
      | Some scope \<Rightarrow> if od_walletId scope = w then s else s\<lparr>oc_sync := idle_sync_snapshot\<rparr>)"

definition syncOnchainLoadLifecycleWithLockPhase :: "lockLifecyclePhase \<Rightarrow> 'd onchainWorld \<Rightarrow> 'd onchainWorld" where
  "syncOnchainLoadLifecycleWithLockPhase lockPhase s =
     (if shouldSkipRailLifecycleResetForLockPhase lockPhase (ft_inFlight (oc_loads s) \<noteq> None) then s
      else s\<lparr>oc_load := idle_load_snapshot, oc_hydration := None\<rparr>)"

definition syncOnchainSyncLifecycleWithLockPhase :: "lockLifecyclePhase \<Rightarrow> 'd onchainWorld \<Rightarrow> 'd onchainWorld" where
  "syncOnchainSyncLifecycleWithLockPhase lockPhase s =
     (if shouldSkipRailLifecycleResetForLockPhase lockPhase (ft_inFlight (oc_syncs s) \<noteq> None) then s
      else s\<lparr>oc_sync := idle_sync_snapshot\<rparr>)"

text \<open>What the dashboard shows of the rail.\<close>

definition getOnchainRailSnapshot :: "'d onchainWorld \<Rightarrow> loadLifecyclePhase \<times> syncLifecyclePhase \<times> saveLifecyclePhase" where
  "getOnchainRailSnapshot s =
     (let loadPhase = os_loadPhase (oc_load s); savePhase = sn_savePhase (so_snapshot (oc_saves s))
      in if loadPhase = LoadNotConfigured then (LoadNotConfigured, SyncNotConfigured, SaveNotConfigured)
         else if loadPhase = LoadError then (LoadError, SyncNotConfigured, SaveNotConfigured)
         else if os_networkMode (oc_load s) = Some Lab
         then (loadPhase, SyncNotConfigured, if savePhase = SaveNotConfigured then NotSaving else savePhase)
         else (loadPhase, oy_syncPhase (oc_sync s), savePhase))"

definition getLocalOnchainRailDescriptorScope :: "'d onchainWorld \<Rightarrow> onchainRailDescriptorScope option" where
  "getLocalOnchainRailDescriptorScope s =
     (if os_loadPhase (oc_load s) \<noteq> Loaded \<or> os_networkMode (oc_load s) = None then None
      else map_option (\<lambda>w.
             (case ws_loadedDescriptor (oc_store s) of Some (_, d) \<Rightarrow> d | None \<Rightarrow> ws_preferred (oc_store s))\<lparr>od_walletId := w\<rparr>)
           (ws_activeWalletId (oc_store s)))"

definition localDescriptorScopeMatchesRemote :: "onchainRailDescriptorScope \<Rightarrow> 'd onchainWorld \<Rightarrow> bool" where
  "localDescriptorScopeMatchesRemote remote s = (getLocalOnchainRailDescriptorScope s = Some remote)"

section \<open>Loading\<close>

definition isOnchainLoadFailedForNetwork :: "networkMode \<Rightarrow> 'd onchainWorld \<Rightarrow> bool" where
  "isOnchainLoadFailedForNetwork net s \<longleftrightarrow> os_loadPhase (oc_load s) = LoadError \<and> os_networkMode (oc_load s) = Some net"

definition abandonOnchainLoadIfActiveWalletChanged :: "int \<Rightarrow> 'd onchainWorld \<Rightarrow> bool \<times> 'd onchainWorld" where
  "abandonOnchainLoadIfActiveWalletChanged w s =
     (if wallet_active w s then (False, s)
      else (True,
            if os_loadPhase (oc_load s) = Loading \<and> map_option (od_walletId \<circ> ol_scope) (oc_lastLoadParams s) = Some w
            then s\<lparr>oc_load := idle_load_snapshot\<rparr> else s))"

definition oc_load_key :: "onchainLoadParams \<Rightarrow> string" where
  "oc_load_key params = onchainRailDescriptorScopeKey (ol_scope params)"

definition oc_start_load :: "nat \<Rightarrow> onchainLoadParams \<Rightarrow> 'd onchainWorld \<Rightarrow> 'd onchainWorld" where
  "oc_start_load c params s =
     (case coalesced_flight (oc_load_key params) (oc_loads s) of
        Some n \<Rightarrow> oc_outcome c (CallFollows n) s
      | None \<Rightarrow> oc_outcome c (CallFollows (length (ft_flights (oc_loads s))))
          (s\<lparr>oc_loads := begin_flight (oc_load_key params) \<lparr>lo_params = params, lo_wait = HealthWaits\<rparr> (oc_loads s),
             oc_load := \<lparr>os_loadPhase = Loading, os_networkMode = Some (od_networkMode (ol_scope params)),
                         os_errorMessage = None\<rparr>\<rparr>))"

definition orchestrateOnchainLoad :: "nat \<Rightarrow> onchainLoadParams \<Rightarrow> 'd onchainWorld \<Rightarrow> 'd onchainWorld" where
  "orchestrateOnchainLoad c params s =
     (if isOnchainLoadFailedForNetwork (od_networkMode (ol_scope params)) s \<and> \<not> ol_allowRetryFromError params
      then oc_outcome c CallReturns s
      else let s' = s\<lparr>oc_lastLoadParams := Some (params\<lparr>ol_allowRetryFromError := False\<rparr>)\<rparr>
           in case coalesced_flight (oc_load_key params) (oc_loads s') of
                Some n \<Rightarrow> oc_outcome c (CallFollows n) s'
              | None \<Rightarrow> (case different_flight (oc_load_key params) (oc_loads s') of
                  Some n \<Rightarrow> oc_outcome c (CallWaits n) (s'\<lparr>oc_waitingLoads := oc_waitingLoads s' @ [(c, params, n)]\<rparr>)
                | None \<Rightarrow> oc_start_load c params s'))"

definition orchestrateOnchainRetryLoad :: "nat \<Rightarrow> 'd onchainWorld \<Rightarrow> 'd onchainWorld" where
  "orchestrateOnchainRetryLoad c s =
     (case oc_lastLoadParams s of
        None \<Rightarrow> oc_outcome c (CallThrows ''No on-chain load to retry'') s
      | Some params \<Rightarrow> orchestrateOnchainLoad c (params\<lparr>ol_allowRetryFromError := True\<rparr>) s)"

definition oc_load_resumes :: "nat \<Rightarrow> 'd onchainWorld \<Rightarrow> 'd onchainWorld" where
  "oc_load_resumes c s =
     (case List.find (\<lambda>(c', p, n). c' = c) (oc_waitingLoads s) of
        None \<Rightarrow> s
      | Some (c', params, n) \<Rightarrow>
          if \<not> has_settled (oc_loads s) n then s
          else oc_start_load c params (s\<lparr>oc_waitingLoads := filter (\<lambda>(c', p, n). c' \<noteq> c) (oc_waitingLoads s)\<rparr>))"

definition load_waits :: "nat \<Rightarrow> onchainLoadBody \<Rightarrow> onchainLoadWait \<Rightarrow> 'd onchainWorld \<Rightarrow> 'd onchainWorld" where
  "load_waits n b wait s = s\<lparr>oc_loads := set_flight n (FlightRunning (b\<lparr>lo_wait := wait\<rparr>)) (oc_loads s)\<rparr>"

definition load_wallet :: "onchainLoadBody \<Rightarrow> int" where
  "load_wallet b = od_walletId (ol_scope (lo_params b))"

text \<open>Each wait of \<open>runWasmLoad\<close>: an error goes back to the caller, and so does a load whose wallet is
  no longer active.\<close>

definition load_answered ::
  "nat \<Rightarrow> onchainLoadBody \<Rightarrow> string + 'a \<Rightarrow> ('a \<Rightarrow> 'd onchainWorld \<Rightarrow> onchainLoadWait \<times> 'd onchainWorld) \<Rightarrow>
   'd onchainWorld \<Rightarrow> 'd onchainWorld" where
  "load_answered n b answer go_on s =
     (case answer of
        Inl err \<Rightarrow> load_waits n b (WasmReturns (Some err)) s
      | Inr x \<Rightarrow> if \<not> wallet_active (load_wallet b) s then load_waits n b (WasmReturns None) s
                 else case go_on x s of (wait, s') \<Rightarrow> load_waits n b wait s')"

definition descriptor_resolved :: "onchainLoadBody \<Rightarrow> bool \<Rightarrow> 'd onchainWorld \<Rightarrow> onchainLoadWait \<times> 'd onchainWorld" where
  "descriptor_resolved b fullScanDone s =
     (WasmWaits fullScanDone,
      on_store (\<lambda>st. st\<lparr>ws_currentAddress := None, ws_bdk := None,
        ws_lastSyncTime := (if ol_clearLastSyncTime (lo_params b) then None else ws_lastSyncTime st)\<rparr>) s)"

definition wallet_loaded :: "bool \<Rightarrow> bool \<Rightarrow> 'd onchainWorld \<Rightarrow> onchainLoadWait \<times> 'd onchainWorld" where
  "wallet_loaded fullScanDone usedEmptyChainFallback s =
     (AddressWaits,
      s\<lparr>oc_hydration := Some \<lparr>lh_fullScanDone = fullScanDone, lh_usedEmptyChainFallback = usedEmptyChainFallback\<rparr>\<rparr>)"

definition address_read :: "onchainLoadBody \<Rightarrow> string \<Rightarrow> 'd onchainWorld \<Rightarrow> onchainLoadWait \<times> 'd onchainWorld" where
  "address_read b address s =
     (let scope = ol_scope (lo_params b)
      in (if od_networkMode scope \<noteq> Lab then RefreshWaits else TimerWaits,
          on_store (\<lambda>st. (commitLoadedDescriptorWallet scope (st\<lparr>ws_currentAddress := Some (od_walletId scope, address)\<rparr>))
            \<lparr>ws_walletStatus := StatusUnlocked\<rparr>) s))"

text \<open>The refresh checks the wallet itself, the load once more after it.\<close>

definition load_refreshed :: "nat \<Rightarrow> onchainLoadBody \<Rightarrow> string + 'd \<Rightarrow> 'd onchainWorld \<Rightarrow> 'd onchainWorld" where
  "load_refreshed n b answer s =
     load_answered n b answer (\<lambda>_ s. (TimerWaits, s))
       (case answer of Inl _ \<Rightarrow> s | Inr data \<Rightarrow> on_store (refreshWalletStoreFromLoadedBdk (load_wallet b) data) s)"

definition end_onchain_load :: "nat \<Rightarrow> string option \<Rightarrow> 'd onchainWorld \<Rightarrow> 'd onchainWorld" where
  "end_onchain_load n e s = s\<lparr>oc_loads := set_flight n (FlightEnded e) (oc_loads s)\<rparr>"

definition load_returns :: "(string \<Rightarrow> string) \<Rightarrow> nat \<Rightarrow> onchainLoadBody \<Rightarrow> string option \<Rightarrow> 'd onchainWorld \<Rightarrow> 'd onchainWorld" where
  "load_returns shown n b result s =
     (let scope = ol_scope (lo_params b); net = od_networkMode scope
      in case abandonOnchainLoadIfActiveWalletChanged (load_wallet b) s of (abandoned, s') \<Rightarrow>
           if abandoned then end_onchain_load n result s'
           else case result of
             None \<Rightarrow> end_onchain_load n None
               (let loaded = s'\<lparr>oc_load := \<lparr>os_loadPhase = Loaded, os_networkMode = Some net, os_errorMessage = None\<rparr>\<rparr>
                in if net \<noteq> Lab then configureOnchainSyncForLoadedRail shown scope loaded else loaded)
           | Some err \<Rightarrow> end_onchain_load n (Some err)
               (s'\<lparr>oc_load := \<lparr>os_loadPhase = LoadError, os_networkMode = Some net,
                    os_errorMessage = Some (oc_message shown err LIFECYCLE_LOAD_ERROR_FALLBACK)\<rparr>\<rparr>))"

definition markOnchainRailLoadedAfterExternalHydration ::
  "(string \<Rightarrow> string) \<Rightarrow> onchainRailDescriptorScope \<Rightarrow> 'd onchainWorld \<Rightarrow> 'd onchainWorld" where
  "markOnchainRailLoadedAfterExternalHydration shown scope s =
     (let net = od_networkMode scope
      in if os_loadPhase (oc_load s) = Loaded \<and> os_networkMode (oc_load s) = Some net \<and> ft_inFlight (oc_loads s) = None then s
         else if ft_inFlight (oc_loads s) \<noteq> None then s
         else let loaded = s\<lparr>oc_load := \<lparr>os_loadPhase = Loaded, os_networkMode = Some net, os_errorMessage = None\<rparr>\<rparr>
              in if net \<noteq> Lab then configureOnchainSyncForLoadedRail shown scope loaded else loaded)"

section \<open>Syncing\<close>

definition oc_sync_key :: "onchainSyncParams \<Rightarrow> string" where
  "oc_sync_key params = onchainRailDescriptorScopeKey (oy_scope params) @ '':'' @ sync_kind_name (oy_syncKind params)"

definition oc_sync_throws :: "onchainSyncParams \<Rightarrow> bool" where
  "oc_sync_throws params = (case oy_throwOnError params of Some b \<Rightarrow> b | None \<Rightarrow> oy_awaitCompletion params \<noteq> Some False)"

definition isAnyRailSyncing :: "'d onchainWorld \<Rightarrow> bool" where
  "isAnyRailSyncing s \<longleftrightarrow> oy_syncPhase (oc_sync s) = Syncing \<or> oc_otherRailSyncing s"

definition assertCanStartOnchainSync :: "onchainSyncParams \<Rightarrow> 'd onchainWorld \<Rightarrow> string option" where
  "assertCanStartOnchainSync params s =
     (if od_networkMode (oy_scope params) = Lab then Some ''On-chain sync is not configured on lab network''
      else if os_loadPhase (oc_load s) \<noteq> Loaded then Some ''On-chain sync requires loaded WASM wallet''
      else if \<not> (ws_walletStatus (oc_store s) = StatusUnlocked \<or> isAnyRailSyncing s)
      then Some ''On-chain sync requires unlocked wallet''
      else None)"

definition toSaveParams :: "onchainSyncParams \<Rightarrow> onchainSaveParams" where
  "toSaveParams params =
     \<lparr>op_walletId = od_walletId (oy_scope params), op_networkMode = od_networkMode (oy_scope params),
      op_addressType = od_addressType (oy_scope params), op_accountId = od_accountId (oy_scope params),
      op_markFullScanDone = oy_markFullScanDone params\<rparr>"

definition clearOnchainSyncSnapshotIfItBelongsToWallet :: "int \<Rightarrow> 'd onchainWorld \<Rightarrow> 'd onchainWorld" where
  "clearOnchainSyncSnapshotIfItBelongsToWallet w s =
     (if map_option od_walletId (oy_descriptorScope (oc_sync s)) \<noteq> Some w then s else s\<lparr>oc_sync := idle_sync_snapshot\<rparr>)"

definition sync_wallet :: "onchainSyncBody \<Rightarrow> int" where
  "sync_wallet b = od_walletId (oy_scope (so_params b))"

definition oc_sync_waits :: "nat \<Rightarrow> onchainSyncBody \<Rightarrow> onchainSyncWait \<Rightarrow> 'd onchainWorld \<Rightarrow> 'd onchainWorld" where
  "oc_sync_waits n b wait s = s\<lparr>oc_syncs := set_flight n (FlightRunning (b\<lparr>so_wait := wait\<rparr>)) (oc_syncs s)\<rparr>"

definition end_onchain_sync :: "nat \<Rightarrow> string option \<Rightarrow> 'd onchainWorld \<Rightarrow> 'd onchainWorld" where
  "end_onchain_sync n e s = s\<lparr>oc_syncs := set_flight n (FlightEnded e) (oc_syncs s)\<rparr>"

text \<open>A sync begins by waiting for the writer lock, unless its wallet is not the active one.\<close>

definition oc_start_sync :: "nat \<Rightarrow> onchainSyncParams \<Rightarrow> 'd onchainWorld \<Rightarrow> 'd onchainWorld" where
  "oc_start_sync c params s =
     (case coalesced_flight (oc_sync_key params) (oc_syncs s) of
        Some n \<Rightarrow> oc_outcome c (CallFollows n) s
      | None \<Rightarrow>
          let n = length (ft_flights (oc_syncs s));
              begun = s\<lparr>oc_syncs := begin_flight (oc_sync_key params) \<lparr>so_params = params, so_wait = LockWaits\<rparr> (oc_syncs s)\<rparr>
          in oc_outcome c (CallFollows n)
               (if \<not> wallet_active (od_walletId (oy_scope params)) s then end_onchain_sync n None begun else begun))"

definition orchestrateOnchainSyncThenSave :: "nat \<Rightarrow> onchainSyncParams \<Rightarrow> 'd onchainWorld \<Rightarrow> 'd onchainWorld" where
  "orchestrateOnchainSyncThenSave c params s =
     (case coalesced_flight (oc_sync_key params) (oc_syncs s) of
        Some n \<Rightarrow> oc_outcome c (CallFollows n) s
      | None \<Rightarrow> (case different_flight (oc_sync_key params) (oc_syncs s) of
          Some n \<Rightarrow> oc_outcome c (CallWaits n) (s\<lparr>oc_waitingSyncs := oc_waitingSyncs s @ [(c, params, n)]\<rparr>)
        | None \<Rightarrow> oc_start_sync c params s))"

definition oc_sync_resumes :: "nat \<Rightarrow> 'd onchainWorld \<Rightarrow> 'd onchainWorld" where
  "oc_sync_resumes c s =
     (case List.find (\<lambda>(c', p, n). c' = c) (oc_waitingSyncs s) of
        None \<Rightarrow> s
      | Some (c', params, n) \<Rightarrow>
          if \<not> has_settled (oc_syncs s) n then s
          else oc_start_sync c params (s\<lparr>oc_waitingSyncs := filter (\<lambda>(c', p, n). c' \<noteq> c) (oc_waitingSyncs s)\<rparr>))"

text \<open>The lock is granted.\<close>

definition sync_locked :: "(string \<Rightarrow> string) \<Rightarrow> nat \<Rightarrow> onchainSyncBody \<Rightarrow> 'd onchainWorld \<Rightarrow> 'd onchainWorld" where
  "sync_locked shown n b s =
     (let scope = oy_scope (so_params b)
      in if \<not> wallet_active (sync_wallet b) s
         then end_onchain_sync n None (clearOnchainSyncSnapshotIfItBelongsToWallet (sync_wallet b) s)
         else case assertCanStartOnchainSync (so_params b) s of
                Some err \<Rightarrow> end_onchain_sync n (Some err) s
              | None \<Rightarrow> oc_sync_waits n b EsploraWaits
                  ((configureOnchainSyncForLoadedRail shown scope s)
                     \<lparr>oc_sync := \<lparr>oy_syncPhase = Syncing, oy_descriptorScope = Some scope, oy_errorMessage = None\<rparr>\<rparr>))"

text \<open>\<open>syncActiveWalletAndUpdateState\<close> ends: the reads are shown if the wallet is still the active one.\<close>

definition esplora_synced :: "nat \<Rightarrow> onchainSyncBody \<Rightarrow> string + 'd \<Rightarrow> 'd onchainWorld \<Rightarrow> 'd onchainWorld" where
  "esplora_synced n b answer s =
     (case answer of
        Inl err \<Rightarrow> oc_sync_waits n b (EsploraReturns (Some err)) s
      | Inr data \<Rightarrow> oc_sync_waits n b (EsploraReturns None)
          (on_store (\<lambda>st. if targets_active (sync_wallet b) st then st\<lparr>ws_bdk := Some (sync_wallet b, data)\<rparr> else st) s))"

definition sync_error :: "(string \<Rightarrow> string) \<Rightarrow> nat \<Rightarrow> onchainSyncBody \<Rightarrow> string \<Rightarrow> 'd onchainWorld \<Rightarrow> 'd onchainWorld" where
  "sync_error shown n b err s =
     (if \<not> wallet_active (sync_wallet b) s
      then end_onchain_sync n None (clearOnchainSyncSnapshotIfItBelongsToWallet (sync_wallet b) s)
      else oc_sync_waits n b (ErrorRefreshWaits err)
             (s\<lparr>oc_sync := \<lparr>oy_syncPhase = SyncError, oy_descriptorScope = Some (oy_scope (so_params b)),
                  oy_errorMessage = Some (oc_message shown err LIFECYCLE_SYNC_ERROR_FALLBACK)\<rparr>\<rparr>))"

definition esplora_returns ::
  "(string \<Rightarrow> string) \<Rightarrow> nat \<Rightarrow> onchainSyncBody \<Rightarrow> string option \<Rightarrow> string \<Rightarrow> 'd onchainWorld \<Rightarrow> 'd onchainWorld" where
  "esplora_returns shown n b result now s =
     (case result of
        Some err \<Rightarrow> sync_error shown n b err s
      | None \<Rightarrow>
          if \<not> wallet_active (sync_wallet b) s
          then end_onchain_sync n None (clearOnchainSyncSnapshotIfItBelongsToWallet (sync_wallet b) s)
          else let cfg = onchainSaveLifecycle shown; params = toSaveParams (so_params b);
                   joined = getCoalescedInFlightPromise (cfg_saveKey cfg params) (oc_saves s);
                   shown' = s\<lparr>oc_sync := \<lparr>oy_syncPhase = NotSyncing, oy_descriptorScope = Some (oy_scope (so_params b)),
                                          oy_errorMessage = None\<rparr>,
                              oc_saves := orchestrateSave cfg n params (oc_saves s)\<rparr>
               in (case joined of
                     Some k \<Rightarrow> oc_sync_waits n b (SaveWaits k) shown'
                   | None \<Rightarrow> oc_sync_waits n b (SaveWaits (length (so_works (oc_saves s))))
                       (on_store (\<lambda>st. st\<lparr>ws_lastSyncTime := Some now\<rparr>) shown')))"

text \<open>The save that a sync waits for has settled; its error is the error of the sync when the sync
  throws, and is dropped otherwise.\<close>

definition sync_saved :: "(string \<Rightarrow> string) \<Rightarrow> nat \<Rightarrow> onchainSyncBody \<Rightarrow> nat \<Rightarrow> 'd onchainWorld \<Rightarrow> 'd onchainWorld" where
  "sync_saved shown n b k s =
     (if length (so_works (oc_saves s)) \<le> k then s
      else case wk_stage (so_works (oc_saves s) ! k) of
             Settled None \<Rightarrow> end_onchain_sync n None s
           | Settled (Some err) \<Rightarrow> if oc_sync_throws (so_params b) then sync_error shown n b err s else end_onchain_sync n None s
           | _ \<Rightarrow> s)"

definition error_refreshed :: "nat \<Rightarrow> onchainSyncBody \<Rightarrow> string \<Rightarrow> string + 'd \<Rightarrow> 'd onchainWorld \<Rightarrow> 'd onchainWorld" where
  "error_refreshed n b err answer s =
     end_onchain_sync n (if oc_sync_throws (so_params b) then Some err else None)
       ((case answer of Inl _ \<Rightarrow> s | Inr data \<Rightarrow> on_store (refreshWalletStoreFromLoadedBdk (sync_wallet b) data) s)
          \<lparr>oc_syncErrors := oc_syncErrors s @ [(n, err)]\<rparr>)"

definition orchestrateOnchainPostUnlockSync ::
  "nat \<Rightarrow> onchainRailDescriptorScope \<Rightarrow> bool option \<Rightarrow> bool option \<Rightarrow> 'd onchainWorld \<Rightarrow> 'd onchainWorld" where
  "orchestrateOnchainPostUnlockSync c scope await useFullScan s =
     (let awaitCompletion = (case await of None \<Rightarrow> False | Some b \<Rightarrow> b);
          fullScan = (case useFullScan of Some b \<Rightarrow> b | None \<Rightarrow> onchainPostUnlockNeedsFullScan (oc_hydration s))
      in orchestrateOnchainSyncThenSave c
           \<lparr>oy_scope = scope, oy_syncKind = PostUnlock, oy_useFullScan = fullScan, oy_markFullScanDone = Some fullScan,
            oy_awaitCompletion = Some awaitCompletion, oy_throwOnError = Some awaitCompletion\<rparr> s)"

section \<open>Switching the wallet\<close>

text \<open>The last stretch of \<open>prepareActiveWalletSwitch\<close>, \<open>activateNewWallet\<close> with the clearing
  before it, the end of a deletion, and the choice of the only wallet when none is active.\<close>

definition rails_locked :: "lockLifecyclePhase \<Rightarrow> 'd onchainWorld \<Rightarrow> 'd onchainWorld" where
  "rails_locked p s =
     (let s' = syncOnchainSyncLifecycleWithLockPhase p (syncOnchainLoadLifecycleWithLockPhase p s)
      in s'\<lparr>oc_saves := syncSaveLifecycleWithLockPhase p (oc_saves s')\<rparr>)"

definition releasePreviousWalletDashboardSession :: "int \<Rightarrow> 'd onchainWorld \<Rightarrow> 'd onchainWorld" where
  "releasePreviousWalletDashboardSession w s =
     detachOnchainSyncSnapshotIfDifferentWallet w (detachOnchainLoadSnapshotIfDifferentWallet w s)"

definition prepareActiveWalletSwitch :: "int \<Rightarrow> 'd onchainWorld \<Rightarrow> 'd onchainWorld" where
  "prepareActiveWalletSwitch w s =
     on_store (\<lambda>st. (lockWallet st)\<lparr>ws_activeWalletId := Some w\<rparr>)
       (rails_locked Locked (releasePreviousWalletDashboardSession w s))"

definition activateNewWallet :: "int \<Rightarrow> string \<Rightarrow> 'd onchainWorld \<Rightarrow> 'd onchainWorld" where
  "activateNewWallet w firstAddress s =
     on_store (\<lambda>st. (commitLoadedDescriptorWallet ((ws_preferred st)\<lparr>od_walletId := w\<rparr>)
         (st\<lparr>ws_activeWalletId := Some w, ws_currentAddress := Some (w, firstAddress)\<rparr>))\<lparr>ws_walletStatus := StatusUnlocked\<rparr>)
       (releasePreviousWalletDashboardSession w
         (on_store (\<lambda>st. st\<lparr>ws_bdk := None, ws_lastSyncTime := None, ws_currentAddress := None\<rparr>) s))"

definition finalizeWalletDeletion :: "int option \<Rightarrow> 'd onchainWorld \<Rightarrow> 'd onchainWorld" where
  "finalizeWalletDeletion nextActive =
     on_store (\<lambda>st. case nextActive of
         None \<Rightarrow> (lockWallet st)\<lparr>ws_walletStatus := StatusNone, ws_activeWalletId := None\<rparr>
       | Some w \<Rightarrow> (lockWallet st)\<lparr>ws_activeWalletId := Some w\<rparr>)"

definition only_wallet_chosen :: "int \<Rightarrow> 'd onchainWorld \<Rightarrow> 'd onchainWorld" where
  "only_wallet_chosen w = on_store (\<lambda>st. if ws_activeWalletId st = None then st\<lparr>ws_activeWalletId := Some w\<rparr> else st)"

section \<open>Events\<close>

datatype 'd onchainEvent =
  OnchainLoadCalled nat onchainLoadParams
  | OnchainLoadRetried nat
  | OnchainLoadResumes nat
  | WorkerHealthy nat "string + unit"
  | DescriptorResolved nat "string + bool"
  | WalletLoaded nat "string + unit" "string + unit"
  | AddressRead nat "string + string"
  | BdkRead nat "string + 'd"
  | TimerImported nat "string + unit"
  | OnchainLoadReturns nat
  | OnchainLoadSettles nat
  | HydratedElsewhere onchainRailDescriptorScope
  | OnchainSyncCalled nat onchainSyncParams
  | OnchainPostUnlock nat onchainRailDescriptorScope "bool option" "bool option"
  | OnchainSyncResumes nat
  | WriterLockGranted nat
  | EsploraSynced nat "string + 'd"
  | EsploraReturned nat string
  | SaveSettled nat
  | ErrorRefreshed nat "string + 'd"
  | OnchainSyncSettles nat
  | SaveProceeds "(onchainSaveParams, onchainRailDescriptorScope) saveEvent"
  | OtherRailSyncs bool
  | RailsLockPhase lockLifecyclePhase
  | StoreLocked
  | WalletSwitched int
  | NewWalletActivated int string
  | WalletDeleted "int option"
  | OnlyWalletChosen int

definition on_load :: "nat \<Rightarrow> (onchainLoadBody \<Rightarrow> ('d onchainWorld \<Rightarrow> 'd onchainWorld) option) \<Rightarrow> 'd onchainWorld \<Rightarrow> 'd onchainWorld" where
  "on_load n f s = on_running (oc_loads s) n (\<lambda>b s. case f b of None \<Rightarrow> s | Some g \<Rightarrow> g s) s"

definition on_sync :: "nat \<Rightarrow> (onchainSyncBody \<Rightarrow> ('d onchainWorld \<Rightarrow> 'd onchainWorld) option) \<Rightarrow> 'd onchainWorld \<Rightarrow> 'd onchainWorld" where
  "on_sync n f s = on_running (oc_syncs s) n (\<lambda>b s. case f b of None \<Rightarrow> s | Some g \<Rightarrow> g s) s"

fun onchain_step :: "(string \<Rightarrow> string) \<Rightarrow> 'd onchainEvent \<Rightarrow> 'd onchainWorld \<Rightarrow> 'd onchainWorld" where
  "onchain_step shown (OnchainLoadCalled c params) s = orchestrateOnchainLoad c params s"
| "onchain_step shown (OnchainLoadRetried c) s = orchestrateOnchainRetryLoad c s"
| "onchain_step shown (OnchainLoadResumes c) s = oc_load_resumes c s"
| "onchain_step shown (WorkerHealthy n answer) s =
     on_load n (\<lambda>b. case lo_wait b of HealthWaits \<Rightarrow> Some (load_answered n b answer (\<lambda>_ s. (ResolveWaits, s))) | _ \<Rightarrow> None) s"
| "onchain_step shown (DescriptorResolved n answer) s =
     on_load n (\<lambda>b. case lo_wait b of ResolveWaits \<Rightarrow> Some (load_answered n b answer (descriptor_resolved b)) | _ \<Rightarrow> None) s"
| "onchain_step shown (WalletLoaded n first second) s =
     on_load n (\<lambda>b. case lo_wait b of
         WasmWaits fullScanDone \<Rightarrow>
           Some (load_answered n b (withPersistedChainMismatchRetry (\<lambda>empty. if empty then second else first) False)
             (\<lambda>(_, fallback). wallet_loaded fullScanDone fallback))
       | _ \<Rightarrow> None) s"
| "onchain_step shown (AddressRead n answer) s =
     on_load n (\<lambda>b. case lo_wait b of AddressWaits \<Rightarrow> Some (load_answered n b answer (address_read b)) | _ \<Rightarrow> None) s"
| "onchain_step shown (BdkRead n answer) s =
     on_load n (\<lambda>b. case lo_wait b of RefreshWaits \<Rightarrow> Some (load_refreshed n b answer) | _ \<Rightarrow> None) s"
| "onchain_step shown (TimerImported n answer) s =
     on_load n (\<lambda>b. case lo_wait b of
         TimerWaits \<Rightarrow> Some (load_waits n b (WasmReturns (case answer of Inl err \<Rightarrow> Some err | Inr _ \<Rightarrow> None)))
       | _ \<Rightarrow> None) s"
| "onchain_step shown (OnchainLoadReturns n) s =
     on_load n (\<lambda>b. case lo_wait b of WasmReturns result \<Rightarrow> Some (load_returns shown n b result) | _ \<Rightarrow> None) s"
| "onchain_step shown (OnchainLoadSettles n) s = s\<lparr>oc_loads := settle_flight n (oc_loads s)\<rparr>"
| "onchain_step shown (HydratedElsewhere scope) s = markOnchainRailLoadedAfterExternalHydration shown scope s"
| "onchain_step shown (OnchainSyncCalled c params) s = orchestrateOnchainSyncThenSave c params s"
| "onchain_step shown (OnchainPostUnlock c scope await fullScan) s = orchestrateOnchainPostUnlockSync c scope await fullScan s"
| "onchain_step shown (OnchainSyncResumes c) s = oc_sync_resumes c s"
| "onchain_step shown (WriterLockGranted n) s =
     on_sync n (\<lambda>b. case so_wait b of LockWaits \<Rightarrow> Some (sync_locked shown n b) | _ \<Rightarrow> None) s"
| "onchain_step shown (EsploraSynced n answer) s =
     on_sync n (\<lambda>b. case so_wait b of EsploraWaits \<Rightarrow> Some (esplora_synced n b answer) | _ \<Rightarrow> None) s"
| "onchain_step shown (EsploraReturned n now) s =
     on_sync n (\<lambda>b. case so_wait b of EsploraReturns result \<Rightarrow> Some (esplora_returns shown n b result now) | _ \<Rightarrow> None) s"
| "onchain_step shown (SaveSettled n) s =
     on_sync n (\<lambda>b. case so_wait b of SaveWaits k \<Rightarrow> Some (sync_saved shown n b k) | _ \<Rightarrow> None) s"
| "onchain_step shown (ErrorRefreshed n answer) s =
     on_sync n (\<lambda>b. case so_wait b of ErrorRefreshWaits err \<Rightarrow> Some (error_refreshed n b err answer) | _ \<Rightarrow> None) s"
| "onchain_step shown (OnchainSyncSettles n) s = s\<lparr>oc_syncs := settle_flight n (oc_syncs s)\<rparr>"
| "onchain_step shown (SaveProceeds e) s = s\<lparr>oc_saves := save_step (onchainSaveLifecycle shown) e (oc_saves s)\<rparr>"
| "onchain_step shown (OtherRailSyncs on) s = s\<lparr>oc_otherRailSyncing := on\<rparr>"
| "onchain_step shown (RailsLockPhase p) s = rails_locked p s"
| "onchain_step shown StoreLocked s = on_store lockWallet s"
| "onchain_step shown (WalletSwitched w) s = prepareActiveWalletSwitch w s"
| "onchain_step shown (NewWalletActivated w address) s = activateNewWallet w address s"
| "onchain_step shown (WalletDeleted nextActive) s = finalizeWalletDeletion nextActive s"
| "onchain_step shown (OnlyWalletChosen w) s = only_wallet_chosen w s"

definition run_onchain :: "(string \<Rightarrow> string) \<Rightarrow> onchainRailDescriptorScope \<Rightarrow> 'd onchainEvent list \<Rightarrow> 'd onchainWorld" where
  "run_onchain shown preferred es = fold (onchain_step shown) es (initial_onchain preferred)"

section \<open>What holds under every schedule\<close>

text \<open>What the store shows was written for the active wallet.\<close>

definition store_ok :: "'d walletStore \<Rightarrow> bool" where
  "store_ok st \<longleftrightarrow>
     (\<forall>w a. ws_currentAddress st = Some (w, a) \<longrightarrow> ws_activeWalletId st = Some w) \<and>
     (\<forall>w d. ws_bdk st = Some (w, d) \<longrightarrow> ws_activeWalletId st = Some w) \<and>
     (\<forall>w scope. ws_loadedDescriptor st = Some (w, scope) \<longrightarrow> ws_activeWalletId st = Some w \<and> od_walletId scope = w)"

text \<open>Syncing is shown only for a wallet of which a sync waits for Esplora.\<close>

definition syncs_esplora :: "onchainSyncBody \<Rightarrow> bool" where
  "syncs_esplora b \<longleftrightarrow> (case so_wait b of EsploraWaits \<Rightarrow> True | EsploraReturns _ \<Rightarrow> True | _ \<Rightarrow> False)"

definition syncing_ok :: "onchainSyncSnapshot \<Rightarrow> onchainSyncBody flightTracker \<Rightarrow> bool" where
  "syncing_ok snap tr \<longleftrightarrow>
     (oy_syncPhase snap = Syncing \<longrightarrow>
        (\<exists>scope. oy_descriptorScope snap = Some scope \<and>
           some_runs (\<lambda>b. sync_wallet b = od_walletId scope \<and> syncs_esplora b) tr))"

definition onchain_inv :: "'d onchainWorld \<Rightarrow> bool" where
  "onchain_inv s \<longleftrightarrow> store_ok (oc_store s) \<and> syncing_ok (oc_sync s) (oc_syncs s)"

lemma inv_fields [simp]:
  "onchain_inv (s\<lparr>oc_load := x1\<rparr>) = onchain_inv s" "onchain_inv (s\<lparr>oc_hydration := x2\<rparr>) = onchain_inv s"
  "onchain_inv (s\<lparr>oc_loads := x3\<rparr>) = onchain_inv s" "onchain_inv (s\<lparr>oc_lastLoadParams := x4\<rparr>) = onchain_inv s"
  "onchain_inv (s\<lparr>oc_waitingLoads := x5\<rparr>) = onchain_inv s" "onchain_inv (s\<lparr>oc_waitingSyncs := x6\<rparr>) = onchain_inv s"
  "onchain_inv (s\<lparr>oc_saves := x7\<rparr>) = onchain_inv s" "onchain_inv (s\<lparr>oc_otherRailSyncing := x8\<rparr>) = onchain_inv s"
  "onchain_inv (s\<lparr>oc_syncErrors := x9\<rparr>) = onchain_inv s" "onchain_inv (oc_outcome c r s) = onchain_inv s"
  "onchain_inv (load_waits n b wait s) = onchain_inv s" "onchain_inv (end_onchain_load n e s) = onchain_inv s"
  by (simp_all add: onchain_inv_def oc_outcome_def load_waits_def end_onchain_load_def)

lemma inv_store: "onchain_inv s \<Longrightarrow> store_ok (f (oc_store s)) \<Longrightarrow> onchain_inv (on_store f s)"
  by (simp add: onchain_inv_def on_store_def)

lemma inv_storeD: "onchain_inv s \<Longrightarrow> store_ok (oc_store s)"
  by (simp add: onchain_inv_def)

lemma inv_quiet_sync: "onchain_inv s \<Longrightarrow> oy_syncPhase snap \<noteq> Syncing \<Longrightarrow> onchain_inv (s\<lparr>oc_sync := snap\<rparr>)"
  by (simp add: onchain_inv_def syncing_ok_def)

lemma idle_quiet [simp]: "oy_syncPhase idle_sync_snapshot \<noteq> Syncing"
  by (simp add: idle_sync_snapshot_def)

lemma store_ok_locked [simp]:
  "store_ok (lockWallet st)" "store_ok ((lockWallet st)\<lparr>ws_activeWalletId := w\<rparr>)"
  "store_ok ((lockWallet st)\<lparr>ws_walletStatus := x, ws_activeWalletId := w\<rparr>)"
  by (simp_all add: store_ok_def lockWallet_def)

lemma store_ok_bdk: "store_ok st \<Longrightarrow> targets_active w st \<Longrightarrow> store_ok (st\<lparr>ws_bdk := Some (w, d)\<rparr>)"
  by (simp add: store_ok_def targets_active_def)

lemma store_ok_refresh: "store_ok st \<Longrightarrow> store_ok (refreshWalletStoreFromLoadedBdk w d st)"
  by (auto simp: refreshWalletStoreFromLoadedBdk_def store_ok_def)

lemma store_ok_sync_time: "store_ok (st\<lparr>ws_lastSyncTime := t\<rparr>) = store_ok st"
  by (simp add: store_ok_def)

subsection \<open>Loads\<close>

lemma start_load_inv: "onchain_inv s \<Longrightarrow> onchain_inv (oc_start_load c p s)"
  by (simp add: oc_start_load_def onchain_inv_def oc_outcome_def split: option.split)

lemma load_call_inv: "onchain_inv s \<Longrightarrow> onchain_inv (orchestrateOnchainLoad c p s)"
  by (simp add: orchestrateOnchainLoad_def Let_def start_load_inv split: option.split)

lemma load_retry_inv: "onchain_inv s \<Longrightarrow> onchain_inv (orchestrateOnchainRetryLoad c s)"
  by (simp add: orchestrateOnchainRetryLoad_def load_call_inv split: option.split)

lemma load_resumes_inv: "onchain_inv s \<Longrightarrow> onchain_inv (oc_load_resumes c s)"
  by (simp add: oc_load_resumes_def start_load_inv split: option.split prod.split)

lemma load_answered_inv:
  assumes "onchain_inv s" and "\<And>x. wallet_active (load_wallet b) s \<Longrightarrow> onchain_inv (snd (go_on x s))"
  shows "onchain_inv (load_answered n b answer go_on s)"
  using assms by (simp add: load_answered_def case_prod_beta split: sum.split)

lemma descriptor_resolved_inv: "onchain_inv s \<Longrightarrow> onchain_inv (snd (descriptor_resolved b x s))"
  by (auto simp: descriptor_resolved_def store_ok_def intro!: inv_store dest: inv_storeD)

lemma wallet_loaded_inv: "onchain_inv s \<Longrightarrow> onchain_inv (snd (wallet_loaded x y s))"
  by (simp add: wallet_loaded_def)

lemma address_read_inv:
  "onchain_inv s \<Longrightarrow> wallet_active (load_wallet b) s \<Longrightarrow> onchain_inv (snd (address_read b address s))"
  by (auto simp: address_read_def Let_def store_ok_def commitLoadedDescriptorWallet_def wallet_active_def targets_active_def
      load_wallet_def intro!: inv_store dest: inv_storeD)

lemma load_refreshed_inv: "onchain_inv s \<Longrightarrow> onchain_inv (load_refreshed n b answer s)"
  unfolding load_refreshed_def
  by (rule load_answered_inv) (auto intro!: inv_store store_ok_refresh dest: inv_storeD split: sum.split)

lemma configure_inv: "onchain_inv s \<Longrightarrow> onchain_inv (configureOnchainSyncForLoadedRail shown scope s)"
  by (simp add: configureOnchainSyncForLoadedRail_def inv_quiet_sync)

lemma load_returns_inv: "onchain_inv s \<Longrightarrow> onchain_inv (load_returns shown n b result s)"
  by (simp add: load_returns_def Let_def abandonOnchainLoadIfActiveWalletChanged_def configure_inv split: option.split)

lemma marked_inv: "onchain_inv s \<Longrightarrow> onchain_inv (markOnchainRailLoadedAfterExternalHydration shown scope s)"
  by (simp add: markOnchainRailLoadedAfterExternalHydration_def Let_def configure_inv)

subsection \<open>Syncs\<close>

lemma end_sync_inv:
  assumes "onchain_inv s" and "running (oc_syncs s) n = Some b"
    and "\<not> syncs_esplora b \<or> map_option od_walletId (oy_descriptorScope (oc_sync s)) \<noteq> Some (sync_wallet b)"
  shows "onchain_inv (end_onchain_sync n e s)"
  using assms by (auto simp: onchain_inv_def syncing_ok_def end_onchain_sync_def intro!: some_runs_set[OF assms(2)])

lemma end_sync_quiet_inv:
  "onchain_inv s \<Longrightarrow> oy_syncPhase (oc_sync s) \<noteq> Syncing \<Longrightarrow> onchain_inv (end_onchain_sync n e s)"
  by (simp add: onchain_inv_def syncing_ok_def end_onchain_sync_def)

lemma cleared_end_inv:
  assumes "onchain_inv s" and "running (oc_syncs s) n = Some b"
  shows "onchain_inv (end_onchain_sync n e (clearOnchainSyncSnapshotIfItBelongsToWallet (sync_wallet b) s))"
  using assms end_sync_inv[OF assms]
  by (auto simp: clearOnchainSyncSnapshotIfItBelongsToWallet_def intro!: end_sync_quiet_inv inv_quiet_sync)

lemma sync_waits_quiet_inv:
  "onchain_inv s \<Longrightarrow> oy_syncPhase (oc_sync s) \<noteq> Syncing \<Longrightarrow> onchain_inv (oc_sync_waits n b wait s)"
  by (simp add: onchain_inv_def syncing_ok_def oc_sync_waits_def)

lemma sync_waits_esplora_inv:
  assumes "onchain_inv s" and "running (oc_syncs s) n = Some b" and "syncs_esplora b \<longrightarrow> syncs_esplora (b\<lparr>so_wait := wait\<rparr>)"
  shows "onchain_inv (oc_sync_waits n b wait s)"
proof -
  have "some_runs P (set_flight n (FlightRunning (b\<lparr>so_wait := wait\<rparr>)) (oc_syncs s))"
    if "some_runs P (oc_syncs s)" and "P b \<longrightarrow> P (b\<lparr>so_wait := wait\<rparr>)" for P
    using that some_runs_set[OF assms(2)] some_runs_moved[OF assms(2)] by blast
  then show ?thesis using assms
    by (auto simp: onchain_inv_def syncing_ok_def oc_sync_waits_def sync_wallet_def)
qed

lemma start_sync_inv:
  assumes "onchain_inv s"
  shows "onchain_inv (oc_start_sync c p s)"
proof (cases "coalesced_flight (oc_sync_key p) (oc_syncs s)")
  case None
  define b where "b = \<lparr>so_params = p, so_wait = LockWaits\<rparr>"
  define begun where "begun = s\<lparr>oc_syncs := begin_flight (oc_sync_key p) b (oc_syncs s)\<rparr>"
  have inv: "onchain_inv begun" using assms by (auto simp: begun_def onchain_inv_def syncing_ok_def some_runs_kept)
  have "running (oc_syncs begun) (length (ft_flights (oc_syncs s))) = Some b" by (simp add: begun_def running_begin[OF None])
  then have "onchain_inv (end_onchain_sync (length (ft_flights (oc_syncs s))) None begun)"
    by (rule end_sync_inv[OF inv]) (simp add: b_def syncs_esplora_def)
  with inv show ?thesis by (simp add: oc_start_sync_def None Let_def begun_def b_def)
qed (simp add: oc_start_sync_def assms)

lemma sync_call_inv: "onchain_inv s \<Longrightarrow> onchain_inv (orchestrateOnchainSyncThenSave c p s)"
  by (simp add: orchestrateOnchainSyncThenSave_def start_sync_inv split: option.split)

lemma sync_resumes_inv: "onchain_inv s \<Longrightarrow> onchain_inv (oc_sync_resumes c s)"
  by (simp add: oc_sync_resumes_def start_sync_inv split: option.split prod.split)

lemma sync_locked_inv:
  assumes "onchain_inv s" and run: "running (oc_syncs s) n = Some b" and "so_wait b = LockWaits"
  shows "onchain_inv (sync_locked shown n b s)"
proof -
  have "oc_syncs (configureOnchainSyncForLoadedRail shown scope s) = oc_syncs s"
    "oc_store (configureOnchainSyncForLoadedRail shown scope s) = oc_store s" for scope
    by (simp_all add: configureOnchainSyncForLoadedRail_def)
  then have "onchain_inv (oc_sync_waits n b EsploraWaits
      ((configureOnchainSyncForLoadedRail shown (oy_scope (so_params b)) s)
        \<lparr>oc_sync := \<lparr>oy_syncPhase = Syncing, oy_descriptorScope = Some (oy_scope (so_params b)), oy_errorMessage = None\<rparr>\<rparr>))"
    using assms(1) some_runs_moved[OF run]
    by (auto simp: onchain_inv_def syncing_ok_def oc_sync_waits_def sync_wallet_def syncs_esplora_def)
  moreover have "onchain_inv (end_onchain_sync n e s)" for e
    using assms by (intro end_sync_inv) (auto simp: syncs_esplora_def)
  ultimately show ?thesis using cleared_end_inv[OF assms(1) run]
    by (simp add: sync_locked_def Let_def split: option.split)
qed

lemma esplora_synced_inv:
  assumes "onchain_inv s" and "running (oc_syncs s) n = Some b"
  shows "onchain_inv (esplora_synced n b answer s)"
proof -
  have "onchain_inv (on_store (\<lambda>st. if targets_active (sync_wallet b) st then st\<lparr>ws_bdk := Some (sync_wallet b, d)\<rparr> else st) s)" for d
    using assms(1) by (intro inv_store) (auto simp: store_ok_bdk inv_storeD)
  then show ?thesis using assms
    by (auto simp: esplora_synced_def syncs_esplora_def on_store_def intro!: sync_waits_esplora_inv split: sum.split)
qed

lemma sync_error_inv:
  assumes "onchain_inv s" and "running (oc_syncs s) n = Some b"
  shows "onchain_inv (sync_error shown n b err s)"
  using assms cleared_end_inv[OF assms]
  by (auto simp: sync_error_def intro!: sync_waits_quiet_inv inv_quiet_sync)

lemma esplora_returns_inv:
  assumes "onchain_inv s" and "running (oc_syncs s) n = Some b"
  shows "onchain_inv (esplora_returns shown n b result now s)"
proof -
  have "onchain_inv (on_store (\<lambda>st. st\<lparr>ws_lastSyncTime := t\<rparr>) (s\<lparr>oc_sync := snap, oc_saves := x\<rparr>))"
    if "oy_syncPhase snap \<noteq> Syncing" for t snap x
    using assms(1) that by (intro inv_store) (simp_all add: inv_quiet_sync inv_storeD store_ok_sync_time)
  then show ?thesis using assms sync_error_inv[OF assms] cleared_end_inv[OF assms]
    by (auto simp: esplora_returns_def Let_def on_store_def intro!: sync_waits_quiet_inv inv_quiet_sync split: option.split)
qed

lemma sync_saved_inv:
  assumes "onchain_inv s" and "running (oc_syncs s) n = Some b" and "so_wait b = SaveWaits k"
  shows "onchain_inv (sync_saved shown n b k s)"
  using assms sync_error_inv[OF assms(1,2)]
  by (auto simp: sync_saved_def syncs_esplora_def intro!: end_sync_inv split: workStage.split option.split)

lemma error_refreshed_inv:
  assumes "onchain_inv s" and "running (oc_syncs s) n = Some b" and "so_wait b = ErrorRefreshWaits err"
  shows "onchain_inv (error_refreshed n b err answer s)"
  unfolding error_refreshed_def using assms
  by (intro end_sync_inv[where b = b]) (auto simp: syncs_esplora_def on_store_def onchain_inv_def store_ok_refresh split: sum.split)

subsection \<open>Schedules\<close>

lemma on_load_inv:
  assumes "onchain_inv s" and "\<And>b g. running (oc_loads s) n = Some b \<Longrightarrow> f b = Some g \<Longrightarrow> onchain_inv (g s)"
  shows "onchain_inv (on_load n f s)"
  using assms by (auto simp: on_load_def on_running_def split: option.split)

lemma on_sync_inv:
  assumes "onchain_inv s" and "\<And>b g. running (oc_syncs s) n = Some b \<Longrightarrow> f b = Some g \<Longrightarrow> onchain_inv (g s)"
  shows "onchain_inv (on_sync n f s)"
  using assms by (auto simp: on_sync_def on_running_def split: option.split)

lemma load_events_inv:
  assumes "onchain_inv s"
  shows "onchain_inv (onchain_step shown (WorkerHealthy n a1) s)" and "onchain_inv (onchain_step shown (DescriptorResolved n a2) s)"
    and "onchain_inv (onchain_step shown (WalletLoaded n a3 a4) s)" and "onchain_inv (onchain_step shown (AddressRead n a5) s)"
    and "onchain_inv (onchain_step shown (BdkRead n a6) s)" and "onchain_inv (onchain_step shown (TimerImported n a7) s)"
    and "onchain_inv (onchain_step shown (OnchainLoadReturns n) s)"
proof -
  have go_on: "onchain_inv (load_answered n b answer f s)"
    if "\<And>x. wallet_active (load_wallet b) s \<Longrightarrow> onchain_inv (snd (f x s))" for b answer f
    by (rule load_answered_inv[OF assms]) (rule that)
  show "onchain_inv (onchain_step shown (WorkerHealthy n a1) s)"
    unfolding onchain_step.simps
    by (rule on_load_inv[OF assms]) (auto simp: assms intro!: go_on split: onchainLoadWait.splits)
  show "onchain_inv (onchain_step shown (DescriptorResolved n a2) s)"
    unfolding onchain_step.simps
    by (rule on_load_inv[OF assms]) (auto intro!: go_on descriptor_resolved_inv[OF assms] split: onchainLoadWait.splits)
  show "onchain_inv (onchain_step shown (WalletLoaded n a3 a4) s)"
    unfolding onchain_step.simps
    by (rule on_load_inv[OF assms])
      (auto simp: case_prod_beta intro!: go_on wallet_loaded_inv[OF assms] split: onchainLoadWait.splits)
  show "onchain_inv (onchain_step shown (AddressRead n a5) s)"
    unfolding onchain_step.simps
    by (rule on_load_inv[OF assms]) (auto intro!: go_on address_read_inv[OF assms] split: onchainLoadWait.splits)
  show "onchain_inv (onchain_step shown (BdkRead n a6) s)"
    unfolding onchain_step.simps
    by (rule on_load_inv[OF assms]) (auto intro!: load_refreshed_inv[OF assms] split: onchainLoadWait.splits)
  show "onchain_inv (onchain_step shown (TimerImported n a7) s)"
    unfolding onchain_step.simps
    by (rule on_load_inv[OF assms]) (auto simp: assms split: onchainLoadWait.splits)
  show "onchain_inv (onchain_step shown (OnchainLoadReturns n) s)"
    unfolding onchain_step.simps
    by (rule on_load_inv[OF assms]) (auto intro!: load_returns_inv[OF assms] split: onchainLoadWait.splits)
qed

lemma sync_events_inv:
  assumes "onchain_inv s"
  shows "onchain_inv (onchain_step shown (WriterLockGranted n) s)" and "onchain_inv (onchain_step shown (EsploraSynced n a1) s)"
    and "onchain_inv (onchain_step shown (EsploraReturned n now) s)" and "onchain_inv (onchain_step shown (SaveSettled n) s)"
    and "onchain_inv (onchain_step shown (ErrorRefreshed n a2) s)"
  unfolding onchain_step.simps
  subgoal by (rule on_sync_inv[OF assms]) (auto intro!: sync_locked_inv[OF assms] split: onchainSyncWait.splits)
  subgoal by (rule on_sync_inv[OF assms]) (auto intro!: esplora_synced_inv[OF assms] split: onchainSyncWait.splits)
  subgoal by (rule on_sync_inv[OF assms]) (auto intro!: esplora_returns_inv[OF assms] split: onchainSyncWait.splits)
  subgoal by (rule on_sync_inv[OF assms]) (auto intro!: sync_saved_inv[OF assms] split: onchainSyncWait.splits)
  subgoal by (rule on_sync_inv[OF assms]) (auto intro!: error_refreshed_inv[OF assms] split: onchainSyncWait.splits)
  done

lemma released_inv: "onchain_inv s \<Longrightarrow> onchain_inv (releasePreviousWalletDashboardSession w s)"
  by (auto simp: releasePreviousWalletDashboardSession_def detachOnchainSyncSnapshotIfDifferentWallet_def
      detachOnchainLoadSnapshotIfDifferentWallet_def inv_quiet_sync split: option.split)

lemma rails_locked_inv: "onchain_inv s \<Longrightarrow> onchain_inv (rails_locked p s)"
  by (simp add: rails_locked_def Let_def syncOnchainSyncLifecycleWithLockPhase_def syncOnchainLoadLifecycleWithLockPhase_def
      inv_quiet_sync)

lemma switched_inv: "onchain_inv s \<Longrightarrow> onchain_inv (prepareActiveWalletSwitch w s)"
  by (simp add: prepareActiveWalletSwitch_def inv_store rails_locked_inv released_inv)

lemma store_ok_activated:
  "ws_bdk st = None \<Longrightarrow>
   store_ok ((commitLoadedDescriptorWallet ((ws_preferred st)\<lparr>od_walletId := w\<rparr>)
     (st\<lparr>ws_activeWalletId := Some w, ws_currentAddress := Some (w, a)\<rparr>))\<lparr>ws_walletStatus := x\<rparr>)"
  by (simp add: store_ok_def commitLoadedDescriptorWallet_def)

lemma released_store [simp]: "oc_store (releasePreviousWalletDashboardSession w s) = oc_store s"
  by (simp add: releasePreviousWalletDashboardSession_def detachOnchainSyncSnapshotIfDifferentWallet_def
      detachOnchainLoadSnapshotIfDifferentWallet_def split: option.split)

lemma activated_inv: "onchain_inv s \<Longrightarrow> onchain_inv (activateNewWallet w a s)"
proof -
  assume inv: "onchain_inv s"
  define cleared where "cleared = on_store (\<lambda>st. st\<lparr>ws_bdk := None, ws_lastSyncTime := None, ws_currentAddress := None\<rparr>) s"
  have "onchain_inv cleared"
    unfolding cleared_def using inv by (intro inv_store) (auto simp: store_ok_def dest!: inv_storeD)
  moreover have "ws_bdk (oc_store cleared) = None" by (simp add: cleared_def on_store_def)
  ultimately show ?thesis unfolding activateNewWallet_def cleared_def[symmetric]
    by (intro inv_store) (simp_all add: released_inv store_ok_activated)
qed

lemma deleted_inv: "onchain_inv s \<Longrightarrow> onchain_inv (finalizeWalletDeletion x s)"
  unfolding finalizeWalletDeletion_def by (rule inv_store) (simp_all split: option.split)

lemma chosen_inv: "onchain_inv s \<Longrightarrow> onchain_inv (only_wallet_chosen w s)"
  unfolding only_wallet_chosen_def by (rule inv_store) (auto simp: store_ok_def dest!: inv_storeD)

lemma settled_inv: "onchain_inv s \<Longrightarrow> onchain_inv (s\<lparr>oc_syncs := settle_flight n (oc_syncs s)\<rparr>)"
  by (simp add: onchain_inv_def syncing_ok_def)

lemma onchain_step_inv: "onchain_inv s \<Longrightarrow> onchain_inv (onchain_step shown e s)"
  by (cases e)
    (simp_all only: load_events_inv sync_events_inv,
     simp_all add: load_call_inv load_retry_inv load_resumes_inv marked_inv sync_call_inv orchestrateOnchainPostUnlockSync_def
       Let_def sync_resumes_inv settled_inv rails_locked_inv inv_store switched_inv activated_inv deleted_inv chosen_inv)

interpretation onchain: event_invariant "onchain_step shown" "\<lambda>_. True" onchain_inv
  by unfold_locales (simp add: onchain_step_inv)

lemma run_onchain_inv: "onchain_inv (run_onchain shown preferred es)"
  unfolding run_onchain_def
  by (rule onchain.run_keeps)
    (simp_all add: initial_onchain_def onchain_inv_def store_ok_def syncing_ok_def idle_sync_snapshot_def list_all_iff)

section \<open>What is shown\<close>

definition sample_scope :: "int \<Rightarrow> onchainRailDescriptorScope" where
  "sample_scope w = \<lparr>od_walletId = w, od_networkMode = Testnet, od_addressType = ''taproot'', od_accountId = 0\<rparr>"

definition sample_onchain_load :: "int \<Rightarrow> onchainLoadParams" where
  "sample_onchain_load w = \<lparr>ol_scope = sample_scope w, ol_clearLastSyncTime = False, ol_allowRetryFromError = False\<rparr>"

definition sample_onchain_sync :: "int \<Rightarrow> onchainSyncParams" where
  "sample_onchain_sync w =
     \<lparr>oy_scope = sample_scope w, oy_syncKind = IncrementalDashboard, oy_useFullScan = False, oy_markFullScanDone = None,
      oy_awaitCompletion = None, oy_throwOnError = None\<rparr>"

text \<open>A load goes through all its waits.\<close>

definition load_runs :: "nat \<Rightarrow> string \<Rightarrow> 'd \<Rightarrow> 'd onchainEvent list" where
  "load_runs n address data =
     [WorkerHealthy n (Inr ()), DescriptorResolved n (Inr True), WalletLoaded n (Inr ()) (Inr ()), AddressRead n (Inr address),
      BdkRead n (Inr data), TimerImported n (Inr ()), OnchainLoadReturns n, OnchainLoadSettles n]"

text \<open>C11: The dashboard shows one wallet: under every schedule of loads, syncs, saves, locks, switches,
  new and deleted wallets, the address, the balance with the transactions and the descriptor in the
  store were written for the wallet that is active now, a load or a sync of a wallet the user has left
  never writes them, and syncing is shown only for a wallet of which a sync waits for Esplora.\<close>

theorem onchain_store_of_active_wallet:
  assumes "s = run_onchain shown preferred es"
  shows "(\<forall>w a. ws_currentAddress (oc_store s) = Some (w, a) \<longrightarrow> ws_activeWalletId (oc_store s) = Some w) \<and>
     (\<forall>w d. ws_bdk (oc_store s) = Some (w, d) \<longrightarrow> ws_activeWalletId (oc_store s) = Some w) \<and>
     (\<forall>w scope. ws_loadedDescriptor (oc_store s) = Some (w, scope) \<longrightarrow>
        ws_activeWalletId (oc_store s) = Some w \<and> od_walletId scope = w) \<and>
     (oy_syncPhase (oc_sync s) = Syncing \<longrightarrow>
        (\<exists>scope n b. oy_descriptorScope (oc_sync s) = Some scope \<and> running (oc_syncs s) n = Some b \<and>
           sync_wallet b = od_walletId scope \<and> syncs_esplora b))"
  using run_onchain_inv[of shown preferred es]
  unfolding assms[symmetric] onchain_inv_def store_ok_def syncing_ok_def some_runs_def by blast

definition sample_dashboard :: "nat onchainEvent list" where
  "sample_dashboard =
     [OnlyWalletChosen 1, OnchainLoadCalled 0 (sample_onchain_load 1)] @ load_runs 0 ''tb1'' 700 @
     [OnchainSyncCalled 1 (sample_onchain_sync 1), WriterLockGranted 0]"

lemma sample_dashboard_shown:
  "ws_bdk (oc_store (run_onchain id (sample_scope 0) sample_dashboard)) = Some (1, 700)"
  "oy_syncPhase (oc_sync (run_onchain id (sample_scope 0) sample_dashboard)) = Syncing"
  by code_simp+

theorem onchain_store_of_active_wallet_witness:
  "ws_activeWalletId (oc_store (run_onchain id (sample_scope 0) sample_dashboard)) = Some 1 \<and>
   (\<exists>scope n b. oy_descriptorScope (oc_sync (run_onchain id (sample_scope 0) sample_dashboard)) = Some scope \<and>
      running (oc_syncs (run_onchain id (sample_scope 0) sample_dashboard)) n = Some b \<and> sync_wallet b = od_walletId scope \<and>
      syncs_esplora b)"
  using onchain_store_of_active_wallet[OF refl, of id "sample_scope 0" sample_dashboard] sample_dashboard_shown by blast

text \<open>While the first wallet is loading the user goes to another one and back: the load of the other wallet
  waits, the second call for the first wallet joins the load that runs.\<close>

definition back_and_forth :: "nat onchainEvent list" where
  "back_and_forth =
     [OnlyWalletChosen 1, OnchainLoadCalled 0 (sample_onchain_load 1),
      WalletSwitched 2, OnchainLoadCalled 1 (sample_onchain_load 2),
      WalletSwitched 1, OnchainLoadCalled 2 (sample_onchain_load 1)] @ load_runs 0 ''tb1'' 700 @
     [OnchainLoadResumes 1, WorkerHealthy 1 (Inr ()), OnchainLoadReturns 1, OnchainLoadSettles 1]"


end
