(* ===== verification/Spec2Isabelle.thy ===== *)
theory Spec2Isabelle
  imports Lab_Operations Task_Queues Send_Form Exit_Topology Lock_Lifecycle
    Worker_Payload Data_Migrations Bark_Automation Onchain_Lifecycle
begin

text \<open>
  \<^bold>\<open>Verification of the Bitboard wallet: the in-app regtest lab and the wallet logic around it\<close>

  Bitboard is a Bitcoin wallet that runs in the browser. Its TypeScript code
  (\<open>src/frontend/src\<close>) drives Rust crates compiled to WebAssembly for keys, descriptors and
  signing. The part with most logic of its own is the \<^emph>\<open>lab\<close>: a Bitcoin chain
  simulated inside the application, with blocks, a mempool, unspent outputs, named entities
  with wallets of their own, and a database. This development models the lab from the data
  types of its worker up to the operations the user interface calls, the amounts and the send form
  of the wallet, the unilateral exit from an Arkade account, the emergency exit of the Bark rail, the
  orchestrators that load, sync, save, lock and unlock the wallet, and the encrypted secrets of the wallets with the accounts they hold.

  \<^bold>\<open>How the parts interact.\<close> A user action calls an operation of
  \<open>lib/lab/lab-worker-operations.ts\<close>. The operation is queued
  (\<open>lib/lab/lab-coordinator.ts\<close>), takes the writer lock (\<open>lib/shared/opfs-writer-lock.ts\<close>),
  loads the database into the worker (\<open>workers/lab-factory.ts\<close>), calls the worker's service
  (\<open>workers/lab.worker.ts\<close>), and writes the resulting state back in one transaction. Inside the
  service, mining (\<open>workers/lab-mine-blocks.ts\<close>) selects transactions
  (\<open>workers/lab-mining-template.ts\<close>), has the WebAssembly module build the block, and applies
  it to the ledger (\<open>workers/lab-block-effects.ts\<close>). Beside the lab, the send page turns the text
  the user enters into satoshis (\<open>lib/wallet/bitcoin-display-unit.ts\<close>), decides whether a payment
  can be built (\<open>lib/wallet/send/\<close>) and which fee rate it uses (\<open>lib/esplora/\<close>). The unilateral exit
  is an XState machine (\<open>lib/wallet/lifecycle/unilateral-exit/\<close>) that locks the coins of a job,
  broadcasts one transaction of their branch after the other, by request or by a policy, waits for
  confirmations, and persists the job and its failure. The emergency exit of Bark (\<open>lib/bark/\<close>) asks the Bark
  library which exit transactions need a child that pays their fee, signs these from the on-chain
  wallet, and claims what has passed its timelock; a loop over the chain tip does this
  automatically while the wallet stays open. Each rail of the wallet (on-chain, Arkade,
  Lightning) has an orchestrator that saves its state, and one orchestrator locks and unlocks the
  wallet (\<open>lib/wallet/lifecycle/\<close>); a lock waits for the saves. Other orchestrators load and sync a
  rail; the user can switch the wallet while they wait, so they check before they publish: the on-chain
  rail compares the wallet with the active one, Bark a generation of its session. What a rail keeps of an account is part of
  the payload of the wallet (\<open>lib/wallet/wallet-domain-types.ts\<close>): a change is a function on payloads
  (\<open>lib/bark/bark-rail-metadata.ts\<close>, \<open>lib/arkade/arkade-payload-merge.ts\<close>, \<open>db/data-migrations\<close>), and
  \<open>db/wallet-persistence.ts\<close> reads, decrypts, changes, encrypts and writes the row of the wallet if its
  revision has not changed, and otherwise starts over.

  \<^bold>\<open>Theories.\<close>

  \<^item> \<open>Prelude\<close>: strings, decimal digits, stable sorting, JavaScript objects used as dictionaries
    (locale \<open>dictionary\<close>), and operations that may throw. An operation has type
    \<open>'s \<Rightarrow> (string + 'a) \<times> 's\<close>: a thrown error is \<open>Inl\<close> and keeps the changes made before it.
  \<^item> \<open>Js_Number\<close>: rounding to IEEE-754 binary64 and \<open>parseInt\<close>.
  \<^item> \<open>Lab_Api\<close>, \<open>Lab_Owner\<close>, \<open>Lab_Address\<close>, \<open>Lab_Chain\<close>: the data model
    (\<open>workers/lab-api.ts\<close>), owners and their encodings (locale \<open>codec\<close>), address equality and
    lookup (locale \<open>keyed_equiv\<close>), coinbase recognition, fees, sizes, wallet history, coin control.
  \<^item> \<open>Lab_Header\<close>: \<open>workers/lab-block-header.ts\<close>, the 80-byte header and compact targets.
  \<^item> \<open>Lab_Selection\<close>, \<open>Lab_Template\<close>: \<open>workers/lab-mining-template.ts\<close>.
  \<^item> \<open>Lab_Effects\<close>: the worker's state and the application of a block
    (\<open>workers/lab-block-effects*.ts\<close>, \<open>workers/lab-apply-block-transactions.ts\<close>), with the locale
    \<open>row_invariant\<close> for properties of the bookkeeping rows.
  \<^item> \<open>Lab_Mining\<close>: \<open>workers/lab-mine-blocks.ts\<close> and \<open>workers/lab-entity-creation.ts\<close>.
  \<^item> \<open>Lab_Service\<close>: every operation of \<open>workers/lab.worker.ts\<close> with its helpers.
  \<^item> \<open>Lab_Invariant\<close>: the step relation of the service, reachable worker states and their
    invariant. \<open>Lab_Ops\<close>: what the single operations promise.
  \<^item> \<open>Lab_Store\<close>: the database rows, loading and saving (\<open>workers/lab-factory.ts\<close>,
    \<open>db/lab-schema.ts\<close>, parts of \<open>lib/wallet/wallet-domain-types.ts\<close>).
  \<^item> \<open>Lab_Operations\<close>: \<open>lib/lab/lab-worker-operations.ts\<close>; the state is the database together
    with the memory of the worker, and the locale \<open>db_transaction\<close> is the contract of an
    operation that either commits a storable state or changes nothing in the database.
  \<^item> \<open>Task_Queues\<close>: the operation queue and the writer lock as step relations over the points at
    which other code can run (locale \<open>promise_chain\<close>).
  \<^item> \<open>Js_Float\<close>, \<open>Amounts\<close>, \<open>Send_Form\<close>: decimal text and binary64 numbers, the display units, the
    parsing and formatting of amounts, the eligibility of a payment, fee presets and estimates.
  \<^item> \<open>Exit_Machine\<close>: the unilateral exit, its stores and its child machines, one function per state
    of the machine. \<open>Exit_Safety\<close>: runs of the machine over arbitrary sequences of events (locale
    \<open>run_invariant\<close>, interpreted for all runs and for the runs without automation).
  \<^item> \<open>Exit_View\<close>: what the control page derives from a snapshot of the machine
    (\<open>unilateral-exit-selectors.ts\<close>, \<open>unilateral-exit-settle.ts\<close>, \<open>vtxo-exit-selectors.ts\<close>).
    \<open>Exit_Topology\<close>: the graph of the transactions of a job, the search for the path of a selection and
    the badges (\<open>lib/arkade/unilateral-exit-topology.ts\<close> and its neighbours).
  \<^item> \<open>Work_List\<close>: the graph searches of the code as loops over a list of pending nodes (locale
    \<open>work_list\<close>, interpreted for three searches). \<open>Bark_Exit\<close>: the data of an emergency exit, the path and the
    phase of a VTXO, the drawn tree, notices and the funding status. \<open>Bark_Progress\<close>: one run of the progress, a claim, the
    capped fee. \<open>Bark_Automation\<close>: the loop over the chain tip, one automatic step, and the runs of
    the loop as a function on events (an interpretation of \<open>event_invariant\<close>).
  \<^item> \<open>Save_Lifecycle\<close>, \<open>Lock_Lifecycle\<close>: the save orchestrators of the rails and the lock orchestrator of
    \<open>lib/wallet/lifecycle/\<close> as functions on events, with the locales \<open>guarded_invariant\<close> and
    \<open>event_invariant\<close> for the invariants of their schedules.
  \<^item> \<open>Flight_Tracker\<close>: the tracker of work in flight for bodies that wait several times, and which bodies
    run. \<open>Bark_Session\<close>: opening, syncing and closing the Bark session. \<open>Onchain_Lifecycle\<close>: loading and syncing
    the on-chain wallet with the store of the wallet and the switches between wallets. Both are functions on
    events and interpret \<open>event_invariant\<close> and \<open>guarded_invariant\<close>.
  \<^item> \<open>Wallet_Secrets\<close>: JSON values, the checks and repairs of the rows of a payload and its parsers
    (\<open>lib/wallet/wallet-domain-types.ts\<close>). \<open>Payload_Updates\<close>: the changes of a Bark account with the
    settings they mean as their specification. \<open>Arkade_Payload\<close>: the Arkade accounts and the SDK state.
  \<^item> \<open>Secrets_Store\<close>: the tables of secrets and markers, the operations of \<open>db/wallet-persistence.ts\<close>, and
    interleaved updates as a function on events (an interpretation of \<open>guarded_invariant\<close>).
    \<open>Secrets_Password\<close>: re-encryption. \<open>Data_Migrations\<close>: the device step and the wallet step of the split
    of Signet and Mutinynet. \<open>Worker_Payload\<close>: how the workers of the rails change the payload of a wallet through the
    host in the main thread, which gives up when the worker is gone or late (\<open>encrypted-wallet-secrets-host.ts\<close>,
    \<open>workers/*-worker-*.ts\<close>).

  \<^bold>\<open>What is shown.\<close>

  \<^item> Block construction: a selected block is within its weight, spends no output twice, contains
    parents before children, equals what a single pass in order of fee rate would take, and
    leaves out nothing that would still fit.
  \<^item> Ledger: applying a block removes exactly the spent outputs, adds exactly the created ones,
    keeps the bookkeeping consistent, and resolves spends inside the block.
  \<^item> Mining: a run extends the chain by the requested number of linked blocks, the mempool
    afterwards holds exactly what was neither included nor in conflict, illegal counts are
    refused, and the template announces what mining will do.
  \<^item> Service: every reachable worker state satisfies the invariant; payments are balanced;
    entities are created, renamed and deleted cleanly.
  \<^item> Persistence: loading what was saved gives the state back; an operation is atomic and
    durable, and what it does depends on the database and not on the memory of the worker.
  \<^item> Scheduling: operations run one at a time in the order of submission and all of them
    finish; at most one turn of all tabs holds the writer lock.
  \<^item> Amounts: which texts give their amount back and which lose a satoshi, the range of a parsed
    amount, that a payment offered for building is within the balance, and that a fee estimate is
    the one of the nearest usable confirmation target.
  \<^item> Unilateral exit: no sequence of events makes the machine throw or leaves it in an improper
    state, each broadcast uses a fee rate that was entered or approved, without automation there
    are at most as many broadcasts as requests, a complete job is released, an aborted one is
    recorded, and the two sequences of events that start a step nobody requests.
    What the control page offers is accepted by the machine; the search for the path of a selection
    ends, and the drawn graph marks exactly the ancestors of the selected coins.
  \<^item> Emergency exit of Bark: for every behaviour of the workers a run of the progress accounts for all requests and
    leaves no accepted child behind, and a claim that was broadcast is remembered; the phase of a
    VTXO is that of a transaction next in line; automatic steps are only run while the session allows
    them, at most once for a block and in every turn until one succeeds, and at most one loop runs.
    Two schedules show that a second claim makes the wallet forget the first, and that a stopped loop
    pauses the automation of another wallet.
  \<^item> Saving and locking: with one key, saves exclude each other and a failed one blocks the lock until
    it is repeated; the snapshot of the lock orchestrator names an operation only while it runs; work
    is serial when calls do not wait at the same time. Schedules are given in which a change is lost,
    a running save is overlooked, and a lock and an unlock overlap.
  \<^item> Loading and syncing: loading and syncing are shown only while such work of the session runs; the balance
    of the Bark rail belongs to the session that is open, unless a session begins while a failed sync
    reads a notice, and the schedule in which an old balance comes back; what the store shows of the on-chain wallet
    was written for the active wallet, and the schedule in which a rail stays loading for ever.
  \<^item> Secrets: a payload that was read is read back unchanged, and reading drops no valid account; the list of
    issues is empty exactly for a valid payload. Changes of a Bark account refine the change of its
    settings; notices merge to a canonical list; a session opens on an account of its signer, and the
    receive cursor never goes back.
  \<^item> Store: no interleaving of updates loses one; the changes of both rails, from whatever worker or tab, have the
    effect of the committed ones run in sequence over the settings; a migration is applied to a wallet exactly once, a change
    of the password is all or nothing and keeps the secrets, and the schedule in which a deleted wallet
    keeps its secrets.

  \<^bold>\<open>Conventions and bounds.\<close> Amounts, heights and identifiers are \<open>int\<close>; where a computation is
  rounded or leaves the safe range the rounding is written out (\<open>Js_Number\<close>). Strings are lists
  of 8-bit characters. Loops are structural recursions or have a termination proof; no definition
  uses fuel. What is not part of the sources is a parameter with named hypotheses where
  a property needs one: the WebAssembly functions (record \<open>labWasm\<close>), the signer, SHA-256, clocks,
  random rolls, \<open>JSON\<close>, \<open>Date.parse\<close> and \<open>new URL\<close>, the encryption worker, the locale's string comparison, the order in which the database scans a table,
  the text of a constraint error, the text the user sees for an error, and the packages that lay out
  and draw the graph of an exit. Asynchronous code is a function on events, one for each stretch of
  code between two \<open>await\<close>s, and a property holds for every order of events. XState is read as
  documented: the first transition whose guard holds is taken, its actions run before the entry
  actions of the target, and an actor is stopped with the state that started it; the results of
  the actors and the delays are events that may come at any time.

  \<^bold>\<open>Not modelled.\<close> The Rust crates (another language) and the workers that forward to them, the
  Bark and Lightning clients of remote services beyond the accounts in the payload, the Bark session and the emergency exit, the load and sync orchestrators of Arkade and Lightning, the descriptor switch, the Arkade client beyond
  these accounts and the unilateral exit, and of the exit the worker calls of its actors and the writes to the SDK's store, the React pages, components, hooks and
  routes, the generated route tree, the server-side proxies, database drivers and worker spawning,
  debug logging and toasts.
\<close>

end
